(* ===== verification/Prelude.thy ===== *)
theory Prelude
  imports Main "HOL-Library.Word" "HOL-Library.Monad_Syntax" "HOL-Library.State_Monad"
begin

text \<open>
  Shared vocabulary of the development: the Rust machine integers as words, the Rust
  standard-library operations on them that the sources use, the model of a panic, and the
  generic lemmas on words, lists and state-monad programs that the component theories share.

  A Rust function that may panic (an \<open>assert!\<close>, an out-of-range index, \<open>unwrap\<close> on
  \<open>None\<close>) returns an \<open>option\<close>: \<open>None\<close> is the panic. A Rust function that mutates
  \<open>&mut self\<close> and cannot panic is a program of the state monad.
\<close>

unbundle bit_operations_syntax

section \<open>Machine integers\<close>

type_synonym u8 = "8 word"
type_synonym u16 = "16 word"
type_synonym u32 = "32 word"
type_synonym u64 = "64 word"

text \<open>The lemma collections of the development.\<close>

named_theorems model_defs \<open>definitions of the small accessors and helpers\<close>
named_theorems wf_intros \<open>introduction rules that show an invariant kept\<close>

text \<open>Rust's \<open>u64::count_ones\<close> and \<open>u64::trailing_zeros\<close>.\<close>

definition count_ones :: "'a::len word \<Rightarrow> nat" where
  "count_ones w = length (filter (bit w) [0..<LENGTH('a)])"

definition trailing_zeros :: "'a::len word \<Rightarrow> nat" where
  "trailing_zeros w =
     (case find (bit w) [0..<LENGTH('a)] of Some n \<Rightarrow> n | None \<Rightarrow> LENGTH('a))"

text \<open>A Rust \<open>assert!\<close>: the program panics unless the condition holds.\<close>

definition assert_that :: "bool \<Rightarrow> unit option" where
  "assert_that b = (if b then Some () else None)"

text \<open>A Rust index expression \<open>xs[i]\<close> and the indexed assignment \<open>xs[i] = v\<close>.\<close>

definition index :: "'a list \<Rightarrow> nat \<Rightarrow> 'a option" where
  "index xs i = (if i < length xs then Some (xs ! i) else None)"

definition index_set :: "'a list \<Rightarrow> nat \<Rightarrow> 'a \<Rightarrow> 'a list option" where
  "index_set xs i v = (if i < length xs then Some (xs[i := v]) else None)"

lemma assert_that_Some [simp]: "assert_that b = Some u \<longleftrightarrow> b"
  by (simp add: assert_that_def)

lemma assert_that_bind [simp]: "(assert_that b \<bind> f) = (if b then f () else None)"
  by (simp add: assert_that_def)

lemma index_Some [simp]: "index xs i = Some x \<longleftrightarrow> i < length xs \<and> xs ! i = x"
  by (auto simp: index_def)

lemma index_None [simp]: "index xs i = None \<longleftrightarrow> length xs \<le> i"
  by (auto simp: index_def)

lemma index_set_Some [simp]:
  "index_set xs i v = Some ys \<longleftrightarrow> i < length xs \<and> ys = xs[i := v]"
  by (auto simp: index_set_def)

lemma index_set_None [simp]: "index_set xs i v = None \<longleftrightarrow> length xs \<le> i"
  by (auto simp: index_set_def)

lemma index_bind [simp]: "(index xs i \<bind> f) = (if i < length xs then f (xs ! i) else None)"
  by (simp add: index_def)

lemma index_set_bind [simp]:
  "(index_set xs i v \<bind> f) = (if i < length xs then f (xs[i := v]) else None)"
  by (simp add: index_set_def)

section \<open>Programs that may panic\<close>

text \<open>
  \<open>wp x Q\<close>: if the program \<open>x\<close> does not panic, its result satisfies \<open>Q\<close>. A loop over
  a list is \<open>each\<close>.
\<close>

definition wp :: "'a option \<Rightarrow> ('a \<Rightarrow> bool) \<Rightarrow> bool" where
  "wp x Q \<longleftrightarrow> (\<forall>y. x = Some y \<longrightarrow> Q y)"

primrec each :: "('a \<Rightarrow> 's \<Rightarrow> 's option) \<Rightarrow> 'a list \<Rightarrow> 's \<Rightarrow> 's option" where
  "each f [] s = Some s"
| "each f (x # xs) s = do { s \<leftarrow> f x s; each f xs s }"

lemma wp_simps [simp]:
  "wp None Q" "wp (Some y) Q \<longleftrightarrow> Q y" "wp (w \<bind> f) Q \<longleftrightarrow> wp w (\<lambda>y. wp (f y) Q)"
  "wp (if b then x else z) Q \<longleftrightarrow> (b \<longrightarrow> wp x Q) \<and> (\<not> b \<longrightarrow> wp z Q)"
  by (auto simp: wp_def bind_eq_Some_conv)

lemma wp_mono: "wp x Q \<Longrightarrow> (\<And>y. Q y \<Longrightarrow> R y) \<Longrightarrow> wp x R"
  by (simp add: wp_def)

lemma wpD: "wp x Q \<Longrightarrow> x = Some y \<Longrightarrow> Q y"
  by (simp add: wp_def)

lemma wpI: "(\<And>y. x = Some y \<Longrightarrow> Q y) \<Longrightarrow> wp x Q"
  by (simp add: wp_def)

lemma wp_any: "(\<And>y. Q y) \<Longrightarrow> wp x Q"
  by (simp add: wp_def)

lemma each_append: "each f (xs @ ys) s = do { s \<leftarrow> each f xs s; each f ys s }"
  by (induction xs arbitrary: s) simp_all

text \<open>An invariant of the body is one of the loop.\<close>

lemma wp_each:
  assumes "I s" "\<And>x s. x \<in> set xs \<Longrightarrow> I s \<Longrightarrow> wp (f x s) I"
  shows "wp (each f xs s) I"
  using assms
proof (induction xs arbitrary: s)
  case (Cons x xs)
  have "wp (f x s) I" using Cons.prems by simp
  then show ?case using Cons.IH Cons.prems(2) by (auto intro: wp_mono)
qed simp

section \<open>Generic lemmas on words\<close>

lemma unat_of_nat_u32 [simp]: "n < 2 ^ 32 \<Longrightarrow> unat (of_nat n :: u32) = n"
  by (simp add: unsigned_of_nat take_bit_nat_eq_self)

lemma unat_of_nat_u8 [simp]: "n < 2 ^ 8 \<Longrightarrow> unat (of_nat n :: u8) = n"
  by (simp add: unsigned_of_nat take_bit_nat_eq_self)

lemma unat_u32_lt: "unat (x :: u32) < 4294967296"
  using unsigned_less [of x] by simp

lemma not_bit_of_lt:
  assumes "unat (w :: 'a::len word) < 2 ^ n" "n \<le> k"
  shows "\<not> bit w k"
proof -
  have "unat w < 2 ^ k"
    using assms(1) by (rule order.strict_trans2) (use assms(2) in simp)
  then have "\<not> bit (unat w) k" by (simp add: bit_iff_odd)
  then show ?thesis by (simp add: bit_unsigned_iff)
qed

lemma find_Some_least:
  "find P [0..<n] = Some k \<longleftrightarrow> k < n \<and> P k \<and> (\<forall>j < k. \<not> P j)"
  by (auto simp: find_Some_iff)

lemma trailing_zeros_bit:
  fixes w :: "'a::len word"
  assumes "w \<noteq> 0"
  shows "bit w (trailing_zeros w)" and "\<forall>j < trailing_zeros w. \<not> bit w j"
    and "trailing_zeros w < LENGTH('a)"
proof -
  from assms obtain n where n: "n < LENGTH('a)" "bit w n"
    by (auto simp: bit_word_eqI bit_eq_iff dest: bit_imp_le_length)
  then have "find (bit w) [0..<LENGTH('a)] \<noteq> None"
    by (auto simp: find_None_iff)
  then obtain k where k: "find (bit w) [0..<LENGTH('a)] = Some k" by auto
  then have tz: "trailing_zeros w = k" by (simp add: trailing_zeros_def)
  from k show "bit w (trailing_zeros w)" "\<forall>j < trailing_zeros w. \<not> bit w j"
    "trailing_zeros w < LENGTH('a)"
    unfolding tz by (auto simp: find_Some_least)
qed

lemma count_ones_card:
  fixes w :: "'a::len word"
  shows "count_ones w = card {n. bit w n}"
proof -
  have "count_ones w = card (set (filter (bit w) [0..<LENGTH('a)]))"
    unfolding count_ones_def by (rule distinct_card [symmetric]) simp
  also have "set (filter (bit w) [0..<LENGTH('a)]) = {n. bit w n}"
    by (auto dest: bit_imp_le_length)
  finally show ?thesis .
qed

section \<open>Lists and state-monad programs\<close>

lemma nth_list_update_other: "i \<noteq> j \<Longrightarrow> xs[i := v] ! j = xs ! j"
  by simp

end
