(* ===== verification/Types.thy ===== *)
theory Types
  imports Prelude
begin

text \<open>
  The value types of the IR (\<open>core/src/types.rs\<close>): operand types, temp locations,
  comparison conditions, memory-operation descriptors and host register sets. The register
  sets are the interface the register allocator programs against; the locale
  \<open>reg_set\<close> states it as an implementation of finite sets of register numbers and is
  interpreted on the 64-bit bitmap of the source.
\<close>

section \<open>Type\<close>

datatype Type = I32 | I64 | I128 | V64 | V128 | V256

definition TYPE_COUNT :: nat where
  "TYPE_COUNT = 6"

fun type_as_usize :: "Type \<Rightarrow> nat" where
  "type_as_usize I32 = 0"
| "type_as_usize I64 = 1"
| "type_as_usize I128 = 2"
| "type_as_usize V64 = 3"
| "type_as_usize V128 = 4"
| "type_as_usize V256 = 5"

fun size_bits :: "Type \<Rightarrow> u32" where
  "size_bits I32 = 32"
| "size_bits I64 = 64"
| "size_bits I128 = 128"
| "size_bits V64 = 64"
| "size_bits V128 = 128"
| "size_bits V256 = 256"

definition size_bytes :: "Type \<Rightarrow> u32" where
  "size_bytes ty = size_bits ty div 8"

definition is_vector :: "Type \<Rightarrow> bool" where
  "is_vector ty = (ty \<in> {V64, V128, V256})"

definition is_integer :: "Type \<Rightarrow> bool" where
  "is_integer ty = (ty \<in> {I32, I64, I128})"

lemma size_bytes_simps [simp]:
  "size_bytes I32 = 4" "size_bytes I64 = 8" "size_bytes I128 = 16"
  "size_bytes V64 = 8" "size_bytes V128 = 16" "size_bytes V256 = 32"
  by (simp_all add: size_bytes_def)

lemma type_as_usize_bound [simp]: "type_as_usize ty < TYPE_COUNT"
  by (cases ty) (simp_all add: TYPE_COUNT_def)

lemma type_as_usize_inject [simp]: "type_as_usize a = type_as_usize b \<longleftrightarrow> a = b"
  by (cases a; cases b) simp_all

section \<open>TempVal\<close>

datatype TempVal = Dead | Reg | Mem | ConstVal

section \<open>Cond\<close>

datatype Cond = Never | Always | Eq | Ne | Lt | Ge | Le | Gt
  | Ltu | Geu | Leu | Gtu | TstEq | TstNe

fun cond_as_u32 :: "Cond \<Rightarrow> u32" where
  "cond_as_u32 Never = 0"
| "cond_as_u32 Always = 1"
| "cond_as_u32 Eq = 8"
| "cond_as_u32 Ne = 9"
| "cond_as_u32 Lt = 10"
| "cond_as_u32 Ge = 11"
| "cond_as_u32 Le = 12"
| "cond_as_u32 Gt = 13"
| "cond_as_u32 Ltu = 14"
| "cond_as_u32 Geu = 15"
| "cond_as_u32 Leu = 16"
| "cond_as_u32 Gtu = 17"
| "cond_as_u32 TstEq = 18"
| "cond_as_u32 TstNe = 19"

fun invert :: "Cond \<Rightarrow> Cond" where
  "invert Never = Always"
| "invert Always = Never"
| "invert Eq = Ne"
| "invert Ne = Eq"
| "invert Lt = Ge"
| "invert Ge = Lt"
| "invert Le = Gt"
| "invert Gt = Le"
| "invert Ltu = Geu"
| "invert Geu = Ltu"
| "invert Leu = Gtu"
| "invert Gtu = Leu"
| "invert TstEq = TstNe"
| "invert TstNe = TstEq"

fun swap :: "Cond \<Rightarrow> Cond" where
  "swap Lt = Gt"
| "swap Ge = Le"
| "swap Le = Ge"
| "swap Gt = Lt"
| "swap Ltu = Gtu"
| "swap Geu = Leu"
| "swap Leu = Geu"
| "swap Gtu = Ltu"
| "swap c = c"

definition cond_is_signed :: "Cond \<Rightarrow> bool" where
  "cond_is_signed c = (c \<in> {Lt, Ge, Le, Gt})"

definition cond_is_unsigned :: "Cond \<Rightarrow> bool" where
  "cond_is_unsigned c = (c \<in> {Ltu, Geu, Leu, Gtu})"

definition cond_is_tst :: "Cond \<Rightarrow> bool" where
  "cond_is_tst c = (c \<in> {TstEq, TstNe})"

text \<open>
  What a condition means on two words of the operation's width: the specification that the
  optimizer's \<open>eval_cond\<close>, \<open>invert\<close> and \<open>swap\<close> are measured against. Signed
  conditions compare the two's complement values, the test conditions the bitwise AND.
\<close>

fun cond_holds :: "Cond \<Rightarrow> 'a::len word \<Rightarrow> 'a word \<Rightarrow> bool" where
  "cond_holds Never a b = False"
| "cond_holds Always a b = True"
| "cond_holds Eq a b = (a = b)"
| "cond_holds Ne a b = (a \<noteq> b)"
| "cond_holds Lt a b = (sint a < sint b)"
| "cond_holds Ge a b = (sint a \<ge> sint b)"
| "cond_holds Le a b = (sint a \<le> sint b)"
| "cond_holds Gt a b = (sint a > sint b)"
| "cond_holds Ltu a b = (a < b)"
| "cond_holds Geu a b = (a \<ge> b)"
| "cond_holds Leu a b = (a \<le> b)"
| "cond_holds Gtu a b = (a > b)"
| "cond_holds TstEq a b = (a AND b = 0)"
| "cond_holds TstNe a b = (a AND b \<noteq> 0)"

lemma cond_holds_invert: "cond_holds (invert c) a b \<longleftrightarrow> \<not> cond_holds c a b"
  by (cases c) (simp_all add: not_less not_le)

lemma cond_holds_swap: "cond_holds (swap c) a b \<longleftrightarrow> cond_holds c b a"
  by (cases c) (auto simp: and.commute)

lemma cond_as_u32_inject [simp]: "cond_as_u32 a = cond_as_u32 b \<longleftrightarrow> a = b"
  by (cases a; cases b) simp_all

section \<open>MemOp\<close>

datatype MemOp = MemOp (memop_bits: u16)

definition SIZE_8 :: u16 where "SIZE_8 = 0"
definition SIZE_16 :: u16 where "SIZE_16 = 1"
definition SIZE_32 :: u16 where "SIZE_32 = 2"
definition SIZE_64 :: u16 where "SIZE_64 = 3"
definition SIGN :: u16 where "SIGN = push_bit 2 1"
definition BSWAP :: u16 where "BSWAP = push_bit 3 1"
definition ALIGN_2 :: u16 where "ALIGN_2 = push_bit 4 1"
definition ALIGN_4 :: u16 where "ALIGN_4 = push_bit 4 2"
definition ALIGN_8 :: u16 where "ALIGN_8 = push_bit 4 3"
definition ALIGN_16 :: u16 where "ALIGN_16 = push_bit 4 4"
definition ALIGN_32 :: u16 where "ALIGN_32 = push_bit 4 5"
definition ALIGN_64 :: u16 where "ALIGN_64 = push_bit 4 6"

definition memop_ub :: MemOp where "memop_ub = MemOp SIZE_8"
definition memop_sb :: MemOp where "memop_sb = MemOp (SIZE_8 OR SIGN)"
definition memop_uw :: MemOp where "memop_uw = MemOp SIZE_16"
definition memop_sw :: MemOp where "memop_sw = MemOp (SIZE_16 OR SIGN)"
definition memop_ul :: MemOp where "memop_ul = MemOp SIZE_32"
definition memop_sl :: MemOp where "memop_sl = MemOp (SIZE_32 OR SIGN)"
definition memop_uq :: MemOp where "memop_uq = MemOp SIZE_64"

definition memop_size :: "MemOp \<Rightarrow> u16" where
  "memop_size m = memop_bits m AND 3"

definition memop_is_signed :: "MemOp \<Rightarrow> bool" where
  "memop_is_signed m = (memop_bits m AND SIGN \<noteq> 0)"

definition memop_is_bswap :: "MemOp \<Rightarrow> bool" where
  "memop_is_bswap m = (memop_bits m AND BSWAP \<noteq> 0)"

definition memop_size_bytes :: "MemOp \<Rightarrow> u32" where
  "memop_size_bytes m = push_bit (unat (memop_size m)) 1"

lemmas memop_defs [model_defs] = SIZE_8_def SIZE_16_def SIZE_32_def SIZE_64_def SIGN_def BSWAP_def
  memop_ub_def memop_sb_def memop_uw_def memop_sw_def memop_ul_def memop_sl_def memop_uq_def
  memop_size_def memop_is_signed_def memop_is_bswap_def memop_size_bytes_def

section \<open>RegSet\<close>

text \<open>
  The bitmap of host registers. \<open>set\<close>, \<open>clear\<close> and \<open>contains\<close> assert that the
  register number is below 64, so they are partial; the names carry the prefix
  \<open>rs_\<close> because \<open>set\<close> is a constant of HOL.
\<close>

datatype RegSet = RegSet (raw: u64)

definition rs_EMPTY :: RegSet where
  "rs_EMPTY = RegSet 0"

definition from_raw :: "u64 \<Rightarrow> RegSet" where
  "from_raw bits = RegSet bits"

definition rs_set :: "RegSet \<Rightarrow> u8 \<Rightarrow> RegSet option" where
  "rs_set r reg = do { assert_that (reg < 64); Some (RegSet (raw r OR push_bit (unat reg) 1)) }"

definition rs_clear :: "RegSet \<Rightarrow> u8 \<Rightarrow> RegSet option" where
  "rs_clear r reg =
     do { assert_that (reg < 64); Some (RegSet (raw r AND NOT (push_bit (unat reg) 1))) }"

definition rs_contains :: "RegSet \<Rightarrow> u8 \<Rightarrow> bool option" where
  "rs_contains r reg =
     do { assert_that (reg < 64); Some (raw r AND push_bit (unat reg) 1 \<noteq> 0) }"

definition rs_is_empty :: "RegSet \<Rightarrow> bool" where
  "rs_is_empty r = (raw r = 0)"

definition rs_union :: "RegSet \<Rightarrow> RegSet \<Rightarrow> RegSet" where
  "rs_union r q = RegSet (raw r OR raw q)"

definition rs_intersect :: "RegSet \<Rightarrow> RegSet \<Rightarrow> RegSet" where
  "rs_intersect r q = RegSet (raw r AND raw q)"

definition rs_subtract :: "RegSet \<Rightarrow> RegSet \<Rightarrow> RegSet" where
  "rs_subtract r q = RegSet (raw r AND NOT (raw q))"

definition rs_count :: "RegSet \<Rightarrow> u32" where
  "rs_count r = of_nat (count_ones (raw r))"

definition rs_first :: "RegSet \<Rightarrow> u8 option" where
  "rs_first r = (if raw r = 0 then None else Some (of_nat (trailing_zeros (raw r))))"

text \<open>The set of register numbers a bitmap stands for.\<close>

definition regs_of :: "RegSet \<Rightarrow> u8 set" where
  "regs_of r = {g. g < 64 \<and> bit (raw r) (unat g)}"

text \<open>
  The contract of a register set: a finite set of register numbers below 64, with a choice
  of the least member.
\<close>

locale reg_set =
  fixes empty :: "'s" and add :: "'s \<Rightarrow> u8 \<Rightarrow> 's option" and del :: "'s \<Rightarrow> u8 \<Rightarrow> 's option"
    and mem :: "'s \<Rightarrow> u8 \<Rightarrow> bool option" and isempty :: "'s \<Rightarrow> bool"
    and uni :: "'s \<Rightarrow> 's \<Rightarrow> 's" and inter :: "'s \<Rightarrow> 's \<Rightarrow> 's" and diff :: "'s \<Rightarrow> 's \<Rightarrow> 's"
    and fst_of :: "'s \<Rightarrow> u8 option" and abs :: "'s \<Rightarrow> u8 set"
  assumes abs_bound: "g \<in> abs s \<Longrightarrow> g < 64"
    and abs_empty: "abs empty = {}"
    and abs_add: "g < 64 \<Longrightarrow> \<exists>t. add s g = Some t \<and> abs t = insert g (abs s)"
    and add_panics: "\<not> g < 64 \<Longrightarrow> add s g = None"
    and abs_del: "g < 64 \<Longrightarrow> \<exists>t. del s g = Some t \<and> abs t = abs s - {g}"
    and del_panics: "\<not> g < 64 \<Longrightarrow> del s g = None"
    and mem_abs: "g < 64 \<Longrightarrow> mem s g = Some (g \<in> abs s)"
    and isempty_abs: "isempty s \<longleftrightarrow> abs s = {}"
    and abs_uni: "abs (uni s t) = abs s \<union> abs t"
    and abs_inter: "abs (inter s t) = abs s \<inter> abs t"
    and abs_diff: "abs (diff s t) = abs s - abs t"
    and fst_None: "fst_of s = None \<longleftrightarrow> abs s = {}"
    and fst_Some: "fst_of s = Some g \<Longrightarrow> g \<in> abs s \<and> (\<forall>h \<in> abs s. g \<le> h)"
begin

text \<open>What a client that picks a register from a constrained candidate set relies on.\<close>

lemma pick_candidate:
  assumes "fst_of (diff (inter required allowed) forbidden) = Some g"
  shows "g \<in> abs required \<and> g \<in> abs allowed \<and> g \<notin> abs forbidden"
  using fst_Some [OF assms] by (simp add: abs_diff abs_inter)

lemma pick_exists:
  assumes "abs required \<inter> abs allowed - abs forbidden \<noteq> {}"
  shows "\<exists>g. fst_of (diff (inter required allowed) forbidden) = Some g"
  using assms fst_None [of "diff (inter required allowed) forbidden"]
  by (auto simp: abs_diff abs_inter)

lemma fst_unique_least:
  assumes "fst_of s = Some g" and "h \<in> abs s" and "\<forall>k \<in> abs s. h \<le> k"
  shows "g = h"
  using fst_Some [OF assms(1)] assms(2,3) by (meson order_antisym)

end

lemma bit_exp_u64: "g < 64 \<Longrightarrow> bit (2 ^ unat (g :: u8) :: u64) n \<longleftrightarrow> n = unat g"
  by (auto simp: bit_exp_iff word_less_nat_alt)

lemma unat_lt_64: "unat (g :: u8) < 64 \<longleftrightarrow> g < 64"
  by (simp add: word_less_nat_alt)

lemma unat_eq_u8: "unat (g :: u8) = unat h \<Longrightarrow> g = h"
  by (simp add: word_unat_eq_iff)

lemma of_nat_lt_64: "n < 64 \<Longrightarrow> (of_nat n :: u8) < 64"
  by (simp add: word_less_nat_alt)

lemma regs_of_unat: "n < 64 \<Longrightarrow> of_nat n \<in> regs_of r \<longleftrightarrow> bit (raw r) n"
  by (simp add: regs_of_def of_nat_lt_64)

lemma regs_of_eq_iff: "regs_of r = regs_of q \<longleftrightarrow> r = q"
proof
  assume eq: "regs_of r = regs_of q"
  have "bit (raw r) n \<longleftrightarrow> bit (raw q) n" if "n < 64" for n
    using that eq by (simp flip: regs_of_unat)
  then have "raw r = raw q" by (auto intro: bit_word_eqI)
  then show "r = q" by (rule RegSet.expand)
qed simp

lemma rs_first_Some:
  assumes "rs_first r = Some g"
  shows "g \<in> regs_of r \<and> (\<forall>h \<in> regs_of r. g \<le> h)"
proof -
  from assms have nz: "raw r \<noteq> 0" and g: "g = of_nat (trailing_zeros (raw r))"
    by (auto simp: rs_first_def split: if_splits)
  note tz = trailing_zeros_bit [OF nz]
  have u: "unat g = trailing_zeros (raw r)"
    using tz(3) by (simp add: g unsigned_of_nat take_bit_nat_eq_self)
  then have "g < 64" using tz(3) by (simp add: word_less_nat_alt)
  moreover have "g \<le> h" if "h \<in> regs_of r" for h
    using that tz(2) u by (auto simp: regs_of_def word_le_nat_alt not_less [symmetric])
  ultimately show ?thesis using tz(1) u by (simp add: regs_of_def)
qed

lemma regs_of_empty_iff: "regs_of r = {} \<longleftrightarrow> raw r = 0"
  using regs_of_eq_iff [of r "RegSet 0"] by (auto simp: regs_of_def)

interpretation rs: reg_set rs_EMPTY rs_set rs_clear rs_contains rs_is_empty rs_union rs_intersect
  rs_subtract rs_first regs_of
proof
  show "rs_is_empty s \<longleftrightarrow> regs_of s = {}" and "rs_first s = None \<longleftrightarrow> regs_of s = {}" for s
    by (simp_all add: rs_first_def rs_is_empty_def regs_of_empty_iff)
  show "rs_first s = Some g \<Longrightarrow> g \<in> regs_of s \<and> (\<forall>h \<in> regs_of s. g \<le> h)" for s g
    by (rule rs_first_Some)
qed (auto simp: regs_of_def rs_EMPTY_def rs_set_def rs_clear_def rs_contains_def rs_union_def
    rs_intersect_def rs_subtract_def bit_or_iff bit_and_iff bit_not_iff bit_exp_u64
    and_exp_eq_0_iff_not_bit unat_lt_64 dest: unat_eq_u8)

lemma rs_count_card: "unat (rs_count r) = card (regs_of r)"
proof -
  have "regs_of r = of_nat ` {n. bit (raw r) n}"
  proof (intro set_eqI iffI)
    fix g assume "g \<in> regs_of r"
    then show "g \<in> of_nat ` {n. bit (raw r) n}"
      by (intro image_eqI [where x = "unat g"]) (auto simp: regs_of_def)
  next
    fix g :: u8 assume "g \<in> of_nat ` {n. bit (raw r) n}"
    then show "g \<in> regs_of r"
      using bit_imp_le_length [of "raw r"] by (auto simp: regs_of_unat)
  qed
  moreover have "inj_on (of_nat :: nat \<Rightarrow> u8) {n. bit (raw r) n}"
    by (rule inj_on_inverseI [where g = unat]) (auto dest: bit_imp_le_length)
  ultimately have "card (regs_of r) = count_ones (raw r)"
    by (simp add: card_image count_ones_card)
  moreover have "count_ones (raw r) \<le> 64"
    using length_filter_le [of "bit (raw r)" "[0..<64]"] by (simp add: count_ones_def)
  ultimately show ?thesis by (simp add: rs_count_def)
qed

section \<open>Properties\<close>

text \<open>
  Inverting a condition negates it and swapping it exchanges the operands, at every word
  width; both operations are involutions and commute with each other.
\<close>

theorem cond_invert_swap:
  fixes a b :: "'a::len word"
  shows "(cond_holds (invert c) a b \<longleftrightarrow> \<not> cond_holds c a b) \<and>
    (cond_holds (swap c) a b \<longleftrightarrow> cond_holds c b a) \<and>
    invert (invert c) = c \<and> swap (swap c) = c \<and> swap (invert c) = invert (swap c)"
proof (intro conjI)
  show "invert (invert c) = c" "swap (swap c) = c" "swap (invert c) = invert (swap c)"
    by (cases c; simp)+
qed (rule cond_holds_invert cond_holds_swap)+

text \<open>
  C37: the 64-bit register bitmap implements finite sets of register numbers: \<open>set\<close> and
  \<open>clear\<close> insert and remove and panic exactly from register 64 on, \<open>contains\<close> tests
  membership, \<open>count\<close> is the cardinality, \<open>first\<close> the least member, and union,
  intersection and difference are those of sets.
\<close>

theorem regset_refines_set:
  "(\<forall>g. g < 64 \<longrightarrow> (\<exists>t. rs_set r g = Some t \<and> regs_of t = insert g (regs_of r))) \<and>
   (\<forall>g. g < 64 \<longrightarrow> (\<exists>t. rs_clear r g = Some t \<and> regs_of t = regs_of r - {g})) \<and>
   (\<forall>g. g < 64 \<longrightarrow> rs_contains r g = Some (g \<in> regs_of r)) \<and>
   (\<forall>g. \<not> g < 64 \<longrightarrow> rs_set r g = None \<and> rs_clear r g = None) \<and>
   regs_of (rs_union r q) = regs_of r \<union> regs_of q \<and>
   regs_of (rs_intersect r q) = regs_of r \<inter> regs_of q \<and>
   regs_of (rs_subtract r q) = regs_of r - regs_of q \<and>
   (rs_first r = None \<longleftrightarrow> regs_of r = {}) \<and>
   (\<forall>g. rs_first r = Some g \<longrightarrow> g = Min (regs_of r)) \<and>
   unat (rs_count r) = card (regs_of r)"
proof (intro conjI allI impI)
  show "g = Min (regs_of r)" if "rs_first r = Some g" for g
    using rs.fst_Some [OF that] by (intro Min_eqI [symmetric]) (auto simp: regs_of_def)
qed (simp_all add: rs.abs_add rs.abs_del rs.mem_abs rs.add_panics rs.del_panics rs.abs_uni rs.abs_inter
    rs.abs_diff rs.fst_None rs_count_card)

theorem regset_refines_set_witness:
  "rs_first (RegSet 0x28) = Some 3 \<and> 3 = Min (regs_of (RegSet 0x28)) \<and>
   rs_contains (RegSet 0x28) 5 = Some (5 \<in> regs_of (RegSet 0x28)) \<and>
   rs_set (RegSet 0x28) 64 = None"
proof -
  have "rs_first (RegSet 0x28) = Some 3" by code_simp
  then show ?thesis using regset_refines_set [of "RegSet 0x28" "RegSet 0"] by auto
qed

end
