(* ===== verification/Opcode.thy ===== *)
theory Opcode
  imports Types
begin

text \<open>
  The opcodes of the IR and their static definition table (\<open>core/src/opcode.rs\<close>).

  The enum of the source is flat; its variants are listed under section comments
  (\<open>Data movement\<close>, \<open>Arithmetic\<close>, \<open>Logic\<close> and so on). The model keeps the
  variants' names and groups them by those sections, one datatype per section and one
  constructor of \<open>Opcode\<close> per section, so that case analysis stays small. The cast
  \<open>opc as usize\<close> is \<open>as_usize\<close>, which numbers the variants in source order. The
  table \<open>OPCODE_DEFS\<close> is the source's list, entry by entry, cut at the same sections;
  looking an opcode up in it is indexing with \<open>as_usize\<close>.
\<close>

section \<open>The opcode enum\<close>

datatype DataMovOp = Mov | SetCond | NegSetCond | MovCond
datatype ArithOp = Add | Sub | Mul | Neg | DivS | DivU | RemS | RemU | DivS2 | DivU2
datatype MulWOp = MulSH | MulUH | MulS2 | MulU2
datatype CarryOp = AddCO | AddCI | AddCIO | AddC1O | SubBO | SubBI | SubBIO | SubB1O
datatype LogicOp = And | Or | Xor | NotI | AndC | OrC | Eqv | Nand | Nor
datatype ShiftOp = Shl | Shr | Sar | RotL | RotR
datatype FieldOp = Extract | SExtract | Deposit | Extract2
datatype BswapOp = Bswap16 | Bswap32 | Bswap64
datatype CountOp = Clz | Ctz | CtPop
datatype PairOp = BrCond2I32 | SetCond2I32
datatype ConvOp = ExtI32I64 | ExtUI32I64 | ExtrlI64I32 | ExtrhI64I32
datatype HostMemOp = Ld8U | Ld8S | Ld16U | Ld16S | Ld32U | Ld32S | Ld | St8 | St16 | St32 | St
datatype GuestMemOp = QemuLd | QemuSt | QemuLd2 | QemuSt2
datatype CtlOp = Br | BrCond | SetLabel | GotoTb | ExitTb | GotoPtr | Mb
datatype PluginOp = PluginCb | PluginMemCb
datatype MiscOp = Nop | Discard | InsnStart
datatype VMovOp = MovVec | DupVec | Dup2Vec | LdVec | StVec | DupmVec
datatype VArithOp = AddVec | SubVec | MulVec | NegVec | AbsVec | SsaddVec | UsaddVec | SssubVec | UssubVec |
  SminVec | UminVec | SmaxVec | UmaxVec
datatype VLogicOp = AndVec | OrVec | XorVec | AndcVec | OrcVec | NandVec | NorVec | EqvVec | NotVec
datatype VShiftIOp = ShliVec | ShriVec | SariVec | RotliVec
datatype VShiftSOp = ShlsVec | ShrsVec | SarsVec | RotlsVec
datatype VShiftVOp = ShlvVec | ShrvVec | SarvVec | RotlvVec | RotrvVec
datatype VCmpOp = CmpVec | BitselVec | CmpselVec

datatype Opcode =
    OMov DataMovOp | OArith ArithOp | OMulW MulWOp | OCarry CarryOp | OLogic LogicOp |
  OShift ShiftOp | OField FieldOp | OBswap BswapOp | OCount CountOp | OPair PairOp |
  OConv ConvOp | OHost HostMemOp | OGuest GuestMemOp | OCtl CtlOp | Call | OPlugin PluginOp |
  OMisc MiscOp | OVMov VMovOp | OVArith VArithOp | OVLogic VLogicOp | OVShiftI VShiftIOp |
  OVShiftS VShiftSOp | OVShiftV VShiftVOp | OVCmp VCmpOp

primrec data_mov_idx :: "DataMovOp \<Rightarrow> nat" where
  "data_mov_idx Mov = 0" | "data_mov_idx SetCond = 1" | "data_mov_idx NegSetCond = 2" |
  "data_mov_idx MovCond = 3"

primrec arith_idx :: "ArithOp \<Rightarrow> nat" where
  "arith_idx Add = 4" | "arith_idx Sub = 5" | "arith_idx Mul = 6" | "arith_idx Neg = 7" |
  "arith_idx DivS = 8" | "arith_idx DivU = 9" | "arith_idx RemS = 10" | "arith_idx RemU = 11" |
  "arith_idx DivS2 = 12" | "arith_idx DivU2 = 13"

primrec mul_w_idx :: "MulWOp \<Rightarrow> nat" where
  "mul_w_idx MulSH = 14" | "mul_w_idx MulUH = 15" | "mul_w_idx MulS2 = 16" |
  "mul_w_idx MulU2 = 17"

primrec carry_idx :: "CarryOp \<Rightarrow> nat" where
  "carry_idx AddCO = 18" | "carry_idx AddCI = 19" | "carry_idx AddCIO = 20" |
  "carry_idx AddC1O = 21" | "carry_idx SubBO = 22" | "carry_idx SubBI = 23" |
  "carry_idx SubBIO = 24" | "carry_idx SubB1O = 25"

primrec logic_idx :: "LogicOp \<Rightarrow> nat" where
  "logic_idx And = 26" | "logic_idx Or = 27" | "logic_idx Xor = 28" | "logic_idx NotI = 29" |
  "logic_idx AndC = 30" | "logic_idx OrC = 31" | "logic_idx Eqv = 32" | "logic_idx Nand = 33" |
  "logic_idx Nor = 34"

primrec shift_idx :: "ShiftOp \<Rightarrow> nat" where
  "shift_idx Shl = 35" | "shift_idx Shr = 36" | "shift_idx Sar = 37" | "shift_idx RotL = 38" |
  "shift_idx RotR = 39"

primrec field_idx :: "FieldOp \<Rightarrow> nat" where
  "field_idx Extract = 40" | "field_idx SExtract = 41" | "field_idx Deposit = 42" |
  "field_idx Extract2 = 43"

primrec bswap_idx :: "BswapOp \<Rightarrow> nat" where
  "bswap_idx Bswap16 = 44" | "bswap_idx Bswap32 = 45" | "bswap_idx Bswap64 = 46"

primrec count_idx :: "CountOp \<Rightarrow> nat" where
  "count_idx Clz = 47" | "count_idx Ctz = 48" | "count_idx CtPop = 49"

primrec pair_idx :: "PairOp \<Rightarrow> nat" where
  "pair_idx BrCond2I32 = 50" | "pair_idx SetCond2I32 = 51"

primrec conv_idx :: "ConvOp \<Rightarrow> nat" where
  "conv_idx ExtI32I64 = 52" | "conv_idx ExtUI32I64 = 53" | "conv_idx ExtrlI64I32 = 54" |
  "conv_idx ExtrhI64I32 = 55"

primrec host_mem_idx :: "HostMemOp \<Rightarrow> nat" where
  "host_mem_idx Ld8U = 56" | "host_mem_idx Ld8S = 57" | "host_mem_idx Ld16U = 58" |
  "host_mem_idx Ld16S = 59" | "host_mem_idx Ld32U = 60" | "host_mem_idx Ld32S = 61" |
  "host_mem_idx Ld = 62" | "host_mem_idx St8 = 63" | "host_mem_idx St16 = 64" |
  "host_mem_idx St32 = 65" | "host_mem_idx St = 66"

primrec guest_mem_idx :: "GuestMemOp \<Rightarrow> nat" where
  "guest_mem_idx QemuLd = 67" | "guest_mem_idx QemuSt = 68" | "guest_mem_idx QemuLd2 = 69" |
  "guest_mem_idx QemuSt2 = 70"

primrec ctl_idx :: "CtlOp \<Rightarrow> nat" where
  "ctl_idx Br = 71" | "ctl_idx BrCond = 72" | "ctl_idx SetLabel = 73" | "ctl_idx GotoTb = 74" |
  "ctl_idx ExitTb = 75" | "ctl_idx GotoPtr = 76" | "ctl_idx Mb = 77"

primrec plugin_idx :: "PluginOp \<Rightarrow> nat" where
  "plugin_idx PluginCb = 79" | "plugin_idx PluginMemCb = 80"

primrec misc_idx :: "MiscOp \<Rightarrow> nat" where
  "misc_idx Nop = 81" | "misc_idx Discard = 82" | "misc_idx InsnStart = 83"

primrec vmov_idx :: "VMovOp \<Rightarrow> nat" where
  "vmov_idx MovVec = 84" | "vmov_idx DupVec = 85" | "vmov_idx Dup2Vec = 86" |
  "vmov_idx LdVec = 87" | "vmov_idx StVec = 88" | "vmov_idx DupmVec = 89"

primrec varith_idx :: "VArithOp \<Rightarrow> nat" where
  "varith_idx AddVec = 90" | "varith_idx SubVec = 91" | "varith_idx MulVec = 92" |
  "varith_idx NegVec = 93" | "varith_idx AbsVec = 94" | "varith_idx SsaddVec = 95" |
  "varith_idx UsaddVec = 96" | "varith_idx SssubVec = 97" | "varith_idx UssubVec = 98" |
  "varith_idx SminVec = 99" | "varith_idx UminVec = 100" | "varith_idx SmaxVec = 101" |
  "varith_idx UmaxVec = 102"

primrec vlogic_idx :: "VLogicOp \<Rightarrow> nat" where
  "vlogic_idx AndVec = 103" | "vlogic_idx OrVec = 104" | "vlogic_idx XorVec = 105" |
  "vlogic_idx AndcVec = 106" | "vlogic_idx OrcVec = 107" | "vlogic_idx NandVec = 108" |
  "vlogic_idx NorVec = 109" | "vlogic_idx EqvVec = 110" | "vlogic_idx NotVec = 111"

primrec vshift_i_idx :: "VShiftIOp \<Rightarrow> nat" where
  "vshift_i_idx ShliVec = 112" | "vshift_i_idx ShriVec = 113" | "vshift_i_idx SariVec = 114" |
  "vshift_i_idx RotliVec = 115"

primrec vshift_s_idx :: "VShiftSOp \<Rightarrow> nat" where
  "vshift_s_idx ShlsVec = 116" | "vshift_s_idx ShrsVec = 117" | "vshift_s_idx SarsVec = 118" |
  "vshift_s_idx RotlsVec = 119"

primrec vshift_v_idx :: "VShiftVOp \<Rightarrow> nat" where
  "vshift_v_idx ShlvVec = 120" | "vshift_v_idx ShrvVec = 121" | "vshift_v_idx SarvVec = 122" |
  "vshift_v_idx RotlvVec = 123" | "vshift_v_idx RotrvVec = 124"

primrec vcmp_idx :: "VCmpOp \<Rightarrow> nat" where
  "vcmp_idx CmpVec = 125" | "vcmp_idx BitselVec = 126" | "vcmp_idx CmpselVec = 127"

primrec as_usize :: "Opcode \<Rightarrow> nat" where
  "as_usize (OMov x) = data_mov_idx x"
| "as_usize (OArith x) = arith_idx x"
| "as_usize (OMulW x) = mul_w_idx x"
| "as_usize (OCarry x) = carry_idx x"
| "as_usize (OLogic x) = logic_idx x"
| "as_usize (OShift x) = shift_idx x"
| "as_usize (OField x) = field_idx x"
| "as_usize (OBswap x) = bswap_idx x"
| "as_usize (OCount x) = count_idx x"
| "as_usize (OPair x) = pair_idx x"
| "as_usize (OConv x) = conv_idx x"
| "as_usize (OHost x) = host_mem_idx x"
| "as_usize (OGuest x) = guest_mem_idx x"
| "as_usize (OCtl x) = ctl_idx x"
| "as_usize Call = 78"
| "as_usize (OPlugin x) = plugin_idx x"
| "as_usize (OMisc x) = misc_idx x"
| "as_usize (OVMov x) = vmov_idx x"
| "as_usize (OVArith x) = varith_idx x"
| "as_usize (OVLogic x) = vlogic_idx x"
| "as_usize (OVShiftI x) = vshift_i_idx x"
| "as_usize (OVShiftS x) = vshift_s_idx x"
| "as_usize (OVShiftV x) = vshift_v_idx x"
| "as_usize (OVCmp x) = vcmp_idx x"

text \<open>The names of the variants as the enum declares them; the last one, \<open>Count\<close>, is a sentinel whose number is the number of opcodes.\<close>

primrec data_mov_variant :: "DataMovOp \<Rightarrow> string" where
  "data_mov_variant Mov = ''Mov''" | "data_mov_variant SetCond = ''SetCond''" |
  "data_mov_variant NegSetCond = ''NegSetCond''" | "data_mov_variant MovCond = ''MovCond''"

primrec arith_variant :: "ArithOp \<Rightarrow> string" where
  "arith_variant Add = ''Add''" | "arith_variant Sub = ''Sub''" | "arith_variant Mul = ''Mul''" |
  "arith_variant Neg = ''Neg''" | "arith_variant DivS = ''DivS''" | "arith_variant DivU = ''DivU''" |
  "arith_variant RemS = ''RemS''" | "arith_variant RemU = ''RemU''" | "arith_variant DivS2 = ''DivS2''" |
  "arith_variant DivU2 = ''DivU2''"

primrec mul_w_variant :: "MulWOp \<Rightarrow> string" where
  "mul_w_variant MulSH = ''MulSH''" | "mul_w_variant MulUH = ''MulUH''" | "mul_w_variant MulS2 = ''MulS2''" |
  "mul_w_variant MulU2 = ''MulU2''"

primrec carry_variant :: "CarryOp \<Rightarrow> string" where
  "carry_variant AddCO = ''AddCO''" | "carry_variant AddCI = ''AddCI''" |
  "carry_variant AddCIO = ''AddCIO''" | "carry_variant AddC1O = ''AddC1O''" |
  "carry_variant SubBO = ''SubBO''" | "carry_variant SubBI = ''SubBI''" |
  "carry_variant SubBIO = ''SubBIO''" | "carry_variant SubB1O = ''SubB1O''"

primrec logic_variant :: "LogicOp \<Rightarrow> string" where
  "logic_variant And = ''And''" | "logic_variant Or = ''Or''" | "logic_variant Xor = ''Xor''" |
  "logic_variant NotI = ''Not''" | "logic_variant AndC = ''AndC''" | "logic_variant OrC = ''OrC''" |
  "logic_variant Eqv = ''Eqv''" | "logic_variant Nand = ''Nand''" | "logic_variant Nor = ''Nor''"

primrec shift_variant :: "ShiftOp \<Rightarrow> string" where
  "shift_variant Shl = ''Shl''" | "shift_variant Shr = ''Shr''" | "shift_variant Sar = ''Sar''" |
  "shift_variant RotL = ''RotL''" | "shift_variant RotR = ''RotR''"

primrec field_variant :: "FieldOp \<Rightarrow> string" where
  "field_variant Extract = ''Extract''" | "field_variant SExtract = ''SExtract''" |
  "field_variant Deposit = ''Deposit''" | "field_variant Extract2 = ''Extract2''"

primrec bswap_variant :: "BswapOp \<Rightarrow> string" where
  "bswap_variant Bswap16 = ''Bswap16''" | "bswap_variant Bswap32 = ''Bswap32''" |
  "bswap_variant Bswap64 = ''Bswap64''"

primrec count_variant :: "CountOp \<Rightarrow> string" where
  "count_variant Clz = ''Clz''" | "count_variant Ctz = ''Ctz''" | "count_variant CtPop = ''CtPop''"

primrec pair_variant :: "PairOp \<Rightarrow> string" where
  "pair_variant BrCond2I32 = ''BrCond2I32''" | "pair_variant SetCond2I32 = ''SetCond2I32''"

primrec conv_variant :: "ConvOp \<Rightarrow> string" where
  "conv_variant ExtI32I64 = ''ExtI32I64''" | "conv_variant ExtUI32I64 = ''ExtUI32I64''" |
  "conv_variant ExtrlI64I32 = ''ExtrlI64I32''" | "conv_variant ExtrhI64I32 = ''ExtrhI64I32''"

primrec host_mem_variant :: "HostMemOp \<Rightarrow> string" where
  "host_mem_variant Ld8U = ''Ld8U''" | "host_mem_variant Ld8S = ''Ld8S''" |
  "host_mem_variant Ld16U = ''Ld16U''" | "host_mem_variant Ld16S = ''Ld16S''" |
  "host_mem_variant Ld32U = ''Ld32U''" | "host_mem_variant Ld32S = ''Ld32S''" |
  "host_mem_variant Ld = ''Ld''" | "host_mem_variant St8 = ''St8''" | "host_mem_variant St16 = ''St16''" |
  "host_mem_variant St32 = ''St32''" | "host_mem_variant St = ''St''"

primrec guest_mem_variant :: "GuestMemOp \<Rightarrow> string" where
  "guest_mem_variant QemuLd = ''QemuLd''" | "guest_mem_variant QemuSt = ''QemuSt''" |
  "guest_mem_variant QemuLd2 = ''QemuLd2''" | "guest_mem_variant QemuSt2 = ''QemuSt2''"

primrec ctl_variant :: "CtlOp \<Rightarrow> string" where
  "ctl_variant Br = ''Br''" | "ctl_variant BrCond = ''BrCond''" | "ctl_variant SetLabel = ''SetLabel''" |
  "ctl_variant GotoTb = ''GotoTb''" | "ctl_variant ExitTb = ''ExitTb''" |
  "ctl_variant GotoPtr = ''GotoPtr''" | "ctl_variant Mb = ''Mb''"

primrec plugin_variant :: "PluginOp \<Rightarrow> string" where
  "plugin_variant PluginCb = ''PluginCb''" | "plugin_variant PluginMemCb = ''PluginMemCb''"

primrec misc_variant :: "MiscOp \<Rightarrow> string" where
  "misc_variant Nop = ''Nop''" | "misc_variant Discard = ''Discard''" |
  "misc_variant InsnStart = ''InsnStart''"

primrec vmov_variant :: "VMovOp \<Rightarrow> string" where
  "vmov_variant MovVec = ''MovVec''" | "vmov_variant DupVec = ''DupVec''" |
  "vmov_variant Dup2Vec = ''Dup2Vec''" | "vmov_variant LdVec = ''LdVec''" |
  "vmov_variant StVec = ''StVec''" | "vmov_variant DupmVec = ''DupmVec''"

primrec varith_variant :: "VArithOp \<Rightarrow> string" where
  "varith_variant AddVec = ''AddVec''" | "varith_variant SubVec = ''SubVec''" |
  "varith_variant MulVec = ''MulVec''" | "varith_variant NegVec = ''NegVec''" |
  "varith_variant AbsVec = ''AbsVec''" | "varith_variant SsaddVec = ''SsaddVec''" |
  "varith_variant UsaddVec = ''UsaddVec''" | "varith_variant SssubVec = ''SssubVec''" |
  "varith_variant UssubVec = ''UssubVec''" | "varith_variant SminVec = ''SminVec''" |
  "varith_variant UminVec = ''UminVec''" | "varith_variant SmaxVec = ''SmaxVec''" |
  "varith_variant UmaxVec = ''UmaxVec''"

primrec vlogic_variant :: "VLogicOp \<Rightarrow> string" where
  "vlogic_variant AndVec = ''AndVec''" | "vlogic_variant OrVec = ''OrVec''" |
  "vlogic_variant XorVec = ''XorVec''" | "vlogic_variant AndcVec = ''AndcVec''" |
  "vlogic_variant OrcVec = ''OrcVec''" | "vlogic_variant NandVec = ''NandVec''" |
  "vlogic_variant NorVec = ''NorVec''" | "vlogic_variant EqvVec = ''EqvVec''" |
  "vlogic_variant NotVec = ''NotVec''"

primrec vshift_i_variant :: "VShiftIOp \<Rightarrow> string" where
  "vshift_i_variant ShliVec = ''ShliVec''" | "vshift_i_variant ShriVec = ''ShriVec''" |
  "vshift_i_variant SariVec = ''SariVec''" | "vshift_i_variant RotliVec = ''RotliVec''"

primrec vshift_s_variant :: "VShiftSOp \<Rightarrow> string" where
  "vshift_s_variant ShlsVec = ''ShlsVec''" | "vshift_s_variant ShrsVec = ''ShrsVec''" |
  "vshift_s_variant SarsVec = ''SarsVec''" | "vshift_s_variant RotlsVec = ''RotlsVec''"

primrec vshift_v_variant :: "VShiftVOp \<Rightarrow> string" where
  "vshift_v_variant ShlvVec = ''ShlvVec''" | "vshift_v_variant ShrvVec = ''ShrvVec''" |
  "vshift_v_variant SarvVec = ''SarvVec''" | "vshift_v_variant RotlvVec = ''RotlvVec''" |
  "vshift_v_variant RotrvVec = ''RotrvVec''"

primrec vcmp_variant :: "VCmpOp \<Rightarrow> string" where
  "vcmp_variant CmpVec = ''CmpVec''" | "vcmp_variant BitselVec = ''BitselVec''" |
  "vcmp_variant CmpselVec = ''CmpselVec''"

primrec variant_name :: "Opcode \<Rightarrow> string" where
  "variant_name Call = ''Call''"
| "variant_name (OMov x) = data_mov_variant x"
| "variant_name (OArith x) = arith_variant x"
| "variant_name (OMulW x) = mul_w_variant x"
| "variant_name (OCarry x) = carry_variant x"
| "variant_name (OLogic x) = logic_variant x"
| "variant_name (OShift x) = shift_variant x"
| "variant_name (OField x) = field_variant x"
| "variant_name (OBswap x) = bswap_variant x"
| "variant_name (OCount x) = count_variant x"
| "variant_name (OPair x) = pair_variant x"
| "variant_name (OConv x) = conv_variant x"
| "variant_name (OHost x) = host_mem_variant x"
| "variant_name (OGuest x) = guest_mem_variant x"
| "variant_name (OCtl x) = ctl_variant x"
| "variant_name (OPlugin x) = plugin_variant x"
| "variant_name (OMisc x) = misc_variant x"
| "variant_name (OVMov x) = vmov_variant x"
| "variant_name (OVArith x) = varith_variant x"
| "variant_name (OVLogic x) = vlogic_variant x"
| "variant_name (OVShiftI x) = vshift_i_variant x"
| "variant_name (OVShiftS x) = vshift_s_variant x"
| "variant_name (OVShiftV x) = vshift_v_variant x"
| "variant_name (OVCmp x) = vcmp_variant x"

definition Opcode_Count :: nat where
  "Opcode_Count = 128"

definition OPCODES :: "Opcode list" where
  "OPCODES =
     map OMov [Mov, SetCond, NegSetCond, MovCond] @
     map OArith [Add, Sub, Mul, Neg, DivS, DivU, RemS, RemU, DivS2, DivU2] @
     map OMulW [MulSH, MulUH, MulS2, MulU2] @
     map OCarry [AddCO, AddCI, AddCIO, AddC1O, SubBO, SubBI, SubBIO, SubB1O] @
     map OLogic [And, Or, Xor, NotI, AndC, OrC, Eqv, Nand, Nor] @
     map OShift [Shl, Shr, Sar, RotL, RotR] @
     map OField [Extract, SExtract, Deposit, Extract2] @
     map OBswap [Bswap16, Bswap32, Bswap64] @
     map OCount [Clz, Ctz, CtPop] @
     map OPair [BrCond2I32, SetCond2I32] @
     map OConv [ExtI32I64, ExtUI32I64, ExtrlI64I32, ExtrhI64I32] @
     map OHost [Ld8U, Ld8S, Ld16U, Ld16S, Ld32U, Ld32S, Ld, St8, St16, St32, St] @
     map OGuest [QemuLd, QemuSt, QemuLd2, QemuSt2] @
     map OCtl [Br, BrCond, SetLabel, GotoTb, ExitTb, GotoPtr, Mb] @
     [Call] @
     map OPlugin [PluginCb, PluginMemCb] @
     map OMisc [Nop, Discard, InsnStart] @
     map OVMov [MovVec, DupVec, Dup2Vec, LdVec, StVec, DupmVec] @
     map OVArith [AddVec, SubVec, MulVec, NegVec, AbsVec, SsaddVec, UsaddVec, SssubVec,
       UssubVec, SminVec, UminVec, SmaxVec, UmaxVec] @
     map OVLogic [AndVec, OrVec, XorVec, AndcVec, OrcVec, NandVec, NorVec, EqvVec, NotVec] @
     map OVShiftI [ShliVec, ShriVec, SariVec, RotliVec] @
     map OVShiftS [ShlsVec, ShrsVec, SarsVec, RotlsVec] @
     map OVShiftV [ShlvVec, ShrvVec, SarvVec, RotlvVec, RotrvVec] @
     map OVCmp [CmpVec, BitselVec, CmpselVec]"

section \<open>OpFlags and OpDef\<close>

datatype OpFlags = OpFlags (flag_bits: u16)

definition BB_EXIT :: OpFlags where "BB_EXIT = OpFlags 0x01"
definition BB_END :: OpFlags where "BB_END = OpFlags 0x02"
definition CALL_CLOBBER :: OpFlags where "CALL_CLOBBER = OpFlags 0x04"
definition SIDE_EFFECTS :: OpFlags where "SIDE_EFFECTS = OpFlags 0x08"
definition INT_FLAG :: OpFlags where "INT_FLAG = OpFlags 0x10"
definition NOT_PRESENT :: OpFlags where "NOT_PRESENT = OpFlags 0x20"
definition VECTOR :: OpFlags where "VECTOR = OpFlags 0x40"
definition COND_BRANCH :: OpFlags where "COND_BRANCH = OpFlags 0x80"
definition CARRY_OUT :: OpFlags where "CARRY_OUT = OpFlags 0x100"
definition CARRY_IN :: OpFlags where "CARRY_IN = OpFlags 0x200"

definition flags_contains :: "OpFlags \<Rightarrow> OpFlags \<Rightarrow> bool" where
  "flags_contains a b = (flag_bits a AND flag_bits b = flag_bits b)"

definition flags_union :: "OpFlags \<Rightarrow> OpFlags \<Rightarrow> OpFlags" where
  "flags_union a b = OpFlags (flag_bits a OR flag_bits b)"

record OpDef =
  op_name :: string
  nb_oargs :: nat
  nb_iargs :: nat
  nb_cargs :: nat
  op_flags :: OpFlags

definition nb_args :: "OpDef \<Rightarrow> nat" where
  "nb_args d = nb_oargs d + nb_iargs d + nb_cargs d"

definition flag_or :: "OpFlags \<Rightarrow> OpFlags \<Rightarrow> OpFlags" where
  "flag_or a b = OpFlags (flag_bits a OR flag_bits b)"

abbreviation "OPF_INT \<equiv> INT_FLAG"
abbreviation "OPF_NP \<equiv> NOT_PRESENT"
abbreviation "OPF_SE \<equiv> SIDE_EFFECTS"
abbreviation "OPF_CC \<equiv> CALL_CLOBBER"
abbreviation "OPF_BE \<equiv> BB_END"
abbreviation "OPF_BX \<equiv> BB_EXIT"
abbreviation "OPF_CB \<equiv> COND_BRANCH"
abbreviation "OPF_CO \<equiv> CARRY_OUT"
abbreviation "OPF_CI \<equiv> CARRY_IN"
abbreviation "OPF_VC \<equiv> VECTOR"
abbreviation "OPF_N \<equiv> OpFlags 0"

abbreviation op_def :: "string \<Rightarrow> nat \<Rightarrow> nat \<Rightarrow> nat \<Rightarrow> OpFlags \<Rightarrow> OpDef" where
  "op_def nm no ni nc fl \<equiv>
     \<lparr>op_name = nm, nb_oargs = no, nb_iargs = ni, nb_cargs = nc, op_flags = fl\<rparr>"

lemmas flag_defs = BB_EXIT_def BB_END_def CALL_CLOBBER_def SIDE_EFFECTS_def INT_FLAG_def
  NOT_PRESENT_def VECTOR_def COND_BRANCH_def CARRY_OUT_def CARRY_IN_def flags_contains_def
  flags_union_def flag_or_def

section \<open>The definition table\<close>

definition defs_data_movement :: "OpDef list" where
  "defs_data_movement =
    [op_def ''mov'' 1 1 0 (flag_or OPF_INT OPF_NP),
     op_def ''setcond'' 1 2 1 OPF_INT,
     op_def ''negsetcond'' 1 2 1 OPF_INT,
     op_def ''movcond'' 1 4 1 OPF_INT]"

definition defs_arithmetic :: "OpDef list" where
  "defs_arithmetic =
    [op_def ''add'' 1 2 0 OPF_INT,
     op_def ''sub'' 1 2 0 OPF_INT,
     op_def ''mul'' 1 2 0 OPF_INT,
     op_def ''neg'' 1 1 0 OPF_INT,
     op_def ''divs'' 1 2 0 OPF_INT,
     op_def ''divu'' 1 2 0 OPF_INT,
     op_def ''rems'' 1 2 0 OPF_INT,
     op_def ''remu'' 1 2 0 OPF_INT,
     op_def ''divs2'' 2 3 0 OPF_INT,
     op_def ''divu2'' 2 3 0 OPF_INT]"

definition defs_widening :: "OpDef list" where
  "defs_widening =
    [op_def ''mulsh'' 1 2 0 OPF_INT,
     op_def ''muluh'' 1 2 0 OPF_INT,
     op_def ''muls2'' 2 2 0 OPF_INT,
     op_def ''mulu2'' 2 2 0 OPF_INT]"

definition defs_carry :: "OpDef list" where
  "defs_carry =
    [op_def ''addco'' 1 2 0 (flag_or OPF_INT OPF_CO),
     op_def ''addci'' 1 2 0 (flag_or OPF_INT OPF_CI),
     op_def ''addcio'' 1 2 0 (OpFlags (flag_bits OPF_INT OR flag_bits OPF_CI OR flag_bits OPF_CO)),
     op_def ''addc1o'' 1 2 0 (flag_or OPF_INT OPF_CO),
     op_def ''subbo'' 1 2 0 (flag_or OPF_INT OPF_CO),
     op_def ''subbi'' 1 2 0 (flag_or OPF_INT OPF_CI),
     op_def ''subbio'' 1 2 0 (OpFlags (flag_bits OPF_INT OR flag_bits OPF_CI OR flag_bits OPF_CO)),
     op_def ''subb1o'' 1 2 0 (flag_or OPF_INT OPF_CO)]"

definition defs_logic :: "OpDef list" where
  "defs_logic =
    [op_def ''and'' 1 2 0 OPF_INT,
     op_def ''or'' 1 2 0 OPF_INT,
     op_def ''xor'' 1 2 0 OPF_INT,
     op_def ''not'' 1 1 0 OPF_INT,
     op_def ''andc'' 1 2 0 OPF_INT,
     op_def ''orc'' 1 2 0 OPF_INT,
     op_def ''eqv'' 1 2 0 OPF_INT,
     op_def ''nand'' 1 2 0 OPF_INT,
     op_def ''nor'' 1 2 0 OPF_INT]"

definition defs_shift :: "OpDef list" where
  "defs_shift =
    [op_def ''shl'' 1 2 0 OPF_INT,
     op_def ''shr'' 1 2 0 OPF_INT,
     op_def ''sar'' 1 2 0 OPF_INT,
     op_def ''rotl'' 1 2 0 OPF_INT,
     op_def ''rotr'' 1 2 0 OPF_INT]"

definition defs_bit_field :: "OpDef list" where
  "defs_bit_field =
    [op_def ''extract'' 1 1 2 OPF_INT,
     op_def ''sextract'' 1 1 2 OPF_INT,
     op_def ''deposit'' 1 2 2 OPF_INT,
     op_def ''extract2'' 1 2 1 OPF_INT]"

definition defs_byte_swap :: "OpDef list" where
  "defs_byte_swap =
    [op_def ''bswap16'' 1 1 1 OPF_INT,
     op_def ''bswap32'' 1 1 1 OPF_INT,
     op_def ''bswap64'' 1 1 1 OPF_INT]"

definition defs_bit_count :: "OpDef list" where
  "defs_bit_count =
    [op_def ''clz'' 1 2 0 OPF_INT,
     op_def ''ctz'' 1 2 0 OPF_INT,
     op_def ''ctpop'' 1 1 0 OPF_INT]"

definition defs_paired :: "OpDef list" where
  "defs_paired =
    [op_def ''brcond2_i32'' 0 4 2 (OpFlags (flag_bits OPF_BE OR flag_bits OPF_CB)),
     op_def ''setcond2_i32'' 1 4 1 OPF_N]"

definition defs_conversion :: "OpDef list" where
  "defs_conversion =
    [op_def ''ext_i32_i64'' 1 1 0 OPF_N,
     op_def ''extu_i32_i64'' 1 1 0 OPF_N,
     op_def ''extrl_i64_i32'' 1 1 0 OPF_N,
     op_def ''extrh_i64_i32'' 1 1 0 OPF_N]"

definition defs_host_memory :: "OpDef list" where
  "defs_host_memory =
    [op_def ''ld8u'' 1 1 1 OPF_INT,
     op_def ''ld8s'' 1 1 1 OPF_INT,
     op_def ''ld16u'' 1 1 1 OPF_INT,
     op_def ''ld16s'' 1 1 1 OPF_INT,
     op_def ''ld32u'' 1 1 1 OPF_INT,
     op_def ''ld32s'' 1 1 1 OPF_INT,
     op_def ''ld'' 1 1 1 OPF_INT,
     op_def ''st8'' 0 2 1 OPF_INT,
     op_def ''st16'' 0 2 1 OPF_INT,
     op_def ''st32'' 0 2 1 OPF_INT,
     op_def ''st'' 0 2 1 OPF_INT]"

definition defs_guest_memory :: "OpDef list" where
  "defs_guest_memory =
    [op_def ''qemu_ld'' 1 1 1 (OpFlags (flag_bits OPF_CC OR flag_bits OPF_SE OR flag_bits OPF_INT)),
     op_def ''qemu_st'' 0 2 1 (OpFlags (flag_bits OPF_CC OR flag_bits OPF_SE OR flag_bits OPF_INT)),
     op_def ''qemu_ld2'' 2 1 1 (OpFlags (flag_bits OPF_CC OR flag_bits OPF_SE OR flag_bits OPF_INT)),
     op_def ''qemu_st2'' 0 3 1 (OpFlags (flag_bits OPF_CC OR flag_bits OPF_SE OR flag_bits OPF_INT))]"

definition defs_control :: "OpDef list" where
  "defs_control =
    [op_def ''br'' 0 0 1 (flag_or OPF_BE OPF_NP),
     op_def ''brcond'' 0 2 2 (OpFlags (flag_bits OPF_BE OR flag_bits OPF_CB OR flag_bits OPF_INT)),
     op_def ''set_label'' 0 0 1 (flag_or OPF_BE OPF_NP),
     op_def ''goto_tb'' 0 0 1 (OpFlags (flag_bits OPF_BX OR flag_bits OPF_BE OR flag_bits OPF_NP)),
     op_def ''exit_tb'' 0 0 1 (OpFlags (flag_bits OPF_BX OR flag_bits OPF_BE OR flag_bits OPF_NP)),
     op_def ''goto_ptr'' 0 1 0 (flag_or OPF_BX OPF_BE),
     op_def ''mb'' 0 0 1 OPF_NP]"

definition defs_call :: "OpDef list" where
  "defs_call =
    [op_def ''call'' 1 6 2 (flag_or OPF_CC OPF_NP)]"

definition defs_plugin :: "OpDef list" where
  "defs_plugin =
    [op_def ''plugin_cb'' 0 0 1 OPF_NP,
     op_def ''plugin_mem_cb'' 0 1 1 OPF_NP]"

definition defs_misc :: "OpDef list" where
  "defs_misc =
    [op_def ''nop'' 0 0 0 OPF_NP,
     op_def ''discard'' 1 0 0 OPF_NP,
     op_def ''insn_start'' 0 0 2 OPF_NP]"

definition defs_vec_movement :: "OpDef list" where
  "defs_vec_movement =
    [op_def ''mov_vec'' 1 1 0 (flag_or OPF_VC OPF_NP),
     op_def ''dup_vec'' 1 1 0 OPF_VC,
     op_def ''dup2_vec'' 1 2 0 OPF_VC,
     op_def ''ld_vec'' 1 1 1 OPF_VC,
     op_def ''st_vec'' 0 2 1 OPF_VC,
     op_def ''dupm_vec'' 1 1 1 OPF_VC]"

definition defs_vec_arith :: "OpDef list" where
  "defs_vec_arith =
    [op_def ''add_vec'' 1 2 0 OPF_VC,
     op_def ''sub_vec'' 1 2 0 OPF_VC,
     op_def ''mul_vec'' 1 2 0 OPF_VC,
     op_def ''neg_vec'' 1 1 0 OPF_VC,
     op_def ''abs_vec'' 1 1 0 OPF_VC,
     op_def ''ssadd_vec'' 1 2 0 OPF_VC,
     op_def ''usadd_vec'' 1 2 0 OPF_VC,
     op_def ''sssub_vec'' 1 2 0 OPF_VC,
     op_def ''ussub_vec'' 1 2 0 OPF_VC,
     op_def ''smin_vec'' 1 2 0 OPF_VC,
     op_def ''umin_vec'' 1 2 0 OPF_VC,
     op_def ''smax_vec'' 1 2 0 OPF_VC,
     op_def ''umax_vec'' 1 2 0 OPF_VC]"

definition defs_vec_logic :: "OpDef list" where
  "defs_vec_logic =
    [op_def ''and_vec'' 1 2 0 OPF_VC,
     op_def ''or_vec'' 1 2 0 OPF_VC,
     op_def ''xor_vec'' 1 2 0 OPF_VC,
     op_def ''andc_vec'' 1 2 0 OPF_VC,
     op_def ''orc_vec'' 1 2 0 OPF_VC,
     op_def ''nand_vec'' 1 2 0 OPF_VC,
     op_def ''nor_vec'' 1 2 0 OPF_VC,
     op_def ''eqv_vec'' 1 2 0 OPF_VC,
     op_def ''not_vec'' 1 1 0 OPF_VC]"

definition defs_vec_shift_imm :: "OpDef list" where
  "defs_vec_shift_imm =
    [op_def ''shli_vec'' 1 1 1 OPF_VC,
     op_def ''shri_vec'' 1 1 1 OPF_VC,
     op_def ''sari_vec'' 1 1 1 OPF_VC,
     op_def ''rotli_vec'' 1 1 1 OPF_VC]"

definition defs_vec_shift_scalar :: "OpDef list" where
  "defs_vec_shift_scalar =
    [op_def ''shls_vec'' 1 2 0 OPF_VC,
     op_def ''shrs_vec'' 1 2 0 OPF_VC,
     op_def ''sars_vec'' 1 2 0 OPF_VC,
     op_def ''rotls_vec'' 1 2 0 OPF_VC]"

definition defs_vec_shift_vec :: "OpDef list" where
  "defs_vec_shift_vec =
    [op_def ''shlv_vec'' 1 2 0 OPF_VC,
     op_def ''shrv_vec'' 1 2 0 OPF_VC,
     op_def ''sarv_vec'' 1 2 0 OPF_VC,
     op_def ''rotlv_vec'' 1 2 0 OPF_VC,
     op_def ''rotrv_vec'' 1 2 0 OPF_VC]"

definition defs_vec_compare :: "OpDef list" where
  "defs_vec_compare =
    [op_def ''cmp_vec'' 1 2 1 OPF_VC,
     op_def ''bitsel_vec'' 1 3 0 OPF_VC,
     op_def ''cmpsel_vec'' 1 4 1 OPF_VC]"

definition OPCODE_DEFS :: "OpDef list" where
  "OPCODE_DEFS =
     defs_data_movement @ defs_arithmetic @ defs_widening @ defs_carry @ defs_logic @ defs_shift @
     defs_bit_field @ defs_byte_swap @ defs_bit_count @ defs_paired @ defs_conversion @ defs_host_memory @
     defs_guest_memory @ defs_control @ defs_call @ defs_plugin @ defs_misc @ defs_vec_movement @
     defs_vec_arith @ defs_vec_logic @ defs_vec_shift_imm @ defs_vec_shift_scalar @ defs_vec_shift_vec @ defs_vec_compare"

text \<open>\<open>Opcode::def\<close>, \<open>fixed_type\<close>, \<open>is_int_polymorphic\<close>, \<open>is_vector\<close>.\<close>

definition def_of :: "Opcode \<Rightarrow> OpDef" where
  "def_of opc = OPCODE_DEFS ! as_usize opc"

definition fixed_type :: "Opcode \<Rightarrow> Type option" where
  "fixed_type opc =
     (if opc \<in> {OConv ExtI32I64, OConv ExtUI32I64} then Some I64
      else if opc \<in> {OConv ExtrlI64I32, OConv ExtrhI64I32, OPair BrCond2I32, OPair SetCond2I32}
      then Some I32 else None)"

definition is_int_polymorphic :: "Opcode \<Rightarrow> bool" where
  "is_int_polymorphic opc = flags_contains (op_flags (def_of opc)) INT_FLAG"

definition opc_is_vector :: "Opcode \<Rightarrow> bool" where
  "opc_is_vector opc = flags_contains (op_flags (def_of opc)) VECTOR"

section \<open>The table agrees with the enum\<close>

lemmas table_defs = OPCODE_DEFS_def defs_data_movement_def defs_arithmetic_def defs_widening_def defs_carry_def
  defs_logic_def defs_shift_def defs_bit_field_def defs_byte_swap_def
  defs_bit_count_def defs_paired_def defs_conversion_def defs_host_memory_def
  defs_guest_memory_def defs_control_def defs_call_def defs_plugin_def
  defs_misc_def defs_vec_movement_def defs_vec_arith_def defs_vec_logic_def
  defs_vec_shift_imm_def defs_vec_shift_scalar_def defs_vec_shift_vec_def defs_vec_compare_def

lemma length_OPCODE_DEFS [simp]: "length OPCODE_DEFS = 128"
  by (simp add: table_defs)

lemma length_OPCODES [simp]: "length OPCODES = 128"
  by (simp add: OPCODES_def)

text \<open>The entry an opcode is given by its own line of the table.\<close>

lemma def_of_simps [simp]:
  "def_of (OMov Mov) = op_def ''mov'' 1 1 0 (flag_or OPF_INT OPF_NP)"
  "def_of (OMov SetCond) = op_def ''setcond'' 1 2 1 OPF_INT"
  "def_of (OMov NegSetCond) = op_def ''negsetcond'' 1 2 1 OPF_INT"
  "def_of (OMov MovCond) = op_def ''movcond'' 1 4 1 OPF_INT"
  "def_of (OArith Add) = op_def ''add'' 1 2 0 OPF_INT"
  "def_of (OArith Sub) = op_def ''sub'' 1 2 0 OPF_INT"
  "def_of (OArith Mul) = op_def ''mul'' 1 2 0 OPF_INT"
  "def_of (OArith Neg) = op_def ''neg'' 1 1 0 OPF_INT"
  "def_of (OArith DivS) = op_def ''divs'' 1 2 0 OPF_INT"
  "def_of (OArith DivU) = op_def ''divu'' 1 2 0 OPF_INT"
  "def_of (OArith RemS) = op_def ''rems'' 1 2 0 OPF_INT"
  "def_of (OArith RemU) = op_def ''remu'' 1 2 0 OPF_INT"
  "def_of (OArith DivS2) = op_def ''divs2'' 2 3 0 OPF_INT"
  "def_of (OArith DivU2) = op_def ''divu2'' 2 3 0 OPF_INT"
  "def_of (OMulW MulSH) = op_def ''mulsh'' 1 2 0 OPF_INT"
  "def_of (OMulW MulUH) = op_def ''muluh'' 1 2 0 OPF_INT"
  "def_of (OMulW MulS2) = op_def ''muls2'' 2 2 0 OPF_INT"
  "def_of (OMulW MulU2) = op_def ''mulu2'' 2 2 0 OPF_INT"
  "def_of (OCarry AddCO) = op_def ''addco'' 1 2 0 (flag_or OPF_INT OPF_CO)"
  "def_of (OCarry AddCI) = op_def ''addci'' 1 2 0 (flag_or OPF_INT OPF_CI)"
  "def_of (OCarry AddCIO) = op_def ''addcio'' 1 2 0 (OpFlags (flag_bits OPF_INT OR flag_bits OPF_CI OR flag_bits OPF_CO))"
  "def_of (OCarry AddC1O) = op_def ''addc1o'' 1 2 0 (flag_or OPF_INT OPF_CO)"
  "def_of (OCarry SubBO) = op_def ''subbo'' 1 2 0 (flag_or OPF_INT OPF_CO)"
  "def_of (OCarry SubBI) = op_def ''subbi'' 1 2 0 (flag_or OPF_INT OPF_CI)"
  "def_of (OCarry SubBIO) = op_def ''subbio'' 1 2 0 (OpFlags (flag_bits OPF_INT OR flag_bits OPF_CI OR flag_bits OPF_CO))"
  "def_of (OCarry SubB1O) = op_def ''subb1o'' 1 2 0 (flag_or OPF_INT OPF_CO)"
  "def_of (OLogic And) = op_def ''and'' 1 2 0 OPF_INT"
  "def_of (OLogic Or) = op_def ''or'' 1 2 0 OPF_INT"
  "def_of (OLogic Xor) = op_def ''xor'' 1 2 0 OPF_INT"
  "def_of (OLogic NotI) = op_def ''not'' 1 1 0 OPF_INT"
  "def_of (OLogic AndC) = op_def ''andc'' 1 2 0 OPF_INT"
  "def_of (OLogic OrC) = op_def ''orc'' 1 2 0 OPF_INT"
  "def_of (OLogic Eqv) = op_def ''eqv'' 1 2 0 OPF_INT"
  "def_of (OLogic Nand) = op_def ''nand'' 1 2 0 OPF_INT"
  "def_of (OLogic Nor) = op_def ''nor'' 1 2 0 OPF_INT"
  "def_of (OShift Shl) = op_def ''shl'' 1 2 0 OPF_INT"
  "def_of (OShift Shr) = op_def ''shr'' 1 2 0 OPF_INT"
  "def_of (OShift Sar) = op_def ''sar'' 1 2 0 OPF_INT"
  "def_of (OShift RotL) = op_def ''rotl'' 1 2 0 OPF_INT"
  "def_of (OShift RotR) = op_def ''rotr'' 1 2 0 OPF_INT"
  "def_of (OField Extract) = op_def ''extract'' 1 1 2 OPF_INT"
  "def_of (OField SExtract) = op_def ''sextract'' 1 1 2 OPF_INT"
  "def_of (OField Deposit) = op_def ''deposit'' 1 2 2 OPF_INT"
  "def_of (OField Extract2) = op_def ''extract2'' 1 2 1 OPF_INT"
  "def_of (OBswap Bswap16) = op_def ''bswap16'' 1 1 1 OPF_INT"
  "def_of (OBswap Bswap32) = op_def ''bswap32'' 1 1 1 OPF_INT"
  "def_of (OBswap Bswap64) = op_def ''bswap64'' 1 1 1 OPF_INT"
  "def_of (OCount Clz) = op_def ''clz'' 1 2 0 OPF_INT"
  "def_of (OCount Ctz) = op_def ''ctz'' 1 2 0 OPF_INT"
  "def_of (OCount CtPop) = op_def ''ctpop'' 1 1 0 OPF_INT"
  "def_of (OPair BrCond2I32) = op_def ''brcond2_i32'' 0 4 2 (OpFlags (flag_bits OPF_BE OR flag_bits OPF_CB))"
  "def_of (OPair SetCond2I32) = op_def ''setcond2_i32'' 1 4 1 OPF_N"
  "def_of (OConv ExtI32I64) = op_def ''ext_i32_i64'' 1 1 0 OPF_N"
  "def_of (OConv ExtUI32I64) = op_def ''extu_i32_i64'' 1 1 0 OPF_N"
  "def_of (OConv ExtrlI64I32) = op_def ''extrl_i64_i32'' 1 1 0 OPF_N"
  "def_of (OConv ExtrhI64I32) = op_def ''extrh_i64_i32'' 1 1 0 OPF_N"
  "def_of (OHost Ld8U) = op_def ''ld8u'' 1 1 1 OPF_INT"
  "def_of (OHost Ld8S) = op_def ''ld8s'' 1 1 1 OPF_INT"
  "def_of (OHost Ld16U) = op_def ''ld16u'' 1 1 1 OPF_INT"
  "def_of (OHost Ld16S) = op_def ''ld16s'' 1 1 1 OPF_INT"
  "def_of (OHost Ld32U) = op_def ''ld32u'' 1 1 1 OPF_INT"
  "def_of (OHost Ld32S) = op_def ''ld32s'' 1 1 1 OPF_INT"
  "def_of (OHost Ld) = op_def ''ld'' 1 1 1 OPF_INT"
  "def_of (OHost St8) = op_def ''st8'' 0 2 1 OPF_INT"
  "def_of (OHost St16) = op_def ''st16'' 0 2 1 OPF_INT"
  "def_of (OHost St32) = op_def ''st32'' 0 2 1 OPF_INT"
  "def_of (OHost St) = op_def ''st'' 0 2 1 OPF_INT"
  "def_of (OGuest QemuLd) = op_def ''qemu_ld'' 1 1 1 (OpFlags (flag_bits OPF_CC OR flag_bits OPF_SE OR flag_bits OPF_INT))"
  "def_of (OGuest QemuSt) = op_def ''qemu_st'' 0 2 1 (OpFlags (flag_bits OPF_CC OR flag_bits OPF_SE OR flag_bits OPF_INT))"
  "def_of (OGuest QemuLd2) = op_def ''qemu_ld2'' 2 1 1 (OpFlags (flag_bits OPF_CC OR flag_bits OPF_SE OR flag_bits OPF_INT))"
  "def_of (OGuest QemuSt2) = op_def ''qemu_st2'' 0 3 1 (OpFlags (flag_bits OPF_CC OR flag_bits OPF_SE OR flag_bits OPF_INT))"
  "def_of (OCtl Br) = op_def ''br'' 0 0 1 (flag_or OPF_BE OPF_NP)"
  "def_of (OCtl BrCond) = op_def ''brcond'' 0 2 2 (OpFlags (flag_bits OPF_BE OR flag_bits OPF_CB OR flag_bits OPF_INT))"
  "def_of (OCtl SetLabel) = op_def ''set_label'' 0 0 1 (flag_or OPF_BE OPF_NP)"
  "def_of (OCtl GotoTb) = op_def ''goto_tb'' 0 0 1 (OpFlags (flag_bits OPF_BX OR flag_bits OPF_BE OR flag_bits OPF_NP))"
  "def_of (OCtl ExitTb) = op_def ''exit_tb'' 0 0 1 (OpFlags (flag_bits OPF_BX OR flag_bits OPF_BE OR flag_bits OPF_NP))"
  "def_of (OCtl GotoPtr) = op_def ''goto_ptr'' 0 1 0 (flag_or OPF_BX OPF_BE)"
  "def_of (OCtl Mb) = op_def ''mb'' 0 0 1 OPF_NP"
  "def_of Call = op_def ''call'' 1 6 2 (flag_or OPF_CC OPF_NP)"
  "def_of (OPlugin PluginCb) = op_def ''plugin_cb'' 0 0 1 OPF_NP"
  "def_of (OPlugin PluginMemCb) = op_def ''plugin_mem_cb'' 0 1 1 OPF_NP"
  "def_of (OMisc Nop) = op_def ''nop'' 0 0 0 OPF_NP"
  "def_of (OMisc Discard) = op_def ''discard'' 1 0 0 OPF_NP"
  "def_of (OMisc InsnStart) = op_def ''insn_start'' 0 0 2 OPF_NP"
  "def_of (OVMov MovVec) = op_def ''mov_vec'' 1 1 0 (flag_or OPF_VC OPF_NP)"
  "def_of (OVMov DupVec) = op_def ''dup_vec'' 1 1 0 OPF_VC"
  "def_of (OVMov Dup2Vec) = op_def ''dup2_vec'' 1 2 0 OPF_VC"
  "def_of (OVMov LdVec) = op_def ''ld_vec'' 1 1 1 OPF_VC"
  "def_of (OVMov StVec) = op_def ''st_vec'' 0 2 1 OPF_VC"
  "def_of (OVMov DupmVec) = op_def ''dupm_vec'' 1 1 1 OPF_VC"
  "def_of (OVArith AddVec) = op_def ''add_vec'' 1 2 0 OPF_VC"
  "def_of (OVArith SubVec) = op_def ''sub_vec'' 1 2 0 OPF_VC"
  "def_of (OVArith MulVec) = op_def ''mul_vec'' 1 2 0 OPF_VC"
  "def_of (OVArith NegVec) = op_def ''neg_vec'' 1 1 0 OPF_VC"
  "def_of (OVArith AbsVec) = op_def ''abs_vec'' 1 1 0 OPF_VC"
  "def_of (OVArith SsaddVec) = op_def ''ssadd_vec'' 1 2 0 OPF_VC"
  "def_of (OVArith UsaddVec) = op_def ''usadd_vec'' 1 2 0 OPF_VC"
  "def_of (OVArith SssubVec) = op_def ''sssub_vec'' 1 2 0 OPF_VC"
  "def_of (OVArith UssubVec) = op_def ''ussub_vec'' 1 2 0 OPF_VC"
  "def_of (OVArith SminVec) = op_def ''smin_vec'' 1 2 0 OPF_VC"
  "def_of (OVArith UminVec) = op_def ''umin_vec'' 1 2 0 OPF_VC"
  "def_of (OVArith SmaxVec) = op_def ''smax_vec'' 1 2 0 OPF_VC"
  "def_of (OVArith UmaxVec) = op_def ''umax_vec'' 1 2 0 OPF_VC"
  "def_of (OVLogic AndVec) = op_def ''and_vec'' 1 2 0 OPF_VC"
  "def_of (OVLogic OrVec) = op_def ''or_vec'' 1 2 0 OPF_VC"
  "def_of (OVLogic XorVec) = op_def ''xor_vec'' 1 2 0 OPF_VC"
  "def_of (OVLogic AndcVec) = op_def ''andc_vec'' 1 2 0 OPF_VC"
  "def_of (OVLogic OrcVec) = op_def ''orc_vec'' 1 2 0 OPF_VC"
  "def_of (OVLogic NandVec) = op_def ''nand_vec'' 1 2 0 OPF_VC"
  "def_of (OVLogic NorVec) = op_def ''nor_vec'' 1 2 0 OPF_VC"
  "def_of (OVLogic EqvVec) = op_def ''eqv_vec'' 1 2 0 OPF_VC"
  "def_of (OVLogic NotVec) = op_def ''not_vec'' 1 1 0 OPF_VC"
  "def_of (OVShiftI ShliVec) = op_def ''shli_vec'' 1 1 1 OPF_VC"
  "def_of (OVShiftI ShriVec) = op_def ''shri_vec'' 1 1 1 OPF_VC"
  "def_of (OVShiftI SariVec) = op_def ''sari_vec'' 1 1 1 OPF_VC"
  "def_of (OVShiftI RotliVec) = op_def ''rotli_vec'' 1 1 1 OPF_VC"
  "def_of (OVShiftS ShlsVec) = op_def ''shls_vec'' 1 2 0 OPF_VC"
  "def_of (OVShiftS ShrsVec) = op_def ''shrs_vec'' 1 2 0 OPF_VC"
  "def_of (OVShiftS SarsVec) = op_def ''sars_vec'' 1 2 0 OPF_VC"
  "def_of (OVShiftS RotlsVec) = op_def ''rotls_vec'' 1 2 0 OPF_VC"
  "def_of (OVShiftV ShlvVec) = op_def ''shlv_vec'' 1 2 0 OPF_VC"
  "def_of (OVShiftV ShrvVec) = op_def ''shrv_vec'' 1 2 0 OPF_VC"
  "def_of (OVShiftV SarvVec) = op_def ''sarv_vec'' 1 2 0 OPF_VC"
  "def_of (OVShiftV RotlvVec) = op_def ''rotlv_vec'' 1 2 0 OPF_VC"
  "def_of (OVShiftV RotrvVec) = op_def ''rotrv_vec'' 1 2 0 OPF_VC"
  "def_of (OVCmp CmpVec) = op_def ''cmp_vec'' 1 2 1 OPF_VC"
  "def_of (OVCmp BitselVec) = op_def ''bitsel_vec'' 1 3 0 OPF_VC"
  "def_of (OVCmp CmpselVec) = op_def ''cmpsel_vec'' 1 4 1 OPF_VC"
  by (simp_all add: def_of_def table_defs)

lemma opcode_listed: "OPCODES ! as_usize opc = opc \<and> as_usize opc < 128"
proof (cases opc)
  case Call
  then show ?thesis by (simp add: OPCODES_def)
qed (rename_tac x, case_tac x, simp_all add: OPCODES_def)+

lemma as_usize_bound [simp]: "as_usize opc < 128"
  by (simp add: opcode_listed)

lemma OPCODES_as_usize [simp]: "OPCODES ! as_usize opc = opc"
  by (simp add: opcode_listed)

lemma as_usize_inject [simp]: "as_usize a = as_usize b \<longleftrightarrow> a = b"
  by (metis OPCODES_as_usize)

text \<open>Every opcode is in the list, so a fact on all opcodes is a check of the list.\<close>

lemma in_OPCODES: "opc \<in> set OPCODES"
  using nth_mem [of "as_usize opc" OPCODES] by simp

definition flags_ok :: "OpFlags \<Rightarrow> bool" where
  "flags_ok fl \<longleftrightarrow>
     (flags_contains fl BB_EXIT \<longrightarrow> flags_contains fl BB_END) \<and>
     (flags_contains fl COND_BRANCH \<longrightarrow> flags_contains fl BB_END) \<and>
     \<not> (flags_contains fl VECTOR \<and> flags_contains fl INT_FLAG)"

lemma flags_ok_plain: "flags_ok VECTOR" "flags_ok INT_FLAG" "flags_ok (OpFlags 0)"
  by (simp_all add: flags_ok_def flag_defs)

lemma all_flags_ok: "flags_ok (op_flags (def_of opc))"
proof -
  have "list_all (\<lambda>opc. flags_ok (op_flags (def_of opc))) OPCODES"
    by (simp add: OPCODES_def flags_ok_plain) (simp add: flags_ok_def flag_defs)
  then show ?thesis using in_OPCODES [of opc] by (simp add: list_all_iff)
qed

lemma arg_counts: "nb_args (def_of opc) \<le> 10 \<and> nb_oargs (def_of opc) \<le> 2"
proof -
  have "list_all (\<lambda>opc. nb_args (def_of opc) \<le> 10 \<and> nb_oargs (def_of opc) \<le> 2) OPCODES"
    by (simp add: OPCODES_def nb_args_def)
  then show ?thesis using in_OPCODES [of opc] by (simp add: list_all_iff)
qed

lemma fixed_type_not_int: "fixed_type opc \<noteq> None \<Longrightarrow> \<not> is_int_polymorphic opc"
  by (auto simp: fixed_type_def is_int_polymorphic_def flag_defs split: if_splits)

text \<open>The name of a table entry is the name of its variant in lower case, up to underscores.\<close>

definition ascii_lower :: "char \<Rightarrow> char" where
  "ascii_lower c =
     (if 65 \<le> (of_char c :: nat) \<and> of_char c \<le> (90 :: nat)
      then (case c of Char b0 b1 b2 b3 b4 _ b6 b7 \<Rightarrow> Char b0 b1 b2 b3 b4 True b6 b7) else c)"

definition names_variant :: "Opcode \<Rightarrow> OpDef \<Rightarrow> bool" where
  "names_variant opc d \<longleftrightarrow> filter (\<lambda>c. c \<noteq> CHR ''_'') (op_name d) = map ascii_lower (variant_name opc)"

lemma defs_named: "names_variant opc (def_of opc)"
proof -
  have "list_all (\<lambda>opc. names_variant opc (def_of opc)) OPCODES"
    by (simp add: OPCODES_def names_variant_def ascii_lower_def)
  then show ?thesis using in_OPCODES [of opc] by (simp add: list_all_iff)
qed

lemma names_distinct: "distinct (map op_name OPCODE_DEFS)"
  by (simp add: table_defs)

section \<open>Properties\<close>

text \<open>
  C38: the definition table is consistent with the enum: it has \<open>Opcode::Count\<close> entries, with distinct names, and
  the entry at \<open>opc as usize\<close> is the one that carries the name of the variant \<open>opc\<close>; no opcode has more than ten arguments (the size of an
  op's argument array) or more than two outputs (the size of its preference array); an opcode
  that exits the block or branches conditionally ends its basic block; vector opcodes and
  opcodes of a fixed type are not marked integer-polymorphic.
\<close>

theorem opcode_table_consistent:
  "length OPCODE_DEFS = Opcode_Count \<and> as_usize opc < Opcode_Count \<and> distinct (map op_name OPCODE_DEFS) \<and>
   filter (\<lambda>c. c \<noteq> CHR ''_'') (op_name (OPCODE_DEFS ! as_usize opc)) = map ascii_lower (variant_name opc) \<and>
   nb_args (def_of opc) \<le> 10 \<and> nb_oargs (def_of opc) \<le> 2 \<and>
   (flags_contains (op_flags (def_of opc)) BB_EXIT \<longrightarrow> flags_contains (op_flags (def_of opc)) BB_END) \<and>
   (flags_contains (op_flags (def_of opc)) COND_BRANCH \<longrightarrow> flags_contains (op_flags (def_of opc)) BB_END) \<and>
   \<not> (opc_is_vector opc \<and> is_int_polymorphic opc) \<and>
   (fixed_type opc \<noteq> None \<longrightarrow> \<not> is_int_polymorphic opc)"
  using all_flags_ok [of opc] arg_counts [of opc] fixed_type_not_int [of opc] names_distinct defs_named [of opc, unfolded names_variant_def def_of_def]
  by (simp add: flags_ok_def opc_is_vector_def is_int_polymorphic_def Opcode_Count_def)

theorem opcode_table_consistent_witness:
  "flags_contains (op_flags (def_of (OCtl ExitTb))) BB_EXIT \<and>
   flags_contains (op_flags (def_of (OCtl ExitTb))) BB_END \<and>
   fixed_type (OConv ExtI32I64) = Some I64 \<and> \<not> is_int_polymorphic (OConv ExtI32I64)"
  using opcode_table_consistent [of "OCtl ExitTb"] opcode_table_consistent [of "OConv ExtI32I64"]
  by (simp add: flag_defs fixed_type_def)

end
