(* ===== verification/IR.thy ===== *)
theory IR
  imports Opcode
begin

text \<open>
  The data of the intermediate representation and the translation context that owns it:
  temporaries (\<open>core/src/temp.rs\<close>), operations and liveness data (\<open>core/src/op.rs\<close>),
  labels (\<open>core/src/label.rs\<close>) and \<open>Context\<close> (\<open>core/src/context.rs\<close>).

  A \<open>TempIdx\<close> is the 32-bit index of the source, and reading the pool with it is
  \<open>unat\<close>; constant arguments of an op are encoded in the same type. The array of hash
  maps \<open>const_table\<close> is a map per \<open>Type\<close>. Methods that mutate the context and
  cannot panic are programs of the state monad over \<open>Context\<close>; the ones with an
  \<open>assert!\<close> return an option.
\<close>

type_synonym tempidx = u32
type_synonym i64 = "64 word"

section \<open>Temporaries\<close>

datatype TempKind = Ebb | Tb | Global | Fixed | Const

record Temp =
  t_idx :: tempidx
  t_ty :: Type
  t_base_type :: Type
  t_kind :: TempKind
  t_val_type :: TempVal
  t_reg :: "u8 option"
  t_mem_coherent :: bool
  t_mem_allocated :: bool
  t_val :: u64
  t_mem_base :: "tempidx option"
  t_mem_offset :: i64
  t_name :: "string option"

definition temp_new_ebb :: "tempidx \<Rightarrow> Type \<Rightarrow> Temp" where
  "temp_new_ebb idx ty = \<lparr>t_idx = idx, t_ty = ty, t_base_type = ty, t_kind = Ebb,
     t_val_type = Dead, t_reg = None, t_mem_coherent = False, t_mem_allocated = False,
     t_val = 0, t_mem_base = None, t_mem_offset = 0, t_name = None\<rparr>"

definition temp_new_tb :: "tempidx \<Rightarrow> Type \<Rightarrow> Temp" where
  "temp_new_tb idx ty = (temp_new_ebb idx ty)\<lparr>t_kind := Tb\<rparr>"

definition temp_new_const :: "tempidx \<Rightarrow> Type \<Rightarrow> u64 \<Rightarrow> Temp" where
  "temp_new_const idx ty val = \<lparr>t_idx = idx, t_ty = ty, t_base_type = ty, t_kind = Const,
     t_val_type = ConstVal, t_reg = None, t_mem_coherent = False, t_mem_allocated = False,
     t_val = val, t_mem_base = None, t_mem_offset = 0, t_name = None\<rparr>"

definition temp_new_global :: "tempidx \<Rightarrow> Type \<Rightarrow> tempidx \<Rightarrow> i64 \<Rightarrow> string \<Rightarrow> Temp" where
  "temp_new_global idx ty base offset name = \<lparr>t_idx = idx, t_ty = ty, t_base_type = ty,
     t_kind = Global, t_val_type = Mem, t_reg = None, t_mem_coherent = True,
     t_mem_allocated = True, t_val = 0, t_mem_base = Some base, t_mem_offset = offset,
     t_name = Some name\<rparr>"

definition temp_new_fixed :: "tempidx \<Rightarrow> Type \<Rightarrow> u8 \<Rightarrow> string \<Rightarrow> Temp" where
  "temp_new_fixed idx ty reg name = \<lparr>t_idx = idx, t_ty = ty, t_base_type = ty,
     t_kind = Fixed, t_val_type = Reg, t_reg = Some reg, t_mem_coherent = False,
     t_mem_allocated = False, t_val = 0, t_mem_base = None, t_mem_offset = 0,
     t_name = Some name\<rparr>"

definition is_const :: "Temp \<Rightarrow> bool" where
  "is_const t = (t_kind t = Const)"

definition is_global :: "Temp \<Rightarrow> bool" where
  "is_global t = (t_kind t = Global)"

definition is_fixed :: "Temp \<Rightarrow> bool" where
  "is_fixed t = (t_kind t = Fixed)"

definition is_global_or_fixed :: "Temp \<Rightarrow> bool" where
  "is_global_or_fixed t = (t_kind t \<in> {Global, Fixed})"

lemmas temp_defs [model_defs] = temp_new_ebb_def temp_new_tb_def temp_new_const_def
  temp_new_global_def temp_new_fixed_def is_const_def is_global_def is_fixed_def
  is_global_or_fixed_def

section \<open>Operations\<close>

definition MAX_OP_ARGS :: nat where
  "MAX_OP_ARGS = 10"

text \<open>\<open>LifeData\<close>: two bits per argument, \<open>dead\<close> and \<open>sync\<close>.\<close>

datatype LifeData = LifeData (life_bits: u32)

definition dead_arg :: "nat \<Rightarrow> u32" where
  "dead_arg n = push_bit (n * 2) 1"

definition sync_arg :: "nat \<Rightarrow> u32" where
  "sync_arg n = push_bit (n * 2 + 1) 1"

definition is_dead :: "LifeData \<Rightarrow> nat \<Rightarrow> bool" where
  "is_dead l n = (life_bits l AND dead_arg n \<noteq> 0)"

definition is_sync :: "LifeData \<Rightarrow> nat \<Rightarrow> bool" where
  "is_sync l n = (life_bits l AND sync_arg n \<noteq> 0)"

definition set_dead :: "LifeData \<Rightarrow> nat \<Rightarrow> LifeData" where
  "set_dead l n = LifeData (life_bits l OR dead_arg n)"

definition set_sync :: "LifeData \<Rightarrow> nat \<Rightarrow> LifeData" where
  "set_sync l n = LifeData (life_bits l OR sync_arg n)"

record Op =
  o_idx :: u32
  o_opc :: Opcode
  o_type :: Type
  o_param1 :: u8
  o_param2 :: u8
  o_life :: LifeData
  o_output_pref :: "RegSet list"
  o_args :: "tempidx list"
  o_nargs :: u8

definition op_new :: "u32 \<Rightarrow> Opcode \<Rightarrow> Type \<Rightarrow> Op" where
  "op_new idx opc ty = \<lparr>o_idx = idx, o_opc = opc, o_type = ty, o_param1 = 0, o_param2 = 0,
     o_life = LifeData 0, o_output_pref = replicate 2 rs_EMPTY,
     o_args = replicate MAX_OP_ARGS 0, o_nargs = 0\<rparr>"

definition op_with_args :: "u32 \<Rightarrow> Opcode \<Rightarrow> Type \<Rightarrow> tempidx list \<Rightarrow> Op" where
  "op_with_args idx opc ty args =
     (let n = min (length args) MAX_OP_ARGS
      in (op_new idx opc ty)\<lparr>o_args := take n args @ replicate (MAX_OP_ARGS - n) 0,
                             o_nargs := of_nat n\<rparr>)"

text \<open>
  The slices \<open>oargs\<close>, \<open>iargs\<close>, \<open>cargs\<close> of the argument array that the opcode's
  definition prescribes.
\<close>

definition oargs :: "Op \<Rightarrow> tempidx list" where
  "oargs op = take (nb_oargs (def_of (o_opc op))) (o_args op)"

definition iargs :: "Op \<Rightarrow> tempidx list" where
  "iargs op =
     (let d = def_of (o_opc op) in take (nb_iargs d) (drop (nb_oargs d) (o_args op)))"

definition cargs :: "Op \<Rightarrow> tempidx list" where
  "cargs op =
     (let d = def_of (o_opc op)
      in take (nb_cargs d) (drop (nb_oargs d + nb_iargs d) (o_args op)))"

section \<open>Labels\<close>

datatype RelocKind = Rel32

record LabelUse =
  u_offset :: nat
  u_kind :: RelocKind

record Label =
  l_id :: u32
  l_present :: bool
  l_has_value :: bool
  l_value :: nat
  l_uses :: "LabelUse list"

definition label_new :: "u32 \<Rightarrow> Label" where
  "label_new i = \<lparr>l_id = i, l_present = False, l_has_value = False, l_value = 0, l_uses = []\<rparr>"

definition add_use :: "Label \<Rightarrow> nat \<Rightarrow> RelocKind \<Rightarrow> Label" where
  "add_use l off k = l\<lparr>l_uses := l_uses l @ [\<lparr>u_offset = off, u_kind = k\<rparr>]\<rparr>"

definition set_value :: "Label \<Rightarrow> nat \<Rightarrow> Label" where
  "set_value l off = l\<lparr>l_present := True, l_has_value := True, l_value := off\<rparr>"

definition has_pending_uses :: "Label \<Rightarrow> bool" where
  "has_pending_uses l = (l_uses l \<noteq> [] \<and> \<not> l_has_value l)"

section \<open>Context\<close>

record Context =
  temps :: "Temp list"
  ops :: "Op list"
  labels :: "Label list"
  nb_globals :: u32
  frame_reg :: "u8 option"
  frame_start :: i64
  frame_end :: i64
  frame_alloc_end :: i64
  reserved_regs :: RegSet
  const_table :: "Type \<Rightarrow> u64 \<rightharpoonup> tempidx"
  gen_insn_end_off :: "u16 list"
  tb_idx :: u32

definition context_new :: Context where
  "context_new = \<lparr>temps = [], ops = [], labels = [], nb_globals = 0, frame_reg = None,
     frame_start = 0, frame_end = 0, frame_alloc_end = 0, reserved_regs = rs_EMPTY,
     const_table = (\<lambda>_. Map.empty), gen_insn_end_off = [], tb_idx = 0\<rparr>"

text \<open>\<open>reset\<close>: keep the globals, put their allocator state back to memory.\<close>

definition reset_temp :: "Temp \<Rightarrow> Temp" where
  "reset_temp t =
     (case t_kind t of
        Fixed \<Rightarrow> t\<lparr>t_mem_coherent := False\<rparr>
      | Global \<Rightarrow> t\<lparr>t_val_type := Mem, t_reg := None, t_mem_coherent := True\<rparr>
      | _ \<Rightarrow> t)"

definition reset :: "Context \<Rightarrow> Context" where
  "reset c = c\<lparr>temps := map reset_temp (take (unat (nb_globals c)) (temps c)),
     ops := [], labels := [], const_table := (\<lambda>_. Map.empty), gen_insn_end_off := [],
     frame_alloc_end := frame_start c\<rparr>"

definition nb_temps :: "Context \<Rightarrow> u32" where
  "nb_temps c = of_nat (length (temps c))"

definition new_temp :: "Type \<Rightarrow> (Context, tempidx) state" where
  "new_temp ty = State (\<lambda>c.
     let idx = of_nat (length (temps c))
     in (idx, c\<lparr>temps := temps c @ [temp_new_ebb idx ty]\<rparr>))"

definition new_temp_tb :: "Type \<Rightarrow> (Context, tempidx) state" where
  "new_temp_tb ty = State (\<lambda>c.
     let idx = of_nat (length (temps c))
     in (idx, c\<lparr>temps := temps c @ [temp_new_tb idx ty]\<rparr>))"

definition new_const :: "Type \<Rightarrow> u64 \<Rightarrow> (Context, tempidx) state" where
  "new_const ty val = State (\<lambda>c.
     case const_table c ty val of
       Some existing \<Rightarrow> (existing, c)
     | None \<Rightarrow>
         (let idx = of_nat (length (temps c))
          in (idx, c\<lparr>temps := temps c @ [temp_new_const idx ty val],
                     const_table := (const_table c)(ty := (const_table c ty)(val \<mapsto> idx))\<rparr>)))"

definition new_global :: "Type \<Rightarrow> tempidx \<Rightarrow> i64 \<Rightarrow> string \<Rightarrow> Context \<Rightarrow> (tempidx \<times> Context) option" where
  "new_global ty base offset name c = do {
     assert_that (of_nat (length (temps c)) = nb_globals c);
     let idx = of_nat (length (temps c));
     Some (idx, c\<lparr>temps := temps c @ [temp_new_global idx ty base offset name],
                  nb_globals := nb_globals c + 1\<rparr>)
   }"

definition new_fixed :: "Type \<Rightarrow> u8 \<Rightarrow> string \<Rightarrow> Context \<Rightarrow> (tempidx \<times> Context) option" where
  "new_fixed ty reg name c = do {
     assert_that (of_nat (length (temps c)) = nb_globals c);
     let idx = of_nat (length (temps c));
     Some (idx, c\<lparr>temps := temps c @ [temp_new_fixed idx ty reg name],
                  nb_globals := nb_globals c + 1\<rparr>)
   }"

definition temp :: "Context \<Rightarrow> tempidx \<Rightarrow> Temp option" where
  "temp c idx = index (temps c) (unat idx)"

definition set_temp :: "Context \<Rightarrow> tempidx \<Rightarrow> Temp \<Rightarrow> Context option" where
  "set_temp c idx t = do { ts \<leftarrow> index_set (temps c) (unat idx) t; Some (c\<lparr>temps := ts\<rparr>) }"

definition globals :: "Context \<Rightarrow> Temp list" where
  "globals c = take (unat (nb_globals c)) (temps c)"

definition next_op_idx :: "(Context, u32) state" where
  "next_op_idx = State (\<lambda>c. (of_nat (length (ops c)), c))"

definition emit_op :: "Op \<Rightarrow> (Context, u32) state" where
  "emit_op op = State (\<lambda>c. (o_idx op, c\<lparr>ops := ops c @ [op]\<rparr>))"

definition op_at :: "Context \<Rightarrow> u32 \<Rightarrow> Op option" where
  "op_at c idx = index (ops c) (unat idx)"

definition set_op :: "Context \<Rightarrow> u32 \<Rightarrow> Op \<Rightarrow> Context option" where
  "set_op c idx op = do { os \<leftarrow> index_set (ops c) (unat idx) op; Some (c\<lparr>ops := os\<rparr>) }"

definition new_label :: "(Context, u32) state" where
  "new_label = State (\<lambda>c.
     let i = of_nat (length (labels c)) in (i, c\<lparr>labels := labels c @ [label_new i]\<rparr>))"

definition label :: "Context \<Rightarrow> u32 \<Rightarrow> Label option" where
  "label c i = index (labels c) (unat i)"

definition set_label :: "Context \<Rightarrow> u32 \<Rightarrow> Label \<Rightarrow> Context option" where
  "set_label c i l = do { ls \<leftarrow> index_set (labels c) (unat i) l; Some (c\<lparr>labels := ls\<rparr>) }"

definition set_frame :: "u8 \<Rightarrow> i64 \<Rightarrow> i64 \<Rightarrow> Context \<Rightarrow> Context" where
  "set_frame reg start sz c = c\<lparr>frame_reg := Some reg, frame_start := start,
     frame_end := start + sz, frame_alloc_end := start\<rparr>"

definition alloc_temp_frame :: "tempidx \<Rightarrow> Context \<Rightarrow> (i64 \<times> Context) option" where
  "alloc_temp_frame tidx c = do {
     t \<leftarrow> temp c tidx;
     if t_mem_allocated t then Some (t_mem_offset t, c)
     else do {
       let sz = (ucast (size_bytes (t_ty t)) :: i64);
       let offset = (frame_alloc_end c + sz - 1) AND NOT (sz - 1);
       let alloc_end = offset + sz;
       assert_that (sint alloc_end \<le> sint (frame_end c));
       c' \<leftarrow> set_temp (c\<lparr>frame_alloc_end := alloc_end\<rparr>) tidx
               (t\<lparr>t_mem_allocated := True, t_mem_offset := offset\<rparr>);
       Some (offset, c')
     }
   }"

definition from_raw_parts :: "Temp list \<Rightarrow> Op list \<Rightarrow> Label list \<Rightarrow> u32 \<Rightarrow> Context" where
  "from_raw_parts ts os ls n = context_new\<lparr>temps := ts, ops := os, labels := ls, nb_globals := n\<rparr>"


section \<open>Well-formed contexts\<close>

text \<open>
  The invariant of a context under translation: temps and ops are numbered by their
  position, the globals (and fixed temps) are exactly the first \<open>nb_globals\<close> temps, every
  entry of the constant table points at a constant temp of that type and value, and every
  constant temp is in the table, so constants are never duplicated.
\<close>

definition ctx_wf :: "Context \<Rightarrow> bool" where
  "ctx_wf c \<longleftrightarrow>
     length (temps c) < 2 ^ 32 \<and> length (ops c) < 2 ^ 32 \<and> unat (nb_globals c) \<le> length (temps c) \<and>
     (\<forall>i < length (temps c). t_idx (temps c ! i) = of_nat i) \<and>
     (\<forall>i < length (temps c). is_global_or_fixed (temps c ! i) \<longleftrightarrow> i < unat (nb_globals c)) \<and>
     (\<forall>i < length (ops c). o_idx (ops c ! i) = of_nat i) \<and>
     (\<forall>ty v t. const_table c ty v = Some t \<longrightarrow>
        unat t < length (temps c) \<and> is_const (temps c ! unat t) \<and>
        t_ty (temps c ! unat t) = ty \<and> t_val (temps c ! unat t) = v) \<and>
     (\<forall>i < length (temps c). is_const (temps c ! i) \<longrightarrow>
        const_table c (t_ty (temps c ! i)) (t_val (temps c ! i)) = Some (of_nat i))"

text \<open>
  An executable form of the invariant, for concrete contexts: \<open>ks\<close> lists the keys of the
  constant table.
\<close>

definition ctx_check :: "(Type \<times> u64) list \<Rightarrow> Context \<Rightarrow> bool" where
  "ctx_check ks c \<longleftrightarrow>
     unat (nb_globals c) \<le> length (temps c) \<and>
     (\<forall>i \<in> set [0..<length (temps c)].
        t_idx (temps c ! i) = of_nat i \<and> (is_global_or_fixed (temps c ! i) \<longleftrightarrow> i < unat (nb_globals c)) \<and>
        (is_const (temps c ! i) \<longrightarrow> const_table c (t_ty (temps c ! i)) (t_val (temps c ! i)) = Some (of_nat i))) \<and>
     (\<forall>i \<in> set [0..<length (ops c)]. o_idx (ops c ! i) = of_nat i) \<and>
     (\<forall>k \<in> set ks.
        case const_table c (fst k) (snd k) of
          None \<Rightarrow> True
        | Some t \<Rightarrow> unat t < length (temps c) \<and> is_const (temps c ! unat t) \<and>
            t_ty (temps c ! unat t) = fst k \<and> t_val (temps c ! unat t) = snd k)"

lemma ctx_wf_check:
  assumes "ctx_check ks c" "\<And>ty v t. const_table c ty v = Some t \<Longrightarrow> (ty, v) \<in> set ks"
    "length (temps c) < 2 ^ 32" "length (ops c) < 2 ^ 32"
  shows "ctx_wf c"
proof -
  have "unat t < length (temps c) \<and> is_const (temps c ! unat t) \<and> t_ty (temps c ! unat t) = ty \<and> t_val (temps c ! unat t) = v"
    if "const_table c ty v = Some t" for ty v t
    using assms(1) assms(2) [OF that] that unfolding ctx_check_def by force
  with assms(1,3,4) show ?thesis unfolding ctx_wf_def ctx_check_def by simp
qed

text \<open>Room for one more temp, or one more op, before the 32-bit index would wrap.\<close>

abbreviation room :: "Context \<Rightarrow> bool" where
  "room c \<equiv> Suc (length (temps c)) < 2 ^ 32"

abbreviation op_room :: "Context \<Rightarrow> bool" where
  "op_room c \<equiv> Suc (length (ops c)) < 2 ^ 32"

lemma ctx_wf_new [wf_intros]: "ctx_wf context_new"
  by (simp add: ctx_wf_def context_new_def)

lemma ctx_wf_unat: "ctx_wf c \<Longrightarrow> unat (of_nat (length (temps c)) :: u32) = length (temps c)"
  by (simp add: ctx_wf_def)

lemma reset_temp_simps [simp]:
  "t_idx (reset_temp t) = t_idx t" "t_kind (reset_temp t) = t_kind t"
  "is_const (reset_temp t) = is_const t" "is_global_or_fixed (reset_temp t) = is_global_or_fixed t"
  by (simp_all add: reset_temp_def is_const_def is_global_or_fixed_def split: TempKind.splits)

lemma global_not_const: "is_global_or_fixed t \<Longrightarrow> \<not> is_const t"
  by (auto simp: model_defs)

lemma ctx_wf_reset [wf_intros]: "ctx_wf c \<Longrightarrow> ctx_wf (reset c)"
  by (auto simp: ctx_wf_def reset_def global_not_const)

lemma ctx_wf_push_local:
  assumes "ctx_wf c" "room c" "t_idx t = of_nat (length (temps c))" "t_kind t \<in> {Ebb, Tb}"
  shows "ctx_wf (c\<lparr>temps := temps c @ [t]\<rparr>)"
  using assms by (auto simp: ctx_wf_def nth_append model_defs less_Suc_eq)

lemma ctx_wf_new_temp [wf_intros]:
  assumes "ctx_wf c" "room c"
  shows "ctx_wf (snd (run_state (new_temp ty) c))"
  using assms ctx_wf_push_local [OF assms] by (simp add: new_temp_def Let_def model_defs)

lemma ctx_wf_new_temp_tb [wf_intros]:
  assumes "ctx_wf c" "room c"
  shows "ctx_wf (snd (run_state (new_temp_tb ty) c))"
  using assms ctx_wf_push_local [OF assms] by (simp add: new_temp_tb_def Let_def model_defs)

lemma ctx_wf_const_fresh:
  assumes "ctx_wf c" "const_table c ty v = None" "i < length (temps c)"
  shows "\<not> (is_const (temps c ! i) \<and> t_ty (temps c ! i) = ty \<and> t_val (temps c ! i) = v)"
  using assms by (auto simp: ctx_wf_def)

lemma ctx_wf_new_const [wf_intros]:
  assumes "ctx_wf c" "room c"
  shows "ctx_wf (snd (run_state (new_const ty v) c))"
  using assms ctx_wf_const_fresh [OF assms(1), of ty v]
  by (cases "const_table c ty v")
    (auto simp: ctx_wf_def new_const_def Let_def nth_append model_defs less_Suc_eq)

lemma ctx_wf_emit_op [wf_intros]:
  assumes "ctx_wf c" "op_room c" "o_idx op = of_nat (length (ops c))"
  shows "ctx_wf (snd (run_state (emit_op op) c))"
  using assms by (auto simp: ctx_wf_def emit_op_def nth_append less_Suc_eq)

lemma ctx_wf_new_label [wf_intros]: "ctx_wf c \<Longrightarrow> ctx_wf (snd (run_state new_label c))"
  by (simp add: ctx_wf_def new_label_def Let_def)

lemma ctx_wf_push_global:
  assumes "ctx_wf c" "room c" "of_nat (length (temps c)) = nb_globals c"
    "t_idx t = of_nat (length (temps c))" "t_kind t \<in> {Global, Fixed}"
  shows "ctx_wf (c\<lparr>temps := temps c @ [t], nb_globals := nb_globals c + 1\<rparr>)"
proof -
  have n: "unat (nb_globals c) = length (temps c)"
    using assms(1) by (simp add: ctx_wf_unat flip: assms(3))
  have "nb_globals c + 1 = of_nat (Suc (length (temps c)))"
    by (simp flip: assms(3))
  then have Suc: "unat (nb_globals c + 1) = Suc (length (temps c))"
    using assms(2) by (simp del: of_nat_Suc)
  have "is_global_or_fixed t" "\<not> is_const t" using assms(5) by (auto simp: model_defs)
  then show ?thesis
    using assms(1,2,4) unfolding ctx_wf_def by (auto simp: n Suc nth_append less_Suc_eq)
qed

lemma ctx_wf_new_global [wf_intros]:
  assumes "ctx_wf c" "room c" "new_global ty base off name c = Some (t, c')"
  shows "ctx_wf c'"
  using assms ctx_wf_push_global [OF assms(1,2)]
  by (auto simp: new_global_def Let_def model_defs split: if_splits)

lemma ctx_wf_new_fixed [wf_intros]:
  assumes "ctx_wf c" "room c" "new_fixed ty reg name c = Some (t, c')"
  shows "ctx_wf c'"
  using assms ctx_wf_push_global [OF assms(1,2)]
  by (auto simp: new_fixed_def Let_def model_defs split: if_splits)

text \<open>What \<open>new_const\<close> returns: a constant temp of the wanted type and value.\<close>

lemma new_const_result:
  assumes "ctx_wf c" "room c" "run_state (new_const ty v) c = (t, c')"
  shows "unat t < length (temps c')" "is_const (temps c' ! unat t)"
    "t_ty (temps c' ! unat t) = ty" "t_val (temps c' ! unat t) = v"
    "const_table c' ty v = Some t" "take (length (temps c)) (temps c') = temps c"
    "ops c' = ops c"
proof -
  have "unat t < length (temps c') \<and> is_const (temps c' ! unat t) \<and> t_ty (temps c' ! unat t) = ty
    \<and> t_val (temps c' ! unat t) = v \<and> const_table c' ty v = Some t
    \<and> take (length (temps c)) (temps c') = temps c \<and> ops c' = ops c"
    using assms by (cases "const_table c ty v")
      (auto simp: new_const_def Let_def ctx_wf_def nth_append model_defs)
  then show "unat t < length (temps c')" "is_const (temps c' ! unat t)"
    "t_ty (temps c' ! unat t) = ty" "t_val (temps c' ! unat t) = v"
    "const_table c' ty v = Some t" "take (length (temps c)) (temps c') = temps c"
    "ops c' = ops c"
    by simp_all
qed

lemma new_const_known: "const_table c ty v = Some t \<Longrightarrow> run_state (new_const ty v) c = (t, c)"
  by (simp add: new_const_def)

section \<open>Spill slots\<close>

text \<open>
  A slot is the byte range a spilled local occupies in the frame. The frame invariant: the
  allocated slots lie in the used part of the spill area, are aligned to their size and do
  not overlap.
\<close>

definition slot_size :: "Temp \<Rightarrow> int" where
  "slot_size t = uint (size_bytes (t_ty t))"

definition has_slot :: "Temp \<Rightarrow> bool" where
  "has_slot t = (\<not> is_global_or_fixed t \<and> t_mem_allocated t)"

definition in_frame :: "i64 \<Rightarrow> i64 \<Rightarrow> Temp \<Rightarrow> bool" where
  "in_frame lo hi t \<longleftrightarrow>
     sint lo \<le> sint (t_mem_offset t) \<and> sint (t_mem_offset t) + slot_size t \<le> sint hi \<and>
     slot_size t dvd sint (t_mem_offset t)"

definition slots_disjoint :: "Temp \<Rightarrow> Temp \<Rightarrow> bool" where
  "slots_disjoint t u \<longleftrightarrow>
     sint (t_mem_offset t) + slot_size t \<le> sint (t_mem_offset u) \<or>
     sint (t_mem_offset u) + slot_size u \<le> sint (t_mem_offset t)"

definition frame_inv :: "Context \<Rightarrow> bool" where
  "frame_inv c \<longleftrightarrow>
     0 \<le> sint (frame_start c) \<and> sint (frame_start c) \<le> sint (frame_alloc_end c) \<and>
     sint (frame_alloc_end c) \<le> sint (frame_end c) \<and> sint (frame_end c) < 2 ^ 62 \<and>
     (\<forall>i < length (temps c). has_slot (temps c ! i) \<longrightarrow>
        in_frame (frame_start c) (frame_alloc_end c) (temps c ! i)) \<and>
     (\<forall>i < length (temps c). \<forall>j < length (temps c). i \<noteq> j \<longrightarrow>
        has_slot (temps c ! i) \<longrightarrow> has_slot (temps c ! j) \<longrightarrow>
        slots_disjoint (temps c ! i) (temps c ! j))"

lemma in_frame_mono: "in_frame lo hi t \<Longrightarrow> sint hi \<le> sint hi' \<Longrightarrow> in_frame lo hi' t"
  by (auto simp: in_frame_def)

lemma in_frame_disjoint:
  "in_frame lo hi t \<Longrightarrow> sint hi \<le> sint (t_mem_offset u) \<Longrightarrow> slots_disjoint t u \<and> slots_disjoint u t"
  by (auto simp: in_frame_def slots_disjoint_def)

text \<open>Rounding up to a power of two with the mask idiom of the source.\<close>

lemma int_and_not_mask: "(k :: int) AND NOT (mask n) = 2 ^ n * (k div 2 ^ n)"
proof -
  have "k AND NOT (mask n) = push_bit n (drop_bit n k)"
    by (rule bit_eqI) (auto simp: bit_simps)
  then show ?thesis by (simp add: push_bit_eq_mult drop_bit_eq_div mult.commute)
qed

lemma uint_and_not_mask:
  fixes x :: "'a::len word"
  shows "uint (x AND NOT (mask n)) = 2 ^ n * (uint x div 2 ^ n)"
proof -
  have "uint (x AND NOT (mask n)) = uint x AND NOT (mask n)"
    by (rule bit_eqI) (auto simp: bit_simps dest: bit_imp_le_length)
  then show ?thesis by (simp add: int_and_not_mask)
qed

lemma sint_small: "uint (x :: 64 word) < 2 ^ 63 \<Longrightarrow> sint x = uint x"
  by (simp add: sint_uint signed_take_bit_int_eq_self order.trans [OF _ uint_nonnegative])

lemma uint_of_nonneg: "0 \<le> sint (x :: 64 word) \<Longrightarrow> uint x = sint x"
  using sint_lt [of x] by (simp add: uint_sint take_bit_int_eq_self)

lemma size_bytes_exp:
  obtains k where "k \<le> 5" "ucast (size_bytes ty) = (2 ^ k :: 64 word)" "uint (size_bytes ty) = 2 ^ k"
proof -
  have "\<exists>k \<le> 5. ucast (size_bytes ty) = (2 ^ k :: 64 word) \<and> uint (size_bytes ty) = 2 ^ k"
    by (cases ty) (auto intro: exI [of _ 2] exI [of _ 3] exI [of _ 4] exI [of _ 5])
  then show thesis using that by blast
qed

lemma align_up:
  fixes a :: "64 word"
  assumes "0 \<le> sint a" "sint a < 2 ^ 62" "k \<le> 5"
  defines "off \<equiv> (a + 2 ^ k - 1) AND NOT (2 ^ k - 1)"
  shows "sint a \<le> sint off" "sint off < sint a + 2 ^ k" "2 ^ k dvd sint off"
    "sint (off + 2 ^ k) = sint off + 2 ^ k"
proof -
  have pk: "(1 :: int) \<le> 2 ^ k" "(2 :: int) ^ k \<le> 32"
    using power_increasing [of k 5 "2 :: int"] assms(3) by simp_all
  have uk: "uint (2 ^ k :: 64 word) = 2 ^ k"
  proof -
    have "k \<in> {0, 1, 2, 3, 4, 5}" using assms(3) by auto
    then show ?thesis by auto
  qed
  have a: "uint a = sint a" using assms(1) by (rule uint_of_nonneg)
  have "uint (2 ^ k - 1 :: 64 word) = 2 ^ k - 1"
    using pk uk by (simp add: uint_word_ariths)
  then have sum: "uint (a + 2 ^ k - 1) = sint a + 2 ^ k - 1"
    using a pk assms(2) uint_nonnegative [of a]
    by (simp add: uint_word_ariths mod_add_eq add_diff_eq [symmetric])
  define m where "m = (sint a + 2 ^ k - 1) mod 2 ^ k"
  have m: "0 \<le> m" "m < 2 ^ k" by (simp_all add: m_def)
  have u: "uint off = 2 ^ k * ((sint a + 2 ^ k - 1) div 2 ^ k)"
    unfolding off_def using sum uint_and_not_mask [of "a + 2 ^ k - 1" k]
    by (simp add: mask_eq_exp_minus_1)
  then have "uint off = sint a + 2 ^ k - 1 - m"
    by (simp add: m_def minus_mod_eq_mult_div)
  with m u have b: "sint a \<le> uint off" "uint off < sint a + 2 ^ k" "2 ^ k dvd uint off"
    by simp_all
  then have so: "sint off = uint off" using assms(2) pk by (intro sint_small) simp
  have "uint (off + 2 ^ k) = uint off + 2 ^ k"
    using b assms(2) pk uk uint_nonnegative [of off] by (simp add: uint_word_ariths)
  then have "sint (off + 2 ^ k) = uint off + 2 ^ k"
    using b assms(2) pk by (subst sint_small) simp_all
  with b so show "sint a \<le> sint off" "sint off < sint a + 2 ^ k" "2 ^ k dvd sint off"
    "sint (off + 2 ^ k) = sint off + 2 ^ k" by simp_all
qed

lemma slot_size_alloc: "slot_size (t\<lparr>t_mem_allocated := b, t_mem_offset := w\<rparr>) = slot_size t"
  by (simp add: slot_size_def)

text \<open>
  One allocation: the new slot starts at or after the old end of the used area, so it meets
  no slot allocated before, and the frame invariant is kept.
\<close>

lemma alloc_temp_frame_fresh:
  assumes "frame_inv c" "unat tidx < length (temps c)" "\<not> t_mem_allocated (temps c ! unat tidx)"
    "alloc_temp_frame tidx c = Some (off, c')"
  shows "temps c' = (temps c)[unat tidx := (temps c ! unat tidx)
            \<lparr>t_mem_allocated := True, t_mem_offset := off\<rparr>]"
    "sint (frame_alloc_end c) \<le> sint off" "slot_size (temps c ! unat tidx) dvd sint off"
    "sint (frame_alloc_end c') = sint off + slot_size (temps c ! unat tidx)"
    "sint (frame_alloc_end c') \<le> sint (frame_end c)"
    "frame_start c' = frame_start c" "frame_end c' = frame_end c"
proof -
  obtain k where k: "k \<le> 5" "ucast (size_bytes (t_ty (temps c ! unat tidx))) = (2 ^ k :: 64 word)"
    "uint (size_bytes (t_ty (temps c ! unat tidx))) = 2 ^ k"
    by (rule size_bytes_exp)
  from assms have off: "off = (frame_alloc_end c + 2 ^ k - 1) AND NOT (2 ^ k - 1)"
    and c': "c' = c\<lparr>frame_alloc_end := off + 2 ^ k, temps := (temps c)[unat tidx :=
      (temps c ! unat tidx)\<lparr>t_mem_allocated := True, t_mem_offset := off\<rparr>]\<rparr>"
    and fit: "sint (off + 2 ^ k) \<le> sint (frame_end c)"
    by (auto simp: alloc_temp_frame_def temp_def set_temp_def index_def index_set_def k(2) Let_def
        split: if_splits)
  have "0 \<le> sint (frame_alloc_end c)" "sint (frame_alloc_end c) < 2 ^ 62"
    using assms(1) by (auto simp: frame_inv_def)
  note al = align_up [OF this k(1), folded off]
  show "temps c' = (temps c)[unat tidx := (temps c ! unat tidx)
            \<lparr>t_mem_allocated := True, t_mem_offset := off\<rparr>]"
    "sint (frame_alloc_end c) \<le> sint off" "slot_size (temps c ! unat tidx) dvd sint off"
    "sint (frame_alloc_end c') = sint off + slot_size (temps c ! unat tidx)"
    "sint (frame_alloc_end c') \<le> sint (frame_end c)"
    "frame_start c' = frame_start c" "frame_end c' = frame_end c"
    using al fit by (simp_all add: c' slot_size_def k(3))
qed

lemma frame_inv_alloc:
  assumes "frame_inv c" "unat tidx < length (temps c)" "alloc_temp_frame tidx c = Some (off, c')"
  shows "frame_inv c'"
proof (cases "t_mem_allocated (temps c ! unat tidx)")
  case True
  with assms show ?thesis by (auto simp: alloc_temp_frame_def temp_def)
next
  case False
  note new = alloc_temp_frame_fresh [OF assms(1,2) False assms(3)]
  let ?t = "(temps c ! unat tidx)\<lparr>t_mem_allocated := True, t_mem_offset := off\<rparr>"
  have nonneg: "0 \<le> slot_size t" for t by (simp add: slot_size_def)
  have old: "in_frame (frame_start c) (frame_alloc_end c) (temps c ! i)"
    if "i < length (temps c)" "has_slot (temps c ! i)" for i
    using assms(1) that by (simp add: frame_inv_def)
  have grow: "sint (frame_alloc_end c) \<le> sint (frame_alloc_end c')"
    using new(2,4) nonneg [of "temps c ! unat tidx"] by simp
  have "in_frame (frame_start c) (frame_alloc_end c') ?t"
    using assms(1) new(2-4) by (simp add: in_frame_def slot_size_alloc frame_inv_def)
  then have slot: "in_frame (frame_start c) (frame_alloc_end c') (temps c' ! i)"
    if "i < length (temps c)" "has_slot (temps c' ! i)" for i
    using that old [of i] in_frame_mono [OF _ grow] assms(2) unfolding new(1)
    by (cases "i = unat tidx") auto
  have apart: "slots_disjoint (temps c ! i) ?t" "slots_disjoint ?t (temps c ! i)"
    if "i < length (temps c)" "has_slot (temps c ! i)" for i
    using in_frame_disjoint [OF old [OF that], of ?t] new(2) by simp_all
  have "slots_disjoint (temps c' ! i) (temps c' ! j)"
    if "i < length (temps c)" "j < length (temps c)" "i \<noteq> j" "has_slot (temps c' ! i)"
      "has_slot (temps c' ! j)" for i j
    using that apart assms(1,2) unfolding new(1) frame_inv_def
    by (cases "i = unat tidx"; cases "j = unat tidx") auto
  moreover have "length (temps c') = length (temps c)" by (simp add: new(1))
  moreover have "0 \<le> sint (frame_start c)" "sint (frame_start c) \<le> sint (frame_alloc_end c')"
    "sint (frame_end c) < 2 ^ 62"
    using assms(1) grow by (auto simp: frame_inv_def)
  ultimately show ?thesis
    using new(5) slot unfolding frame_inv_def new(6,7) by simp
qed

section \<open>Properties\<close>

text \<open>
  Constants are canonical. \<open>new_const\<close> returns the index of a constant temp of the
  wanted type and value, leaves every existing temp where it was, keeps the context
  well-formed, and a second request for the same constant returns the same index and changes
  nothing.
\<close>

theorem new_const_canonical:
  assumes "ctx_wf c" "room c" "run_state (new_const ty v) c = (t, c')"
  shows "ctx_wf c' \<and> is_const (temps c' ! unat t) \<and> t_ty (temps c' ! unat t) = ty \<and>
    t_val (temps c' ! unat t) = v \<and> unat t < length (temps c') \<and>
    take (length (temps c)) (temps c') = temps c \<and> run_state (new_const ty v) c' = (t, c')"
  using new_const_result [OF assms] ctx_wf_new_const [OF assms(1,2), of ty v] assms(3)
  by (simp add: new_const_known)

theorem new_const_canonical_witness:
  "\<exists>t c'. run_state (new_const I32 42) context_new = (t, c') \<and> t = 0 \<and> ctx_wf c' \<and>
     run_state (new_const I32 42) c' = (t, c')"
proof -
  obtain t c' where run: "run_state (new_const I32 42) context_new = (t, c')" by fastforce
  then have "t = 0" by (auto simp: new_const_def context_new_def Let_def)
  with run show ?thesis
    using new_const_canonical [OF ctx_wf_new _ run] by (auto simp: context_new_def)
qed

text \<open>
  C24: spill slots never overlap. From a context whose frame invariant holds, allocating a slot
  for any temp keeps the invariant: the slot is aligned to its size, lies between
  \<open>frame_start\<close> and \<open>frame_end\<close>, and no two locals share a byte; a temp that already
  has a slot keeps it.
\<close>

theorem spill_slots_disjoint:
  assumes "frame_inv c" "unat tidx < length (temps c)" "\<not> is_global_or_fixed (temps c ! unat tidx)"
    "alloc_temp_frame tidx c = Some (off, c')"
  shows "frame_inv c' \<and> t_mem_offset (temps c' ! unat tidx) = off \<and>
    in_frame (frame_start c') (frame_end c') (temps c' ! unat tidx) \<and>
    (\<forall>j. j < length (temps c') \<and> j \<noteq> unat tidx \<and> has_slot (temps c' ! j) \<longrightarrow>
       slots_disjoint (temps c' ! unat tidx) (temps c' ! j))"
proof -
  note inv = frame_inv_alloc [OF assms(1,2,4)]
  have "unat tidx < length (temps c') \<and> t_mem_offset (temps c' ! unat tidx) = off \<and>
      has_slot (temps c' ! unat tidx)"
  proof (cases "t_mem_allocated (temps c ! unat tidx)")
    case True
    with assms(2-4) show ?thesis by (auto simp: alloc_temp_frame_def temp_def has_slot_def)
  next
    case False
    have "is_global_or_fixed (t\<lparr>t_mem_allocated := x, t_mem_offset := y\<rparr>) = is_global_or_fixed t" for t x y
      by (simp add: is_global_or_fixed_def)
    with assms(2,3) alloc_temp_frame_fresh(1) [OF assms(1,2) False assms(4)]
    show ?thesis by (simp add: has_slot_def)
  qed
  with inv show ?thesis by (auto simp: frame_inv_def intro: in_frame_mono)
qed

theorem spill_slots_disjoint_witness:
  "\<exists>c off c'. temps c = [temp_new_ebb 0 I64] \<and> alloc_temp_frame 0 c = Some (off, c') \<and> off = 128 \<and>
     frame_inv c'"
proof -
  let ?c = "set_frame 4 128 1024 (context_new\<lparr>temps := [temp_new_ebb 0 I64]\<rparr>)"
  obtain off c' where a: "alloc_temp_frame 0 ?c = Some (off, c')" "off = 128"
    by (simp add: alloc_temp_frame_def temp_def set_temp_def set_frame_def model_defs Let_def)
  have "frame_inv ?c"
    by (simp add: frame_inv_def set_frame_def context_new_def has_slot_def model_defs)
  then have "frame_inv c'"
    using spill_slots_disjoint [of ?c 0 off c'] a by (simp add: set_frame_def context_new_def model_defs)
  with a show ?thesis by (intro exI [of _ ?c] exI [of _ off] exI [of _ c']) (simp add: set_frame_def)
qed

text \<open>
  C34: \<open>reset\<close> prepares a context for the next block: exactly the globals and fixed temps
  survive, under their old indices; every global is back in memory and coherent; there are no
  ops, labels or constants left, the spill area is empty again, and the result is well-formed.
\<close>

theorem reset_keeps_globals:
  assumes "ctx_wf c"
  shows "ctx_wf (reset c) \<and> length (temps (reset c)) = unat (nb_globals c) \<and>
    ops (reset c) = [] \<and> labels (reset c) = [] \<and> frame_alloc_end (reset c) = frame_start c \<and>
    const_table (reset c) ty v = None \<and>
    (\<forall>i. i < unat (nb_globals c) \<longrightarrow>
       t_idx (temps (reset c) ! i) = t_idx (temps c ! i) \<and>
       t_mem_base (temps (reset c) ! i) = t_mem_base (temps c ! i) \<and>
       t_mem_offset (temps (reset c) ! i) = t_mem_offset (temps c ! i) \<and>
       is_global_or_fixed (temps (reset c) ! i) \<and>
       (is_global (temps c ! i) \<longrightarrow> t_val_type (temps (reset c) ! i) = Mem \<and>
          t_reg (temps (reset c) ! i) = None \<and> t_mem_coherent (temps (reset c) ! i)))"
proof -
  have len: "unat (nb_globals c) \<le> length (temps c)" using assms by (simp add: ctx_wf_def)
  have kind: "is_global_or_fixed (temps c ! i)" if "i < unat (nb_globals c)" for i
    using assms that len by (simp add: ctx_wf_def)
  have frame: "t_mem_base (reset_temp t) = t_mem_base t" "t_mem_offset (reset_temp t) = t_mem_offset t"
    "is_global t \<Longrightarrow> t_val_type (reset_temp t) = Mem \<and> t_reg (reset_temp t) = None \<and> t_mem_coherent (reset_temp t)"
    for t by (auto simp: reset_temp_def is_global_def split: TempKind.splits)
  show ?thesis
    using ctx_wf_reset [OF assms] len kind frame by (simp add: reset_def min_def)
qed

theorem reset_keeps_globals_witness:
  "\<exists>c. ctx_wf c \<and> length (temps c) = 2 \<and> length (temps (reset c)) = 1 \<and>
     t_val_type (temps (reset c) ! 0) = Mem"
proof -
  obtain t c where g: "new_global I64 0 8 ''x1'' context_new = Some (t, c)"
    by (simp add: new_global_def context_new_def)
  let ?d = "snd (run_state (new_const I64 1) c)"
  have temps_c: "temps c = [temp_new_global 0 I64 0 8 ''x1'']" "nb_globals c = 1" "const_table c I64 1 = None"
    using g by (auto simp: new_global_def context_new_def)
  have "ctx_wf c" by (rule ctx_wf_new_global [OF ctx_wf_new _ g]) (simp add: context_new_def)
  then have wf: "ctx_wf ?d" by (rule ctx_wf_new_const) (simp add: temps_c)
  have d: "length (temps ?d) = 2" "nb_globals ?d = 1" "temps ?d ! 0 = temp_new_global 0 I64 0 8 ''x1''"
    using temps_c by (simp_all add: new_const_def)
  from reset_keeps_globals [OF wf] show ?thesis
    by (intro exI [of _ ?d]) (auto simp: wf d is_global_def temp_new_global_def)
qed

end
