(* ===== verification/IR_Builder.thy ===== *)
theory IR_Builder
  imports IR
begin

text \<open>
  The IR builder (\<open>core/src/ir_builder.rs\<close>): the \<open>gen_*\<close> methods a frontend calls to
  append one op to the context. Each is the method of the source as a state-monad program; the
  casts \<open>offset as u32\<close>, \<open>val as u32\<close> that store a wider constant in an argument slot
  are \<open>ucast\<close>, which drops the high bits as Rust does.

  The lemmas summarise each method by \<open>emits\<close>: it appends exactly one op, with the given
  opcode, type and arguments, and leaves the rest of the context alone. The step relation
  \<open>builder_step\<close> has one rule per method, together with the context operations a
  frontend uses; every context built by a sequence of such steps is well-formed and each of
  its ops has exactly the number of arguments the opcode table prescribes.
\<close>

section \<open>The builder methods\<close>

definition carg :: "u32 \<Rightarrow> tempidx" where
  "carg v = v"


definition emit_binary :: "Opcode \<Rightarrow> Type \<Rightarrow> tempidx \<Rightarrow> tempidx \<Rightarrow> tempidx \<Rightarrow> (Context, tempidx) state" where
  "emit_binary opc ty dst a b = do {
     idx \<leftarrow> next_op_idx;
     let op = op_with_args idx opc ty [dst, a, b];
     _ \<leftarrow> emit_op op;
     State_Monad.return dst
   }"

definition emit_unary :: "Opcode \<Rightarrow> Type \<Rightarrow> tempidx \<Rightarrow> tempidx \<Rightarrow> (Context, tempidx) state" where
  "emit_unary opc ty dst src = do {
     idx \<leftarrow> next_op_idx;
     let op = op_with_args idx opc ty [dst, src];
     _ \<leftarrow> emit_op op;
     State_Monad.return dst
   }"

definition gen_add :: "Type \<Rightarrow> tempidx \<Rightarrow> tempidx \<Rightarrow> tempidx \<Rightarrow> (Context, tempidx) state" where
  "gen_add ty d a b = emit_binary (OArith Add) ty d a b"

definition gen_sub :: "Type \<Rightarrow> tempidx \<Rightarrow> tempidx \<Rightarrow> tempidx \<Rightarrow> (Context, tempidx) state" where
  "gen_sub ty d a b = emit_binary (OArith Sub) ty d a b"

definition gen_mul :: "Type \<Rightarrow> tempidx \<Rightarrow> tempidx \<Rightarrow> tempidx \<Rightarrow> (Context, tempidx) state" where
  "gen_mul ty d a b = emit_binary (OArith Mul) ty d a b"

definition gen_and :: "Type \<Rightarrow> tempidx \<Rightarrow> tempidx \<Rightarrow> tempidx \<Rightarrow> (Context, tempidx) state" where
  "gen_and ty d a b = emit_binary (OLogic And) ty d a b"

definition gen_or :: "Type \<Rightarrow> tempidx \<Rightarrow> tempidx \<Rightarrow> tempidx \<Rightarrow> (Context, tempidx) state" where
  "gen_or ty d a b = emit_binary (OLogic Or) ty d a b"

definition gen_xor :: "Type \<Rightarrow> tempidx \<Rightarrow> tempidx \<Rightarrow> tempidx \<Rightarrow> (Context, tempidx) state" where
  "gen_xor ty d a b = emit_binary (OLogic Xor) ty d a b"

definition gen_shl :: "Type \<Rightarrow> tempidx \<Rightarrow> tempidx \<Rightarrow> tempidx \<Rightarrow> (Context, tempidx) state" where
  "gen_shl ty d a b = emit_binary (OShift Shl) ty d a b"

definition gen_shr :: "Type \<Rightarrow> tempidx \<Rightarrow> tempidx \<Rightarrow> tempidx \<Rightarrow> (Context, tempidx) state" where
  "gen_shr ty d a b = emit_binary (OShift Shr) ty d a b"

definition gen_sar :: "Type \<Rightarrow> tempidx \<Rightarrow> tempidx \<Rightarrow> tempidx \<Rightarrow> (Context, tempidx) state" where
  "gen_sar ty d a b = emit_binary (OShift Sar) ty d a b"

definition gen_rotl :: "Type \<Rightarrow> tempidx \<Rightarrow> tempidx \<Rightarrow> tempidx \<Rightarrow> (Context, tempidx) state" where
  "gen_rotl ty d a b = emit_binary (OShift RotL) ty d a b"

definition gen_rotr :: "Type \<Rightarrow> tempidx \<Rightarrow> tempidx \<Rightarrow> tempidx \<Rightarrow> (Context, tempidx) state" where
  "gen_rotr ty d a b = emit_binary (OShift RotR) ty d a b"

definition gen_andc :: "Type \<Rightarrow> tempidx \<Rightarrow> tempidx \<Rightarrow> tempidx \<Rightarrow> (Context, tempidx) state" where
  "gen_andc ty d a b = emit_binary (OLogic AndC) ty d a b"

definition gen_orc :: "Type \<Rightarrow> tempidx \<Rightarrow> tempidx \<Rightarrow> tempidx \<Rightarrow> (Context, tempidx) state" where
  "gen_orc ty d a b = emit_binary (OLogic OrC) ty d a b"

definition gen_eqv :: "Type \<Rightarrow> tempidx \<Rightarrow> tempidx \<Rightarrow> tempidx \<Rightarrow> (Context, tempidx) state" where
  "gen_eqv ty d a b = emit_binary (OLogic Eqv) ty d a b"

definition gen_nand :: "Type \<Rightarrow> tempidx \<Rightarrow> tempidx \<Rightarrow> tempidx \<Rightarrow> (Context, tempidx) state" where
  "gen_nand ty d a b = emit_binary (OLogic Nand) ty d a b"

definition gen_nor :: "Type \<Rightarrow> tempidx \<Rightarrow> tempidx \<Rightarrow> tempidx \<Rightarrow> (Context, tempidx) state" where
  "gen_nor ty d a b = emit_binary (OLogic Nor) ty d a b"

definition gen_divs :: "Type \<Rightarrow> tempidx \<Rightarrow> tempidx \<Rightarrow> tempidx \<Rightarrow> (Context, tempidx) state" where
  "gen_divs ty d a b = emit_binary (OArith DivS) ty d a b"

definition gen_divu :: "Type \<Rightarrow> tempidx \<Rightarrow> tempidx \<Rightarrow> tempidx \<Rightarrow> (Context, tempidx) state" where
  "gen_divu ty d a b = emit_binary (OArith DivU) ty d a b"

definition gen_rems :: "Type \<Rightarrow> tempidx \<Rightarrow> tempidx \<Rightarrow> tempidx \<Rightarrow> (Context, tempidx) state" where
  "gen_rems ty d a b = emit_binary (OArith RemS) ty d a b"

definition gen_remu :: "Type \<Rightarrow> tempidx \<Rightarrow> tempidx \<Rightarrow> tempidx \<Rightarrow> (Context, tempidx) state" where
  "gen_remu ty d a b = emit_binary (OArith RemU) ty d a b"

definition gen_divs2 :: "Type \<Rightarrow> tempidx \<Rightarrow> tempidx \<Rightarrow> tempidx \<Rightarrow> tempidx \<Rightarrow> tempidx \<Rightarrow> (Context, unit) state" where
  "gen_divs2 ty dl dh al ah b = do {
     idx \<leftarrow> next_op_idx;
     let op = op_with_args idx (OArith DivS2) ty [dl, dh, al, ah, b];
     _ \<leftarrow> emit_op op;
     State_Monad.return ()
   }"

definition gen_divu2 :: "Type \<Rightarrow> tempidx \<Rightarrow> tempidx \<Rightarrow> tempidx \<Rightarrow> tempidx \<Rightarrow> tempidx \<Rightarrow> (Context, unit) state" where
  "gen_divu2 ty dl dh al ah b = do {
     idx \<leftarrow> next_op_idx;
     let op = op_with_args idx (OArith DivU2) ty [dl, dh, al, ah, b];
     _ \<leftarrow> emit_op op;
     State_Monad.return ()
   }"

definition gen_muls2 :: "Type \<Rightarrow> tempidx \<Rightarrow> tempidx \<Rightarrow> tempidx \<Rightarrow> tempidx \<Rightarrow> (Context, unit) state" where
  "gen_muls2 ty dl dh a b = do {
     idx \<leftarrow> next_op_idx;
     let op = op_with_args idx (OMulW MulS2) ty [dl, dh, a, b];
     _ \<leftarrow> emit_op op;
     State_Monad.return ()
   }"

definition gen_mulu2 :: "Type \<Rightarrow> tempidx \<Rightarrow> tempidx \<Rightarrow> tempidx \<Rightarrow> tempidx \<Rightarrow> (Context, unit) state" where
  "gen_mulu2 ty dl dh a b = do {
     idx \<leftarrow> next_op_idx;
     let op = op_with_args idx (OMulW MulU2) ty [dl, dh, a, b];
     _ \<leftarrow> emit_op op;
     State_Monad.return ()
   }"

definition gen_mulsh :: "Type \<Rightarrow> tempidx \<Rightarrow> tempidx \<Rightarrow> tempidx \<Rightarrow> (Context, tempidx) state" where
  "gen_mulsh ty d a b = emit_binary (OMulW MulSH) ty d a b"

definition gen_muluh :: "Type \<Rightarrow> tempidx \<Rightarrow> tempidx \<Rightarrow> tempidx \<Rightarrow> (Context, tempidx) state" where
  "gen_muluh ty d a b = emit_binary (OMulW MulUH) ty d a b"

definition gen_addco :: "Type \<Rightarrow> tempidx \<Rightarrow> tempidx \<Rightarrow> tempidx \<Rightarrow> (Context, tempidx) state" where
  "gen_addco ty d a b = emit_binary (OCarry AddCO) ty d a b"

definition gen_addci :: "Type \<Rightarrow> tempidx \<Rightarrow> tempidx \<Rightarrow> tempidx \<Rightarrow> (Context, tempidx) state" where
  "gen_addci ty d a b = emit_binary (OCarry AddCI) ty d a b"

definition gen_addcio :: "Type \<Rightarrow> tempidx \<Rightarrow> tempidx \<Rightarrow> tempidx \<Rightarrow> (Context, tempidx) state" where
  "gen_addcio ty d a b = emit_binary (OCarry AddCIO) ty d a b"

definition gen_addc1o :: "Type \<Rightarrow> tempidx \<Rightarrow> tempidx \<Rightarrow> tempidx \<Rightarrow> (Context, tempidx) state" where
  "gen_addc1o ty d a b = emit_binary (OCarry AddC1O) ty d a b"

definition gen_subbo :: "Type \<Rightarrow> tempidx \<Rightarrow> tempidx \<Rightarrow> tempidx \<Rightarrow> (Context, tempidx) state" where
  "gen_subbo ty d a b = emit_binary (OCarry SubBO) ty d a b"

definition gen_subbi :: "Type \<Rightarrow> tempidx \<Rightarrow> tempidx \<Rightarrow> tempidx \<Rightarrow> (Context, tempidx) state" where
  "gen_subbi ty d a b = emit_binary (OCarry SubBI) ty d a b"

definition gen_subbio :: "Type \<Rightarrow> tempidx \<Rightarrow> tempidx \<Rightarrow> tempidx \<Rightarrow> (Context, tempidx) state" where
  "gen_subbio ty d a b = emit_binary (OCarry SubBIO) ty d a b"

definition gen_subb1o :: "Type \<Rightarrow> tempidx \<Rightarrow> tempidx \<Rightarrow> tempidx \<Rightarrow> (Context, tempidx) state" where
  "gen_subb1o ty d a b = emit_binary (OCarry SubB1O) ty d a b"

definition gen_extract :: "Type \<Rightarrow> tempidx \<Rightarrow> tempidx \<Rightarrow> u32 \<Rightarrow> u32 \<Rightarrow> (Context, tempidx) state" where
  "gen_extract ty d src ofs len = do {
     idx \<leftarrow> next_op_idx;
     let op = op_with_args idx (OField Extract) ty [d, src, carg ofs, carg len];
     _ \<leftarrow> emit_op op;
     State_Monad.return d
   }"

definition gen_sextract :: "Type \<Rightarrow> tempidx \<Rightarrow> tempidx \<Rightarrow> u32 \<Rightarrow> u32 \<Rightarrow> (Context, tempidx) state" where
  "gen_sextract ty d src ofs len = do {
     idx \<leftarrow> next_op_idx;
     let op = op_with_args idx (OField SExtract) ty [d, src, carg ofs, carg len];
     _ \<leftarrow> emit_op op;
     State_Monad.return d
   }"

definition gen_deposit :: "Type \<Rightarrow> tempidx \<Rightarrow> tempidx \<Rightarrow> tempidx \<Rightarrow> u32 \<Rightarrow> u32 \<Rightarrow> (Context, tempidx) state" where
  "gen_deposit ty d a b ofs len = do {
     idx \<leftarrow> next_op_idx;
     let op = op_with_args idx (OField Deposit) ty [d, a, b, carg ofs, carg len];
     _ \<leftarrow> emit_op op;
     State_Monad.return d
   }"

definition gen_extract2 :: "Type \<Rightarrow> tempidx \<Rightarrow> tempidx \<Rightarrow> tempidx \<Rightarrow> u32 \<Rightarrow> (Context, tempidx) state" where
  "gen_extract2 ty d al ah ofs = do {
     idx \<leftarrow> next_op_idx;
     let op = op_with_args idx (OField Extract2) ty [d, al, ah, carg ofs];
     _ \<leftarrow> emit_op op;
     State_Monad.return d
   }"

definition gen_bswap16 :: "Type \<Rightarrow> tempidx \<Rightarrow> tempidx \<Rightarrow> u32 \<Rightarrow> (Context, tempidx) state" where
  "gen_bswap16 ty d src flags = do {
     idx \<leftarrow> next_op_idx;
     let op = op_with_args idx (OBswap Bswap16) ty [d, src, carg flags];
     _ \<leftarrow> emit_op op;
     State_Monad.return d
   }"

definition gen_bswap32 :: "Type \<Rightarrow> tempidx \<Rightarrow> tempidx \<Rightarrow> u32 \<Rightarrow> (Context, tempidx) state" where
  "gen_bswap32 ty d src flags = do {
     idx \<leftarrow> next_op_idx;
     let op = op_with_args idx (OBswap Bswap32) ty [d, src, carg flags];
     _ \<leftarrow> emit_op op;
     State_Monad.return d
   }"

definition gen_bswap64 :: "Type \<Rightarrow> tempidx \<Rightarrow> tempidx \<Rightarrow> u32 \<Rightarrow> (Context, tempidx) state" where
  "gen_bswap64 ty d src flags = do {
     idx \<leftarrow> next_op_idx;
     let op = op_with_args idx (OBswap Bswap64) ty [d, src, carg flags];
     _ \<leftarrow> emit_op op;
     State_Monad.return d
   }"

definition gen_clz :: "Type \<Rightarrow> tempidx \<Rightarrow> tempidx \<Rightarrow> tempidx \<Rightarrow> (Context, tempidx) state" where
  "gen_clz ty d a b = emit_binary (OCount Clz) ty d a b"

definition gen_ctz :: "Type \<Rightarrow> tempidx \<Rightarrow> tempidx \<Rightarrow> tempidx \<Rightarrow> (Context, tempidx) state" where
  "gen_ctz ty d a b = emit_binary (OCount Ctz) ty d a b"

definition gen_ctpop :: "Type \<Rightarrow> tempidx \<Rightarrow> tempidx \<Rightarrow> (Context, tempidx) state" where
  "gen_ctpop ty d src = emit_unary (OCount CtPop) ty d src"

definition gen_brcond2_i32 :: "tempidx \<Rightarrow> tempidx \<Rightarrow> tempidx \<Rightarrow> tempidx \<Rightarrow> Cond \<Rightarrow> u32 \<Rightarrow> (Context, unit) state" where
  "gen_brcond2_i32 al ah bl bh cond label_id = do {
     idx \<leftarrow> next_op_idx;
     let op = op_with_args idx (OPair BrCond2I32) I32 [al, ah, bl, bh, carg (cond_as_u32 cond), carg label_id];
     _ \<leftarrow> emit_op op;
     State_Monad.return ()
   }"

definition gen_setcond2_i32 :: "tempidx \<Rightarrow> tempidx \<Rightarrow> tempidx \<Rightarrow> tempidx \<Rightarrow> tempidx \<Rightarrow> Cond \<Rightarrow> (Context, tempidx) state" where
  "gen_setcond2_i32 d al ah bl bh cond = do {
     idx \<leftarrow> next_op_idx;
     let op = op_with_args idx (OPair SetCond2I32) I32 [d, al, ah, bl, bh, carg (cond_as_u32 cond)];
     _ \<leftarrow> emit_op op;
     State_Monad.return d
   }"

definition gen_negsetcond :: "Type \<Rightarrow> tempidx \<Rightarrow> tempidx \<Rightarrow> tempidx \<Rightarrow> Cond \<Rightarrow> (Context, tempidx) state" where
  "gen_negsetcond ty d a b cond = do {
     idx \<leftarrow> next_op_idx;
     let op = op_with_args idx (OMov NegSetCond) ty [d, a, b, carg (cond_as_u32 cond)];
     _ \<leftarrow> emit_op op;
     State_Monad.return d
   }"

definition gen_movcond :: "Type \<Rightarrow> tempidx \<Rightarrow> tempidx \<Rightarrow> tempidx \<Rightarrow> tempidx \<Rightarrow> tempidx \<Rightarrow> Cond \<Rightarrow> (Context, tempidx) state" where
  "gen_movcond ty d c1 c2 v1 v2 cond = do {
     idx \<leftarrow> next_op_idx;
     let op = op_with_args idx (OMov MovCond) ty [d, c1, c2, v1, v2, carg (cond_as_u32 cond)];
     _ \<leftarrow> emit_op op;
     State_Monad.return d
   }"

definition gen_neg :: "Type \<Rightarrow> tempidx \<Rightarrow> tempidx \<Rightarrow> (Context, tempidx) state" where
  "gen_neg ty d s = emit_unary (OArith Neg) ty d s"

definition gen_not :: "Type \<Rightarrow> tempidx \<Rightarrow> tempidx \<Rightarrow> (Context, tempidx) state" where
  "gen_not ty d s = emit_unary (OLogic NotI) ty d s"

definition gen_mov :: "Type \<Rightarrow> tempidx \<Rightarrow> tempidx \<Rightarrow> (Context, tempidx) state" where
  "gen_mov ty d s = emit_unary (OMov Mov) ty d s"

definition gen_ext_i32_i64 :: "tempidx \<Rightarrow> tempidx \<Rightarrow> (Context, tempidx) state" where
  "gen_ext_i32_i64 d s = emit_unary (OConv ExtI32I64) I64 d s"

definition gen_ext_u32_i64 :: "tempidx \<Rightarrow> tempidx \<Rightarrow> (Context, tempidx) state" where
  "gen_ext_u32_i64 d s = emit_unary (OConv ExtUI32I64) I64 d s"

definition gen_extrl_i64_i32 :: "tempidx \<Rightarrow> tempidx \<Rightarrow> (Context, tempidx) state" where
  "gen_extrl_i64_i32 d s = emit_unary (OConv ExtrlI64I32) I32 d s"

definition gen_extrh_i64_i32 :: "tempidx \<Rightarrow> tempidx \<Rightarrow> (Context, tempidx) state" where
  "gen_extrh_i64_i32 d s = emit_unary (OConv ExtrhI64I32) I32 d s"

definition gen_setcond :: "Type \<Rightarrow> tempidx \<Rightarrow> tempidx \<Rightarrow> tempidx \<Rightarrow> Cond \<Rightarrow> (Context, tempidx) state" where
  "gen_setcond ty d a b cond = do {
     idx \<leftarrow> next_op_idx;
     let op = op_with_args idx (OMov SetCond) ty [d, a, b, carg (cond_as_u32 cond)];
     _ \<leftarrow> emit_op op;
     State_Monad.return d
   }"

definition gen_ld :: "Type \<Rightarrow> tempidx \<Rightarrow> tempidx \<Rightarrow> i64 \<Rightarrow> (Context, tempidx) state" where
  "gen_ld ty dst base offset = do {
     idx \<leftarrow> next_op_idx;
     let op = op_with_args idx (OHost Ld) ty [dst, base, carg (ucast offset)];
     _ \<leftarrow> emit_op op;
     State_Monad.return dst
   }"

definition gen_st :: "Type \<Rightarrow> tempidx \<Rightarrow> tempidx \<Rightarrow> i64 \<Rightarrow> (Context, unit) state" where
  "gen_st ty src base offset = do {
     idx \<leftarrow> next_op_idx;
     let op = op_with_args idx (OHost St) ty [src, base, carg (ucast offset)];
     _ \<leftarrow> emit_op op;
     State_Monad.return ()
   }"

definition emit_sized_load :: "Opcode \<Rightarrow> Type \<Rightarrow> tempidx \<Rightarrow> tempidx \<Rightarrow> i64 \<Rightarrow> (Context, tempidx) state" where
  "emit_sized_load opc ty dst base offset = do {
     idx \<leftarrow> next_op_idx;
     let op = op_with_args idx opc ty [dst, base, carg (ucast offset)];
     _ \<leftarrow> emit_op op;
     State_Monad.return dst
   }"

definition gen_ld8u :: "Type \<Rightarrow> tempidx \<Rightarrow> tempidx \<Rightarrow> i64 \<Rightarrow> (Context, tempidx) state" where
  "gen_ld8u ty dst base offset = emit_sized_load (OHost Ld8U) ty dst base offset"

definition gen_ld8s :: "Type \<Rightarrow> tempidx \<Rightarrow> tempidx \<Rightarrow> i64 \<Rightarrow> (Context, tempidx) state" where
  "gen_ld8s ty dst base offset = emit_sized_load (OHost Ld8S) ty dst base offset"

definition gen_ld16u :: "Type \<Rightarrow> tempidx \<Rightarrow> tempidx \<Rightarrow> i64 \<Rightarrow> (Context, tempidx) state" where
  "gen_ld16u ty dst base offset = emit_sized_load (OHost Ld16U) ty dst base offset"

definition gen_ld16s :: "Type \<Rightarrow> tempidx \<Rightarrow> tempidx \<Rightarrow> i64 \<Rightarrow> (Context, tempidx) state" where
  "gen_ld16s ty dst base offset = emit_sized_load (OHost Ld16S) ty dst base offset"

definition gen_ld32u :: "Type \<Rightarrow> tempidx \<Rightarrow> tempidx \<Rightarrow> i64 \<Rightarrow> (Context, tempidx) state" where
  "gen_ld32u ty dst base offset = emit_sized_load (OHost Ld32U) ty dst base offset"

definition gen_ld32s :: "Type \<Rightarrow> tempidx \<Rightarrow> tempidx \<Rightarrow> i64 \<Rightarrow> (Context, tempidx) state" where
  "gen_ld32s ty dst base offset = emit_sized_load (OHost Ld32S) ty dst base offset"

definition emit_sized_store :: "Opcode \<Rightarrow> Type \<Rightarrow> tempidx \<Rightarrow> tempidx \<Rightarrow> i64 \<Rightarrow> (Context, unit) state" where
  "emit_sized_store opc ty src base offset = do {
     idx \<leftarrow> next_op_idx;
     let op = op_with_args idx opc ty [src, base, carg (ucast offset)];
     _ \<leftarrow> emit_op op;
     State_Monad.return ()
   }"

definition gen_st8 :: "Type \<Rightarrow> tempidx \<Rightarrow> tempidx \<Rightarrow> i64 \<Rightarrow> (Context, unit) state" where
  "gen_st8 ty src base offset = emit_sized_store (OHost St8) ty src base offset"

definition gen_st16 :: "Type \<Rightarrow> tempidx \<Rightarrow> tempidx \<Rightarrow> i64 \<Rightarrow> (Context, unit) state" where
  "gen_st16 ty src base offset = emit_sized_store (OHost St16) ty src base offset"

definition gen_st32 :: "Type \<Rightarrow> tempidx \<Rightarrow> tempidx \<Rightarrow> i64 \<Rightarrow> (Context, unit) state" where
  "gen_st32 ty src base offset = emit_sized_store (OHost St32) ty src base offset"

definition gen_br :: "u32 \<Rightarrow> (Context, unit) state" where
  "gen_br label_id = do {
     idx \<leftarrow> next_op_idx;
     let op = op_with_args idx (OCtl Br) I64 [carg label_id];
     _ \<leftarrow> emit_op op;
     State_Monad.return ()
   }"

definition gen_brcond :: "Type \<Rightarrow> tempidx \<Rightarrow> tempidx \<Rightarrow> Cond \<Rightarrow> u32 \<Rightarrow> (Context, unit) state" where
  "gen_brcond ty a b cond label_id = do {
     idx \<leftarrow> next_op_idx;
     let op = op_with_args idx (OCtl BrCond) ty [a, b, carg (cond_as_u32 cond), carg label_id];
     _ \<leftarrow> emit_op op;
     State_Monad.return ()
   }"

definition gen_set_label :: "u32 \<Rightarrow> (Context, unit) state" where
  "gen_set_label label_id = do {
     idx \<leftarrow> next_op_idx;
     let op = op_with_args idx (OCtl SetLabel) I64 [carg label_id];
     _ \<leftarrow> emit_op op;
     State_Monad.return ()
   }"

definition gen_goto_tb :: "u32 \<Rightarrow> (Context, unit) state" where
  "gen_goto_tb slot = do {
     idx \<leftarrow> next_op_idx;
     let op = op_with_args idx (OCtl GotoTb) I64 [carg slot];
     _ \<leftarrow> emit_op op;
     State_Monad.return ()
   }"

definition gen_exit_tb :: "u64 \<Rightarrow> (Context, unit) state" where
  "gen_exit_tb val64 = do {
     idx \<leftarrow> next_op_idx;
     let op = op_with_args idx (OCtl ExitTb) I64 [carg (ucast val64)];
     _ \<leftarrow> emit_op op;
     State_Monad.return ()
   }"

definition gen_insn_start :: "u64 \<Rightarrow> (Context, unit) state" where
  "gen_insn_start pc = do {
     idx \<leftarrow> next_op_idx;
     let op = op_with_args idx (OMisc InsnStart) I64 [carg (ucast pc), carg (ucast (drop_bit 32 pc))];
     _ \<leftarrow> emit_op op;
     State_Monad.return ()
   }"

definition gen_goto_ptr :: "tempidx \<Rightarrow> (Context, unit) state" where
  "gen_goto_ptr ptr = do {
     idx \<leftarrow> next_op_idx;
     let op = op_with_args idx (OCtl GotoPtr) I64 [ptr];
     _ \<leftarrow> emit_op op;
     State_Monad.return ()
   }"

definition gen_mb :: "u32 \<Rightarrow> (Context, unit) state" where
  "gen_mb bar_type = do {
     idx \<leftarrow> next_op_idx;
     let op = op_with_args idx (OCtl Mb) I64 [carg bar_type];
     _ \<leftarrow> emit_op op;
     State_Monad.return ()
   }"

definition gen_call :: "tempidx \<Rightarrow> u64 \<Rightarrow> tempidx list \<Rightarrow> (Context, tempidx) state" where
  "gen_call dst helper args = do {
     zero \<leftarrow> new_const I64 0;
     let full_args = [dst]
         @ map (\<lambda>i. if i < length args then args ! i else zero) [0..<6]
         @ [carg (ucast helper), carg (ucast (drop_bit 32 helper))];
     idx \<leftarrow> next_op_idx;
     let op = op_with_args idx Call I64 full_args;
     _ \<leftarrow> emit_op op;
     State_Monad.return dst
   }"

definition gen_discard :: "Type \<Rightarrow> tempidx \<Rightarrow> (Context, unit) state" where
  "gen_discard ty t = do {
     idx \<leftarrow> next_op_idx;
     let op = op_with_args idx (OMisc Discard) ty [t];
     _ \<leftarrow> emit_op op;
     State_Monad.return ()
   }"

definition gen_qemu_ld :: "Type \<Rightarrow> tempidx \<Rightarrow> tempidx \<Rightarrow> u32 \<Rightarrow> (Context, tempidx) state" where
  "gen_qemu_ld ty dst addr memop = do {
     idx \<leftarrow> next_op_idx;
     let op = op_with_args idx (OGuest QemuLd) ty [dst, addr, carg memop];
     _ \<leftarrow> emit_op op;
     State_Monad.return dst
   }"

definition gen_qemu_st :: "Type \<Rightarrow> tempidx \<Rightarrow> tempidx \<Rightarrow> u32 \<Rightarrow> (Context, unit) state" where
  "gen_qemu_st ty v addr memop = do {
     idx \<leftarrow> next_op_idx;
     let op = op_with_args idx (OGuest QemuSt) ty [v, addr, carg memop];
     _ \<leftarrow> emit_op op;
     State_Monad.return ()
   }"

definition gen_qemu_ld2 :: "Type \<Rightarrow> tempidx \<Rightarrow> tempidx \<Rightarrow> tempidx \<Rightarrow> u32 \<Rightarrow> (Context, unit) state" where
  "gen_qemu_ld2 ty dl dh addr memop = do {
     idx \<leftarrow> next_op_idx;
     let op = op_with_args idx (OGuest QemuLd2) ty [dl, dh, addr, carg memop];
     _ \<leftarrow> emit_op op;
     State_Monad.return ()
   }"

definition gen_qemu_st2 :: "Type \<Rightarrow> tempidx \<Rightarrow> tempidx \<Rightarrow> tempidx \<Rightarrow> u32 \<Rightarrow> (Context, unit) state" where
  "gen_qemu_st2 ty vl vh addr memop = do {
     idx \<leftarrow> next_op_idx;
     let op = op_with_args idx (OGuest QemuSt2) ty [vl, vh, addr, carg memop];
     _ \<leftarrow> emit_op op;
     State_Monad.return ()
   }"

definition emit_vec_binary :: "Opcode \<Rightarrow> Type \<Rightarrow> tempidx \<Rightarrow> tempidx \<Rightarrow> tempidx \<Rightarrow> (Context, tempidx) state" where
  "emit_vec_binary opc ty d a b = do {
     idx \<leftarrow> next_op_idx;
     let op = op_with_args idx opc ty [d, a, b];
     _ \<leftarrow> emit_op op;
     State_Monad.return d
   }"

definition emit_vec_unary :: "Opcode \<Rightarrow> Type \<Rightarrow> tempidx \<Rightarrow> tempidx \<Rightarrow> (Context, tempidx) state" where
  "emit_vec_unary opc ty d s = do {
     idx \<leftarrow> next_op_idx;
     let op = op_with_args idx opc ty [d, s];
     _ \<leftarrow> emit_op op;
     State_Monad.return d
   }"

definition gen_dup_vec :: "Type \<Rightarrow> tempidx \<Rightarrow> tempidx \<Rightarrow> (Context, tempidx) state" where
  "gen_dup_vec ty d s = emit_vec_unary (OVMov DupVec) ty d s"

definition gen_dup2_vec :: "Type \<Rightarrow> tempidx \<Rightarrow> tempidx \<Rightarrow> tempidx \<Rightarrow> (Context, tempidx) state" where
  "gen_dup2_vec ty d a b = emit_vec_binary (OVMov Dup2Vec) ty d a b"

definition gen_ld_vec :: "Type \<Rightarrow> tempidx \<Rightarrow> tempidx \<Rightarrow> i64 \<Rightarrow> (Context, tempidx) state" where
  "gen_ld_vec ty dst base offset = do {
     idx \<leftarrow> next_op_idx;
     let op = op_with_args idx (OVMov LdVec) ty [dst, base, carg (ucast offset)];
     _ \<leftarrow> emit_op op;
     State_Monad.return dst
   }"

definition gen_st_vec :: "Type \<Rightarrow> tempidx \<Rightarrow> tempidx \<Rightarrow> i64 \<Rightarrow> (Context, unit) state" where
  "gen_st_vec ty src base offset = do {
     idx \<leftarrow> next_op_idx;
     let op = op_with_args idx (OVMov StVec) ty [src, base, carg (ucast offset)];
     _ \<leftarrow> emit_op op;
     State_Monad.return ()
   }"

definition gen_dupm_vec :: "Type \<Rightarrow> tempidx \<Rightarrow> tempidx \<Rightarrow> i64 \<Rightarrow> (Context, tempidx) state" where
  "gen_dupm_vec ty dst base offset = do {
     idx \<leftarrow> next_op_idx;
     let op = op_with_args idx (OVMov DupmVec) ty [dst, base, carg (ucast offset)];
     _ \<leftarrow> emit_op op;
     State_Monad.return dst
   }"

definition gen_add_vec :: "Type \<Rightarrow> tempidx \<Rightarrow> tempidx \<Rightarrow> tempidx \<Rightarrow> (Context, tempidx) state" where
  "gen_add_vec ty d a b = emit_vec_binary (OVArith AddVec) ty d a b"

definition gen_sub_vec :: "Type \<Rightarrow> tempidx \<Rightarrow> tempidx \<Rightarrow> tempidx \<Rightarrow> (Context, tempidx) state" where
  "gen_sub_vec ty d a b = emit_vec_binary (OVArith SubVec) ty d a b"

definition gen_mul_vec :: "Type \<Rightarrow> tempidx \<Rightarrow> tempidx \<Rightarrow> tempidx \<Rightarrow> (Context, tempidx) state" where
  "gen_mul_vec ty d a b = emit_vec_binary (OVArith MulVec) ty d a b"

definition gen_neg_vec :: "Type \<Rightarrow> tempidx \<Rightarrow> tempidx \<Rightarrow> (Context, tempidx) state" where
  "gen_neg_vec ty d s = emit_vec_unary (OVArith NegVec) ty d s"

definition gen_abs_vec :: "Type \<Rightarrow> tempidx \<Rightarrow> tempidx \<Rightarrow> (Context, tempidx) state" where
  "gen_abs_vec ty d s = emit_vec_unary (OVArith AbsVec) ty d s"

definition gen_ssadd_vec :: "Type \<Rightarrow> tempidx \<Rightarrow> tempidx \<Rightarrow> tempidx \<Rightarrow> (Context, tempidx) state" where
  "gen_ssadd_vec ty d a b = emit_vec_binary (OVArith SsaddVec) ty d a b"

definition gen_usadd_vec :: "Type \<Rightarrow> tempidx \<Rightarrow> tempidx \<Rightarrow> tempidx \<Rightarrow> (Context, tempidx) state" where
  "gen_usadd_vec ty d a b = emit_vec_binary (OVArith UsaddVec) ty d a b"

definition gen_sssub_vec :: "Type \<Rightarrow> tempidx \<Rightarrow> tempidx \<Rightarrow> tempidx \<Rightarrow> (Context, tempidx) state" where
  "gen_sssub_vec ty d a b = emit_vec_binary (OVArith SssubVec) ty d a b"

definition gen_ussub_vec :: "Type \<Rightarrow> tempidx \<Rightarrow> tempidx \<Rightarrow> tempidx \<Rightarrow> (Context, tempidx) state" where
  "gen_ussub_vec ty d a b = emit_vec_binary (OVArith UssubVec) ty d a b"

definition gen_smin_vec :: "Type \<Rightarrow> tempidx \<Rightarrow> tempidx \<Rightarrow> tempidx \<Rightarrow> (Context, tempidx) state" where
  "gen_smin_vec ty d a b = emit_vec_binary (OVArith SminVec) ty d a b"

definition gen_umin_vec :: "Type \<Rightarrow> tempidx \<Rightarrow> tempidx \<Rightarrow> tempidx \<Rightarrow> (Context, tempidx) state" where
  "gen_umin_vec ty d a b = emit_vec_binary (OVArith UminVec) ty d a b"

definition gen_smax_vec :: "Type \<Rightarrow> tempidx \<Rightarrow> tempidx \<Rightarrow> tempidx \<Rightarrow> (Context, tempidx) state" where
  "gen_smax_vec ty d a b = emit_vec_binary (OVArith SmaxVec) ty d a b"

definition gen_umax_vec :: "Type \<Rightarrow> tempidx \<Rightarrow> tempidx \<Rightarrow> tempidx \<Rightarrow> (Context, tempidx) state" where
  "gen_umax_vec ty d a b = emit_vec_binary (OVArith UmaxVec) ty d a b"

definition gen_and_vec :: "Type \<Rightarrow> tempidx \<Rightarrow> tempidx \<Rightarrow> tempidx \<Rightarrow> (Context, tempidx) state" where
  "gen_and_vec ty d a b = emit_vec_binary (OVLogic AndVec) ty d a b"

definition gen_or_vec :: "Type \<Rightarrow> tempidx \<Rightarrow> tempidx \<Rightarrow> tempidx \<Rightarrow> (Context, tempidx) state" where
  "gen_or_vec ty d a b = emit_vec_binary (OVLogic OrVec) ty d a b"

definition gen_xor_vec :: "Type \<Rightarrow> tempidx \<Rightarrow> tempidx \<Rightarrow> tempidx \<Rightarrow> (Context, tempidx) state" where
  "gen_xor_vec ty d a b = emit_vec_binary (OVLogic XorVec) ty d a b"

definition gen_andc_vec :: "Type \<Rightarrow> tempidx \<Rightarrow> tempidx \<Rightarrow> tempidx \<Rightarrow> (Context, tempidx) state" where
  "gen_andc_vec ty d a b = emit_vec_binary (OVLogic AndcVec) ty d a b"

definition gen_orc_vec :: "Type \<Rightarrow> tempidx \<Rightarrow> tempidx \<Rightarrow> tempidx \<Rightarrow> (Context, tempidx) state" where
  "gen_orc_vec ty d a b = emit_vec_binary (OVLogic OrcVec) ty d a b"

definition gen_nand_vec :: "Type \<Rightarrow> tempidx \<Rightarrow> tempidx \<Rightarrow> tempidx \<Rightarrow> (Context, tempidx) state" where
  "gen_nand_vec ty d a b = emit_vec_binary (OVLogic NandVec) ty d a b"

definition gen_nor_vec :: "Type \<Rightarrow> tempidx \<Rightarrow> tempidx \<Rightarrow> tempidx \<Rightarrow> (Context, tempidx) state" where
  "gen_nor_vec ty d a b = emit_vec_binary (OVLogic NorVec) ty d a b"

definition gen_eqv_vec :: "Type \<Rightarrow> tempidx \<Rightarrow> tempidx \<Rightarrow> tempidx \<Rightarrow> (Context, tempidx) state" where
  "gen_eqv_vec ty d a b = emit_vec_binary (OVLogic EqvVec) ty d a b"

definition gen_not_vec :: "Type \<Rightarrow> tempidx \<Rightarrow> tempidx \<Rightarrow> (Context, tempidx) state" where
  "gen_not_vec ty d s = emit_vec_unary (OVLogic NotVec) ty d s"

definition emit_vec_shift_imm :: "Opcode \<Rightarrow> Type \<Rightarrow> tempidx \<Rightarrow> tempidx \<Rightarrow> u32 \<Rightarrow> (Context, tempidx) state" where
  "emit_vec_shift_imm opc ty d s imm = do {
     idx \<leftarrow> next_op_idx;
     let op = op_with_args idx opc ty [d, s, carg imm];
     _ \<leftarrow> emit_op op;
     State_Monad.return d
   }"

definition gen_shli_vec :: "Type \<Rightarrow> tempidx \<Rightarrow> tempidx \<Rightarrow> u32 \<Rightarrow> (Context, tempidx) state" where
  "gen_shli_vec ty d s imm = emit_vec_shift_imm (OVShiftI ShliVec) ty d s imm"

definition gen_shri_vec :: "Type \<Rightarrow> tempidx \<Rightarrow> tempidx \<Rightarrow> u32 \<Rightarrow> (Context, tempidx) state" where
  "gen_shri_vec ty d s imm = emit_vec_shift_imm (OVShiftI ShriVec) ty d s imm"

definition gen_sari_vec :: "Type \<Rightarrow> tempidx \<Rightarrow> tempidx \<Rightarrow> u32 \<Rightarrow> (Context, tempidx) state" where
  "gen_sari_vec ty d s imm = emit_vec_shift_imm (OVShiftI SariVec) ty d s imm"

definition gen_rotli_vec :: "Type \<Rightarrow> tempidx \<Rightarrow> tempidx \<Rightarrow> u32 \<Rightarrow> (Context, tempidx) state" where
  "gen_rotli_vec ty d s imm = emit_vec_shift_imm (OVShiftI RotliVec) ty d s imm"

definition gen_shls_vec :: "Type \<Rightarrow> tempidx \<Rightarrow> tempidx \<Rightarrow> tempidx \<Rightarrow> (Context, tempidx) state" where
  "gen_shls_vec ty d a b = emit_vec_binary (OVShiftS ShlsVec) ty d a b"

definition gen_shrs_vec :: "Type \<Rightarrow> tempidx \<Rightarrow> tempidx \<Rightarrow> tempidx \<Rightarrow> (Context, tempidx) state" where
  "gen_shrs_vec ty d a b = emit_vec_binary (OVShiftS ShrsVec) ty d a b"

definition gen_sars_vec :: "Type \<Rightarrow> tempidx \<Rightarrow> tempidx \<Rightarrow> tempidx \<Rightarrow> (Context, tempidx) state" where
  "gen_sars_vec ty d a b = emit_vec_binary (OVShiftS SarsVec) ty d a b"

definition gen_rotls_vec :: "Type \<Rightarrow> tempidx \<Rightarrow> tempidx \<Rightarrow> tempidx \<Rightarrow> (Context, tempidx) state" where
  "gen_rotls_vec ty d a b = emit_vec_binary (OVShiftS RotlsVec) ty d a b"

definition gen_shlv_vec :: "Type \<Rightarrow> tempidx \<Rightarrow> tempidx \<Rightarrow> tempidx \<Rightarrow> (Context, tempidx) state" where
  "gen_shlv_vec ty d a b = emit_vec_binary (OVShiftV ShlvVec) ty d a b"

definition gen_shrv_vec :: "Type \<Rightarrow> tempidx \<Rightarrow> tempidx \<Rightarrow> tempidx \<Rightarrow> (Context, tempidx) state" where
  "gen_shrv_vec ty d a b = emit_vec_binary (OVShiftV ShrvVec) ty d a b"

definition gen_sarv_vec :: "Type \<Rightarrow> tempidx \<Rightarrow> tempidx \<Rightarrow> tempidx \<Rightarrow> (Context, tempidx) state" where
  "gen_sarv_vec ty d a b = emit_vec_binary (OVShiftV SarvVec) ty d a b"

definition gen_rotlv_vec :: "Type \<Rightarrow> tempidx \<Rightarrow> tempidx \<Rightarrow> tempidx \<Rightarrow> (Context, tempidx) state" where
  "gen_rotlv_vec ty d a b = emit_vec_binary (OVShiftV RotlvVec) ty d a b"

definition gen_rotrv_vec :: "Type \<Rightarrow> tempidx \<Rightarrow> tempidx \<Rightarrow> tempidx \<Rightarrow> (Context, tempidx) state" where
  "gen_rotrv_vec ty d a b = emit_vec_binary (OVShiftV RotrvVec) ty d a b"

definition gen_cmp_vec :: "Type \<Rightarrow> tempidx \<Rightarrow> tempidx \<Rightarrow> tempidx \<Rightarrow> Cond \<Rightarrow> (Context, tempidx) state" where
  "gen_cmp_vec ty d a b cond = do {
     idx \<leftarrow> next_op_idx;
     let op = op_with_args idx (OVCmp CmpVec) ty [d, a, b, carg (cond_as_u32 cond)];
     _ \<leftarrow> emit_op op;
     State_Monad.return d
   }"

definition gen_bitsel_vec :: "Type \<Rightarrow> tempidx \<Rightarrow> tempidx \<Rightarrow> tempidx \<Rightarrow> tempidx \<Rightarrow> (Context, tempidx) state" where
  "gen_bitsel_vec ty d a b c = do {
     idx \<leftarrow> next_op_idx;
     let op = op_with_args idx (OVCmp BitselVec) ty [d, a, b, c];
     _ \<leftarrow> emit_op op;
     State_Monad.return d
   }"

definition gen_cmpsel_vec :: "Type \<Rightarrow> tempidx \<Rightarrow> tempidx \<Rightarrow> tempidx \<Rightarrow> tempidx \<Rightarrow> tempidx \<Rightarrow> Cond \<Rightarrow> (Context, tempidx) state" where
  "gen_cmpsel_vec ty d c1 c2 v1 v2 cond = do {
     idx \<leftarrow> next_op_idx;
     let op = op_with_args idx (OVCmp CmpselVec) ty [d, c1, c2, v1, v2, carg (cond_as_u32 cond)];
     _ \<leftarrow> emit_op op;
     State_Monad.return d
   }"

section \<open>What a builder method does\<close>

abbreviation exec :: "(Context, 'r) state \<Rightarrow> Context \<Rightarrow> Context" where
  "exec m c \<equiv> snd (run_state m c)"

definition push_op :: "Opcode \<Rightarrow> Type \<Rightarrow> tempidx list \<Rightarrow> Context \<Rightarrow> Context" where
  "push_op opc ty args c =
     c\<lparr>ops := ops c @ [op_with_args (of_nat (length (ops c))) opc ty args]\<rparr>"

definition emits :: "(Context, 'r) state \<Rightarrow> Opcode \<Rightarrow> Type \<Rightarrow> tempidx list \<Rightarrow> 'r \<Rightarrow> bool" where
  "emits m opc ty args r \<longleftrightarrow> (\<forall>c. run_state m c = (r, push_op opc ty args c))"

lemma emits_exec: "emits m opc ty args r \<Longrightarrow> exec m c = push_op opc ty args c"
  by (simp add: emits_def)

lemma emits_op:
  "emits (do { idx \<leftarrow> next_op_idx; let op = op_with_args idx opc ty args;
               _ \<leftarrow> emit_op op; State_Monad.return r }) opc ty args r"
  by (simp add: emits_def push_op_def next_op_idx_def emit_op_def op_with_args_def op_new_def Let_def)

lemma emits_helpers:
  "emits (emit_binary opc ty dst a b) opc ty [dst, a, b] dst"
  "emits (emit_unary opc ty dst src) opc ty [dst, src] dst"
  "emits (emit_sized_load opc ty dst base offset) opc ty [dst, base, carg (ucast offset)] dst"
  "emits (emit_sized_store opc ty src base offset) opc ty [src, base, carg (ucast offset)] ()"
  "emits (emit_vec_binary opc ty d a b) opc ty [d, a, b] d"
  "emits (emit_vec_unary opc ty d s) opc ty [d, s] d"
  "emits (emit_vec_shift_imm opc ty d s imm) opc ty [d, s, carg imm] d"
  unfolding emit_binary_def emit_unary_def emit_sized_load_def emit_sized_store_def emit_vec_binary_def emit_vec_unary_def emit_vec_shift_imm_def
  by (rule emits_op)+

lemmas gen_defs =
  gen_add_def gen_sub_def gen_mul_def gen_and_def gen_or_def gen_xor_def gen_shl_def gen_shr_def
  gen_sar_def gen_rotl_def gen_rotr_def gen_andc_def gen_orc_def gen_eqv_def gen_nand_def
  gen_nor_def gen_divs_def gen_divu_def gen_rems_def gen_remu_def gen_divs2_def gen_divu2_def
  gen_muls2_def gen_mulu2_def gen_mulsh_def gen_muluh_def gen_addco_def gen_addci_def
  gen_addcio_def gen_addc1o_def gen_subbo_def gen_subbi_def gen_subbio_def gen_subb1o_def
  gen_extract_def gen_sextract_def gen_deposit_def gen_extract2_def gen_bswap16_def
  gen_bswap32_def gen_bswap64_def gen_clz_def gen_ctz_def gen_ctpop_def gen_brcond2_i32_def
  gen_setcond2_i32_def gen_negsetcond_def gen_movcond_def gen_neg_def gen_not_def gen_mov_def
  gen_ext_i32_i64_def gen_ext_u32_i64_def gen_extrl_i64_i32_def gen_extrh_i64_i32_def
  gen_setcond_def gen_ld_def gen_st_def gen_ld8u_def gen_ld8s_def gen_ld16u_def gen_ld16s_def
  gen_ld32u_def gen_ld32s_def gen_st8_def gen_st16_def gen_st32_def gen_br_def gen_brcond_def
  gen_set_label_def gen_goto_tb_def gen_exit_tb_def gen_insn_start_def gen_goto_ptr_def
  gen_mb_def gen_discard_def gen_qemu_ld_def gen_qemu_st_def gen_qemu_ld2_def gen_qemu_st2_def
  gen_dup_vec_def gen_dup2_vec_def gen_ld_vec_def gen_st_vec_def gen_dupm_vec_def gen_add_vec_def
  gen_sub_vec_def gen_mul_vec_def gen_neg_vec_def gen_abs_vec_def gen_ssadd_vec_def
  gen_usadd_vec_def gen_sssub_vec_def gen_ussub_vec_def gen_smin_vec_def gen_umin_vec_def
  gen_smax_vec_def gen_umax_vec_def gen_and_vec_def gen_or_vec_def gen_xor_vec_def
  gen_andc_vec_def gen_orc_vec_def gen_nand_vec_def gen_nor_vec_def gen_eqv_vec_def
  gen_not_vec_def gen_shli_vec_def gen_shri_vec_def gen_sari_vec_def gen_rotli_vec_def
  gen_shls_vec_def gen_shrs_vec_def gen_sars_vec_def gen_rotls_vec_def gen_shlv_vec_def
  gen_shrv_vec_def gen_sarv_vec_def gen_rotlv_vec_def gen_rotrv_vec_def gen_cmp_vec_def
  gen_bitsel_vec_def gen_cmpsel_vec_def

lemma emits_gen:
  "emits (gen_add ty d a b) (OArith Add) ty [d, a, b] d"
  "emits (gen_sub ty d a b) (OArith Sub) ty [d, a, b] d"
  "emits (gen_mul ty d a b) (OArith Mul) ty [d, a, b] d"
  "emits (gen_and ty d a b) (OLogic And) ty [d, a, b] d"
  "emits (gen_or ty d a b) (OLogic Or) ty [d, a, b] d"
  "emits (gen_xor ty d a b) (OLogic Xor) ty [d, a, b] d"
  "emits (gen_shl ty d a b) (OShift Shl) ty [d, a, b] d"
  "emits (gen_shr ty d a b) (OShift Shr) ty [d, a, b] d"
  "emits (gen_sar ty d a b) (OShift Sar) ty [d, a, b] d"
  "emits (gen_rotl ty d a b) (OShift RotL) ty [d, a, b] d"
  "emits (gen_rotr ty d a b) (OShift RotR) ty [d, a, b] d"
  "emits (gen_andc ty d a b) (OLogic AndC) ty [d, a, b] d"
  "emits (gen_orc ty d a b) (OLogic OrC) ty [d, a, b] d"
  "emits (gen_eqv ty d a b) (OLogic Eqv) ty [d, a, b] d"
  "emits (gen_nand ty d a b) (OLogic Nand) ty [d, a, b] d"
  "emits (gen_nor ty d a b) (OLogic Nor) ty [d, a, b] d"
  "emits (gen_divs ty d a b) (OArith DivS) ty [d, a, b] d"
  "emits (gen_divu ty d a b) (OArith DivU) ty [d, a, b] d"
  "emits (gen_rems ty d a b) (OArith RemS) ty [d, a, b] d"
  "emits (gen_remu ty d a b) (OArith RemU) ty [d, a, b] d"
  "emits (gen_divs2 ty dl dh al ah b) (OArith DivS2) ty [dl, dh, al, ah, b] ()"
  "emits (gen_divu2 ty dl dh al ah b) (OArith DivU2) ty [dl, dh, al, ah, b] ()"
  "emits (gen_muls2 ty dl dh a b) (OMulW MulS2) ty [dl, dh, a, b] ()"
  "emits (gen_mulu2 ty dl dh a b) (OMulW MulU2) ty [dl, dh, a, b] ()"
  "emits (gen_mulsh ty d a b) (OMulW MulSH) ty [d, a, b] d"
  "emits (gen_muluh ty d a b) (OMulW MulUH) ty [d, a, b] d"
  "emits (gen_addco ty d a b) (OCarry AddCO) ty [d, a, b] d"
  "emits (gen_addci ty d a b) (OCarry AddCI) ty [d, a, b] d"
  "emits (gen_addcio ty d a b) (OCarry AddCIO) ty [d, a, b] d"
  "emits (gen_addc1o ty d a b) (OCarry AddC1O) ty [d, a, b] d"
  "emits (gen_subbo ty d a b) (OCarry SubBO) ty [d, a, b] d"
  "emits (gen_subbi ty d a b) (OCarry SubBI) ty [d, a, b] d"
  "emits (gen_subbio ty d a b) (OCarry SubBIO) ty [d, a, b] d"
  "emits (gen_subb1o ty d a b) (OCarry SubB1O) ty [d, a, b] d"
  "emits (gen_extract ty d src ofs len) (OField Extract) ty [d, src, carg ofs, carg len] d"
  "emits (gen_sextract ty d src ofs len) (OField SExtract) ty [d, src, carg ofs, carg len] d"
  "emits (gen_deposit ty d a b ofs len) (OField Deposit) ty [d, a, b, carg ofs, carg len] d"
  "emits (gen_extract2 ty d al ah ofs) (OField Extract2) ty [d, al, ah, carg ofs] d"
  "emits (gen_bswap16 ty d src flags) (OBswap Bswap16) ty [d, src, carg flags] d"
  "emits (gen_bswap32 ty d src flags) (OBswap Bswap32) ty [d, src, carg flags] d"
  "emits (gen_bswap64 ty d src flags) (OBswap Bswap64) ty [d, src, carg flags] d"
  "emits (gen_clz ty d a b) (OCount Clz) ty [d, a, b] d"
  "emits (gen_ctz ty d a b) (OCount Ctz) ty [d, a, b] d"
  "emits (gen_ctpop ty d src) (OCount CtPop) ty [d, src] d"
  "emits (gen_brcond2_i32 al ah bl bh cond label_id) (OPair BrCond2I32) I32 [al, ah, bl, bh, carg (cond_as_u32 cond), carg label_id] ()"
  "emits (gen_setcond2_i32 d al ah bl bh cond) (OPair SetCond2I32) I32 [d, al, ah, bl, bh, carg (cond_as_u32 cond)] d"
  "emits (gen_negsetcond ty d a b cond) (OMov NegSetCond) ty [d, a, b, carg (cond_as_u32 cond)] d"
  "emits (gen_movcond ty d c1 c2 v1 v2 cond) (OMov MovCond) ty [d, c1, c2, v1, v2, carg (cond_as_u32 cond)] d"
  "emits (gen_neg ty d s) (OArith Neg) ty [d, s] d"
  "emits (gen_not ty d s) (OLogic NotI) ty [d, s] d"
  "emits (gen_mov ty d s) (OMov Mov) ty [d, s] d"
  "emits (gen_ext_i32_i64 d s) (OConv ExtI32I64) I64 [d, s] d"
  "emits (gen_ext_u32_i64 d s) (OConv ExtUI32I64) I64 [d, s] d"
  "emits (gen_extrl_i64_i32 d s) (OConv ExtrlI64I32) I32 [d, s] d"
  "emits (gen_extrh_i64_i32 d s) (OConv ExtrhI64I32) I32 [d, s] d"
  "emits (gen_setcond ty d a b cond) (OMov SetCond) ty [d, a, b, carg (cond_as_u32 cond)] d"
  "emits (gen_ld ty dst base offset) (OHost Ld) ty [dst, base, carg (ucast offset)] dst"
  "emits (gen_st ty src base offset) (OHost St) ty [src, base, carg (ucast offset)] ()"
  "emits (gen_ld8u ty dst base offset) (OHost Ld8U) ty [dst, base, carg (ucast offset)] dst"
  "emits (gen_ld8s ty dst base offset) (OHost Ld8S) ty [dst, base, carg (ucast offset)] dst"
  "emits (gen_ld16u ty dst base offset) (OHost Ld16U) ty [dst, base, carg (ucast offset)] dst"
  "emits (gen_ld16s ty dst base offset) (OHost Ld16S) ty [dst, base, carg (ucast offset)] dst"
  "emits (gen_ld32u ty dst base offset) (OHost Ld32U) ty [dst, base, carg (ucast offset)] dst"
  "emits (gen_ld32s ty dst base offset) (OHost Ld32S) ty [dst, base, carg (ucast offset)] dst"
  "emits (gen_st8 ty src base offset) (OHost St8) ty [src, base, carg (ucast offset)] ()"
  "emits (gen_st16 ty src base offset) (OHost St16) ty [src, base, carg (ucast offset)] ()"
  "emits (gen_st32 ty src base offset) (OHost St32) ty [src, base, carg (ucast offset)] ()"
  "emits (gen_br label_id) (OCtl Br) I64 [carg label_id] ()"
  "emits (gen_brcond ty a b cond label_id) (OCtl BrCond) ty [a, b, carg (cond_as_u32 cond), carg label_id] ()"
  "emits (gen_set_label label_id) (OCtl SetLabel) I64 [carg label_id] ()"
  "emits (gen_goto_tb slot) (OCtl GotoTb) I64 [carg slot] ()"
  "emits (gen_exit_tb val64) (OCtl ExitTb) I64 [carg (ucast val64)] ()"
  "emits (gen_insn_start pc) (OMisc InsnStart) I64 [carg (ucast pc), carg (ucast (drop_bit 32 pc))] ()"
  "emits (gen_goto_ptr ptr) (OCtl GotoPtr) I64 [ptr] ()"
  "emits (gen_mb bar_type) (OCtl Mb) I64 [carg bar_type] ()"
  "emits (gen_discard ty t) (OMisc Discard) ty [t] ()"
  "emits (gen_qemu_ld ty dst addr memop) (OGuest QemuLd) ty [dst, addr, carg memop] dst"
  "emits (gen_qemu_st ty v addr memop) (OGuest QemuSt) ty [v, addr, carg memop] ()"
  "emits (gen_qemu_ld2 ty dl dh addr memop) (OGuest QemuLd2) ty [dl, dh, addr, carg memop] ()"
  "emits (gen_qemu_st2 ty vl vh addr memop) (OGuest QemuSt2) ty [vl, vh, addr, carg memop] ()"
  "emits (gen_dup_vec ty d s) (OVMov DupVec) ty [d, s] d"
  "emits (gen_dup2_vec ty d a b) (OVMov Dup2Vec) ty [d, a, b] d"
  "emits (gen_ld_vec ty dst base offset) (OVMov LdVec) ty [dst, base, carg (ucast offset)] dst"
  "emits (gen_st_vec ty src base offset) (OVMov StVec) ty [src, base, carg (ucast offset)] ()"
  "emits (gen_dupm_vec ty dst base offset) (OVMov DupmVec) ty [dst, base, carg (ucast offset)] dst"
  "emits (gen_add_vec ty d a b) (OVArith AddVec) ty [d, a, b] d"
  "emits (gen_sub_vec ty d a b) (OVArith SubVec) ty [d, a, b] d"
  "emits (gen_mul_vec ty d a b) (OVArith MulVec) ty [d, a, b] d"
  "emits (gen_neg_vec ty d s) (OVArith NegVec) ty [d, s] d"
  "emits (gen_abs_vec ty d s) (OVArith AbsVec) ty [d, s] d"
  "emits (gen_ssadd_vec ty d a b) (OVArith SsaddVec) ty [d, a, b] d"
  "emits (gen_usadd_vec ty d a b) (OVArith UsaddVec) ty [d, a, b] d"
  "emits (gen_sssub_vec ty d a b) (OVArith SssubVec) ty [d, a, b] d"
  "emits (gen_ussub_vec ty d a b) (OVArith UssubVec) ty [d, a, b] d"
  "emits (gen_smin_vec ty d a b) (OVArith SminVec) ty [d, a, b] d"
  "emits (gen_umin_vec ty d a b) (OVArith UminVec) ty [d, a, b] d"
  "emits (gen_smax_vec ty d a b) (OVArith SmaxVec) ty [d, a, b] d"
  "emits (gen_umax_vec ty d a b) (OVArith UmaxVec) ty [d, a, b] d"
  "emits (gen_and_vec ty d a b) (OVLogic AndVec) ty [d, a, b] d"
  "emits (gen_or_vec ty d a b) (OVLogic OrVec) ty [d, a, b] d"
  "emits (gen_xor_vec ty d a b) (OVLogic XorVec) ty [d, a, b] d"
  "emits (gen_andc_vec ty d a b) (OVLogic AndcVec) ty [d, a, b] d"
  "emits (gen_orc_vec ty d a b) (OVLogic OrcVec) ty [d, a, b] d"
  "emits (gen_nand_vec ty d a b) (OVLogic NandVec) ty [d, a, b] d"
  "emits (gen_nor_vec ty d a b) (OVLogic NorVec) ty [d, a, b] d"
  "emits (gen_eqv_vec ty d a b) (OVLogic EqvVec) ty [d, a, b] d"
  "emits (gen_not_vec ty d s) (OVLogic NotVec) ty [d, s] d"
  "emits (gen_shli_vec ty d s imm) (OVShiftI ShliVec) ty [d, s, carg imm] d"
  "emits (gen_shri_vec ty d s imm) (OVShiftI ShriVec) ty [d, s, carg imm] d"
  "emits (gen_sari_vec ty d s imm) (OVShiftI SariVec) ty [d, s, carg imm] d"
  "emits (gen_rotli_vec ty d s imm) (OVShiftI RotliVec) ty [d, s, carg imm] d"
  "emits (gen_shls_vec ty d a b) (OVShiftS ShlsVec) ty [d, a, b] d"
  "emits (gen_shrs_vec ty d a b) (OVShiftS ShrsVec) ty [d, a, b] d"
  "emits (gen_sars_vec ty d a b) (OVShiftS SarsVec) ty [d, a, b] d"
  "emits (gen_rotls_vec ty d a b) (OVShiftS RotlsVec) ty [d, a, b] d"
  "emits (gen_shlv_vec ty d a b) (OVShiftV ShlvVec) ty [d, a, b] d"
  "emits (gen_shrv_vec ty d a b) (OVShiftV ShrvVec) ty [d, a, b] d"
  "emits (gen_sarv_vec ty d a b) (OVShiftV SarvVec) ty [d, a, b] d"
  "emits (gen_rotlv_vec ty d a b) (OVShiftV RotlvVec) ty [d, a, b] d"
  "emits (gen_rotrv_vec ty d a b) (OVShiftV RotrvVec) ty [d, a, b] d"
  "emits (gen_cmp_vec ty d a b cond) (OVCmp CmpVec) ty [d, a, b, carg (cond_as_u32 cond)] d"
  "emits (gen_bitsel_vec ty d a b c) (OVCmp BitselVec) ty [d, a, b, c] d"
  "emits (gen_cmpsel_vec ty d c1 c2 v1 v2 cond) (OVCmp CmpselVec) ty [d, c1, c2, v1, v2, carg (cond_as_u32 cond)] d"
  unfolding gen_defs by (rule emits_op emits_helpers)+

text \<open>\<open>gen_call\<close> pads the argument list with the constant zero before it emits the call.\<close>

lemma gen_call_exec:
  "exec (gen_call dst helper args) c =
     (let (zero, c1) = run_state (new_const I64 0) c
      in push_op Call I64 ([dst]
           @ map (\<lambda>i. if i < length args then args ! i else zero) [0..<6]
           @ [carg (ucast helper), carg (ucast (drop_bit 32 helper))]) c1)"
  by (simp add: gen_call_def push_op_def next_op_idx_def emit_op_def op_with_args_def op_new_def
      Let_def split: prod.splits)

section \<open>Contexts under construction\<close>

text \<open>
  One step of a frontend on the context: a builder method with any arguments, or one of the
  context's own constructors of temps, constants and labels.
\<close>

inductive builder_step :: "Context \<Rightarrow> Context \<Rightarrow> bool" where
  bs_new_temp: "builder_step ctx (exec (new_temp ty) ctx)"
| bs_new_temp_tb: "builder_step ctx (exec (new_temp_tb ty) ctx)"
| bs_new_const: "builder_step ctx (exec (new_const ty v) ctx)"
| bs_new_label: "builder_step ctx (exec new_label ctx)"
| bs_call: "builder_step ctx (exec (gen_call dst helper args) ctx)"
| bs_add: "builder_step ctx (exec (gen_add ty d a b) ctx)"
| bs_sub: "builder_step ctx (exec (gen_sub ty d a b) ctx)"
| bs_mul: "builder_step ctx (exec (gen_mul ty d a b) ctx)"
| bs_and: "builder_step ctx (exec (gen_and ty d a b) ctx)"
| bs_or: "builder_step ctx (exec (gen_or ty d a b) ctx)"
| bs_xor: "builder_step ctx (exec (gen_xor ty d a b) ctx)"
| bs_shl: "builder_step ctx (exec (gen_shl ty d a b) ctx)"
| bs_shr: "builder_step ctx (exec (gen_shr ty d a b) ctx)"
| bs_sar: "builder_step ctx (exec (gen_sar ty d a b) ctx)"
| bs_rotl: "builder_step ctx (exec (gen_rotl ty d a b) ctx)"
| bs_rotr: "builder_step ctx (exec (gen_rotr ty d a b) ctx)"
| bs_andc: "builder_step ctx (exec (gen_andc ty d a b) ctx)"
| bs_orc: "builder_step ctx (exec (gen_orc ty d a b) ctx)"
| bs_eqv: "builder_step ctx (exec (gen_eqv ty d a b) ctx)"
| bs_nand: "builder_step ctx (exec (gen_nand ty d a b) ctx)"
| bs_nor: "builder_step ctx (exec (gen_nor ty d a b) ctx)"
| bs_divs: "builder_step ctx (exec (gen_divs ty d a b) ctx)"
| bs_divu: "builder_step ctx (exec (gen_divu ty d a b) ctx)"
| bs_rems: "builder_step ctx (exec (gen_rems ty d a b) ctx)"
| bs_remu: "builder_step ctx (exec (gen_remu ty d a b) ctx)"
| bs_divs2: "builder_step ctx (exec (gen_divs2 ty dl dh al ah b) ctx)"
| bs_divu2: "builder_step ctx (exec (gen_divu2 ty dl dh al ah b) ctx)"
| bs_muls2: "builder_step ctx (exec (gen_muls2 ty dl dh a b) ctx)"
| bs_mulu2: "builder_step ctx (exec (gen_mulu2 ty dl dh a b) ctx)"
| bs_mulsh: "builder_step ctx (exec (gen_mulsh ty d a b) ctx)"
| bs_muluh: "builder_step ctx (exec (gen_muluh ty d a b) ctx)"
| bs_addco: "builder_step ctx (exec (gen_addco ty d a b) ctx)"
| bs_addci: "builder_step ctx (exec (gen_addci ty d a b) ctx)"
| bs_addcio: "builder_step ctx (exec (gen_addcio ty d a b) ctx)"
| bs_addc1o: "builder_step ctx (exec (gen_addc1o ty d a b) ctx)"
| bs_subbo: "builder_step ctx (exec (gen_subbo ty d a b) ctx)"
| bs_subbi: "builder_step ctx (exec (gen_subbi ty d a b) ctx)"
| bs_subbio: "builder_step ctx (exec (gen_subbio ty d a b) ctx)"
| bs_subb1o: "builder_step ctx (exec (gen_subb1o ty d a b) ctx)"
| bs_extract: "builder_step ctx (exec (gen_extract ty d src ofs len) ctx)"
| bs_sextract: "builder_step ctx (exec (gen_sextract ty d src ofs len) ctx)"
| bs_deposit: "builder_step ctx (exec (gen_deposit ty d a b ofs len) ctx)"
| bs_extract2: "builder_step ctx (exec (gen_extract2 ty d al ah ofs) ctx)"
| bs_bswap16: "builder_step ctx (exec (gen_bswap16 ty d src flags) ctx)"
| bs_bswap32: "builder_step ctx (exec (gen_bswap32 ty d src flags) ctx)"
| bs_bswap64: "builder_step ctx (exec (gen_bswap64 ty d src flags) ctx)"
| bs_clz: "builder_step ctx (exec (gen_clz ty d a b) ctx)"
| bs_ctz: "builder_step ctx (exec (gen_ctz ty d a b) ctx)"
| bs_ctpop: "builder_step ctx (exec (gen_ctpop ty d src) ctx)"
| bs_brcond2_i32: "builder_step ctx (exec (gen_brcond2_i32 al ah bl bh cond label_id) ctx)"
| bs_setcond2_i32: "builder_step ctx (exec (gen_setcond2_i32 d al ah bl bh cond) ctx)"
| bs_negsetcond: "builder_step ctx (exec (gen_negsetcond ty d a b cond) ctx)"
| bs_movcond: "builder_step ctx (exec (gen_movcond ty d c1 c2 v1 v2 cond) ctx)"
| bs_neg: "builder_step ctx (exec (gen_neg ty d s) ctx)"
| bs_not: "builder_step ctx (exec (gen_not ty d s) ctx)"
| bs_mov: "builder_step ctx (exec (gen_mov ty d s) ctx)"
| bs_ext_i32_i64: "builder_step ctx (exec (gen_ext_i32_i64 d s) ctx)"
| bs_ext_u32_i64: "builder_step ctx (exec (gen_ext_u32_i64 d s) ctx)"
| bs_extrl_i64_i32: "builder_step ctx (exec (gen_extrl_i64_i32 d s) ctx)"
| bs_extrh_i64_i32: "builder_step ctx (exec (gen_extrh_i64_i32 d s) ctx)"
| bs_setcond: "builder_step ctx (exec (gen_setcond ty d a b cond) ctx)"
| bs_ld: "builder_step ctx (exec (gen_ld ty dst base offset) ctx)"
| bs_st: "builder_step ctx (exec (gen_st ty src base offset) ctx)"
| bs_ld8u: "builder_step ctx (exec (gen_ld8u ty dst base offset) ctx)"
| bs_ld8s: "builder_step ctx (exec (gen_ld8s ty dst base offset) ctx)"
| bs_ld16u: "builder_step ctx (exec (gen_ld16u ty dst base offset) ctx)"
| bs_ld16s: "builder_step ctx (exec (gen_ld16s ty dst base offset) ctx)"
| bs_ld32u: "builder_step ctx (exec (gen_ld32u ty dst base offset) ctx)"
| bs_ld32s: "builder_step ctx (exec (gen_ld32s ty dst base offset) ctx)"
| bs_st8: "builder_step ctx (exec (gen_st8 ty src base offset) ctx)"
| bs_st16: "builder_step ctx (exec (gen_st16 ty src base offset) ctx)"
| bs_st32: "builder_step ctx (exec (gen_st32 ty src base offset) ctx)"
| bs_br: "builder_step ctx (exec (gen_br label_id) ctx)"
| bs_brcond: "builder_step ctx (exec (gen_brcond ty a b cond label_id) ctx)"
| bs_set_label: "builder_step ctx (exec (gen_set_label label_id) ctx)"
| bs_goto_tb: "builder_step ctx (exec (gen_goto_tb slot) ctx)"
| bs_exit_tb: "builder_step ctx (exec (gen_exit_tb val64) ctx)"
| bs_insn_start: "builder_step ctx (exec (gen_insn_start pc) ctx)"
| bs_goto_ptr: "builder_step ctx (exec (gen_goto_ptr ptr) ctx)"
| bs_mb: "builder_step ctx (exec (gen_mb bar_type) ctx)"
| bs_discard: "builder_step ctx (exec (gen_discard ty t) ctx)"
| bs_qemu_ld: "builder_step ctx (exec (gen_qemu_ld ty dst addr memop) ctx)"
| bs_qemu_st: "builder_step ctx (exec (gen_qemu_st ty v addr memop) ctx)"
| bs_qemu_ld2: "builder_step ctx (exec (gen_qemu_ld2 ty dl dh addr memop) ctx)"
| bs_qemu_st2: "builder_step ctx (exec (gen_qemu_st2 ty vl vh addr memop) ctx)"
| bs_dup_vec: "builder_step ctx (exec (gen_dup_vec ty d s) ctx)"
| bs_dup2_vec: "builder_step ctx (exec (gen_dup2_vec ty d a b) ctx)"
| bs_ld_vec: "builder_step ctx (exec (gen_ld_vec ty dst base offset) ctx)"
| bs_st_vec: "builder_step ctx (exec (gen_st_vec ty src base offset) ctx)"
| bs_dupm_vec: "builder_step ctx (exec (gen_dupm_vec ty dst base offset) ctx)"
| bs_add_vec: "builder_step ctx (exec (gen_add_vec ty d a b) ctx)"
| bs_sub_vec: "builder_step ctx (exec (gen_sub_vec ty d a b) ctx)"
| bs_mul_vec: "builder_step ctx (exec (gen_mul_vec ty d a b) ctx)"
| bs_neg_vec: "builder_step ctx (exec (gen_neg_vec ty d s) ctx)"
| bs_abs_vec: "builder_step ctx (exec (gen_abs_vec ty d s) ctx)"
| bs_ssadd_vec: "builder_step ctx (exec (gen_ssadd_vec ty d a b) ctx)"
| bs_usadd_vec: "builder_step ctx (exec (gen_usadd_vec ty d a b) ctx)"
| bs_sssub_vec: "builder_step ctx (exec (gen_sssub_vec ty d a b) ctx)"
| bs_ussub_vec: "builder_step ctx (exec (gen_ussub_vec ty d a b) ctx)"
| bs_smin_vec: "builder_step ctx (exec (gen_smin_vec ty d a b) ctx)"
| bs_umin_vec: "builder_step ctx (exec (gen_umin_vec ty d a b) ctx)"
| bs_smax_vec: "builder_step ctx (exec (gen_smax_vec ty d a b) ctx)"
| bs_umax_vec: "builder_step ctx (exec (gen_umax_vec ty d a b) ctx)"
| bs_and_vec: "builder_step ctx (exec (gen_and_vec ty d a b) ctx)"
| bs_or_vec: "builder_step ctx (exec (gen_or_vec ty d a b) ctx)"
| bs_xor_vec: "builder_step ctx (exec (gen_xor_vec ty d a b) ctx)"
| bs_andc_vec: "builder_step ctx (exec (gen_andc_vec ty d a b) ctx)"
| bs_orc_vec: "builder_step ctx (exec (gen_orc_vec ty d a b) ctx)"
| bs_nand_vec: "builder_step ctx (exec (gen_nand_vec ty d a b) ctx)"
| bs_nor_vec: "builder_step ctx (exec (gen_nor_vec ty d a b) ctx)"
| bs_eqv_vec: "builder_step ctx (exec (gen_eqv_vec ty d a b) ctx)"
| bs_not_vec: "builder_step ctx (exec (gen_not_vec ty d s) ctx)"
| bs_shli_vec: "builder_step ctx (exec (gen_shli_vec ty d s imm) ctx)"
| bs_shri_vec: "builder_step ctx (exec (gen_shri_vec ty d s imm) ctx)"
| bs_sari_vec: "builder_step ctx (exec (gen_sari_vec ty d s imm) ctx)"
| bs_rotli_vec: "builder_step ctx (exec (gen_rotli_vec ty d s imm) ctx)"
| bs_shls_vec: "builder_step ctx (exec (gen_shls_vec ty d a b) ctx)"
| bs_shrs_vec: "builder_step ctx (exec (gen_shrs_vec ty d a b) ctx)"
| bs_sars_vec: "builder_step ctx (exec (gen_sars_vec ty d a b) ctx)"
| bs_rotls_vec: "builder_step ctx (exec (gen_rotls_vec ty d a b) ctx)"
| bs_shlv_vec: "builder_step ctx (exec (gen_shlv_vec ty d a b) ctx)"
| bs_shrv_vec: "builder_step ctx (exec (gen_shrv_vec ty d a b) ctx)"
| bs_sarv_vec: "builder_step ctx (exec (gen_sarv_vec ty d a b) ctx)"
| bs_rotlv_vec: "builder_step ctx (exec (gen_rotlv_vec ty d a b) ctx)"
| bs_rotrv_vec: "builder_step ctx (exec (gen_rotrv_vec ty d a b) ctx)"
| bs_cmp_vec: "builder_step ctx (exec (gen_cmp_vec ty d a b cond) ctx)"
| bs_bitsel_vec: "builder_step ctx (exec (gen_bitsel_vec ty d a b c) ctx)"
| bs_cmpsel_vec: "builder_step ctx (exec (gen_cmpsel_vec ty d c1 c2 v1 v2 cond) ctx)"

text \<open>The arity contract of an op: it has as many arguments as its opcode's definition says.\<close>

definition op_arity_ok :: "Op \<Rightarrow> bool" where
  "op_arity_ok op \<longleftrightarrow> length (o_args op) = MAX_OP_ARGS \<and> unat (o_nargs op) = nb_args (def_of (o_opc op))"

lemma nb_args_bound: "nb_args (def_of opc) \<le> MAX_OP_ARGS"
  using arg_counts [of opc] by (simp add: MAX_OP_ARGS_def)

lemma op_with_args_simps [simp]:
  "o_idx (op_with_args i opc ty args) = i" "o_opc (op_with_args i opc ty args) = opc"
  "o_type (op_with_args i opc ty args) = ty"
  by (simp_all add: op_with_args_def op_new_def Let_def)

lemma op_with_args_arity:
  "length args = nb_args (def_of opc) \<Longrightarrow> op_arity_ok (op_with_args i opc ty args)"
  using nb_args_bound [of opc]
  by (simp add: op_arity_ok_def op_with_args_def op_new_def Let_def MAX_OP_ARGS_def min_def)

definition op_step :: "Context \<Rightarrow> Context \<Rightarrow> bool" where
  "op_step c c' \<longleftrightarrow>
     (\<exists>opc ty args. c' = push_op opc ty args c \<and> length args = nb_args (def_of opc))"

lemma op_step_push: "length args = nb_args (def_of opc) \<Longrightarrow> op_step c (push_op opc ty args c)"
  by (auto simp: op_step_def)

lemmas exec_gen = emits_gen [THEN emits_exec]

lemma builder_step_kind:
  assumes "builder_step c c'"
  shows "(\<exists>ty. c' = exec (new_temp ty) c) \<or> (\<exists>ty. c' = exec (new_temp_tb ty) c) \<or>
    (\<exists>ty v. c' = exec (new_const ty v) c) \<or> c' = exec new_label c \<or> op_step c c' \<or>
    op_step (exec (new_const I64 0) c) c'"
  using assms
proof cases
  case (bs_call dst helper args)
  then show ?thesis
    by (auto simp: gen_call_exec nb_args_def Let_def case_prod_beta intro!: op_step_push)
qed (simp_all add: exec_gen op_step_push nb_args_def, blast+)

definition ctx_inv :: "Context \<Rightarrow> bool" where
  "ctx_inv c \<longleftrightarrow> ctx_wf c \<and> list_all op_arity_ok (ops c)"

lemma ctx_inv_new: "ctx_inv context_new"
  using ctx_wf_new by (simp add: ctx_inv_def context_new_def)

lemma ctx_inv_reset: "ctx_inv c \<Longrightarrow> ctx_inv (reset c)"
  using ctx_wf_reset by (simp add: ctx_inv_def reset_def)

lemma ctx_inv_op_step:
  assumes "op_step c c'" "ctx_inv c" "op_room c"
  shows "ctx_inv c'"
proof -
  from assms(1) obtain opc ty args where c': "c' = push_op opc ty args c"
    and len: "length args = nb_args (def_of opc)" by (auto simp: op_step_def)
  have "c' = exec (emit_op (op_with_args (of_nat (length (ops c))) opc ty args)) c"
    by (simp add: c' push_op_def emit_op_def)
  then have "ctx_wf c'" using assms(2,3) by (auto simp: ctx_inv_def intro: ctx_wf_emit_op)
  then show ?thesis
    using assms(2) op_with_args_arity [OF len] by (simp add: ctx_inv_def c' push_op_def)
qed

lemma ops_ctor [simp]:
  "ops (exec (new_temp ty) c) = ops c" "ops (exec (new_temp_tb ty) c) = ops c"
  "ops (exec (new_const ty v) c) = ops c" "ops (exec new_label c) = ops c"
  by (simp_all add: new_temp_def new_temp_tb_def new_const_def new_label_def Let_def split: option.split)

lemma temps_ctor [simp]:
  "length (temps (exec (new_temp ty) c)) = Suc (length (temps c))"
  "length (temps (exec (new_temp_tb ty) c)) = Suc (length (temps c))"
  "temps (exec new_label c) = temps c"
  "length (temps (exec (new_const ty v) c)) =
     (if const_table c ty v = None then Suc (length (temps c)) else length (temps c))"
  by (simp_all add: new_temp_def new_temp_tb_def new_const_def new_label_def Let_def split: option.split)

lemma op_step_lengths:
  "op_step c c' \<Longrightarrow> temps c' = temps c \<and> length (ops c') = Suc (length (ops c))"
  by (auto simp: op_step_def push_op_def)

lemma builder_step_mono:
  assumes "builder_step c c'"
  shows "length (temps c) \<le> length (temps c') \<and> length (ops c) \<le> length (ops c')"
  using builder_step_kind [OF assms] by (elim disjE exE) (auto dest: op_step_lengths)

lemma ctx_inv_new_const:
  assumes "ctx_inv c" "length (temps (exec (new_const ty v) c)) < 2 ^ 32"
  shows "ctx_inv (exec (new_const ty v) c)"
proof (cases "const_table c ty v")
  case None
  with assms show ?thesis by (auto simp: ctx_inv_def intro: ctx_wf_new_const)
next
  case (Some t)
  with assms show ?thesis by (simp add: new_const_known)
qed

lemma ctx_inv_local:
  assumes "ctx_inv c" "room c"
  shows "ctx_inv (exec (new_temp ty) c)" "ctx_inv (exec (new_temp_tb ty) c)"
  using assms by (auto simp: ctx_inv_def intro: ctx_wf_new_temp ctx_wf_new_temp_tb)

lemma ctx_inv_label: "ctx_inv c \<Longrightarrow> ctx_inv (exec new_label c)"
  by (simp add: ctx_inv_def ctx_wf_new_label)

lemma ctx_inv_step:
  assumes "builder_step c c'" "ctx_inv c" "length (temps c') < 2 ^ 32" "length (ops c') < 2 ^ 32"
  shows "ctx_inv c'"
  using builder_step_kind [OF assms(1)]
proof (elim disjE exE)
  assume op: "op_step (exec (new_const I64 0) c) c'"
  show ?thesis
    by (rule ctx_inv_op_step [OF op]) (use op_step_lengths [OF op] assms in \<open>auto intro: ctx_inv_new_const\<close>)
next
  assume op: "op_step c c'"
  show ?thesis by (rule ctx_inv_op_step [OF op]) (use op_step_lengths [OF op] assms in auto)
qed (use assms(2,3) ctx_inv_local ctx_inv_label ctx_inv_new_const in \<open>auto simp del: One_nat_def\<close>)

text \<open>Any number of steps keeps the invariant, as long as the 32-bit indices do not run out.\<close>

lemma builder_steps_mono:
  assumes "builder_step\<^sup>*\<^sup>* c c'"
  shows "length (temps c) \<le> length (temps c') \<and> length (ops c) \<le> length (ops c')"
  using assms by induction (auto dest: builder_step_mono intro: order_trans)

lemma ctx_inv_steps:
  assumes "builder_step\<^sup>*\<^sup>* c c'" "ctx_inv c" "length (temps c') < 2 ^ 32" "length (ops c') < 2 ^ 32"
  shows "ctx_inv c'"
  using assms(1,3,4)
proof induction
  case base
  show ?case by (rule assms(2))
next
  case (step d e)
  show ?case
    by (rule ctx_inv_step [OF step.hyps(2)]) (use step builder_step_mono [OF step.hyps(2)] in auto)
qed

section \<open>Properties\<close>

text \<open>
  C23: whatever sequence of builder methods and context operations a frontend runs on a
  well-formed context (a new one, or one that was reset), the result is well-formed and every
  op in it has the position it carries as its index and exactly the arguments its opcode's
  table entry prescribes: outputs, inputs and constants together fill \<open>nargs\<close>.
\<close>

theorem built_ops_have_their_arity:
  assumes "builder_step\<^sup>*\<^sup>* c c'" "ctx_inv c" "length (temps c') < 2 ^ 32" "length (ops c') < 2 ^ 32"
    "i < length (ops c')"
  shows "ctx_wf c' \<and> o_idx (ops c' ! i) = of_nat i \<and>
    unat (o_nargs (ops c' ! i)) =
      length (oargs (ops c' ! i)) + length (iargs (ops c' ! i)) + length (cargs (ops c' ! i)) \<and>
    length (oargs (ops c' ! i)) = nb_oargs (def_of (o_opc (ops c' ! i)))"
proof -
  have inv: "ctx_inv c'" by (rule ctx_inv_steps [OF assms(1-4)])
  then have "op_arity_ok (ops c' ! i)"
    using assms(5) by (simp add: ctx_inv_def list_all_length)
  then show ?thesis
    using inv assms(5) nb_args_bound [of "o_opc (ops c' ! i)"]
    by (simp add: ctx_inv_def ctx_wf_def op_arity_ok_def oargs_def iargs_def cargs_def nb_args_def Let_def)
qed

theorem built_ops_have_their_arity_witness:
  "o_idx (ops (exec (gen_br 7) (exec new_label context_new)) ! 0) = 0 \<and>
   unat (o_nargs (ops (exec (gen_br 7) (exec new_label context_new)) ! 0)) = 1"
proof -
  let ?c = "exec (gen_br 7) (exec new_label context_new)"
  have "builder_step\<^sup>*\<^sup>* context_new ?c"
    by (rule rtranclp.rtrancl_into_rtrancl [OF r_into_rtranclp]) (rule bs_new_label bs_br)+
  moreover have "ops ?c = [op_with_args 0 (OCtl Br) I64 [7]]"
    by (simp add: exec_gen push_op_def carg_def) (simp add: new_label_def context_new_def Let_def)
  moreover have "temps ?c = []"
    by (simp add: exec_gen push_op_def context_new_def)
  ultimately show ?thesis
    using built_ops_have_their_arity [of context_new ?c 0] ctx_inv_new
    by (simp add: oargs_def iargs_def cargs_def op_with_args_def op_new_def MAX_OP_ARGS_def Let_def)
qed

end
