(* ===== verification/TB.thy ===== *)
theory TB
  imports Prelude
begin

text \<open>
  Translation blocks (\<open>core/src/tb.rs\<close>): the block record with its chaining state, the
  hash of the global table, the encoding of exit values, and the per-CPU jump cache.

  \<open>usize\<close> values that index tables are \<open>nat\<close>; the \<open>usize\<close> that carries an exit
  value is a 64-bit word, as the host is a 64-bit machine. The mutex around the chaining
  state and the atomics are plain fields: each method of the store runs them under the locks
  the source takes.
\<close>

section \<open>The block\<close>

record TbJmpState =
  jmp_dest :: "nat option list"
  jmp_list :: "(nat \<times> nat) list"

definition TbJmpState_new :: TbJmpState where
  "TbJmpState_new = \<lparr>jmp_dest = [None, None], jmp_list = []\<rparr>"

record TranslationBlock =
  tb_pc :: u64
  tb_cs_base :: u64
  tb_flags :: u32
  tb_cflags :: u32
  tb_size :: u32
  tb_icount :: u16
  host_offset :: nat
  host_size :: nat
  jmp_insn_offset :: "u32 option list"
  jmp_reset_offset :: "u32 option list"
  phys_pc :: u64
  hash_next :: "nat option"
  jmp :: TbJmpState
  invalid :: bool
  exit_target :: nat

definition EXIT_TARGET_NONE :: nat where
  "EXIT_TARGET_NONE = 2 ^ 64 - 1"

definition TB_HASH_SIZE :: nat where
  "TB_HASH_SIZE = 2 ^ 15"

definition TB_JMP_CACHE_SIZE :: nat where
  "TB_JMP_CACHE_SIZE = 2 ^ 12"

definition CF_COUNT_MASK :: u32 where
  "CF_COUNT_MASK = 0x0000FFFF"

definition tb_new :: "u64 \<Rightarrow> u32 \<Rightarrow> u32 \<Rightarrow> TranslationBlock" where
  "tb_new pc flags cflags = \<lparr>tb_pc = pc, tb_cs_base = 0, tb_flags = flags, tb_cflags = cflags,
     tb_size = 0, tb_icount = 0, host_offset = 0, host_size = 0,
     jmp_insn_offset = [None, None], jmp_reset_offset = [None, None], phys_pc = 0,
     hash_next = None, jmp = TbJmpState_new, invalid = False, exit_target = EXIT_TARGET_NONE\<rparr>"

definition tb_hash :: "u64 \<Rightarrow> u32 \<Rightarrow> nat" where
  "tb_hash pc flags =
     unat (((pc * 0x9e3779b97f4a7c15) XOR ucast flags) AND (of_nat TB_HASH_SIZE - 1))"

definition set_jmp_insn_offset :: "nat \<Rightarrow> u32 \<Rightarrow> TranslationBlock \<Rightarrow> TranslationBlock option" where
  "set_jmp_insn_offset n off tb = do {
     assert_that (n < 2);
     xs \<leftarrow> index_set (jmp_insn_offset tb) n (Some off);
     Some (tb\<lparr>jmp_insn_offset := xs\<rparr>) }"

definition set_jmp_reset_offset :: "nat \<Rightarrow> u32 \<Rightarrow> TranslationBlock \<Rightarrow> TranslationBlock option" where
  "set_jmp_reset_offset n off tb = do {
     assert_that (n < 2);
     xs \<leftarrow> index_set (jmp_reset_offset tb) n (Some off);
     Some (tb\<lparr>jmp_reset_offset := xs\<rparr>) }"

definition max_insns :: "u32 \<Rightarrow> u32" where
  "max_insns cflags = (let count = cflags AND CF_COUNT_MASK in if count = 0 then 512 else count)"

section \<open>Exit values\<close>

definition TB_EXIT_IDX0 :: u64 where "TB_EXIT_IDX0 = 0"
definition TB_EXIT_IDX1 :: u64 where "TB_EXIT_IDX1 = 1"
definition TB_EXIT_NOCHAIN :: u64 where "TB_EXIT_NOCHAIN = 2"
definition TB_EXIT_MAX :: u64 where "TB_EXIT_MAX = 3"
definition EXCP_ECALL :: u64 where "EXCP_ECALL = TB_EXIT_MAX"
definition EXCP_EBREAK :: u64 where "EXCP_EBREAK = TB_EXIT_MAX + 1"
definition EXCP_UNDEF :: u64 where "EXCP_UNDEF = TB_EXIT_MAX + 2"

lemmas exit_defs [model_defs] = TB_EXIT_IDX0_def TB_EXIT_IDX1_def TB_EXIT_NOCHAIN_def TB_EXIT_MAX_def
  EXCP_ECALL_def EXCP_EBREAK_def EXCP_UNDEF_def

definition encode_tb_exit :: "u32 \<Rightarrow> u64 \<Rightarrow> u64" where
  "encode_tb_exit tb_idx v =
     (if v < TB_EXIT_MAX then push_bit 32 (ucast tb_idx + 1) OR v else v)"

definition decode_tb_exit :: "u64 \<Rightarrow> nat option \<times> u64" where
  "decode_tb_exit r =
     (let marker = drop_bit 32 r
      in if marker \<noteq> 0 then (Some (unat (marker - 1)), r AND 3) else (None, r))"

section \<open>The jump cache\<close>

datatype JumpCache = JumpCache (jc_entries: "nat option list")

definition jc_new :: JumpCache where
  "jc_new = JumpCache (replicate TB_JMP_CACHE_SIZE None)"

definition jc_index :: "u64 \<Rightarrow> nat" where
  "jc_index pc = unat (drop_bit 2 pc AND (of_nat TB_JMP_CACHE_SIZE - 1))"

definition jc_lookup :: "JumpCache \<Rightarrow> u64 \<Rightarrow> nat option" where
  "jc_lookup c pc = jc_entries c ! jc_index pc"

definition jc_insert :: "u64 \<Rightarrow> nat \<Rightarrow> JumpCache \<Rightarrow> JumpCache" where
  "jc_insert pc tb_idx c = JumpCache ((jc_entries c)[jc_index pc := Some tb_idx])"

definition jc_remove :: "u64 \<Rightarrow> JumpCache \<Rightarrow> JumpCache" where
  "jc_remove pc c = JumpCache ((jc_entries c)[jc_index pc := None])"

definition jc_invalidate :: "JumpCache \<Rightarrow> JumpCache" where
  "jc_invalidate c = JumpCache (map (\<lambda>_. None) (jc_entries c))"

section \<open>Lemmas\<close>

lemma and_mask_bound: "unat (x AND (of_nat (2 ^ n) - 1) :: u64) < 2 ^ n" if "n < 64"
proof -
  have "(of_nat (2 ^ n) - 1 :: u64) = mask n" by (simp add: mask_eq_exp_minus_1)
  then have "x AND (of_nat (2 ^ n) - 1) = take_bit n x" by (simp add: take_bit_eq_mask)
  then show ?thesis using that
    by (simp add: unsigned_take_bit_eq take_bit_nat_less_exp)
qed

lemma tb_hash_bound [simp]: "tb_hash pc flags < TB_HASH_SIZE"
  unfolding tb_hash_def TB_HASH_SIZE_def by (rule and_mask_bound) simp

lemma jc_index_bound [simp]: "jc_index pc < TB_JMP_CACHE_SIZE"
  unfolding jc_index_def TB_JMP_CACHE_SIZE_def by (rule and_mask_bound) simp

text \<open>
  The exit code is in the low two bits and the source block, plus one, in the high half: the
  marker is zero exactly for a real exit.
\<close>

lemma decode_encode_chain:
  assumes "v < TB_EXIT_MAX" "tb_idx \<noteq> - 1"
  shows "decode_tb_exit (encode_tb_exit tb_idx v) = (Some (unat tb_idx), v)"
proof -
  have v: "v \<in> {0, 1, 2}"
  proof -
    have "unat v < 3" using assms(1) by (simp add: TB_EXIT_MAX_def word_less_nat_alt)
    then have "unat v \<in> {unat (0 :: u64), unat (1 :: u64), unat (2 :: u64)}" by auto
    then show ?thesis by (auto simp: word_unat_eq_iff)
  qed
  have u: "unat (ucast tb_idx :: u64) = unat tb_idx" by (simp add: unsigned_ucast_eq take_bit_nat_eq_self
        order.strict_trans [OF unat_u32_lt])
  have small: "unat tb_idx < 2 ^ 32 - 1"
  proof -
    have "unat (- 1 :: u32) = 4294967295" by (simp add: unsigned_minus_1_eq_mask mask_eq_exp_minus_1)
    then have "unat tb_idx \<noteq> 4294967295" using assms(2) by (metis word_unat_eq_iff)
    then show ?thesis using unat_u32_lt [of tb_idx] by simp
  qed
  have m: "unat (ucast tb_idx + 1 :: u64) = Suc (unat tb_idx)"
    using small by (simp add: unat_word_ariths u)
  have high: "drop_bit 32 (push_bit 32 (ucast tb_idx + 1) OR v) = (ucast tb_idx + 1 :: u64)"
  proof (rule bit_word_eqI)
    fix n assume n: "n < LENGTH(64)"
    have "\<not> bit v (32 + n)" using v by (auto simp: bit_numeral_rec bit_1_iff bit_2_iff)
    moreover have "\<not> 32 \<le> n \<or> \<not> bit (ucast tb_idx + 1 :: u64) n"
      using not_bit_of_lt [of "ucast tb_idx + 1 :: u64" 32 n] m small by auto
    ultimately show "bit (drop_bit 32 (push_bit 32 (ucast tb_idx + 1) OR v)) n \<longleftrightarrow>
        bit (ucast tb_idx + 1 :: u64) n"
      using n by (auto simp: bit_simps)
  qed
  have low: "(push_bit 32 (ucast tb_idx + 1) OR v) AND 3 = v"
  proof -
    have "(push_bit 32 (ucast tb_idx + 1) OR v) AND 3 = take_bit 2 (push_bit 32 (ucast tb_idx + 1) OR v)"
      by (simp add: take_bit_eq_mask mask_eq_exp_minus_1)
    moreover have "take_bit 2 (push_bit 32 (ucast tb_idx + 1 :: u64)) = 0"
      by (rule bit_word_eqI) (simp add: bit_simps)
    moreover have "take_bit 2 v = v" using v by (auto simp: take_bit_eq_mod)
    ultimately show ?thesis by (simp add: take_bit_or)
  qed
  have "ucast tb_idx + 1 \<noteq> (0 :: u64)" using m by (metis nat.distinct(1) unat_0)
  then show ?thesis
    unfolding encode_tb_exit_def if_P [OF assms(1)] decode_tb_exit_def Let_def high low by (simp add: u)
qed

lemma decode_real_exit: "v < 2 ^ 32 \<Longrightarrow> decode_tb_exit v = (None, v)"
proof -
  assume "v < 2 ^ 32"
  then have "unat v < 2 ^ 32" by (simp add: word_less_nat_alt)
  then have "drop_bit 32 v = 0"
    by (simp add: word_unat_eq_iff drop_bit_eq_div unat_div)
  then show ?thesis by (simp add: decode_tb_exit_def)
qed

text \<open>A jump cache is a direct-mapped table of full size.\<close>

definition jc_inv :: "JumpCache \<Rightarrow> bool" where
  "jc_inv c \<longleftrightarrow> length (jc_entries c) = TB_JMP_CACHE_SIZE"

lemma jc_inv_ops [wf_intros]:
  "jc_inv jc_new" "jc_inv c \<Longrightarrow> jc_inv (jc_insert pc i c)" "jc_inv c \<Longrightarrow> jc_inv (jc_remove pc c)"
  "jc_inv c \<Longrightarrow> jc_inv (jc_invalidate c)"
  by (simp_all add: jc_inv_def jc_new_def jc_insert_def jc_remove_def jc_invalidate_def)

lemma jc_lookup_new [simp]: "jc_lookup jc_new pc = None"
  by (simp add: jc_lookup_def jc_new_def)

lemma jc_lookup_insert:
  "jc_inv c \<Longrightarrow> jc_lookup (jc_insert pc i c) q = (if jc_index q = jc_index pc then Some i else jc_lookup c q)"
  by (simp add: jc_inv_def jc_lookup_def jc_insert_def nth_list_update)

lemma jc_lookup_remove:
  "jc_inv c \<Longrightarrow> jc_lookup (jc_remove pc c) q = (if jc_index q = jc_index pc then None else jc_lookup c q)"
  by (simp add: jc_inv_def jc_lookup_def jc_remove_def nth_list_update)

lemma jc_lookup_invalidate: "jc_inv c \<Longrightarrow> jc_lookup (jc_invalidate c) q = None"
  by (simp add: jc_inv_def jc_lookup_def jc_invalidate_def)

section \<open>Properties\<close>

text \<open>
  C35: exit values round-trip. For a chainable exit code the decoder recovers the source block
  and the code that the encoder put in, for every block index except the all-ones word; a
  real exit code below \<open>2 ^ 32\<close> passes through both unchanged and names no source block.
\<close>

theorem tb_exit_roundtrip:
  "(v < TB_EXIT_MAX \<and> tb_idx \<noteq> - 1 \<longrightarrow>
      decode_tb_exit (encode_tb_exit tb_idx v) = (Some (unat tb_idx), v)) \<and>
   (\<not> v < TB_EXIT_MAX \<and> v < 2 ^ 32 \<longrightarrow> decode_tb_exit (encode_tb_exit tb_idx v) = (None, v))"
  using decode_encode_chain [of v tb_idx] decode_real_exit [of v]
  by (auto simp: encode_tb_exit_def [of _ v])

theorem tb_exit_roundtrip_witness:
  "decode_tb_exit (encode_tb_exit 41 TB_EXIT_IDX1) = (Some 41, 1) \<and>
   decode_tb_exit (encode_tb_exit 41 EXCP_ECALL) = (None, 3)"
  using tb_exit_roundtrip [of 1 41] tb_exit_roundtrip [of 3 41] by (simp add: model_defs)

text \<open>
  The jump cache is a direct-mapped cache. A lookup returns what was last inserted under
  the same index, entries under other indices are not disturbed by \<open>insert\<close> or
  \<open>remove\<close>, and nothing is found after \<open>remove\<close>, \<open>invalidate\<close> or in a new cache.
\<close>

theorem jump_cache_direct_mapped:
  assumes "jc_inv c"
  shows "jc_lookup (jc_insert pc i c) pc = Some i \<and> jc_lookup (jc_remove pc c) pc = None \<and>
    (jc_index q \<noteq> jc_index pc \<longrightarrow>
       jc_lookup (jc_insert pc i c) q = jc_lookup c q \<and> jc_lookup (jc_remove pc c) q = jc_lookup c q) \<and>
    jc_lookup (jc_invalidate c) q = None \<and> jc_lookup jc_new q = None \<and>
    jc_inv (jc_insert pc i c) \<and> jc_inv (jc_remove pc c) \<and> jc_inv (jc_invalidate c)"
  using assms by (simp add: jc_lookup_insert jc_lookup_remove jc_lookup_invalidate jc_inv_ops)

theorem jump_cache_direct_mapped_witness:
  "jc_lookup (jc_insert 0x1000 5 jc_new) 0x1000 = Some 5 \<and>
   jc_lookup (jc_insert 0x1000 5 jc_new) 0x1004 = None"
proof -
  have "jc_index 0x1004 \<noteq> jc_index 0x1000" by (simp add: jc_index_def TB_JMP_CACHE_SIZE_def drop_bit_eq_div)
  with jump_cache_direct_mapped [OF jc_inv_ops(1), of "0x1000" 5 "0x1004"] show ?thesis by simp
qed

end
