(* ===== verification/CodeBuffer.thy ===== *)
theory CodeBuffer
  imports Prelude
begin

text \<open>
  The JIT code buffer (\<open>backend/src/code_buffer.rs\<close>).

  The mmap'd region is the list of its bytes, so its length is the \<open>size\<close> field and the
  base pointer needs no counterpart; \<open>cb_offset\<close> is the write cursor. A write of a wider
  integer stores its little-endian bytes; the two branches of \<open>patch_u32\<close> (atomic store
  when aligned, plain store otherwise) write the same bytes. Every assertion of the source is
  the \<open>None\<close> case. The result of the mmap call is an argument of \<open>cb_new\<close>; the
  permission switches do not change the contents and are not modelled.
\<close>

section \<open>Little-endian byte sequences\<close>

definition le_bytes :: "nat \<Rightarrow> 'a::len word \<Rightarrow> u8 list" where
  "le_bytes n w = map (\<lambda>i. ucast (drop_bit (8 * i) w)) [0..<n]"

definition le_word :: "u8 list \<Rightarrow> 'a::len word" where
  "le_word bs = foldr (\<lambda>b acc. ucast b OR push_bit 8 acc) bs 0"

definition write_at :: "nat \<Rightarrow> 'a list \<Rightarrow> 'a list \<Rightarrow> 'a list" where
  "write_at off bs m = take off m @ bs @ drop (off + length bs) m"

definition read_at :: "nat \<Rightarrow> nat \<Rightarrow> 'a list \<Rightarrow> 'a list" where
  "read_at off n m = take n (drop off m)"

lemma length_le_bytes [simp]: "length (le_bytes n w) = n"
  by (simp add: le_bytes_def)

lemma bit_le_word:
  "bit (le_word bs :: 'a::len word) k \<longleftrightarrow>
     k < LENGTH('a) \<and> k div 8 < length bs \<and> bit (bs ! (k div 8)) (k mod 8)"
proof (induction bs arbitrary: k)
  case Nil
  then show ?case by (simp add: le_word_def)
next
  case (Cons b bs)
  have step: "le_word (b # bs) = (ucast b OR push_bit 8 (le_word bs) :: 'a word)"
    by (simp add: le_word_def)
  show ?case
  proof (cases "k < 8")
    case True
    then show ?thesis by (auto simp: step bit_simps)
  next
    case False
    then have "\<not> bit b k" by (auto dest: bit_imp_le_length)
    moreover obtain j where "k = j + 8" using False by (metis add.commute le_Suc_ex not_less)
    moreover from this have "k div 8 = Suc (j div 8)" "k mod 8 = j mod 8" by simp_all
    ultimately show ?thesis using Cons.IH [of j] by (auto simp: step bit_simps)
  qed
qed

lemma le_word_le_bytes:
  fixes w :: "'a::len word"
  assumes "LENGTH('a) \<le> 8 * n"
  shows "le_word (le_bytes n w) = w"
proof (rule bit_word_eqI)
  fix k assume k: "k < LENGTH('a)"
  then have "k div 8 < n" using assms by (simp add: less_mult_imp_div_less)
  then show "bit (le_word (le_bytes n w) :: 'a word) k \<longleftrightarrow> bit w k"
    using k by (simp add: bit_le_word le_bytes_def bit_simps)
qed

lemma length_write_at [simp]: "off + length bs \<le> length m \<Longrightarrow> length (write_at off bs m) = length m"
  by (simp add: write_at_def)

lemma read_write_same:
  "off + length bs \<le> length m \<Longrightarrow> read_at off (length bs) (write_at off bs m) = bs"
  by (simp add: read_at_def write_at_def)

lemma nth_write_at:
  "off + length bs \<le> length m \<Longrightarrow> i < length m \<Longrightarrow>
     write_at off bs m ! i = (if off \<le> i \<and> i < off + length bs then bs ! (i - off) else m ! i)"
  by (auto simp: write_at_def nth_append min_def)

lemma read_write_apart:
  assumes "off + length bs \<le> length m" "o' + n \<le> off \<or> off + length bs \<le> o'" "o' + n \<le> length m"
  shows "read_at o' n (write_at off bs m) = read_at o' n m"
  by (rule nth_equalityI) (use assms in \<open>auto simp: read_at_def nth_write_at\<close>)

section \<open>The buffer\<close>

record CodeBuffer =
  cb_mem :: "u8 list"
  cb_offset :: nat

datatype IoError = InvalidInput | OsError

text \<open>
  \<open>new\<close> rounds the requested size up to the page size; \<open>mmap_ok\<close> is whether the kernel
  grants the mapping, whose pages are zero.
\<close>

definition cb_new :: "u64 \<Rightarrow> bool \<Rightarrow> u64 \<Rightarrow> IoError + CodeBuffer" where
  "cb_new page_size mmap_ok sz =
     (let rounded = (sz + page_size - 1) AND NOT (page_size - 1)
      in if rounded = 0 then Inl InvalidInput
         else if \<not> mmap_ok then Inl OsError
         else Inr \<lparr>cb_mem = replicate (unat rounded) 0, cb_offset = 0\<rparr>)"

definition capacity :: "CodeBuffer \<Rightarrow> nat" where
  "capacity b = length (cb_mem b)"

definition remaining :: "CodeBuffer \<Rightarrow> nat" where
  "remaining b = capacity b - cb_offset b"

definition ptr_at :: "CodeBuffer \<Rightarrow> nat \<Rightarrow> nat option" where
  "ptr_at b off = do { assert_that (off \<le> capacity b); Some off }"

definition set_offset :: "nat \<Rightarrow> CodeBuffer \<Rightarrow> CodeBuffer option" where
  "set_offset off b = do { assert_that (off \<le> capacity b); Some (b\<lparr>cb_offset := off\<rparr>) }"

definition emit_u8 :: "u8 \<Rightarrow> CodeBuffer \<Rightarrow> CodeBuffer option" where
  "emit_u8 v b = do {
     assert_that (cb_offset b < capacity b);
     Some (b\<lparr>cb_mem := write_at (cb_offset b) [v] (cb_mem b), cb_offset := cb_offset b + 1\<rparr>) }"

definition emit_u16 :: "u16 \<Rightarrow> CodeBuffer \<Rightarrow> CodeBuffer option" where
  "emit_u16 v b = do {
     assert_that (cb_offset b + 2 \<le> capacity b);
     Some (b\<lparr>cb_mem := write_at (cb_offset b) (le_bytes 2 v) (cb_mem b),
             cb_offset := cb_offset b + 2\<rparr>) }"

definition emit_u32 :: "u32 \<Rightarrow> CodeBuffer \<Rightarrow> CodeBuffer option" where
  "emit_u32 v b = do {
     assert_that (cb_offset b + 4 \<le> capacity b);
     Some (b\<lparr>cb_mem := write_at (cb_offset b) (le_bytes 4 v) (cb_mem b),
             cb_offset := cb_offset b + 4\<rparr>) }"

definition emit_u64 :: "u64 \<Rightarrow> CodeBuffer \<Rightarrow> CodeBuffer option" where
  "emit_u64 v b = do {
     assert_that (cb_offset b + 8 \<le> capacity b);
     Some (b\<lparr>cb_mem := write_at (cb_offset b) (le_bytes 8 v) (cb_mem b),
             cb_offset := cb_offset b + 8\<rparr>) }"

definition emit_bytes :: "u8 list \<Rightarrow> CodeBuffer \<Rightarrow> CodeBuffer option" where
  "emit_bytes bs b = do {
     assert_that (cb_offset b + length bs \<le> capacity b);
     Some (b\<lparr>cb_mem := write_at (cb_offset b) bs (cb_mem b),
             cb_offset := cb_offset b + length bs\<rparr>) }"

definition patch_u8 :: "nat \<Rightarrow> u8 \<Rightarrow> CodeBuffer \<Rightarrow> CodeBuffer option" where
  "patch_u8 off v b = do {
     assert_that (off < capacity b);
     Some (b\<lparr>cb_mem := write_at off [v] (cb_mem b)\<rparr>) }"

definition patch_u32 :: "nat \<Rightarrow> u32 \<Rightarrow> CodeBuffer \<Rightarrow> CodeBuffer option" where
  "patch_u32 off v b = do {
     assert_that (off + 4 \<le> capacity b);
     Some (b\<lparr>cb_mem := write_at off (le_bytes 4 v) (cb_mem b)\<rparr>) }"

definition read_u32 :: "CodeBuffer \<Rightarrow> nat \<Rightarrow> u32 option" where
  "read_u32 b off = do {
     assert_that (off + 4 \<le> capacity b);
     Some (le_word (read_at off 4 (cb_mem b))) }"

definition as_slice :: "CodeBuffer \<Rightarrow> u8 list" where
  "as_slice b = take (cb_offset b) (cb_mem b)"

section \<open>Emitting appends\<close>

text \<open>The invariant of the buffer: the cursor is inside the region.\<close>

definition cb_inv :: "CodeBuffer \<Rightarrow> bool" where
  "cb_inv b \<longleftrightarrow> cb_offset b \<le> capacity b"

text \<open>
  The contract of everything that emits code: it either panics because the buffer is too
  small, or appends its bytes to the code generated so far.
\<close>

definition appends :: "(CodeBuffer \<Rightarrow> CodeBuffer option) \<Rightarrow> u8 list \<Rightarrow> bool" where
  "appends f bs \<longleftrightarrow> (\<forall>b. cb_inv b \<longrightarrow> f b = emit_bytes bs b)"

lemma emit_bytes_inv: "cb_inv b \<Longrightarrow> emit_bytes bs b = Some b' \<Longrightarrow> cb_inv b' \<and> capacity b' = capacity b"
  by (auto simp: emit_bytes_def cb_inv_def capacity_def split: if_splits)

lemma emit_bytes_slice:
  "cb_inv b \<Longrightarrow> emit_bytes bs b = Some b' \<Longrightarrow> as_slice b' = as_slice b @ bs"
  by (auto simp: emit_bytes_def capacity_def as_slice_def write_at_def split: if_splits)

lemma emit_bytes_mem:
  "emit_bytes bs b = Some b' \<Longrightarrow>
     cb_mem b' = write_at (cb_offset b) bs (cb_mem b) \<and> cb_offset b' = cb_offset b + length bs \<and>
     cb_offset b + length bs \<le> capacity b"
  by (auto simp: emit_bytes_def split: if_splits)

lemma emit_bytes_panics: "emit_bytes bs b = None \<longleftrightarrow> capacity b < cb_offset b + length bs"
  by (auto simp: emit_bytes_def)

lemma write_at_append:
  "off + length bs \<le> length m \<Longrightarrow>
     write_at (off + length bs) cs (write_at off bs m) = write_at off (bs @ cs) m"
  by (simp add: write_at_def ac_simps)

lemma emit_bytes_append:
  assumes "cb_inv b"
  shows "(emit_bytes bs b \<bind> emit_bytes cs) = emit_bytes (bs @ cs) b"
  using assms
  by (auto simp: emit_bytes_def capacity_def cb_inv_def write_at_append add.assoc)

lemma appends_seq:
  assumes "appends f bs" "appends g cs"
  shows "appends (\<lambda>b. f b \<bind> g) (bs @ cs)"
  unfolding appends_def
proof (intro allI impI)
  fix b assume b: "cb_inv b"
  show "(f b \<bind> g) = emit_bytes (bs @ cs) b"
  proof (cases "emit_bytes bs b")
    case None
    then show ?thesis using assms b by (simp add: appends_def emit_bytes_append [symmetric])
  next
    case (Some b')
    then have "cb_inv b'" using emit_bytes_inv b by blast
    with Some assms b show ?thesis by (simp add: appends_def flip: emit_bytes_append)
  qed
qed

lemma appends_emit:
  "appends (emit_u8 x8) [x8]" "appends (emit_u16 x16) (le_bytes 2 x16)"
  "appends (emit_u32 x32) (le_bytes 4 x32)" "appends (emit_u64 x64) (le_bytes 8 x64)"
  "appends (emit_bytes bs) bs"
  by (auto simp: appends_def emit_u8_def emit_u16_def emit_u32_def emit_u64_def emit_bytes_def)

lemma appends_nil: "appends Some []"
  by (auto simp: appends_def emit_bytes_def cb_inv_def write_at_def)

section \<open>Properties\<close>

text \<open>
  Emitting is appending. Each \<open>emit_*\<close> method panics exactly when its bytes do not fit in
  the rest of the buffer; otherwise the generated code grows by exactly the little-endian
  bytes of the value, the capacity stays the same and the cursor stays inside the buffer.
\<close>

theorem emit_appends_little_endian:
  assumes "cb_inv b"
  shows "(emit_u32 v b = None \<longleftrightarrow> remaining b < 4) \<and> (emit_u64 w b = None \<longleftrightarrow> remaining b < 8) \<and>
    (emit_bytes bs b = None \<longleftrightarrow> remaining b < length bs) \<and>
    (\<forall>b'. emit_u32 v b = Some b' \<longrightarrow> as_slice b' = as_slice b @ le_bytes 4 v \<and> cb_inv b' \<and>
       capacity b' = capacity b \<and> read_u32 b' (cb_offset b) = Some v) \<and>
    (\<forall>b'. emit_u64 w b = Some b' \<longrightarrow> as_slice b' = as_slice b @ le_bytes 8 w \<and> cb_inv b' \<and>
       capacity b' = capacity b) \<and>
    (\<forall>b'. emit_bytes bs b = Some b' \<longrightarrow> as_slice b' = as_slice b @ bs \<and> cb_inv b' \<and>
       capacity b' = capacity b)"
proof -
  have u: "emit_u32 v b = emit_bytes (le_bytes 4 v) b" "emit_u64 w b = emit_bytes (le_bytes 8 w) b"
    using appends_emit assms by (auto simp: appends_def)
  have "read_u32 b' (cb_offset b) = Some v" if "emit_u32 v b = Some b'" for b'
    using that read_write_same [of "cb_offset b" "le_bytes 4 v" "cb_mem b"]
    by (auto simp: emit_u32_def read_u32_def capacity_def le_word_le_bytes split: if_splits)
  then show ?thesis
    using assms emit_bytes_slice [OF assms] emit_bytes_inv [OF assms]
    unfolding u emit_bytes_panics remaining_def cb_inv_def by fastforce
qed

theorem emit_appends_little_endian_witness:
  "\<exists>b'. emit_u32 0x11223344 \<lparr>cb_mem = replicate 8 0, cb_offset = 1\<rparr> = Some b' \<and>
     as_slice b' = [0, 0x44, 0x33, 0x22, 0x11]"
proof -
  let ?b = "\<lparr>cb_mem = replicate 8 (0 :: u8), cb_offset = 1\<rparr>"
  have inv: "cb_inv ?b" by (simp add: cb_inv_def capacity_def)
  have fits: "\<not> remaining ?b < 4" by (simp add: remaining_def capacity_def)
  have bytes: "le_bytes 4 (0x11223344 :: u32) = [0x44, 0x33, 0x22, 0x11]" by code_simp
  have "as_slice ?b = [0]" by code_simp
  with emit_appends_little_endian [OF inv, of "0x11223344" 0 "[]"] fits bytes show ?thesis
    by (cases "emit_u32 0x11223344 ?b") simp_all
qed

text \<open>
  C36: back-patching is local. After \<open>patch_u32\<close> at an offset the buffer reads the patched
  word there and is unchanged in every word that does not overlap it; cursor and capacity
  stay the same, and it panics exactly when the word is not inside the buffer.
\<close>

theorem patch_read:
  assumes "patch_u32 off v b = Some b'"
  shows "read_u32 b' off = Some v \<and> cb_offset b' = cb_offset b \<and> capacity b' = capacity b \<and>
    (\<forall>k. k + 4 \<le> off \<or> off + 4 \<le> k \<longrightarrow> read_u32 b' k = read_u32 b k) \<and>
    (\<forall>i. i < off \<or> (off + 4 \<le> i \<and> i < capacity b) \<longrightarrow> cb_mem b' ! i = cb_mem b ! i)"
proof -
  from assms have fit: "off + 4 \<le> length (cb_mem b)"
    and b': "b' = b\<lparr>cb_mem := write_at off (le_bytes 4 v) (cb_mem b)\<rparr>"
    by (auto simp: patch_u32_def capacity_def split: if_splits)
  have "read_u32 b' k = read_u32 b k" if "k + 4 \<le> off \<or> off + 4 \<le> k" for k
    using fit that read_write_apart [of off "le_bytes 4 v" "cb_mem b" k 4]
    by (auto simp: b' read_u32_def capacity_def assert_that_def)
  then show ?thesis
    using fit read_write_same [of off "le_bytes 4 v" "cb_mem b"]
    by (auto simp: b' read_u32_def capacity_def le_word_le_bytes nth_write_at)
qed

theorem patch_read_witness:
  "\<exists>b'. patch_u32 2 7 \<lparr>cb_mem = replicate 8 0, cb_offset = 8\<rparr> = Some b' \<and> read_u32 b' 2 = Some 7"
proof -
  let ?b = "\<lparr>cb_mem = replicate 8 (0 :: u8), cb_offset = 8\<rparr>"
  obtain b' where "patch_u32 2 7 ?b = Some b'" by (simp add: patch_u32_def capacity_def)
  with patch_read [OF this] show ?thesis by blast
qed

end
