(* ===== verification/Backend.thy ===== *)
theory Backend
  imports CodeBuffer
begin

text \<open>
  The part of the trait \<open>HostCodeGen\<close> (\<open>backend/src/lib.rs\<close>) that block chaining
  relies on: \<open>patch_jump\<close> redirects the direct jump at an offset of the code buffer. The
  locale \<open>jump_patcher\<close> states its contract: where the jump goes afterwards, that every
  jump at another place keeps its target, that the buffer is otherwise the same, and when the
  patch cannot panic. A jump instruction occupies \<open>JUMP_LEN\<close> bytes.
\<close>

type_synonym patcher = "CodeBuffer \<Rightarrow> nat \<Rightarrow> nat \<Rightarrow> CodeBuffer option"

definition JUMP_LEN :: nat where
  "JUMP_LEN = 5"

definition apart :: "nat \<Rightarrow> nat \<Rightarrow> bool" where
  "apart j k \<longleftrightarrow> j + JUMP_LEN \<le> k \<or> k + JUMP_LEN \<le> j"

lemma apart_sym: "apart j k \<longleftrightarrow> apart k j"
  by (auto simp: apart_def)

locale jump_patcher =
  fixes patch :: patcher and target :: "CodeBuffer \<Rightarrow> nat \<Rightarrow> int option"
  assumes patch_target: "patch b j t = Some b' \<Longrightarrow> target b' j = Some (int t)"
    and patch_other: "patch b j t = Some b' \<Longrightarrow> apart j k \<Longrightarrow> target b' k = target b k"
    and patch_size: "patch b j t = Some b' \<Longrightarrow> capacity b' = capacity b \<and> cb_offset b' = cb_offset b"
    and patch_ok: "j + JUMP_LEN \<le> capacity b \<Longrightarrow> t \<le> capacity b \<Longrightarrow> capacity b < 2 ^ 31 \<Longrightarrow>
      \<exists>b'. patch b j t = Some b'"
begin

lemma patch_defined:
  assumes "j + JUMP_LEN \<le> capacity b" "t \<le> capacity b" "capacity b < 2 ^ 31"
  obtains b' where "patch b j t = Some b'" "target b' j = Some (int t)"
    "\<And>k. apart j k \<Longrightarrow> target b' k = target b k" "capacity b' = capacity b" "cb_offset b' = cb_offset b"
  using patch_ok [OF assms] patch_target patch_other patch_size by blast

end

end
