(* ===== verification/TbStore.thy ===== *)
theory TbStore
  imports TB Backend
begin

text \<open>
  The store of translation blocks (\<open>exec/src/tb_store.rs\<close>): allocation, the hash table
  with its intrusive bucket chains, invalidation with the unlinking of chained jumps, and
  flushing.

  The pre-allocated vector and its published length are one list; the hash table's mutex is
  taken by each method for its whole critical section, so the methods are the atomic steps.
  The two loops that walk a bucket chain follow \<open>hash_next\<close> and could run forever on a
  cyclic chain: they are option-valued partial functions, and that they return is proved from
  the invariant. The code buffer that \<open>invalidate\<close> patches is passed explicitly, with the
  backend's \<open>patch_jump\<close> as an argument.
\<close>

section \<open>The store\<close>

definition MAX_TBS :: nat where
  "MAX_TBS = 65536"

record TbStore =
  ts_tbs :: "TranslationBlock list"
  ts_hash :: "nat option list"

definition ts_new :: TbStore where
  "ts_new = \<lparr>ts_tbs = [], ts_hash = replicate TB_HASH_SIZE None\<rparr>"

definition ts_alloc :: "u64 \<Rightarrow> u32 \<Rightarrow> u32 \<Rightarrow> TbStore \<Rightarrow> (nat \<times> TbStore) option" where
  "ts_alloc pc flags cflags st = do {
     let idx = length (ts_tbs st);
     assert_that (idx < MAX_TBS);
     Some (idx, st\<lparr>ts_tbs := ts_tbs st @ [tb_new pc flags cflags]\<rparr>) }"

definition ts_get :: "TbStore \<Rightarrow> nat \<Rightarrow> TranslationBlock option" where
  "ts_get st idx = index (ts_tbs st) idx"

text \<open>\<open>get_mut\<close> followed by an assignment to fields of the block.\<close>

definition ts_modify :: "nat \<Rightarrow> (TranslationBlock \<Rightarrow> TranslationBlock) \<Rightarrow> TbStore \<Rightarrow> TbStore option" where
  "ts_modify idx f st = do {
     tb \<leftarrow> ts_get st idx;
     Some (st\<lparr>ts_tbs := (ts_tbs st)[idx := f tb]\<rparr>) }"

definition tb_matches :: "u64 \<Rightarrow> u32 \<Rightarrow> TranslationBlock \<Rightarrow> bool" where
  "tb_matches pc flags tb \<longleftrightarrow> \<not> invalid tb \<and> tb_pc tb = pc \<and> tb_flags tb = flags"

partial_function (option) lookup_from ::
    "nat option \<Rightarrow> u64 \<Rightarrow> u32 \<Rightarrow> TbStore \<Rightarrow> nat option option" where
  "lookup_from cur pc flags st =
     (case cur of
        None \<Rightarrow> Some None
      | Some idx \<Rightarrow> do {
          tb \<leftarrow> ts_get st idx;
          if tb_matches pc flags tb then Some (Some idx)
          else lookup_from (hash_next tb) pc flags st })"

definition ts_lookup :: "TbStore \<Rightarrow> u64 \<Rightarrow> u32 \<Rightarrow> nat option option" where
  "ts_lookup st pc flags = do {
     cur \<leftarrow> index (ts_hash st) (tb_hash pc flags);
     lookup_from cur pc flags st }"

definition ts_insert :: "nat \<Rightarrow> TbStore \<Rightarrow> TbStore option" where
  "ts_insert tb_idx st = do {
     tb \<leftarrow> ts_get st tb_idx;
     let bucket = tb_hash (tb_pc tb) (tb_flags tb);
     head \<leftarrow> index (ts_hash st) bucket;
     st \<leftarrow> ts_modify tb_idx (\<lambda>tb. tb\<lparr>hash_next := head\<rparr>) st;
     Some (st\<lparr>ts_hash := (ts_hash st)[bucket := Some tb_idx]\<rparr>) }"

section \<open>Invalidation\<close>

definition set_jmp_dest :: "nat \<Rightarrow> nat option \<Rightarrow> TranslationBlock \<Rightarrow> TranslationBlock" where
  "set_jmp_dest slot d tb = tb\<lparr>jmp := (jmp tb)\<lparr>jmp_dest := (jmp_dest (jmp tb))[slot := d]\<rparr>\<rparr>"

definition set_jmp_list :: "(nat \<times> nat) list \<Rightarrow> TranslationBlock \<Rightarrow> TranslationBlock" where
  "set_jmp_list l tb = tb\<lparr>jmp := (jmp tb)\<lparr>jmp_list := l\<rparr>\<rparr>"

definition reset_jump :: "patcher \<Rightarrow> TranslationBlock \<Rightarrow> nat \<Rightarrow> CodeBuffer \<Rightarrow> CodeBuffer option" where
  "reset_jump patch tb slot code = do {
     jmp_off \<leftarrow> index (jmp_insn_offset tb) slot;
     reset_off \<leftarrow> index (jmp_reset_offset tb) slot;
     (case (jmp_off, reset_off) of
        (Some j, Some r) \<Rightarrow> patch code (unat j) (unat r)
      | _ \<Rightarrow> Some code) }"

fun unlink_incoming :: "patcher \<Rightarrow> (nat \<times> nat) list \<Rightarrow> TbStore \<times> CodeBuffer \<Rightarrow>
    (TbStore \<times> CodeBuffer) option" where
  "unlink_incoming patch [] (st, code) = Some (st, code)"
| "unlink_incoming patch ((src, slot) # rest) (st, code) = do {
     src_tb \<leftarrow> ts_get st src;
     code \<leftarrow> reset_jump patch src_tb slot code;
     assert_that (slot < 2);
     st \<leftarrow> ts_modify src (set_jmp_dest slot None) st;
     unlink_incoming patch rest (st, code) }"

definition outgoing :: "TranslationBlock \<Rightarrow> (nat \<times> nat) list" where
  "outgoing tb = List.map_filter (\<lambda>slot. map_option (Pair slot) (jmp_dest (jmp tb) ! slot)) [0, 1]"

fun unlink_outgoing :: "nat \<Rightarrow> (nat \<times> nat) list \<Rightarrow> TbStore \<Rightarrow> TbStore option" where
  "unlink_outgoing tb_idx [] st = Some st"
| "unlink_outgoing tb_idx ((slot, dst) # rest) st = do {
     st \<leftarrow> ts_modify dst (\<lambda>tb. set_jmp_list
             (filter (\<lambda>(s, n). \<not> (s = tb_idx \<and> n = slot)) (jmp_list (jmp tb))) tb) st;
     unlink_outgoing tb_idx rest st }"

partial_function (option) chain_remove ::
    "nat option \<Rightarrow> nat option \<Rightarrow> nat \<Rightarrow> nat \<Rightarrow> TbStore \<Rightarrow> TbStore option" where
  "chain_remove cur prev tb_idx bucket st =
     (case cur of
        None \<Rightarrow> Some st
      | Some idx \<Rightarrow> do {
          tb \<leftarrow> ts_get st idx;
          if idx = tb_idx then do {
            st \<leftarrow> (case prev of
                     Some p \<Rightarrow> ts_modify p (\<lambda>t. t\<lparr>hash_next := hash_next tb\<rparr>) st
                   | None \<Rightarrow> Some (st\<lparr>ts_hash := (ts_hash st)[bucket := hash_next tb]\<rparr>));
            ts_modify idx (\<lambda>t. t\<lparr>hash_next := None\<rparr>) st }
          else chain_remove (hash_next tb) cur tb_idx bucket st })"

text \<open>
  The first half of \<open>invalidate\<close>: mark the block invalid, unlink the incoming edges,
  then the outgoing ones.
\<close>

definition unlink_edges :: "patcher \<Rightarrow> nat \<Rightarrow> TbStore \<times> CodeBuffer \<Rightarrow> (TbStore \<times> CodeBuffer) option" where
  "unlink_edges patch tb_idx = (\<lambda>(st, code). do {
     tb \<leftarrow> ts_get st tb_idx;
     st \<leftarrow> ts_modify tb_idx (\<lambda>t. t\<lparr>invalid := True\<rparr>) st;
     let incoming = jmp_list (jmp tb);
     st \<leftarrow> ts_modify tb_idx (set_jmp_list []) st;
     (st, code) \<leftarrow> unlink_incoming patch incoming (st, code);
     tb' \<leftarrow> ts_get st tb_idx;
     st \<leftarrow> ts_modify tb_idx (\<lambda>t. set_jmp_dest 1 None (set_jmp_dest 0 None t)) st;
     st \<leftarrow> unlink_outgoing tb_idx (outgoing tb') st;
     Some (st, code) })"

definition ts_invalidate :: "patcher \<Rightarrow> nat \<Rightarrow> TbStore \<times> CodeBuffer \<Rightarrow> (TbStore \<times> CodeBuffer) option" where
  "ts_invalidate patch tb_idx stc = do {
     (st, code) \<leftarrow> unlink_edges patch tb_idx stc;
     tb \<leftarrow> ts_get st tb_idx;
     let bucket = tb_hash (tb_pc tb) (tb_flags tb);
     cur \<leftarrow> index (ts_hash st) bucket;
     st \<leftarrow> chain_remove cur None tb_idx bucket st;
     Some (st, code) }"

definition ts_flush :: "TbStore \<Rightarrow> TbStore" where
  "ts_flush st = st\<lparr>ts_tbs := [], ts_hash := map (\<lambda>_. None) (ts_hash st)\<rparr>"

section \<open>Bucket chains\<close>

text \<open>\<open>chain tbs h xs\<close>: following \<open>hash_next\<close> from \<open>h\<close> visits exactly the blocks \<open>xs\<close> and ends.\<close>

fun chain :: "TranslationBlock list \<Rightarrow> nat option \<Rightarrow> nat list \<Rightarrow> bool" where
  "chain tbs h [] \<longleftrightarrow> h = None"
| "chain tbs h (i # xs) \<longleftrightarrow> h = Some i \<and> i < length tbs \<and> chain tbs (hash_next (tbs ! i)) xs"

lemma chain_unique: "chain tbs h xs \<Longrightarrow> chain tbs h ys \<Longrightarrow> xs = ys"
proof (induction xs arbitrary: h ys)
  case Nil
  then show ?case by (cases ys) auto
next
  case (Cons i xs)
  then show ?case by (cases ys) auto
qed

lemma chain_range: "chain tbs h xs \<Longrightarrow> i \<in> set xs \<Longrightarrow> i < length tbs"
  by (induction xs arbitrary: h) auto

lemma chain_suffix: "chain tbs h (ys @ i # zs) \<Longrightarrow> chain tbs (Some i) (i # zs)"
  by (induction ys arbitrary: h) auto

lemma chain_distinct: "chain tbs h xs \<Longrightarrow> distinct xs"
proof (induction xs arbitrary: h)
  case (Cons i xs)
  have "i \<notin> set xs"
  proof
    assume "i \<in> set xs"
    then obtain ys zs where xs: "xs = ys @ i # zs" by (meson split_list)
    have "chain tbs (Some i) (i # zs)"
      using Cons.prems chain_suffix [of tbs h "i # ys" i zs] by (simp add: xs)
    moreover have "chain tbs (Some i) (i # xs)" using Cons.prems by auto
    ultimately show False using chain_unique [of tbs "Some i" "i # zs" "i # xs"] by (simp add: xs)
  qed
  with Cons show ?case by auto
qed simp

lemma chain_cong:
  assumes "chain tbs h xs" "length tbs' = length tbs" "\<And>i. i \<in> set xs \<Longrightarrow> hash_next (tbs' ! i) = hash_next (tbs ! i)"
  shows "chain tbs' h xs"
  using assms by (induction xs arbitrary: h) auto

definition key_hash :: "TranslationBlock \<Rightarrow> nat" where
  "key_hash tb = tb_hash (tb_pc tb) (tb_flags tb)"

definition bucket_ok :: "TbStore \<Rightarrow> nat \<Rightarrow> nat list \<Rightarrow> bool" where
  "bucket_ok st b xs \<longleftrightarrow>
     chain (ts_tbs st) (ts_hash st ! b) xs \<and> (\<forall>i \<in> set xs. key_hash (ts_tbs st ! i) = b)"

text \<open>
  The invariant of the hash table: every bucket is a finite chain of blocks of the store, and
  the blocks of a bucket have that bucket's hash.
\<close>

definition hash_inv :: "TbStore \<Rightarrow> bool" where
  "hash_inv st \<longleftrightarrow> length (ts_hash st) = TB_HASH_SIZE \<and> (\<forall>b < TB_HASH_SIZE. \<exists>xs. bucket_ok st b xs)"

text \<open>The blocks that the table indexes.\<close>

definition indexed :: "TbStore \<Rightarrow> nat set" where
  "indexed st = {i. \<exists>b xs. b < TB_HASH_SIZE \<and> bucket_ok st b xs \<and> i \<in> set xs}"

lemma key_hash_bound [simp]: "key_hash tb < TB_HASH_SIZE"
  by (simp add: key_hash_def)

lemma bucket_unique: "bucket_ok st b xs \<Longrightarrow> bucket_ok st b ys \<Longrightarrow> xs = ys"
  unfolding bucket_ok_def by (blast intro: chain_unique)

lemma indexed_iff:
  assumes "bucket_ok st (key_hash (ts_tbs st ! i)) xs"
  shows "i \<in> indexed st \<longleftrightarrow> i \<in> set xs"
proof
  assume "i \<in> indexed st"
  then obtain b ys where ys: "bucket_ok st b ys" "i \<in> set ys" by (auto simp: indexed_def)
  then have "b = key_hash (ts_tbs st ! i)" by (simp add: bucket_ok_def)
  with ys assms have "xs = ys" by (simp add: bucket_unique)
  with ys show "i \<in> set xs" by simp
next
  assume "i \<in> set xs"
  with assms show "i \<in> indexed st" unfolding indexed_def using key_hash_bound by blast
qed

lemma hash_invE:
  assumes "hash_inv st" "b < TB_HASH_SIZE"
  obtains xs where "bucket_ok st b xs" "distinct xs" "\<forall>i \<in> set xs. i < length (ts_tbs st)"
  using assms chain_distinct chain_range unfolding hash_inv_def bucket_ok_def by blast

lemma lookup_from_find:
  assumes "chain (ts_tbs st) h xs"
  shows "lookup_from h pc flags st = Some (find (\<lambda>i. tb_matches pc flags (ts_tbs st ! i)) xs)"
  using assms
proof (induction xs arbitrary: h)
  case Nil
  then show ?case by (simp add: lookup_from.simps)
next
  case (Cons i xs)
  then show ?case by (subst lookup_from.simps) (simp add: ts_get_def)
qed

lemma ts_lookup_find:
  assumes "hash_inv st" "bucket_ok st (tb_hash pc flags) xs"
  shows "ts_lookup st pc flags = Some (find (\<lambda>i. tb_matches pc flags (ts_tbs st ! i)) xs)"
  using assms lookup_from_find by (simp add: ts_lookup_def hash_inv_def bucket_ok_def)

lemma ts_lookup_sound:
  assumes "hash_inv st" "ts_lookup st pc flags = Some (Some i)"
  shows "i \<in> indexed st \<and> i < length (ts_tbs st) \<and> tb_matches pc flags (ts_tbs st ! i)"
proof -
  obtain xs where xs: "bucket_ok st (tb_hash pc flags) xs" "\<forall>i \<in> set xs. i < length (ts_tbs st)"
    using hash_invE [OF assms(1) tb_hash_bound] by metis
  then have "find (\<lambda>i. tb_matches pc flags (ts_tbs st ! i)) xs = Some i"
    using ts_lookup_find [OF assms(1) xs(1)] assms(2) by simp
  then have "i \<in> set xs" "tb_matches pc flags (ts_tbs st ! i)"
    by (auto simp: find_Some_iff)
  moreover have "i \<in> indexed st" using xs(1) \<open>i \<in> set xs\<close> tb_hash_bound unfolding indexed_def by blast
  ultimately show ?thesis using xs(2) by blast
qed

lemma ts_lookup_complete:
  assumes "hash_inv st" "ts_lookup st pc flags = Some None" "i \<in> indexed st"
  shows "\<not> tb_matches pc flags (ts_tbs st ! i)"
proof
  assume m: "tb_matches pc flags (ts_tbs st ! i)"
  then have b: "key_hash (ts_tbs st ! i) = tb_hash pc flags"
    by (auto simp: tb_matches_def key_hash_def)
  obtain xs where xs: "bucket_ok st (tb_hash pc flags) xs"
    using hash_invE [OF assms(1) tb_hash_bound] by metis
  then have "i \<in> set xs" using assms(3) indexed_iff [of st i xs] by (simp add: b)
  then show False
    using m ts_lookup_find [OF assms(1) xs] assms(2) by (auto simp: find_None_iff dest!: sym [of None])
qed

lemma ts_lookup_returns: "hash_inv st \<Longrightarrow> \<exists>r. ts_lookup st pc flags = Some r"
  using hash_invE [OF _ tb_hash_bound] ts_lookup_find by metis

section \<open>Insertion and removal keep the table\<close>

lemma hash_inv_new [wf_intros]: "hash_inv ts_new"
  by (auto simp: hash_inv_def ts_new_def bucket_ok_def intro: exI [of _ "[]"])

lemma hash_inv_flush [wf_intros]: "hash_inv st \<Longrightarrow> hash_inv (ts_flush st)"
  by (auto simp: hash_inv_def ts_flush_def bucket_ok_def intro: exI [of _ "[]"])

text \<open>A change of the blocks that keeps keys and links, or appends blocks, keeps every bucket.\<close>

lemma bucket_ok_cong:
  assumes "bucket_ok st b xs" "ts_hash st' ! b = ts_hash st ! b" "length (ts_tbs st) \<le> length (ts_tbs st')"
    "\<And>i. i \<in> set xs \<Longrightarrow> hash_next (ts_tbs st' ! i) = hash_next (ts_tbs st ! i) \<and>
       key_hash (ts_tbs st' ! i) = key_hash (ts_tbs st ! i)"
  shows "bucket_ok st' b xs"
proof -
  have "chain (ts_tbs st') h ys" if "chain (ts_tbs st) h ys" "set ys \<subseteq> set xs" for h ys
    using that assms(3,4) by (induction ys arbitrary: h) auto
  with assms show ?thesis unfolding bucket_ok_def by auto
qed

definition same_keys :: "TbStore \<Rightarrow> TbStore \<Rightarrow> bool" where
  "same_keys st st' \<longleftrightarrow> ts_hash st' = ts_hash st \<and> length (ts_tbs st) \<le> length (ts_tbs st') \<and>
     (\<forall>i < length (ts_tbs st). hash_next (ts_tbs st' ! i) = hash_next (ts_tbs st ! i) \<and>
        tb_pc (ts_tbs st' ! i) = tb_pc (ts_tbs st ! i) \<and> tb_flags (ts_tbs st' ! i) = tb_flags (ts_tbs st ! i))"

lemma same_keys_refl [simp]: "same_keys st st"
  by (simp add: same_keys_def)

lemma same_keys_trans: "same_keys a b \<Longrightarrow> same_keys b c \<Longrightarrow> same_keys a c"
  by (auto simp: same_keys_def)

lemma same_keys_bucket:
  assumes "same_keys st st'" "bucket_ok st b xs"
  shows "bucket_ok st' b xs"
  using assms(2)
  by (rule bucket_ok_cong) (use assms chain_range in \<open>auto simp: same_keys_def bucket_ok_def key_hash_def\<close>)

lemma same_keys_inv: "same_keys st st' \<Longrightarrow> hash_inv st \<Longrightarrow> hash_inv st'"
  using same_keys_bucket by (auto simp: hash_inv_def same_keys_def) blast

lemma same_keys_indexed:
  assumes "same_keys st st'" "hash_inv st"
  shows "indexed st' = indexed st"
proof -
  have "bucket_ok st' b xs \<longleftrightarrow> bucket_ok st b xs" if "b < TB_HASH_SIZE" for b xs
  proof
    assume ok': "bucket_ok st' b xs"
    obtain ys where ys: "bucket_ok st b ys" using hash_invE [OF assms(2) \<open>b < TB_HASH_SIZE\<close>] by metis
    then have "bucket_ok st' b ys" by (rule same_keys_bucket [OF assms(1)])
    with ok' have "xs = ys" by (rule bucket_unique)
    with ys show "bucket_ok st b xs" by simp
  qed (rule same_keys_bucket [OF assms(1)])
  then show ?thesis by (auto simp: indexed_def)
qed

lemma ts_modify_Some:
  "ts_modify i f st = Some st' \<longleftrightarrow> i < length (ts_tbs st) \<and> st' = st\<lparr>ts_tbs := (ts_tbs st)[i := f (ts_tbs st ! i)]\<rparr>"
  by (auto simp: ts_modify_def ts_get_def)

lemma same_keys_modify:
  assumes "ts_modify i f st = Some st'"
    "\<And>t. hash_next (f t) = hash_next t \<and> tb_pc (f t) = tb_pc t \<and> tb_flags (f t) = tb_flags t"
  shows "same_keys st st'"
  using assms by (auto simp: ts_modify_Some same_keys_def nth_list_update)

lemma ts_alloc_same_keys:
  "ts_alloc pc flags cflags st = Some (i, st') \<Longrightarrow> same_keys st st' \<and> i = length (ts_tbs st) \<and>
     ts_tbs st' = ts_tbs st @ [tb_new pc flags cflags]"
  by (auto simp: ts_alloc_def same_keys_def nth_append Let_def split: if_splits)

lemma indexed_range: "i \<in> indexed st \<Longrightarrow> i < length (ts_tbs st)"
  by (auto simp: indexed_def bucket_ok_def dest: chain_range)

text \<open>A block without its link: what insertion and removal leave alone.\<close>

definition strip :: "TranslationBlock \<Rightarrow> TranslationBlock" where
  "strip t = t\<lparr>hash_next := None\<rparr>"

lemma strip_link [simp]: "strip (t\<lparr>hash_next := h\<rparr>) = strip t"
  by (simp add: strip_def)

lemma strip_nth_update [simp]: "strip (ts[k := (ts ! k)\<lparr>hash_next := h\<rparr>] ! j) = strip (ts ! j)"
  by (cases "k = j"; cases "k < length ts") (simp_all add: list_update_beyond)

lemma strip_eqD:
  assumes "strip t = strip u"
  shows "tb_pc t = tb_pc u" "tb_flags t = tb_flags u" "invalid t = invalid u" "jmp t = jmp u"
    "jmp_insn_offset t = jmp_insn_offset u" "jmp_reset_offset t = jmp_reset_offset u"
    "host_offset t = host_offset u" "key_hash t = key_hash u" "tb_matches pc flags t = tb_matches pc flags u"
    "exit_target t = exit_target u"
proof -
  show *: "tb_pc t = tb_pc u" "tb_flags t = tb_flags u" "invalid t = invalid u" "jmp t = jmp u"
    "jmp_insn_offset t = jmp_insn_offset u" "jmp_reset_offset t = jmp_reset_offset u"
    "host_offset t = host_offset u" "exit_target t = exit_target u"
    using assms unfolding strip_def by (cases t; cases u; simp)+
  show "key_hash t = key_hash u" "tb_matches pc flags t = tb_matches pc flags u"
    using * by (simp_all add: key_hash_def tb_matches_def)
qed

lemma ts_insert_ok:
  assumes inv: "hash_inv st" and i: "i < length (ts_tbs st)" "i \<notin> indexed st"
  obtains st' where "ts_insert i st = Some st'" "hash_inv st'" "indexed st' = insert i (indexed st)"
    "length (ts_tbs st') = length (ts_tbs st)"
    "\<And>j. strip (ts_tbs st' ! j) = strip (ts_tbs st ! j)"
    "\<And>b. b \<noteq> key_hash (ts_tbs st ! i) \<Longrightarrow> ts_hash st' ! b = ts_hash st ! b"
    "ts_hash st' ! key_hash (ts_tbs st ! i) = Some i"
proof -
  let ?b = "key_hash (ts_tbs st ! i)"
  let ?t = "(ts_tbs st ! i)\<lparr>hash_next := ts_hash st ! ?b\<rparr>"
  let ?st = "st\<lparr>ts_tbs := (ts_tbs st)[i := ?t], ts_hash := (ts_hash st)[?b := Some i]\<rparr>"
  have len: "length (ts_hash st) = TB_HASH_SIZE" using inv by (simp add: hash_inv_def)
  have run: "ts_insert i st = Some ?st"
    using i len by (simp add: ts_insert_def ts_get_def ts_modify_def key_hash_def Let_def)
  have key: "key_hash ?t = ?b" by (simp add: key_hash_def)
  have old: "i \<noteq> j" if "bucket_ok st b xs" "b < TB_HASH_SIZE" "j \<in> set xs" for b xs j
    using i(2) that by (auto simp: indexed_def)
  have other: "bucket_ok ?st b xs" if "bucket_ok st b xs" "b < TB_HASH_SIZE" "b \<noteq> ?b" for b xs
    by (rule bucket_ok_cong [OF that(1)]) (use that old [OF that(1,2)] in auto)
  have own: "bucket_ok ?st ?b (i # xs)" if "bucket_ok st ?b xs" for xs
  proof -
    note ne = old [OF that key_hash_bound]
    have c: "chain ((ts_tbs st)[i := ?t]) (ts_hash st ! ?b) xs"
      by (rule chain_cong [of "ts_tbs st"]) (use that ne in \<open>simp_all add: bucket_ok_def\<close>)
    have "key_hash ((ts_tbs st)[i := ?t] ! j) = ?b" if "j \<in> set xs" for j
      using ne [OF that] \<open>bucket_ok st ?b xs\<close> that by (simp add: bucket_ok_def)
    with c i len key show ?thesis by (simp add: bucket_ok_def)
  qed
  have inv': "hash_inv ?st"
    unfolding hash_inv_def
  proof (intro conjI allI impI)
    fix b assume b: "b < TB_HASH_SIZE"
    obtain xs where "bucket_ok st b xs" using hash_invE [OF inv b] by metis
    then show "\<exists>xs. bucket_ok ?st b xs" using other [OF _ b] own by (cases "b = ?b") auto
  qed (simp add: len)
  have "indexed ?st = insert i (indexed st)"
  proof (intro set_eqI)
    fix j
    have kj: "key_hash (ts_tbs ?st ! j) = key_hash (ts_tbs st ! j)"
      using key by (cases "j = i") (auto simp: nth_list_update i)
    let ?c = "key_hash (ts_tbs st ! j)"
    obtain xs where xs: "bucket_ok st ?c xs" using hash_invE [OF inv key_hash_bound] by metis
    show "j \<in> indexed ?st \<longleftrightarrow> j \<in> insert i (indexed st)"
    proof (cases "?c = ?b")
      case True
      then show ?thesis
        using xs own [of xs] indexed_iff [of st j xs] indexed_iff [of ?st j "i # xs"] kj by simp
    next
      case False
      then show ?thesis
        using xs other [OF xs key_hash_bound False] indexed_iff [of st j xs] indexed_iff [of ?st j xs] kj
        by auto
    qed
  qed
  moreover have "strip (ts_tbs ?st ! j) = strip (ts_tbs st ! j)" for j by simp
  ultimately show thesis using that [OF run inv'] len by (simp add: nth_list_update)
qed

text \<open>A segment of a chain, up to the link \<open>m\<close>.\<close>

fun seg :: "TranslationBlock list \<Rightarrow> nat option \<Rightarrow> nat list \<Rightarrow> nat option \<Rightarrow> bool" where
  "seg tbs h [] m \<longleftrightarrow> h = m"
| "seg tbs h (i # xs) m \<longleftrightarrow> h = Some i \<and> i < length tbs \<and> seg tbs (hash_next (tbs ! i)) xs m"

lemma chain_append: "chain tbs h (xs @ ys) \<longleftrightarrow> (\<exists>m. seg tbs h xs m \<and> chain tbs m ys)"
  by (induction xs arbitrary: h) auto

lemma seg_snoc: "seg tbs h (xs @ [p]) m \<longleftrightarrow> seg tbs h xs (Some p) \<and> p < length tbs \<and> hash_next (tbs ! p) = m"
  by (induction xs arbitrary: h) auto

lemma seg_cong:
  assumes "seg tbs h xs m" "length tbs' = length tbs" "\<And>i. i \<in> set xs \<Longrightarrow> hash_next (tbs' ! i) = hash_next (tbs ! i)"
  shows "seg tbs' h xs m"
  using assms by (induction xs arbitrary: h) auto

definition unlink :: "nat option \<Rightarrow> nat \<Rightarrow> nat \<Rightarrow> TbStore \<Rightarrow> TbStore" where
  "unlink prev i b st =
     (let next = hash_next (ts_tbs st ! i);
          st = (case prev of
                  Some p \<Rightarrow> st\<lparr>ts_tbs := (ts_tbs st)[p := (ts_tbs st ! p)\<lparr>hash_next := next\<rparr>]\<rparr>
                | None \<Rightarrow> st\<lparr>ts_hash := (ts_hash st)[b := next]\<rparr>)
      in st\<lparr>ts_tbs := (ts_tbs st)[i := (ts_tbs st ! i)\<lparr>hash_next := None\<rparr>]\<rparr>)"

lemma chain_remove_absent:
  "chain (ts_tbs st) cur zs \<Longrightarrow> i \<notin> set zs \<Longrightarrow> chain_remove cur prev i b st = Some st"
proof (induction zs arbitrary: cur prev)
  case Nil
  then show ?case by (simp add: chain_remove.simps)
next
  case (Cons z zs)
  then show ?case by (subst chain_remove.simps) (simp add: ts_get_def)
qed

lemma chain_remove_present:
  assumes "chain (ts_tbs st) cur (us @ i # vs)" "i \<notin> set us" "\<forall>p. prev = Some p \<longrightarrow> p < length (ts_tbs st)"
  shows "chain_remove cur prev i b st = Some (unlink (if us = [] then prev else Some (last us)) i b st)"
  using assms
proof (induction us arbitrary: cur prev)
  case Nil
  then show ?case
    by (subst chain_remove.simps)
      (auto simp: ts_get_def ts_modify_def unlink_def Let_def split: option.splits)
next
  case (Cons u us)
  then show ?case by (subst chain_remove.simps) (auto simp: ts_get_def)
qed

lemma unlink_frame:
  "length (ts_tbs (unlink prev i b st)) = length (ts_tbs st) \<and> length (ts_hash (unlink prev i b st)) = length (ts_hash st) \<and>
   (c \<noteq> b \<longrightarrow> ts_hash (unlink prev i b st) ! c = ts_hash st ! c) \<and>
   strip (ts_tbs (unlink prev i b st) ! j) = strip (ts_tbs st ! j) \<and>
   (j \<noteq> i \<and> prev \<noteq> Some j \<longrightarrow> ts_tbs (unlink prev i b st) ! j = ts_tbs st ! j)"
  by (cases prev) (simp_all add: unlink_def Let_def)

lemma unlink_bucket:
  assumes "bucket_ok st b (us @ i # vs)" "b < length (ts_hash st)"
  defines "st' \<equiv> unlink (if us = [] then None else Some (last us)) i b st"
  shows "bucket_ok st' b (us @ vs)"
proof -
  let ?tbs = "ts_tbs st" and ?tbs' = "ts_tbs st'"
  have ch: "chain ?tbs (ts_hash st ! b) (us @ i # vs)" using assms(1) by (simp add: bucket_ok_def)
  then have d: "distinct (us @ i # vs)" by (rule chain_distinct)
  from ch obtain m where m: "seg ?tbs (ts_hash st ! b) us m" "m = Some i" "i < length ?tbs"
    "chain ?tbs (hash_next (?tbs ! i)) vs" by (auto simp: chain_append)
  have len: "length ?tbs' = length ?tbs" using unlink_frame unfolding st'_def by blast
  have other: "?tbs' ! j = ?tbs ! j" if "j \<noteq> i" "us \<noteq> [] \<longrightarrow> j \<noteq> last us" for j
    using that unlink_frame [of "if us = [] then None else Some (last us)" i b st b j]
    unfolding st'_def by (auto split: if_splits)
  have vs: "chain ?tbs' (hash_next (?tbs ! i)) vs"
  proof (rule chain_cong [OF m(4) len])
    fix j assume "j \<in> set vs"
    with d have "j \<noteq> i" "us \<noteq> [] \<longrightarrow> j \<noteq> last us" by (auto dest: last_in_set)
    then show "hash_next (?tbs' ! j) = hash_next (?tbs ! j)" by (simp add: other)
  qed
  have "chain ?tbs' (ts_hash st' ! b) (us @ vs)"
  proof (cases us rule: rev_cases)
    case Nil
    then show ?thesis using vs assms(2) by (simp add: st'_def unlink_def Let_def)
  next
    case (snoc us' p)
    have p: "p < length ?tbs" "seg ?tbs (ts_hash st ! b) us' (Some p)" "p \<noteq> i"
      using m(1) d snoc by (auto simp: seg_snoc)
    have "seg ?tbs' (ts_hash st ! b) us' (Some p)"
    proof (rule seg_cong [OF p(2) len])
      fix j assume "j \<in> set us'"
      with d snoc have "j \<noteq> i" "j \<noteq> last us" by auto
      then show "hash_next (?tbs' ! j) = hash_next (?tbs ! j)" by (simp add: other)
    qed
    moreover have "hash_next (?tbs' ! p) = hash_next (?tbs ! i)"
      using p snoc by (simp add: st'_def unlink_def Let_def)
    moreover have "ts_hash st' ! b = ts_hash st ! b"
      using snoc by (simp add: st'_def unlink_def Let_def)
    ultimately show ?thesis using vs p(1) len snoc
      by (auto simp: chain_append seg_snoc)
  qed
  moreover have "key_hash (?tbs' ! j) = b" if "j \<in> set (us @ vs)" for j
  proof -
    have "strip (?tbs' ! j) = strip (?tbs ! j)" using unlink_frame unfolding st'_def by blast
    then have "key_hash (?tbs' ! j) = key_hash (?tbs ! j)" by (rule strip_eqD)
    then show ?thesis using assms(1) that by (auto simp: bucket_ok_def)
  qed
  ultimately show ?thesis by (simp add: bucket_ok_def)
qed

lemma chain_remove_buckets:
  fixes st :: TbStore and i :: nat
  assumes inv: "hash_inv st"
  defines "b \<equiv> key_hash (ts_tbs st ! i)"
  obtains st' where "chain_remove (ts_hash st ! b) None i b st = Some st'"
    "length (ts_tbs st') = length (ts_tbs st)" "length (ts_hash st') = length (ts_hash st)"
    "\<And>j. strip (ts_tbs st' ! j) = strip (ts_tbs st ! j)"
    "\<And>c xs. bucket_ok st c xs \<Longrightarrow> c < TB_HASH_SIZE \<Longrightarrow> bucket_ok st' c (removeAll i xs)"
proof -
  obtain xs where xs: "bucket_ok st b xs" "distinct xs"
    using hash_invE [OF inv key_hash_bound] unfolding b_def by metis
  have len: "length (ts_hash st) = TB_HASH_SIZE" using inv by (simp add: hash_inv_def)
  have out: "i \<notin> set ys" if "bucket_ok st c ys" "c \<noteq> b" for c ys
    using that by (auto simp: bucket_ok_def b_def)
  show thesis
  proof (cases "i \<in> set xs")
    case False
    have "chain_remove (ts_hash st ! b) None i b st = Some st"
      by (rule chain_remove_absent [OF _ False]) (use xs in \<open>simp add: bucket_ok_def\<close>)
    moreover have "removeAll i ys = ys" if "bucket_ok st c ys" for c ys
      using out [OF that] bucket_unique [OF that] xs False by (cases "c = b") auto
    ultimately show thesis by (intro that) auto
  next
    case True
    then obtain us vs where uv: "xs = us @ i # vs" "i \<notin> set us" by (meson split_list_first)
    let ?prev = "if us = [] then None else Some (last us)"
    let ?st = "unlink ?prev i b st"
    have i: "i \<notin> set vs" using xs(2) uv by simp
    have run: "chain_remove (ts_hash st ! b) None i b st = Some ?st"
      by (rule chain_remove_present) (use xs uv in \<open>auto simp: bucket_ok_def\<close>)
    have "bucket_ok ?st c (removeAll i ys)" if ok: "bucket_ok st c ys" "c < TB_HASH_SIZE" for c ys
    proof (cases "c = b")
      case True
      then have "ys = us @ i # vs" using bucket_unique ok(1) xs(1) uv by blast
      then show ?thesis
        using True ok(1) unlink_bucket [of st b us i vs] uv i len ok(2) by simp
    next
      case False
      have "ts_tbs ?st ! j = ts_tbs st ! j" if "j \<in> set ys" for j
      proof -
        have "key_hash (ts_tbs st ! j) = c" using ok(1) that by (simp add: bucket_ok_def)
        moreover have "key_hash (ts_tbs st ! k) = b" if "k \<in> set xs" for k
          using xs(1) that by (simp add: bucket_ok_def)
        ultimately have "j \<notin> set xs" using False by blast
        then have "j \<noteq> i" "?prev \<noteq> Some j" using uv by auto
        then show ?thesis using unlink_frame [of ?prev i b st b j] by simp
      qed
      then have "bucket_ok ?st c ys"
        using False unlink_frame [of ?prev i b st c] by (intro bucket_ok_cong [OF ok(1)]) auto
      then show ?thesis using out [OF ok(1) False] by simp
    qed
    moreover have "strip (ts_tbs ?st ! j) = strip (ts_tbs st ! j)" for j
      using unlink_frame by blast
    ultimately show thesis using unlink_frame [of ?prev i b st] by (intro that [OF run]) auto
  qed
qed

lemma hash_inv_remove:
  assumes inv: "hash_inv st" and len: "length (ts_tbs st') = length (ts_tbs st)" "length (ts_hash st') = length (ts_hash st)"
    and str: "\<And>j. strip (ts_tbs st' ! j) = strip (ts_tbs st ! j)"
    and ok: "\<And>c xs. bucket_ok st c xs \<Longrightarrow> c < TB_HASH_SIZE \<Longrightarrow> bucket_ok st' c (removeAll i xs)"
  shows "hash_inv st'" "indexed st' = indexed st - {i}"
proof -
  show "hash_inv st'" using inv ok len unfolding hash_inv_def by metis
  show "indexed st' = indexed st - {i}"
  proof (intro set_eqI)
    fix j
    let ?c = "key_hash (ts_tbs st ! j)"
    have c: "key_hash (ts_tbs st' ! j) = ?c" using str by (rule strip_eqD)
    obtain xs where xs: "bucket_ok st ?c xs" using hash_invE [OF inv key_hash_bound] by metis
    show "j \<in> indexed st' \<longleftrightarrow> j \<in> indexed st - {i}"
      using indexed_iff [OF xs] indexed_iff [of st' j "removeAll i xs"] ok [OF xs] c by auto
  qed
qed

section \<open>The table as an index\<close>

text \<open>
  What the execution loop relies on: the store as a partial index from keys to blocks. The
  laws speak of the set of indexed blocks; a client that adds a block under a fresh index
  finds it under its key.
\<close>

locale tb_index =
  fixes inv :: "'s \<Rightarrow> bool" and blocks :: "'s \<Rightarrow> TranslationBlock list" and members :: "'s \<Rightarrow> nat set"
    and find_tb :: "'s \<Rightarrow> u64 \<Rightarrow> u32 \<Rightarrow> nat option option" and add :: "nat \<Rightarrow> 's \<Rightarrow> 's option"
  assumes find_returns: "inv s \<Longrightarrow> \<exists>r. find_tb s pc flags = Some r"
    and find_sound: "inv s \<Longrightarrow> find_tb s pc flags = Some (Some i) \<Longrightarrow>
      i \<in> members s \<and> i < length (blocks s) \<and> tb_matches pc flags (blocks s ! i)"
    and find_complete: "inv s \<Longrightarrow> find_tb s pc flags = Some None \<Longrightarrow> i \<in> members s \<Longrightarrow>
      \<not> tb_matches pc flags (blocks s ! i)"
    and members_range: "i \<in> members s \<Longrightarrow> i < length (blocks s)"
    and add_ok: "inv s \<Longrightarrow> i < length (blocks s) \<Longrightarrow> i \<notin> members s \<Longrightarrow>
      \<exists>s'. add i s = Some s' \<and> inv s' \<and> members s' = insert i (members s) \<and>
        length (blocks s') = length (blocks s) \<and> (\<forall>j. strip (blocks s' ! j) = strip (blocks s ! j))"
begin

text \<open>A key is found exactly when some indexed valid block has it.\<close>

lemma find_iff:
  assumes "inv s"
  shows "(\<exists>i. find_tb s pc flags = Some (Some i)) \<longleftrightarrow> (\<exists>i \<in> members s. tb_matches pc flags (blocks s ! i))"
  using find_returns [OF assms, of pc flags] find_sound [OF assms, of pc flags]
    find_complete [OF assms, of pc flags] by (metis option.exhaust)

text \<open>With at most one valid block per key, a new block is the one its key finds.\<close>

lemma find_added:
  assumes "inv s" "i < length (blocks s)" "i \<notin> members s" "tb_matches pc flags (blocks s ! i)"
    "find_tb s pc flags = Some None"
  shows "\<exists>s'. add i s = Some s' \<and> inv s' \<and> find_tb s' pc flags = Some (Some i)"
proof -
  obtain s' where s': "add i s = Some s'" "inv s'" "members s' = insert i (members s)"
    "\<And>j. strip (blocks s' ! j) = strip (blocks s ! j)"
    using add_ok [OF assms(1-3)] by blast
  have m: "tb_matches pc flags (blocks s' ! j) \<longleftrightarrow> tb_matches pc flags (blocks s ! j)" for j
    using s'(4) by (rule strip_eqD)
  then have "\<exists>j. find_tb s' pc flags = Some (Some j)"
    using find_iff [OF s'(2)] s'(3) assms(4) by blast
  then obtain j where j: "find_tb s' pc flags = Some (Some j)" ..
  have "j = i"
    using find_sound [OF s'(2) j] s'(3) m find_complete [OF assms(1,5)] by blast
  with s' j show ?thesis by blast
qed

end

interpretation store: tb_index hash_inv ts_tbs indexed ts_lookup ts_insert
proof
  fix s i assume "hash_inv s" "i < length (ts_tbs s)" "i \<notin> indexed s"
  then show "\<exists>s'. ts_insert i s = Some s' \<and> hash_inv s' \<and> indexed s' = insert i (indexed s) \<and>
      length (ts_tbs s') = length (ts_tbs s) \<and> (\<forall>j. strip (ts_tbs s' ! j) = strip (ts_tbs s ! j))"
    by (rule ts_insert_ok) blast
qed (simp_all add: ts_lookup_returns ts_lookup_sound ts_lookup_complete indexed_range)

section \<open>Properties\<close>

text \<open>
  C21: the block lookup terminates and is exact. On a store whose bucket chains are finite,
  walking the bucket returns; a block it returns is in the store, valid and has the wanted
  key; when it returns none, no valid indexed block has that key.
\<close>

theorem lookup_exact:
  assumes "hash_inv st"
  shows "\<exists>r. ts_lookup st pc flags = Some r \<and>
    (\<forall>i. r = Some i \<longrightarrow> i < length (ts_tbs st) \<and> i \<in> indexed st \<and> \<not> invalid (ts_tbs st ! i) \<and>
       tb_pc (ts_tbs st ! i) = pc \<and> tb_flags (ts_tbs st ! i) = flags) \<and>
    (r = None \<longrightarrow> (\<forall>i. i \<in> indexed st \<longrightarrow>
       invalid (ts_tbs st ! i) \<or> tb_pc (ts_tbs st ! i) \<noteq> pc \<or> tb_flags (ts_tbs st ! i) \<noteq> flags))"
proof -
  obtain r where r: "ts_lookup st pc flags = Some r" using store.find_returns [OF assms] by blast
  with store.find_sound [OF assms, of pc flags] store.find_complete [OF assms, of pc flags]
  show ?thesis by (intro exI [of _ r]) (auto simp: tb_matches_def)
qed

theorem lookup_exact_witness: "ts_lookup ts_new 0x1000 0 = Some None"
proof -
  have "\<nexists>i. i < length (ts_tbs ts_new)" by (simp add: ts_new_def)
  with lookup_exact [OF hash_inv_new, of "0x1000" 0] show ?thesis by (metis option.exhaust)
qed

text \<open>
  C22: insertion makes a block findable. A newly allocated block that no lookup finds yet is,
  after \<open>alloc\<close> and \<open>insert\<close>, the block its key finds; the store stays well-formed and
  exactly this block is added to the index.
\<close>

theorem alloc_insert_lookup:
  assumes "hash_inv st" "ts_lookup st pc flags = Some None" "ts_alloc pc flags cflags st = Some (i, st1)"
  shows "\<exists>st2. ts_insert i st1 = Some st2 \<and> hash_inv st2 \<and> indexed st2 = insert i (indexed st) \<and>
    ts_lookup st2 pc flags = Some (Some i)"
proof -
  have a: "same_keys st st1" "i = length (ts_tbs st)" "ts_tbs st1 = ts_tbs st @ [tb_new pc flags cflags]"
    using ts_alloc_same_keys [OF assms(3)] by auto
  have inv: "hash_inv st1" by (rule same_keys_inv [OF a(1) assms(1)])
  have idx: "indexed st1 = indexed st" by (rule same_keys_indexed [OF a(1) assms(1)])
  have fresh: "i \<notin> indexed st1" using a(2) idx indexed_range by auto
  have i: "i < length (ts_tbs st1)" "tb_matches pc flags (ts_tbs st1 ! i)"
    using a by (simp_all add: tb_matches_def tb_new_def)
  have "\<not> tb_matches pc flags (ts_tbs st1 ! j)" if "j \<in> indexed st1" for j
    using store.find_complete [OF assms(1,2)] that idx indexed_range [of j st] a(3) by (simp add: nth_append)
  then have "ts_lookup st1 pc flags = Some None"
    using store.find_returns [OF inv, of pc flags] store.find_sound [OF inv, of pc flags] by (metis option.exhaust)
  from store.find_added [OF inv i(1) fresh i(2) this] store.add_ok [OF inv i(1) fresh] idx
  show ?thesis by fastforce
qed

theorem alloc_insert_lookup_witness:
  "\<exists>st1 st2. ts_alloc 0x1000 0 0 ts_new = Some (0, st1) \<and> ts_insert 0 st1 = Some st2 \<and>
     ts_lookup st2 0x1000 0 = Some (Some 0)"
proof -
  obtain st1 where a: "ts_alloc 0x1000 0 0 ts_new = Some (0, st1)"
    by (simp add: ts_alloc_def ts_new_def MAX_TBS_def Let_def)
  have "\<nexists>i. i \<in> indexed ts_new" using indexed_range [of _ ts_new] by (auto simp: ts_new_def)
  then have "ts_lookup ts_new 0x1000 0 = Some None"
    using store.find_returns [OF hash_inv_new, of "0x1000" 0] store.find_sound [OF hash_inv_new, of "0x1000" 0]
    by (metis option.exhaust)
  from alloc_insert_lookup [OF hash_inv_new this a] a show ?thesis by blast
qed

end
