(* ===== verification/Chaining.thy ===== *)
theory Chaining
  imports TbStore
begin

text \<open>
  Block chaining: the agreement between the chaining state that the store keeps (outgoing
  \<open>jmp_dest\<close>, incoming \<open>jmp_list\<close>) and the jump instructions in the code buffer. The
  invariant is stated over any observer \<open>target\<close> of the jump at an offset; the lemmas hold
  for every backend that meets the contract \<open>jump_patcher\<close>.
\<close>

section \<open>The chaining invariant\<close>

abbreviation dest :: "TbStore \<Rightarrow> nat \<Rightarrow> nat \<Rightarrow> nat option" where
  "dest st s n \<equiv> jmp_dest (jmp (ts_tbs st ! s)) ! n"

abbreviation incoming :: "TbStore \<Rightarrow> nat \<Rightarrow> (nat \<times> nat) list" where
  "incoming st d \<equiv> jmp_list (jmp (ts_tbs st ! d))"

abbreviation insn_at :: "TbStore \<Rightarrow> nat \<Rightarrow> nat \<Rightarrow> u32 option" where
  "insn_at st s n \<equiv> jmp_insn_offset (ts_tbs st ! s) ! n"

abbreviation reset_at :: "TbStore \<Rightarrow> nat \<Rightarrow> nat \<Rightarrow> u32 option" where
  "reset_at st s n \<equiv> jmp_reset_offset (ts_tbs st ! s) ! n"

text \<open>
  The layout: the jump sites of all blocks lie inside the buffer and apart from each other, a
  slot has a jump site exactly when it has a reset address, and the recorded edges name
  existing blocks and slots.
\<close>

definition block_layout :: "TbStore \<Rightarrow> CodeBuffer \<Rightarrow> nat \<Rightarrow> bool" where
  "block_layout st code s \<longleftrightarrow>
     (let tb = ts_tbs st ! s in
        length (jmp_dest (jmp tb)) = 2 \<and> length (jmp_insn_offset tb) = 2 \<and>
        length (jmp_reset_offset tb) = 2 \<and> host_offset tb \<le> capacity code) \<and>
     (\<forall>n < 2. (insn_at st s n = None \<longleftrightarrow> reset_at st s n = None) \<and>
        (\<forall>j. insn_at st s n = Some j \<longrightarrow> unat j + JUMP_LEN \<le> capacity code) \<and>
        (\<forall>r. reset_at st s n = Some r \<longrightarrow> unat r \<le> capacity code) \<and>
        (\<forall>d. dest st s n = Some d \<longrightarrow> d < length (ts_tbs st))) \<and>
     (\<forall>(a, n) \<in> set (incoming st s). a < length (ts_tbs st) \<and> n < 2)"

definition sites_apart :: "TbStore \<Rightarrow> bool" where
  "sites_apart st \<longleftrightarrow>
     (\<forall>s < length (ts_tbs st). \<forall>t < length (ts_tbs st). \<forall>n < 2. \<forall>m < 2. \<forall>j k.
        (s, n) \<noteq> (t, m) \<longrightarrow> insn_at st s n = Some j \<longrightarrow> insn_at st t m = Some k \<longrightarrow>
        apart (unat j) (unat k))"

definition layout_ok :: "TbStore \<Rightarrow> CodeBuffer \<Rightarrow> bool" where
  "layout_ok st code \<longleftrightarrow> capacity code < 2 ^ 31 \<and>
     (\<forall>s < length (ts_tbs st). block_layout st code s) \<and> sites_apart st"

text \<open>
  One slot of a valid block: without an outgoing edge its jump goes to the reset address; with
  an edge it goes to the destination's host code, the destination is valid and knows the
  edge. The argument \<open>dying\<close> names a block under invalidation, whose incoming edges are
  only known to the list of edges still to be unlinked.
\<close>

definition slot_ok :: "(nat \<times> (nat \<times> nat) list) option \<Rightarrow> (CodeBuffer \<Rightarrow> nat \<Rightarrow> int option) \<Rightarrow>
    TbStore \<Rightarrow> CodeBuffer \<Rightarrow> nat \<Rightarrow> nat \<Rightarrow> bool" where
  "slot_ok dying target st code s n \<longleftrightarrow>
     (case dest st s n of
        None \<Rightarrow> (\<forall>j r. insn_at st s n = Some j \<longrightarrow> reset_at st s n = Some r \<longrightarrow>
                   target code (unat j) = Some (int (unat r)))
      | Some d \<Rightarrow>
          (\<exists>j. insn_at st s n = Some j \<and> target code (unat j) = Some (int (host_offset (ts_tbs st ! d)))) \<and>
          (case dying of
             Some (x, todo) \<Rightarrow> if d = x then (s, n) \<in> set todo
                              else \<not> invalid (ts_tbs st ! d) \<and> (s, n) \<in> set (incoming st d)
           | None \<Rightarrow> \<not> invalid (ts_tbs st ! d) \<and> (s, n) \<in> set (incoming st d)))"

definition links_ok :: "(nat \<times> (nat \<times> nat) list) option \<Rightarrow> (CodeBuffer \<Rightarrow> nat \<Rightarrow> int option) \<Rightarrow>
    TbStore \<Rightarrow> CodeBuffer \<Rightarrow> bool" where
  "links_ok dying target st code \<longleftrightarrow> layout_ok st code \<and>
     (\<forall>s < length (ts_tbs st). \<forall>n < 2. \<not> invalid (ts_tbs st ! s) \<longrightarrow> slot_ok dying target st code s n)"

abbreviation chain_inv :: "(CodeBuffer \<Rightarrow> nat \<Rightarrow> int option) \<Rightarrow> TbStore \<Rightarrow> CodeBuffer \<Rightarrow> bool" where
  "chain_inv \<equiv> links_ok None"

section \<open>Frame lemmas\<close>

text \<open>A change that keeps the layout data of every block.\<close>

definition same_layout :: "TbStore \<Rightarrow> TbStore \<Rightarrow> bool" where
  "same_layout st st' \<longleftrightarrow> length (ts_tbs st') = length (ts_tbs st) \<and>
     (\<forall>s < length (ts_tbs st). jmp_insn_offset (ts_tbs st' ! s) = jmp_insn_offset (ts_tbs st ! s) \<and>
        jmp_reset_offset (ts_tbs st' ! s) = jmp_reset_offset (ts_tbs st ! s) \<and>
        host_offset (ts_tbs st' ! s) = host_offset (ts_tbs st ! s) \<and>
        length (jmp_dest (jmp (ts_tbs st' ! s))) = length (jmp_dest (jmp (ts_tbs st ! s))))"

lemma same_layout_refl [simp]: "same_layout st st"
  by (simp add: same_layout_def)

lemma same_layout_trans: "same_layout a b \<Longrightarrow> same_layout b c \<Longrightarrow> same_layout a c"
  by (auto simp: same_layout_def)

lemma layout_ok_mono:
  assumes "layout_ok st code" "same_layout st st'" "capacity code' = capacity code"
    "\<And>s n d. s < length (ts_tbs st) \<Longrightarrow> n < 2 \<Longrightarrow> dest st' s n = Some d \<Longrightarrow>
       dest st s n = Some d \<or> d < length (ts_tbs st)"
    "\<And>s e. s < length (ts_tbs st) \<Longrightarrow> e \<in> set (incoming st' s) \<Longrightarrow>
       e \<in> set (incoming st s) \<or> fst e < length (ts_tbs st) \<and> snd e < 2"
  shows "layout_ok st' code'"
proof -
  have len: "length (ts_tbs st') = length (ts_tbs st)" using assms(2) by (simp add: same_layout_def)
  have "block_layout st' code' s" if s: "s < length (ts_tbs st)" for s
  proof -
    have b: "block_layout st code s" using assms(1) s by (simp add: layout_ok_def)
    have "a < length (ts_tbs st') \<and> n < 2" if "(a, n) \<in> set (incoming st' s)" for a n
      using assms(5) [OF s that] b len by (auto simp: block_layout_def Let_def)
    moreover have "d < length (ts_tbs st')" if "n < 2" "dest st' s n = Some d" for n d
      using assms(4) [OF s that] b that len by (auto simp: block_layout_def Let_def)
    ultimately show ?thesis
      using b assms(2,3) s unfolding block_layout_def same_layout_def Let_def by auto
  qed
  moreover have "sites_apart st'"
    using assms(1,2) len unfolding layout_ok_def sites_apart_def same_layout_def by (metis (no_types))
  ultimately show ?thesis using assms(1,3) len by (simp add: layout_ok_def)
qed

lemma nth_modify:
  "ts_modify i f st = Some st' \<Longrightarrow> ts_tbs st' ! k = (if k = i then f (ts_tbs st ! i) else ts_tbs st ! k)"
  by (auto simp: ts_modify_Some)

lemma length_modify: "ts_modify i f st = Some st' \<Longrightarrow> length (ts_tbs st') = length (ts_tbs st)"
  by (auto simp: ts_modify_Some)

lemma modify_defined: "i < length (ts_tbs st) \<Longrightarrow> \<exists>st'. ts_modify i f st = Some st'"
  by (simp add: ts_modify_Some)

lemma set_jmp_simps [simp]:
  "jmp_dest (jmp (set_jmp_dest n d t)) = (jmp_dest (jmp t))[n := d]"
  "jmp_list (jmp (set_jmp_dest n d t)) = jmp_list (jmp t)"
  "jmp_dest (jmp (set_jmp_list l t)) = jmp_dest (jmp t)"
  "jmp_list (jmp (set_jmp_list l t)) = l"
  "invalid (set_jmp_dest n d t) = invalid t" "invalid (set_jmp_list l t) = invalid t"
  "jmp_insn_offset (set_jmp_dest n d t) = jmp_insn_offset t"
  "jmp_insn_offset (set_jmp_list l t) = jmp_insn_offset t"
  "jmp_reset_offset (set_jmp_dest n d t) = jmp_reset_offset t"
  "jmp_reset_offset (set_jmp_list l t) = jmp_reset_offset t"
  "host_offset (set_jmp_dest n d t) = host_offset t" "host_offset (set_jmp_list l t) = host_offset t"
  "hash_next (set_jmp_dest n d t) = hash_next t" "hash_next (set_jmp_list l t) = hash_next t"
  "tb_pc (set_jmp_dest n d t) = tb_pc t" "tb_pc (set_jmp_list l t) = tb_pc t"
  "tb_flags (set_jmp_dest n d t) = tb_flags t" "tb_flags (set_jmp_list l t) = tb_flags t"
  by (simp_all add: set_jmp_dest_def set_jmp_list_def)

text \<open>What unlinking leaves alone: keys, layout and validity of every block.\<close>

definition unlinks :: "TbStore \<Rightarrow> TbStore \<Rightarrow> bool" where
  "unlinks st st' \<longleftrightarrow> same_keys st st' \<and> same_layout st st' \<and>
     (\<forall>k < length (ts_tbs st). invalid (ts_tbs st' ! k) = invalid (ts_tbs st ! k))"

lemma unlinks_refl [simp]: "unlinks st st"
  by (simp add: unlinks_def)

lemma unlinks_trans: "unlinks a b \<Longrightarrow> unlinks b c \<Longrightarrow> unlinks a c"
  using same_keys_trans same_layout_trans by (auto simp: unlinks_def same_layout_def)

lemma unlinks_length: "unlinks st st' \<Longrightarrow> length (ts_tbs st') = length (ts_tbs st)"
  by (simp add: unlinks_def same_layout_def)

lemma modify_unlinks:
  assumes "ts_modify i f st = Some st'"
    "\<And>t. hash_next (f t) = hash_next t \<and> tb_pc (f t) = tb_pc t \<and> tb_flags (f t) = tb_flags t \<and>
      jmp_insn_offset (f t) = jmp_insn_offset t \<and> jmp_reset_offset (f t) = jmp_reset_offset t \<and>
      host_offset (f t) = host_offset t \<and> invalid (f t) = invalid t \<and>
      length (jmp_dest (jmp (f t))) = length (jmp_dest (jmp t))"
  shows "unlinks st st'"
  using same_keys_modify [OF assms(1)] assms(2)
  by (auto simp: unlinks_def same_layout_def nth_modify [OF assms(1)] length_modify [OF assms(1)])

section \<open>Unlinking\<close>

context jump_patcher
begin

text \<open>Resetting one slot: the jump of that slot goes back, every other jump is as before.\<close>

lemma reset_jump_ok:
  assumes lay: "layout_ok st code" and s: "s < length (ts_tbs st)" "n < 2"
  obtains code' where "reset_jump patch (ts_tbs st ! s) n code = Some code'" "capacity code' = capacity code"
    "\<And>j r. insn_at st s n = Some j \<Longrightarrow> reset_at st s n = Some r \<Longrightarrow> target code' (unat j) = Some (int (unat r))"
    "\<And>t m k. t < length (ts_tbs st) \<Longrightarrow> m < 2 \<Longrightarrow> (s, n) \<noteq> (t, m) \<Longrightarrow> insn_at st t m = Some k \<Longrightarrow>
       target code' (unat k) = target code (unat k)"
proof -
  have b: "block_layout st code s" using lay s by (simp add: layout_ok_def)
  show thesis
  proof (cases "insn_at st s n")
    case None
    then show thesis using b s by (intro that [of code]) (auto simp: reset_jump_def block_layout_def Let_def)
  next
    case (Some j)
    with b s obtain r where r: "reset_at st s n = Some r" "unat j + JUMP_LEN \<le> capacity code" "unat r \<le> capacity code"
      by (auto simp: block_layout_def Let_def)
    have cap: "capacity code < 2 ^ 31" using lay by (simp add: layout_ok_def)
    obtain code' where p: "patch code (unat j) (unat r) = Some code'" "target code' (unat j) = Some (int (unat r))"
      "\<And>k. apart (unat j) k \<Longrightarrow> target code' k = target code k" "capacity code' = capacity code"
      by (rule patch_defined [OF r(2,3) cap]) auto
    have run: "reset_jump patch (ts_tbs st ! s) n code = Some code'"
      using b s Some r(1) p(1) by (simp add: reset_jump_def block_layout_def Let_def)
    have "apart (unat j) (unat k)" if "t < length (ts_tbs st)" "m < 2" "(s, n) \<noteq> (t, m)" "insn_at st t m = Some k" for t m k
      using lay s Some that unfolding layout_ok_def sites_apart_def by blast
    with p r Some show thesis by (intro that [OF run]) auto
  qed
qed

lemma unlink_one:
  assumes ok: "links_ok (Some (x, (s, n) # todo)) target st code" and s: "s < length (ts_tbs st)" "n < 2"
  obtains st' code' where "reset_jump patch (ts_tbs st ! s) n code = Some code'"
    "ts_modify s (set_jmp_dest n None) st = Some st'" "links_ok (Some (x, todo)) target st' code'"
    "unlinks st st'" "\<And>k. incoming st' k = incoming st k" "capacity code' = capacity code"
proof -
  have lay: "layout_ok st code" using ok by (simp add: links_ok_def)
  obtain code' where c: "reset_jump patch (ts_tbs st ! s) n code = Some code'" "capacity code' = capacity code"
    "\<And>j r. insn_at st s n = Some j \<Longrightarrow> reset_at st s n = Some r \<Longrightarrow> target code' (unat j) = Some (int (unat r))"
    "\<And>t m k. t < length (ts_tbs st) \<Longrightarrow> m < 2 \<Longrightarrow> (s, n) \<noteq> (t, m) \<Longrightarrow> insn_at st t m = Some k \<Longrightarrow>
       target code' (unat k) = target code (unat k)"
    by (rule reset_jump_ok [OF lay s]) auto
  obtain st' where m: "ts_modify s (set_jmp_dest n None) st = Some st'"
    using modify_defined [OF s(1)] by blast
  note nth = nth_modify [OF m]
  have u: "unlinks st st'" by (rule modify_unlinks [OF m]) simp
  have len2: "length (jmp_dest (jmp (ts_tbs st ! s))) = 2"
    using lay s by (simp add: layout_ok_def block_layout_def Let_def)
  have d: "dest st' t k = (if (t, k) = (s, n) then None else dest st t k)" for t k
    using len2 s by (auto simp: nth nth_list_update)
  have inc: "incoming st' k = incoming st k" for k by (simp add: nth)
  have lay': "layout_ok st' code'"
    by (rule layout_ok_mono [OF lay _ c(2)]) (use u d inc in \<open>auto simp: unlinks_def split: if_splits\<close>)
  have same: "insn_at st' t k = insn_at st t k" "reset_at st' t k = reset_at st t k"
    "host_offset (ts_tbs st' ! t) = host_offset (ts_tbs st ! t)" "invalid (ts_tbs st' ! t) = invalid (ts_tbs st ! t)"
    for t k by (simp_all add: nth)
  have "slot_ok (Some (x, todo)) target st' code' t k"
    if t: "t < length (ts_tbs st)" "k < 2" "\<not> invalid (ts_tbs st ! t)" for t k
  proof (cases "(t, k) = (s, n)")
    case True
    then show ?thesis using c(3) d [of s n] by (simp add: slot_ok_def same)
  next
    case False
    have "slot_ok (Some (x, (s, n) # todo)) target st code t k" using ok t by (simp add: links_ok_def)
    moreover have "dest st' t k = dest st t k" using d False by auto
    moreover have "target code' (unat j) = target code (unat j)" if "insn_at st t k = Some j" for j
      using c(4) [OF t(1,2)] that False by auto
    ultimately show ?thesis using False
      by (auto simp: slot_ok_def same inc split: option.splits if_splits)
  qed
  then have "links_ok (Some (x, todo)) target st' code'"
    using lay' length_modify [OF m] by (simp add: links_ok_def same)
  then show thesis using that [OF c(1) m _ u inc c(2)] by blast
qed

lemma unlink_incoming_ok:
  assumes "links_ok (Some (x, todo)) target st code" "\<forall>(s, n) \<in> set todo. s < length (ts_tbs st) \<and> n < 2"
  shows "\<exists>st' code'. unlink_incoming patch todo (st, code) = Some (st', code') \<and>
    links_ok (Some (x, [])) target st' code' \<and> unlinks st st' \<and> (\<forall>k. incoming st' k = incoming st k) \<and>
    capacity code' = capacity code"
  using assms
proof (induction todo arbitrary: st code)
  case Nil
  then show ?case by simp
next
  case (Cons e todo)
  obtain s n where e: "e = (s, n)" "s < length (ts_tbs st)" "n < 2" using Cons.prems(2) by (cases e) auto
  obtain st1 code1 where one: "reset_jump patch (ts_tbs st ! s) n code = Some code1"
    "ts_modify s (set_jmp_dest n None) st = Some st1" "links_ok (Some (x, todo)) target st1 code1"
    "unlinks st st1" "\<And>k. incoming st1 k = incoming st k" "capacity code1 = capacity code"
    using Cons.prems(1) e by (auto intro: unlink_one [of x s n todo st code])
  have "\<forall>(s, n) \<in> set todo. s < length (ts_tbs st1) \<and> n < 2"
    using Cons.prems(2) unlinks_length [OF one(4)] by auto
  from Cons.IH [OF one(3) this] obtain st' code' where rest:
    "unlink_incoming patch todo (st1, code1) = Some (st', code')" "links_ok (Some (x, [])) target st' code'"
    "unlinks st1 st'" "\<forall>k. incoming st' k = incoming st1 k" "capacity code' = capacity code1" by blast
  have "unlink_incoming patch (e # todo) (st, code) = Some (st', code')"
    using one(1,2) rest(1) e by (simp add: ts_get_def)
  then show ?case
    using rest unlinks_trans [OF one(4) rest(3)] one(5,6) by auto
qed

end

text \<open>
  A change of the chaining state that keeps, for valid blocks, the outgoing edges and the
  destinations' knowledge of them keeps the invariant.
\<close>

lemma links_frame:
  assumes ok: "chain_inv target st code" and lay: "same_layout st st'"
    and inval: "\<And>s. s < length (ts_tbs st) \<Longrightarrow> invalid (ts_tbs st' ! s) = invalid (ts_tbs st ! s)"
    and dst: "\<And>s n. s < length (ts_tbs st) \<Longrightarrow> n < 2 \<Longrightarrow>
      dest st' s n = dest st s n \<or> invalid (ts_tbs st ! s) \<and> dest st' s n = None"
    and inc: "\<And>s. s < length (ts_tbs st) \<Longrightarrow> set (incoming st' s) \<subseteq> set (incoming st s)"
    and keep: "\<And>d s n. d < length (ts_tbs st) \<Longrightarrow> s < length (ts_tbs st) \<Longrightarrow> \<not> invalid (ts_tbs st ! s) \<Longrightarrow>
      (s, n) \<in> set (incoming st d) \<Longrightarrow> (s, n) \<in> set (incoming st' d)"
  shows "chain_inv target st' code"
proof -
  have len: "length (ts_tbs st') = length (ts_tbs st)" using lay by (simp add: same_layout_def)
  have "layout_ok st code" using ok by (simp add: links_ok_def)
  then have lay': "layout_ok st' code"
  proof (rule layout_ok_mono [OF _ lay refl])
    show "dest st s n = Some d \<or> d < length (ts_tbs st)"
      if "s < length (ts_tbs st)" "n < 2" "dest st' s n = Some d" for s n d
      using dst [OF that(1,2)] that(3) by auto
    show "e \<in> set (incoming st s) \<or> fst e < length (ts_tbs st) \<and> snd e < 2"
      if "s < length (ts_tbs st)" "e \<in> set (incoming st' s)" for s e
      using inc [OF that(1)] that(2) by auto
  qed
  have "slot_ok None target st' code s n" if s: "s < length (ts_tbs st)" "n < 2" "\<not> invalid (ts_tbs st' ! s)" for s n
  proof -
    have v: "\<not> invalid (ts_tbs st ! s)" using s inval by simp
    have old: "slot_ok None target st code s n" using ok s v by (simp add: links_ok_def)
    have d: "dest st' s n = dest st s n" using dst [OF s(1,2)] v by auto
    have bl: "block_layout st code s" using ok s by (simp add: links_ok_def layout_ok_def)
    have same: "insn_at st' s n = insn_at st s n" "reset_at st' s n = reset_at st s n"
      using lay s by (simp_all add: same_layout_def)
    show ?thesis
    proof (cases "dest st s n")
      case None
      then show ?thesis using old d same by (simp add: slot_ok_def)
    next
      case (Some e)
      then have e: "e < length (ts_tbs st)" using bl s by (auto simp: block_layout_def Let_def)
      then have "host_offset (ts_tbs st' ! e) = host_offset (ts_tbs st ! e)" "invalid (ts_tbs st' ! e) = invalid (ts_tbs st ! e)"
        using lay inval by (simp_all add: same_layout_def)
      then show ?thesis using Some old d same keep [OF e s(1) v] by (auto simp: slot_ok_def)
    qed
  qed
  with lay' len show ?thesis by (simp add: links_ok_def)
qed

lemma slot_close: "slot_ok (Some (i, [])) target st code s n \<Longrightarrow> slot_ok None target st code s n"
  by (simp add: slot_ok_def split: option.splits if_splits)

lemma links_close: "links_ok (Some (i, [])) target st code \<Longrightarrow> chain_inv target st code"
  unfolding links_ok_def by (blast intro: slot_close)

lemma links_open:
  assumes ok: "chain_inv target st code" and i: "i < length (ts_tbs st)"
  obtains st1 st2 where "ts_modify i (\<lambda>t. t\<lparr>invalid := True\<rparr>) st = Some st1"
    "ts_modify i (set_jmp_list []) st1 = Some st2" "links_ok (Some (i, incoming st i)) target st2 code"
    "same_keys st st2" "same_layout st st2" "invalid (ts_tbs st2 ! i)"
    "\<And>k. k \<noteq> i \<Longrightarrow> ts_tbs st2 ! k = ts_tbs st ! k" "\<And>k n. dest st2 k n = dest st k n"
proof -
  obtain st1 where m1: "ts_modify i (\<lambda>t. t\<lparr>invalid := True\<rparr>) st = Some st1"
    using modify_defined [OF i] by blast
  then have "i < length (ts_tbs st1)" using i length_modify by metis
  then obtain st2 where m2: "ts_modify i (set_jmp_list []) st1 = Some st2" using modify_defined by blast
  note nth = nth_modify [OF m2] nth_modify [OF m1]
  have len: "length (ts_tbs st2) = length (ts_tbs st)"
    using length_modify [OF m1] length_modify [OF m2] by simp
  have keys: "same_keys st st2"
    by (rule same_keys_trans [OF same_keys_modify [OF m1] same_keys_modify [OF m2]]) simp_all
  have lay: "same_layout st st2" using len by (simp add: same_layout_def nth)
  have d: "dest st2 k n = dest st k n" for k n by (simp add: nth)
  have old: "layout_ok st code" using ok by (simp add: links_ok_def)
  have lay2: "layout_ok st2 code"
    by (rule layout_ok_mono [OF old lay refl]) (auto simp: nth split: if_splits)
  have "slot_ok (Some (i, incoming st i)) target st2 code s n"
    if s: "s < length (ts_tbs st)" "n < 2" "\<not> invalid (ts_tbs st2 ! s)" for s n
  proof -
    have "s \<noteq> i" using s(3) by (auto simp: nth)
    then have "slot_ok None target st code s n" using ok s by (simp add: links_ok_def nth)
    with \<open>s \<noteq> i\<close> show ?thesis by (auto simp: slot_ok_def nth split: option.splits)
  qed
  then have "links_ok (Some (i, incoming st i)) target st2 code" using lay2 len by (simp add: links_ok_def)
  then show thesis using that [OF m1 m2 _ keys lay] d by (simp add: nth)
qed

text \<open>Dropping the outgoing edges of an invalid block from their destinations' lists.\<close>

lemma unlink_outgoing_ok:
  assumes "chain_inv target st code" "i < length (ts_tbs st)" "invalid (ts_tbs st ! i)"
    "\<forall>(n, d) \<in> set out. d < length (ts_tbs st)"
  shows "\<exists>st'. unlink_outgoing i out st = Some st' \<and> chain_inv target st' code \<and> unlinks st st'"
  using assms
proof (induction out arbitrary: st)
  case Nil
  then show ?case by simp
next
  case (Cons e out)
  obtain n d where e: "e = (n, d)" "d < length (ts_tbs st)" using Cons.prems(4) by (cases e) auto
  let ?f = "\<lambda>tb. set_jmp_list (filter (\<lambda>(s, m). \<not> (s = i \<and> m = n)) (jmp_list (jmp tb))) tb"
  obtain st1 where m: "ts_modify d ?f st = Some st1" using modify_defined [OF e(2)] by blast
  note nth = nth_modify [OF m]
  have u: "unlinks st st1" by (rule modify_unlinks [OF m]) simp
  have ok: "chain_inv target st1 code"
    by (rule links_frame [OF Cons.prems(1)])
      (use u Cons.prems(2,3) in \<open>auto simp: unlinks_def nth split: if_splits\<close>)
  have "\<exists>st'. unlink_outgoing i out st1 = Some st' \<and> chain_inv target st' code \<and> unlinks st1 st'"
    by (rule Cons.IH [OF ok]) (use Cons.prems unlinks_length [OF u] in \<open>auto simp: nth\<close>)
  then show ?case using m unlinks_trans [OF u] e by auto
qed

text \<open>Changing only the bucket links keeps the chaining invariant.\<close>

lemma chain_inv_strip:
  assumes ok: "chain_inv target st code" and len: "length (ts_tbs st') = length (ts_tbs st)"
    and str: "\<And>j. strip (ts_tbs st' ! j) = strip (ts_tbs st ! j)"
  shows "chain_inv target st' code"
proof -
  have "jmp (ts_tbs st' ! j) = jmp (ts_tbs st ! j)" "invalid (ts_tbs st' ! j) = invalid (ts_tbs st ! j)"
    "jmp_insn_offset (ts_tbs st' ! j) = jmp_insn_offset (ts_tbs st ! j)"
    "jmp_reset_offset (ts_tbs st' ! j) = jmp_reset_offset (ts_tbs st ! j)"
    "host_offset (ts_tbs st' ! j) = host_offset (ts_tbs st ! j)" for j
    using strip_eqD [OF str] by blast+
  then show ?thesis by (intro links_frame [OF ok]) (simp_all add: same_layout_def len)
qed

lemma outgoing_dest:
  assumes "block_layout st code i" "(n, d) \<in> set (outgoing (ts_tbs st ! i))"
  shows "d < length (ts_tbs st)"
proof -
  have "n < 2" "dest st i n = Some d" using assms(2) by (auto simp: outgoing_def map_filter_def split: if_splits)
  then show ?thesis using assms(1) by (auto simp: block_layout_def Let_def)
qed

lemma clear_dest_ok:
  assumes ok: "chain_inv target st code" and i: "i < length (ts_tbs st)" "invalid (ts_tbs st ! i)"
  obtains st' where "ts_modify i (\<lambda>t. set_jmp_dest 1 None (set_jmp_dest 0 None t)) st = Some st'"
    "chain_inv target st' code" "unlinks st st'"
proof -
  obtain st' where m: "ts_modify i (\<lambda>t. set_jmp_dest 1 None (set_jmp_dest 0 None t)) st = Some st'"
    using modify_defined [OF i(1)] by blast
  note nth = nth_modify [OF m]
  have u: "unlinks st st'" by (rule modify_unlinks [OF m]) simp
  have two: "length (jmp_dest (jmp (ts_tbs st ! i))) = 2"
    using ok i by (simp add: links_ok_def layout_ok_def block_layout_def Let_def)
  have "dest st' s n = dest st s n \<or> invalid (ts_tbs st ! s) \<and> dest st' s n = None" if "n < 2" for s n
    using i that two by (auto simp: nth nth_list_update less_2_cases_iff)
  then have "chain_inv target st' code"
    using u by (intro links_frame [OF ok]) (auto simp: unlinks_def nth)
  then show thesis using that m u by blast
qed

context jump_patcher
begin

text \<open>Unlinking the edges of a block returns and leaves no valid jump to it.\<close>

lemma unlink_edges_ok:
  assumes ok: "chain_inv target st code" and i: "i < length (ts_tbs st)"
  obtains st' code' where "unlink_edges patch i (st, code) = Some (st', code')"
    "chain_inv target st' code'" "same_keys st st'" "length (ts_tbs st') = length (ts_tbs st)"
    "\<And>k. k < length (ts_tbs st) \<Longrightarrow> invalid (ts_tbs st' ! k) \<longleftrightarrow> k = i \<or> invalid (ts_tbs st ! k)"
proof -
  have "block_layout st code i" using ok i by (simp add: links_ok_def layout_ok_def)
  then have inc: "\<forall>(s, n) \<in> set (incoming st i). s < length (ts_tbs st) \<and> n < 2"
    by (simp add: block_layout_def Let_def)
  obtain st1 st2 where p0: "ts_modify i (\<lambda>t. t\<lparr>invalid := True\<rparr>) st = Some st1"
    "ts_modify i (set_jmp_list []) st1 = Some st2" "links_ok (Some (i, incoming st i)) target st2 code"
    "same_keys st st2" "same_layout st st2" "invalid (ts_tbs st2 ! i)"
    "\<And>k. k \<noteq> i \<Longrightarrow> ts_tbs st2 ! k = ts_tbs st ! k"
    by (rule links_open [OF ok i]) blast
  have len2: "length (ts_tbs st2) = length (ts_tbs st)" using p0(5) by (simp add: same_layout_def)
  obtain st3 code' where p1: "unlink_incoming patch (incoming st i) (st2, code) = Some (st3, code')"
    "links_ok (Some (i, [])) target st3 code'" "unlinks st2 st3"
    using unlink_incoming_ok [OF p0(3)] inc len2 by auto
  have len3: "length (ts_tbs st3) = length (ts_tbs st)" using unlinks_length [OF p1(3)] len2 by simp
  have ok3: "chain_inv target st3 code'" using p1(2) by (rule links_close)
  have v3: "invalid (ts_tbs st3 ! i)" using p1(3) p0(6) i len2 by (simp add: unlinks_def)
  obtain st4 where p2: "ts_modify i (\<lambda>t. set_jmp_dest 1 None (set_jmp_dest 0 None t)) st3 = Some st4"
    "chain_inv target st4 code'" "unlinks st3 st4"
    by (rule clear_dest_ok [OF ok3]) (use i len3 v3 in auto)
  have len4: "length (ts_tbs st4) = length (ts_tbs st)" using unlinks_length [OF p2(3)] len3 by simp
  have v4: "invalid (ts_tbs st4 ! i)" using p2(3) v3 i len3 by (simp add: unlinks_def)
  have "block_layout st3 code' i" using ok3 i len3 by (simp add: links_ok_def layout_ok_def)
  then have "\<forall>(n, d) \<in> set (outgoing (ts_tbs st3 ! i)). d < length (ts_tbs st4)"
    using outgoing_dest len3 len4 by fastforce
  then obtain st5 where p3: "unlink_outgoing i (outgoing (ts_tbs st3 ! i)) st4 = Some st5"
    "chain_inv target st5 code'" "unlinks st4 st5"
    using unlink_outgoing_ok [OF p2(2) _ v4] i len4 by auto
  have u: "unlinks st2 st5" using p1(3) p2(3) p3(3) unlinks_trans by blast
  have run: "unlink_edges patch i (st, code) = Some (st5, code')"
    using i p0(1,2) p1(1) p2(1) p3(1) len3 by (simp add: unlink_edges_def ts_get_def Let_def)
  have "same_keys st st5" by (rule same_keys_trans [OF p0(4)]) (use u in \<open>simp add: unlinks_def\<close>)
  moreover have "invalid (ts_tbs st5 ! k) \<longleftrightarrow> k = i \<or> invalid (ts_tbs st ! k)" if "k < length (ts_tbs st)" for k
    using u p0(6,7) that len2 by (cases "k = i") (auto simp: unlinks_def)
  ultimately show thesis
    using that [OF run p3(2)] unlinks_length [OF u] len2 by simp
qed

text \<open>Invalidation returns, keeps both invariants and takes the block out of the index.\<close>

lemma invalidate_ok:
  assumes ok: "chain_inv target st code" and inv: "hash_inv st" and i: "i < length (ts_tbs st)"
  obtains st' code' where "ts_invalidate patch i (st, code) = Some (st', code')"
    "chain_inv target st' code'" "hash_inv st'" "indexed st' = indexed st - {i}"
    "invalid (ts_tbs st' ! i)" "length (ts_tbs st') = length (ts_tbs st)"
    "\<And>k. k < length (ts_tbs st) \<Longrightarrow> k \<noteq> i \<Longrightarrow> invalid (ts_tbs st' ! k) = invalid (ts_tbs st ! k)"
    "\<And>k. k < length (ts_tbs st) \<Longrightarrow> tb_pc (ts_tbs st' ! k) = tb_pc (ts_tbs st ! k) \<and> tb_flags (ts_tbs st' ! k) = tb_flags (ts_tbs st ! k)"
    "\<And>b xs. bucket_ok st b xs \<Longrightarrow> b < TB_HASH_SIZE \<Longrightarrow> bucket_ok st' b (removeAll i xs)"
proof -
  obtain st5 code' where p: "unlink_edges patch i (st, code) = Some (st5, code')"
    "chain_inv target st5 code'" "same_keys st st5" "length (ts_tbs st5) = length (ts_tbs st)"
    "\<And>k. k < length (ts_tbs st) \<Longrightarrow> invalid (ts_tbs st5 ! k) \<longleftrightarrow> k = i \<or> invalid (ts_tbs st ! k)"
    by (rule unlink_edges_ok [OF ok i]) blast
  have inv5: "hash_inv st5" by (rule same_keys_inv [OF p(3) inv])
  have k5: "tb_pc (ts_tbs st5 ! k) = tb_pc (ts_tbs st ! k)" "tb_flags (ts_tbs st5 ! k) = tb_flags (ts_tbs st ! k)"
    if "k < length (ts_tbs st)" for k using p(3) that by (simp_all add: same_keys_def)
  let ?b = "tb_hash (tb_pc (ts_tbs st5 ! i)) (tb_flags (ts_tbs st5 ! i))"
  obtain st' where p4: "chain_remove (ts_hash st5 ! ?b) None i ?b st5 = Some st'"
    "length (ts_tbs st') = length (ts_tbs st5)" "length (ts_hash st') = length (ts_hash st5)"
    "\<And>j. strip (ts_tbs st' ! j) = strip (ts_tbs st5 ! j)"
    "\<And>c xs. bucket_ok st5 c xs \<Longrightarrow> c < TB_HASH_SIZE \<Longrightarrow> bucket_ok st' c (removeAll i xs)"
    by (rule chain_remove_buckets [OF inv5, of i, unfolded key_hash_def]) blast
  have run: "ts_invalidate patch i (st, code) = Some (st', code')"
    using i p(1,4) p4(1) inv5 by (simp add: ts_invalidate_def ts_get_def Let_def hash_inv_def)
  have ok': "chain_inv target st' code'" by (rule chain_inv_strip [OF p(2) p4(2,4)])
  note f = strip_eqD [OF p4(4)]
  note hash_inv_remove [OF inv5 p4(2-5)]
  moreover have "indexed st5 = indexed st" by (rule same_keys_indexed [OF p(3) inv])
  moreover have "bucket_ok st' c (removeAll i xs)" if "bucket_ok st c xs" "c < TB_HASH_SIZE" for c xs
    using p4(5) [OF same_keys_bucket [OF p(3) that(1)] that(2)] .
  ultimately show thesis
    using that [OF run ok'] i p4(2) p(4,5) f(1-3) k5 by simp
qed

end

end
