(* ===== verification/X86_Emitter.thy ===== *)
theory X86_Emitter
  imports Backend Types
begin

text \<open>
  The x86-64 instruction encoder (\<open>backend/src/x86_64/emitter.rs\<close>) and register numbering
  (\<open>backend/src/x86_64/regs.rs\<close>). Each \<open>emit_*\<close> function takes the code buffer as its
  last argument and is \<open>None\<close> where the source panics; the opcode constants carry the
  source's prefix flags in their upper bits.

  The lemmas show that the encoder only appends bytes, that the ModR/M, SIB and displacement
  bytes decode back to the operands under the encoding rules of the architecture (an
  independent decoder, written from those rules), and that the patchable jump of
  \<open>goto_tb\<close> meets the contract \<open>jump_patcher\<close> of block chaining.
\<close>

section \<open>Registers\<close>

datatype Reg = Rax | Rcx | Rdx | Rbx | Rsp | Rbp | Rsi | Rdi | R8 | R9 | R10 | R11 | R12 | R13 | R14 | R15

fun reg_u8 :: "Reg \<Rightarrow> u8" where
  "reg_u8 Rax = 0" | "reg_u8 Rcx = 1" | "reg_u8 Rdx = 2" | "reg_u8 Rbx = 3"
| "reg_u8 Rsp = 4" | "reg_u8 Rbp = 5" | "reg_u8 Rsi = 6" | "reg_u8 Rdi = 7"
| "reg_u8 R8 = 8" | "reg_u8 R9 = 9" | "reg_u8 R10 = 10" | "reg_u8 R11 = 11"
| "reg_u8 R12 = 12" | "reg_u8 R13 = 13" | "reg_u8 R14 = 14" | "reg_u8 R15 = 15"

definition REGS :: "Reg list" where
  "REGS = [Rax, Rcx, Rdx, Rbx, Rsp, Rbp, Rsi, Rdi, R8, R9, R10, R11, R12, R13, R14, R15]"

definition low3 :: "Reg \<Rightarrow> u8" where
  "low3 r = reg_u8 r AND 7"

definition needs_rex :: "Reg \<Rightarrow> bool" where
  "needs_rex r = (reg_u8 r \<ge> 8)"

definition reg_from_u8 :: "u8 \<Rightarrow> Reg option" where
  "reg_from_u8 v = do { assert_that (v < 16); Some (REGS ! unat v) }"

definition TCG_AREG0 :: Reg where "TCG_AREG0 = Rbp"
definition TCG_GUEST_BASE_REG :: Reg where "TCG_GUEST_BASE_REG = R14"

definition CALLEE_SAVED :: "Reg list" where
  "CALLEE_SAVED = [Rbp, Rbx, R12, R13, R14, R15]"

definition CALL_ARG_REGS :: "Reg list" where
  "CALL_ARG_REGS = [Rdi, Rsi, Rdx, Rcx, R8, R9]"

definition RESERVED_REGS :: RegSet where
  "RESERVED_REGS = from_raw (push_bit (unat (reg_u8 Rsp)) 1 OR push_bit (unat (reg_u8 Rbp)) 1 OR
     push_bit (unat (reg_u8 R14)) 1)"

definition STACK_ALIGN :: nat where "STACK_ALIGN = 16"
definition STATIC_CALL_ARGS_SIZE :: nat where "STATIC_CALL_ARGS_SIZE = 128"
definition CPU_TEMP_BUF_NLONGS :: nat where "CPU_TEMP_BUF_NLONGS = 128"

definition PUSH_SIZE :: nat where
  "PUSH_SIZE = (1 + length CALLEE_SAVED) * 8"

definition FRAME_SIZE :: nat where
  "FRAME_SIZE = (let frame = PUSH_SIZE + STATIC_CALL_ARGS_SIZE + CPU_TEMP_BUF_NLONGS * 8
     in (frame + STACK_ALIGN - 1) div STACK_ALIGN * STACK_ALIGN)"

definition STACK_ADDEND :: nat where
  "STACK_ADDEND = FRAME_SIZE - PUSH_SIZE"

definition ALLOCATABLE_REGS :: RegSet where
  "ALLOCATABLE_REGS = from_raw (0xFFFF AND NOT (push_bit (unat (reg_u8 Rsp)) 1 OR
     push_bit (unat (reg_u8 Rbp)) 1 OR push_bit (unat (reg_u8 R14)) 1))"

section \<open>Opcode constants and sub-operations\<close>

definition P_EXT :: u32 where "P_EXT = 0x100"
definition P_EXT38 :: u32 where "P_EXT38 = 0x200"
definition P_DATA16 :: u32 where "P_DATA16 = 0x400"
definition P_REXW :: u32 where "P_REXW = 0x1000"
definition P_REXB_R :: u32 where "P_REXB_R = 0x2000"
definition P_REXB_RM :: u32 where "P_REXB_RM = 0x4000"
definition P_EXT3A :: u32 where "P_EXT3A = 0x10000"
definition P_SIMDF3 :: u32 where "P_SIMDF3 = 0x20000"
definition P_SIMDF2 :: u32 where "P_SIMDF2 = 0x40000"
definition OPC_ARITH_EvIb :: u32 where "OPC_ARITH_EvIb = 0x83"
definition OPC_ARITH_EvIz :: u32 where "OPC_ARITH_EvIz = 0x81"
definition OPC_ARITH_GvEv :: u32 where "OPC_ARITH_GvEv = 0x03"
definition OPC_ARITH_EvGv :: u32 where "OPC_ARITH_EvGv = 0x01"
definition OPC_SHIFT_1 :: u32 where "OPC_SHIFT_1 = 0xD1"
definition OPC_SHIFT_Ib :: u32 where "OPC_SHIFT_Ib = 0xC1"
definition OPC_SHIFT_cl :: u32 where "OPC_SHIFT_cl = 0xD3"
definition OPC_MOVB_EvGv :: u32 where "OPC_MOVB_EvGv = 0x88"
definition OPC_MOVL_EvGv :: u32 where "OPC_MOVL_EvGv = 0x89"
definition OPC_MOVL_GvEv :: u32 where "OPC_MOVL_GvEv = 0x8B"
definition OPC_MOVB_EvIz :: u32 where "OPC_MOVB_EvIz = 0xC6"
definition OPC_MOVL_EvIz :: u32 where "OPC_MOVL_EvIz = 0xC7"
definition OPC_MOVL_Iv :: u32 where "OPC_MOVL_Iv = 0xB8"
definition OPC_MOVZBL :: u32 where "OPC_MOVZBL = 0xB6 OR P_EXT"
definition OPC_MOVZWL :: u32 where "OPC_MOVZWL = 0xB7 OR P_EXT"
definition OPC_MOVSBL :: u32 where "OPC_MOVSBL = 0xBE OR P_EXT"
definition OPC_MOVSWL :: u32 where "OPC_MOVSWL = 0xBF OR P_EXT"
definition OPC_MOVSLQ :: u32 where "OPC_MOVSLQ = 0x63 OR P_REXW"
definition OPC_JCC_long :: u32 where "OPC_JCC_long = 0x80 OR P_EXT"
definition OPC_JMP_short :: u32 where "OPC_JMP_short = 0xEB"
definition OPC_JMP_long :: u32 where "OPC_JMP_long = 0xE9"
definition OPC_CALL_Jz :: u32 where "OPC_CALL_Jz = 0xE8"
definition OPC_BSF :: u32 where "OPC_BSF = 0xBC OR P_EXT"
definition OPC_BSR :: u32 where "OPC_BSR = 0xBD OR P_EXT"
definition OPC_LZCNT :: u32 where "OPC_LZCNT = 0xBD OR P_EXT OR P_SIMDF3"
definition OPC_TZCNT :: u32 where "OPC_TZCNT = 0xBC OR P_EXT OR P_SIMDF3"
definition OPC_POPCNT :: u32 where "OPC_POPCNT = 0xB8 OR P_EXT OR P_SIMDF3"
definition OPC_BSWAP :: u32 where "OPC_BSWAP = 0xC8 OR P_EXT"
definition OPC_ANDN :: u32 where "OPC_ANDN = 0xF2 OR P_EXT38"
definition OPC_CMOVCC :: u32 where "OPC_CMOVCC = 0x40 OR P_EXT"
definition OPC_SETCC :: u32 where "OPC_SETCC = 0x90 OR P_EXT OR P_REXB_RM"
definition OPC_TESTB :: u32 where "OPC_TESTB = 0x84"
definition OPC_TESTL :: u32 where "OPC_TESTL = 0x85"
definition OPC_GRP3_Ev :: u32 where "OPC_GRP3_Ev = 0xF7"
definition OPC_GRP3_Eb :: u32 where "OPC_GRP3_Eb = 0xF6"
definition OPC_GRP5 :: u32 where "OPC_GRP5 = 0xFF"
definition OPC_GRPBT :: u32 where "OPC_GRPBT = 0xBA OR P_EXT"
definition OPC_IMUL_GvEv :: u32 where "OPC_IMUL_GvEv = 0xAF OR P_EXT"
definition OPC_IMUL_GvEvIb :: u32 where "OPC_IMUL_GvEvIb = 0x6B"
definition OPC_IMUL_GvEvIz :: u32 where "OPC_IMUL_GvEvIz = 0x69"
definition OPC_LEA :: u32 where "OPC_LEA = 0x8D"
definition OPC_XCHG_ax_r32 :: u32 where "OPC_XCHG_ax_r32 = 0x90"
definition OPC_XCHG_EvGv :: u32 where "OPC_XCHG_EvGv = 0x87"
definition OPC_PUSH_r32 :: u32 where "OPC_PUSH_r32 = 0x50"
definition OPC_POP_r32 :: u32 where "OPC_POP_r32 = 0x58"
definition OPC_RET :: u32 where "OPC_RET = 0xC3"
definition OPC_UD2 :: u32 where "OPC_UD2 = 0x0B OR P_EXT"
definition OPC_PUSH_Iz :: u32 where "OPC_PUSH_Iz = 0x68"
definition OPC_PUSH_Ib :: u32 where "OPC_PUSH_Ib = 0x6A"
definition OPC_SHLD_Ib :: u32 where "OPC_SHLD_Ib = 0xA4 OR P_EXT"
definition OPC_SHRD_Ib :: u32 where "OPC_SHRD_Ib = 0xAC OR P_EXT"

lemmas opc_defs [model_defs] =
  P_EXT_def P_EXT38_def P_DATA16_def P_REXW_def P_REXB_R_def P_REXB_RM_def P_EXT3A_def
  P_SIMDF3_def P_SIMDF2_def OPC_ARITH_EvIb_def OPC_ARITH_EvIz_def OPC_ARITH_GvEv_def
  OPC_ARITH_EvGv_def OPC_SHIFT_1_def OPC_SHIFT_Ib_def OPC_SHIFT_cl_def OPC_MOVB_EvGv_def
  OPC_MOVL_EvGv_def OPC_MOVL_GvEv_def OPC_MOVB_EvIz_def OPC_MOVL_EvIz_def OPC_MOVL_Iv_def
  OPC_MOVZBL_def OPC_MOVZWL_def OPC_MOVSBL_def OPC_MOVSWL_def OPC_MOVSLQ_def OPC_JCC_long_def
  OPC_JMP_short_def OPC_JMP_long_def OPC_CALL_Jz_def OPC_BSF_def OPC_BSR_def OPC_LZCNT_def
  OPC_TZCNT_def OPC_POPCNT_def OPC_BSWAP_def OPC_ANDN_def OPC_CMOVCC_def OPC_SETCC_def
  OPC_TESTB_def OPC_TESTL_def OPC_GRP3_Ev_def OPC_GRP3_Eb_def OPC_GRP5_def OPC_GRPBT_def
  OPC_IMUL_GvEv_def OPC_IMUL_GvEvIb_def OPC_IMUL_GvEvIz_def OPC_LEA_def OPC_XCHG_ax_r32_def
  OPC_XCHG_EvGv_def OPC_PUSH_r32_def OPC_POP_r32_def OPC_RET_def OPC_UD2_def OPC_PUSH_Iz_def
  OPC_PUSH_Ib_def OPC_SHLD_Ib_def OPC_SHRD_Ib_def

type_synonym i32 = "32 word"
type_synonym code_emitter = "CodeBuffer \<Rightarrow> CodeBuffer option"

datatype X86Arith = XAdd | XOr | XAdc | XSbb | XAnd | XSub | XXor | XCmp

fun x86_arith_u8 :: "X86Arith \<Rightarrow> u8" where
  "x86_arith_u8 XAdd = 0" | "x86_arith_u8 XOr = 1" | "x86_arith_u8 XAdc = 2" | "x86_arith_u8 XSbb = 3"
| "x86_arith_u8 XAnd = 4" | "x86_arith_u8 XSub = 5" | "x86_arith_u8 XXor = 6" | "x86_arith_u8 XCmp = 7"

datatype X86Shift = XRol | XRor | XShl | XShr | XSar

fun x86_shift_u8 :: "X86Shift \<Rightarrow> u8" where
  "x86_shift_u8 XRol = 0" | "x86_shift_u8 XRor = 1" | "x86_shift_u8 XShl = 4" | "x86_shift_u8 XShr = 5"
| "x86_shift_u8 XSar = 7"

datatype Ext3Op = E3Not | E3Neg | E3Mul | E3Imul | E3Div | E3Idiv

fun ext3_u8 :: "Ext3Op \<Rightarrow> u8" where
  "ext3_u8 E3Not = 2" | "ext3_u8 E3Neg = 3" | "ext3_u8 E3Mul = 4" | "ext3_u8 E3Imul = 5"
| "ext3_u8 E3Div = 6" | "ext3_u8 E3Idiv = 7"

datatype Ext5Op = IncEv | DecEv | CallN | JmpN

fun ext5_u8 :: "Ext5Op \<Rightarrow> u8" where
  "ext5_u8 IncEv = 0" | "ext5_u8 DecEv = 1" | "ext5_u8 CallN = 2" | "ext5_u8 JmpN = 4"

datatype GrpBtOp = Bt | Bts | Btr | Btc

fun grpbt_u8 :: "GrpBtOp \<Rightarrow> u8" where
  "grpbt_u8 Bt = 4" | "grpbt_u8 Bts = 5" | "grpbt_u8 Btr = 6" | "grpbt_u8 Btc = 7"

datatype X86Cond = Jo | Jno | Jb | Jae | Je | Jne | Jbe | Ja | Js | Jns | Jp | Jnp | Jl | Jge | Jle | Jg

fun x86cond_u8 :: "X86Cond \<Rightarrow> u8" where
  "x86cond_u8 Jo = 0" | "x86cond_u8 Jno = 1" | "x86cond_u8 Jb = 2" | "x86cond_u8 Jae = 3"
| "x86cond_u8 Je = 4" | "x86cond_u8 Jne = 5" | "x86cond_u8 Jbe = 6" | "x86cond_u8 Ja = 7"
| "x86cond_u8 Js = 8" | "x86cond_u8 Jns = 9" | "x86cond_u8 Jp = 10" | "x86cond_u8 Jnp = 11"
| "x86cond_u8 Jl = 12" | "x86cond_u8 Jge = 13" | "x86cond_u8 Jle = 14" | "x86cond_u8 Jg = 15"

definition X86CONDS :: "X86Cond list" where
  "X86CONDS = [Jo, Jno, Jb, Jae, Je, Jne, Jbe, Ja, Js, Jns, Jp, Jnp, Jl, Jge, Jle, Jg]"

fun from_tcg :: "Cond \<Rightarrow> X86Cond" where
  "from_tcg Eq = Je" | "from_tcg TstEq = Je" | "from_tcg Ne = Jne" | "from_tcg TstNe = Jne"
| "from_tcg Lt = Jl" | "from_tcg Ge = Jge" | "from_tcg Le = Jle" | "from_tcg Gt = Jg"
| "from_tcg Ltu = Jb" | "from_tcg Geu = Jae" | "from_tcg Leu = Jbe" | "from_tcg Gtu = Ja"
| "from_tcg Always = Je" | "from_tcg Never = Jne"

definition x86cond_invert :: "X86Cond \<Rightarrow> X86Cond" where
  "x86cond_invert c = X86CONDS ! unat (x86cond_u8 c XOR 1)"

section \<open>Core encoding\<close>

definition rexw_flag :: "bool \<Rightarrow> u32" where
  "rexw_flag rexw = (if rexw then P_REXW else 0)"

definition is_i8 :: "i32 \<Rightarrow> bool" where
  "is_i8 v = (- 128 \<le> sint v \<and> sint v \<le> 127)"

text \<open>\<open>if cond { emit }\<close>: the statement that may emit nothing.\<close>

definition emit_if :: "bool \<Rightarrow> code_emitter \<Rightarrow> code_emitter" where
  "emit_if c f b = (if c then f b else Some b)"

definition emit_opc :: "u32 \<Rightarrow> u8 \<Rightarrow> u8 \<Rightarrow> code_emitter" where
  "emit_opc opc r rm b = do {
     let rex = (if opc AND P_REXW \<noteq> 0 then 0x08 else 0);
     let rex = (if r \<ge> 8 then rex OR 0x04 else rex);
     let rex = (if rm \<ge> 8 then rex OR 0x01 else rex);
     let rex = (if opc AND P_REXB_R \<noteq> 0 \<and> r \<ge> 4 \<and> rex = 0 then 0x40 else rex);
     let rex = (if opc AND P_REXB_RM \<noteq> 0 \<and> rm \<ge> 4 \<and> rex = 0 then 0x40 else rex);
     b \<leftarrow> emit_if (opc AND P_DATA16 \<noteq> 0) (emit_u8 0x66) b;
     b \<leftarrow> (if opc AND P_SIMDF3 \<noteq> 0 then emit_u8 0xF3 b
          else emit_if (opc AND P_SIMDF2 \<noteq> 0) (emit_u8 0xF2) b);
     b \<leftarrow> emit_if (rex \<noteq> 0) (emit_u8 (0x40 OR rex)) b;
     b \<leftarrow> (if opc AND (P_EXT OR P_EXT38 OR P_EXT3A) \<noteq> 0 then do {
            b \<leftarrow> emit_u8 0x0F b;
            if opc AND P_EXT38 \<noteq> 0 then emit_u8 0x38 b
            else emit_if (opc AND P_EXT3A \<noteq> 0) (emit_u8 0x3A) b }
          else Some b);
     emit_u8 (ucast opc) b }"

definition emit_opc_3 :: "u32 \<Rightarrow> u8 \<Rightarrow> u8 \<Rightarrow> u8 \<Rightarrow> code_emitter" where
  "emit_opc_3 opc r rm idx b = do {
     let rex = (if opc AND P_REXW \<noteq> 0 then 0x08 else 0);
     let rex = (if r \<ge> 8 then rex OR 0x04 else rex);
     let rex = (if idx \<ge> 8 then rex OR 0x02 else rex);
     let rex = (if rm \<ge> 8 then rex OR 0x01 else rex);
     let rex = (if opc AND P_REXB_R \<noteq> 0 \<and> r \<ge> 4 \<and> rex = 0 then 0x40 else rex);
     let rex = (if opc AND P_REXB_RM \<noteq> 0 \<and> rm \<ge> 4 \<and> rex = 0 then 0x40 else rex);
     b \<leftarrow> emit_if (opc AND P_DATA16 \<noteq> 0) (emit_u8 0x66) b;
     b \<leftarrow> (if opc AND P_SIMDF3 \<noteq> 0 then emit_u8 0xF3 b
          else emit_if (opc AND P_SIMDF2 \<noteq> 0) (emit_u8 0xF2) b);
     b \<leftarrow> emit_if (rex \<noteq> 0) (emit_u8 (0x40 OR rex)) b;
     b \<leftarrow> (if opc AND (P_EXT OR P_EXT38 OR P_EXT3A) \<noteq> 0 then do {
            b \<leftarrow> emit_u8 0x0F b;
            if opc AND P_EXT38 \<noteq> 0 then emit_u8 0x38 b
            else emit_if (opc AND P_EXT3A \<noteq> 0) (emit_u8 0x3A) b }
          else Some b);
     emit_u8 (ucast opc) b }"

definition emit_modrm :: "u32 \<Rightarrow> Reg \<Rightarrow> Reg \<Rightarrow> code_emitter" where
  "emit_modrm opc r rm b = do {
     b \<leftarrow> emit_opc opc (reg_u8 r) (reg_u8 rm) b;
     emit_u8 (0xC0 OR push_bit 3 (low3 r) OR low3 rm) b }"

definition emit_modrm_ext :: "u32 \<Rightarrow> u8 \<Rightarrow> Reg \<Rightarrow> code_emitter" where
  "emit_modrm_ext opc ext rm b = do {
     b \<leftarrow> emit_opc opc ext (reg_u8 rm) b;
     emit_u8 (0xC0 OR push_bit 3 ext OR low3 rm) b }"

definition emit_modrm_offset :: "u32 \<Rightarrow> Reg \<Rightarrow> Reg \<Rightarrow> i32 \<Rightarrow> code_emitter" where
  "emit_modrm_offset opc r base offset b = do {
     b \<leftarrow> emit_opc opc (reg_u8 r) (reg_u8 base) b;
     let r3 = low3 r;
     let b3 = low3 base;
     if offset = 0 \<and> b3 \<noteq> 5 then
       if b3 = 4 then do { b \<leftarrow> emit_u8 (push_bit 3 r3 OR 0x04) b; emit_u8 0x24 b }
       else emit_u8 (push_bit 3 r3 OR b3) b
     else if is_i8 offset then do {
       b \<leftarrow> (if b3 = 4 then do { b \<leftarrow> emit_u8 (0x44 OR push_bit 3 r3) b; emit_u8 0x24 b }
            else emit_u8 (0x40 OR push_bit 3 r3 OR b3) b);
       emit_u8 (ucast offset) b }
     else do {
       b \<leftarrow> (if b3 = 4 then do { b \<leftarrow> emit_u8 (0x84 OR push_bit 3 r3) b; emit_u8 0x24 b }
            else emit_u8 (0x80 OR push_bit 3 r3 OR b3) b);
       emit_u32 offset b } }"

definition emit_modrm_sib :: "u32 \<Rightarrow> Reg \<Rightarrow> Reg \<Rightarrow> Reg \<Rightarrow> u8 \<Rightarrow> i32 \<Rightarrow> code_emitter" where
  "emit_modrm_sib opc r base idx shift offset b = do {
     assert_that (shift \<le> 3);
     assert_that (idx \<noteq> Rsp);
     b \<leftarrow> emit_opc_3 opc (reg_u8 r) (reg_u8 base) (reg_u8 idx) b;
     let r3 = low3 r;
     let b3 = low3 base;
     let x3 = low3 idx;
     let sib = push_bit 6 shift OR push_bit 3 x3 OR b3;
     if offset = 0 \<and> b3 \<noteq> 5 then do {
       b \<leftarrow> emit_u8 (push_bit 3 r3 OR 0x04) b;
       emit_u8 sib b }
     else if is_i8 offset then do {
       b \<leftarrow> emit_u8 (0x44 OR push_bit 3 r3) b;
       b \<leftarrow> emit_u8 sib b;
       emit_u8 (ucast offset) b }
     else do {
       b \<leftarrow> emit_u8 (0x84 OR push_bit 3 r3) b;
       b \<leftarrow> emit_u8 sib b;
       emit_u32 offset b } }"

definition emit_modrm_ext_offset :: "u32 \<Rightarrow> u8 \<Rightarrow> Reg \<Rightarrow> i32 \<Rightarrow> code_emitter" where
  "emit_modrm_ext_offset opc ext base offset b = do {
     b \<leftarrow> emit_opc opc ext (reg_u8 base) b;
     let b3 = low3 base;
     if offset = 0 \<and> b3 \<noteq> 5 then
       if b3 = 4 then do { b \<leftarrow> emit_u8 (push_bit 3 ext OR 0x04) b; emit_u8 0x24 b }
       else emit_u8 (push_bit 3 ext OR b3) b
     else if is_i8 offset then do {
       b \<leftarrow> (if b3 = 4 then do { b \<leftarrow> emit_u8 (0x44 OR push_bit 3 ext) b; emit_u8 0x24 b }
            else emit_u8 (0x40 OR push_bit 3 ext OR b3) b);
       emit_u8 (ucast offset) b }
     else do {
       b \<leftarrow> (if b3 = 4 then do { b \<leftarrow> emit_u8 (0x84 OR push_bit 3 ext) b; emit_u8 0x24 b }
            else emit_u8 (0x80 OR push_bit 3 ext OR b3) b);
       emit_u32 offset b } }"

section \<open>Arithmetic, shifts, moves\<close>

definition emit_arith_rr :: "X86Arith \<Rightarrow> bool \<Rightarrow> Reg \<Rightarrow> Reg \<Rightarrow> code_emitter" where
  "emit_arith_rr op rexw dst src b =
     (let opc = (OPC_ARITH_GvEv + push_bit 3 (ucast (x86_arith_u8 op))) OR rexw_flag rexw
      in emit_modrm opc dst src b)"

definition emit_arith_ri :: "X86Arith \<Rightarrow> bool \<Rightarrow> Reg \<Rightarrow> i32 \<Rightarrow> code_emitter" where
  "emit_arith_ri op rexw dst imm b =
     (let w = rexw_flag rexw
      in if is_i8 imm then do {
           b \<leftarrow> emit_modrm_ext (OPC_ARITH_EvIb OR w) (x86_arith_u8 op) dst b;
           emit_u8 (ucast imm) b }
         else do {
           b \<leftarrow> emit_modrm_ext (OPC_ARITH_EvIz OR w) (x86_arith_u8 op) dst b;
           emit_u32 imm b })"

definition emit_arith_mr :: "X86Arith \<Rightarrow> bool \<Rightarrow> Reg \<Rightarrow> i32 \<Rightarrow> Reg \<Rightarrow> code_emitter" where
  "emit_arith_mr op rexw base offset src b =
     (let opc = (OPC_ARITH_EvGv + push_bit 3 (ucast (x86_arith_u8 op))) OR rexw_flag rexw
      in emit_modrm_offset opc src base offset b)"

definition emit_arith_rm :: "X86Arith \<Rightarrow> bool \<Rightarrow> Reg \<Rightarrow> Reg \<Rightarrow> i32 \<Rightarrow> code_emitter" where
  "emit_arith_rm op rexw dst base offset b =
     (let opc = (OPC_ARITH_GvEv + push_bit 3 (ucast (x86_arith_u8 op))) OR rexw_flag rexw
      in emit_modrm_offset opc dst base offset b)"

definition emit_neg :: "bool \<Rightarrow> Reg \<Rightarrow> code_emitter" where
  "emit_neg rexw r = emit_modrm_ext (OPC_GRP3_Ev OR rexw_flag rexw) (ext3_u8 E3Neg) r"

definition emit_not :: "bool \<Rightarrow> Reg \<Rightarrow> code_emitter" where
  "emit_not rexw r = emit_modrm_ext (OPC_GRP3_Ev OR rexw_flag rexw) (ext3_u8 E3Not) r"

definition emit_shift_ri :: "X86Shift \<Rightarrow> bool \<Rightarrow> Reg \<Rightarrow> u8 \<Rightarrow> code_emitter" where
  "emit_shift_ri op rexw dst imm b =
     (let w = rexw_flag rexw
      in if imm = 1 then emit_modrm_ext (OPC_SHIFT_1 OR w) (x86_shift_u8 op) dst b
         else do {
           b \<leftarrow> emit_modrm_ext (OPC_SHIFT_Ib OR w) (x86_shift_u8 op) dst b;
           emit_u8 imm b })"

definition emit_shift_cl :: "X86Shift \<Rightarrow> bool \<Rightarrow> Reg \<Rightarrow> code_emitter" where
  "emit_shift_cl op rexw dst = emit_modrm_ext (OPC_SHIFT_cl OR rexw_flag rexw) (x86_shift_u8 op) dst"

definition emit_mov_rr :: "bool \<Rightarrow> Reg \<Rightarrow> Reg \<Rightarrow> code_emitter" where
  "emit_mov_rr rexw dst src = emit_modrm (OPC_MOVL_EvGv OR rexw_flag rexw) src dst"

definition emit_mov_ri :: "bool \<Rightarrow> Reg \<Rightarrow> u64 \<Rightarrow> code_emitter" where
  "emit_mov_ri rexw r v b =
     (if v = 0 then emit_modrm 0x31 r r b
      else if \<not> rexw \<or> v \<le> 0xFFFFFFFF then do {
        b \<leftarrow> emit_opc (OPC_MOVL_Iv + ucast (low3 r)) 0 (reg_u8 r) b;
        emit_u32 (ucast v) b }
      else if - (2 ^ 31) \<le> sint v \<and> sint v \<le> 2 ^ 31 - 1 then do {
        b \<leftarrow> emit_modrm_ext (OPC_MOVL_EvIz OR P_REXW) 0 r b;
        emit_u32 (ucast v) b }
      else do {
        b \<leftarrow> emit_opc ((OPC_MOVL_Iv + ucast (low3 r)) OR P_REXW) 0 (reg_u8 r) b;
        emit_u64 v b })"

definition emit_movzx :: "u32 \<Rightarrow> Reg \<Rightarrow> Reg \<Rightarrow> code_emitter" where
  "emit_movzx opc dst src = emit_modrm opc dst src"

definition emit_movsx :: "u32 \<Rightarrow> Reg \<Rightarrow> Reg \<Rightarrow> code_emitter" where
  "emit_movsx opc dst src = emit_modrm opc dst src"

definition emit_bswap :: "bool \<Rightarrow> Reg \<Rightarrow> code_emitter" where
  "emit_bswap rexw r = emit_opc ((OPC_BSWAP + ucast (low3 r)) OR rexw_flag rexw) 0 (reg_u8 r)"

section \<open>Memory operations\<close>

definition emit_load :: "bool \<Rightarrow> Reg \<Rightarrow> Reg \<Rightarrow> i32 \<Rightarrow> code_emitter" where
  "emit_load rexw dst base offset = emit_modrm_offset (OPC_MOVL_GvEv OR rexw_flag rexw) dst base offset"

definition emit_store :: "bool \<Rightarrow> Reg \<Rightarrow> Reg \<Rightarrow> i32 \<Rightarrow> code_emitter" where
  "emit_store rexw src base offset = emit_modrm_offset (OPC_MOVL_EvGv OR rexw_flag rexw) src base offset"

definition emit_store_byte :: "Reg \<Rightarrow> Reg \<Rightarrow> i32 \<Rightarrow> code_emitter" where
  "emit_store_byte src base offset = emit_modrm_offset (OPC_MOVB_EvGv OR P_REXB_R) src base offset"

definition emit_store_word :: "Reg \<Rightarrow> Reg \<Rightarrow> i32 \<Rightarrow> code_emitter" where
  "emit_store_word src base offset = emit_modrm_offset (P_DATA16 OR OPC_MOVL_EvGv) src base offset"

definition emit_store_imm :: "bool \<Rightarrow> Reg \<Rightarrow> i32 \<Rightarrow> i32 \<Rightarrow> code_emitter" where
  "emit_store_imm rexw base offset imm b = do {
     b \<leftarrow> emit_modrm_ext_offset (OPC_MOVL_EvIz OR rexw_flag rexw) 0 base offset b;
     emit_u32 imm b }"

definition emit_lea :: "bool \<Rightarrow> Reg \<Rightarrow> Reg \<Rightarrow> i32 \<Rightarrow> code_emitter" where
  "emit_lea rexw dst base offset = emit_modrm_offset (OPC_LEA OR rexw_flag rexw) dst base offset"

definition emit_lea_sib :: "bool \<Rightarrow> Reg \<Rightarrow> Reg \<Rightarrow> Reg \<Rightarrow> u8 \<Rightarrow> i32 \<Rightarrow> code_emitter" where
  "emit_lea_sib rexw dst base idx shift offset =
     emit_modrm_sib (OPC_LEA OR rexw_flag rexw) dst base idx shift offset"

definition emit_load_sib :: "bool \<Rightarrow> Reg \<Rightarrow> Reg \<Rightarrow> Reg \<Rightarrow> u8 \<Rightarrow> i32 \<Rightarrow> code_emitter" where
  "emit_load_sib rexw dst base idx shift offset =
     emit_modrm_sib (OPC_MOVL_GvEv OR rexw_flag rexw) dst base idx shift offset"

definition emit_store_sib :: "bool \<Rightarrow> Reg \<Rightarrow> Reg \<Rightarrow> Reg \<Rightarrow> u8 \<Rightarrow> i32 \<Rightarrow> code_emitter" where
  "emit_store_sib rexw src base idx shift offset =
     emit_modrm_sib (OPC_MOVL_EvGv OR rexw_flag rexw) src base idx shift offset"

definition emit_store_byte_sib :: "Reg \<Rightarrow> Reg \<Rightarrow> Reg \<Rightarrow> code_emitter" where
  "emit_store_byte_sib src base idx = emit_modrm_sib (OPC_MOVB_EvGv OR P_REXB_R) src base idx 0 0"

definition emit_store_word_sib :: "Reg \<Rightarrow> Reg \<Rightarrow> Reg \<Rightarrow> code_emitter" where
  "emit_store_word_sib src base idx = emit_modrm_sib (P_DATA16 OR OPC_MOVL_EvGv) src base idx 0 0"

definition emit_load_zx_sib :: "u32 \<Rightarrow> Reg \<Rightarrow> Reg \<Rightarrow> Reg \<Rightarrow> code_emitter" where
  "emit_load_zx_sib opc dst base idx = emit_modrm_sib opc dst base idx 0 0"

definition emit_load_sx_sib :: "u32 \<Rightarrow> Reg \<Rightarrow> Reg \<Rightarrow> Reg \<Rightarrow> code_emitter" where
  "emit_load_sx_sib opc dst base idx = emit_modrm_sib opc dst base idx 0 0"

definition emit_load_zx :: "u32 \<Rightarrow> Reg \<Rightarrow> Reg \<Rightarrow> i32 \<Rightarrow> code_emitter" where
  "emit_load_zx opc dst base offset = emit_modrm_offset opc dst base offset"

definition emit_load_sx :: "u32 \<Rightarrow> Reg \<Rightarrow> Reg \<Rightarrow> i32 \<Rightarrow> code_emitter" where
  "emit_load_sx opc dst base offset = emit_modrm_offset opc dst base offset"

section \<open>Multiply, divide, bit operations\<close>

definition emit_mul :: "bool \<Rightarrow> Reg \<Rightarrow> code_emitter" where
  "emit_mul rexw r = emit_modrm_ext (OPC_GRP3_Ev OR rexw_flag rexw) (ext3_u8 E3Mul) r"

definition emit_imul1 :: "bool \<Rightarrow> Reg \<Rightarrow> code_emitter" where
  "emit_imul1 rexw r = emit_modrm_ext (OPC_GRP3_Ev OR rexw_flag rexw) (ext3_u8 E3Imul) r"

definition emit_imul_rr :: "bool \<Rightarrow> Reg \<Rightarrow> Reg \<Rightarrow> code_emitter" where
  "emit_imul_rr rexw dst src = emit_modrm (OPC_IMUL_GvEv OR rexw_flag rexw) dst src"

definition emit_imul_ri :: "bool \<Rightarrow> Reg \<Rightarrow> Reg \<Rightarrow> i32 \<Rightarrow> code_emitter" where
  "emit_imul_ri rexw dst src imm b =
     (let w = rexw_flag rexw
      in if is_i8 imm then do {
           b \<leftarrow> emit_modrm (OPC_IMUL_GvEvIb OR w) dst src b;
           emit_u8 (ucast imm) b }
         else do {
           b \<leftarrow> emit_modrm (OPC_IMUL_GvEvIz OR w) dst src b;
           emit_u32 imm b })"

definition emit_div :: "bool \<Rightarrow> Reg \<Rightarrow> code_emitter" where
  "emit_div rexw r = emit_modrm_ext (OPC_GRP3_Ev OR rexw_flag rexw) (ext3_u8 E3Div) r"

definition emit_idiv :: "bool \<Rightarrow> Reg \<Rightarrow> code_emitter" where
  "emit_idiv rexw r = emit_modrm_ext (OPC_GRP3_Ev OR rexw_flag rexw) (ext3_u8 E3Idiv) r"

definition emit_cdq :: code_emitter where
  "emit_cdq = emit_u8 0x99"

definition emit_cqo :: code_emitter where
  "emit_cqo b = do { b \<leftarrow> emit_u8 0x48 b; emit_u8 0x99 b }"

definition emit_bsf :: "bool \<Rightarrow> Reg \<Rightarrow> Reg \<Rightarrow> code_emitter" where
  "emit_bsf rexw dst src = emit_modrm (OPC_BSF OR rexw_flag rexw) dst src"

definition emit_bsr :: "bool \<Rightarrow> Reg \<Rightarrow> Reg \<Rightarrow> code_emitter" where
  "emit_bsr rexw dst src = emit_modrm (OPC_BSR OR rexw_flag rexw) dst src"

definition emit_lzcnt :: "bool \<Rightarrow> Reg \<Rightarrow> Reg \<Rightarrow> code_emitter" where
  "emit_lzcnt rexw dst src = emit_modrm (OPC_LZCNT OR rexw_flag rexw) dst src"

definition emit_tzcnt :: "bool \<Rightarrow> Reg \<Rightarrow> Reg \<Rightarrow> code_emitter" where
  "emit_tzcnt rexw dst src = emit_modrm (OPC_TZCNT OR rexw_flag rexw) dst src"

definition emit_popcnt :: "bool \<Rightarrow> Reg \<Rightarrow> Reg \<Rightarrow> code_emitter" where
  "emit_popcnt rexw dst src = emit_modrm (OPC_POPCNT OR rexw_flag rexw) dst src"

definition emit_bt_ri :: "bool \<Rightarrow> Reg \<Rightarrow> u8 \<Rightarrow> code_emitter" where
  "emit_bt_ri rexw r n b = do {
     b \<leftarrow> emit_modrm_ext (OPC_GRPBT OR rexw_flag rexw) (grpbt_u8 Bt) r b; emit_u8 n b }"

definition emit_bts_ri :: "bool \<Rightarrow> Reg \<Rightarrow> u8 \<Rightarrow> code_emitter" where
  "emit_bts_ri rexw r n b = do {
     b \<leftarrow> emit_modrm_ext (OPC_GRPBT OR rexw_flag rexw) (grpbt_u8 Bts) r b; emit_u8 n b }"

definition emit_btr_ri :: "bool \<Rightarrow> Reg \<Rightarrow> u8 \<Rightarrow> code_emitter" where
  "emit_btr_ri rexw r n b = do {
     b \<leftarrow> emit_modrm_ext (OPC_GRPBT OR rexw_flag rexw) (grpbt_u8 Btr) r b; emit_u8 n b }"

definition emit_btc_ri :: "bool \<Rightarrow> Reg \<Rightarrow> u8 \<Rightarrow> code_emitter" where
  "emit_btc_ri rexw r n b = do {
     b \<leftarrow> emit_modrm_ext (OPC_GRPBT OR rexw_flag rexw) (grpbt_u8 Btc) r b; emit_u8 n b }"

definition emit_vex_modrm :: "u32 \<Rightarrow> Reg \<Rightarrow> Reg \<Rightarrow> Reg \<Rightarrow> code_emitter" where
  "emit_vex_modrm opc r v rm b = do {
     let r_bit = (if needs_rex r then 0 else 0x80 :: u8);
     let x_bit = (0x40 :: u8);
     let b_bit = (if needs_rex rm then 0 else 0x20 :: u8);
     let vvvv = push_bit 3 (NOT (reg_u8 v) AND 0x0F);
     let w = (if opc AND P_REXW \<noteq> 0 then 0x80 else 0 :: u8);
     let pp = (if opc AND P_DATA16 \<noteq> 0 then 1 else if opc AND P_SIMDF3 \<noteq> 0 then 2
               else if opc AND P_SIMDF2 \<noteq> 0 then 3 else 0 :: u8);
     let mm = (if opc AND P_EXT38 \<noteq> 0 then 2 else if opc AND P_EXT3A \<noteq> 0 then 3 else 1 :: u8);
     b \<leftarrow> (if mm = 1 \<and> w = 0 \<and> b_bit \<noteq> 0 \<and> x_bit \<noteq> 0 then do {
            b \<leftarrow> emit_u8 0xC5 b;
            emit_u8 (r_bit OR vvvv OR pp) b }
          else do {
            b \<leftarrow> emit_u8 0xC4 b;
            b \<leftarrow> emit_u8 (r_bit OR x_bit OR b_bit OR mm) b;
            emit_u8 (w OR vvvv OR pp) b });
     b \<leftarrow> emit_u8 (ucast opc) b;
     emit_u8 (0xC0 OR push_bit 3 (low3 r) OR low3 rm) b }"

definition emit_andn :: "bool \<Rightarrow> Reg \<Rightarrow> Reg \<Rightarrow> Reg \<Rightarrow> code_emitter" where
  "emit_andn rexw dst src1 src2 = emit_vex_modrm (OPC_ANDN OR rexw_flag rexw) dst src1 src2"

section \<open>Branches\<close>

text \<open>The displacement from the end of the instruction, which must fit in 32 bits.\<close>

definition rel32 :: "nat \<Rightarrow> nat \<Rightarrow> u32 option" where
  "rel32 target_offset after =
     (let disp = int target_offset - int after
      in do { assert_that (- (2 ^ 31) \<le> disp \<and> disp \<le> 2 ^ 31 - 1); Some (word_of_int disp) })"

definition emit_jcc :: "X86Cond \<Rightarrow> nat \<Rightarrow> code_emitter" where
  "emit_jcc cond target_offset b = do {
     b \<leftarrow> emit_opc (OPC_JCC_long + ucast (x86cond_u8 cond)) 0 0 b;
     disp \<leftarrow> rel32 target_offset (cb_offset b + 4);
     emit_u32 disp b }"

definition emit_jmp :: "nat \<Rightarrow> code_emitter" where
  "emit_jmp target_offset b = do {
     b \<leftarrow> emit_u8 (ucast OPC_JMP_long) b;
     disp \<leftarrow> rel32 target_offset (cb_offset b + 4);
     emit_u32 disp b }"

definition emit_call :: "nat \<Rightarrow> code_emitter" where
  "emit_call target_offset b = do {
     b \<leftarrow> emit_u8 (ucast OPC_CALL_Jz) b;
     disp \<leftarrow> rel32 target_offset (cb_offset b + 4);
     emit_u32 disp b }"

definition emit_jmp_reg :: "Reg \<Rightarrow> code_emitter" where
  "emit_jmp_reg r = emit_modrm_ext OPC_GRP5 (ext5_u8 JmpN) r"

definition emit_call_reg :: "Reg \<Rightarrow> code_emitter" where
  "emit_call_reg r = emit_modrm_ext OPC_GRP5 (ext5_u8 CallN) r"

definition emit_setcc :: "X86Cond \<Rightarrow> Reg \<Rightarrow> code_emitter" where
  "emit_setcc cond dst = emit_modrm_ext (OPC_SETCC + ucast (x86cond_u8 cond)) 0 dst"

definition emit_cmovcc :: "X86Cond \<Rightarrow> bool \<Rightarrow> Reg \<Rightarrow> Reg \<Rightarrow> code_emitter" where
  "emit_cmovcc cond rexw dst src =
     emit_modrm ((OPC_CMOVCC + ucast (x86cond_u8 cond)) OR rexw_flag rexw) dst src"

definition emit_test_rr :: "bool \<Rightarrow> Reg \<Rightarrow> Reg \<Rightarrow> code_emitter" where
  "emit_test_rr rexw r1 r2 = emit_modrm (OPC_TESTL OR rexw_flag rexw) r1 r2"

definition emit_test_bi :: "Reg \<Rightarrow> u8 \<Rightarrow> code_emitter" where
  "emit_test_bi r imm b = do { b \<leftarrow> emit_modrm_ext (OPC_GRP3_Eb OR P_REXB_RM) 0 r b; emit_u8 imm b }"

section \<open>Miscellaneous\<close>

definition emit_xchg :: "bool \<Rightarrow> Reg \<Rightarrow> Reg \<Rightarrow> code_emitter" where
  "emit_xchg rexw r1 r2 = emit_modrm (OPC_XCHG_EvGv OR rexw_flag rexw) r1 r2"

definition emit_push :: "Reg \<Rightarrow> code_emitter" where
  "emit_push r = emit_opc (OPC_PUSH_r32 + ucast (low3 r)) 0 (reg_u8 r)"

definition emit_pop :: "Reg \<Rightarrow> code_emitter" where
  "emit_pop r = emit_opc (OPC_POP_r32 + ucast (low3 r)) 0 (reg_u8 r)"

definition emit_push_imm :: "i32 \<Rightarrow> code_emitter" where
  "emit_push_imm imm b =
     (if is_i8 imm then do { b \<leftarrow> emit_u8 (ucast OPC_PUSH_Ib) b; emit_u8 (ucast imm) b }
      else do { b \<leftarrow> emit_u8 (ucast OPC_PUSH_Iz) b; emit_u32 imm b })"

definition emit_ret :: code_emitter where
  "emit_ret = emit_u8 (ucast OPC_RET)"

definition emit_mfence :: code_emitter where
  "emit_mfence b = do { b \<leftarrow> emit_u8 0x0F b; b \<leftarrow> emit_u8 0xAE b; emit_u8 0xF0 b }"

definition emit_ud2 :: code_emitter where
  "emit_ud2 = emit_opc OPC_UD2 0 0"

text \<open>One iteration of \<open>emit_nops\<close>: the longest recommended no-op that fits.\<close>

definition nop_bytes :: "nat \<Rightarrow> u8 list" where
  "nop_bytes n =
     (if n = 1 then [0x90]
      else if n = 2 then [0x66, 0x90]
      else if n = 3 then [0x0F, 0x1F, 0x00]
      else if n = 4 then [0x0F, 0x1F, 0x40, 0x00]
      else if n = 5 then [0x0F, 0x1F, 0x44, 0x00, 0x00]
      else if n = 6 then [0x66, 0x0F, 0x1F, 0x44, 0x00, 0x00]
      else if n = 7 then [0x0F, 0x1F, 0x80] @ le_bytes 4 (0 :: u32)
      else [0x0F, 0x1F, 0x84, 0x00] @ le_bytes 4 (0 :: u32))"

function emit_nops :: "nat \<Rightarrow> code_emitter" where
  "emit_nops n b =
     (if n = 0 then Some b
      else do { b \<leftarrow> emit_bytes (nop_bytes n) b; emit_nops (n - min n 8) b })"
  by pat_completeness auto

termination emit_nops
  by (relation "measure fst") auto

definition emit_inc :: "bool \<Rightarrow> Reg \<Rightarrow> code_emitter" where
  "emit_inc rexw r = emit_modrm_ext (OPC_GRP5 OR rexw_flag rexw) (ext5_u8 IncEv) r"

definition emit_dec :: "bool \<Rightarrow> Reg \<Rightarrow> code_emitter" where
  "emit_dec rexw r = emit_modrm_ext (OPC_GRP5 OR rexw_flag rexw) (ext5_u8 DecEv) r"

definition emit_shld_ri :: "bool \<Rightarrow> Reg \<Rightarrow> Reg \<Rightarrow> u8 \<Rightarrow> code_emitter" where
  "emit_shld_ri rexw dst src imm b = do {
     b \<leftarrow> emit_modrm (OPC_SHLD_Ib OR rexw_flag rexw) src dst b; emit_u8 imm b }"

definition emit_shrd_ri :: "bool \<Rightarrow> Reg \<Rightarrow> Reg \<Rightarrow> u8 \<Rightarrow> code_emitter" where
  "emit_shrd_ri rexw dst src imm b = do {
     b \<leftarrow> emit_modrm (OPC_SHRD_Ib OR rexw_flag rexw) src dst b; emit_u8 imm b }"

definition emit_rolw_8 :: "Reg \<Rightarrow> code_emitter" where
  "emit_rolw_8 r b = do {
     b \<leftarrow> emit_modrm_ext (OPC_SHIFT_Ib OR P_DATA16) (x86_shift_u8 XRol) r b; emit_u8 8 b }"

definition emit_stc :: code_emitter where
  "emit_stc = emit_u8 0xF9"

section \<open>The code generator's jumps\<close>

record X86_64CodeGen =
  prologue_offset :: nat
  epilogue_return_zero_offset :: nat
  tb_ret_offset :: nat
  cg_code_gen_start :: nat
  goto_tb_info :: "(nat \<times> nat) list"

definition codegen_new :: X86_64CodeGen where
  "codegen_new = \<lparr>prologue_offset = 0, epilogue_return_zero_offset = 0, tb_ret_offset = 0,
     cg_code_gen_start = 0, goto_tb_info = []\<rparr>"

definition emit_exit_tb :: "X86_64CodeGen \<Rightarrow> u64 \<Rightarrow> code_emitter" where
  "emit_exit_tb g v b =
     (if v = 0 then emit_jmp (epilogue_return_zero_offset g) b
      else do { b \<leftarrow> emit_mov_ri True Rax v b; emit_jmp (tb_ret_offset g) b })"

definition emit_goto_tb :: "CodeBuffer \<Rightarrow> (nat \<times> nat \<times> CodeBuffer) option" where
  "emit_goto_tb b = do {
     let disp_addr = cb_offset b + 1;
     let aligned = (disp_addr + 3) div 4 * 4;
     let pad = aligned - disp_addr;
     b \<leftarrow> (if pad > 0 then emit_nops pad b else Some b);
     let jmp_offset = cb_offset b;
     b \<leftarrow> emit_u8 0xE9 b;
     b \<leftarrow> emit_u32 0 b;
     Some (jmp_offset, cb_offset b, b) }"

definition emit_goto_ptr :: "Reg \<Rightarrow> code_emitter" where
  "emit_goto_ptr r = emit_jmp_reg r"

definition patch_jump :: patcher where
  "patch_jump b jump_offset target_offset =
     (let disp = int target_offset - (int jump_offset + 5)
      in do {
        assert_that (- (2 ^ 31) \<le> disp \<and> disp \<le> 2 ^ 31 - 1);
        patch_u32 (jump_offset + 1) (word_of_int disp) b })"

declare emit_nops.simps [simp del]

section \<open>The encoder appends bytes\<close>

lemma appends_if: "appends f bs \<Longrightarrow> appends (emit_if c f) (if c then bs else [])"
  using appends_nil by (simp add: appends_def emit_if_def)

lemma appends_cond:
  "appends f bs \<Longrightarrow> appends g cs \<Longrightarrow> appends (\<lambda>b. if c then f b else g b) (if c then bs else cs)"
  by (simp add: appends_def)

lemma appends_Some: "appends (\<lambda>b. Some b) []"
  using appends_nil by (simp add: appends_def)

lemmas appends_intros = appends_emit appends_seq appends_if appends_cond appends_Some

text \<open>The REX byte (zero when there is none) and the bytes in front of the ModR/M byte.\<close>

definition rex_byte :: "u32 \<Rightarrow> u8 \<Rightarrow> u8 \<Rightarrow> u8 \<Rightarrow> u8" where
  "rex_byte opc r rm idx =
     (let rex = (if opc AND P_REXW \<noteq> 0 then 0x08 else 0) OR (if r \<ge> 8 then 0x04 else 0) OR
                (if idx \<ge> 8 then 0x02 else 0) OR (if rm \<ge> 8 then 0x01 else 0)
      in if rex = 0 \<and> (opc AND P_REXB_R \<noteq> 0 \<and> r \<ge> 4 \<or> opc AND P_REXB_RM \<noteq> 0 \<and> rm \<ge> 4) then 0x40 else rex)"

definition opc_bytes :: "u32 \<Rightarrow> u8 \<Rightarrow> u8 \<Rightarrow> u8 \<Rightarrow> u8 list" where
  "opc_bytes opc r rm idx =
     (if opc AND P_DATA16 \<noteq> 0 then [0x66] else []) @
     (if opc AND P_SIMDF3 \<noteq> 0 then [0xF3] else if opc AND P_SIMDF2 \<noteq> 0 then [0xF2] else []) @
     (if rex_byte opc r rm idx \<noteq> 0 then [0x40 OR rex_byte opc r rm idx] else []) @
     (if opc AND (P_EXT OR P_EXT38 OR P_EXT3A) \<noteq> 0
      then [0x0F] @ (if opc AND P_EXT38 \<noteq> 0 then [0x38] else if opc AND P_EXT3A \<noteq> 0 then [0x3A] else [])
      else []) @
     [ucast opc]"

lemma emit_opc_as_3: "emit_opc opc r rm = emit_opc_3 opc r rm 0"
  by (rule ext) (simp add: emit_opc_def emit_opc_3_def)

lemma emit_opc_3_rex:
  "emit_opc_3 opc r rm idx =
     (\<lambda>b. do {
        b \<leftarrow> emit_if (opc AND P_DATA16 \<noteq> 0) (emit_u8 0x66) b;
        b \<leftarrow> (if opc AND P_SIMDF3 \<noteq> 0 then emit_u8 0xF3 b
             else emit_if (opc AND P_SIMDF2 \<noteq> 0) (emit_u8 0xF2) b);
        b \<leftarrow> emit_if (rex_byte opc r rm idx \<noteq> 0) (emit_u8 (0x40 OR rex_byte opc r rm idx)) b;
        b \<leftarrow> (if opc AND (P_EXT OR P_EXT38 OR P_EXT3A) \<noteq> 0 then do {
               b \<leftarrow> emit_u8 0x0F b;
               if opc AND P_EXT38 \<noteq> 0 then emit_u8 0x38 b
               else emit_if (opc AND P_EXT3A \<noteq> 0) (emit_u8 0x3A) b }
             else Some b);
        emit_u8 (ucast opc) b })"
proof -
  have "(let rex = (if opc AND P_REXW \<noteq> 0 then 0x08 else 0);
             rex = (if r \<ge> 8 then rex OR 0x04 else rex);
             rex = (if idx \<ge> 8 then rex OR 0x02 else rex);
             rex = (if rm \<ge> 8 then rex OR 0x01 else rex);
             rex = (if opc AND P_REXB_R \<noteq> 0 \<and> r \<ge> 4 \<and> rex = 0 then 0x40 else rex);
             rex = (if opc AND P_REXB_RM \<noteq> 0 \<and> rm \<ge> 4 \<and> rex = 0 then 0x40 else rex)
         in f rex) = f (rex_byte opc r rm idx)" for f :: "u8 \<Rightarrow> CodeBuffer option"
    by (simp add: rex_byte_def Let_def) blast
  then show ?thesis by (intro ext) (simp only: emit_opc_3_def)
qed

lemma appends_opc_3: "appends (emit_opc_3 opc r rm idx) (opc_bytes opc r rm idx)"
  unfolding emit_opc_3_rex opc_bytes_def by (intro appends_intros)

lemma appends_opc: "appends (emit_opc opc r rm) (opc_bytes opc r rm 0)"
  by (simp add: emit_opc_as_3 appends_opc_3)

section \<open>Operand encoding\<close>

text \<open>
  The decoder of operands, from the encoding rules of the architecture: fields of the ModR/M
  and SIB bytes, extended by the bits R, X and B of the REX byte. Index 4 without X means no
  index; base field 5 with mod 0 means no base, a form the encoder must avoid.
\<close>

datatype operand = RegOperand nat | MemOperand nat "(nat \<times> nat) option" int

definition f_mod :: "u8 \<Rightarrow> nat" where "f_mod m = unat (drop_bit 6 m)"
definition f_reg :: "u8 \<Rightarrow> nat" where "f_reg m = unat (drop_bit 3 m AND 7)"
definition f_rm :: "u8 \<Rightarrow> nat" where "f_rm m = unat (m AND 7)"

definition ext8 :: "u8 \<Rightarrow> nat \<Rightarrow> nat" where
  "ext8 rex n = (if bit rex n then 8 else 0)"

definition decode_disp :: "nat \<Rightarrow> u8 list \<Rightarrow> (int \<times> u8 list) option" where
  "decode_disp md bs =
     (if md = 0 then Some (0, bs)
      else if md = 1 then (case bs of [] \<Rightarrow> None | d # bs \<Rightarrow> Some (sint d, bs))
      else if length bs < 4 then None
      else Some (sint (le_word (take 4 bs) :: u32), drop 4 bs))"

fun decode_operands :: "u8 \<Rightarrow> u8 list \<Rightarrow> (nat \<times> operand \<times> u8 list) option" where
  "decode_operands rex [] = None"
| "decode_operands rex (m # bs) =
     (let rg = f_reg m + ext8 rex 2 in
      if f_mod m = 3 then Some (rg, RegOperand (f_rm m + ext8 rex 0), bs)
      else if f_rm m = 4 then
        (case bs of
           [] \<Rightarrow> None
         | s # bs \<Rightarrow>
             (let ix = f_reg s + ext8 rex 1 in
              if f_mod m = 0 \<and> f_rm s = 5 then None
              else do {
                (d, bs) \<leftarrow> decode_disp (f_mod m) bs;
                Some (rg, MemOperand (f_rm s + ext8 rex 0)
                            (if ix = 4 then None else Some (ix, 2 ^ f_mod s)) d, bs) }))
      else if f_mod m = 0 \<and> f_rm m = 5 then None
      else do {
        (d, bs) \<leftarrow> decode_disp (f_mod m) bs;
        Some (rg, MemOperand (f_rm m + ext8 rex 0) None d, bs) })"

definition mem_bytes :: "u8 \<Rightarrow> Reg \<Rightarrow> i32 \<Rightarrow> u8 list" where
  "mem_bytes r3 base offset =
     (let b3 = low3 base in
      if offset = 0 \<and> b3 \<noteq> 5 then
        (if b3 = 4 then [push_bit 3 r3 OR 0x04, 0x24] else [push_bit 3 r3 OR b3])
      else if is_i8 offset then
        (if b3 = 4 then [0x44 OR push_bit 3 r3, 0x24] else [0x40 OR push_bit 3 r3 OR b3]) @ [ucast offset]
      else
        (if b3 = 4 then [0x84 OR push_bit 3 r3, 0x24] else [0x80 OR push_bit 3 r3 OR b3]) @ le_bytes 4 offset)"

lemma appends_modrm: "appends (emit_modrm opc r rm)
    (opc_bytes opc (reg_u8 r) (reg_u8 rm) 0 @ [0xC0 OR push_bit 3 (low3 r) OR low3 rm])"
  unfolding emit_modrm_def by (intro appends_seq appends_opc appends_emit)

lemma appends_modrm_ext: "appends (emit_modrm_ext opc ext rm)
    (opc_bytes opc ext (reg_u8 rm) 0 @ [0xC0 OR push_bit 3 ext OR low3 rm])"
  unfolding emit_modrm_ext_def by (intro appends_seq appends_opc appends_emit)

lemma appends_pair: "appends (\<lambda>b. emit_u8 x b \<bind> emit_u8 y) [x, y]"
  using appends_seq [OF appends_emit(1) appends_emit(1)] by simp

lemma appends_mem:
  "appends (\<lambda>b. if offset = 0 \<and> b3 \<noteq> 5 then
       if b3 = 4 then emit_u8 (push_bit 3 r3 OR 0x04) b \<bind> emit_u8 0x24
       else emit_u8 (push_bit 3 r3 OR b3) b
     else if is_i8 offset then
       (if b3 = 4 then emit_u8 (0x44 OR push_bit 3 r3) b \<bind> emit_u8 0x24
        else emit_u8 (0x40 OR push_bit 3 r3 OR b3) b) \<bind> emit_u8 (ucast offset)
     else
       (if b3 = 4 then emit_u8 (0x84 OR push_bit 3 r3) b \<bind> emit_u8 0x24
        else emit_u8 (0x80 OR push_bit 3 r3 OR b3) b) \<bind> emit_u32 offset)
   (if offset = 0 \<and> b3 \<noteq> 5 then
       (if b3 = 4 then [push_bit 3 r3 OR 0x04, 0x24] else [push_bit 3 r3 OR b3])
     else if is_i8 offset then
       (if b3 = 4 then [0x44 OR push_bit 3 r3, 0x24] else [0x40 OR push_bit 3 r3 OR b3]) @ [ucast offset]
     else
       (if b3 = 4 then [0x84 OR push_bit 3 r3, 0x24] else [0x80 OR push_bit 3 r3 OR b3]) @ le_bytes 4 offset)"
  by (intro appends_cond appends_seq appends_pair appends_emit)

lemma appends_modrm_offset: "appends (emit_modrm_offset opc r base offset)
    (opc_bytes opc (reg_u8 r) (reg_u8 base) 0 @ mem_bytes (low3 r) base offset)"
  unfolding emit_modrm_offset_def mem_bytes_def Let_def by (intro appends_seq appends_opc appends_mem)

lemma appends_modrm_ext_offset: "appends (emit_modrm_ext_offset opc ext base offset)
    (opc_bytes opc ext (reg_u8 base) 0 @ mem_bytes ext base offset)"
  unfolding emit_modrm_ext_offset_def mem_bytes_def Let_def by (intro appends_seq appends_opc appends_mem)

text \<open>Fields of a byte assembled from three small parts.\<close>

lemma byte_fields:
  assumes "m < 4" "r < 8" "x < (8 :: u8)"
  shows "f_mod (push_bit 6 m OR push_bit 3 r OR x) = unat m"
    "f_reg (push_bit 6 m OR push_bit 3 r OR x) = unat r"
    "f_rm (push_bit 6 m OR push_bit 3 r OR x) = unat x"
proof -
  have nb: "k < 2" if "bit m k" for k
    using not_bit_of_lt [of m 2 k] that assms(1) by (force simp: word_less_nat_alt not_le [symmetric])
  have rb: "k < 3" if "bit r k" for k
    using not_bit_of_lt [of r 3 k] that assms(2) by (force simp: word_less_nat_alt not_le [symmetric])
  have xb: "k < 3" if "bit x k" for k
    using not_bit_of_lt [of x 3 k] that assms(3) by (force simp: word_less_nat_alt not_le [symmetric])
  have "bit (mask 3 :: int) k \<longleftrightarrow> k < 3" for k unfolding bit_mask_iff by auto
  then have seven: "bit (7 :: int) k \<longleftrightarrow> k < 3" for k by (simp add: mask_eq_exp_minus_1)
  let ?w = "push_bit 6 m OR push_bit 3 r OR x"
  have "drop_bit 6 ?w = m"
    by (rule bit_word_eqI) (auto simp: bit_simps dest: nb rb xb)
  moreover have "drop_bit 3 ?w AND 7 = r"
    by (rule bit_word_eqI) (auto simp: bit_simps seven dest: nb rb xb)
  moreover have "?w AND 7 = x"
    by (rule bit_word_eqI) (auto simp: bit_simps seven dest: nb rb xb)
  ultimately show "f_mod ?w = unat m" "f_reg ?w = unat r" "f_rm ?w = unat x"
    by (simp_all add: f_mod_def f_reg_def f_rm_def)
qed

lemma modrm_fields:
  assumes "r < 8" "x < (8 :: u8)"
  shows "f_mod (push_bit 3 r OR x) = 0" "f_reg (push_bit 3 r OR x) = unat r" "f_rm (push_bit 3 r OR x) = unat x"
    "f_mod (0x40 OR push_bit 3 r OR x) = 1" "f_reg (0x40 OR push_bit 3 r OR x) = unat r"
    "f_rm (0x40 OR push_bit 3 r OR x) = unat x"
    "f_mod (0x80 OR push_bit 3 r OR x) = 2" "f_reg (0x80 OR push_bit 3 r OR x) = unat r"
    "f_rm (0x80 OR push_bit 3 r OR x) = unat x"
    "f_mod (0xC0 OR push_bit 3 r OR x) = 3" "f_reg (0xC0 OR push_bit 3 r OR x) = unat r"
    "f_rm (0xC0 OR push_bit 3 r OR x) = unat x"
  using byte_fields [OF _ assms, of 0] byte_fields [OF _ assms, of 1] byte_fields [OF _ assms, of 2]
    byte_fields [OF _ assms, of 3] by simp_all

lemma sib_escape: "0x44 OR push_bit 3 r = 0x40 OR push_bit 3 r OR (4 :: u8)"
  "0x84 OR push_bit 3 r = 0x80 OR push_bit 3 r OR (4 :: u8)"
proof -
  have "(0x44 :: u8) = 0x40 OR 4" "(0x84 :: u8) = 0x80 OR 4" by simp_all
  then show "0x44 OR push_bit 3 r = 0x40 OR push_bit 3 r OR (4 :: u8)"
    "0x84 OR push_bit 3 r = 0x80 OR push_bit 3 r OR (4 :: u8)"
    by (simp_all only: ac_simps)
qed

lemma sib_no_index: "f_mod 0x24 = 0" "f_reg 0x24 = 4" "f_rm 0x24 = 4"
  by (simp_all add: f_mod_def f_reg_def f_rm_def drop_bit_eq_div)

lemma low3_lt [simp]: "low3 r < 8"
  by (cases r) (simp_all add: low3_def)

lemma reg_u8_split: "unat (reg_u8 r) = unat (low3 r) + (if reg_u8 r \<ge> 8 then 8 else 0)"
  by (cases r) (simp_all add: low3_def word_le_nat_alt)

lemma rex_bits:
  "bit (rex_byte opc r rm idx) 0 \<longleftrightarrow> rm \<ge> 8" "bit (rex_byte opc r rm idx) (Suc 0) \<longleftrightarrow> idx \<ge> 8"
  "bit (rex_byte opc r rm idx) 2 \<longleftrightarrow> r \<ge> 8" "bit (rex_byte opc r rm idx) 3 \<longleftrightarrow> opc AND P_REXW \<noteq> 0"
proof -
  let ?rex = "(if opc AND P_REXW \<noteq> 0 then 0x08 else 0) OR (if r \<ge> 8 then 0x04 else 0) OR
                (if idx \<ge> 8 then 0x02 else 0) OR (if rm \<ge> 8 then 0x01 else 0 :: u8)"
  have bits: "bit (8 :: int) n \<longleftrightarrow> n = 3" "bit (4 :: int) n \<longleftrightarrow> n = 2" "bit (2 :: int) n \<longleftrightarrow> n = 1"
    "bit (64 :: int) n \<longleftrightarrow> n = 6" for n
    using bit_exp_iff [where 'a = int, of 3 n] bit_exp_iff [where 'a = int, of 2 n]
      bit_exp_iff [where 'a = int, of 1 n] bit_exp_iff [where 'a = int, of 6 n] by auto
  have "bit (rex_byte opc r rm idx) n \<longleftrightarrow> bit ?rex n" if "n < 4" for n
    using that unfolding rex_byte_def Let_def by (cases "?rex = 0") (auto simp: bits)
  then show "bit (rex_byte opc r rm idx) 0 \<longleftrightarrow> rm \<ge> 8" "bit (rex_byte opc r rm idx) (Suc 0) \<longleftrightarrow> idx \<ge> 8"
    "bit (rex_byte opc r rm idx) 2 \<longleftrightarrow> r \<ge> 8" "bit (rex_byte opc r rm idx) 3 \<longleftrightarrow> opc AND P_REXW \<noteq> 0"
    by (simp_all add: bit_or_iff bits bit_1_iff split del: if_split) (simp_all add: bits bit_1_iff)
qed

lemma reg_ext: "unat (low3 r) + (if reg_u8 r \<ge> 8 then 8 else 0) = unat (reg_u8 r)"
  by (simp add: reg_u8_split)

lemma sint_ucast_i8: "is_i8 v \<Longrightarrow> sint (ucast v :: u8) = sint v"
proof -
  assume "is_i8 v"
  then have "signed_take_bit 7 (sint v) = sint v"
    by (intro signed_take_bit_int_eq_self) (simp_all add: is_i8_def)
  moreover have "signed_take_bit 7 (sint v) = signed_take_bit 7 (uint v)"
    unfolding sint_uint [of v] by (simp add: signed_take_bit_signed_take_bit min_def)
  moreover have "sint (ucast v :: u8) = signed_take_bit 7 (uint v)"
    by (simp add: signed_ucast_eq)
  ultimately show ?thesis by simp
qed

lemma decode_disp_byte: "is_i8 v \<Longrightarrow> decode_disp (Suc 0) (ucast v # bs) = Some (sint v, bs)"
  by (simp add: decode_disp_def sint_ucast_i8)

lemma decode_disp_word: "decode_disp 2 (le_bytes 4 v @ bs) = Some (sint (v :: i32), bs)"
  by (simp add: decode_disp_def le_word_le_bytes)

lemma low3_cases: "unat (low3 r) = 4 \<longleftrightarrow> low3 r = 4" "unat (low3 r) = 5 \<longleftrightarrow> low3 r = 5"
  by (simp_all add: word_unat_eq_iff)

lemma decode_mem_bytes:
  "decode_operands (rex_byte opc (reg_u8 r) (reg_u8 base) 0) (mem_bytes (low3 r) base offset @ rest) =
     Some (unat (reg_u8 r), MemOperand (unat (reg_u8 base)) None (sint offset), rest)"
proof -
  let ?rex = "rex_byte opc (reg_u8 r) (reg_u8 base) 0"
  have e: "unat (low3 r) + ext8 ?rex 2 = unat (reg_u8 r)" "unat (low3 base) + ext8 ?rex 0 = unat (reg_u8 base)"
    using reg_ext [of r] reg_ext [of base] by (simp_all add: ext8_def rex_bits)
  have x: "ext8 ?rex (Suc 0) = 0" by (simp add: ext8_def rex_bits word_le_nat_alt)
  note f = modrm_fields [OF low3_lt] modrm_fields [OF low3_lt [of r] low3_lt [of base]]
  consider (none) "offset = 0" "low3 base \<noteq> 5" | (byte) "offset \<noteq> 0 \<or> low3 base = 5" "is_i8 offset"
    | (word) "offset \<noteq> 0 \<or> low3 base = 5" "\<not> is_i8 offset" by blast
  then show ?thesis
  proof cases
    case none
    then show ?thesis using e x
      by (cases "low3 base = 4")
        (simp_all add: mem_bytes_def Let_def f sib_no_index decode_disp_def low3_cases)
  next
    case byte
    then show ?thesis using e x
      by (cases "low3 base = 4")
        (simp_all add: mem_bytes_def Let_def f sib_no_index sib_escape decode_disp_byte low3_cases)
  next
    case word
    then show ?thesis using e x
      by (cases "low3 base = 4")
        (simp_all add: mem_bytes_def Let_def f sib_no_index sib_escape decode_disp_word low3_cases)
  qed
qed

definition sib_bytes :: "Reg \<Rightarrow> Reg \<Rightarrow> Reg \<Rightarrow> u8 \<Rightarrow> i32 \<Rightarrow> u8 list" where
  "sib_bytes r base idx shift offset =
     (let sib = push_bit 6 shift OR push_bit 3 (low3 idx) OR low3 base in
      if offset = 0 \<and> low3 base \<noteq> 5 then [push_bit 3 (low3 r) OR 0x04, sib]
      else if is_i8 offset then [0x44 OR push_bit 3 (low3 r), sib, ucast offset]
      else [0x84 OR push_bit 3 (low3 r), sib] @ le_bytes 4 offset)"

lemma appends_modrm_sib:
  assumes "shift \<le> 3" "idx \<noteq> Rsp"
  shows "appends (emit_modrm_sib opc r base idx shift offset)
    (opc_bytes opc (reg_u8 r) (reg_u8 base) (reg_u8 idx) @ sib_bytes r base idx shift offset)"
proof -
  let ?sib = "push_bit 6 shift OR push_bit 3 (low3 idx) OR low3 base"
  have three: "appends (\<lambda>b. emit_u8 x b \<bind> (\<lambda>b. emit_u8 y b \<bind> emit_u8 z)) [x, y, z]" for x y z
    using appends_seq [OF appends_emit(1) appends_pair] by simp
  have wide: "appends (\<lambda>b. emit_u8 x b \<bind> (\<lambda>b. emit_u8 y b \<bind> emit_u32 w)) ([x, y] @ le_bytes 4 w)" for x y w
    using appends_seq [OF appends_emit(1) appends_seq [OF appends_emit(1) appends_emit(3)]] by simp
  have "emit_modrm_sib opc r base idx shift offset =
      (\<lambda>b. emit_opc_3 opc (reg_u8 r) (reg_u8 base) (reg_u8 idx) b \<bind> (\<lambda>b.
        if offset = 0 \<and> low3 base \<noteq> 5 then emit_u8 (push_bit 3 (low3 r) OR 0x04) b \<bind> emit_u8 ?sib
        else if is_i8 offset then
          emit_u8 (0x44 OR push_bit 3 (low3 r)) b \<bind> (\<lambda>b. emit_u8 ?sib b \<bind> emit_u8 (ucast offset))
        else emit_u8 (0x84 OR push_bit 3 (low3 r)) b \<bind> (\<lambda>b. emit_u8 ?sib b \<bind> emit_u32 offset)))"
    using assms by (intro ext) (simp add: emit_modrm_sib_def Let_def)
  then show ?thesis unfolding sib_bytes_def Let_def
    by (simp only:) (intro appends_seq appends_opc_3 appends_cond appends_pair three wide)
qed

lemma low3_index: "idx \<noteq> Rsp \<Longrightarrow> unat (reg_u8 idx) \<noteq> 4"
  by (cases idx) simp_all

lemma decode_sib_bytes:
  assumes "shift < 4" "idx \<noteq> Rsp"
  shows "decode_operands (rex_byte opc (reg_u8 r) (reg_u8 base) (reg_u8 idx)) (sib_bytes r base idx shift offset @ rest) =
     Some (unat (reg_u8 r), MemOperand (unat (reg_u8 base)) (Some (unat (reg_u8 idx), 2 ^ unat shift)) (sint offset), rest)"
proof -
  let ?rex = "rex_byte opc (reg_u8 r) (reg_u8 base) (reg_u8 idx)"
  have e: "unat (low3 r) + ext8 ?rex 2 = unat (reg_u8 r)" "unat (low3 base) + ext8 ?rex 0 = unat (reg_u8 base)"
    "unat (low3 idx) + ext8 ?rex (Suc 0) = unat (reg_u8 idx)"
    using reg_ext [of r] reg_ext [of base] reg_ext [of idx] by (simp_all add: ext8_def rex_bits)
  note f = modrm_fields [OF low3_lt] byte_fields [OF assms(1) low3_lt low3_lt]
  note base = decode_disp_def sib_bytes_def Let_def f low3_cases
  consider (none) "offset = 0" "low3 base \<noteq> 5" | (byte) "offset \<noteq> 0 \<or> low3 base = 5" "is_i8 offset"
    | (word) "offset \<noteq> 0 \<or> low3 base = 5" "\<not> is_i8 offset" by blast
  then show ?thesis
  proof cases
    case none
    then show ?thesis using e low3_index [OF assms(2)]
      by (simp add: sib_bytes_def Let_def f decode_disp_def low3_cases)
  next
    case byte
    then show ?thesis using e low3_index [OF assms(2)]
      by (auto simp: sib_bytes_def Let_def f sib_escape decode_disp_byte)
  next
    case word
    then show ?thesis using e low3_index [OF assms(2)]
      by (auto simp: sib_bytes_def Let_def f sib_escape decode_disp_word)
  qed
qed

lemma decode_modrm_regs:
  "decode_operands (rex_byte opc (reg_u8 r) (reg_u8 rm) 0) ((0xC0 OR push_bit 3 (low3 r) OR low3 rm) # rest) =
     Some (unat (reg_u8 r), RegOperand (unat (reg_u8 rm)), rest)"
  using reg_ext [of r] reg_ext [of rm] by (simp add: modrm_fields ext8_def rex_bits)

section \<open>Jumps\<close>

text \<open>Where the five-byte jump at an offset goes.\<close>

definition jump_target :: "CodeBuffer \<Rightarrow> nat \<Rightarrow> int option" where
  "jump_target b j = map_option (\<lambda>w. int j + 5 + sint w) (read_u32 b (j + 1))"

lemma sint_word_of_int_32:
  "- (2 ^ 31) \<le> k \<Longrightarrow> k \<le> 2 ^ 31 - 1 \<Longrightarrow> sint (word_of_int k :: 32 word) = k"
  by (simp add: signed_of_int signed_take_bit_int_eq_self)

lemma read_patch_u32:
  assumes "patch_u32 off v b = Some b'"
  shows "read_u32 b' off = Some v" "k + 4 \<le> off \<or> off + 4 \<le> k \<Longrightarrow> read_u32 b' k = read_u32 b k"
    "capacity b' = capacity b" "cb_offset b' = cb_offset b"
proof -
  from assms have fit: "off + 4 \<le> length (cb_mem b)"
    and b': "b' = b\<lparr>cb_mem := write_at off (le_bytes 4 v) (cb_mem b)\<rparr>"
    by (auto simp: patch_u32_def capacity_def split: if_splits)
  show "read_u32 b' off = Some v" "capacity b' = capacity b" "cb_offset b' = cb_offset b"
    using fit read_write_same [of off "le_bytes 4 v" "cb_mem b"]
    by (simp_all add: b' read_u32_def capacity_def le_word_le_bytes)
  show "read_u32 b' k = read_u32 b k" if "k + 4 \<le> off \<or> off + 4 \<le> k"
    using fit that read_write_apart [of off "le_bytes 4 v" "cb_mem b" k 4]
    by (auto simp: b' read_u32_def capacity_def assert_that_def)
qed

lemma patch_jumpE:
  assumes "patch_jump b j t = Some b'"
  obtains d where "int t = int j + 5 + d" "- (2 ^ 31) \<le> d" "d \<le> 2 ^ 31 - 1"
    "patch_u32 (j + 1) (word_of_int d) b = Some b'"
proof (rule that [of "int t - (int j + 5)"])
qed (use assms in \<open>simp_all add: patch_jump_def Let_def split: if_splits\<close>)

interpretation x86: jump_patcher patch_jump jump_target
proof
  fix b b' j t k
  show "jump_target b' j = Some (int t)" if "patch_jump b j t = Some b'"
    using that by (rule patch_jumpE) (simp add: jump_target_def read_patch_u32 sint_word_of_int_32)
  show "jump_target b' k = jump_target b k" if "patch_jump b j t = Some b'" "apart j k"
    using that(1) by (rule patch_jumpE)
      (use that(2) in \<open>auto simp: jump_target_def apart_def JUMP_LEN_def read_patch_u32(2)\<close>)
  show "capacity b' = capacity b \<and> cb_offset b' = cb_offset b" if "patch_jump b j t = Some b'"
    using that by (auto simp: patch_jump_def Let_def read_patch_u32 split: if_splits)
  show "\<exists>b'. patch_jump b j t = Some b'" if "j + JUMP_LEN \<le> capacity b" "t \<le> capacity b" "capacity b < 2 ^ 31"
    using that by (simp add: patch_jump_def Let_def patch_u32_def JUMP_LEN_def)
qed

text \<open>
  The jump that \<open>goto_tb\<close> emits falls through to its reset address, its displacement is
  aligned to four bytes, and the instruction lies between the old and the new cursor.
\<close>

lemma nop_length: "n \<noteq> 0 \<Longrightarrow> length (nop_bytes n) = min n 8"
  by (auto simp: nop_bytes_def)

lemma emit_nops_offset:
  "emit_nops n b = Some b' \<Longrightarrow> cb_offset b' = cb_offset b + n \<and> capacity b' = capacity b"
proof (induction n b rule: emit_nops.induct)
  case (1 n b)
  show ?case
  proof (cases "n = 0")
    case True
    then show ?thesis using 1 by (simp add: emit_nops.simps)
  next
    case False
    with 1(2) obtain b1 where b1: "emit_bytes (nop_bytes n) b = Some b1" "emit_nops (n - min n 8) b1 = Some b'"
      by (subst (asm) emit_nops.simps) (auto split: bind_splits)
    have c: "cb_offset b1 = cb_offset b + min n 8" "capacity b1 = capacity b"
      using emit_bytes_mem [OF b1(1)] nop_length [OF False] by (auto simp: capacity_def)
    then show ?thesis using 1(1) [OF False b1] by simp
  qed
qed

lemma emit_goto_tb_ok:
  assumes "emit_goto_tb b = Some (j, r, b')"
  shows "(j + 1) mod 4 = 0" "cb_offset b \<le> j" "r = j + JUMP_LEN" "cb_offset b' = r"
    "capacity b' = capacity b" "r \<le> capacity b" "jump_target b' j = Some (int r)"
proof -
  define pad where "pad = (cb_offset b + 1 + 3) div 4 * 4 - (cb_offset b + 1)"
  obtain b1 b2 where p: "(if pad > 0 then emit_nops pad b else Some b) = Some b1" "emit_u8 0xE9 b1 = Some b2"
    "emit_u32 0 b2 = Some b'" "j = cb_offset b1" "r = cb_offset b'"
    using assms unfolding emit_goto_tb_def Let_def pad_def [symmetric] by (auto split: bind_splits)
  have b1: "cb_offset b1 = cb_offset b + pad" "capacity b1 = capacity b"
    using p(1) emit_nops_offset [of pad b b1] by (auto split: if_splits)
  have b2: "cb_offset b2 = j + 1" "capacity b2 = capacity b" "cb_offset b' = j + 5" "capacity b' = capacity b"
    "j + 5 \<le> capacity b"
    using p(2-4) b1 by (auto simp: emit_u8_def emit_u32_def capacity_def split: if_splits)
  have read: "read_u32 b' (j + 1) = Some 0"
    using p(3) b2 read_write_same [of "cb_offset b2" "le_bytes 4 (0 :: u32)" "cb_mem b2"]
    by (auto simp: emit_u32_def read_u32_def capacity_def le_word_le_bytes split: if_splits)
  have "cb_offset b + 1 + pad = (cb_offset b + 1 + 3) div 4 * 4" unfolding pad_def by simp
  then show "(j + 1) mod 4 = 0" using p(4) b1(1) by (metis add.assoc add.commute mod_mult_self2_is_0)
  show "cb_offset b \<le> j" "r = j + JUMP_LEN" "cb_offset b' = r" "capacity b' = capacity b" "r \<le> capacity b"
    using p(4,5) b1 b2 by (simp_all add: JUMP_LEN_def)
  show "jump_target b' j = Some (int r)" using read p(5) b2 by (simp add: jump_target_def)
qed

text \<open>The instruction is a near jump, and patching changes its displacement only.\<close>

lemma emit_goto_tb_opcode:
  assumes "emit_goto_tb b = Some (j, r, b')"
  shows "cb_mem b' ! j = 0xE9"
proof -
  define pad where "pad = (cb_offset b + 1 + 3) div 4 * 4 - (cb_offset b + 1)"
  obtain b1 b2 where p: "emit_u8 0xE9 b1 = Some b2" "emit_u32 0 b2 = Some b'" "j = cb_offset b1"
    using assms unfolding emit_goto_tb_def Let_def pad_def [symmetric] by (auto split: bind_splits)
  then show ?thesis by (auto simp: emit_u8_def emit_u32_def capacity_def write_at_def nth_append split: if_splits)
qed

lemma patch_jump_opcode: "patch_jump b j t = Some b' \<Longrightarrow> cb_mem b' ! j = cb_mem b ! j"
  by (auto simp: patch_jump_def Let_def patch_u32_def capacity_def write_at_def nth_append split: if_splits)

section \<open>Condition codes\<close>

text \<open>
  The flags that \<open>cmp a, b\<close> and \<open>test a, b\<close> set, and the condition codes over them,
  as the architecture defines them.
\<close>

record x86_flags =
  CF :: bool
  ZF :: bool
  SF :: bool
  OF :: bool
  PF :: bool

definition parity_even :: "'a::len word \<Rightarrow> bool" where
  "parity_even w = even (count_ones (take_bit 8 w))"

definition cmp_flags :: "'a::len word \<Rightarrow> 'a word \<Rightarrow> x86_flags" where
  "cmp_flags a b = \<lparr>CF = a < b, ZF = (a - b = 0), SF = sint (a - b) < 0,
     OF = (sint (a - b) \<noteq> sint a - sint b), PF = parity_even (a - b)\<rparr>"

definition test_flags :: "'a::len word \<Rightarrow> 'a word \<Rightarrow> x86_flags" where
  "test_flags a b = \<lparr>CF = False, ZF = (a AND b = 0), SF = sint (a AND b) < 0, OF = False,
     PF = parity_even (a AND b)\<rparr>"

fun x86_holds :: "X86Cond \<Rightarrow> x86_flags \<Rightarrow> bool" where
  "x86_holds Jo f = OF f" | "x86_holds Jno f = (\<not> OF f)"
| "x86_holds Jb f = CF f" | "x86_holds Jae f = (\<not> CF f)"
| "x86_holds Je f = ZF f" | "x86_holds Jne f = (\<not> ZF f)"
| "x86_holds Jbe f = (CF f \<or> ZF f)" | "x86_holds Ja f = (\<not> CF f \<and> \<not> ZF f)"
| "x86_holds Js f = SF f" | "x86_holds Jns f = (\<not> SF f)"
| "x86_holds Jp f = PF f" | "x86_holds Jnp f = (\<not> PF f)"
| "x86_holds Jl f = (SF f \<noteq> OF f)" | "x86_holds Jge f = (SF f = OF f)"
| "x86_holds Jle f = (ZF f \<or> SF f \<noteq> OF f)" | "x86_holds Jg f = (\<not> ZF f \<and> SF f = OF f)"

text \<open>The signed order is read off SF and OF.\<close>

lemma signed_less_flags:
  fixes a b :: "'a::len word"
  shows "(sint (a - b) < 0) \<noteq> (sint (a - b) \<noteq> sint a - sint b) \<longleftrightarrow> sint a < sint b"
proof -
  define d where "d = sint a - sint b"
  define h :: int where "h = 2 ^ (LENGTH('a) - 1)"
  have hh: "2 ^ LENGTH('a) = 2 * h"
    unfolding h_def by (metis One_nat_def len_gt_0 power_Suc Suc_pred)
  have range: "- h \<le> sint a" "sint a < h" "- h \<le> sint b" "sint b < h"
    using sint_ge [of a] sint_lt [of a] sint_ge [of b] sint_lt [of b] by (simp_all add: h_def)
  have s: "sint (a - b) = (d + h) mod (2 * h) - h"
  proof -
    have "sint (a - b) = signed_take_bit (LENGTH('a) - 1) d"
      unfolding d_def by (rule sint_word_diff)
    then show ?thesis
      by (simp add: signed_take_bit_eq_take_bit_shift take_bit_eq_mod h_def hh [unfolded h_def])
  qed
  have m: "(d + h) mod (2 * h) = (if d < - h then d + 3 * h else if d < h then d + h else d - h)"
    using range by (auto simp: d_def intro: int_mod_pos_eq [of _ _ "- 1"] int_mod_pos_eq [of _ _ 0] int_mod_pos_eq [of _ _ 1])
  have "sint a < sint b \<longleftrightarrow> d < 0" "0 < h" "- (2 * h) < d" "d < 2 * h" using range by (auto simp: d_def)
  then show ?thesis unfolding s m d_def [symmetric] by auto
qed

lemma cond_code_holds:
  fixes a b :: "'a::len word"
  assumes "c \<noteq> Always" "c \<noteq> Never"
  shows "x86_holds (from_tcg c) (if cond_is_tst c then test_flags a b else cmp_flags a b) = cond_holds c a b"
  using assms signed_less_flags [of a b] word_eq_iff_signed [of a b]
  by (cases c) (auto simp: cond_is_tst_def cmp_flags_def test_flags_def)

lemma cond_code_invert: "x86_holds (x86cond_invert k) f = (\<not> x86_holds k f)"
  by (cases k) (auto simp: x86cond_invert_def X86CONDS_def)

section \<open>Properties\<close>

text \<open>
  C26: memory operands are encoded correctly. For every register, base, index, scale and 32-bit
  displacement, the bytes that follow the opcode decode, under the REX byte the encoder chose,
  to exactly those operands: base RSP or R12 gets its SIB byte, base RBP or R13 its explicit
  displacement, and a displacement that fits in a byte is stored as one.
\<close>

theorem memory_operands_decode:
  assumes "cb_inv b"
  shows "(emit_modrm_offset opc r base offset b = Some b' \<longrightarrow>
      (\<exists>bs. as_slice b' = as_slice b @ opc_bytes opc (reg_u8 r) (reg_u8 base) 0 @ bs \<and>
        decode_operands (rex_byte opc (reg_u8 r) (reg_u8 base) 0) bs =
          Some (unat (reg_u8 r), MemOperand (unat (reg_u8 base)) None (sint offset), []))) \<and>
    (emit_modrm_sib opc r base idx shift offset b = Some b' \<longrightarrow>
      (\<exists>bs. as_slice b' = as_slice b @ opc_bytes opc (reg_u8 r) (reg_u8 base) (reg_u8 idx) @ bs \<and>
        decode_operands (rex_byte opc (reg_u8 r) (reg_u8 base) (reg_u8 idx)) bs =
          Some (unat (reg_u8 r),
            MemOperand (unat (reg_u8 base)) (Some (unat (reg_u8 idx), 2 ^ unat shift)) (sint offset), [])))"
proof (intro conjI impI)
  assume "emit_modrm_offset opc r base offset b = Some b'"
  then have "as_slice b' = as_slice b @ opc_bytes opc (reg_u8 r) (reg_u8 base) 0 @ mem_bytes (low3 r) base offset"
    using appends_modrm_offset assms emit_bytes_slice [OF assms] by (simp add: appends_def)
  then show "\<exists>bs. as_slice b' = as_slice b @ opc_bytes opc (reg_u8 r) (reg_u8 base) 0 @ bs \<and>
        decode_operands (rex_byte opc (reg_u8 r) (reg_u8 base) 0) bs =
          Some (unat (reg_u8 r), MemOperand (unat (reg_u8 base)) None (sint offset), [])"
    using decode_mem_bytes [of opc r base offset "[]"] by auto
next
  assume run: "emit_modrm_sib opc r base idx shift offset b = Some b'"
  then have ok: "shift \<le> 3" "idx \<noteq> Rsp" by (auto simp: emit_modrm_sib_def split: if_splits)
  then have "shift < 4" by (simp add: word_le_nat_alt word_less_nat_alt)
  have "as_slice b' = as_slice b @ opc_bytes opc (reg_u8 r) (reg_u8 base) (reg_u8 idx) @ sib_bytes r base idx shift offset"
    using run appends_modrm_sib [OF ok] assms emit_bytes_slice [OF assms] by (simp add: appends_def)
  then show "\<exists>bs. as_slice b' = as_slice b @ opc_bytes opc (reg_u8 r) (reg_u8 base) (reg_u8 idx) @ bs \<and>
        decode_operands (rex_byte opc (reg_u8 r) (reg_u8 base) (reg_u8 idx)) bs =
          Some (unat (reg_u8 r),
            MemOperand (unat (reg_u8 base)) (Some (unat (reg_u8 idx), 2 ^ unat shift)) (sint offset), [])"
    using decode_sib_bytes [OF \<open>shift < 4\<close> ok(2), of opc r base offset "[]"] by auto
qed

theorem memory_operands_decode_witness:
  "\<exists>b' bs. emit_modrm_offset (OPC_MOVL_GvEv OR P_REXW) R9 R12 8 \<lparr>cb_mem = replicate 16 0, cb_offset = 0\<rparr> = Some b' \<and>
     as_slice b' = [0x4D, 0x8B] @ bs \<and>
     decode_operands 0x0D bs = Some (9, MemOperand 12 None 8, [])"
proof -
  let ?b = "\<lparr>cb_mem = replicate 16 (0 :: u8), cb_offset = 0\<rparr>"
  let ?opc = "OPC_MOVL_GvEv OR P_REXW"
  have pre: "opc_bytes ?opc (reg_u8 R9) (reg_u8 R12) 0 = [0x4D, 0x8B]" by code_simp
  have rex: "rex_byte ?opc (reg_u8 R9) (reg_u8 R12) 0 = 0x0D" by code_simp
  have nil: "as_slice ?b = []" by code_simp
  have inv: "cb_inv ?b" by (simp add: cb_inv_def)
  have "length (mem_bytes (low3 R9) R12 8) \<le> 6" by (simp add: mem_bytes_def Let_def)
  then have "emit_modrm_offset ?opc R9 R12 8 ?b \<noteq> None"
    using appends_modrm_offset [of ?opc R9 R12 8] inv arg_cong [OF pre, of length]
    by (simp add: appends_def emit_bytes_panics capacity_def del: reg_u8.simps)
  then obtain b' where run: "emit_modrm_offset ?opc R9 R12 8 ?b = Some b'" by auto
  with memory_operands_decode [OF inv, of ?opc R9 R12 8 b'] show ?thesis
    unfolding pre rex nil by auto
qed

text \<open>
  C27: conditional branches test what the IR condition means. After \<open>cmp\<close> (or \<open>test\<close>
  for the test conditions) of two operands of any width, the x86 condition code chosen by
  \<open>from_tcg\<close> holds exactly when the IR condition holds, for every condition but the
  two constant ones; inverting a condition code negates it.
\<close>

theorem x86_condition_codes:
  fixes a b :: "'a::len word"
  shows "(c \<noteq> Always \<and> c \<noteq> Never \<longrightarrow>
      x86_holds (from_tcg c) (if cond_is_tst c then test_flags a b else cmp_flags a b) = cond_holds c a b) \<and>
    x86_holds (x86cond_invert k) f = (\<not> x86_holds k f)"
  by (auto simp: cond_code_holds cond_code_invert)

theorem x86_condition_codes_witness:
  "x86_holds (from_tcg Lt) (cmp_flags (0xFFFFFFFF :: u32) 1) = cond_holds Lt (0xFFFFFFFF :: u32) 1 \<and>
   cond_holds Lt (0xFFFFFFFF :: u32) 1"
  using x86_condition_codes [where c = Lt and a = "0xFFFFFFFF :: u32" and b = 1] by (simp add: cond_is_tst_def)

text \<open>
  C25: the jump of \<open>goto_tb\<close> can be chained and unchained. As emitted it is a near jump that falls
  through to its reset address, and its displacement is aligned for an atomic store; patching it to any
  address of a buffer below two gigabytes succeeds and makes it go exactly there, and patching
  it to the reset address restores the original target; the opcode stays that of the jump.
\<close>

theorem goto_tb_patchable:
  assumes "emit_goto_tb b = Some (j, r, b')" "capacity b < 2 ^ 31" "t \<le> capacity b"
  shows "(j + 1) mod 4 = 0 \<and> cb_offset b \<le> j \<and> j + 5 = r \<and> r \<le> capacity b \<and> cb_mem b' ! j = 0xE9 \<and> jump_target b' j = Some (int r) \<and>
    (\<exists>b2 b3. patch_jump b' j t = Some b2 \<and> cb_mem b2 ! j = 0xE9 \<and> jump_target b2 j = Some (int t) \<and>
       patch_jump b2 j r = Some b3 \<and> cb_mem b3 ! j = 0xE9 \<and> jump_target b3 j = Some (int r))"
proof -
  note g = emit_goto_tb_ok [OF assms(1)]
  have j: "j + JUMP_LEN \<le> capacity b'" using g by simp
  obtain b2 where b2: "patch_jump b' j t = Some b2" "jump_target b2 j = Some (int t)" "capacity b2 = capacity b'"
    by (rule x86.patch_defined [OF j]) (use assms g in auto)
  obtain b3 where b3: "patch_jump b2 j r = Some b3" "jump_target b3 j = Some (int r)"
    by (rule x86.patch_defined [of j b2 r]) (use assms g b2 j in auto)
  have "cb_mem b' ! j = 0xE9" "cb_mem b2 ! j = 0xE9" "cb_mem b3 ! j = 0xE9"
    using emit_goto_tb_opcode [OF assms(1)] patch_jump_opcode [OF b2(1)] patch_jump_opcode [OF b3(1)] by simp_all
  with g b2 b3 show ?thesis by (simp add: JUMP_LEN_def)
qed

theorem goto_tb_patchable_witness:
  "\<exists>j r b'. emit_goto_tb \<lparr>cb_mem = replicate 16 0, cb_offset = 0\<rparr> = Some (j, r, b') \<and>
     (\<exists>b2. patch_jump b' j 4 = Some b2 \<and> jump_target b2 j = Some 4)"
proof -
  let ?b = "\<lparr>cb_mem = replicate 16 (0 :: u8), cb_offset = 0\<rparr>"
  have "emit_goto_tb ?b \<noteq> None" by code_simp
  then obtain j r b' where run: "emit_goto_tb ?b = Some (j, r, b')" by auto
  have "capacity ?b = 16" by (simp add: capacity_def)
  with goto_tb_patchable [OF run, of 4] run show ?thesis by auto
qed

end
