(* ===== verification/IR_Semantics.thy ===== *)
theory IR_Semantics
  imports IR
begin

text \<open>
  What the operations of the IR mean: the specification the optimizer and the liveness pass are
  measured against. It follows the IR reference of the repository (\<open>docs/ir-ops.md\<close>): an
  integer operation works at the width of its type, a temp of type \<open>I32\<close> holds 32 bits,
  shift counts are taken modulo the width.

  The data movement, arithmetic, logic, shift and conversion opcodes that the optimizer rewrites,
  and the control flow opcodes, have a meaning here. Every other opcode (loads, stores, calls,
  vector operations and so on) is a parameter \<open>sem\<close>: any function from the values of the
  inputs, the constant arguments and the rest of the machine to the outputs and the new machine
  state. The theorems about passes hold for every \<open>sem\<close>.
\<close>

section \<open>Values\<close>

fun trunc :: "Type \<Rightarrow> u64 \<Rightarrow> u64" where
  "trunc I32 v = v AND 0xFFFFFFFF"
| "trunc _ v = v"

lemma trunc_I32: "trunc I32 v = ucast (ucast v :: u32)"
proof -
  have "trunc I32 v = take_bit 32 v"
    unfolding take_bit_eq_mask by (simp add: mask_eq_exp_minus_1)
  also have "\<dots> = ucast (ucast v :: u32)"
    by (rule bit_word_eqI) (auto simp: bit_take_bit_iff bit_unsigned_iff)
  finally show ?thesis .
qed

lemma trunc_trunc [simp]: "trunc ty (trunc ty v) = trunc ty v"
  by (cases ty) (simp_all add: and.assoc)

text \<open>A function of words of the operation's width, applied to temps' values.\<close>

definition at_width :: "Type \<Rightarrow> (u32 list \<Rightarrow> u32 option) \<Rightarrow> (u64 list \<Rightarrow> u64 option) \<Rightarrow> u64 list \<Rightarrow> u64 option"
  where
  "at_width ty f g vs =
     (if ty = I32 then map_option ucast (f (map ucast vs)) else if ty = I64 then g vs else None)"

section \<open>Integer operations\<close>

fun arith_val :: "ArithOp \<Rightarrow> 'a::len word list \<Rightarrow> 'a word option" where
  "arith_val Add [a, b] = Some (a + b)"
| "arith_val Sub [a, b] = Some (a - b)"
| "arith_val Mul [a, b] = Some (a * b)"
| "arith_val Neg [a] = Some (- a)"
| "arith_val _ _ = None"

fun logic_val :: "LogicOp \<Rightarrow> 'a::len word list \<Rightarrow> 'a word option" where
  "logic_val And [a, b] = Some (a AND b)"
| "logic_val Or [a, b] = Some (a OR b)"
| "logic_val Xor [a, b] = Some (a XOR b)"
| "logic_val AndC [a, b] = Some (a AND NOT b)"
| "logic_val NotI [a] = Some (NOT a)"
| "logic_val _ _ = None"

definition shift_val :: "ShiftOp \<Rightarrow> 'a::len word list \<Rightarrow> 'a word option" where
  "shift_val x vs =
     (case vs of
        [a, b] \<Rightarrow>
          (let n = unat b mod LENGTH('a)
           in Some (case x of Shl \<Rightarrow> push_bit n a | Shr \<Rightarrow> drop_bit n a | Sar \<Rightarrow> signed_drop_bit n a
                            | RotL \<Rightarrow> word_rotl n a | RotR \<Rightarrow> word_rotr n a))
      | _ \<Rightarrow> None)"

definition int_val :: "Opcode \<Rightarrow> 'a::len word list \<Rightarrow> 'a word option" where
  "int_val opc vs =
     (case opc of
        OMov Mov \<Rightarrow> (case vs of [a] \<Rightarrow> Some a | _ \<Rightarrow> None)
      | OArith x \<Rightarrow> arith_val x vs
      | OLogic x \<Rightarrow> logic_val x vs
      | OShift x \<Rightarrow> shift_val x vs
      | _ \<Rightarrow> None)"

text \<open>The conversions between the two integer widths; their operands are the full values.\<close>

fun conv_val :: "ConvOp \<Rightarrow> u64 \<Rightarrow> u64" where
  "conv_val ExtI32I64 v = scast (ucast v :: u32)"
| "conv_val ExtUI32I64 v = ucast (ucast v :: u32)"
| "conv_val ExtrlI64I32 v = ucast (ucast v :: u32)"
| "conv_val ExtrhI64I32 v = drop_bit 32 v"

definition pure_val :: "Opcode \<Rightarrow> Type \<Rightarrow> u64 list \<Rightarrow> u64 option" where
  "pure_val opc ty vs =
     (case opc of
        OConv x \<Rightarrow> (case vs of [a] \<Rightarrow> Some (conv_val x a) | _ \<Rightarrow> None)
      | _ \<Rightarrow> at_width ty (int_val opc) (int_val opc) vs)"

section \<open>Conditions of branches\<close>

definition CONDS :: "Cond list" where
  "CONDS = [Never, Always, Eq, Ne, Lt, Ge, Le, Gt, Ltu, Geu, Leu, Gtu, TstEq, TstNe]"

definition cond_of :: "u32 \<Rightarrow> Cond" where
  "cond_of w = (case find (\<lambda>c. cond_as_u32 c = w) CONDS of Some c \<Rightarrow> c | None \<Rightarrow> Never)"

definition cond_at :: "Type \<Rightarrow> Cond \<Rightarrow> u64 \<Rightarrow> u64 \<Rightarrow> bool" where
  "cond_at ty c a b =
     (if ty = I32 then cond_holds c (ucast a :: u32) (ucast b) else cond_holds c a b)"

lemma cond_of_carg [simp]: "cond_of (cond_as_u32 c) = c"
  by (cases c) (simp_all add: cond_of_def CONDS_def)

section \<open>Executing operations\<close>

text \<open>
  The state: the value of every temp and the rest of the machine. An op ends in the next op, in a
  jump to a label, or in leaving the block with a value.
\<close>

record 'm ir_state =
  tv :: "tempidx \<Rightarrow> u64"
  mem :: 'm

datatype 'm outcome = Next "'m ir_state" | Jump u32 "'m ir_state" | Exit u64 "'m ir_state"

type_synonym 'm sem = "Opcode \<Rightarrow> Type \<Rightarrow> u64 list \<Rightarrow> u32 list \<Rightarrow> 'm \<Rightarrow> u64 list \<times> 'm"

definition rd :: "Temp list \<Rightarrow> 'm ir_state \<Rightarrow> tempidx \<Rightarrow> u64" where
  "rd ts st t =
     (let x = ts ! unat t in trunc (t_ty x) (if is_const x then t_val x else tv st t))"

definition wr :: "Temp list \<Rightarrow> tempidx \<Rightarrow> u64 \<Rightarrow> 'm ir_state \<Rightarrow> 'm ir_state" where
  "wr ts t v st = st\<lparr>tv := (tv st)(t := trunc (t_ty (ts ! unat t)) v)\<rparr>"

primrec wr_all :: "Temp list \<Rightarrow> (tempidx \<times> u64) list \<Rightarrow> 'm ir_state \<Rightarrow> 'm ir_state" where
  "wr_all ts [] st = st"
| "wr_all ts (x # xs) st = wr_all ts xs (wr ts (fst x) (snd x) st)"

definition exec_other :: "'m sem \<Rightarrow> Temp list \<Rightarrow> Op \<Rightarrow> 'm ir_state \<Rightarrow> 'm ir_state" where
  "exec_other sem ts op st =
     (let r = sem (o_opc op) (o_type op) (map (rd ts st) (iargs op)) (cargs op) (mem st)
      in wr_all ts (zip (oargs op) (fst r)) (st\<lparr>mem := snd r\<rparr>))"

definition exec_op :: "'m sem \<Rightarrow> Temp list \<Rightarrow> Op \<Rightarrow> 'm ir_state \<Rightarrow> 'm outcome" where
  "exec_op sem ts op st =
     (case o_opc op of
        OCtl Br \<Rightarrow> Jump (o_args op ! 0) st
      | OCtl BrCond \<Rightarrow>
          (if cond_at (o_type op) (cond_of (o_args op ! 2)) (rd ts st (o_args op ! 0)) (rd ts st (o_args op ! 1))
           then Jump (o_args op ! 3) st else Next st)
      | OCtl SetLabel \<Rightarrow> Next st
      | OCtl GotoTb \<Rightarrow> Next st
      | OCtl ExitTb \<Rightarrow> Exit (ucast (o_args op ! 0)) st
      | OCtl GotoPtr \<Rightarrow> Exit (rd ts st (o_args op ! 0)) st
      | OMisc Nop \<Rightarrow> Next st
      | OMisc InsnStart \<Rightarrow> Next st
      | _ \<Rightarrow>
          (case pure_val (o_opc op) (o_type op) (map (rd ts st) (iargs op)) of
             Some v \<Rightarrow> Next (wr ts (o_args op ! 0) v st)
           | None \<Rightarrow> Next (exec_other sem ts op st)))"

text \<open>A run of ops, up to the first jump or exit.\<close>

primrec exec_ops :: "'m sem \<Rightarrow> Temp list \<Rightarrow> Op list \<Rightarrow> 'm ir_state \<Rightarrow> 'm outcome" where
  "exec_ops sem ts [] st = Next st"
| "exec_ops sem ts (op # os) st =
     (case exec_op sem ts op st of Next st' \<Rightarrow> exec_ops sem ts os st' | r \<Rightarrow> r)"

text \<open>
  A whole block: a jump continues at the first \<open>SetLabel\<close> of its label. \<open>None\<close> is running out
  of fuel, or a jump to a label that is not there.
\<close>

fun run_block :: "nat \<Rightarrow> 'm sem \<Rightarrow> Temp list \<Rightarrow> Op list \<Rightarrow> Op list \<Rightarrow> 'm ir_state \<Rightarrow> 'm outcome option" where
  "run_block 0 sem ts prog os st = None"
| "run_block (Suc n) sem ts prog os st =
     (case exec_ops sem ts os st of
        Jump l st' \<Rightarrow>
          (case dropWhile (\<lambda>op. \<not> (o_opc op = OCtl SetLabel \<and> o_args op ! 0 = l)) prog of
             [] \<Rightarrow> None
           | os' \<Rightarrow> run_block n sem ts prog os' st')
      | r \<Rightarrow> Some r)"

section \<open>Words of the two integer widths\<close>

lemma unat_u64_mod: "unat ((ucast (b :: u64) :: u32) mod 64) = unat b mod 64"
proof -
  have "unat ((ucast b :: u32) mod 64) = unat b mod 2 ^ 32 mod 64"
    by (simp add: unat_mod unsigned_ucast_eq take_bit_eq_mod unsigned_take_bit_eq)
  then show ?thesis by (simp add: mod_mod_cancel)
qed

lemma unat_u32_mod: "unat ((b :: u32) mod 32) = unat b mod 32"
  by (simp add: unat_mod)

lemma ucast_of_int32: "(ucast (of_int k :: u64) :: u32) = of_int k"
  by transfer simp

lemma ucast_arith32:
  "(ucast ((a :: u64) + b) :: u32) = ucast a + ucast b"
  "(ucast (a - b) :: u32) = ucast a - ucast b"
  "(ucast (a * b) :: u32) = ucast a * ucast b"
  "(ucast (- a) :: u32) = - ucast a"
  using ucast_of_int32 [of "uint a + uint b"] ucast_of_int32 [of "uint a - uint b"]
    ucast_of_int32 [of "uint a * uint b"] ucast_of_int32 [of "- uint a"]
    ucast_of_int32 [of "uint a"] ucast_of_int32 [of "uint b"]
  by simp_all

lemma ucast_logic32:
  "(ucast ((a :: u64) AND b) :: u32) = ucast a AND ucast b"
  "(ucast (a OR b) :: u32) = ucast a OR ucast b"
  "(ucast (a XOR b) :: u32) = ucast a XOR ucast b"
  "(ucast (NOT a) :: u32) = NOT (ucast a)"
  by (auto intro!: bit_word_eqI simp: bit_unsigned_iff bit_and_iff bit_or_iff bit_xor_iff bit_not_iff)

lemma ucast32_up [simp]: "(ucast (ucast (a :: u32) :: u64) :: u32) = a"
  by (rule bit_word_eqI) (auto simp: bit_unsigned_iff)

lemma unat_ucast_u64: "unat (ucast (x :: u32) :: u64) = unat x"
  using unat_u32_lt [of x] by (simp add: unsigned_ucast_eq take_bit_nat_eq_self)

lemma ucast_u64_inject: "((ucast (x :: u32) :: u64) = ucast y) = (x = y)"
  by (metis ucast32_up)

lemma ucast32_sup [simp]: "(ucast (scast (a :: u32) :: u64) :: u32) = a"
proof (rule bit_word_eqI)
  fix n assume "n < LENGTH(32)"
  then have "min 31 n = n" by simp
  with \<open>n < LENGTH(32)\<close> show "bit (ucast (scast a :: u64) :: u32) n = bit a n"
    by (simp add: bit_unsigned_iff bit_signed_iff)
qed

section \<open>Laws\<close>

lemma unat_inject: "unat (x :: tempidx) = unat y \<longleftrightarrow> x = y"
  by (auto intro: unsigned_word_eqI)

lemma rd_append: "unat t < length ts \<Longrightarrow> rd (ts @ us) st t = rd ts st t"
  by (simp add: rd_def nth_append)

lemma rd_const: "is_const (ts ! unat t) \<Longrightarrow> rd ts st t = trunc (t_ty (ts ! unat t)) (t_val (ts ! unat t))"
  by (simp add: rd_def Let_def)

lemma rd_trunc [simp]: "trunc (t_ty (ts ! unat t)) (rd ts st t) = rd ts st t"
  by (simp add: rd_def Let_def)

lemma rd_wr_same: "\<not> is_const (ts ! unat t) \<Longrightarrow> rd ts (wr ts t v st) t = trunc (t_ty (ts ! unat t)) v"
  by (simp add: rd_def wr_def Let_def)

lemma rd_wr_other [simp]: "s \<noteq> t \<Longrightarrow> rd ts (wr ts t v st) s = rd ts st s"
  by (simp add: rd_def wr_def Let_def)

lemma rd_mem [simp]: "rd ts (st\<lparr>mem := m\<rparr>) s = rd ts st s"
  by (simp add: rd_def Let_def)

lemma rd_wr_all: "s \<notin> set (map fst xs) \<Longrightarrow> rd ts (wr_all ts xs st) s = rd ts st s"
  by (induction xs arbitrary: st) simp_all

lemma wr_append: "unat t < length ts \<Longrightarrow> wr (ts @ us) t v st = wr ts t v st"
  by (simp add: wr_def nth_append)

lemma wr_all_append:
  "\<forall>x \<in> set (map fst xs). unat x < length ts \<Longrightarrow> wr_all (ts @ us) xs st = wr_all ts xs st"
  by (induction xs arbitrary: st) (simp_all add: wr_append)

lemma exec_ops_append:
  "exec_ops sem ts (os @ os') st =
     (case exec_ops sem ts os st of Next st' \<Rightarrow> exec_ops sem ts os' st' | r \<Rightarrow> r)"
  by (induction os arbitrary: st) (simp_all split: outcome.split)

text \<open>The opcodes that steer control, or do nothing; all others compute.\<close>

definition controls :: "Opcode \<Rightarrow> bool" where
  "controls opc \<longleftrightarrow> opc \<in> {OCtl Br, OCtl BrCond, OCtl SetLabel, OCtl GotoTb, OCtl ExitTb, OCtl GotoPtr,
     OMisc Nop, OMisc InsnStart}"

lemma exec_plain:
  assumes "\<not> controls (o_opc op)"
  shows "exec_op sem ts op st =
    (case pure_val (o_opc op) (o_type op) (map (rd ts st) (iargs op)) of
       Some v \<Rightarrow> Next (wr ts (o_args op ! 0) v st) | None \<Rightarrow> Next (exec_other sem ts op st))"
proof (cases "o_opc op")
  case (OCtl x)
  with assms show ?thesis by (cases x) (simp_all add: exec_op_def controls_def)
next
  case (OMisc x)
  with assms show ?thesis by (cases x) (simp_all add: exec_op_def controls_def)
qed (simp_all add: exec_op_def)

text \<open>The temps an op reads are valid, so the meaning does not change when temps are added.\<close>

definition args_valid :: "nat \<Rightarrow> Op \<Rightarrow> bool" where
  "args_valid n op \<longleftrightarrow> (\<forall>t \<in> set (oargs op) \<union> set (iargs op). unat t < n)"

lemma zip_fst_subset: "set (map fst (zip xs ys)) \<subseteq> set xs"
  by (auto dest: set_zip_leftD)

end
