(* ===== verification/Optimize_Sound.thy ===== *)
theory Optimize_Sound
  imports Optimize
begin

text \<open>
  Soundness of the optimizer. \<open>info_ok\<close> says what the recorded infos mean in a state;
  \<open>opt_sound\<close> is the contract of rewriting one op (the new op does what the old one did and the
  new infos are true afterwards), shown for each fold function; \<open>opt_inv\<close> carries it along the
  loop. The last section shows by execution what happens outside the conditions of the theorem.
\<close>

section \<open>What the infos mean\<close>

text \<open>
  The infos agree with a state: a temp recorded as constant has that value at its type, a temp
  recorded as a copy has the type and the value of its source.
\<close>

definition info_ok :: "Temp list \<Rightarrow> 'm ir_state \<Rightarrow> TempInfo list \<Rightarrow> bool" where
  "info_ok ts st info \<longleftrightarrow>
     (\<forall>t. unat t < length ts \<longrightarrow>
        (ti_is_const (info ! unat t) \<longrightarrow> rd ts st t = trunc (t_ty (ts ! unat t)) (ti_val (info ! unat t))) \<and>
        (\<forall>s. ti_copy_of (info ! unat t) = Some s \<longrightarrow>
           unat s < length ts \<and> t_ty (ts ! unat s) = t_ty (ts ! unat t) \<and> rd ts st s = rd ts st t))"

text \<open>The part of it that does not depend on the state.\<close>

definition info_wf :: "Temp list \<Rightarrow> TempInfo list \<Rightarrow> bool" where
  "info_wf ts info \<longleftrightarrow> length info = length ts \<and>
     (\<forall>i < length ts. \<forall>s. ti_copy_of (info ! i) = Some s \<longrightarrow>
        unat s < length ts \<and> t_ty (ts ! unat s) = t_ty (ts ! i))"

lemma info_wf_weaken:
  assumes "info_wf ts info" "length info' = length info"
    "\<And>i s. i < length ts \<Longrightarrow> ti_copy_of (info' ! i) = Some s \<Longrightarrow> ti_copy_of (info ! i) = Some s"
  shows "info_wf ts info'"
  using assms unfolding info_wf_def by metis

definition copies :: "TempInfo list \<Rightarrow> tempidx set" where
  "copies info = {s. \<exists>x \<in> set info. ti_copy_of x = Some s}"

lemma copies_nth: "i < length info \<Longrightarrow> ti_copy_of (info ! i) = Some s \<Longrightarrow> s \<in> copies info"
  by (auto simp: copies_def)

text \<open>
  Writing one temp: the infos of the others may only lose knowledge and no longer name the
  written temp as a source; what is recorded for the written temp must be true of the new value.
\<close>

lemma info_ok_wr:
  assumes "info_ok ts st info" "length info' = length info" "length info = length ts"
    and "unat d < length ts" "\<not> is_const (ts ! unat d)"
    and const: "\<And>t. t \<noteq> d \<Longrightarrow> unat t < length ts \<Longrightarrow> ti_is_const (info' ! unat t) \<Longrightarrow>
      ti_is_const (info ! unat t) \<and> ti_val (info' ! unat t) = ti_val (info ! unat t)"
    and copy: "\<And>t s. t \<noteq> d \<Longrightarrow> unat t < length ts \<Longrightarrow> ti_copy_of (info' ! unat t) = Some s \<Longrightarrow>
      ti_copy_of (info ! unat t) = Some s \<and> s \<noteq> d"
    and dconst: "ti_is_const (info' ! unat d) \<Longrightarrow>
      trunc (t_ty (ts ! unat d)) v = trunc (t_ty (ts ! unat d)) (ti_val (info' ! unat d))"
    and dcopy: "\<And>s. ti_copy_of (info' ! unat d) = Some s \<Longrightarrow>
      unat s < length ts \<and> t_ty (ts ! unat s) = t_ty (ts ! unat d) \<and>
      rd ts (wr ts d v st) s = trunc (t_ty (ts ! unat d)) v"
  shows "info_ok ts (wr ts d v st) info'"
  unfolding info_ok_def
proof (intro allI impI)
  fix t :: tempidx assume t: "unat t < length ts"
  have d: "rd ts (wr ts d v st) d = trunc (t_ty (ts ! unat d)) v"
    using assms(5) by (rule rd_wr_same)
  show "(ti_is_const (info' ! unat t) \<longrightarrow>
      rd ts (wr ts d v st) t = trunc (t_ty (ts ! unat t)) (ti_val (info' ! unat t))) \<and>
    (\<forall>s. ti_copy_of (info' ! unat t) = Some s \<longrightarrow> unat s < length ts \<and>
      t_ty (ts ! unat s) = t_ty (ts ! unat t) \<and> rd ts (wr ts d v st) s = rd ts (wr ts d v st) t)"
  proof (cases "t = d")
    case True
    with dconst dcopy d show ?thesis by simp
  next
    case False
    with t const [of t] copy [of t] assms(1) show ?thesis by (simp add: info_ok_def)
  qed
qed

text \<open>The same when the state does not change, and when constants are appended to the temps.\<close>

lemma info_ok_weaken:
  assumes "info_ok ts st info"
    and "\<And>t :: tempidx. unat t < length ts \<Longrightarrow> ti_is_const (info' ! unat t) \<Longrightarrow>
      ti_is_const (info ! unat t) \<and> ti_val (info' ! unat t) = ti_val (info ! unat t)"
    and "\<And>(t :: tempidx) s. unat t < length ts \<Longrightarrow> ti_copy_of (info' ! unat t) = Some s \<Longrightarrow>
      ti_copy_of (info ! unat t) = Some s"
  shows "info_ok ts st info'"
  using assms unfolding info_ok_def by metis

lemma info_ok_mem [simp]: "info_ok ts (st\<lparr>mem := m\<rparr>) info = info_ok ts st info"
  by (simp add: info_ok_def)

section \<open>Invalidation\<close>

lemma length_drop_copies_of [simp]: "length (drop_copies_of t info) = length info"
  by (simp add: drop_copies_of_def)

lemma length_forget [simp]: "length (forget i info) = length info"
  by (simp add: forget_def)

lemma ensure_info_id [simp]: "i < length info \<Longrightarrow> ensure_info info i = info"
  by (simp add: ensure_info_def)

lemma ensure_info_Suc: "ensure_info info (length info) = info @ [ti_default]"
  by (simp add: ensure_info_def)

lemma drop_copies_of_nth:
  "i < length info \<Longrightarrow> drop_copies_of t info ! i =
     (if ti_copy_of (info ! i) = Some t then (info ! i)\<lparr>ti_copy_of := None\<rparr> else info ! i)"
  by (simp add: drop_copies_of_def)

lemma forget_nth:
  "i < length info \<Longrightarrow> forget j info ! i =
     (if i = j then (info ! i)\<lparr>ti_is_const := False, ti_copy_of := None\<rparr> else info ! i)"
  by (simp add: forget_def nth_list_update)

lemma copies_drop: "copies (drop_copies_of t info) = copies info - {t}"
  by (auto simp: copies_def drop_copies_of_def)

lemma copies_forget: "copies (forget i info) \<subseteq> copies info"
  using set_update_subset_insert [of info i] by (cases "i < length info") (fastforce simp: copies_def forget_def)+

lemma invalidate_wr:
  assumes "info_ok ts st info" "length info = length ts" "unat d < length ts" "\<not> is_const (ts ! unat d)"
  shows "info_ok ts (wr ts d v st) (drop_copies_of d (forget (unat d) info))"
  by (rule info_ok_wr [OF assms(1)])
    (use assms in \<open>auto simp: drop_copies_of_nth forget_nth unat_inject split: if_splits\<close>)


lemma info_wf_invalidate:
  assumes "info_wf ts info"
  shows "info_wf ts (drop_copies_of d (forget i info))"
  by (rule info_wf_weaken [OF assms])
    (use assms in \<open>auto simp: drop_copies_of_nth forget_nth info_wf_def split: if_splits\<close>)

section \<open>The ops the theorem is about\<close>

text \<open>
  \<open>folds\<close>: the opcodes with a fold function. An op is \<open>op_ok\<close> when its temps exist, it does not
  write a constant, and its operands are at least as wide as the operation (a 64-bit operation does
  not read a 32-bit temp). A \<open>Mov\<close> keeps the type. A branch is not a signed 32-bit comparison:
  \<open>eval_cond\<close> is wrong for those (\<open>folding_exact\<close>).
\<close>

definition folds :: "Opcode \<Rightarrow> bool" where
  "folds opc \<longleftrightarrow> opc \<in> {OMov Mov, OArith Neg, OLogic NotI} \<or> binary_folded opc \<or> opc \<in> range OConv"

lemma folds_code [code]:
  "folds opc \<longleftrightarrow> opc \<in> {OMov Mov, OArith Neg, OLogic NotI} \<or> binary_folded opc \<or>
     (case opc of OConv x \<Rightarrow> True | _ \<Rightarrow> False)"
  by (auto simp: folds_def split: Opcode.Opcode.splits)

definition wide :: "Temp list \<Rightarrow> Type \<Rightarrow> tempidx \<Rightarrow> bool" where
  "wide ts ty t \<longleftrightarrow> ty = I32 \<or> t_ty (ts ! unat t) \<noteq> I32"

definition types_ok :: "Temp list \<Rightarrow> Op \<Rightarrow> bool" where
  "types_ok ts op =
     (case o_opc op of
        OMov Mov \<Rightarrow> o_type op \<in> {I32, I64} \<and> t_ty (ts ! unat (o_args op ! 0)) = o_type op \<and>
                  t_ty (ts ! unat (o_args op ! 1)) = o_type op
      | OConv x \<Rightarrow> o_type op = ext_out_ty x \<and> (x = ExtrhI64I32 \<longrightarrow> t_ty (ts ! unat (o_args op ! 1)) \<noteq> I32)
      | OCtl BrCond \<Rightarrow> o_type op \<in> {I32, I64} \<and> (\<forall>t \<in> set (iargs op). wide ts (o_type op) t) \<and>
                     \<not> (o_type op = I32 \<and> cond_is_signed (cond_of (o_args op ! 2)))
      | opc \<Rightarrow> folds opc \<longrightarrow> o_type op \<in> {I32, I64} \<and> (\<forall>t \<in> set (iargs op). wide ts (o_type op) t))"

definition op_ok :: "Temp list \<Rightarrow> Op \<Rightarrow> bool" where
  "op_ok ts op \<longleftrightarrow> length (o_args op) = MAX_OP_ARGS \<and> args_valid (length ts) op \<and>
     (\<forall>t \<in> set (oargs op). \<not> is_const (ts ! unat t)) \<and> types_ok ts op"

lemma take1_drop: "i < length xs \<Longrightarrow> take 1 (drop i xs) = [xs ! i]"
  by (simp add: take_Suc_conv_app_nth)

lemma take2_drop: "Suc i < length xs \<Longrightarrow> take 2 (drop i xs) = [xs ! i, xs ! Suc i]"
  by (simp add: numeral_2_eq_2 take_Suc_conv_app_nth)

lemma binary_folded_def_of:
  "binary_folded opc \<Longrightarrow> nb_oargs (def_of opc) = 1 \<and> nb_iargs (def_of opc) = 2 \<and> nb_cargs (def_of opc) = 0"
  by (auto simp: binary_folded_def)

lemma args_of_binary:
  assumes "binary_folded (o_opc op)" "length (o_args op) = MAX_OP_ARGS"
  shows "oargs op = [o_args op ! 0]" "iargs op = [o_args op ! 1, o_args op ! 2]"
  using binary_folded_def_of [OF assms(1)] assms(2) take1_drop [of 0 "o_args op"] take2_drop [of 1 "o_args op"]
  by (simp_all add: oargs_def iargs_def MAX_OP_ARGS_def numeral_2_eq_2)

lemma args_of_unary:
  assumes "o_opc op \<in> {OMov Mov, OArith Neg, OLogic NotI} \<union> range OConv" "length (o_args op) = MAX_OP_ARGS"
  shows "oargs op = [o_args op ! 0]" "iargs op = [o_args op ! 1]"
proof -
  have "nb_oargs (def_of (OConv x)) = 1 \<and> nb_iargs (def_of (OConv x)) = 1" for x
    by (cases x) simp_all
  then have "nb_oargs (def_of (o_opc op)) = 1 \<and> nb_iargs (def_of (o_opc op)) = 1"
    using assms(1) by auto
  then show "oargs op = [o_args op ! 0]" "iargs op = [o_args op ! 1]"
    using assms(2) take1_drop [of 0 "o_args op"] take1_drop [of 1 "o_args op"]
    by (simp_all add: oargs_def iargs_def MAX_OP_ARGS_def)
qed

lemma exec_pure:
  assumes "folds (o_opc op)" "pure_val (o_opc op) (o_type op) (map (rd ts st) (iargs op)) = Some v"
  shows "exec_op sem ts op st = Next (wr ts (o_args op ! 0) v st)"
  using assms by (auto simp: exec_op_def folds_def binary_folded_def)

lemma pure_val_mov: "ty \<in> {I32, I64} \<Longrightarrow> pure_val (OMov Mov) ty [x] = Some (trunc ty x)"
  by (auto simp: pure_val_def at_width_def int_val_def trunc_I32 simp del: trunc.simps(1))

lemma exec_mov:
  assumes "o_opc op = OMov Mov" "o_type op \<in> {I32, I64}" "length (o_args op) = MAX_OP_ARGS"
  shows "exec_op sem ts op st = Next (wr ts (o_args op ! 0) (trunc (o_type op) (rd ts st (o_args op ! 1))) st)"
  using exec_pure [of op ts st] pure_val_mov assms args_of_unary(2) [of op] by (simp add: folds_def)

section \<open>Soundness of one rewrite\<close>

definition opt_sound :: "'m sem \<Rightarrow> tempidx set \<Rightarrow> opt_state \<Rightarrow> opt_state \<Rightarrow> bool" where
  "opt_sound sem S s s' =
     (case (s, s') of ((c, info, op), (c', info', op')) \<Rightarrow>
        (\<exists>us. temps c' = temps c @ us \<and> length us \<le> 1) \<and> ops c' = ops c \<and> ctx_wf c' \<and>
        info_wf (temps c') info' \<and> copies info' \<subseteq> S \<and>
        o_idx op' = o_idx op \<and> length (o_args op') = MAX_OP_ARGS \<and> args_valid (length (temps c')) op' \<and>
        (\<forall>st. info_ok (temps c) st info \<longrightarrow>
           exec_op sem (temps c') op' st = exec_op sem (temps c) op st \<and>
           (\<forall>st'. exec_op sem (temps c) op st = Next st' \<longrightarrow> info_ok (temps c') st' info')))"

text \<open>What every rewrite starts from.\<close>

definition pre_ok :: "opt_state \<Rightarrow> bool" where
  "pre_ok s = (case s of (c, info, op) \<Rightarrow> ctx_wf c \<and> room c \<and> info_wf (temps c) info \<and>
     length (o_args op) = MAX_OP_ARGS \<and> args_valid (length (temps c)) op)"

lemma args_valid_rewrite2:
  assumes "length (o_args op) = MAX_OP_ARGS" "unat d < n" "unat t < n" "opc \<in> {OMov Mov, OArith Neg}"
  shows "args_valid n (rewrite2 opc d t op)"
proof -
  have "length (o_args (rewrite2 opc d t op)) = MAX_OP_ARGS" using assms(1) by (simp add: rewrite2_def)
  with assms args_of_unary [of "rewrite2 opc d t op"]
  show ?thesis by (auto simp: args_valid_def rewrite2_def MAX_OP_ARGS_def)
qed

lemma rewrite2_simps [simp]:
  "o_opc (rewrite2 opc d t op) = opc" "o_type (rewrite2 opc d t op) = o_type op"
  "o_idx (rewrite2 opc d t op) = o_idx op"
  "length (o_args (rewrite2 opc d t op)) = length (o_args op)"
  "1 < length (o_args op) \<Longrightarrow> o_args (rewrite2 opc d t op) ! 0 = d"
  "1 < length (o_args op) \<Longrightarrow> o_args (rewrite2 opc d t op) ! Suc 0 = t"
  by (cases "o_args op"; simp add: rewrite2_def)+

lemma copies_invalidate_one: "unat d < length info \<Longrightarrow> copies (invalidate_one info d) \<subseteq> copies info"
  using copies_forget [of "unat d" info] by (auto simp: invalidate_one_def copies_drop)

lemma invalidate_one_wr:
  assumes "info_ok ts st info" "length info = length ts" "unat d < length ts" "\<not> is_const (ts ! unat d)"
  shows "info_ok ts (wr ts d v st) (invalidate_one info d)"
  using invalidate_wr [OF assms] assms(2,3) by (simp add: invalidate_one_def)

text \<open>An op replaced by one that writes the same value to the same temp, whose info is dropped.\<close>

lemma sound_invalidate:
  assumes "pre_ok (c, info, op)" "copies info \<subseteq> S" "unat d < length (temps c)" "\<not> is_const (temps c ! unat d)"
    and op': "o_idx op' = o_idx op" "length (o_args op') = MAX_OP_ARGS" "args_valid (length (temps c)) op'"
    and ex: "\<And>st. info_ok (temps c) st info \<Longrightarrow> \<exists>v. exec_op sem (temps c) op st = Next (wr (temps c) d v st) \<and>
      exec_op sem (temps c) op' st = Next (wr (temps c) d v st)"
  shows "opt_sound sem S (c, info, op) (c, invalidate_one info d, op')"
proof -
  have iw: "info_wf (temps c) info" "ctx_wf c" using assms(1) by (simp_all add: pre_ok_def)
  then have len: "length info = length (temps c)" "ctx_wf c" by (simp_all add: info_wf_def)
  have "exec_op sem (temps c) op' st = exec_op sem (temps c) op st \<and>
      (\<forall>st'. exec_op sem (temps c) op st = Next st' \<longrightarrow> info_ok (temps c) st' (invalidate_one info d))"
    if ok: "info_ok (temps c) st info" for st
    using ex [OF ok] invalidate_one_wr [OF ok len(1) assms(3,4)] by auto
  moreover have "copies (invalidate_one info d) \<subseteq> S"
    using copies_invalidate_one [of d info] assms(2,3) len(1) by auto
  moreover have "info_wf (temps c) (invalidate_one info d)"
    using info_wf_invalidate [OF iw(1)] len(1) assms(3) by (simp add: invalidate_one_def)
  ultimately show ?thesis using len(2) op' by (simp add: opt_sound_def)
qed


text \<open>An op replaced by a \<open>mov\<close> of the constant it computes.\<close>

lemma info_ok_const:
  fixes k :: tempidx
  assumes "info_ok ts st info" "length info = length ts" "ts' = ts @ us" "length us \<le> 1" "unat k < length ts'"
    "is_const (ts' ! unat k)" "trunc (t_ty (ts' ! unat k)) (t_val (ts' ! unat k)) = trunc (t_ty (ts' ! unat k)) v"
    "us = [] \<or> unat k = length ts"
  shows "info_ok ts' st ((ensure_info info (unat k))
      [unat k := (ensure_info info (unat k) ! unat k)\<lparr>ti_is_const := True, ti_val := v\<rparr>])"
proof -
  have k: "rd ts' st k = trunc (t_ty (ts' ! unat k)) v" using assms(6,7) by (simp add: rd_const)
  consider "us = []" | u where "us = [u]" "unat k = length ts"
    using assms(4,8) by (cases us) auto
  then show ?thesis
  proof cases
    case 1
    with assms(1-5) k show ?thesis
      by (auto simp: info_ok_def nth_list_update unat_inject split: if_splits)
  next
    case 2
    have "info_ok ts' st (info @ [ti_default\<lparr>ti_is_const := True, ti_val := v\<rparr>])"
      unfolding info_ok_def
    proof (intro allI impI)
      fix t :: tempidx assume t: "unat t < length ts'"
      show "(ti_is_const ((info @ [ti_default\<lparr>ti_is_const := True, ti_val := v\<rparr>]) ! unat t) \<longrightarrow>
          rd ts' st t = trunc (t_ty (ts' ! unat t))
            (ti_val ((info @ [ti_default\<lparr>ti_is_const := True, ti_val := v\<rparr>]) ! unat t))) \<and>
        (\<forall>s. ti_copy_of ((info @ [ti_default\<lparr>ti_is_const := True, ti_val := v\<rparr>]) ! unat t) = Some s \<longrightarrow>
          unat s < length ts' \<and> t_ty (ts' ! unat s) = t_ty (ts' ! unat t) \<and> rd ts' st s = rd ts' st t)"
      proof (cases "t = k")
        case True
        with k 2 assms(2) show ?thesis by (simp add: nth_append ti_default_def)
      next
        case False
        then have "unat t \<noteq> length ts" using 2 unat_inject [of t k] by simp
        then have "unat t < length ts" using t 2 assms(3) by simp
        then show ?thesis using assms(1-3) by (auto simp: info_ok_def nth_append rd_append)
      qed
    qed
    with 2 assms(2) show ?thesis
      using ensure_info_Suc [of info] by (simp add: nth_append list_update_append)
  qed
qed


lemma copies_set_const:
  "unat d < length info \<Longrightarrow> copies (set_const info d v) \<subseteq> copies info"
  using set_update_subset_insert [of info "unat d" "\<lparr>ti_is_const = True, ti_val = v, ti_copy_of = None\<rparr>"]
  by (fastforce simp: copies_def set_const_def)

lemma set_const_wr:
  assumes "info_ok ts st info" "length info = length ts" "unat d < length ts" "\<not> is_const (ts ! unat d)"
    "d \<notin> copies info" "trunc (t_ty (ts ! unat d)) w = trunc (t_ty (ts ! unat d)) v"
  shows "info_ok ts (wr ts d w st) (set_const info d v)"
  by (rule info_ok_wr [OF assms(1)])
    (use assms copies_nth in \<open>auto simp: set_const_def unat_inject nth_list_update split: if_splits\<close>)

lemma copies_update_const:
  "copies ((ensure_info info i)[i := (ensure_info info i ! i)\<lparr>ti_is_const := b, ti_val := v\<rparr>]) \<subseteq> copies info"
proof -
  let ?x = "(ensure_info info i ! i)\<lparr>ti_is_const := b, ti_val := v\<rparr>"
  have i: "i < length (ensure_info info i)" by (auto simp: ensure_info_def)
  have base: "copies (ensure_info info i) = copies info"
    by (auto simp: copies_def ensure_info_def ti_default_def)
  have "ti_copy_of ?x = Some s \<Longrightarrow> s \<in> copies info" for s
    using copies_nth [OF i, of s] base by simp
  then show ?thesis
    using set_update_subset_insert [of "ensure_info info i" i ?x] base
    unfolding copies_def by fastforce
qed

lemma info_wf_const:
  assumes "info_wf ts info" "ts' = ts @ us" "length us \<le> 1" "unat k < length ts'" "us = [] \<or> unat k = length ts"
  shows "info_wf ts' ((ensure_info info (unat k))
      [unat k := (ensure_info info (unat k) ! unat k)\<lparr>ti_is_const := b, ti_val := v\<rparr>])"
proof -
  consider "us = []" | u where "us = [u]" "unat k = length ts" using assms(3,5) by (cases us) auto
  then show ?thesis
  proof cases
    case 1
    with assms show ?thesis by (auto simp: info_wf_def nth_list_update)
  next
    case 2
    with assms(1,2) ensure_info_Suc [of info] show ?thesis
      by (auto simp: info_wf_def nth_append nth_list_update ti_default_def less_Suc_eq split: if_splits)
  qed
qed

lemma info_wf_set_const:
  assumes "info_wf ts info" "unat d < length info"
  shows "info_wf ts (set_const info d v)"
  by (rule info_wf_weaken [OF assms(1)]) (use assms(2) in \<open>auto simp: set_const_def nth_list_update split: if_splits\<close>)

lemma sound_const:
  assumes pre: "pre_ok (c, info, op)" and "copies info \<subseteq> S" "unat d < length (temps c)" "\<not> is_const (temps c ! unat d)"
    and "d \<notin> copies info" "o_type op = ty" "ty \<in> {I32, I64}"
    and ex: "\<And>st. info_ok (temps c) st info \<Longrightarrow> exec_op sem (temps c) op st = Next (wr (temps c) d (trunc ty v) st)"
  shows "opt_sound sem S (c, info, op) (replace_with_const d v ty (c, info, op))"
proof -
  obtain k c' where new: "run_state (new_const ty (trunc ty v)) c = (k, c')" by fastforce
  have wf: "ctx_wf c" "room c" and iw: "info_wf (temps c) info"
    and len: "length info = length (temps c)" "length (o_args op) = MAX_OP_ARGS"
    using pre by (simp_all add: pre_ok_def info_wf_def)
  note nc = new_const_result [OF wf new]
  have wf': "ctx_wf c'" using ctx_wf_new_const [OF wf, of ty "trunc ty v"] new by simp
  obtain us where us: "temps c' = temps c @ us" "length us \<le> 1" "us = [] \<or> unat k = length (temps c)"
    using new wf by (cases "const_table c ty (trunc ty v)") (auto simp: new_const_def Let_def ctx_wf_def)
  let ?i1 = "ensure_info info (unat k)"
  let ?i2 = "?i1[unat k := (?i1 ! unat k)\<lparr>ti_is_const := True, ti_val := trunc ty v\<rparr>]"
  let ?op = "rewrite2 (OMov Mov) d k op"
  have i2: "length ?i2 = length (temps c')"
    using us nc(1) len(1) by (cases us) (auto simp: ensure_info_def)
  have d: "unat d < length (temps c')" "\<not> is_const (temps c' ! unat d)"
    using assms(3,4) us(1) by (simp_all add: nth_append)
  have cop: "copies ?i2 \<subseteq> copies info" by (rule copies_update_const)
  have "exec_op sem (temps c') ?op st = exec_op sem (temps c) op st \<and>
      (\<forall>st'. exec_op sem (temps c) op st = Next st' \<longrightarrow> info_ok (temps c') st' (set_const ?i2 d (trunc ty v)))"
    if ok: "info_ok (temps c) st info" for st
  proof -
    have "rd (temps c') st k = trunc ty v" using nc by (simp add: rd_const)
    then have "exec_op sem (temps c') ?op st = Next (wr (temps c') d (trunc ty v) st)"
      using exec_mov [of ?op sem "temps c'" st] assms(6,7) len(2) by (simp add: MAX_OP_ARGS_def)
    moreover have "wr (temps c') d (trunc ty v) st = wr (temps c) d (trunc ty v) st"
      using assms(3) us(1) by (simp add: wr_append)
    moreover have "info_ok (temps c') st ?i2"
      by (rule info_ok_const [OF ok len(1) us(1,2) nc(1,2) _ us(3)]) (simp add: nc)
    then have "info_ok (temps c') (wr (temps c') d (trunc ty v) st) (set_const ?i2 d (trunc ty v))"
      by (rule set_const_wr [OF _ i2 d]) (use cop assms(5) in auto)
    ultimately show ?thesis using ex [OF ok] by auto
  qed
  moreover have "copies (set_const ?i2 d (trunc ty v)) \<subseteq> S"
    using copies_set_const [of d ?i2] cop assms(2) d i2 by auto
  moreover have "info_wf (temps c') (set_const ?i2 d (trunc ty v))"
    by (rule info_wf_set_const [OF info_wf_const [OF iw us(1,2) nc(1) us(3)]]) (use d(1) i2 in simp)
  moreover have "args_valid (length (temps c')) ?op"
    using args_valid_rewrite2 [OF len(2) d(1) nc(1)] by simp
  ultimately show ?thesis
    using wf' us nc(7) len(2)
    by (auto simp: opt_sound_def replace_with_const_def new type_mask_trunc Let_def simp del: trunc.simps type_mask.simps)
qed


text \<open>An op replaced by a \<open>mov\<close> of another temp, or kept.\<close>

lemma sound_mov:
  assumes "pre_ok (c, info, op)" "copies info \<subseteq> S" "unat d < length (temps c)" "\<not> is_const (temps c ! unat d)"
    and "unat t < length (temps c)" "o_type op \<in> {I32, I64}"
    and ex: "\<And>st. info_ok (temps c) st info \<Longrightarrow>
      exec_op sem (temps c) op st = Next (wr (temps c) d (trunc (o_type op) (rd (temps c) st t)) st)"
  shows "opt_sound sem S (c, info, op) (replace_with_mov d t (c, info, op))"
proof -
  have len: "length (o_args op) = MAX_OP_ARGS" using assms(1) by (simp add: pre_ok_def)
  let ?op = "rewrite2 (OMov Mov) d t op"
  have "opt_sound sem S (c, info, op) (c, invalidate_one info d, ?op)"
  proof (rule sound_invalidate [OF assms(1-4)])
    show "\<exists>v. exec_op sem (temps c) op st = Next (wr (temps c) d v st) \<and>
        exec_op sem (temps c) ?op st = Next (wr (temps c) d v st)" if "info_ok (temps c) st info" for st
      using ex [OF that] exec_mov [of ?op sem "temps c" st] len assms(6) by (auto simp: MAX_OP_ARGS_def)
  qed (use len args_valid_rewrite2 [OF len assms(3,5)] in simp_all)
  then show ?thesis by (simp add: replace_with_mov_def)
qed

lemma sound_keep:
  assumes "pre_ok (c, info, op)" "copies info \<subseteq> S" "unat d < length (temps c)" "\<not> is_const (temps c ! unat d)"
    and ex: "\<And>st. info_ok (temps c) st info \<Longrightarrow> \<exists>v. exec_op sem (temps c) op st = Next (wr (temps c) d v st)"
  shows "opt_sound sem S (c, info, op) (c, invalidate_one info d, op)"
  by (rule sound_invalidate [OF assms(1-4)]) (use assms(1) ex in \<open>auto simp: pre_ok_def\<close>)

lemma ti_const_rd:
  assumes "info_ok ts st info" "length info = length ts" "unat t < length ts" "ti_is_const (ti info t)"
  shows "rd ts st t = trunc (t_ty (ts ! unat t)) (ti_val (ti info t))"
  using assms by (simp add: info_ok_def ti_def)

lemma ti_const_wide:
  assumes "info_ok ts st info" "length info = length ts" "unat t < length ts" "ti_is_const (ti info t)"
    "wide ts ty t" "ty \<in> {I32, I64}"
  shows "trunc ty (rd ts st t) = trunc ty (ti_val (ti info t))"
  using ti_const_rd [OF assms(1-4)] assms(5,6)
  by (cases "t_ty (ts ! unat t)") (auto simp: wide_def and.assoc)

section \<open>The fold functions\<close>

lemma op_ok_dst:
  assumes "op_ok ts op" "folds (o_opc op)"
  shows "unat (o_args op ! 0) < length ts" "\<not> is_const (ts ! unat (o_args op ! 0))"
    "\<forall>t \<in> set (iargs op). unat t < length ts" "length (o_args op) = MAX_OP_ARGS"
proof -
  have len: "length (o_args op) = MAX_OP_ARGS" using assms(1) by (simp add: op_ok_def)
  have "o_args op ! 0 \<in> set (oargs op)"
    using args_of_binary(1) [OF _ len] args_of_unary(1) [OF _ len] assms(2) by (auto simp: folds_def)
  with assms(1) show "unat (o_args op ! 0) < length ts" "\<not> is_const (ts ! unat (o_args op ! 0))"
    "\<forall>t \<in> set (iargs op). unat t < length ts" "length (o_args op) = MAX_OP_ARGS"
    by (auto simp: op_ok_def args_valid_def)
qed

lemma sound_fold_mov:
  assumes pre: "pre_ok (c, info, op)" and ok: "op_ok (temps c) op" and opc: "o_opc op = OMov Mov"
    and S: "insert (o_args op ! 1) (copies info) \<subseteq> S" and d: "o_args op ! 0 \<notin> copies info"
  shows "opt_sound sem S (c, info, op) (fold_mov (o_args op) (o_type op) (c, info, op))"
proof -
  let ?d = "o_args op ! 0" and ?s = "o_args op ! 1" and ?ty = "o_type op"
  have f: "folds (o_opc op)" using opc by (simp add: folds_def)
  note dst = op_ok_dst [OF ok f]
  have src: "unat ?s < length (temps c)" using dst(3,4) args_of_unary(2) [of op] opc by simp
  have wf: "ctx_wf c" and iw: "info_wf (temps c) info" and len: "length info = length (temps c)"
    using pre by (simp_all add: pre_ok_def info_wf_def)
  have ty: "?ty \<in> {I32, I64}" "t_ty (temps c ! unat ?d) = ?ty" "t_ty (temps c ! unat ?s) = ?ty"
    using ok opc by (simp_all add: op_ok_def types_ok_def)
  have ex: "exec_op sem (temps c) op st = Next (wr (temps c) ?d (rd (temps c) st ?s) st)" for st
    using exec_mov [OF opc ty(1) dst(4), of sem "temps c" st] rd_trunc [of "temps c" ?s st] unfolding ty(3) by simp
  let ?ci = "info[unat ?d := (info ! unat ?d)\<lparr>ti_is_const := False, ti_copy_of := Some ?s\<rparr>]"
  have copy: "info_ok (temps c) (wr (temps c) ?d (rd (temps c) st ?s) st) ?ci"
    if io: "info_ok (temps c) st info" for st
  proof (rule info_ok_wr [OF io])
    show "unat s < length (temps c) \<and> t_ty (temps c ! unat s) = t_ty (temps c ! unat ?d) \<and>
        rd (temps c) (wr (temps c) ?d (rd (temps c) st ?s) st) s = trunc (t_ty (temps c ! unat ?d)) (rd (temps c) st ?s)"
      if "ti_copy_of (?ci ! unat ?d) = Some s" for s
    proof -
      have "s = ?s" using that dst(1) len by simp
      then show ?thesis using src ty dst(2) rd_trunc [of "temps c" ?s st]
        by (cases "?s = ?d") (simp_all add: rd_wr_same)
    qed
  qed (use dst len d copies_nth in \<open>auto simp: nth_list_update unat_inject split: if_splits\<close>)
  have const: "info_ok (temps c) (wr (temps c) ?d (rd (temps c) st ?s) st) (set_const info ?d (trunc ?ty (ti_val (ti info ?s))))"
    if io: "info_ok (temps c) st info" "ti_is_const (ti info ?s)" for st
    by (rule set_const_wr [OF io(1) len dst(1,2) d]) (use ti_const_rd [OF io(1) len src io(2)] ty in simp)
  have "copies ?ci \<subseteq> S"
    using S set_update_subset_insert [of info "unat ?d" "(info ! unat ?d)\<lparr>ti_is_const := False, ti_copy_of := Some ?s\<rparr>"]
    unfolding copies_def by fastforce
  moreover have "copies (set_const info ?d v) \<subseteq> S" "info_wf (temps c) (set_const info ?d v)" for v
    using copies_set_const [of ?d info v] info_wf_set_const [OF iw] S dst(1) len by auto
  moreover have "info_wf (temps c) ?ci"
    using iw src dst(1) ty by (auto simp: info_wf_def nth_list_update)
  ultimately show ?thesis
    using pre dst(1) len ex copy const
    by (auto simp: opt_sound_def fold_mov_def set_copy_def pre_ok_def type_mask_trunc Let_def
      simp del: trunc.simps type_mask.simps)
qed

lemma types_ok_plain:
  assumes "binary_folded (o_opc op) \<or> o_opc op \<in> {OArith Neg, OLogic NotI}" "types_ok ts op"
  shows "o_type op \<in> {I32, I64} \<and> (\<forall>t \<in> set (iargs op). wide ts (o_type op) t)"
proof -
  have "folds (o_opc op)" using assms(1) by (auto simp: folds_def)
  with assms show ?thesis by (cases "o_opc op") (auto simp: types_ok_def binary_folded_def)
qed

lemma pure_val_unary:
  assumes "opc \<in> {OArith Neg, OLogic NotI}" "ty \<in> {I32, I64}"
  shows "\<exists>v. unary_val opc x = Some v \<and> pure_val opc ty [x] = Some (trunc ty v)"
  using assms
  by (auto simp: unary_val_def pure_val_def at_width_def int_val_def trunc_I32 ucast_arith32 ucast_logic32
    simp del: trunc.simps(1))

lemma unary_val_trunc:
  assumes "trunc ty x = trunc ty y" "ty \<in> {I32, I64}" "unary_val opc x = Some v" "unary_val opc y = Some w"
  shows "trunc ty v = trunc ty w"
proof -
  have eq: "(ucast x :: u32) = ucast y \<or> x = y" "ty = I32 \<Longrightarrow> (ucast x :: u32) = ucast y"
    using assms(1,2) by (auto simp: trunc_I32 ucast_u64_inject simp del: trunc.simps(1))
  with assms show ?thesis
    by (auto simp: unary_val_def trunc_I32 ucast_arith32 ucast_logic32
      split: Opcode.Opcode.splits ArithOp.splits LogicOp.splits simp del: trunc.simps(1))
qed

lemma sound_fold_unary:
  assumes pre: "pre_ok (c, info, op)" and ok: "op_ok (temps c) op" and opc: "o_opc op \<in> {OArith Neg, OLogic NotI}"
    and S: "copies info \<subseteq> S" and d: "o_args op ! 0 \<notin> copies info"
  shows "\<exists>s'. fold_unary (o_opc op) (o_args op) (o_type op) (c, info, op) = Some s' \<and> opt_sound sem S (c, info, op) s'"
proof -
  let ?s = "o_args op ! 1" and ?ty = "o_type op"
  have f: "folds (o_opc op)" using opc by (auto simp: folds_def)
  note dst = op_ok_dst [OF ok f]
  have args: "iargs op = [?s]" using args_of_unary(2) [OF _ dst(4)] opc by auto
  have ty: "?ty \<in> {I32, I64}" "wide (temps c) ?ty ?s"
    using ok f args types_ok_plain [of op "temps c"] opc by (auto simp: op_ok_def)
  have src: "unat ?s < length (temps c)" using dst(3) args by simp
  have len: "length info = length (temps c)" using pre by (simp add: pre_ok_def info_wf_def)
  have ex: "\<exists>v. unary_val (o_opc op) (rd (temps c) st ?s) = Some v \<and>
      exec_op sem (temps c) op st = Next (wr (temps c) (o_args op ! 0) (trunc ?ty v) st)" for st
    using pure_val_unary [OF opc ty(1), of "rd (temps c) st ?s"] exec_pure [OF f, of "temps c" st] args by auto
  show ?thesis
  proof (cases "ti_is_const (ti info ?s)")
    case True
    obtain w where w: "unary_val (o_opc op) (ti_val (ti info ?s)) = Some w"
      using pure_val_unary [OF opc ty(1)] by blast
    have "opt_sound sem S (c, info, op) (replace_with_const (o_args op ! 0) (trunc ?ty w) ?ty (c, info, op))"
    proof (rule sound_const [OF pre S dst(1,2) d refl ty(1)])
      fix st :: "'a ir_state" assume io: "info_ok (temps c) st info"
      from ex [of st] obtain v where v: "unary_val (o_opc op) (rd (temps c) st ?s) = Some v"
        "exec_op sem (temps c) op st = Next (wr (temps c) (o_args op ! 0) (trunc ?ty v) st)" by blast
      with unary_val_trunc [OF ti_const_wide [OF io len src True ty(2,1)] ty(1) v(1) w]
      show "exec_op sem (temps c) op st = Next (wr (temps c) (o_args op ! 0) (trunc ?ty (trunc ?ty w)) st)" by simp
    qed
    with True w show ?thesis
      by (simp add: fold_unary_def Let_def type_mask_trunc del: trunc.simps type_mask.simps)
  next
    case False
    have "opt_sound sem S (c, info, op) (c, invalidate_one info (o_args op ! 0), op)"
      by (rule sound_keep [OF pre S dst(1,2)]) (use ex in blast)
    with False show ?thesis by (simp add: fold_unary_def Let_def)
  qed
qed

lemma ext_val_conv:
  assumes "x = ExtrhI64I32 \<Longrightarrow> ty \<noteq> I32"
  shows "conv_val x (trunc ty v) = trunc (ext_out_ty x) (ext_val x v)"
proof -
  have "ucast (trunc ty v) = (ucast v :: u32)" by (cases ty) (simp_all add: trunc_I32 del: trunc.simps(1))
  moreover have "drop_bit 32 v = trunc I32 (drop_bit 32 v)"
    unfolding trunc_I32 by (rule bit_word_eqI) (auto simp: bit_unsigned_iff bit_drop_bit_eq dest: bit_imp_le_length)
  moreover have "x = ExtrhI64I32 \<Longrightarrow> trunc ty v = v" using assms by (cases ty) simp_all
  moreover have "w AND 0xFFFFFFFF = trunc I32 w" for w by simp
  ultimately show ?thesis
    by (cases x) (simp_all add: ext_out_ty_def trunc_I32 del: trunc.simps(1))
qed

lemma sound_fold_ext:
  assumes pre: "pre_ok (c, info, op)" and ok: "op_ok (temps c) op" and opc: "o_opc op = OConv x"
    and S: "copies info \<subseteq> S" and d: "o_args op ! 0 \<notin> copies info"
  shows "opt_sound sem S (c, info, op) (fold_ext x (o_args op) (c, info, op))"
proof -
  let ?s = "o_args op ! 1" and ?ty = "o_type op"
  have f: "folds (o_opc op)" using opc by (auto simp: folds_def)
  note dst = op_ok_dst [OF ok f]
  have args: "iargs op = [?s]" using args_of_unary(2) [OF _ dst(4)] opc by auto
  have ty: "?ty = ext_out_ty x" "x = ExtrhI64I32 \<Longrightarrow> t_ty (temps c ! unat ?s) \<noteq> I32"
    using ok opc by (simp_all add: op_ok_def types_ok_def)
  have src: "unat ?s < length (temps c)" using dst(3) args by simp
  have len: "length info = length (temps c)" using pre by (simp add: pre_ok_def info_wf_def)
  have ex: "exec_op sem (temps c) op st = Next (wr (temps c) (o_args op ! 0) (conv_val x (rd (temps c) st ?s)) st)" for st
    using exec_pure [OF f, of "temps c" st] opc args by (simp add: pure_val_def)
  show ?thesis
  proof (cases "ti_is_const (ti info ?s)")
    case True
    have "opt_sound sem S (c, info, op)
        (replace_with_const (o_args op ! 0) (ext_val x (ti_val (ti info ?s))) (ext_out_ty x) (c, info, op))"
    proof (rule sound_const [OF pre S dst(1,2) d ty(1)])
      fix st :: "'a ir_state" assume io: "info_ok (temps c) st info"
      show "exec_op sem (temps c) op st = Next (wr (temps c) (o_args op ! 0)
          (trunc (ext_out_ty x) (ext_val x (ti_val (ti info ?s)))) st)"
        unfolding ex ti_const_rd [OF io len src True] by (subst ext_val_conv) (use ty(2) in auto)
    qed (simp add: ext_out_ty_def)
    with True show ?thesis by (simp add: fold_ext_def Let_def)
  next
    case False
    then show ?thesis
      using sound_keep [OF pre S dst(1,2)] ex by (auto simp: fold_ext_def Let_def)
  qed
qed

text \<open>The algebraic identities, at the width of the operation.\<close>

lemma ucast_all_ones: "(ucast (- 1 :: u32) :: u64) = 0xFFFFFFFF"
  by (simp add: unsigned_minus_1_eq_mask mask_eq_exp_minus_1)

lemma trunc_eq_I32:
  "trunc I32 y = 0 \<longleftrightarrow> (ucast y :: u32) = 0" "trunc I32 y = 1 \<longleftrightarrow> (ucast y :: u32) = 1"
  "trunc I32 y = 0xFFFFFFFF \<longleftrightarrow> (ucast y :: u32) = - 1"
proof -
  have "(ucast (0 :: u32) :: u64) = 0" "(ucast (1 :: u32) :: u64) = 1" "(ucast (- 1 :: u32) :: u64) = 0xFFFFFFFF"
    by (simp_all add: ucast_all_ones)
  then show "trunc I32 y = 0 \<longleftrightarrow> (ucast y :: u32) = 0" "trunc I32 y = 1 \<longleftrightarrow> (ucast y :: u32) = 1"
    "trunc I32 y = 0xFFFFFFFF \<longleftrightarrow> (ucast y :: u32) = - 1"
    unfolding trunc_I32 by (metis ucast_u64_inject)+
qed

lemma word_rot_0 [simp]: "word_rotl 0 a = a" "word_rotr 0 a = (a :: 'a::len word)"
  by (rule bit_word_eqI; simp add: bit_word_rotl_iff bit_word_rotr_iff)+

lemma int_val_right:
  fixes a :: "'a::len word"
  shows "opc \<in> {OArith Add, OArith Sub, OLogic Or, OLogic Xor, OShift Shl, OShift Shr, OShift Sar, OShift RotL, OShift RotR}
      \<Longrightarrow> int_val opc [a, 0] = Some a"
    "opc \<in> {OArith Mul, OLogic And} \<Longrightarrow> int_val opc [a, 0] = Some 0"
    "int_val (OArith Mul) [a, 1] = Some a" "int_val (OLogic And) [a, - 1] = Some a"
    "int_val (OLogic Or) [a, - 1] = Some (- 1)" "int_val (OLogic AndC) [a, - 1] = Some 0"
  by (auto simp: int_val_def shift_val_def)

lemma int_val_left:
  fixes a :: "'a::len word"
  shows "int_val (OArith Add) [0, a] = Some a" "int_val (OArith Sub) [0, a] = Some (- a)"
    "int_val (OArith Mul) [0, a] = Some 0" "int_val (OLogic And) [0, a] = Some 0"
    "int_val (OLogic Or) [- 1, a] = Some (- 1)"
  by (simp_all add: int_val_def)

lemma int_val_same:
  fixes a :: "'a::len word"
  shows "opc \<in> {OLogic And, OLogic Or} \<Longrightarrow> int_val opc [a, a] = Some a"
    "opc \<in> {OLogic Xor, OArith Sub} \<Longrightarrow> int_val opc [a, a] = Some 0"
  by (auto simp: int_val_def)

lemma pure_val_binary:
  "binary_folded opc \<Longrightarrow> ty \<in> {I32, I64} \<Longrightarrow> pure_val opc ty [x, y] =
     (if ty = I32 then map_option ucast (int_val opc [ucast x, ucast y :: u32]) else int_val opc [x, y])"
  by (auto simp: pure_val_def at_width_def binary_folded_def)

lemma pure_val_eval:
  assumes "binary_folded opc" "ty \<in> {I32, I64}"
  shows "pure_val opc ty [x, y] = eval_binary opc (trunc ty x) (trunc ty y) ty"
  using assms eval_binary_I32 [of opc x y] eval_binary_I64 [of opc x y] pure_val_binary [OF assms]
  by auto

lemma eval_binary_trunc: "eval_binary opc a b ty = Some v \<Longrightarrow> trunc ty v = v"
  by (auto simp: eval_binary_def type_mask_trunc simp del: trunc.simps type_mask.simps)

lemma pure_val_total:
  assumes "binary_folded opc" "ty \<in> {I32, I64}"
  shows "\<exists>v. pure_val opc ty [x, y] = Some v"
proof -
  have "\<exists>v. int_val opc [a, b :: 'b::len word] = Some v" for a b
    using assms(1) by (auto simp: binary_folded_def int_val_def shift_val_def Let_def)
  then show ?thesis unfolding pure_val_binary [OF assms] by (metis option.simps(9))
qed

lemma simplify_right_val:
  assumes ty: "ty \<in> {I32, I64}" and y: "trunc ty y = b"
  shows "opc \<in> {OArith Add, OArith Sub, OLogic Or, OLogic Xor, OShift Shl, OShift Shr, OShift Sar, OShift RotL, OShift RotR}
      \<Longrightarrow> b = 0 \<Longrightarrow> pure_val opc ty [x, y] = Some (trunc ty x)"
    "opc \<in> {OArith Mul, OLogic And} \<Longrightarrow> b = 0 \<Longrightarrow> pure_val opc ty [x, y] = Some 0"
    "opc = OArith Mul \<Longrightarrow> b = 1 \<Longrightarrow> pure_val opc ty [x, y] = Some (trunc ty x)"
    "opc = OLogic And \<Longrightarrow> b = type_mask ty \<Longrightarrow> pure_val opc ty [x, y] = Some (trunc ty x)"
    "opc = OLogic Or \<Longrightarrow> b = type_mask ty \<Longrightarrow> pure_val opc ty [x, y] = Some (type_mask ty)"
    "opc = OLogic AndC \<Longrightarrow> b = type_mask ty \<Longrightarrow> pure_val opc ty [x, y] = Some 0"
proof -
  have "ty = I32 \<Longrightarrow> b = 0 \<Longrightarrow> (ucast y :: u32) = 0" "ty = I32 \<Longrightarrow> b = 1 \<Longrightarrow> (ucast y :: u32) = 1"
    "ty = I32 \<Longrightarrow> b = 0xFFFFFFFF \<Longrightarrow> (ucast y :: u32) = - 1"
    "ty = I64 \<Longrightarrow> y = b" "binary_folded opc' \<Longrightarrow> pure_val opc' ty [x, y] =
     (if ty = I32 then map_option ucast (int_val opc' [ucast x, ucast y :: u32]) else int_val opc' [x, y])" for opc'
    using y trunc_eq_I32 [of y] pure_val_binary ty by auto
  note facts = this
  show "opc \<in> {OArith Add, OArith Sub, OLogic Or, OLogic Xor, OShift Shl, OShift Shr, OShift Sar, OShift RotL, OShift RotR}
      \<Longrightarrow> b = 0 \<Longrightarrow> pure_val opc ty [x, y] = Some (trunc ty x)"
    using facts(1,4) facts(5) [of opc] ty int_val_right(1) [of opc x] int_val_right(1) [of opc "ucast x :: u32"]
    by (auto simp: trunc_I32 binary_folded_def simp del: trunc.simps(1))
  show "opc \<in> {OArith Mul, OLogic And} \<Longrightarrow> b = 0 \<Longrightarrow> pure_val opc ty [x, y] = Some 0"
    using facts(1,4) facts(5) [of opc] ty int_val_right(2) [of opc x] int_val_right(2) [of opc "ucast x :: u32"]
    by (auto simp: binary_folded_def)
  show "opc = OArith Mul \<Longrightarrow> b = 1 \<Longrightarrow> pure_val opc ty [x, y] = Some (trunc ty x)"
    "opc = OLogic And \<Longrightarrow> b = type_mask ty \<Longrightarrow> pure_val opc ty [x, y] = Some (trunc ty x)"
    "opc = OLogic Or \<Longrightarrow> b = type_mask ty \<Longrightarrow> pure_val opc ty [x, y] = Some (type_mask ty)"
    "opc = OLogic AndC \<Longrightarrow> b = type_mask ty \<Longrightarrow> pure_val opc ty [x, y] = Some 0"
    using facts(2-4) facts(5) [of opc] ty
    by (auto simp: int_val_right trunc_I32 ucast_all_ones binary_folded_def simp del: trunc.simps(1))
qed

lemma simplify_left_val:
  assumes ty: "ty \<in> {I32, I64}" and y: "trunc ty x = a"
  shows "opc = OArith Add \<Longrightarrow> a = 0 \<Longrightarrow> pure_val opc ty [x, y] = Some (trunc ty y)"
    "opc = OArith Sub \<Longrightarrow> a = 0 \<Longrightarrow> pure_val opc ty [x, y] = pure_val (OArith Neg) ty [y]"
    "opc \<in> {OArith Mul, OLogic And} \<Longrightarrow> a = 0 \<Longrightarrow> pure_val opc ty [x, y] = Some 0"
    "opc = OLogic Or \<Longrightarrow> a = type_mask ty \<Longrightarrow> pure_val opc ty [x, y] = Some (type_mask ty)"
proof -
  have "ty = I32 \<Longrightarrow> a = 0 \<Longrightarrow> (ucast x :: u32) = 0" 
    "ty = I32 \<Longrightarrow> a = 0xFFFFFFFF \<Longrightarrow> (ucast x :: u32) = - 1"
    "ty = I64 \<Longrightarrow> x = a" "binary_folded opc' \<Longrightarrow> pure_val opc' ty [x, y] =
     (if ty = I32 then map_option ucast (int_val opc' [ucast x, ucast y :: u32]) else int_val opc' [x, y])" for opc'
    using y trunc_eq_I32 [of x] pure_val_binary ty by auto
  note facts = this
  show "opc = OArith Add \<Longrightarrow> a = 0 \<Longrightarrow> pure_val opc ty [x, y] = Some (trunc ty y)"
    "opc = OArith Sub \<Longrightarrow> a = 0 \<Longrightarrow> pure_val opc ty [x, y] = pure_val (OArith Neg) ty [y]"
    "opc \<in> {OArith Mul, OLogic And} \<Longrightarrow> a = 0 \<Longrightarrow> pure_val opc ty [x, y] = Some 0"
    "opc = OLogic Or \<Longrightarrow> a = type_mask ty \<Longrightarrow> pure_val opc ty [x, y] = Some (type_mask ty)"
    using facts(1-3) facts(4) [of opc] ty
    by (auto simp: int_val_left trunc_I32 ucast_all_ones binary_folded_def pure_val_def at_width_def int_val_def simp del: trunc.simps(1))
qed

lemma same_val:
  assumes "ty \<in> {I32, I64}"
  shows "opc \<in> {OLogic And, OLogic Or} \<Longrightarrow> pure_val opc ty [x, x] = Some (trunc ty x)"
    "opc \<in> {OLogic Xor, OArith Sub} \<Longrightarrow> pure_val opc ty [x, x] = Some 0"
  using assms
  by (auto simp: pure_val_binary binary_folded_def int_val_same trunc_I32 simp del: trunc.simps(1))

lemma trunc_mask: "trunc ty (type_mask ty) = type_mask ty" "trunc ty 0 = 0"
  by (cases ty; simp)+

lemma simplify_right_cases:
  assumes ty: "ty \<in> {I32, I64}" and r: "simplify_right opc d a b ty s = Some s'"
  obtains (mov) "s' = replace_with_mov d a s" "\<And>x y. trunc ty y = b \<Longrightarrow> pure_val opc ty [x, y] = Some (trunc ty x)"
    | (const) v where "trunc ty v = v" "s' = replace_with_const d v ty s"
        "\<And>x y. trunc ty y = b \<Longrightarrow> pure_val opc ty [x, y] = Some v"
proof -
  note val = simplify_right_val [OF ty]
  from r consider "s' = replace_with_mov d a s" "opc \<in> {OArith Add, OArith Sub, OLogic Or, OLogic Xor, OShift Shl,
      OShift Shr, OShift Sar, OShift RotL, OShift RotR}" "b = 0"
    | "s' = replace_with_const d 0 ty s" "opc \<in> {OArith Mul, OLogic And}" "b = 0"
    | "s' = replace_with_mov d a s" "opc = OArith Mul" "b = 1"
    | "s' = replace_with_mov d a s" "opc = OLogic And" "b = type_mask ty"
    | "s' = replace_with_const d (type_mask ty) ty s" "opc = OLogic Or" "b = type_mask ty"
    | "s' = replace_with_const d 0 ty s" "opc = OLogic AndC" "b = type_mask ty"
    unfolding simplify_right_def Let_def by (auto split: if_splits)
  then show thesis
  proof cases
    case 1 show ?thesis by (rule mov [OF 1(1) val(1) [OF _ 1(2,3)]])
  next
    case 2 show ?thesis by (rule const [OF trunc_mask(2) 2(1) val(2) [OF _ 2(2,3)]])
  next
    case 3 show ?thesis by (rule mov [OF 3(1) val(3) [OF _ 3(2,3)]])
  next
    case 4 show ?thesis by (rule mov [OF 4(1) val(4) [OF _ 4(2,3)]])
  next
    case 5 show ?thesis by (rule const [OF trunc_mask(1) 5(1) val(5) [OF _ 5(2,3)]])
  next
    case 6 show ?thesis by (rule const [OF trunc_mask(2) 6(1) val(6) [OF _ 6(2,3)]])
  qed
qed

lemma simplify_left_cases:
  assumes ty: "ty \<in> {I32, I64}" and r: "simplify_left opc d b a ty (c, info, op) = Some s'"
  obtains (mov) "s' = replace_with_mov d b (c, info, op)"
      "\<And>x y. trunc ty x = a \<Longrightarrow> pure_val opc ty [x, y] = Some (trunc ty y)"
    | (neg) "s' = (c, invalidate_one info d, rewrite2 (OArith Neg) d b op)"
      "\<And>x y. trunc ty x = a \<Longrightarrow> pure_val opc ty [x, y] = pure_val (OArith Neg) ty [y]"
    | (const) v where "trunc ty v = v" "s' = replace_with_const d v ty (c, info, op)"
      "\<And>x y. trunc ty x = a \<Longrightarrow> pure_val opc ty [x, y] = Some v"
proof -
  note val = simplify_left_val [OF ty]
  from r consider "s' = replace_with_mov d b (c, info, op)" "opc = OArith Add" "a = 0"
    | "s' = (c, invalidate_one info d, rewrite2 (OArith Neg) d b op)" "opc = OArith Sub" "a = 0"
    | "s' = replace_with_const d 0 ty (c, info, op)" "opc \<in> {OArith Mul, OLogic And}" "a = 0"
    | "s' = replace_with_const d (type_mask ty) ty (c, info, op)" "opc = OLogic Or" "a = type_mask ty"
    unfolding simplify_left_def Let_def by (auto split: if_splits)
  then show thesis
  proof cases
    case 1 show ?thesis by (rule mov [OF 1(1) val(1) [OF _ 1(2,3)]])
  next
    case 2 show ?thesis by (rule neg [OF 2(1) val(2) [OF _ 2(2,3)]])
  next
    case 3 show ?thesis by (rule const [OF trunc_mask(2) 3(1) val(3) [OF _ 3(2,3)]])
  next
    case 4 show ?thesis by (rule const [OF trunc_mask(1) 4(1) val(4) [OF _ 4(2,3)]])
  qed
qed

text \<open>
  What a binary op of the pass starts from: its operands, the infos of its operands, and what it
  computes in every state the infos agree with.
\<close>

lemma sound_try_simplify:
  fixes sem :: "'m sem"
  assumes pre: "pre_ok (c, info, op)" and S: "copies info \<subseteq> S"
    and d: "unat d < length (temps c)" "\<not> is_const (temps c ! unat d)" "d \<notin> copies info"
    and ab: "unat a < length (temps c)" "unat b < length (temps c)" "wide (temps c) (o_type op) a" "wide (temps c) (o_type op) b"
    and ty: "o_type op \<in> {I32, I64}"
    and ex: "\<And>st v. pure_val opc (o_type op) [rd (temps c) st a, rd (temps c) st b] = Some v \<Longrightarrow>
      exec_op sem (temps c) op st = Next (wr (temps c) d v st)"
    and r: "try_simplify opc d a b (ti info a) (ti info b) (o_type op) (c, info, op) = Some s'"
  shows "opt_sound sem S (c, info, op) s'"
proof -
  let ?ty = "o_type op"
  have len: "length info = length (temps c)" "length (o_args op) = MAX_OP_ARGS" using pre by (simp_all add: pre_ok_def info_wf_def)
  have mov: "opt_sound sem S (c, info, op) (replace_with_mov d t (c, info, op))"
    if "unat t < length (temps c)"
      "\<And>st :: 'm ir_state. info_ok (temps c) st info \<Longrightarrow>
         pure_val opc ?ty [rd (temps c) st a, rd (temps c) st b] = Some (trunc ?ty (rd (temps c) st t))" for t
    by (rule sound_mov [OF pre S d(1,2) that(1) ty]) (use that(2) ex in blast)
  have const: "opt_sound sem S (c, info, op) (replace_with_const d v ?ty (c, info, op))"
    if "trunc ?ty v = v" "\<And>st :: 'm ir_state. info_ok (temps c) st info \<Longrightarrow>
         pure_val opc ?ty [rd (temps c) st a, rd (temps c) st b] = Some v" for v
    by (rule sound_const [OF pre S d refl ty]) (use that ex in simp)
  have neg: "opt_sound sem S (c, info, op) (c, invalidate_one info d, rewrite2 (OArith Neg) d b op)"
    if "\<And>st :: 'm ir_state. info_ok (temps c) st info \<Longrightarrow> pure_val opc ?ty [rd (temps c) st a, rd (temps c) st b] =
      pure_val (OArith Neg) ?ty [rd (temps c) st b]"
  proof (rule sound_invalidate [OF pre S d(1,2)])
    fix st :: "'m ir_state" assume io: "info_ok (temps c) st info"
    let ?op = "rewrite2 (OArith Neg) d b op"
    obtain v where v: "pure_val (OArith Neg) ?ty [rd (temps c) st b] = Some v"
      using pure_val_unary [of "OArith Neg" ?ty] ty by fastforce
    have "iargs ?op = [b]" using args_of_unary(2) [of ?op] len(2) by (simp add: MAX_OP_ARGS_def)
    then have "exec_op sem (temps c) ?op st = Next (wr (temps c) d v st)"
      using exec_pure [of ?op "temps c" st v sem] v len(2) by (simp add: folds_def MAX_OP_ARGS_def)
    with ex [of st v] that [OF io] v
    show "\<exists>v. exec_op sem (temps c) op st = Next (wr (temps c) d v st) \<and>
        exec_op sem (temps c) ?op st = Next (wr (temps c) d v st)" by auto
  qed (use len args_valid_rewrite2 [OF len(2) d(1) ab(2)] in simp_all)
  show ?thesis
  proof (cases "ti_is_const (ti info b) \<and> simplify_right opc d a (trunc ?ty (ti_val (ti info b))) ?ty (c, info, op) \<noteq> None")
    case True
    then have cb: "ti_is_const (ti info b)"
      and r': "simplify_right opc d a (trunc ?ty (ti_val (ti info b))) ?ty (c, info, op) = Some s'"
      using r by (auto simp: try_simplify_def type_mask_trunc Let_def simp del: trunc.simps type_mask.simps)
    have rb: "trunc ?ty (rd (temps c) st b) = trunc ?ty (ti_val (ti info b))"
      if "info_ok (temps c) st info" for st :: "'m ir_state"
      by (rule ti_const_wide [OF that len(1) ab(2) cb ab(4) ty])
    from ty r' show ?thesis
      by (cases rule: simplify_right_cases) (use mov [OF ab(1)] const rb in auto)
  next
    case False
    then have ca: "ti_is_const (ti info a)"
      and r': "simplify_left opc d b (trunc ?ty (ti_val (ti info a))) ?ty (c, info, op) = Some s'"
      using r by (auto simp: try_simplify_def type_mask_trunc Let_def simp del: trunc.simps type_mask.simps split: if_splits)
    have ra: "trunc ?ty (rd (temps c) st a) = trunc ?ty (ti_val (ti info a))"
      if "info_ok (temps c) st info" for st :: "'m ir_state"
      by (rule ti_const_wide [OF that len(1) ab(1) ca ab(3) ty])
    from ty r' show ?thesis
      by (cases rule: simplify_left_cases) (use mov [OF ab(2)] const neg ra in auto)
  qed
qed


lemma sound_fold_binary:
  fixes sem :: "'m sem"
  assumes pre: "pre_ok (c, info, op)" and ok: "op_ok (temps c) op" and opc: "binary_folded (o_opc op)"
    and S: "copies info \<subseteq> S" and d: "o_args op ! 0 \<notin> copies info"
  shows "opt_sound sem S (c, info, op) (fold_binary (o_opc op) (o_args op) (o_type op) (c, info, op))"
proof -
  let ?d = "o_args op ! 0" and ?a = "o_args op ! 1" and ?b = "o_args op ! 2" and ?ty = "o_type op"
  have f: "folds (o_opc op)" using opc by (auto simp: folds_def)
  note dst = op_ok_dst [OF ok f]
  have args: "iargs op = [?a, ?b]" by (rule args_of_binary(2) [OF opc dst(4)])
  have ty: "?ty \<in> {I32, I64}" and wide: "wide (temps c) ?ty ?a" "wide (temps c) ?ty ?b"
    using ok f args types_ok_plain [of op "temps c"] opc by (simp_all add: op_ok_def)
  have ab: "unat ?a < length (temps c)" "unat ?b < length (temps c)" using dst(3) args by simp_all
  have len: "length info = length (temps c)" using pre by (simp add: pre_ok_def info_wf_def)
  have ex: "exec_op sem (temps c) op st = Next (wr (temps c) ?d v st)"
    if "pure_val (o_opc op) ?ty [rd (temps c) st ?a, rd (temps c) st ?b] = Some v" for st v
    using that exec_pure [OF f, of "temps c" st v sem] args by simp
  let ?va = "ti_val (ti info ?a)" and ?vb = "ti_val (ti info ?b)"
  have both: "opt_sound sem S (c, info, op) (replace_with_const ?d v ?ty (c, info, op))"
    if "ti_is_const (ti info ?a)" "ti_is_const (ti info ?b)"
      "eval_binary (o_opc op) (trunc ?ty ?va) (trunc ?ty ?vb) ?ty = Some v" for v
  proof (rule sound_const [OF pre S dst(1,2) d refl ty])
    fix st :: "'m ir_state" assume io: "info_ok (temps c) st info"
    have "pure_val (o_opc op) ?ty [rd (temps c) st ?a, rd (temps c) st ?b] = Some v"
      unfolding pure_val_eval [OF opc ty] ti_const_wide [OF io len ab(1) that(1) wide(1) ty]
        ti_const_wide [OF io len ab(2) that(2) wide(2) ty] by (rule that(3))
    with ex eval_binary_trunc [OF that(3)]
    show "exec_op sem (temps c) op st = Next (wr (temps c) ?d (trunc ?ty v) st)" by simp
  qed
  have keep: "opt_sound sem S (c, info, op) (c, invalidate_one info ?d, op)"
    by (rule sound_keep [OF pre S dst(1,2)]) (use ex pure_val_total [OF opc ty] in blast)
  have same: "opt_sound sem S (c, info, op) (replace_with_mov ?d ?a (c, info, op))"
    if "?a = ?b" "o_opc op \<in> {OLogic And, OLogic Or}"
    by (rule sound_mov [OF pre S dst(1,2) ab(1) ty]) (use that ex same_val(1) [OF ty that(2)] in simp)
  have zero: "opt_sound sem S (c, info, op) (replace_with_const ?d 0 ?ty (c, info, op))"
    if "?a = ?b" "o_opc op \<in> {OLogic Xor, OArith Sub}"
    by (rule sound_const [OF pre S dst(1,2) d refl ty]) (use that ex same_val(2) [OF ty that(2)] in \<open>simp add: trunc_mask\<close>)
  have simp: "opt_sound sem S (c, info, op) s'"
    if "try_simplify (o_opc op) ?d ?a ?b (ti info ?a) (ti info ?b) ?ty (c, info, op) = Some s'" for s'
    by (rule sound_try_simplify [OF pre S dst(1,2) d ab wide ty ex that])
  let ?folded = "if ti_is_const (ti info ?a) \<and> ti_is_const (ti info ?b)
    then eval_binary (o_opc op) (trunc ?ty ?va) (trunc ?ty ?vb) ?ty else None"
  let ?simp = "try_simplify (o_opc op) ?d ?a ?b (ti info ?a) (ti info ?b) ?ty (c, info, op)"
  have eq: "fold_binary (o_opc op) (o_args op) ?ty (c, info, op) =
    (case ?folded of Some v \<Rightarrow> replace_with_const ?d v ?ty (c, info, op)
     | None \<Rightarrow> (case ?simp of Some s' \<Rightarrow> s'
         | None \<Rightarrow> if ?a = ?b \<and> o_opc op \<in> {OLogic And, OLogic Or} then replace_with_mov ?d ?a (c, info, op)
                  else if ?a = ?b \<and> o_opc op \<in> {OLogic Xor, OArith Sub} then replace_with_const ?d 0 ?ty (c, info, op)
                  else (c, invalidate_one info ?d, op)))"
    unfolding fold_binary_def Let_def prod.case type_mask_trunc by (rule refl)
  show ?thesis
  proof (cases ?folded)
    case (Some v)
    then have "ti_is_const (ti info ?a)" "ti_is_const (ti info ?b)"
      "eval_binary (o_opc op) (trunc ?ty ?va) (trunc ?ty ?vb) ?ty = Some v"
      by (simp_all split: if_splits)
    then show ?thesis unfolding eq Some option.case by (rule both)
  next
    case None
    show ?thesis
    proof (cases ?simp)
      case (Some s')
      then show ?thesis unfolding eq None option.case by (simp only: option.case) (rule simp)
    next
      case No: None
      have "opt_sound sem S (c, info, op) (if A then x else if B then y else z)"
        if "A \<Longrightarrow> opt_sound sem S (c, info, op) x" "B \<Longrightarrow> opt_sound sem S (c, info, op) y"
          "opt_sound sem S (c, info, op) z" for A B x y z
        using that by simp
      note three = this
      show ?thesis unfolding eq None No option.case
        by (rule three; (rule keep)?; (elim conjE)?; (rule same zero)?)
    qed
  qed
qed

subsection \<open>Branches\<close>

lemma cond_at_trunc: "ty \<in> {I32, I64} \<Longrightarrow> trunc ty x = trunc ty x' \<Longrightarrow> trunc ty y = trunc ty y' \<Longrightarrow>
    cond_at ty c x y = cond_at ty c x' y'"
  by (auto simp: cond_at_def trunc_I32 ucast_u64_inject simp del: trunc.simps(1))

lemma args_of_brcond:
  assumes "o_opc op = OCtl BrCond" "length (o_args op) = MAX_OP_ARGS"
  shows "oargs op = []" "iargs op = [o_args op ! 0, o_args op ! 1]" "cargs op = [o_args op ! 2, o_args op ! 3]"
  using assms take2_drop [of 0 "o_args op"] take2_drop [of 2 "o_args op"]
  by (simp_all add: oargs_def iargs_def cargs_def MAX_OP_ARGS_def numeral_2_eq_2 numeral_3_eq_3)

lemma sound_fold_brcond:
  fixes sem :: "'m sem"
  assumes pre: "pre_ok (c, info, op)" and ok: "op_ok (temps c) op" and opc: "o_opc op = OCtl BrCond"
    and S: "copies info \<subseteq> S"
  shows "opt_sound sem S (c, info, op) (fold_brcond (o_args op) (o_type op) (c, info, op))"
proof -
  let ?a = "o_args op ! 0" and ?b = "o_args op ! 1" and ?ty = "o_type op"
  have len: "length (o_args op) = MAX_OP_ARGS" "length info = length (temps c)" "info_wf (temps c) info" "ctx_wf c"
    "args_valid (length (temps c)) op"
    using pre by (simp_all add: pre_ok_def info_wf_def)
  note args = args_of_brcond [OF opc len(1)]
  have ab: "unat ?a < length (temps c)" "unat ?b < length (temps c)" using len(5) args by (simp_all add: args_valid_def)
  have ty: "?ty \<in> {I32, I64}" "wide (temps c) ?ty ?a" "wide (temps c) ?ty ?b"
    "\<not> (?ty = I32 \<and> cond_is_signed (cond_of (o_args op ! 2)))"
    using ok opc args by (simp_all add: op_ok_def types_ok_def)
  have ex: "exec_op sem (temps c) op st =
      (if cond_at ?ty (cond_of (o_args op ! 2)) (rd (temps c) st ?a) (rd (temps c) st ?b)
       then Jump (o_args op ! 3) st else Next st)" for st
    by (simp add: exec_op_def opc)
  show ?thesis
  proof (cases "ti_is_const (ti info ?a) \<and> ti_is_const (ti info ?b)")
    case False
    then show ?thesis
      using len S ex by (auto simp: opt_sound_def fold_brcond_def Let_def split: if_splits)
  next
    case True
    have ev: "eval_cond (ti_val (ti info ?a)) (ti_val (ti info ?b)) (cond_from_carg (o_args op ! 2)) ?ty =
        cond_at ?ty (cond_of (o_args op ! 2)) (rd (temps c) st ?a) (rd (temps c) st ?b)"
      if io: "info_ok (temps c) st info" for st :: "'m ir_state"
    proof -
      have "trunc ?ty (rd (temps c) st ?a) = trunc ?ty (ti_val (ti info ?a))"
        using ti_const_wide [OF io len(2) ab(1) _ ty(2,1)] True by blast
      moreover have "trunc ?ty (rd (temps c) st ?b) = trunc ?ty (ti_val (ti info ?b))"
        using ti_const_wide [OF io len(2) ab(2) _ ty(3,1)] True by blast
      ultimately show ?thesis
        unfolding cond_from_carg_cond_of eval_cond_at [OF ty(1,4)] by (intro cond_at_trunc [OF ty(1)]) simp_all
    qed
    have "args_valid n (op\<lparr>o_opc := OCtl Br, o_args := (o_args op)[0 := x], o_nargs := 1\<rparr>)"
      "args_valid n (op\<lparr>o_opc := OMisc Nop, o_nargs := 0\<rparr>)" for n x
      by (simp_all add: args_valid_def oargs_def iargs_def)
    moreover have "exec_op sem ts (op\<lparr>o_opc := OCtl Br, o_args := (o_args op)[0 := x], o_nargs := 1\<rparr>) st = Jump x st"
      "exec_op sem ts (op\<lparr>o_opc := OMisc Nop, o_nargs := 0\<rparr>) st = Next st" for ts st x
      using len(1) by (simp_all add: exec_op_def MAX_OP_ARGS_def)
    ultimately show ?thesis
      using True len S ev by (auto simp: opt_sound_def fold_brcond_def Let_def ex simp del: One_nat_def)
  qed
qed

subsection \<open>Ops that are not rewritten\<close>

lemma invalidate_temps_ok:
  fixes c :: Context
  assumes "\<forall>t \<in> set os. unat t < length (temps c) \<and> \<not> is_const (temps c ! unat t)" "info_wf (temps c) info"
  shows "\<exists>info'. invalidate_temps os c info = Some info' \<and> info_wf (temps c) info' \<and> copies info' \<subseteq> copies info \<and>
    (\<forall>(st :: 'm ir_state) vs. info_ok (temps c) st info \<longrightarrow>
       info_ok (temps c) (wr_all (temps c) (zip os vs) st) info')"
  using assms
proof (induction os arbitrary: info)
  case Nil
  then show ?case by simp
next
  case (Cons t os)
  have t: "unat t < length (temps c)" "\<not> is_const (temps c ! unat t)" "length info = length (temps c)"
    using Cons.prems by (simp_all add: info_wf_def)
  let ?i = "drop_copies_of t (forget (unat t) info)"
  have wf: "info_wf (temps c) ?i" by (rule info_wf_invalidate [OF Cons.prems(2)])
  obtain info' where IH: "invalidate_temps os c ?i = Some info'" "info_wf (temps c) info'" "copies info' \<subseteq> copies ?i"
    "\<forall>(st :: 'm ir_state) vs. info_ok (temps c) st ?i \<longrightarrow> info_ok (temps c) (wr_all (temps c) (zip os vs) st) info'"
    using Cons.IH [OF _ wf] Cons.prems(1) by auto
  have "invalidate_temps (t # os) c info = Some info'" using t IH(1) by (simp add: temp_def)
  moreover have "copies info' \<subseteq> copies info"
    using IH(3) copies_forget [of "unat t" info] by (auto simp: copies_drop)
  moreover have "info_ok (temps c) (wr_all (temps c) (zip (t # os) vs) st) info'"
    if io: "info_ok (temps c) st info" for st :: "'m ir_state" and vs
  proof (cases vs)
    case Nil
    have "info_ok (temps c) st ?i"
      by (rule info_ok_weaken [OF io])
        (use t(3) in \<open>auto simp: drop_copies_of_nth forget_nth unat_inject split: if_splits\<close>)
    then show ?thesis using IH(4) [rule_format, of st "[]"] Nil by simp
  next
    case (Cons v vs')
    then show ?thesis using IH(4) invalidate_wr [OF io t(3,1,2)] by simp
  qed
  ultimately show ?case using IH(2) by blast
qed

lemma arith_val_None: "x \<notin> {Add, Sub, Mul, Neg} \<Longrightarrow> arith_val x ws = None"
  by (cases x) simp_all

lemma logic_val_None: "x \<notin> {And, Or, Xor, AndC, NotI} \<Longrightarrow> logic_val x ws = None"
  by (cases x) simp_all

lemma pure_val_None:
  assumes "\<not> folds opc"
  shows "pure_val opc ty vs = None"
proof (cases opc)
  case (OShift x)
  with assms show ?thesis by (cases x) (simp_all add: folds_def binary_folded_def)
next
  case (OMov x)
  with assms show ?thesis by (cases x) (simp_all add: pure_val_def at_width_def int_val_def folds_def)
qed (use assms in \<open>simp_all add: pure_val_def at_width_def int_val_def folds_def binary_folded_def
  arith_val_None logic_val_None\<close>)

lemma exec_generic:
  assumes "\<not> folds (o_opc op)" "\<not> controls (o_opc op)"
  shows "exec_op sem ts op st = Next (exec_other sem ts op st)"
  using pure_val_None [OF assms(1)] exec_plain [OF assms(2)] by simp

lemma no_oargs_controls: "controls (o_opc op) \<Longrightarrow> oargs op = []"
  by (auto simp: controls_def oargs_def)

text \<open>Either the op leaves the state alone, or it writes its outputs and the machine.\<close>

lemma exec_unfolded:
  assumes "\<not> folds (o_opc op)" "exec_op sem ts op st = Next st'"
  shows "\<exists>m vs. st' = wr_all ts (zip (oargs op) vs) (st\<lparr>mem := m\<rparr>)"
proof (cases "controls (o_opc op)")
  case True
  with assms(2) have "st' = st\<lparr>mem := mem st\<rparr>"
    by (auto simp: controls_def exec_op_def split: if_splits)
  then show ?thesis using no_oargs_controls [OF True] by (intro exI [of _ "mem st"]) simp
next
  case False
  from assms(2) exec_generic [OF assms(1) False, of sem ts st] show ?thesis
    by (auto simp: exec_other_def Let_def)
qed

lemma sound_outputs:
  fixes sem :: "'m sem"
  assumes pre: "pre_ok (c, info, op)" and ok: "op_ok (temps c) op" and nf: "\<not> folds (o_opc op)"
    and S: "copies info \<subseteq> S"
  shows "\<exists>info'. invalidate_outputs info (def_of (o_opc op)) (o_args op) c = Some info' \<and>
    opt_sound sem S (c, info, op) (c, info', op)"
proof -
  have wf: "info_wf (temps c) info" "ctx_wf c" "length (o_args op) = MAX_OP_ARGS" "args_valid (length (temps c)) op"
    using pre by (simp_all add: pre_ok_def)
  have "\<forall>t \<in> set (oargs op). unat t < length (temps c) \<and> \<not> is_const (temps c ! unat t)"
    using ok by (auto simp: op_ok_def args_valid_def)
  from invalidate_temps_ok [OF this wf(1), where 'm = 'm]
  obtain info' where i: "invalidate_temps (oargs op) c info = Some info'" "info_wf (temps c) info'" "copies info' \<subseteq> copies info"
    "\<forall>(st :: 'm ir_state) vs. info_ok (temps c) st info \<longrightarrow> info_ok (temps c) (wr_all (temps c) (zip (oargs op) vs) st) info'"
    by blast
  have "info_ok (temps c) st' info'" if "info_ok (temps c) st info" "exec_op sem (temps c) op st = Next st'" for st st'
    using exec_unfolded [OF nf that(2)] i(4) that(1) by auto
  with i S wf show ?thesis by (auto simp: opt_sound_def invalidate_outputs_def oargs_def)
qed

lemma copies_reset [simp]: "copies (reset_copies info) = {}"
  by (auto simp: copies_def reset_copies_def)

lemma sound_reset:
  assumes "opt_sound sem S (c, info, op) (c', info', op')"
  shows "opt_sound sem {} (c, info, op) (c', reset_copies info', op')"
proof -
  have "info_wf (temps c') (reset_copies info')" if "info_wf (temps c') info'"
    by (rule info_wf_weaken [OF that]) (use that in \<open>auto simp: reset_copies_def info_wf_def\<close>)
  moreover have "info_ok (temps c') st (reset_copies info')"
    if "info_wf (temps c') info'" "info_ok (temps c') st info'" for st :: "'a ir_state"
    by (rule info_ok_weaken [OF that(2)]) (use that(1) in \<open>auto simp: reset_copies_def info_wf_def\<close>)
  ultimately show ?thesis using assms by (simp add: opt_sound_def)
qed

subsection \<open>Copy propagation\<close>

definition copy_source :: "TempInfo list \<Rightarrow> tempidx \<Rightarrow> tempidx" where
  "copy_source info t = (case resolve_copy info t of Some src \<Rightarrow> src | None \<Rightarrow> t)"

lemma copy_source_wf:
  assumes "info_wf ts info" "unat t < length ts"
  shows "unat (copy_source info t) < length ts" "t_ty (ts ! unat (copy_source info t)) = t_ty (ts ! unat t)"
    "copy_source info t \<in> insert t (copies info)"
  using assms copies_nth [of "unat t" info]
  by (auto simp: copy_source_def resolve_copy_def info_wf_def split: option.split)

lemma copy_source_rd:
  assumes "info_wf ts info" "info_ok ts st info" "unat t < length ts"
  shows "rd ts st (copy_source info t) = rd ts st t"
  using assms by (auto simp: copy_source_def resolve_copy_def info_wf_def info_ok_def split: option.split)

lemma propagate_simps [simp]:
  "o_opc (propagate info op) = o_opc op" "o_type (propagate info op) = o_type op"
  "o_idx (propagate info op) = o_idx op"
  by (simp_all add: propagate_def Let_def)

lemma propagate_args:
  assumes "length (o_args op) = MAX_OP_ARGS"
  shows "length (o_args (propagate info op)) = MAX_OP_ARGS" "oargs (propagate info op) = oargs op"
    "iargs (propagate info op) = map (copy_source info) (iargs op)" "cargs (propagate info op) = cargs op"
proof -
  let ?d = "def_of (o_opc op)"
  have n: "nb_oargs ?d + nb_iargs ?d \<le> length (o_args op)"
    using arg_counts [of "o_opc op"] assms by (simp add: nb_args_def MAX_OP_ARGS_def)
  then show "length (o_args (propagate info op)) = MAX_OP_ARGS" "oargs (propagate info op) = oargs op"
    "iargs (propagate info op) = map (copy_source info) (iargs op)" "cargs (propagate info op) = cargs op"
    using assms by (simp_all add: propagate_def oargs_def iargs_def cargs_def Let_def copy_source_def [abs_def])
qed

lemma folds_dst:
  assumes "folds (o_opc op)" "length (o_args op) = MAX_OP_ARGS"
  shows "oargs op = [o_args op ! 0]"
  using args_of_binary(1) [OF _ assms(2)] args_of_unary(1) [OF _ assms(2)] assms(1) by (auto simp: folds_def)

lemma propagate_dst:
  assumes "folds (o_opc op)" "length (o_args op) = MAX_OP_ARGS"
  shows "o_args (propagate info op) ! 0 = o_args op ! 0"
  using folds_dst [OF assms] folds_dst [of "propagate info op"] propagate_args [OF assms(2), of info] assms(1) by simp

lemma propagate_src:
  assumes "o_opc op = OMov Mov \<or> o_opc op \<in> range OConv" "length (o_args op) = MAX_OP_ARGS"
  shows "o_args (propagate info op) ! 1 = copy_source info (o_args op ! 1)"
  using args_of_unary(2) [of op] args_of_unary(2) [of "propagate info op"] propagate_args [OF assms(2), of info] assms
  by auto

lemma propagate_ok:
  assumes "op_ok ts op" "info_wf ts info"
  shows "op_ok ts (propagate info op)"
proof -
  have len: "length (o_args op) = MAX_OP_ARGS" and v: "\<forall>t \<in> set (iargs op). unat t < length ts"
    using assms(1) by (auto simp: op_ok_def args_valid_def)
  note pa = propagate_args [OF len, of info]
  have w: "\<forall>t \<in> set (iargs op). wide ts ty t \<Longrightarrow> \<forall>t \<in> set (map (copy_source info) (iargs op)). wide ts ty t" for ty
    using copy_source_wf(2) [OF assms(2)] v by (simp add: wide_def)
  have "types_ok ts (propagate info op)"
  proof (cases "o_opc op = OMov Mov \<or> o_opc op \<in> range OConv")
    case True
    then have f: "folds (o_opc op)" "o_args op ! 1 \<in> set (iargs op)"
      using args_of_unary(2) [OF _ len] by (auto simp: folds_def)
    with copy_source_wf(2) [OF assms(2)] v True assms(1)
    show ?thesis
      using propagate_src [OF True len, of info] propagate_dst [OF f(1) len, of info]
      by (auto simp: op_ok_def types_ok_def)
  next
    case False
    have "types_ok ts op" using assms(1) by (simp add: op_ok_def)
    moreover have "o_opc op = OCtl BrCond \<Longrightarrow> o_args (propagate info op) ! 2 = o_args op ! 2"
      using args_of_brcond(3) [of op] args_of_brcond(3) [of "propagate info op"] pa len by simp
    ultimately show ?thesis
      using False w unfolding types_ok_def propagate_simps pa(3)
      by (cases "o_opc op") (auto split: DataMovOp.splits CtlOp.splits)
  qed
  moreover have "args_valid (length ts) (propagate info op)"
    using assms(1) v copy_source_wf(1) [OF assms(2)] by (auto simp: args_valid_def op_ok_def pa)
  ultimately show ?thesis using assms(1) by (simp add: op_ok_def pa)
qed

lemma exec_folded:
  assumes "folds (o_opc op)"
  shows "exec_op sem ts op st =
    (case pure_val (o_opc op) (o_type op) (map (rd ts st) (iargs op)) of
       Some v \<Rightarrow> Next (wr ts (o_args op ! 0) v st) | None \<Rightarrow> Next (exec_other sem ts op st))"
  using assms by (cases "o_opc op") (auto simp: exec_op_def folds_def binary_folded_def)

lemma propagate_exec:
  assumes "op_ok ts op" "info_wf ts info" "info_ok ts st info" "\<not> bb_boundary (o_opc op)"
  shows "exec_op sem ts (propagate info op) st = exec_op sem ts op st"
proof -
  have len: "length (o_args op) = MAX_OP_ARGS" and v: "\<forall>t \<in> set (iargs op). unat t < length ts"
    using assms(1) by (auto simp: op_ok_def args_valid_def)
  note pa = propagate_args [OF len, of info]
  have vals: "map (rd ts st) (iargs (propagate info op)) = map (rd ts st) (iargs op)"
    using copy_source_rd [OF assms(2,3)] v by (simp add: pa)
  have other: "exec_other sem ts (propagate info op) st = exec_other sem ts op st"
    unfolding exec_other_def vals pa(2,4) propagate_simps by (rule refl)
  consider "folds (o_opc op)" | "o_opc op = OCtl BrCond" | "o_opc op \<in> {OMisc Nop, OMisc InsnStart}"
    | "\<not> folds (o_opc op)" "\<not> controls (o_opc op)"
    using assms(4) by (auto simp: controls_def bb_boundary_def)
  then show ?thesis
  proof cases
    case 1
    then show ?thesis
      using other exec_folded [of "propagate info op" sem ts st] exec_folded [OF 1, of sem ts st] 1 vals
        propagate_dst [OF 1 len, of info] by (simp split: option.split)
  next
    case 2
    with vals args_of_brcond [OF 2 len] args_of_brcond [of "propagate info op"] pa show ?thesis
      by (simp add: exec_op_def)
  next
    case 3
    then show ?thesis by (auto simp: exec_op_def)
  next
    case 4
    then show ?thesis using other exec_generic [of op sem ts st] exec_generic [of "propagate info op" sem ts st] by simp
  qed
qed

subsection \<open>One op of the pass\<close>

text \<open>
  The temps that an earlier \<open>Mov\<close> of the same run was a copy of. \<open>set_const\<close> and \<open>set_copy\<close>
  leave the copies of the written temp recorded, so the theorem is about op lists in which no
  foldable op writes such a source (\<open>copy_stable\<close>); lemma \<open>stale_copy_misread\<close> below shows what
  happens otherwise.
\<close>

definition next_copies :: "tempidx list \<Rightarrow> Op \<Rightarrow> tempidx list" where
  "next_copies S op =
     (if bb_boundary (o_opc op) then [] else if o_opc op = OMov Mov then o_args op ! 1 # S else S)"

fun copy_stable :: "tempidx list \<Rightarrow> Op list \<Rightarrow> bool" where
  "copy_stable S [] = True"
| "copy_stable S (op # os) \<longleftrightarrow>
     (folds (o_opc op) \<longrightarrow> o_args op ! 0 \<notin> set S) \<and> copy_stable (next_copies S op) os"

lemma folds_optimized: "folds opc \<or> opc = OCtl BrCond \<Longrightarrow> \<not> not_optimized opc \<and> \<not> bb_boundary opc"
proof -
  have "\<not> not_optimized (OConv x)" for x
    by (cases x) (simp_all add: not_optimized_def flags_contains_def flag_defs flag_or_def)
  then show "folds opc \<or> opc = OCtl BrCond \<Longrightarrow> \<not> not_optimized opc \<and> \<not> bb_boundary opc"
    by (auto simp: folds_def binary_folded_def not_optimized_def bb_boundary_def flags_contains_def flag_defs flag_or_def)
qed

lemma sound_fold_op:
  fixes sem :: "'m sem"
  assumes pre: "pre_ok (c, info, op)" and ok: "op_ok (temps c) op"
    and S: "copies info \<subseteq> S" and stable: "folds (o_opc op) \<Longrightarrow> o_args op ! 0 \<notin> copies info"
    and mov: "o_opc op = OMov Mov \<Longrightarrow> o_args op ! 1 \<in> S"
  shows "\<exists>s'. fold_op (c, info, op) = Some s' \<and> opt_sound sem S (c, info, op) s'"
proof -
  consider "o_opc op = OMov Mov" | "o_opc op \<in> {OArith Neg, OLogic NotI}" | "binary_folded (o_opc op)"
    | "o_opc op = OCtl BrCond" | x where "o_opc op = OConv x"
    | "\<not> folds (o_opc op)" "o_opc op \<noteq> OCtl BrCond" "\<And>x. o_opc op \<noteq> OConv x"
    by (auto simp: folds_def)
  then show ?thesis
  proof cases
    case 1
    then show ?thesis
      using sound_fold_mov [OF pre ok 1, of S sem] S mov stable by (simp add: fold_op_def folds_def)
  next
    case 2
    then show ?thesis
      using sound_fold_unary [OF pre ok 2 S, of sem] stable by (auto simp: fold_op_def folds_def Let_def)
  next
    case 3
    then have "fold_op (c, info, op) = Some (fold_binary (o_opc op) (o_args op) (o_type op) (c, info, op))"
      by (auto simp: fold_op_def binary_folded_def Let_def)
    moreover have "folds (o_opc op)" using 3 by (simp add: folds_def)
    ultimately show ?thesis using sound_fold_binary [OF pre ok 3 S, of sem] stable by blast
  next
    case 4
    then show ?thesis
      using sound_fold_brcond [OF pre ok 4 S, of sem] by (simp add: fold_op_def binary_folded_def Let_def)
  next
    case (5 x)
    then show ?thesis
      using sound_fold_ext [OF pre ok 5 S, of sem] stable by (simp add: fold_op_def folds_def binary_folded_def Let_def)
  next
    case 6
    then have "fold_op (c, info, op) = do { info' \<leftarrow> invalidate_outputs info (def_of (o_opc op)) (o_args op) c; Some (c, info', op) }"
      by (cases "o_opc op") (auto simp: fold_op_def folds_def Let_def)
    then show ?thesis using sound_outputs [OF pre ok 6(1) S, of sem] by auto
  qed
qed

lemma optimize_op_sound:
  fixes sem :: "'m sem"
  assumes pre: "pre_ok (c, info, op)" and ok: "op_ok (temps c) op"
    and S: "copies info \<subseteq> set S" and stable: "folds (o_opc op) \<Longrightarrow> o_args op ! 0 \<notin> set S"
  shows "\<exists>s'. optimize_op (c, info, op) = Some s' \<and> opt_sound sem (set (next_copies S op)) (c, info, op) s'"
proof -
  consider "bb_boundary (o_opc op)" | "\<not> bb_boundary (o_opc op)" "not_optimized (o_opc op)"
    | "\<not> bb_boundary (o_opc op)" "\<not> not_optimized (o_opc op)" by blast
  then show ?thesis
  proof cases
    case 1
    with folds_optimized have "\<not> folds (o_opc op)" by blast
    from sound_outputs [OF pre ok this S, of sem] obtain info'
      where i: "invalidate_outputs info (def_of (o_opc op)) (o_args op) c = Some info'"
        "opt_sound sem (set S) (c, info, op) (c, info', op)" by blast
    with 1 sound_reset [OF i(2)] show ?thesis by (simp add: optimize_op_def next_copies_def Let_def)
  next
    case 2
    with folds_optimized have nf: "\<not> folds (o_opc op)" by blast
    from sound_outputs [OF pre ok nf S, of sem] obtain info'
      where "invalidate_outputs info (def_of (o_opc op)) (o_args op) c = Some info'"
        "opt_sound sem (set S) (c, info, op) (c, info', op)" by blast
    with 2 nf show ?thesis by (auto simp: optimize_op_def next_copies_def Let_def folds_def)
  next
    case 3
    let ?op = "propagate info op" and ?S = "set (next_copies S op)"
    have wf: "info_wf (temps c) info" and len: "length (o_args op) = MAX_OP_ARGS"
      using pre by (simp_all add: pre_ok_def)
    have ok': "op_ok (temps c) ?op" by (rule propagate_ok [OF ok wf])
    have pre': "pre_ok (c, info, ?op)" using pre ok' by (simp add: pre_ok_def op_ok_def)
    have S': "copies info \<subseteq> ?S" using S 3 by (auto simp: next_copies_def)
    have "o_args ?op ! 1 \<in> ?S" if "o_opc ?op = OMov Mov"
    proof -
      have "unat (o_args op ! 1) < length (temps c)"
        using args_of_unary(2) [of op] len that ok by (simp add: op_ok_def args_valid_def)
      then show ?thesis
        using propagate_src [of op info] copy_source_wf(3) [OF wf] len that S 3 by (auto simp: next_copies_def)
    qed
    moreover have "o_args ?op ! 0 \<notin> copies info" if "folds (o_opc ?op)"
      using stable S that propagate_dst [of op info] len by auto
    ultimately obtain s' where s': "fold_op (c, info, ?op) = Some s'" "opt_sound sem ?S (c, info, ?op) s'"
      using sound_fold_op [OF pre' ok' S', of sem] by blast
    moreover have "opt_sound sem ?S (c, info, op) s'"
      using s'(2) propagate_exec [OF ok wf _ 3(1)] by (auto simp: opt_sound_def split: prod.splits)
    ultimately show ?thesis using 3 by (auto simp: optimize_op_def Let_def)
  qed
qed

subsection \<open>The whole pass\<close>

text \<open>New constants at the end of the temps do not change what an op means.\<close>

lemma exec_append:
  assumes "args_valid (length ts) op" "length (o_args op) = MAX_OP_ARGS"
  shows "exec_op sem (ts @ us) op st = exec_op sem ts op st"
proof -
  have v: "\<forall>t \<in> set (iargs op). rd (ts @ us) st t = rd ts st t" "\<forall>t \<in> set (oargs op). unat t < length ts"
    using assms(1) by (auto simp: args_valid_def rd_append)
  then have vals: "map (rd (ts @ us) st) (iargs op) = map (rd ts st) (iargs op)" by simp
  have zip: "\<forall>x \<in> set (map fst (zip (oargs op) vs)). unat x < length ts" for vs :: "u64 list"
    by (intro ballI, rule v(2) [rule_format]) (rule subsetD [OF zip_fst_subset])
  have other: "exec_other sem (ts @ us) op st = exec_other sem ts op st"
    unfolding exec_other_def vals Let_def by (rule wr_all_append [OF zip])
  consider "folds (o_opc op)" | "o_opc op = OCtl BrCond" | "o_opc op = OCtl GotoPtr"
    | "o_opc op \<in> {OCtl Br, OCtl SetLabel, OCtl GotoTb, OCtl ExitTb, OMisc Nop, OMisc InsnStart}"
    | "\<not> folds (o_opc op)" "\<not> controls (o_opc op)"
    by (auto simp: controls_def)
  then show ?thesis
  proof cases
    case 1
    have "unat (o_args op ! 0) < length ts" using v(2) folds_dst [OF 1 assms(2)] by simp
    then show ?thesis
      unfolding exec_folded [OF 1] vals other by (simp add: wr_append split: option.split)
  next
    case 2
    with v(1) args_of_brcond(2) [OF 2 assms(2)] show ?thesis by (simp add: exec_op_def)
  next
    case 3
    then have "iargs op = [o_args op ! 0]"
      using take1_drop [of 0 "o_args op"] assms(2) by (simp add: iargs_def MAX_OP_ARGS_def)
    with v(1) 3 show ?thesis by (simp add: exec_op_def)
  next
    case 4
    then show ?thesis by (auto simp: exec_op_def)
  next
    case 5
    then show ?thesis using exec_generic [of op sem _ st] other by simp
  qed
qed

lemma exec_ops_append_temps:
  assumes "\<forall>op \<in> set os. args_valid (length ts) op \<and> length (o_args op) = MAX_OP_ARGS"
  shows "exec_ops sem (ts @ us) os st = exec_ops sem ts os st"
  using assms by (induction os arbitrary: st) (simp_all add: exec_append split: outcome.split)

lemma args_valid_mono: "args_valid n op \<Longrightarrow> n \<le> m \<Longrightarrow> args_valid m op"
  unfolding args_valid_def by (meson order_less_le_trans)

lemma op_ok_append:
  assumes "op_ok ts op"
  shows "op_ok (ts @ us) op"
proof -
  have v: "\<forall>t \<in> set (iargs op). unat t < length ts" "\<forall>t \<in> set (oargs op). unat t < length ts"
    and len: "length (o_args op) = MAX_OP_ARGS"
    using assms by (auto simp: op_ok_def args_valid_def)
  have w: "(\<forall>t \<in> set (iargs op). wide (ts @ us) ty t) = (\<forall>t \<in> set (iargs op). wide ts ty t)" for ty
    using v(1) by (auto simp: wide_def nth_append)
  have u: "t_ty ((ts @ us) ! unat (o_args op ! 0)) = t_ty (ts ! unat (o_args op ! 0)) \<and>
      t_ty ((ts @ us) ! unat (o_args op ! 1)) = t_ty (ts ! unat (o_args op ! 1))"
    if "o_opc op = OMov Mov \<or> o_opc op \<in> range OConv"
    using v args_of_unary [of op] that len by (auto simp: nth_append)
  have "types_ok (ts @ us) op"
  proof (cases "o_opc op = OMov Mov \<or> o_opc op \<in> range OConv")
    case True
    then show ?thesis using assms u [OF True] by (auto simp: op_ok_def types_ok_def)
  next
    case False
    then show ?thesis using assms w unfolding op_ok_def types_ok_def
      by (cases "o_opc op") (auto split: DataMovOp.splits CtlOp.splits)
  qed
  moreover have "\<forall>t \<in> set (oargs op). \<not> is_const ((ts @ us) ! unat t)"
    using assms v(2) by (simp add: op_ok_def nth_append)
  ultimately show ?thesis
    using assms args_valid_mono [of "length ts" op "length (ts @ us)"] by (simp add: op_ok_def)
qed

lemma copy_stable_nth:
  assumes "copy_stable S os" "k < length os" "folds (o_opc (os ! k))"
  shows "o_args (os ! k) ! 0 \<notin> set (foldl next_copies S (take k os))"
  using assms by (induction S os arbitrary: k rule: copy_stable.induct) (auto simp: nth_Cons split: nat.splits)

lemma seed_info_ok:
  assumes "ctx_wf c"
  shows "info_wf (temps c) (seed_info c)" "copies (seed_info c) = {}" "info_ok (temps c) st (seed_info c)"
proof -
  have n: "unat (nb_temps c) = length (temps c)" using assms by (simp add: nb_temps_def ctx_wf_def)
  show "info_wf (temps c) (seed_info c)" "copies (seed_info c) = {}" "info_ok (temps c) st (seed_info c)"
    by (auto simp: info_wf_def copies_def info_ok_def seed_info_def n ti_default_def rd_const)
qed

lemma optimize_loop_snoc:
  "optimize_loop (is @ [i]) s = do { s' \<leftarrow> optimize_loop is s; optimize_at (of_nat i) s' }"
  by (induction "is" arbitrary: s) (simp_all split: Option.bind_split)

lemma ctx_wf_set_op:
  assumes "ctx_wf c" "i < length (ops c)" "o_idx op = o_idx (ops c ! i)"
  shows "ctx_wf (c\<lparr>ops := (ops c)[i := op]\<rparr>)"
  using assms by (auto simp: ctx_wf_def nth_list_update)

text \<open>
  After \<open>k\<close> ops of the loop: the first \<open>k\<close> ops behave as they did, the infos are true whenever
  execution reaches op \<open>k\<close>, and the ops to come are untouched.
\<close>

definition opt_inv :: "'m sem \<Rightarrow> Context \<Rightarrow> nat \<Rightarrow> Context \<Rightarrow> TempInfo list \<Rightarrow> bool" where
  "opt_inv sem c k ck info \<longleftrightarrow>
     ctx_wf ck \<and> info_wf (temps ck) info \<and> copies info \<subseteq> set (foldl next_copies [] (take k (ops c))) \<and>
     (\<exists>us. temps ck = temps c @ us \<and> length us \<le> k) \<and>
     length (ops ck) = length (ops c) \<and> drop k (ops ck) = drop k (ops c) \<and>
     (\<forall>op \<in> set (take k (ops ck)). args_valid (length (temps ck)) op \<and> length (o_args op) = MAX_OP_ARGS) \<and>
     (\<forall>st. exec_ops sem (temps ck) (take k (ops ck)) st = exec_ops sem (temps c) (take k (ops c)) st \<and>
        (\<forall>st'. exec_ops sem (temps c) (take k (ops c)) st = Next st' \<longrightarrow> info_ok (temps ck) st' info))"

lemma opt_inv_init:
  assumes "ctx_wf c"
  shows "opt_inv sem c 0 c (seed_info c)"
  using assms seed_info_ok(1,2) [OF assms] by (simp add: opt_inv_def seed_info_ok(3) [OF assms])

lemma opt_inv_step:
  assumes inv: "opt_inv sem c k ck info" and k: "k < length (ops c)"
    and room: "length (temps c) + length (ops c) < 2 ^ 32"
    and ok: "op_ok (temps c) (ops c ! k)" and stable: "copy_stable [] (ops c)"
  shows "\<exists>c' info'. optimize_at (of_nat k) (ck, info) = Some (c', info') \<and> opt_inv sem c (Suc k) c' info'"
proof -
  let ?op = "ops c ! k" and ?S = "foldl next_copies [] (take k (ops c))"
  from inv obtain us where us: "temps ck = temps c @ us" "length us \<le> k" by (auto simp: opt_inv_def)
  have wf: "ctx_wf ck" and iw: "info_wf (temps ck) info" and len: "length (ops ck) = length (ops c)"
    and rest: "drop k (ops ck) = drop k (ops c)" and cop: "copies info \<subseteq> set ?S"
    and val: "\<forall>op \<in> set (take k (ops ck)). args_valid (length (temps ck)) op \<and> length (o_args op) = MAX_OP_ARGS"
    and sim: "\<And>st. exec_ops sem (temps ck) (take k (ops ck)) st = exec_ops sem (temps c) (take k (ops c)) st"
    and io: "\<And>st st'. exec_ops sem (temps c) (take k (ops c)) st = Next st' \<Longrightarrow> info_ok (temps ck) st' info"
    using inv by (auto simp: opt_inv_def)
  have idx: "unat (of_nat k :: u32) = k" using k room by simp
  have opk: "ops ck ! k = ?op"
    using rest k len by (metis hd_drop_conv_nth)
  have ok': "op_ok (temps ck) ?op" using op_ok_append [OF ok, of us] us(1) by simp
  have pre: "pre_ok (ck, info, ?op)" using wf iw ok' us k room by (simp add: pre_ok_def op_ok_def)
  obtain c1 info' op' where s: "optimize_op (ck, info, ?op) = Some (c1, info', op')"
    and snd: "opt_sound sem (set (next_copies ?S ?op)) (ck, info, ?op) (c1, info', op')"
    using optimize_op_sound [OF pre ok' cop copy_stable_nth [OF stable k], of sem] by auto
  from snd obtain vs where vs: "temps c1 = temps ck @ vs" "length vs \<le> 1" by (auto simp: opt_sound_def)
  have s1: "ops c1 = ops ck" "ctx_wf c1" "info_wf (temps c1) info'" "copies info' \<subseteq> set (next_copies ?S ?op)"
    "o_idx op' = o_idx ?op" "args_valid (length (temps c1)) op'" "length (o_args op') = MAX_OP_ARGS"
    and ex: "\<And>st. info_ok (temps ck) st info \<Longrightarrow> exec_op sem (temps c1) op' st = exec_op sem (temps ck) ?op st"
    and io': "\<And>st st'. info_ok (temps ck) st info \<Longrightarrow> exec_op sem (temps ck) ?op st = Next st' \<Longrightarrow>
      info_ok (temps c1) st' info'"
    using snd by (auto simp: opt_sound_def)
  let ?c' = "c1\<lparr>ops := (ops ck)[k := op']\<rparr>"
  have run: "optimize_at (of_nat k) (ck, info) = Some (?c', info')"
    using k len opk s s1(1) by (simp add: optimize_at_def op_at_def set_op_def idx)
  have new: "take (Suc k) (ops ?c') = take k (ops ck) @ [op']" and old: "take (Suc k) (ops c) = take k (ops c) @ [?op]"
    using k len by (simp_all add: take_Suc_conv_app_nth)
  have pre_ops: "exec_ops sem (temps c1) (take k (ops ck)) st = exec_ops sem (temps c) (take k (ops c)) st" for st
    unfolding vs(1) using exec_ops_append_temps [OF val, of sem vs] sim by simp
  have exc: "exec_op sem (temps ck) ?op st = exec_op sem (temps c) ?op st" for st
    unfolding us(1) by (rule exec_append) (use ok in \<open>simp_all add: op_ok_def\<close>)
  have "exec_ops sem (temps ?c') (take (Suc k) (ops ?c')) st = exec_ops sem (temps c) (take (Suc k) (ops c)) st" for st
    unfolding new old exec_ops_append using pre_ops [of st] ex io [of st] exc
    by (auto split: outcome.split)
  moreover have "info_ok (temps ?c') st' info'"
    if "exec_ops sem (temps c) (take (Suc k) (ops c)) st = Next st'" for st st'
    using that io [of st] io' exc unfolding old exec_ops_append
    by (auto split: outcome.splits)
  moreover have "ctx_wf ?c'"
    using ctx_wf_set_op [OF s1(2), of k op'] s1(1,5) k len opk by simp
  moreover have "\<forall>op \<in> set (take (Suc k) (ops ?c')). args_valid (length (temps ?c')) op \<and> length (o_args op) = MAX_OP_ARGS"
    unfolding new using val s1(6,7) vs(1) args_valid_mono [of "length (temps ck)" _ "length (temps c1)"] by auto
  moreover have "drop (Suc k) (ops ?c') = drop (Suc k) (ops c)"
    using rest k len by (simp add: drop_update_swap) (metis drop_Suc tl_drop)
  ultimately have "opt_inv sem c (Suc k) ?c' info'"
    using s1 us vs len k by (auto simp: opt_inv_def take_Suc_conv_app_nth)
  with run show ?thesis by blast
qed

lemma opt_inv_loop:
  assumes "ctx_wf c" "length (temps c) + length (ops c) < 2 ^ 32" "\<forall>op \<in> set (ops c). op_ok (temps c) op"
    "copy_stable [] (ops c)" "k \<le> length (ops c)"
  shows "\<exists>c' info'. optimize_loop [0..<k] (c, seed_info c) = Some (c', info') \<and> opt_inv sem c k c' info'"
  using assms(5)
proof (induction k)
  case 0
  then show ?case using opt_inv_init [OF assms(1)] by simp
next
  case (Suc k)
  then obtain ck info where ck: "optimize_loop [0..<k] (c, seed_info c) = Some (ck, info)" "opt_inv sem c k ck info"
    by auto
  moreover obtain c' info' where "optimize_at (of_nat k) (ck, info) = Some (c', info')"
    "opt_inv sem c (Suc k) c' info'"
    using opt_inv_step [OF ck(2) _ assms(2) _ assms(4)] Suc.prems assms(3) by auto
  ultimately show ?case by (simp add: optimize_loop_snoc)
qed

section \<open>Sample blocks\<close>

text \<open>A block with a constant to fold, a copy to propagate and an identity to simplify.\<close>

definition demo_temps :: "Temp list" where
  "demo_temps = [temp_new_const 0 I64 5, temp_new_const 1 I64 0, temp_new_tb 2 I64, temp_new_tb 3 I64, temp_new_tb 4 I64]"

definition demo_ctx :: "Op list \<Rightarrow> Context" where
  "demo_ctx os = context_new\<lparr>temps := demo_temps, ops := os,
     const_table := (\<lambda>ty v. if ty = I64 \<and> v = 5 then Some 0 else if ty = I64 \<and> v = 0 then Some 1 else None)\<rparr>"

definition demo_ops :: "Op list" where
  "demo_ops =
     [op_with_args 0 (OMov Mov) I64 [2, 3], op_with_args 1 (OArith Add) I64 [4, 2, 1],
      op_with_args 2 (OArith Add) I64 [2, 0, 0], op_with_args 3 (OCtl ExitTb) I64 [0]]"

definition demo_sem :: "unit sem" where "demo_sem opc ty vs cs m = ([], ())"

definition demo_state :: "unit ir_state" where
  "demo_state = \<lparr>tv = (\<lambda>t. if t = 3 then 7 else 0), mem = ()\<rparr>"

definition final :: "tempidx \<Rightarrow> 'm outcome \<Rightarrow> u64" where
  "final t r = (case r of Next st \<Rightarrow> tv st t | Jump l st \<Rightarrow> tv st t | Exit v st \<Rightarrow> tv st t)"

definition stale_ops :: "Op list" where
  "stale_ops = [op_with_args 0 (OMov Mov) I64 [2, 3], op_with_args 1 (OMov Mov) I64 [3, 0], op_with_args 2 (OMov Mov) I64 [4, 2]]"

definition label_ops :: "Op list" where
  "label_ops =
     [op_with_args 0 (OCtl BrCond) I64 [3, 2, cond_as_u32 Ne, 0], op_with_args 1 (OMov Mov) I64 [2, 0],
      op_with_args 2 (OCtl SetLabel) I64 [0], op_with_args 3 (OArith Add) I64 [4, 2, 1]]"

lemmas demo_defs = demo_ctx_def demo_temps_def context_new_def temp_defs op_with_args_def op_new_def MAX_OP_ARGS_def

section \<open>Properties\<close>

text \<open>
  C6: on a well-formed context whose ops are \<open>op_ok\<close> and \<open>copy_stable\<close>, and whose temps and ops
  together fit 32-bit indices, the optimizer terminates without a panic, and the block it has rewritten runs
  exactly as before, from the first op to the first jump or exit: the same outcome, the same value in
  every temp, the same memory, whatever the other operations do. Existing temps keep their index,
  only constants are added, and the number of ops does not change. \<open>op_ok\<close> asks that an op's temps
  exist, that it writes no constant, that its operands are as wide as the operation, and that a branch
  is not a signed 32-bit comparison; \<open>copy_stable\<close> that, between two block boundaries, no foldable op
  writes a temp that an earlier \<open>mov\<close> has copied. Without the last two conditions the optimizer
  miscompiles (\<open>folding_exact\<close>, \<open>stale_copy_misread\<close>).
\<close>

theorem optimize_correct:
  fixes sem :: "'m sem"
  assumes "ctx_wf c" "length (temps c) + length (ops c) < 2 ^ 32" "\<forall>op \<in> set (ops c). op_ok (temps c) op"
    "copy_stable [] (ops c)"
  shows "\<exists>c'. optimize c = Some c' \<and> ctx_wf c' \<and> length (ops c') = length (ops c) \<and>
    take (length (temps c)) (temps c') = temps c \<and>
    (\<forall>st. exec_ops sem (temps c') (ops c') st = exec_ops sem (temps c) (ops c) st)"
proof -
  obtain c' info' where "optimize_loop [0..<length (ops c)] (c, seed_info c) = Some (c', info')"
    "opt_inv sem c (length (ops c)) c' info'"
    using opt_inv_loop [OF assms order_refl, of sem] by blast
  then show ?thesis by (auto simp: optimize_def opt_inv_def)
qed

theorem optimize_correct_witness:
  "\<exists>c'. optimize (demo_ctx demo_ops) = Some c' \<and> map o_opc (ops c') = [OMov Mov, OMov Mov, OMov Mov, OCtl ExitTb] \<and>
     exec_ops demo_sem (temps c') (ops c') demo_state = exec_ops demo_sem demo_temps demo_ops demo_state"
proof -
  have "ctx_check [(I64, 5), (I64, 0)] (demo_ctx demo_ops)" by code_simp
  then have "ctx_wf (demo_ctx demo_ops)"
    by (rule ctx_wf_check) (auto simp: demo_ops_def demo_defs split: if_splits)
  moreover have "\<forall>op \<in> set (ops (demo_ctx demo_ops)). op_ok (temps (demo_ctx demo_ops)) op"
    by code_simp
  moreover have "copy_stable [] (ops (demo_ctx demo_ops))"
    by code_simp
  ultimately obtain c' where c': "optimize (demo_ctx demo_ops) = Some c'"
    "exec_ops demo_sem (temps c') (ops c') demo_state =
       exec_ops demo_sem (temps (demo_ctx demo_ops)) (ops (demo_ctx demo_ops)) demo_state"
    using optimize_correct [of "demo_ctx demo_ops" demo_sem] by (auto simp: demo_ops_def demo_defs)
  have "map_option (map o_opc \<circ> ops) (optimize (demo_ctx demo_ops)) = Some [OMov Mov, OMov Mov, OMov Mov, OCtl ExitTb]"
    by code_simp
  with c' show ?thesis by (simp add: demo_ctx_def)
qed

text \<open>
  What happens without \<open>copy_stable\<close>. \<open>mov a, b; mov b, 5; mov c, a\<close> leaves the old value
  of \<open>b\<close> in \<open>c\<close>; the optimized block leaves 5 there, because writing \<open>b\<close> does not drop
  the recorded copy \<open>a = b\<close>.
\<close>

lemma stale_copy_misread:
  "final 4 (exec_ops demo_sem demo_temps stale_ops demo_state) = 7 \<and>
   (\<exists>c'. optimize (demo_ctx stale_ops) = Some c' \<and> final 4 (exec_ops demo_sem (temps c') (ops c') demo_state) = 5)"
proof -
  have "map_option (\<lambda>c'. final 4 (exec_ops demo_sem (temps c') (ops c') demo_state)) (optimize (demo_ctx stale_ops)) = Some 5"
    by code_simp
  moreover have "final 4 (exec_ops demo_sem demo_temps stale_ops demo_state) = 7" by code_simp
  ultimately show ?thesis by auto
qed

text \<open>
  What happens at a label. Only the copies are reset there, so a constant recorded on the
  fall-through path is used on the path that jumps to the label: the branch of the sample block is
  taken and skips \<open>mov a, 5\<close>, and the sum after the label is folded to 5 all the same.
\<close>

lemma label_constant_misread:
  "map_option (final 4) (run_block 2 demo_sem demo_temps label_ops label_ops demo_state) = Some 0 \<and>
   (\<exists>c'. optimize (demo_ctx label_ops) = Some c' \<and>
      map_option (final 4) (run_block 2 demo_sem (temps c') (ops c') (ops c') demo_state) = Some 5)"
proof -
  have "map_option (\<lambda>c'. map_option (final 4) (run_block 2 demo_sem (temps c') (ops c') (ops c') demo_state))
      (optimize (demo_ctx label_ops)) = Some (Some 5)"
    by code_simp
  moreover have "map_option (final 4) (run_block 2 demo_sem demo_temps label_ops label_ops demo_state) = Some 0"
    by code_simp
  ultimately show ?thesis by auto
qed

end
