(* ===== verification/Liveness.thy ===== *)
theory Liveness
  imports IR_Semantics
begin

text \<open>
  The liveness pass (\<open>backend/src/liveness.rs\<close>): one backward walk over the ops that records, in
  each op's \<open>LifeData\<close>, which arguments die there. \<open>temp_state\<close> is the source's vector of
  booleans. The lemmas relate it to a set of live temps computed by a backward transfer function,
  and show that the value of a temp that dies is not needed by the rest of the run.
\<close>

section \<open>The pass\<close>

definition mark_globals :: "nat \<Rightarrow> bool list \<Rightarrow> bool list" where
  "mark_globals g ts = map (\<lambda>_. True) (take g ts) @ drop g ts"

definition out_arg :: "Op \<Rightarrow> nat \<Rightarrow> LifeData \<times> bool list \<Rightarrow> LifeData \<times> bool list" where
  "out_arg op i s =
     (case s of (life, ts) \<Rightarrow>
        let t = unat (o_args op ! i)
        in if t < length ts then (if \<not> ts ! t then set_dead life i else life, ts[t := False]) else (life, ts))"

definition in_arg :: "Context \<Rightarrow> Op \<Rightarrow> nat \<Rightarrow> LifeData \<times> bool list \<Rightarrow> (LifeData \<times> bool list) option" where
  "in_arg c op i s =
     (case s of (life, ts) \<Rightarrow>
        let t = unat (o_args op ! i)
        in if t \<ge> length ts then Some (life, ts)
           else if \<not> ts ! t then do {
             x \<leftarrow> temp c (of_nat t);
             let life' = set_dead life i;
             Some (if t_kind x = Global then set_sync life' i else life', ts[t := True])
           }
           else Some (life, ts[t := True]))"

primrec in_args :: "Context \<Rightarrow> Op \<Rightarrow> nat list \<Rightarrow> LifeData \<times> bool list \<Rightarrow> (LifeData \<times> bool list) option" where
  "in_args c op [] s = Some s"
| "in_args c op (i # is) s = do { s' \<leftarrow> in_arg c op i s; in_args c op is s' }"

definition out_args :: "Op \<Rightarrow> nat list \<Rightarrow> LifeData \<times> bool list \<Rightarrow> LifeData \<times> bool list" where
  "out_args op is s = foldl (\<lambda>s i. out_arg op i s) s is"

definition live_op :: "Context \<Rightarrow> nat \<Rightarrow> Op \<Rightarrow> bool list \<Rightarrow> (LifeData option \<times> bool list) option" where
  "live_op c g op ts0 =
     (let d = def_of (o_opc op);
          ts = (if flags_contains (op_flags d) BB_END then mark_globals g ts0 else ts0)
      in if o_opc op = OMisc Nop \<or> o_opc op = OMisc InsnStart then Some (None, ts)
         else do {
           let s = out_args op [0..<nb_oargs d] (LifeData 0, ts);
           (life, ts') \<leftarrow> in_args c op (map (\<lambda>i. nb_oargs d + i) [0..<nb_iargs d]) s;
           Some (Some life, ts')
         })"

definition live_at :: "nat \<Rightarrow> nat \<Rightarrow> Context \<times> bool list \<Rightarrow> (Context \<times> bool list) option" where
  "live_at g oi s =
     (case s of (c, ts) \<Rightarrow> do {
        op \<leftarrow> index (ops c) oi;
        (life, ts') \<leftarrow> live_op c g op ts;
        case life of
          None \<Rightarrow> Some (c, ts')
        | Some l \<Rightarrow> do {
            old \<leftarrow> op_at c (o_idx op);
            c' \<leftarrow> set_op c (o_idx op) (old\<lparr>o_life := l\<rparr>);
            Some (c', ts')
          }
      })"

primrec live_loop :: "nat \<Rightarrow> nat list \<Rightarrow> Context \<times> bool list \<Rightarrow> (Context \<times> bool list) option" where
  "live_loop g [] s = Some s"
| "live_loop g (oi # is) s = do { s' \<leftarrow> live_at g oi s; live_loop g is s' }"

definition liveness_analysis :: "Context \<Rightarrow> Context option" where
  "liveness_analysis c = do {
     let g = unat (nb_globals c);
     let ts = mark_globals g (replicate (unat (nb_temps c)) False);
     (c', _) \<leftarrow> live_loop g (rev [0..<length (ops c)]) (c, ts);
     Some c'
   }"

section \<open>Life data\<close>

lemma life_bit:
  assumes "i < 16"
  shows "is_dead l i = bit (life_bits l) (i * 2)" "is_sync l i = bit (life_bits l) (i * 2 + 1)"
    "bit (life_bits (set_dead l i)) n \<longleftrightarrow> bit (life_bits l) n \<or> n = i * 2"
    "bit (life_bits (set_sync l i)) n \<longleftrightarrow> bit (life_bits l) n \<or> n = i * 2 + 1"
proof -
  have b: "(w AND push_bit n 1 \<noteq> 0) = bit w n" if "n < 32" for w :: u32 and n
    using that and_exp_eq_0_iff_not_bit [of w n] by simp
  have p: "bit (push_bit m 1 :: u32) n \<longleftrightarrow> n = m" if "m < 32" for m
    using that by (auto simp: bit_exp_iff)
  show "is_dead l i = bit (life_bits l) (i * 2)" "is_sync l i = bit (life_bits l) (i * 2 + 1)"
    unfolding is_dead_def is_sync_def dead_arg_def sync_arg_def by (rule b; use assms in simp)+
  show "bit (life_bits (set_dead l i)) n \<longleftrightarrow> bit (life_bits l) n \<or> n = i * 2"
    "bit (life_bits (set_sync l i)) n \<longleftrightarrow> bit (life_bits l) n \<or> n = i * 2 + 1"
    unfolding set_dead_def set_sync_def dead_arg_def sync_arg_def LifeData.sel bit_or_iff
    using p [of "i * 2"] p [of "i * 2 + 1"] assms by simp_all
qed

lemma dead_bit:
  assumes "i < 16" "j < 16"
  shows "is_dead (set_dead l j) i \<longleftrightarrow> i = j \<or> is_dead l i" "is_dead (set_sync l j) i = is_dead l i"
    "is_sync (set_sync l j) i \<longleftrightarrow> i = j \<or> is_sync l i" "is_sync (set_dead l j) i = is_sync l i"
  using life_bit(1,2) [OF assms(1)] life_bit(3,4) [OF assms(2), of l] by (auto, presburger+)

lemma no_life [simp]: "\<not> is_dead (LifeData 0) i" "\<not> is_sync (LifeData 0) i"
  by (simp_all add: is_dead_def is_sync_def)

section \<open>The live temps\<close>

text \<open>
  The reference: the backward transfer of one op on the set of live temps. At the end of a basic
  block every global is live.
\<close>

definition global_set :: "nat \<Rightarrow> tempidx set" where
  "global_set g = {t. unat t < g}"

definition live_out :: "nat \<Rightarrow> Op \<Rightarrow> tempidx set \<Rightarrow> tempidx set" where
  "live_out g op X = (if flags_contains (op_flags (def_of (o_opc op))) BB_END then X \<union> global_set g else X)"

definition transfer :: "nat \<Rightarrow> Op \<Rightarrow> tempidx set \<Rightarrow> tempidx set" where
  "transfer g op X = live_out g op X - set (oargs op) \<union> set (iargs op)"

primrec live :: "nat \<Rightarrow> Op list \<Rightarrow> tempidx set" where
  "live g [] = global_set g"
| "live g (op # os) = transfer g op (live g os)"

text \<open>The vector stands for a set of temps.\<close>

definition state_of :: "nat \<Rightarrow> bool list \<Rightarrow> tempidx set \<Rightarrow> bool" where
  "state_of n ts X \<longleftrightarrow> length ts = n \<and> (\<forall>t :: tempidx. unat t < n \<longrightarrow> ts ! unat t = (t \<in> X))"

lemma state_of_update:
  assumes "state_of n ts X" "unat (t :: tempidx) < n"
  shows "state_of n (ts[unat t := True]) (insert t X)" "state_of n (ts[unat t := False]) (X - {t})"
  using assms by (auto simp: state_of_def nth_list_update unat_inject)

lemma state_of_globals:
  assumes "state_of n ts X" "g \<le> n"
  shows "state_of n (mark_globals g ts) (X \<union> global_set g)"
  using assms by (auto simp: state_of_def mark_globals_def global_set_def nth_append min_def)

text \<open>Which arguments are marked: the exact conditions.\<close>

definition out_dies :: "Op \<Rightarrow> tempidx set \<Rightarrow> nat \<Rightarrow> bool" where
  "out_dies op X i \<longleftrightarrow> o_args op ! i \<notin> X \<or> (\<exists>j < i. o_args op ! j = o_args op ! i)"

definition in_dies :: "Op \<Rightarrow> nat \<Rightarrow> tempidx set \<Rightarrow> nat \<Rightarrow> bool" where
  "in_dies op n Y i \<longleftrightarrow> o_args op ! i \<notin> Y \<and> (\<forall>j. n \<le> j \<and> j < i \<longrightarrow> o_args op ! j \<noteq> o_args op ! i)"

abbreviation args_upto :: "Op \<Rightarrow> nat \<Rightarrow> nat \<Rightarrow> tempidx set" where
  "args_upto op n m \<equiv> (\<lambda>i. o_args op ! i) ` {n..<m}"

lemma in_args_upto: "t \<in> args_upto op n m \<longleftrightarrow> (\<exists>j. n \<le> j \<and> j < m \<and> o_args op ! j = t)"
  by force

lemma out_args_ok:
  assumes "\<forall>i < m. unat (o_args op ! i) < n" "m \<le> 16" "state_of n ts X"
    "out_args op [0..<m] (LifeData 0, ts) = (l, ts')"
  shows "state_of n ts' (X - args_upto op 0 m) \<and> (\<forall>i < 16. \<not> is_sync l i \<and> (is_dead l i \<longleftrightarrow> i < m \<and> out_dies op X i))"
  using assms
proof (induction m arbitrary: l ts')
  case 0
  then show ?case by (auto simp: out_args_def)
next
  case (Suc m)
  obtain k us where k: "out_args op [0..<m] (LifeData 0, ts) = (k, us)" by fastforce
  from Suc.IH [OF _ _ Suc.prems(3) k] Suc.prems(1,2)
  have IH: "state_of n us (X - args_upto op 0 m)" "\<forall>i < 16. \<not> is_sync k i \<and> (is_dead k i \<longleftrightarrow> i < m \<and> out_dies op X i)"
    by simp_all
  let ?t = "o_args op ! m"
  have t: "unat ?t < n" "length us = n" using Suc.prems(1) IH(1) by (simp_all add: state_of_def)
  have step: "(l, ts') = out_arg op m (k, us)" using Suc.prems(4) k by (simp add: out_args_def)
  have ts': "ts' = us[unat ?t := False]" and l: "l = (if us ! unat ?t then k else set_dead k m)"
    using step t by (simp_all add: out_arg_def Let_def)
  have more: "args_upto op 0 (Suc m) = insert ?t (args_upto op 0 m)" by (auto simp: less_Suc_eq)
  have "state_of n ts' (X - args_upto op 0 (Suc m))"
    unfolding ts' more Diff_insert [of X] by (rule state_of_update(2) [OF IH(1) t(1)])
  moreover have dies: "us ! unat ?t = (\<not> out_dies op X m)"
    using IH(1) t(1) by (auto simp: state_of_def out_dies_def in_args_upto)
  have "\<not> is_sync l i \<and> (is_dead l i \<longleftrightarrow> i < Suc m \<and> out_dies op X i)" if "i < 16" for i
  proof -
    have "is_dead l i = (i = m \<and> out_dies op X m \<or> is_dead k i)" "is_sync l i = is_sync k i"
      using dead_bit [of i m k] that Suc.prems(2) dies IH(2) unfolding l by auto
    moreover have "\<not> is_sync k i" "is_dead k i \<longleftrightarrow> i < m \<and> out_dies op X i" using IH(2) that by blast+
    ultimately show ?thesis by (auto simp: less_Suc_eq)
  qed
  ultimately show ?case by blast
qed

lemma in_args_snoc: "in_args c op (is @ [i]) s = do { s' \<leftarrow> in_args c op is s; in_arg c op i s' }"
  by (induction "is" arbitrary: s) (simp_all split: Option.bind_split)

lemma in_args_ok:
  assumes "\<forall>i < m. unat (o_args op ! (n0 + i)) < n" "n0 + m \<le> 16" "state_of n ts Y" "n = length (temps c)" "n < 2 ^ 32"
    "\<forall>i. n0 \<le> i \<and> i < 16 \<longrightarrow> \<not> is_dead l0 i \<and> \<not> is_sync l0 i"
  shows "\<exists>l ts'. in_args c op (map (\<lambda>i. n0 + i) [0..<m]) (l0, ts) = Some (l, ts') \<and>
    state_of n ts' (Y \<union> args_upto op n0 (n0 + m)) \<and>
    (\<forall>i < 16. is_dead l i \<longleftrightarrow> is_dead l0 i \<or> (n0 \<le> i \<and> i < n0 + m \<and> in_dies op n0 Y i)) \<and>
    (\<forall>i. n0 \<le> i \<and> i < 16 \<longrightarrow> (is_sync l i \<longleftrightarrow> i < n0 + m \<and> in_dies op n0 Y i \<and>
       t_kind (temps c ! unat (o_args op ! i)) = Global))"
  using assms(1,2)
proof (induction m)
  case 0
  then show ?case using assms(3,6) by auto
next
  case (Suc m)
  then obtain k us where k: "in_args c op (map (\<lambda>i. n0 + i) [0..<m]) (l0, ts) = Some (k, us)"
    and IH: "state_of n us (Y \<union> args_upto op n0 (n0 + m))"
    "\<forall>i < 16. is_dead k i \<longleftrightarrow> is_dead l0 i \<or> (n0 \<le> i \<and> i < n0 + m \<and> in_dies op n0 Y i)"
    "\<forall>i. n0 \<le> i \<and> i < 16 \<longrightarrow> (is_sync k i \<longleftrightarrow> i < n0 + m \<and> in_dies op n0 Y i \<and>
       t_kind (temps c ! unat (o_args op ! i)) = Global)"
    by auto
  let ?i = "n0 + m" and ?t = "o_args op ! (n0 + m)"
  have t: "unat ?t < n" "length us = n" "?i < 16" using Suc.prems IH(1) by (simp_all add: state_of_def)
  have x: "temp c (of_nat (unat ?t)) = Some (temps c ! unat ?t)" using t(1) assms(4) by (simp add: temp_def)
  have "us ! unat ?t = (?t \<in> Y \<or> (\<exists>j. n0 \<le> j \<and> j < ?i \<and> o_args op ! j = ?t))"
    using IH(1) t(1) by (simp add: state_of_def in_args_upto)
  then have dies: "us ! unat ?t = (\<not> in_dies op n0 Y ?i)" by (auto simp: in_dies_def)
  let ?l = "if us ! unat ?t then k else if t_kind (temps c ! unat ?t) = Global then set_sync (set_dead k ?i) ?i else set_dead k ?i"
  have "in_args c op (map (\<lambda>i. n0 + i) [0..<Suc m]) (l0, ts) = Some (?l, us[unat ?t := True])"
    using k t x by (simp add: in_args_snoc in_arg_def Let_def)
  moreover have more: "args_upto op n0 (n0 + Suc m) = insert ?t (args_upto op n0 ?i)" by (auto simp: less_Suc_eq)
  have "state_of n (us[unat ?t := True]) (Y \<union> args_upto op n0 (n0 + Suc m))"
    unfolding more Un_insert_right by (rule state_of_update(1) [OF IH(1) t(1)])
  moreover have "is_dead ?l i \<longleftrightarrow> is_dead l0 i \<or> (n0 \<le> i \<and> i < n0 + Suc m \<and> in_dies op n0 Y i)" if "i < 16" for i
    using IH(2) that t(3) dies dead_bit [of i ?i]
    by (cases "i = ?i") (simp_all add: less_Suc_eq)
  moreover have "is_sync ?l i \<longleftrightarrow> i < n0 + Suc m \<and> in_dies op n0 Y i \<and>
       t_kind (temps c ! unat (o_args op ! i)) = Global" if "n0 \<le> i" "i < 16" for i
    using IH(3) that t(3) dies dead_bit [of i ?i]
    by (cases "i = ?i") (simp_all add: less_Suc_eq)
  ultimately show ?case by blast
qed

section \<open>The pass computes the live temps\<close>

text \<open>What the life data of an op say, with \<open>X\<close> the temps live after the op.\<close>

definition life_exact :: "Temp list \<Rightarrow> nat \<Rightarrow> Op \<Rightarrow> tempidx set \<Rightarrow> LifeData \<Rightarrow> bool" where
  "life_exact ts g op X life \<longleftrightarrow>
     (let n = nb_oargs (def_of (o_opc op)); m = nb_iargs (def_of (o_opc op)); Y = live_out g op X
      in (\<forall>i < n. is_dead life i \<longleftrightarrow> out_dies op Y i) \<and>
         (\<forall>i. n \<le> i \<and> i < n + m \<longrightarrow>
            (is_dead life i \<longleftrightarrow> in_dies op n (Y - set (oargs op)) i) \<and>
            (is_sync life i \<longleftrightarrow> is_dead life i \<and> t_kind (ts ! unat (o_args op ! i)) = Global)))"

definition op_valid :: "nat \<Rightarrow> Op \<Rightarrow> bool" where
  "op_valid n op \<longleftrightarrow> length (o_args op) = MAX_OP_ARGS \<and> args_valid n op"

lemma op_args_sets:
  assumes "length (o_args op) = MAX_OP_ARGS"
  shows "args_upto op 0 (nb_oargs (def_of (o_opc op))) = set (oargs op)"
    "args_upto op (nb_oargs (def_of (o_opc op))) (nb_oargs (def_of (o_opc op)) + nb_iargs (def_of (o_opc op))) = set (iargs op)"
proof -
  let ?n = "nb_oargs (def_of (o_opc op))" and ?m = "nb_iargs (def_of (o_opc op))"
  have le: "?n + ?m \<le> length (o_args op)"
    using arg_counts [of "o_opc op"] assms by (simp add: nb_args_def MAX_OP_ARGS_def)
  then show "args_upto op 0 ?n = set (oargs op)"
    by (simp add: oargs_def nth_image flip: atLeast0LessThan)
  have "set (iargs op) = (\<lambda>i. o_args op ! (?n + i)) ` {0..<?m}"
    using le nth_image [of ?m "drop ?n (o_args op)"] by (simp add: iargs_def Let_def)
  also have "\<dots> = (\<lambda>i. o_args op ! i) ` {?n..<?n + ?m}"
    using image_image [of "\<lambda>i. o_args op ! i" "\<lambda>i. ?n + i" "{0..<?m}"]
    by (simp add: add.commute [of ?m])
  finally show "args_upto op ?n (?n + ?m) = set (iargs op)" by simp
qed

lemma live_op_ok:
  assumes "state_of n ts X" "op_valid n op" "g \<le> n" "n = length (temps c)" "n < 2 ^ 32"
  shows "\<exists>l ts'. live_op c g op ts = Some (l, ts') \<and> state_of n ts' (transfer g op X) \<and>
    (l = None \<longleftrightarrow> o_opc op \<in> {OMisc Nop, OMisc InsnStart}) \<and> (\<forall>life. l = Some life \<longrightarrow> life_exact (temps c) g op X life)"
proof -
  let ?d = "def_of (o_opc op)"
  let ?n = "nb_oargs ?d" and ?m = "nb_iargs ?d"
  let ?ts = "if flags_contains (op_flags ?d) BB_END then mark_globals g ts else ts"
  have so: "state_of n ?ts (live_out g op X)"
    using assms(1) state_of_globals [OF assms(1,3)] by (simp add: live_out_def)
  have le: "?n + ?m \<le> 10" using arg_counts [of "o_opc op"] by (simp add: nb_args_def)
  have len: "length (o_args op) = MAX_OP_ARGS" using assms(2) by (simp add: op_valid_def)
  note sets = op_args_sets [OF len]
  have valid: "\<forall>i < ?n + ?m. unat (o_args op ! i) < n"
  proof (intro allI impI)
    fix i assume "i < ?n + ?m"
    then have "o_args op ! i \<in> set (oargs op) \<union> set (iargs op)"
      unfolding sets [symmetric] by (cases "i < ?n") auto
    with assms(2) show "unat (o_args op ! i) < n" by (auto simp: op_valid_def args_valid_def)
  qed
  show ?thesis
  proof (cases "o_opc op \<in> {OMisc Nop, OMisc InsnStart}")
    case True
    then have "oargs op = []" "iargs op = []" by (auto simp: oargs_def iargs_def)
    then show ?thesis using True so by (auto simp: live_op_def transfer_def Let_def)
  next
    case False
    obtain l0 ts0 where o: "out_args op [0..<?n] (LifeData 0, ?ts) = (l0, ts0)" by fastforce
    have oo: "state_of n ts0 (live_out g op X - set (oargs op))"
      "\<forall>i < 16. \<not> is_sync l0 i \<and> (is_dead l0 i \<longleftrightarrow> i < ?n \<and> out_dies op (live_out g op X) i)"
      using out_args_ok [OF _ _ so o] valid le sets(1) by auto
    obtain l ts' where r: "in_args c op (map (\<lambda>i. ?n + i) [0..<?m]) (l0, ts0) = Some (l, ts')"
      "state_of n ts' (live_out g op X - set (oargs op) \<union> args_upto op ?n (?n + ?m))"
      "\<forall>i < 16. is_dead l i \<longleftrightarrow> is_dead l0 i \<or> (?n \<le> i \<and> i < ?n + ?m \<and> in_dies op ?n (live_out g op X - set (oargs op)) i)"
      "\<forall>i. ?n \<le> i \<and> i < 16 \<longrightarrow> (is_sync l i \<longleftrightarrow> i < ?n + ?m \<and> in_dies op ?n (live_out g op X - set (oargs op)) i \<and>
         t_kind (temps c ! unat (o_args op ! i)) = Global)"
      using in_args_ok [OF _ _ oo(1) assms(4,5), of ?m op ?n l0] valid le oo(2) by auto
    have "life_exact (temps c) g op X l"
      unfolding life_exact_def Let_def using oo(2) r(3,4) le by auto
    then show ?thesis
      using False o r(1,2) by (auto simp: live_op_def Let_def transfer_def sets(2))
  qed
qed

lemma live_loop_append: "live_loop g (is @ js) s = do { s' \<leftarrow> live_loop g is s; live_loop g js s' }"
  by (induction "is" arbitrary: s) (simp_all split: Option.bind_split)

text \<open>Op \<open>i\<close> of the result, when the walk has come down to \<open>k\<close>: only its life data may differ.\<close>

definition op_done :: "Context \<Rightarrow> nat \<Rightarrow> nat \<Rightarrow> Op \<Rightarrow> bool" where
  "op_done c k i op \<longleftrightarrow>
     op = (ops c ! i)\<lparr>o_life := o_life op\<rparr> \<and> (i < k \<longrightarrow> op = ops c ! i) \<and>
     (k \<le> i \<and> o_opc (ops c ! i) \<notin> {OMisc Nop, OMisc InsnStart} \<longrightarrow>
        life_exact (temps c) (unat (nb_globals c)) (ops c ! i) (live (unat (nb_globals c)) (drop (Suc i) (ops c))) (o_life op))"

definition live_inv :: "Context \<Rightarrow> nat \<Rightarrow> Context \<Rightarrow> bool list \<Rightarrow> bool" where
  "live_inv c k ck ts \<longleftrightarrow>
     state_of (length (temps c)) ts (live (unat (nb_globals c)) (drop k (ops c))) \<and>
     (\<exists>os. ck = c\<lparr>ops := os\<rparr> \<and> length os = length (ops c) \<and> (\<forall>i < length os. op_done c k i (os ! i)))"

lemma op_done_Suc:
  "op_done c (Suc k) i op \<Longrightarrow> i \<noteq> k \<or> o_opc (ops c ! k) \<in> {OMisc Nop, OMisc InsnStart} \<Longrightarrow> op_done c k i op"
  unfolding op_done_def by (metis Suc_leI le_neq_implies_less less_SucI)

lemma live_inv_step:
  assumes "live_inv c (Suc k) ck ts" "ctx_wf c" "\<forall>op \<in> set (ops c). op_valid (length (temps c)) op" "k < length (ops c)"
  shows "\<exists>c' ts'. live_at (unat (nb_globals c)) k (ck, ts) = Some (c', ts') \<and> live_inv c k c' ts'"
proof -
  let ?g = "unat (nb_globals c)" and ?op = "ops c ! k"
  obtain os where os: "ck = c\<lparr>ops := os\<rparr>" "length os = length (ops c)"
    and inv: "\<forall>i < length os. op_done c (Suc k) i (os ! i)"
    and st: "state_of (length (temps c)) ts (live ?g (drop (Suc k) (ops c)))"
    using assms(1) by (auto simp: live_inv_def)
  have opk: "os ! k = ?op" using inv assms(4) os(2) by (simp add: op_done_def)
  have wf: "?g \<le> length (temps c)" "length (temps c) < 2 ^ 32" "o_idx ?op = of_nat k" "length (ops c) < 2 ^ 32"
    using assms(2,4) by (simp_all add: ctx_wf_def)
  have idx: "unat (o_idx ?op) = k" using wf(3,4) assms(4) by simp
  have v: "op_valid (length (temps c)) ?op" using assms(3,4) by simp
  obtain l ts' where r: "live_op ck ?g ?op ts = Some (l, ts')"
    "state_of (length (temps c)) ts' (transfer ?g ?op (live ?g (drop (Suc k) (ops c))))"
    "l = None \<longleftrightarrow> o_opc ?op \<in> {OMisc Nop, OMisc InsnStart}"
    "\<forall>life. l = Some life \<longrightarrow> life_exact (temps c) ?g ?op (live ?g (drop (Suc k) (ops c))) life"
    using live_op_ok [OF st v wf(1), of ck] wf(2) os(1) by auto
  have st': "state_of (length (temps c)) ts' (live ?g (drop k (ops c)))"
    using r(2) assms(4) by (simp add: Cons_nth_drop_Suc [symmetric])
  show ?thesis
  proof (cases l)
    case None
    have "live_at ?g k (ck, ts) = Some (ck, ts')"
      using None r(1) os opk assms(4) by (simp add: live_at_def)
    moreover have "live_inv c k ck ts'"
      unfolding live_inv_def using st' os inv None r(3) op_done_Suc by blast
    ultimately show ?thesis by blast
  next
    case (Some life)
    let ?os = "os[k := ?op\<lparr>o_life := life\<rparr>]"
    have "live_at ?g k (ck, ts) = Some (c\<lparr>ops := ?os\<rparr>, ts')"
      using Some r(1) os opk assms(4) idx by (simp add: live_at_def op_at_def set_op_def)
    moreover have "op_done c k i (?os ! i)" if "i < length os" for i
      using op_done_Suc [of c k i "os ! i"] inv that r(4) Some
      by (cases "i = k") (simp_all add: op_done_def)
    then have "live_inv c k (c\<lparr>ops := ?os\<rparr>) ts'"
      unfolding live_inv_def using st' os(2) by (intro conjI exI [of _ ?os]) simp_all
    ultimately show ?thesis by blast
  qed
qed

lemma live_inv_loop:
  assumes "ctx_wf c" "\<forall>op \<in> set (ops c). op_valid (length (temps c)) op" "k \<le> length (ops c)"
  shows "\<exists>c' ts'. live_loop (unat (nb_globals c)) (rev [k..<length (ops c)])
      (c, mark_globals (unat (nb_globals c)) (replicate (unat (nb_temps c)) False)) = Some (c', ts') \<and> live_inv c k c' ts'"
  using assms(3)
proof (induction k rule: inc_induct)
  case base
  have n: "unat (nb_temps c) = length (temps c)" "unat (nb_globals c) \<le> length (temps c)"
    using assms(1) by (simp_all add: nb_temps_def ctx_wf_def)
  have "state_of (length (temps c)) (replicate (length (temps c)) False) {}" by (simp add: state_of_def)
  from state_of_globals [OF this n(2)]
  have "live_inv c (length (ops c)) c (mark_globals (unat (nb_globals c)) (replicate (unat (nb_temps c)) False))"
    unfolding live_inv_def n(1) by (intro conjI exI [of _ "ops c"]) (simp_all add: op_done_def)
  then show ?case by simp
next
  case (step k)
  then obtain ck ts where ck: "live_loop (unat (nb_globals c)) (rev [Suc k..<length (ops c)])
      (c, mark_globals (unat (nb_globals c)) (replicate (unat (nb_temps c)) False)) = Some (ck, ts)" "live_inv c (Suc k) ck ts"
    by blast
  moreover obtain c' ts' where "live_at (unat (nb_globals c)) k (ck, ts) = Some (c', ts')" "live_inv c k c' ts'"
    using live_inv_step [OF ck(2) assms(1,2) step.hyps(2)] by blast
  ultimately show ?case using step.hyps(2) by (simp add: upt_conv_Cons live_loop_append)
qed

section \<open>Dead temps are not needed\<close>

definition agree :: "tempidx set \<Rightarrow> 'm ir_state \<Rightarrow> 'm ir_state \<Rightarrow> bool" where
  "agree X st st' \<longleftrightarrow> mem st = mem st' \<and> (\<forall>t \<in> X. tv st t = tv st' t)"

fun same_outcome :: "tempidx set \<Rightarrow> 'm outcome \<Rightarrow> 'm outcome \<Rightarrow> bool" where
  "same_outcome X (Next st) (Next st') = agree X st st'"
| "same_outcome X (Jump l st) (Jump l' st') \<longleftrightarrow> l = l' \<and> agree X st st'"
| "same_outcome X (Exit v st) (Exit v' st') \<longleftrightarrow> v = v' \<and> agree X st st'"
| "same_outcome X _ _ = False"

text \<open>An operation of the machine gives a value for each of its outputs.\<close>

definition sem_total :: "'m sem \<Rightarrow> bool" where
  "sem_total sem \<longleftrightarrow> (\<forall>opc ty vs cs m. length (fst (sem opc ty vs cs m)) = nb_oargs (def_of opc))"

lemma agree_mono: "agree X st st' \<Longrightarrow> Y \<subseteq> X \<Longrightarrow> agree Y st st'"
  by (auto simp: agree_def)

lemma same_outcome_mono: "same_outcome X r r' \<Longrightarrow> Y \<subseteq> X \<Longrightarrow> same_outcome Y r r'"
  by (cases "(X, r, r')" rule: same_outcome.cases) (auto intro: agree_mono)

lemma rd_agree: "agree X st st' \<Longrightarrow> t \<in> X \<Longrightarrow> rd ts st t = rd ts st' t"
  by (simp add: agree_def rd_def Let_def)

lemma agree_wr: "agree (X - {t}) st st' \<Longrightarrow> agree X (wr ts t v st) (wr ts t v st')"
  by (auto simp: agree_def wr_def)

lemma agree_wr_all:
  "length os = length vs \<Longrightarrow> agree (X - set os) st st' \<Longrightarrow> agree X (wr_all ts (zip os vs) st) (wr_all ts (zip os vs) st')"
proof (induction os vs arbitrary: X st st' rule: list_induct2)
  case Nil
  then show ?case by simp
next
  case (Cons t os v vs)
  have "agree (X - set os - {t}) st st'" by (rule agree_mono [OF Cons.prems]) auto
  then have "agree (X - set os) (wr ts t v st) (wr ts t v st')" by (rule agree_wr)
  then show ?case using Cons.IH by simp
qed

lemma pure_val_one_output:
  assumes "pure_val opc ty vs = Some v"
  shows "nb_oargs (def_of opc) = 1"
proof (cases opc)
  case (OMov x) with assms show ?thesis
    by (cases x) (simp_all add: pure_val_def at_width_def int_val_def split: if_splits)
next
  case (OArith x) with assms show ?thesis
    by (cases x) (simp_all add: pure_val_def at_width_def int_val_def split: if_splits)
next
  case (OLogic x) with assms show ?thesis by (cases x) simp_all
next
  case (OShift x) then show ?thesis by (cases x) simp_all
next
  case (OConv x) then show ?thesis by (cases x) simp_all
qed (use assms in \<open>simp_all add: pure_val_def at_width_def int_val_def split: if_splits\<close>)

lemma exec_op_agree:
  assumes "agree (transfer g op X) st st'" "sem_total sem" "length (o_args op) = MAX_OP_ARGS"
  shows "same_outcome (live_out g op X) (exec_op sem ts op st) (exec_op sem ts op st')"
proof -
  have inp: "map (rd ts st) (iargs op) = map (rd ts st') (iargs op)"
    using rd_agree [OF assms(1)] by (simp add: transfer_def)
  have keep: "agree (live_out g op X - set (oargs op)) st st'"
    by (rule agree_mono [OF assms(1)]) (auto simp: transfer_def)
  have mem: "mem st = mem st'" using assms(1) by (simp add: agree_def)
  have le: "nb_oargs (def_of (o_opc op)) \<le> length (o_args op)"
    using arg_counts [of "o_opc op"] assms(3) by (simp add: MAX_OP_ARGS_def)
  have other: "agree (live_out g op X) (exec_other sem ts op st) (exec_other sem ts op st')"
    unfolding exec_other_def Let_def inp mem
    by (rule agree_wr_all) (use assms(2) keep le in \<open>simp_all add: sem_total_def oargs_def agree_def\<close>)
  have pure: "agree (live_out g op X) (wr ts (o_args op ! 0) v st) (wr ts (o_args op ! 0) v st')"
    if "pure_val (o_opc op) (o_type op) (map (rd ts st) (iargs op)) = Some v" for v
  proof (rule agree_wr)
    have "oargs op = [o_args op ! 0]"
      using pure_val_one_output [OF that] assms(3) by (simp add: oargs_def take_Suc_conv_app_nth MAX_OP_ARGS_def)
    with keep show "agree (live_out g op X - {o_args op ! 0}) st st'" by simp
  qed
  have ctl: "agree (live_out g op X) st st'" if "oargs op = []" using keep that by simp
  have nth: "i < length (iargs op) \<Longrightarrow> rd ts st (iargs op ! i) = rd ts st' (iargs op ! i)" for i
    using rd_agree [OF assms(1)] by (simp add: transfer_def)
  consider "o_opc op = OCtl BrCond" | "o_opc op = OCtl GotoPtr"
    | "o_opc op \<in> {OCtl Br, OCtl SetLabel, OCtl GotoTb, OCtl ExitTb, OMisc Nop, OMisc InsnStart}"
    | "\<not> controls (o_opc op)"
    by (auto simp: controls_def)
  then show ?thesis
  proof cases
    case 1
    then have "oargs op = []" by (simp add: oargs_def)
    moreover have "iargs op = [o_args op ! 0, o_args op ! 1]"
      using 1 assms(3) by (simp add: iargs_def MAX_OP_ARGS_def numeral_2_eq_2 take_Suc_conv_app_nth)
    ultimately show ?thesis using 1 ctl nth [of 0] nth [of 1] by (simp add: exec_op_def)
  next
    case 2
    then have "oargs op = []" "iargs op = [o_args op ! 0]"
      using assms(3) by (simp_all add: oargs_def iargs_def MAX_OP_ARGS_def take_Suc_conv_app_nth)
    then show ?thesis using 2 ctl nth [of 0] by (simp add: exec_op_def)
  next
    case 3
    then have "oargs op = []" by (auto simp: oargs_def)
    then show ?thesis using 3 ctl by (auto simp: exec_op_def)
  next
    case 4
    show ?thesis
      using other pure unfolding exec_plain [OF 4] inp by (simp split: option.split)
  qed
qed

lemma globals_in_live_out:
  assumes "exec_op sem ts op st = Jump l s \<or> exec_op sem ts op st = Exit v s"
  shows "global_set g \<subseteq> live_out g op X"
proof -
  have "controls (o_opc op)"
  proof (rule ccontr)
    assume "\<not> controls (o_opc op)"
    from assms [unfolded exec_plain [OF this]] show False by (auto split: option.splits)
  qed
  with assms have "o_opc op \<in> {OCtl Br, OCtl BrCond, OCtl ExitTb, OCtl GotoPtr}"
    by (auto simp: controls_def exec_op_def)
  then show ?thesis by (auto simp: live_out_def flags_contains_def flag_defs flag_or_def)
qed

lemma live_agree:
  assumes "agree (live g os) st st'" "sem_total sem" "\<forall>op \<in> set os. length (o_args op) = MAX_OP_ARGS"
  shows "same_outcome (global_set g) (exec_ops sem ts os st) (exec_ops sem ts os st')"
  using assms
proof (induction os arbitrary: st st')
  case Nil
  then show ?case by simp
next
  case (Cons op os)
  have step: "same_outcome (live_out g op (live g os)) (exec_op sem ts op st) (exec_op sem ts op st')"
    by (rule exec_op_agree) (use Cons.prems in simp_all)
  have sub: "live g os \<subseteq> live_out g op (live g os)" by (auto simp: live_out_def)
  show ?case
  proof (cases "exec_op sem ts op st")
    case (Next s)
    then obtain s' where "exec_op sem ts op st' = Next s'" "agree (live_out g op (live g os)) s s'"
      using step by (cases "exec_op sem ts op st'") auto
    then show ?thesis using Next Cons.IH [OF agree_mono [OF _ sub]] Cons.prems by simp
  next
    case (Jump l s)
    then show ?thesis using same_outcome_mono [OF step globals_in_live_out [of sem ts op st l s]] step
      by (cases "exec_op sem ts op st'") auto
  next
    case (Exit v s)
    then show ?thesis using same_outcome_mono [OF step globals_in_live_out [of sem ts op st _ s v]] step
      by (cases "exec_op sem ts op st'") auto
  qed
qed

lemma liveness_analysis_result:
  assumes "ctx_wf c" "\<forall>op \<in> set (ops c). op_valid (length (temps c)) op"
  shows "\<exists>os. liveness_analysis c = Some (c\<lparr>ops := os\<rparr>) \<and> length os = length (ops c) \<and>
    (\<forall>k < length os. op_done c 0 k (os ! k))"
  using live_inv_loop [OF assms, of 0] by (auto simp: liveness_analysis_def Let_def live_inv_def)

section \<open>Properties\<close>

text \<open>A block that copies a global, doubles it and writes it back.\<close>

definition live_demo :: Context where
  "live_demo = context_new\<lparr>
     temps := [temp_new_global 0 I64 0 8 ''x1'', temp_new_tb 1 I64, temp_new_tb 2 I64], nb_globals := 1,
     ops := [op_with_args 0 (OMov Mov) I64 [1, 0], op_with_args 1 (OArith Add) I64 [2, 1, 1],
             op_with_args 2 (OMov Mov) I64 [0, 2], op_with_args 3 (OCtl ExitTb) I64 [0]]\<rparr>"

definition live_demo_sem :: "unit sem" where
  "live_demo_sem opc ty vs cs m = (replicate (nb_oargs (def_of opc)) 0, m)"

lemma live_demo_ok: "ctx_wf live_demo" "\<forall>op \<in> set (ops live_demo). op_valid (length (temps live_demo)) op"
proof -
  have "ctx_check [] live_demo" by code_simp
  then show "ctx_wf live_demo" by (rule ctx_wf_check) (simp_all add: live_demo_def context_new_def)
  show "\<forall>op \<in> set (ops live_demo). op_valid (length (temps live_demo)) op" by code_simp
qed

text \<open>
  C17: the pass returns on every well-formed context, changes nothing but the life data, and marks
  exactly the right arguments. With the live temps given by the backward transfer function: an
  output is dead if its temp is not live after the op; an input is dead if its temp is not live
  after the op, or written by it, at its first occurrence among the inputs; the inputs to be synced
  are the dead ones that are globals.
\<close>

theorem liveness_exact:
  assumes "ctx_wf c" "\<forall>op \<in> set (ops c). op_valid (length (temps c)) op"
  shows "\<exists>c'. liveness_analysis c = Some c' \<and> c' = c\<lparr>ops := ops c'\<rparr> \<and> length (ops c') = length (ops c) \<and>
    (\<forall>k < length (ops c). ops c' ! k = (ops c ! k)\<lparr>o_life := o_life (ops c' ! k)\<rparr> \<and>
       (o_opc (ops c ! k) \<notin> {OMisc Nop, OMisc InsnStart} \<longrightarrow>
          life_exact (temps c) (unat (nb_globals c)) (ops c ! k)
            (live (unat (nb_globals c)) (drop (Suc k) (ops c))) (o_life (ops c' ! k))))"
proof -
  obtain os where os: "liveness_analysis c = Some (c\<lparr>ops := os\<rparr>)" "length os = length (ops c)"
    "\<forall>k < length os. op_done c 0 k (os ! k)"
    using liveness_analysis_result [OF assms] by blast
  then show ?thesis by (intro exI [of _ "c\<lparr>ops := os\<rparr>"]) (auto simp: op_done_def)
qed

theorem liveness_exact_witness:
  "\<exists>c'. liveness_analysis live_demo = Some c' \<and> is_dead (o_life (ops c' ! 0)) 1 \<and> is_sync (o_life (ops c' ! 0)) 1 \<and>
     life_exact (temps live_demo) 1 (ops live_demo ! 1) (live 1 (drop 2 (ops live_demo))) (o_life (ops c' ! 1))"
proof -
  obtain c' where c': "liveness_analysis live_demo = Some c'"
    "life_exact (temps live_demo) 1 (ops live_demo ! 1) (live 1 (drop 2 (ops live_demo))) (o_life (ops c' ! 1))"
    using liveness_exact [OF live_demo_ok]
    by (auto simp: live_demo_def op_with_args_def op_new_def Let_def numeral_2_eq_2)
  have "map_option (\<lambda>c'. is_dead (o_life (ops c' ! 0)) 1 \<and> is_sync (o_life (ops c' ! 0)) 1) (liveness_analysis live_demo) = Some True"
    by code_simp
  with c' show ?thesis by simp
qed

text \<open>
  C18: what is marked dead is not needed. When an argument of op \<open>k\<close> is marked dead and the op does
  not write that temp itself (or the argument is its only output), the rest of the run gives the
  same outcome, the same memory and the same globals whatever value the temp holds.
\<close>

theorem dead_args_unused:
  fixes sem :: "'m sem"
  assumes "ctx_wf c" "\<forall>op \<in> set (ops c). op_valid (length (temps c)) op" "sem_total sem"
    and "k < length (ops c)" "o_opc (ops c ! k) \<notin> {OMisc Nop, OMisc InsnStart}"
    and "i < nb_oargs (def_of (o_opc (ops c ! k))) + nb_iargs (def_of (o_opc (ops c ! k)))"
    and "liveness_analysis c = Some c'" "is_dead (o_life (ops c' ! k)) i"
    and "if i < nb_oargs (def_of (o_opc (ops c ! k))) then distinct (oargs (ops c ! k))
         else o_args (ops c ! k) ! i \<notin> set (oargs (ops c ! k))"
  shows "same_outcome (global_set (unat (nb_globals c)))
    (exec_ops sem (temps c) (drop (Suc k) (ops c)) (st\<lparr>tv := (tv st)(o_args (ops c ! k) ! i := v)\<rparr>))
    (exec_ops sem (temps c) (drop (Suc k) (ops c)) st)"
proof -
  let ?op = "ops c ! k" and ?g = "unat (nb_globals c)"
  let ?t = "o_args ?op ! i" and ?L = "live ?g (drop (Suc k) (ops c))" and ?n = "nb_oargs (def_of (o_opc ?op))"
  have ex: "life_exact (temps c) ?g ?op ?L (o_life (ops c' ! k))"
    using liveness_analysis_result [OF assms(1,2)] assms(4,5,7) by (auto simp: op_done_def)
  have len: "length (o_args ?op) = MAX_OP_ARGS" using assms(2,4) by (simp add: op_valid_def)
  have "?t \<notin> live_out ?g ?op ?L"
  proof (cases "i < ?n")
    case True
    have nth: "oargs ?op ! j = o_args ?op ! j" "length (oargs ?op) = ?n" if "j < ?n" for j
      using that len arg_counts [of "o_opc ?op"] by (simp_all add: oargs_def MAX_OP_ARGS_def)
    have "o_args ?op ! j \<noteq> ?t" if "j < i" for j
      using nth_eq_iff_index_eq [of "oargs ?op" j i] nth [of i] nth [of j] assms(9) True that by simp
    with True ex assms(8) show ?thesis by (auto simp: life_exact_def out_dies_def Let_def)
  next
    case False
    with ex assms(6,8,9) show ?thesis by (auto simp: life_exact_def in_dies_def Let_def)
  qed
  then have "?t \<notin> ?L" by (auto simp: live_out_def split: if_splits)
  then have "agree ?L (st\<lparr>tv := (tv st)(?t := v)\<rparr>) st" by (auto simp: agree_def)
  then show ?thesis
    by (rule live_agree [OF _ assms(3)]) (use assms(2) in \<open>auto simp: op_valid_def dest: in_set_dropD\<close>)
qed

theorem dead_args_unused_witness:
  "same_outcome (global_set 1)
     (exec_ops live_demo_sem (temps live_demo) (drop 2 (ops live_demo)) \<lparr>tv = (\<lambda>t. 3)(1 := 9), mem = ()\<rparr>)
     (exec_ops live_demo_sem (temps live_demo) (drop 2 (ops live_demo)) \<lparr>tv = (\<lambda>t. 3), mem = ()\<rparr>)"
proof -
  obtain c' where c': "liveness_analysis live_demo = Some c'" "is_dead (o_life (ops c' ! 1)) 1"
  proof -
    have "map_option (\<lambda>c'. is_dead (o_life (ops c' ! 1)) 1) (liveness_analysis live_demo) = Some True" by code_simp
    then show ?thesis using that by auto
  qed
  have "sem_total live_demo_sem" by (simp add: sem_total_def live_demo_sem_def)
  from dead_args_unused [OF live_demo_ok this _ _ _ c'(1), of 1 1 "\<lparr>tv = (\<lambda>t. 3), mem = ()\<rparr>" 9] c'(2)
  show ?thesis
    by (simp add: live_demo_def op_with_args_def op_new_def oargs_def MAX_OP_ARGS_def Let_def numeral_2_eq_2)
qed

end
