(* ===== verification/Constraint.thy ===== *)
theory Constraint
  imports IR X86_Emitter
begin

text \<open>
  Register constraints: the argument descriptors and builders of \<open>backend/src/constraint.rs\<close> and
  the table of the x86-64 backend (\<open>backend/src/x86_64/constraints.rs\<close>). The builders that
  ignore a parameter in the source (\<open>_i0\<close>, \<open>_i2\<close>) keep it here. The property is what the
  register allocator takes for granted when it reads the table.
\<close>

section \<open>Descriptors\<close>

record ArgConstraint =
  ac_regs :: RegSet
  oalias :: bool
  ialias :: bool
  alias_index :: u8
  ac_newreg :: bool

definition UNUSED :: ArgConstraint where
  "UNUSED = \<lparr>ac_regs = rs_EMPTY, oalias = False, ialias = False, alias_index = 0, ac_newreg = False\<rparr>"

type_synonym OpConstraint = "ArgConstraint list"

definition OC_EMPTY :: OpConstraint where
  "OC_EMPTY = replicate MAX_OP_ARGS UNUSED"

section \<open>Argument builders\<close>

definition r_ct :: "RegSet \<Rightarrow> ArgConstraint" where
  "r_ct regs = \<lparr>ac_regs = regs, oalias = False, ialias = False, alias_index = 0, ac_newreg = False\<rparr>"

definition single :: "u8 \<Rightarrow> RegSet" where
  "single reg = from_raw (push_bit (unat reg) 1)"

definition fixed :: "u8 \<Rightarrow> ArgConstraint" where
  "fixed reg = \<lparr>ac_regs = single reg, oalias = False, ialias = False, alias_index = 0, ac_newreg = False\<rparr>"

definition newreg :: "RegSet \<Rightarrow> ArgConstraint" where
  "newreg regs = \<lparr>ac_regs = regs, oalias = False, ialias = False, alias_index = 0, ac_newreg = True\<rparr>"

definition out_alias :: "RegSet \<Rightarrow> u8 \<Rightarrow> ArgConstraint" where
  "out_alias regs i = \<lparr>ac_regs = regs, oalias = True, ialias = False, alias_index = i, ac_newreg = False\<rparr>"

definition in_alias :: "RegSet \<Rightarrow> u8 \<Rightarrow> ArgConstraint" where
  "in_alias regs i = \<lparr>ac_regs = regs, oalias = False, ialias = True, alias_index = i, ac_newreg = False\<rparr>"

section \<open>Op builders\<close>

definition o1_i1_alias :: "RegSet \<Rightarrow> RegSet \<Rightarrow> OpConstraint" where
  "o1_i1_alias o0 i0 = OC_EMPTY[0 := out_alias o0 0, 1 := in_alias o0 0]"

definition o1_i1 :: "RegSet \<Rightarrow> RegSet \<Rightarrow> OpConstraint" where
  "o1_i1 o0 i0 = OC_EMPTY[0 := r_ct o0, 1 := r_ct i0]"

definition o1_i2 :: "RegSet \<Rightarrow> RegSet \<Rightarrow> RegSet \<Rightarrow> OpConstraint" where
  "o1_i2 o0 i0 i1 = OC_EMPTY[0 := r_ct o0, 1 := r_ct i0, 2 := r_ct i1]"

definition o1_i2_alias :: "RegSet \<Rightarrow> RegSet \<Rightarrow> RegSet \<Rightarrow> OpConstraint" where
  "o1_i2_alias o0 i0 i1 = OC_EMPTY[0 := out_alias o0 0, 1 := in_alias o0 0, 2 := r_ct i1]"

definition o1_i2_alias_fixed :: "RegSet \<Rightarrow> RegSet \<Rightarrow> u8 \<Rightarrow> OpConstraint" where
  "o1_i2_alias_fixed o0 i0 i1_reg = OC_EMPTY[0 := out_alias o0 0, 1 := in_alias o0 0, 2 := fixed i1_reg]"

definition o0_i2 :: "RegSet \<Rightarrow> RegSet \<Rightarrow> OpConstraint" where
  "o0_i2 i0 i1 = OC_EMPTY[0 := r_ct i0, 1 := r_ct i1]"

definition n1_i2 :: "RegSet \<Rightarrow> RegSet \<Rightarrow> RegSet \<Rightarrow> OpConstraint" where
  "n1_i2 o0 i0 i1 = OC_EMPTY[0 := newreg o0, 1 := r_ct i0, 2 := r_ct i1]"

definition o0_i1 :: "RegSet \<Rightarrow> OpConstraint" where
  "o0_i1 i0 = OC_EMPTY[0 := r_ct i0]"

definition o2_i2_fixed :: "u8 \<Rightarrow> u8 \<Rightarrow> RegSet \<Rightarrow> OpConstraint" where
  "o2_i2_fixed o0_reg o1_reg i1 =
     OC_EMPTY[0 := out_alias (single o0_reg) 0, 1 := fixed o1_reg, 2 := in_alias (single o0_reg) 0, 3 := r_ct i1]"

definition o2_i3_fixed :: "u8 \<Rightarrow> u8 \<Rightarrow> RegSet \<Rightarrow> OpConstraint" where
  "o2_i3_fixed o0_reg o1_reg i2 =
     OC_EMPTY[0 := out_alias (single o0_reg) 0, 1 := out_alias (single o1_reg) 1,
              2 := in_alias (single o0_reg) 0, 3 := in_alias (single o1_reg) 1, 4 := r_ct i2]"

definition o1_i4_alias2 :: "RegSet \<Rightarrow> RegSet \<Rightarrow> RegSet \<Rightarrow> RegSet \<Rightarrow> RegSet \<Rightarrow> OpConstraint" where
  "o1_i4_alias2 o0 i0 i1 i2 i3 =
     OC_EMPTY[0 := out_alias o0 2, 1 := r_ct i0, 2 := r_ct i1, 3 := in_alias o0 0, 4 := r_ct i3]"

section \<open>The x86-64 table\<close>

definition R_ALL :: RegSet where "R_ALL = ALLOCATABLE_REGS"

definition R_NO_RCX :: RegSet where
  "R_NO_RCX = from_raw (raw ALLOCATABLE_REGS AND NOT (push_bit (unat (reg_u8 Rcx)) 1))"

definition R_NO_RAX_RDX :: RegSet where
  "R_NO_RAX_RDX = from_raw (raw ALLOCATABLE_REGS AND
     NOT (push_bit (unat (reg_u8 Rax)) 1 OR push_bit (unat (reg_u8 Rdx)) 1))"

definition CALL_C :: OpConstraint where
  "CALL_C = [fixed (reg_u8 Rax), fixed (reg_u8 Rdi), fixed (reg_u8 Rsi), fixed (reg_u8 Rdx),
     fixed (reg_u8 Rcx), fixed (reg_u8 R8), fixed (reg_u8 R9), UNUSED, UNUSED, UNUSED]"

definition op_constraint :: "Opcode \<Rightarrow> OpConstraint" where
  "op_constraint opc =
     (case opc of
        OArith x \<Rightarrow>
          (case x of
             Add \<Rightarrow> o1_i2 R_ALL R_ALL R_ALL
           | Sub \<Rightarrow> o1_i2_alias R_ALL R_ALL R_ALL
           | Mul \<Rightarrow> o1_i2_alias R_ALL R_ALL R_ALL
           | Neg \<Rightarrow> o1_i1_alias R_ALL R_ALL
           | DivS2 \<Rightarrow> o2_i3_fixed (reg_u8 Rax) (reg_u8 Rdx) R_NO_RAX_RDX
           | DivU2 \<Rightarrow> o2_i3_fixed (reg_u8 Rax) (reg_u8 Rdx) R_NO_RAX_RDX
           | _ \<Rightarrow> OC_EMPTY)
      | OLogic x \<Rightarrow>
          (case x of
             And \<Rightarrow> o1_i2_alias R_ALL R_ALL R_ALL
           | Or \<Rightarrow> o1_i2_alias R_ALL R_ALL R_ALL
           | Xor \<Rightarrow> o1_i2_alias R_ALL R_ALL R_ALL
           | NotI \<Rightarrow> o1_i1_alias R_ALL R_ALL
           | AndC \<Rightarrow> o1_i2 R_ALL R_ALL R_ALL
           | _ \<Rightarrow> OC_EMPTY)
      | OShift x \<Rightarrow> o1_i2_alias_fixed R_NO_RCX R_NO_RCX (reg_u8 Rcx)
      | OMov x \<Rightarrow>
          (case x of
             SetCond \<Rightarrow> n1_i2 R_ALL R_ALL R_ALL
           | NegSetCond \<Rightarrow> n1_i2 R_ALL R_ALL R_ALL
           | MovCond \<Rightarrow> o1_i4_alias2 R_ALL R_ALL R_ALL R_ALL R_ALL
           | Mov \<Rightarrow> OC_EMPTY)
      | OMulW x \<Rightarrow>
          (case x of
             MulS2 \<Rightarrow> o2_i2_fixed (reg_u8 Rax) (reg_u8 Rdx) R_NO_RAX_RDX
           | MulU2 \<Rightarrow> o2_i2_fixed (reg_u8 Rax) (reg_u8 Rdx) R_NO_RAX_RDX
           | _ \<Rightarrow> OC_EMPTY)
      | OCarry x \<Rightarrow> o1_i2_alias R_ALL R_ALL R_ALL
      | OField x \<Rightarrow>
          (case x of
             Extract \<Rightarrow> o1_i1 R_ALL R_ALL
           | SExtract \<Rightarrow> o1_i1 R_ALL R_ALL
           | Deposit \<Rightarrow> o1_i2_alias R_ALL R_ALL R_ALL
           | Extract2 \<Rightarrow> o1_i2_alias R_ALL R_ALL R_ALL)
      | OBswap x \<Rightarrow> o1_i1_alias R_ALL R_ALL
      | OCount x \<Rightarrow> (case x of CtPop \<Rightarrow> o1_i1 R_ALL R_ALL | _ \<Rightarrow> n1_i2 R_ALL R_ALL R_ALL)
      | OConv x \<Rightarrow> (case x of ExtrhI64I32 \<Rightarrow> o1_i1_alias R_ALL R_ALL | _ \<Rightarrow> o1_i1 R_ALL R_ALL)
      | OHost x \<Rightarrow>
          (case x of
             St \<Rightarrow> o0_i2 R_ALL R_ALL | St8 \<Rightarrow> o0_i2 R_ALL R_ALL | St16 \<Rightarrow> o0_i2 R_ALL R_ALL | St32 \<Rightarrow> o0_i2 R_ALL R_ALL
           | _ \<Rightarrow> o1_i1 R_ALL R_ALL)
      | OGuest x \<Rightarrow> (case x of QemuLd \<Rightarrow> o1_i1 R_ALL R_ALL | QemuSt \<Rightarrow> o0_i2 R_ALL R_ALL | _ \<Rightarrow> OC_EMPTY)
      | OCtl x \<Rightarrow> (case x of BrCond \<Rightarrow> o0_i2 R_ALL R_ALL | GotoPtr \<Rightarrow> o0_i1 R_ALL | _ \<Rightarrow> OC_EMPTY)
      | Call \<Rightarrow> CALL_C
      | _ \<Rightarrow> OC_EMPTY)"

section \<open>Well-formed constraints\<close>

text \<open>
  What the register allocator relies on, for a constraint of an op with \<open>n\<close> outputs and \<open>m\<close>
  inputs: every argument may use some register, and only allocatable ones; the aliases of outputs
  and inputs are mutual and agree on the registers; an argument that is not used has no register;
  a register an input is fixed to is open to no other input, and likewise for the outputs.
\<close>

definition fixed_apart :: "ArgConstraint list \<Rightarrow> bool" where
  "fixed_apart cs \<longleftrightarrow>
     (\<forall>i \<in> set [0..<length cs]. \<forall>j \<in> set [0..<length cs]. i \<noteq> j \<longrightarrow>
        raw (ac_regs (cs ! i)) AND (raw (ac_regs (cs ! i)) - 1) = 0 \<longrightarrow>
        raw (ac_regs (cs ! i)) AND raw (ac_regs (cs ! j)) = 0)"


definition constraint_wf :: "nat \<Rightarrow> nat \<Rightarrow> OpConstraint \<Rightarrow> bool" where
  "constraint_wf n m ct \<longleftrightarrow>
     length ct = MAX_OP_ARGS \<and>
     (\<forall>i \<in> set [0..<n + m]. raw (ac_regs (ct ! i)) \<noteq> 0 \<and>
        raw (ac_regs (ct ! i)) AND NOT (raw ALLOCATABLE_REGS) = 0) \<and>
     (\<forall>i \<in> set [n + m..<MAX_OP_ARGS]. ct ! i = UNUSED) \<and>
     (\<forall>k \<in> set [0..<n]. \<not> ialias (ct ! k) \<and> (oalias (ct ! k) \<longrightarrow>
        (let a = unat (alias_index (ct ! k))
         in \<not> ac_newreg (ct ! k) \<and> a < m \<and> ialias (ct ! (n + a)) \<and> unat (alias_index (ct ! (n + a))) = k \<and>
            ac_regs (ct ! (n + a)) = ac_regs (ct ! k)))) \<and>
     (\<forall>i \<in> set [n..<n + m]. \<not> oalias (ct ! i) \<and> (ialias (ct ! i) \<longrightarrow>
        (let k = unat (alias_index (ct ! i)) in k < n \<and> oalias (ct ! k) \<and> unat (alias_index (ct ! k)) = i - n))) \<and>
     fixed_apart (take n ct) \<and> fixed_apart (take m (drop n ct))"

lemma regset_masks:
  "ALLOCATABLE_REGS = RegSet 0xBFCF" "R_ALL = RegSet 0xBFCF" "R_NO_RCX = RegSet 0xBFCD" "R_NO_RAX_RDX = RegSet 0xBFCA"
  by (simp_all add: R_ALL_def R_NO_RCX_def R_NO_RAX_RDX_def ALLOCATABLE_REGS_def from_raw_def)

lemma OC_EMPTY_eq:
  "OC_EMPTY = [UNUSED, UNUSED, UNUSED, UNUSED, UNUSED, UNUSED, UNUSED, UNUSED, UNUSED, UNUSED]"
  by (simp add: OC_EMPTY_def MAX_OP_ARGS_def numeral_nat)

lemmas descriptor_defs = r_ct_def fixed_def newreg_def out_alias_def in_alias_def single_def from_raw_def UNUSED_def

lemmas builder_defs = o1_i1_alias_def o1_i1_def o1_i2_def o1_i2_alias_def o1_i2_alias_fixed_def o0_i2_def
  n1_i2_def o0_i1_def o2_i2_fixed_def o2_i3_fixed_def o1_i4_alias2_def CALL_C_def

lemmas constraint_eval = constraint_wf_def fixed_apart_def regset_masks OC_EMPTY_eq builder_defs descriptor_defs MAX_OP_ARGS_def upt_conv_Cons

lemma builders_wf:
  "constraint_wf 1 1 (o1_i1 R_ALL R_ALL)" "constraint_wf 1 1 (o1_i1_alias R_ALL R_ALL)"
  "constraint_wf 1 2 (o1_i2 R_ALL R_ALL R_ALL)" "constraint_wf 1 2 (o1_i2_alias R_ALL R_ALL R_ALL)"
  "constraint_wf 1 2 (o1_i2_alias_fixed R_NO_RCX R_NO_RCX (reg_u8 Rcx))"
  "constraint_wf 1 2 (n1_i2 R_ALL R_ALL R_ALL)" "constraint_wf 0 2 (o0_i2 R_ALL R_ALL)" "constraint_wf 0 1 (o0_i1 R_ALL)"
  "constraint_wf 2 2 (o2_i2_fixed (reg_u8 Rax) (reg_u8 Rdx) R_NO_RAX_RDX)"
  "constraint_wf 2 3 (o2_i3_fixed (reg_u8 Rax) (reg_u8 Rdx) R_NO_RAX_RDX)"
  "constraint_wf 1 4 (o1_i4_alias2 R_ALL R_ALL R_ALL R_ALL R_ALL)" "constraint_wf 1 6 CALL_C"
  by (simp_all add: constraint_eval)

text \<open>The opcodes without a constraint: what the allocator moves, drops or resolves itself, and what this backend does not emit.\<close>

definition UNCONSTRAINED :: "Opcode list" where
  "UNCONSTRAINED =
     [OMov Mov, OArith DivS, OArith DivU, OArith RemS, OArith RemU, OMulW MulSH, OMulW MulUH,
      OLogic OrC, OLogic Eqv, OLogic Nand, OLogic Nor, OPair BrCond2I32, OPair SetCond2I32,
      OGuest QemuLd2, OGuest QemuSt2, OCtl Br, OCtl SetLabel, OCtl GotoTb, OCtl ExitTb, OCtl Mb,
      OPlugin PluginCb, OPlugin PluginMemCb, OMisc Nop, OMisc Discard, OMisc InsnStart]"

lemma constrained_not_empty:
  "constraint_wf n m ct \<Longrightarrow> 0 < n + m \<Longrightarrow> ct \<noteq> OC_EMPTY"
  by (auto simp: constraint_wf_def OC_EMPTY_eq UNUSED_def rs_EMPTY_def upt_conv_Cons dest!: bspec [where x = 0])

lemmas builders_fit = builders_wf [unfolded reg_u8.simps One_nat_def]

lemmas builders_not_empty = builders_fit [THEN constrained_not_empty, simplified]

lemma constraint_table:
  "if opc \<in> set UNCONSTRAINED \<or> opc_is_vector opc then op_constraint opc = OC_EMPTY
   else constraint_wf (nb_oargs (def_of opc)) (nb_iargs (def_of opc)) (op_constraint opc) \<and> op_constraint opc \<noteq> OC_EMPTY"
proof -
  have "list_all (\<lambda>opc. if opc \<in> set UNCONSTRAINED \<or> opc_is_vector opc then op_constraint opc = OC_EMPTY
     else constraint_wf (nb_oargs (def_of opc)) (nb_iargs (def_of opc)) (op_constraint opc) \<and> op_constraint opc \<noteq> OC_EMPTY) OPCODES"
    by (simp add: OPCODES_def UNCONSTRAINED_def op_constraint_def builders_fit builders_not_empty opc_is_vector_def flag_defs)
  then show ?thesis using in_OPCODES [of opc] by (simp add: list_all_iff)
qed

text \<open>
  C29: The x86-64 constraint table is fit for the register allocator. An opcode has no constraint
  exactly when it is a vector opcode or one of the listed ones; otherwise each of its arguments (as
  many as the opcode table says) may use at least one register and only allocatable ones, the
  aliases of outputs and inputs are mutual and name the same registers, a register one input is
  fixed to is open to no other input (so that a shift count in RCX, a multiplicand in RAX or a call
  argument cannot collide), and the unused slots are empty.
\<close>

theorem op_constraints_wf:
  "if opc \<in> set UNCONSTRAINED \<or> opc_is_vector opc then op_constraint opc = OC_EMPTY
   else constraint_wf (nb_oargs (def_of opc)) (nb_iargs (def_of opc)) (op_constraint opc) \<and> op_constraint opc \<noteq> OC_EMPTY"
  by (rule constraint_table)

end
