(* ===== verification/Codegen.thy ===== *)
theory Codegen
  imports Constraint TB
begin

text \<open>
  The x86-64 code generator (\<open>backend/src/x86_64/codegen.rs\<close>): prologue and epilogue, the moves
  and memory accesses the register allocator asks for, and the host code of every IR op. An emitter
  is a partial function on the code buffer; a panic (buffer full, register or argument out of
  range, unsupported op) is \<open>None\<close>. \<open>tcg_out_op\<close> is split by the opcode groups of the
  opcode enumeration, one definition per group with the source's branches.
\<close>

section \<open>Prologue and epilogue\<close>

primrec emit_each :: "(Reg \<Rightarrow> code_emitter) \<Rightarrow> Reg list \<Rightarrow> code_emitter" where
  "emit_each f [] b = Some b"
| "emit_each f (r # rs) b = do { b \<leftarrow> f r b; emit_each f rs b }"

definition emit_prologue :: "X86_64CodeGen \<Rightarrow> CodeBuffer \<Rightarrow> (X86_64CodeGen \<times> CodeBuffer) option" where
  "emit_prologue g b = do {
     let g = g\<lparr>prologue_offset := cb_offset b\<rparr>;
     b \<leftarrow> emit_each emit_push CALLEE_SAVED b;
     b \<leftarrow> emit_mov_rr True Rbp (CALL_ARG_REGS ! 0) b;
     b \<leftarrow> emit_load True R14 Rbp 520 b;
     b \<leftarrow> emit_arith_ri XSub True Rsp (of_nat STACK_ADDEND) b;
     b \<leftarrow> emit_jmp_reg (CALL_ARG_REGS ! 1) b;
     Some (g\<lparr>cg_code_gen_start := cb_offset b\<rparr>, b) }"

definition emit_epilogue :: "X86_64CodeGen \<Rightarrow> CodeBuffer \<Rightarrow> (X86_64CodeGen \<times> CodeBuffer) option" where
  "emit_epilogue g b = do {
     let g = g\<lparr>epilogue_return_zero_offset := cb_offset b\<rparr>;
     b \<leftarrow> emit_mov_ri False Rax 0 b;
     let g = g\<lparr>tb_ret_offset := cb_offset b\<rparr>;
     b \<leftarrow> emit_arith_ri XAdd True Rsp (of_nat STACK_ADDEND) b;
     b \<leftarrow> emit_each emit_pop (rev CALLEE_SAVED) b;
     b \<leftarrow> emit_ret b;
     Some (g, b) }"

definition epilogue_offset :: "X86_64CodeGen \<Rightarrow> nat" where
  "epilogue_offset g = tb_ret_offset g"

definition init_context :: "Context \<Rightarrow> Context" where
  "init_context c =
     set_frame (reg_u8 Rsp) (of_nat STATIC_CALL_ARGS_SIZE) (of_nat (CPU_TEMP_BUF_NLONGS * 8))
       (c\<lparr>reserved_regs := RESERVED_REGS\<rparr>)"

section \<open>Moves and memory accesses of the register allocator\<close>

definition tcg_out_mov :: "Type \<Rightarrow> u8 \<Rightarrow> u8 \<Rightarrow> code_emitter" where
  "tcg_out_mov ty dst src b =
     (if dst = src then Some b
      else do { d \<leftarrow> reg_from_u8 dst; s \<leftarrow> reg_from_u8 src; emit_mov_rr (ty = I64) d s b })"

definition tcg_out_movi :: "Type \<Rightarrow> u8 \<Rightarrow> u64 \<Rightarrow> code_emitter" where
  "tcg_out_movi ty dst v b = do { d \<leftarrow> reg_from_u8 dst; emit_mov_ri (ty = I64) d v b }"

definition tcg_out_ld :: "Type \<Rightarrow> u8 \<Rightarrow> u8 \<Rightarrow> u64 \<Rightarrow> code_emitter" where
  "tcg_out_ld ty dst base offset b = do {
     d \<leftarrow> reg_from_u8 dst; s \<leftarrow> reg_from_u8 base; emit_load (ty = I64) d s (ucast offset) b }"

definition tcg_out_st :: "Type \<Rightarrow> u8 \<Rightarrow> u8 \<Rightarrow> u64 \<Rightarrow> code_emitter" where
  "tcg_out_st ty src base offset b = do {
     s \<leftarrow> reg_from_u8 src; d \<leftarrow> reg_from_u8 base; emit_store (ty = I64) s d (ucast offset) b }"

section \<open>Host code of an op\<close>

definition cond_from_u32 :: "u32 \<Rightarrow> Cond option" where
  "cond_from_u32 v =
     (if v = 0 then Some Never else if v = 1 then Some Always
      else if v = 8 then Some Eq else if v = 9 then Some Ne
      else if v = 10 then Some Lt else if v = 11 then Some Ge
      else if v = 12 then Some Le else if v = 13 then Some Gt
      else if v = 14 then Some Ltu else if v = 15 then Some Geu
      else if v = 16 then Some Leu else if v = 17 then Some Gtu
      else if v = 18 then Some TstEq else if v = 19 then Some TstNe
      else None)"

text \<open>\<open>Reg::from_u8(regs[i])\<close>.\<close>

definition reg_at :: "u8 list \<Rightarrow> nat \<Rightarrow> Reg option" where
  "reg_at rs i = do { v \<leftarrow> index rs i; reg_from_u8 v }"

text \<open>The pattern of the destructive two-operand instructions: destination, second input.\<close>

definition out_destructive :: "(Reg \<Rightarrow> Reg \<Rightarrow> code_emitter) \<Rightarrow> u8 list \<Rightarrow> u8 list \<Rightarrow> code_emitter" where
  "out_destructive f oregs iregs b = do { d \<leftarrow> reg_at oregs 0; s \<leftarrow> reg_at iregs 1; f d s b }"

text \<open>The pattern of the instructions with a destination and one source.\<close>

definition out_unary :: "(Reg \<Rightarrow> Reg \<Rightarrow> code_emitter) \<Rightarrow> u8 list \<Rightarrow> u8 list \<Rightarrow> code_emitter" where
  "out_unary f oregs iregs b = do { d \<leftarrow> reg_at oregs 0; s \<leftarrow> reg_at iregs 0; f d s b }"

definition out_arith :: "ArithOp \<Rightarrow> bool \<Rightarrow> u8 list \<Rightarrow> u8 list \<Rightarrow> code_emitter" where
  "out_arith x rexw oregs iregs b =
     (case x of
        Add \<Rightarrow> do {
          d \<leftarrow> reg_at oregs 0; a \<leftarrow> reg_at iregs 0; c \<leftarrow> reg_at iregs 1;
          if oregs ! 0 = iregs ! 0 then emit_arith_rr XAdd rexw d c b
          else if oregs ! 0 = iregs ! 1 then emit_arith_rr XAdd rexw d a b
          else emit_lea_sib rexw d a c 0 0 b }
      | Sub \<Rightarrow> out_destructive (emit_arith_rr XSub rexw) oregs iregs b
      | Mul \<Rightarrow> out_destructive (emit_imul_rr rexw) oregs iregs b
      | Neg \<Rightarrow> do { d \<leftarrow> reg_at oregs 0; emit_neg rexw d b }
      | DivS2 \<Rightarrow> do { s \<leftarrow> reg_at iregs 2; emit_idiv rexw s b }
      | DivU2 \<Rightarrow> do { s \<leftarrow> reg_at iregs 2; emit_div rexw s b }
      | _ \<Rightarrow> None)"

definition out_mul_wide :: "MulWOp \<Rightarrow> bool \<Rightarrow> u8 list \<Rightarrow> u8 list \<Rightarrow> code_emitter" where
  "out_mul_wide x rexw oregs iregs b =
     (case x of
        MulS2 \<Rightarrow> do { s \<leftarrow> reg_at iregs 1; emit_imul1 rexw s b }
      | MulU2 \<Rightarrow> do { s \<leftarrow> reg_at iregs 1; emit_mul rexw s b }
      | _ \<Rightarrow> None)"

definition out_logic :: "LogicOp \<Rightarrow> bool \<Rightarrow> u8 list \<Rightarrow> u8 list \<Rightarrow> code_emitter" where
  "out_logic x rexw oregs iregs b =
     (case x of
        And \<Rightarrow> out_destructive (emit_arith_rr XAnd rexw) oregs iregs b
      | Or \<Rightarrow> out_destructive (emit_arith_rr XOr rexw) oregs iregs b
      | Xor \<Rightarrow> out_destructive (emit_arith_rr XXor rexw) oregs iregs b
      | NotI \<Rightarrow> do { d \<leftarrow> reg_at oregs 0; emit_not rexw d b }
      | AndC \<Rightarrow> do {
          d \<leftarrow> reg_at oregs 0; a \<leftarrow> reg_at iregs 0; c \<leftarrow> reg_at iregs 1; emit_andn rexw d c a b }
      | _ \<Rightarrow> None)"

fun shift_op :: "ShiftOp \<Rightarrow> X86Shift" where
  "shift_op Shl = XShl" | "shift_op Shr = XShr" | "shift_op Sar = XSar"
| "shift_op RotL = XRol" | "shift_op RotR = XRor"

definition out_shift :: "ShiftOp \<Rightarrow> bool \<Rightarrow> u8 list \<Rightarrow> u8 list \<Rightarrow> code_emitter" where
  "out_shift x rexw oregs iregs b = do { d \<leftarrow> reg_at oregs 0; emit_shift_cl (shift_op x) rexw d b }"

definition out_carry :: "CarryOp \<Rightarrow> bool \<Rightarrow> u8 list \<Rightarrow> u8 list \<Rightarrow> code_emitter" where
  "out_carry x rexw oregs iregs b =
     (case x of
        AddCO \<Rightarrow> out_destructive (emit_arith_rr XAdd rexw) oregs iregs b
      | AddCI \<Rightarrow> out_destructive (emit_arith_rr XAdc rexw) oregs iregs b
      | AddCIO \<Rightarrow> out_destructive (emit_arith_rr XAdc rexw) oregs iregs b
      | AddC1O \<Rightarrow> out_destructive (\<lambda>d s b. do { b \<leftarrow> emit_stc b; emit_arith_rr XAdc rexw d s b }) oregs iregs b
      | SubBO \<Rightarrow> out_destructive (emit_arith_rr XSub rexw) oregs iregs b
      | SubBI \<Rightarrow> out_destructive (emit_arith_rr XSbb rexw) oregs iregs b
      | SubBIO \<Rightarrow> out_destructive (emit_arith_rr XSbb rexw) oregs iregs b
      | SubB1O \<Rightarrow> out_destructive (\<lambda>d s b. do { b \<leftarrow> emit_stc b; emit_arith_rr XSbb rexw d s b }) oregs iregs b)"

text \<open>The comparison in front of a conditional instruction: \<open>test\<close> or \<open>cmp\<close>.\<close>

definition out_compare :: "Cond \<Rightarrow> bool \<Rightarrow> Reg \<Rightarrow> Reg \<Rightarrow> code_emitter" where
  "out_compare c rexw a d b = (if cond_is_tst c then emit_test_rr rexw a d b else emit_arith_rr XCmp rexw a d b)"

definition out_cond :: "DataMovOp \<Rightarrow> bool \<Rightarrow> u8 list \<Rightarrow> u8 list \<Rightarrow> u32 list \<Rightarrow> code_emitter" where
  "out_cond x rexw oregs iregs cs b =
     (case x of
        SetCond \<Rightarrow> do {
          d \<leftarrow> reg_at oregs 0; a \<leftarrow> reg_at iregs 0; s \<leftarrow> reg_at iregs 1;
          v \<leftarrow> index cs 0; c \<leftarrow> cond_from_u32 v;
          b \<leftarrow> out_compare c rexw a s b;
          b \<leftarrow> emit_setcc (from_tcg c) d b;
          emit_movzx (OPC_MOVZBL OR P_REXB_RM) d d b }
      | NegSetCond \<Rightarrow> do {
          d \<leftarrow> reg_at oregs 0; a \<leftarrow> reg_at iregs 0; s \<leftarrow> reg_at iregs 1;
          v \<leftarrow> index cs 0; c \<leftarrow> cond_from_u32 v;
          b \<leftarrow> out_compare c rexw a s b;
          b \<leftarrow> emit_setcc (from_tcg c) d b;
          b \<leftarrow> emit_movzx (OPC_MOVZBL OR P_REXB_RM) d d b;
          emit_neg rexw d b }
      | MovCond \<Rightarrow> do {
          d \<leftarrow> reg_at oregs 0; c1 \<leftarrow> reg_at iregs 0; c2 \<leftarrow> reg_at iregs 1; v2 \<leftarrow> reg_at iregs 3;
          v \<leftarrow> index cs 0; c \<leftarrow> cond_from_u32 v;
          b \<leftarrow> out_compare c rexw c1 c2 b;
          emit_cmovcc (x86cond_invert (from_tcg c)) rexw d v2 b }
      | Mov \<Rightarrow> None)"

definition rexw_if :: "bool \<Rightarrow> u32 \<Rightarrow> u32" where
  "rexw_if rexw opc = (if rexw then opc OR P_REXW else opc)"

definition out_field :: "FieldOp \<Rightarrow> bool \<Rightarrow> u8 list \<Rightarrow> u8 list \<Rightarrow> u32 list \<Rightarrow> code_emitter" where
  "out_field x rexw oregs iregs cs b =
     (case x of
        Extract \<Rightarrow> do {
          d \<leftarrow> reg_at oregs 0; s \<leftarrow> reg_at iregs 0; ofs \<leftarrow> index cs 0; len \<leftarrow> index cs 1;
          assert_that (ofs = 0);
          if len = 8 then emit_movzx OPC_MOVZBL d s b
          else if len = 16 then emit_movzx OPC_MOVZWL d s b
          else if len = 32 then emit_mov_rr False d s b
          else None }
      | SExtract \<Rightarrow> do {
          d \<leftarrow> reg_at oregs 0; s \<leftarrow> reg_at iregs 0; ofs \<leftarrow> index cs 0; len \<leftarrow> index cs 1;
          assert_that (ofs = 0);
          if len = 8 then emit_movsx (rexw_if rexw OPC_MOVSBL) d s b
          else if len = 16 then emit_movsx (rexw_if rexw OPC_MOVSWL) d s b
          else if len = 32 then emit_movsx OPC_MOVSLQ d s b
          else None }
      | Deposit \<Rightarrow> do {
          d \<leftarrow> reg_at oregs 0; s \<leftarrow> reg_at iregs 1; ofs \<leftarrow> index cs 0; len \<leftarrow> index cs 1;
          assert_that (ofs = 0);
          if len = 8 then emit_modrm (OPC_MOVB_EvGv OR P_REXB_R OR P_REXB_RM) s d b
          else if len = 16 then emit_modrm (P_DATA16 OR OPC_MOVL_EvGv) s d b
          else None }
      | Extract2 \<Rightarrow> do {
          d \<leftarrow> reg_at oregs 0; s \<leftarrow> reg_at iregs 1; shift \<leftarrow> index cs 0;
          emit_shrd_ri rexw d s (ucast shift) b })"

definition out_bswap :: "BswapOp \<Rightarrow> bool \<Rightarrow> u8 list \<Rightarrow> u32 list \<Rightarrow> code_emitter" where
  "out_bswap x rexw oregs cs b =
     (case x of
        Bswap16 \<Rightarrow> do {
          d \<leftarrow> reg_at oregs 0; fl \<leftarrow> index cs 0;
          if fl AND 4 \<noteq> 0 then
            if rexw then do { b \<leftarrow> emit_bswap True d b; emit_shift_ri XSar True d 48 b }
            else do { b \<leftarrow> emit_bswap False d b; emit_shift_ri XSar False d 16 b }
          else if fl AND 3 = 2 then do { b \<leftarrow> emit_bswap False d b; emit_shift_ri XShr False d 16 b }
          else emit_rolw_8 d b }
      | Bswap32 \<Rightarrow> do {
          d \<leftarrow> reg_at oregs 0; fl \<leftarrow> index cs 0;
          b \<leftarrow> emit_bswap False d b;
          emit_if (fl AND 4 \<noteq> 0) (emit_movsx OPC_MOVSLQ d d) b }
      | Bswap64 \<Rightarrow> do { d \<leftarrow> reg_at oregs 0; emit_bswap True d b })"

definition out_count :: "CountOp \<Rightarrow> bool \<Rightarrow> u8 list \<Rightarrow> u8 list \<Rightarrow> code_emitter" where
  "out_count x rexw oregs iregs b =
     (case x of
        Clz \<Rightarrow> out_unary (emit_lzcnt rexw) oregs iregs b
      | Ctz \<Rightarrow> out_unary (emit_tzcnt rexw) oregs iregs b
      | CtPop \<Rightarrow> out_unary (emit_popcnt rexw) oregs iregs b)"

definition out_conv :: "ConvOp \<Rightarrow> u8 list \<Rightarrow> u8 list \<Rightarrow> code_emitter" where
  "out_conv x oregs iregs b =
     (case x of
        ExtI32I64 \<Rightarrow> out_unary (emit_movsx OPC_MOVSLQ) oregs iregs b
      | ExtUI32I64 \<Rightarrow> out_unary (\<lambda>d s. emit_if (d \<noteq> s) (emit_mov_rr False d s)) oregs iregs b
      | ExtrlI64I32 \<Rightarrow> out_unary (\<lambda>d s. emit_if (d \<noteq> s) (emit_mov_rr False d s)) oregs iregs b
      | ExtrhI64I32 \<Rightarrow> do { d \<leftarrow> reg_at oregs 0; emit_shift_ri XShr True d 32 b })"

text \<open>Loads and stores of the host: register and base register with the offset in the constant argument.\<close>

definition out_load :: "(Reg \<Rightarrow> Reg \<Rightarrow> i32 \<Rightarrow> code_emitter) \<Rightarrow> u8 list \<Rightarrow> u8 list \<Rightarrow> u32 list \<Rightarrow> code_emitter" where
  "out_load f oregs iregs cs b = do {
     d \<leftarrow> reg_at oregs 0; base \<leftarrow> reg_at iregs 0; offset \<leftarrow> index cs 0; f d base offset b }"

definition out_store :: "(Reg \<Rightarrow> Reg \<Rightarrow> i32 \<Rightarrow> code_emitter) \<Rightarrow> u8 list \<Rightarrow> u32 list \<Rightarrow> code_emitter" where
  "out_store f iregs cs b = do {
     s \<leftarrow> reg_at iregs 0; base \<leftarrow> reg_at iregs 1; offset \<leftarrow> index cs 0; f s base offset b }"

definition out_host_mem :: "HostMemOp \<Rightarrow> bool \<Rightarrow> u8 list \<Rightarrow> u8 list \<Rightarrow> u32 list \<Rightarrow> code_emitter" where
  "out_host_mem x rexw oregs iregs cs b =
     (case x of
        Ld \<Rightarrow> out_load (emit_load rexw) oregs iregs cs b
      | Ld8U \<Rightarrow> out_load (emit_load_zx OPC_MOVZBL) oregs iregs cs b
      | Ld8S \<Rightarrow> out_load (emit_load_sx (rexw_if rexw OPC_MOVSBL)) oregs iregs cs b
      | Ld16U \<Rightarrow> out_load (emit_load_zx OPC_MOVZWL) oregs iregs cs b
      | Ld16S \<Rightarrow> out_load (emit_load_sx (rexw_if rexw OPC_MOVSWL)) oregs iregs cs b
      | Ld32U \<Rightarrow> out_load (emit_load False) oregs iregs cs b
      | Ld32S \<Rightarrow> out_load (emit_load_sx OPC_MOVSLQ) oregs iregs cs b
      | St \<Rightarrow> out_store (emit_store rexw) iregs cs b
      | St8 \<Rightarrow> out_store emit_store_byte iregs cs b
      | St16 \<Rightarrow> out_store emit_store_word iregs cs b
      | St32 \<Rightarrow> out_store (emit_store False) iregs cs b)"

definition out_qemu_ld :: "bool \<Rightarrow> u16 \<Rightarrow> Reg \<Rightarrow> Reg \<Rightarrow> code_emitter" where
  "out_qemu_ld rexw memop d addr b =
     (let size = memop AND 3; sign = memop AND 4 \<noteq> 0; gb = R14
      in if size = 0 then
           if \<not> sign then emit_load_zx_sib OPC_MOVZBL d gb addr b
           else emit_load_sx_sib (rexw_if rexw OPC_MOVSBL) d gb addr b
         else if size = 1 then
           if \<not> sign then emit_load_zx_sib OPC_MOVZWL d gb addr b
           else emit_load_sx_sib (rexw_if rexw OPC_MOVSWL) d gb addr b
         else if size = 2 then
           if \<not> sign then emit_load_sib False d gb addr 0 0 b
           else emit_load_sx_sib OPC_MOVSLQ d gb addr b
         else if size = 3 then emit_load_sib True d gb addr 0 0 b
         else None)"

definition out_qemu_st :: "u16 \<Rightarrow> Reg \<Rightarrow> Reg \<Rightarrow> code_emitter" where
  "out_qemu_st memop v addr b =
     (let size = memop AND 3; gb = R14
      in if size = 0 then emit_store_byte_sib v gb addr b
         else if size = 1 then emit_store_word_sib v gb addr b
         else if size = 2 then emit_store_sib False v gb addr 0 0 b
         else if size = 3 then emit_store_sib True v gb addr 0 0 b
         else None)"

definition out_guest_mem :: "GuestMemOp \<Rightarrow> bool \<Rightarrow> u8 list \<Rightarrow> u8 list \<Rightarrow> u32 list \<Rightarrow> code_emitter" where
  "out_guest_mem x rexw oregs iregs cs b =
     (case x of
        QemuLd \<Rightarrow> do {
          d \<leftarrow> reg_at oregs 0; addr \<leftarrow> reg_at iregs 0; m \<leftarrow> index cs 0; out_qemu_ld rexw (ucast m) d addr b }
      | QemuSt \<Rightarrow> do {
          v \<leftarrow> reg_at iregs 0; addr \<leftarrow> reg_at iregs 1; m \<leftarrow> index cs 0; out_qemu_st (ucast m) v addr b }
      | _ \<Rightarrow> None)"

definition out_brcond :: "Context \<Rightarrow> bool \<Rightarrow> u8 list \<Rightarrow> u32 list \<Rightarrow> code_emitter" where
  "out_brcond c rexw iregs cs b = do {
     a \<leftarrow> reg_at iregs 0; s \<leftarrow> reg_at iregs 1;
     v \<leftarrow> index cs 0; cond \<leftarrow> cond_from_u32 v; label_id \<leftarrow> index cs 1;
     b \<leftarrow> out_compare cond rexw a s b;
     l \<leftarrow> label c label_id;
     if l_has_value l then emit_jcc (from_tcg cond) (l_value l) b
     else do { b \<leftarrow> emit_opc (OPC_JCC_long + ucast (x86cond_u8 (from_tcg cond))) 0 0 b; emit_u32 0 b } }"

definition out_call :: "u32 list \<Rightarrow> code_emitter" where
  "out_call cs b = do {
     hi \<leftarrow> index cs 1; lo \<leftarrow> index cs 0;
     let func = push_bit 32 (ucast hi) OR ucast lo;
     b \<leftarrow> emit_mov_ri True R11 func b;
     emit_call_reg R11 b }"

text \<open>The ops that leave the generator's state alone.\<close>

definition out_plain :: "X86_64CodeGen \<Rightarrow> Context \<Rightarrow> Op \<Rightarrow> u8 list \<Rightarrow> u8 list \<Rightarrow> u32 list \<Rightarrow> code_emitter" where
  "out_plain g c op oregs iregs cs b =
     (let rexw = (o_type op = I64)
      in case o_opc op of
           OArith x \<Rightarrow> out_arith x rexw oregs iregs b
         | OMulW x \<Rightarrow> out_mul_wide x rexw oregs iregs b
         | OLogic x \<Rightarrow> out_logic x rexw oregs iregs b
         | OShift x \<Rightarrow> out_shift x rexw oregs iregs b
         | OCarry x \<Rightarrow> out_carry x rexw oregs iregs b
         | OMov x \<Rightarrow> out_cond x rexw oregs iregs cs b
         | OField x \<Rightarrow> out_field x rexw oregs iregs cs b
         | OBswap x \<Rightarrow> out_bswap x rexw oregs cs b
         | OCount x \<Rightarrow> out_count x rexw oregs iregs b
         | OConv x \<Rightarrow> out_conv x oregs iregs b
         | OHost x \<Rightarrow> out_host_mem x rexw oregs iregs cs b
         | OGuest x \<Rightarrow> out_guest_mem x rexw oregs iregs cs b
         | OCtl x \<Rightarrow>
             (case x of
                BrCond \<Rightarrow> out_brcond c rexw iregs cs b
              | ExitTb \<Rightarrow> do {
                  v \<leftarrow> index cs 0; emit_exit_tb g (encode_tb_exit (tb_idx c) (ucast v)) b }
              | GotoPtr \<Rightarrow> do { r \<leftarrow> reg_at iregs 0; emit_goto_ptr r b }
              | _ \<Rightarrow> None)
         | Call \<Rightarrow> out_call cs b
         | _ \<Rightarrow> None)"

definition tcg_out_op ::
  "X86_64CodeGen \<Rightarrow> Context \<Rightarrow> Op \<Rightarrow> u8 list \<Rightarrow> u8 list \<Rightarrow> u32 list \<Rightarrow> CodeBuffer \<Rightarrow>
   (X86_64CodeGen \<times> CodeBuffer) option" where
  "tcg_out_op g c op oregs iregs cs b =
     (if o_opc op = OCtl GotoTb then do {
        (jmp, rs, b) \<leftarrow> emit_goto_tb b;
        Some (g\<lparr>goto_tb_info := goto_tb_info g @ [(jmp, rs)]\<rparr>, b) }
      else do { b \<leftarrow> out_plain g c op oregs iregs cs b; Some (g, b) })"

definition goto_tb_offsets :: "X86_64CodeGen \<Rightarrow> (nat \<times> nat) list" where
  "goto_tb_offsets g = goto_tb_info g"

definition clear_goto_tb_offsets :: "X86_64CodeGen \<Rightarrow> X86_64CodeGen" where
  "clear_goto_tb_offsets g = g\<lparr>goto_tb_info := []\<rparr>"

section \<open>Properties\<close>

lemma frame_bounds:
  "sint (frame_start (init_context c)) = 128" "sint (frame_end (init_context c)) = 1152" "STACK_ADDEND = 1160"
  "(PUSH_SIZE + 1160) mod STACK_ALIGN = 0"
  by (simp_all add: init_context_def set_frame_def STATIC_CALL_ARGS_SIZE_def CPU_TEMP_BUF_NLONGS_def STACK_ADDEND_def
      FRAME_SIZE_def PUSH_SIZE_def STACK_ALIGN_def CALLEE_SAVED_def)

text \<open>
  C39: Spilling stays inside the stack frame. The stack pointer adjustment of the prologue keeps
  the stack aligned, and every slot that \<open>alloc_temp_frame\<close> hands out from the frame that
  \<open>init_context\<close> lays out lies above the outgoing call arguments and below what the prologue
  allocated, so that no spill reaches the saved registers.
\<close>

theorem spill_in_stack_frame:
  assumes "frame_inv c" "frame_start c = frame_start (init_context c0)" "frame_end c = frame_end (init_context c0)"
    "unat t < length (temps c)" "\<not> is_global_or_fixed (temps c ! unat t)" "alloc_temp_frame t c = Some (off, c')"
  shows "(PUSH_SIZE + STACK_ADDEND) mod STACK_ALIGN = 0 \<and>
    int STATIC_CALL_ARGS_SIZE \<le> sint off \<and> sint off + slot_size (temps c ! unat t) \<le> int STACK_ADDEND"
proof (cases "t_mem_allocated (temps c ! unat t)")
  case True
  then have "off = t_mem_offset (temps c ! unat t)" "has_slot (temps c ! unat t)"
    using assms(4-6) by (auto simp: alloc_temp_frame_def temp_def has_slot_def)
  then have "in_frame (frame_start c) (frame_alloc_end c) (temps c ! unat t)" "sint (frame_alloc_end c) \<le> sint (frame_end c)"
    using assms(1,4) by (auto simp: frame_inv_def)
  then show ?thesis using assms(2,3) \<open>off = _\<close>
    by (simp add: in_frame_def frame_bounds STATIC_CALL_ARGS_SIZE_def)
next
  case False
  note f = alloc_temp_frame_fresh [OF assms(1,4) False assms(6)]
  have "sint (frame_start c) \<le> sint (frame_alloc_end c)" using assms(1) by (simp add: frame_inv_def)
  then show ?thesis using f assms(2,3) by (simp add: frame_bounds STATIC_CALL_ARGS_SIZE_def)
qed

theorem spill_in_stack_frame_witness:
  "\<exists>off c'. alloc_temp_frame 0 (init_context (context_new\<lparr>temps := [temp_new_ebb 0 I64]\<rparr>)) = Some (off, c') \<and>
     128 \<le> sint off \<and> sint off + 8 \<le> int STACK_ADDEND"
proof -
  let ?c = "init_context (context_new\<lparr>temps := [temp_new_ebb 0 I64]\<rparr>)"
  have inv: "frame_inv ?c"
    by (simp add: frame_inv_def frame_bounds) (simp add: init_context_def set_frame_def context_new_def temp_new_ebb_def has_slot_def STATIC_CALL_ARGS_SIZE_def)
  have len: "unat (0 :: u32) < length (temps ?c)" "\<not> is_global_or_fixed (temps ?c ! unat (0 :: u32))"
    "slot_size (temps ?c ! unat (0 :: u32)) = 8"
    by (simp_all add: init_context_def set_frame_def temp_new_ebb_def is_global_or_fixed_def slot_size_def)
  have "alloc_temp_frame 0 ?c \<noteq> None" by code_simp
  then obtain off c' where run: "alloc_temp_frame 0 ?c = Some (off, c')" by auto
  have "int STATIC_CALL_ARGS_SIZE = 128" by (simp add: STATIC_CALL_ARGS_SIZE_def)
  with spill_in_stack_frame [OF inv refl refl len(1,2) run] len(3) run show ?thesis by auto
qed

end
