(* ===== verification/X86_Semantics.thy ===== *)
theory X86_Semantics
  imports X86_Emitter IR_Semantics
begin

text \<open>
  The meaning of the x86-64 instructions the code generator uses, from the architecture's manuals:
  a decoder of instruction bytes (prefixes, REX, escape byte, opcode, operands) and their effect
  on registers, flags and memory. It is the specification the generated host code is measured
  against. Flags that an instruction leaves undefined, or that nothing here reads, are taken from
  an arbitrary record \<open>u\<close>. Only the integer register set and a flat byte memory are modelled;
  control transfers are not executed here.
\<close>

section \<open>The machine\<close>

record x86 =
  xr :: "nat \<Rightarrow> u64"
  xf :: x86_flags
  xm :: "u64 \<Rightarrow> u8"

definition read_mem :: "nat \<Rightarrow> u64 \<Rightarrow> (u64 \<Rightarrow> u8) \<Rightarrow> u64" where
  "read_mem n a m = le_word (map (\<lambda>i. m (a + of_nat i)) [0..<n])"

definition write_mem :: "nat \<Rightarrow> u64 \<Rightarrow> u64 \<Rightarrow> (u64 \<Rightarrow> u8) \<Rightarrow> (u64 \<Rightarrow> u8)" where
  "write_mem n a v m = (\<lambda>x. if unat (x - a) < n then le_bytes n v ! unat (x - a) else m x)"

fun addr_of :: "x86 \<Rightarrow> nat \<Rightarrow> (nat \<times> nat) option \<Rightarrow> int \<Rightarrow> u64" where
  "addr_of s base None d = xr s base + word_of_int d"
| "addr_of s base (Some (i, sc)) d = xr s base + xr s i * of_nat sc + word_of_int d"

text \<open>
  Byte registers: without a REX prefix the numbers 4 to 7 are the second bytes of the first four
  registers.
\<close>

definition byte_reg :: "u8 \<Rightarrow> nat \<Rightarrow> nat \<times> nat" where
  "byte_reg rex r = (if rex = 0 \<and> 4 \<le> r \<and> r < 8 then (r - 4, 8) else (r, 0))"

fun operand_val :: "nat \<Rightarrow> u8 \<Rightarrow> x86 \<Rightarrow> operand \<Rightarrow> u64" where
  "operand_val n rex s (RegOperand r) =
     (if n = 1 then (case byte_reg rex r of (q, k) \<Rightarrow> take_bit 8 (drop_bit k (xr s q)))
      else take_bit (8 * n) (xr s r))"
| "operand_val n rex s (MemOperand base ix d) = read_mem n (addr_of s base ix d) (xm s)"

definition set_reg :: "nat \<Rightarrow> u8 \<Rightarrow> nat \<Rightarrow> u64 \<Rightarrow> x86 \<Rightarrow> x86" where
  "set_reg n rex r v s =
     (if n = 8 then s\<lparr>xr := (xr s)(r := v)\<rparr>
      else if n = 4 then s\<lparr>xr := (xr s)(r := ucast (ucast v :: u32))\<rparr>
      else if n = 2 then s\<lparr>xr := (xr s)(r := (xr s r AND NOT (mask 16)) OR take_bit 16 v)\<rparr>
      else (case byte_reg rex r of (q, k) \<Rightarrow>
        s\<lparr>xr := (xr s)(q := (xr s q AND NOT (push_bit k (mask 8))) OR push_bit k (take_bit 8 v))\<rparr>))"

fun set_operand :: "nat \<Rightarrow> u8 \<Rightarrow> operand \<Rightarrow> u64 \<Rightarrow> x86 \<Rightarrow> x86" where
  "set_operand n rex (RegOperand r) v s = set_reg n rex r v s"
| "set_operand n rex (MemOperand base ix d) v s = s\<lparr>xm := write_mem n (addr_of s base ix d) v (xm s)\<rparr>"

section \<open>Arithmetic\<close>

definition result_flags :: "bool \<Rightarrow> bool \<Rightarrow> 'a::len word \<Rightarrow> x86_flags" where
  "result_flags c ov r = \<lparr>CF = c, ZF = (r = 0), SF = sint r < 0, OF = ov, PF = parity_even r\<rparr>"

fun alu :: "X86Arith \<Rightarrow> bool \<Rightarrow> 'a::len word \<Rightarrow> 'a word \<Rightarrow> 'a word \<times> x86_flags" where
  "alu XAdd c a b = (a + b, result_flags (2 ^ LENGTH('a) \<le> unat a + unat b) (sint (a + b) \<noteq> sint a + sint b) (a + b))"
| "alu XAdc c a b =
     (a + b + of_bool c,
      result_flags (2 ^ LENGTH('a) \<le> unat a + unat b + of_bool c) (sint (a + b + of_bool c) \<noteq> sint a + sint b + of_bool c)
        (a + b + of_bool c))"
| "alu XSub c a b = (a - b, cmp_flags a b)"
| "alu XCmp c a b = (a - b, cmp_flags a b)"
| "alu XSbb c a b =
     (a - b - of_bool c,
      result_flags (unat a < unat b + of_bool c) (sint (a - b - of_bool c) \<noteq> sint a - sint b - of_bool c) (a - b - of_bool c))"
| "alu XAnd c a b = (a AND b, test_flags a b)"
| "alu XOr c a b = (a OR b, result_flags False False (a OR b))"
| "alu XXor c a b = (a XOR b, result_flags False False (a XOR b))"

fun shifter :: "X86Shift \<Rightarrow> nat \<Rightarrow> 'a::len word \<Rightarrow> 'a word" where
  "shifter XRol n a = word_rotl n a"
| "shifter XRor n a = word_rotr n a"
| "shifter XShl n a = push_bit n a"
| "shifter XShr n a = drop_bit n a"
| "shifter XSar n a = signed_drop_bit n a"

definition arith_of :: "u8 \<Rightarrow> X86Arith" where
  "arith_of k = [XAdd, XOr, XAdc, XSbb, XAnd, XSub, XXor, XCmp] ! unat (k AND 7)"

fun shift_of :: "nat \<Rightarrow> X86Shift option" where
  "shift_of k = (if k = 0 then Some XRol else if k = 1 then Some XRor else if k = 4 then Some XShl
     else if k = 5 then Some XShr else if k = 7 then Some XSar else None)"

definition cc_of :: "u8 \<Rightarrow> X86Cond" where
  "cc_of k = X86CONDS ! unat (k AND 15)"

text \<open>The operation at 64 or at 32 bits (the result of the latter zero-extended).\<close>

definition alu_at :: "bool \<Rightarrow> X86Arith \<Rightarrow> bool \<Rightarrow> u64 \<Rightarrow> u64 \<Rightarrow> u64 \<times> x86_flags" where
  "alu_at w op c a b =
     (if w then alu op c a b
      else (case alu op c (ucast a :: u32) (ucast b) of (r, f) \<Rightarrow> (ucast r, f)))"

definition shift_at :: "bool \<Rightarrow> X86Shift \<Rightarrow> u8 \<Rightarrow> u64 \<Rightarrow> u64" where
  "shift_at w op n a =
     (if w then shifter op (unat n mod 64) a else ucast (shifter op (unat n mod 32) (ucast a :: u32)))"

section \<open>Decoding\<close>

record prefixes =
  p_data16 :: bool
  p_f3 :: bool
  p_rex :: u8
  p_esc :: bool
  p_op :: u8

fun take_byte :: "u8 \<Rightarrow> u8 list \<Rightarrow> bool \<times> u8 list" where
  "take_byte p [] = (False, [])"
| "take_byte p (x # xs) = (if x = p then (True, xs) else (False, x # xs))"

fun take_rex :: "u8 list \<Rightarrow> u8 \<times> u8 list" where
  "take_rex [] = (0, [])"
| "take_rex (x # xs) = (if x AND 0xF0 = 0x40 then (x, xs) else (0, x # xs))"

definition decode_prefixes :: "u8 list \<Rightarrow> (prefixes \<times> u8 list) option" where
  "decode_prefixes bs =
     (let (d, bs) = take_byte 0x66 bs; (f, bs) = take_byte 0xF3 bs; (rex, bs) = take_rex bs;
          (e, bs) = take_byte 0x0F bs
      in case bs of
           [] \<Rightarrow> None
         | op # bs \<Rightarrow> Some (\<lparr>p_data16 = d, p_f3 = f, p_rex = rex, p_esc = e, p_op = op\<rparr>, bs))"

definition wide :: "prefixes \<Rightarrow> bool" where
  "wide p = bit (p_rex p) 3"

definition op_size :: "prefixes \<Rightarrow> nat" where
  "op_size p = (if wide p then 8 else if p_data16 p then 2 else 4)"

section \<open>Execution\<close>

definition take_imm8 :: "u8 list \<Rightarrow> (u8 \<times> u8 list) option" where
  "take_imm8 bs = (case bs of [] \<Rightarrow> None | x # xs \<Rightarrow> Some (x, xs))"

definition take_imm32 :: "u8 list \<Rightarrow> (u32 \<times> u8 list) option" where
  "take_imm32 bs = (if length bs < 4 then None else Some (le_word (take 4 bs), drop 4 bs))"

definition take_imm64 :: "u8 list \<Rightarrow> (u64 \<times> u8 list) option" where
  "take_imm64 bs = (if length bs < 8 then None else Some (le_word (take 8 bs), drop 8 bs))"

text \<open>Opcodes with the register in their low bits, or with no operand at all; they have no ModR/M byte.\<close>

definition bswap_at :: "bool \<Rightarrow> u64 \<Rightarrow> u64" where
  "bswap_at w v =
     (if w then le_word (rev (le_bytes 8 v)) else ucast (le_word (rev (le_bytes 4 (ucast v :: u32))) :: u32))"

definition short_form :: "prefixes \<Rightarrow> bool" where
  "short_form p \<longleftrightarrow>
     (if p_esc p then p_op p AND 0xF8 = 0xC8 else p_op p AND 0xF8 = 0xB8 \<or> p_op p = 0xF9)"

definition exec_short :: "prefixes \<Rightarrow> u8 list \<Rightarrow> x86 \<Rightarrow> (x86 \<times> u8 list) option" where
  "exec_short p bs s =
     (let n = op_size p; rex = p_rex p; r = unat (p_op p AND 7) + ext8 rex 0 in
      if p_esc p then Some (set_reg n rex r (bswap_at (wide p) (xr s r)) s, bs)
      else if p_op p = 0xF9 then Some (s\<lparr>xf := (xf s)\<lparr>CF := True\<rparr>\<rparr>, bs)
      else if wide p then do { (v, bs) \<leftarrow> take_imm64 bs; Some (set_reg n rex r v s, bs) }
      else do { (v, bs) \<leftarrow> take_imm32 bs; Some (set_reg n rex r (ucast v) s, bs) })"

text \<open>The only VEX instruction: \<open>andn\<close>, with three registers.\<close>

definition exec_vex :: "x86_flags \<Rightarrow> u8 list \<Rightarrow> x86 \<Rightarrow> (x86 \<times> u8 list) option" where
  "exec_vex u bs s =
     (case bs of
        b1 # b2 # op # m # bs \<Rightarrow>
          if b1 AND 0x1F = 2 \<and> b2 AND 0x07 = 0 \<and> op = 0xF2 \<and> f_mod m = 3 then
            (let rg = f_reg m + (if bit b1 7 then 0 else 8); rm = f_rm m + (if bit b1 5 then 0 else 8);
                 v = unat (NOT (drop_bit 3 b2) AND 0x0F); n = (if bit b2 7 then 8 else 4)
             in Some ((set_reg n 0 rg (NOT (xr s v) AND xr s rm) s)\<lparr>xf := u\<rparr>, bs))
          else None
      | _ \<Rightarrow> None)"

text \<open>Two-byte opcodes with a ModR/M byte.\<close>

definition exec_esc :: "x86_flags \<Rightarrow> prefixes \<Rightarrow> nat \<Rightarrow> operand \<Rightarrow> u8 list \<Rightarrow> x86 \<Rightarrow> (x86 \<times> u8 list) option" where
  "exec_esc u p rg rm bs s =
     (let n = op_size p; rex = p_rex p; op = p_op p in
      if p_f3 p then
        (if op = 0xB8 then Some ((set_reg n rex rg (of_nat (count_ones (operand_val n rex s rm))) s)\<lparr>xf := u\<rparr>, bs)
         else None)
      else if op = 0xAF then
        Some ((set_reg n rex rg (operand_val n rex s (RegOperand rg) * operand_val n rex s rm) s)\<lparr>xf := u\<rparr>, bs)
      else if op = 0xB6 then Some (set_reg n rex rg (operand_val 1 rex s rm) s, bs)
      else if op = 0xB7 then Some (set_reg n rex rg (operand_val 2 rex s rm) s, bs)
      else if op = 0xBE then Some (set_reg n rex rg (scast (ucast (operand_val 1 rex s rm) :: u8)) s, bs)
      else if op = 0xBF then Some (set_reg n rex rg (scast (ucast (operand_val 2 rex s rm) :: u16)) s, bs)
      else if op AND 0xF0 = 0x40 then
        Some (set_reg n rex rg
          (if x86_holds (cc_of op) (xf s) then operand_val n rex s rm else operand_val n rex s (RegOperand rg)) s, bs)
      else if op AND 0xF0 = 0x90 then
        Some (set_operand 1 rex rm (of_bool (x86_holds (cc_of op) (xf s))) s, bs)
      else None)"

text \<open>The groups of one-byte opcodes that select the operation in the reg field.\<close>

definition exec_grp3 :: "x86_flags \<Rightarrow> prefixes \<Rightarrow> nat \<Rightarrow> operand \<Rightarrow> u8 list \<Rightarrow> x86 \<Rightarrow> (x86 \<times> u8 list) option" where
  "exec_grp3 u p rg rm bs s =
     (let n = op_size p; rex = p_rex p; v = operand_val n rex s rm in
      if rg mod 8 = 2 then Some (set_operand n rex rm (NOT v) s, bs)
      else if rg mod 8 = 3 then Some ((set_operand n rex rm (- v) s)\<lparr>xf := u\<rparr>, bs)
      else None)"

definition exec_shift :: "x86_flags \<Rightarrow> prefixes \<Rightarrow> nat \<Rightarrow> operand \<Rightarrow> u8 \<Rightarrow> u8 list \<Rightarrow> x86 \<Rightarrow> (x86 \<times> u8 list) option" where
  "exec_shift u p rg rm cnt bs s = do {
     assert_that (wide p \<or> \<not> p_data16 p);
     op \<leftarrow> shift_of (rg mod 8);
     let n = op_size p;
     Some ((set_operand n (p_rex p) rm (shift_at (wide p) op cnt (operand_val n (p_rex p) s rm)) s)\<lparr>xf := u\<rparr>, bs) }"

definition exec_modrm :: "x86_flags \<Rightarrow> prefixes \<Rightarrow> nat \<Rightarrow> operand \<Rightarrow> u8 list \<Rightarrow> x86 \<Rightarrow> (x86 \<times> u8 list) option" where
  "exec_modrm u p rg rm bs s =
     (let n = op_size p; rex = p_rex p; op = p_op p in
      if op AND 0xC7 = 0x03 then do {
        assert_that (wide p \<or> \<not> p_data16 p);
        let (r, f) = alu_at (wide p) (arith_of (drop_bit 3 op)) (CF (xf s))
              (operand_val n rex s (RegOperand rg)) (operand_val n rex s rm);
        Some ((if arith_of (drop_bit 3 op) = XCmp then s else set_reg n rex rg r s)\<lparr>xf := f\<rparr>, bs) }
      else if op AND 0xC7 = 0x01 then do {
        assert_that (wide p \<or> \<not> p_data16 p);
        let (r, f) = alu_at (wide p) (arith_of (drop_bit 3 op)) (CF (xf s))
              (operand_val n rex s rm) (operand_val n rex s (RegOperand rg));
        Some ((if arith_of (drop_bit 3 op) = XCmp then s else set_operand n rex rm r s)\<lparr>xf := f\<rparr>, bs) }
      else if op = 0x85 then do {
        assert_that (wide p \<or> \<not> p_data16 p);
        let (r, f) = alu_at (wide p) XAnd (CF (xf s)) (operand_val n rex s rm) (operand_val n rex s (RegOperand rg));
        Some (s\<lparr>xf := f\<rparr>, bs) }
      else if op = 0x8B then Some (set_reg n rex rg (operand_val n rex s rm) s, bs)
      else if op = 0x89 then Some (set_operand n rex rm (operand_val n rex s (RegOperand rg)) s, bs)
      else if op = 0x88 then Some (set_operand 1 rex rm (operand_val 1 rex s (RegOperand rg)) s, bs)
      else if op = 0x63 then Some (set_reg n rex rg (scast (ucast (operand_val 4 rex s rm) :: u32)) s, bs)
      else if op = 0x8D then
        (case rm of
           MemOperand base ix d \<Rightarrow> Some (set_reg n rex rg (addr_of s base ix d) s, bs)
         | RegOperand r \<Rightarrow> None)
      else if op = 0xF7 then exec_grp3 u p rg rm bs s
      else if op = 0xD3 then exec_shift u p rg rm (ucast (xr s 1)) bs s
      else if op = 0xD1 then exec_shift u p rg rm 1 bs s
      else if op = 0xC1 then do { (k, bs) \<leftarrow> take_imm8 bs; exec_shift u p rg rm k bs s }
      else if op = 0xC7 \<and> rg mod 8 = 0 then do {
        (k, bs) \<leftarrow> take_imm32 bs; Some (set_operand n rex rm (scast k) s, bs) }
      else None)"

definition exec_insn :: "x86_flags \<Rightarrow> u8 list \<Rightarrow> x86 \<Rightarrow> (x86 \<times> u8 list) option" where
  "exec_insn u bs s =
     (if take 1 bs = [0xC4] then exec_vex u (drop 1 bs) s
      else do {
        (p, bs) \<leftarrow> decode_prefixes bs;
        if short_form p then exec_short p bs s
        else do {
          (rg, rm, bs) \<leftarrow> decode_operands (p_rex p) bs;
          if p_esc p then exec_esc u p rg rm bs s else exec_modrm u p rg rm bs s } })"

text \<open>A straight run of the instructions in a byte sequence; \<open>None\<close> for bytes with no meaning here.\<close>

inductive x86_run :: "x86_flags \<Rightarrow> u8 list \<Rightarrow> x86 \<Rightarrow> x86 \<Rightarrow> bool" for u where
  run_nil: "x86_run u [] s s"
| run_step: "exec_insn u bs s = Some (s', bs') \<Longrightarrow> x86_run u bs' s' s'' \<Longrightarrow> x86_run u bs s s''"

section \<open>Executing what the encoder emits\<close>

definition plain_opc :: "u32 \<Rightarrow> bool" where
  "plain_opc opc \<longleftrightarrow> opc AND P_SIMDF2 = 0 \<and> opc AND P_EXT38 = 0 \<and> opc AND P_EXT3A = 0 \<and>
     (opc AND P_EXT = 0 \<longrightarrow> ucast opc \<noteq> (0x66 :: u8) \<and> ucast opc \<noteq> (0xF3 :: u8) \<and> ucast opc \<noteq> (0x0F :: u8) \<and> ucast opc \<noteq> (0xC4 :: u8) \<and>
        (ucast opc :: u8) AND 0xF0 \<noteq> 0x40)"

definition rex_of :: "u32 \<Rightarrow> u8 \<Rightarrow> u8 \<Rightarrow> u8 \<Rightarrow> u8" where
  "rex_of opc r rm idx = (if rex_byte opc r rm idx = 0 then 0 else 0x40 OR rex_byte opc r rm idx)"

lemma rex_byte_range: "(0x40 OR rex_byte opc r rm idx) AND 0xF0 = 0x40"
  by (simp add: rex_byte_def Let_def)

lemma rex_head: "0x40 OR rex_byte opc r rm idx \<noteq> 0x66" "0x40 OR rex_byte opc r rm idx \<noteq> 0xF3"
  "0x40 OR rex_byte opc r rm idx \<noteq> 0xC4"
  using rex_byte_range [of opc r rm idx] by (auto)

lemma take_rex_none: "x AND 0xF0 \<noteq> 0x40 \<Longrightarrow> take_rex (x # xs) = (0, x # xs)"
  by simp

lemma decode_opc_bytes:
  assumes "plain_opc opc"
  shows "decode_prefixes (opc_bytes opc r rm idx @ rest) =
    Some (\<lparr>p_data16 = (opc AND P_DATA16 \<noteq> 0), p_f3 = (opc AND P_SIMDF3 \<noteq> 0), p_rex = rex_of opc r rm idx,
      p_esc = (opc AND P_EXT \<noteq> 0), p_op = ucast opc\<rparr>, rest)"
proof -
  have e: "opc AND (P_EXT OR P_EXT38 OR P_EXT3A) = opc AND P_EXT"
    using assms by (simp add: plain_opc_def bit.conj_disj_distrib)
  let ?rex = "if rex_byte opc r rm idx \<noteq> 0 then [0x40 OR rex_byte opc r rm idx] else []"
  let ?esc = "if opc AND P_EXT \<noteq> 0 then [0x0F] else [] :: u8 list"
  have 1: "take_byte 0x0F (?esc @ ucast opc # rest) = (opc AND P_EXT \<noteq> 0, ucast opc # rest)"
    using assms by (simp add: plain_opc_def)
  have 2: "take_rex (?rex @ ?esc @ ucast opc # rest) = (rex_of opc r rm idx, ?esc @ ucast opc # rest)"
    using assms by (simp add: plain_opc_def rex_of_def rex_byte_range del: bit.conj_disj_distrib)
  have 3: "take_byte 0xF3 ((if opc AND P_SIMDF3 \<noteq> 0 then [0xF3] else []) @ ?rex @ ?esc @ ucast opc # rest) =
      (opc AND P_SIMDF3 \<noteq> 0, ?rex @ ?esc @ ucast opc # rest)"
    using assms rex_head [of opc r rm idx] by (simp add: plain_opc_def)
  have 4: "take_byte 0x66 ((if opc AND P_DATA16 \<noteq> 0 then [0x66] else []) @ (if opc AND P_SIMDF3 \<noteq> 0 then [0xF3] else []) @
        ?rex @ ?esc @ ucast opc # rest) =
      (opc AND P_DATA16 \<noteq> 0, (if opc AND P_SIMDF3 \<noteq> 0 then [0xF3] else []) @ ?rex @ ?esc @ ucast opc # rest)"
    using assms rex_head [of opc r rm idx] by (simp add: plain_opc_def)
  have "opc_bytes opc r rm idx @ rest = (if opc AND P_DATA16 \<noteq> 0 then [0x66] else []) @ (if opc AND P_SIMDF3 \<noteq> 0 then [0xF3] else []) @
        ?rex @ ?esc @ ucast opc # rest"
    using assms unfolding opc_bytes_def e by (simp add: plain_opc_def)
  then show ?thesis unfolding decode_prefixes_def by (simp only: 1 2 3 4 Let_def case_prod_conv list.case)
qed

definition pfx :: "u32 \<Rightarrow> u8 \<Rightarrow> u8 \<Rightarrow> u8 \<Rightarrow> prefixes" where
  "pfx opc r rm idx = \<lparr>p_data16 = (opc AND P_DATA16 \<noteq> 0), p_f3 = (opc AND P_SIMDF3 \<noteq> 0), p_rex = rex_of opc r rm idx,
      p_esc = (opc AND P_EXT \<noteq> 0), p_op = ucast opc\<rparr>"

lemma rex_of_bit: "n < 4 \<Longrightarrow> bit (rex_of opc r rm idx) n \<longleftrightarrow> bit (rex_byte opc r rm idx) n"
  using bit_exp_iff [where 'a = u8, of 6 n] by (auto simp: rex_of_def bit_or_iff)

lemma rex_of_bits:
  "bit (rex_of opc r rm idx) 0 \<longleftrightarrow> rm \<ge> 8" "bit (rex_of opc r rm idx) (Suc 0) \<longleftrightarrow> idx \<ge> 8"
  "bit (rex_of opc r rm idx) 2 \<longleftrightarrow> r \<ge> 8" "bit (rex_of opc r rm idx) 3 \<longleftrightarrow> opc AND P_REXW \<noteq> 0"
  by (simp_all add: rex_of_bit rex_bits)

lemma ext8_rex_of:
  "ext8 (rex_of opc r rm idx) 0 = ext8 (rex_byte opc r rm idx) 0"
  "ext8 (rex_of opc r rm idx) (Suc 0) = ext8 (rex_byte opc r rm idx) (Suc 0)"
  "ext8 (rex_of opc r rm idx) 2 = ext8 (rex_byte opc r rm idx) 2"
  by (simp_all add: ext8_def rex_of_bit)

lemma decode_operands_rex_of:
  "decode_operands (rex_of opc r rm idx) bs = decode_operands (rex_byte opc r rm idx) bs"
  by (cases bs) (simp_all only: decode_operands.simps One_nat_def ext8_rex_of)

lemma wide_pfx [simp]: "wide (pfx opc r rm idx) \<longleftrightarrow> opc AND P_REXW \<noteq> 0"
  by (simp add: wide_def pfx_def rex_of_bits)

lemma pfx_simps [simp]:
  "p_data16 (pfx opc r rm idx) \<longleftrightarrow> opc AND P_DATA16 \<noteq> 0" "p_f3 (pfx opc r rm idx) \<longleftrightarrow> opc AND P_SIMDF3 \<noteq> 0"
  "p_rex (pfx opc r rm idx) = rex_of opc r rm idx" "p_esc (pfx opc r rm idx) \<longleftrightarrow> opc AND P_EXT \<noteq> 0"
  "p_op (pfx opc r rm idx) = ucast opc"
  by (simp_all add: pfx_def)

definition modrm_opc :: "u32 \<Rightarrow> bool" where
  "modrm_opc opc \<longleftrightarrow> plain_opc opc \<and>
     (if opc AND P_EXT \<noteq> 0 then (ucast opc :: u8) AND 0xF8 \<noteq> 0xC8
      else (ucast opc :: u8) AND 0xF8 \<noteq> 0xB8 \<and> (ucast opc :: u8) \<noteq> 0xF9)"

lemma opc_bytes_no_vex: "plain_opc opc \<Longrightarrow> take (Suc 0) (opc_bytes opc r rm idx @ bs) \<noteq> [0xC4]"
  using rex_head(3) [of opc r rm idx] by (simp add: opc_bytes_def plain_opc_def bit.conj_disj_distrib)

lemma exec_prefixed:
  assumes "plain_opc opc"
  shows "exec_insn u (opc_bytes opc r rm idx @ bs) s =
    (if short_form (pfx opc r rm idx) then exec_short (pfx opc r rm idx) bs s
     else do {
       (rg, v, bs) \<leftarrow> decode_operands (rex_byte opc r rm idx) bs;
       if opc AND P_EXT \<noteq> 0 then exec_esc u (pfx opc r rm idx) rg v bs s
       else exec_modrm u (pfx opc r rm idx) rg v bs s })"
  using opc_bytes_no_vex [OF assms, of r rm idx bs]
  unfolding exec_insn_def decode_opc_bytes [OF assms] pfx_def [symmetric] One_nat_def
  by (simp only: if_False Option.bind.bind_lunit case_prod_conv pfx_simps decode_operands_rex_of)

lemma exec_decoded:
  assumes "modrm_opc opc" "decode_operands (rex_byte opc r rm idx) bs = Some (rg, v, rest)"
  shows "exec_insn u (opc_bytes opc r rm idx @ bs) s =
    (if opc AND P_EXT \<noteq> 0 then exec_esc u (pfx opc r rm idx) rg v rest s
     else exec_modrm u (pfx opc r rm idx) rg v rest s)"
  using assms(1) exec_prefixed [of opc u r rm idx bs s] assms(2)
  by (simp add: modrm_opc_def short_form_def)

lemma decode_modrm_ext:
  "ext < 8 \<Longrightarrow> decode_operands (rex_byte opc ext (reg_u8 rm) 0) ((0xC0 OR push_bit 3 ext OR low3 rm) # rest) =
     Some (unat ext, RegOperand (unat (reg_u8 rm)), rest)"
  using reg_ext [of rm] by (simp add: modrm_fields ext8_def rex_bits leD)

text \<open>
  \<open>effect u f g\<close>: the emitter \<open>f\<close> appends a byte sequence (and panics only when the buffer is
  full) whose execution has the effect \<open>g\<close>, whatever follows it.
\<close>

definition effect :: "x86_flags \<Rightarrow> code_emitter \<Rightarrow> (x86 \<Rightarrow> x86) \<Rightarrow> bool" where
  "effect u f g \<longleftrightarrow>
     (\<exists>bs. appends f bs \<and> (\<forall>s rest t. x86_run u rest (g s) t \<longrightarrow> x86_run u (bs @ rest) s t))"

lemma code_insn:
  assumes "appends f bs" "\<And>s rest. exec_insn u (bs @ rest) s = Some (g s, rest)"
  shows "effect u f g"
  using assms unfolding effect_def by (blast intro: run_step)

lemma code_seq:
  assumes "effect u f g" "effect u f' g'"
  shows "effect u (\<lambda>b. f b \<bind> f') (g' \<circ> g)"
proof -
  obtain bs where bs: "appends f bs" "\<And>s rest t. x86_run u rest (g s) t \<Longrightarrow> x86_run u (bs @ rest) s t"
    using assms(1) unfolding effect_def by blast
  obtain cs where cs: "appends f' cs" "\<And>s rest t. x86_run u rest (g' s) t \<Longrightarrow> x86_run u (cs @ rest) s t"
    using assms(2) unfolding effect_def by blast
  have "appends (\<lambda>b. f b \<bind> f') (bs @ cs)" by (rule appends_seq) (fact bs cs)+
  moreover have "x86_run u ((bs @ cs) @ rest) s t" if "x86_run u rest ((g' \<circ> g) s) t" for s rest t
    using bs(2) [OF cs(2), of rest s t] that by simp
  ultimately show ?thesis unfolding effect_def by blast
qed

lemma code_skip: "effect u Some (\<lambda>s. s)"
  using appends_nil unfolding effect_def by fastforce

abbreviation rn :: "Reg \<Rightarrow> nat" where "rn r \<equiv> unat (reg_u8 r)"

definition put :: "nat \<Rightarrow> u64 \<Rightarrow> x86 \<Rightarrow> x86" where
  "put r v s = s\<lparr>xr := (xr s)(r := v)\<rparr>"

lemma code_modrm:
  assumes "modrm_opc opc"
    "\<And>s rest. (if opc AND P_EXT \<noteq> 0 then exec_esc u (pfx opc (reg_u8 r) (reg_u8 rm) 0) (rn r) (RegOperand (rn rm)) rest s
     else exec_modrm u (pfx opc (reg_u8 r) (reg_u8 rm) 0) (rn r) (RegOperand (rn rm)) rest s) = Some (g s, rest)"
  shows "effect u (emit_modrm opc r rm) g"
  using exec_decoded [OF assms(1) decode_modrm_regs] assms(2) by (intro code_insn [OF appends_modrm]) simp

lemma code_modrm_ext:
  assumes "modrm_opc opc" "ext < 8"
    "\<And>s rest. (if opc AND P_EXT \<noteq> 0 then exec_esc u (pfx opc ext (reg_u8 rm) 0) (unat ext) (RegOperand (rn rm)) rest s
     else exec_modrm u (pfx opc ext (reg_u8 rm) 0) (unat ext) (RegOperand (rn rm)) rest s) = Some (g s, rest)"
  shows "effect u (emit_modrm_ext opc ext rm) g"
  using exec_decoded [OF assms(1) decode_modrm_ext [OF assms(2)]] assms(3) by (intro code_insn [OF appends_modrm_ext]) simp

lemma take_bit_full: "take_bit 64 (v :: u64) = v"
  by (rule bit_word_eqI) (simp add: bit_take_bit_iff)

lemma take_bit_32: "take_bit 32 (v :: u64) = ucast (ucast v :: u32)"
  by (rule bit_word_eqI) (auto simp: bit_take_bit_iff bit_unsigned_iff)

lemma op_size_pfx: "opc AND P_DATA16 = 0 \<Longrightarrow> op_size (pfx opc r rm idx) = (if opc AND P_REXW \<noteq> 0 then 8 else 4)"
  by (simp add: op_size_def)

lemma set_reg_full [simp]: "set_reg 8 rex r v s = put r v s" "set_reg 4 rex r v s = put r (ucast (ucast v :: u32)) s"
  by (simp_all add: set_reg_def put_def)

lemma ucast_take_bit_32 [simp]: "(ucast (take_bit 32 (v :: u64)) :: u32) = ucast v"
  by (rule bit_word_eqI) (auto simp: bit_take_bit_iff bit_unsigned_iff)

lemma alu_at_narrow [simp]:
  "alu_at False op c (take_bit 32 a) b = alu_at False op c a b" "alu_at False op c a (take_bit 32 b) = alu_at False op c a b"
  by (simp_all add: alu_at_def)

lemma alu_at_result: "alu_at False op c a b = (v, f) \<Longrightarrow> ucast (ucast v :: u32) = v"
  by (auto simp: alu_at_def split: prod.splits)

lemmas insn_defs = op_size_pfx opc_defs rexw_flag_def exec_modrm_def exec_esc_def Let_def take_bit_full arith_of_def 
  ucast_arith32 ucast_logic32 ucast_take_bit_32

lemma code_arith_rr:
  "effect u (emit_arith_rr op w d r)
     (\<lambda>s. case alu_at w op (CF (xf s)) (xr s (rn d)) (xr s (rn r)) of (v, f) \<Rightarrow>
        (if op = XCmp then s else put (rn d) v s)\<lparr>xf := f\<rparr>)"
  unfolding emit_arith_rr_def Let_def
proof (rule code_modrm)
  show "modrm_opc (OPC_ARITH_GvEv + push_bit 3 (ucast (x86_arith_u8 op)) OR rexw_flag w)"
    by (cases op; cases w; simp add: modrm_opc_def plain_opc_def opc_defs rexw_flag_def)
qed (cases op; cases w; simp add: insn_defs alu_at_result split: prod.splits)

lemma test_flags_commute: "test_flags a b = test_flags b a"
  by (simp add: test_flags_def and.commute)

lemma code_test_rr:
  "effect u (emit_test_rr w a b)
     (\<lambda>s. s\<lparr>xf := (if w then test_flags (xr s (rn a)) (xr s (rn b))
                   else test_flags (ucast (xr s (rn a)) :: u32) (ucast (xr s (rn b))))\<rparr>)"
  unfolding emit_test_rr_def
  by (rule code_modrm; cases w)
    (simp_all add: insn_defs modrm_opc_def plain_opc_def alu_at_def test_flags_commute)

lemma code_mov_rr: "effect u (emit_mov_rr w d r) (\<lambda>s. put (rn d) (if w then xr s (rn r) else ucast (ucast (xr s (rn r)) :: u32)) s)"
  unfolding emit_mov_rr_def
  by (rule code_modrm; cases w) (simp_all add: insn_defs modrm_opc_def plain_opc_def)

lemma code_neg: "effect u (emit_neg w d)
    (\<lambda>s. (put (rn d) (if w then - xr s (rn d) else ucast (- ucast (xr s (rn d)) :: u32)) s)\<lparr>xf := u\<rparr>)"
  unfolding emit_neg_def
  by (rule code_modrm_ext; cases w) (simp_all add: insn_defs modrm_opc_def plain_opc_def exec_grp3_def)

lemma code_not: "effect u (emit_not w d)
    (\<lambda>s. put (rn d) (if w then NOT (xr s (rn d)) else ucast (NOT (ucast (xr s (rn d))) :: u32)) s)"
  unfolding emit_not_def
  by (rule code_modrm_ext; cases w) (simp_all add: insn_defs modrm_opc_def plain_opc_def exec_grp3_def)

lemma code_imul_rr: "effect u (emit_imul_rr w d r)
    (\<lambda>s. (put (rn d) (if w then xr s (rn d) * xr s (rn r) else ucast (ucast (xr s (rn d)) * ucast (xr s (rn r)) :: u32)) s)\<lparr>xf := u\<rparr>)"
  unfolding emit_imul_rr_def
  by (rule code_modrm; cases w) (simp_all add: insn_defs modrm_opc_def plain_opc_def)

lemma shift_at_narrow [simp]: "shift_at False op n (take_bit 32 a) = shift_at False op n a"
  "ucast (ucast (shift_at False op n a) :: u32) = shift_at False op n a"
  by (simp_all add: shift_at_def)

lemma code_shift_cl: "effect u (emit_shift_cl op w d)
    (\<lambda>s. (put (rn d) (shift_at w op (ucast (xr s 1)) (xr s (rn d))) s)\<lparr>xf := u\<rparr>)"
  unfolding emit_shift_cl_def
  by (rule code_modrm_ext; cases op; cases w) (simp_all add: insn_defs modrm_opc_def plain_opc_def exec_shift_def)

lemma code_modrm_offset:
  assumes "modrm_opc opc"
    "\<And>s rest. (if opc AND P_EXT \<noteq> 0
       then exec_esc u (pfx opc (reg_u8 r) (reg_u8 base) 0) (rn r) (MemOperand (rn base) None (sint offset)) rest s
       else exec_modrm u (pfx opc (reg_u8 r) (reg_u8 base) 0) (rn r) (MemOperand (rn base) None (sint offset)) rest s) =
       Some (g s, rest)"
  shows "effect u (emit_modrm_offset opc r base offset) g"
  using exec_decoded [OF assms(1) decode_mem_bytes] assms(2) by (intro code_insn [OF appends_modrm_offset]) simp

lemma code_modrm_sib:
  assumes "modrm_opc opc" "idx \<noteq> Rsp"
    "\<And>s rest. (if opc AND P_EXT \<noteq> 0
       then exec_esc u (pfx opc (reg_u8 r) (reg_u8 base) (reg_u8 idx)) (rn r) (MemOperand (rn base) (Some (rn idx, Suc 0)) 0) rest s
       else exec_modrm u (pfx opc (reg_u8 r) (reg_u8 base) (reg_u8 idx)) (rn r) (MemOperand (rn base) (Some (rn idx, Suc 0)) 0) rest s) =
       Some (g s, rest)"
  shows "effect u (emit_modrm_sib opc r base idx 0 0) g"
proof (rule code_insn [OF appends_modrm_sib [OF _ assms(2)]])
  have d: "decode_operands (rex_byte opc (reg_u8 r) (reg_u8 base) (reg_u8 idx)) (sib_bytes r base idx 0 0 @ rest) =
      Some (rn r, MemOperand (rn base) (Some (rn idx, Suc 0)) 0, rest)" for rest
    using decode_sib_bytes [where shift = 0 and offset = 0, OF _ assms(2)] by simp
  show "exec_insn u ((opc_bytes opc (reg_u8 r) (reg_u8 base) (reg_u8 idx) @ sib_bytes r base idx 0 0) @ rest) s =
      Some (g s, rest)" for s rest
    unfolding append_assoc exec_decoded [OF assms(1) d] by (rule assms(3))
qed simp

text \<open>With the byte-register flag of the opcode set, the byte operand is the low byte.\<close>

lemma byte_reg_rexb:
  "opc AND P_REXB_RM \<noteq> 0 \<Longrightarrow> byte_reg (rex_of opc a (reg_u8 rm) idx) (rn rm) = (rn rm, 0)"
  "opc AND P_REXB_R \<noteq> 0 \<Longrightarrow> byte_reg (rex_of opc (reg_u8 r) b idx) (rn r) = (rn r, 0)"
  by (auto simp: byte_reg_def rex_of_def rex_byte_def Let_def word_le_nat_alt split: if_splits)

lemma code_setcc: "effect u (emit_setcc c d)
    (\<lambda>s. put (rn d) ((xr s (rn d) AND NOT (mask 8)) OR of_bool (x86_holds c (xf s))) s)"
proof -
  have "take_bit 8 (of_bool q) = (of_bool q :: u64)" for q by (cases q) simp_all
  then show ?thesis unfolding emit_setcc_def
    by (intro code_modrm_ext; cases c)
      (simp_all add: insn_defs modrm_opc_def plain_opc_def set_reg_def byte_reg_rexb [simplified opc_defs] put_def cc_of_def X86CONDS_def)
qed

lemma ucast_narrow [simp]: "n \<le> 32 \<Longrightarrow> ucast (ucast (take_bit n (v :: u64)) :: u32) = take_bit n v"
  by (rule bit_word_eqI) (auto simp: bit_take_bit_iff bit_unsigned_iff)

lemma code_movzx8: "effect u (emit_movzx (OPC_MOVZBL OR P_REXB_RM) d r) (\<lambda>s. put (rn d) (take_bit 8 (xr s (rn r))) s)"
  unfolding emit_movzx_def
  by (rule code_modrm)
    (simp_all add: insn_defs modrm_opc_def plain_opc_def byte_reg_rexb [simplified opc_defs])

lemma code_cmovcc: "effect u (emit_cmovcc c w d r)
    (\<lambda>s. put (rn d)
      (if w then if x86_holds c (xf s) then xr s (rn r) else xr s (rn d)
       else ucast (ucast (if x86_holds c (xf s) then xr s (rn r) else xr s (rn d)) :: u32)) s)"
  unfolding emit_cmovcc_def
  by (rule code_modrm; cases c; cases w)
    (simp_all add: insn_defs modrm_opc_def plain_opc_def cc_of_def X86CONDS_def)

lemma code_movslq: "effect u (emit_movsx OPC_MOVSLQ d r) (\<lambda>s. put (rn d) (scast (ucast (xr s (rn r)) :: u32)) s)"
  unfolding emit_movsx_def by (rule code_modrm) (simp_all add: insn_defs modrm_opc_def plain_opc_def)

lemma code_lea_sib: "idx \<noteq> Rsp \<Longrightarrow> effect u (emit_lea_sib w d base idx 0 0)
    (\<lambda>s. put (rn d) (if w then xr s (rn base) + xr s (rn idx) else ucast (ucast (xr s (rn base)) + ucast (xr s (rn idx)) :: u32)) s)"
  unfolding emit_lea_sib_def
  by (rule code_modrm_sib; cases w) (simp_all add: insn_defs modrm_opc_def plain_opc_def)

text \<open>Without the flag, the byte operand of \<open>movzx\<close> and \<open>movsx\<close> may be a second byte.\<close>

lemma code_movzx8_raw: "effect u (emit_movzx OPC_MOVZBL d r)
    (\<lambda>s. put (rn d) (operand_val 1 (rex_of OPC_MOVZBL (reg_u8 d) (reg_u8 r) 0) s (RegOperand (rn r))) s)"
  unfolding emit_movzx_def
  by (rule code_modrm) (simp_all add: insn_defs modrm_opc_def plain_opc_def split: prod.splits)

lemma code_movzx16: "effect u (emit_movzx OPC_MOVZWL d r) (\<lambda>s. put (rn d) (take_bit 16 (xr s (rn r))) s)"
  unfolding emit_movzx_def
  by (rule code_modrm) (simp_all add: insn_defs modrm_opc_def plain_opc_def)

lemma ucast_signed16 [simp]: "(ucast (scast (v :: u16) :: u64) :: u32) = scast v" "(ucast (take_bit 16 (x :: u64)) :: u16) = ucast x"
  by (rule bit_word_eqI; auto simp: bit_unsigned_iff bit_signed_iff bit_take_bit_iff)+

lemma code_movsx16: "effect u (emit_movsx (if w then OPC_MOVSWL OR P_REXW else OPC_MOVSWL) d r)
    (\<lambda>s. put (rn d) (if w then scast (ucast (xr s (rn r)) :: u16) else ucast (scast (ucast (xr s (rn r)) :: u16) :: u32)) s)"
  unfolding emit_movsx_def
  by (rule code_modrm; cases w) (simp_all add: insn_defs modrm_opc_def plain_opc_def)

lemma code_shift_ri: "effect u (emit_shift_ri op w d k)
    (\<lambda>s. (put (rn d) (shift_at w op k (xr s (rn d))) s)\<lparr>xf := u\<rparr>)"
proof (cases "k = 1")
  case True
  have "effect u (emit_modrm_ext (OPC_SHIFT_1 OR rexw_flag w) (x86_shift_u8 op) d)
      (\<lambda>s. (put (rn d) (shift_at w op 1 (xr s (rn d))) s)\<lparr>xf := u\<rparr>)"
    by (rule code_modrm_ext; cases op; cases w) (simp_all add: insn_defs modrm_opc_def plain_opc_def exec_shift_def)
  moreover have "emit_shift_ri op w d k = emit_modrm_ext (OPC_SHIFT_1 OR rexw_flag w) (x86_shift_u8 op) d"
    using True by (auto simp: emit_shift_ri_def)
  ultimately show ?thesis using True by simp
next
  case False
  let ?opc = "OPC_SHIFT_Ib OR rexw_flag w" let ?ext = "x86_shift_u8 op"
  have o: "modrm_opc ?opc" "?ext < 8"
    by (cases w; cases op; simp add: modrm_opc_def plain_opc_def opc_defs rexw_flag_def)+
  have "emit_shift_ri op w d k = (\<lambda>b. emit_modrm_ext ?opc ?ext d b \<bind> emit_u8 k)"
    using False by (auto simp: emit_shift_ri_def Let_def)
  then have a: "appends (emit_shift_ri op w d k) ((opc_bytes ?opc ?ext (reg_u8 d) 0 @ [0xC0 OR push_bit 3 ?ext OR low3 d]) @ [k])"
    using appends_seq [OF appends_modrm_ext appends_emit(1)] by simp
  show ?thesis
  proof (rule code_insn [OF a])
    show "exec_insn u (((opc_bytes ?opc ?ext (reg_u8 d) 0 @ [0xC0 OR push_bit 3 ?ext OR low3 d]) @ [k]) @ rest) s =
        Some (put (rn d) (shift_at w op k (xr s (rn d))) s\<lparr>xf := u\<rparr>, rest)" for s rest
      using exec_decoded [OF o(1) decode_modrm_ext [OF o(2)], of u d "k # rest" s]
      by (cases op; cases w) (simp_all add: insn_defs exec_shift_def take_imm8_def)
  qed
qed

lemma le_word_prefix: "LENGTH('a) = 8 * n \<Longrightarrow> le_word (take n (le_bytes n (v :: 'a::len word) @ rest)) = v"
  by (simp add: le_word_le_bytes)

lemma read_mem_narrow: "n \<le> 4 \<Longrightarrow> ucast (ucast (read_mem n a m) :: u32) = read_mem n a m"
  by (rule bit_word_eqI) (auto simp: bit_unsigned_iff read_mem_def bit_le_word)

lemma write_mem_narrow: "8 * n \<le> k \<Longrightarrow> write_mem n a (take_bit k v) m = write_mem n a v m"
proof -
  assume "8 * n \<le> k"
  then have "le_bytes n (take_bit k v) = le_bytes n (v :: u64)"
    by (auto simp: le_bytes_def intro!: bit_word_eqI simp: bit_unsigned_iff bit_drop_bit_eq bit_take_bit_iff)
  then show ?thesis by (simp add: write_mem_def fun_eq_iff)
qed

text \<open>\<open>mov\<close> of a constant, in the shortest of its forms; the form for zero is an \<open>xor\<close>, which also sets the flags.\<close>

definition mov_const :: "bool \<Rightarrow> nat \<Rightarrow> u64 \<Rightarrow> x86 \<Rightarrow> x86" where
  "mov_const w r v s = (put r (if w then v else ucast (ucast v :: u32)) s)
     \<lparr>xf := (if v = 0 then result_flags False False (0 :: u32) else xf s)\<rparr>"

text \<open>Opcodes with the register in the low three bits.\<close>

lemma short_plain:
  "plain_opc (OPC_MOVL_Iv + ucast (low3 r))" "plain_opc ((OPC_MOVL_Iv + ucast (low3 r)) OR P_REXW)"
  "plain_opc ((OPC_BSWAP + ucast (low3 r)) OR rexw_flag w)"
  by (cases r; cases w; simp add: low3_def opc_defs plain_opc_def rexw_flag_def)+

lemma appends_short:
  "appends (\<lambda>b. emit_opc opc 0 r b \<bind> emit_u32 v) (opc_bytes opc 0 r 0 @ le_bytes 4 v)"
  "appends (\<lambda>b. emit_opc opc 0 r b \<bind> emit_u64 q) (opc_bytes opc 0 r 0 @ le_bytes 8 q)"
  by (intro appends_seq appends_opc appends_emit)+

lemma take_imm [simp]:
  "take_imm32 (le_bytes 4 v @ rest) = Some (v, rest)" "take_imm64 (le_bytes 8 q @ rest) = Some (q, rest)"
  by (simp_all add: take_imm32_def take_imm64_def le_word_le_bytes)

lemma short_operand:
  "unat ((ucast (OPC_MOVL_Iv + ucast (low3 r)) :: u8) AND 7) + ext8 (rex_of opc 0 (reg_u8 r) 0) 0 = rn r"
  "unat ((ucast ((OPC_MOVL_Iv + ucast (low3 r)) OR P_REXW) :: u8) AND 7) + ext8 (rex_of opc 0 (reg_u8 r) 0) 0 = rn r"
  "unat ((ucast ((OPC_BSWAP + ucast (low3 r)) OR rexw_flag w) :: u8) AND 7) + ext8 (rex_of opc 0 (reg_u8 r) 0) 0 = rn r"
  by (cases r; cases w; simp add: ext8_def rex_of_bits; simp add: low3_def opc_defs rexw_flag_def word_le_nat_alt)+

lemma short_forms:
  "short_form (pfx (OPC_MOVL_Iv + ucast (low3 r)) x y z)" "short_form (pfx ((OPC_MOVL_Iv + ucast (low3 r)) OR P_REXW) x y z)"
  "short_form (pfx ((OPC_BSWAP + ucast (low3 r)) OR rexw_flag w) x y z)"
  by (cases r; cases w; simp add: short_form_def low3_def opc_defs rexw_flag_def)+

lemma short_flags:
  "(OPC_MOVL_Iv + ucast (low3 r)) AND P_REXW = 0" "(OPC_MOVL_Iv + ucast (low3 r)) AND P_EXT = 0"
  "(OPC_MOVL_Iv + ucast (low3 r)) AND P_DATA16 = 0" "(ucast (OPC_MOVL_Iv + ucast (low3 r)) :: u8) \<noteq> 0xF9"
  "((OPC_MOVL_Iv + ucast (low3 r)) OR P_REXW) AND P_REXW \<noteq> 0" "((OPC_MOVL_Iv + ucast (low3 r)) OR P_REXW) AND P_EXT = 0"
  "((OPC_MOVL_Iv + ucast (low3 r)) OR P_REXW) AND P_DATA16 = 0" "(ucast ((OPC_MOVL_Iv + ucast (low3 r)) OR P_REXW) :: u8) \<noteq> 0xF9"
  "((OPC_BSWAP + ucast (low3 r)) OR rexw_flag w) AND P_EXT \<noteq> 0" "((OPC_BSWAP + ucast (low3 r)) OR rexw_flag w) AND P_DATA16 = 0"
  "((OPC_BSWAP + ucast (low3 r)) OR rexw_flag w) AND P_REXW \<noteq> 0 \<longleftrightarrow> w"
  by (cases r; cases w; simp add: low3_def opc_defs rexw_flag_def)+

lemma code_mov_imm32: "effect u (\<lambda>b. emit_opc (OPC_MOVL_Iv + ucast (low3 r)) 0 (reg_u8 r) b \<bind> emit_u32 v)
    (\<lambda>s. put (rn r) (ucast v) s)"
proof (rule code_insn [OF appends_short(1)])
  show "exec_insn u ((opc_bytes (OPC_MOVL_Iv + ucast (low3 r)) 0 (reg_u8 r) 0 @ le_bytes 4 v) @ rest) s =
      Some (put (rn r) (ucast v) s, rest)" for s rest
    by (simp add: exec_prefixed [OF short_plain(1)] short_forms exec_short_def short_operand short_flags op_size_pfx Let_def)
qed

lemma code_mov_imm64: "effect u (\<lambda>b. emit_opc ((OPC_MOVL_Iv + ucast (low3 r)) OR P_REXW) 0 (reg_u8 r) b \<bind> emit_u64 v)
    (\<lambda>s. put (rn r) v s)"
proof (rule code_insn [OF appends_short(2)])
  show "exec_insn u ((opc_bytes ((OPC_MOVL_Iv + ucast (low3 r)) OR P_REXW) 0 (reg_u8 r) 0 @ le_bytes 8 v) @ rest) s =
      Some (put (rn r) v s, rest)" for s rest
    by (simp add: exec_prefixed [OF short_plain(2)] short_forms exec_short_def short_operand short_flags op_size_pfx Let_def)
      (simp add: P_REXW_def)
qed

lemma code_bswap: "effect u (emit_bswap w r) (\<lambda>s. put (rn r) (bswap_at w (xr s (rn r))) s)"
  unfolding emit_bswap_def
proof (rule code_insn [OF appends_opc])
  have "ucast (ucast (bswap_at False x) :: u32) = bswap_at False x" for x by (simp add: bswap_at_def)
  then show "exec_insn u (opc_bytes ((OPC_BSWAP + ucast (low3 r)) OR rexw_flag w) 0 (reg_u8 r) 0 @ rest) s =
      Some (put (rn r) (bswap_at w (xr s (rn r))) s, rest)" for s rest
    by (simp add: exec_prefixed [OF short_plain(3)] short_forms exec_short_def short_operand short_flags op_size_pfx Let_def)
qed

lemma code_mov_simm: "effect u (\<lambda>b. emit_modrm_ext (OPC_MOVL_EvIz OR P_REXW) 0 r b \<bind> emit_u32 v)
    (\<lambda>s. put (rn r) (scast v) s)"
proof (rule code_insn [OF appends_seq [OF appends_modrm_ext appends_emit(3)]])
  let ?opc = "OPC_MOVL_EvIz OR P_REXW"
  have o: "modrm_opc ?opc" by (simp add: modrm_opc_def plain_opc_def opc_defs)
  show "exec_insn u (((opc_bytes ?opc 0 (reg_u8 r) 0 @ [0xC0 OR push_bit 3 0 OR low3 r]) @ le_bytes 4 v) @ rest) s =
      Some (put (rn r) (scast v) s, rest)" for s rest
    using exec_decoded [OF o decode_modrm_ext [of 0], of u r "le_bytes 4 v @ rest" s]
    by (simp add: insn_defs)
qed

lemma code_mov_zero: "effect u (emit_modrm 0x31 r r) (\<lambda>s. (put (rn r) 0 s)\<lparr>xf := result_flags False False (0 :: u32)\<rparr>)"
  by (rule code_modrm) (simp_all add: insn_defs modrm_opc_def plain_opc_def alu_at_def)

lemma scast_ucast_small: "- (2 ^ 31) \<le> sint v \<Longrightarrow> sint v \<le> 2 ^ 31 - 1 \<Longrightarrow> scast (ucast (v :: u64) :: u32) = v"
proof -
  assume "- (2 ^ 31) \<le> sint v" "sint v \<le> 2 ^ 31 - 1"
  then have "sint (word_of_int (sint v) :: u32) = sint v" by (rule sint_word_of_int_32)
  moreover have "(ucast v :: u32) = word_of_int (sint v)" using ucast_of_int32 [of "sint v"] by simp
  ultimately have "sint (ucast v :: u32) = sint v" by simp
  then have "scast (ucast v :: u32) = (word_of_int (sint v) :: u64)" by (simp only: scast_eq)
  then show ?thesis by simp
qed

lemma ucast_small: "(v :: u64) \<le> 0xFFFFFFFF \<Longrightarrow> ucast (ucast v :: u32) = v"
proof -
  assume "v \<le> 0xFFFFFFFF"
  then have "unat v \<le> 0xFFFFFFFF" by (simp add: word_le_nat_alt)
  then have "take_bit 32 (unat v) = unat v" by (simp add: take_bit_nat_eq_self)
  then show ?thesis by (simp only: word_unat_eq_iff unat_ucast_u64) (simp add: unsigned_ucast_eq)
qed

lemma code_mov_ri: "effect u (emit_mov_ri w r v) (mov_const w (rn r) v)"
proof -
  consider (zero) "v = 0" | (short) "v \<noteq> 0" "\<not> w \<or> v \<le> 0xFFFFFFFF"
    | (simm) "v \<noteq> 0" "\<not> (\<not> w \<or> v \<le> 0xFFFFFFFF)" "- (2 ^ 31) \<le> sint v \<and> sint v \<le> 2 ^ 31 - 1"
    | (full) "v \<noteq> 0" "\<not> (\<not> w \<or> v \<le> 0xFFFFFFFF)" "\<not> (- (2 ^ 31) \<le> sint v \<and> sint v \<le> 2 ^ 31 - 1)" by blast
  then show ?thesis
  proof cases
    case zero
    then have "emit_mov_ri w r v = emit_modrm 0x31 r r" "mov_const w (rn r) v = (\<lambda>s. (put (rn r) 0 s)\<lparr>xf := result_flags False False (0 :: u32)\<rparr>)"
      by (auto simp: emit_mov_ri_def mov_const_def)
    then show ?thesis using code_mov_zero by simp
  next
    case short
    then have "mov_const w (rn r) v = (\<lambda>s. put (rn r) (ucast (ucast v :: u32)) s)"
      by (auto simp: mov_const_def put_def ucast_small)
    moreover from short have "emit_mov_ri w r v = (\<lambda>b. emit_opc (OPC_MOVL_Iv + ucast (low3 r)) 0 (reg_u8 r) b \<bind> emit_u32 (ucast v))"
      by (auto simp: emit_mov_ri_def)
    ultimately show ?thesis using code_mov_imm32 by simp
  next
    case simm
    then have "mov_const w (rn r) v = (\<lambda>s. put (rn r) (scast (ucast v :: u32)) s)"
      by (auto simp: mov_const_def put_def scast_ucast_small)
    moreover from simm have "emit_mov_ri w r v = (\<lambda>b. emit_modrm_ext (OPC_MOVL_EvIz OR P_REXW) 0 r b \<bind> emit_u32 (ucast v))"
      by (auto simp: emit_mov_ri_def)
    ultimately show ?thesis using code_mov_simm by simp
  next
    case full
    then have "mov_const w (rn r) v = (\<lambda>s. put (rn r) v s)"
      by (auto simp: mov_const_def put_def)
    moreover from full have "emit_mov_ri w r v = (\<lambda>b. emit_opc ((OPC_MOVL_Iv + ucast (low3 r)) OR P_REXW) 0 (reg_u8 r) b \<bind> emit_u64 v)"
      by (auto simp: emit_mov_ri_def)
    ultimately show ?thesis using code_mov_imm64 by simp
  qed
qed

lemma vex_fields:
  "bit ((if a then 0 else 0x80 :: u8) OR 0x40 OR (if c then 0 else 0x20) OR 2) 7 \<longleftrightarrow> \<not> a"
  "bit ((if a then 0 else 0x80 :: u8) OR 0x40 OR (if c then 0 else 0x20) OR 2) 5 \<longleftrightarrow> \<not> c"
  "((if a then 0 else 0x80 :: u8) OR 0x40 OR (if c then 0 else 0x20) OR 2) AND 0x1F = 2"
  by (cases a; cases c; simp)+

lemma vex_vvvv:
  "bit ((if w then 0x80 else 0 :: u8) OR push_bit 3 (NOT (reg_u8 v) AND 0x0F)) 7 \<longleftrightarrow> w"
  "((if w then 0x80 else 0 :: u8) OR push_bit 3 (NOT (reg_u8 v) AND 0x0F)) AND 0x07 = 0"
  "unat (NOT (drop_bit 3 ((if w then 0x80 else 0 :: u8) OR push_bit 3 (NOT (reg_u8 v) AND 0x0F))) AND 0x0F) = rn v"
  by (cases v; cases w; simp)+

lemma needs_rex_ext: "unat (low3 r) + (if needs_rex r then 8 else 0) = rn r"
  using reg_ext [of r] by (simp add: needs_rex_def)

lemma exec_andn:
  assumes "b1 AND 0x1F = 2" "bit b1 7 \<longleftrightarrow> \<not> needs_rex d" "bit b1 5 \<longleftrightarrow> \<not> needs_rex r"
    "b2 AND 0x07 = 0" "bit b2 7 \<longleftrightarrow> w" "unat (NOT (drop_bit 3 b2) AND 0x0F) = rn v"
  shows "exec_insn u (0xC4 # b1 # b2 # 0xF2 # (0xC0 OR push_bit 3 (low3 d) OR low3 r) # rest) s =
      Some ((put (rn d) (if w then NOT (xr s (rn v)) AND xr s (rn r)
            else ucast (NOT (ucast (xr s (rn v))) AND ucast (xr s (rn r)) :: u32)) s)\<lparr>xf := u\<rparr>, rest)"
  unfolding exec_insn_def exec_vex_def using assms needs_rex_ext [of d] needs_rex_ext [of r]
  by (cases "needs_rex d"; cases "needs_rex r"; cases w) (simp_all add: modrm_fields Let_def ucast_logic32)

lemma code_andn: "effect u (emit_andn w d v r)
    (\<lambda>s. (put (rn d) (if w then NOT (xr s (rn v)) AND xr s (rn r)
            else ucast (NOT (ucast (xr s (rn v))) AND ucast (xr s (rn r)) :: u32)) s)\<lparr>xf := u\<rparr>)"
proof -
  let ?b1 = "(if needs_rex d then 0 else 0x80 :: u8) OR 0x40 OR (if needs_rex r then 0 else 0x20) OR 2"
  let ?b2 = "(if w then 0x80 else 0 :: u8) OR push_bit 3 (NOT (reg_u8 v) AND 0x0F)"
  let ?m = "0xC0 OR push_bit 3 (low3 d) OR low3 r"
  have opc: "(OPC_ANDN OR rexw_flag w) AND P_REXW \<noteq> 0 \<longleftrightarrow> w" "(OPC_ANDN OR rexw_flag w) AND P_DATA16 = 0"
    "(OPC_ANDN OR rexw_flag w) AND P_SIMDF3 = 0" "(OPC_ANDN OR rexw_flag w) AND P_SIMDF2 = 0"
    "(OPC_ANDN OR rexw_flag w) AND P_EXT38 \<noteq> 0" "(ucast (OPC_ANDN OR rexw_flag w) :: u8) = 0xF2"
    by (cases w; simp add: opc_defs rexw_flag_def)+
  have "emit_andn w d v r = (\<lambda>b. (emit_u8 0xC4 b \<bind> (\<lambda>b. emit_u8 ?b1 b \<bind> emit_u8 ?b2)) \<bind>
      (\<lambda>b. emit_u8 0xF2 b \<bind> emit_u8 ?m))"
    unfolding emit_andn_def emit_vex_modrm_def Let_def by (rule ext) (simp add: opc)
  then have a: "appends (emit_andn w d v r) (([0xC4] @ [?b1] @ [?b2]) @ ([0xF2] @ [?m]))"
    by (simp only:) (intro appends_seq appends_emit)
  show ?thesis
  proof (rule code_insn [OF a])
    show "exec_insn u ((([0xC4] @ [?b1] @ [?b2]) @ ([0xF2] @ [?m])) @ rest) s =
      Some ((put (rn d) (if w then NOT (xr s (rn v)) AND xr s (rn r)
            else ucast (NOT (ucast (xr s (rn v))) AND ucast (xr s (rn r)) :: u32)) s)\<lparr>xf := u\<rparr>, rest)" for s rest
      unfolding append_Cons append_Nil by (intro exec_andn vex_fields vex_vvvv)
  qed
qed

section \<open>Loads and stores\<close>

text \<open>
  An opcode that loads a register from memory (with an extension) or stores one, for any memory
  operand; the two addressing forms of the encoder then share the facts.
\<close>

definition loads :: "x86_flags \<Rightarrow> u32 \<Rightarrow> (u64 \<Rightarrow> (u64 \<Rightarrow> u8) \<Rightarrow> u64) \<Rightarrow> bool" where
  "loads u opc f \<longleftrightarrow> modrm_opc opc \<and> (\<forall>r rm idx rg base ix d rest s.
     (if opc AND P_EXT \<noteq> 0 then exec_esc u (pfx opc r rm idx) rg (MemOperand base ix d) rest s
      else exec_modrm u (pfx opc r rm idx) rg (MemOperand base ix d) rest s) =
     Some (put rg (f (addr_of s base ix d) (xm s)) s, rest))"

definition stores :: "x86_flags \<Rightarrow> u32 \<Rightarrow> nat \<Rightarrow> bool" where
  "stores u opc n \<longleftrightarrow> modrm_opc opc \<and> (\<forall>r rm idx base ix d rest s.
     (if opc AND P_EXT \<noteq> 0 then exec_esc u (pfx opc (reg_u8 r) rm idx) (rn r) (MemOperand base ix d) rest s
      else exec_modrm u (pfx opc (reg_u8 r) rm idx) (rn r) (MemOperand base ix d) rest s) =
     Some (s\<lparr>xm := write_mem n (addr_of s base ix d) (xr s (rn r)) (xm s)\<rparr>, rest))"

lemma addr_forms:
  "addr_of s b None (sint (off :: i32)) = xr s b + scast off" "addr_of s b (Some (i, Suc 0)) 0 = xr s b + xr s i"
  by simp_all

lemma code_loads:
  assumes "loads u opc f"
  shows "effect u (emit_modrm_offset opc d base off) (\<lambda>s. put (rn d) (f (xr s (rn base) + scast off) (xm s)) s)"
    and "idx \<noteq> Rsp \<Longrightarrow> effect u (emit_modrm_sib opc d base idx 0 0) (\<lambda>s. put (rn d) (f (xr s (rn base) + xr s (rn idx)) (xm s)) s)"
  using assms unfolding loads_def
  by (intro code_modrm_offset code_modrm_sib; simp only: addr_forms not_False_eq_True)+

lemma code_stores:
  assumes "stores u opc n"
  shows "effect u (emit_modrm_offset opc r base off)
      (\<lambda>s. s\<lparr>xm := write_mem n (xr s (rn base) + scast off) (xr s (rn r)) (xm s)\<rparr>)"
    and "idx \<noteq> Rsp \<Longrightarrow> effect u (emit_modrm_sib opc r base idx 0 0)
      (\<lambda>s. s\<lparr>xm := write_mem n (xr s (rn base) + xr s (rn idx)) (xr s (rn r)) (xm s)\<rparr>)"
  using assms unfolding stores_def
  by (intro code_modrm_offset code_modrm_sib; simp only: addr_forms not_False_eq_True)+

lemma ucast_signed8 [simp]: "(ucast (scast (v :: u8) :: u64) :: u32) = scast v"
  by (rule bit_word_eqI) (auto simp: bit_unsigned_iff bit_signed_iff)

lemma load_opcodes:
  "loads u (OPC_MOVL_GvEv OR rexw_flag w) (read_mem (if w then 8 else 4))"
  "loads u OPC_MOVZBL (read_mem 1)" "loads u OPC_MOVZWL (read_mem 2)"
  "loads u (if w then OPC_MOVSBL OR P_REXW else OPC_MOVSBL)
     (\<lambda>a m. if w then scast (ucast (read_mem 1 a m) :: u8) else ucast (scast (ucast (read_mem 1 a m) :: u8) :: u32))"
  "loads u (if w then OPC_MOVSWL OR P_REXW else OPC_MOVSWL)
     (\<lambda>a m. if w then scast (ucast (read_mem 2 a m) :: u16) else ucast (scast (ucast (read_mem 2 a m) :: u16) :: u32))"
  "loads u OPC_MOVSLQ (\<lambda>a m. scast (ucast (read_mem 4 a m) :: u32))"
  by (cases w; simp add: loads_def insn_defs modrm_opc_def plain_opc_def read_mem_narrow)+

lemma store_opcodes:
  "stores u (OPC_MOVL_EvGv OR rexw_flag w) (if w then 8 else 4)" "stores u (P_DATA16 OR OPC_MOVL_EvGv) 2"
  "stores u (OPC_MOVB_EvGv OR P_REXB_R) 1"
  by (cases w; simp add: stores_def insn_defs op_size_def modrm_opc_def plain_opc_def write_mem_narrow byte_reg_rexb [simplified opc_defs])+

text \<open>Execution is deterministic.\<close>

lemma exec_insn_Nil: "exec_insn u [] s = None"
  by (simp add: exec_insn_def decode_prefixes_def)

inductive_cases x86_runE: "x86_run u bs s t"

lemma x86_run_det: "x86_run u bs s t \<Longrightarrow> x86_run u bs s t' \<Longrightarrow> t = t'"
proof (induction rule: x86_run.induct)
  case (run_nil s)
  then show ?case by (auto elim: x86_runE simp: exec_insn_Nil)
next
  case (run_step bs s s' bs' s'')
  from run_step.prems run_step.hyps(1) have "x86_run u bs' s' t'"
    by (cases rule: x86_run.cases) (auto simp: exec_insn_Nil)
  then show ?case by (rule run_step.IH)
qed

end
