(* ===== verification/Codegen_Sound.thy ===== *)
theory Codegen_Sound
  imports Codegen X86_Semantics
begin

text \<open>
  The host code of the code generator computes what the IR ops mean: for registers that satisfy
  the op's constraint, the bytes \<open>tcg_out_op\<close> appends, executed by the x86-64 semantics, leave
  the op's value in the output register and change no other register and no memory.
\<close>

section \<open>What an op computes\<close>

text \<open>
  The ops with a value, on top of those of the IR semantics: comparisons that produce a value,
  conditional moves and the bit fields that start at bit zero.
\<close>

definition cond_val :: "DataMovOp \<Rightarrow> Type \<Rightarrow> u64 list \<Rightarrow> u32 list \<Rightarrow> u64 option" where
  "cond_val x ty vs cs =
     (case x of
        SetCond \<Rightarrow> (case vs of [a, b] \<Rightarrow> Some (of_bool (cond_at ty (cond_of (cs ! 0)) a b)) | _ \<Rightarrow> None)
      | NegSetCond \<Rightarrow> (case vs of [a, b] \<Rightarrow> Some (trunc ty (- of_bool (cond_at ty (cond_of (cs ! 0)) a b))) | _ \<Rightarrow> None)
      | MovCond \<Rightarrow> (case vs of [a, b, v1, v2] \<Rightarrow>
          Some (trunc ty (if cond_at ty (cond_of (cs ! 0)) a b then v1 else v2)) | _ \<Rightarrow> None)
      | Mov \<Rightarrow> None)"

definition op_val :: "Opcode \<Rightarrow> Type \<Rightarrow> u64 list \<Rightarrow> u32 list \<Rightarrow> u64 option" where
  "op_val opc ty vs cs = (case opc of OMov x \<Rightarrow> cond_val x ty vs cs | _ \<Rightarrow> pure_val opc ty vs)"

text \<open>The type of the result: the 32-bit half of a 64-bit value is the only result whose upper half may be anything.\<close>

definition result_type :: "Opcode \<Rightarrow> Type" where
  "result_type opc = (if opc = OConv ExtrlI64I32 then I32 else I64)"

text \<open>Registers that satisfy a constraint for \<open>n\<close> outputs and \<open>m\<close> inputs, as the register allocator promises.\<close>

definition regs_fit :: "nat \<Rightarrow> nat \<Rightarrow> OpConstraint \<Rightarrow> u8 list \<Rightarrow> u8 list \<Rightarrow> bool" where
  "regs_fit n m ct oregs iregs \<longleftrightarrow>
     length oregs = n \<and> length iregs = m \<and>
     (\<forall>k < n. oregs ! k \<in> regs_of (ac_regs (ct ! k))) \<and>
     (\<forall>i < m. iregs ! i \<in> regs_of (ac_regs (ct ! (n + i)))) \<and>
     (\<forall>k < n. oalias (ct ! k) \<longrightarrow> oregs ! k = iregs ! unat (alias_index (ct ! k))) \<and>
     (\<forall>k < n. ac_newreg (ct ! k) \<longrightarrow> oregs ! k \<notin> set iregs)"

text \<open>
  The emitter \<open>f\<close> computes \<open>v\<close> into register \<open>d\<close>, on the states that satisfy \<open>P\<close>; it
  changes no other register and no memory.
\<close>

definition computes :: "x86_flags \<Rightarrow> (x86 \<Rightarrow> bool) \<Rightarrow> Type \<Rightarrow> code_emitter \<Rightarrow> u8 \<Rightarrow> (x86 \<Rightarrow> u64 option) \<Rightarrow> bool" where
  "computes u P ty f d v \<longleftrightarrow>
     (\<exists>g. effect u f g \<and> (\<forall>s. P s \<longrightarrow>
        map_option (trunc ty) (v s) = Some (trunc ty (xr (g s) (unat d))) \<and>
        (\<forall>r. r \<noteq> unat d \<longrightarrow> xr (g s) r = xr s r) \<and> xm (g s) = xm s))"

lemma computesI:
  assumes "effect u f g"
    "\<And>s. P s \<Longrightarrow> map_option (trunc ty) (v s) = Some (trunc ty (xr (g s) (unat d)))"
    "\<And>s r. P s \<Longrightarrow> r \<noteq> unat d \<Longrightarrow> xr (g s) r = xr s r" "\<And>s. P s \<Longrightarrow> xm (g s) = xm s"
  shows "computes u P ty f d v"
  using assms unfolding computes_def by blast

section \<open>Registers\<close>

lemma alloc_reg:
  assumes "r \<in> regs_of ALLOCATABLE_REGS"
  obtains d where "r = reg_u8 d" "d \<noteq> Rsp" "d \<noteq> Rbp" "d \<noteq> R14"
proof -
  have b: "bit (0xBFCF :: u64) (unat r)" using assms by (simp add: regs_of_def regset_masks)
  have "take_bit 16 (0xBFCF :: u64) = 0xBFCF" by simp
  with b have "bit (take_bit 16 (0xBFCF :: u64)) (unat r)" by (simp only:)
  then have "unat r < 16" by (simp only: bit_take_bit_iff)
  then have "unat r \<in> {0,1,2,3,4,5,6,7,8,9,10,11,12,13,14,15}"
    by (simp only: insert_iff empty_iff) presburger
  with b have "r = reg_u8 (REGS ! unat r) \<and> REGS ! unat r \<noteq> Rsp \<and> REGS ! unat r \<noteq> Rbp \<and> REGS ! unat r \<noteq> R14"
    by (elim insertE emptyE) (simp_all add: REGS_def word_unat_eq_iff)
  then show ?thesis using that by blast
qed

lemma reg_from_u8_reg [simp]: "reg_from_u8 (reg_u8 d) = Some d"
  by (cases d) (simp_all add: reg_from_u8_def REGS_def)


lemma reg_at_reg [simp]: "i < length rs \<Longrightarrow> rs ! i = reg_u8 d \<Longrightarrow> reg_at rs i = Some d"
  by (simp add: reg_at_def)

lemma reg_u8_inject [simp]: "reg_u8 a = reg_u8 b \<longleftrightarrow> a = b"
  by (metis option.inject reg_from_u8_reg)

lemma rn_inject [simp]: "rn a = rn b \<longleftrightarrow> a = b"
  by (simp flip: word_unat_eq_iff)

lemma put_simps [simp]: "xr (put r v s) = (xr s)(r := v)" "xm (put r v s) = xm s" "xf (put r v s) = xf s"
  by (simp_all add: put_def)

text \<open>An emitter that is one with a known effect, which writes only \<open>d\<close> and the flags.\<close>

lemma computes_code:
  assumes "effect u f' g" "f = f'"
    "\<And>s. P s \<Longrightarrow> map_option (trunc ty) (v s) = Some (trunc ty (xr (g s) (rn d)))"
    "\<And>s r. r \<noteq> rn d \<Longrightarrow> xr (g s) r = xr s r" "\<And>s. xm (g s) = xm s"
  shows "computes u P ty f (reg_u8 d) v"
proof -
  have "effect u f g" using assms(1,2) by simp
  then show ?thesis unfolding computes_def using assms(3-5) by blast
qed

declare trunc.simps(1) [simp del]

section \<open>Arithmetic and logic\<close>

definition at_type :: "Type \<Rightarrow> u32 \<Rightarrow> u64 \<Rightarrow> u64 option" where
  "at_type ty x y = (if ty = I32 then Some (ucast x) else if ty = I64 then Some y else None)"

lemma arith_vals:
  "op_val (OArith Add) ty [a, b] cs = at_type ty (ucast a + ucast b) (a + b)"
  "op_val (OArith Sub) ty [a, b] cs = at_type ty (ucast a - ucast b) (a - b)"
  "op_val (OArith Mul) ty [a, b] cs = at_type ty (ucast a * ucast b) (a * b)"
  "op_val (OArith Neg) ty [a] cs = at_type ty (- ucast a) (- a)"
  "op_val (OLogic And) ty [a, b] cs = at_type ty (ucast a AND ucast b) (a AND b)"
  "op_val (OLogic Or) ty [a, b] cs = at_type ty (ucast a OR ucast b) (a OR b)"
  "op_val (OLogic Xor) ty [a, b] cs = at_type ty (ucast a XOR ucast b) (a XOR b)"
  "op_val (OLogic AndC) ty [a, b] cs = at_type ty (ucast a AND NOT (ucast b)) (a AND NOT b)"
  "op_val (OLogic NotI) ty [a] cs = at_type ty (NOT (ucast a)) (NOT a)"
  by (simp_all add: op_val_def pure_val_def at_width_def int_val_def at_type_def)

lemma shift_vals:
  "op_val (OShift x) ty [a, b] cs =
     at_type ty (shifter (shift_op x) (unat (ucast b :: u32) mod 32) (ucast a)) (shifter (shift_op x) (unat b mod 64) a)"
  by (cases x) (simp_all add: op_val_def pure_val_def at_width_def int_val_def at_type_def shift_val_def)

definition type_ok :: "Type \<Rightarrow> bool \<Rightarrow> bool" where
  "type_ok ty w \<longleftrightarrow> (ty = I32 \<or> ty = I64) \<and> (w \<longleftrightarrow> ty = I64)"

lemma type_ok_simps [simp]: "type_ok ty True \<longleftrightarrow> ty = I64" "type_ok ty False \<longleftrightarrow> ty = I32"
  by (auto simp: type_ok_def)

lemmas val_simps = arith_vals shift_vals at_type_def alu_at_def out_arith_def out_logic_def out_shift_def out_destructive_def fun_eq_iff

lemma computes_add:
  assumes "type_ok ty w" "b \<noteq> Rsp"
  shows "computes u P I64 (out_arith Add w [reg_u8 d] [reg_u8 a, reg_u8 b]) (reg_u8 d)
    (\<lambda>s. op_val (OArith Add) ty [xr s (rn a), xr s (rn b)] cs)"
proof -
  consider "d = a" | "d \<noteq> a" "d = b" | "d \<noteq> a" "d \<noteq> b" by blast
  then show ?thesis
  proof cases
    case 1
    then show ?thesis using assms(1)
      by (cases w; intro computes_code [OF code_arith_rr [of u XAdd w d b]]; simp add: val_simps)
  next
    case 2
    have swap: "(\<lambda>s. op_val (OArith Add) ty [xr s (rn a), xr s (rn b)] cs) = (\<lambda>s. op_val (OArith Add) ty [xr s (rn b), xr s (rn a)] cs)"
      by (simp add: arith_vals add.commute)
    show ?thesis unfolding swap using 2 assms(1)
      by (cases w; intro computes_code [OF code_arith_rr [of u XAdd w d a]]; simp add: val_simps)
  next
    case 3
    then show ?thesis using assms
      by (cases w; intro computes_code [OF code_lea_sib [of b u w d a]]; simp add: val_simps)
  qed
qed

lemma computes_arith:
  assumes "type_ok ty w"
  shows "computes u P I64 (out_arith Sub w [reg_u8 d] [reg_u8 d, reg_u8 b]) (reg_u8 d)
      (\<lambda>s. op_val (OArith Sub) ty [xr s (rn d), xr s (rn b)] cs)"
    "computes u P I64 (out_arith Mul w [reg_u8 d] [reg_u8 d, reg_u8 b]) (reg_u8 d)
      (\<lambda>s. op_val (OArith Mul) ty [xr s (rn d), xr s (rn b)] cs)"
    "computes u P I64 (out_arith Neg w [reg_u8 d] [reg_u8 d]) (reg_u8 d)
      (\<lambda>s. op_val (OArith Neg) ty [xr s (rn d)] cs)"
  subgoal using assms by (cases w; intro computes_code [OF code_arith_rr [of u XSub w d b]]; simp add: val_simps)
  subgoal using assms by (cases w; intro computes_code [OF code_imul_rr [of u w d b]]; simp add: val_simps)
  subgoal using assms by (cases w; intro computes_code [OF code_neg [of u w d]]; simp add: val_simps)
  done

lemma computes_logic:
  assumes "type_ok ty w"
  shows "computes u P I64 (out_logic And w [reg_u8 d] [reg_u8 d, reg_u8 b]) (reg_u8 d)
      (\<lambda>s. op_val (OLogic And) ty [xr s (rn d), xr s (rn b)] cs)"
    "computes u P I64 (out_logic Or w [reg_u8 d] [reg_u8 d, reg_u8 b]) (reg_u8 d)
      (\<lambda>s. op_val (OLogic Or) ty [xr s (rn d), xr s (rn b)] cs)"
    "computes u P I64 (out_logic Xor w [reg_u8 d] [reg_u8 d, reg_u8 b]) (reg_u8 d)
      (\<lambda>s. op_val (OLogic Xor) ty [xr s (rn d), xr s (rn b)] cs)"
    "computes u P I64 (out_logic AndC w [reg_u8 d] [reg_u8 a, reg_u8 b]) (reg_u8 d)
      (\<lambda>s. op_val (OLogic AndC) ty [xr s (rn a), xr s (rn b)] cs)"
    "computes u P I64 (out_logic NotI w [reg_u8 d] [reg_u8 d]) (reg_u8 d)
      (\<lambda>s. op_val (OLogic NotI) ty [xr s (rn d)] cs)"
  subgoal using assms by (cases w; intro computes_code [OF code_arith_rr [of u XAnd w d b]]; simp add: val_simps)
  subgoal using assms by (cases w; intro computes_code [OF code_arith_rr [of u XOr w d b]]; simp add: val_simps)
  subgoal using assms by (cases w; intro computes_code [OF code_arith_rr [of u XXor w d b]]; simp add: val_simps)
  subgoal using assms by (cases w; intro computes_code [OF code_andn [of u w d b a]]; simp add: val_simps and.commute)
  subgoal using assms by (cases w; intro computes_code [OF code_not [of u w d]]; simp add: val_simps)
  done

lemma cl_count: "unat (ucast (v :: u64) :: u8) mod 64 = unat v mod 64" "unat (ucast (v :: u64) :: u8) mod 32 = unat (ucast v :: u32) mod 32"
  by (simp_all add: unsigned_ucast_eq take_bit_nat_def mod_mod_cancel)

lemma computes_shift:
  assumes "type_ok ty w"
  shows "computes u P I64 (out_shift x w [reg_u8 d] [reg_u8 d, reg_u8 Rcx]) (reg_u8 d)
      (\<lambda>s. op_val (OShift x) ty [xr s (rn d), xr s (rn Rcx)] cs)"
  using assms
  by (cases w; intro computes_code [OF code_shift_cl [of u "shift_op x" w d]]; simp add: val_simps shift_at_def cl_count)

section \<open>Comparisons\<close>

lemma cond_from_u32_iff: "cond_from_u32 v = Some c \<longleftrightarrow> v = cond_as_u32 c"
  by (cases c) (auto simp: cond_from_u32_def)

definition compare_flags :: "Cond \<Rightarrow> bool \<Rightarrow> u64 \<Rightarrow> u64 \<Rightarrow> x86_flags" where
  "compare_flags c w a b =
     (if w then if cond_is_tst c then test_flags a b else cmp_flags a b
      else if cond_is_tst c then test_flags (ucast a :: u32) (ucast b) else cmp_flags (ucast a :: u32) (ucast b))"

lemma code_compare: "effect u (out_compare c w a b) (\<lambda>s. s\<lparr>xf := compare_flags c w (xr s (rn a)) (xr s (rn b))\<rparr>)"
proof (cases "cond_is_tst c")
  case True
  then have "out_compare c w a b = emit_test_rr w a b" by (simp add: out_compare_def fun_eq_iff)
  then show ?thesis using code_test_rr [of u w a b] True by (simp add: compare_flags_def cong: if_cong)
next
  case False
  then have "out_compare c w a b = emit_arith_rr XCmp w a b" by (simp add: out_compare_def fun_eq_iff)
  then show ?thesis using code_arith_rr [of u XCmp w a b] False by (cases w) (simp_all add: compare_flags_def alu_at_def)
qed

lemma compare_flags_hold:
  "type_ok ty w \<Longrightarrow> c \<noteq> Always \<Longrightarrow> c \<noteq> Never \<Longrightarrow>
     x86_holds (from_tcg c) (compare_flags c w a b) \<longleftrightarrow> cond_at ty c a b"
  using cond_code_holds [of c a b] cond_code_holds [of c "ucast a :: u32" "ucast b"]
  by (cases w) (auto simp: compare_flags_def cond_at_def)

lemma code_eq: "effect u f g \<Longrightarrow> g = g' \<Longrightarrow> effect u f g'"
  by simp

lemma low_byte_bool: "take_bit 8 ((x AND NOT (mask 8)) OR of_bool q) = (of_bool q :: u64)"
  by (rule bit_word_eqI) (auto simp: bit_simps)

lemma code_set_bool: "effect u (\<lambda>b. emit_setcc k d b \<bind> emit_movzx (OPC_MOVZBL OR P_REXB_RM) d d)
    (\<lambda>s. put (rn d) (of_bool (x86_holds k (xf s))) s)"
  by (rule code_eq [OF code_seq [OF code_setcc code_movzx8]])
    (simp only: comp_def put_simps fun_upd_same low_byte_bool, simp add: put_def)

lemma code_setcond:
  "effect u (\<lambda>b. out_compare c w a s2 b \<bind> (\<lambda>b. emit_setcc (from_tcg c) d b \<bind> emit_movzx (OPC_MOVZBL OR P_REXB_RM) d d))
     (\<lambda>s. put (rn d) (of_bool (x86_holds (from_tcg c) (compare_flags c w (xr s (rn a)) (xr s (rn s2)))))
            (s\<lparr>xf := compare_flags c w (xr s (rn a)) (xr s (rn s2))\<rparr>))"
  by (rule code_eq [OF code_seq [OF code_compare code_set_bool]]) (simp add: comp_def)

lemma computes_setcond:
  assumes "type_ok ty w" "c \<noteq> Always" "c \<noteq> Never"
  shows "computes u P I64 (out_cond SetCond w [reg_u8 d] [reg_u8 a, reg_u8 b] [cond_as_u32 c]) (reg_u8 d)
      (\<lambda>s. op_val (OMov SetCond) ty [xr s (rn a), xr s (rn b)] [cond_as_u32 c])"
proof -
  have "cond_from_u32 (cond_as_u32 c) = Some c" by (simp add: cond_from_u32_iff)
  then show ?thesis using assms
    by (intro computes_code [OF code_setcond [of u c w a b d]])
      (simp_all add: out_cond_def fun_eq_iff op_val_def cond_val_def compare_flags_hold)
qed

lemma computes_negsetcond:
  assumes "type_ok ty w" "c \<noteq> Always" "c \<noteq> Never"
  shows "computes u P I64 (out_cond NegSetCond w [reg_u8 d] [reg_u8 a, reg_u8 b] [cond_as_u32 c]) (reg_u8 d)
      (\<lambda>s. op_val (OMov NegSetCond) ty [xr s (rn a), xr s (rn b)] [cond_as_u32 c])"
proof -
  have c: "cond_from_u32 (cond_as_u32 c) = Some c" by (simp add: cond_from_u32_iff)
  have bind: "(out_compare c w a b x \<bind> (\<lambda>b. emit_setcc (from_tcg c) d b \<bind> (\<lambda>b. emit_movzx (OPC_MOVZBL OR P_REXB_RM) d d b \<bind> emit_neg w d))) =
     ((out_compare c w a b x \<bind> (\<lambda>b. emit_setcc (from_tcg c) d b \<bind> emit_movzx (OPC_MOVZBL OR P_REXB_RM) d d)) \<bind> emit_neg w d)" for x
    by simp
  show ?thesis using assms
    by (cases w; intro computes_code [OF code_seq [OF code_setcond [of u c w a b d] code_neg [of u w d]]])
      (simp_all add: out_cond_def c bind fun_eq_iff op_val_def cond_val_def compare_flags_hold trunc_I32 ucast_arith32)
qed

lemma computes_movcond:
  assumes "type_ok ty w" "c \<noteq> Always" "c \<noteq> Never"
  shows "computes u P I64 (out_cond MovCond w [reg_u8 d] [reg_u8 a, reg_u8 b, reg_u8 d, reg_u8 v2] [cond_as_u32 c]) (reg_u8 d)
      (\<lambda>s. op_val (OMov MovCond) ty [xr s (rn a), xr s (rn b), xr s (rn d), xr s (rn v2)] [cond_as_u32 c])"
proof -
  have c: "cond_from_u32 (cond_as_u32 c) = Some c" by (simp add: cond_from_u32_iff)
  show ?thesis using assms
    by (cases w; intro computes_code [OF code_seq [OF code_compare [of u c w a b] code_cmovcc [of u "x86cond_invert (from_tcg c)" w d v2]]])
      (auto simp add: out_cond_def c fun_eq_iff op_val_def cond_val_def compare_flags_hold cond_code_invert trunc_I32)
qed

section \<open>Conversions\<close>

lemma code_zext: "effect u (emit_if (d \<noteq> a) (emit_mov_rr False d a))
    (\<lambda>s. if d = a then s else put (rn d) (ucast (ucast (xr s (rn a)) :: u32)) s)"
proof (cases "d = a")
  case True
  then have "emit_if (d \<noteq> a) (emit_mov_rr False d a) = Some" by (simp add: emit_if_def fun_eq_iff)
  then show ?thesis using True code_skip by simp
next
  case False
  then have "emit_if (d \<noteq> a) (emit_mov_rr False d a) = emit_mov_rr False d a" by (simp add: emit_if_def fun_eq_iff)
  then show ?thesis using False code_mov_rr [of u False d a] by simp
qed

lemma computes_conv:
  "computes u P I64 (out_conv ExtI32I64 [reg_u8 d] [reg_u8 a]) (reg_u8 d) (\<lambda>s. op_val (OConv ExtI32I64) ty [xr s (rn a)] cs)"
  "computes u P I32 (out_conv ExtrlI64I32 [reg_u8 d] [reg_u8 a]) (reg_u8 d) (\<lambda>s. op_val (OConv ExtrlI64I32) ty [xr s (rn a)] cs)"
  "computes u P I64 (out_conv ExtrhI64I32 [reg_u8 d] [reg_u8 d]) (reg_u8 d) (\<lambda>s. op_val (OConv ExtrhI64I32) ty [xr s (rn d)] cs)"
  "(\<And>s. P s \<Longrightarrow> d = a \<longrightarrow> xr s (rn a) \<le> 0xFFFFFFFF) \<Longrightarrow>
     computes u P I64 (out_conv ExtUI32I64 [reg_u8 d] [reg_u8 a]) (reg_u8 d) (\<lambda>s. op_val (OConv ExtUI32I64) ty [xr s (rn a)] cs)"
  subgoal by (intro computes_code [OF code_movslq [of u d a]]; simp add: out_conv_def out_unary_def fun_eq_iff op_val_def pure_val_def)
  subgoal by (intro computes_code [OF code_zext [of u d a]]; simp add: out_conv_def out_unary_def fun_eq_iff op_val_def pure_val_def trunc_I32)
  subgoal by (intro computes_code [OF code_shift_ri [of u XShr True d 32]]; simp add: out_conv_def fun_eq_iff op_val_def pure_val_def shift_at_def)
  subgoal by (intro computes_code [OF code_zext [of u d a]]; simp add: out_conv_def out_unary_def fun_eq_iff op_val_def pure_val_def ucast_small)
  done

section \<open>Registers from the constraint table\<close>

text \<open>The shapes of the constraints, as what they say about the registers of an op.\<close>

lemma regs_of_mono: "raw q AND NOT (raw r) = 0 \<Longrightarrow> regs_of q \<subseteq> regs_of r"
proof
  fix g assume z: "raw q AND NOT (raw r) = 0" and g: "g \<in> regs_of q"
  have "\<not> bit (raw q AND NOT (raw r)) (unat g)" by (simp add: z)
  then show "g \<in> regs_of r" using g by (auto simp: regs_of_def bit_and_iff bit_not_iff word_less_nat_alt)
qed

lemma alloc_regs:
  assumes "\<And>i. i < length xs \<Longrightarrow> xs ! i \<in> regs_of ALLOCATABLE_REGS"
  obtains ds where "xs = map reg_u8 ds" "Rsp \<notin> set ds"
proof -
  have "\<exists>ds. xs = map reg_u8 ds \<and> Rsp \<notin> set ds" using assms
  proof (induction xs)
    case (Cons x xs)
    have "x \<in> regs_of ALLOCATABLE_REGS" using Cons.prems [of 0] by simp
    then obtain d where d: "x = reg_u8 d" "d \<noteq> Rsp" by (rule alloc_reg)
    have "\<exists>ds. xs = map reg_u8 ds \<and> Rsp \<notin> set ds"
      using Cons.IH Cons.prems [of "Suc i" for i] by (metis Suc_less_eq length_Cons nth_Cons_Suc Cons.prems)
    then obtain ds where "xs = map reg_u8 ds" "Rsp \<notin> set ds" by blast
    with d show ?case by (intro exI [of _ "d # ds"]) simp
  qed simp
  then show ?thesis using that by blast
qed

lemma fit_regs:
  assumes fit: "regs_fit n m ct os is" and wf: "constraint_wf n m ct"
  obtains ds rs where "os = map reg_u8 ds" "is = map reg_u8 rs" "length ds = n" "length rs = m" "Rsp \<notin> set rs"
proof -
  have sub: "regs_of (ac_regs (ct ! i)) \<subseteq> regs_of ALLOCATABLE_REGS" if "i < n + m" for i
    using wf that by (intro regs_of_mono) (simp add: constraint_wf_def)
  have "os ! i \<in> regs_of ALLOCATABLE_REGS" if "i < length os" for i
    using fit sub [of i] that by (auto simp: regs_fit_def)
  then obtain ds where "os = map reg_u8 ds" "Rsp \<notin> set ds" by (rule alloc_regs)
  moreover have "is ! i \<in> regs_of ALLOCATABLE_REGS" if "i < length is" for i
    using fit sub [of "n + i"] that by (auto simp: regs_fit_def)
  then obtain rs where "is = map reg_u8 rs" "Rsp \<notin> set rs" by (rule alloc_regs)
  ultimately show ?thesis using that fit by (auto simp: regs_fit_def)
qed

lemma length_small:
  "length xs = Suc 0 \<longleftrightarrow> (\<exists>a. xs = [a])" "length xs = 2 \<longleftrightarrow> (\<exists>a b. xs = [a, b])"
  "length xs = 4 \<longleftrightarrow> (\<exists>a b c d. xs = [a, b, c, d])"
  by (auto simp: length_Suc_conv eval_nat_numeral)

lemmas alias_simps = regs_fit_def OC_EMPTY_eq builder_defs descriptor_defs length_small

lemma fit_plain:
  "regs_fit 1 1 (o1_i1 R_ALL R_ALL) os is \<Longrightarrow> \<exists>d a. os = [reg_u8 d] \<and> is = [reg_u8 a]"
  "regs_fit 1 2 (o1_i2 R_ALL R_ALL R_ALL) os is \<Longrightarrow> \<exists>d a b. os = [reg_u8 d] \<and> is = [reg_u8 a, reg_u8 b] \<and> b \<noteq> Rsp"
  "regs_fit 1 2 (n1_i2 R_ALL R_ALL R_ALL) os is \<Longrightarrow> \<exists>d a b. os = [reg_u8 d] \<and> is = [reg_u8 a, reg_u8 b]"
  subgoal by (erule fit_regs [OF _ builders_wf(1)]) (auto simp: length_small)
  subgoal by (erule fit_regs [OF _ builders_wf(3)]) (auto simp: length_small)
  subgoal by (erule fit_regs [OF _ builders_wf(6)]) (auto simp: length_small)
  done

lemma fit_alias:
  "regs_fit 1 1 (o1_i1_alias R_ALL R_ALL) os is \<Longrightarrow> \<exists>d. os = [reg_u8 d] \<and> is = [reg_u8 d]"
  "regs_fit 1 2 (o1_i2_alias R_ALL R_ALL R_ALL) os is \<Longrightarrow> \<exists>d b. os = [reg_u8 d] \<and> is = [reg_u8 d, reg_u8 b]"
  "regs_fit 1 4 (o1_i4_alias2 R_ALL R_ALL R_ALL R_ALL R_ALL) os is \<Longrightarrow>
     \<exists>d a b v2. os = [reg_u8 d] \<and> is = [reg_u8 a, reg_u8 b, reg_u8 d, reg_u8 v2]"
  subgoal premises p
    by (rule fit_regs [OF p builders_wf(2)]) (use p in \<open>auto simp: alias_simps\<close>)
  subgoal premises p
    by (rule fit_regs [OF p builders_wf(4)]) (use p in \<open>auto simp: alias_simps\<close>)
  subgoal premises p
    by (rule fit_regs [OF p builders_wf(11)]) (use p in \<open>auto simp: alias_simps\<close>)
  done

lemma regs_of_single: "reg < 64 \<Longrightarrow> regs_of (single reg) = {reg}"
  by (auto simp: regs_of_def single_def from_raw_def bit_simps word_unat_eq_iff word_less_nat_alt)

lemma fit_shift:
  assumes p: "regs_fit 1 2 (o1_i2_alias_fixed R_NO_RCX R_NO_RCX (reg_u8 Rcx)) os is"
  shows "\<exists>d. os = [reg_u8 d] \<and> is = [reg_u8 d, reg_u8 Rcx]"
proof -
  obtain d a c where r: "os = [reg_u8 d]" "is = [reg_u8 a, reg_u8 c]"
    by (rule fit_regs [OF p builders_wf(5)]) (auto simp: length_small)
  have "d = a" using p r by (auto simp: regs_fit_def o1_i2_alias_fixed_def OC_EMPTY_eq out_alias_def)
  moreover have "reg_u8 c \<in> regs_of (single (reg_u8 Rcx))"
    using p r by (auto simp: regs_fit_def o1_i2_alias_fixed_def OC_EMPTY_eq fixed_def dest!: spec [where x = 1])
  then have "reg_u8 c = reg_u8 Rcx" by (simp add: regs_of_single)
  ultimately show ?thesis using r by simp
qed

section \<open>The op as a whole\<close>

definition HOST_OPS :: "Opcode list" where
  "HOST_OPS = [OArith Add, OArith Sub, OArith Mul, OArith Neg, OLogic And, OLogic Or, OLogic Xor, OLogic NotI, OLogic AndC,
     OShift Shl, OShift Shr, OShift Sar, OShift RotL, OShift RotR, OMov SetCond, OMov NegSetCond, OMov MovCond,
     OConv ExtI32I64, OConv ExtUI32I64, OConv ExtrlI64I32, OConv ExtrhI64I32]"

text \<open>The constant arguments the op takes: none, or a condition that is not constant.\<close>

definition cargs_ok :: "Opcode \<Rightarrow> u32 list \<Rightarrow> bool" where
  "cargs_ok opc cs \<longleftrightarrow>
     (if opc \<in> set [OMov SetCond, OMov NegSetCond, OMov MovCond]
      then length cs = 1 \<and> cs ! 0 \<in> cond_as_u32 ` (set CONDS - {Always, Never}) else cs = [])"

text \<open>
  Widening in place emits nothing: it relies on the upper half of a register with a 32-bit value
  being zero.
\<close>

definition zero_upper :: "Opcode \<Rightarrow> u8 list \<Rightarrow> u8 list \<Rightarrow> x86 \<Rightarrow> bool" where
  "zero_upper opc oregs iregs s \<longleftrightarrow>
     (opc = OConv ExtUI32I64 \<and> oregs ! 0 = iregs ! 0 \<longrightarrow> xr s (unat (iregs ! 0)) \<le> 0xFFFFFFFF)"

definition op_code :: "X86_64CodeGen \<Rightarrow> Context \<Rightarrow> Opcode \<Rightarrow> bool \<Rightarrow> u8 list \<Rightarrow> u8 list \<Rightarrow> u32 list \<Rightarrow> code_emitter" where
  "op_code g c opc w oregs iregs cs =
     (case opc of OArith x \<Rightarrow> out_arith x w oregs iregs | OLogic x \<Rightarrow> out_logic x w oregs iregs
      | OShift x \<Rightarrow> out_shift x w oregs iregs | OMov x \<Rightarrow> out_cond x w oregs iregs cs | OConv x \<Rightarrow> out_conv x oregs iregs
      | _ \<Rightarrow> Map.empty)"

lemma op_code_computes:
  assumes "opc \<in> set HOST_OPS" "type_ok ty w" "cargs_ok opc cs"
    "regs_fit (nb_oargs (def_of opc)) (nb_iargs (def_of opc)) (op_constraint opc) oregs iregs"
  shows "computes u (zero_upper opc oregs iregs) (result_type opc) (op_code g c opc w oregs iregs cs) (oregs ! 0)
    (\<lambda>s. op_val opc ty (map (\<lambda>r. xr s (unat r)) iregs) cs)"
proof -
  have cond: "\<exists>k. cs = [cond_as_u32 k] \<and> k \<noteq> Always \<and> k \<noteq> Never" if "opc \<in> set [OMov SetCond, OMov NegSetCond, OMov MovCond]"
    using assms(3) that by (auto simp: cargs_ok_def length_small)
  note shapes = fit_plain [unfolded One_nat_def] fit_alias [unfolded One_nat_def] fit_shift [unfolded One_nat_def reg_u8.simps]
  note goals = computes_add [OF assms(2)] computes_arith [OF assms(2)] computes_logic [OF assms(2)] computes_shift [OF assms(2), simplified]
    computes_setcond [OF assms(2)] computes_negsetcond [OF assms(2)] computes_movcond [OF assms(2)] computes_conv(1-3)
  show ?thesis
    using assms(1,4) cond
    by (auto simp: HOST_OPS_def op_constraint_def result_type_def op_code_def goals dest!: shapes intro!: computes_conv(4))
      (simp_all add: zero_upper_def)
qed

lemma code_runs:
  assumes "effect u f g"
  obtains bs where "\<And>b. cb_inv b \<Longrightarrow> f b = emit_bytes bs b" "\<And>s. x86_run u bs s (g s)"
proof -
  obtain bs where bs: "appends f bs" "\<And>s rest t. x86_run u rest (g s) t \<Longrightarrow> x86_run u (bs @ rest) s t"
    using assms unfolding effect_def by blast
  have "x86_run u bs s (g s)" for s using bs(2) [OF run_nil, of s] by simp
  with that bs(1) show ?thesis by (simp add: appends_def)
qed

lemma computes_runs:
  assumes "computes u P ty f d v"
  shows "\<exists>bs. appends f bs \<and> (\<forall>s. P s \<longrightarrow> (\<exists>s' x. v s = Some x \<and> x86_run u bs s s' \<and>
    trunc ty (xr s' (unat d)) = trunc ty x \<and> (\<forall>r. r \<noteq> unat d \<longrightarrow> xr s' r = xr s r) \<and> xm s' = xm s))"
proof -
  obtain g where c: "effect u f g" and g: "\<And>s. P s \<Longrightarrow> map_option (trunc ty) (v s) = Some (trunc ty (xr (g s) (unat d))) \<and>
        (\<forall>r. r \<noteq> unat d \<longrightarrow> xr (g s) r = xr s r) \<and> xm (g s) = xm s"
    using assms unfolding computes_def by blast
  obtain bs where bs: "\<And>b. cb_inv b \<Longrightarrow> f b = emit_bytes bs b" and run: "\<And>s. x86_run u bs s (g s)"
    using code_runs [OF c] by blast
  show ?thesis
  proof (intro exI [of _ bs] conjI allI impI)
    show "appends f bs" using bs by (simp add: appends_def)
  next
    fix s assume P: "P s"
    then obtain x where "v s = Some x" "trunc ty x = trunc ty (xr (g s) (unat d))" using g [of s] by auto
    then show "\<exists>s' x. v s = Some x \<and> x86_run u bs s s' \<and> trunc ty (xr s' (unat d)) = trunc ty x \<and>
        (\<forall>r. r \<noteq> unat d \<longrightarrow> xr s' r = xr s r) \<and> xm s' = xm s"
      using run g [OF P] by (intro exI [of _ "g s"] exI [of _ x]) simp
  qed
qed

section \<open>Guest memory accesses\<close>

text \<open>
  What a guest load reads, by its memory operation: so many bytes, in reverse order when the operation has
  the \<open>BSWAP\<close> bit, sign- or zero-extended; and what a guest store leaves in memory.
\<close>

definition access_bytes :: "MemOp \<Rightarrow> u8 list \<Rightarrow> u8 list" where
  "access_bytes m bs = (if memop_is_bswap m then rev bs else bs)"

definition guest_load :: "MemOp \<Rightarrow> u64 \<Rightarrow> (u64 \<Rightarrow> u8) \<Rightarrow> u64" where
  "guest_load m a bytes =
     (let n = unat (memop_size_bytes m); v = le_word (access_bytes m (map (\<lambda>i. bytes (a + of_nat i)) [0..<n]))
      in if \<not> memop_is_signed m then v
         else if n = 1 then scast (ucast v :: u8) else if n = 2 then scast (ucast v :: u16)
         else if n = 4 then scast (ucast v :: u32) else v)"

definition guest_store :: "MemOp \<Rightarrow> u64 \<Rightarrow> u64 \<Rightarrow> (u64 \<Rightarrow> u8) \<Rightarrow> (u64 \<Rightarrow> u8)" where
  "guest_store m a v bytes =
     (let n = unat (memop_size_bytes m)
      in (\<lambda>x. if unat (x - a) < n then access_bytes m (le_bytes n v) ! unat (x - a) else bytes x))"

text \<open>The order the generated code uses.\<close>

definition plain_load :: "MemOp \<Rightarrow> u64 \<Rightarrow> (u64 \<Rightarrow> u8) \<Rightarrow> u64" where
  "plain_load m a bytes =
     (let n = unat (memop_size_bytes m); v = read_mem n a bytes
      in if \<not> memop_is_signed m then v
         else if n = 1 then scast (ucast v :: u8) else if n = 2 then scast (ucast v :: u16)
         else if n = 4 then scast (ucast v :: u32) else v)"

lemma guest_plain:
  assumes "\<not> memop_is_bswap m"
  shows "guest_load m = plain_load m" "guest_store m a v bytes = write_mem (unat (memop_size_bytes m)) a v bytes"
  using assms by (auto simp: fun_eq_iff guest_load_def plain_load_def guest_store_def access_bytes_def read_mem_def write_mem_def Let_def)

lemma memop_sizes: "memop_size m = 0 \<or> memop_size m = 1 \<or> memop_size m = 2 \<or> memop_size m = 3"
proof -
  have "unat (memop_size m) \<le> 3"
    using word_and_le1 [of "memop_bits m" 3] by (simp add: memop_size_def word_le_nat_alt and.commute)
  then have "unat (memop_size m) \<in> {0, 1, 2, 3}" by auto
  then show ?thesis by (auto simp: word_unat_eq_iff)
qed

lemma guest_load_code:
  assumes "addr \<noteq> Rsp" "type_ok ty w"
  shows "\<exists>f. effect u (out_qemu_ld w (memop_bits m) d addr) (\<lambda>s. put (rn d) (f (xr s (rn R14) + xr s (rn addr)) (xm s)) s) \<and>
    (\<forall>a bytes. trunc ty (f a bytes) = trunc ty (plain_load m a bytes))"
proof -
  have *: "\<exists>f. effect u F (\<lambda>s. put (rn d) (f (xr s (rn R14) + xr s (rn addr)) (xm s)) s) \<and> (\<forall>a bytes. trunc ty (f a bytes) = trunc ty (plain_load m a bytes))"
    if "F = emit_modrm_sib opc d R14 addr 0 0" "loads u opc f" "\<And>a bytes. trunc ty (f a bytes) = trunc ty (plain_load m a bytes)" for F opc f
    using code_loads(2) [OF that(2) assms(1), of d R14] that(1,3) by auto
  note emits = out_qemu_ld_def emit_load_zx_sib_def emit_load_sx_sib_def emit_load_sib_def fun_eq_iff rexw_if_def
  consider (b) "memop_size m = 0" | (h) "memop_size m = 1" | (l) "memop_size m = 2" | (q) "memop_size m = 3"
    using memop_sizes [of m] by blast
  then show ?thesis
  proof cases
    case b
    show ?thesis
    proof (cases "memop_is_signed m")
      case True
      show ?thesis by (rule * [OF _ load_opcodes(4) [of u w]]) (use b True assms in \<open>auto simp: emits memop_defs plain_load_def trunc_I32\<close>)
    next
      case False
      show ?thesis by (rule * [OF _ load_opcodes(2)]) (use b False in \<open>auto simp: emits memop_defs plain_load_def trunc_I32\<close>)
    qed
  next
    case h
    show ?thesis
    proof (cases "memop_is_signed m")
      case True
      show ?thesis by (rule * [OF _ load_opcodes(5) [of u w]]) (use h True assms in \<open>auto simp: emits memop_defs plain_load_def trunc_I32\<close>)
    next
      case False
      show ?thesis by (rule * [OF _ load_opcodes(3)]) (use h False in \<open>auto simp: emits memop_defs plain_load_def trunc_I32\<close>)
    qed
  next
    case l
    show ?thesis
    proof (cases "memop_is_signed m")
      case True
      show ?thesis by (rule * [OF _ load_opcodes(6)]) (use l True in \<open>auto simp: emits memop_defs plain_load_def trunc_I32\<close>)
    next
      case False
      show ?thesis by (rule * [OF _ load_opcodes(1) [of u False]]) (use l False in \<open>auto simp: emits memop_defs plain_load_def trunc_I32\<close>)
    qed
  next
    case q
    show ?thesis by (rule * [OF _ load_opcodes(1) [of u True]]) (use q in \<open>auto simp: emits memop_defs plain_load_def trunc_I32 Let_def\<close>)
  qed
qed

lemma guest_store_code:
  assumes "addr \<noteq> Rsp"
  shows "effect u (out_qemu_st (memop_bits m) v addr)
    (\<lambda>s. s\<lparr>xm := write_mem (unat (memop_size_bytes m)) (xr s (rn R14) + xr s (rn addr)) (xr s (rn v)) (xm s)\<rparr>)"
proof -
  note emits = out_qemu_st_def emit_store_byte_sib_def emit_store_word_sib_def emit_store_sib_def fun_eq_iff
  have *: "effect u F (\<lambda>s. s\<lparr>xm := write_mem k (xr s (rn R14) + xr s (rn addr)) (xr s (rn v)) (xm s)\<rparr>)"
    if "F = emit_modrm_sib opc v R14 addr 0 0" "stores u opc n" "k = n" for F opc n k
    using code_stores(2) [OF that(2) assms, of v R14] that(1,3) by simp
  consider (b) "memop_size m = 0" | (h) "memop_size m = 1" | (l) "memop_size m = 2" | (q) "memop_size m = 3"
    using memop_sizes [of m] by blast
  then show ?thesis
  proof cases
    case b
    show ?thesis by (rule * [OF _ store_opcodes(3)]) (use b in \<open>auto simp: emits memop_defs\<close>)
  next
    case h
    show ?thesis by (rule * [OF _ store_opcodes(2)]) (use h in \<open>auto simp: emits memop_defs\<close>)
  next
    case l
    show ?thesis by (rule * [OF _ store_opcodes(1) [of u False]]) (use l in \<open>auto simp: emits memop_defs\<close>)
  next
    case q
    show ?thesis by (rule * [OF _ store_opcodes(1) [of u True]]) (use q in \<open>auto simp: emits memop_defs\<close>)
  qed
qed

lemma guest_load_out:
  assumes "o_type op = I32 \<or> o_type op = I64" "ucast mo = memop_bits m" "o_opc op = OGuest QemuLd"
    "regs_fit 1 1 (op_constraint (OGuest QemuLd)) oregs iregs"
  shows "\<exists>bs. (\<forall>b. cb_inv b \<longrightarrow> tcg_out_op g c op oregs iregs [mo] b = map_option (Pair g) (emit_bytes bs b)) \<and>
       (\<forall>s. \<exists>s'. x86_run u bs s s' \<and>
          trunc (o_type op) (xr s' (unat (oregs ! 0))) =
            trunc (o_type op) (plain_load m (xr s (rn R14) + xr s (unat (iregs ! 0))) (xm s)) \<and>
          (\<forall>r. r \<noteq> unat (oregs ! 0) \<longrightarrow> xr s' r = xr s r) \<and> xm s' = xm s)"
proof -
  from assms(4) have fit: "regs_fit 1 1 (o1_i1 R_ALL R_ALL) oregs iregs" by (simp add: op_constraint_def)
  obtain d a where r: "oregs = [reg_u8 d]" "iregs = [reg_u8 a]" "a \<noteq> Rsp"
    by (rule fit_regs [OF fit builders_wf(1)]) (auto simp: length_small)
  have "type_ok (o_type op) (o_type op = I64)" using assms(1) by (auto simp: type_ok_def)
  then obtain f where f: "effect u (out_qemu_ld (o_type op = I64) (memop_bits m) d a) (\<lambda>s. put (rn d) (f (xr s (rn R14) + xr s (rn a)) (xm s)) s)"
    "\<forall>x bytes. trunc (o_type op) (f x bytes) = trunc (o_type op) (plain_load m x bytes)"
    using guest_load_code [OF r(3)] by blast
  obtain bs where bs: "\<And>b. cb_inv b \<Longrightarrow> out_qemu_ld (o_type op = I64) (memop_bits m) d a b = emit_bytes bs b"
    "\<And>s. x86_run u bs s (put (rn d) (f (xr s (rn R14) + xr s (rn a)) (xm s)) s)" using code_runs [OF f(1)] by blast
  have "tcg_out_op g c op oregs iregs [mo] b = map_option (Pair g) (emit_bytes bs b)" if "cb_inv b" for b
    using bs(1) [OF that] assms(2,3) r by (cases "emit_bytes bs b") (simp_all add: tcg_out_op_def out_plain_def out_guest_mem_def)
  moreover have "\<exists>s'. x86_run u bs s s' \<and>
          trunc (o_type op) (xr s' (unat (oregs ! 0))) =
            trunc (o_type op) (plain_load m (xr s (rn R14) + xr s (unat (iregs ! 0))) (xm s)) \<and>
          (\<forall>r. r \<noteq> unat (oregs ! 0) \<longrightarrow> xr s' r = xr s r) \<and> xm s' = xm s" for s
    using bs(2) [of s] f(2) r by (intro exI [of _ "put (rn d) (f (xr s (rn R14) + xr s (rn a)) (xm s)) s"]) simp
  ultimately show ?thesis by blast
qed

lemma guest_store_out:
  assumes "ucast mo = memop_bits m" "o_opc op = OGuest QemuSt" "regs_fit 0 2 (op_constraint (OGuest QemuSt)) oregs iregs"
  shows "\<exists>bs. (\<forall>b. cb_inv b \<longrightarrow> tcg_out_op g c op oregs iregs [mo] b = map_option (Pair g) (emit_bytes bs b)) \<and>
       (\<forall>s. x86_run u bs s (s\<lparr>xm := write_mem (unat (memop_size_bytes m)) (xr s (rn R14) + xr s (unat (iregs ! 1)))
          (xr s (unat (iregs ! 0))) (xm s)\<rparr>))"
proof -
  from assms(3) have fit: "regs_fit 0 2 (o0_i2 R_ALL R_ALL) oregs iregs" by (simp add: op_constraint_def)
  obtain v a where r: "iregs = [reg_u8 v, reg_u8 a]" "a \<noteq> Rsp"
    by (rule fit_regs [OF fit builders_wf(7)]) (auto simp: length_small)
  let ?g = "\<lambda>s. s\<lparr>xm := write_mem (unat (memop_size_bytes m)) (xr s (rn R14) + xr s (rn a)) (xr s (rn v)) (xm s)\<rparr>"
  obtain bs where bs: "\<And>b. cb_inv b \<Longrightarrow> out_qemu_st (memop_bits m) v a b = emit_bytes bs b" "\<And>s. x86_run u bs s (?g s)"
    using code_runs [OF guest_store_code [OF r(2)]] by blast
  have "tcg_out_op g c op oregs iregs [mo] b = map_option (Pair g) (emit_bytes bs b)" if "cb_inv b" for b
    using bs(1) [OF that] assms(1,2) r by (cases "emit_bytes bs b") (simp_all add: tcg_out_op_def out_plain_def out_guest_mem_def)
  then show ?thesis using bs(2) r by (intro exI [of _ bs]) simp
qed

section \<open>Properties\<close>

text \<open>
  C1: The host code of an arithmetic, logic, shift, comparison, conditional-move or conversion op is
  correct. For registers that satisfy the op's constraint and at both widths, \<open>tcg_out_op\<close> appends
  a byte sequence (panicking only when it does not fit the buffer) that leaves the generator's state
  alone and, decoded and executed as x86-64 instructions from any state, puts the value the IR
  gives the op into the output register and changes no other register and no memory. Widening
  a 32-bit value in place emits nothing, so it needs the upper half of the register to be zero; the
  upper half of the result of \<open>extrl_i64_i32\<close> is not specified.
\<close>

theorem host_code_correct:
  assumes "o_opc op \<in> set HOST_OPS" "o_type op = I32 \<or> o_type op = I64" "cargs_ok (o_opc op) cs"
    "regs_fit (nb_oargs (def_of (o_opc op))) (nb_iargs (def_of (o_opc op))) (op_constraint (o_opc op)) oregs iregs"
  shows "\<exists>bs.
    (\<forall>b. cb_inv b \<longrightarrow> tcg_out_op g c op oregs iregs cs b = map_option (Pair g) (emit_bytes bs b)) \<and>
    (\<forall>s. zero_upper (o_opc op) oregs iregs s \<longrightarrow>
      (\<exists>s' v. op_val (o_opc op) (o_type op) (map (\<lambda>r. xr s (unat r)) iregs) cs = Some v \<and> x86_run u bs s s' \<and>
         trunc (result_type (o_opc op)) (xr s' (unat (oregs ! 0))) = trunc (result_type (o_opc op)) v \<and>
         (\<forall>r. r \<noteq> unat (oregs ! 0) \<longrightarrow> xr s' r = xr s r) \<and> xm s' = xm s))"
proof -
  have w: "type_ok (o_type op) (o_type op = I64)" using assms(2) by (auto simp: type_ok_def)
  have f: "out_plain g c op oregs iregs cs = op_code g c (o_opc op) (o_type op = I64) oregs iregs cs"
    using assms(1) by (auto simp: HOST_OPS_def out_plain_def op_code_def fun_eq_iff)
  have t: "tcg_out_op g c op oregs iregs cs b = map_option (Pair g) (out_plain g c op oregs iregs cs b)" for b
    using assms(1) by (cases "out_plain g c op oregs iregs cs b") (auto simp: HOST_OPS_def tcg_out_op_def)
  obtain bs where bs: "appends (out_plain g c op oregs iregs cs) bs"
    "\<forall>s. zero_upper (o_opc op) oregs iregs s \<longrightarrow>
      (\<exists>s' v. op_val (o_opc op) (o_type op) (map (\<lambda>r. xr s (unat r)) iregs) cs = Some v \<and> x86_run u bs s s' \<and>
         trunc (result_type (o_opc op)) (xr s' (unat (oregs ! 0))) = trunc (result_type (o_opc op)) v \<and>
         (\<forall>r. r \<noteq> unat (oregs ! 0) \<longrightarrow> xr s' r = xr s r) \<and> xm s' = xm s)"
    using computes_runs [OF op_code_computes [OF assms(1) w assms(3,4), of u g c]] unfolding f by blast
  have "\<forall>b. cb_inv b \<longrightarrow> tcg_out_op g c op oregs iregs cs b = map_option (Pair g) (emit_bytes bs b)"
    using bs(1) t unfolding appends_def by simp
  then show ?thesis using bs(2) by blast
qed

text \<open>
  C11: Guest memory accesses are correct. For every memory operation (size, signedness and alignment) without
  the byte-swap bit, which the code generator ignores, and both widths, the host code of a guest load reads exactly the operation's bytes at the guest base
  register plus the address register, extended as the operation says, into the output register and
  nothing else; the host code of a guest store writes exactly the operation's low bytes of the value
  there and changes no register.
\<close>

theorem guest_access_correct:
  assumes "o_type op = I32 \<or> o_type op = I64" "ucast mo = memop_bits m" "\<not> memop_is_bswap m"
  shows "(o_opc op = OGuest QemuLd \<and> regs_fit 1 1 (op_constraint (OGuest QemuLd)) oregs iregs \<longrightarrow>
     (\<exists>bs. (\<forall>b. cb_inv b \<longrightarrow> tcg_out_op g c op oregs iregs [mo] b = map_option (Pair g) (emit_bytes bs b)) \<and>
       (\<forall>s. \<exists>s'. x86_run u bs s s' \<and>
          trunc (o_type op) (xr s' (unat (oregs ! 0))) =
            trunc (o_type op) (guest_load m (xr s (rn R14) + xr s (unat (iregs ! 0))) (xm s)) \<and>
          (\<forall>r. r \<noteq> unat (oregs ! 0) \<longrightarrow> xr s' r = xr s r) \<and> xm s' = xm s))) \<and>
    (o_opc op = OGuest QemuSt \<and> regs_fit 0 2 (op_constraint (OGuest QemuSt)) oregs iregs \<longrightarrow>
     (\<exists>bs. (\<forall>b. cb_inv b \<longrightarrow> tcg_out_op g c op oregs iregs [mo] b = map_option (Pair g) (emit_bytes bs b)) \<and>
       (\<forall>s. x86_run u bs s (s\<lparr>xm := guest_store m (xr s (rn R14) + xr s (unat (iregs ! 1)))
          (xr s (unat (iregs ! 0))) (xm s)\<rparr>))))"
  unfolding guest_plain [OF assms(3)]
  using guest_load_out [OF assms(1,2), of oregs iregs g c u] guest_store_out [OF assms(2), of op oregs iregs g c u] by blast

definition host_demo :: x86 where
  "host_demo = \<lparr>xr = (\<lambda>r. if r = 0 then 5 else 7), xf = result_flags False False (0 :: u32), xm = (\<lambda>_. 0x80)\<rparr>"

lemma all_less_small: "(\<forall>i<Suc 0. P i) \<longleftrightarrow> P 0" "(\<forall>i<2. P i) \<longleftrightarrow> P 0 \<and> P (Suc 0)" for P :: "nat \<Rightarrow> bool"
  by (auto simp: less_Suc_eq numeral_2_eq_2)

lemma demo_fit:
  "regs_fit 1 2 (op_constraint (OArith Sub)) [0] [0, 1]" "regs_fit 1 1 (op_constraint (OGuest QemuLd)) [0] [1]"
  by (simp_all add: regs_fit_def op_constraint_def builder_defs OC_EMPTY_eq descriptor_defs regset_masks regs_of_def
      all_less_small)

theorem host_code_correct_witness:
  "\<exists>bs s'. tcg_out_op codegen_new context_new (op_new 0 (OArith Sub) I32) [0] [0, 1] [] \<lparr>cb_mem = replicate 16 0, cb_offset = 0\<rparr> =
       map_option (Pair codegen_new) (emit_bytes bs \<lparr>cb_mem = replicate 16 0, cb_offset = 0\<rparr>) \<and>
     x86_run (xf host_demo) bs host_demo s' \<and> xr s' 0 = 0xFFFFFFFE \<and> xr s' 1 = 7"
proof -
  let ?op = "op_new 0 (OArith Sub) I32" let ?b = "\<lparr>cb_mem = replicate 16 (0 :: u8), cb_offset = 0\<rparr>"
  have inv: "cb_inv ?b" by (simp add: cb_inv_def)
  have v: "op_val (OArith Sub) I32 [5, 7] [] = Some 0xFFFFFFFE" by (simp add: arith_vals at_type_def)
  have o: "o_opc ?op = OArith Sub" "o_type ?op = I32" by (simp_all add: op_new_def)
  obtain bs where bs: "\<forall>b. cb_inv b \<longrightarrow> tcg_out_op codegen_new context_new ?op [0] [0, 1] [] b = map_option (Pair codegen_new) (emit_bytes bs b)"
    "\<forall>s. \<exists>s' v. op_val (OArith Sub) I32 [xr s 0, xr s 1] [] = Some v \<and> x86_run (xf host_demo) bs s s' \<and>
        xr s' 0 = v \<and> (\<forall>r. r \<noteq> 0 \<longrightarrow> xr s' r = xr s r) \<and> xm s' = xm s"
    using host_code_correct [of ?op "[]" "[0]" "[0, 1]" codegen_new context_new "xf host_demo"] demo_fit(1) o
    by (auto simp: HOST_OPS_def cargs_ok_def zero_upper_def result_type_def)
  obtain s' where s': "x86_run (xf host_demo) bs host_demo s'" "xr s' 0 = 0xFFFFFFFE" "\<forall>r. r \<noteq> 0 \<longrightarrow> xr s' r = xr host_demo r"
    using spec [OF bs(2), of host_demo] v by (auto simp: host_demo_def)
  show ?thesis
    by (rule exI [of _ bs], rule exI [of _ s']) (use bs(1) inv s' in \<open>simp add: host_demo_def\<close>)
qed

theorem guest_access_correct_witness:
  "\<exists>bs s'. tcg_out_op codegen_new context_new (op_new 0 (OGuest QemuLd) I64) [0] [1] [4] \<lparr>cb_mem = replicate 16 0, cb_offset = 0\<rparr> =
       map_option (Pair codegen_new) (emit_bytes bs \<lparr>cb_mem = replicate 16 0, cb_offset = 0\<rparr>) \<and>
     x86_run (xf host_demo) bs host_demo s' \<and> xr s' 0 = 0xFFFFFFFFFFFFFF80"
proof -
  let ?op = "op_new 0 (OGuest QemuLd) I64" let ?b = "\<lparr>cb_mem = replicate 16 (0 :: u8), cb_offset = 0\<rparr>"
  have inv: "cb_inv ?b" by (simp add: cb_inv_def)
  have o: "o_opc ?op = OGuest QemuLd" "o_type ?op = I64" by (simp_all add: op_new_def)
  have plain: "\<not> memop_is_bswap (MemOp 4)" by (simp add: memop_defs)
  have v: "guest_load (MemOp 4) a (\<lambda>_. 0x80) = 0xFFFFFFFFFFFFFF80" for a
    by (simp add: guest_load_def access_bytes_def memop_defs le_word_def Let_def)
  obtain bs where bs: "\<forall>b. cb_inv b \<longrightarrow> tcg_out_op codegen_new context_new ?op [0] [1] [4] b = map_option (Pair codegen_new) (emit_bytes bs b)"
    "\<forall>s. \<exists>s'. x86_run (xf host_demo) bs s s' \<and> xr s' 0 = guest_load (MemOp 4) (xr s (rn R14) + xr s 1) (xm s) \<and>
        (\<forall>r. r \<noteq> 0 \<longrightarrow> xr s' r = xr s r) \<and> xm s' = xm s"
    using guest_access_correct [of ?op 4 "MemOp 4" "[0]" "[1]" codegen_new context_new "xf host_demo"] demo_fit(2) o plain
    by auto
  obtain s' where s': "x86_run (xf host_demo) bs host_demo s'" "xr s' 0 = 0xFFFFFFFFFFFFFF80"
    using spec [OF bs(2), of host_demo] v by (auto simp: host_demo_def)
  show ?thesis
    by (rule exI [of _ bs], rule exI [of _ s']) (use bs(1) inv s' in simp)
qed


text \<open>
  C30: The code of \<open>extract\<close> at bit 0, exactly. For every destination and source register and the three
  supported lengths the code puts the low \<open>len\<close> bits of the source, zero-extended, into the destination and
  changes nothing else, with one exception: the 8-bit form is \<open>movzx\<close> without the REX prefix that selects the low
  byte, so when the destination is below R8 and the source is RSP, RBP, RSI or RDI it reads the second byte of RAX,
  RCX, RDX or RBX.
\<close>

theorem extract_code_exact:
  assumes "o_opc op = OField Extract" "len = 8 \<or> len = 16 \<or> len = 32"
  shows "\<exists>bs. (\<forall>b. cb_inv b \<longrightarrow> tcg_out_op g c op [reg_u8 d] [reg_u8 r] [0, len] b = map_option (Pair g) (emit_bytes bs b)) \<and>
     (\<forall>s. \<exists>s'. x86_run u bs s s' \<and> (\<forall>q. q \<noteq> rn d \<longrightarrow> xr s' q = xr s q) \<and> xm s' = xm s \<and>
        xr s' (rn d) =
          (if len = 8 \<and> rn d < 8 \<and> 4 \<le> rn r \<and> rn r < 8 then take_bit 8 (drop_bit 8 (xr s (rn r - 4)))
           else take_bit (unat len) (xr s (rn r))))"
proof -
  let ?v = "\<lambda>s. if len = 8 \<and> rn d < 8 \<and> 4 \<le> rn r \<and> rn r < 8 then take_bit 8 (drop_bit 8 (xr s (rn r - 4)))
           else take_bit (unat len) (xr s (rn r))"
  let ?F = "\<lambda>b. if len = 8 then emit_movzx OPC_MOVZBL d r b else if len = 16 then emit_movzx OPC_MOVZWL d r b else emit_mov_rr False d r b"
  have "effect u ?F (\<lambda>s. put (rn d) (?v s) s)"
    using assms(2)
  proof (elim disjE)
    assume len: "len = 8"
    have "rex_of OPC_MOVZBL (reg_u8 d) (reg_u8 r) 0 = 0 \<longleftrightarrow> rn d < 8 \<and> rn r < 8"
      by (cases d; cases r) (simp_all add: rex_of_def rex_byte_def opc_defs word_le_nat_alt)
    then have "operand_val 1 (rex_of OPC_MOVZBL (reg_u8 d) (reg_u8 r) 0) s (RegOperand (rn r)) = ?v s" for s
      using len by (auto simp: byte_reg_def)
    then show ?thesis using code_movzx8_raw [of u d r] len by simp
  next
    assume "len = 16"
    then show ?thesis using code_movzx16 [of u d r] by simp
  next
    assume "len = 32"
    moreover have "ucast (ucast x :: u32) = take_bit 32 x" for x :: u64 by (rule bit_word_eqI) (auto simp: bit_simps)
    ultimately show ?thesis using code_mov_rr [of u False d r] by simp
  qed
  then obtain bs where bs: "\<And>b. cb_inv b \<Longrightarrow> ?F b = emit_bytes bs b" "\<And>s. x86_run u bs s (put (rn d) (?v s) s)" using code_runs by blast
  have "tcg_out_op g c op [reg_u8 d] [reg_u8 r] [0, len] b = map_option (Pair g) (emit_bytes bs b)" if "cb_inv b" for b
    using bs(1) [OF that] assms
    by (cases "emit_bytes bs b") (auto simp: tcg_out_op_def out_plain_def out_field_def simp del: reg_u8.simps split: if_splits)
  moreover have "\<exists>s'. x86_run u bs s s' \<and> (\<forall>q. q \<noteq> rn d \<longrightarrow> xr s' q = xr s q) \<and> xm s' = xm s \<and> xr s' (rn d) = ?v s" for s
    using bs(2) [of s] by (intro exI [of _ "put (rn d) (?v s) s"]) simp
  ultimately show ?thesis by blast
qed

theorem extract_code_exact_witness:
  "\<exists>bs s'. tcg_out_op codegen_new context_new (op_new 0 (OField Extract) I64) [reg_u8 Rax] [reg_u8 Rsi] [0, 8]
         \<lparr>cb_mem = replicate 16 0, cb_offset = 0\<rparr> =
       map_option (Pair codegen_new) (emit_bytes bs \<lparr>cb_mem = replicate 16 0, cb_offset = 0\<rparr>) \<and>
     x86_run (xf host_demo) bs host_demo s' \<and> xr s' (rn Rax) = 0 \<and> take_bit 8 (xr host_demo (rn Rsi)) = 7"
proof -
  have inv: "cb_inv \<lparr>cb_mem = replicate 16 (0 :: u8), cb_offset = 0\<rparr>" by (simp add: cb_inv_def)
  have o: "o_opc (op_new 0 (OField Extract) I64) = OField Extract" by (simp add: op_new_def)
  have "\<exists>bs. (\<forall>b. cb_inv b \<longrightarrow> tcg_out_op codegen_new context_new (op_new 0 (OField Extract) I64) [reg_u8 Rax] [reg_u8 Rsi] [0, 8] b =
        map_option (Pair codegen_new) (emit_bytes bs b)) \<and>
      (\<forall>s. \<exists>s'. x86_run (xf host_demo) bs s s' \<and> (\<forall>q. q \<noteq> rn Rax \<longrightarrow> xr s' q = xr s q) \<and> xm s' = xm s \<and>
        xr s' (rn Rax) = take_bit 8 (drop_bit 8 (xr s (rn Rdx))))"
    using extract_code_exact [OF o, of 8 codegen_new context_new Rax Rsi "xf host_demo"] by simp
  then obtain bs where bs: "\<forall>b. cb_inv b \<longrightarrow> tcg_out_op codegen_new context_new (op_new 0 (OField Extract) I64) [reg_u8 Rax] [reg_u8 Rsi] [0, 8] b =
        map_option (Pair codegen_new) (emit_bytes bs b)"
      "\<forall>s. \<exists>s'. x86_run (xf host_demo) bs s s' \<and> (\<forall>q. q \<noteq> rn Rax \<longrightarrow> xr s' q = xr s q) \<and> xm s' = xm s \<and>
        xr s' (rn Rax) = take_bit 8 (drop_bit 8 (xr s (rn Rdx)))"
    by (elim exE conjE) (rule that)
  obtain s' where "x86_run (xf host_demo) bs host_demo s'" "xr s' (rn Rax) = 0" using spec [OF bs(2), of host_demo] by (auto simp: host_demo_def)
  then show ?thesis using bs(1) inv by (intro exI [of _ bs] exI [of _ s']) (simp add: host_demo_def)
qed

end
