(* ===== verification/Frontend.thy ===== *)
theory Frontend
  imports IR_Builder TB
begin

text \<open>
  The generic translation framework (\<open>frontend/src/lib.rs\<close>) and the state of the RISC-V frontend
  (\<open>frontend/src/riscv/cpu.rs\<close>, \<open>ext.rs\<close>): CPU layout, extension configuration, disassembly
  context. A step that can panic returns \<open>None\<close>; \<open>emit\<close> runs a builder method, which cannot.
\<close>

section \<open>The translation loop\<close>

datatype DisasJumpType = DNext | TooMany | NoReturn

record DisasContextBase =
  pc_first :: u64
  pc_next :: u64
  is_jmp :: DisasJumpType
  num_insns :: u32
  b_max_insns :: u32

text \<open>The trait \<open>TranslatorOps\<close>: the operations of an architecture on its context and the IR.\<close>

record 'd TranslatorOps =
  init_disas_context :: "'d \<Rightarrow> Context \<Rightarrow> ('d \<times> Context) option"
  tb_start :: "'d \<Rightarrow> Context \<Rightarrow> ('d \<times> Context) option"
  insn_start :: "'d \<Rightarrow> Context \<Rightarrow> ('d \<times> Context) option"
  translate_insn :: "'d \<Rightarrow> Context \<Rightarrow> ('d \<times> Context) option"
  tb_stop :: "'d \<Rightarrow> Context \<Rightarrow> ('d \<times> Context) option"
  base :: "'d \<Rightarrow> DisasContextBase"
  base_mut :: "(DisasContextBase \<Rightarrow> DisasContextBase) \<Rightarrow> 'd \<Rightarrow> 'd"

text \<open>
  The loop proper: translate one instruction after the other until one ends the block or the limit
  is reached. It is a partial function: an architecture whose \<open>insn_start\<close> did not count would loop.
\<close>

partial_function (option) insn_loop :: "'d TranslatorOps \<Rightarrow> 'd \<Rightarrow> Context \<Rightarrow> ('d \<times> Context) option" where
  "insn_loop T d ir = do {
     (d, ir) \<leftarrow> insn_start T d ir;
     (d, ir) \<leftarrow> translate_insn T d ir;
     if is_jmp (base T d) \<noteq> DNext then Some (d, ir)
     else if num_insns (base T d) \<ge> b_max_insns (base T d)
     then Some (base_mut T (\<lambda>b. b\<lparr>is_jmp := TooMany\<rparr>) d, ir)
     else insn_loop T d ir }"

definition translator_loop :: "'d TranslatorOps \<Rightarrow> 'd \<Rightarrow> Context \<Rightarrow> ('d \<times> Context) option" where
  "translator_loop T d ir = do {
     (d, ir) \<leftarrow> init_disas_context T d ir;
     (d, ir) \<leftarrow> tb_start T d ir;
     (d, ir) \<leftarrow> insn_loop T d ir;
     tb_stop T d ir }"

definition emit :: "(Context, 'a) state \<Rightarrow> Context \<Rightarrow> ('a \<times> Context) option" where
  "emit m ir = Some (run_state m ir)"

section \<open>The RISC-V CPU\<close>

definition NUM_GPRS :: nat where "NUM_GPRS = 32"
definition NUM_FPRS :: nat where "NUM_FPRS = 32"

definition gpr_offset :: "nat \<Rightarrow> i64" where
  "gpr_offset i = of_nat (i * 8)"

definition fpr_offset :: "nat \<Rightarrow> i64" where
  "fpr_offset i = of_nat ((NUM_GPRS + i) * 8)"

definition PC_OFFSET :: i64 where "PC_OFFSET = of_nat ((NUM_GPRS + NUM_FPRS) * 8)"
definition GUEST_BASE_OFFSET :: i64 where "GUEST_BASE_OFFSET = PC_OFFSET + 8"
definition LOAD_RES_OFFSET :: i64 where "LOAD_RES_OFFSET = GUEST_BASE_OFFSET + 8"
definition LOAD_VAL_OFFSET :: i64 where "LOAD_VAL_OFFSET = LOAD_RES_OFFSET + 8"
definition FFLAGS_OFFSET :: i64 where "FFLAGS_OFFSET = LOAD_VAL_OFFSET + 8"
definition FRM_OFFSET :: i64 where "FRM_OFFSET = FFLAGS_OFFSET + 8"
definition USTATUS_OFFSET :: i64 where "USTATUS_OFFSET = FRM_OFFSET + 8"
definition UIE_OFFSET :: i64 where "UIE_OFFSET = USTATUS_OFFSET + 8"
definition UTVEC_OFFSET :: i64 where "UTVEC_OFFSET = UIE_OFFSET + 8"
definition USCRATCH_OFFSET :: i64 where "USCRATCH_OFFSET = UTVEC_OFFSET + 8"
definition UEPC_OFFSET :: i64 where "UEPC_OFFSET = USCRATCH_OFFSET + 8"
definition UCAUSE_OFFSET :: i64 where "UCAUSE_OFFSET = UEPC_OFFSET + 8"
definition UTVAL_OFFSET :: i64 where "UTVAL_OFFSET = UCAUSE_OFFSET + 8"
definition UIP_OFFSET :: i64 where "UIP_OFFSET = UTVAL_OFFSET + 8"

definition USTATUS_FS_MASK :: u64 where "USTATUS_FS_MASK = 0x6000"
definition USTATUS_FS_DIRTY :: u64 where "USTATUS_FS_DIRTY = 0x6000"

record RiscvCpu =
  c_gpr :: "u64 list"
  c_fpr :: "u64 list"
  c_pc :: u64
  c_guest_base :: u64
  c_load_res :: u64
  c_load_val :: u64
  c_fflags :: u64
  c_frm :: u64
  c_ustatus :: u64
  c_uie :: u64
  c_utvec :: u64
  c_uscratch :: u64
  c_uepc :: u64
  c_ucause :: u64
  c_utval :: u64
  c_uip :: u64

definition cpu_new :: RiscvCpu where
  "cpu_new = \<lparr>c_gpr = replicate NUM_GPRS 0, c_fpr = replicate NUM_FPRS 0, c_pc = 0, c_guest_base = 0,
     c_load_res = - 1, c_load_val = 0, c_fflags = 0, c_frm = 0, c_ustatus = USTATUS_FS_DIRTY, c_uie = 0,
     c_utvec = 0, c_uscratch = 0, c_uepc = 0, c_ucause = 0, c_utval = 0, c_uip = 0\<rparr>"

section \<open>Extensions\<close>

datatype MisaExt = MisaExt (misa_bits: u32)

definition MISA_EMPTY :: MisaExt where "MISA_EMPTY = MisaExt 0"
definition MISA_I :: MisaExt where "MISA_I = MisaExt (push_bit 8 1)"
definition MISA_M :: MisaExt where "MISA_M = MisaExt (push_bit 12 1)"
definition MISA_A :: MisaExt where "MISA_A = MisaExt (push_bit 0 1)"
definition MISA_F :: MisaExt where "MISA_F = MisaExt (push_bit 5 1)"
definition MISA_D :: MisaExt where "MISA_D = MisaExt (push_bit 3 1)"
definition MISA_C :: MisaExt where "MISA_C = MisaExt (push_bit 2 1)"

definition MISA_G :: MisaExt where
  "MISA_G = MisaExt (misa_bits MISA_I OR misa_bits MISA_M OR misa_bits MISA_A OR misa_bits MISA_F OR misa_bits MISA_D)"

definition from_bits_truncate :: "u32 \<Rightarrow> MisaExt" where
  "from_bits_truncate bits = MisaExt (bits AND (push_bit 26 1 - 1))"

definition misa_contains :: "MisaExt \<Rightarrow> MisaExt \<Rightarrow> bool" where
  "misa_contains s e \<longleftrightarrow> misa_bits s AND misa_bits e = misa_bits e"

definition misa_union :: "MisaExt \<Rightarrow> MisaExt \<Rightarrow> MisaExt" where
  "misa_union s e = MisaExt (misa_bits s OR misa_bits e)"

record RiscvCfg =
  misa :: MisaExt
  ext_zicsr :: bool
  ext_zifencei :: bool
  ext_zba :: bool
  ext_zbb :: bool
  ext_zbc :: bool
  ext_zbs :: bool

definition RV64IMAFDC :: RiscvCfg where
  "RV64IMAFDC = \<lparr>misa = from_bits_truncate (misa_bits MISA_I OR misa_bits MISA_M OR misa_bits MISA_A OR
      misa_bits MISA_F OR misa_bits MISA_D OR misa_bits MISA_C),
     ext_zicsr = True, ext_zifencei = True, ext_zba = False, ext_zbb = False, ext_zbc = False, ext_zbs = False\<rparr>"

section \<open>The disassembly context\<close>

record RiscvDisasContext =
  d_base :: DisasContextBase
  d_cfg :: RiscvCfg
  d_env :: tempidx
  d_gpr :: "tempidx list"
  d_pc :: tempidx
  d_load_res :: tempidx
  d_load_val :: tempidx
  d_opcode :: u32
  d_cur_insn_len :: u32
  d_guest_base :: u64

definition disas_new :: "u64 \<Rightarrow> u64 \<Rightarrow> RiscvCfg \<Rightarrow> RiscvDisasContext" where
  "disas_new pc guest_base cfg =
     \<lparr>d_base = \<lparr>pc_first = pc, pc_next = pc, is_jmp = DNext, num_insns = 0, b_max_insns = 512\<rparr>, d_cfg = cfg,
      d_env = 0, d_gpr = replicate NUM_GPRS 0, d_pc = 0, d_load_res = 0, d_load_val = 0, d_opcode = 0,
      d_cur_insn_len = 4, d_guest_base = guest_base\<rparr>"

text \<open>Host memory is a function from addresses to bytes; the fetches read it at \<open>guest_base + pc_next\<close>.\<close>

type_synonym host_mem = "u64 \<Rightarrow> u8"

definition fetch_insn16 :: "host_mem \<Rightarrow> RiscvDisasContext \<Rightarrow> u16" where
  "fetch_insn16 m d =
     (let p = d_guest_base d + pc_next (d_base d) in ucast (m p) OR push_bit 8 (ucast (m (p + 1))))"

definition fetch_insn32 :: "host_mem \<Rightarrow> RiscvDisasContext \<Rightarrow> u32" where
  "fetch_insn32 m d =
     (let p = d_guest_base d + pc_next (d_base d)
      in ucast (m p) OR push_bit 8 (ucast (m (p + 1))) OR push_bit 16 (ucast (m (p + 2))) OR push_bit 24 (ucast (m (p + 3))))"

definition set_base :: "(DisasContextBase \<Rightarrow> DisasContextBase) \<Rightarrow> RiscvDisasContext \<Rightarrow> RiscvDisasContext" where
  "set_base f d = d\<lparr>d_base := f (d_base d)\<rparr>"

definition end_block :: "RiscvDisasContext \<Rightarrow> RiscvDisasContext" where
  "end_block d = set_base (\<lambda>b. b\<lparr>is_jmp := NoReturn\<rparr>) d"

end
