(* ===== verification/Riscv_Trans.thy ===== *)
theory Riscv_Trans
  imports Frontend
begin

text \<open>
  The translation of RISC-V instructions to IR (\<open>frontend/src/riscv/trans.rs\<close>): the helpers, one
  function per instruction, and the dispatch of the decoders' trait calls. Every function takes the
  disassembly context, the arguments of the instruction and the IR context; \<open>None\<close> is a panic (a
  register number out of range), \<open>False\<close> an instruction that is not translated. The addresses of the
  floating-point helpers, functions of the linked program, are the parameter \<open>H\<close>.
\<close>

section \<open>Arguments\<close>

text \<open>The argument sets of \<open>insn32.decode\<close>; every field is an \<open>i64\<close>.\<close>

record ArgsB = b_imm :: i64  b_rs2 :: i64  b_rs1 :: i64
record ArgsI = i_imm :: i64  i_rs1 :: i64  i_rd :: i64
record ArgsJ = j_imm :: i64  j_rd :: i64
record ArgsR = r_rd :: i64  r_rs1 :: i64  r_rs2 :: i64
record ArgsR2 = r2_rd :: i64  r2_rs1 :: i64
record ArgsR2Rm = r2m_rd :: i64  r2m_rs1 :: i64  r2m_rm :: i64
record ArgsRRm = rm_rd :: i64  rm_rs1 :: i64  rm_rs2 :: i64  rm_rm :: i64
record ArgsR4Rm = r4_rd :: i64  r4_rs1 :: i64  r4_rs2 :: i64  r4_rs3 :: i64  r4_rm :: i64
record ArgsS = s_imm :: i64  s_rs1 :: i64  s_rs2 :: i64
record ArgsU = u_imm :: i64  u_rd :: i64
record ArgsShift = sh_shamt :: i64  sh_rs1 :: i64  sh_rd :: i64
record ArgsAtomic = at_aq :: i64  at_rl :: i64  at_rs2 :: i64  at_rs1 :: i64  at_rd :: i64
record ArgsCsr = csr_csr :: i64  csr_rs1 :: i64  csr_rd :: i64

type_synonym BinOp = "Type \<Rightarrow> tempidx \<Rightarrow> tempidx \<Rightarrow> tempidx \<Rightarrow> (Context, tempidx) state"
type_synonym 'a gen = "Context \<Rightarrow> ('a \<times> Context) option"
type_synonym trans = "Context \<Rightarrow> (bool \<times> RiscvDisasContext \<times> Context) option"

definition TCG_MO_ALL :: u32 where "TCG_MO_ALL = 0x0F"
definition TCG_BAR_LDAQ :: u32 where "TCG_BAR_LDAQ = 0x10"
definition TCG_BAR_STRL :: u32 where "TCG_BAR_STRL = 0x20"

definition CSR_USTATUS :: i64 where "CSR_USTATUS = 0x000"
definition CSR_FFLAGS :: i64 where "CSR_FFLAGS = 0x001"
definition CSR_FRM :: i64 where "CSR_FRM = 0x002"
definition CSR_FCSR :: i64 where "CSR_FCSR = 0x003"
definition CSR_UIE :: i64 where "CSR_UIE = 0x004"
definition CSR_UTVEC :: i64 where "CSR_UTVEC = 0x005"
definition CSR_USCRATCH :: i64 where "CSR_USCRATCH = 0x040"
definition CSR_UEPC :: i64 where "CSR_UEPC = 0x041"
definition CSR_UCAUSE :: i64 where "CSR_UCAUSE = 0x042"
definition CSR_UTVAL :: i64 where "CSR_UTVAL = 0x043"
definition CSR_UIP :: i64 where "CSR_UIP = 0x044"
definition CSR_CYCLE :: i64 where "CSR_CYCLE = 0xC00"
definition CSR_TIME :: i64 where "CSR_TIME = 0xC01"
definition CSR_INSTRET :: i64 where "CSR_INSTRET = 0xC02"

definition FFLAGS_MASK :: u64 where "FFLAGS_MASK = 0x1f"
definition FRM_MASK :: u64 where "FRM_MASK = 0x7"

section \<open>Helpers\<close>

definition gpr_or_zero :: "RiscvDisasContext \<Rightarrow> i64 \<Rightarrow> tempidx gen" where
  "gpr_or_zero d idx ir =
     (if idx = 0 then emit (new_const I64 0) ir
      else do { t \<leftarrow> index (d_gpr d) (unat idx); Some (t, ir) })"

definition gen_set_gpr :: "RiscvDisasContext \<Rightarrow> i64 \<Rightarrow> tempidx \<Rightarrow> Context \<Rightarrow> Context option" where
  "gen_set_gpr d rd val ir =
     (if rd \<noteq> 0 then do { t \<leftarrow> index (d_gpr d) (unat rd); (_, ir) \<leftarrow> emit (gen_mov I64 t val) ir; Some ir }
      else Some ir)"

definition gen_set_gpr_sx32 :: "RiscvDisasContext \<Rightarrow> i64 \<Rightarrow> tempidx \<Rightarrow> Context \<Rightarrow> Context option" where
  "gen_set_gpr_sx32 d rd val ir =
     (if rd \<noteq> 0 then do { t \<leftarrow> index (d_gpr d) (unat rd); (_, ir) \<leftarrow> emit (gen_ext_i32_i64 t val) ir; Some ir }
      else Some ir)"

definition fpr_load :: "RiscvDisasContext \<Rightarrow> i64 \<Rightarrow> tempidx gen" where
  "fpr_load d idx ir = do {
     (t, ir) \<leftarrow> emit (new_temp I64) ir;
     (_, ir) \<leftarrow> emit (gen_ld I64 t (d_env d) (fpr_offset (unat idx))) ir;
     Some (t, ir) }"

definition fpr_store :: "RiscvDisasContext \<Rightarrow> i64 \<Rightarrow> tempidx \<Rightarrow> Context \<Rightarrow> Context option" where
  "fpr_store d idx val ir = do {
     (_, ir) \<leftarrow> emit (gen_st I64 val (d_env d) (fpr_offset (unat idx))) ir;
     Some ir }"

definition gen_fp_check :: "RiscvDisasContext \<Rightarrow> Context \<Rightarrow> Context option" where
  "gen_fp_check d ir = do {
     (status, ir) \<leftarrow> emit (new_temp I64) ir;
     (_, ir) \<leftarrow> emit (gen_ld I64 status (d_env d) USTATUS_OFFSET) ir;
     (mask, ir) \<leftarrow> emit (new_const I64 USTATUS_FS_MASK) ir;
     (fs, ir) \<leftarrow> emit (new_temp I64) ir;
     (_, ir) \<leftarrow> emit (gen_and I64 fs status mask) ir;
     (zero, ir) \<leftarrow> emit (new_const I64 0) ir;
     (ok, ir) \<leftarrow> emit new_label ir;
     (_, ir) \<leftarrow> emit (gen_brcond I64 fs zero Ne ok) ir;
     (p, ir) \<leftarrow> emit (new_const I64 (pc_next (d_base d))) ir;
     (_, ir) \<leftarrow> emit (gen_mov I64 (d_pc d) p) ir;
     (_, ir) \<leftarrow> emit (gen_exit_tb EXCP_UNDEF) ir;
     (_, ir) \<leftarrow> emit (gen_set_label ok) ir;
     Some ir }"

definition gen_set_fs_dirty :: "RiscvDisasContext \<Rightarrow> Context \<Rightarrow> Context option" where
  "gen_set_fs_dirty d ir = do {
     (status, ir) \<leftarrow> emit (new_temp I64) ir;
     (_, ir) \<leftarrow> emit (gen_ld I64 status (d_env d) USTATUS_OFFSET) ir;
     (clear, ir) \<leftarrow> emit (new_const I64 (NOT USTATUS_FS_MASK)) ir;
     (cleared, ir) \<leftarrow> emit (new_temp I64) ir;
     (_, ir) \<leftarrow> emit (gen_and I64 cleared status clear) ir;
     (dirty, ir) \<leftarrow> emit (new_const I64 USTATUS_FS_DIRTY) ir;
     (new_status, ir) \<leftarrow> emit (new_temp I64) ir;
     (_, ir) \<leftarrow> emit (gen_or I64 new_status cleared dirty) ir;
     (_, ir) \<leftarrow> emit (gen_st I64 new_status (d_env d) USTATUS_OFFSET) ir;
     Some ir }"

definition gen_helper_call :: "u64 \<Rightarrow> tempidx list \<Rightarrow> tempidx gen" where
  "gen_helper_call helper args ir = do {
     (dst, ir) \<leftarrow> emit (new_temp I64) ir;
     (_, ir) \<leftarrow> emit (gen_call dst helper args) ir;
     Some (dst, ir) }"

text \<open>The address \<open>rs1 + imm\<close>; the addition is left out for a zero immediate.\<close>

definition gen_address :: "RiscvDisasContext \<Rightarrow> i64 \<Rightarrow> i64 \<Rightarrow> tempidx gen" where
  "gen_address d rs1 imm ir = do {
     (base, ir) \<leftarrow> gpr_or_zero d rs1 ir;
     if imm \<noteq> 0 then do {
       (c, ir) \<leftarrow> emit (new_const I64 imm) ir;
       (t, ir) \<leftarrow> emit (new_temp I64) ir;
       emit (gen_add I64 t base c) ir }
     else Some (base, ir) }"

definition gen_fp_load :: "RiscvDisasContext \<Rightarrow> ArgsI \<Rightarrow> MemOp \<Rightarrow> bool \<Rightarrow> bool gen" where
  "gen_fp_load d a memop is_single ir = do {
     ir \<leftarrow> gen_fp_check d ir;
     ir \<leftarrow> gen_set_fs_dirty d ir;
     (addr, ir) \<leftarrow> gen_address d (i_rs1 a) (i_imm a) ir;
     (val, ir) \<leftarrow> emit (new_temp I64) ir;
     (_, ir) \<leftarrow> emit (gen_qemu_ld I64 val addr (ucast (memop_bits memop))) ir;
     ir \<leftarrow> (if is_single then do {
              (mask, ir) \<leftarrow> emit (new_const I64 0xffffffff00000000) ir;
              (boxed, ir) \<leftarrow> emit (new_temp I64) ir;
              (_, ir) \<leftarrow> emit (gen_or I64 boxed val mask) ir;
              fpr_store d (i_rd a) boxed ir }
            else fpr_store d (i_rd a) val ir);
     Some (True, ir) }"

definition gen_fp_store :: "RiscvDisasContext \<Rightarrow> ArgsS \<Rightarrow> MemOp \<Rightarrow> bool \<Rightarrow> bool gen" where
  "gen_fp_store d a memop is_single ir = do {
     ir \<leftarrow> gen_fp_check d ir;
     (addr, ir) \<leftarrow> gen_address d (s_rs1 a) (s_imm a) ir;
     (val, ir) \<leftarrow> fpr_load d (s_rs2 a) ir;
     (store_val, ir) \<leftarrow> (if is_single then do {
              (lo32, ir) \<leftarrow> emit (new_temp I32) ir;
              (_, ir) \<leftarrow> emit (gen_extrl_i64_i32 lo32 val) ir;
              (lo64, ir) \<leftarrow> emit (new_temp I64) ir;
              (_, ir) \<leftarrow> emit (gen_ext_i32_i64 lo64 lo32) ir;
              Some (lo64, ir) }
            else Some (val, ir));
     (_, ir) \<leftarrow> emit (gen_qemu_st I64 store_val addr (ucast (memop_bits memop))) ir;
     Some (True, ir) }"

subsection \<open>Control and status registers\<close>

definition csr_load :: "RiscvDisasContext \<Rightarrow> i64 \<Rightarrow> tempidx gen" where
  "csr_load d off ir = do {
     (v, ir) \<leftarrow> emit (new_temp I64) ir;
     (_, ir) \<leftarrow> emit (gen_ld I64 v (d_env d) off) ir;
     Some (v, ir) }"

definition csr_load_masked :: "RiscvDisasContext \<Rightarrow> i64 \<Rightarrow> u64 \<Rightarrow> tempidx gen" where
  "csr_load_masked d off m ir = do {
     (v, ir) \<leftarrow> emit (new_temp I64) ir;
     (_, ir) \<leftarrow> emit (gen_ld I64 v (d_env d) off) ir;
     (mask, ir) \<leftarrow> emit (new_const I64 m) ir;
     (out, ir) \<leftarrow> emit (new_temp I64) ir;
     (_, ir) \<leftarrow> emit (gen_and I64 out v mask) ir;
     Some (out, ir) }"

definition csr_load_fcsr :: "RiscvDisasContext \<Rightarrow> tempidx gen" where
  "csr_load_fcsr d ir = do {
     (fflags, ir) \<leftarrow> emit (new_temp I64) ir;
     (_, ir) \<leftarrow> emit (gen_ld I64 fflags (d_env d) FFLAGS_OFFSET) ir;
     (fmask, ir) \<leftarrow> emit (new_const I64 FFLAGS_MASK) ir;
     (_, ir) \<leftarrow> emit (gen_and I64 fflags fflags fmask) ir;
     (frm, ir) \<leftarrow> emit (new_temp I64) ir;
     (_, ir) \<leftarrow> emit (gen_ld I64 frm (d_env d) FRM_OFFSET) ir;
     (rmask, ir) \<leftarrow> emit (new_const I64 FRM_MASK) ir;
     (_, ir) \<leftarrow> emit (gen_and I64 frm frm rmask) ir;
     (shift, ir) \<leftarrow> emit (new_const I64 5) ir;
     (frm_shift, ir) \<leftarrow> emit (new_temp I64) ir;
     (_, ir) \<leftarrow> emit (gen_shl I64 frm_shift frm shift) ir;
     (out, ir) \<leftarrow> emit (new_temp I64) ir;
     (_, ir) \<leftarrow> emit (gen_or I64 out fflags frm_shift) ir;
     Some (out, ir) }"

text \<open>The registers that are one plain field of the CPU.\<close>

definition csr_field :: "i64 \<Rightarrow> i64 option" where
  "csr_field csr =
     (if csr = CSR_USTATUS then Some USTATUS_OFFSET else if csr = CSR_UIE then Some UIE_OFFSET
      else if csr = CSR_UTVEC then Some UTVEC_OFFSET else if csr = CSR_USCRATCH then Some USCRATCH_OFFSET
      else if csr = CSR_UEPC then Some UEPC_OFFSET else if csr = CSR_UCAUSE then Some UCAUSE_OFFSET
      else if csr = CSR_UTVAL then Some UTVAL_OFFSET else if csr = CSR_UIP then Some UIP_OFFSET
      else None)"

definition gen_csr_read :: "RiscvDisasContext \<Rightarrow> i64 \<Rightarrow> tempidx option gen" where
  "gen_csr_read d csr ir =
     (if csr = CSR_FFLAGS then do { (t, ir) \<leftarrow> csr_load_masked d FFLAGS_OFFSET FFLAGS_MASK ir; Some (Some t, ir) }
      else if csr = CSR_FRM then do { (t, ir) \<leftarrow> csr_load_masked d FRM_OFFSET FRM_MASK ir; Some (Some t, ir) }
      else if csr = CSR_FCSR then do { (t, ir) \<leftarrow> csr_load_fcsr d ir; Some (Some t, ir) }
      else case csr_field csr of
        Some off \<Rightarrow> do { (t, ir) \<leftarrow> csr_load d off ir; Some (Some t, ir) }
      | None \<Rightarrow>
          if csr \<in> {CSR_CYCLE, CSR_TIME, CSR_INSTRET}
          then do { (t, ir) \<leftarrow> emit (new_const I64 0) ir; Some (Some t, ir) }
          else Some (None, ir))"

definition csr_store_masked :: "RiscvDisasContext \<Rightarrow> i64 \<Rightarrow> u64 \<Rightarrow> tempidx \<Rightarrow> bool gen" where
  "csr_store_masked d off m val ir = do {
     (mask, ir) \<leftarrow> emit (new_const I64 m) ir;
     (v, ir) \<leftarrow> emit (new_temp I64) ir;
     (_, ir) \<leftarrow> emit (gen_and I64 v val mask) ir;
     (_, ir) \<leftarrow> emit (gen_st I64 v (d_env d) off) ir;
     ir \<leftarrow> gen_set_fs_dirty d ir;
     Some (True, ir) }"

definition csr_store_fcsr :: "RiscvDisasContext \<Rightarrow> tempidx \<Rightarrow> bool gen" where
  "csr_store_fcsr d val ir = do {
     (fmask, ir) \<leftarrow> emit (new_const I64 FFLAGS_MASK) ir;
     (fflags, ir) \<leftarrow> emit (new_temp I64) ir;
     (_, ir) \<leftarrow> emit (gen_and I64 fflags val fmask) ir;
     (_, ir) \<leftarrow> emit (gen_st I64 fflags (d_env d) FFLAGS_OFFSET) ir;
     (shift, ir) \<leftarrow> emit (new_const I64 5) ir;
     (frm, ir) \<leftarrow> emit (new_temp I64) ir;
     (_, ir) \<leftarrow> emit (gen_shr I64 frm val shift) ir;
     (rmask, ir) \<leftarrow> emit (new_const I64 FRM_MASK) ir;
     (_, ir) \<leftarrow> emit (gen_and I64 frm frm rmask) ir;
     (_, ir) \<leftarrow> emit (gen_st I64 frm (d_env d) FRM_OFFSET) ir;
     ir \<leftarrow> gen_set_fs_dirty d ir;
     Some (True, ir) }"

definition gen_csr_write :: "RiscvDisasContext \<Rightarrow> i64 \<Rightarrow> tempidx \<Rightarrow> bool gen" where
  "gen_csr_write d csr val ir =
     (if csr = CSR_FFLAGS then csr_store_masked d FFLAGS_OFFSET FFLAGS_MASK val ir
      else if csr = CSR_FRM then csr_store_masked d FRM_OFFSET FRM_MASK val ir
      else if csr = CSR_FCSR then csr_store_fcsr d val ir
      else case csr_field csr of
        Some off \<Rightarrow> do { (_, ir) \<leftarrow> emit (gen_st I64 val (d_env d) off) ir; Some (True, ir) }
      | None \<Rightarrow> Some (False, ir))"

subsection \<open>Guest memory\<close>

definition gen_load :: "RiscvDisasContext \<Rightarrow> ArgsI \<Rightarrow> MemOp \<Rightarrow> bool gen" where
  "gen_load d a memop ir = do {
     (addr, ir) \<leftarrow> gen_address d (i_rs1 a) (i_imm a) ir;
     (dst, ir) \<leftarrow> emit (new_temp I64) ir;
     (_, ir) \<leftarrow> emit (gen_qemu_ld I64 dst addr (ucast (memop_bits memop))) ir;
     ir \<leftarrow> gen_set_gpr d (i_rd a) dst ir;
     Some (True, ir) }"

definition gen_store :: "RiscvDisasContext \<Rightarrow> ArgsS \<Rightarrow> MemOp \<Rightarrow> bool gen" where
  "gen_store d a memop ir = do {
     (addr, ir) \<leftarrow> gen_address d (s_rs1 a) (s_imm a) ir;
     (val, ir) \<leftarrow> gpr_or_zero d (s_rs2 a) ir;
     (_, ir) \<leftarrow> emit (gen_qemu_st I64 val addr (ucast (memop_bits memop))) ir;
     Some (True, ir) }"

subsection \<open>Arithmetic\<close>

definition gen_arith :: "RiscvDisasContext \<Rightarrow> ArgsR \<Rightarrow> BinOp \<Rightarrow> bool gen" where
  "gen_arith d a op ir = do {
     (s1, ir) \<leftarrow> gpr_or_zero d (r_rs1 a) ir;
     (s2, ir) \<leftarrow> gpr_or_zero d (r_rs2 a) ir;
     (dst, ir) \<leftarrow> emit (new_temp I64) ir;
     (_, ir) \<leftarrow> emit (op I64 dst s1 s2) ir;
     ir \<leftarrow> gen_set_gpr d (r_rd a) dst ir;
     Some (True, ir) }"

definition gen_setcond_rr :: "RiscvDisasContext \<Rightarrow> ArgsR \<Rightarrow> Cond \<Rightarrow> bool gen" where
  "gen_setcond_rr d a cond ir = do {
     (s1, ir) \<leftarrow> gpr_or_zero d (r_rs1 a) ir;
     (s2, ir) \<leftarrow> gpr_or_zero d (r_rs2 a) ir;
     (dst, ir) \<leftarrow> emit (new_temp I64) ir;
     (_, ir) \<leftarrow> emit (gen_setcond I64 dst s1 s2 cond) ir;
     ir \<leftarrow> gen_set_gpr d (r_rd a) dst ir;
     Some (True, ir) }"

definition gen_arith_imm :: "RiscvDisasContext \<Rightarrow> ArgsI \<Rightarrow> BinOp \<Rightarrow> bool gen" where
  "gen_arith_imm d a op ir = do {
     (src, ir) \<leftarrow> gpr_or_zero d (i_rs1 a) ir;
     (imm, ir) \<leftarrow> emit (new_const I64 (i_imm a)) ir;
     (dst, ir) \<leftarrow> emit (new_temp I64) ir;
     (_, ir) \<leftarrow> emit (op I64 dst src imm) ir;
     ir \<leftarrow> gen_set_gpr d (i_rd a) dst ir;
     Some (True, ir) }"

definition gen_setcond_imm :: "RiscvDisasContext \<Rightarrow> ArgsI \<Rightarrow> Cond \<Rightarrow> bool gen" where
  "gen_setcond_imm d a cond ir = do {
     (src, ir) \<leftarrow> gpr_or_zero d (i_rs1 a) ir;
     (imm, ir) \<leftarrow> emit (new_const I64 (i_imm a)) ir;
     (dst, ir) \<leftarrow> emit (new_temp I64) ir;
     (_, ir) \<leftarrow> emit (gen_setcond I64 dst src imm cond) ir;
     ir \<leftarrow> gen_set_gpr d (i_rd a) dst ir;
     Some (True, ir) }"

definition gen_shift_imm :: "RiscvDisasContext \<Rightarrow> ArgsShift \<Rightarrow> BinOp \<Rightarrow> bool gen" where
  "gen_shift_imm d a op ir = do {
     (src, ir) \<leftarrow> gpr_or_zero d (sh_rs1 a) ir;
     (sh, ir) \<leftarrow> emit (new_const I64 (sh_shamt a)) ir;
     (dst, ir) \<leftarrow> emit (new_temp I64) ir;
     (_, ir) \<leftarrow> emit (op I64 dst src sh) ir;
     ir \<leftarrow> gen_set_gpr d (sh_rd a) dst ir;
     Some (True, ir) }"

definition gen_arith_w :: "RiscvDisasContext \<Rightarrow> ArgsR \<Rightarrow> BinOp \<Rightarrow> bool gen" where
  "gen_arith_w d a op ir = do {
     (s1, ir) \<leftarrow> gpr_or_zero d (r_rs1 a) ir;
     (s2, ir) \<leftarrow> gpr_or_zero d (r_rs2 a) ir;
     (dst, ir) \<leftarrow> emit (new_temp I64) ir;
     (_, ir) \<leftarrow> emit (op I64 dst s1 s2) ir;
     ir \<leftarrow> gen_set_gpr_sx32 d (r_rd a) dst ir;
     Some (True, ir) }"

definition gen_arith_imm_w :: "RiscvDisasContext \<Rightarrow> ArgsI \<Rightarrow> BinOp \<Rightarrow> bool gen" where
  "gen_arith_imm_w d a op ir = do {
     (src, ir) \<leftarrow> gpr_or_zero d (i_rs1 a) ir;
     (imm, ir) \<leftarrow> emit (new_const I64 (i_imm a)) ir;
     (dst, ir) \<leftarrow> emit (new_temp I64) ir;
     (_, ir) \<leftarrow> emit (op I64 dst src imm) ir;
     ir \<leftarrow> gen_set_gpr_sx32 d (i_rd a) dst ir;
     Some (True, ir) }"

definition gen_shiftw :: "RiscvDisasContext \<Rightarrow> ArgsR \<Rightarrow> BinOp \<Rightarrow> bool gen" where
  "gen_shiftw d a op ir = do {
     (s1, ir) \<leftarrow> gpr_or_zero d (r_rs1 a) ir;
     (s2, ir) \<leftarrow> gpr_or_zero d (r_rs2 a) ir;
     (a32, ir) \<leftarrow> emit (new_temp I32) ir;
     (_, ir) \<leftarrow> emit (gen_extrl_i64_i32 a32 s1) ir;
     (b32, ir) \<leftarrow> emit (new_temp I32) ir;
     (_, ir) \<leftarrow> emit (gen_extrl_i64_i32 b32 s2) ir;
     (d32, ir) \<leftarrow> emit (new_temp I32) ir;
     (_, ir) \<leftarrow> emit (op I32 d32 a32 b32) ir;
     ir \<leftarrow> gen_set_gpr_sx32 d (r_rd a) d32 ir;
     Some (True, ir) }"

definition gen_shift_imm_w :: "RiscvDisasContext \<Rightarrow> ArgsShift \<Rightarrow> BinOp \<Rightarrow> bool gen" where
  "gen_shift_imm_w d a op ir = do {
     (src, ir) \<leftarrow> gpr_or_zero d (sh_rs1 a) ir;
     (s32, ir) \<leftarrow> emit (new_temp I32) ir;
     (_, ir) \<leftarrow> emit (gen_extrl_i64_i32 s32 src) ir;
     (sh, ir) \<leftarrow> emit (new_const I32 (sh_shamt a)) ir;
     (d32, ir) \<leftarrow> emit (new_temp I32) ir;
     (_, ir) \<leftarrow> emit (op I32 d32 s32 sh) ir;
     ir \<leftarrow> gen_set_gpr_sx32 d (sh_rd a) d32 ir;
     Some (True, ir) }"

subsection \<open>Division\<close>

definition gen_div_rem :: "RiscvDisasContext \<Rightarrow> ArgsR \<Rightarrow> bool \<Rightarrow> bool gen" where
  "gen_div_rem d a want_rem ir = do {
     (s1, ir) \<leftarrow> gpr_or_zero d (r_rs1 a) ir;
     (s2, ir) \<leftarrow> gpr_or_zero d (r_rs2 a) ir;
     (zero, ir) \<leftarrow> emit (new_const I64 0) ir;
     (one, ir) \<leftarrow> emit (new_const I64 1) ir;
     (neg1, ir) \<leftarrow> emit (new_const I64 (- 1)) ir;
     (safe, ir) \<leftarrow> emit (new_temp I64) ir;
     (_, ir) \<leftarrow> emit (gen_movcond I64 safe s2 zero one s2 Eq) ir;
     (_, ir) \<leftarrow> emit (gen_movcond I64 safe safe neg1 one safe Eq) ir;
     (ah, ir) \<leftarrow> emit (new_temp I64) ir;
     (c63, ir) \<leftarrow> emit (new_const I64 63) ir;
     (_, ir) \<leftarrow> emit (gen_sar I64 ah s1 c63) ir;
     (quot, ir) \<leftarrow> emit (new_temp I64) ir;
     (rem, ir) \<leftarrow> emit (new_temp I64) ir;
     (_, ir) \<leftarrow> emit (gen_divs2 I64 quot rem s1 ah safe) ir;
     ir \<leftarrow> (if want_rem then do {
              (r, ir) \<leftarrow> emit (new_temp I64) ir;
              (_, ir) \<leftarrow> emit (gen_movcond I64 r s2 zero s1 rem Eq) ir;
              (_, ir) \<leftarrow> emit (gen_movcond I64 r s2 neg1 zero r Eq) ir;
              gen_set_gpr d (r_rd a) r ir }
            else do {
              (neg_s1, ir) \<leftarrow> emit (new_temp I64) ir;
              (_, ir) \<leftarrow> emit (gen_neg I64 neg_s1 s1) ir;
              (r, ir) \<leftarrow> emit (new_temp I64) ir;
              (_, ir) \<leftarrow> emit (gen_movcond I64 r s2 zero neg1 quot Eq) ir;
              (_, ir) \<leftarrow> emit (gen_movcond I64 r s2 neg1 neg_s1 r Eq) ir;
              gen_set_gpr d (r_rd a) r ir });
     Some (True, ir) }"

definition gen_divu_remu :: "RiscvDisasContext \<Rightarrow> ArgsR \<Rightarrow> bool \<Rightarrow> bool gen" where
  "gen_divu_remu d a want_rem ir = do {
     (s1, ir) \<leftarrow> gpr_or_zero d (r_rs1 a) ir;
     (s2, ir) \<leftarrow> gpr_or_zero d (r_rs2 a) ir;
     (zero, ir) \<leftarrow> emit (new_const I64 0) ir;
     (one, ir) \<leftarrow> emit (new_const I64 1) ir;
     (safe, ir) \<leftarrow> emit (new_temp I64) ir;
     (_, ir) \<leftarrow> emit (gen_movcond I64 safe s2 zero one s2 Eq) ir;
     (quot, ir) \<leftarrow> emit (new_temp I64) ir;
     (rem, ir) \<leftarrow> emit (new_temp I64) ir;
     (_, ir) \<leftarrow> emit (gen_divu2 I64 quot rem s1 zero safe) ir;
     ir \<leftarrow> (if want_rem then do {
              (r, ir) \<leftarrow> emit (new_temp I64) ir;
              (_, ir) \<leftarrow> emit (gen_movcond I64 r s2 zero s1 rem Eq) ir;
              gen_set_gpr d (r_rd a) r ir }
            else do {
              (neg1, ir) \<leftarrow> emit (new_const I64 (- 1)) ir;
              (r, ir) \<leftarrow> emit (new_temp I64) ir;
              (_, ir) \<leftarrow> emit (gen_movcond I64 r s2 zero neg1 quot Eq) ir;
              gen_set_gpr d (r_rd a) r ir });
     Some (True, ir) }"

definition gen_div_rem_w :: "RiscvDisasContext \<Rightarrow> ArgsR \<Rightarrow> bool \<Rightarrow> bool gen" where
  "gen_div_rem_w d a want_rem ir = do {
     (s1, ir) \<leftarrow> gpr_or_zero d (r_rs1 a) ir;
     (s2, ir) \<leftarrow> gpr_or_zero d (r_rs2 a) ir;
     (a32, ir) \<leftarrow> emit (new_temp I32) ir;
     (_, ir) \<leftarrow> emit (gen_extrl_i64_i32 a32 s1) ir;
     (b32, ir) \<leftarrow> emit (new_temp I32) ir;
     (_, ir) \<leftarrow> emit (gen_extrl_i64_i32 b32 s2) ir;
     (zero, ir) \<leftarrow> emit (new_const I32 0) ir;
     (one, ir) \<leftarrow> emit (new_const I32 1) ir;
     (neg1, ir) \<leftarrow> emit (new_const I32 0xffffffff) ir;
     (safe, ir) \<leftarrow> emit (new_temp I32) ir;
     (_, ir) \<leftarrow> emit (gen_movcond I32 safe b32 zero one b32 Eq) ir;
     (_, ir) \<leftarrow> emit (gen_movcond I32 safe safe neg1 one safe Eq) ir;
     (ah, ir) \<leftarrow> emit (new_temp I32) ir;
     (c31, ir) \<leftarrow> emit (new_const I32 31) ir;
     (_, ir) \<leftarrow> emit (gen_sar I32 ah a32 c31) ir;
     (quot, ir) \<leftarrow> emit (new_temp I32) ir;
     (rem, ir) \<leftarrow> emit (new_temp I32) ir;
     (_, ir) \<leftarrow> emit (gen_divs2 I32 quot rem a32 ah safe) ir;
     ir \<leftarrow> (if want_rem then do {
              (r, ir) \<leftarrow> emit (new_temp I32) ir;
              (_, ir) \<leftarrow> emit (gen_movcond I32 r b32 zero a32 rem Eq) ir;
              (_, ir) \<leftarrow> emit (gen_movcond I32 r b32 neg1 zero r Eq) ir;
              gen_set_gpr_sx32 d (r_rd a) r ir }
            else do {
              (neg_a, ir) \<leftarrow> emit (new_temp I32) ir;
              (_, ir) \<leftarrow> emit (gen_neg I32 neg_a a32) ir;
              (r, ir) \<leftarrow> emit (new_temp I32) ir;
              (_, ir) \<leftarrow> emit (gen_movcond I32 r b32 zero neg1 quot Eq) ir;
              (_, ir) \<leftarrow> emit (gen_movcond I32 r b32 neg1 neg_a r Eq) ir;
              gen_set_gpr_sx32 d (r_rd a) r ir });
     Some (True, ir) }"

definition gen_divu_remu_w :: "RiscvDisasContext \<Rightarrow> ArgsR \<Rightarrow> bool \<Rightarrow> bool gen" where
  "gen_divu_remu_w d a want_rem ir = do {
     (s1, ir) \<leftarrow> gpr_or_zero d (r_rs1 a) ir;
     (s2, ir) \<leftarrow> gpr_or_zero d (r_rs2 a) ir;
     (a32, ir) \<leftarrow> emit (new_temp I32) ir;
     (_, ir) \<leftarrow> emit (gen_extrl_i64_i32 a32 s1) ir;
     (b32, ir) \<leftarrow> emit (new_temp I32) ir;
     (_, ir) \<leftarrow> emit (gen_extrl_i64_i32 b32 s2) ir;
     (zero, ir) \<leftarrow> emit (new_const I32 0) ir;
     (one, ir) \<leftarrow> emit (new_const I32 1) ir;
     (safe, ir) \<leftarrow> emit (new_temp I32) ir;
     (_, ir) \<leftarrow> emit (gen_movcond I32 safe b32 zero one b32 Eq) ir;
     (quot, ir) \<leftarrow> emit (new_temp I32) ir;
     (rem, ir) \<leftarrow> emit (new_temp I32) ir;
     (_, ir) \<leftarrow> emit (gen_divu2 I32 quot rem a32 zero safe) ir;
     ir \<leftarrow> (if want_rem then do {
              (r, ir) \<leftarrow> emit (new_temp I32) ir;
              (_, ir) \<leftarrow> emit (gen_movcond I32 r b32 zero a32 rem Eq) ir;
              gen_set_gpr_sx32 d (r_rd a) r ir }
            else do {
              (mx, ir) \<leftarrow> emit (new_const I32 0xffffffff) ir;
              (r, ir) \<leftarrow> emit (new_temp I32) ir;
              (_, ir) \<leftarrow> emit (gen_movcond I32 r b32 zero mx quot Eq) ir;
              gen_set_gpr_sx32 d (r_rd a) r ir });
     Some (True, ir) }"

subsection \<open>Atomics\<close>

definition gen_barrier :: "i64 \<Rightarrow> u32 \<Rightarrow> Context \<Rightarrow> Context option" where
  "gen_barrier flag bar ir = (if flag \<noteq> 0 then do { (_, ir) \<leftarrow> emit (gen_mb (TCG_MO_ALL OR bar)) ir; Some ir } else Some ir)"

definition gen_lr :: "RiscvDisasContext \<Rightarrow> ArgsAtomic \<Rightarrow> MemOp \<Rightarrow> bool gen" where
  "gen_lr d a memop ir = do {
     (addr, ir) \<leftarrow> gpr_or_zero d (at_rs1 a) ir;
     ir \<leftarrow> gen_barrier (at_rl a) TCG_BAR_STRL ir;
     (val, ir) \<leftarrow> emit (new_temp I64) ir;
     (_, ir) \<leftarrow> emit (gen_qemu_ld I64 val addr (ucast (memop_bits memop))) ir;
     ir \<leftarrow> gen_barrier (at_aq a) TCG_BAR_LDAQ ir;
     (_, ir) \<leftarrow> emit (gen_mov I64 (d_load_res d) addr) ir;
     (_, ir) \<leftarrow> emit (gen_mov I64 (d_load_val d) val) ir;
     ir \<leftarrow> gen_set_gpr d (at_rd a) val ir;
     Some (True, ir) }"

definition gen_sc :: "RiscvDisasContext \<Rightarrow> ArgsAtomic \<Rightarrow> MemOp \<Rightarrow> bool gen" where
  "gen_sc d a memop ir = do {
     (addr, ir) \<leftarrow> gpr_or_zero d (at_rs1 a) ir;
     (src2, ir) \<leftarrow> gpr_or_zero d (at_rs2 a) ir;
     (_, ir) \<leftarrow> emit (gen_qemu_st I64 src2 addr (ucast (memop_bits memop))) ir;
     (zero, ir) \<leftarrow> emit (new_const I64 0) ir;
     ir \<leftarrow> gen_set_gpr d (at_rd a) zero ir;
     (neg1, ir) \<leftarrow> emit (new_const I64 (- 1)) ir;
     (_, ir) \<leftarrow> emit (gen_mov I64 (d_load_res d) neg1) ir;
     Some (True, ir) }"

definition gen_amo :: "RiscvDisasContext \<Rightarrow> ArgsAtomic \<Rightarrow> BinOp \<Rightarrow> MemOp \<Rightarrow> bool gen" where
  "gen_amo d a op memop ir = do {
     (addr, ir) \<leftarrow> gpr_or_zero d (at_rs1 a) ir;
     ir \<leftarrow> gen_barrier (at_rl a) TCG_BAR_STRL ir;
     (old, ir) \<leftarrow> emit (new_temp I64) ir;
     (_, ir) \<leftarrow> emit (gen_qemu_ld I64 old addr (ucast (memop_bits memop))) ir;
     (src2, ir) \<leftarrow> gpr_or_zero d (at_rs2 a) ir;
     (new, ir) \<leftarrow> emit (new_temp I64) ir;
     (_, ir) \<leftarrow> emit (op I64 new old src2) ir;
     (_, ir) \<leftarrow> emit (gen_qemu_st I64 new addr (ucast (memop_bits memop))) ir;
     ir \<leftarrow> gen_barrier (at_aq a) TCG_BAR_LDAQ ir;
     ir \<leftarrow> gen_set_gpr d (at_rd a) old ir;
     Some (True, ir) }"

definition gen_amo_swap :: "RiscvDisasContext \<Rightarrow> ArgsAtomic \<Rightarrow> MemOp \<Rightarrow> bool gen" where
  "gen_amo_swap d a memop ir = do {
     (addr, ir) \<leftarrow> gpr_or_zero d (at_rs1 a) ir;
     ir \<leftarrow> gen_barrier (at_rl a) TCG_BAR_STRL ir;
     (old, ir) \<leftarrow> emit (new_temp I64) ir;
     (_, ir) \<leftarrow> emit (gen_qemu_ld I64 old addr (ucast (memop_bits memop))) ir;
     (src2, ir) \<leftarrow> gpr_or_zero d (at_rs2 a) ir;
     (_, ir) \<leftarrow> emit (gen_qemu_st I64 src2 addr (ucast (memop_bits memop))) ir;
     ir \<leftarrow> gen_barrier (at_aq a) TCG_BAR_LDAQ ir;
     ir \<leftarrow> gen_set_gpr d (at_rd a) old ir;
     Some (True, ir) }"

definition gen_amo_minmax :: "RiscvDisasContext \<Rightarrow> ArgsAtomic \<Rightarrow> Cond \<Rightarrow> MemOp \<Rightarrow> bool gen" where
  "gen_amo_minmax d a cond memop ir = do {
     (addr, ir) \<leftarrow> gpr_or_zero d (at_rs1 a) ir;
     ir \<leftarrow> gen_barrier (at_rl a) TCG_BAR_STRL ir;
     (old, ir) \<leftarrow> emit (new_temp I64) ir;
     (_, ir) \<leftarrow> emit (gen_qemu_ld I64 old addr (ucast (memop_bits memop))) ir;
     (src2, ir) \<leftarrow> gpr_or_zero d (at_rs2 a) ir;
     (new, ir) \<leftarrow> emit (new_temp I64) ir;
     (_, ir) \<leftarrow> emit (gen_movcond I64 new old src2 old src2 cond) ir;
     (_, ir) \<leftarrow> emit (gen_qemu_st I64 new addr (ucast (memop_bits memop))) ir;
     ir \<leftarrow> gen_barrier (at_aq a) TCG_BAR_LDAQ ir;
     ir \<leftarrow> gen_set_gpr d (at_rd a) old ir;
     Some (True, ir) }"

subsection \<open>Branches\<close>

definition gen_branch :: "RiscvDisasContext \<Rightarrow> ArgsB \<Rightarrow> Cond \<Rightarrow> Context \<Rightarrow> (RiscvDisasContext \<times> Context) option" where
  "gen_branch d a cond ir = do {
     (src1, ir) \<leftarrow> gpr_or_zero d (b_rs1 a) ir;
     (src2, ir) \<leftarrow> gpr_or_zero d (b_rs2 a) ir;
     (taken, ir) \<leftarrow> emit new_label ir;
     (_, ir) \<leftarrow> emit (gen_brcond I64 src1 src2 cond taken) ir;
     let next_pc = pc_next (d_base d) + ucast (d_cur_insn_len d);
     (c, ir) \<leftarrow> emit (new_const I64 next_pc) ir;
     (_, ir) \<leftarrow> emit (gen_mov I64 (d_pc d) c) ir;
     (_, ir) \<leftarrow> emit (gen_goto_tb 0) ir;
     (_, ir) \<leftarrow> emit (gen_exit_tb TB_EXIT_IDX0) ir;
     (_, ir) \<leftarrow> emit (gen_set_label taken) ir;
     let target = pc_next (d_base d) + b_imm a;
     (c, ir) \<leftarrow> emit (new_const I64 target) ir;
     (_, ir) \<leftarrow> emit (gen_mov I64 (d_pc d) c) ir;
     (_, ir) \<leftarrow> emit (gen_goto_tb 1) ir;
     (_, ir) \<leftarrow> emit (gen_exit_tb TB_EXIT_IDX1) ir;
     Some (end_block d, ir) }"

section \<open>Instructions\<close>

text \<open>A helper that leaves the disassembly context alone, and the extension checks.\<close>

definition keep :: "RiscvDisasContext \<Rightarrow> bool gen \<Rightarrow> trans" where
  "keep d m ir = do { (r, ir) \<leftarrow> m ir; Some (r, d, ir) }"

definition require_ext :: "RiscvDisasContext \<Rightarrow> MisaExt \<Rightarrow> trans \<Rightarrow> trans" where
  "require_ext d e m ir = (if \<not> misa_contains (misa (d_cfg d)) e then Some (False, d, ir) else m ir)"

definition require_zicsr :: "RiscvDisasContext \<Rightarrow> trans \<Rightarrow> trans" where
  "require_zicsr d m ir = (if \<not> ext_zicsr (d_cfg d) then Some (False, d, ir) else m ir)"

text \<open>The helpers of \<open>fpu.rs\<close> that the code calls by address.\<close>

datatype fpu_helper =
    helper_fmadd_s | helper_fmsub_s | helper_fnmsub_s | helper_fnmadd_s | helper_fadd_s | helper_fsub_s
  | helper_fmul_s | helper_fdiv_s | helper_fsqrt_s | helper_fsgnj_s | helper_fsgnjn_s | helper_fsgnjx_s
  | helper_fmin_s | helper_fmax_s | helper_feq_s | helper_flt_s | helper_fle_s | helper_fclass_s
  | helper_fcvt_w_s | helper_fcvt_wu_s | helper_fcvt_s_w | helper_fcvt_s_wu | helper_fcvt_l_s | helper_fcvt_lu_s
  | helper_fcvt_s_l | helper_fcvt_s_lu | helper_fmadd_d | helper_fmsub_d | helper_fnmsub_d | helper_fnmadd_d
  | helper_fadd_d | helper_fsub_d | helper_fmul_d | helper_fdiv_d | helper_fsqrt_d | helper_fsgnj_d
  | helper_fsgnjn_d | helper_fsgnjx_d | helper_fmin_d | helper_fmax_d | helper_feq_d | helper_flt_d
  | helper_fle_d | helper_fclass_d | helper_fcvt_s_d | helper_fcvt_d_s | helper_fcvt_w_d | helper_fcvt_wu_d
  | helper_fcvt_d_w | helper_fcvt_d_wu | helper_fcvt_l_d | helper_fcvt_lu_d | helper_fcvt_d_l | helper_fcvt_d_lu

definition trans_lui :: "RiscvDisasContext \<Rightarrow> ArgsU \<Rightarrow> trans" where
  "trans_lui d a ir = do {
     (c, ir) \<leftarrow> emit (new_const I64 (u_imm a)) ir;
     ir \<leftarrow> gen_set_gpr d (u_rd a) c ir;
     Some (True, d, ir) }"

definition trans_auipc :: "RiscvDisasContext \<Rightarrow> ArgsU \<Rightarrow> trans" where
  "trans_auipc d a ir = do {
     let v = pc_next (d_base d) + u_imm a;
     (c, ir) \<leftarrow> emit (new_const I64 v) ir;
     ir \<leftarrow> gen_set_gpr d (u_rd a) c ir;
     Some (True, d, ir) }"

definition trans_jal :: "RiscvDisasContext \<Rightarrow> ArgsJ \<Rightarrow> trans" where
  "trans_jal d a ir = do {
     let lnk = pc_next (d_base d) + ucast (d_cur_insn_len d);
     (c, ir) \<leftarrow> emit (new_const I64 lnk) ir;
     ir \<leftarrow> gen_set_gpr d (j_rd a) c ir;
     let target = pc_next (d_base d) + j_imm a;
     (c, ir) \<leftarrow> emit (new_const I64 target) ir;
     (_, ir) \<leftarrow> emit (gen_mov I64 (d_pc d) c) ir;
     (_, ir) \<leftarrow> emit (gen_goto_tb 0) ir;
     (_, ir) \<leftarrow> emit (gen_exit_tb TB_EXIT_IDX0) ir;
     Some (True, end_block d, ir) }"

definition trans_jalr :: "RiscvDisasContext \<Rightarrow> ArgsI \<Rightarrow> trans" where
  "trans_jalr d a ir = do {
     let lnk = pc_next (d_base d) + ucast (d_cur_insn_len d);
     (src, ir) \<leftarrow> gpr_or_zero d (i_rs1 a) ir;
     (imm, ir) \<leftarrow> emit (new_const I64 (i_imm a)) ir;
     (tmp, ir) \<leftarrow> emit (new_temp I64) ir;
     (_, ir) \<leftarrow> emit (gen_add I64 tmp src imm) ir;
     (mask, ir) \<leftarrow> emit (new_const I64 (NOT 1)) ir;
     (_, ir) \<leftarrow> emit (gen_and I64 tmp tmp mask) ir;
     (c, ir) \<leftarrow> emit (new_const I64 lnk) ir;
     ir \<leftarrow> gen_set_gpr d (i_rd a) c ir;
     (_, ir) \<leftarrow> emit (gen_mov I64 (d_pc d) tmp) ir;
     (_, ir) \<leftarrow> emit (gen_exit_tb TB_EXIT_NOCHAIN) ir;
     Some (True, end_block d, ir) }"

definition trans_beq :: "RiscvDisasContext \<Rightarrow> ArgsB \<Rightarrow> trans" where
  "trans_beq d a ir = do {
     (d, ir) \<leftarrow> gen_branch d a Eq ir;
     Some (True, d, ir) }"

definition trans_bne :: "RiscvDisasContext \<Rightarrow> ArgsB \<Rightarrow> trans" where
  "trans_bne d a ir = do {
     (d, ir) \<leftarrow> gen_branch d a Ne ir;
     Some (True, d, ir) }"

definition trans_blt :: "RiscvDisasContext \<Rightarrow> ArgsB \<Rightarrow> trans" where
  "trans_blt d a ir = do {
     (d, ir) \<leftarrow> gen_branch d a Lt ir;
     Some (True, d, ir) }"

definition trans_bge :: "RiscvDisasContext \<Rightarrow> ArgsB \<Rightarrow> trans" where
  "trans_bge d a ir = do {
     (d, ir) \<leftarrow> gen_branch d a Ge ir;
     Some (True, d, ir) }"

definition trans_bltu :: "RiscvDisasContext \<Rightarrow> ArgsB \<Rightarrow> trans" where
  "trans_bltu d a ir = do {
     (d, ir) \<leftarrow> gen_branch d a Ltu ir;
     Some (True, d, ir) }"

definition trans_bgeu :: "RiscvDisasContext \<Rightarrow> ArgsB \<Rightarrow> trans" where
  "trans_bgeu d a ir = do {
     (d, ir) \<leftarrow> gen_branch d a Geu ir;
     Some (True, d, ir) }"

definition trans_lb :: "RiscvDisasContext \<Rightarrow> ArgsI \<Rightarrow> trans" where
  "trans_lb d a = keep d (gen_load d a memop_sb)"

definition trans_lh :: "RiscvDisasContext \<Rightarrow> ArgsI \<Rightarrow> trans" where
  "trans_lh d a = keep d (gen_load d a memop_sw)"

definition trans_lw :: "RiscvDisasContext \<Rightarrow> ArgsI \<Rightarrow> trans" where
  "trans_lw d a = keep d (gen_load d a memop_sl)"

definition trans_lbu :: "RiscvDisasContext \<Rightarrow> ArgsI \<Rightarrow> trans" where
  "trans_lbu d a = keep d (gen_load d a memop_ub)"

definition trans_lhu :: "RiscvDisasContext \<Rightarrow> ArgsI \<Rightarrow> trans" where
  "trans_lhu d a = keep d (gen_load d a memop_uw)"

definition trans_sb :: "RiscvDisasContext \<Rightarrow> ArgsS \<Rightarrow> trans" where
  "trans_sb d a = keep d (gen_store d a memop_ub)"

definition trans_sh :: "RiscvDisasContext \<Rightarrow> ArgsS \<Rightarrow> trans" where
  "trans_sh d a = keep d (gen_store d a memop_uw)"

definition trans_sw :: "RiscvDisasContext \<Rightarrow> ArgsS \<Rightarrow> trans" where
  "trans_sw d a = keep d (gen_store d a memop_ul)"

definition trans_addi :: "RiscvDisasContext \<Rightarrow> ArgsI \<Rightarrow> trans" where
  "trans_addi d a = keep d (gen_arith_imm d a gen_add)"

definition trans_slti :: "RiscvDisasContext \<Rightarrow> ArgsI \<Rightarrow> trans" where
  "trans_slti d a = keep d (gen_setcond_imm d a Lt)"

definition trans_sltiu :: "RiscvDisasContext \<Rightarrow> ArgsI \<Rightarrow> trans" where
  "trans_sltiu d a = keep d (gen_setcond_imm d a Ltu)"

definition trans_xori :: "RiscvDisasContext \<Rightarrow> ArgsI \<Rightarrow> trans" where
  "trans_xori d a = keep d (gen_arith_imm d a gen_xor)"

definition trans_ori :: "RiscvDisasContext \<Rightarrow> ArgsI \<Rightarrow> trans" where
  "trans_ori d a = keep d (gen_arith_imm d a gen_or)"

definition trans_andi :: "RiscvDisasContext \<Rightarrow> ArgsI \<Rightarrow> trans" where
  "trans_andi d a = keep d (gen_arith_imm d a gen_and)"

definition trans_slli :: "RiscvDisasContext \<Rightarrow> ArgsShift \<Rightarrow> trans" where
  "trans_slli d a = keep d (gen_shift_imm d a gen_shl)"

definition trans_srli :: "RiscvDisasContext \<Rightarrow> ArgsShift \<Rightarrow> trans" where
  "trans_srli d a = keep d (gen_shift_imm d a gen_shr)"

definition trans_srai :: "RiscvDisasContext \<Rightarrow> ArgsShift \<Rightarrow> trans" where
  "trans_srai d a = keep d (gen_shift_imm d a gen_sar)"

definition trans_add :: "RiscvDisasContext \<Rightarrow> ArgsR \<Rightarrow> trans" where
  "trans_add d a = keep d (gen_arith d a gen_add)"

definition trans_sub :: "RiscvDisasContext \<Rightarrow> ArgsR \<Rightarrow> trans" where
  "trans_sub d a = keep d (gen_arith d a gen_sub)"

definition trans_sll :: "RiscvDisasContext \<Rightarrow> ArgsR \<Rightarrow> trans" where
  "trans_sll d a = keep d (gen_arith d a gen_shl)"

definition trans_slt :: "RiscvDisasContext \<Rightarrow> ArgsR \<Rightarrow> trans" where
  "trans_slt d a = keep d (gen_setcond_rr d a Lt)"

definition trans_sltu :: "RiscvDisasContext \<Rightarrow> ArgsR \<Rightarrow> trans" where
  "trans_sltu d a = keep d (gen_setcond_rr d a Ltu)"

definition trans_xor :: "RiscvDisasContext \<Rightarrow> ArgsR \<Rightarrow> trans" where
  "trans_xor d a = keep d (gen_arith d a gen_xor)"

definition trans_srl :: "RiscvDisasContext \<Rightarrow> ArgsR \<Rightarrow> trans" where
  "trans_srl d a = keep d (gen_arith d a gen_shr)"

definition trans_sra :: "RiscvDisasContext \<Rightarrow> ArgsR \<Rightarrow> trans" where
  "trans_sra d a = keep d (gen_arith d a gen_sar)"

definition trans_or :: "RiscvDisasContext \<Rightarrow> ArgsR \<Rightarrow> trans" where
  "trans_or d a = keep d (gen_arith d a gen_or)"

definition trans_and :: "RiscvDisasContext \<Rightarrow> ArgsR \<Rightarrow> trans" where
  "trans_and d a = keep d (gen_arith d a gen_and)"

definition trans_fence :: "RiscvDisasContext \<Rightarrow> trans" where
  "trans_fence d = keep d (\<lambda>ir. Some (True, ir))"

definition trans_ecall :: "RiscvDisasContext \<Rightarrow> trans" where
  "trans_ecall d ir = do {
     (pc, ir) \<leftarrow> emit (new_const I64 (pc_next (d_base d))) ir;
     (_, ir) \<leftarrow> emit (gen_mov I64 (d_pc d) pc) ir;
     (_, ir) \<leftarrow> emit (gen_exit_tb EXCP_ECALL) ir;
     Some (True, end_block d, ir) }"

definition trans_ebreak :: "RiscvDisasContext \<Rightarrow> trans" where
  "trans_ebreak d ir = do {
     (pc, ir) \<leftarrow> emit (new_const I64 (pc_next (d_base d))) ir;
     (_, ir) \<leftarrow> emit (gen_mov I64 (d_pc d) pc) ir;
     (_, ir) \<leftarrow> emit (gen_exit_tb EXCP_EBREAK) ir;
     Some (True, end_block d, ir) }"

definition trans_lwu :: "RiscvDisasContext \<Rightarrow> ArgsI \<Rightarrow> trans" where
  "trans_lwu d a = keep d (gen_load d a memop_ul)"

definition trans_ld :: "RiscvDisasContext \<Rightarrow> ArgsI \<Rightarrow> trans" where
  "trans_ld d a = keep d (gen_load d a memop_uq)"

definition trans_sd :: "RiscvDisasContext \<Rightarrow> ArgsS \<Rightarrow> trans" where
  "trans_sd d a = keep d (gen_store d a memop_uq)"

definition trans_addiw :: "RiscvDisasContext \<Rightarrow> ArgsI \<Rightarrow> trans" where
  "trans_addiw d a = keep d (gen_arith_imm_w d a gen_add)"

definition trans_slliw :: "RiscvDisasContext \<Rightarrow> ArgsShift \<Rightarrow> trans" where
  "trans_slliw d a = keep d (gen_shift_imm_w d a gen_shl)"

definition trans_srliw :: "RiscvDisasContext \<Rightarrow> ArgsShift \<Rightarrow> trans" where
  "trans_srliw d a = keep d (gen_shift_imm_w d a gen_shr)"

definition trans_sraiw :: "RiscvDisasContext \<Rightarrow> ArgsShift \<Rightarrow> trans" where
  "trans_sraiw d a = keep d (gen_shift_imm_w d a gen_sar)"

definition trans_addw :: "RiscvDisasContext \<Rightarrow> ArgsR \<Rightarrow> trans" where
  "trans_addw d a = keep d (gen_arith_w d a gen_add)"

definition trans_subw :: "RiscvDisasContext \<Rightarrow> ArgsR \<Rightarrow> trans" where
  "trans_subw d a = keep d (gen_arith_w d a gen_sub)"

definition trans_sllw :: "RiscvDisasContext \<Rightarrow> ArgsR \<Rightarrow> trans" where
  "trans_sllw d a = keep d (gen_shiftw d a gen_shl)"

definition trans_srlw :: "RiscvDisasContext \<Rightarrow> ArgsR \<Rightarrow> trans" where
  "trans_srlw d a = keep d (gen_shiftw d a gen_shr)"

definition trans_sraw :: "RiscvDisasContext \<Rightarrow> ArgsR \<Rightarrow> trans" where
  "trans_sraw d a = keep d (gen_shiftw d a gen_sar)"

definition trans_mul :: "RiscvDisasContext \<Rightarrow> ArgsR \<Rightarrow> trans" where
  "trans_mul d a = require_ext d MISA_M (keep d (gen_arith d a gen_mul))"

definition trans_mulh :: "RiscvDisasContext \<Rightarrow> ArgsR \<Rightarrow> trans" where
  "trans_mulh d a = require_ext d MISA_M (\<lambda>ir. do {
     (s1, ir) \<leftarrow> gpr_or_zero d (r_rs1 a) ir;
     (s2, ir) \<leftarrow> gpr_or_zero d (r_rs2 a) ir;
     (lo, ir) \<leftarrow> emit (new_temp I64) ir;
     (hi, ir) \<leftarrow> emit (new_temp I64) ir;
     (_, ir) \<leftarrow> emit (gen_muls2 I64 lo hi s1 s2) ir;
     ir \<leftarrow> gen_set_gpr d (r_rd a) hi ir;
     Some (True, d, ir) })"

definition trans_mulhsu :: "RiscvDisasContext \<Rightarrow> ArgsR \<Rightarrow> trans" where
  "trans_mulhsu d a = require_ext d MISA_M (\<lambda>ir. do {
     (s1, ir) \<leftarrow> gpr_or_zero d (r_rs1 a) ir;
     (s2, ir) \<leftarrow> gpr_or_zero d (r_rs2 a) ir;
     (lo, ir) \<leftarrow> emit (new_temp I64) ir;
     (hi, ir) \<leftarrow> emit (new_temp I64) ir;
     (_, ir) \<leftarrow> emit (gen_mulu2 I64 lo hi s1 s2) ir;
     (c63, ir) \<leftarrow> emit (new_const I64 63) ir;
     (sign, ir) \<leftarrow> emit (new_temp I64) ir;
     (_, ir) \<leftarrow> emit (gen_sar I64 sign s1 c63) ir;
     (adj, ir) \<leftarrow> emit (new_temp I64) ir;
     (_, ir) \<leftarrow> emit (gen_and I64 adj sign s2) ir;
     (_, ir) \<leftarrow> emit (gen_sub I64 hi hi adj) ir;
     ir \<leftarrow> gen_set_gpr d (r_rd a) hi ir;
     Some (True, d, ir) })"

definition trans_mulhu :: "RiscvDisasContext \<Rightarrow> ArgsR \<Rightarrow> trans" where
  "trans_mulhu d a = require_ext d MISA_M (\<lambda>ir. do {
     (s1, ir) \<leftarrow> gpr_or_zero d (r_rs1 a) ir;
     (s2, ir) \<leftarrow> gpr_or_zero d (r_rs2 a) ir;
     (lo, ir) \<leftarrow> emit (new_temp I64) ir;
     (hi, ir) \<leftarrow> emit (new_temp I64) ir;
     (_, ir) \<leftarrow> emit (gen_mulu2 I64 lo hi s1 s2) ir;
     ir \<leftarrow> gen_set_gpr d (r_rd a) hi ir;
     Some (True, d, ir) })"

definition trans_div :: "RiscvDisasContext \<Rightarrow> ArgsR \<Rightarrow> trans" where
  "trans_div d a = require_ext d MISA_M (keep d (gen_div_rem d a False))"

definition trans_divu :: "RiscvDisasContext \<Rightarrow> ArgsR \<Rightarrow> trans" where
  "trans_divu d a = require_ext d MISA_M (keep d (gen_divu_remu d a False))"

definition trans_rem :: "RiscvDisasContext \<Rightarrow> ArgsR \<Rightarrow> trans" where
  "trans_rem d a = require_ext d MISA_M (keep d (gen_div_rem d a True))"

definition trans_remu :: "RiscvDisasContext \<Rightarrow> ArgsR \<Rightarrow> trans" where
  "trans_remu d a = require_ext d MISA_M (keep d (gen_divu_remu d a True))"

definition trans_mulw :: "RiscvDisasContext \<Rightarrow> ArgsR \<Rightarrow> trans" where
  "trans_mulw d a = require_ext d MISA_M (keep d (gen_arith_w d a gen_mul))"

definition trans_divw :: "RiscvDisasContext \<Rightarrow> ArgsR \<Rightarrow> trans" where
  "trans_divw d a = require_ext d MISA_M (keep d (gen_div_rem_w d a False))"

definition trans_divuw :: "RiscvDisasContext \<Rightarrow> ArgsR \<Rightarrow> trans" where
  "trans_divuw d a = require_ext d MISA_M (keep d (gen_divu_remu_w d a False))"

definition trans_remw :: "RiscvDisasContext \<Rightarrow> ArgsR \<Rightarrow> trans" where
  "trans_remw d a = require_ext d MISA_M (keep d (gen_div_rem_w d a True))"

definition trans_remuw :: "RiscvDisasContext \<Rightarrow> ArgsR \<Rightarrow> trans" where
  "trans_remuw d a = require_ext d MISA_M (keep d (gen_divu_remu_w d a True))"

definition trans_lr_w :: "RiscvDisasContext \<Rightarrow> ArgsAtomic \<Rightarrow> trans" where
  "trans_lr_w d a = require_ext d MISA_A (keep d (gen_lr d a memop_sl))"

definition trans_sc_w :: "RiscvDisasContext \<Rightarrow> ArgsAtomic \<Rightarrow> trans" where
  "trans_sc_w d a = require_ext d MISA_A (keep d (gen_sc d a memop_ul))"

definition trans_amoswap_w :: "RiscvDisasContext \<Rightarrow> ArgsAtomic \<Rightarrow> trans" where
  "trans_amoswap_w d a = require_ext d MISA_A (keep d (gen_amo_swap d a memop_sl))"

definition trans_amoadd_w :: "RiscvDisasContext \<Rightarrow> ArgsAtomic \<Rightarrow> trans" where
  "trans_amoadd_w d a = require_ext d MISA_A (keep d (gen_amo d a gen_add memop_sl))"

definition trans_amoxor_w :: "RiscvDisasContext \<Rightarrow> ArgsAtomic \<Rightarrow> trans" where
  "trans_amoxor_w d a = require_ext d MISA_A (keep d (gen_amo d a gen_xor memop_sl))"

definition trans_amoand_w :: "RiscvDisasContext \<Rightarrow> ArgsAtomic \<Rightarrow> trans" where
  "trans_amoand_w d a = require_ext d MISA_A (keep d (gen_amo d a gen_and memop_sl))"

definition trans_amoor_w :: "RiscvDisasContext \<Rightarrow> ArgsAtomic \<Rightarrow> trans" where
  "trans_amoor_w d a = require_ext d MISA_A (keep d (gen_amo d a gen_or memop_sl))"

definition trans_amomin_w :: "RiscvDisasContext \<Rightarrow> ArgsAtomic \<Rightarrow> trans" where
  "trans_amomin_w d a = require_ext d MISA_A (keep d (gen_amo_minmax d a Lt memop_sl))"

definition trans_amomax_w :: "RiscvDisasContext \<Rightarrow> ArgsAtomic \<Rightarrow> trans" where
  "trans_amomax_w d a = require_ext d MISA_A (keep d (gen_amo_minmax d a Gt memop_sl))"

definition trans_amominu_w :: "RiscvDisasContext \<Rightarrow> ArgsAtomic \<Rightarrow> trans" where
  "trans_amominu_w d a = require_ext d MISA_A (keep d (gen_amo_minmax d a Ltu memop_sl))"

definition trans_amomaxu_w :: "RiscvDisasContext \<Rightarrow> ArgsAtomic \<Rightarrow> trans" where
  "trans_amomaxu_w d a = require_ext d MISA_A (keep d (gen_amo_minmax d a Gtu memop_sl))"

definition trans_lr_d :: "RiscvDisasContext \<Rightarrow> ArgsAtomic \<Rightarrow> trans" where
  "trans_lr_d d a = require_ext d MISA_A (keep d (gen_lr d a memop_uq))"

definition trans_sc_d :: "RiscvDisasContext \<Rightarrow> ArgsAtomic \<Rightarrow> trans" where
  "trans_sc_d d a = require_ext d MISA_A (keep d (gen_sc d a memop_uq))"

definition trans_amoswap_d :: "RiscvDisasContext \<Rightarrow> ArgsAtomic \<Rightarrow> trans" where
  "trans_amoswap_d d a = require_ext d MISA_A (keep d (gen_amo_swap d a memop_uq))"

definition trans_amoadd_d :: "RiscvDisasContext \<Rightarrow> ArgsAtomic \<Rightarrow> trans" where
  "trans_amoadd_d d a = require_ext d MISA_A (keep d (gen_amo d a gen_add memop_uq))"

definition trans_amoxor_d :: "RiscvDisasContext \<Rightarrow> ArgsAtomic \<Rightarrow> trans" where
  "trans_amoxor_d d a = require_ext d MISA_A (keep d (gen_amo d a gen_xor memop_uq))"

definition trans_amoand_d :: "RiscvDisasContext \<Rightarrow> ArgsAtomic \<Rightarrow> trans" where
  "trans_amoand_d d a = require_ext d MISA_A (keep d (gen_amo d a gen_and memop_uq))"

definition trans_amoor_d :: "RiscvDisasContext \<Rightarrow> ArgsAtomic \<Rightarrow> trans" where
  "trans_amoor_d d a = require_ext d MISA_A (keep d (gen_amo d a gen_or memop_uq))"

definition trans_amomin_d :: "RiscvDisasContext \<Rightarrow> ArgsAtomic \<Rightarrow> trans" where
  "trans_amomin_d d a = require_ext d MISA_A (keep d (gen_amo_minmax d a Lt memop_uq))"

definition trans_amomax_d :: "RiscvDisasContext \<Rightarrow> ArgsAtomic \<Rightarrow> trans" where
  "trans_amomax_d d a = require_ext d MISA_A (keep d (gen_amo_minmax d a Gt memop_uq))"

definition trans_amominu_d :: "RiscvDisasContext \<Rightarrow> ArgsAtomic \<Rightarrow> trans" where
  "trans_amominu_d d a = require_ext d MISA_A (keep d (gen_amo_minmax d a Ltu memop_uq))"

definition trans_amomaxu_d :: "RiscvDisasContext \<Rightarrow> ArgsAtomic \<Rightarrow> trans" where
  "trans_amomaxu_d d a = require_ext d MISA_A (keep d (gen_amo_minmax d a Gtu memop_uq))"

definition trans_csrrw :: "RiscvDisasContext \<Rightarrow> ArgsCsr \<Rightarrow> trans" where
  "trans_csrrw d a = require_zicsr d (\<lambda>ir. do {
     (old, ir) \<leftarrow> gen_csr_read d (csr_csr a) ir;
     case old of None \<Rightarrow> Some (False, d, ir)
     | Some old \<Rightarrow> do {
     (rs1, ir) \<leftarrow> gpr_or_zero d (csr_rs1 a) ir;
     (ok, ir) \<leftarrow> gen_csr_write d (csr_csr a) rs1 ir;
     if \<not> ok then Some (False, d, ir) else do {
     ir \<leftarrow> gen_set_gpr d (csr_rd a) old ir;
     Some (True, d, ir) } } })"

definition trans_csrrs :: "RiscvDisasContext \<Rightarrow> ArgsCsr \<Rightarrow> trans" where
  "trans_csrrs d a = require_zicsr d (\<lambda>ir. do {
     (old, ir) \<leftarrow> gen_csr_read d (csr_csr a) ir;
     case old of None \<Rightarrow> Some (False, d, ir)
     | Some old \<Rightarrow> do {
     (ok, ir) \<leftarrow> (if csr_rs1 a \<noteq> 0 then do {
       (rs1, ir) \<leftarrow> gpr_or_zero d (csr_rs1 a) ir;
       (new, ir) \<leftarrow> emit (new_temp I64) ir;
       (_, ir) \<leftarrow> emit (gen_or I64 new old rs1) ir;
       gen_csr_write d (csr_csr a) new ir }
     else Some (True, ir));
     if \<not> ok then Some (False, d, ir) else do {
     ir \<leftarrow> gen_set_gpr d (csr_rd a) old ir;
     Some (True, d, ir) } } })"

definition trans_csrrc :: "RiscvDisasContext \<Rightarrow> ArgsCsr \<Rightarrow> trans" where
  "trans_csrrc d a = require_zicsr d (\<lambda>ir. do {
     (old, ir) \<leftarrow> gen_csr_read d (csr_csr a) ir;
     case old of None \<Rightarrow> Some (False, d, ir)
     | Some old \<Rightarrow> do {
     (ok, ir) \<leftarrow> (if csr_rs1 a \<noteq> 0 then do {
       (rs1, ir) \<leftarrow> gpr_or_zero d (csr_rs1 a) ir;
       (inv, ir) \<leftarrow> emit (new_temp I64) ir;
       (_, ir) \<leftarrow> emit (gen_not I64 inv rs1) ir;
       (new, ir) \<leftarrow> emit (new_temp I64) ir;
       (_, ir) \<leftarrow> emit (gen_and I64 new old inv) ir;
       gen_csr_write d (csr_csr a) new ir }
     else Some (True, ir));
     if \<not> ok then Some (False, d, ir) else do {
     ir \<leftarrow> gen_set_gpr d (csr_rd a) old ir;
     Some (True, d, ir) } } })"

definition trans_csrrwi :: "RiscvDisasContext \<Rightarrow> ArgsCsr \<Rightarrow> trans" where
  "trans_csrrwi d a = require_zicsr d (\<lambda>ir. do {
     (old, ir) \<leftarrow> gen_csr_read d (csr_csr a) ir;
     case old of None \<Rightarrow> Some (False, d, ir)
     | Some old \<Rightarrow> do {
     (zimm, ir) \<leftarrow> emit (new_const I64 (csr_rs1 a)) ir;
     (ok, ir) \<leftarrow> gen_csr_write d (csr_csr a) zimm ir;
     if \<not> ok then Some (False, d, ir) else do {
     ir \<leftarrow> gen_set_gpr d (csr_rd a) old ir;
     Some (True, d, ir) } } })"

definition trans_csrrsi :: "RiscvDisasContext \<Rightarrow> ArgsCsr \<Rightarrow> trans" where
  "trans_csrrsi d a = require_zicsr d (\<lambda>ir. do {
     (old, ir) \<leftarrow> gen_csr_read d (csr_csr a) ir;
     case old of None \<Rightarrow> Some (False, d, ir)
     | Some old \<Rightarrow> do {
     (ok, ir) \<leftarrow> (if csr_rs1 a \<noteq> 0 then do {
       (zimm, ir) \<leftarrow> emit (new_const I64 (csr_rs1 a)) ir;
       (new, ir) \<leftarrow> emit (new_temp I64) ir;
       (_, ir) \<leftarrow> emit (gen_or I64 new old zimm) ir;
       gen_csr_write d (csr_csr a) new ir }
     else Some (True, ir));
     if \<not> ok then Some (False, d, ir) else do {
     ir \<leftarrow> gen_set_gpr d (csr_rd a) old ir;
     Some (True, d, ir) } } })"

definition trans_csrrci :: "RiscvDisasContext \<Rightarrow> ArgsCsr \<Rightarrow> trans" where
  "trans_csrrci d a = require_zicsr d (\<lambda>ir. do {
     (old, ir) \<leftarrow> gen_csr_read d (csr_csr a) ir;
     case old of None \<Rightarrow> Some (False, d, ir)
     | Some old \<Rightarrow> do {
     (ok, ir) \<leftarrow> (if csr_rs1 a \<noteq> 0 then do {
       (zimm, ir) \<leftarrow> emit (new_const I64 (csr_rs1 a)) ir;
       (inv, ir) \<leftarrow> emit (new_temp I64) ir;
       (_, ir) \<leftarrow> emit (gen_not I64 inv zimm) ir;
       (new, ir) \<leftarrow> emit (new_temp I64) ir;
       (_, ir) \<leftarrow> emit (gen_and I64 new old inv) ir;
       gen_csr_write d (csr_csr a) new ir }
     else Some (True, ir));
     if \<not> ok then Some (False, d, ir) else do {
     ir \<leftarrow> gen_set_gpr d (csr_rd a) old ir;
     Some (True, d, ir) } } })"

definition trans_flw :: "RiscvDisasContext \<Rightarrow> ArgsI \<Rightarrow> trans" where
  "trans_flw d a = require_ext d MISA_F (keep d (gen_fp_load d a memop_ul True))"

definition trans_fsw :: "RiscvDisasContext \<Rightarrow> ArgsS \<Rightarrow> trans" where
  "trans_fsw d a = require_ext d MISA_F (keep d (gen_fp_store d a memop_ul True))"

definition trans_fld :: "RiscvDisasContext \<Rightarrow> ArgsI \<Rightarrow> trans" where
  "trans_fld d a = require_ext d MISA_D (keep d (gen_fp_load d a memop_uq False))"

definition trans_fsd :: "RiscvDisasContext \<Rightarrow> ArgsS \<Rightarrow> trans" where
  "trans_fsd d a = require_ext d MISA_D (keep d (gen_fp_store d a memop_uq False))"

definition trans_fmadd_s :: "(fpu_helper \<Rightarrow> u64) \<Rightarrow> RiscvDisasContext \<Rightarrow> ArgsR4Rm \<Rightarrow> trans" where
  "trans_fmadd_s H d a = require_ext d MISA_F (\<lambda>ir. do {
     ir \<leftarrow> gen_fp_check d ir;
     ir \<leftarrow> gen_set_fs_dirty d ir;
     (rs1, ir) \<leftarrow> fpr_load d (r4_rs1 a) ir;
     (rs2, ir) \<leftarrow> fpr_load d (r4_rs2 a) ir;
     (rs3, ir) \<leftarrow> fpr_load d (r4_rs3 a) ir;
     (rm, ir) \<leftarrow> emit (new_const I64 (r4_rm a)) ir;
     (res, ir) \<leftarrow> gen_helper_call (H helper_fmadd_s) [d_env d, rs1, rs2, rs3, rm] ir;
     ir \<leftarrow> fpr_store d (r4_rd a) res ir;
     Some (True, d, ir) })"

definition trans_fmsub_s :: "(fpu_helper \<Rightarrow> u64) \<Rightarrow> RiscvDisasContext \<Rightarrow> ArgsR4Rm \<Rightarrow> trans" where
  "trans_fmsub_s H d a = require_ext d MISA_F (\<lambda>ir. do {
     ir \<leftarrow> gen_fp_check d ir;
     ir \<leftarrow> gen_set_fs_dirty d ir;
     (rs1, ir) \<leftarrow> fpr_load d (r4_rs1 a) ir;
     (rs2, ir) \<leftarrow> fpr_load d (r4_rs2 a) ir;
     (rs3, ir) \<leftarrow> fpr_load d (r4_rs3 a) ir;
     (rm, ir) \<leftarrow> emit (new_const I64 (r4_rm a)) ir;
     (res, ir) \<leftarrow> gen_helper_call (H helper_fmsub_s) [d_env d, rs1, rs2, rs3, rm] ir;
     ir \<leftarrow> fpr_store d (r4_rd a) res ir;
     Some (True, d, ir) })"

definition trans_fnmsub_s :: "(fpu_helper \<Rightarrow> u64) \<Rightarrow> RiscvDisasContext \<Rightarrow> ArgsR4Rm \<Rightarrow> trans" where
  "trans_fnmsub_s H d a = require_ext d MISA_F (\<lambda>ir. do {
     ir \<leftarrow> gen_fp_check d ir;
     ir \<leftarrow> gen_set_fs_dirty d ir;
     (rs1, ir) \<leftarrow> fpr_load d (r4_rs1 a) ir;
     (rs2, ir) \<leftarrow> fpr_load d (r4_rs2 a) ir;
     (rs3, ir) \<leftarrow> fpr_load d (r4_rs3 a) ir;
     (rm, ir) \<leftarrow> emit (new_const I64 (r4_rm a)) ir;
     (res, ir) \<leftarrow> gen_helper_call (H helper_fnmsub_s) [d_env d, rs1, rs2, rs3, rm] ir;
     ir \<leftarrow> fpr_store d (r4_rd a) res ir;
     Some (True, d, ir) })"

definition trans_fnmadd_s :: "(fpu_helper \<Rightarrow> u64) \<Rightarrow> RiscvDisasContext \<Rightarrow> ArgsR4Rm \<Rightarrow> trans" where
  "trans_fnmadd_s H d a = require_ext d MISA_F (\<lambda>ir. do {
     ir \<leftarrow> gen_fp_check d ir;
     ir \<leftarrow> gen_set_fs_dirty d ir;
     (rs1, ir) \<leftarrow> fpr_load d (r4_rs1 a) ir;
     (rs2, ir) \<leftarrow> fpr_load d (r4_rs2 a) ir;
     (rs3, ir) \<leftarrow> fpr_load d (r4_rs3 a) ir;
     (rm, ir) \<leftarrow> emit (new_const I64 (r4_rm a)) ir;
     (res, ir) \<leftarrow> gen_helper_call (H helper_fnmadd_s) [d_env d, rs1, rs2, rs3, rm] ir;
     ir \<leftarrow> fpr_store d (r4_rd a) res ir;
     Some (True, d, ir) })"

definition trans_fadd_s :: "(fpu_helper \<Rightarrow> u64) \<Rightarrow> RiscvDisasContext \<Rightarrow> ArgsRRm \<Rightarrow> trans" where
  "trans_fadd_s H d a = require_ext d MISA_F (\<lambda>ir. do {
     ir \<leftarrow> gen_fp_check d ir;
     ir \<leftarrow> gen_set_fs_dirty d ir;
     (rs1, ir) \<leftarrow> fpr_load d (rm_rs1 a) ir;
     (rs2, ir) \<leftarrow> fpr_load d (rm_rs2 a) ir;
     (rm, ir) \<leftarrow> emit (new_const I64 (rm_rm a)) ir;
     (res, ir) \<leftarrow> gen_helper_call (H helper_fadd_s) [d_env d, rs1, rs2, rm] ir;
     ir \<leftarrow> fpr_store d (rm_rd a) res ir;
     Some (True, d, ir) })"

definition trans_fsub_s :: "(fpu_helper \<Rightarrow> u64) \<Rightarrow> RiscvDisasContext \<Rightarrow> ArgsRRm \<Rightarrow> trans" where
  "trans_fsub_s H d a = require_ext d MISA_F (\<lambda>ir. do {
     ir \<leftarrow> gen_fp_check d ir;
     ir \<leftarrow> gen_set_fs_dirty d ir;
     (rs1, ir) \<leftarrow> fpr_load d (rm_rs1 a) ir;
     (rs2, ir) \<leftarrow> fpr_load d (rm_rs2 a) ir;
     (rm, ir) \<leftarrow> emit (new_const I64 (rm_rm a)) ir;
     (res, ir) \<leftarrow> gen_helper_call (H helper_fsub_s) [d_env d, rs1, rs2, rm] ir;
     ir \<leftarrow> fpr_store d (rm_rd a) res ir;
     Some (True, d, ir) })"

definition trans_fmul_s :: "(fpu_helper \<Rightarrow> u64) \<Rightarrow> RiscvDisasContext \<Rightarrow> ArgsRRm \<Rightarrow> trans" where
  "trans_fmul_s H d a = require_ext d MISA_F (\<lambda>ir. do {
     ir \<leftarrow> gen_fp_check d ir;
     ir \<leftarrow> gen_set_fs_dirty d ir;
     (rs1, ir) \<leftarrow> fpr_load d (rm_rs1 a) ir;
     (rs2, ir) \<leftarrow> fpr_load d (rm_rs2 a) ir;
     (rm, ir) \<leftarrow> emit (new_const I64 (rm_rm a)) ir;
     (res, ir) \<leftarrow> gen_helper_call (H helper_fmul_s) [d_env d, rs1, rs2, rm] ir;
     ir \<leftarrow> fpr_store d (rm_rd a) res ir;
     Some (True, d, ir) })"

definition trans_fdiv_s :: "(fpu_helper \<Rightarrow> u64) \<Rightarrow> RiscvDisasContext \<Rightarrow> ArgsRRm \<Rightarrow> trans" where
  "trans_fdiv_s H d a = require_ext d MISA_F (\<lambda>ir. do {
     ir \<leftarrow> gen_fp_check d ir;
     ir \<leftarrow> gen_set_fs_dirty d ir;
     (rs1, ir) \<leftarrow> fpr_load d (rm_rs1 a) ir;
     (rs2, ir) \<leftarrow> fpr_load d (rm_rs2 a) ir;
     (rm, ir) \<leftarrow> emit (new_const I64 (rm_rm a)) ir;
     (res, ir) \<leftarrow> gen_helper_call (H helper_fdiv_s) [d_env d, rs1, rs2, rm] ir;
     ir \<leftarrow> fpr_store d (rm_rd a) res ir;
     Some (True, d, ir) })"

definition trans_fsqrt_s :: "(fpu_helper \<Rightarrow> u64) \<Rightarrow> RiscvDisasContext \<Rightarrow> ArgsR2Rm \<Rightarrow> trans" where
  "trans_fsqrt_s H d a = require_ext d MISA_F (\<lambda>ir. do {
     ir \<leftarrow> gen_fp_check d ir;
     ir \<leftarrow> gen_set_fs_dirty d ir;
     (rs1, ir) \<leftarrow> fpr_load d (r2m_rs1 a) ir;
     (rm, ir) \<leftarrow> emit (new_const I64 (r2m_rm a)) ir;
     (res, ir) \<leftarrow> gen_helper_call (H helper_fsqrt_s) [d_env d, rs1, rm] ir;
     ir \<leftarrow> fpr_store d (r2m_rd a) res ir;
     Some (True, d, ir) })"

definition trans_fsgnj_s :: "(fpu_helper \<Rightarrow> u64) \<Rightarrow> RiscvDisasContext \<Rightarrow> ArgsR \<Rightarrow> trans" where
  "trans_fsgnj_s H d a = require_ext d MISA_F (\<lambda>ir. do {
     ir \<leftarrow> gen_fp_check d ir;
     ir \<leftarrow> gen_set_fs_dirty d ir;
     (rs1, ir) \<leftarrow> fpr_load d (r_rs1 a) ir;
     (rs2, ir) \<leftarrow> fpr_load d (r_rs2 a) ir;
     (res, ir) \<leftarrow> gen_helper_call (H helper_fsgnj_s) [d_env d, rs1, rs2] ir;
     ir \<leftarrow> fpr_store d (r_rd a) res ir;
     Some (True, d, ir) })"

definition trans_fsgnjn_s :: "(fpu_helper \<Rightarrow> u64) \<Rightarrow> RiscvDisasContext \<Rightarrow> ArgsR \<Rightarrow> trans" where
  "trans_fsgnjn_s H d a = require_ext d MISA_F (\<lambda>ir. do {
     ir \<leftarrow> gen_fp_check d ir;
     ir \<leftarrow> gen_set_fs_dirty d ir;
     (rs1, ir) \<leftarrow> fpr_load d (r_rs1 a) ir;
     (rs2, ir) \<leftarrow> fpr_load d (r_rs2 a) ir;
     (res, ir) \<leftarrow> gen_helper_call (H helper_fsgnjn_s) [d_env d, rs1, rs2] ir;
     ir \<leftarrow> fpr_store d (r_rd a) res ir;
     Some (True, d, ir) })"

definition trans_fsgnjx_s :: "(fpu_helper \<Rightarrow> u64) \<Rightarrow> RiscvDisasContext \<Rightarrow> ArgsR \<Rightarrow> trans" where
  "trans_fsgnjx_s H d a = require_ext d MISA_F (\<lambda>ir. do {
     ir \<leftarrow> gen_fp_check d ir;
     ir \<leftarrow> gen_set_fs_dirty d ir;
     (rs1, ir) \<leftarrow> fpr_load d (r_rs1 a) ir;
     (rs2, ir) \<leftarrow> fpr_load d (r_rs2 a) ir;
     (res, ir) \<leftarrow> gen_helper_call (H helper_fsgnjx_s) [d_env d, rs1, rs2] ir;
     ir \<leftarrow> fpr_store d (r_rd a) res ir;
     Some (True, d, ir) })"

definition trans_fmin_s :: "(fpu_helper \<Rightarrow> u64) \<Rightarrow> RiscvDisasContext \<Rightarrow> ArgsR \<Rightarrow> trans" where
  "trans_fmin_s H d a = require_ext d MISA_F (\<lambda>ir. do {
     ir \<leftarrow> gen_fp_check d ir;
     ir \<leftarrow> gen_set_fs_dirty d ir;
     (rs1, ir) \<leftarrow> fpr_load d (r_rs1 a) ir;
     (rs2, ir) \<leftarrow> fpr_load d (r_rs2 a) ir;
     (res, ir) \<leftarrow> gen_helper_call (H helper_fmin_s) [d_env d, rs1, rs2] ir;
     ir \<leftarrow> fpr_store d (r_rd a) res ir;
     Some (True, d, ir) })"

definition trans_fmax_s :: "(fpu_helper \<Rightarrow> u64) \<Rightarrow> RiscvDisasContext \<Rightarrow> ArgsR \<Rightarrow> trans" where
  "trans_fmax_s H d a = require_ext d MISA_F (\<lambda>ir. do {
     ir \<leftarrow> gen_fp_check d ir;
     ir \<leftarrow> gen_set_fs_dirty d ir;
     (rs1, ir) \<leftarrow> fpr_load d (r_rs1 a) ir;
     (rs2, ir) \<leftarrow> fpr_load d (r_rs2 a) ir;
     (res, ir) \<leftarrow> gen_helper_call (H helper_fmax_s) [d_env d, rs1, rs2] ir;
     ir \<leftarrow> fpr_store d (r_rd a) res ir;
     Some (True, d, ir) })"

definition trans_feq_s :: "(fpu_helper \<Rightarrow> u64) \<Rightarrow> RiscvDisasContext \<Rightarrow> ArgsR \<Rightarrow> trans" where
  "trans_feq_s H d a = require_ext d MISA_F (\<lambda>ir. do {
     ir \<leftarrow> gen_fp_check d ir;
     (rs1, ir) \<leftarrow> fpr_load d (r_rs1 a) ir;
     (rs2, ir) \<leftarrow> fpr_load d (r_rs2 a) ir;
     (res, ir) \<leftarrow> gen_helper_call (H helper_feq_s) [d_env d, rs1, rs2] ir;
     ir \<leftarrow> gen_set_gpr d (r_rd a) res ir;
     Some (True, d, ir) })"

definition trans_flt_s :: "(fpu_helper \<Rightarrow> u64) \<Rightarrow> RiscvDisasContext \<Rightarrow> ArgsR \<Rightarrow> trans" where
  "trans_flt_s H d a = require_ext d MISA_F (\<lambda>ir. do {
     ir \<leftarrow> gen_fp_check d ir;
     (rs1, ir) \<leftarrow> fpr_load d (r_rs1 a) ir;
     (rs2, ir) \<leftarrow> fpr_load d (r_rs2 a) ir;
     (res, ir) \<leftarrow> gen_helper_call (H helper_flt_s) [d_env d, rs1, rs2] ir;
     ir \<leftarrow> gen_set_gpr d (r_rd a) res ir;
     Some (True, d, ir) })"

definition trans_fle_s :: "(fpu_helper \<Rightarrow> u64) \<Rightarrow> RiscvDisasContext \<Rightarrow> ArgsR \<Rightarrow> trans" where
  "trans_fle_s H d a = require_ext d MISA_F (\<lambda>ir. do {
     ir \<leftarrow> gen_fp_check d ir;
     (rs1, ir) \<leftarrow> fpr_load d (r_rs1 a) ir;
     (rs2, ir) \<leftarrow> fpr_load d (r_rs2 a) ir;
     (res, ir) \<leftarrow> gen_helper_call (H helper_fle_s) [d_env d, rs1, rs2] ir;
     ir \<leftarrow> gen_set_gpr d (r_rd a) res ir;
     Some (True, d, ir) })"

definition trans_fclass_s :: "(fpu_helper \<Rightarrow> u64) \<Rightarrow> RiscvDisasContext \<Rightarrow> ArgsR2 \<Rightarrow> trans" where
  "trans_fclass_s H d a = require_ext d MISA_F (\<lambda>ir. do {
     ir \<leftarrow> gen_fp_check d ir;
     (rs1, ir) \<leftarrow> fpr_load d (r2_rs1 a) ir;
     (res, ir) \<leftarrow> gen_helper_call (H helper_fclass_s) [d_env d, rs1] ir;
     ir \<leftarrow> gen_set_gpr d (r2_rd a) res ir;
     Some (True, d, ir) })"

definition trans_fcvt_w_s :: "(fpu_helper \<Rightarrow> u64) \<Rightarrow> RiscvDisasContext \<Rightarrow> ArgsR2Rm \<Rightarrow> trans" where
  "trans_fcvt_w_s H d a = require_ext d MISA_F (\<lambda>ir. do {
     ir \<leftarrow> gen_fp_check d ir;
     (rs1, ir) \<leftarrow> fpr_load d (r2m_rs1 a) ir;
     (rm, ir) \<leftarrow> emit (new_const I64 (r2m_rm a)) ir;
     (res, ir) \<leftarrow> gen_helper_call (H helper_fcvt_w_s) [d_env d, rs1, rm] ir;
     ir \<leftarrow> gen_set_gpr d (r2m_rd a) res ir;
     Some (True, d, ir) })"

definition trans_fcvt_wu_s :: "(fpu_helper \<Rightarrow> u64) \<Rightarrow> RiscvDisasContext \<Rightarrow> ArgsR2Rm \<Rightarrow> trans" where
  "trans_fcvt_wu_s H d a = require_ext d MISA_F (\<lambda>ir. do {
     ir \<leftarrow> gen_fp_check d ir;
     (rs1, ir) \<leftarrow> fpr_load d (r2m_rs1 a) ir;
     (rm, ir) \<leftarrow> emit (new_const I64 (r2m_rm a)) ir;
     (res, ir) \<leftarrow> gen_helper_call (H helper_fcvt_wu_s) [d_env d, rs1, rm] ir;
     ir \<leftarrow> gen_set_gpr d (r2m_rd a) res ir;
     Some (True, d, ir) })"

definition trans_fcvt_s_w :: "(fpu_helper \<Rightarrow> u64) \<Rightarrow> RiscvDisasContext \<Rightarrow> ArgsR2Rm \<Rightarrow> trans" where
  "trans_fcvt_s_w H d a = require_ext d MISA_F (\<lambda>ir. do {
     ir \<leftarrow> gen_fp_check d ir;
     ir \<leftarrow> gen_set_fs_dirty d ir;
     (rs1, ir) \<leftarrow> gpr_or_zero d (r2m_rs1 a) ir;
     (rm, ir) \<leftarrow> emit (new_const I64 (r2m_rm a)) ir;
     (res, ir) \<leftarrow> gen_helper_call (H helper_fcvt_s_w) [d_env d, rs1, rm] ir;
     ir \<leftarrow> fpr_store d (r2m_rd a) res ir;
     Some (True, d, ir) })"

definition trans_fcvt_s_wu :: "(fpu_helper \<Rightarrow> u64) \<Rightarrow> RiscvDisasContext \<Rightarrow> ArgsR2Rm \<Rightarrow> trans" where
  "trans_fcvt_s_wu H d a = require_ext d MISA_F (\<lambda>ir. do {
     ir \<leftarrow> gen_fp_check d ir;
     ir \<leftarrow> gen_set_fs_dirty d ir;
     (rs1, ir) \<leftarrow> gpr_or_zero d (r2m_rs1 a) ir;
     (rm, ir) \<leftarrow> emit (new_const I64 (r2m_rm a)) ir;
     (res, ir) \<leftarrow> gen_helper_call (H helper_fcvt_s_wu) [d_env d, rs1, rm] ir;
     ir \<leftarrow> fpr_store d (r2m_rd a) res ir;
     Some (True, d, ir) })"

definition trans_fmv_x_w :: "RiscvDisasContext \<Rightarrow> ArgsR2 \<Rightarrow> trans" where
  "trans_fmv_x_w d a = require_ext d MISA_F (\<lambda>ir. do {
     ir \<leftarrow> gen_fp_check d ir;
     (val, ir) \<leftarrow> fpr_load d (r2_rs1 a) ir;
     (lo32, ir) \<leftarrow> emit (new_temp I32) ir;
     (_, ir) \<leftarrow> emit (gen_extrl_i64_i32 lo32 val) ir;
     ir \<leftarrow> gen_set_gpr_sx32 d (r2_rd a) lo32 ir;
     Some (True, d, ir) })"

definition trans_fmv_w_x :: "RiscvDisasContext \<Rightarrow> ArgsR2 \<Rightarrow> trans" where
  "trans_fmv_w_x d a = require_ext d MISA_F (\<lambda>ir. do {
     ir \<leftarrow> gen_fp_check d ir;
     ir \<leftarrow> gen_set_fs_dirty d ir;
     (src, ir) \<leftarrow> gpr_or_zero d (r2_rs1 a) ir;
     (lo32, ir) \<leftarrow> emit (new_temp I32) ir;
     (_, ir) \<leftarrow> emit (gen_extrl_i64_i32 lo32 src) ir;
     (lo64, ir) \<leftarrow> emit (new_temp I64) ir;
     (_, ir) \<leftarrow> emit (gen_ext_u32_i64 lo64 lo32) ir;
     (mask, ir) \<leftarrow> emit (new_const I64 0xffffffff00000000) ir;
     (boxed, ir) \<leftarrow> emit (new_temp I64) ir;
     (_, ir) \<leftarrow> emit (gen_or I64 boxed lo64 mask) ir;
     ir \<leftarrow> fpr_store d (r2_rd a) boxed ir;
     Some (True, d, ir) })"

definition trans_fcvt_l_s :: "(fpu_helper \<Rightarrow> u64) \<Rightarrow> RiscvDisasContext \<Rightarrow> ArgsR2Rm \<Rightarrow> trans" where
  "trans_fcvt_l_s H d a = require_ext d MISA_F (\<lambda>ir. do {
     ir \<leftarrow> gen_fp_check d ir;
     (rs1, ir) \<leftarrow> fpr_load d (r2m_rs1 a) ir;
     (rm, ir) \<leftarrow> emit (new_const I64 (r2m_rm a)) ir;
     (res, ir) \<leftarrow> gen_helper_call (H helper_fcvt_l_s) [d_env d, rs1, rm] ir;
     ir \<leftarrow> gen_set_gpr d (r2m_rd a) res ir;
     Some (True, d, ir) })"

definition trans_fcvt_lu_s :: "(fpu_helper \<Rightarrow> u64) \<Rightarrow> RiscvDisasContext \<Rightarrow> ArgsR2Rm \<Rightarrow> trans" where
  "trans_fcvt_lu_s H d a = require_ext d MISA_F (\<lambda>ir. do {
     ir \<leftarrow> gen_fp_check d ir;
     (rs1, ir) \<leftarrow> fpr_load d (r2m_rs1 a) ir;
     (rm, ir) \<leftarrow> emit (new_const I64 (r2m_rm a)) ir;
     (res, ir) \<leftarrow> gen_helper_call (H helper_fcvt_lu_s) [d_env d, rs1, rm] ir;
     ir \<leftarrow> gen_set_gpr d (r2m_rd a) res ir;
     Some (True, d, ir) })"

definition trans_fcvt_s_l :: "(fpu_helper \<Rightarrow> u64) \<Rightarrow> RiscvDisasContext \<Rightarrow> ArgsR2Rm \<Rightarrow> trans" where
  "trans_fcvt_s_l H d a = require_ext d MISA_F (\<lambda>ir. do {
     ir \<leftarrow> gen_fp_check d ir;
     ir \<leftarrow> gen_set_fs_dirty d ir;
     (rs1, ir) \<leftarrow> gpr_or_zero d (r2m_rs1 a) ir;
     (rm, ir) \<leftarrow> emit (new_const I64 (r2m_rm a)) ir;
     (res, ir) \<leftarrow> gen_helper_call (H helper_fcvt_s_l) [d_env d, rs1, rm] ir;
     ir \<leftarrow> fpr_store d (r2m_rd a) res ir;
     Some (True, d, ir) })"

definition trans_fcvt_s_lu :: "(fpu_helper \<Rightarrow> u64) \<Rightarrow> RiscvDisasContext \<Rightarrow> ArgsR2Rm \<Rightarrow> trans" where
  "trans_fcvt_s_lu H d a = require_ext d MISA_F (\<lambda>ir. do {
     ir \<leftarrow> gen_fp_check d ir;
     ir \<leftarrow> gen_set_fs_dirty d ir;
     (rs1, ir) \<leftarrow> gpr_or_zero d (r2m_rs1 a) ir;
     (rm, ir) \<leftarrow> emit (new_const I64 (r2m_rm a)) ir;
     (res, ir) \<leftarrow> gen_helper_call (H helper_fcvt_s_lu) [d_env d, rs1, rm] ir;
     ir \<leftarrow> fpr_store d (r2m_rd a) res ir;
     Some (True, d, ir) })"

definition trans_fmadd_d :: "(fpu_helper \<Rightarrow> u64) \<Rightarrow> RiscvDisasContext \<Rightarrow> ArgsR4Rm \<Rightarrow> trans" where
  "trans_fmadd_d H d a = require_ext d MISA_D (\<lambda>ir. do {
     ir \<leftarrow> gen_fp_check d ir;
     ir \<leftarrow> gen_set_fs_dirty d ir;
     (rs1, ir) \<leftarrow> fpr_load d (r4_rs1 a) ir;
     (rs2, ir) \<leftarrow> fpr_load d (r4_rs2 a) ir;
     (rs3, ir) \<leftarrow> fpr_load d (r4_rs3 a) ir;
     (rm, ir) \<leftarrow> emit (new_const I64 (r4_rm a)) ir;
     (res, ir) \<leftarrow> gen_helper_call (H helper_fmadd_d) [d_env d, rs1, rs2, rs3, rm] ir;
     ir \<leftarrow> fpr_store d (r4_rd a) res ir;
     Some (True, d, ir) })"

definition trans_fmsub_d :: "(fpu_helper \<Rightarrow> u64) \<Rightarrow> RiscvDisasContext \<Rightarrow> ArgsR4Rm \<Rightarrow> trans" where
  "trans_fmsub_d H d a = require_ext d MISA_D (\<lambda>ir. do {
     ir \<leftarrow> gen_fp_check d ir;
     ir \<leftarrow> gen_set_fs_dirty d ir;
     (rs1, ir) \<leftarrow> fpr_load d (r4_rs1 a) ir;
     (rs2, ir) \<leftarrow> fpr_load d (r4_rs2 a) ir;
     (rs3, ir) \<leftarrow> fpr_load d (r4_rs3 a) ir;
     (rm, ir) \<leftarrow> emit (new_const I64 (r4_rm a)) ir;
     (res, ir) \<leftarrow> gen_helper_call (H helper_fmsub_d) [d_env d, rs1, rs2, rs3, rm] ir;
     ir \<leftarrow> fpr_store d (r4_rd a) res ir;
     Some (True, d, ir) })"

definition trans_fnmsub_d :: "(fpu_helper \<Rightarrow> u64) \<Rightarrow> RiscvDisasContext \<Rightarrow> ArgsR4Rm \<Rightarrow> trans" where
  "trans_fnmsub_d H d a = require_ext d MISA_D (\<lambda>ir. do {
     ir \<leftarrow> gen_fp_check d ir;
     ir \<leftarrow> gen_set_fs_dirty d ir;
     (rs1, ir) \<leftarrow> fpr_load d (r4_rs1 a) ir;
     (rs2, ir) \<leftarrow> fpr_load d (r4_rs2 a) ir;
     (rs3, ir) \<leftarrow> fpr_load d (r4_rs3 a) ir;
     (rm, ir) \<leftarrow> emit (new_const I64 (r4_rm a)) ir;
     (res, ir) \<leftarrow> gen_helper_call (H helper_fnmsub_d) [d_env d, rs1, rs2, rs3, rm] ir;
     ir \<leftarrow> fpr_store d (r4_rd a) res ir;
     Some (True, d, ir) })"

definition trans_fnmadd_d :: "(fpu_helper \<Rightarrow> u64) \<Rightarrow> RiscvDisasContext \<Rightarrow> ArgsR4Rm \<Rightarrow> trans" where
  "trans_fnmadd_d H d a = require_ext d MISA_D (\<lambda>ir. do {
     ir \<leftarrow> gen_fp_check d ir;
     ir \<leftarrow> gen_set_fs_dirty d ir;
     (rs1, ir) \<leftarrow> fpr_load d (r4_rs1 a) ir;
     (rs2, ir) \<leftarrow> fpr_load d (r4_rs2 a) ir;
     (rs3, ir) \<leftarrow> fpr_load d (r4_rs3 a) ir;
     (rm, ir) \<leftarrow> emit (new_const I64 (r4_rm a)) ir;
     (res, ir) \<leftarrow> gen_helper_call (H helper_fnmadd_d) [d_env d, rs1, rs2, rs3, rm] ir;
     ir \<leftarrow> fpr_store d (r4_rd a) res ir;
     Some (True, d, ir) })"

definition trans_fadd_d :: "(fpu_helper \<Rightarrow> u64) \<Rightarrow> RiscvDisasContext \<Rightarrow> ArgsRRm \<Rightarrow> trans" where
  "trans_fadd_d H d a = require_ext d MISA_D (\<lambda>ir. do {
     ir \<leftarrow> gen_fp_check d ir;
     ir \<leftarrow> gen_set_fs_dirty d ir;
     (rs1, ir) \<leftarrow> fpr_load d (rm_rs1 a) ir;
     (rs2, ir) \<leftarrow> fpr_load d (rm_rs2 a) ir;
     (rm, ir) \<leftarrow> emit (new_const I64 (rm_rm a)) ir;
     (res, ir) \<leftarrow> gen_helper_call (H helper_fadd_d) [d_env d, rs1, rs2, rm] ir;
     ir \<leftarrow> fpr_store d (rm_rd a) res ir;
     Some (True, d, ir) })"

definition trans_fsub_d :: "(fpu_helper \<Rightarrow> u64) \<Rightarrow> RiscvDisasContext \<Rightarrow> ArgsRRm \<Rightarrow> trans" where
  "trans_fsub_d H d a = require_ext d MISA_D (\<lambda>ir. do {
     ir \<leftarrow> gen_fp_check d ir;
     ir \<leftarrow> gen_set_fs_dirty d ir;
     (rs1, ir) \<leftarrow> fpr_load d (rm_rs1 a) ir;
     (rs2, ir) \<leftarrow> fpr_load d (rm_rs2 a) ir;
     (rm, ir) \<leftarrow> emit (new_const I64 (rm_rm a)) ir;
     (res, ir) \<leftarrow> gen_helper_call (H helper_fsub_d) [d_env d, rs1, rs2, rm] ir;
     ir \<leftarrow> fpr_store d (rm_rd a) res ir;
     Some (True, d, ir) })"

definition trans_fmul_d :: "(fpu_helper \<Rightarrow> u64) \<Rightarrow> RiscvDisasContext \<Rightarrow> ArgsRRm \<Rightarrow> trans" where
  "trans_fmul_d H d a = require_ext d MISA_D (\<lambda>ir. do {
     ir \<leftarrow> gen_fp_check d ir;
     ir \<leftarrow> gen_set_fs_dirty d ir;
     (rs1, ir) \<leftarrow> fpr_load d (rm_rs1 a) ir;
     (rs2, ir) \<leftarrow> fpr_load d (rm_rs2 a) ir;
     (rm, ir) \<leftarrow> emit (new_const I64 (rm_rm a)) ir;
     (res, ir) \<leftarrow> gen_helper_call (H helper_fmul_d) [d_env d, rs1, rs2, rm] ir;
     ir \<leftarrow> fpr_store d (rm_rd a) res ir;
     Some (True, d, ir) })"

definition trans_fdiv_d :: "(fpu_helper \<Rightarrow> u64) \<Rightarrow> RiscvDisasContext \<Rightarrow> ArgsRRm \<Rightarrow> trans" where
  "trans_fdiv_d H d a = require_ext d MISA_D (\<lambda>ir. do {
     ir \<leftarrow> gen_fp_check d ir;
     ir \<leftarrow> gen_set_fs_dirty d ir;
     (rs1, ir) \<leftarrow> fpr_load d (rm_rs1 a) ir;
     (rs2, ir) \<leftarrow> fpr_load d (rm_rs2 a) ir;
     (rm, ir) \<leftarrow> emit (new_const I64 (rm_rm a)) ir;
     (res, ir) \<leftarrow> gen_helper_call (H helper_fdiv_d) [d_env d, rs1, rs2, rm] ir;
     ir \<leftarrow> fpr_store d (rm_rd a) res ir;
     Some (True, d, ir) })"

definition trans_fsqrt_d :: "(fpu_helper \<Rightarrow> u64) \<Rightarrow> RiscvDisasContext \<Rightarrow> ArgsR2Rm \<Rightarrow> trans" where
  "trans_fsqrt_d H d a = require_ext d MISA_D (\<lambda>ir. do {
     ir \<leftarrow> gen_fp_check d ir;
     ir \<leftarrow> gen_set_fs_dirty d ir;
     (rs1, ir) \<leftarrow> fpr_load d (r2m_rs1 a) ir;
     (rm, ir) \<leftarrow> emit (new_const I64 (r2m_rm a)) ir;
     (res, ir) \<leftarrow> gen_helper_call (H helper_fsqrt_d) [d_env d, rs1, rm] ir;
     ir \<leftarrow> fpr_store d (r2m_rd a) res ir;
     Some (True, d, ir) })"

definition trans_fsgnj_d :: "(fpu_helper \<Rightarrow> u64) \<Rightarrow> RiscvDisasContext \<Rightarrow> ArgsR \<Rightarrow> trans" where
  "trans_fsgnj_d H d a = require_ext d MISA_D (\<lambda>ir. do {
     ir \<leftarrow> gen_fp_check d ir;
     ir \<leftarrow> gen_set_fs_dirty d ir;
     (rs1, ir) \<leftarrow> fpr_load d (r_rs1 a) ir;
     (rs2, ir) \<leftarrow> fpr_load d (r_rs2 a) ir;
     (res, ir) \<leftarrow> gen_helper_call (H helper_fsgnj_d) [d_env d, rs1, rs2] ir;
     ir \<leftarrow> fpr_store d (r_rd a) res ir;
     Some (True, d, ir) })"

definition trans_fsgnjn_d :: "(fpu_helper \<Rightarrow> u64) \<Rightarrow> RiscvDisasContext \<Rightarrow> ArgsR \<Rightarrow> trans" where
  "trans_fsgnjn_d H d a = require_ext d MISA_D (\<lambda>ir. do {
     ir \<leftarrow> gen_fp_check d ir;
     ir \<leftarrow> gen_set_fs_dirty d ir;
     (rs1, ir) \<leftarrow> fpr_load d (r_rs1 a) ir;
     (rs2, ir) \<leftarrow> fpr_load d (r_rs2 a) ir;
     (res, ir) \<leftarrow> gen_helper_call (H helper_fsgnjn_d) [d_env d, rs1, rs2] ir;
     ir \<leftarrow> fpr_store d (r_rd a) res ir;
     Some (True, d, ir) })"

definition trans_fsgnjx_d :: "(fpu_helper \<Rightarrow> u64) \<Rightarrow> RiscvDisasContext \<Rightarrow> ArgsR \<Rightarrow> trans" where
  "trans_fsgnjx_d H d a = require_ext d MISA_D (\<lambda>ir. do {
     ir \<leftarrow> gen_fp_check d ir;
     ir \<leftarrow> gen_set_fs_dirty d ir;
     (rs1, ir) \<leftarrow> fpr_load d (r_rs1 a) ir;
     (rs2, ir) \<leftarrow> fpr_load d (r_rs2 a) ir;
     (res, ir) \<leftarrow> gen_helper_call (H helper_fsgnjx_d) [d_env d, rs1, rs2] ir;
     ir \<leftarrow> fpr_store d (r_rd a) res ir;
     Some (True, d, ir) })"

definition trans_fmin_d :: "(fpu_helper \<Rightarrow> u64) \<Rightarrow> RiscvDisasContext \<Rightarrow> ArgsR \<Rightarrow> trans" where
  "trans_fmin_d H d a = require_ext d MISA_D (\<lambda>ir. do {
     ir \<leftarrow> gen_fp_check d ir;
     ir \<leftarrow> gen_set_fs_dirty d ir;
     (rs1, ir) \<leftarrow> fpr_load d (r_rs1 a) ir;
     (rs2, ir) \<leftarrow> fpr_load d (r_rs2 a) ir;
     (res, ir) \<leftarrow> gen_helper_call (H helper_fmin_d) [d_env d, rs1, rs2] ir;
     ir \<leftarrow> fpr_store d (r_rd a) res ir;
     Some (True, d, ir) })"

definition trans_fmax_d :: "(fpu_helper \<Rightarrow> u64) \<Rightarrow> RiscvDisasContext \<Rightarrow> ArgsR \<Rightarrow> trans" where
  "trans_fmax_d H d a = require_ext d MISA_D (\<lambda>ir. do {
     ir \<leftarrow> gen_fp_check d ir;
     ir \<leftarrow> gen_set_fs_dirty d ir;
     (rs1, ir) \<leftarrow> fpr_load d (r_rs1 a) ir;
     (rs2, ir) \<leftarrow> fpr_load d (r_rs2 a) ir;
     (res, ir) \<leftarrow> gen_helper_call (H helper_fmax_d) [d_env d, rs1, rs2] ir;
     ir \<leftarrow> fpr_store d (r_rd a) res ir;
     Some (True, d, ir) })"

definition trans_feq_d :: "(fpu_helper \<Rightarrow> u64) \<Rightarrow> RiscvDisasContext \<Rightarrow> ArgsR \<Rightarrow> trans" where
  "trans_feq_d H d a = require_ext d MISA_D (\<lambda>ir. do {
     ir \<leftarrow> gen_fp_check d ir;
     (rs1, ir) \<leftarrow> fpr_load d (r_rs1 a) ir;
     (rs2, ir) \<leftarrow> fpr_load d (r_rs2 a) ir;
     (res, ir) \<leftarrow> gen_helper_call (H helper_feq_d) [d_env d, rs1, rs2] ir;
     ir \<leftarrow> gen_set_gpr d (r_rd a) res ir;
     Some (True, d, ir) })"

definition trans_flt_d :: "(fpu_helper \<Rightarrow> u64) \<Rightarrow> RiscvDisasContext \<Rightarrow> ArgsR \<Rightarrow> trans" where
  "trans_flt_d H d a = require_ext d MISA_D (\<lambda>ir. do {
     ir \<leftarrow> gen_fp_check d ir;
     (rs1, ir) \<leftarrow> fpr_load d (r_rs1 a) ir;
     (rs2, ir) \<leftarrow> fpr_load d (r_rs2 a) ir;
     (res, ir) \<leftarrow> gen_helper_call (H helper_flt_d) [d_env d, rs1, rs2] ir;
     ir \<leftarrow> gen_set_gpr d (r_rd a) res ir;
     Some (True, d, ir) })"

definition trans_fle_d :: "(fpu_helper \<Rightarrow> u64) \<Rightarrow> RiscvDisasContext \<Rightarrow> ArgsR \<Rightarrow> trans" where
  "trans_fle_d H d a = require_ext d MISA_D (\<lambda>ir. do {
     ir \<leftarrow> gen_fp_check d ir;
     (rs1, ir) \<leftarrow> fpr_load d (r_rs1 a) ir;
     (rs2, ir) \<leftarrow> fpr_load d (r_rs2 a) ir;
     (res, ir) \<leftarrow> gen_helper_call (H helper_fle_d) [d_env d, rs1, rs2] ir;
     ir \<leftarrow> gen_set_gpr d (r_rd a) res ir;
     Some (True, d, ir) })"

definition trans_fclass_d :: "(fpu_helper \<Rightarrow> u64) \<Rightarrow> RiscvDisasContext \<Rightarrow> ArgsR2 \<Rightarrow> trans" where
  "trans_fclass_d H d a = require_ext d MISA_D (\<lambda>ir. do {
     ir \<leftarrow> gen_fp_check d ir;
     (rs1, ir) \<leftarrow> fpr_load d (r2_rs1 a) ir;
     (res, ir) \<leftarrow> gen_helper_call (H helper_fclass_d) [d_env d, rs1] ir;
     ir \<leftarrow> gen_set_gpr d (r2_rd a) res ir;
     Some (True, d, ir) })"

definition trans_fcvt_s_d :: "(fpu_helper \<Rightarrow> u64) \<Rightarrow> RiscvDisasContext \<Rightarrow> ArgsR2Rm \<Rightarrow> trans" where
  "trans_fcvt_s_d H d a = require_ext d MISA_D (\<lambda>ir. do {
     ir \<leftarrow> gen_fp_check d ir;
     ir \<leftarrow> gen_set_fs_dirty d ir;
     (rs1, ir) \<leftarrow> fpr_load d (r2m_rs1 a) ir;
     (rm, ir) \<leftarrow> emit (new_const I64 (r2m_rm a)) ir;
     (res, ir) \<leftarrow> gen_helper_call (H helper_fcvt_s_d) [d_env d, rs1, rm] ir;
     ir \<leftarrow> fpr_store d (r2m_rd a) res ir;
     Some (True, d, ir) })"

definition trans_fcvt_d_s :: "(fpu_helper \<Rightarrow> u64) \<Rightarrow> RiscvDisasContext \<Rightarrow> ArgsR2Rm \<Rightarrow> trans" where
  "trans_fcvt_d_s H d a = require_ext d MISA_D (\<lambda>ir. do {
     ir \<leftarrow> gen_fp_check d ir;
     ir \<leftarrow> gen_set_fs_dirty d ir;
     (rs1, ir) \<leftarrow> fpr_load d (r2m_rs1 a) ir;
     (rm, ir) \<leftarrow> emit (new_const I64 (r2m_rm a)) ir;
     (res, ir) \<leftarrow> gen_helper_call (H helper_fcvt_d_s) [d_env d, rs1, rm] ir;
     ir \<leftarrow> fpr_store d (r2m_rd a) res ir;
     Some (True, d, ir) })"

definition trans_fcvt_w_d :: "(fpu_helper \<Rightarrow> u64) \<Rightarrow> RiscvDisasContext \<Rightarrow> ArgsR2Rm \<Rightarrow> trans" where
  "trans_fcvt_w_d H d a = require_ext d MISA_D (\<lambda>ir. do {
     ir \<leftarrow> gen_fp_check d ir;
     (rs1, ir) \<leftarrow> fpr_load d (r2m_rs1 a) ir;
     (rm, ir) \<leftarrow> emit (new_const I64 (r2m_rm a)) ir;
     (res, ir) \<leftarrow> gen_helper_call (H helper_fcvt_w_d) [d_env d, rs1, rm] ir;
     ir \<leftarrow> gen_set_gpr d (r2m_rd a) res ir;
     Some (True, d, ir) })"

definition trans_fcvt_wu_d :: "(fpu_helper \<Rightarrow> u64) \<Rightarrow> RiscvDisasContext \<Rightarrow> ArgsR2Rm \<Rightarrow> trans" where
  "trans_fcvt_wu_d H d a = require_ext d MISA_D (\<lambda>ir. do {
     ir \<leftarrow> gen_fp_check d ir;
     (rs1, ir) \<leftarrow> fpr_load d (r2m_rs1 a) ir;
     (rm, ir) \<leftarrow> emit (new_const I64 (r2m_rm a)) ir;
     (res, ir) \<leftarrow> gen_helper_call (H helper_fcvt_wu_d) [d_env d, rs1, rm] ir;
     ir \<leftarrow> gen_set_gpr d (r2m_rd a) res ir;
     Some (True, d, ir) })"

definition trans_fcvt_d_w :: "(fpu_helper \<Rightarrow> u64) \<Rightarrow> RiscvDisasContext \<Rightarrow> ArgsR2Rm \<Rightarrow> trans" where
  "trans_fcvt_d_w H d a = require_ext d MISA_D (\<lambda>ir. do {
     ir \<leftarrow> gen_fp_check d ir;
     ir \<leftarrow> gen_set_fs_dirty d ir;
     (rs1, ir) \<leftarrow> gpr_or_zero d (r2m_rs1 a) ir;
     (rm, ir) \<leftarrow> emit (new_const I64 (r2m_rm a)) ir;
     (res, ir) \<leftarrow> gen_helper_call (H helper_fcvt_d_w) [d_env d, rs1, rm] ir;
     ir \<leftarrow> fpr_store d (r2m_rd a) res ir;
     Some (True, d, ir) })"

definition trans_fcvt_d_wu :: "(fpu_helper \<Rightarrow> u64) \<Rightarrow> RiscvDisasContext \<Rightarrow> ArgsR2Rm \<Rightarrow> trans" where
  "trans_fcvt_d_wu H d a = require_ext d MISA_D (\<lambda>ir. do {
     ir \<leftarrow> gen_fp_check d ir;
     ir \<leftarrow> gen_set_fs_dirty d ir;
     (rs1, ir) \<leftarrow> gpr_or_zero d (r2m_rs1 a) ir;
     (rm, ir) \<leftarrow> emit (new_const I64 (r2m_rm a)) ir;
     (res, ir) \<leftarrow> gen_helper_call (H helper_fcvt_d_wu) [d_env d, rs1, rm] ir;
     ir \<leftarrow> fpr_store d (r2m_rd a) res ir;
     Some (True, d, ir) })"

definition trans_fcvt_l_d :: "(fpu_helper \<Rightarrow> u64) \<Rightarrow> RiscvDisasContext \<Rightarrow> ArgsR2Rm \<Rightarrow> trans" where
  "trans_fcvt_l_d H d a = require_ext d MISA_D (\<lambda>ir. do {
     ir \<leftarrow> gen_fp_check d ir;
     (rs1, ir) \<leftarrow> fpr_load d (r2m_rs1 a) ir;
     (rm, ir) \<leftarrow> emit (new_const I64 (r2m_rm a)) ir;
     (res, ir) \<leftarrow> gen_helper_call (H helper_fcvt_l_d) [d_env d, rs1, rm] ir;
     ir \<leftarrow> gen_set_gpr d (r2m_rd a) res ir;
     Some (True, d, ir) })"

definition trans_fcvt_lu_d :: "(fpu_helper \<Rightarrow> u64) \<Rightarrow> RiscvDisasContext \<Rightarrow> ArgsR2Rm \<Rightarrow> trans" where
  "trans_fcvt_lu_d H d a = require_ext d MISA_D (\<lambda>ir. do {
     ir \<leftarrow> gen_fp_check d ir;
     (rs1, ir) \<leftarrow> fpr_load d (r2m_rs1 a) ir;
     (rm, ir) \<leftarrow> emit (new_const I64 (r2m_rm a)) ir;
     (res, ir) \<leftarrow> gen_helper_call (H helper_fcvt_lu_d) [d_env d, rs1, rm] ir;
     ir \<leftarrow> gen_set_gpr d (r2m_rd a) res ir;
     Some (True, d, ir) })"

definition trans_fcvt_d_l :: "(fpu_helper \<Rightarrow> u64) \<Rightarrow> RiscvDisasContext \<Rightarrow> ArgsR2Rm \<Rightarrow> trans" where
  "trans_fcvt_d_l H d a = require_ext d MISA_D (\<lambda>ir. do {
     ir \<leftarrow> gen_fp_check d ir;
     ir \<leftarrow> gen_set_fs_dirty d ir;
     (rs1, ir) \<leftarrow> gpr_or_zero d (r2m_rs1 a) ir;
     (rm, ir) \<leftarrow> emit (new_const I64 (r2m_rm a)) ir;
     (res, ir) \<leftarrow> gen_helper_call (H helper_fcvt_d_l) [d_env d, rs1, rm] ir;
     ir \<leftarrow> fpr_store d (r2m_rd a) res ir;
     Some (True, d, ir) })"

definition trans_fcvt_d_lu :: "(fpu_helper \<Rightarrow> u64) \<Rightarrow> RiscvDisasContext \<Rightarrow> ArgsR2Rm \<Rightarrow> trans" where
  "trans_fcvt_d_lu H d a = require_ext d MISA_D (\<lambda>ir. do {
     ir \<leftarrow> gen_fp_check d ir;
     ir \<leftarrow> gen_set_fs_dirty d ir;
     (rs1, ir) \<leftarrow> gpr_or_zero d (r2m_rs1 a) ir;
     (rm, ir) \<leftarrow> emit (new_const I64 (r2m_rm a)) ir;
     (res, ir) \<leftarrow> gen_helper_call (H helper_fcvt_d_lu) [d_env d, rs1, rm] ir;
     ir \<leftarrow> fpr_store d (r2m_rd a) res ir;
     Some (True, d, ir) })"

definition trans_fmv_x_d :: "RiscvDisasContext \<Rightarrow> ArgsR2 \<Rightarrow> trans" where
  "trans_fmv_x_d d a = require_ext d MISA_D (\<lambda>ir. do {
     ir \<leftarrow> gen_fp_check d ir;
     (val, ir) \<leftarrow> fpr_load d (r2_rs1 a) ir;
     ir \<leftarrow> gen_set_gpr d (r2_rd a) val ir;
     Some (True, d, ir) })"

definition trans_fmv_d_x :: "RiscvDisasContext \<Rightarrow> ArgsR2 \<Rightarrow> trans" where
  "trans_fmv_d_x d a = require_ext d MISA_D (\<lambda>ir. do {
     ir \<leftarrow> gen_fp_check d ir;
     ir \<leftarrow> gen_set_fs_dirty d ir;
     (src, ir) \<leftarrow> gpr_or_zero d (r2_rs1 a) ir;
     ir \<leftarrow> fpr_store d (r2_rd a) src ir;
     Some (True, d, ir) })"

section \<open>Dispatch\<close>

text \<open>
  The call \<open>ctx.trans_name(ir, &a)\<close> a generated decoder makes for the pattern of that name, with the
  values \<open>f\<close> of the argument fields; \<open>None\<close> is a name without a method.
\<close>

definition decode_call :: "(fpu_helper \<Rightarrow> u64) \<Rightarrow> RiscvDisasContext \<Rightarrow> (string \<Rightarrow> i64) \<Rightarrow> (string \<times> trans) list" where
  "decode_call H d f = [
    (''lui'', trans_lui d \<lparr>u_imm = f ''imm'', u_rd = f ''rd''\<rparr>),
    (''auipc'', trans_auipc d \<lparr>u_imm = f ''imm'', u_rd = f ''rd''\<rparr>),
    (''jal'', trans_jal d \<lparr>j_imm = f ''imm'', j_rd = f ''rd''\<rparr>),
    (''jalr'', trans_jalr d \<lparr>i_imm = f ''imm'', i_rs1 = f ''rs1'', i_rd = f ''rd''\<rparr>),
    (''beq'', trans_beq d \<lparr>b_imm = f ''imm'', b_rs2 = f ''rs2'', b_rs1 = f ''rs1''\<rparr>),
    (''bne'', trans_bne d \<lparr>b_imm = f ''imm'', b_rs2 = f ''rs2'', b_rs1 = f ''rs1''\<rparr>),
    (''blt'', trans_blt d \<lparr>b_imm = f ''imm'', b_rs2 = f ''rs2'', b_rs1 = f ''rs1''\<rparr>),
    (''bge'', trans_bge d \<lparr>b_imm = f ''imm'', b_rs2 = f ''rs2'', b_rs1 = f ''rs1''\<rparr>),
    (''bltu'', trans_bltu d \<lparr>b_imm = f ''imm'', b_rs2 = f ''rs2'', b_rs1 = f ''rs1''\<rparr>),
    (''bgeu'', trans_bgeu d \<lparr>b_imm = f ''imm'', b_rs2 = f ''rs2'', b_rs1 = f ''rs1''\<rparr>),
    (''lb'', trans_lb d \<lparr>i_imm = f ''imm'', i_rs1 = f ''rs1'', i_rd = f ''rd''\<rparr>),
    (''lh'', trans_lh d \<lparr>i_imm = f ''imm'', i_rs1 = f ''rs1'', i_rd = f ''rd''\<rparr>),
    (''lw'', trans_lw d \<lparr>i_imm = f ''imm'', i_rs1 = f ''rs1'', i_rd = f ''rd''\<rparr>),
    (''lbu'', trans_lbu d \<lparr>i_imm = f ''imm'', i_rs1 = f ''rs1'', i_rd = f ''rd''\<rparr>),
    (''lhu'', trans_lhu d \<lparr>i_imm = f ''imm'', i_rs1 = f ''rs1'', i_rd = f ''rd''\<rparr>),
    (''sb'', trans_sb d \<lparr>s_imm = f ''imm'', s_rs1 = f ''rs1'', s_rs2 = f ''rs2''\<rparr>),
    (''sh'', trans_sh d \<lparr>s_imm = f ''imm'', s_rs1 = f ''rs1'', s_rs2 = f ''rs2''\<rparr>),
    (''sw'', trans_sw d \<lparr>s_imm = f ''imm'', s_rs1 = f ''rs1'', s_rs2 = f ''rs2''\<rparr>),
    (''addi'', trans_addi d \<lparr>i_imm = f ''imm'', i_rs1 = f ''rs1'', i_rd = f ''rd''\<rparr>),
    (''slti'', trans_slti d \<lparr>i_imm = f ''imm'', i_rs1 = f ''rs1'', i_rd = f ''rd''\<rparr>),
    (''sltiu'', trans_sltiu d \<lparr>i_imm = f ''imm'', i_rs1 = f ''rs1'', i_rd = f ''rd''\<rparr>),
    (''xori'', trans_xori d \<lparr>i_imm = f ''imm'', i_rs1 = f ''rs1'', i_rd = f ''rd''\<rparr>),
    (''ori'', trans_ori d \<lparr>i_imm = f ''imm'', i_rs1 = f ''rs1'', i_rd = f ''rd''\<rparr>),
    (''andi'', trans_andi d \<lparr>i_imm = f ''imm'', i_rs1 = f ''rs1'', i_rd = f ''rd''\<rparr>),
    (''slli'', trans_slli d \<lparr>sh_shamt = f ''shamt'', sh_rs1 = f ''rs1'', sh_rd = f ''rd''\<rparr>),
    (''srli'', trans_srli d \<lparr>sh_shamt = f ''shamt'', sh_rs1 = f ''rs1'', sh_rd = f ''rd''\<rparr>),
    (''srai'', trans_srai d \<lparr>sh_shamt = f ''shamt'', sh_rs1 = f ''rs1'', sh_rd = f ''rd''\<rparr>),
    (''add'', trans_add d \<lparr>r_rd = f ''rd'', r_rs1 = f ''rs1'', r_rs2 = f ''rs2''\<rparr>),
    (''sub'', trans_sub d \<lparr>r_rd = f ''rd'', r_rs1 = f ''rs1'', r_rs2 = f ''rs2''\<rparr>),
    (''sll'', trans_sll d \<lparr>r_rd = f ''rd'', r_rs1 = f ''rs1'', r_rs2 = f ''rs2''\<rparr>),
    (''slt'', trans_slt d \<lparr>r_rd = f ''rd'', r_rs1 = f ''rs1'', r_rs2 = f ''rs2''\<rparr>),
    (''sltu'', trans_sltu d \<lparr>r_rd = f ''rd'', r_rs1 = f ''rs1'', r_rs2 = f ''rs2''\<rparr>),
    (''xor'', trans_xor d \<lparr>r_rd = f ''rd'', r_rs1 = f ''rs1'', r_rs2 = f ''rs2''\<rparr>),
    (''srl'', trans_srl d \<lparr>r_rd = f ''rd'', r_rs1 = f ''rs1'', r_rs2 = f ''rs2''\<rparr>),
    (''sra'', trans_sra d \<lparr>r_rd = f ''rd'', r_rs1 = f ''rs1'', r_rs2 = f ''rs2''\<rparr>),
    (''or'', trans_or d \<lparr>r_rd = f ''rd'', r_rs1 = f ''rs1'', r_rs2 = f ''rs2''\<rparr>),
    (''and'', trans_and d \<lparr>r_rd = f ''rd'', r_rs1 = f ''rs1'', r_rs2 = f ''rs2''\<rparr>),
    (''fence'', trans_fence d),
    (''ecall'', trans_ecall d),
    (''ebreak'', trans_ebreak d),
    (''lwu'', trans_lwu d \<lparr>i_imm = f ''imm'', i_rs1 = f ''rs1'', i_rd = f ''rd''\<rparr>),
    (''ld'', trans_ld d \<lparr>i_imm = f ''imm'', i_rs1 = f ''rs1'', i_rd = f ''rd''\<rparr>),
    (''sd'', trans_sd d \<lparr>s_imm = f ''imm'', s_rs1 = f ''rs1'', s_rs2 = f ''rs2''\<rparr>),
    (''addiw'', trans_addiw d \<lparr>i_imm = f ''imm'', i_rs1 = f ''rs1'', i_rd = f ''rd''\<rparr>),
    (''slliw'', trans_slliw d \<lparr>sh_shamt = f ''shamt'', sh_rs1 = f ''rs1'', sh_rd = f ''rd''\<rparr>),
    (''srliw'', trans_srliw d \<lparr>sh_shamt = f ''shamt'', sh_rs1 = f ''rs1'', sh_rd = f ''rd''\<rparr>),
    (''sraiw'', trans_sraiw d \<lparr>sh_shamt = f ''shamt'', sh_rs1 = f ''rs1'', sh_rd = f ''rd''\<rparr>),
    (''addw'', trans_addw d \<lparr>r_rd = f ''rd'', r_rs1 = f ''rs1'', r_rs2 = f ''rs2''\<rparr>),
    (''subw'', trans_subw d \<lparr>r_rd = f ''rd'', r_rs1 = f ''rs1'', r_rs2 = f ''rs2''\<rparr>),
    (''sllw'', trans_sllw d \<lparr>r_rd = f ''rd'', r_rs1 = f ''rs1'', r_rs2 = f ''rs2''\<rparr>),
    (''srlw'', trans_srlw d \<lparr>r_rd = f ''rd'', r_rs1 = f ''rs1'', r_rs2 = f ''rs2''\<rparr>),
    (''sraw'', trans_sraw d \<lparr>r_rd = f ''rd'', r_rs1 = f ''rs1'', r_rs2 = f ''rs2''\<rparr>),
    (''mul'', trans_mul d \<lparr>r_rd = f ''rd'', r_rs1 = f ''rs1'', r_rs2 = f ''rs2''\<rparr>),
    (''mulh'', trans_mulh d \<lparr>r_rd = f ''rd'', r_rs1 = f ''rs1'', r_rs2 = f ''rs2''\<rparr>),
    (''mulhsu'', trans_mulhsu d \<lparr>r_rd = f ''rd'', r_rs1 = f ''rs1'', r_rs2 = f ''rs2''\<rparr>),
    (''mulhu'', trans_mulhu d \<lparr>r_rd = f ''rd'', r_rs1 = f ''rs1'', r_rs2 = f ''rs2''\<rparr>),
    (''div'', trans_div d \<lparr>r_rd = f ''rd'', r_rs1 = f ''rs1'', r_rs2 = f ''rs2''\<rparr>),
    (''divu'', trans_divu d \<lparr>r_rd = f ''rd'', r_rs1 = f ''rs1'', r_rs2 = f ''rs2''\<rparr>),
    (''rem'', trans_rem d \<lparr>r_rd = f ''rd'', r_rs1 = f ''rs1'', r_rs2 = f ''rs2''\<rparr>),
    (''remu'', trans_remu d \<lparr>r_rd = f ''rd'', r_rs1 = f ''rs1'', r_rs2 = f ''rs2''\<rparr>),
    (''mulw'', trans_mulw d \<lparr>r_rd = f ''rd'', r_rs1 = f ''rs1'', r_rs2 = f ''rs2''\<rparr>),
    (''divw'', trans_divw d \<lparr>r_rd = f ''rd'', r_rs1 = f ''rs1'', r_rs2 = f ''rs2''\<rparr>),
    (''divuw'', trans_divuw d \<lparr>r_rd = f ''rd'', r_rs1 = f ''rs1'', r_rs2 = f ''rs2''\<rparr>),
    (''remw'', trans_remw d \<lparr>r_rd = f ''rd'', r_rs1 = f ''rs1'', r_rs2 = f ''rs2''\<rparr>),
    (''remuw'', trans_remuw d \<lparr>r_rd = f ''rd'', r_rs1 = f ''rs1'', r_rs2 = f ''rs2''\<rparr>),
    (''lr_w'', trans_lr_w d \<lparr>at_aq = f ''aq'', at_rl = f ''rl'', at_rs2 = f ''rs2'', at_rs1 = f ''rs1'', at_rd = f ''rd''\<rparr>),
    (''sc_w'', trans_sc_w d \<lparr>at_aq = f ''aq'', at_rl = f ''rl'', at_rs2 = f ''rs2'', at_rs1 = f ''rs1'', at_rd = f ''rd''\<rparr>),
    (''amoswap_w'', trans_amoswap_w d \<lparr>at_aq = f ''aq'', at_rl = f ''rl'', at_rs2 = f ''rs2'', at_rs1 = f ''rs1'', at_rd = f ''rd''\<rparr>),
    (''amoadd_w'', trans_amoadd_w d \<lparr>at_aq = f ''aq'', at_rl = f ''rl'', at_rs2 = f ''rs2'', at_rs1 = f ''rs1'', at_rd = f ''rd''\<rparr>),
    (''amoxor_w'', trans_amoxor_w d \<lparr>at_aq = f ''aq'', at_rl = f ''rl'', at_rs2 = f ''rs2'', at_rs1 = f ''rs1'', at_rd = f ''rd''\<rparr>),
    (''amoand_w'', trans_amoand_w d \<lparr>at_aq = f ''aq'', at_rl = f ''rl'', at_rs2 = f ''rs2'', at_rs1 = f ''rs1'', at_rd = f ''rd''\<rparr>),
    (''amoor_w'', trans_amoor_w d \<lparr>at_aq = f ''aq'', at_rl = f ''rl'', at_rs2 = f ''rs2'', at_rs1 = f ''rs1'', at_rd = f ''rd''\<rparr>),
    (''amomin_w'', trans_amomin_w d \<lparr>at_aq = f ''aq'', at_rl = f ''rl'', at_rs2 = f ''rs2'', at_rs1 = f ''rs1'', at_rd = f ''rd''\<rparr>),
    (''amomax_w'', trans_amomax_w d \<lparr>at_aq = f ''aq'', at_rl = f ''rl'', at_rs2 = f ''rs2'', at_rs1 = f ''rs1'', at_rd = f ''rd''\<rparr>),
    (''amominu_w'', trans_amominu_w d \<lparr>at_aq = f ''aq'', at_rl = f ''rl'', at_rs2 = f ''rs2'', at_rs1 = f ''rs1'', at_rd = f ''rd''\<rparr>),
    (''amomaxu_w'', trans_amomaxu_w d \<lparr>at_aq = f ''aq'', at_rl = f ''rl'', at_rs2 = f ''rs2'', at_rs1 = f ''rs1'', at_rd = f ''rd''\<rparr>),
    (''lr_d'', trans_lr_d d \<lparr>at_aq = f ''aq'', at_rl = f ''rl'', at_rs2 = f ''rs2'', at_rs1 = f ''rs1'', at_rd = f ''rd''\<rparr>),
    (''sc_d'', trans_sc_d d \<lparr>at_aq = f ''aq'', at_rl = f ''rl'', at_rs2 = f ''rs2'', at_rs1 = f ''rs1'', at_rd = f ''rd''\<rparr>),
    (''amoswap_d'', trans_amoswap_d d \<lparr>at_aq = f ''aq'', at_rl = f ''rl'', at_rs2 = f ''rs2'', at_rs1 = f ''rs1'', at_rd = f ''rd''\<rparr>),
    (''amoadd_d'', trans_amoadd_d d \<lparr>at_aq = f ''aq'', at_rl = f ''rl'', at_rs2 = f ''rs2'', at_rs1 = f ''rs1'', at_rd = f ''rd''\<rparr>),
    (''amoxor_d'', trans_amoxor_d d \<lparr>at_aq = f ''aq'', at_rl = f ''rl'', at_rs2 = f ''rs2'', at_rs1 = f ''rs1'', at_rd = f ''rd''\<rparr>),
    (''amoand_d'', trans_amoand_d d \<lparr>at_aq = f ''aq'', at_rl = f ''rl'', at_rs2 = f ''rs2'', at_rs1 = f ''rs1'', at_rd = f ''rd''\<rparr>),
    (''amoor_d'', trans_amoor_d d \<lparr>at_aq = f ''aq'', at_rl = f ''rl'', at_rs2 = f ''rs2'', at_rs1 = f ''rs1'', at_rd = f ''rd''\<rparr>),
    (''amomin_d'', trans_amomin_d d \<lparr>at_aq = f ''aq'', at_rl = f ''rl'', at_rs2 = f ''rs2'', at_rs1 = f ''rs1'', at_rd = f ''rd''\<rparr>),
    (''amomax_d'', trans_amomax_d d \<lparr>at_aq = f ''aq'', at_rl = f ''rl'', at_rs2 = f ''rs2'', at_rs1 = f ''rs1'', at_rd = f ''rd''\<rparr>),
    (''amominu_d'', trans_amominu_d d \<lparr>at_aq = f ''aq'', at_rl = f ''rl'', at_rs2 = f ''rs2'', at_rs1 = f ''rs1'', at_rd = f ''rd''\<rparr>),
    (''amomaxu_d'', trans_amomaxu_d d \<lparr>at_aq = f ''aq'', at_rl = f ''rl'', at_rs2 = f ''rs2'', at_rs1 = f ''rs1'', at_rd = f ''rd''\<rparr>),
    (''csrrw'', trans_csrrw d \<lparr>csr_csr = f ''csr'', csr_rs1 = f ''rs1'', csr_rd = f ''rd''\<rparr>),
    (''csrrs'', trans_csrrs d \<lparr>csr_csr = f ''csr'', csr_rs1 = f ''rs1'', csr_rd = f ''rd''\<rparr>),
    (''csrrc'', trans_csrrc d \<lparr>csr_csr = f ''csr'', csr_rs1 = f ''rs1'', csr_rd = f ''rd''\<rparr>),
    (''csrrwi'', trans_csrrwi d \<lparr>csr_csr = f ''csr'', csr_rs1 = f ''rs1'', csr_rd = f ''rd''\<rparr>),
    (''csrrsi'', trans_csrrsi d \<lparr>csr_csr = f ''csr'', csr_rs1 = f ''rs1'', csr_rd = f ''rd''\<rparr>),
    (''csrrci'', trans_csrrci d \<lparr>csr_csr = f ''csr'', csr_rs1 = f ''rs1'', csr_rd = f ''rd''\<rparr>),
    (''flw'', trans_flw d \<lparr>i_imm = f ''imm'', i_rs1 = f ''rs1'', i_rd = f ''rd''\<rparr>),
    (''fsw'', trans_fsw d \<lparr>s_imm = f ''imm'', s_rs1 = f ''rs1'', s_rs2 = f ''rs2''\<rparr>),
    (''fld'', trans_fld d \<lparr>i_imm = f ''imm'', i_rs1 = f ''rs1'', i_rd = f ''rd''\<rparr>),
    (''fsd'', trans_fsd d \<lparr>s_imm = f ''imm'', s_rs1 = f ''rs1'', s_rs2 = f ''rs2''\<rparr>),
    (''fmadd_s'', trans_fmadd_s H d \<lparr>r4_rd = f ''rd'', r4_rs1 = f ''rs1'', r4_rs2 = f ''rs2'', r4_rs3 = f ''rs3'', r4_rm = f ''rm''\<rparr>),
    (''fmsub_s'', trans_fmsub_s H d \<lparr>r4_rd = f ''rd'', r4_rs1 = f ''rs1'', r4_rs2 = f ''rs2'', r4_rs3 = f ''rs3'', r4_rm = f ''rm''\<rparr>),
    (''fnmsub_s'', trans_fnmsub_s H d \<lparr>r4_rd = f ''rd'', r4_rs1 = f ''rs1'', r4_rs2 = f ''rs2'', r4_rs3 = f ''rs3'', r4_rm = f ''rm''\<rparr>),
    (''fnmadd_s'', trans_fnmadd_s H d \<lparr>r4_rd = f ''rd'', r4_rs1 = f ''rs1'', r4_rs2 = f ''rs2'', r4_rs3 = f ''rs3'', r4_rm = f ''rm''\<rparr>),
    (''fadd_s'', trans_fadd_s H d \<lparr>rm_rd = f ''rd'', rm_rs1 = f ''rs1'', rm_rs2 = f ''rs2'', rm_rm = f ''rm''\<rparr>),
    (''fsub_s'', trans_fsub_s H d \<lparr>rm_rd = f ''rd'', rm_rs1 = f ''rs1'', rm_rs2 = f ''rs2'', rm_rm = f ''rm''\<rparr>),
    (''fmul_s'', trans_fmul_s H d \<lparr>rm_rd = f ''rd'', rm_rs1 = f ''rs1'', rm_rs2 = f ''rs2'', rm_rm = f ''rm''\<rparr>),
    (''fdiv_s'', trans_fdiv_s H d \<lparr>rm_rd = f ''rd'', rm_rs1 = f ''rs1'', rm_rs2 = f ''rs2'', rm_rm = f ''rm''\<rparr>),
    (''fsqrt_s'', trans_fsqrt_s H d \<lparr>r2m_rd = f ''rd'', r2m_rs1 = f ''rs1'', r2m_rm = f ''rm''\<rparr>),
    (''fsgnj_s'', trans_fsgnj_s H d \<lparr>r_rd = f ''rd'', r_rs1 = f ''rs1'', r_rs2 = f ''rs2''\<rparr>),
    (''fsgnjn_s'', trans_fsgnjn_s H d \<lparr>r_rd = f ''rd'', r_rs1 = f ''rs1'', r_rs2 = f ''rs2''\<rparr>),
    (''fsgnjx_s'', trans_fsgnjx_s H d \<lparr>r_rd = f ''rd'', r_rs1 = f ''rs1'', r_rs2 = f ''rs2''\<rparr>),
    (''fmin_s'', trans_fmin_s H d \<lparr>r_rd = f ''rd'', r_rs1 = f ''rs1'', r_rs2 = f ''rs2''\<rparr>),
    (''fmax_s'', trans_fmax_s H d \<lparr>r_rd = f ''rd'', r_rs1 = f ''rs1'', r_rs2 = f ''rs2''\<rparr>),
    (''feq_s'', trans_feq_s H d \<lparr>r_rd = f ''rd'', r_rs1 = f ''rs1'', r_rs2 = f ''rs2''\<rparr>),
    (''flt_s'', trans_flt_s H d \<lparr>r_rd = f ''rd'', r_rs1 = f ''rs1'', r_rs2 = f ''rs2''\<rparr>),
    (''fle_s'', trans_fle_s H d \<lparr>r_rd = f ''rd'', r_rs1 = f ''rs1'', r_rs2 = f ''rs2''\<rparr>),
    (''fclass_s'', trans_fclass_s H d \<lparr>r2_rd = f ''rd'', r2_rs1 = f ''rs1''\<rparr>),
    (''fcvt_w_s'', trans_fcvt_w_s H d \<lparr>r2m_rd = f ''rd'', r2m_rs1 = f ''rs1'', r2m_rm = f ''rm''\<rparr>),
    (''fcvt_wu_s'', trans_fcvt_wu_s H d \<lparr>r2m_rd = f ''rd'', r2m_rs1 = f ''rs1'', r2m_rm = f ''rm''\<rparr>),
    (''fcvt_s_w'', trans_fcvt_s_w H d \<lparr>r2m_rd = f ''rd'', r2m_rs1 = f ''rs1'', r2m_rm = f ''rm''\<rparr>),
    (''fcvt_s_wu'', trans_fcvt_s_wu H d \<lparr>r2m_rd = f ''rd'', r2m_rs1 = f ''rs1'', r2m_rm = f ''rm''\<rparr>),
    (''fmv_x_w'', trans_fmv_x_w d \<lparr>r2_rd = f ''rd'', r2_rs1 = f ''rs1''\<rparr>),
    (''fmv_w_x'', trans_fmv_w_x d \<lparr>r2_rd = f ''rd'', r2_rs1 = f ''rs1''\<rparr>),
    (''fcvt_l_s'', trans_fcvt_l_s H d \<lparr>r2m_rd = f ''rd'', r2m_rs1 = f ''rs1'', r2m_rm = f ''rm''\<rparr>),
    (''fcvt_lu_s'', trans_fcvt_lu_s H d \<lparr>r2m_rd = f ''rd'', r2m_rs1 = f ''rs1'', r2m_rm = f ''rm''\<rparr>),
    (''fcvt_s_l'', trans_fcvt_s_l H d \<lparr>r2m_rd = f ''rd'', r2m_rs1 = f ''rs1'', r2m_rm = f ''rm''\<rparr>),
    (''fcvt_s_lu'', trans_fcvt_s_lu H d \<lparr>r2m_rd = f ''rd'', r2m_rs1 = f ''rs1'', r2m_rm = f ''rm''\<rparr>),
    (''fmadd_d'', trans_fmadd_d H d \<lparr>r4_rd = f ''rd'', r4_rs1 = f ''rs1'', r4_rs2 = f ''rs2'', r4_rs3 = f ''rs3'', r4_rm = f ''rm''\<rparr>),
    (''fmsub_d'', trans_fmsub_d H d \<lparr>r4_rd = f ''rd'', r4_rs1 = f ''rs1'', r4_rs2 = f ''rs2'', r4_rs3 = f ''rs3'', r4_rm = f ''rm''\<rparr>),
    (''fnmsub_d'', trans_fnmsub_d H d \<lparr>r4_rd = f ''rd'', r4_rs1 = f ''rs1'', r4_rs2 = f ''rs2'', r4_rs3 = f ''rs3'', r4_rm = f ''rm''\<rparr>),
    (''fnmadd_d'', trans_fnmadd_d H d \<lparr>r4_rd = f ''rd'', r4_rs1 = f ''rs1'', r4_rs2 = f ''rs2'', r4_rs3 = f ''rs3'', r4_rm = f ''rm''\<rparr>),
    (''fadd_d'', trans_fadd_d H d \<lparr>rm_rd = f ''rd'', rm_rs1 = f ''rs1'', rm_rs2 = f ''rs2'', rm_rm = f ''rm''\<rparr>),
    (''fsub_d'', trans_fsub_d H d \<lparr>rm_rd = f ''rd'', rm_rs1 = f ''rs1'', rm_rs2 = f ''rs2'', rm_rm = f ''rm''\<rparr>),
    (''fmul_d'', trans_fmul_d H d \<lparr>rm_rd = f ''rd'', rm_rs1 = f ''rs1'', rm_rs2 = f ''rs2'', rm_rm = f ''rm''\<rparr>),
    (''fdiv_d'', trans_fdiv_d H d \<lparr>rm_rd = f ''rd'', rm_rs1 = f ''rs1'', rm_rs2 = f ''rs2'', rm_rm = f ''rm''\<rparr>),
    (''fsqrt_d'', trans_fsqrt_d H d \<lparr>r2m_rd = f ''rd'', r2m_rs1 = f ''rs1'', r2m_rm = f ''rm''\<rparr>),
    (''fsgnj_d'', trans_fsgnj_d H d \<lparr>r_rd = f ''rd'', r_rs1 = f ''rs1'', r_rs2 = f ''rs2''\<rparr>),
    (''fsgnjn_d'', trans_fsgnjn_d H d \<lparr>r_rd = f ''rd'', r_rs1 = f ''rs1'', r_rs2 = f ''rs2''\<rparr>),
    (''fsgnjx_d'', trans_fsgnjx_d H d \<lparr>r_rd = f ''rd'', r_rs1 = f ''rs1'', r_rs2 = f ''rs2''\<rparr>),
    (''fmin_d'', trans_fmin_d H d \<lparr>r_rd = f ''rd'', r_rs1 = f ''rs1'', r_rs2 = f ''rs2''\<rparr>),
    (''fmax_d'', trans_fmax_d H d \<lparr>r_rd = f ''rd'', r_rs1 = f ''rs1'', r_rs2 = f ''rs2''\<rparr>),
    (''feq_d'', trans_feq_d H d \<lparr>r_rd = f ''rd'', r_rs1 = f ''rs1'', r_rs2 = f ''rs2''\<rparr>),
    (''flt_d'', trans_flt_d H d \<lparr>r_rd = f ''rd'', r_rs1 = f ''rs1'', r_rs2 = f ''rs2''\<rparr>),
    (''fle_d'', trans_fle_d H d \<lparr>r_rd = f ''rd'', r_rs1 = f ''rs1'', r_rs2 = f ''rs2''\<rparr>),
    (''fclass_d'', trans_fclass_d H d \<lparr>r2_rd = f ''rd'', r2_rs1 = f ''rs1''\<rparr>),
    (''fcvt_s_d'', trans_fcvt_s_d H d \<lparr>r2m_rd = f ''rd'', r2m_rs1 = f ''rs1'', r2m_rm = f ''rm''\<rparr>),
    (''fcvt_d_s'', trans_fcvt_d_s H d \<lparr>r2m_rd = f ''rd'', r2m_rs1 = f ''rs1'', r2m_rm = f ''rm''\<rparr>),
    (''fcvt_w_d'', trans_fcvt_w_d H d \<lparr>r2m_rd = f ''rd'', r2m_rs1 = f ''rs1'', r2m_rm = f ''rm''\<rparr>),
    (''fcvt_wu_d'', trans_fcvt_wu_d H d \<lparr>r2m_rd = f ''rd'', r2m_rs1 = f ''rs1'', r2m_rm = f ''rm''\<rparr>),
    (''fcvt_d_w'', trans_fcvt_d_w H d \<lparr>r2m_rd = f ''rd'', r2m_rs1 = f ''rs1'', r2m_rm = f ''rm''\<rparr>),
    (''fcvt_d_wu'', trans_fcvt_d_wu H d \<lparr>r2m_rd = f ''rd'', r2m_rs1 = f ''rs1'', r2m_rm = f ''rm''\<rparr>),
    (''fcvt_l_d'', trans_fcvt_l_d H d \<lparr>r2m_rd = f ''rd'', r2m_rs1 = f ''rs1'', r2m_rm = f ''rm''\<rparr>),
    (''fcvt_lu_d'', trans_fcvt_lu_d H d \<lparr>r2m_rd = f ''rd'', r2m_rs1 = f ''rs1'', r2m_rm = f ''rm''\<rparr>),
    (''fcvt_d_l'', trans_fcvt_d_l H d \<lparr>r2m_rd = f ''rd'', r2m_rs1 = f ''rs1'', r2m_rm = f ''rm''\<rparr>),
    (''fcvt_d_lu'', trans_fcvt_d_lu H d \<lparr>r2m_rd = f ''rd'', r2m_rs1 = f ''rs1'', r2m_rm = f ''rm''\<rparr>),
    (''fmv_x_d'', trans_fmv_x_d d \<lparr>r2_rd = f ''rd'', r2_rs1 = f ''rs1''\<rparr>),
    (''fmv_d_x'', trans_fmv_d_x d \<lparr>r2_rd = f ''rd'', r2_rs1 = f ''rs1''\<rparr>)]"

text \<open>The compressed instructions (\<open>Decode16\<close>) delegate to the same functions.\<close>

definition decode16_call :: "(fpu_helper \<Rightarrow> u64) \<Rightarrow> RiscvDisasContext \<Rightarrow> (string \<Rightarrow> i64) \<Rightarrow> (string \<times> trans) list" where
  "decode16_call H d f = [
    (''illegal'', keep d (\<lambda>ir. Some (False, ir))),
    (''c64_illegal'', keep d (\<lambda>ir. Some (False, ir))),
    (''addi'', trans_addi d \<lparr>i_imm = f ''imm'', i_rs1 = f ''rs1'', i_rd = f ''rd''\<rparr>),
    (''lw'', trans_lw d \<lparr>i_imm = f ''imm'', i_rs1 = f ''rs1'', i_rd = f ''rd''\<rparr>),
    (''ld'', trans_ld d \<lparr>i_imm = f ''imm'', i_rs1 = f ''rs1'', i_rd = f ''rd''\<rparr>),
    (''c_fld'', trans_fld d \<lparr>i_imm = f ''imm'', i_rs1 = f ''rs1'', i_rd = f ''rd''\<rparr>),
    (''c_flw'', trans_flw d \<lparr>i_imm = f ''imm'', i_rs1 = f ''rs1'', i_rd = f ''rd''\<rparr>),
    (''sw'', trans_sw d \<lparr>s_imm = f ''imm'', s_rs1 = f ''rs1'', s_rs2 = f ''rs2''\<rparr>),
    (''sd'', trans_sd d \<lparr>s_imm = f ''imm'', s_rs1 = f ''rs1'', s_rs2 = f ''rs2''\<rparr>),
    (''c_fsd'', trans_fsd d \<lparr>s_imm = f ''imm'', s_rs1 = f ''rs1'', s_rs2 = f ''rs2''\<rparr>),
    (''c_fsw'', trans_fsw d \<lparr>s_imm = f ''imm'', s_rs1 = f ''rs1'', s_rs2 = f ''rs2''\<rparr>),
    (''lui'', trans_lui d \<lparr>u_imm = f ''imm'', u_rd = f ''rd''\<rparr>),
    (''srli'', trans_srli d \<lparr>sh_shamt = f ''shamt'', sh_rs1 = f ''rs1'', sh_rd = f ''rd''\<rparr>),
    (''srai'', trans_srai d \<lparr>sh_shamt = f ''shamt'', sh_rs1 = f ''rs1'', sh_rd = f ''rd''\<rparr>),
    (''andi'', trans_andi d \<lparr>i_imm = f ''imm'', i_rs1 = f ''rs1'', i_rd = f ''rd''\<rparr>),
    (''sub'', trans_sub d \<lparr>r_rd = f ''rd'', r_rs1 = f ''rs1'', r_rs2 = f ''rs2''\<rparr>),
    (''xor'', trans_xor d \<lparr>r_rd = f ''rd'', r_rs1 = f ''rs1'', r_rs2 = f ''rs2''\<rparr>),
    (''or'', trans_or d \<lparr>r_rd = f ''rd'', r_rs1 = f ''rs1'', r_rs2 = f ''rs2''\<rparr>),
    (''and'', trans_and d \<lparr>r_rd = f ''rd'', r_rs1 = f ''rs1'', r_rs2 = f ''rs2''\<rparr>),
    (''jal'', trans_jal d \<lparr>j_imm = f ''imm'', j_rd = f ''rd''\<rparr>),
    (''beq'', trans_beq d \<lparr>b_imm = f ''imm'', b_rs2 = f ''rs2'', b_rs1 = f ''rs1''\<rparr>),
    (''bne'', trans_bne d \<lparr>b_imm = f ''imm'', b_rs2 = f ''rs2'', b_rs1 = f ''rs1''\<rparr>),
    (''addiw'', trans_addiw d \<lparr>i_imm = f ''imm'', i_rs1 = f ''rs1'', i_rd = f ''rd''\<rparr>),
    (''subw'', trans_subw d \<lparr>r_rd = f ''rd'', r_rs1 = f ''rs1'', r_rs2 = f ''rs2''\<rparr>),
    (''addw'', trans_addw d \<lparr>r_rd = f ''rd'', r_rs1 = f ''rs1'', r_rs2 = f ''rs2''\<rparr>),
    (''slli'', trans_slli d \<lparr>sh_shamt = f ''shamt'', sh_rs1 = f ''rs1'', sh_rd = f ''rd''\<rparr>),
    (''jalr'', trans_jalr d \<lparr>i_imm = f ''imm'', i_rs1 = f ''rs1'', i_rd = f ''rd''\<rparr>),
    (''ebreak'', trans_ebreak d),
    (''add'', trans_add d \<lparr>r_rd = f ''rd'', r_rs1 = f ''rs1'', r_rs2 = f ''rs2''\<rparr>)]"

end
