(* ===== verification/Decode.thy ===== *)
theory Decode
  imports IR
begin

text \<open>
  The decoder generator (\<open>decode/src/lib.rs\<close>): it parses the decode files and writes Rust code. The
  parser is modelled on strings, with its errors; the emitted code by what it computes: the value
  of an \<open>extract_\<close> function and the decision of the \<open>decode\<close> function. A \<open>BTreeMap\<close> is an association
  list in key order. \<open>None\<close> in the emitting part is a panic of the generator (a shift or a
  subtraction out of range).
\<close>

section \<open>Strings and maps of the standard library\<close>

definition is_space :: "char \<Rightarrow> bool" where
  "is_space c \<longleftrightarrow> of_char c \<in> {9, 10, 11, 12, 13, 32 :: nat}"

definition is_digit :: "char \<Rightarrow> bool" where
  "is_digit c \<longleftrightarrow> (48 :: nat) \<le> of_char c \<and> of_char c \<le> (57 :: nat)"

definition is_alphanumeric :: "char \<Rightarrow> bool" where
  "is_alphanumeric c \<longleftrightarrow> is_digit c \<or> (65 :: nat) \<le> of_char c \<and> of_char c \<le> (90 :: nat) \<or>
     (97 :: nat) \<le> of_char c \<and> of_char c \<le> (122 :: nat)"

definition trim :: "string \<Rightarrow> string" where
  "trim s = rev (dropWhile is_space (rev (dropWhile is_space s)))"

fun split_whitespace :: "string \<Rightarrow> string list" where
  "split_whitespace [] = []"
| "split_whitespace (c # s) =
     (if is_space c then split_whitespace s
      else (case s of
              [] \<Rightarrow> [[c]]
            | x # _ \<Rightarrow>
                if is_space x then [c] # split_whitespace s
                else (case split_whitespace s of t # ts \<Rightarrow> (c # t) # ts | [] \<Rightarrow> [[c]])))"

text \<open>\<open>str::lines\<close>: the text between line ends (LF or CR LF); no empty last line.\<close>

definition chomp :: "string \<Rightarrow> string" where
  "chomp s = (if s \<noteq> [] \<and> last s = CHR 0x0D then butlast s else s)"

fun lines_from :: "string \<Rightarrow> string \<Rightarrow> string list" where
  "lines_from acc [] = (if acc = [] then [] else [rev acc])"
| "lines_from acc (c # s) = (if c = CHR 0x0A then chomp (rev acc) # lines_from [] s else lines_from (c # acc) s)"

definition str_lines :: "string \<Rightarrow> string list" where
  "str_lines s = lines_from [] s"

definition strip_prefix :: "string \<Rightarrow> string \<Rightarrow> string option" where
  "strip_prefix p s = (if take (length p) s = p then Some (drop (length p) s) else None)"

definition find_char :: "char \<Rightarrow> string \<Rightarrow> nat option" where
  "find_char c s = (if c \<in> set s then Some (length (takeWhile (\<lambda>x. x \<noteq> c) s)) else None)"

definition digits_val :: "string \<Rightarrow> int" where
  "digits_val s = foldl (\<lambda>n c. n * 10 + (of_char c - 48)) 0 s"

definition parse_digits :: "int \<Rightarrow> string \<Rightarrow> int option" where
  "parse_digits bound s =
     (if s \<noteq> [] \<and> list_all is_digit s \<and> digits_val s < bound then Some (digits_val s) else None)"

definition parse_u32 :: "string \<Rightarrow> u32 option" where
  "parse_u32 s = map_option of_int (parse_digits (2 ^ 32) (case strip_prefix ''+'' s of Some t \<Rightarrow> t | None \<Rightarrow> s))"

definition parse_i32 :: "string \<Rightarrow> int option" where
  "parse_i32 s =
     (case strip_prefix ''-'' s of
        Some t \<Rightarrow> map_option uminus (parse_digits (2 ^ 31 + 1) t)
      | None \<Rightarrow> parse_digits (2 ^ 31) (case strip_prefix ''+'' s of Some t \<Rightarrow> t | None \<Rightarrow> s))"

fun show_nat :: "nat \<Rightarrow> string" where
  "show_nat n = (if n < 10 then [char_of (48 + n)] else show_nat (n div 10) @ [char_of (48 + n mod 10)])"

declare show_nat.simps [simp del]

fun str_less :: "string \<Rightarrow> string \<Rightarrow> bool" where
  "str_less _ [] \<longleftrightarrow> False"
| "str_less [] (_ # _) \<longleftrightarrow> True"
| "str_less (x # xs) (y # ys) \<longleftrightarrow> of_char x < (of_char y :: nat) \<or> x = y \<and> str_less xs ys"

type_synonym 'v btree = "(string \<times> 'v) list"

fun bt_insert :: "string \<Rightarrow> 'v \<Rightarrow> 'v btree \<Rightarrow> 'v btree" where
  "bt_insert k v [] = [(k, v)]"
| "bt_insert k v ((l, w) # m) =
     (if k = l then (k, v) # m else if str_less k l then (k, v) # (l, w) # m else (l, w) # bt_insert k v m)"

definition bt_get :: "'v btree \<Rightarrow> string \<Rightarrow> 'v option" where
  "bt_get m k = map_of m k"

definition bt_extend :: "'v btree \<Rightarrow> 'v btree \<Rightarrow> 'v btree" where
  "bt_extend m m' = fold (\<lambda>(k, v). bt_insert k v) m' m"

text \<open>\<open>entry(k).or_insert(v)\<close>\<close>

definition bt_or_insert :: "string \<Rightarrow> 'v \<Rightarrow> 'v btree \<Rightarrow> 'v btree" where
  "bt_or_insert k v m = (if bt_get m k = None then bt_insert k v m else m)"

section \<open>Data structures\<close>

record FieldSegment =
  seg_pos :: u32
  seg_len :: u32
  seg_signed :: bool

record Field =
  f_name :: string
  f_segments :: "FieldSegment list"
  f_func :: "string option"

record ArgSet =
  as_name :: string
  as_fields :: "string list"
  as_is_extern :: bool

datatype FieldMapping = FieldRef string | Inline u32 u32 bool | FConst int

record Format =
  fmt_name :: string
  fmt_fixedbits :: u32
  fmt_fixedmask :: u32
  fmt_args_name :: string
  fmt_field_map :: "FieldMapping btree"

record Pattern =
  p_name :: string
  p_fixedbits :: u32
  p_fixedmask :: u32
  p_args_name :: string
  p_field_map :: "FieldMapping btree"

record Parsed =
  ps_fields :: "Field btree"
  ps_argsets :: "ArgSet btree"
  ps_patterns :: "Pattern list"

section \<open>Bit patterns\<close>

definition is_bit_char :: "char \<Rightarrow> bool" where
  "is_bit_char c \<longleftrightarrow> c = CHR ''0'' \<or> c = CHR ''1'' \<or> c = CHR ''.'' \<or> c = CHR ''-''"

definition is_bit_token :: "string \<Rightarrow> bool" where
  "is_bit_token s \<longleftrightarrow> s \<noteq> [] \<and> list_all is_bit_char s"

definition is_inline_field :: "string \<Rightarrow> bool" where
  "is_inline_field s =
     (case find_char CHR '':'' s of
        Some i \<Rightarrow>
          let name = take i s; rest = drop (Suc i) s
          in name \<noteq> [] \<and> list_all (\<lambda>c. is_alphanumeric c \<or> c = CHR ''_'') name \<and> rest \<noteq> [] \<and> list_all is_digit rest
      | None \<Rightarrow> False)"

record BitPatternResult =
  bp_fixedbits :: u32
  bp_fixedmask :: u32
  bp_inline_fields :: "(u32 \<times> u32) btree"

text \<open>The inner loop over the characters of a token; \<open>bit_pos\<close> is the state.\<close>

fun parse_bits :: "nat \<Rightarrow> string \<Rightarrow> int \<times> BitPatternResult \<Rightarrow> string + int \<times> BitPatternResult" where
  "parse_bits width [] s = Inr s"
| "parse_bits width (c # cs) (bit_pos, r) =
     (if bit_pos < 0 then Inl (''bit pattern exceeds '' @ show_nat width @ '' bits'')
      else
        let b = push_bit (nat bit_pos) 1;
            r' = (if c = CHR ''1'' then r\<lparr>bp_fixedbits := bp_fixedbits r OR b, bp_fixedmask := bp_fixedmask r OR b\<rparr>
                  else if c = CHR ''0'' then r\<lparr>bp_fixedmask := bp_fixedmask r OR b\<rparr> else r)
        in parse_bits width cs (bit_pos - 1, r'))"

fun parse_bit_loop :: "nat \<Rightarrow> string list \<Rightarrow> int \<times> BitPatternResult \<Rightarrow> string + BitPatternResult" where
  "parse_bit_loop width [] (bit_pos, r) = Inr r"
| "parse_bit_loop width (tok # toks) (bit_pos, r) =
     (if is_bit_token tok then
        (case parse_bits width tok (bit_pos, r) of
           Inl e \<Rightarrow> Inl e
         | Inr s \<Rightarrow> parse_bit_loop width toks s)
      else if is_inline_field tok then
        (let idx = the (find_char CHR '':'' tok); name = take idx tok
         in case parse_u32 (drop (Suc idx) tok) of
              None \<Rightarrow> Inl ''bad inline field len: number too large to fit in target type''
            | Some len \<Rightarrow>
                let pos = word_of_int (bit_pos - sint len + 1)
                in parse_bit_loop width toks
                     (bit_pos - sint len, r\<lparr>bp_inline_fields := bt_insert name (pos, len) (bp_inline_fields r)\<rparr>))
      else Inr r)"

definition bp_empty :: BitPatternResult where
  "bp_empty = \<lparr>bp_fixedbits = 0, bp_fixedmask = 0, bp_inline_fields = []\<rparr>"

definition parse_bit_tokens :: "string list \<Rightarrow> nat \<Rightarrow> string + BitPatternResult" where
  "parse_bit_tokens tokens width = parse_bit_loop width tokens (int width - 1, bp_empty)"

definition count_bit_tokens :: "string list \<Rightarrow> nat" where
  "count_bit_tokens tokens = length (takeWhile (\<lambda>t. is_bit_token t \<or> is_inline_field t) tokens)"

section \<open>Fields, argument sets, formats, patterns\<close>

definition parse_field_segment :: "string \<Rightarrow> string + FieldSegment" where
  "parse_field_segment s =
     (case find_char CHR '':'' s of
        None \<Rightarrow> Inl (''bad segment: '' @ s)
      | Some i \<Rightarrow>
          let pos_str = take i s; rest = drop (Suc i) s; signed = (strip_prefix ''s'' rest \<noteq> None);
              len_str = (if signed then tl rest else rest)
          in case parse_u32 pos_str of
               None \<Rightarrow> Inl (''bad pos: '' @ pos_str)
             | Some pos \<Rightarrow>
                 (case parse_u32 len_str of
                    None \<Rightarrow> Inl (''bad len: '' @ len_str)
                  | Some len \<Rightarrow> Inr \<lparr>seg_pos = pos, seg_len = len, seg_signed = signed\<rparr>))"

fun parse_segments :: "string list \<Rightarrow> FieldSegment list \<times> string option \<Rightarrow> string + FieldSegment list \<times> string option" where
  "parse_segments [] s = Inr s"
| "parse_segments (tok # toks) (segs, func) =
     (case strip_prefix ''!function='' tok of
        Some f \<Rightarrow> parse_segments toks (segs, Some f)
      | None \<Rightarrow>
          (case parse_field_segment tok of
             Inl e \<Rightarrow> Inl e
           | Inr g \<Rightarrow> parse_segments toks (segs @ [g], func)))"

definition parse_field :: "string \<Rightarrow> string + Field" where
  "parse_field line =
     (let tokens = split_whitespace line; name = tl (hd tokens)
      in case parse_segments (tl tokens) ([], None) of
           Inl e \<Rightarrow> Inl e
         | Inr (segs, func) \<Rightarrow> Inr \<lparr>f_name = name, f_segments = segs, f_func = func\<rparr>)"

definition parse_argset :: "string \<Rightarrow> ArgSet" where
  "parse_argset line =
     (let tokens = split_whitespace line; is_extern = (last tokens = ''!extern'')
      in \<lparr>as_name = tl (hd tokens), as_fields = tl (if is_extern then butlast tokens else tokens), as_is_extern = is_extern\<rparr>)"

fun parse_attrs :: "string list \<Rightarrow> Field btree \<Rightarrow> string \<times> FieldMapping btree \<Rightarrow> string + string \<times> FieldMapping btree" where
  "parse_attrs [] flds s = Inr s"
| "parse_attrs (tok # toks) flds (args_name, fm) =
     (case strip_prefix ''&'' tok of
        Some a \<Rightarrow> parse_attrs toks flds (a, fm)
      | None \<Rightarrow>
     (case strip_prefix ''%'' tok of
        Some f \<Rightarrow> parse_attrs toks flds (args_name, bt_insert f (FieldRef f) fm)
      | None \<Rightarrow>
     (case find_char CHR ''='' tok of
        Some i \<Rightarrow>
          (let key = take i tok; val = drop (Suc i) tok
           in case strip_prefix ''%'' val of
                Some r \<Rightarrow> parse_attrs toks flds (args_name, bt_insert key (FieldRef r) fm)
              | None \<Rightarrow>
                  (case parse_i32 val of
                     Some c \<Rightarrow> parse_attrs toks flds (args_name, bt_insert key (FConst c) fm)
                   | None \<Rightarrow> Inl (''bad attr: '' @ tok)))
      | None \<Rightarrow>
          if strip_prefix ''!'' tok \<noteq> None \<or> strip_prefix ''@'' tok \<noteq> None then parse_attrs toks flds (args_name, fm)
          else if bt_get flds tok \<noteq> None then parse_attrs toks flds (args_name, bt_insert tok (FieldRef tok) fm)
          else parse_attrs toks flds (args_name, fm))))"

definition merge_inline :: "(u32 \<times> u32) btree \<Rightarrow> FieldMapping btree \<Rightarrow> FieldMapping btree" where
  "merge_inline xs fm = fold (\<lambda>(name, pos, len). bt_or_insert name (Inline pos len False)) xs fm"

definition parse_format :: "string \<Rightarrow> Field btree \<Rightarrow> nat \<Rightarrow> string + string \<times> Format" where
  "parse_format line flds width =
     (let tokens = split_whitespace line; name = tl (hd tokens); bit_count = count_bit_tokens (tl tokens)
      in case parse_bit_tokens (take bit_count (tl tokens)) width of
           Inl e \<Rightarrow> Inl e
         | Inr bp \<Rightarrow>
             (case parse_attrs (drop (Suc bit_count) tokens) flds ([], []) of
                Inl e \<Rightarrow> Inl e
              | Inr (args_name, fm) \<Rightarrow>
                  Inr (name, \<lparr>fmt_name = name, fmt_fixedbits = bp_fixedbits bp, fmt_fixedmask = bp_fixedmask bp,
                     fmt_args_name = args_name, fmt_field_map = merge_inline (bp_inline_fields bp) fm\<rparr>)))"

text \<open>\<open>None\<close> when no token names a format.\<close>

definition format_ref :: "string list \<Rightarrow> string option" where
  "format_ref rest = (case filter (\<lambda>t. strip_prefix ''@'' t \<noteq> None) rest of t # _ \<Rightarrow> Some (tl t) | [] \<Rightarrow> None)"

definition parse_pattern ::
    "string \<Rightarrow> Format btree \<Rightarrow> Field btree \<Rightarrow> ArgSet btree \<Rightarrow> nat \<Rightarrow> string + Pattern \<times> ArgSet btree" where
  "parse_pattern line formats flds auto_args width =
     (let tokens = split_whitespace line; name = hd tokens; bit_count = count_bit_tokens (tl tokens);
          rest = drop (Suc bit_count) tokens
      in case parse_bit_tokens (take bit_count (tl tokens)) width of
           Inl e \<Rightarrow> Inl e
         | Inr bp \<Rightarrow>
             (case format_ref rest of
                Some fname \<Rightarrow>
                  (case bt_get formats fname of
                     None \<Rightarrow> Inl (''unknown format @'' @ fname)
                   | Some fmt \<Rightarrow>
                       (case parse_attrs rest flds ([], []) of
                          Inl e \<Rightarrow> Inl e
                        | Inr (_, extra) \<Rightarrow>
                            Inr (\<lparr>p_name = name, p_fixedbits = bp_fixedbits bp OR fmt_fixedbits fmt,
                                  p_fixedmask = bp_fixedmask bp OR fmt_fixedmask fmt, p_args_name = fmt_args_name fmt,
                                  p_field_map = bt_extend (fmt_field_map fmt) extra\<rparr>, auto_args)))
              | None \<Rightarrow>
                  (case parse_attrs rest flds ([], []) of
                     Inl e \<Rightarrow> Inl e
                   | Inr (an, fm0) \<Rightarrow>
                       let fm = merge_inline (bp_inline_fields bp) fm0;
                           auto = (an = [] \<and> fm \<noteq> []);
                           aname = ''_auto_'' @ name;
                           args = (if auto then bt_insert aname \<lparr>as_name = aname, as_fields = map fst fm, as_is_extern = False\<rparr> auto_args
                                   else auto_args)
                       in Inr (\<lparr>p_name = name, p_fixedbits = bp_fixedbits bp, p_fixedmask = bp_fixedmask bp,
                               p_args_name = (if auto then aname else an), p_field_map = fm\<rparr>, args))))"

section \<open>Files\<close>

definition merge_step :: "string \<times> bool \<Rightarrow> string \<Rightarrow> string \<times> bool" where
  "merge_step s line =
     (case s of (out, cont) \<Rightarrow>
        let out = (if cont then out @ '' '' @ trim line else if out \<noteq> [] then out @ [CHR 0x0A] @ line else line);
            cont = (out \<noteq> [] \<and> last out = CHR 0x5C)
        in (if cont then rev (dropWhile (\<lambda>c. c = CHR '' '') (rev (butlast out))) else out, cont))"

definition merge_continuations :: "string \<Rightarrow> string" where
  "merge_continuations input = fst (foldl merge_step ([], False) (str_lines input))"

record parse_state =
  st_fields :: "Field btree"
  st_argsets :: "ArgSet btree"
  st_formats :: "Format btree"
  st_patterns :: "Pattern list"
  st_auto :: "ArgSet btree"

text \<open>One logical line, without its comment. An error is returned as it is.\<close>

definition parse_line :: "nat \<Rightarrow> string \<Rightarrow> parse_state \<Rightarrow> string + parse_state" where
  "parse_line width raw_line s =
     (let line = trim (case find_char CHR ''#'' raw_line of Some i \<Rightarrow> take i raw_line | None \<Rightarrow> raw_line)
      in if line = [] then Inr s
         else
           let first = hd line
           in if first = CHR ''%'' then
                (case parse_field line of Inl e \<Rightarrow> Inl e
                 | Inr f \<Rightarrow> Inr (s\<lparr>st_fields := bt_insert (f_name f) f (st_fields s)\<rparr>))
              else if first = CHR ''&'' then
                (let a = parse_argset line in Inr (s\<lparr>st_argsets := bt_insert (as_name a) a (st_argsets s)\<rparr>))
              else if first = CHR ''@'' then
                (case parse_format line (st_fields s) width of Inl e \<Rightarrow> Inl e
                 | Inr (n, f) \<Rightarrow> Inr (s\<lparr>st_formats := bt_insert n f (st_formats s)\<rparr>))
              else if first \<in> {CHR ''{'', CHR ''}'', CHR ''['', CHR '']''} then Inr s
              else
                (case parse_pattern line (st_formats s) (st_fields s) (st_auto s) width of Inl e \<Rightarrow> Inl e
                 | Inr (p, auto) \<Rightarrow> Inr (s\<lparr>st_patterns := st_patterns s @ [p], st_auto := auto\<rparr>)))"

fun parse_lines :: "nat \<Rightarrow> string list \<Rightarrow> parse_state \<Rightarrow> string + parse_state" where
  "parse_lines width [] s = Inr s"
| "parse_lines width (l # ls) s =
     (case parse_line width l s of Inl e \<Rightarrow> Inl e | Inr s \<Rightarrow> parse_lines width ls s)"

definition parse_with_width :: "string \<Rightarrow> nat \<Rightarrow> string + Parsed" where
  "parse_with_width input width =
     (case parse_lines width (str_lines (merge_continuations input))
        \<lparr>st_fields = [], st_argsets = [], st_formats = [], st_patterns = [], st_auto = []\<rparr> of
        Inl e \<Rightarrow> Inl e
      | Inr s \<Rightarrow> Inr \<lparr>ps_fields = st_fields s, ps_argsets = bt_extend (st_argsets s) (st_auto s), ps_patterns = st_patterns s\<rparr>)"

section \<open>The emitted code\<close>

text \<open>
  \<open>((insn as iW) << l) >> r\<close> as an \<open>i64\<close>, where \<open>W\<close> is 16 for the compressed decoder and 32
  otherwise.
\<close>

definition signed_field :: "nat \<Rightarrow> nat \<Rightarrow> nat \<Rightarrow> u32 \<Rightarrow> i64" where
  "signed_field width l r insn =
     (if width \<le> 16 then scast (signed_drop_bit r (push_bit l (ucast insn :: u16)))
      else scast (signed_drop_bit r (push_bit l insn)))"

definition unsigned_field :: "nat \<Rightarrow> nat \<Rightarrow> u32 \<Rightarrow> i64" where
  "unsigned_field pos len insn = ucast (drop_bit pos insn AND (push_bit len 1 - 1))"

text \<open>A segment; the generator panics when it does not fit the width or is 32 bits wide and unsigned.\<close>

definition segment_val :: "nat \<Rightarrow> bool \<Rightarrow> FieldSegment \<Rightarrow> u32 \<Rightarrow> i64 option" where
  "segment_val width first g insn =
     (let pos = unat (seg_pos g); len = unat (seg_len g)
      in if first \<and> seg_signed g then do {
           assert_that (pos + len \<le> width);
           Some (signed_field width (width - pos - len) (width - len) insn) }
         else do {
           assert_that (len < 32);
           Some (unsigned_field pos len insn) })"

fun more_segments :: "nat \<Rightarrow> FieldSegment list \<Rightarrow> u32 \<Rightarrow> i64 \<Rightarrow> i64 option" where
  "more_segments width [] insn val = Some val"
| "more_segments width (g # gs) insn val = do {
     v \<leftarrow> segment_val width False g insn;
     more_segments width gs insn (push_bit (unat (seg_len g)) val OR v) }"

definition func_transform :: "string \<Rightarrow> i64 \<Rightarrow> i64" where
  "func_transform func val =
     (if func = ''ex_shift_1'' then push_bit 1 val
      else if func = ''ex_shift_2'' then push_bit 2 val
      else if func = ''ex_shift_3'' then push_bit 3 val
      else if func = ''ex_shift_4'' then push_bit 4 val
      else if func = ''ex_shift_12'' then push_bit 12 val
      else if func = ''ex_rvc_register'' then val + 8
      else if func = ''ex_sreg_register'' then [8, 9, 18, 19, 20, 21, 22, 23] ! unat (val AND 7)
      else val)"

text \<open>The value of \<open>extract_name(insn)\<close>.\<close>

definition extract_field :: "nat \<Rightarrow> Field \<Rightarrow> u32 \<Rightarrow> i64 option" where
  "extract_field width f insn =
     (case f_segments f of
        [] \<Rightarrow> None
      | g # gs \<Rightarrow> do {
          val \<leftarrow> segment_val width True g insn;
          val \<leftarrow> more_segments width gs insn val;
          Some (case f_func f of Some func \<Rightarrow> func_transform func val | None \<Rightarrow> val) })"

definition field_expr :: "nat \<Rightarrow> Field btree \<Rightarrow> FieldMapping \<Rightarrow> u32 \<Rightarrow> i64 option" where
  "field_expr width flds mapping insn =
     (case mapping of
        FieldRef r \<Rightarrow> do { f \<leftarrow> bt_get flds r; extract_field width f insn }
      | Inline pos len sgd \<Rightarrow>
          segment_val width True \<lparr>seg_pos = pos, seg_len = len, seg_signed = sgd\<rparr> insn
      | FConst c \<Rightarrow> Some (word_of_int c))"

text \<open>
  The argument struct of a pattern as a function of the field name; a field without a mapping is 0.
\<close>

fun arg_values :: "nat \<Rightarrow> Parsed \<Rightarrow> Pattern \<Rightarrow> u32 \<Rightarrow> string list \<Rightarrow> (string \<times> i64) list option" where
  "arg_values width ps p insn [] = Some []"
| "arg_values width ps p insn (f # fs) = do {
     v \<leftarrow> (case bt_get (p_field_map p) f of Some m \<Rightarrow> field_expr width (ps_fields ps) m insn | None \<Rightarrow> Some 0);
     vs \<leftarrow> arg_values width ps p insn fs;
     Some ((f, v) # vs) }"

definition pattern_args :: "nat \<Rightarrow> Parsed \<Rightarrow> Pattern \<Rightarrow> u32 \<Rightarrow> (string \<times> i64) list option" where
  "pattern_args width ps p insn =
     arg_values width ps p insn
       (if p_args_name p = [] then [] else case bt_get (ps_argsets ps) (p_args_name p) of Some a \<Rightarrow> as_fields a | None \<Rightarrow> [])"

text \<open>The condition of a pattern: \<open>insn == bits\<close> for a full mask, \<open>insn & mask == bits\<close> otherwise.\<close>

definition pattern_matches :: "nat \<Rightarrow> Pattern \<Rightarrow> u32 \<Rightarrow> bool" where
  "pattern_matches width p insn =
     (let full_mask = (if width \<le> 16 then 0xffff else 0xffffffff)
      in if p_fixedmask p = full_mask then insn = p_fixedbits p else insn AND p_fixedmask p = p_fixedbits p)"

text \<open>
  The emitted \<open>decode\<close> function: the first pattern that matches decides, and the call of its trait
  method with its arguments is the result; no call is the \<open>false\<close> at the end.
\<close>

datatype decoded = NoMatch | CallTrans string "(string \<times> i64) list"

fun decode_patterns :: "nat \<Rightarrow> Parsed \<Rightarrow> Pattern list \<Rightarrow> u32 \<Rightarrow> decoded option" where
  "decode_patterns width ps [] insn = Some NoMatch"
| "decode_patterns width ps (p # pts) insn =
     (if pattern_matches width p insn
      then do { args \<leftarrow> pattern_args width ps p insn; Some (CallTrans (p_name p) args) }
      else decode_patterns width ps pts insn)"

definition generated_decoder :: "nat \<Rightarrow> Parsed \<Rightarrow> u32 \<Rightarrow> decoded option" where
  "generated_decoder width ps insn = decode_patterns width ps (ps_patterns ps) insn"

definition field_value :: "(string \<times> i64) list \<Rightarrow> string \<Rightarrow> i64" where
  "field_value args f = (case map_of args f of Some v \<Rightarrow> v | None \<Rightarrow> 0)"

section \<open>Names in the emitted code\<close>

fun camel_from :: "bool \<Rightarrow> string \<Rightarrow> string" where
  "camel_from upper [] = []"
| "camel_from upper (c # cs) =
     (if c = CHR ''_'' then camel_from True cs
      else if upper then (if (97 :: nat) \<le> of_char c \<and> of_char c \<le> (122 :: nat) then char_of (of_char c - 32 :: nat) else c) # camel_from False cs
      else c # camel_from False cs)"

definition to_camel :: "string \<Rightarrow> string" where
  "to_camel s = camel_from True s"

end
