(* ===== verification/Growth.thy ===== *)
theory Growth
  imports Codegen
begin

text \<open>
  Emitting code never touches what is already in the buffer. \<open>grows f\<close> says that whatever
  \<open>f\<close> leaves behind is the old code followed by something; it is compositional and holds of
  every emitter of the encoder and of the code generator, also of those whose bytes depend on
  where they are placed.
\<close>

section \<open>Growing\<close>

definition extends :: "CodeBuffer \<Rightarrow> CodeBuffer \<Rightarrow> bool" where
  "extends b b' \<longleftrightarrow> cb_inv b' \<and> capacity b' = capacity b \<and> (\<exists>bs. as_slice b' = as_slice b @ bs)"

definition grows :: "code_emitter \<Rightarrow> bool" where
  "grows f \<longleftrightarrow> (\<forall>b b'. cb_inv b \<longrightarrow> f b = Some b' \<longrightarrow> extends b b')"

lemma extends_refl [simp]: "cb_inv b \<Longrightarrow> extends b b"
  by (simp add: extends_def)

lemma extends_trans: "extends a b \<Longrightarrow> extends b c \<Longrightarrow> extends a c"
  by (auto simp: extends_def)

lemma extends_inv [dest]: "extends a b \<Longrightarrow> cb_inv b"
  by (simp add: extends_def)

lemma growsD: "grows f \<Longrightarrow> cb_inv b \<Longrightarrow> f b = Some b' \<Longrightarrow> extends b b'"
  by (simp add: grows_def)

lemma grows_appends: "appends f bs \<Longrightarrow> grows f"
  unfolding grows_def appends_def extends_def using emit_bytes_inv emit_bytes_slice by metis

lemma grows_seq: "grows f \<Longrightarrow> grows g \<Longrightarrow> grows (\<lambda>b. f b \<bind> g)"
  unfolding grows_def by (auto simp: bind_eq_Some_conv) (meson extends_inv extends_trans)

lemma grows_bind: "(\<And>x. grows (f x)) \<Longrightarrow> grows (\<lambda>b. v \<bind> (\<lambda>x. f x b))"
  by (cases v) (simp_all add: grows_def)

lemma grows_cond: "(p \<Longrightarrow> grows f) \<Longrightarrow> (\<not> p \<Longrightarrow> grows g) \<Longrightarrow> grows (\<lambda>b. if p then f b else g b)"
  by (simp add: grows_def)

lemma grows_basic:
  "grows Some" "grows (\<lambda>b. Some b)" "grows (\<lambda>b. None)" "grows (emit_u8 x8)" "grows (emit_u32 x32)"
  "grows (emit_u64 x64)" "grows (emit_bytes bs)"
  using appends_emit [THEN grows_appends] by (simp_all add: grows_def)

lemma grows_if: "grows f \<Longrightarrow> grows (emit_if c f)"
  unfolding emit_if_def by (intro grows_cond grows_basic)

text \<open>An emitter whose bytes depend on the offset.\<close>

lemma grows_offset: "(\<And>k. grows (f k)) \<Longrightarrow> grows (\<lambda>b. f (cb_offset b) b)"
  by (simp add: grows_def)

lemmas grows_intros = grows_basic grows_seq grows_bind grows_cond grows_if

section \<open>The encoder\<close>

lemma grows_opc: "grows (emit_opc opc r rm)" "grows (emit_modrm opc q p)" "grows (emit_modrm_ext opc e p)"
  "grows (emit_modrm_offset opc q p off)" "grows (emit_modrm_ext_offset opc e p off)"
  by (rule grows_appends, rule appends_opc appends_modrm appends_modrm_ext appends_modrm_offset appends_modrm_ext_offset)+

lemma grows_sib: "grows (emit_modrm_sib opc r base idx shift off)"
proof (cases "shift \<le> 3 \<and> idx \<noteq> Rsp")
  case True
  then show ?thesis using appends_modrm_sib grows_appends by blast
qed (auto simp: grows_def emit_modrm_sib_def)

lemmas encoder_defs = emit_arith_rr_def emit_arith_ri_def emit_neg_def emit_not_def emit_shift_ri_def emit_shift_cl_def
  emit_mov_rr_def emit_mov_ri_def emit_movzx_def emit_movsx_def emit_bswap_def emit_load_def emit_store_def
  emit_store_byte_def emit_store_word_def emit_lea_sib_def emit_load_sib_def emit_store_sib_def
  emit_store_byte_sib_def emit_store_word_sib_def emit_load_zx_sib_def emit_load_sx_sib_def emit_load_zx_def
  emit_load_sx_def emit_mul_def emit_imul1_def emit_imul_rr_def emit_div_def emit_idiv_def emit_lzcnt_def
  emit_tzcnt_def emit_popcnt_def emit_jmp_reg_def emit_call_reg_def emit_setcc_def emit_cmovcc_def
  emit_test_rr_def emit_push_def emit_pop_def emit_ret_def emit_shrd_ri_def emit_rolw_8_def emit_stc_def
  emit_goto_ptr_def emit_mfence_def emit_andn_def emit_vex_modrm_def

lemma grows_encoder:
  "grows (emit_arith_rr a w d s)" "grows (emit_arith_ri a w d imm)" "grows (emit_neg w d)" "grows (emit_not w d)"
  "grows (emit_shift_ri sh w d k)" "grows (emit_shift_cl sh w d)" "grows (emit_mov_rr w d s)" "grows (emit_mov_ri w d v)"
  "grows (emit_movzx opc d s)" "grows (emit_movsx opc d s)" "grows (emit_bswap w d)" "grows (emit_load w d s off)"
  "grows (emit_store w d s off)" "grows (emit_store_byte d s off)" "grows (emit_store_word d s off)"
  "grows (emit_lea_sib w d s i k off)" "grows (emit_load_sib w d s i k off)" "grows (emit_store_sib w d s i k off)"
  "grows (emit_store_byte_sib d s i)" "grows (emit_store_word_sib d s i)" "grows (emit_load_zx_sib opc d s i)"
  "grows (emit_load_sx_sib opc d s i)" "grows (emit_load_zx opc d s off)" "grows (emit_load_sx opc d s off)"
  "grows (emit_mul w d)" "grows (emit_imul1 w d)" "grows (emit_imul_rr w d s)" "grows (emit_div w d)" "grows (emit_idiv w d)"
  "grows (emit_lzcnt w d s)" "grows (emit_tzcnt w d s)" "grows (emit_popcnt w d s)" "grows (emit_jmp_reg d)"
  "grows (emit_call_reg d)" "grows (emit_setcc cc d)" "grows (emit_cmovcc cc w d s)" "grows (emit_test_rr w d s)"
  "grows (emit_push d)" "grows (emit_pop d)" "grows emit_ret" "grows (emit_shrd_ri w d s k)" "grows (emit_rolw_8 d)"
  "grows emit_stc" "grows (emit_goto_ptr d)" "grows emit_mfence" "grows (emit_andn w d s t)"
  unfolding encoder_defs Let_def by (intro grows_intros grows_opc grows_sib)+

lemma grows_rel32: "grows (\<lambda>b. rel32 t (cb_offset b + 4) \<bind> (\<lambda>disp. emit_u32 disp b))"
  using grows_offset [of "\<lambda>k b. rel32 t (k + 4) \<bind> (\<lambda>disp. emit_u32 disp b)"] by (simp add: grows_intros)

lemma grows_jumps: "grows (emit_jcc cc t)" "grows (emit_jmp t)"
  unfolding emit_jcc_def emit_jmp_def by (intro grows_seq grows_opc grows_basic grows_rel32)+

lemma grows_nops: "grows (emit_nops n)"
proof (induction n rule: less_induct)
  case (less n)
  show ?case
  proof (cases "n = 0")
    case True
    then show ?thesis by (simp add: grows_def emit_nops.simps)
  next
    case False
    then have "grows (\<lambda>b. emit_bytes (nop_bytes n) b \<bind> emit_nops (n - min n 8))"
      by (intro grows_seq grows_basic less.IH) simp
    with False show ?thesis by (simp add: grows_def emit_nops.simps [of n])
  qed
qed

section \<open>The code generator\<close>

lemma grows_moves:
  "grows (tcg_out_mov ty d s)" "grows (tcg_out_movi ty d v)" "grows (tcg_out_ld ty d s off)" "grows (tcg_out_st ty d s off)"
  unfolding tcg_out_mov_def tcg_out_movi_def tcg_out_ld_def tcg_out_st_def
  by (intro grows_intros grows_encoder)+

lemma grows_patterns:
  "(\<And>d s. grows (f d s)) \<Longrightarrow> grows (out_destructive f oregs iregs)" "(\<And>d s. grows (f d s)) \<Longrightarrow> grows (out_unary f oregs iregs)"
  "(\<And>d s k. grows (h d s k)) \<Longrightarrow> grows (out_load h oregs iregs cs)" "(\<And>d s k. grows (h d s k)) \<Longrightarrow> grows (out_store h iregs cs)"
  "grows (out_compare c w a d)"
  unfolding out_destructive_def out_unary_def out_load_def out_store_def out_compare_def
  by (intro grows_intros grows_encoder; assumption)+

lemmas grows_parts = grows_intros grows_encoder grows_patterns

lemma grows_arith: "grows (out_arith x w oregs iregs)"
  unfolding out_arith_def by (cases x; simp only: ArithOp.case; intro grows_parts)

lemma grows_mul_wide: "grows (out_mul_wide x w oregs iregs)"
  unfolding out_mul_wide_def by (cases x; simp only: MulWOp.case; intro grows_parts)

lemma grows_logic: "grows (out_logic x w oregs iregs)"
  unfolding out_logic_def by (cases x; simp only: LogicOp.case; intro grows_parts)

lemma grows_shift: "grows (out_shift x w oregs iregs)"
  unfolding out_shift_def by (intro grows_parts)

lemma grows_carry: "grows (out_carry x w oregs iregs)"
  unfolding out_carry_def by (cases x; simp only: CarryOp.case; intro grows_parts)

lemma grows_cond_ops: "grows (out_cond x w oregs iregs cs)"
  unfolding out_cond_def by (cases x; simp only: DataMovOp.case; intro grows_parts)

lemma grows_field: "grows (out_field x w oregs iregs cs)"
  unfolding out_field_def by (cases x; simp only: FieldOp.case; intro grows_parts grows_opc)

lemma grows_bswap: "grows (out_bswap x w oregs cs)"
  unfolding out_bswap_def by (cases x; simp only: BswapOp.case; intro grows_parts)

lemma grows_count: "grows (out_count x w oregs iregs)"
  unfolding out_count_def by (cases x; simp only: CountOp.case; intro grows_parts)

lemma grows_conv: "grows (out_conv x oregs iregs)"
  unfolding out_conv_def by (cases x; simp only: ConvOp.case; intro grows_parts)

lemma grows_host_mem: "grows (out_host_mem x w oregs iregs cs)"
  unfolding out_host_mem_def by (cases x; simp only: HostMemOp.case; intro grows_parts)

lemma grows_qemu: "grows (out_qemu_ld w m d a)" "grows (out_qemu_st m d a)"
  unfolding out_qemu_ld_def out_qemu_st_def Let_def by (intro grows_parts)+

lemma grows_guest_mem: "grows (out_guest_mem x w oregs iregs cs)"
  unfolding out_guest_mem_def by (cases x; simp only: GuestMemOp.case; intro grows_parts grows_qemu)

lemma grows_brcond: "grows (out_brcond c w iregs cs)"
  unfolding out_brcond_def by (intro grows_parts grows_jumps grows_opc)

lemma grows_exit: "grows (emit_exit_tb g v)"
  unfolding emit_exit_tb_def by (intro grows_parts grows_jumps)

lemma grows_call: "grows (out_call cs)"
  unfolding out_call_def Let_def by (intro grows_parts)

lemma grows_ctl:
  "grows (\<lambda>b. case x of BrCond \<Rightarrow> out_brcond c w iregs cs b
              | ExitTb \<Rightarrow> do { v \<leftarrow> index cs 0; emit_exit_tb g (encode_tb_exit (tb_idx c) (ucast v)) b }
              | GotoPtr \<Rightarrow> do { r \<leftarrow> reg_at iregs 0; emit_goto_ptr r b }
              | _ \<Rightarrow> None)"
  by (cases x; simp only: CtlOp.case; intro grows_parts grows_brcond grows_exit)

lemma grows_plain: "grows (out_plain g c op oregs iregs cs)"
  unfolding out_plain_def Let_def
  by (cases "o_opc op"; simp only: Opcode.Opcode.case;
      intro grows_arith grows_mul_wide grows_logic grows_shift grows_carry grows_cond_ops grows_field grows_bswap
        grows_count grows_conv grows_host_mem grows_guest_mem grows_ctl grows_call grows_basic)

lemma goto_tb_extends:
  assumes inv: "cb_inv b" and run: "emit_goto_tb b = Some (j, r, b')"
  shows "extends b b'"
proof -
  let ?pad = "(cb_offset b + 1 + 3) div 4 * 4 - (cb_offset b + 1)"
  let ?f = "\<lambda>b. (if ?pad > 0 then emit_nops ?pad b else Some b) \<bind> (\<lambda>b. emit_u8 0xE9 b \<bind> emit_u32 0)"
  have g: "grows ?f" by (intro grows_intros grows_nops)
  have r: "?f b = Some b'"
    using run unfolding emit_goto_tb_def Let_def by (auto simp: bind_eq_Some_conv simp del: One_nat_def)
  show ?thesis by (rule growsD [OF g inv r])
qed

lemma tcg_out_op_extends:
  assumes "cb_inv b" "tcg_out_op g c op oregs iregs cs b = Some (g', b')"
  shows "extends b b' \<and> (\<exists>is. g' = g\<lparr>goto_tb_info := goto_tb_info g @ is\<rparr>)"
proof (cases "o_opc op = OCtl GotoTb")
  case True
  then show ?thesis using assms goto_tb_extends [OF assms(1)] by (auto simp: tcg_out_op_def bind_eq_Some_conv)
next
  case False
  then have "out_plain g c op oregs iregs cs b = Some b'" "g' = g"
    using assms(2) by (auto simp: tcg_out_op_def bind_eq_Some_conv)
  then show ?thesis using growsD [OF grows_plain assms(1)] by (intro conjI exI [of _ "[]"]) auto
qed

section \<open>Panics\<close>

lemmas group_defs = out_arith_def out_mul_wide_def out_logic_def out_shift_def out_carry_def out_cond_def out_field_def
  out_bswap_def out_count_def out_conv_def out_host_mem_def out_guest_mem_def out_destructive_def out_unary_def
  out_load_def out_store_def

lemma no_constraint_panics:
  assumes "op_constraint (o_opc op) = OC_EMPTY" "o_opc op \<noteq> OCtl ExitTb"
  shows "out_plain g c op oregs iregs cs b = None"
proof -
  have "o_opc op \<in> set UNCONSTRAINED \<or> opc_is_vector (o_opc op)" using assms constraint_table [of "o_opc op"] by (auto split: if_splits)
  then show ?thesis
  proof
    assume "o_opc op \<in> set UNCONSTRAINED"
    then show ?thesis using assms(2) by (auto simp: UNCONSTRAINED_def out_plain_def group_defs)
  next
    assume v: "opc_is_vector (o_opc op)"
    then show ?thesis
    proof (cases "o_opc op")
      case Call
      then show ?thesis using v by (simp add: opc_is_vector_def flag_defs)
    qed (rename_tac x, case_tac x, simp_all add: out_plain_def opc_is_vector_def flag_defs)+
  qed
qed

lemma bad_output_panics:
  assumes "reg_at oregs 0 = None" "nb_oargs (def_of (o_opc op)) = 1" "o_opc op \<noteq> Call"
  shows "out_plain g c op oregs iregs cs b = None"
  using assms(2,3)
proof (cases "o_opc op")
  case (OCtl x)
  then show ?thesis using assms(2) by (cases x) simp_all
qed (rename_tac x, case_tac x, simp_all add: out_plain_def group_defs assms(1))+

lemma bad_cond_panics:
  assumes "\<forall>k. cs ! 0 \<noteq> cond_as_u32 k" "o_opc op \<in> set [OMov SetCond, OMov NegSetCond, OMov MovCond, OCtl BrCond]"
  shows "out_plain g c op oregs iregs cs b = None"
proof -
  have c: "cond_from_u32 (cs ! 0) = None"
    using assms(1) [rule_format, of Never] assms(1) [rule_format, of Always] assms(1) [rule_format, of Eq] assms(1) [rule_format, of Ne]
      assms(1) [rule_format, of Lt] assms(1) [rule_format, of Ge] assms(1) [rule_format, of Le] assms(1) [rule_format, of Gt]
      assms(1) [rule_format, of Ltu] assms(1) [rule_format, of Geu] assms(1) [rule_format, of Leu] assms(1) [rule_format, of Gtu]
      assms(1) [rule_format, of TstEq] assms(1) [rule_format, of TstNe]
    by (simp add: cond_from_u32_def)
  show ?thesis using assms(2)
    by (auto simp: c out_plain_def out_cond_def out_brcond_def Let_def cong: if_cong)
qed

lemma bad_field_panics:
  assumes "cs ! 0 \<noteq> 0 \<or> cs ! 1 \<notin> {8, 16, 32}" "o_opc op \<in> set [OField Extract, OField SExtract, OField Deposit]"
  shows "out_plain g c op oregs iregs cs b = None"
  using assms by (auto simp: out_plain_def out_field_def Let_def cong: if_cong)

section \<open>Properties\<close>

text \<open>
  C31: An opcode the backend cannot emit is an error, never wrong code. For every opcode without a
  register constraint except the two block exits, \<open>tcg_out_op\<close> panics whatever its arguments;
  so do an invalid condition, an unsupported bit field and a register number above fifteen.
\<close>

theorem unsupported_ops_panic:
  assumes "o_opc op \<noteq> OCtl GotoTb"
    "op_constraint (o_opc op) = OC_EMPTY \<and> o_opc op \<noteq> OCtl ExitTb \<or>
     o_opc op \<in> set [OMov SetCond, OMov NegSetCond, OMov MovCond, OCtl BrCond] \<and> (\<forall>k. cs ! 0 \<noteq> cond_as_u32 k) \<or>
     o_opc op \<in> set [OField Extract, OField SExtract, OField Deposit] \<and> (cs ! 0 \<noteq> 0 \<or> cs ! 1 \<notin> {8, 16, 32}) \<or>
     nb_oargs (def_of (o_opc op)) = 1 \<and> o_opc op \<noteq> Call \<and> oregs ! 0 \<ge> 16"
  shows "tcg_out_op g c op oregs iregs cs b = None"
proof -
  have r: "reg_at oregs 0 = None" if "oregs ! 0 \<ge> 16"
    using that by (auto simp: reg_at_def reg_from_u8_def linorder_not_less)
  from assms(2) have "out_plain g c op oregs iregs cs b = None"
  proof (elim disjE)
    assume "op_constraint (o_opc op) = OC_EMPTY \<and> o_opc op \<noteq> OCtl ExitTb"
    then show ?thesis by (intro no_constraint_panics) auto
  next
    assume "o_opc op \<in> set [OMov SetCond, OMov NegSetCond, OMov MovCond, OCtl BrCond] \<and> (\<forall>k. cs ! 0 \<noteq> cond_as_u32 k)"
    then show ?thesis by (intro bad_cond_panics) auto
  next
    assume "o_opc op \<in> set [OField Extract, OField SExtract, OField Deposit] \<and> (cs ! 0 \<noteq> 0 \<or> cs ! 1 \<notin> {8, 16, 32})"
    then show ?thesis by (intro bad_field_panics) auto
  next
    assume "nb_oargs (def_of (o_opc op)) = 1 \<and> o_opc op \<noteq> Call \<and> oregs ! 0 \<ge> 16"
    then show ?thesis by (intro bad_output_panics r) auto
  qed
  then show ?thesis using assms(1) by (simp add: tcg_out_op_def)
qed

theorem unsupported_ops_panic_witness:
  "tcg_out_op codegen_new context_new (op_new 0 (OArith DivS) I64) [0] [0, 1] [] \<lparr>cb_mem = replicate 16 0, cb_offset = 0\<rparr> = None"
  by (rule unsupported_ops_panic) (simp_all add: op_new_def op_constraint_def)

end
