(* ===== verification/RegAlloc.thy ===== *)
theory RegAlloc
  imports Growth Optimize Liveness
begin

text \<open>
  The register allocator (\<open>backend/src/regalloc.rs\<close>) and the translation pipeline
  (\<open>backend/src/translate.rs\<close>). The functions of the source take the context, the allocator
  state, the backend and the code buffer; the record \<open>RA\<close> holds the four of them. A panic is
  \<open>None\<close>. The loops over an op's arguments are recursions over their positions.
\<close>

section \<open>State\<close>

record RegAllocState =
  reg_to_temp :: "tempidx option list"
  free_regs :: RegSet
  allocatable :: RegSet

definition ra_new :: "RegSet \<Rightarrow> RegAllocState" where
  "ra_new al = \<lparr>reg_to_temp = replicate 16 None, free_regs = al, allocatable = al\<rparr>"

definition free_reg :: "u8 \<Rightarrow> RegAllocState \<Rightarrow> RegAllocState option" where
  "free_reg reg st = do {
     m \<leftarrow> index_set (reg_to_temp st) (unat reg) None;
     al \<leftarrow> rs_contains (allocatable st) reg;
     fr \<leftarrow> (if al then rs_set (free_regs st) reg else Some (free_regs st));
     Some (st\<lparr>reg_to_temp := m, free_regs := fr\<rparr>) }"

definition assign :: "u8 \<Rightarrow> tempidx \<Rightarrow> RegAllocState \<Rightarrow> RegAllocState option" where
  "assign reg tidx st = do {
     m \<leftarrow> index_set (reg_to_temp st) (unat reg) (Some tidx);
     fr \<leftarrow> rs_clear (free_regs st) reg;
     Some (st\<lparr>reg_to_temp := m, free_regs := fr\<rparr>) }"

record RA =
  ra_ctx :: Context
  ra_state :: RegAllocState
  ra_buf :: CodeBuffer
  ra_gen :: X86_64CodeGen

text \<open>The parts of a step: on the allocator state, on one temp, on the buffer.\<close>

definition with_state :: "(RegAllocState \<Rightarrow> RegAllocState option) \<Rightarrow> RA \<Rightarrow> RA option" where
  "with_state f s = do { st \<leftarrow> f (ra_state s); Some (s\<lparr>ra_state := st\<rparr>) }"

definition with_temp :: "tempidx \<Rightarrow> (Temp \<Rightarrow> Temp) \<Rightarrow> RA \<Rightarrow> RA option" where
  "with_temp tidx f s = do {
     t \<leftarrow> temp (ra_ctx s) tidx; c \<leftarrow> set_temp (ra_ctx s) tidx (f t); Some (s\<lparr>ra_ctx := c\<rparr>) }"

definition with_buf :: "code_emitter \<Rightarrow> RA \<Rightarrow> RA option" where
  "with_buf f s = do { b \<leftarrow> f (ra_buf s); Some (s\<lparr>ra_buf := b\<rparr>) }"

section \<open>Helpers\<close>

definition temp_sync :: "tempidx \<Rightarrow> RA \<Rightarrow> RA option" where
  "temp_sync tidx s = do {
     t \<leftarrow> temp (ra_ctx s) tidx;
     if t_mem_coherent t then Some s
     else (case t_reg t of
        None \<Rightarrow> Some s
      | Some reg \<Rightarrow>
          (case t_mem_base t of
             Some base_idx \<Rightarrow> do {
               bt \<leftarrow> temp (ra_ctx s) base_idx;
               base_reg \<leftarrow> t_reg bt;
               with_buf (tcg_out_st (t_ty t) reg base_reg (t_mem_offset t)) s }
           | None \<Rightarrow>
               if t_mem_allocated t then do {
                 fr \<leftarrow> frame_reg (ra_ctx s);
                 with_buf (tcg_out_st (t_ty t) reg fr (t_mem_offset t)) s }
               else Some s)) }"

definition to_mem :: "Temp \<Rightarrow> Temp" where
  "to_mem t = t\<lparr>t_val_type := Mem, t_reg := None, t_mem_coherent := True\<rparr>"

definition evict_reg :: "u8 \<Rightarrow> RA \<Rightarrow> RA option" where
  "evict_reg reg s = do {
     occ \<leftarrow> index (reg_to_temp (ra_state s)) (unat reg);
     case occ of
       None \<Rightarrow> Some s
     | Some tidx \<Rightarrow> do {
         t \<leftarrow> temp (ra_ctx s) tidx;
         if is_global_or_fixed t then do {
           s \<leftarrow> temp_sync tidx s;
           s \<leftarrow> with_temp tidx to_mem s;
           with_state (free_reg reg) s }
         else do {
           (offset, c) \<leftarrow> alloc_temp_frame tidx (ra_ctx s);
           fr \<leftarrow> frame_reg c;
           s \<leftarrow> with_buf (tcg_out_st (t_ty t) reg fr offset) (s\<lparr>ra_ctx := c\<rparr>);
           s \<leftarrow> with_state (free_reg reg) s;
           with_temp tidx to_mem s } } }"

definition reg_alloc :: "RegSet \<Rightarrow> RegSet \<Rightarrow> RegSet \<Rightarrow> RA \<Rightarrow> (u8 \<times> RA) option" where
  "reg_alloc required forbidden preferred s =
     (let candidates = rs_subtract (rs_intersect required (allocatable (ra_state s))) forbidden;
          pref_free = rs_intersect (rs_intersect candidates (free_regs (ra_state s))) preferred;
          any_free = rs_intersect candidates (free_regs (ra_state s))
      in case rs_first pref_free of
           Some r \<Rightarrow> Some (r, s)
         | None \<Rightarrow>
             (case rs_first any_free of
                Some r \<Rightarrow> Some (r, s)
              | None \<Rightarrow>
                  (case rs_first candidates of
                     Some r \<Rightarrow> do { s \<leftarrow> evict_reg r s; Some (r, s) }
                   | None \<Rightarrow> do {
                       r \<leftarrow> rs_first (rs_intersect required (allocatable (ra_state s)));
                       s \<leftarrow> evict_reg r s;
                       Some (r, s) })))"

text \<open>The load of a temp that is in memory, into a register.\<close>

definition load_mem :: "Temp \<Rightarrow> u8 \<Rightarrow> RA \<Rightarrow> RA option" where
  "load_mem t reg s =
     (case t_mem_base t of
        Some base_idx \<Rightarrow> do {
          bt \<leftarrow> temp (ra_ctx s) base_idx;
          base_reg \<leftarrow> t_reg bt;
          with_buf (tcg_out_ld (t_ty t) reg base_reg (t_mem_offset t)) s }
      | None \<Rightarrow>
          if t_mem_allocated t then do {
            fr \<leftarrow> frame_reg (ra_ctx s);
            with_buf (tcg_out_ld (t_ty t) reg fr (t_mem_offset t)) s }
          else Some s)"

definition temp_load_to :: "tempidx \<Rightarrow> RegSet \<Rightarrow> RegSet \<Rightarrow> RegSet \<Rightarrow> RA \<Rightarrow> (u8 \<times> RA) option" where
  "temp_load_to tidx required forbidden preferred s = do {
     t \<leftarrow> temp (ra_ctx s) tidx;
     case t_val_type t of
       Reg \<Rightarrow> do {
         cur \<leftarrow> t_reg t;
         fits \<leftarrow> rs_contains required cur;
         bad \<leftarrow> (if fits then rs_contains forbidden cur else Some False);
         if fits \<and> \<not> bad then Some (cur, s)
         else do {
           (dst, s) \<leftarrow> reg_alloc required forbidden preferred s;
           s \<leftarrow> with_buf (tcg_out_mov (t_ty t) dst cur) s;
           s \<leftarrow> with_state (free_reg cur) s;
           s \<leftarrow> with_state (assign dst tidx) s;
           s \<leftarrow> with_temp tidx (\<lambda>t. t\<lparr>t_reg := Some dst\<rparr>) s;
           Some (dst, s) } }
     | ConstVal \<Rightarrow> do {
         (reg, s) \<leftarrow> reg_alloc required forbidden preferred s;
         s \<leftarrow> with_state (assign reg tidx) s;
         s \<leftarrow> with_buf (tcg_out_movi (t_ty t) reg (t_val t)) s;
         s \<leftarrow> with_temp tidx (\<lambda>t. t\<lparr>t_val_type := Reg, t_reg := Some reg\<rparr>) s;
         Some (reg, s) }
     | Mem \<Rightarrow> do {
         (reg, s) \<leftarrow> reg_alloc required forbidden preferred s;
         s \<leftarrow> with_state (assign reg tidx) s;
         s \<leftarrow> load_mem t reg s;
         s \<leftarrow> with_temp tidx (\<lambda>t. t\<lparr>t_val_type := Reg, t_reg := Some reg, t_mem_coherent := True\<rparr>) s;
         Some (reg, s) }
     | Dead \<Rightarrow> None }"

definition sync_global :: "tempidx \<Rightarrow> RA \<Rightarrow> RA option" where
  "sync_global tidx s = do {
     t \<leftarrow> temp (ra_ctx s) tidx;
     if t_val_type t = Reg \<and> \<not> t_mem_coherent t then do {
       s \<leftarrow> temp_sync tidx s;
       with_temp tidx (\<lambda>t. t\<lparr>t_mem_coherent := True\<rparr>) s }
     else Some s }"

definition sync_globals :: "RA \<Rightarrow> RA option" where
  "sync_globals s = each (\<lambda>i. sync_global (of_nat i)) [0..<unat (nb_globals (ra_ctx s))] s"

definition temp_dead :: "tempidx \<Rightarrow> RA \<Rightarrow> RA option" where
  "temp_dead tidx s = do {
     t \<leftarrow> temp (ra_ctx s) tidx;
     if is_global_or_fixed t then Some s
     else do {
       s \<leftarrow> (case t_reg t of None \<Rightarrow> Some s | Some reg \<Rightarrow> with_state (free_reg reg) s);
       with_temp tidx (\<lambda>t. t\<lparr>t_val_type := Dead, t_reg := None\<rparr>) s } }"

definition temp_dead_input :: "tempidx \<Rightarrow> RA \<Rightarrow> RA option" where
  "temp_dead_input tidx s = do {
     t \<leftarrow> temp (ra_ctx s) tidx;
     if is_global_or_fixed t then Some s
     else do {
       s \<leftarrow> (case t_reg t of
               None \<Rightarrow> Some s
             | Some reg \<Rightarrow> do {
                 occ \<leftarrow> index (reg_to_temp (ra_state s)) (unat reg);
                 if occ = Some tidx then with_state (free_reg reg) s else Some s });
       with_temp tidx (\<lambda>t. t\<lparr>t_val_type := Dead, t_reg := None\<rparr>) s } }"

section \<open>Calls\<close>

definition CALLER_SAVED :: "u8 list" where
  "CALLER_SAVED = [0, 1, 2, 6, 7, 8, 9, 10, 11]"

definition spill_local :: "u8 \<Rightarrow> RA \<Rightarrow> RA option" where
  "spill_local reg s = do {
     occ \<leftarrow> index (reg_to_temp (ra_state s)) (unat reg);
     case occ of
       None \<Rightarrow> Some s
     | Some tidx \<Rightarrow> do {
         t \<leftarrow> temp (ra_ctx s) tidx;
         if \<not> is_global_or_fixed t then evict_reg reg s else Some s } }"

definition call_input :: "Op \<Rightarrow> OpConstraint \<Rightarrow> nat \<Rightarrow> nat \<Rightarrow> RA \<times> u8 list \<Rightarrow> (RA \<times> u8 list) option" where
  "call_input op ct n i x =
     (case x of (s, regs) \<Rightarrow> do {
        tidx \<leftarrow> index (o_args op) (n + i);
        a \<leftarrow> index ct (n + i);
        target \<leftarrow> rs_first (ac_regs a);
        t \<leftarrow> temp (ra_ctx s) tidx;
        s \<leftarrow> (case t_val_type t of
                Reg \<Rightarrow> do {
                  src \<leftarrow> t_reg t;
                  if src \<noteq> target then with_buf (tcg_out_mov (t_ty t) target src) s else Some s }
              | ConstVal \<Rightarrow> with_buf (tcg_out_movi (t_ty t) target (t_val t)) s
              | Mem \<Rightarrow> load_mem t target s
              | Dead \<Rightarrow> with_buf (tcg_out_movi (t_ty t) target 0) s);
        regs \<leftarrow> index_set regs i target;
        Some (s, regs) })"

definition free_dead :: "(nat \<Rightarrow> bool) \<Rightarrow> (tempidx \<Rightarrow> RA \<Rightarrow> RA option) \<Rightarrow> Op \<Rightarrow> nat \<Rightarrow> RA \<Rightarrow> RA option" where
  "free_dead dead f op pos s =
     (if dead pos then do { tidx \<leftarrow> index (o_args op) pos; f tidx s } else Some s)"

definition clobber :: "u8 \<Rightarrow> RA \<Rightarrow> RA option" where
  "clobber reg s = do {
     occ \<leftarrow> index (reg_to_temp (ra_state s)) (unat reg);
     case occ of
       None \<Rightarrow> Some s
     | Some tidx \<Rightarrow> do {
         t \<leftarrow> temp (ra_ctx s) tidx;
         s \<leftarrow> (if is_global_or_fixed t then with_temp tidx to_mem s else Some s);
         with_state (free_reg reg) s } }"

definition collect_cargs :: "Op \<Rightarrow> u32 list" where
  "collect_cargs op =
     (let d = def_of (o_opc op); cstart = nb_oargs d + nb_iargs d
      in map (\<lambda>i. o_args op ! (cstart + i)) [0..<nb_cargs d])"

text \<open>The call of the backend for an op.\<close>

definition emit_host :: "Op \<Rightarrow> u8 list \<Rightarrow> u8 list \<Rightarrow> u32 list \<Rightarrow> RA \<Rightarrow> RA option" where
  "emit_host op oregs iregs cs s = do {
     (g, b) \<leftarrow> tcg_out_op (ra_gen s) (ra_ctx s) op oregs iregs cs (ra_buf s);
     Some (s\<lparr>ra_gen := g, ra_buf := b\<rparr>) }"

definition in_reg :: "u8 \<Rightarrow> Temp \<Rightarrow> Temp" where
  "in_reg reg t = t\<lparr>t_val_type := Reg, t_reg := Some reg, t_mem_coherent := False\<rparr>"

definition regalloc_call :: "Op \<Rightarrow> OpConstraint \<Rightarrow> RA \<Rightarrow> RA option" where
  "regalloc_call op ct s = do {
     let d = def_of (o_opc op);
     let n = nb_oargs d;
     let m = nb_iargs d;
     s \<leftarrow> sync_globals s;
     s \<leftarrow> each spill_local CALLER_SAVED s;
     (s, i_regs) \<leftarrow> each (call_input op ct n) [0..<m] (s, replicate 10 0);
     s \<leftarrow> each (free_dead (is_dead (o_life op)) temp_dead_input op) (map (\<lambda>i. n + i) [0..<m]) s;
     s \<leftarrow> each clobber CALLER_SAVED s;
     a \<leftarrow> index ct 0;
     out_reg \<leftarrow> rs_first (ac_regs a);
     s \<leftarrow> emit_host op [out_reg] (take m i_regs) (collect_cargs op) s;
     dst \<leftarrow> index (o_args op) 0;
     s \<leftarrow> with_state (assign out_reg dst) s;
     s \<leftarrow> with_temp dst (in_reg out_reg) s;
     if is_dead (o_life op) 0 then temp_dead dst s else Some s }"

section \<open>One op under its constraint\<close>

text \<open>
  The locals of \<open>regalloc_op\<close>: the registers of the inputs and of the outputs, which of them are
  taken, which inputs may give their register to the aliased output, and the fixed temps that were
  moved away from their home register.
\<close>

record op_alloc =
  i_regs :: "u8 list"
  i_allocated :: RegSet
  i_reusable :: "bool list"
  fixed_moves :: "(tempidx \<times> u8 \<times> u8) list"
  o_regs :: "u8 list"
  o_allocated :: RegSet

definition op_alloc_new :: op_alloc where
  "op_alloc_new = \<lparr>i_regs = replicate 10 0, i_allocated = rs_EMPTY, i_reusable = replicate 10 False,
     fixed_moves = [], o_regs = replicate 10 0, o_allocated = rs_EMPTY\<rparr>"

definition take_input :: "nat \<Rightarrow> u8 \<Rightarrow> op_alloc \<Rightarrow> op_alloc option" where
  "take_input i reg a = do {
     rs \<leftarrow> index_set (i_regs a) i reg;
     al \<leftarrow> rs_set (i_allocated a) reg;
     Some (a\<lparr>i_regs := rs, i_allocated := al\<rparr>) }"

definition op_input :: "Op \<Rightarrow> OpConstraint \<Rightarrow> nat \<Rightarrow> nat \<Rightarrow> RA \<times> op_alloc \<Rightarrow> (RA \<times> op_alloc) option" where
  "op_input op ct n i x =
     (case x of (s, a) \<Rightarrow> do {
        arg_ct \<leftarrow> index ct (n + i);
        tidx \<leftarrow> index (o_args op) (n + i);
        t \<leftarrow> temp (ra_ctx s) tidx;
        let is_readonly = is_global_or_fixed t \<or> is_const t;
        let orig_fixed = (if is_fixed t then t_reg t else None);
        (s, a) \<leftarrow>
          (if ialias arg_ct \<and> is_dead (o_life op) (n + i) \<and> \<not> is_readonly then do {
             preferred \<leftarrow> index (o_output_pref op) (unat (alias_index arg_ct));
             (reg, s) \<leftarrow> temp_load_to tidx (ac_regs arg_ct) (i_allocated a) preferred s;
             a \<leftarrow> take_input i reg a;
             ru \<leftarrow> index_set (i_reusable a) i True;
             Some (s, a\<lparr>i_reusable := ru\<rparr>) }
           else do {
             (reg, s) \<leftarrow> temp_load_to tidx (ac_regs arg_ct) (i_allocated a) rs_EMPTY s;
             a \<leftarrow> take_input i reg a;
             Some (s, a) });
        case orig_fixed of
          None \<Rightarrow> Some (s, a)
        | Some orig_reg \<Rightarrow> do {
            t \<leftarrow> temp (ra_ctx s) tidx;
            Some (case t_reg t of
                    None \<Rightarrow> (s, a)
                  | Some cur \<Rightarrow>
                      if cur \<noteq> orig_reg
                      then (s, a\<lparr>fixed_moves := fixed_moves a @ [(tidx, orig_reg, cur)]\<rparr>) else (s, a)) } })"

text \<open>The first fixup re-reads the input registers, the second one after the outputs.\<close>

definition fixup_input :: "Op \<Rightarrow> nat \<Rightarrow> Context \<Rightarrow> nat \<Rightarrow> op_alloc \<Rightarrow> op_alloc option" where
  "fixup_input op n c i a = do {
     tidx \<leftarrow> index (o_args op) (n + i);
     t \<leftarrow> temp c tidx;
     if t_val_type t = Reg then do { reg \<leftarrow> t_reg t; take_input i reg a } else Some a }"

definition refresh_input :: "Op \<Rightarrow> nat \<Rightarrow> Context \<Rightarrow> nat \<Rightarrow> op_alloc \<Rightarrow> op_alloc option" where
  "refresh_input op n c i a = do {
     tidx \<leftarrow> index (o_args op) (n + i);
     t \<leftarrow> temp c tidx;
     if t_val_type t = Reg then
       (case t_reg t of
          None \<Rightarrow> Some a
        | Some reg \<Rightarrow> do { rs \<leftarrow> index_set (i_regs a) i reg; Some (a\<lparr>i_regs := rs\<rparr>) })
     else Some a }"

text \<open>An aliased output takes the register of its input; a live input is copied away first.\<close>

definition alias_output :: "Op \<Rightarrow> nat \<Rightarrow> nat \<Rightarrow> op_alloc \<Rightarrow> RA \<Rightarrow> (u8 \<times> RA) option" where
  "alias_output op n ai a s = do {
     reusable \<leftarrow> index (i_reusable a) ai;
     old_reg \<leftarrow> index (i_regs a) ai;
     if reusable then Some (old_reg, s)
     else do {
       src_tidx \<leftarrow> index (o_args op) (n + ai);
       src \<leftarrow> temp (ra_ctx s) src_tidx;
       (copy_reg, s) \<leftarrow> reg_alloc (allocatable (ra_state s)) (rs_union (i_allocated a) (o_allocated a)) rs_EMPTY s;
       s \<leftarrow> with_buf (tcg_out_mov (t_ty src) copy_reg old_reg) s;
       s \<leftarrow> with_state (assign copy_reg src_tidx) s;
       s \<leftarrow> with_temp src_tidx (\<lambda>t. t\<lparr>t_reg := Some copy_reg\<rparr>) s;
       Some (old_reg, s) } }"

definition op_output :: "Op \<Rightarrow> OpConstraint \<Rightarrow> nat \<Rightarrow> nat \<Rightarrow> RA \<times> op_alloc \<Rightarrow> (RA \<times> op_alloc) option" where
  "op_output op ct n k x =
     (case x of (s, a) \<Rightarrow> do {
        arg_ct \<leftarrow> index ct k;
        dst_tidx \<leftarrow> index (o_args op) k;
        (reg, s) \<leftarrow>
          (if oalias arg_ct then alias_output op n (unat (alias_index arg_ct)) a s
           else if ac_newreg arg_ct
             then reg_alloc (ac_regs arg_ct) (rs_union (i_allocated a) (o_allocated a)) rs_EMPTY s
           else reg_alloc (ac_regs arg_ct) (o_allocated a) rs_EMPTY s);
        s \<leftarrow> with_state (assign reg dst_tidx) s;
        s \<leftarrow> with_temp dst_tidx (in_reg reg) s;
        rs \<leftarrow> index_set (o_regs a) k reg;
        al \<leftarrow> rs_set (o_allocated a) reg;
        Some (s, a\<lparr>o_regs := rs, o_allocated := al\<rparr>) })"

definition free_input :: "Op \<Rightarrow> nat \<Rightarrow> nat \<Rightarrow> RA \<Rightarrow> RA option" where
  "free_input op n i s =
     (if is_dead (o_life op) (n + i) then do {
        tidx \<leftarrow> index (o_args op) (n + i);
        outs \<leftarrow> (if n \<le> length (o_args op) then Some (take n (o_args op)) else None);
        if tidx \<in> set outs then Some s else temp_dead_input tidx s }
      else Some s)"

definition restore_fixed :: "tempidx \<times> u8 \<times> u8 \<Rightarrow> RA \<Rightarrow> RA option" where
  "restore_fixed mv s =
     (case mv of (tidx, orig_reg, moved_reg) \<Rightarrow> do {
        t \<leftarrow> temp (ra_ctx s) tidx;
        s \<leftarrow> (if is_fixed t then do {
                s \<leftarrow> with_temp tidx (\<lambda>t. t\<lparr>t_val_type := Reg, t_reg := Some orig_reg\<rparr>) s;
                with_state (assign orig_reg tidx) s }
              else Some s);
        occ \<leftarrow> index (reg_to_temp (ra_state s)) (unat moved_reg);
        if occ = Some tidx then with_state (free_reg moved_reg) s else Some s })"

definition sync_input :: "Op \<Rightarrow> nat \<Rightarrow> nat \<Rightarrow> RA \<Rightarrow> RA option" where
  "sync_input op n i s =
     (if is_sync (o_life op) (n + i) then do {
        tidx \<leftarrow> index (o_args op) (n + i);
        s \<leftarrow> temp_sync tidx s;
        with_temp tidx (\<lambda>t. t\<lparr>t_mem_coherent := True\<rparr>) s }
      else Some s)"

definition regalloc_op :: "Op \<Rightarrow> OpConstraint \<Rightarrow> RA \<Rightarrow> RA option" where
  "regalloc_op op ct s = do {
     let d = def_of (o_opc op);
     let n = nb_oargs d;
     let m = nb_iargs d;
     (s, a) \<leftarrow> each (op_input op ct n) [0..<m] (s, op_alloc_new);
     a \<leftarrow> each (fixup_input op n (ra_ctx s)) [0..<m] (a\<lparr>i_allocated := rs_EMPTY\<rparr>);
     (s, a) \<leftarrow> each (op_output op ct n) [0..<n] (s, a);
     a \<leftarrow> each (refresh_input op n (ra_ctx s)) [0..<m] a;
     s \<leftarrow> emit_host op (take n (o_regs a)) (take m (i_regs a)) (collect_cargs op) s;
     s \<leftarrow> each (free_input op n) [0..<m] s;
     s \<leftarrow> each restore_fixed (fixed_moves a) s;
     s \<leftarrow> each (free_dead (is_dead (o_life op)) temp_dead op) [0..<n] s;
     each (sync_input op n) [0..<m] s }"

section \<open>The other ops\<close>

definition regalloc_mov :: "Op \<Rightarrow> RA \<Rightarrow> RA option" where
  "regalloc_mov op s = do {
     dst_idx \<leftarrow> index (o_args op) 0;
     src_idx \<leftarrow> index (o_args op) 1;
     (src_reg, s) \<leftarrow> temp_load_to src_idx ALLOCATABLE_REGS rs_EMPTY rs_EMPTY s;
     s \<leftarrow> (if is_dead (o_life op) 1 then temp_dead src_idx s else Some s);
     (dst_reg, s) \<leftarrow> reg_alloc ALLOCATABLE_REGS rs_EMPTY rs_EMPTY s;
     s \<leftarrow> with_state (assign dst_reg dst_idx) s;
     s \<leftarrow> with_temp dst_idx (in_reg dst_reg) s;
     s \<leftarrow> (if dst_reg \<noteq> src_reg then with_buf (tcg_out_mov (o_type op) dst_reg src_reg) s else Some s);
     if is_dead (o_life op) 0 then temp_dead dst_idx s else Some s }"

definition with_label :: "u32 \<Rightarrow> (Label \<Rightarrow> Label) \<Rightarrow> RA \<Rightarrow> RA option" where
  "with_label i f s = do {
     l \<leftarrow> label (ra_ctx s) i; c \<leftarrow> set_label (ra_ctx s) i (f l); Some (s\<lparr>ra_ctx := c\<rparr>) }"

text \<open>The displacement of a use, as an i64 cut to 32 bits.\<close>

definition patch_use :: "nat \<Rightarrow> LabelUse \<Rightarrow> RA \<Rightarrow> RA option" where
  "patch_use off u s =
     (case u_kind u of
        Rel32 \<Rightarrow> with_buf (patch_u32 (u_offset u) (word_of_int (int off - (int (u_offset u) + 4)))) s)"

definition regalloc_set_label :: "Op \<Rightarrow> RA \<Rightarrow> RA option" where
  "regalloc_set_label op s = do {
     label_id \<leftarrow> index (o_args op) 0;
     s \<leftarrow> sync_globals s;
     let off = cb_offset (ra_buf s);
     l \<leftarrow> label (ra_ctx s) label_id;
     s \<leftarrow> with_label label_id (\<lambda>l. (set_value l off)\<lparr>l_uses := []\<rparr>) s;
     each (patch_use off) (l_uses l) s }"

definition regalloc_br :: "Op \<Rightarrow> RA \<Rightarrow> RA option" where
  "regalloc_br op s = do {
     label_id \<leftarrow> index (o_args op) 0;
     s \<leftarrow> sync_globals s;
     l \<leftarrow> label (ra_ctx s) label_id;
     if l_has_value l then with_buf (emit_jmp (l_value l)) s
     else do {
       s \<leftarrow> with_buf (emit_u8 0xE9) s;
       let patch_off = cb_offset (ra_buf s);
       s \<leftarrow> with_buf (emit_u32 0) s;
       with_label label_id (\<lambda>l. add_use l patch_off Rel32) s } }"

definition regalloc_exit :: "Op \<Rightarrow> RA \<Rightarrow> RA option" where
  "regalloc_exit op s = do { s \<leftarrow> sync_globals s; emit_host op [] [] (collect_cargs op) s }"

definition regalloc_goto_ptr :: "Op \<Rightarrow> OpConstraint \<Rightarrow> RA \<Rightarrow> RA option" where
  "regalloc_goto_ptr op ct s = do {
     tidx \<leftarrow> index (o_args op) 0;
     arg_ct \<leftarrow> index ct 0;
     (reg, s) \<leftarrow> temp_load_to tidx (ac_regs arg_ct) rs_EMPTY rs_EMPTY s;
     s \<leftarrow> (if is_dead (o_life op) 0 then temp_dead tidx s else Some s);
     s \<leftarrow> sync_globals s;
     emit_host op [] [reg] [] s }"

definition br_input :: "Op \<Rightarrow> OpConstraint \<Rightarrow> nat \<Rightarrow> nat \<Rightarrow> RA \<times> u8 list \<times> RegSet \<Rightarrow> (RA \<times> u8 list \<times> RegSet) option" where
  "br_input op ct n i x =
     (case x of (s, iregs, al) \<Rightarrow> do {
        tidx \<leftarrow> index (o_args op) (n + i);
        arg_ct \<leftarrow> index ct (n + i);
        (reg, s) \<leftarrow> temp_load_to tidx (ac_regs arg_ct) al rs_EMPTY s;
        al \<leftarrow> rs_set al reg;
        Some (s, iregs @ [reg], al) })"

definition regalloc_brcond :: "Op \<Rightarrow> OpConstraint \<Rightarrow> RA \<Rightarrow> RA option" where
  "regalloc_brcond op ct s = do {
     let d = def_of (o_opc op);
     let n = nb_oargs d;
     let m = nb_iargs d;
     (s, iregs, al) \<leftarrow> each (br_input op ct n) [0..<m] (s, [], rs_EMPTY);
     let cargs = collect_cargs op;
     s \<leftarrow> each (free_dead (is_dead (o_life op)) temp_dead op) (map (\<lambda>i. n + i) [0..<m]) s;
     s \<leftarrow> sync_globals s;
     label_id \<leftarrow> index cargs 1;
     l \<leftarrow> label (ra_ctx s) label_id;
     s \<leftarrow> emit_host op [] iregs cargs s;
     if l_has_value l then Some s
     else do {
       assert_that (4 \<le> cb_offset (ra_buf s));
       with_label label_id (\<lambda>l. add_use l (cb_offset (ra_buf s) - 4) Rel32) s } }"

section \<open>The pass\<close>

definition ra_step :: "Op \<Rightarrow> RA \<Rightarrow> RA option" where
  "ra_step op s =
     (let opc = o_opc op; ct = op_constraint opc
      in if opc = OMisc Nop \<or> opc = OMisc InsnStart then Some s
         else if opc = OMov Mov then regalloc_mov op s
         else if opc = OCtl SetLabel then regalloc_set_label op s
         else if opc = OCtl Br then regalloc_br op s
         else if opc = OCtl ExitTb \<or> opc = OCtl GotoTb then regalloc_exit op s
         else if opc = Call then regalloc_call op ct s
         else if opc = OCtl GotoPtr then regalloc_goto_ptr op ct s
         else if opc = OCtl Mb then with_buf emit_mfence s
         else if opc = OCtl BrCond then regalloc_brcond op ct s
         else do {
           s \<leftarrow> regalloc_op op ct s;
           if flags_contains (op_flags (def_of opc)) BB_END then sync_globals s else Some s })"

definition init_fixed :: "Context \<Rightarrow> nat \<Rightarrow> RegAllocState \<Rightarrow> RegAllocState option" where
  "init_fixed c i st = do {
     t \<leftarrow> temp c (of_nat i);
     if t_kind t = Fixed then
       (case t_reg t of None \<Rightarrow> Some st | Some reg \<Rightarrow> assign reg (of_nat i) st)
     else Some st }"

definition op_step :: "nat \<Rightarrow> RA \<Rightarrow> RA option" where
  "op_step oi s = do { op \<leftarrow> index (ops (ra_ctx s)) oi; ra_step op s }"

definition ra_start :: "Context \<Rightarrow> X86_64CodeGen \<Rightarrow> CodeBuffer \<Rightarrow> RA option" where
  "ra_start c g b = do {
     st \<leftarrow> each (init_fixed c) [0..<unat (nb_globals c)] (ra_new ALLOCATABLE_REGS);
     Some \<lparr>ra_ctx = c, ra_state = st, ra_buf = b, ra_gen = g\<rparr> }"

definition regalloc_and_codegen :: "Context \<Rightarrow> X86_64CodeGen \<Rightarrow> CodeBuffer \<Rightarrow> RA option" where
  "regalloc_and_codegen c g b = do { s \<leftarrow> ra_start c g b; each op_step [0..<length (ops c)] s }"

section \<open>The pipeline\<close>

definition translate :: "Context \<Rightarrow> X86_64CodeGen \<Rightarrow> CodeBuffer \<Rightarrow> (nat \<times> Context \<times> X86_64CodeGen \<times> CodeBuffer) option" where
  "translate c g b = do {
     c \<leftarrow> optimize c;
     c \<leftarrow> liveness_analysis c;
     let tb_start = cb_offset b;
     s \<leftarrow> regalloc_and_codegen c g b;
     Some (tb_start, ra_ctx s, ra_gen s, ra_buf s) }"

text \<open>Running the host code is a parameter: the code buffer, the guest state, where to start.\<close>

definition translate_and_execute ::
  "(CodeBuffer \<Rightarrow> nat \<Rightarrow> 'env \<Rightarrow> u64 \<times> 'env) \<Rightarrow> Context \<Rightarrow> X86_64CodeGen \<Rightarrow> CodeBuffer \<Rightarrow> 'env \<Rightarrow>
   (u64 \<times> Context \<times> X86_64CodeGen \<times> CodeBuffer \<times> 'env) option" where
  "translate_and_execute run c g b e = do {
     (tb_start, c, g, b) \<leftarrow> translate c g b;
     let (r, e) = run b tb_start e;
     let (_, exit_code) = decode_tb_exit r;
     Some (exit_code, c, g, b, e) }"

end
