(* ===== verification/RegAlloc_Inv.thy ===== *)
theory RegAlloc_Inv
  imports RegAlloc
begin

text \<open>
  Invariants of the register allocator. The allocator changes its state through a handful of
  steps; \<open>alloc_steps\<close> is the interface: a predicate that those steps keep is kept by every
  operation, and \<open>alloc_pass\<close> extends it to the whole pass. The interpretations give the
  register bookkeeping, the confinement of the emitted code and the resolution of branches.
\<close>

section \<open>Predicates kept by the allocator's steps\<close>

text \<open>Reading a component of the state says nothing about it.\<close>

lemma wp_read:
  "(\<And>y. Q1 y) \<Longrightarrow> wp (temp c t) Q1" "(\<And>y. Q2 y) \<Longrightarrow> wp (t_reg x) Q2" "(\<And>y. Q2 y) \<Longrightarrow> wp (frame_reg c) Q2"
  "(\<And>y. Q2 y) \<Longrightarrow> wp (rs_first rs) Q2" "(\<And>y. Q3 y) \<Longrightarrow> wp (rs_set rs r) Q3" "(\<And>y. Q4 y) \<Longrightarrow> wp (rs_contains rs r) Q4"
  "(\<And>y. Q5 y) \<Longrightarrow> wp (index xs i) Q5" "(\<And>y. Q6 y) \<Longrightarrow> wp (index_set ys i v) Q6" "(\<And>y. Q7 y) \<Longrightarrow> wp (label c l) Q7"
  "(\<And>y. Q8 y) \<Longrightarrow> wp (assert_that b) Q8"
  by (simp_all add: wp_any)

locale alloc_steps =
  fixes I :: "RA \<Rightarrow> bool"
  assumes keep_free: "I s \<Longrightarrow> wp (with_state (free_reg r) s) I"
    and keep_assign: "I s \<Longrightarrow> wp (with_state (assign r t) s) I"
    and keep_temp: "I s \<Longrightarrow> wp (with_temp t f s) I"
    and keep_frame: "I s \<Longrightarrow> wp (alloc_temp_frame t (ra_ctx s)) (\<lambda>(off, c). I (s\<lparr>ra_ctx := c\<rparr>))"
    and keep_buf: "grows e \<Longrightarrow> I s \<Longrightarrow> wp (with_buf e s) I"
    and keep_host: "I s \<Longrightarrow> wp (emit_host op oregs iregs cs s) I"
begin

lemma step:
  assumes "I s" "\<And>s. I s \<Longrightarrow> Q s"
  shows "wp (with_state (free_reg r) s) Q" "wp (with_state (assign r t) s) Q" "wp (with_temp t f s) Q"
    "grows e \<Longrightarrow> wp (with_buf e s) Q" "wp (emit_host op oregs iregs cs s) Q"
  using assms by (blast intro: wp_mono [OF keep_free] wp_mono [OF keep_assign] wp_mono [OF keep_temp]
      wp_mono [OF keep_buf] wp_mono [OF keep_host])+

lemma step_frame: "I s \<Longrightarrow> (\<And>off c. I (s\<lparr>ra_ctx := c\<rparr>) \<Longrightarrow> Q (off, c)) \<Longrightarrow> wp (alloc_temp_frame t (ra_ctx s)) Q"
  by (rule wp_mono [OF keep_frame]) auto

lemmas steps = step step_frame wp_read grows_moves grows_intros grows_encoder grows_jumps

lemma keep_each: "I s \<Longrightarrow> (\<And>x s. I s \<Longrightarrow> wp (f x s) I) \<Longrightarrow> (\<And>s. I s \<Longrightarrow> Q s) \<Longrightarrow> wp (each f xs s) Q"
  by (rule wp_mono [OF wp_each [of I]]) blast+

lemma keep_each_pair:
  assumes "I (fst x)" "\<And>i x. I (fst x) \<Longrightarrow> wp (f i x) (\<lambda>y. I (fst y))" "\<And>y. I (fst y) \<Longrightarrow> Q y"
  shows "wp (each f xs x) Q"
  using assms by (intro wp_mono [OF wp_each [of "\<lambda>y. I (fst y)"]]) auto

lemma keep_sync: "I s \<Longrightarrow> (\<And>s. I s \<Longrightarrow> Q s) \<Longrightarrow> wp (temp_sync t s) Q"
  unfolding temp_sync_def by (auto split: option.split intro!: steps)

lemma keep_evict: "I s \<Longrightarrow> (\<And>s. I s \<Longrightarrow> Q s) \<Longrightarrow> wp (evict_reg r s) Q"
  unfolding evict_reg_def by (auto split: option.split intro!: steps keep_sync)

lemma keep_alloc: "I s \<Longrightarrow> (\<And>r s. I s \<Longrightarrow> Q (r, s)) \<Longrightarrow> wp (reg_alloc required forbidden preferred s) Q"
  unfolding reg_alloc_def Let_def by (auto split: option.split intro!: steps keep_evict)

lemma keep_load_mem: "I s \<Longrightarrow> (\<And>s. I s \<Longrightarrow> Q s) \<Longrightarrow> wp (load_mem t r s) Q"
  unfolding load_mem_def by (auto split: option.split intro!: steps)

lemma keep_load: "I s \<Longrightarrow> (\<And>r s. I s \<Longrightarrow> Q (r, s)) \<Longrightarrow> wp (temp_load_to t required forbidden preferred s) Q"
  unfolding temp_load_to_def by (auto split: option.split TempVal.split intro!: steps keep_alloc keep_load_mem)

lemma keep_sync_global: "I s \<Longrightarrow> (\<And>s. I s \<Longrightarrow> Q s) \<Longrightarrow> wp (sync_global t s) Q"
  unfolding sync_global_def by (auto intro!: steps keep_sync)

lemma keep_sync_globals: "I s \<Longrightarrow> (\<And>s. I s \<Longrightarrow> Q s) \<Longrightarrow> wp (sync_globals s) Q"
  unfolding sync_globals_def by (auto intro!: keep_each keep_sync_global)

lemma keep_dead: "I s \<Longrightarrow> (\<And>s. I s \<Longrightarrow> Q s) \<Longrightarrow> wp (temp_dead t s) Q"
  unfolding temp_dead_def by (auto split: option.split intro!: steps)

lemma keep_dead_input: "I s \<Longrightarrow> (\<And>s. I s \<Longrightarrow> Q s) \<Longrightarrow> wp (temp_dead_input t s) Q"
  unfolding temp_dead_input_def by (auto split: option.split intro!: steps)

lemma keep_free_dead:
  assumes "I s" "\<And>s. I s \<Longrightarrow> Q s" "\<And>t s Q. I s \<Longrightarrow> (\<And>s. I s \<Longrightarrow> Q s) \<Longrightarrow> wp (f t s) Q"
  shows "wp (free_dead d f op p s) Q"
  using assms unfolding free_dead_def by auto

lemmas keeps = steps keep_evict keep_alloc keep_load_mem keep_load keep_sync keep_sync_globals keep_dead keep_dead_input

lemma keep_call: "I s \<Longrightarrow> wp (regalloc_call op ct s) I"
  unfolding regalloc_call_def Let_def
  by (auto simp: spill_local_def call_input_def clobber_def split: option.split TempVal.split
      intro!: keeps keep_each keep_each_pair keep_free_dead)

lemma keep_input: "I (fst x) \<Longrightarrow> wp (op_input op ct n i x) (\<lambda>y. I (fst y))"
  unfolding op_input_def Let_def take_input_def by (auto split: option.split prod.split intro!: keeps)

lemma keep_alias: "I s \<Longrightarrow> (\<And>r s. I s \<Longrightarrow> Q (r, s)) \<Longrightarrow> wp (alias_output op n ai a s) Q"
  unfolding alias_output_def by (auto intro!: keeps)

lemma keep_output: "I (fst x) \<Longrightarrow> wp (op_output op ct n k x) (\<lambda>y. I (fst y))"
  unfolding op_output_def by (auto split: prod.split intro!: keeps keep_alias)

lemma keep_rest:
  assumes "I s"
  shows "wp (free_input op n i s) I" "wp (restore_fixed mv s) I" "wp (sync_input op n i s) I"
  using assms unfolding free_input_def restore_fixed_def sync_input_def by (auto split: prod.split intro!: keeps)

lemma wp_fixups:
  "(\<And>y. Q y) \<Longrightarrow> wp (each (fixup_input op n c) xs a) Q" "(\<And>y. Q y) \<Longrightarrow> wp (each (refresh_input op n c) xs a) Q"
  by (simp_all add: wp_any)

lemma keep_op: "I s \<Longrightarrow> wp (regalloc_op op ct s) I"
  unfolding regalloc_op_def Let_def
  by (auto intro!: wp_fixups keep_each_pair keep_input keep_output keep_each keep_rest keep_free_dead keep_dead steps)

lemma keep_mov: "I s \<Longrightarrow> wp (regalloc_mov op s) I"
  unfolding regalloc_mov_def by (auto intro!: keeps)

lemma keep_exit: "I s \<Longrightarrow> wp (regalloc_exit op s) I"
  unfolding regalloc_exit_def by (auto intro!: keeps)

lemma keep_goto_ptr: "I s \<Longrightarrow> wp (regalloc_goto_ptr op ct s) I"
  unfolding regalloc_goto_ptr_def by (auto intro!: keeps)

lemma keep_br_input: "I (fst x) \<Longrightarrow> wp (br_input op ct n i x) (\<lambda>y. I (fst y))"
  unfolding br_input_def by (auto split: prod.split intro!: keeps)

end

text \<open>The pass: the ops that touch labels are treated apart, for ops of a given kind.\<close>

locale alloc_pass = alloc_steps +
  fixes os :: "Op list" and ok :: "Op \<Rightarrow> bool"
  assumes same_ops: "I s \<Longrightarrow> ops (ra_ctx s) = os"
    and keep_set_label: "ok op \<Longrightarrow> o_opc op = OCtl SetLabel \<Longrightarrow> I s \<Longrightarrow> wp (regalloc_set_label op s) I"
    and keep_br: "I s \<Longrightarrow> wp (regalloc_br op s) I"
    and keep_brcond: "o_opc op = OCtl BrCond \<Longrightarrow> I s \<Longrightarrow> wp (regalloc_brcond op ct s) I"
begin

lemma keep_ra_step: "ok op \<Longrightarrow> I s \<Longrightarrow> wp (ra_step op s) I"
  unfolding ra_step_def Let_def
  by (simp add: keep_mov keep_set_label keep_br keep_exit keep_call keep_goto_ptr keep_brcond keep_buf grows_encoder)
    (auto intro!: wp_mono [OF keep_op] keep_sync_globals)

lemma keep_op_step: "I s \<Longrightarrow> (i < length os \<Longrightarrow> ok (os ! i)) \<Longrightarrow> wp (op_step i s) I"
  unfolding op_step_def by (simp add: same_ops keep_ra_step)

lemma keep_pass: "I s \<Longrightarrow> (\<And>i. i \<in> set xs \<Longrightarrow> i < length os \<Longrightarrow> ok (os ! i)) \<Longrightarrow> wp (each op_step xs s) I"
  by (rule wp_each) (auto intro: keep_op_step)

end

section \<open>The register bookkeeping\<close>

text \<open>
  Sixteen host registers; only allocatable registers are in the free set, and an allocatable
  register is free exactly when no temp occupies it.
\<close>

definition regs_ok :: "RegAllocState \<Rightarrow> bool" where
  "regs_ok st \<longleftrightarrow> length (reg_to_temp st) = 16 \<and> allocatable st = ALLOCATABLE_REGS \<and>
     regs_of (free_regs st) \<subseteq> regs_of ALLOCATABLE_REGS \<and>
     (\<forall>r \<in> regs_of ALLOCATABLE_REGS. r \<in> regs_of (free_regs st) \<longleftrightarrow> reg_to_temp st ! unat r = None)"

lemma regset_ops:
  "rs_set u g = Some v \<Longrightarrow> regs_of v = insert g (regs_of u)" "rs_clear u g = Some v \<Longrightarrow> regs_of v = regs_of u - {g}"
  "rs_contains u g = Some p \<Longrightarrow> p = (g \<in> regs_of u)"
  using rs.abs_add [of g u] rs.add_panics [of g u] rs.abs_del [of g u] rs.del_panics [of g u] rs.mem_abs [of g u]
  by (cases "g < 64"; force simp: rs_contains_def)+

lemma allocatable_small:
  assumes "r \<in> regs_of ALLOCATABLE_REGS"
  shows "unat r < 16"
proof -
  have "bit (take_bit 16 (0xBFCF :: u64)) (unat r)" using assms by (simp add: regs_of_def regset_masks)
  then show ?thesis by (simp only: bit_take_bit_iff)
qed

lemma regs_ok_new: "regs_ok (ra_new ALLOCATABLE_REGS)"
  unfolding regs_ok_def ra_new_def using allocatable_small by simp

lemma regs_ok_free: "regs_ok st \<Longrightarrow> wp (free_reg r st) regs_ok"
  unfolding free_reg_def regs_ok_def
  by (auto simp: bind_eq_Some_conv nth_list_update dest!: regset_ops unat_eq_u8 split: if_splits intro!: wpI)

lemma regs_ok_assign: "regs_ok st \<Longrightarrow> wp (assign r t st) regs_ok"
  unfolding assign_def regs_ok_def
  by (auto simp: bind_eq_Some_conv nth_list_update dest!: regset_ops unat_eq_u8 split: if_splits intro!: wpI)

text \<open>What the steps leave alone in the context.\<close>

definition same_ctx :: "Context \<Rightarrow> Context \<Rightarrow> bool" where
  "same_ctx c c' \<longleftrightarrow> ops c' = ops c \<and> labels c' = labels c \<and> nb_globals c' = nb_globals c \<and>
     length (temps c') = length (temps c)"

lemma same_ctx_steps:
  "wp (with_temp t f s) (\<lambda>s'. same_ctx (ra_ctx s) (ra_ctx s') \<and> ra_state s' = ra_state s \<and> ra_buf s' = ra_buf s \<and> ra_gen s' = ra_gen s)"
  "wp (alloc_temp_frame t c) (\<lambda>(off, c'). same_ctx c c')"
  unfolding same_ctx_def with_temp_def alloc_temp_frame_def set_temp_def Let_def
  by (auto simp: bind_eq_Some_conv split: if_splits intro!: wpI)

text \<open>The bookkeeping is an invariant of every step, and so of the pass.\<close>

lemma wp_state: "wp (f (ra_state s)) (\<lambda>st. Q (s\<lparr>ra_state := st\<rparr>)) \<Longrightarrow> wp (with_state f s) Q"
  by (simp add: with_state_def)

lemma wp_buf: "wp (f (ra_buf s)) (\<lambda>b. Q (s\<lparr>ra_buf := b\<rparr>)) \<Longrightarrow> wp (with_buf f s) Q"
  by (simp add: with_buf_def)

lemma wp_host:
  "(\<And>g b. tcg_out_op (ra_gen s) (ra_ctx s) op oregs iregs cs (ra_buf s) = Some (g, b) \<Longrightarrow> Q (s\<lparr>ra_gen := g, ra_buf := b\<rparr>)) \<Longrightarrow>
   wp (emit_host op oregs iregs cs s) Q"
  by (auto simp: emit_host_def bind_eq_Some_conv intro!: wpI)

lemma label_ops_defs: "wp (with_label i f s) Q \<longleftrightarrow>
    (unat i < length (labels (ra_ctx s)) \<longrightarrow>
       Q (s\<lparr>ra_ctx := (ra_ctx s)\<lparr>labels := (labels (ra_ctx s))[unat i := f (labels (ra_ctx s) ! unat i)]\<rparr>\<rparr>))"
  by (auto simp: with_label_def label_def set_label_def wp_def bind_eq_Some_conv)

definition books_ok :: "Op list \<Rightarrow> RA \<Rightarrow> bool" where
  "books_ok os s \<longleftrightarrow> regs_ok (ra_state s) \<and> ops (ra_ctx s) = os"

lemma books_steps: "alloc_steps (books_ok os)"
proof
  fix s assume s: "books_ok os s"
  show "wp (with_state (free_reg r) s) (books_ok os)" for r
    using s regs_ok_free by (intro wp_state) (auto simp: books_ok_def intro: wp_mono)
  show "wp (with_state (assign r t) s) (books_ok os)" for r t
    using s regs_ok_assign by (intro wp_state) (auto simp: books_ok_def intro: wp_mono)
  show "wp (with_temp t f s) (books_ok os)" for t f
    using s by (intro wp_mono [OF same_ctx_steps(1)]) (auto simp: books_ok_def same_ctx_def)
  show "wp (alloc_temp_frame t (ra_ctx s)) (\<lambda>(off, c). books_ok os (s\<lparr>ra_ctx := c\<rparr>))" for t
    using s by (intro wp_mono [OF same_ctx_steps(2)]) (auto simp: books_ok_def same_ctx_def)
  show "wp (with_buf e s) (books_ok os)" for e
    using s by (intro wp_buf wp_any) (simp add: books_ok_def)
  show "wp (emit_host op oregs iregs cs s) (books_ok os)" for op oregs iregs cs
    using s by (intro wp_host) (simp add: books_ok_def)
qed

interpretation books: alloc_steps "books_ok os" for os
  by (rule books_steps)

lemma books_label: "books_ok os s \<Longrightarrow> (\<And>s. books_ok os s \<Longrightarrow> Q s) \<Longrightarrow> wp (with_label i f s) Q"
  by (simp add: label_ops_defs books_ok_def)

lemma books_patch: "books_ok os s \<Longrightarrow> wp (patch_use off u s) (books_ok os)"
  unfolding patch_use_def by (cases "u_kind u") (auto simp: with_buf_def books_ok_def intro!: wp_any)

interpretation bookkeeping: alloc_pass "books_ok os" os "\<lambda>_. True" for os
proof
  fix s :: RA and op ct assume s: "books_ok os s"
  then show "ops (ra_ctx s) = os" by (simp add: books_ok_def)
  show "wp (regalloc_set_label op s) (books_ok os)"
    unfolding regalloc_set_label_def Let_def
    using s by (auto intro!: books.keep_sync_globals wp_read books_label books.keep_each books_patch)
  show "wp (regalloc_br op s) (books_ok os)"
    unfolding regalloc_br_def Let_def using s by (auto intro!: books.keeps books_label)
  show "wp (regalloc_brcond op ct s) (books_ok os)"
    unfolding regalloc_brcond_def Let_def
    using s by (auto intro!: books.keep_each_pair books.keep_br_input books.keep_each books.keep_free_dead books.keeps books_label)
qed

section \<open>Properties\<close>

lemma free_reg_frees:
  assumes "regs_ok st" "free_reg r st = Some st'" "r \<in> regs_of ALLOCATABLE_REGS"
  shows "r \<in> regs_of (free_regs st') \<and> reg_to_temp st' ! unat r = None"
proof -
  have "rs_contains (allocatable st) r = Some True"
    using assms rs.mem_abs [of r] rs.abs_bound [OF assms(3)] by (simp add: regs_ok_def)
  with assms(2) obtain fr where "rs_set (free_regs st) r = Some fr" "unat r < length (reg_to_temp st)"
    "st' = st\<lparr>reg_to_temp := (reg_to_temp st)[unat r := None], free_regs := fr\<rparr>"
    by (auto simp: free_reg_def bind_eq_Some_conv split: if_splits)
  then show ?thesis by (simp add: regset_ops(1))
qed

lemma state_unchanged:
  "wp (with_buf f s) (\<lambda>s'. ra_state s' = ra_state s)" "wp (temp_sync t s) (\<lambda>s'. ra_state s' = ra_state s)"
  "wp (with_temp t h s) (\<lambda>s'. ra_state s' = ra_state s)"
  unfolding temp_sync_def with_buf_def with_temp_def by (auto split: option.split intro!: wp_any wp_read)

lemma free_step:
  assumes "regs_ok (ra_state s)" "r \<in> regs_of ALLOCATABLE_REGS"
    and "\<And>s'. r \<in> regs_of (free_regs (ra_state s')) \<and> reg_to_temp (ra_state s') ! unat r = None \<Longrightarrow> Q s'"
  shows "wp (with_state (free_reg r) s) Q"
  by (rule wp_state, rule wpI, rule assms(3)) (use free_reg_frees [OF assms(1) _ assms(2)] in simp)

lemma evict_frees:
  assumes s: "regs_ok (ra_state s)" and r: "r \<in> regs_of ALLOCATABLE_REGS"
  shows "wp (evict_reg r s) (\<lambda>s'. r \<in> regs_of (free_regs (ra_state s')) \<and> reg_to_temp (ra_state s') ! unat r = None)"
proof -
  let ?Q = "\<lambda>s'. r \<in> regs_of (free_regs (ra_state s')) \<and> reg_to_temp (ra_state s') ! unat r = None"
  have free: "wp (with_state (free_reg r) s') ?Q" if "ra_state s' = ra_state s" for s'
    by (rule free_step) (use that s r in simp_all)
  have upd: "wp (with_temp t to_mem s') ?Q" if "?Q s'" for t s'
    by (rule wp_mono [OF state_unchanged(3)]) (use that in simp)
  have glob: "wp (temp_sync t s) (\<lambda>y. wp (with_temp t to_mem y) (\<lambda>z. wp (with_state (free_reg r) z) ?Q))" for t
    by (rule wp_mono [OF state_unchanged(2)], rule wp_mono [OF state_unchanged(3)], rule free) simp
  have loc: "wp (with_buf e (s\<lparr>ra_ctx := c\<rparr>)) (\<lambda>y. wp (with_state (free_reg r) y) (\<lambda>z. wp (with_temp t to_mem z) ?Q))" for e c t
    by (rule wp_mono [OF state_unchanged(1)], rule wp_mono [OF free]) (use upd in auto)
  show ?thesis
    unfolding evict_reg_def using s r glob loc
    by (auto simp: regs_ok_def split: option.split intro!: wp_read wp_any [of _ "alloc_temp_frame t c" for t c])
qed

text \<open>
  C28: The register chosen by \<open>reg_alloc\<close> is legal and unoccupied. It is allocatable and
  among the required ones, it avoids the forbidden set unless every legal register is forbidden,
  it is free afterwards, and nothing is spilled when a legal register was free; a free preferred
  one is taken first.
\<close>

theorem reg_alloc_legal:
  assumes "books_ok os s" "reg_alloc required forbidden preferred s = Some (r, s')"
    and "legal = regs_of required \<inter> regs_of ALLOCATABLE_REGS" "free = regs_of (free_regs (ra_state s))"
  shows "r \<in> legal \<and> (legal - regs_of forbidden \<noteq> {} \<longrightarrow> r \<notin> regs_of forbidden) \<and>
    books_ok os s' \<and> r \<in> regs_of (free_regs (ra_state s')) \<and> reg_to_temp (ra_state s') ! unat r = None \<and>
    ((legal - regs_of forbidden) \<inter> free \<noteq> {} \<longrightarrow> s' = s) \<and>
    ((legal - regs_of forbidden) \<inter> free \<inter> regs_of preferred \<noteq> {} \<longrightarrow> r \<in> regs_of preferred)"
proof -
  have ok: "regs_ok (ra_state s)" "allocatable (ra_state s) = ALLOCATABLE_REGS" using assms(1) by (auto simp: books_ok_def regs_ok_def)
  have kept: "books_ok os s'" using wpD [OF books.keep_alloc [OF assms(1)] assms(2), of "\<lambda>y. books_ok os (snd y)"] by simp
  have evict: "r \<in> legal \<Longrightarrow> evict_reg r s = Some s' \<Longrightarrow> r \<in> regs_of (free_regs (ra_state s')) \<and> reg_to_temp (ra_state s') ! unat r = None"
    using wpD [OF evict_frees [OF ok(1)]] assms(3) by blast
  have avail: "reg_to_temp (ra_state s) ! unat r = None" if "r \<in> legal" "r \<in> free"
    using ok(1) that assms(3,4) by (simp add: regs_ok_def)
  show ?thesis
    using assms(2) kept evict avail unfolding reg_alloc_def Let_def ok(2) assms(3,4)
    by (auto split: option.splits simp: bind_eq_Some_conv rs.fst_None rs.abs_inter rs.abs_diff dest!: rs.fst_Some)
qed

text \<open>A fresh allocator over an empty context.\<close>

definition demo_ra :: RA where
  "demo_ra = \<lparr>ra_ctx = context_new, ra_state = ra_new ALLOCATABLE_REGS,
     ra_buf = \<lparr>cb_mem = replicate 16 0, cb_offset = 0\<rparr>, ra_gen = codegen_new\<rparr>"

theorem reg_alloc_legal_witness:
  "\<exists>r s'. reg_alloc R_ALL (RegSet 1) (RegSet 6) demo_ra = Some (r, s') \<and> r \<in> regs_of R_ALL \<and> r \<notin> regs_of (RegSet 1) \<and>
     s' = demo_ra \<and> r \<in> regs_of (RegSet 6)"
proof -
  have ok: "books_ok [] demo_ra" using regs_ok_new by (simp add: demo_ra_def books_ok_def context_new_def)
  have r1: "rs_first (RegSet 6) = Some 1" by code_simp
  have run: "reg_alloc R_ALL (RegSet 1) (RegSet 6) demo_ra = Some (1, demo_ra)"
    using r1 by (simp add: reg_alloc_def demo_ra_def ra_new_def regset_masks rs_intersect_def rs_subtract_def Let_def)
  have "regs_of R_ALL \<inter> regs_of ALLOCATABLE_REGS = regs_of R_ALL" "regs_of (free_regs (ra_state demo_ra)) = regs_of R_ALL"
    by (simp_all add: R_ALL_def demo_ra_def ra_new_def)
  moreover have "1 \<in> regs_of (RegSet 6)" "1 \<in> regs_of R_ALL" "1 \<notin> regs_of (RegSet 1)" by (simp_all add: regs_of_def regset_masks)
  ultimately show ?thesis using reg_alloc_legal [OF ok run refl refl] run by (intro exI [of _ 1] exI [of _ demo_ra]) auto
qed

end
