(* ===== verification/Branches.thy ===== *)
theory Branches
  imports RegAlloc_Inv
begin

text \<open>
  Branches inside a block. A branch to a label that has no address yet leaves a 32-bit field to be
  patched; \<open>set_label\<close> patches the fields. The invariants say where the fields are, that they do
  not overlap, and that each field ends up with the displacement to its label.
\<close>

section \<open>Displacement fields in the buffer\<close>

definition fields_apart :: "nat \<Rightarrow> nat \<Rightarrow> bool" where
  "fields_apart x y \<longleftrightarrow> x + 4 \<le> y \<or> y + 4 \<le> x"

definition disp32 :: "nat \<Rightarrow> nat \<Rightarrow> u32" where
  "disp32 target x = word_of_int (int target - (int x + 4))"

definition pending :: "Context \<Rightarrow> nat \<Rightarrow> nat set" where
  "pending c i = u_offset ` set (l_uses (labels c ! i))"

lemma extends_offset: "extends b b' \<Longrightarrow> cb_inv b \<Longrightarrow> cb_offset b \<le> cb_offset b'"
  unfolding extends_def cb_inv_def as_slice_def capacity_def
  by (metis length_append length_take le_add1 min.absorb2)

lemma slice_read:
  assumes "cb_inv b" "x + 4 \<le> cb_offset b"
  shows "read_u32 b x = Some (le_word (read_at x 4 (as_slice b)))"
  using assms by (simp add: read_u32_def cb_inv_def capacity_def read_at_def as_slice_def drop_take)

lemma extends_read:
  assumes "extends b b'" "cb_inv b" "x + 4 \<le> cb_offset b"
  shows "read_u32 b' x = read_u32 b x"
proof -
  obtain bs where bs: "as_slice b' = as_slice b @ bs" using assms(1) by (auto simp: extends_def)
  have "length (as_slice b) = cb_offset b" using assms(2) by (simp add: as_slice_def cb_inv_def capacity_def)
  with bs assms(3) have "read_at x 4 (as_slice b') = read_at x 4 (as_slice b)" by (simp add: read_at_def)
  then show ?thesis
    using slice_read [of b x] slice_read [of b' x] extends_offset [OF assms(1,2)] assms by (auto simp: extends_def)
qed

lemma patch_facts:
  assumes "patch_u32 x v b = Some b'" "cb_inv b"
  shows "cb_inv b'" "capacity b' = capacity b" "cb_offset b' = cb_offset b" "read_u32 b' x = Some v"
    "fields_apart x y \<Longrightarrow> read_u32 b' y = read_u32 b y"
    "extends b0 b \<Longrightarrow> cb_inv b0 \<Longrightarrow> cb_offset b0 \<le> x \<Longrightarrow> x + 4 \<le> cb_offset b \<Longrightarrow> extends b0 b'"
proof -
  have x: "x + 4 \<le> capacity b" and b': "b' = b\<lparr>cb_mem := write_at x (le_bytes 4 v) (cb_mem b)\<rparr>"
    using assms(1) by (auto simp: patch_u32_def split: if_splits)
  show "cb_inv b'" "capacity b' = capacity b" "cb_offset b' = cb_offset b"
    using x b' assms(2) by (simp_all add: capacity_def cb_inv_def)
  show "read_u32 b' x = Some v"
    using x b' read_write_same [of x "le_bytes 4 v" "cb_mem b"] le_word_le_bytes [of 4 v]
    by (simp add: read_u32_def capacity_def)
  show "read_u32 b' y = read_u32 b y" if "fields_apart x y"
    using x b' that read_write_apart [of x "le_bytes 4 v" "cb_mem b" y 4]
    by (auto simp: read_u32_def capacity_def fields_apart_def assert_that_def)
  show "extends b0 b'" if e: "extends b0 b" "cb_inv b0" "cb_offset b0 \<le> x" "x + 4 \<le> cb_offset b"
  proof -
    obtain bs where bs: "as_slice b = as_slice b0 @ bs" using e(1) by (auto simp: extends_def)
    have "take (cb_offset b0) (as_slice b') = take (cb_offset b0) (as_slice b)"
      using x b' e(3,4) by (simp add: as_slice_def write_at_def capacity_def min_def)
    also have "\<dots> = as_slice b0" using bs e(2) by (simp add: as_slice_def cb_inv_def capacity_def)
    finally have "as_slice b' = as_slice b0 @ drop (cb_offset b0) (as_slice b')"
      by (metis append_take_drop_id)
    with \<open>cb_inv b'\<close> \<open>capacity b' = capacity b\<close> e(1) show ?thesis by (auto simp: extends_def)
  qed
qed

text \<open>The patches of one label.\<close>

definition patches :: "nat \<Rightarrow> LabelUse list \<Rightarrow> CodeBuffer \<Rightarrow> CodeBuffer option" where
  "patches off = each (\<lambda>u. patch_u32 (u_offset u) (disp32 off (u_offset u)))"

lemma patch_uses:
  "each (patch_use off) us s = map_option (\<lambda>b. s\<lparr>ra_buf := b\<rparr>) (patches off us (ra_buf s))"
proof (induction us arbitrary: s)
  case (Cons u us)
  then show ?case
    by (cases "u_kind u"; cases "patch_u32 (u_offset u) (disp32 off (u_offset u)) (ra_buf s)")
      (simp_all add: patch_use_def with_buf_def patches_def disp32_def)
qed (simp add: patches_def)

lemma patches_all:
  assumes "patches off us b = Some b'" "cb_inv b"
  shows "cb_inv b' \<and> capacity b' = capacity b \<and> cb_offset b' = cb_offset b \<and>
    (\<forall>x. (\<forall>u \<in> set us. u_offset u = x \<or> fields_apart (u_offset u) x) \<longrightarrow>
       read_u32 b' x = (if x \<in> u_offset ` set us then Some (disp32 off x) else read_u32 b x)) \<and>
    (\<forall>b0. extends b0 b \<longrightarrow> cb_inv b0 \<longrightarrow> (\<forall>u \<in> set us. cb_offset b0 \<le> u_offset u \<and> u_offset u + 4 \<le> cb_offset b) \<longrightarrow>
       extends b0 b')"
  using assms
proof (induction us arbitrary: b)
  case (Cons u us)
  obtain b1 where b1: "patch_u32 (u_offset u) (disp32 off (u_offset u)) b = Some b1" "patches off us b1 = Some b'"
    using Cons.prems(1) by (auto simp: patches_def bind_eq_Some_conv)
  note f = patch_facts [OF b1(1) Cons.prems(2)]
  show ?case using Cons.IH [OF b1(2) f(1)] f by auto
qed (simp add: patches_def)

section \<open>Predicates on the code and the labels\<close>

text \<open>
  The interface: a predicate that survives growing code, a new field at the end of the code and
  the setting of an allowed label is kept by the whole pass.
\<close>

locale code_inv =
  fixes I :: "RA \<Rightarrow> bool" and os :: "Op list" and ok :: "nat \<Rightarrow> bool"
  assumes buf_ok: "I s \<Longrightarrow> cb_inv (ra_buf s)"
    and all_ops: "I s \<Longrightarrow> ops (ra_ctx s) = os"
    and grow: "I s \<Longrightarrow> ops (ra_ctx s') = ops (ra_ctx s) \<Longrightarrow> labels (ra_ctx s') = labels (ra_ctx s) \<Longrightarrow>
      extends (ra_buf s) (ra_buf s') \<Longrightarrow> ra_gen s' = ra_gen s \<Longrightarrow> I s'"
    and jump: "I s \<Longrightarrow> emit_goto_tb (ra_buf s) = Some (j, r, b) \<Longrightarrow>
      I (s\<lparr>ra_gen := (ra_gen s)\<lparr>goto_tb_info := goto_tb_info (ra_gen s) @ [(j, r)]\<rparr>, ra_buf := b\<rparr>)"
    and link: "I s \<Longrightarrow> i < length (labels (ra_ctx s)) \<Longrightarrow> \<not> l_has_value (labels (ra_ctx s) ! i) \<Longrightarrow>
      extends (ra_buf s) (ra_buf s') \<Longrightarrow> cb_offset (ra_buf s) \<le> x \<Longrightarrow> x + 4 \<le> cb_offset (ra_buf s') \<Longrightarrow>
      ra_ctx s' = (ra_ctx s)\<lparr>labels := (labels (ra_ctx s))[i := add_use (labels (ra_ctx s) ! i) x Rel32]\<rparr> \<Longrightarrow>
      ra_gen s' = ra_gen s \<Longrightarrow> I s'"
    and place: "I s \<Longrightarrow> i < length (labels (ra_ctx s)) \<Longrightarrow> ok i \<Longrightarrow>
      patches (cb_offset (ra_buf s)) (l_uses (labels (ra_ctx s) ! i)) (ra_buf s) = Some b \<Longrightarrow>
      s' = s\<lparr>ra_ctx := (ra_ctx s)\<lparr>labels := (labels (ra_ctx s))
        [i := (set_value (labels (ra_ctx s) ! i) (cb_offset (ra_buf s)))\<lparr>l_uses := []\<rparr>]\<rparr>, ra_buf := b\<rparr> \<Longrightarrow> I s'"

sublocale code_inv \<subseteq> alloc_steps I
proof
  fix s assume s: "I s"
  have e: "extends (ra_buf s) (ra_buf s)" using buf_ok [OF s] by simp
  have st: "wp (with_state f s) I" for f
    by (rule wp_state, rule wp_any, rule grow [OF s]) (simp_all add: e)
  show "wp (with_state (free_reg r) s) I" "wp (with_state (assign r t) s) I" for r t
    by (rule st)+
  show "wp (with_temp t f s) I" for t f
    by (rule wp_mono [OF same_ctx_steps(1)]) (use grow [OF s] e in \<open>auto simp: same_ctx_def\<close>)
  show "wp (alloc_temp_frame t (ra_ctx s)) (\<lambda>(off, c). I (s\<lparr>ra_ctx := c\<rparr>))" for t
    by (rule wp_mono [OF same_ctx_steps(2)]) (use grow [OF s] e in \<open>auto simp: same_ctx_def\<close>)
  show "wp (with_buf f s) I" if "grows f" for f
    by (rule wp_buf, rule wpI, rule grow [OF s]) (use growsD [OF that buf_ok [OF s]] in simp_all)
  show "wp (emit_host op oregs iregs cs s) I" for op oregs iregs cs
  proof (rule wp_host)
    fix g b assume run: "tcg_out_op (ra_gen s) (ra_ctx s) op oregs iregs cs (ra_buf s) = Some (g, b)"
    show "I (s\<lparr>ra_gen := g, ra_buf := b\<rparr>)"
    proof (cases "o_opc op = OCtl GotoTb")
      case True
      then show ?thesis using jump [OF s] run by (auto simp: tcg_out_op_def bind_eq_Some_conv)
    next
      case False
      then have "g = ra_gen s" using run by (auto simp: tcg_out_op_def bind_eq_Some_conv)
      then show ?thesis using grow [OF s] tcg_out_op_extends [OF buf_ok [OF s] run] by simp
    qed
  qed
qed

text \<open>A conditional branch ends in its displacement field.\<close>

lemma emit_u32_at: "emit_u32 v b = Some b' \<Longrightarrow> cb_offset b' = cb_offset b + 4 \<and> read_u32 b' (cb_offset b) = Some v"
  using read_write_same [of "cb_offset b" "le_bytes 4 v" "cb_mem b"] le_word_le_bytes [of 4 v]
  by (auto simp: emit_u32_def read_u32_def capacity_def split: if_splits)

lemma brcond_field:
  assumes op: "o_opc op = OCtl BrCond" and run: "tcg_out_op g c op oregs iregs cs b = Some (g', b')" and inv: "cb_inv b"
    and l: "label c (cs ! 1) = Some l"
  shows "cb_offset b + 4 \<le> cb_offset b' \<and>
    (l_has_value l \<longrightarrow> read_u32 b' (cb_offset b' - 4) = Some (disp32 (l_value l) (cb_offset b' - 4)))"
proof -
  have "out_brcond c (o_type op = I64) iregs cs b = Some b'"
    using op run by (auto simp: tcg_out_op_def out_plain_def bind_eq_Some_conv Let_def)
  then obtain r q cc b0 where b0: "out_compare cc (o_type op = I64) r q b = Some b0"
    and k: "(if l_has_value l then emit_jcc (from_tcg cc) (l_value l) b0
       else emit_opc (OPC_JCC_long + ucast (x86cond_u8 (from_tcg cc))) 0 0 b0 \<bind> emit_u32 0) = Some b'"
    using l by (auto simp: out_brcond_def bind_eq_Some_conv split: if_splits)
  obtain b1 v where b1: "emit_opc (OPC_JCC_long + ucast (x86cond_u8 (from_tcg cc))) 0 0 b0 = Some b1" "emit_u32 v b1 = Some b'"
    "l_has_value l \<longrightarrow> v = disp32 (l_value l) (cb_offset b1)"
    using k by (auto simp: emit_jcc_def rel32_def disp32_def Let_def bind_eq_Some_conv algebra_simps split: if_splits)
  have "extends b b1"
    using growsD [OF grows_patterns(5) inv b0] growsD [OF grows_opc(1) _ b1(1)] by (auto intro: extends_trans)
  then show ?thesis using extends_offset [OF _ inv] emit_u32_at [OF b1(2)] b1(3) by fastforce
qed


lemma wp_map: "wp (map_option f x) Q \<longleftrightarrow> wp x (\<lambda>y. Q (f y))"
  by (auto simp: wp_def)

lemma wp_patches: "(\<And>b'. patches off us b = Some b' \<Longrightarrow> Q b') \<Longrightarrow> wp (patches off us b) Q"
  by (rule wpI)

lemma jump_field:
  assumes "cb_inv b" "emit_u8 0xE9 b = Some b1" "emit_u32 v b1 = Some b2"
  shows "extends b b2" "cb_offset b \<le> cb_offset b1" "cb_offset b2 = cb_offset b1 + 4"
  using growsD [OF grows_basic(4) assms(1,2)] growsD [OF grows_basic(5) _ assms(3)] emit_u32_at [OF assms(3)]
    extends_offset [OF _ assms(1)] by (auto intro: extends_trans)

sublocale code_inv \<subseteq> alloc_pass I os "\<lambda>op. o_opc op = OCtl SetLabel \<longrightarrow> ok (unat (o_args op ! 0))"
proof
  fix s :: RA and op ct assume s: "I s"
  then show "ops (ra_ctx s) = os" by (rule all_ops)
  show "wp (regalloc_set_label op s) I" if "o_opc op = OCtl SetLabel \<longrightarrow> ok (unat (o_args op ! 0))" "o_opc op = OCtl SetLabel"
    unfolding regalloc_set_label_def Let_def patch_uses
    using s that by (auto simp: label_ops_defs label_def wp_map intro!: keep_sync_globals wp_patches intro: place)
  have new: "wp (with_buf (emit_u8 0xE9) y) (\<lambda>z. wp (with_buf (emit_u32 0) z)
      (\<lambda>w. wp (with_label i (\<lambda>l. add_use l (cb_offset (ra_buf z)) Rel32) w) I))"
    if y: "I y" and l: "label (ra_ctx y) i = Some l" "\<not> l_has_value l" for y i l
  proof (rule wp_buf, rule wpI, rule wp_buf, rule wpI)
    fix b1 b2 assume b: "emit_u8 0xE9 (ra_buf y) = Some b1" "emit_u32 0 (ra_buf (y\<lparr>ra_buf := b1\<rparr>)) = Some b2"
    then have f: "extends (ra_buf y) b2" "cb_offset (ra_buf y) \<le> cb_offset b1" "cb_offset b2 = cb_offset b1 + 4"
      using jump_field [OF buf_ok [OF y] b(1)] by simp_all
    show "wp (with_label i (\<lambda>l. add_use l (cb_offset (ra_buf (y\<lparr>ra_buf := b1\<rparr>))) Rel32) (y\<lparr>ra_buf := b1, ra_buf := b2\<rparr>)) I"
      unfolding label_ops_defs using l f link [OF y, of "unat i" _ "cb_offset b1"] by (simp add: label_def)
  qed
  show "wp (regalloc_br op s) I"
    unfolding regalloc_br_def Let_def wp_simps index_bind
    using s by (auto intro!: keep_sync_globals new keep_buf grows_jumps wpI [of "label c l" for c l])
  show "wp (regalloc_brcond op ct s) I" if op: "o_opc op = OCtl BrCond"
  proof -
    have new: "wp (emit_host op [] iregs cs y) (\<lambda>z. (l_has_value l \<longrightarrow> I z) \<and>
        (\<not> l_has_value l \<longrightarrow> wp (with_label (cs ! 1) (\<lambda>l. add_use l (cb_offset (ra_buf z) - 4) Rel32) z) I))"
      if y: "I y" and l: "label (ra_ctx y) (cs ! 1) = Some l" for y l iregs cs
    proof (rule wp_host)
      fix g b assume run: "tcg_out_op (ra_gen y) (ra_ctx y) op [] iregs cs (ra_buf y) = Some (g, b)"
      have e: "extends (ra_buf y) b" using tcg_out_op_extends [OF buf_ok [OF y] run] by simp
      have off: "cb_offset (ra_buf y) + 4 \<le> cb_offset b" using brcond_field [OF op run buf_ok [OF y] l] by simp
      let ?z = "y\<lparr>ra_gen := g, ra_buf := b\<rparr>"
      have g: "g = ra_gen y" using run op by (auto simp: tcg_out_op_def bind_eq_Some_conv)
      have "I ?z" by (rule grow [OF y]) (simp_all add: e g)
      moreover have "wp (with_label (cs ! 1) (\<lambda>l. add_use l (cb_offset b - 4) Rel32) ?z) I" if "\<not> l_has_value l"
        unfolding label_ops_defs using l that e off g link [OF y, of "unat (cs ! 1)" _ "cb_offset b - 4"] by (simp add: label_def)
      ultimately show "(l_has_value l \<longrightarrow> I ?z) \<and> (\<not> l_has_value l \<longrightarrow>
          wp (with_label (cs ! 1) (\<lambda>l. add_use l (cb_offset (ra_buf ?z) - 4) Rel32) ?z) I)" by simp
    qed
    have fin: "wp (label (ra_ctx y) (cs ! Suc 0)) (\<lambda>l. wp (emit_host op [] iregs cs y) (\<lambda>z. (l_has_value l \<longrightarrow> I z) \<and>
        (\<not> l_has_value l \<longrightarrow> 4 \<le> cb_offset (ra_buf z) \<longrightarrow>
          wp (with_label (cs ! Suc 0) (\<lambda>l. add_use l (cb_offset (ra_buf z) - 4) Rel32) z) I)))"
      if "I y" for y iregs cs
      using new [OF that, of cs] by (intro wpI [of "label (ra_ctx y) (cs ! Suc 0)"] wp_mono [OF new [OF that]]) auto
    show ?thesis
      unfolding regalloc_brcond_def Let_def
      using s by (auto intro!: keep_each_pair keep_br_input keep_each keep_free_dead keep_dead keep_sync_globals fin)
  qed
qed

section \<open>The emitted code is confined\<close>

text \<open>
  The code that was in the buffer stays as it is, the pending fields lie in the new code, and two
  of them never overlap.
\<close>

definition code_ok :: "CodeBuffer \<Rightarrow> Op list \<Rightarrow> RA \<Rightarrow> bool" where
  "code_ok b0 os s \<longleftrightarrow> cb_inv b0 \<and> extends b0 (ra_buf s) \<and> ops (ra_ctx s) = os \<and>
     (\<forall>i < length (labels (ra_ctx s)). \<forall>x \<in> pending (ra_ctx s) i. cb_offset b0 \<le> x \<and> x + 4 \<le> cb_offset (ra_buf s) \<and>
        (\<forall>j < length (labels (ra_ctx s)). \<forall>y \<in> pending (ra_ctx s) j. i = j \<and> x = y \<or> fields_apart x y))"

lemma pending_update:
  "i < length (labels c) \<Longrightarrow> pending (c\<lparr>labels := (labels c)[i := l]\<rparr>) j =
     (if i = j then u_offset ` set (l_uses l) else pending c j)"
  by (simp add: pending_def)

lemma use_simps [simp]:
  "u_offset ` set (l_uses (add_use l x k)) = insert x (u_offset ` set (l_uses l))"
  "l_has_value (add_use l x k) = l_has_value l" "l_value (add_use l x k) = l_value l"
  "l_has_value (set_value l v)" "l_value (set_value l v) = v"
  by (simp_all add: add_use_def set_value_def)

lemma code_okD:
  assumes "code_ok b0 os s"
  shows "cb_inv b0" "extends b0 (ra_buf s)" "ops (ra_ctx s) = os" "cb_inv (ra_buf s)"
    "i < length (labels (ra_ctx s)) \<Longrightarrow> x \<in> pending (ra_ctx s) i \<Longrightarrow> cb_offset b0 \<le> x \<and> x + 4 \<le> cb_offset (ra_buf s)"
    "i < length (labels (ra_ctx s)) \<Longrightarrow> x \<in> pending (ra_ctx s) i \<Longrightarrow> j < length (labels (ra_ctx s)) \<Longrightarrow>
       y \<in> pending (ra_ctx s) j \<Longrightarrow> i = j \<and> x = y \<or> fields_apart x y"
  using assms by (auto simp: code_ok_def)

lemma code_ok_grow:
  assumes s: "code_ok b0 os s" and same: "ops (ra_ctx s') = ops (ra_ctx s)" "labels (ra_ctx s') = labels (ra_ctx s)"
    and e: "extends (ra_buf s) (ra_buf s')"
  shows "code_ok b0 os s'"
proof -
  note d = code_okD [OF s]
  have "pending (ra_ctx s') = pending (ra_ctx s)" using same(2) by (simp add: fun_eq_iff pending_def)
  then show ?thesis
    unfolding code_ok_def using d extends_trans [OF d(2) e] extends_offset [OF e d(4)] same by fastforce
qed

lemma code_ok_link:
  assumes s: "code_ok b0 os s" and i: "i < length (labels (ra_ctx s))"
    and e: "extends (ra_buf s) (ra_buf s')" and x: "cb_offset (ra_buf s) \<le> x" "x + 4 \<le> cb_offset (ra_buf s')"
    and c: "ra_ctx s' = (ra_ctx s)\<lparr>labels := (labels (ra_ctx s))[i := add_use (labels (ra_ctx s) ! i) x Rel32]\<rparr>"
  shows "code_ok b0 os s'"
proof -
  note d = code_okD [OF s]
  have p: "pending (ra_ctx s') j = (if j = i then insert x (pending (ra_ctx s) i) else pending (ra_ctx s) j)" for j
    using i by (simp add: c pending_update) (simp add: pending_def)
  have len: "length (labels (ra_ctx s')) = length (labels (ra_ctx s))" "ops (ra_ctx s') = os" using d(3) by (simp_all add: c)
  have new: "fields_apart x y" if "y \<in> pending (ra_ctx s) j" "j < length (labels (ra_ctx s))" for j y
    using d(5) [OF that(2,1)] x by (simp add: fields_apart_def)
  have sym: "fields_apart x y \<longleftrightarrow> fields_apart y x" for x y by (auto simp: fields_apart_def)
  have off: "cb_offset b0 \<le> x" "cb_offset (ra_buf s) \<le> cb_offset (ra_buf s')"
    using extends_offset [OF d(2,1)] extends_offset [OF e d(4)] x by simp_all
  show ?thesis
    unfolding code_ok_def
  proof (intro conjI allI impI ballI)
    fix j y assume j: "j < length (labels (ra_ctx s'))" "y \<in> pending (ra_ctx s') j"
    show "cb_offset b0 \<le> y" "y + 4 \<le> cb_offset (ra_buf s')"
      using j off x d(5) [of j y] by (auto simp: p len split: if_splits)
    fix k z assume "k < length (labels (ra_ctx s'))" "z \<in> pending (ra_ctx s') k"
    then show "j = k \<and> y = z \<or> fields_apart y z"
      using j d(6) [of j y k z] new [of z k] new [of y j] sym [of x] by (auto simp: p len split: if_splits)
  qed (use d extends_trans [OF d(2) e] len in simp_all)
qed

lemma code_ok_place:
  assumes s: "code_ok b0 os s" and i: "i < length (labels (ra_ctx s))"
    and b: "patches off (l_uses (labels (ra_ctx s) ! i)) (ra_buf s) = Some b"
    and s': "s' = s\<lparr>ra_ctx := (ra_ctx s)\<lparr>labels := (labels (ra_ctx s))
        [i := (set_value (labels (ra_ctx s) ! i) off)\<lparr>l_uses := []\<rparr>]\<rparr>, ra_buf := b\<rparr>"
  shows "code_ok b0 os s'"
proof -
  note d = code_okD [OF s]
  note pa = patches_all [OF b d(4)]
  have "cb_offset b0 \<le> u_offset u \<and> u_offset u + 4 \<le> cb_offset (ra_buf s)" if "u \<in> set (l_uses (labels (ra_ctx s) ! i))" for u
    using d(5) [OF i, of "u_offset u"] that by (simp add: pending_def)
  then have e: "extends b0 b" using pa d(1,2) by blast
  have p: "pending (ra_ctx s') j = (if j = i then {} else pending (ra_ctx s) j)" for j
    using i by (auto simp: s' pending_update)
  have f: "length (labels (ra_ctx s')) = length (labels (ra_ctx s))" "ops (ra_ctx s') = os" "ra_buf s' = b"
    "cb_offset b = cb_offset (ra_buf s)" using d(3) pa by (simp_all add: s')
  show ?thesis
    unfolding code_ok_def f using d(1,5,6) e by (simp add: p)
qed

lemma code_ok_jump:
  assumes s: "code_ok b0 os s" and run: "emit_goto_tb (ra_buf s) = Some (j, r, b)"
  shows "code_ok b0 os (s\<lparr>ra_gen := g, ra_buf := b\<rparr>)"
  by (rule code_ok_grow [OF s]) (use goto_tb_extends [OF code_okD(4) [OF s] run] in simp_all)

interpretation confined: code_inv "code_ok b0 os" os "\<lambda>_. True" for b0 os
  by unfold_locales (auto dest: code_okD(3,4) intro: code_ok_grow code_ok_jump code_ok_link code_ok_place)

section \<open>Every field gets the displacement to its label\<close>

text \<open>
  \<open>linked\<close>: the field at \<open>x\<close> belongs to a branch to label \<open>i\<close>. It is pending as long as the
  label has no address and holds the displacement to that address afterwards.
\<close>

definition linked :: "CodeBuffer \<Rightarrow> Op list \<Rightarrow> nat \<Rightarrow> nat \<Rightarrow> RA \<Rightarrow> bool" where
  "linked b0 os i x s \<longleftrightarrow> code_ok b0 os s \<and> i < length (labels (ra_ctx s)) \<and> x + 4 \<le> cb_offset (ra_buf s) \<and>
     (if l_has_value (labels (ra_ctx s) ! i)
      then read_u32 (ra_buf s) x = Some (disp32 (l_value (labels (ra_ctx s) ! i)) x) \<and>
        (\<forall>j < length (labels (ra_ctx s)). \<forall>y \<in> pending (ra_ctx s) j. fields_apart y x)
      else x \<in> pending (ra_ctx s) i)"

lemma linked_grow:
  assumes s: "linked b0 os i x s" and same: "ops (ra_ctx s') = ops (ra_ctx s)" "labels (ra_ctx s') = labels (ra_ctx s)"
    and e: "extends (ra_buf s) (ra_buf s')"
  shows "linked b0 os i x s'"
proof -
  have c: "code_ok b0 os s" using s by (simp add: linked_def)
  have "pending (ra_ctx s') = pending (ra_ctx s)" using same(2) by (simp add: fun_eq_iff pending_def)
  then show ?thesis
    using s code_ok_grow [OF c same e] extends_read [OF e code_okD(4) [OF c]] extends_offset [OF e code_okD(4) [OF c]] same
    by (simp add: linked_def)
qed

lemma linked_link:
  assumes s: "linked b0 os i x s" and j: "j < length (labels (ra_ctx s))" "\<not> l_has_value (labels (ra_ctx s) ! j)"
    and e: "extends (ra_buf s) (ra_buf s')" and y: "cb_offset (ra_buf s) \<le> y" "y + 4 \<le> cb_offset (ra_buf s')"
    and c: "ra_ctx s' = (ra_ctx s)\<lparr>labels := (labels (ra_ctx s))[j := add_use (labels (ra_ctx s) ! j) y Rel32]\<rparr>"
  shows "linked b0 os i x s'"
proof -
  have ok: "code_ok b0 os s" using s by (simp add: linked_def)
  have p: "pending (ra_ctx s') k = (if k = j then insert y (pending (ra_ctx s) j) else pending (ra_ctx s) k)" for k
    using j(1) by (simp add: c pending_update) (simp add: pending_def)
  have f: "length (labels (ra_ctx s')) = length (labels (ra_ctx s))" "l_has_value (labels (ra_ctx s') ! i) = l_has_value (labels (ra_ctx s) ! i)"
    "l_value (labels (ra_ctx s') ! i) = l_value (labels (ra_ctx s) ! i)"
    using j(1) by (simp_all add: c nth_list_update)
  have "fields_apart y x" using y(1) s by (simp add: fields_apart_def linked_def)
  then show ?thesis
    unfolding linked_def f
    using s code_ok_link [OF ok j(1) e y c] extends_read [OF e code_okD(4) [OF ok]] extends_offset [OF e code_okD(4) [OF ok]]
    by (auto simp: linked_def p)
qed

lemma linked_place:
  assumes s: "linked b0 os i x s" and j: "j < length (labels (ra_ctx s))" "j = i \<longrightarrow> \<not> l_has_value (labels (ra_ctx s) ! i)"
    and b: "patches off (l_uses (labels (ra_ctx s) ! j)) (ra_buf s) = Some b"
    and s': "s' = s\<lparr>ra_ctx := (ra_ctx s)\<lparr>labels := (labels (ra_ctx s))
        [j := (set_value (labels (ra_ctx s) ! j) off)\<lparr>l_uses := []\<rparr>]\<rparr>, ra_buf := b\<rparr>"
  shows "linked b0 os i x s'"
proof -
  have ok: "code_ok b0 os s" using s by (simp add: linked_def)
  note pa = patches_all [OF b code_okD(4) [OF ok]]
  have p: "pending (ra_ctx s') k = (if k = j then {} else pending (ra_ctx s) k)" for k
    using j(1) by (auto simp: s' pending_update)
  have f: "length (labels (ra_ctx s')) = length (labels (ra_ctx s))" "ra_buf s' = b" "cb_offset b = cb_offset (ra_buf s)"
    "l_has_value (labels (ra_ctx s') ! i) = (j = i \<or> l_has_value (labels (ra_ctx s) ! i))"
    "l_value (labels (ra_ctx s') ! i) = (if j = i then off else l_value (labels (ra_ctx s) ! i))"
    using j(1) pa by (simp_all add: s' nth_list_update)
  have us: "u_offset ` set (l_uses (labels (ra_ctx s) ! j)) = pending (ra_ctx s) j" by (simp add: pending_def)
  have ap: "k = i \<and> y = x \<and> \<not> l_has_value (labels (ra_ctx s) ! i) \<or> fields_apart y x"
    if "y \<in> pending (ra_ctx s) k" "k < length (labels (ra_ctx s))" for y k
    using that s code_okD(6) [OF ok that(2,1), of i x] by (auto simp: linked_def split: if_splits)
  have self: "\<not> fields_apart x x" by (simp add: fields_apart_def)
  have rd: "read_u32 b x = (if x \<in> pending (ra_ctx s) j then Some (disp32 off x) else read_u32 (ra_buf s) x)"
    using pa ap [OF _ j(1)] unfolding us [symmetric] by blast
  have x: "x \<in> pending (ra_ctx s) i" if "j = i" using s j(2) that by (simp add: linked_def)
  have x': "x \<notin> pending (ra_ctx s) j" if "j \<noteq> i" using ap [of x j] j(1) self that by blast
  have i: "i < length (labels (ra_ctx s))" "x + 4 \<le> cb_offset (ra_buf s)" using s by (simp_all add: linked_def)
  show ?thesis
  proof (cases "j = i \<or> l_has_value (labels (ra_ctx s) ! i)")
    case True
    have "fields_apart y x" if "y \<in> pending (ra_ctx s') k" "k < length (labels (ra_ctx s))" for y k
      using that ap [of y k] True by (auto simp: p split: if_splits)
    moreover have "read_u32 b x = Some (disp32 (if j = i then off else l_value (labels (ra_ctx s) ! i)) x)"
      using rd x x' True s by (cases "j = i") (simp_all add: linked_def)
    ultimately show ?thesis
      unfolding linked_def f using True code_ok_place [OF ok j(1) b s'] i by simp
  next
    case False
    then have "x \<in> pending (ra_ctx s') i" using s by (simp add: linked_def p)
    with False show ?thesis unfolding linked_def f using code_ok_place [OF ok j(1) b s'] i by simp
  qed
qed

lemma linked_ok: "linked b0 os i x s \<Longrightarrow> code_ok b0 os s"
  by (simp add: linked_def)

lemma linked_jump:
  assumes s: "linked b0 os i x s" and run: "emit_goto_tb (ra_buf s) = Some (j, r, b)"
  shows "linked b0 os i x (s\<lparr>ra_gen := g, ra_buf := b\<rparr>)"
  by (rule linked_grow [OF s]) (use goto_tb_extends [OF code_okD(4) [OF linked_ok [OF s]] run] in simp_all)

interpretation links: code_inv "linked b0 os i x" os "\<lambda>j. j \<noteq> i" for b0 os i x
  by unfold_locales (auto dest: linked_ok code_okD(3,4) intro: linked_grow linked_jump linked_link linked_place)

text \<open>Whether a label has an address changes only where it is placed.\<close>

definition labelled :: "CodeBuffer \<Rightarrow> Op list \<Rightarrow> bool \<Rightarrow> nat \<Rightarrow> RA \<Rightarrow> bool" where
  "labelled b0 os v i s \<longleftrightarrow> code_ok b0 os s \<and> i < length (labels (ra_ctx s)) \<and> l_has_value (labels (ra_ctx s) ! i) = v"

lemma labelled_ok: "labelled b0 os v i s \<Longrightarrow> code_ok b0 os s"
  by (simp add: labelled_def)

interpretation placed: code_inv "labelled b0 os v i" os "\<lambda>j. j \<noteq> i" for b0 os v i
proof
  fix s s' :: RA and j b assume s: "labelled b0 os v i s" "j < length (labels (ra_ctx s))" "j \<noteq> i"
    "patches (cb_offset (ra_buf s)) (l_uses (labels (ra_ctx s) ! j)) (ra_buf s) = Some b"
    "s' = s\<lparr>ra_ctx := (ra_ctx s)\<lparr>labels := (labels (ra_ctx s))
       [j := (set_value (labels (ra_ctx s) ! j) (cb_offset (ra_buf s)))\<lparr>l_uses := []\<rparr>]\<rparr>, ra_buf := b\<rparr>"
  then show "labelled b0 os v i s'" using code_ok_place [OF labelled_ok [OF s(1)] s(2,4,5)] by (simp add: labelled_def)
next
  fix s s' :: RA and j x assume s: "labelled b0 os v i s" "j < length (labels (ra_ctx s))" "\<not> l_has_value (labels (ra_ctx s) ! j)"
    "extends (ra_buf s) (ra_buf s')" "cb_offset (ra_buf s) \<le> x" "x + 4 \<le> cb_offset (ra_buf s')"
    "ra_ctx s' = (ra_ctx s)\<lparr>labels := (labels (ra_ctx s))[j := add_use (labels (ra_ctx s) ! j) x Rel32]\<rparr>"
  then show "labelled b0 os v i s'"
    using code_ok_link [OF labelled_ok [OF s(1)] s(2,4,5,6,7)] by (auto simp: labelled_def nth_list_update)
qed (auto dest: labelled_ok code_okD(3,4) intro: code_ok_grow code_ok_jump simp: labelled_def)

lemma wp_conj: "wp x P \<Longrightarrow> wp x Q \<Longrightarrow> wp x (\<lambda>y. P y \<and> Q y)"
  by (simp add: wp_def)

lemma set_label_places:
  assumes s: "code_ok b0 os s" and i: "o_args op \<noteq> []" "i = unat (o_args op ! 0)"
  shows "wp (regalloc_set_label op s) (labelled b0 os True i)"
proof -
  have "wp (sync_globals s) (code_ok b0 os)" using confined.keep_sync_globals [OF s] by blast
  moreover have "labelled b0 os True i (y\<lparr>ra_ctx := (ra_ctx y)\<lparr>labels := (labels (ra_ctx y))
       [i := (set_value (labels (ra_ctx y) ! i) (cb_offset (ra_buf y)))\<lparr>l_uses := []\<rparr>]\<rparr>, ra_buf := b\<rparr>)"
    if "code_ok b0 os y" "i < length (labels (ra_ctx y))"
      "patches (cb_offset (ra_buf y)) (l_uses (labels (ra_ctx y) ! i)) (ra_buf y) = Some b" for y b
    using code_ok_place [OF that refl] that(2) by (simp add: labelled_def)
  ultimately show ?thesis
    unfolding regalloc_set_label_def Let_def patch_uses
    using i by (auto simp: label_ops_defs label_def wp_map intro!: wp_patches elim!: wp_mono)
qed

lemma set_label_links:
  assumes s: "linked b0 os i x s" "\<not> l_has_value (labels (ra_ctx s) ! i)" and i: "o_args op \<noteq> []" "i = unat (o_args op ! 0)"
  shows "wp (regalloc_set_label op s) (linked b0 os i x)"
proof -
  have "labelled b0 os False i s" using s by (simp add: linked_def labelled_def)
  then have "wp (sync_globals s) (\<lambda>y. linked b0 os i x y \<and> labelled b0 os False i y)"
    using links.keep_sync_globals [OF s(1), of "linked b0 os i x"] placed.keep_sync_globals by (blast intro: wp_conj)
  moreover have "linked b0 os i x (y\<lparr>ra_ctx := (ra_ctx y)\<lparr>labels := (labels (ra_ctx y))
       [i := (set_value (labels (ra_ctx y) ! i) (cb_offset (ra_buf y)))\<lparr>l_uses := []\<rparr>]\<rparr>, ra_buf := b\<rparr>)"
    if "linked b0 os i x y" "labelled b0 os False i y"
      "patches (cb_offset (ra_buf y)) (l_uses (labels (ra_ctx y) ! i)) (ra_buf y) = Some b" for y b
    using linked_place [OF that(1) _ _ that(3) refl] that(2) by (simp add: labelled_def)
  ultimately show ?thesis
    unfolding regalloc_set_label_def Let_def patch_uses
    using i by (auto simp: label_ops_defs label_def wp_map intro!: wp_patches elim!: wp_mono)
qed

text \<open>A branch makes its own field: the last four bytes of its code.\<close>

lemma link_new:
  assumes s: "code_ok b0 os s" and i: "i < length (labels (ra_ctx s))" "\<not> l_has_value (labels (ra_ctx s) ! i)"
    and e: "extends (ra_buf s) (ra_buf s')" and x: "cb_offset (ra_buf s) \<le> x" "x + 4 \<le> cb_offset (ra_buf s')"
    and c: "ra_ctx s' = (ra_ctx s)\<lparr>labels := (labels (ra_ctx s))[i := add_use (labels (ra_ctx s) ! i) x Rel32]\<rparr>"
  shows "linked b0 os i x s'"
  using code_ok_link [OF s i(1) e x c] i x by (simp add: linked_def c pending_update)

lemma link_old:
  assumes s: "code_ok b0 os s" and i: "i < length (labels (ra_ctx s))" "l_has_value (labels (ra_ctx s) ! i)"
    and e: "extends (ra_buf s) (ra_buf s')" and x: "cb_offset (ra_buf s) \<le> x" "x + 4 \<le> cb_offset (ra_buf s')"
    and r: "read_u32 (ra_buf s') x = Some (disp32 (l_value (labels (ra_ctx s) ! i)) x)" and c: "ra_ctx s' = ra_ctx s"
  shows "linked b0 os i x s'"
proof -
  have "fields_apart y x" if "y \<in> pending (ra_ctx s) j" "j < length (labels (ra_ctx s))" for y j
    using code_okD(5) [OF s that(2,1)] x by (simp add: fields_apart_def)
  then show ?thesis using code_ok_grow [OF s _ _ e] i x r by (simp add: linked_def c)
qed

lemma rel32_disp: "rel32 v (x + 4) = Some d \<Longrightarrow> d = disp32 v x"
  by (auto simp: rel32_def disp32_def Let_def split: if_splits)

lemma emit_jmp_field:
  assumes "emit_jmp v b = Some b'"
  shows "\<exists>b1. emit_u8 0xE9 b = Some b1 \<and> emit_u32 (disp32 v (cb_offset b1)) b1 = Some b'"
proof -
  obtain b1 d where b1: "emit_u8 (ucast OPC_JMP_long) b = Some b1" "rel32 v (cb_offset b1 + 4) = Some d" "emit_u32 d b1 = Some b'"
    using assms unfolding emit_jmp_def bind_eq_Some_conv by blast
  have "ucast OPC_JMP_long = (0xE9 :: u8)" by (simp add: opc_defs)
  with b1(1) show ?thesis using b1(3) rel32_disp [OF b1(2)] by auto
qed

definition last_field :: "RA \<Rightarrow> nat" where
  "last_field s = cb_offset (ra_buf s) - 4"

lemma br_links:
  assumes s: "code_ok b0 os s" and i: "o_args op \<noteq> []" "i = unat (o_args op ! 0)"
  shows "wp (regalloc_br op s) (\<lambda>s'. linked b0 os i (last_field s') s')"
proof -
  have old: "linked b0 os i (cb_offset b - 4) (y\<lparr>ra_buf := b\<rparr>)"
    if y: "code_ok b0 os y" and l: "i < length (labels (ra_ctx y))" "l_has_value (labels (ra_ctx y) ! i)"
      and b: "emit_jmp (l_value (labels (ra_ctx y) ! i)) (ra_buf y) = Some b" for y b
  proof -
    obtain b1 where b1: "emit_u8 0xE9 (ra_buf y) = Some b1"
      "emit_u32 (disp32 (l_value (labels (ra_ctx y) ! i)) (cb_offset b1)) b1 = Some b"
      using emit_jmp_field [OF b] by blast
    show ?thesis
      by (rule link_old [OF y l]) (use jump_field [OF code_okD(4) [OF y] b1(1,2)] emit_u32_at [OF b1(2)] in simp_all)
  qed
  have new: "linked b0 os i (cb_offset b2 - 4) (y\<lparr>ra_buf := b2, ra_ctx := (ra_ctx y)\<lparr>labels := (labels (ra_ctx y))[i := add_use (labels (ra_ctx y) ! i) (cb_offset b1) Rel32]\<rparr>\<rparr>)"
    if y: "code_ok b0 os y" and l: "i < length (labels (ra_ctx y))" "\<not> l_has_value (labels (ra_ctx y) ! i)"
      and b: "emit_u8 0xE9 (ra_buf y) = Some b1" "emit_u32 0 b1 = Some b2" for y b1 b2
    by (rule link_new [OF y l]) (use jump_field [OF code_okD(4) [OF y] b] in simp_all)
  have sync: "wp (sync_globals s) (code_ok b0 os)" using confined.keep_sync_globals [OF s] by blast
  let ?Q = "\<lambda>s'. linked b0 os i (last_field s') s'"
  have body: "(l_has_value l \<longrightarrow> wp (with_buf (emit_jmp (l_value l)) y) ?Q) \<and>
      (\<not> l_has_value l \<longrightarrow> wp (with_buf (emit_u8 0xE9) y) (\<lambda>z. wp (with_buf (emit_u32 0) z)
         (\<lambda>w. wp (with_label (o_args op ! 0) (\<lambda>l. add_use l (cb_offset (ra_buf z)) Rel32) w) ?Q)))"
    if y: "code_ok b0 os y" and "label (ra_ctx y) (o_args op ! 0) = Some l" for y l
  proof -
    have l: "i < length (labels (ra_ctx y))" "labels (ra_ctx y) ! i = l" using that(2) i by (simp_all add: label_def)
    show ?thesis
      using l old [OF y l(1)] new [OF y l(1)] i(2)
      by (auto simp: with_buf_def label_ops_defs last_field_def bind_eq_Some_conv intro!: wpI)
  qed
  show ?thesis
    unfolding regalloc_br_def Let_def using i(1) by (auto intro!: wp_mono [OF sync] wpI [of "label c l" for c l] dest!: body)
qed

lemma brcond_links:
  assumes s: "code_ok b0 os s" and op: "o_opc op = OCtl BrCond" and i: "i = unat (collect_cargs op ! Suc 0)"
  shows "wp (regalloc_brcond op ct s) (\<lambda>s'. linked b0 os i (last_field s') s')"
proof -
  let ?Q = "\<lambda>s'. linked b0 os i (last_field s') s'" and ?cs = "collect_cargs op"
  have emit: "wp (emit_host op [] iregs ?cs y) (\<lambda>z. (l_has_value l \<longrightarrow> ?Q z) \<and> (\<not> l_has_value l \<longrightarrow> 4 \<le> cb_offset (ra_buf z) \<longrightarrow>
       wp (with_label (?cs ! Suc 0) (\<lambda>l. add_use l (cb_offset (ra_buf z) - 4) Rel32) z) ?Q))"
    if y: "code_ok b0 os y" and lab: "label (ra_ctx y) (?cs ! Suc 0) = Some l" for y l iregs
  proof (rule wp_host)
    fix g b assume run: "tcg_out_op (ra_gen y) (ra_ctx y) op [] iregs ?cs (ra_buf y) = Some (g, b)"
    note inv = code_okD(4) [OF y]
    have e: "extends (ra_buf y) b" using tcg_out_op_extends [OF inv run] by simp
    have f: "cb_offset (ra_buf y) + 4 \<le> cb_offset b"
      "l_has_value l \<longrightarrow> read_u32 b (cb_offset b - 4) = Some (disp32 (l_value l) (cb_offset b - 4))"
      using brcond_field [OF op run inv] lab by simp_all
    have l: "i < length (labels (ra_ctx y))" "labels (ra_ctx y) ! i = l" using lab i by (simp_all add: label_def)
    let ?z = "y\<lparr>ra_gen := g, ra_buf := b\<rparr>"
    have "?Q ?z" if "l_has_value l"
      unfolding last_field_def by (rule link_old [OF y l(1)]) (use that l e f in simp_all)
    moreover have "wp (with_label (?cs ! Suc 0) (\<lambda>l. add_use l (cb_offset b - 4) Rel32) ?z) ?Q" if "\<not> l_has_value l"
      unfolding label_ops_defs last_field_def i [symmetric]
      by (rule impI, rule link_new [OF y l(1)]) (use that l e f in simp_all)
    ultimately show "(l_has_value l \<longrightarrow> ?Q ?z) \<and> (\<not> l_has_value l \<longrightarrow> 4 \<le> cb_offset (ra_buf ?z) \<longrightarrow>
        wp (with_label (?cs ! Suc 0) (\<lambda>l. add_use l (cb_offset (ra_buf ?z) - 4) Rel32) ?z) ?Q)" by simp
  qed
  have fin: "wp (label (ra_ctx y) (?cs ! Suc 0)) (\<lambda>l. wp (emit_host op [] iregs ?cs y) (\<lambda>z. (l_has_value l \<longrightarrow> ?Q z) \<and>
      (\<not> l_has_value l \<longrightarrow> 4 \<le> cb_offset (ra_buf z) \<longrightarrow>
       wp (with_label (?cs ! Suc 0) (\<lambda>l. add_use l (cb_offset (ra_buf z) - 4) Rel32) z) ?Q)))"
    if "code_ok b0 os y" for y iregs
    by (rule wpI) (rule emit [OF that])
  show ?thesis
    unfolding regalloc_brcond_def Let_def
    using s by (auto intro!: fin confined.keep_each_pair confined.keep_br_input confined.keep_each confined.keep_free_dead confined.keep_dead
        confined.keep_sync_globals)
qed

text \<open>The label of a branch, and whether an op places a label.\<close>

definition branch_label :: "Op \<Rightarrow> nat option" where
  "branch_label op =
     (if o_opc op = OCtl Br then Some (unat (o_args op ! 0))
      else if o_opc op = OCtl BrCond then Some (unat (collect_cargs op ! 1)) else None)"

definition places :: "Op \<Rightarrow> nat \<Rightarrow> bool" where
  "places op i \<longleftrightarrow> o_opc op = OCtl SetLabel \<and> unat (o_args op ! 0) = i"

lemma branch_step:
  assumes "code_ok b0 os s" "branch_label op = Some i"
  shows "wp (ra_step op s) (\<lambda>s'. linked b0 os i (last_field s') s')"
proof (cases "o_opc op = OCtl Br")
  case True
  then have "ra_step op s = regalloc_br op s" by (simp add: ra_step_def)
  moreover have "regalloc_br op s = None" if "o_args op = []" using that by (simp add: regalloc_br_def index_def)
  ultimately show ?thesis using br_links [OF assms(1), of op] assms(2) True by (cases "o_args op = []") (auto simp: branch_label_def)
next
  case False
  then have "o_opc op = OCtl BrCond" "i = unat (collect_cargs op ! Suc 0)" using assms(2) by (simp_all add: branch_label_def split: if_splits)
  then show ?thesis using brcond_links [OF assms(1)] by (simp add: ra_step_def)
qed

lemma place_step:
  assumes "code_ok b0 os s" "places op i"
  shows "wp (ra_step op s) (labelled b0 os True i)"
    "linked b0 os i x s \<Longrightarrow> \<not> l_has_value (labels (ra_ctx s) ! i) \<Longrightarrow> wp (ra_step op s) (linked b0 os i x)"
proof -
  have r: "ra_step op s = regalloc_set_label op s" using assms(2) by (simp add: ra_step_def places_def)
  have n: "regalloc_set_label op s = None" if "o_args op = []" using that by (simp add: regalloc_set_label_def index_def)
  show "wp (ra_step op s) (labelled b0 os True i)"
    using set_label_places [OF assms(1), of op] assms(2) r n by (cases "o_args op = []") (auto simp: places_def)
  show "wp (ra_step op s) (linked b0 os i x)" if "linked b0 os i x s" "\<not> l_has_value (labels (ra_ctx s) ! i)"
    using set_label_links [OF that, of op] assms(2) r n by (cases "o_args op = []") (auto simp: places_def)
qed

text \<open>The pass in pieces.\<close>

lemma pass_split: "k < n \<Longrightarrow> each f [m..<n] s = do { s \<leftarrow> each f [m..<k] s; s \<leftarrow> f k s; each f [Suc k..<n] s }" if "m \<le> k" for f
proof -
  assume k: "k < n"
  then have "[m..<n] = [m..<k] @ [k..<n]" using upt_add_eq_append [OF that, of "n - k"] by simp
  also have "[k..<n] = k # [Suc k..<n]" using k by (rule upt_conv_Cons)
  finally show "each f [m..<n] s = do { s \<leftarrow> each f [m..<k] s; s \<leftarrow> f k s; each f [Suc k..<n] s }"
    by (simp add: each_append)
qed

lemma op_step_ra: "code_ok b0 os s \<Longrightarrow> k < length os \<Longrightarrow> op_step k s = ra_step (os ! k) s"
  by (simp add: op_step_def code_okD(3))

lemma start_facts:
  assumes "ra_start c g b = Some s"
  shows "ra_ctx s = c" "ra_buf s = b" "ra_gen s = g" "regs_ok (ra_state s)"
proof -
  have "wp (init_fixed c i st) regs_ok" if "regs_ok st" for i st
    using that regs_ok_assign unfolding init_fixed_def by (auto split: option.split intro: wp_any)
  then have i: "wp (each (init_fixed c) xs (ra_new ALLOCATABLE_REGS)) regs_ok" for xs
    by (intro wp_each regs_ok_new)
  show "ra_ctx s = c" "ra_buf s = b" "ra_gen s = g" "regs_ok (ra_state s)"
    using assms by (auto simp: ra_start_def bind_eq_Some_conv dest: wpD [OF i])
qed

lemma start_code_ok:
  assumes "ra_start c g b = Some s" "cb_inv b" "\<forall>l \<in> set (labels c). l_uses l = []"
  shows "code_ok b (ops c) s"
  using assms start_facts [OF assms(1)] by (simp add: code_ok_def pending_def)

context code_inv
begin

lemma pass_kept:
  assumes "I s" "each op_step xs s = Some s'" and "\<And>j i. j \<in> set xs \<Longrightarrow> j < length os \<Longrightarrow> \<not> ok i \<Longrightarrow> \<not> places (os ! j) i"
  shows "I s'"
  using wpD [OF keep_pass [OF assms(1)] assms(2)] assms(3) unfolding places_def by blast

lemma step_kept: "I s \<Longrightarrow> op_step k s = Some s' \<Longrightarrow> k < length os \<Longrightarrow> (\<And>i. \<not> ok i \<Longrightarrow> \<not> places (os ! k) i) \<Longrightarrow> I s'"
  by (rule pass_kept [of s "[k]"]) (auto simp: bind_eq_Some_conv)

end

lemma branch_no_place: "branch_label op = Some i \<Longrightarrow> \<not> places op j"
  by (auto simp: branch_label_def places_def split: if_splits)

lemma linked_final:
  assumes "linked b0 os i x s" "labelled b0 os v i s"
    and "if v then \<forall>j. k \<le> j \<and> j < length os \<longrightarrow> \<not> places (os ! j) i
         else \<exists>j. k \<le> j \<and> j < length os \<and> places (os ! j) i \<and> (\<forall>m. m < length os \<and> places (os ! m) i \<longrightarrow> m = j)"
    and "each op_step [k..<length os] s = Some s'"
  shows "linked b0 os i x s' \<and> labelled b0 os True i s'"
proof (cases v)
  case True
  have none: "\<not> places (os ! m) i'" if "m \<in> set [k..<length os]" "m < length os" "\<not> i' \<noteq> i" for m i'
    using assms(3) that unfolding if_P [OF True] by auto
  show ?thesis
    by (intro conjI links.pass_kept [OF assms(1,4)] placed.pass_kept [OF assms(2) [unfolded eqTrueI [OF True]] assms(4)])
      (rule none; assumption)+
next
  case False
  obtain j where j: "k \<le> j" "j < length os" "places (os ! j) i" "\<And>m. m < length os \<Longrightarrow> places (os ! m) i \<Longrightarrow> m = j"
    using assms(3) unfolding if_not_P [OF False] by blast
  obtain s1 s2 where s12: "each op_step [k..<j] s = Some s1" "op_step j s1 = Some s2" "each op_step [Suc j..<length os] s2 = Some s'"
    using assms(4) pass_split [OF j(1,2), of op_step s] by (auto simp: bind_eq_Some_conv)
  have other: "\<not> places (os ! m) i'" if "m < length os" "\<not> i' \<noteq> i" "m \<noteq> j" for m i' using j(4) [of m] that by auto
  have before: "\<not> places (os ! m) i'" if "m \<in> set [k..<j]" "m < length os" "\<not> i' \<noteq> i" for m i'
    by (rule other) (use that in auto)
  have after: "\<not> places (os ! m) i'" if "m \<in> set [Suc j..<length os]" "m < length os" "\<not> i' \<noteq> i" for m i'
    by (rule other) (use that in auto)
  have s1: "linked b0 os i x s1" by (rule links.pass_kept [OF assms(1) s12(1)]) (rule before)
  have "labelled b0 os False i s" using assms(2) False by simp
  then have l1: "labelled b0 os False i s1" by (rule placed.pass_kept [OF _ s12(1)]) (rule before)
  have step: "ra_step (os ! j) s1 = Some s2" using s12(2) op_step_ra [OF linked_ok [OF s1] j(2)] by simp
  have s2: "labelled b0 os True i s2" by (rule wpD [OF place_step(1) [OF linked_ok [OF s1] j(3)] step])
  have l2: "linked b0 os i x s2"
    by (rule wpD [OF place_step(2) [OF linked_ok [OF s1] j(3) s1] step]) (use l1 in \<open>simp add: labelled_def\<close>)
  show ?thesis
    by (intro conjI links.pass_kept [OF l2 s12(3)] placed.pass_kept [OF s2 s12(3)]) (rule after; assumption)+
qed

lemma label_state:
  assumes ok0: "code_ok b0 os s0" and l0: "labelled b0 os False i s0" and run: "each op_step [0..<k] s0 = Some s"
    and k: "k \<le> length os" and j: "j < length os" "places (os ! j) i" "\<forall>m < length os. places (os ! m) i \<longrightarrow> m = j"
  shows "labelled b0 os (j < k) i s"
proof -
  have only: "\<not> places (os ! m) i'" if "m < length os" "\<not> i' \<noteq> i" "m \<noteq> j" for m i' using j(3) that by blast
  show ?thesis
  proof (cases "j < k")
    case True
    obtain t1 t2 where t: "each op_step [0..<j] s0 = Some t1" "op_step j t1 = Some t2" "each op_step [Suc j..<k] t2 = Some s"
      using run pass_split [of 0 j k op_step s0] True by (auto simp: bind_eq_Some_conv)
    have okt: "code_ok b0 os t1" by (rule confined.pass_kept [OF ok0 t(1)]) simp
    have "labelled b0 os True i t2"
      using wpD [OF place_step(1) [OF okt j(2)]] t(2) op_step_ra [OF okt j(1)] by simp
    then have "labelled b0 os True i s" by (rule placed.pass_kept [OF _ t(3)]) (rule only; simp)
    with True show ?thesis by simp
  next
    case False
    have "labelled b0 os False i s" by (rule placed.pass_kept [OF l0 run]) (rule only; use False in auto)
    with False show ?thesis by simp
  qed
qed

text \<open>
  C14: Branches inside a block go to their labels. When the pass over a block with fresh labels
  returns and the label of the branch op \<open>k\<close> is placed by exactly one \<open>set_label\<close> (before or
  after the branch), then in the final code the last four bytes emitted for the branch hold the
  displacement from the end of the branch instruction to the offset recorded for the label.
\<close>

theorem branches_reach_labels:
  assumes "cb_inv b" "\<forall>l \<in> set (labels c). l_uses l = [] \<and> \<not> l_has_value l"
    and "regalloc_and_codegen c g b = Some s'" "k < length (ops c)" "branch_label (ops c ! k) = Some i" "i < length (labels c)"
    and "j < length (ops c)" "places (ops c ! j) i" "\<forall>m < length (ops c). places (ops c ! m) i \<longrightarrow> m = j"
  shows "\<exists>s0 s. ra_start c g b = Some s0 \<and> each op_step [0..<Suc k] s0 = Some s \<and>
    l_has_value (labels (ra_ctx s') ! i) \<and>
    read_u32 (ra_buf s') (last_field s) = Some (disp32 (l_value (labels (ra_ctx s') ! i)) (last_field s))"
proof -
  let ?os = "ops c"
  obtain s0 where s0: "ra_start c g b = Some s0" "each op_step [0..<length ?os] s0 = Some s'"
    using assms(3) by (auto simp: regalloc_and_codegen_def bind_eq_Some_conv)
  have ok0: "code_ok b ?os s0" using start_code_ok [OF s0(1) assms(1)] assms(2) by blast
  have l0: "labelled b ?os False i s0"
    using ok0 start_facts(1) [OF s0(1)] assms(2,6) by (simp add: labelled_def)
  obtain s1 s where s1: "each op_step [0..<k] s0 = Some s1" "op_step k s1 = Some s" "each op_step [Suc k..<length ?os] s = Some s'"
    using s0(2) pass_split [of 0 k "length ?os" op_step s0] assms(4) by (auto simp: bind_eq_Some_conv)
  have ok1: "code_ok b ?os s1" by (rule confined.pass_kept [OF ok0 s1(1)]) simp
  have l: "linked b ?os i (last_field s) s"
    using wpD [OF branch_step [OF ok1 assms(5)]] s1(2) op_step_ra [OF ok1 assms(4)] by simp
  have jk: "j \<noteq> k" using branch_no_place [OF assms(5)] assms(8) by blast
  have run: "each op_step [0..<Suc k] s0 = Some s" using s1(1,2) by (simp add: each_append)
  have "labelled b ?os (j < Suc k) i s" using label_state [OF ok0 l0 run _ assms(7-9)] assms(4) by simp
  then have v: "labelled b ?os (j < k) i s" using jk by (simp add: less_Suc_eq)
  have "if j < k then \<forall>m. Suc k \<le> m \<and> m < length ?os \<longrightarrow> \<not> places (?os ! m) i
      else \<exists>j. Suc k \<le> j \<and> j < length ?os \<and> places (?os ! j) i \<and> (\<forall>m. m < length ?os \<and> places (?os ! m) i \<longrightarrow> m = j)"
  proof (cases "j < k")
    case True
    have "\<not> places (?os ! m) i" if "Suc k \<le> m" "m < length ?os" for m
      using spec [OF assms(9), of m] that True by linarith
    with True show ?thesis by simp
  next
    case False
    then have "Suc k \<le> j" using jk by simp
    then show ?thesis unfolding if_not_P [OF False] using assms(7-9) by blast
  qed
  from linked_final [OF l v this s1(3)]
  have "l_has_value (labels (ra_ctx s') ! i)"
    "read_u32 (ra_buf s') (last_field s) = Some (disp32 (l_value (labels (ra_ctx s') ! i)) (last_field s))"
    by (simp_all add: linked_def labelled_def)
  with s0(1) run show ?thesis by blast
qed

end
