(* ===== verification/Pipeline.thy ===== *)
theory Pipeline
  imports Branches
begin

text \<open>
  Properties of the translation pipeline \<open>optimize; liveness; register allocation and code
  generation\<close> as a whole.
\<close>

section \<open>The middle end leaves the labels alone\<close>

lemma new_const_labels: "run_state (new_const ty v) c = (k, c') \<Longrightarrow> labels c' = labels c"
  by (auto simp: new_const_def Let_def split: option.splits)

lemma replace_labels:
  "labels (fst (replace_with_const d v ty s)) = labels (fst s)" "labels (fst (replace_with_mov d x s)) = labels (fst s)"
  by (auto simp: replace_with_const_def replace_with_mov_def Let_def split: prod.splits dest: new_const_labels)

lemma fold_labels:
  "labels (fst (fold_mov args ty s)) = labels (fst s)" "labels (fst (fold_brcond args ty s)) = labels (fst s)"
  "labels (fst (fold_ext y args s)) = labels (fst s)" "fold_unary opc args ty s = Some s' \<Longrightarrow> labels (fst s') = labels (fst s)"
  by (auto simp: fold_mov_def fold_brcond_def fold_ext_def fold_unary_def Let_def replace_labels bind_eq_Some_conv
      split: prod.splits if_splits)

lemma simplify_labels: "try_simplify opc d x y ai bi ty s = Some s' \<Longrightarrow> labels (fst s') = labels (fst s)"
  unfolding try_simplify_def simplify_right_def simplify_left_def Let_def
  by (simp only: split: if_splits) (auto simp: replace_labels split: prod.splits)

lemma fold_binary_labels: "labels (fst (fold_binary opc args ty s)) = labels (fst s)"
proof -
  obtain c info op where s: "s = (c, info, op)" by (cases s)
  let ?x = "args ! 1" and ?y = "args ! 2"
  let ?f = "if ti_is_const (ti info ?x) \<and> ti_is_const (ti info ?y)
    then eval_binary opc (ti_val (ti info ?x) AND type_mask ty) (ti_val (ti info ?y) AND type_mask ty) ty else None"
  let ?r = "try_simplify opc (args ! 0) ?x ?y (ti info ?x) (ti info ?y) ty s"
  show ?thesis
    using simplify_labels [of opc "args ! 0" ?x ?y "ti info ?x" "ti info ?y" ty s]
    by (cases "?f"; cases ?r; simp only: fold_binary_def s prod.case Let_def option.case replace_labels)
      (simp add: replace_labels)
qed

lemma optimize_op_labels: "wp (optimize_op s) (\<lambda>s'. labels (fst s') = labels (fst s))"
  unfolding optimize_op_def fold_op_def Let_def
  by (auto simp: fold_labels fold_binary_labels split: prod.splits Opcode.Opcode.splits
      intro: wpI [of "Some x" for x] wp_any dest: fold_labels(4) intro!: wpI [of "fold_unary o' as ty s'" for o' as ty s'])

lemma optimize_labels:
  assumes "optimize c = Some c'"
  shows "labels c' = labels c"
proof -
  have "labels (fst s') = labels (fst s)" if "optimize_at oi s = Some s'" for oi s s'
    using that wpD [OF optimize_op_labels]
    by (auto simp: optimize_at_def set_op_def bind_eq_Some_conv split: prod.splits if_splits)
  then have "optimize_loop xs s = Some s' \<Longrightarrow> labels (fst s') = labels (fst s)" for xs s s'
    by (induction xs arbitrary: s) (auto simp: bind_eq_Some_conv)
  then show ?thesis using assms by (force simp: optimize_def bind_eq_Some_conv)
qed

lemma liveness_labels:
  assumes "liveness_analysis c = Some c'"
  shows "labels c' = labels c"
proof -
  have "labels (fst s') = labels (fst s)" if "live_at g oi s = Some s'" for g oi s s'
    using that by (auto simp: live_at_def set_op_def bind_eq_Some_conv split: prod.splits option.splits if_splits)
  then have "live_loop g xs s = Some s' \<Longrightarrow> labels (fst s') = labels (fst s)" for g xs s s'
    by (induction xs arbitrary: s) (auto simp: bind_eq_Some_conv)
  then show ?thesis using assms by (force simp: liveness_analysis_def bind_eq_Some_conv Let_def)
qed

section \<open>Properties\<close>

text \<open>
  C16: The allocator's books stay consistent. After every prefix of the pass the allocator knows
  sixteen registers, only allocatable registers are in the free set, and an allocatable register
  is in it exactly when no temp occupies it.
\<close>

theorem allocator_books:
  assumes "ra_start c g b = Some s0" "k \<le> length (ops c)" "each op_step [0..<k] s0 = Some s"
  shows "length (reg_to_temp (ra_state s)) = 16 \<and> allocatable (ra_state s) = ALLOCATABLE_REGS \<and>
    regs_of (free_regs (ra_state s)) = {r \<in> regs_of ALLOCATABLE_REGS. reg_to_temp (ra_state s) ! unat r = None}"
proof -
  have "books_ok (ops c) s0" using start_facts [OF assms(1)] by (simp add: books_ok_def)
  then have "books_ok (ops c) s" using wpD [OF bookkeeping.keep_pass assms(3)] by blast
  then show ?thesis by (auto simp: books_ok_def regs_ok_def)
qed

lemma translate_code:
  assumes "cb_inv b" "\<forall>l \<in> set (labels c). l_uses l = []" "translate c g b = Some (start, c', g', b')"
  shows "start = cb_offset b" "extends b b'"
proof -
  obtain c1 c2 s where t: "optimize c = Some c1" "liveness_analysis c1 = Some c2" "regalloc_and_codegen c2 g b = Some s"
    "start = cb_offset b" "b' = ra_buf s"
    using assms(3) by (auto simp: translate_def bind_eq_Some_conv)
  have "labels c2 = labels c" using optimize_labels [OF t(1)] liveness_labels [OF t(2)] by simp
  moreover obtain s0 where s0: "ra_start c2 g b = Some s0" "each op_step [0..<length (ops c2)] s0 = Some s"
    using t(3) by (auto simp: regalloc_and_codegen_def bind_eq_Some_conv)
  ultimately have "code_ok b (ops c2) s0" using start_code_ok [OF s0(1) assms(1)] assms(2) by simp
  then have "code_ok b (ops c2) s" by (rule confined.pass_kept [OF _ s0(2)]) simp
  then show "start = cb_offset b" "extends b b'" using t by (simp_all add: code_ok_def)
qed

text \<open>
  C15: Translating a block only adds code. When the translation of a context whose labels are
  fresh returns, the block's start is the old end of the code, everything before it is unchanged,
  the buffer has the same capacity and its cursor is inside it.
\<close>

theorem translate_confined:
  assumes "cb_inv b" "\<forall>l \<in> set (labels c). l_uses l = []" "translate c g b = Some (start, c', g', b')"
  shows "start = cb_offset b \<and> cb_inv b' \<and> capacity b' = capacity b \<and> cb_offset b \<le> cb_offset b' \<and>
    take start (as_slice b') = as_slice b"
proof -
  note t = translate_code [OF assms]
  obtain bs where "as_slice b' = as_slice b @ bs" using t(2) by (auto simp: extends_def)
  moreover have "length (as_slice b) = cb_offset b" using assms(1) by (simp add: as_slice_def cb_inv_def capacity_def)
  ultimately show ?thesis using t extends_offset [OF t(2) assms(1)] by (simp add: extends_def)
qed

definition demo_op :: "Opcode \<Rightarrow> tempidx list \<Rightarrow> Op" where
  "demo_op opc as = (op_new 0 opc I64)\<lparr>o_args := as @ replicate (10 - length as) 0\<rparr>"

definition demo_block :: Context where
  "demo_block = context_new\<lparr>labels := [label_new 0], ops := [demo_op (OCtl Br) [0], (demo_op (OCtl SetLabel) [0])\<lparr>o_idx := 1\<rparr>]\<rparr>"

definition demo_buf :: CodeBuffer where
  "demo_buf = \<lparr>cb_mem = replicate 8 0, cb_offset = 1\<rparr>"

definition code_of :: "RA option \<Rightarrow> u8 list option" where
  "code_of x = map_option (\<lambda>s. cb_mem (ra_buf s)) x"

lemma demo_run: "code_of (regalloc_and_codegen demo_block codegen_new demo_buf) = Some [0, 0xE9, 0, 0, 0, 0, 0, 0]"
  by code_simp

lemma demo_translate:
  "map_option (\<lambda>(start, c, g, b). (start, cb_mem b)) (translate demo_block codegen_new demo_buf) = Some (1, [0, 0xE9, 0, 0, 0, 0, 0, 0])"
  by code_simp

lemma demo_fresh: "cb_inv demo_buf" "\<forall>l \<in> set (labels demo_block). l_uses l = [] \<and> \<not> l_has_value l"
  by (simp_all add: cb_inv_def capacity_def demo_buf_def demo_block_def label_new_def)

theorem allocator_books_witness:
  "\<exists>s0 s. ra_start demo_block codegen_new demo_buf = Some s0 \<and> each op_step [0..<2] s0 = Some s \<and>
     length (reg_to_temp (ra_state s)) = 16"
proof -
  obtain s where "regalloc_and_codegen demo_block codegen_new demo_buf = Some s" using demo_run by (auto simp: code_of_def)
  moreover have "length (ops demo_block) = 2" by (simp add: demo_block_def)
  ultimately obtain s0 where "ra_start demo_block codegen_new demo_buf = Some s0" "each op_step [0..<2] s0 = Some s"
    by (auto simp: regalloc_and_codegen_def bind_eq_Some_conv)
  with allocator_books [of demo_block codegen_new demo_buf s0 2 s] \<open>length (ops demo_block) = 2\<close> show ?thesis by auto
qed

theorem translate_confined_witness:
  "\<exists>c' g' b'. translate demo_block codegen_new demo_buf = Some (1, c', g', b') \<and> cb_inv b' \<and> take 1 (as_slice b') = [0]"
proof -
  obtain st c' g' b' where t: "translate demo_block codegen_new demo_buf = Some (st, c', g', b')" "st = 1"
    using demo_translate by auto
  have "as_slice demo_buf = [0]" by (simp add: as_slice_def demo_buf_def)
  with translate_confined [OF demo_fresh(1) _ t(1)] t demo_fresh(2) show ?thesis by auto
qed

theorem branches_reach_labels_witness:
  "\<exists>s0 s s'. ra_start demo_block codegen_new demo_buf = Some s0 \<and> each op_step [0..<Suc 0] s0 = Some s \<and>
     regalloc_and_codegen demo_block codegen_new demo_buf = Some s' \<and>
     read_u32 (ra_buf s') (last_field s) = Some (disp32 (l_value (labels (ra_ctx s') ! 0)) (last_field s))"
proof -
  obtain s' where run: "regalloc_and_codegen demo_block codegen_new demo_buf = Some s'" using demo_run by (auto simp: code_of_def)
  have o: "length (ops demo_block) = 2" "ops demo_block ! 0 = demo_op (OCtl Br) [0]" "ops demo_block ! Suc 0 = (demo_op (OCtl SetLabel) [0])\<lparr>o_idx := 1\<rparr>"
    "length (labels demo_block) = 1"
    by (simp_all add: demo_block_def)
  have p: "branch_label (ops demo_block ! 0) = Some 0" "places (ops demo_block ! 1) 0" "\<not> places (ops demo_block ! 0) 0"
    by (simp_all add: o branch_label_def places_def demo_op_def op_new_def)
  then have "\<forall>m < length (ops demo_block). places (ops demo_block ! m) 0 \<longrightarrow> m = 1" by (simp add: o less_2_cases_iff)
  from branches_reach_labels [OF demo_fresh run _ p(1) _ _ p(2) this] run show ?thesis by (auto simp: o)
qed

text \<open>Two moves into one local temp, then its first register is evicted.\<close>

definition stale_block :: Context where
  "stale_block = set_frame 4 0 64 (context_new\<lparr>
     temps := [temp_new_const 0 I64 5, temp_new_const 1 I64 7, temp_new_ebb 2 I64],
     ops := [demo_op (OMov Mov) [2, 0], (demo_op (OMov Mov) [2, 1])\<lparr>o_idx := 1\<rparr>]\<rparr>)"

definition stale_run :: "RA option" where
  "stale_run = regalloc_and_codegen stale_block codegen_new \<lparr>cb_mem = replicate 32 0, cb_offset = 0\<rparr>"

text \<open>
  A rewritten temp leaves its old register behind. After two moves into the same local temp the
  temp is in RBX, but RCX, its register after the first move, is still recorded as its register and
  not free. Evicting RCX stores RCX, the old value, into the temp's stack slot and marks the temp as
  being in memory: the value of the second move is lost.
\<close>

lemma stale_register_spilled:
  "map_option (\<lambda>s. (map_option t_reg (temp (ra_ctx s) 2), reg_to_temp (ra_state s) ! 1, reg_to_temp (ra_state s) ! 3)) stale_run =
     Some (Some (Some 3), Some 2, Some 2) \<and>
   map_option (\<lambda>s. (map_option (\<lambda>t. (t_val_type t, t_mem_offset t)) (temp (ra_ctx s) 2), drop 16 (as_slice (ra_buf s))))
     (stale_run \<bind> evict_reg 1) =
     Some (Some (Mem, 0), [0x48, 0x89, 0x0C, 0x24])"
  by code_simp

end
