(* ===== verification/ExecLoop.thy ===== *)
theory ExecLoop
  imports Pipeline TbStore
begin

text \<open>
  The execution loop (\<open>exec/src/exec_loop.rs\<close>) and its state (\<open>exec/src/lib.rs\<close>): finding
  or translating the block for a guest address, running it, and chaining blocks. One vCPU runs
  the loop; the mutexes around the translation and the jump lists are held by the functions that
  take them. The guest CPU (the trait \<open>GuestCpu\<close>) is a record of functions; running host code
  is a parameter. A panic, and a loop that never returns, is \<open>None\<close>.
\<close>

section \<open>State\<close>

record ExecStats =
  loop_iters :: u64
  jc_hit :: u64
  ht_hit :: u64
  st_translate :: u64
  chain_exit :: "u64 list"
  nochain_exit :: u64
  real_exit :: u64
  chain_patched :: u64
  chain_already :: u64
  hint_used :: u64

definition stats_default :: ExecStats where
  "stats_default = \<lparr>loop_iters = 0, jc_hit = 0, ht_hit = 0, st_translate = 0, chain_exit = [0, 0], nochain_exit = 0,
     real_exit = 0, chain_patched = 0, chain_already = 0, hint_used = 0\<rparr>"

record 'cpu GuestCpu =
  get_pc :: "'cpu \<Rightarrow> u64"
  get_flags :: "'cpu \<Rightarrow> u32"
  gen_code :: "Context \<Rightarrow> u64 \<Rightarrow> u32 \<Rightarrow> 'cpu \<Rightarrow> (u32 \<times> Context \<times> 'cpu) option"

record SharedState =
  tb_store :: TbStore
  code_buf :: CodeBuffer
  backend :: X86_64CodeGen
  code_gen_start :: nat
  ir_ctx :: Context

record PerCpuState =
  jump_cache :: JumpCache
  stats :: ExecStats

definition MIN_CODE_BUF_REMAINING :: nat where
  "MIN_CODE_BUF_REMAINING = 4096"

record 'cpu ExecEnv =
  shared :: SharedState
  per_cpu :: PerCpuState
  cpu :: 'cpu

text \<open>\<open>ExecEnv::new\<close>, with the code buffer that \<open>CodeBuffer::new\<close> returned.\<close>

definition exec_env_new :: "X86_64CodeGen \<Rightarrow> CodeBuffer \<Rightarrow> (SharedState \<times> PerCpuState) option" where
  "exec_env_new g b = do {
     (g, b) \<leftarrow> emit_prologue g b;
     (g, b) \<leftarrow> emit_epilogue g b;
     c \<leftarrow> Some (init_context context_new);
     Some (\<lparr>tb_store = ts_new, code_buf = b, backend = g, code_gen_start = cb_offset b, ir_ctx = c\<rparr>,
           \<lparr>jump_cache = jc_new, stats = stats_default\<rparr>) }"

definition count :: "(ExecStats \<Rightarrow> ExecStats) \<Rightarrow> 'cpu ExecEnv \<Rightarrow> 'cpu ExecEnv" where
  "count f e = e\<lparr>per_cpu := (per_cpu e)\<lparr>stats := f (stats (per_cpu e))\<rparr>\<rparr>"

definition cache_block :: "u64 \<Rightarrow> nat \<Rightarrow> 'cpu ExecEnv \<Rightarrow> 'cpu ExecEnv" where
  "cache_block pc i e = e\<lparr>per_cpu := (per_cpu e)\<lparr>jump_cache := jc_insert pc i (jump_cache (per_cpu e))\<rparr>\<rparr>"

definition set_store :: "TbStore \<Rightarrow> 'cpu ExecEnv \<Rightarrow> 'cpu ExecEnv" where
  "set_store st e = e\<lparr>shared := (shared e)\<lparr>tb_store := st\<rparr>\<rparr>"

section \<open>Translating a block\<close>

text \<open>The jump sites and reset addresses of the first two \<open>goto_tb\<close> of the block.\<close>

fun set_jmp_offsets :: "nat \<Rightarrow> (nat \<times> nat) list \<Rightarrow> TranslationBlock \<Rightarrow> TranslationBlock option" where
  "set_jmp_offsets i [] tb = Some tb"
| "set_jmp_offsets i ((j, r) # os) tb = do {
     tb \<leftarrow> set_jmp_insn_offset i (of_nat j) tb;
     tb \<leftarrow> set_jmp_reset_offset i (of_nat r) tb;
     set_jmp_offsets (Suc i) os tb }"

definition tb_gen_code :: "'cpu GuestCpu \<Rightarrow> u64 \<Rightarrow> u32 \<Rightarrow> 'cpu ExecEnv \<Rightarrow> (nat option \<times> 'cpu ExecEnv) option" where
  "tb_gen_code G pc flags e =
     (if remaining (code_buf (shared e)) < MIN_CODE_BUF_REMAINING then Some (None, e)
      else do {
        hit \<leftarrow> ts_lookup (tb_store (shared e)) pc flags;
        case hit of
          Some idx \<Rightarrow> Some (Some idx, cache_block pc idx e)
        | None \<Rightarrow> do {
            (tb_idx, st) \<leftarrow> ts_alloc pc flags 0 (tb_store (shared e));
            let c = (reset (ir_ctx (shared e)))\<lparr>tb_idx := of_nat tb_idx\<rparr>;
            (guest_size, c, cp) \<leftarrow> gen_code G c pc (max_insns 0) (cpu e);
            st \<leftarrow> ts_modify tb_idx (\<lambda>tb. tb\<lparr>tb_size := guest_size\<rparr>) st;
            (off, c, g, b) \<leftarrow> translate c (clear_goto_tb_offsets (backend (shared e))) (code_buf (shared e));
            st \<leftarrow> ts_modify tb_idx (\<lambda>tb. tb\<lparr>host_offset := off, host_size := cb_offset b - off\<rparr>) st;
            tb \<leftarrow> ts_get st tb_idx;
            tb \<leftarrow> set_jmp_offsets 0 (take 2 (goto_tb_offsets g)) tb;
            st \<leftarrow> ts_modify tb_idx (\<lambda>_. tb) st;
            st \<leftarrow> ts_insert tb_idx st;
            Some (Some tb_idx, cache_block pc tb_idx
              (e\<lparr>shared := (shared e)\<lparr>tb_store := st, code_buf := b, backend := g, ir_ctx := c\<rparr>, cpu := cp\<rparr>)) } })"

definition tb_find :: "'cpu GuestCpu \<Rightarrow> u64 \<Rightarrow> u32 \<Rightarrow> 'cpu ExecEnv \<Rightarrow> (nat option \<times> 'cpu ExecEnv) option" where
  "tb_find G pc flags e = do {
     fast \<leftarrow> (case jc_lookup (jump_cache (per_cpu e)) pc of
        None \<Rightarrow> Some None
      | Some idx \<Rightarrow> do {
          tb \<leftarrow> ts_get (tb_store (shared e)) idx;
          Some (if tb_matches pc flags tb then Some idx else None) });
     case fast of
       Some idx \<Rightarrow> Some (Some idx, count (\<lambda>s. s\<lparr>jc_hit := jc_hit s + 1\<rparr>) e)
     | None \<Rightarrow> do {
         hit \<leftarrow> ts_lookup (tb_store (shared e)) pc flags;
         case hit of
           Some idx \<Rightarrow> Some (Some idx, count (\<lambda>s. s\<lparr>ht_hit := ht_hit s + 1\<rparr>) (cache_block pc idx e))
         | None \<Rightarrow> tb_gen_code G pc flags (count (\<lambda>s. s\<lparr>st_translate := st_translate s + 1\<rparr>) e) } }"

section \<open>Chaining\<close>

definition tb_add_jump :: "nat \<Rightarrow> nat \<Rightarrow> nat \<Rightarrow> 'cpu ExecEnv \<Rightarrow> 'cpu ExecEnv option" where
  "tb_add_jump src slot dst e = do {
     let st = tb_store (shared e);
     src_tb \<leftarrow> ts_get st src;
     jmp_off \<leftarrow> index (jmp_insn_offset src_tb) slot;
     case jmp_off of
       None \<Rightarrow> Some e
     | Some off \<Rightarrow> do {
         dst_tb \<leftarrow> ts_get st dst;
         if invalid dst_tb then Some e
         else do {
           cur \<leftarrow> index (jmp_dest (jmp src_tb)) slot;
           if cur = Some dst then Some (count (\<lambda>s. s\<lparr>chain_already := chain_already s + 1\<rparr>) e)
           else do {
             b \<leftarrow> patch_jump (code_buf (shared e)) (unat off) (host_offset dst_tb);
             st \<leftarrow> ts_modify src (set_jmp_dest slot (Some dst)) st;
             st \<leftarrow> ts_modify dst (\<lambda>tb. set_jmp_list (jmp_list (jmp tb) @ [(src, slot)]) tb) st;
             Some (count (\<lambda>s. s\<lparr>chain_patched := chain_patched s + 1\<rparr>)
               (e\<lparr>shared := (shared e)\<lparr>tb_store := st, code_buf := b\<rparr>\<rparr>)) } } } }"

section \<open>The loop\<close>

type_synonym 'cpu host_run = "CodeBuffer \<Rightarrow> nat \<Rightarrow> 'cpu \<Rightarrow> u64 \<times> 'cpu"

definition cpu_tb_exec :: "'cpu host_run \<Rightarrow> nat \<Rightarrow> 'cpu ExecEnv \<Rightarrow> (u64 \<times> 'cpu ExecEnv) option" where
  "cpu_tb_exec run i e = do {
     tb \<leftarrow> ts_get (tb_store (shared e)) i;
     p \<leftarrow> ptr_at (code_buf (shared e)) (host_offset tb);
     let (r, cp) = run (code_buf (shared e)) p (cpu e);
     Some (r, e\<lparr>cpu := cp\<rparr>) }"

datatype ExitReason = Exit u64 | BufferFull

text \<open>What one iteration ends with: the hint for the next one, or the reason to return.\<close>

datatype outcome = Again "nat option" | Done ExitReason

text \<open>\<open>tb_find\<close> at the guest's current address; when the buffer is full the loop returns.\<close>

definition find_next :: "'cpu GuestCpu \<Rightarrow> 'cpu ExecEnv \<Rightarrow> (nat option \<times> 'cpu ExecEnv) option" where
  "find_next G e = tb_find G (get_pc G (cpu e)) (get_flags G (cpu e)) e"

definition pick_block :: "'cpu GuestCpu \<Rightarrow> nat option \<Rightarrow> 'cpu ExecEnv \<Rightarrow> (nat option \<times> 'cpu ExecEnv) option" where
  "pick_block G hint e =
     (case hint of
        Some idx \<Rightarrow> Some (Some idx, count (\<lambda>s. s\<lparr>hint_used := hint_used s + 1\<rparr>) e)
      | None \<Rightarrow> find_next G e)"

definition chain_to_next :: "'cpu GuestCpu \<Rightarrow> nat \<Rightarrow> nat \<Rightarrow> 'cpu ExecEnv \<Rightarrow> (outcome \<times> 'cpu ExecEnv) option" where
  "chain_to_next G src slot e = do {
     e \<leftarrow> Some (count (\<lambda>s. s\<lparr>chain_exit := (chain_exit s)[slot := chain_exit s ! slot + 1]\<rparr>) e);
     (dst, e) \<leftarrow> find_next G e;
     case dst of
       None \<Rightarrow> Some (Done BufferFull, e)
     | Some d \<Rightarrow> do { e \<leftarrow> tb_add_jump src slot d e; Some (Again (Some d), e) } }"

definition indirect_next :: "'cpu GuestCpu \<Rightarrow> nat \<Rightarrow> 'cpu ExecEnv \<Rightarrow> (outcome \<times> 'cpu ExecEnv) option" where
  "indirect_next G src e = do {
     e \<leftarrow> Some (count (\<lambda>s. s\<lparr>nochain_exit := nochain_exit s + 1\<rparr>) e);
     stb \<leftarrow> ts_get (tb_store (shared e)) src;
     let cached = exit_target stb;
     fast \<leftarrow> (if cached \<noteq> EXIT_TARGET_NONE then do {
                tb \<leftarrow> ts_get (tb_store (shared e)) cached;
                Some (tb_matches (get_pc G (cpu e)) (get_flags G (cpu e)) tb) }
              else Some False);
     if fast then Some (Again (Some cached), e)
     else do {
       (dst, e) \<leftarrow> find_next G e;
       case dst of
         None \<Rightarrow> Some (Done BufferFull, e)
       | Some d \<Rightarrow> do {
           st \<leftarrow> ts_modify src (\<lambda>tb. tb\<lparr>exit_target := d\<rparr>) (tb_store (shared e));
           Some (Again (Some d), set_store st e) } } }"

definition loop_step :: "'cpu GuestCpu \<Rightarrow> 'cpu host_run \<Rightarrow> nat option \<Rightarrow> 'cpu ExecEnv \<Rightarrow> (outcome \<times> 'cpu ExecEnv) option" where
  "loop_step G run hint e = do {
     (blk, e) \<leftarrow> pick_block G hint (count (\<lambda>s. s\<lparr>loop_iters := loop_iters s + 1\<rparr>) e);
     case blk of
       None \<Rightarrow> Some (Done BufferFull, e)
     | Some i \<Rightarrow> do {
         (raw_exit, e) \<leftarrow> cpu_tb_exec run i e;
         let (last_tb, exit_code) = decode_tb_exit raw_exit;
         let src = (case last_tb of Some t \<Rightarrow> t | None \<Rightarrow> i);
         if exit_code \<le> 1 then chain_to_next G src (unat exit_code) e
         else if exit_code = TB_EXIT_NOCHAIN then indirect_next G src e
         else Some (Done (Exit exit_code), count (\<lambda>s. s\<lparr>real_exit := real_exit s + 1\<rparr>) e) } }"

partial_function (option) exec_from ::
    "'cpu GuestCpu \<Rightarrow> 'cpu host_run \<Rightarrow> nat option \<Rightarrow> 'cpu ExecEnv \<Rightarrow> (ExitReason \<times> 'cpu ExecEnv) option" where
  "exec_from G run hint e = do {
     (o', e) \<leftarrow> loop_step G run hint e;
     case o' of
       Done r \<Rightarrow> Some (r, e)
     | Again h \<Rightarrow> exec_from G run h e }"

definition cpu_exec_loop_mt :: "'cpu GuestCpu \<Rightarrow> 'cpu host_run \<Rightarrow> 'cpu ExecEnv \<Rightarrow> (ExitReason \<times> 'cpu ExecEnv) option" where
  "cpu_exec_loop_mt G run e = exec_from G run None e"

end
