(* ===== verification/Riscv.thy ===== *)
theory Riscv
  imports Riscv_Trans Decode ExecLoop
begin

text \<open>
  The RISC-V translator (\<open>frontend/src/riscv/mod.rs\<close>), the generated decoders it calls
  (\<open>insn_decode.rs\<close>), and the guest CPU of the user-mode emulator (\<open>LinuxCpu\<close> in
  \<open>linux-user/src/main.rs\<close>). The decoders are the code the generator of \<open>decode/src/lib.rs\<close> emits for
  the parsed decode files \<open>ps32\<close> and \<open>ps16\<close>.
\<close>

record Program =
  helpers :: "fpu_helper \<Rightarrow> u64"
  ps32 :: Parsed
  ps16 :: Parsed
  host_memory :: host_mem

definition call_trans :: "decoded option \<Rightarrow> (string \<Rightarrow> (string \<times> i64) list \<Rightarrow> trans option) \<Rightarrow> RiscvDisasContext \<Rightarrow> trans" where
  "call_trans x call d ir = do {
     r \<leftarrow> x;
     case r of
       NoMatch \<Rightarrow> Some (False, d, ir)
     | CallTrans name args \<Rightarrow> do { f \<leftarrow> call name args; f ir } }"

definition decode32 :: "Program \<Rightarrow> RiscvDisasContext \<Rightarrow> u32 \<Rightarrow> trans" where
  "decode32 P d insn =
     call_trans (generated_decoder 32 (ps32 P) insn) (\<lambda>n args. map_of (decode_call (helpers P) d (field_value args)) n) d"

definition decode16 :: "Program \<Rightarrow> RiscvDisasContext \<Rightarrow> u16 \<Rightarrow> trans" where
  "decode16 P d insn =
     call_trans (generated_decoder 16 (ps16 P) (ucast insn)) (\<lambda>n args. map_of (decode16_call (helpers P) d (field_value args)) n) d"

section \<open>The translator\<close>

primrec register_gprs :: "nat \<Rightarrow> RiscvDisasContext \<Rightarrow> Context \<Rightarrow> (RiscvDisasContext \<times> Context) option" where
  "register_gprs 0 d ir = Some (d, ir)"
| "register_gprs (Suc i) d ir = do {
     (d, ir) \<leftarrow> register_gprs i d ir;
     (t, ir) \<leftarrow> new_global I64 (d_env d) (gpr_offset i) ''gpr'' ir;
     g \<leftarrow> index_set (d_gpr d) i t;
     Some (d\<lparr>d_gpr := g\<rparr>, ir) }"

definition rv_init_disas_context :: "RiscvDisasContext \<Rightarrow> Context \<Rightarrow> (RiscvDisasContext \<times> Context) option" where
  "rv_init_disas_context d ir = do {
     (t, ir) \<leftarrow> new_fixed I64 5 ''env'' ir;
     (d, ir) \<leftarrow> register_gprs NUM_GPRS (d\<lparr>d_env := t\<rparr>) ir;
     (t, ir) \<leftarrow> new_global I64 (d_env d) PC_OFFSET ''pc'' ir;
     d \<leftarrow> Some (d\<lparr>d_pc := t\<rparr>);
     (t, ir) \<leftarrow> new_global I64 (d_env d) LOAD_RES_OFFSET ''load_res'' ir;
     d \<leftarrow> Some (d\<lparr>d_load_res := t\<rparr>);
     (t, ir) \<leftarrow> new_global I64 (d_env d) LOAD_VAL_OFFSET ''load_val'' ir;
     Some (d\<lparr>d_load_val := t\<rparr>, ir) }"

definition rv_insn_start :: "RiscvDisasContext \<Rightarrow> Context \<Rightarrow> (RiscvDisasContext \<times> Context) option" where
  "rv_insn_start d ir = do {
     (_, ir) \<leftarrow> emit (gen_insn_start (pc_next (d_base d))) ir;
     Some (set_base (\<lambda>b. b\<lparr>num_insns := num_insns b + 1\<rparr>) d, ir) }"

text \<open>An instruction that no decoder takes sets the guest's pc to it and leaves with \<open>EXCP_UNDEF\<close>.\<close>

definition gen_undef :: "RiscvDisasContext \<Rightarrow> Context \<Rightarrow> (RiscvDisasContext \<times> Context) option" where
  "gen_undef d ir = do {
     (c, ir) \<leftarrow> emit (new_const I64 (pc_next (d_base d))) ir;
     (_, ir) \<leftarrow> emit (gen_mov I64 (d_pc d) c) ir;
     (_, ir) \<leftarrow> emit (gen_exit_tb EXCP_UNDEF) ir;
     Some (end_block d, ir) }"

definition rv_decode :: "Program \<Rightarrow> RiscvDisasContext \<Rightarrow> trans" where
  "rv_decode P d ir =
     (let half = fetch_insn16 (host_memory P) d
      in if half AND 3 \<noteq> 3 then
           (if \<not> misa_contains (misa (d_cfg d)) MISA_C then Some (False, d, ir)
            else decode16 P (d\<lparr>d_opcode := ucast half, d_cur_insn_len := 2\<rparr>) half ir)
         else
           (let insn = fetch_insn32 (host_memory P) d
            in decode32 P (d\<lparr>d_opcode := insn, d_cur_insn_len := 4\<rparr>) insn ir))"

definition rv_translate_insn :: "Program \<Rightarrow> RiscvDisasContext \<Rightarrow> Context \<Rightarrow> (RiscvDisasContext \<times> Context) option" where
  "rv_translate_insn P d ir = do {
     (decoded, d, ir) \<leftarrow> rv_decode P d ir;
     (d, ir) \<leftarrow> (if \<not> decoded then gen_undef d ir else Some (d, ir));
     Some (set_base (\<lambda>b. b\<lparr>pc_next := pc_next b + ucast (d_cur_insn_len d)\<rparr>) d, ir) }"

definition rv_tb_stop :: "RiscvDisasContext \<Rightarrow> Context \<Rightarrow> (RiscvDisasContext \<times> Context) option" where
  "rv_tb_stop d ir =
     (case is_jmp (d_base d) of
        NoReturn \<Rightarrow> Some (d, ir)
      | _ \<Rightarrow> do {
          (c, ir) \<leftarrow> emit (new_const I64 (pc_next (d_base d))) ir;
          (_, ir) \<leftarrow> emit (gen_mov I64 (d_pc d) c) ir;
          (_, ir) \<leftarrow> emit (gen_goto_tb 0) ir;
          (_, ir) \<leftarrow> emit (gen_exit_tb TB_EXIT_IDX0) ir;
          Some (d, ir) })"

definition RiscvTranslator :: "Program \<Rightarrow> RiscvDisasContext TranslatorOps" where
  "RiscvTranslator P = \<lparr>init_disas_context = rv_init_disas_context, tb_start = (\<lambda>d ir. Some (d, ir)),
     insn_start = rv_insn_start, translate_insn = rv_translate_insn P, tb_stop = rv_tb_stop,
     base = d_base, base_mut = set_base\<rparr>"

section \<open>The guest CPU of the user-mode emulator\<close>

record LinuxCpu =
  l_cpu :: RiscvCpu
  l_cfg :: RiscvCfg

text \<open>The context with the temps of the globals that an earlier block registered.\<close>

definition known_globals :: "RiscvDisasContext \<Rightarrow> RiscvDisasContext" where
  "known_globals d = d\<lparr>d_env := 0, d_gpr := map (\<lambda>i. 1 + of_nat i) [0..<NUM_GPRS], d_pc := 1 + of_nat NUM_GPRS,
     d_load_res := 1 + of_nat NUM_GPRS + 1, d_load_val := 1 + of_nat NUM_GPRS + 2\<rparr>"

definition linux_gen_code :: "Program \<Rightarrow> Context \<Rightarrow> u64 \<Rightarrow> u32 \<Rightarrow> LinuxCpu \<Rightarrow> (u32 \<times> Context \<times> LinuxCpu) option" where
  "linux_gen_code P ir pc mx lc = do {
     let d = set_base (\<lambda>b. b\<lparr>b_max_insns := mx\<rparr>) (disas_new pc (c_guest_base (l_cpu lc)) (l_cfg lc));
     (d, ir) \<leftarrow> (if nb_globals ir = 0 then translator_loop (RiscvTranslator P) d ir
       else do {
         (d, ir) \<leftarrow> tb_start (RiscvTranslator P) (known_globals d) ir;
         (d, ir) \<leftarrow> insn_loop (RiscvTranslator P) d ir;
         tb_stop (RiscvTranslator P) d ir });
     Some (num_insns (d_base d) * 4, ir, lc) }"

definition linux_guest :: "Program \<Rightarrow> LinuxCpu GuestCpu" where
  "linux_guest P = \<lparr>get_pc = (\<lambda>c. c_pc (l_cpu c)), get_flags = (\<lambda>_. 0), gen_code = linux_gen_code P\<rparr>"

end
