(* ===== verification/Riscv_Names.thy ===== *)
theory Riscv_Names
  imports Main
begin

text \<open>
  The names the generated \<open>Decode\<close> traits of the two decode files have a method for, and the argument
  fields that hold register numbers.
\<close>

definition REG_FIELDS :: "string list" where
  "REG_FIELDS = [''rd'', ''rs1'', ''rs2'', ''rs3'']"

definition names32 :: "string list" where
  "names32 = [
     ''lui'', ''auipc'', ''jal'', ''jalr'', ''beq'', ''bne'', ''blt'', ''bge'', ''bltu'', ''bgeu'', ''lb'', ''lh'', ''lw'',
     ''lbu'', ''lhu'', ''sb'', ''sh'', ''sw'', ''addi'', ''slti'', ''sltiu'', ''xori'', ''ori'', ''andi'', ''slli'', ''srli'',
     ''srai'', ''add'', ''sub'', ''sll'', ''slt'', ''sltu'', ''xor'', ''srl'', ''sra'', ''or'', ''and'', ''fence'', ''ecall'',
     ''ebreak'', ''lwu'', ''ld'', ''sd'', ''addiw'', ''slliw'', ''srliw'', ''sraiw'', ''addw'', ''subw'', ''sllw'', ''srlw'',
     ''sraw'', ''mul'', ''mulh'', ''mulhsu'', ''mulhu'', ''div'', ''divu'', ''rem'', ''remu'', ''mulw'', ''divw'', ''divuw'',
     ''remw'', ''remuw'', ''lr_w'', ''sc_w'', ''amoswap_w'', ''amoadd_w'', ''amoxor_w'', ''amoand_w'', ''amoor_w'',
     ''amomin_w'', ''amomax_w'', ''amominu_w'', ''amomaxu_w'', ''lr_d'', ''sc_d'', ''amoswap_d'', ''amoadd_d'', ''amoxor_d'',
     ''amoand_d'', ''amoor_d'', ''amomin_d'', ''amomax_d'', ''amominu_d'', ''amomaxu_d'', ''csrrw'', ''csrrs'', ''csrrc'',
     ''csrrwi'', ''csrrsi'', ''csrrci'', ''flw'', ''fsw'', ''fld'', ''fsd'', ''fmadd_s'', ''fmsub_s'', ''fnmsub_s'',
     ''fnmadd_s'', ''fadd_s'', ''fsub_s'', ''fmul_s'', ''fdiv_s'', ''fsqrt_s'', ''fsgnj_s'', ''fsgnjn_s'', ''fsgnjx_s'',
     ''fmin_s'', ''fmax_s'', ''feq_s'', ''flt_s'', ''fle_s'', ''fclass_s'', ''fcvt_w_s'', ''fcvt_wu_s'', ''fcvt_s_w'',
     ''fcvt_s_wu'', ''fmv_x_w'', ''fmv_w_x'', ''fcvt_l_s'', ''fcvt_lu_s'', ''fcvt_s_l'', ''fcvt_s_lu'', ''fmadd_d'',
     ''fmsub_d'', ''fnmsub_d'', ''fnmadd_d'', ''fadd_d'', ''fsub_d'', ''fmul_d'', ''fdiv_d'', ''fsqrt_d'', ''fsgnj_d'',
     ''fsgnjn_d'', ''fsgnjx_d'', ''fmin_d'', ''fmax_d'', ''feq_d'', ''flt_d'', ''fle_d'', ''fclass_d'', ''fcvt_s_d'',
     ''fcvt_d_s'', ''fcvt_w_d'', ''fcvt_wu_d'', ''fcvt_d_w'', ''fcvt_d_wu'', ''fcvt_l_d'', ''fcvt_lu_d'', ''fcvt_d_l'',
     ''fcvt_d_lu'', ''fmv_x_d'', ''fmv_d_x'']"

definition names16 :: "string list" where
  "names16 = [
     ''illegal'', ''c64_illegal'', ''addi'', ''lw'', ''ld'', ''c_fld'', ''c_flw'', ''sw'', ''sd'', ''c_fsd'', ''c_fsw'',
     ''lui'', ''srli'', ''srai'', ''andi'', ''sub'', ''xor'', ''or'', ''and'', ''jal'', ''beq'', ''bne'', ''addiw'', ''subw'',
     ''addw'', ''slli'', ''jalr'', ''ebreak'', ''add'']"

end
