(* ===== verification/Decode_Check.thy ===== *)
theory Decode_Check
  imports Decode
begin

text \<open>
  What a decode table guarantees of the code generated from it: a static check of the parsed table
  (\<open>table_check\<close>) under which the generated decoder never runs into a panic of the generator and
  passes only register numbers below 32 in the fields that name registers.
\<close>

section \<open>The bits of an extracted field\<close>

definition fits :: "nat \<Rightarrow> i64 \<Rightarrow> bool" where
  "fits k x \<longleftrightarrow> (\<forall>n \<ge> k. \<not> bit x n)"

lemma fits_unat: "fits k x \<Longrightarrow> unat x < 2 ^ k"
proof -
  assume "fits k x"
  then have "take_bit k x = x" by (auto simp: fits_def bit_take_bit_iff intro!: bit_word_eqI) (meson linorder_not_less)
  then have "take_bit k (unat x) = unat x" by (metis unsigned_take_bit_eq)
  then show ?thesis by (metis take_bit_nat_less_exp)
qed

lemma unsigned_field_fits: "fits len (unsigned_field pos len insn)"
proof -
  have "unsigned_field pos len insn = ucast (take_bit len (drop_bit pos insn))"
    by (simp add: unsigned_field_def take_bit_eq_mask mask_eq_exp_minus_1)
  then show ?thesis by (auto simp: fits_def bit_simps)
qed

lemma fits_append: "fits k x \<Longrightarrow> fits len y \<Longrightarrow> fits (len + k) (push_bit len x OR y)"
  by (auto simp: fits_def bit_simps)

definition total_len :: "FieldSegment list \<Rightarrow> nat" where
  "total_len gs = (\<Sum>g \<leftarrow> gs. unat (seg_len g))"

text \<open>The generator accepts the segments of a field; its value fits the segments when none is signed.\<close>

definition rest_ok :: "FieldSegment list \<Rightarrow> bool" where
  "rest_ok gs = list_all (\<lambda>g. unat (seg_len g) < 32) gs"

lemma more_segments_fits:
  "rest_ok gs \<Longrightarrow> \<exists>v. more_segments width gs insn x = Some v \<and> (fits k x \<longrightarrow> fits (total_len gs + k) v)"
proof (induction gs arbitrary: x k)
  case (Cons g gs)
  let ?u = "unsigned_field (unat (seg_pos g)) (unat (seg_len g)) insn" and ?l = "unat (seg_len g)"
  have g: "segment_val width False g insn = Some ?u" "rest_ok gs" using Cons.prems by (simp_all add: segment_val_def rest_ok_def)
  obtain v where v: "more_segments width gs insn (push_bit ?l x OR ?u) = Some v"
    "fits (?l + k) (push_bit ?l x OR ?u) \<longrightarrow> fits (total_len gs + (?l + k)) v"
    using Cons.IH [OF g(2)] by blast
  moreover have "total_len (g # gs) + k = total_len gs + (?l + k)" by (simp add: total_len_def)
  ultimately show ?case
    using g(1) fits_append [OF _ unsigned_field_fits] by (auto simp: add.assoc)
qed (simp add: total_len_def)

definition field_total :: "nat \<Rightarrow> Field \<Rightarrow> bool" where
  "field_total width f =
     (case f_segments f of
        [] \<Rightarrow> False
      | g # gs \<Rightarrow> (if seg_signed g then unat (seg_pos g) + unat (seg_len g) \<le> width else unat (seg_len g) < 32) \<and> rest_ok gs)"

text \<open>The value of a register field is below 32: at most five bits, or three above 8.\<close>

definition field_reg :: "Field \<Rightarrow> bool" where
  "field_reg f =
     (case f_segments f of
        [] \<Rightarrow> False
      | g # gs \<Rightarrow> \<not> seg_signed g \<and>
          (case f_func f of
             None \<Rightarrow> total_len (g # gs) \<le> 5
           | Some h \<Rightarrow> h = ''ex_rvc_register'' \<and> total_len (g # gs) \<le> 3))"

lemma fits_mono: "fits k x \<Longrightarrow> k \<le> l \<Longrightarrow> fits l x"
  by (simp add: fits_def)

lemma unat_plus8: "unat x < 8 \<Longrightarrow> unat (x + 8) < 32" for x :: i64
  by (simp add: unat_plus_if')

lemma extract_field_total:
  assumes "field_total width f"
  shows "\<exists>v. extract_field width f insn = Some v \<and> (field_reg f \<longrightarrow> unat v < 32)"
proof -
  obtain g gs where f: "f_segments f = g # gs" and rest: "rest_ok gs"
    and first: "if seg_signed g then unat (seg_pos g) + unat (seg_len g) \<le> width else unat (seg_len g) < 32"
    using assms by (auto simp: field_total_def split: list.splits)
  obtain x where x: "segment_val width True g insn = Some x" "\<not> seg_signed g \<longrightarrow> fits (unat (seg_len g)) x"
    using first unsigned_field_fits by (cases "seg_signed g") (auto simp: segment_val_def Let_def)
  obtain v where v: "more_segments width gs insn x = Some v"
    "fits (unat (seg_len g)) x \<longrightarrow> fits (total_len gs + unat (seg_len g)) v"
    using more_segments_fits [OF rest] by blast
  have len: "total_len (g # gs) = total_len gs + unat (seg_len g)" by (simp add: total_len_def)
  show ?thesis
  proof (cases "f_func f")
    case None
    have "unat v < 32" if "field_reg f"
      using that v(2) x(2) f None len fits_unat [OF fits_mono, of "total_len (g # gs)" v 5] by (simp add: field_reg_def)
    then show ?thesis using f x v None by (simp add: extract_field_def)
  next
    case (Some h)
    have "unat (func_transform h v) < 32" if "field_reg f"
      using that v(2) x(2) f Some len fits_unat [OF fits_mono, of "total_len (g # gs)" v 3] unat_plus8 [of v]
      by (simp add: field_reg_def func_transform_def)
    then show ?thesis using f x v Some by (simp add: extract_field_def)
  qed
qed

section \<open>The check of a table\<close>

definition mapping_check :: "nat \<Rightarrow> Field btree \<Rightarrow> bool \<Rightarrow> FieldMapping \<Rightarrow> bool" where
  "mapping_check width flds reg m =
     (case m of
        FieldRef r \<Rightarrow> (case bt_get flds r of None \<Rightarrow> False | Some f \<Rightarrow> field_total width f \<and> (reg \<longrightarrow> field_reg f))
      | Inline pos len sgd \<Rightarrow> \<not> sgd \<and> unat len < 32 \<and> (reg \<longrightarrow> unat len \<le> 5)
      | FConst c \<Rightarrow> reg \<longrightarrow> 0 \<le> c \<and> c < 32)"

lemma mapping_value:
  assumes "mapping_check width flds reg m"
  shows "\<exists>v. field_expr width flds m insn = Some v \<and> (reg \<longrightarrow> unat v < 32)"
proof (cases m)
  case (FieldRef r)
  then obtain f where "bt_get flds r = Some f" "field_total width f" "reg \<longrightarrow> field_reg f"
    using assms by (auto simp: mapping_check_def split: option.splits)
  then show ?thesis using FieldRef extract_field_total [of width f insn] by (auto simp: field_expr_def)
next
  case (Inline pos len sgd)
  then show ?thesis
    using assms fits_unat [OF fits_mono [OF unsigned_field_fits], of "unat len" 5 "unat pos" insn]
    by (auto simp: mapping_check_def field_expr_def segment_val_def)
next
  case (FConst c)
  then have "reg \<Longrightarrow> unat (word_of_int c :: i64) < 32"
    using assms by (simp add: mapping_check_def unsigned_of_int take_bit_int_eq_self nat_less_iff)
  then show ?thesis using FConst by (simp add: field_expr_def)
qed

definition pattern_fields :: "ArgSet btree \<Rightarrow> Pattern \<Rightarrow> string list" where
  "pattern_fields argsets p =
     (if p_args_name p = [] then [] else case bt_get argsets (p_args_name p) of Some a \<Rightarrow> as_fields a | None \<Rightarrow> [])"

definition pattern_check :: "nat \<Rightarrow> string list \<Rightarrow> string list \<Rightarrow> Field btree \<Rightarrow> ArgSet btree \<Rightarrow> Pattern \<Rightarrow> bool" where
  "pattern_check width names regs flds argsets p \<longleftrightarrow> p_name p \<in> set names \<and>
     list_all (\<lambda>f. case bt_get (p_field_map p) f of Some m \<Rightarrow> mapping_check width flds (f \<in> set regs) m | None \<Rightarrow> True)
       (pattern_fields argsets p)"

definition table_check :: "nat \<Rightarrow> string list \<Rightarrow> string list \<Rightarrow> Parsed \<Rightarrow> bool" where
  "table_check width names regs ps = list_all (pattern_check width names regs (ps_fields ps) (ps_argsets ps)) (ps_patterns ps)"

lemma arg_values_total:
  assumes "list_all (\<lambda>f. case bt_get (p_field_map p) f of Some m \<Rightarrow> mapping_check width (ps_fields ps) (f \<in> set regs) m | None \<Rightarrow> True) fs"
  shows "\<exists>args. arg_values width ps p insn fs = Some args \<and> (\<forall>f v. (f, v) \<in> set args \<longrightarrow> f \<in> set regs \<longrightarrow> unat v < 32)"
  using assms
proof (induction fs)
  case (Cons f fs)
  then obtain args where args: "arg_values width ps p insn fs = Some args" "\<forall>f v. (f, v) \<in> set args \<longrightarrow> f \<in> set regs \<longrightarrow> unat v < 32"
    by auto
  obtain v where "(case bt_get (p_field_map p) f of Some m \<Rightarrow> field_expr width (ps_fields ps) m insn | None \<Rightarrow> Some 0) = Some v"
    "f \<in> set regs \<longrightarrow> unat v < 32"
    using Cons.prems mapping_value [of width "ps_fields ps" "f \<in> set regs" _ insn] by (auto split: option.splits)
  then show ?case using args by auto
qed simp

lemma table_check_sound:
  assumes "table_check width names regs ps"
  shows "\<exists>r. generated_decoder width ps insn = Some r \<and>
    (\<forall>n args. r = CallTrans n args \<longrightarrow> n \<in> set names \<and> (\<forall>f \<in> set regs. unat (field_value args f) < 32))"
proof -
  have "\<exists>r. decode_patterns width ps pts insn = Some r \<and>
      (\<forall>n args. r = CallTrans n args \<longrightarrow> n \<in> set names \<and> (\<forall>f \<in> set regs. unat (field_value args f) < 32))"
    if "list_all (pattern_check width names regs (ps_fields ps) (ps_argsets ps)) pts" for pts
    using that
  proof (induction pts)
    case (Cons p pts)
    then obtain args where "pattern_args width ps p insn = Some args" "\<forall>f v. (f, v) \<in> set args \<longrightarrow> f \<in> set regs \<longrightarrow> unat v < 32"
      using arg_values_total [where p = p and width = width and ps = ps and regs = regs] by (fastforce simp: pattern_check_def pattern_args_def pattern_fields_def)
    moreover from this(2) have "\<forall>f \<in> set regs. unat (field_value args f) < 32"
      by (auto simp: field_value_def dest: map_of_SomeD split: option.splits)
    ultimately show ?case using Cons by (auto simp: pattern_check_def)
  qed simp
  then show ?thesis using assms by (simp add: table_check_def generated_decoder_def)
qed

section \<open>Bit patterns\<close>

text \<open>The character of a pattern that stands for bit \<open>i\<close>, where the first character is bit \<open>p\<close>.\<close>

fun char_at :: "int \<Rightarrow> string \<Rightarrow> nat \<Rightarrow> char option" where
  "char_at p [] i = None"
| "char_at p (c # cs) i = (if int i = p then Some c else char_at (p - 1) cs i)"

lemma char_at_append: "char_at p (cs @ ds) i = (case char_at p cs i of Some c \<Rightarrow> Some c | None \<Rightarrow> char_at (p - int (length cs)) ds i)"
  by (induction cs arbitrary: p) (auto simp: algebra_simps split: option.split)

lemma char_at_nth: "char_at p cs i = (if int i \<le> p \<and> p - int i < int (length cs) then Some (cs ! nat (p - int i)) else None)"
proof (induction cs arbitrary: p)
  case (Cons c cs)
  have "nat (p - int i) = Suc (nat (p - 1 - int i))" if "int i < p" using that by simp
  then show ?case using Cons by (cases "int i < p") auto
qed simp

lemma char_at_below [simp]: "p < int i \<Longrightarrow> char_at p cs i = None"
  by (simp add: char_at_nth)

lemma char_at_past: "char_at p cs i = Some c \<Longrightarrow> char_at (p - int (length cs)) ds i = None"
  by (simp add: char_at_nth split: if_splits)

definition recorded :: "int \<Rightarrow> string \<Rightarrow> BitPatternResult \<Rightarrow> BitPatternResult \<Rightarrow> bool" where
  "recorded p cs r r' \<longleftrightarrow>
     (\<forall>i. bit (bp_fixedmask r') i \<longleftrightarrow> bit (bp_fixedmask r) i \<or> char_at p cs i \<in> {Some CHR ''0'', Some CHR ''1''}) \<and>
     (\<forall>i. bit (bp_fixedbits r') i \<longleftrightarrow> bit (bp_fixedbits r) i \<or> char_at p cs i = Some CHR ''1'')"

lemma bit_at_pos: "0 \<le> p \<Longrightarrow> p < 32 \<Longrightarrow> bit (push_bit (nat p) (1 :: u32)) i \<longleftrightarrow> int i = p"
  by (auto simp: bit_simps)

lemma parse_bits_recorded:
  "int (length cs) \<le> p + 1 \<Longrightarrow> p < 32 \<Longrightarrow> list_all is_bit_char cs \<Longrightarrow>
   \<exists>r'. parse_bits width cs (p, r) = Inr (p - int (length cs), r') \<and> bp_inline_fields r' = bp_inline_fields r \<and> recorded p cs r r'"
proof (induction cs arbitrary: p r)
  case Nil
  then show ?case by (simp add: recorded_def)
next
  case (Cons c cs)
  let ?b = "push_bit (nat p) 1"
  let ?r = "if c = CHR ''1'' then r\<lparr>bp_fixedbits := bp_fixedbits r OR ?b, bp_fixedmask := bp_fixedmask r OR ?b\<rparr>
    else if c = CHR ''0'' then r\<lparr>bp_fixedmask := bp_fixedmask r OR ?b\<rparr> else r"
  have p: "0 \<le> p" using Cons.prems(1) by simp
  obtain r' where r': "parse_bits width cs (p - 1, ?r) = Inr (p - 1 - int (length cs), r')"
    "bp_inline_fields r' = bp_inline_fields ?r" "recorded (p - 1) cs ?r r'"
    using Cons.IH [of "p - 1" ?r] Cons.prems by auto
  have "recorded p (c # cs) r r'"
    using r'(3) bit_at_pos [OF p Cons.prems(2)] by (cases "c = CHR ''1''"; cases "c = CHR ''0''") (auto simp: recorded_def bit_or_iff bit_at_pos [OF p Cons.prems(2)] simp del: push_bit_of_1 split: if_splits)
  moreover have "parse_bits width (c # cs) (p, r) = parse_bits width cs (p - 1, ?r)" using p by (simp add: Let_def)
  moreover have "bp_inline_fields ?r = bp_inline_fields r" by simp
  moreover have "p - 1 - int (length cs) = p - int (length (c # cs))" by simp
  ultimately show ?case using r'(1,2) by metis
qed

lemma parse_bits_too_long:
  "p + 1 < int (length cs) \<Longrightarrow> - 1 \<le> p \<Longrightarrow> parse_bits width cs (p, r) = Inl (''bit pattern exceeds '' @ show_nat width @ '' bits'')"
  by (induction cs arbitrary: p r) (auto simp: Let_def)

lemma parse_loop_recorded:
  assumes "list_all is_bit_token toks" "p < 32"
  shows "int (length (concat toks)) \<le> p + 1 \<Longrightarrow> \<exists>r'. parse_bit_loop width toks (p, r) = Inr r' \<and> recorded p (concat toks) r r'"
    "p + 1 < int (length (concat toks)) \<Longrightarrow> - 1 \<le> p \<Longrightarrow>
      parse_bit_loop width toks (p, r) = Inl (''bit pattern exceeds '' @ show_nat width @ '' bits'')"
  using assms
proof (induction toks arbitrary: p r)
  case (Cons t toks)
  { case 1
    then have t: "is_bit_token t" "list_all is_bit_char t" by (auto simp: is_bit_token_def)
    obtain r1 where r1: "parse_bits width t (p, r) = Inr (p - int (length t), r1)" "recorded p t r r1"
      using parse_bits_recorded [of t p width r] 1 t(2) by auto
    obtain r' where "parse_bit_loop width toks (p - int (length t), r1) = Inr r'" "recorded (p - int (length t)) (concat toks) r1 r'"
      using Cons.IH(1) [of "p - int (length t)" r1] 1 by auto
    moreover from this(2) r1(2) have "recorded p (concat (t # toks)) r r'"
      by (auto simp: recorded_def char_at_append char_at_past split: option.splits)
    ultimately show ?case using r1(1) t(1) by simp
  next
    case 2
    then have t: "is_bit_token t" "list_all is_bit_char t" by (auto simp: is_bit_token_def)
    show ?case
    proof (cases "p + 1 < int (length t)")
      case True
      then show ?thesis using 2 t(1) parse_bits_too_long [of p t width r] by simp
    next
      case False
      then obtain r1 where "parse_bits width t (p, r) = Inr (p - int (length t), r1)"
        using parse_bits_recorded [of t p width r] t(2) 2 by auto
      then show ?thesis using Cons.IH(2) [of "p - int (length t)" r1] 2 False t(1) by simp
    qed }
qed (simp_all add: recorded_def)

definition bit_accepts :: "char \<Rightarrow> bool \<Rightarrow> bool" where
  "bit_accepts c b \<longleftrightarrow> (c = CHR ''1'' \<longrightarrow> b) \<and> (c = CHR ''0'' \<longrightarrow> \<not> b)"

lemma recorded_accepts:
  assumes "recorded p cs bp_empty r" "int (length cs) \<le> p + 1" "p < 32"
  shows "insn AND bp_fixedmask r = bp_fixedbits r \<longleftrightarrow> (\<forall>k < length cs. bit_accepts (cs ! k) (bit insn (nat p - k)))"
proof -
  have "insn AND bp_fixedmask r = bp_fixedbits r \<longleftrightarrow> (\<forall>i. (case char_at p cs i of Some c \<Rightarrow> bit_accepts c (bit insn i) | None \<Rightarrow> True))"
  proof -
    have "bit (insn AND bp_fixedmask r) i = bit (bp_fixedbits r) i \<longleftrightarrow>
        (case char_at p cs i of Some c \<Rightarrow> bit_accepts c (bit insn i) | None \<Rightarrow> True)" for i
    proof -
      have m: "bit (bp_fixedmask r) i \<longleftrightarrow> char_at p cs i \<in> {Some CHR ''0'', Some CHR ''1''}"
        "bit (bp_fixedbits r) i \<longleftrightarrow> char_at p cs i = Some CHR ''1''"
        using assms(1) by (simp_all add: recorded_def bp_empty_def)
      show ?thesis unfolding bit_and_iff m by (cases "char_at p cs i") (auto simp: bit_accepts_def)
    qed
    moreover have "insn AND bp_fixedmask r = bp_fixedbits r \<longleftrightarrow> (\<forall>i. bit (insn AND bp_fixedmask r) i = bit (bp_fixedbits r) i)"
      by (metis bit_eqI)
    ultimately show ?thesis by simp
  qed
  also have "\<dots> \<longleftrightarrow> (\<forall>k < length cs. bit_accepts (cs ! k) (bit insn (nat p - k)))" (is "?l \<longleftrightarrow> ?r")
  proof
    assume ?l
    show ?r
    proof (intro allI impI)
      fix k assume "k < length cs"
      then have "char_at p cs (nat p - k) = Some (cs ! k)" using assms(2) by (simp add: char_at_nth of_nat_diff)
      then show "bit_accepts (cs ! k) (bit insn (nat p - k))" using \<open>?l\<close> [THEN spec, of "nat p - k"] by simp
    qed
  next
    assume r: ?r
    show ?l
    proof
      fix i
      show "case char_at p cs i of Some c \<Rightarrow> bit_accepts c (bit insn i) | None \<Rightarrow> True"
        using r [THEN spec, of "nat (p - int i)"] by (auto simp: char_at_nth nat_diff_distrib' nat_less_iff)
    qed
  qed
  finally show ?thesis .
qed

section \<open>Properties\<close>

text \<open>
  C32: a pattern line's bit tokens mean what they show. If the tokens together have at most \<open>width\<close>
  characters, the fixed bits and the mask that \<open>parse_bit_tokens\<close> returns accept exactly the
  instructions that have a set bit under every 1, a clear bit under every 0 and anything under dots
  and dashes, the first character being the most significant bit; longer patterns are an error.
\<close>

theorem bit_pattern_exact:
  assumes "list_all is_bit_token toks" "0 < width" "width \<le> 32"
  shows "if length (concat toks) \<le> width
    then \<exists>r. parse_bit_tokens toks width = Inr r \<and>
      (\<forall>insn. insn AND bp_fixedmask r = bp_fixedbits r \<longleftrightarrow>
        (\<forall>k < length (concat toks). bit_accepts (concat toks ! k) (bit insn (width - 1 - k))))
    else parse_bit_tokens toks width = Inl (''bit pattern exceeds '' @ show_nat width @ '' bits'')"
proof (cases "length (concat toks) \<le> width")
  case True
  then have len: "int (length (concat toks)) \<le> int width - 1 + 1" "int width - 1 < 32" "nat (int width - 1) = width - 1"
    using assms by auto
  obtain r where "parse_bit_tokens toks width = Inr r" "recorded (int width - 1) (concat toks) bp_empty r"
    using parse_loop_recorded(1) [OF assms(1) len(2,1)] by (auto simp: parse_bit_tokens_def)
  then show ?thesis using recorded_accepts [OF _ len(1,2)] len(3) True by auto
next
  case False
  then show ?thesis using parse_loop_recorded(2) [OF assms(1), of "int width - 1"] assms by (simp add: parse_bit_tokens_def)
qed

theorem bit_pattern_exact_witness:
  "\<exists>r. parse_bit_tokens [''0-1'', ''.''] 4 = Inr r \<and> (2 :: u32) AND bp_fixedmask r = bp_fixedbits r \<and> (5 :: u32) AND bp_fixedmask r \<noteq> bp_fixedbits r"
proof -
  have "list_all is_bit_token [''0-1'', ''.'']" by code_simp
  from bit_pattern_exact [OF this, of 4] obtain r where "parse_bit_tokens [''0-1'', ''.''] 4 = Inr r"
    "\<forall>insn. insn AND bp_fixedmask r = bp_fixedbits r \<longleftrightarrow>
      (\<forall>k < Suc (Suc (Suc (Suc 0))). bit_accepts (''0-1.'' ! k) (bit insn (3 - k)))"
    by auto
  then show ?thesis by (intro exI [of _ r]) (simp add: All_less_Suc bit_accepts_def)
qed

end
