(* ===== verification/Riscv_Built.thy ===== *)
theory Riscv_Built
  imports Riscv Riscv_Names Decode_Check
begin

text \<open>
  What every translated instruction does to the two contexts: the IR is only extended by builder
  methods, and the disassembly context changes at most in the flag that ends the block.
\<close>

section \<open>Builder runs\<close>

definition B :: "Context \<Rightarrow> Context \<Rightarrow> bool" where
  "B c ir \<longleftrightarrow> builder_step\<^sup>*\<^sup>* c ir"

definition builder :: "(Context, 'a) state \<Rightarrow> bool" where
  "builder m \<longleftrightarrow> (\<forall>c. builder_step c (exec m c))"

lemma builder_methods [wf_intros]:
  "builder (new_temp ty)" "builder (new_const ty v)" "builder new_label" "builder (gen_call t h args)"
  "builder (gen_add ty t x y)" "builder (gen_sub ty t x y)" "builder (gen_mul ty t x y)" "builder (gen_and ty t x y)"
  "builder (gen_or ty t x y)" "builder (gen_xor ty t x y)" "builder (gen_shl ty t x y)" "builder (gen_shr ty t x y)"
  "builder (gen_sar ty t x y)" "builder (gen_divs2 ty t u x y z)" "builder (gen_divu2 ty t u x y z)"
  "builder (gen_muls2 ty t u x y)" "builder (gen_mulu2 ty t u x y)" "builder (gen_movcond ty t x y z w cond)"
  "builder (gen_setcond ty t x y cond)" "builder (gen_neg ty t x)" "builder (gen_not ty t x)" "builder (gen_mov ty t x)"
  "builder (gen_ext_i32_i64 t x)" "builder (gen_ext_u32_i64 t x)" "builder (gen_extrl_i64_i32 t x)"
  "builder (gen_ld ty t x off)" "builder (gen_st ty t x off)" "builder (gen_brcond ty x y cond l)" "builder (gen_set_label l)"
  "builder (gen_goto_tb n)" "builder (gen_exit_tb v)" "builder (gen_insn_start v)" "builder (gen_mb b)"
  "builder (gen_qemu_ld ty t x mo)" "builder (gen_qemu_st ty t x mo)"
  unfolding builder_def by (rule allI, rule builder_step.intros)+

text \<open>Total correctness: the computation returns and its result satisfies \<open>Q\<close>.\<close>

definition tw :: "'a option \<Rightarrow> ('a \<Rightarrow> bool) \<Rightarrow> bool" where
  "tw x Q \<longleftrightarrow> (\<exists>y. x = Some y \<and> Q y)"

lemma tw_mono: "tw x Q \<Longrightarrow> (\<And>y. Q y \<Longrightarrow> R y) \<Longrightarrow> tw x R"
  by (auto simp: tw_def)

lemma tw_bind: "tw x (\<lambda>y. tw (f y) Q) \<Longrightarrow> tw (x \<bind> f) Q"
  by (auto simp: tw_def)

lemma tw_Some: "Q y \<Longrightarrow> tw (Some y) Q"
  by (simp add: tw_def)

lemma tw_bind_pair: "tw f (\<lambda>(x, ir). B c ir) \<Longrightarrow> (\<And>x ir. B c ir \<Longrightarrow> tw (g x ir) Q) \<Longrightarrow> tw (f \<bind> (\<lambda>(x, ir). g x ir)) Q"
  by (rule tw_bind, erule tw_mono) auto

lemma tw_bind_ctx: "tw f (B c) \<Longrightarrow> (\<And>ir. B c ir \<Longrightarrow> tw (g ir) Q) \<Longrightarrow> tw (f \<bind> g) Q"
  by (rule tw_bind, erule tw_mono) auto

lemma emit_builds: "B c ir \<Longrightarrow> builder m \<Longrightarrow> tw (emit m ir) (\<lambda>(x, ir'). B c ir')"
  unfolding emit_def B_def builder_def tw_def
  by (auto split: prod.split intro: rtranclp.rtrancl_into_rtrancl dest: spec [of _ ir])

lemma tw_ifI: "(b \<Longrightarrow> tw x Q) \<Longrightarrow> (\<not> b \<Longrightarrow> tw y Q) \<Longrightarrow> tw (if b then x else y) Q"
  by simp

lemma tw_optI: "tw x Q \<Longrightarrow> (\<And>t. tw (y t) Q) \<Longrightarrow> tw (case u of None \<Rightarrow> x | Some t \<Rightarrow> y t) Q"
  by (cases u) simp_all


lemma tw_letI: "tw (g x) Q \<Longrightarrow> tw (Let x g) Q"
  by simp

text \<open>Register numbers in range, for each argument set.\<close>

definition reg_ok :: "RiscvDisasContext \<Rightarrow> i64 \<Rightarrow> bool" where
  "reg_ok d i \<longleftrightarrow> unat i < length (d_gpr d)"

definition b_ok :: "RiscvDisasContext \<Rightarrow> ArgsB \<Rightarrow> bool" where
  "b_ok d a \<longleftrightarrow> reg_ok d (b_rs1 a) \<and> reg_ok d (b_rs2 a)"

definition i_ok :: "RiscvDisasContext \<Rightarrow> ArgsI \<Rightarrow> bool" where
  "i_ok d a \<longleftrightarrow> reg_ok d (i_rs1 a) \<and> reg_ok d (i_rd a)"

definition j_ok :: "RiscvDisasContext \<Rightarrow> ArgsJ \<Rightarrow> bool" where
  "j_ok d a \<longleftrightarrow> reg_ok d (j_rd a)"

definition r_ok :: "RiscvDisasContext \<Rightarrow> ArgsR \<Rightarrow> bool" where
  "r_ok d a \<longleftrightarrow> reg_ok d (r_rd a) \<and> reg_ok d (r_rs1 a) \<and> reg_ok d (r_rs2 a)"

definition r2_ok :: "RiscvDisasContext \<Rightarrow> ArgsR2 \<Rightarrow> bool" where
  "r2_ok d a \<longleftrightarrow> reg_ok d (r2_rd a) \<and> reg_ok d (r2_rs1 a)"

definition r2m_ok :: "RiscvDisasContext \<Rightarrow> ArgsR2Rm \<Rightarrow> bool" where
  "r2m_ok d a \<longleftrightarrow> reg_ok d (r2m_rd a) \<and> reg_ok d (r2m_rs1 a)"

definition rm_ok :: "RiscvDisasContext \<Rightarrow> ArgsRRm \<Rightarrow> bool" where
  "rm_ok d a \<longleftrightarrow> reg_ok d (rm_rd a) \<and> reg_ok d (rm_rs1 a) \<and> reg_ok d (rm_rs2 a)"

definition r4_ok :: "RiscvDisasContext \<Rightarrow> ArgsR4Rm \<Rightarrow> bool" where
  "r4_ok d a \<longleftrightarrow> reg_ok d (r4_rd a) \<and> reg_ok d (r4_rs1 a) \<and> reg_ok d (r4_rs2 a) \<and> reg_ok d (r4_rs3 a)"

definition s_ok :: "RiscvDisasContext \<Rightarrow> ArgsS \<Rightarrow> bool" where
  "s_ok d a \<longleftrightarrow> reg_ok d (s_rs1 a) \<and> reg_ok d (s_rs2 a)"

definition u_ok :: "RiscvDisasContext \<Rightarrow> ArgsU \<Rightarrow> bool" where
  "u_ok d a \<longleftrightarrow> reg_ok d (u_rd a)"

definition sh_ok :: "RiscvDisasContext \<Rightarrow> ArgsShift \<Rightarrow> bool" where
  "sh_ok d a \<longleftrightarrow> reg_ok d (sh_rs1 a) \<and> reg_ok d (sh_rd a)"

definition at_ok :: "RiscvDisasContext \<Rightarrow> ArgsAtomic \<Rightarrow> bool" where
  "at_ok d a \<longleftrightarrow> reg_ok d (at_rs2 a) \<and> reg_ok d (at_rs1 a) \<and> reg_ok d (at_rd a)"

definition csr_ok :: "RiscvDisasContext \<Rightarrow> ArgsCsr \<Rightarrow> bool" where
  "csr_ok d a \<longleftrightarrow> reg_ok d (csr_rs1 a) \<and> reg_ok d (csr_rd a)"

lemma reg_bounds:
  "b_ok d argsb \<Longrightarrow> reg_ok d (b_rs1 argsb)" "b_ok d argsb \<Longrightarrow> reg_ok d (b_rs2 argsb)" "i_ok d argsi \<Longrightarrow> reg_ok d (i_rs1 argsi)"
  "i_ok d argsi \<Longrightarrow> reg_ok d (i_rd argsi)" "j_ok d argsj \<Longrightarrow> reg_ok d (j_rd argsj)" "r_ok d argsr \<Longrightarrow> reg_ok d (r_rd argsr)"
  "r_ok d argsr \<Longrightarrow> reg_ok d (r_rs1 argsr)" "r_ok d argsr \<Longrightarrow> reg_ok d (r_rs2 argsr)" "r2_ok d argsr2 \<Longrightarrow> reg_ok d (r2_rd argsr2)"
  "r2_ok d argsr2 \<Longrightarrow> reg_ok d (r2_rs1 argsr2)" "r2m_ok d argsr2rm \<Longrightarrow> reg_ok d (r2m_rd argsr2rm)" "r2m_ok d argsr2rm \<Longrightarrow> reg_ok d (r2m_rs1 argsr2rm)"
  "rm_ok d argsrrm \<Longrightarrow> reg_ok d (rm_rd argsrrm)" "rm_ok d argsrrm \<Longrightarrow> reg_ok d (rm_rs1 argsrrm)" "rm_ok d argsrrm \<Longrightarrow> reg_ok d (rm_rs2 argsrrm)"
  "r4_ok d argsr4rm \<Longrightarrow> reg_ok d (r4_rd argsr4rm)" "r4_ok d argsr4rm \<Longrightarrow> reg_ok d (r4_rs1 argsr4rm)" "r4_ok d argsr4rm \<Longrightarrow> reg_ok d (r4_rs2 argsr4rm)"
  "r4_ok d argsr4rm \<Longrightarrow> reg_ok d (r4_rs3 argsr4rm)" "s_ok d argss \<Longrightarrow> reg_ok d (s_rs1 argss)" "s_ok d argss \<Longrightarrow> reg_ok d (s_rs2 argss)"
  "u_ok d argsu \<Longrightarrow> reg_ok d (u_rd argsu)" "sh_ok d argsshift \<Longrightarrow> reg_ok d (sh_rs1 argsshift)" "sh_ok d argsshift \<Longrightarrow> reg_ok d (sh_rd argsshift)"
  "at_ok d argsatomic \<Longrightarrow> reg_ok d (at_rs2 argsatomic)" "at_ok d argsatomic \<Longrightarrow> reg_ok d (at_rs1 argsatomic)" "at_ok d argsatomic \<Longrightarrow> reg_ok d (at_rd argsatomic)"
  "csr_ok d argscsr \<Longrightarrow> reg_ok d (csr_rs1 argscsr)" "csr_ok d argscsr \<Longrightarrow> reg_ok d (csr_rd argscsr)"
  by (simp_all add: b_ok_def i_ok_def j_ok_def r_ok_def r2_ok_def r2m_ok_def rm_ok_def r4_ok_def s_ok_def u_ok_def sh_ok_def at_ok_def csr_ok_def)

lemma tw_index: "reg_ok d i \<Longrightarrow> (\<And>t. tw (g t) Q) \<Longrightarrow> tw (index (d_gpr d) (unat i) \<bind> g) Q"
  by (simp add: reg_ok_def)

text \<open>A translation that ends the block has just left it: its last op is an exit.\<close>

definition ends :: "Context \<Rightarrow> bool" where
  "ends ir \<longleftrightarrow> ops ir \<noteq> [] \<and> o_opc (last (ops ir)) = OCtl ExitTb"

definition Tr :: "RiscvDisasContext \<Rightarrow> Context \<Rightarrow> bool \<times> RiscvDisasContext \<times> Context \<Rightarrow> bool" where
  "Tr d c = (\<lambda>(r, d', ir). (d' = d \<or> d' = end_block d \<and> ends ir \<and> r) \<and> B c ir)"

lemma tw_ends:
  "B c ir \<Longrightarrow> tw (Some (x, ir)) (\<lambda>(x, ir'). B c ir')" "B c ir \<Longrightarrow> tw (Some ir) (B c)"
  "B c ir \<Longrightarrow> tw (Some (r, d, ir)) (Tr d c)" "B c ir \<Longrightarrow> ends ir \<Longrightarrow> tw (Some (True, end_block d, ir)) (Tr d c)"
  by (simp_all add: Tr_def tw_def)

lemma exit_ends: "ends (exec (gen_exit_tb v) ir)"
proof -
  have "emits (gen_exit_tb v) (OCtl ExitTb) I64 [carg (ucast v)] ()" by (rule emits_gen)
  from emits_exec [OF this] show ?thesis by (simp add: push_op_def op_with_args_def op_new_def ends_def Let_def)
qed

lemma tw_exit:
  assumes "B c ir"
  shows "(\<And>ir'. B c ir' \<Longrightarrow> ends ir' \<Longrightarrow> tw (g ir') Q) \<Longrightarrow> tw (emit (gen_exit_tb v) ir \<bind> (\<lambda>(_, ir). g ir)) Q"
  using emit_builds [OF assms builder_methods(31), of v] exit_ends [of v ir] by (auto simp: emit_def tw_def split: prod.splits)

lemma tw_keep: "tw (m ir) (\<lambda>(x, ir'). B c ir') \<Longrightarrow> tw (keep d m ir) (Tr d c)"
  unfolding keep_def by (rule tw_bind, erule tw_mono) (auto simp: Tr_def tw_def)

lemma tw_require:
  "B c ir \<Longrightarrow> tw (m ir) (Tr d c) \<Longrightarrow> tw (require_ext d e m ir) (Tr d c)"
  "B c ir \<Longrightarrow> tw (m ir) (Tr d c) \<Longrightarrow> tw (require_zicsr d m ir) (Tr d c)"
  by (auto simp: require_ext_def require_zicsr_def Tr_def intro: tw_Some)

lemmas builds_basic = tw_exit tw_ends emit_builds builder_methods tw_bind_pair [OF emit_builds] tw_ifI tw_index tw_letI tw_optI reg_bounds

lemma builds_0:
  assumes "reg_ok d i" "B c ir"
  shows "tw (gpr_or_zero d i ir) (\<lambda>(x, ir'). B c ir')" "tw (gen_set_gpr d i v ir) (B c)" "tw (gen_set_gpr_sx32 d i v ir) (B c)"
  unfolding gpr_or_zero_def gen_set_gpr_def gen_set_gpr_sx32_def
  using assms by - (intro builds_basic; assumption)+

lemma builds_1:
  assumes "B c ir"
  shows "tw (fpr_load d i ir) (\<lambda>(x, ir'). B c ir')" "tw (fpr_store d i v ir) (B c)" "tw (gen_fp_check d ir) (B c)"
    "tw (gen_set_fs_dirty d ir) (B c)" "tw (gen_helper_call h xs ir) (\<lambda>(x, ir'). B c ir')" "tw (csr_load d i ir) (\<lambda>(x, ir'). B c ir')"
    "tw (csr_load_masked d i m ir) (\<lambda>(x, ir'). B c ir')" "tw (csr_load_fcsr d ir) (\<lambda>(x, ir'). B c ir')" "tw (gen_barrier f b ir) (B c)"
  unfolding fpr_load_def fpr_store_def gen_fp_check_def gen_set_fs_dirty_def
    gen_helper_call_def csr_load_def csr_load_masked_def csr_load_fcsr_def gen_barrier_def
  using assms by - (intro builds_basic; assumption)+

lemmas builds_2 = builds_0 builds_1 tw_bind_pair [OF builds_0(1)] tw_bind_ctx [OF builds_0(2)] tw_bind_ctx [OF builds_0(3)]
  tw_bind_pair [OF builds_1(1)] tw_bind_ctx [OF builds_1(2)] tw_bind_ctx [OF builds_1(3)] tw_bind_ctx [OF builds_1(4)]
  tw_bind_pair [OF builds_1(5)] tw_bind_pair [OF builds_1(6)] tw_bind_pair [OF builds_1(7)] tw_bind_pair [OF builds_1(8)]
  tw_bind_ctx [OF builds_1(9)] builds_basic

lemma builds_3:
  assumes "B c ir"
  shows "reg_ok d i \<Longrightarrow> tw (gen_address d i m ir) (\<lambda>(x, ir'). B c ir')" "tw (csr_store_masked d off m v ir) (\<lambda>(x, ir'). B c ir')"
    "tw (csr_store_fcsr d v ir) (\<lambda>(x, ir'). B c ir')" "tw (gen_csr_read d csr ir) (\<lambda>(x, ir'). B c ir')"
  unfolding gen_address_def csr_store_masked_def csr_store_fcsr_def gen_csr_read_def
  using assms by - (intro builds_2; assumption)+

lemma builds_4:
  assumes "B c ir"
  shows "tw (gen_csr_write d csr v ir) (\<lambda>(x, ir'). B c ir')"
  unfolding gen_csr_write_def using assms by - (intro builds_3 builds_2; assumption)+

lemmas builds_5 = builds_3 builds_4 tw_bind_pair [OF builds_3(1)] tw_bind_pair [OF builds_3(4)] tw_bind_pair [OF builds_4] builds_2

lemma builds_6:
  assumes "B c ir"
  shows "i_ok d ai \<Longrightarrow> tw (gen_fp_load d ai mo f ir) (\<lambda>(x, ir'). B c ir')" "s_ok d as \<Longrightarrow> tw (gen_fp_store d as mo f ir) (\<lambda>(x, ir'). B c ir')"
    "i_ok d ai \<Longrightarrow> tw (gen_load d ai mo ir) (\<lambda>(x, ir'). B c ir')" "s_ok d as \<Longrightarrow> tw (gen_store d as mo ir) (\<lambda>(x, ir'). B c ir')"
    "r_ok d ar \<Longrightarrow> tw (gen_setcond_rr d ar cond ir) (\<lambda>(x, ir'). B c ir')" "i_ok d ai \<Longrightarrow> tw (gen_setcond_imm d ai cond ir) (\<lambda>(x, ir'). B c ir')"
    "r_ok d ar \<Longrightarrow> tw (gen_div_rem d ar f ir) (\<lambda>(x, ir'). B c ir')" "r_ok d ar \<Longrightarrow> tw (gen_divu_remu d ar f ir) (\<lambda>(x, ir'). B c ir')"
    "r_ok d ar \<Longrightarrow> tw (gen_div_rem_w d ar f ir) (\<lambda>(x, ir'). B c ir')" "r_ok d ar \<Longrightarrow> tw (gen_divu_remu_w d ar f ir) (\<lambda>(x, ir'). B c ir')"
    "at_ok d aa \<Longrightarrow> tw (gen_lr d aa mo ir) (\<lambda>(x, ir'). B c ir')" "at_ok d aa \<Longrightarrow> tw (gen_sc d aa mo ir) (\<lambda>(x, ir'). B c ir')"
    "at_ok d aa \<Longrightarrow> tw (gen_amo_swap d aa mo ir) (\<lambda>(x, ir'). B c ir')" "at_ok d aa \<Longrightarrow> tw (gen_amo_minmax d aa cond mo ir) (\<lambda>(x, ir'). B c ir')"
  unfolding gen_fp_load_def gen_fp_store_def gen_load_def gen_store_def gen_setcond_rr_def gen_setcond_imm_def gen_div_rem_def
    gen_divu_remu_def gen_div_rem_w_def gen_divu_remu_w_def gen_lr_def gen_sc_def gen_amo_swap_def gen_amo_minmax_def
  using assms by - (intro builds_5 tw_bind_pair [OF tw_ifI] tw_bind_ctx [OF tw_ifI]; assumption)+

lemma builds_7:
  assumes "\<And>ty t x y. builder (op ty t x y)" "B c ir"
  shows "r_ok d ar \<Longrightarrow> tw (gen_arith d ar op ir) (\<lambda>(x, ir'). B c ir')" "i_ok d ai \<Longrightarrow> tw (gen_arith_imm d ai op ir) (\<lambda>(x, ir'). B c ir')"
    "sh_ok d ah \<Longrightarrow> tw (gen_shift_imm d ah op ir) (\<lambda>(x, ir'). B c ir')" "r_ok d ar \<Longrightarrow> tw (gen_arith_w d ar op ir) (\<lambda>(x, ir'). B c ir')"
    "i_ok d ai \<Longrightarrow> tw (gen_arith_imm_w d ai op ir) (\<lambda>(x, ir'). B c ir')" "r_ok d ar \<Longrightarrow> tw (gen_shiftw d ar op ir) (\<lambda>(x, ir'). B c ir')"
    "sh_ok d ah \<Longrightarrow> tw (gen_shift_imm_w d ah op ir) (\<lambda>(x, ir'). B c ir')" "at_ok d aa \<Longrightarrow> tw (gen_amo d aa op mo ir) (\<lambda>(x, ir'). B c ir')"
  unfolding gen_arith_def gen_arith_imm_def gen_shift_imm_def gen_arith_w_def gen_arith_imm_w_def gen_shiftw_def
    gen_shift_imm_w_def gen_amo_def
  using assms(2) by - (intro builds_5 assms(1); assumption)+

lemma branch_builds:
  assumes "b_ok d a" "B c ir"
  shows "tw (gen_branch d a cond ir) (\<lambda>(d', ir'). (d' = end_block d \<and> ends ir') \<and> B c ir')"
proof -
  have fin: "B c x \<Longrightarrow> ends x \<Longrightarrow> tw (Some (end_block d, x)) (\<lambda>(d', ir'). (d' = end_block d \<and> ends ir') \<and> B c ir')" for x by (simp add: tw_def)
  show ?thesis unfolding gen_branch_def using assms by - (intro fin builds_5; assumption)+
qed

lemma tw_branch: "b_ok d a \<Longrightarrow> B c ir \<Longrightarrow> (\<And>ir'. B c ir' \<Longrightarrow> ends ir' \<Longrightarrow> tw (g (end_block d) ir') Q) \<Longrightarrow> tw (gen_branch d a cond ir \<bind> (\<lambda>(d, ir). g d ir)) Q"
  by (rule tw_bind, rule tw_mono [OF branch_builds]) auto

lemmas builds_intros = tw_bind_pair [OF tw_ifI] tw_keep tw_require tw_branch builds_6 builds_7 builds_5

section \<open>Every instruction\<close>

lemma trans_builds_1:
  assumes "B c ir"
  shows "u_ok d argsu \<Longrightarrow> tw (trans_lui d argsu ir) (Tr d c)" "u_ok d argsu \<Longrightarrow> tw (trans_auipc d argsu ir) (Tr d c)" "j_ok d argsj \<Longrightarrow> tw (trans_jal d argsj ir) (Tr d c)"
  "i_ok d argsi \<Longrightarrow> tw (trans_jalr d argsi ir) (Tr d c)" "b_ok d argsb \<Longrightarrow> tw (trans_beq d argsb ir) (Tr d c)" "b_ok d argsb \<Longrightarrow> tw (trans_bne d argsb ir) (Tr d c)"
  "b_ok d argsb \<Longrightarrow> tw (trans_blt d argsb ir) (Tr d c)" "b_ok d argsb \<Longrightarrow> tw (trans_bge d argsb ir) (Tr d c)" "b_ok d argsb \<Longrightarrow> tw (trans_bltu d argsb ir) (Tr d c)"
  "b_ok d argsb \<Longrightarrow> tw (trans_bgeu d argsb ir) (Tr d c)" "i_ok d argsi \<Longrightarrow> tw (trans_lb d argsi ir) (Tr d c)" "i_ok d argsi \<Longrightarrow> tw (trans_lh d argsi ir) (Tr d c)"
  "i_ok d argsi \<Longrightarrow> tw (trans_lw d argsi ir) (Tr d c)" "i_ok d argsi \<Longrightarrow> tw (trans_lbu d argsi ir) (Tr d c)" "i_ok d argsi \<Longrightarrow> tw (trans_lhu d argsi ir) (Tr d c)"
  "s_ok d argss \<Longrightarrow> tw (trans_sb d argss ir) (Tr d c)" "s_ok d argss \<Longrightarrow> tw (trans_sh d argss ir) (Tr d c)" "s_ok d argss \<Longrightarrow> tw (trans_sw d argss ir) (Tr d c)"
  "i_ok d argsi \<Longrightarrow> tw (trans_addi d argsi ir) (Tr d c)" "i_ok d argsi \<Longrightarrow> tw (trans_slti d argsi ir) (Tr d c)"
  unfolding trans_lui_def trans_auipc_def trans_jal_def trans_jalr_def trans_beq_def trans_bne_def
  trans_blt_def trans_bge_def trans_bltu_def trans_bgeu_def trans_lb_def trans_lh_def
  trans_lw_def trans_lbu_def trans_lhu_def trans_sb_def trans_sh_def trans_sw_def
  trans_addi_def trans_slti_def
  using assms by - (intro builds_intros; assumption)+

lemma trans_builds_2:
  assumes "B c ir"
  shows "i_ok d argsi \<Longrightarrow> tw (trans_sltiu d argsi ir) (Tr d c)" "i_ok d argsi \<Longrightarrow> tw (trans_xori d argsi ir) (Tr d c)" "i_ok d argsi \<Longrightarrow> tw (trans_ori d argsi ir) (Tr d c)"
  "i_ok d argsi \<Longrightarrow> tw (trans_andi d argsi ir) (Tr d c)" "sh_ok d argsshift \<Longrightarrow> tw (trans_slli d argsshift ir) (Tr d c)" "sh_ok d argsshift \<Longrightarrow> tw (trans_srli d argsshift ir) (Tr d c)"
  "sh_ok d argsshift \<Longrightarrow> tw (trans_srai d argsshift ir) (Tr d c)" "r_ok d argsr \<Longrightarrow> tw (trans_add d argsr ir) (Tr d c)" "r_ok d argsr \<Longrightarrow> tw (trans_sub d argsr ir) (Tr d c)"
  "r_ok d argsr \<Longrightarrow> tw (trans_sll d argsr ir) (Tr d c)" "r_ok d argsr \<Longrightarrow> tw (trans_slt d argsr ir) (Tr d c)" "r_ok d argsr \<Longrightarrow> tw (trans_sltu d argsr ir) (Tr d c)"
  "r_ok d argsr \<Longrightarrow> tw (trans_xor d argsr ir) (Tr d c)" "r_ok d argsr \<Longrightarrow> tw (trans_srl d argsr ir) (Tr d c)" "r_ok d argsr \<Longrightarrow> tw (trans_sra d argsr ir) (Tr d c)"
  "r_ok d argsr \<Longrightarrow> tw (trans_or d argsr ir) (Tr d c)" "r_ok d argsr \<Longrightarrow> tw (trans_and d argsr ir) (Tr d c)" "tw (trans_fence d ir) (Tr d c)"
  "tw (trans_ecall d ir) (Tr d c)" "tw (trans_ebreak d ir) (Tr d c)"
  unfolding trans_sltiu_def trans_xori_def trans_ori_def trans_andi_def trans_slli_def trans_srli_def
  trans_srai_def trans_add_def trans_sub_def trans_sll_def trans_slt_def trans_sltu_def
  trans_xor_def trans_srl_def trans_sra_def trans_or_def trans_and_def trans_fence_def
  trans_ecall_def trans_ebreak_def
  using assms by - (intro builds_intros; assumption)+

lemma trans_builds_3:
  assumes "B c ir"
  shows "i_ok d argsi \<Longrightarrow> tw (trans_lwu d argsi ir) (Tr d c)" "i_ok d argsi \<Longrightarrow> tw (trans_ld d argsi ir) (Tr d c)" "s_ok d argss \<Longrightarrow> tw (trans_sd d argss ir) (Tr d c)"
  "i_ok d argsi \<Longrightarrow> tw (trans_addiw d argsi ir) (Tr d c)" "sh_ok d argsshift \<Longrightarrow> tw (trans_slliw d argsshift ir) (Tr d c)" "sh_ok d argsshift \<Longrightarrow> tw (trans_srliw d argsshift ir) (Tr d c)"
  "sh_ok d argsshift \<Longrightarrow> tw (trans_sraiw d argsshift ir) (Tr d c)" "r_ok d argsr \<Longrightarrow> tw (trans_addw d argsr ir) (Tr d c)" "r_ok d argsr \<Longrightarrow> tw (trans_subw d argsr ir) (Tr d c)"
  "r_ok d argsr \<Longrightarrow> tw (trans_sllw d argsr ir) (Tr d c)" "r_ok d argsr \<Longrightarrow> tw (trans_srlw d argsr ir) (Tr d c)" "r_ok d argsr \<Longrightarrow> tw (trans_sraw d argsr ir) (Tr d c)"
  "r_ok d argsr \<Longrightarrow> tw (trans_mul d argsr ir) (Tr d c)" "r_ok d argsr \<Longrightarrow> tw (trans_mulh d argsr ir) (Tr d c)" "r_ok d argsr \<Longrightarrow> tw (trans_mulhsu d argsr ir) (Tr d c)"
  "r_ok d argsr \<Longrightarrow> tw (trans_mulhu d argsr ir) (Tr d c)" "r_ok d argsr \<Longrightarrow> tw (trans_div d argsr ir) (Tr d c)" "r_ok d argsr \<Longrightarrow> tw (trans_divu d argsr ir) (Tr d c)"
  "r_ok d argsr \<Longrightarrow> tw (trans_rem d argsr ir) (Tr d c)" "r_ok d argsr \<Longrightarrow> tw (trans_remu d argsr ir) (Tr d c)"
  unfolding trans_lwu_def trans_ld_def trans_sd_def trans_addiw_def trans_slliw_def trans_srliw_def
  trans_sraiw_def trans_addw_def trans_subw_def trans_sllw_def trans_srlw_def trans_sraw_def
  trans_mul_def trans_mulh_def trans_mulhsu_def trans_mulhu_def trans_div_def trans_divu_def
  trans_rem_def trans_remu_def
  using assms by - (intro builds_intros; assumption)+

lemma trans_builds_4:
  assumes "B c ir"
  shows "r_ok d argsr \<Longrightarrow> tw (trans_mulw d argsr ir) (Tr d c)" "r_ok d argsr \<Longrightarrow> tw (trans_divw d argsr ir) (Tr d c)" "r_ok d argsr \<Longrightarrow> tw (trans_divuw d argsr ir) (Tr d c)"
  "r_ok d argsr \<Longrightarrow> tw (trans_remw d argsr ir) (Tr d c)" "r_ok d argsr \<Longrightarrow> tw (trans_remuw d argsr ir) (Tr d c)" "at_ok d argsatomic \<Longrightarrow> tw (trans_lr_w d argsatomic ir) (Tr d c)"
  "at_ok d argsatomic \<Longrightarrow> tw (trans_sc_w d argsatomic ir) (Tr d c)" "at_ok d argsatomic \<Longrightarrow> tw (trans_amoswap_w d argsatomic ir) (Tr d c)" "at_ok d argsatomic \<Longrightarrow> tw (trans_amoadd_w d argsatomic ir) (Tr d c)"
  "at_ok d argsatomic \<Longrightarrow> tw (trans_amoxor_w d argsatomic ir) (Tr d c)" "at_ok d argsatomic \<Longrightarrow> tw (trans_amoand_w d argsatomic ir) (Tr d c)" "at_ok d argsatomic \<Longrightarrow> tw (trans_amoor_w d argsatomic ir) (Tr d c)"
  "at_ok d argsatomic \<Longrightarrow> tw (trans_amomin_w d argsatomic ir) (Tr d c)" "at_ok d argsatomic \<Longrightarrow> tw (trans_amomax_w d argsatomic ir) (Tr d c)" "at_ok d argsatomic \<Longrightarrow> tw (trans_amominu_w d argsatomic ir) (Tr d c)"
  "at_ok d argsatomic \<Longrightarrow> tw (trans_amomaxu_w d argsatomic ir) (Tr d c)" "at_ok d argsatomic \<Longrightarrow> tw (trans_lr_d d argsatomic ir) (Tr d c)" "at_ok d argsatomic \<Longrightarrow> tw (trans_sc_d d argsatomic ir) (Tr d c)"
  "at_ok d argsatomic \<Longrightarrow> tw (trans_amoswap_d d argsatomic ir) (Tr d c)" "at_ok d argsatomic \<Longrightarrow> tw (trans_amoadd_d d argsatomic ir) (Tr d c)"
  unfolding trans_mulw_def trans_divw_def trans_divuw_def trans_remw_def trans_remuw_def trans_lr_w_def
  trans_sc_w_def trans_amoswap_w_def trans_amoadd_w_def trans_amoxor_w_def trans_amoand_w_def trans_amoor_w_def
  trans_amomin_w_def trans_amomax_w_def trans_amominu_w_def trans_amomaxu_w_def trans_lr_d_def trans_sc_d_def
  trans_amoswap_d_def trans_amoadd_d_def
  using assms by - (intro builds_intros; assumption)+

lemma trans_builds_5:
  assumes "B c ir"
  shows "at_ok d argsatomic \<Longrightarrow> tw (trans_amoxor_d d argsatomic ir) (Tr d c)" "at_ok d argsatomic \<Longrightarrow> tw (trans_amoand_d d argsatomic ir) (Tr d c)" "at_ok d argsatomic \<Longrightarrow> tw (trans_amoor_d d argsatomic ir) (Tr d c)"
  "at_ok d argsatomic \<Longrightarrow> tw (trans_amomin_d d argsatomic ir) (Tr d c)" "at_ok d argsatomic \<Longrightarrow> tw (trans_amomax_d d argsatomic ir) (Tr d c)" "at_ok d argsatomic \<Longrightarrow> tw (trans_amominu_d d argsatomic ir) (Tr d c)"
  "at_ok d argsatomic \<Longrightarrow> tw (trans_amomaxu_d d argsatomic ir) (Tr d c)" "csr_ok d argscsr \<Longrightarrow> tw (trans_csrrw d argscsr ir) (Tr d c)" "csr_ok d argscsr \<Longrightarrow> tw (trans_csrrs d argscsr ir) (Tr d c)"
  "csr_ok d argscsr \<Longrightarrow> tw (trans_csrrc d argscsr ir) (Tr d c)" "csr_ok d argscsr \<Longrightarrow> tw (trans_csrrwi d argscsr ir) (Tr d c)" "csr_ok d argscsr \<Longrightarrow> tw (trans_csrrsi d argscsr ir) (Tr d c)"
  "csr_ok d argscsr \<Longrightarrow> tw (trans_csrrci d argscsr ir) (Tr d c)" "i_ok d argsi \<Longrightarrow> tw (trans_flw d argsi ir) (Tr d c)" "s_ok d argss \<Longrightarrow> tw (trans_fsw d argss ir) (Tr d c)"
  "i_ok d argsi \<Longrightarrow> tw (trans_fld d argsi ir) (Tr d c)" "s_ok d argss \<Longrightarrow> tw (trans_fsd d argss ir) (Tr d c)" "r4_ok d argsr4rm \<Longrightarrow> tw (trans_fmadd_s H d argsr4rm ir) (Tr d c)"
  "r4_ok d argsr4rm \<Longrightarrow> tw (trans_fmsub_s H d argsr4rm ir) (Tr d c)" "r4_ok d argsr4rm \<Longrightarrow> tw (trans_fnmsub_s H d argsr4rm ir) (Tr d c)"
  unfolding trans_amoxor_d_def trans_amoand_d_def trans_amoor_d_def trans_amomin_d_def trans_amomax_d_def trans_amominu_d_def
  trans_amomaxu_d_def trans_csrrw_def trans_csrrs_def trans_csrrc_def trans_csrrwi_def trans_csrrsi_def
  trans_csrrci_def trans_flw_def trans_fsw_def trans_fld_def trans_fsd_def trans_fmadd_s_def
  trans_fmsub_s_def trans_fnmsub_s_def
  using assms by - (intro builds_intros; assumption)+

lemma trans_builds_6:
  assumes "B c ir"
  shows "r4_ok d argsr4rm \<Longrightarrow> tw (trans_fnmadd_s H d argsr4rm ir) (Tr d c)" "rm_ok d argsrrm \<Longrightarrow> tw (trans_fadd_s H d argsrrm ir) (Tr d c)" "rm_ok d argsrrm \<Longrightarrow> tw (trans_fsub_s H d argsrrm ir) (Tr d c)"
  "rm_ok d argsrrm \<Longrightarrow> tw (trans_fmul_s H d argsrrm ir) (Tr d c)" "rm_ok d argsrrm \<Longrightarrow> tw (trans_fdiv_s H d argsrrm ir) (Tr d c)" "r2m_ok d argsr2rm \<Longrightarrow> tw (trans_fsqrt_s H d argsr2rm ir) (Tr d c)"
  "r_ok d argsr \<Longrightarrow> tw (trans_fsgnj_s H d argsr ir) (Tr d c)" "r_ok d argsr \<Longrightarrow> tw (trans_fsgnjn_s H d argsr ir) (Tr d c)" "r_ok d argsr \<Longrightarrow> tw (trans_fsgnjx_s H d argsr ir) (Tr d c)"
  "r_ok d argsr \<Longrightarrow> tw (trans_fmin_s H d argsr ir) (Tr d c)" "r_ok d argsr \<Longrightarrow> tw (trans_fmax_s H d argsr ir) (Tr d c)" "r_ok d argsr \<Longrightarrow> tw (trans_feq_s H d argsr ir) (Tr d c)"
  "r_ok d argsr \<Longrightarrow> tw (trans_flt_s H d argsr ir) (Tr d c)" "r_ok d argsr \<Longrightarrow> tw (trans_fle_s H d argsr ir) (Tr d c)" "r2_ok d argsr2 \<Longrightarrow> tw (trans_fclass_s H d argsr2 ir) (Tr d c)"
  "r2m_ok d argsr2rm \<Longrightarrow> tw (trans_fcvt_w_s H d argsr2rm ir) (Tr d c)" "r2m_ok d argsr2rm \<Longrightarrow> tw (trans_fcvt_wu_s H d argsr2rm ir) (Tr d c)" "r2m_ok d argsr2rm \<Longrightarrow> tw (trans_fcvt_s_w H d argsr2rm ir) (Tr d c)"
  "r2m_ok d argsr2rm \<Longrightarrow> tw (trans_fcvt_s_wu H d argsr2rm ir) (Tr d c)" "r2_ok d argsr2 \<Longrightarrow> tw (trans_fmv_x_w d argsr2 ir) (Tr d c)"
  unfolding trans_fnmadd_s_def trans_fadd_s_def trans_fsub_s_def trans_fmul_s_def trans_fdiv_s_def trans_fsqrt_s_def
  trans_fsgnj_s_def trans_fsgnjn_s_def trans_fsgnjx_s_def trans_fmin_s_def trans_fmax_s_def trans_feq_s_def
  trans_flt_s_def trans_fle_s_def trans_fclass_s_def trans_fcvt_w_s_def trans_fcvt_wu_s_def trans_fcvt_s_w_def
  trans_fcvt_s_wu_def trans_fmv_x_w_def
  using assms by - (intro builds_intros; assumption)+

lemma trans_builds_7:
  assumes "B c ir"
  shows "r2_ok d argsr2 \<Longrightarrow> tw (trans_fmv_w_x d argsr2 ir) (Tr d c)" "r2m_ok d argsr2rm \<Longrightarrow> tw (trans_fcvt_l_s H d argsr2rm ir) (Tr d c)" "r2m_ok d argsr2rm \<Longrightarrow> tw (trans_fcvt_lu_s H d argsr2rm ir) (Tr d c)"
  "r2m_ok d argsr2rm \<Longrightarrow> tw (trans_fcvt_s_l H d argsr2rm ir) (Tr d c)" "r2m_ok d argsr2rm \<Longrightarrow> tw (trans_fcvt_s_lu H d argsr2rm ir) (Tr d c)" "r4_ok d argsr4rm \<Longrightarrow> tw (trans_fmadd_d H d argsr4rm ir) (Tr d c)"
  "r4_ok d argsr4rm \<Longrightarrow> tw (trans_fmsub_d H d argsr4rm ir) (Tr d c)" "r4_ok d argsr4rm \<Longrightarrow> tw (trans_fnmsub_d H d argsr4rm ir) (Tr d c)" "r4_ok d argsr4rm \<Longrightarrow> tw (trans_fnmadd_d H d argsr4rm ir) (Tr d c)"
  "rm_ok d argsrrm \<Longrightarrow> tw (trans_fadd_d H d argsrrm ir) (Tr d c)" "rm_ok d argsrrm \<Longrightarrow> tw (trans_fsub_d H d argsrrm ir) (Tr d c)" "rm_ok d argsrrm \<Longrightarrow> tw (trans_fmul_d H d argsrrm ir) (Tr d c)"
  "rm_ok d argsrrm \<Longrightarrow> tw (trans_fdiv_d H d argsrrm ir) (Tr d c)" "r2m_ok d argsr2rm \<Longrightarrow> tw (trans_fsqrt_d H d argsr2rm ir) (Tr d c)" "r_ok d argsr \<Longrightarrow> tw (trans_fsgnj_d H d argsr ir) (Tr d c)"
  "r_ok d argsr \<Longrightarrow> tw (trans_fsgnjn_d H d argsr ir) (Tr d c)" "r_ok d argsr \<Longrightarrow> tw (trans_fsgnjx_d H d argsr ir) (Tr d c)" "r_ok d argsr \<Longrightarrow> tw (trans_fmin_d H d argsr ir) (Tr d c)"
  "r_ok d argsr \<Longrightarrow> tw (trans_fmax_d H d argsr ir) (Tr d c)" "r_ok d argsr \<Longrightarrow> tw (trans_feq_d H d argsr ir) (Tr d c)"
  unfolding trans_fmv_w_x_def trans_fcvt_l_s_def trans_fcvt_lu_s_def trans_fcvt_s_l_def trans_fcvt_s_lu_def trans_fmadd_d_def
  trans_fmsub_d_def trans_fnmsub_d_def trans_fnmadd_d_def trans_fadd_d_def trans_fsub_d_def trans_fmul_d_def
  trans_fdiv_d_def trans_fsqrt_d_def trans_fsgnj_d_def trans_fsgnjn_d_def trans_fsgnjx_d_def trans_fmin_d_def
  trans_fmax_d_def trans_feq_d_def
  using assms by - (intro builds_intros; assumption)+

lemma trans_builds_8:
  assumes "B c ir"
  shows "r_ok d argsr \<Longrightarrow> tw (trans_flt_d H d argsr ir) (Tr d c)" "r_ok d argsr \<Longrightarrow> tw (trans_fle_d H d argsr ir) (Tr d c)" "r2_ok d argsr2 \<Longrightarrow> tw (trans_fclass_d H d argsr2 ir) (Tr d c)"
  "r2m_ok d argsr2rm \<Longrightarrow> tw (trans_fcvt_s_d H d argsr2rm ir) (Tr d c)" "r2m_ok d argsr2rm \<Longrightarrow> tw (trans_fcvt_d_s H d argsr2rm ir) (Tr d c)" "r2m_ok d argsr2rm \<Longrightarrow> tw (trans_fcvt_w_d H d argsr2rm ir) (Tr d c)"
  "r2m_ok d argsr2rm \<Longrightarrow> tw (trans_fcvt_wu_d H d argsr2rm ir) (Tr d c)" "r2m_ok d argsr2rm \<Longrightarrow> tw (trans_fcvt_d_w H d argsr2rm ir) (Tr d c)" "r2m_ok d argsr2rm \<Longrightarrow> tw (trans_fcvt_d_wu H d argsr2rm ir) (Tr d c)"
  "r2m_ok d argsr2rm \<Longrightarrow> tw (trans_fcvt_l_d H d argsr2rm ir) (Tr d c)" "r2m_ok d argsr2rm \<Longrightarrow> tw (trans_fcvt_lu_d H d argsr2rm ir) (Tr d c)" "r2m_ok d argsr2rm \<Longrightarrow> tw (trans_fcvt_d_l H d argsr2rm ir) (Tr d c)"
  "r2m_ok d argsr2rm \<Longrightarrow> tw (trans_fcvt_d_lu H d argsr2rm ir) (Tr d c)" "r2_ok d argsr2 \<Longrightarrow> tw (trans_fmv_x_d d argsr2 ir) (Tr d c)" "r2_ok d argsr2 \<Longrightarrow> tw (trans_fmv_d_x d argsr2 ir) (Tr d c)"
  unfolding trans_flt_d_def trans_fle_d_def trans_fclass_d_def trans_fcvt_s_d_def trans_fcvt_d_s_def trans_fcvt_w_d_def
  trans_fcvt_wu_d_def trans_fcvt_d_w_def trans_fcvt_d_wu_def trans_fcvt_l_d_def trans_fcvt_lu_d_def trans_fcvt_d_l_def
  trans_fcvt_d_lu_def trans_fmv_x_d_def trans_fmv_d_x_def
  using assms by - (intro builds_intros; assumption)+

lemmas trans_builds = trans_builds_1 trans_builds_2 trans_builds_3 trans_builds_4 trans_builds_5 trans_builds_6 trans_builds_7 trans_builds_8

section \<open>Decoding\<close>

definition fields_ok :: "RiscvDisasContext \<Rightarrow> (string \<Rightarrow> i64) \<Rightarrow> bool" where
  "fields_ok d f \<longleftrightarrow> (\<forall>n \<in> set REG_FIELDS. reg_ok d (f n))"

lemma fields_args_ok:
  assumes "fields_ok d f"
  shows "b_ok d \<lparr>b_imm = f ''imm'', b_rs2 = f ''rs2'', b_rs1 = f ''rs1''\<rparr>"
    "i_ok d \<lparr>i_imm = f ''imm'', i_rs1 = f ''rs1'', i_rd = f ''rd''\<rparr>" "j_ok d \<lparr>j_imm = f ''imm'', j_rd = f ''rd''\<rparr>"
    "r_ok d \<lparr>r_rd = f ''rd'', r_rs1 = f ''rs1'', r_rs2 = f ''rs2''\<rparr>" "r2_ok d \<lparr>r2_rd = f ''rd'', r2_rs1 = f ''rs1''\<rparr>"
    "r2m_ok d \<lparr>r2m_rd = f ''rd'', r2m_rs1 = f ''rs1'', r2m_rm = f ''rm''\<rparr>"
    "rm_ok d \<lparr>rm_rd = f ''rd'', rm_rs1 = f ''rs1'', rm_rs2 = f ''rs2'', rm_rm = f ''rm''\<rparr>"
    "r4_ok d \<lparr>r4_rd = f ''rd'', r4_rs1 = f ''rs1'', r4_rs2 = f ''rs2'', r4_rs3 = f ''rs3'', r4_rm = f ''rm''\<rparr>"
    "s_ok d \<lparr>s_imm = f ''imm'', s_rs1 = f ''rs1'', s_rs2 = f ''rs2''\<rparr>" "u_ok d \<lparr>u_imm = f ''imm'', u_rd = f ''rd''\<rparr>"
    "sh_ok d \<lparr>sh_shamt = f ''shamt'', sh_rs1 = f ''rs1'', sh_rd = f ''rd''\<rparr>"
    "at_ok d \<lparr>at_aq = f ''aq'', at_rl = f ''rl'', at_rs2 = f ''rs2'', at_rs1 = f ''rs1'', at_rd = f ''rd''\<rparr>"
    "csr_ok d \<lparr>csr_csr = f ''csr'', csr_rs1 = f ''rs1'', csr_rd = f ''rd''\<rparr>"
  using assms by (simp_all add: fields_ok_def REG_FIELDS_def b_ok_def i_ok_def j_ok_def r_ok_def r2_ok_def r2m_ok_def rm_ok_def
    r4_ok_def s_ok_def u_ok_def sh_ok_def at_ok_def csr_ok_def)

lemma decode_call_builds:
  assumes "fields_ok d f" "B c ir"
  shows "list_all (\<lambda>(n, t). tw (t ir) (Tr d c)) (decode_call H d f)" "list_all (\<lambda>(n, t). tw (t ir) (Tr d c)) (decode16_call H d f)"
  unfolding decode_call_def decode16_call_def list.pred_inject(2) prod.case
  by (intro conjI list.pred_inject(1) trans_builds fields_args_ok assms tw_keep tw_ends)+

lemma decode_names: "map fst (decode_call H d f) = names32" "map fst (decode16_call H d f) = names16"
  by (simp_all add: names32_def names16_def decode_call_def decode16_call_def)

text \<open>
  What the translator relies on from the generated decoders: extraction does not panic, every
  pattern has its method, and register fields are register numbers.
\<close>

definition decoder_ok :: "nat \<Rightarrow> string list \<Rightarrow> Parsed \<Rightarrow> bool" where
  "decoder_ok width names ps \<longleftrightarrow> (\<forall>insn. tw (generated_decoder width ps insn)
     (\<lambda>r. \<forall>n args. r = CallTrans n args \<longrightarrow> n \<in> set names \<and> (\<forall>f \<in> set REG_FIELDS. unat (field_value args f) < 32)))"

lemma decoder_ok_check: "table_check width names REG_FIELDS ps \<Longrightarrow> decoder_ok width names ps"
  unfolding decoder_ok_def tw_def by (blast intro: table_check_sound)

definition program_ok :: "Program \<Rightarrow> bool" where
  "program_ok P \<longleftrightarrow> decoder_ok 32 names32 (ps32 P) \<and> decoder_ok 16 names16 (ps16 P)"

lemma call_builds:
  assumes dec: "tw x (\<lambda>r. \<forall>n args. r = CallTrans n args \<longrightarrow> n \<in> set names \<and> (\<forall>f \<in> set REG_FIELDS. unat (field_value args f) < 32))"
    and call: "\<And>args. fields_ok d (field_value args) \<Longrightarrow> list_all (\<lambda>(n, t). tw (t ir) (Tr d c)) (tab args)"
    and tab: "\<And>args. map fst (tab args) = names" and d: "length (d_gpr d) = 32" and ir: "B c ir"
  shows "tw (call_trans x (\<lambda>n args. map_of (tab args) n) d ir) (Tr d c)"
proof -
  obtain r where x: "x = Some r" and r: "\<forall>n args. r = CallTrans n args \<longrightarrow> n \<in> set names \<and> (\<forall>f \<in> set REG_FIELDS. unat (field_value args f) < 32)"
    using dec by (auto simp: tw_def)
  show ?thesis
  proof (cases r)
    case NoMatch
    then show ?thesis using x ir by (simp add: call_trans_def tw_ends)
  next
    case (CallTrans n args)
    then have n: "n \<in> set names" "fields_ok d (field_value args)" using r d by (auto simp: fields_ok_def reg_ok_def)
    then obtain t where t: "map_of (tab args) n = Some t" using tab [of args] by (metis map_of_eq_None_iff not_None_eq set_map)
    then have "tw (t ir) (Tr d c)" using call [OF n(2)] by (auto simp: list_all_iff dest: map_of_SomeD)
    then show ?thesis using x CallTrans t by (simp add: call_trans_def)
  qed
qed

lemma decoders_build:
  assumes "program_ok P" "length (d_gpr d) = 32" "B c ir"
  shows "tw (decode32 P d insn ir) (Tr d c)" "tw (decode16 P d half ir) (Tr d c)"
  unfolding decode32_def decode16_def
  by (rule call_builds [where names = names32]; use assms decode_call_builds(1) [OF _ assms(3)] in \<open>simp add: program_ok_def decoder_ok_def decode_names\<close>)
    (rule call_builds [where names = names16]; use assms decode_call_builds(2) [OF _ assms(3)] in \<open>simp add: program_ok_def decoder_ok_def decode_names\<close>)

section \<open>The translation loop\<close>

definition same_setup :: "RiscvDisasContext \<Rightarrow> RiscvDisasContext \<Rightarrow> bool" where
  "same_setup d d' \<longleftrightarrow> d_gpr d' = d_gpr d \<and> d_pc d' = d_pc d \<and> d_env d' = d_env d \<and> d_load_res d' = d_load_res d \<and>
     d_load_val d' = d_load_val d \<and> d_cfg d' = d_cfg d \<and> d_guest_base d' = d_guest_base d \<and>
     b_max_insns (d_base d') = b_max_insns (d_base d)"

lemma unatSuc_small: "unat x + 1 < 2 ^ 32 \<Longrightarrow> unat (x + 1) = unat x + 1" for x :: u32
  by (simp add: unat_plus_if')

lemma same_setup_trans: "same_setup d e \<Longrightarrow> same_setup e f \<Longrightarrow> same_setup d f"
  by (simp add: same_setup_def)

lemma tw_bind_step:
  "tw f (\<lambda>(d, ir). R d ir \<and> B c ir) \<Longrightarrow> (\<And>d ir. R d ir \<Longrightarrow> B c ir \<Longrightarrow> tw (g d ir) Q) \<Longrightarrow> tw (f \<bind> (\<lambda>(d, ir). g d ir)) Q"
  by (rule tw_bind, erule tw_mono) auto

lemma insn_start_builds:
  assumes "B c ir"
  shows "tw (rv_insn_start d ir) (\<lambda>(d', ir'). (same_setup d d' \<and> num_insns (d_base d') = num_insns (d_base d) + 1 \<and>
    is_jmp (d_base d') = is_jmp (d_base d)) \<and> B c ir')"
  unfolding rv_insn_start_def
  by (rule tw_bind_pair [OF emit_builds [OF assms builder_methods(32)]]) (simp add: tw_def same_setup_def set_base_def)

lemma undef_builds:
  assumes "B c ir"
  shows "tw (gen_undef d ir) (\<lambda>(d', ir'). (d' = end_block d \<and> ends ir') \<and> B c ir')"
proof -
  have fin: "B c x \<Longrightarrow> ends x \<Longrightarrow> tw (Some (end_block d, x)) (\<lambda>(d', ir'). (d' = end_block d \<and> ends ir') \<and> B c ir')" for x
    by (simp add: tw_def)
  show ?thesis unfolding gen_undef_def using assms by - (intro fin builds_basic; assumption)+
qed

text \<open>One instruction: the setup stays, the count stays, and the block ends only with an exit.\<close>

definition went_on :: "RiscvDisasContext \<Rightarrow> RiscvDisasContext \<Rightarrow> Context \<Rightarrow> bool" where
  "went_on d d' ir' \<longleftrightarrow> same_setup d d' \<and> num_insns (d_base d') = num_insns (d_base d) \<and>
     (is_jmp (d_base d') = is_jmp (d_base d) \<or> is_jmp (d_base d') = NoReturn \<and> ends ir')"

lemma decode_builds:
  assumes "program_ok P" "length (d_gpr d) = 32" "B c ir"
  shows "tw (rv_decode P d ir) (\<lambda>(r, d', ir'). went_on d d' ir' \<and> B c ir')"
proof -
  have dec: "tw (decode32 P e insn ir) (Tr e c)" "tw (decode16 P e half ir) (Tr e c)" if "d_gpr e = d_gpr d" for e insn half
    using decoders_build [OF assms(1) _ assms(3)] assms(2) that by simp_all
  show ?thesis
    unfolding rv_decode_def Let_def
    by (intro tw_ifI; (rule tw_mono [OF dec(2)] tw_mono [OF dec(1)])?)
      (use assms(3) in \<open>auto simp: Tr_def tw_def went_on_def same_setup_def end_block_def set_base_def\<close>)
qed

lemma translate_insn_builds:
  assumes "program_ok P" "length (d_gpr d) = 32" "B c ir"
  shows "tw (rv_translate_insn P d ir) (\<lambda>(d', ir'). went_on d d' ir' \<and> B c ir')"
proof -
  have undef: "tw (if \<not> r then gen_undef e x else Some (e, x)) (\<lambda>(d', ir'). went_on d d' ir' \<and> B c ir')" if "went_on d e x" "B c x" for r e x
    using that by (cases r) (auto intro!: tw_mono [OF undef_builds] tw_Some simp: went_on_def same_setup_def set_base_def end_block_def)
  have tail: "tw ((if \<not> r then gen_undef e x else Some (e, x)) \<bind>
      (\<lambda>(d, ir). Some (set_base (\<lambda>b. b\<lparr>pc_next := pc_next b + ucast (d_cur_insn_len d)\<rparr>) d, ir)))
    (\<lambda>(d', ir'). went_on d d' ir' \<and> B c ir')" if "went_on d e x" "B c x" for r e x
    by (rule tw_bind_step [OF undef [OF that]]) (auto intro!: tw_Some simp: went_on_def same_setup_def set_base_def)
  show ?thesis
    unfolding rv_translate_insn_def by (rule tw_bind, rule tw_mono [OF decode_builds [OF assms]]) (use tail in auto)
qed

lemma tb_stop_builds:
  assumes "B c ir" "is_jmp (d_base d) = NoReturn \<longrightarrow> ends ir"
  shows "tw (rv_tb_stop d ir) (\<lambda>(d', ir'). (d' = d \<and> ends ir') \<and> B c ir')"
proof -
  have fin: "B c x \<Longrightarrow> ends x \<Longrightarrow> tw (Some (d, x)) (\<lambda>(d', ir'). (d' = d \<and> ends ir') \<and> B c ir')" for x by (simp add: tw_def)
  have "tw (emit (new_const I64 (pc_next (d_base d))) ir \<bind> (\<lambda>(t, ir). emit (gen_mov I64 (d_pc d) t) ir \<bind>
      (\<lambda>(_, ir). emit (gen_goto_tb 0) ir \<bind> (\<lambda>(_, ir). emit (gen_exit_tb TB_EXIT_IDX0) ir \<bind> (\<lambda>(_, ir). Some (d, ir))))))
      (\<lambda>(d', ir'). (d' = d \<and> ends ir') \<and> B c ir')"
    using assms(1) by - (intro fin builds_basic; assumption)+
  then show ?thesis unfolding rv_tb_stop_def using fin [OF assms(1)] assms(2) by (cases "is_jmp (d_base d)") simp_all
qed

text \<open>The state in which the loop leaves, having translated between one and \<open>mx\<close> instructions.\<close>

definition stopped :: "nat \<Rightarrow> RiscvDisasContext \<Rightarrow> RiscvDisasContext \<Rightarrow> Context \<Rightarrow> bool" where
  "stopped n d d' ir' \<longleftrightarrow> same_setup d d' \<and> is_jmp (d_base d') \<noteq> DNext \<and> (is_jmp (d_base d') = NoReturn \<longrightarrow> ends ir') \<and>
     n < unat (num_insns (d_base d')) \<and> unat (num_insns (d_base d')) \<le> max (n + 1) (unat (b_max_insns (d_base d)))"

lemma insn_loop_builds:
  assumes P: "program_ok P"
  shows "length (d_gpr d) = 32 \<Longrightarrow> B c ir \<Longrightarrow> unat (num_insns (d_base d)) + 1 < 2 ^ 32 \<Longrightarrow> is_jmp (d_base d) = DNext \<Longrightarrow>
    tw (insn_loop (RiscvTranslator P) d ir) (\<lambda>(d', ir'). stopped (unat (num_insns (d_base d))) d d' ir' \<and> B c ir')"
proof (induction "unat (b_max_insns (d_base d)) - unat (num_insns (d_base d))" arbitrary: d ir rule: less_induct)
  case less
  let ?n = "num_insns (d_base d)" and ?m = "b_max_insns (d_base d)"
  have n1: "unat (?n + 1) = unat ?n + 1" using less.prems(3) by (intro unatSuc_small) simp
  have ops: "insn_start (RiscvTranslator P) = rv_insn_start" "translate_insn (RiscvTranslator P) = rv_translate_insn P"
    "base (RiscvTranslator P) = d_base" "base_mut (RiscvTranslator P) = set_base" by (simp_all add: RiscvTranslator_def)
  let ?Q = "\<lambda>(d', ir'). stopped (unat ?n) d d' ir' \<and> B c ir'"
  let ?rest = "\<lambda>d ir. if is_jmp (d_base d) \<noteq> DNext then Some (d, ir)
      else if num_insns (d_base d) \<ge> b_max_insns (d_base d) then Some (set_base (\<lambda>b. b\<lparr>is_jmp := TooMany\<rparr>) d, ir)
      else insn_loop (RiscvTranslator P) d ir"
  have rest: "tw (?rest e x) ?Q"
    if e: "same_setup d e" "num_insns (d_base e) = ?n + 1" "is_jmp (d_base e) = DNext \<or> is_jmp (d_base e) = NoReturn \<and> ends x" "B c x" for e x
  proof (intro tw_ifI)
    assume "is_jmp (d_base e) \<noteq> DNext"
    then show "tw (Some (e, x)) ?Q" using e n1 by (auto simp: tw_def stopped_def)
  next
    show "tw (Some (set_base (\<lambda>b. b\<lparr>is_jmp := TooMany\<rparr>) e, x)) ?Q" using e n1 by (simp add: tw_def stopped_def same_setup_def set_base_def)
  next
    assume more: "\<not> is_jmp (d_base e) \<noteq> DNext" "\<not> num_insns (d_base e) \<ge> b_max_insns (d_base e)"
    then have lt: "unat ?n + 1 < unat ?m" using e n1 by (simp add: same_setup_def word_le_nat_alt)
    then have "unat (num_insns (d_base e)) + 1 < 2 ^ 32" using n1 e(2) unat_u32_lt [of ?m] by simp
    note hyp = less.hyps [OF _ _ e(4) this]
    have m: "b_max_insns (d_base e) = ?m" "length (d_gpr e) = 32" using e(1) less.prems(1) by (simp_all add: same_setup_def)
    show "tw (insn_loop (RiscvTranslator P) e x) ?Q"
      by (rule tw_mono [OF hyp]) (use lt n1 e(2) m more same_setup_trans [OF e(1)] in \<open>auto simp: stopped_def split: prod.splits\<close>)
  qed
  have mid: "tw (rv_translate_insn P e x \<bind> (\<lambda>(d, ir). ?rest d ir)) ?Q"
    if e: "same_setup d e" "num_insns (d_base e) = ?n + 1" "is_jmp (d_base e) = DNext" "B c x" for e x
  proof -
    have "length (d_gpr e) = 32" using e(1) less.prems(1) by (simp add: same_setup_def)
    note step = translate_insn_builds [OF P this e(4)]
    show ?thesis by (rule tw_bind_step [OF step], rule rest [OF same_setup_trans [OF e(1)]]) (use e(2,3) in \<open>auto simp: went_on_def\<close>)
  qed
  show ?case
    unfolding insn_loop.simps [of "RiscvTranslator P" d ir] ops
    by (rule tw_bind_step [OF insn_start_builds [OF less.prems(2)]], rule mid) (use less.prems(4) in auto)
qed

section \<open>Registering the globals\<close>

text \<open>What registering a global does: one more temp, the labels untouched.\<close>

definition grew :: "nat \<Rightarrow> Context \<Rightarrow> Context \<Rightarrow> bool" where
  "grew n c c' \<longleftrightarrow> length (temps c') = length (temps c) + n \<and> nb_globals c' = of_nat (length (temps c')) \<and> labels c' = labels c \<and>
     ops c' = ops c \<and> (ctx_inv c \<longrightarrow> ctx_inv c')"

lemma new_global_grew:
  assumes "nb_globals c = of_nat (length (temps c))" "length (temps c) + 1 < 2 ^ 32"
  shows "tw (new_global ty b off name c) (\<lambda>(t, c'). t = of_nat (length (temps c)) \<and> grew 1 c c')"
    "tw (new_fixed ty r name c) (\<lambda>(t, c'). t = of_nat (length (temps c)) \<and> grew 1 c c')"
proof -
  have room: "room c" using assms(2) by simp
  have "ctx_inv c \<Longrightarrow> new_global ty b off name c = Some (t, c') \<Longrightarrow> ctx_inv c'" for t c'
    using ctx_wf_new_global [OF _ room] by (auto simp: ctx_inv_def new_global_def Let_def split: if_splits)
  then show "tw (new_global ty b off name c) (\<lambda>(t, c'). t = of_nat (length (temps c)) \<and> grew 1 c c')"
    using assms(1) by (simp add: new_global_def Let_def tw_def grew_def)
  have "ctx_inv c \<Longrightarrow> new_fixed ty r name c = Some (t, c') \<Longrightarrow> ctx_inv c'" for t c'
    using ctx_wf_new_fixed [OF _ room] by (auto simp: ctx_inv_def new_fixed_def Let_def split: if_splits)
  then show "tw (new_fixed ty r name c) (\<lambda>(t, c'). t = of_nat (length (temps c)) \<and> grew 1 c c')"
    using assms(1) by (simp add: new_fixed_def Let_def tw_def grew_def)
qed

lemma grew_trans: "grew m a b \<Longrightarrow> grew n b c \<Longrightarrow> grew (m + n) a c"
  by (auto simp: grew_def)

text \<open>Registering keeps the labels and the shape of the disassembly context, whatever it starts from.\<close>

definition registered :: "RiscvDisasContext \<Rightarrow> Context \<Rightarrow> RiscvDisasContext \<Rightarrow> Context \<Rightarrow> bool" where
  "registered d ir d' ir' \<longleftrightarrow> labels ir' = labels ir \<and> length (d_gpr d') = length (d_gpr d) \<and> d_base d' = d_base d"

lemma new_global_labels:
  "new_global ty b off name c = Some (t, c') \<Longrightarrow> labels c' = labels c" "new_fixed ty r name c = Some (t, c') \<Longrightarrow> labels c' = labels c"
  by (auto simp: new_global_def new_fixed_def Let_def split: if_splits)

lemma register_gprs_registered: "register_gprs n d ir = Some (d', ir') \<Longrightarrow> registered d ir d' ir'"
  by (induction n arbitrary: d' ir') (fastforce simp: registered_def index_set_def bind_eq_Some_conv split: if_splits dest: new_global_labels)+

lemma init_registered: "rv_init_disas_context d ir = Some (d', ir') \<Longrightarrow> registered d ir d' ir'"
  unfolding rv_init_disas_context_def
  by (fastforce simp: registered_def bind_eq_Some_conv dest: new_global_labels register_gprs_registered)

text \<open>On a context that holds only globals it succeeds.\<close>

lemma register_gprs_grew:
  assumes "nb_globals ir = of_nat (length (temps ir))" "length (temps ir) + n < 2 ^ 32" "n \<le> length (d_gpr d)"
  shows "tw (register_gprs n d ir) (\<lambda>(d', ir'). length (d_gpr d') = length (d_gpr d) \<and> grew n ir ir')"
  using assms(2,3)
proof (induction n)
  case 0
  then show ?case using assms(1) by (simp add: tw_def grew_def)
next
  case (Suc n)
  then obtain d' ir' where n: "register_gprs n d ir = Some (d', ir')" "length (d_gpr d') = length (d_gpr d)" "grew n ir ir'"
    by (auto simp: tw_def)
  then have "nb_globals ir' = of_nat (length (temps ir'))" "length (temps ir') + 1 < 2 ^ 32" using Suc.prems by (simp_all add: grew_def)
  note new = new_global_grew(1) [OF this, of I64 "d_env d'" "gpr_offset n" "''gpr''"]
  show ?case
    unfolding register_gprs.simps n(1) bind.bind_lunit prod.case
    by (rule tw_bind, rule tw_mono [OF new]) (use n Suc.prems in \<open>auto simp: index_set_def tw_def grew_def\<close>)
qed

end
