(* ===== verification/Riscv_Sem.thy ===== *)
theory Riscv_Sem
  imports Riscv_Built Codegen_Sound "HOL-Library.Signed_Division"
begin

text \<open>
  What the IR of a translated instruction does. The machine of the IR is the host's memory; the meaning of
  the opcodes is the one the code generator is proved to implement (\<open>cond_val\<close>, \<open>guest_load\<close>, \<open>guest_store\<close>), extended by
  the double-width products and quotients of the IR reference. A translation is described by what it knows
  of the temps it works on and by the list of ops it has emitted.
\<close>

section \<open>The machine\<close>

definition double :: "'a::len word \<Rightarrow> 'a word \<Rightarrow> int" where
  "double hi lo = sint hi * 2 ^ LENGTH('a) + uint lo"

definition udouble :: "'a::len word \<Rightarrow> 'a word \<Rightarrow> int" where
  "udouble hi lo = uint hi * 2 ^ LENGTH('a) + uint lo"

definition div_vals :: "bool \<Rightarrow> 'a::len word list \<Rightarrow> 'a word list" where
  "div_vals sg vs =
     (case vs of
        [al, ah, b] \<Rightarrow>
          if sg then [word_of_int (double ah al sdiv sint b), word_of_int (double ah al smod sint b)]
          else [word_of_int (udouble ah al div uint b), word_of_int (udouble ah al mod uint b)]
      | _ \<Rightarrow> [])"

text \<open>
  The host faults when the divisor is zero or the quotient does not fit. What happens then is not specified: the
  contents of the memory afterwards are unknown.
\<close>

definition div_faults :: "bool \<Rightarrow> 'a::len word list \<Rightarrow> bool" where
  "div_faults sg vs =
     (case vs of
        [al, ah, b] \<Rightarrow> b = 0 \<or>
          (if sg then sint (word_of_int (double ah al sdiv sint b) :: 'a word) \<noteq> double ah al sdiv sint b
           else uint (word_of_int (udouble ah al div uint b) :: 'a word) \<noteq> udouble ah al div uint b)
      | _ \<Rightarrow> False)"

definition faults_at :: "Type \<Rightarrow> bool \<Rightarrow> u64 list \<Rightarrow> bool" where
  "faults_at ty sg vs \<longleftrightarrow> (if ty = I32 then div_faults sg (map ucast vs :: u32 list) else div_faults sg vs)"

definition at_type_list :: "Type \<Rightarrow> (u32 list \<Rightarrow> u32 list) \<Rightarrow> (u64 list \<Rightarrow> u64 list) \<Rightarrow> u64 list \<Rightarrow> u64 list" where
  "at_type_list ty f g vs = (if ty = I32 then map ucast (f (map ucast vs)) else g vs)"

definition mul_vals :: "MulWOp \<Rightarrow> u64 list \<Rightarrow> u64 list" where
  "mul_vals x vs =
     (case vs of
        [a, b] \<Rightarrow>
          (case x of
             MulSH \<Rightarrow> [word_of_int (sint a * sint b div 2 ^ 64)]
           | MulUH \<Rightarrow> [word_of_int (uint a * uint b div 2 ^ 64)]
           | MulS2 \<Rightarrow> [a * b, word_of_int (sint a * sint b div 2 ^ 64)]
           | MulU2 \<Rightarrow> [a * b, word_of_int (uint a * uint b div 2 ^ 64)])
      | _ \<Rightarrow> [])"

definition machine :: "u64 \<Rightarrow> (u64 \<Rightarrow> u8) sem" where
  "machine gb opc ty vs cs m =
     (case opc of
        OMov x \<Rightarrow> (case cond_val x ty vs cs of Some v \<Rightarrow> [v] | None \<Rightarrow> [], m)
      | OArith DivS2 \<Rightarrow> (at_type_list ty (div_vals True) (div_vals True) vs, if faults_at ty True vs then undefined else m)
      | OArith DivU2 \<Rightarrow> (at_type_list ty (div_vals False) (div_vals False) vs, if faults_at ty False vs then undefined else m)
      | OMulW x \<Rightarrow> (mul_vals x vs, m)
      | OGuest QemuLd \<Rightarrow> ([trunc ty (guest_load (MemOp (ucast (cs ! 0))) (gb + vs ! 0) m)], m)
      | OGuest QemuSt \<Rightarrow> ([], guest_store (MemOp (ucast (cs ! 0))) (gb + vs ! 1) (vs ! 0) m)
      | _ \<Rightarrow> ([], m))"

section \<open>Single ops\<close>

type_synonym xop = "Opcode \<times> Type \<times> tempidx list"

definition xop_of :: "xop \<Rightarrow> Op" where
  "xop_of x = (case x of (opc, ty, args) \<Rightarrow> op_with_args 0 opc ty args)"

definition xrun :: "u64 \<Rightarrow> Temp list \<Rightarrow> xop list \<Rightarrow> (u64 \<Rightarrow> u8) ir_state \<Rightarrow> (u64 \<Rightarrow> u8) IR_Semantics.outcome" where
  "xrun gb ts xs st = exec_ops (machine gb) ts (map xop_of xs) st"

lemma xrun_Nil [simp]: "xrun gb ts [] st = Next st"
  by (simp add: xrun_def)

lemma xrun_step: "exec_op (machine gb) ts (xop_of x) st = Next st' \<Longrightarrow> xrun gb ts (x # xs) st = xrun gb ts xs st'"
  by (simp add: xrun_def)

lemmas arg_defs = xop_of_def op_with_args_def op_new_def oargs_def iargs_def cargs_def MAX_OP_ARGS_def Let_def

lemma x_arith:
  "xrun gb ts ((OArith Add, I64, [d, a, b]) # xs) st = xrun gb ts xs (wr ts d (rd ts st a + rd ts st b) st)"
  "xrun gb ts ((OArith Sub, I64, [d, a, b]) # xs) st = xrun gb ts xs (wr ts d (rd ts st a - rd ts st b) st)"
  "xrun gb ts ((OArith Mul, I64, [d, a, b]) # xs) st = xrun gb ts xs (wr ts d (rd ts st a * rd ts st b) st)"
  "xrun gb ts ((OArith Neg, I64, [d, a]) # xs) st = xrun gb ts xs (wr ts d (- rd ts st a) st)"
  "xrun gb ts ((OArith Neg, I32, [d, a]) # xs) st = xrun gb ts xs (wr ts d (ucast (- ucast (rd ts st a) :: u32)) st)"
  "xrun gb ts ((OLogic And, I64, [d, a, b]) # xs) st = xrun gb ts xs (wr ts d (rd ts st a AND rd ts st b) st)"
  "xrun gb ts ((OLogic Or, I64, [d, a, b]) # xs) st = xrun gb ts xs (wr ts d (rd ts st a OR rd ts st b) st)"
  "xrun gb ts ((OLogic Xor, I64, [d, a, b]) # xs) st = xrun gb ts xs (wr ts d (rd ts st a XOR rd ts st b) st)"
  "xrun gb ts ((OMov Mov, I64, [d, a]) # xs) st = xrun gb ts xs (wr ts d (rd ts st a) st)"
  by (rule xrun_step, simp add: exec_op_def arg_defs pure_val_def at_width_def int_val_def)+

lemma x_shift:
  "xrun gb ts ((OShift Shl, I64, [d, a, b]) # xs) st = xrun gb ts xs (wr ts d (push_bit (unat (rd ts st b) mod 64) (rd ts st a)) st)"
  "xrun gb ts ((OShift Shr, I64, [d, a, b]) # xs) st = xrun gb ts xs (wr ts d (drop_bit (unat (rd ts st b) mod 64) (rd ts st a)) st)"
  "xrun gb ts ((OShift Sar, I64, [d, a, b]) # xs) st = xrun gb ts xs (wr ts d (signed_drop_bit (unat (rd ts st b) mod 64) (rd ts st a)) st)"
  "xrun gb ts ((OShift Shl, I32, [d, a, b]) # xs) st =
     xrun gb ts xs (wr ts d (ucast (push_bit (unat (ucast (rd ts st b) :: u32) mod 32) (ucast (rd ts st a) :: u32))) st)"
  "xrun gb ts ((OShift Shr, I32, [d, a, b]) # xs) st =
     xrun gb ts xs (wr ts d (ucast (drop_bit (unat (ucast (rd ts st b) :: u32) mod 32) (ucast (rd ts st a) :: u32))) st)"
  "xrun gb ts ((OShift Sar, I32, [d, a, b]) # xs) st =
     xrun gb ts xs (wr ts d (ucast (signed_drop_bit (unat (ucast (rd ts st b) :: u32) mod 32) (ucast (rd ts st a) :: u32))) st)"
  by (rule xrun_step, simp add: exec_op_def arg_defs pure_val_def at_width_def int_val_def shift_val_def)+

lemma x_conv:
  "xrun gb ts ((OConv ExtI32I64, ty, [d, a]) # xs) st = xrun gb ts xs (wr ts d (scast (ucast (rd ts st a) :: u32)) st)"
  "xrun gb ts ((OConv ExtrlI64I32, ty, [d, a]) # xs) st = xrun gb ts xs (wr ts d (ucast (ucast (rd ts st a) :: u32)) st)"
  by (rule xrun_step, simp add: exec_op_def arg_defs pure_val_def)+

lemma x_cond:
  "xrun gb ts ((OMov SetCond, ty, [d, a, b, carg (cond_as_u32 c)]) # xs) st =
     xrun gb ts xs (wr ts d (of_bool (cond_at ty c (rd ts st a) (rd ts st b))) st)"
  "xrun gb ts ((OMov MovCond, ty, [d, a, b, x, y, carg (cond_as_u32 c)]) # xs) st =
     xrun gb ts xs (wr ts d (trunc ty (if cond_at ty c (rd ts st a) (rd ts st b) then rd ts st x else rd ts st y)) st)"
  by (rule xrun_step, simp add: exec_op_def arg_defs pure_val_def at_width_def int_val_def exec_other_def machine_def cond_val_def carg_def)+

definition faulted :: "bool \<Rightarrow> 'm ir_state \<Rightarrow> 'm ir_state" where
  "faulted f st = st\<lparr>mem := if f then undefined else mem st\<rparr>"

lemma faulted_simps [simp]: "tv (faulted f st) = tv st" "rd ts (faulted f st) t = rd ts st t" "mem (faulted False st) = mem st"
  by (simp_all add: faulted_def rd_def Let_def)

lemma x_wide:
  "xrun gb ts ((OArith DivS2, I64, [q, r, al, ah, b]) # xs) st =
     xrun gb ts xs (wr ts r (word_of_int (double (rd ts st ah) (rd ts st al) smod sint (rd ts st b)))
       (wr ts q (word_of_int (double (rd ts st ah) (rd ts st al) sdiv sint (rd ts st b))) (faulted (div_faults True [rd ts st al, rd ts st ah, rd ts st b]) st)))"
  "xrun gb ts ((OArith DivU2, I64, [q, r, al, ah, b]) # xs) st =
     xrun gb ts xs (wr ts r (word_of_int (udouble (rd ts st ah) (rd ts st al) mod uint (rd ts st b)))
       (wr ts q (word_of_int (udouble (rd ts st ah) (rd ts st al) div uint (rd ts st b))) (faulted (div_faults False [rd ts st al, rd ts st ah, rd ts st b]) st)))"
  "xrun gb ts ((OArith DivS2, I32, [q, r, al, ah, b]) # xs) st =
     xrun gb ts xs (wr ts r (ucast (word_of_int (double (ucast (rd ts st ah) :: u32) (ucast (rd ts st al)) smod sint (ucast (rd ts st b) :: u32)) :: u32))
       (wr ts q (ucast (word_of_int (double (ucast (rd ts st ah) :: u32) (ucast (rd ts st al)) sdiv sint (ucast (rd ts st b) :: u32)) :: u32))
         (faulted (div_faults True [ucast (rd ts st al) :: u32, ucast (rd ts st ah), ucast (rd ts st b)]) st)))"
  "xrun gb ts ((OArith DivU2, I32, [q, r, al, ah, b]) # xs) st =
     xrun gb ts xs (wr ts r (ucast (word_of_int (udouble (ucast (rd ts st ah) :: u32) (ucast (rd ts st al)) mod uint (ucast (rd ts st b) :: u32)) :: u32))
       (wr ts q (ucast (word_of_int (udouble (ucast (rd ts st ah) :: u32) (ucast (rd ts st al)) div uint (ucast (rd ts st b) :: u32)) :: u32))
         (faulted (div_faults False [ucast (rd ts st al) :: u32, ucast (rd ts st ah), ucast (rd ts st b)]) st)))"
  "xrun gb ts ((OMulW MulS2, I64, [l, h, a, b]) # xs) st =
     xrun gb ts xs (wr ts h (word_of_int (sint (rd ts st a) * sint (rd ts st b) div 2 ^ 64)) (wr ts l (rd ts st a * rd ts st b) st))"
  "xrun gb ts ((OMulW MulU2, I64, [l, h, a, b]) # xs) st =
     xrun gb ts xs (wr ts h (word_of_int (uint (rd ts st a) * uint (rd ts st b) div 2 ^ 64)) (wr ts l (rd ts st a * rd ts st b) st))"
  by (rule xrun_step, simp add: exec_op_def arg_defs pure_val_def at_width_def int_val_def exec_other_def machine_def div_vals_def at_type_list_def
      mul_vals_def faulted_def faults_at_def)+

lemma ucast_16_32 [simp]: "ucast (ucast (x :: u16) :: u32) = x"
  by (rule bit_word_eqI) (simp add: bit_unsigned_iff)

lemma memop_again [simp]: "MemOp (memop_bits mo) = mo"
  by (cases mo) simp

lemma x_guest:
  "xrun gb ts ((OGuest QemuLd, I64, [d, a, carg (ucast (memop_bits mo))]) # xs) st =
     xrun gb ts xs (wr ts d (guest_load mo (gb + rd ts st a) (mem st)) st)"
  "xrun gb ts ((OGuest QemuSt, I64, [v, a, carg (ucast (memop_bits mo))]) # xs) st =
     xrun gb ts xs (st\<lparr>mem := guest_store mo (gb + rd ts st a) (rd ts st v) (mem st)\<rparr>)"
  by (rule xrun_step, simp add: exec_op_def arg_defs pure_val_def at_width_def int_val_def exec_other_def machine_def carg_def)+

lemma x_ctl:
  "xrun gb ts ((OCtl GotoTb, ty, args) # xs) st = xrun gb ts xs st"
  "xrun gb ts ((OCtl SetLabel, ty, args) # xs) st = xrun gb ts xs st"
  "xrun gb ts ((OCtl ExitTb, ty, [v]) # xs) st = IR_Semantics.Exit (ucast v) st"
  "xrun gb ts ((OCtl BrCond, I64, [a, b, carg (cond_as_u32 c), l]) # xs) st =
     (if cond_at I64 c (rd ts st a) (rd ts st b) then Jump l st else xrun gb ts xs st)"
  by (simp_all add: xrun_def exec_op_def arg_defs carg_def)


section \<open>What a translation knows\<close>

text \<open>
  A temp is a fresh one (written and read by this instruction only), a constant, or the operand that stands
  for a guest register: the register's global, or the constant 0 for \<open>x0\<close>.
\<close>

datatype known = Tmp tempidx Type | Cst tempidx Type u64 | Opd tempidx i64

definition glob_ok :: "RiscvDisasContext \<Rightarrow> Temp list \<Rightarrow> bool" where
  "glob_ok d ts \<longleftrightarrow> length (d_gpr d) = 32 \<and> distinct (d_pc d # d_gpr d) \<and>
     (\<forall>t \<in> set (d_pc d # d_gpr d). unat t < length ts \<and> t_kind (ts ! unat t) = Global \<and> t_ty (ts ! unat t) = I64)"

fun holds :: "RiscvDisasContext \<Rightarrow> Temp list \<Rightarrow> known \<Rightarrow> bool" where
  "holds d ts (Tmp t ty) \<longleftrightarrow> unat t < length ts \<and> t_kind (ts ! unat t) = Ebb \<and> t_ty (ts ! unat t) = ty"
| "holds d ts (Cst t ty v) \<longleftrightarrow> unat t < length ts \<and> t_kind (ts ! unat t) = Const \<and> t_ty (ts ! unat t) = ty \<and> t_val (ts ! unat t) = v"
| "holds d ts (Opd t i) \<longleftrightarrow> unat t < length ts \<and>
     (if i = 0 then t_kind (ts ! unat t) = Const \<and> t_ty (ts ! unat t) = I64 \<and> t_val (ts ! unat t) = 0
      else unat i < 32 \<and> t = d_gpr d ! unat i)"

fun tmps :: "known list \<Rightarrow> tempidx list" where
  "tmps [] = []"
| "tmps (Tmp t ty # fs) = t # tmps fs"
| "tmps (_ # fs) = tmps fs"

definition knows :: "RiscvDisasContext \<Rightarrow> Temp list \<Rightarrow> known list \<Rightarrow> bool" where
  "knows d ts fs \<longleftrightarrow> glob_ok d ts \<and> list_all (holds d ts) fs \<and> distinct (tmps fs)"

lemma holds_ext: "holds d ts f \<Longrightarrow> holds d (ts @ zs) f"
  by (cases f) (auto simp: nth_append)

lemma knows_ext: "knows d ts fs \<Longrightarrow> knows d (ts @ zs) fs"
  unfolding knows_def by (auto simp: glob_ok_def nth_append list_all_iff intro: holds_ext)

lemma tmps_bound: "list_all (holds d ts) fs \<Longrightarrow> t \<in> set (tmps fs) \<Longrightarrow> unat t < length ts"
  by (induction fs rule: tmps.induct) auto

text \<open>The contexts a translation passes through, from \<open>c0\<close> on: what is known, and the ops emitted so far.\<close>

definition consts_ok :: "Context \<Rightarrow> bool" where
  "consts_ok c \<longleftrightarrow> (\<forall>ty v t. const_table c ty v = Some t \<longrightarrow> holds undefined (temps c) (Cst t ty v))"

definition same_op :: "Op \<Rightarrow> xop \<Rightarrow> bool" where
  "same_op op x \<longleftrightarrow> (\<exists>i. op = (xop_of x)\<lparr>o_idx := i\<rparr>)"

definition built :: "RiscvDisasContext \<Rightarrow> Context \<Rightarrow> Context \<Rightarrow> nat \<Rightarrow> known list \<Rightarrow> xop list \<Rightarrow> bool" where
  "built d c0 c n fs xs \<longleftrightarrow> knows d (temps c) fs \<and> consts_ok c \<and> length (temps c) + n < 2 ^ 32 \<and>
     (\<exists>zs. temps c = temps c0 @ zs) \<and> (\<exists>os. ops c = ops c0 @ os \<and> list_all2 same_op os xs)"

lemma exec_op_idx: "exec_op sem ts (op\<lparr>o_idx := i\<rparr>) st = exec_op sem ts op st"
proof -
  have eqs: "o_opc (op\<lparr>o_idx := i\<rparr>) = o_opc op" "o_type (op\<lparr>o_idx := i\<rparr>) = o_type op" "o_args (op\<lparr>o_idx := i\<rparr>) = o_args op"
      "iargs (op\<lparr>o_idx := i\<rparr>) = iargs op" "oargs (op\<lparr>o_idx := i\<rparr>) = oargs op" "cargs (op\<lparr>o_idx := i\<rparr>) = cargs op"
    by (simp_all add: iargs_def oargs_def cargs_def)
  show ?thesis unfolding exec_op_def exec_other_def eqs ..
qed

lemma exec_same: "list_all2 same_op os xs \<Longrightarrow> exec_ops (machine gb) ts os st = xrun gb ts xs st"
  unfolding xrun_def
  by (induction os xs arbitrary: st rule: list_all2_induct) (auto simp: same_op_def exec_op_idx split: IR_Semantics.outcome.splits)

lemma built_run:
  assumes "built d c0 c n fs xs"
  obtains os zs where "ops c = ops c0 @ os" "temps c = temps c0 @ zs"
    "\<And>gb ts st. exec_ops (machine gb) ts os st = xrun gb ts xs st" "\<And>ys. knows d (temps c @ ys) fs"
  using assms exec_same knows_ext unfolding built_def by metis

lemma unat_len: "n < 2 ^ 32 \<Longrightarrow> unat (of_nat n :: u32) = n"
  by (simp add: unat_of_nat)

lemma built_const:
  assumes "built d c0 c n fs xs" "0 < n" "run_state (new_const ty v) c = (t, c')"
  shows "built d c0 c' (n - 1) (Cst t ty v # fs) xs"
proof (cases "const_table c ty v")
  case None
  then have c': "t = of_nat (length (temps c))" "temps c' = temps c @ [temp_new_const t ty v]" "ops c' = ops c"
      "const_table c' = (const_table c)(ty := (const_table c ty)(v \<mapsto> t))"
    using assms(3) by (auto simp: new_const_def Let_def)
  have t: "unat t = length (temps c)" using assms(1) unfolding c'(1) by (intro unat_len) (simp add: built_def)
  have "holds d (temps c') (Cst t ty v)" by (simp add: c'(2) t temp_new_const_def)
  moreover have "consts_ok c'"
  proof -
    have "holds undefined (temps c') (Cst t' ty' v')" if "const_table c' ty' v' = Some t'" for ty' v' t'
    proof (cases "ty' = ty \<and> v' = v")
      case True
      then show ?thesis using that t by (simp add: c'(2,4) temp_new_const_def)
    next
      case False
      then have "const_table c ty' v' = Some t'" using that by (auto simp: c'(4) split: if_splits)
      then show ?thesis unfolding c'(2) using assms(1) by (intro holds_ext) (simp only: built_def consts_ok_def)
    qed
    then show ?thesis unfolding consts_ok_def by blast
  qed
  ultimately show ?thesis using assms(1,2) c'(2,3) knows_ext [of d "temps c" fs] by (auto simp: built_def knows_def)
next
  case (Some t')
  then have "t = t'" "c' = c" using assms(3) by (auto simp: new_const_def)
  then show ?thesis using assms(1) Some by (auto simp: built_def consts_ok_def knows_def)
qed

lemma built_temp:
  assumes "built d c0 c n fs xs" "0 < n" "run_state (new_temp ty) c = (t, c')"
  shows "built d c0 c' (n - 1) (Tmp t ty # fs) xs"
proof -
  have c': "t = of_nat (length (temps c))" "temps c' = temps c @ [temp_new_ebb t ty]" "ops c' = ops c" "const_table c' = const_table c"
    using assms(3) by (auto simp: new_temp_def Let_def)
  have t: "unat t = length (temps c)" using assms(1) unfolding c'(1) by (intro unat_len) (simp add: built_def)
  have "holds d (temps c') (Tmp t ty)" by (simp add: c'(2) t temp_new_ebb_def)
  moreover have "t \<notin> set (tmps fs)" using tmps_bound [of d "temps c" fs t] assms(1) t by (auto simp: built_def knows_def)
  moreover have "consts_ok c'" using assms(1) holds_ext unfolding built_def consts_ok_def c'(2,4) by blast
  ultimately show ?thesis using assms(1,2) c'(2,3) knows_ext [of d "temps c" fs] by (auto simp: built_def knows_def)
qed

lemma built_op:
  assumes "built d c0 c n fs xs" "emits m opc ty args r"
  shows "built d c0 (exec m c) n fs (xs @ [(opc, ty, args)])"
proof -
  have "exec m c = push_op opc ty args c" using assms(2) by (rule emits_exec)
  moreover have "same_op (op_with_args i opc ty args) (opc, ty, args)" for i
    unfolding same_op_def by (intro exI [of _ i]) (simp add: xop_of_def op_with_args_def op_new_def Let_def)
  ultimately show ?thesis
    using assms(1) unfolding built_def push_op_def consts_ok_def by (auto intro!: list_all2_appendI)
qed


section \<open>Rules\<close>

lemma s_const:
  assumes "built d c0 c n fs xs" "0 < n" "\<And>t c'. built d c0 c' (n - 1) (Cst t ty v # fs) xs \<Longrightarrow> tw (g t c') Q"
  shows "tw (emit (new_const ty v) c \<bind> (\<lambda>(t, c). g t c)) Q"
  using assms(3) [OF built_const [OF assms(1,2)]] by (auto simp: emit_def split: prod.split)

lemma s_temp:
  assumes "built d c0 c n fs xs" "0 < n" "\<And>t c'. built d c0 c' (n - 1) (Tmp t ty # fs) xs \<Longrightarrow> tw (g t c') Q"
  shows "tw (emit (new_temp ty) c \<bind> (\<lambda>(t, c). g t c)) Q"
  using assms(3) [OF built_temp [OF assms(1,2)]] by (auto simp: emit_def split: prod.split)

lemma s_op:
  assumes "emits m opc ty args r" "built d c0 c n fs xs" "\<And>c'. built d c0 c' n fs (xs @ [(opc, ty, args)]) \<Longrightarrow> tw (g r c') Q"
  shows "tw (emit m c \<bind> (\<lambda>(x, c). g x c)) Q"
proof -
  have "run_state m c = (r, exec m c)" using assms(1) by (simp add: emits_def)
  then show ?thesis using assms(3) [OF built_op [OF assms(2,1)]] by (cases "run_state m c") (simp add: emit_def)
qed

definition reg_num :: "i64 \<Rightarrow> bool" where
  "reg_num i \<longleftrightarrow> unat i < 32"

lemma s_opd:
  assumes "built d c0 c n fs xs" "reg_num i" "0 < n" "\<And>t c'. built d c0 c' (n - 1) (Opd t i # fs) xs \<Longrightarrow> tw (g t c') Q"
  shows "tw (gpr_or_zero d i c \<bind> (\<lambda>(t, c). g t c)) Q"
proof (cases "i = 0")
  case True
  have "built d c0 c' (n - 1) (Opd t i # fs) xs" if "run_state (new_const I64 0) c = (t, c')" for t c'
    using built_const [OF assms(1,3) that] True by (auto simp: built_def knows_def)
  then show ?thesis using assms(4) True by (auto simp: gpr_or_zero_def emit_def split: prod.split)
next
  case False
  have g: "glob_ok d (temps c)" using assms(1) by (simp add: built_def knows_def)
  have i: "unat i < length (d_gpr d)" using g assms(2) by (simp add: glob_ok_def reg_num_def)
  then have "index (d_gpr d) (unat i) = Some (d_gpr d ! unat i)" by (simp add: index_def)
  moreover have "built d c0 c (n - 1) (Opd (d_gpr d ! unat i) i # fs) xs"
    using assms(1,2) False g i nth_mem [OF i] by (auto simp: built_def knows_def reg_num_def glob_ok_def)
  ultimately show ?thesis using assms(4) False by (simp add: gpr_or_zero_def)
qed

text \<open>Writing a guest register: \<open>x0\<close> is left alone.\<close>

definition set_gpr :: "Opcode \<Rightarrow> RiscvDisasContext \<Rightarrow> i64 \<Rightarrow> tempidx \<Rightarrow> xop list" where
  "set_gpr opc d i t = (if i = 0 then [] else [(opc, I64, [d_gpr d ! unat i, t])])"

lemma s_set_gpr:
  assumes "built d c0 c n fs xs" "reg_num i"
  shows "(\<And>c'. built d c0 c' n fs (xs @ set_gpr (OMov Mov) d i t) \<Longrightarrow> tw (g c') Q) \<Longrightarrow> tw (gen_set_gpr d i t c \<bind> g) Q"
    "(\<And>c'. built d c0 c' n fs (xs @ set_gpr (OConv ExtI32I64) d i t) \<Longrightarrow> tw (g c') Q) \<Longrightarrow> tw (gen_set_gpr_sx32 d i t c \<bind> g) Q"
proof -
  have "unat i < length (d_gpr d)" using assms by (simp add: built_def knows_def glob_ok_def reg_num_def)
  then have x: "index (d_gpr d) (unat i) = Some (d_gpr d ! unat i)" by (simp add: index_def)
  have e: "emits (gen_mov I64 (d_gpr d ! unat i) t) (OMov Mov) I64 [d_gpr d ! unat i, t] (d_gpr d ! unat i)"
    "emits (gen_ext_i32_i64 (d_gpr d ! unat i) t) (OConv ExtI32I64) I64 [d_gpr d ! unat i, t] (d_gpr d ! unat i)" by (rule emits_gen)+
  show "tw (gen_set_gpr d i t c \<bind> g) Q" if "\<And>c'. built d c0 c' n fs (xs @ set_gpr (OMov Mov) d i t) \<Longrightarrow> tw (g c') Q"
  proof (cases "i = 0")
    case False
    have "tw (emit (gen_mov I64 (d_gpr d ! unat i) t) c \<bind> (\<lambda>(_, c). g c)) Q"
      by (rule s_op [OF e(1) assms(1)]) (use that False in \<open>simp add: set_gpr_def\<close>)
    then show ?thesis using False x by (simp add: gen_set_gpr_def case_prod_beta emit_def)
  qed (use that [of c] assms(1) in \<open>simp add: gen_set_gpr_def set_gpr_def\<close>)
  show "tw (gen_set_gpr_sx32 d i t c \<bind> g) Q" if "\<And>c'. built d c0 c' n fs (xs @ set_gpr (OConv ExtI32I64) d i t) \<Longrightarrow> tw (g c') Q"
  proof (cases "i = 0")
    case False
    have "tw (emit (gen_ext_i32_i64 (d_gpr d ! unat i) t) c \<bind> (\<lambda>(_, c). g c)) Q"
      by (rule s_op [OF e(2) assms(1)]) (use that False in \<open>simp add: set_gpr_def\<close>)
    then show ?thesis using False x by (simp add: gen_set_gpr_sx32_def case_prod_beta emit_def)
  qed (use that [of c] assms(1) in \<open>simp add: gen_set_gpr_sx32_def set_gpr_def\<close>)
qed

lemma s_set_gpr_end:
  "built d c0 c n fs xs \<Longrightarrow> reg_num i \<Longrightarrow> (\<And>c'. built d c0 c' n fs (xs @ set_gpr (OMov Mov) d i t) \<Longrightarrow> Q c') \<Longrightarrow> tw (gen_set_gpr d i t c) Q"
  "built d c0 c n fs xs \<Longrightarrow> reg_num i \<Longrightarrow> (\<And>c'. built d c0 c' n fs (xs @ set_gpr (OConv ExtI32I64) d i t) \<Longrightarrow> Q c') \<Longrightarrow> tw (gen_set_gpr_sx32 d i t c) Q"
  using s_set_gpr [of d c0 c n fs xs i t Some Q] by (simp_all add: tw_Some)

section \<open>Registers of the guest\<close>

definition greg :: "RiscvDisasContext \<Rightarrow> (tempidx \<Rightarrow> u64) \<Rightarrow> i64 \<Rightarrow> u64" where
  "greg d f i = (if i = 0 then 0 else f (d_gpr d ! unat i))"

lemma gpr_global:
  assumes "glob_ok d ts" "reg_num i"
  shows "d_gpr d ! unat i \<in> set (d_gpr d)" "t_kind (ts ! unat (d_gpr d ! unat i)) = Global" "t_ty (ts ! unat (d_gpr d ! unat i)) = I64"
proof -
  have "unat i < length (d_gpr d)" using assms by (simp add: glob_ok_def reg_num_def)
  then show *: "d_gpr d ! unat i \<in> set (d_gpr d)" by simp
  from * show "t_kind (ts ! unat (d_gpr d ! unat i)) = Global" "t_ty (ts ! unat (d_gpr d ! unat i)) = I64"
    using assms(1) by (simp_all add: glob_ok_def)
qed

lemma greg_write:
  assumes "glob_ok d ts" "reg_num r" "r \<noteq> 0" "reg_num i"
  shows "greg d (f(d_gpr d ! unat r := v)) i = (if i = r then v else greg d f i)"
proof -
  have "unat i < length (d_gpr d)" "unat r < length (d_gpr d)" "distinct (d_gpr d)"
    using assms by (simp_all add: glob_ok_def reg_num_def)
  then have "d_gpr d ! unat i = d_gpr d ! unat r \<longleftrightarrow> i = r" using word_unat_eq_iff [of i r] by (simp add: nth_eq_iff_index_eq)
  then show ?thesis using assms(3) by (simp add: greg_def)
qed

text \<open>What knowledge means for running the ops.\<close>

fun means :: "RiscvDisasContext \<Rightarrow> Temp list \<Rightarrow> known \<Rightarrow> bool" where
  "means d ts (Tmp t ty) \<longleftrightarrow>
     (\<forall>st :: (u64 \<Rightarrow> u8) ir_state. rd ts st t = trunc ty (tv st t)) \<and>
     (\<forall>(st :: (u64 \<Rightarrow> u8) ir_state) v. wr ts t v st = st\<lparr>tv := (tv st)(t := trunc ty v)\<rparr>) \<and>
     (\<forall>f v i. reg_num i \<longrightarrow> greg d (f(t := v)) i = greg d f i) \<and>
     (\<forall>i. reg_num i \<longrightarrow> d_gpr d ! unat i \<noteq> t \<and> t \<noteq> d_gpr d ! unat i) \<and> d_pc d \<noteq> t \<and> t \<noteq> d_pc d"
| "means d ts (Cst t ty v) \<longleftrightarrow> (\<forall>st :: (u64 \<Rightarrow> u8) ir_state. rd ts st t = trunc ty v)"
| "means d ts (Opd t i) \<longleftrightarrow> (\<forall>st :: (u64 \<Rightarrow> u8) ir_state. rd ts st t = greg d (tv st) i)"

lemma holds_means:
  assumes g: "glob_ok d ts" and f: "holds d ts f"
  shows "means d ts f"
proof (cases f)
  case (Tmp t ty)
  have n: "d_gpr d ! unat i \<noteq> t" if "reg_num i" for i using gpr_global(2) [OF g that] f Tmp by auto
  then have "greg d (h(t := v)) i = greg d h i" if "reg_num i" for h v i using that by (simp add: greg_def)
  moreover have "t \<noteq> d_pc d" using g f Tmp by (auto simp: glob_ok_def)
  ultimately show ?thesis using f Tmp n by (auto simp: rd_def wr_def is_const_def Let_def)
next
  case (Cst t ty v)
  then show ?thesis using f by (simp add: rd_def is_const_def Let_def)
next
  case (Opd t i)
  have "reg_num i \<Longrightarrow> i \<noteq> 0 \<Longrightarrow> rd ts st (d_gpr d ! unat i) = greg d (tv st) i" for st :: "(u64 \<Rightarrow> u8) ir_state"
    using gpr_global(2,3) [OF g] by (simp add: rd_def is_const_def Let_def greg_def)
  then show ?thesis using f Opd by (auto simp: rd_def is_const_def Let_def greg_def reg_num_def)
qed

text \<open>Both directions of the inequalities, for rewriting.\<close>

fun differ :: "'a list \<Rightarrow> bool" where
  "differ [] \<longleftrightarrow> True"
| "differ (x # xs) \<longleftrightarrow> list_all (\<lambda>y. x \<noteq> y \<and> y \<noteq> x) xs \<and> differ xs"

lemma differ_distinct: "differ xs = distinct xs"
  by (induction xs) (auto simp: list_all_iff)

lemma knows_means: "knows d ts fs \<Longrightarrow> list_all (means d ts) fs \<and> differ (tmps fs)"
  by (auto simp: knows_def list_all_iff differ_distinct intro: holds_means)

text \<open>
  The effect of a translated instruction on the guest: executing the ops it emitted, in any context that
  extends the one it left, gives a state related to the old one by \<open>F\<close>.
\<close>

definition effects :: "Context \<Rightarrow> Context \<Rightarrow> (u64 \<Rightarrow> (u64 \<Rightarrow> u8) ir_state \<Rightarrow> (u64 \<Rightarrow> u8) IR_Semantics.outcome \<Rightarrow> bool) \<Rightarrow> bool" where
  "effects c0 c F \<longleftrightarrow> (\<exists>os zs. ops c = ops c0 @ os \<and> temps c = temps c0 @ zs \<and>
     (\<forall>gb ys st. F gb st (exec_ops (machine gb) (temps c @ ys) os st)))"

text \<open>Register \<open>r\<close> gets a value, the memory a new contents, and the instruction is passed.\<close>

definition sets_reg :: "RiscvDisasContext \<Rightarrow> i64 \<Rightarrow> u64 \<Rightarrow> (u64 \<Rightarrow> u8) \<Rightarrow> (u64 \<Rightarrow> u8) ir_state \<Rightarrow> (u64 \<Rightarrow> u8) IR_Semantics.outcome \<Rightarrow> bool" where
  "sets_reg d r v m st o' \<longleftrightarrow> (\<exists>st'. o' = Next st' \<and> mem st' = m \<and> tv st' (d_pc d) = tv st (d_pc d) \<and>
     (\<forall>i. reg_num i \<longrightarrow> greg d (tv st') i = (if i = r \<and> r \<noteq> 0 then v else greg d (tv st) i)))"

lemma built_effects:
  assumes "built d c0 c n fs xs"
    "\<And>gb ts st. glob_ok d ts \<Longrightarrow> list_all (means d ts) fs \<Longrightarrow> differ (tmps fs) \<Longrightarrow> F gb st (xrun gb ts xs st)"
  shows "effects c0 c F"
proof -
  obtain os zs where b: "ops c = ops c0 @ os" "temps c = temps c0 @ zs"
    "\<And>gb ts st. exec_ops (machine gb) ts os st = xrun gb ts xs st" "\<And>ys. knows d (temps c @ ys) fs"
    using built_run [OF assms(1)] by metis
  have "glob_ok d (temps c @ ys)" for ys using b(4) by (simp add: knows_def)
  then show ?thesis unfolding effects_def using b assms(2) knows_means [OF b(4)] by (metis (lifting))
qed

lemma xrun_set_gpr:
  assumes "glob_ok d ts" "reg_num r" "mem st' = m" "tv st' (d_pc d) = tv st (d_pc d)" "\<And>i. reg_num i \<Longrightarrow> greg d (tv st') i = greg d (tv st) i"
  shows "rd ts st' t = v \<Longrightarrow> sets_reg d r v m st (xrun gb ts (set_gpr (OMov Mov) d r t) st')"
    "scast (ucast (rd ts st' t) :: u32) = v \<Longrightarrow> sets_reg d r v m st (xrun gb ts (set_gpr (OConv ExtI32I64) d r t) st')"
proof -
  have "d_gpr d ! unat r \<noteq> d_pc d" using gpr_global(1) [OF assms(1,2)] assms(1) by (auto simp: glob_ok_def)
  moreover have "wr ts (d_gpr d ! unat r) v st' = st'\<lparr>tv := (tv st')(d_gpr d ! unat r := v)\<rparr>" for v
    using gpr_global(3) [OF assms(1,2)] by (simp add: wr_def)
  ultimately show "rd ts st' t = v \<Longrightarrow> sets_reg d r v m st (xrun gb ts (set_gpr (OMov Mov) d r t) st')"
    "scast (ucast (rd ts st' t) :: u32) = v \<Longrightarrow> sets_reg d r v m st (xrun gb ts (set_gpr (OConv ExtI32I64) d r t) st')"
    using assms greg_write [OF assms(1,2)] by (auto simp: set_gpr_def sets_reg_def x_arith x_conv)
qed

end
