(* ===== verification/Riscv_Sound.thy ===== *)
theory Riscv_Sound
  imports Riscv_Sem
begin

text \<open>
  The integer instructions of RV64IM do what the architecture says: for each helper of the translation, the
  effect of the ops it emits on registers, memory and control flow.
\<close>

section \<open>The start of an instruction\<close>

text \<open>A context in which the guest's registers are registered, with room for the temps of one instruction.\<close>

definition ready :: "RiscvDisasContext \<Rightarrow> Context \<Rightarrow> bool" where
  "ready d c \<longleftrightarrow> ctx_wf c \<and> glob_ok d (temps c) \<and> length (temps c) + 40 < 2 ^ 32"

lemma ready_built: "ready d c \<Longrightarrow> built d c c 40 [] []"
  by (auto simp: ready_def built_def knows_def consts_ok_def ctx_wf_def is_const_def)

definition sound :: "Context \<Rightarrow> (u64 \<Rightarrow> (u64 \<Rightarrow> u8) ir_state \<Rightarrow> (u64 \<Rightarrow> u8) IR_Semantics.outcome \<Rightarrow> bool) \<Rightarrow> (bool \<times> Context) option \<Rightarrow> bool" where
  "sound c F r \<longleftrightarrow> tw r (\<lambda>(ok, c'). ok \<and> effects c c' F)"

lemma sound_end: "effects c c' F \<Longrightarrow> tw (Some (True, c')) (\<lambda>(ok, c'). ok \<and> effects c c' F)"
  by (simp add: tw_def)

section \<open>Register and immediate operations\<close>

text \<open>A builder method that computes \<open>f\<close> of two operands.\<close>

definition binary :: "Type \<Rightarrow> BinOp \<Rightarrow> (u64 \<Rightarrow> u64 \<Rightarrow> u64) \<Rightarrow> bool" where
  "binary ty m f \<longleftrightarrow> (\<exists>opc. (\<forall>t a b. emits (m ty t a b) opc ty [t, a, b] t) \<and>
     (\<forall>gb ts t a b xs st. xrun gb ts ((opc, ty, [t, a, b]) # xs) st = xrun gb ts xs (wr ts t (f (rd ts st a) (rd ts st b)) st)))"

lemma binary_ops:
  "binary I64 gen_add (+)" "binary I64 gen_sub (-)" "binary I64 gen_mul (*)"
  "binary I64 gen_and (AND)" "binary I64 gen_or (OR)" "binary I64 gen_xor (XOR)"
  "binary I64 gen_shl (\<lambda>a b. push_bit (unat b mod 64) a)" "binary I64 gen_shr (\<lambda>a b. drop_bit (unat b mod 64) a)"
  "binary I64 gen_sar (\<lambda>a b. signed_drop_bit (unat b mod 64) a)"
  "binary I32 gen_shl (\<lambda>a b. ucast (push_bit (unat (ucast b :: u32) mod 32) (ucast a :: u32)))"
  "binary I32 gen_shr (\<lambda>a b. ucast (drop_bit (unat (ucast b :: u32) mod 32) (ucast a :: u32)))"
  "binary I32 gen_sar (\<lambda>a b. ucast (signed_drop_bit (unat (ucast b :: u32) mod 32) (ucast a :: u32)))"
  unfolding binary_def by (rule exI, rule conjI, (rule allI)+, rule emits_gen, simp add: x_arith x_shift)+

lemma binaryE:
  assumes "binary ty m f"
  obtains opc where "\<And>t a b. emits (m ty t a b) opc ty [t, a, b] t"
    "\<And>gb ts t a b xs st. xrun gb ts ((opc, ty, [t, a, b]) # xs) st = xrun gb ts xs (wr ts t (f (rd ts st a) (rd ts st b)) st)"
  using assms unfolding binary_def by blast

lemma arith_sound:
  assumes "ready d c" "binary I64 m f" "reg_num (r_rd a)" "reg_num (r_rs1 a)" "reg_num (r_rs2 a)"
  shows "sound c (\<lambda>gb st. sets_reg d (r_rd a) (f (greg d (tv st) (r_rs1 a)) (greg d (tv st) (r_rs2 a))) (mem st) st) (gen_arith d a m c)"
    "sound c (\<lambda>gb st. sets_reg d (r_rd a) (scast (ucast (f (greg d (tv st) (r_rs1 a)) (greg d (tv st) (r_rs2 a))) :: u32)) (mem st) st) (gen_arith_w d a m c)"
proof -
  obtain opc where opc: "\<And>t a b. emits (m I64 t a b) opc I64 [t, a, b] t"
    "\<And>gb ts t a b xs st. xrun gb ts ((opc, I64, [t, a, b]) # xs) st = xrun gb ts xs (wr ts t (f (rd ts st a) (rd ts st b)) st)"
    using assms(2) by (rule binaryE) (rule that)
  note start = s_opd [OF ready_built [OF assms(1)] assms(4)]
  show "sound c (\<lambda>gb st. sets_reg d (r_rd a) (f (greg d (tv st) (r_rs1 a)) (greg d (tv st) (r_rs2 a))) (mem st) st) (gen_arith d a m c)"
    unfolding sound_def gen_arith_def
    by (rule start, simp, erule s_opd [OF _ assms(5)], simp, erule s_temp, simp, erule s_op [OF opc(1)],
        erule s_set_gpr(1) [OF _ assms(3)], rule sound_end, erule built_effects)
      (simp add: opc(2), rule xrun_set_gpr(1) [OF _ assms(3)], simp_all add: assms)
  show "sound c (\<lambda>gb st. sets_reg d (r_rd a) (scast (ucast (f (greg d (tv st) (r_rs1 a)) (greg d (tv st) (r_rs2 a))) :: u32)) (mem st) st) (gen_arith_w d a m c)"
    unfolding sound_def gen_arith_w_def
    by (rule start, simp, erule s_opd [OF _ assms(5)], simp, erule s_temp, simp, erule s_op [OF opc(1)],
        erule s_set_gpr(2) [OF _ assms(3)], rule sound_end, erule built_effects)
      (simp add: opc(2), rule xrun_set_gpr(2) [OF _ assms(3)], simp_all add: assms)
qed

lemma arith_imm_sound:
  assumes "ready d c" "binary I64 m f" "reg_num (i_rd a)" "reg_num (i_rs1 a)"
  shows "sound c (\<lambda>gb st. sets_reg d (i_rd a) (f (greg d (tv st) (i_rs1 a)) (i_imm a)) (mem st) st) (gen_arith_imm d a m c)"
    "sound c (\<lambda>gb st. sets_reg d (i_rd a) (scast (ucast (f (greg d (tv st) (i_rs1 a)) (i_imm a)) :: u32)) (mem st) st) (gen_arith_imm_w d a m c)"
proof -
  obtain opc where opc: "\<And>t a b. emits (m I64 t a b) opc I64 [t, a, b] t"
    "\<And>gb ts t a b xs st. xrun gb ts ((opc, I64, [t, a, b]) # xs) st = xrun gb ts xs (wr ts t (f (rd ts st a) (rd ts st b)) st)"
    using assms(2) by (rule binaryE) (rule that)
  note start = s_opd [OF ready_built [OF assms(1)] assms(4)]
  show "sound c (\<lambda>gb st. sets_reg d (i_rd a) (f (greg d (tv st) (i_rs1 a)) (i_imm a)) (mem st) st) (gen_arith_imm d a m c)"
    unfolding sound_def gen_arith_imm_def
    by (rule start, simp, erule s_const, simp, erule s_temp, simp, erule s_op [OF opc(1)],
        erule s_set_gpr(1) [OF _ assms(3)], rule sound_end, erule built_effects)
      (simp add: opc(2), rule xrun_set_gpr(1) [OF _ assms(3)], simp_all add: assms)
  show "sound c (\<lambda>gb st. sets_reg d (i_rd a) (scast (ucast (f (greg d (tv st) (i_rs1 a)) (i_imm a)) :: u32)) (mem st) st) (gen_arith_imm_w d a m c)"
    unfolding sound_def gen_arith_imm_w_def
    by (rule start, simp, erule s_const, simp, erule s_temp, simp, erule s_op [OF opc(1)],
        erule s_set_gpr(2) [OF _ assms(3)], rule sound_end, erule built_effects)
      (simp add: opc(2), rule xrun_set_gpr(2) [OF _ assms(3)], simp_all add: assms)
qed

lemma setcond_sound:
  assumes "ready d c"
  shows "reg_num (r_rd a) \<Longrightarrow> reg_num (r_rs1 a) \<Longrightarrow> reg_num (r_rs2 a) \<Longrightarrow>
      sound c (\<lambda>gb st. sets_reg d (r_rd a) (of_bool (cond_holds k (greg d (tv st) (r_rs1 a)) (greg d (tv st) (r_rs2 a)))) (mem st) st) (gen_setcond_rr d a k c)"
    "reg_num (i_rd b) \<Longrightarrow> reg_num (i_rs1 b) \<Longrightarrow>
      sound c (\<lambda>gb st. sets_reg d (i_rd b) (of_bool (cond_holds k (greg d (tv st) (i_rs1 b)) (i_imm b))) (mem st) st) (gen_setcond_imm d b k c)"
proof -
  have e: "emits (gen_setcond I64 t x y k) (OMov SetCond) I64 [t, x, y, carg (cond_as_u32 k)] t" for t x y by (rule emits_gen)
  assume r: "reg_num (r_rd a)" "reg_num (r_rs1 a)" "reg_num (r_rs2 a)"
  show "sound c (\<lambda>gb st. sets_reg d (r_rd a) (of_bool (cond_holds k (greg d (tv st) (r_rs1 a)) (greg d (tv st) (r_rs2 a)))) (mem st) st) (gen_setcond_rr d a k c)"
    unfolding sound_def gen_setcond_rr_def
    by (rule s_opd [OF ready_built [OF assms] r(2)], simp, erule s_opd [OF _ r(3)], simp, erule s_temp, simp,
        erule s_op [OF e], erule s_set_gpr(1) [OF _ r(1)], rule sound_end, erule built_effects)
      (simp add: x_cond cond_at_def split del: split_of_bool, rule xrun_set_gpr(1) [OF _ r(1)], simp_all add: r)
next
  have e: "emits (gen_setcond I64 t x y k) (OMov SetCond) I64 [t, x, y, carg (cond_as_u32 k)] t" for t x y by (rule emits_gen)
  assume r: "reg_num (i_rd b)" "reg_num (i_rs1 b)"
  show "sound c (\<lambda>gb st. sets_reg d (i_rd b) (of_bool (cond_holds k (greg d (tv st) (i_rs1 b)) (i_imm b))) (mem st) st) (gen_setcond_imm d b k c)"
    unfolding sound_def gen_setcond_imm_def
    by (rule s_opd [OF ready_built [OF assms] r(2)], simp, erule s_const, simp, erule s_temp, simp,
        erule s_op [OF e], erule s_set_gpr(1) [OF _ r(1)], rule sound_end, erule built_effects)
      (simp add: x_cond cond_at_def split del: split_of_bool, rule xrun_set_gpr(1) [OF _ r(1)], simp_all add: r)
qed


lemma shift_imm_sound:
  assumes "ready d c" "binary I64 m f" "reg_num (sh_rd a)" "reg_num (sh_rs1 a)"
  shows "sound c (\<lambda>gb st. sets_reg d (sh_rd a) (f (greg d (tv st) (sh_rs1 a)) (sh_shamt a)) (mem st) st) (gen_shift_imm d a m c)"
proof -
  obtain opc where opc: "\<And>t a b. emits (m I64 t a b) opc I64 [t, a, b] t"
    "\<And>gb ts t a b xs st. xrun gb ts ((opc, I64, [t, a, b]) # xs) st = xrun gb ts xs (wr ts t (f (rd ts st a) (rd ts st b)) st)"
    using assms(2) by (rule binaryE) (rule that)
  show ?thesis
    unfolding sound_def gen_shift_imm_def
    by (rule s_opd [OF ready_built [OF assms(1)] assms(4)], simp, erule s_const, simp, erule s_temp, simp,
        erule s_op [OF opc(1)], erule s_set_gpr(1) [OF _ assms(3)], rule sound_end, erule built_effects)
      (simp add: opc(2), rule xrun_set_gpr(1) [OF _ assms(3)], simp_all add: assms)
qed

text \<open>The 32-bit shifts work on the lower halves; \<open>g\<close> is the operation on 32-bit words.\<close>

lemma trunc_ucast32 [simp]: "ucast (trunc I32 v) = (ucast v :: u32)" "trunc I32 (ucast (x :: u32)) = ucast x"
proof -
  show "ucast (trunc I32 v) = (ucast v :: u32)" unfolding trunc_I32 by (rule bit_word_eqI) (auto simp: bit_unsigned_iff)
  show "trunc I32 (ucast (x :: u32)) = ucast x" unfolding trunc_I32 by (rule bit_word_eqI) (auto simp: bit_unsigned_iff)
qed

lemma ucast_again32 [simp]: "ucast (ucast (x :: u32) :: u64) = x"
  by (rule bit_word_eqI) (auto simp: bit_unsigned_iff)

lemma shiftw_sound:
  assumes "ready d c" "binary I32 m (\<lambda>x y. ucast (g (ucast x :: u32) (ucast y :: u32) :: u32))"
  shows "reg_num (r_rd a) \<Longrightarrow> reg_num (r_rs1 a) \<Longrightarrow> reg_num (r_rs2 a) \<Longrightarrow>
      sound c (\<lambda>gb st. sets_reg d (r_rd a) (scast (g (ucast (greg d (tv st) (r_rs1 a))) (ucast (greg d (tv st) (r_rs2 a))))) (mem st) st) (gen_shiftw d a m c)"
    "reg_num (sh_rd b) \<Longrightarrow> reg_num (sh_rs1 b) \<Longrightarrow>
      sound c (\<lambda>gb st. sets_reg d (sh_rd b) (scast (g (ucast (greg d (tv st) (sh_rs1 b))) (ucast (sh_shamt b)))) (mem st) st) (gen_shift_imm_w d b m c)"
proof -
  obtain opc where opc: "\<And>t a b. emits (m I32 t a b) opc I32 [t, a, b] t"
    "\<And>gb ts t a b xs st. xrun gb ts ((opc, I32, [t, a, b]) # xs) st =
       xrun gb ts xs (wr ts t (ucast (g (ucast (rd ts st a) :: u32) (ucast (rd ts st b) :: u32) :: u32)) st)"
    using assms(2) by (rule binaryE) (rule that)
  have e: "emits (gen_extrl_i64_i32 t x) (OConv ExtrlI64I32) I32 [t, x] t" for t x by (rule emits_gen)
  show "sound c (\<lambda>gb st. sets_reg d (r_rd a) (scast (g (ucast (greg d (tv st) (r_rs1 a))) (ucast (greg d (tv st) (r_rs2 a))))) (mem st) st) (gen_shiftw d a m c)"
    if r: "reg_num (r_rd a)" "reg_num (r_rs1 a)" "reg_num (r_rs2 a)"
    unfolding sound_def gen_shiftw_def
    by (rule s_opd [OF ready_built [OF assms(1)] r(2)], simp, erule s_opd [OF _ r(3)], simp, erule s_temp, simp,
        erule s_op [OF e], erule s_temp, simp, erule s_op [OF e], erule s_temp, simp,
        erule s_op [OF opc(1)], erule s_set_gpr(2) [OF _ r(1)], rule sound_end, erule built_effects)
      (simp add: opc(2) x_conv r del: trunc.simps(1), rule xrun_set_gpr(2) [OF _ r(1)], simp_all add: r del: trunc.simps(1))
  show "sound c (\<lambda>gb st. sets_reg d (sh_rd b) (scast (g (ucast (greg d (tv st) (sh_rs1 b))) (ucast (sh_shamt b)))) (mem st) st) (gen_shift_imm_w d b m c)"
    if r: "reg_num (sh_rd b)" "reg_num (sh_rs1 b)"
    unfolding sound_def gen_shift_imm_w_def
    by (rule s_opd [OF ready_built [OF assms(1)] r(2)], simp, erule s_temp, simp, erule s_op [OF e],
        erule s_const, simp, erule s_temp, simp,
        erule s_op [OF opc(1)], erule s_set_gpr(2) [OF _ r(1)], rule sound_end, erule built_effects)
      (simp add: opc(2) x_conv r del: trunc.simps(1), rule xrun_set_gpr(2) [OF _ r(1)], simp_all add: r del: trunc.simps(1))
qed


section \<open>Division\<close>

text \<open>The results the architecture gives, at either width: division by zero and overflow included.\<close>

definition rv_div :: "'a::len word \<Rightarrow> 'a word \<Rightarrow> 'a word" where
  "rv_div a b = (if b = 0 then - 1 else word_of_int (sint a sdiv sint b))"

definition rv_rem :: "'a::len word \<Rightarrow> 'a word \<Rightarrow> 'a word" where
  "rv_rem a b = (if b = 0 then a else word_of_int (sint a smod sint b))"

definition rv_divu :: "'a::len word \<Rightarrow> 'a word \<Rightarrow> 'a word" where
  "rv_divu a b = (if b = 0 then - 1 else a div b)"

definition rv_remu :: "'a::len word \<Rightarrow> 'a word \<Rightarrow> 'a word" where
  "rv_remu a b = (if b = 0 then a else a mod b)"

lemma double_sign:
  fixes a :: "'a::len word"
  assumes "2 \<le> LENGTH('a)"
  shows "double (signed_drop_bit (LENGTH('a) - 1) a) a = sint a"
proof -
  let ?n = "LENGTH('a)"
  have b: "- (2 ^ (?n - 1)) \<le> sint a" "sint a < 2 ^ (?n - 1)" using sint_greater_eq [of a] sint_less [of a] by simp_all
  have p: "(2 :: int) ^ ?n = 2 * 2 ^ (?n - 1)" using assms by (simp flip: power_Suc)
  have u: "uint a = sint a mod 2 ^ ?n" by (simp add: uint_sint take_bit_eq_mod)
  have d: "sint (signed_drop_bit (?n - 1) a) = sint a div 2 ^ (?n - 1)" by (simp add: sint_signed_drop_bit_eq drop_bit_eq_div)
  show ?thesis
  proof (cases "0 \<le> sint a")
    case True
    then have "sint a div 2 ^ (?n - 1) = 0" "sint a mod 2 ^ ?n = sint a" using b p by simp_all
    then show ?thesis unfolding double_def d u by simp
  next
    case False
    have "sint a div 2 ^ (?n - 1) = - 1" using b False by (intro int_div_pos_eq [of _ _ _ "sint a + 2 ^ (?n - 1)"]) simp_all
    moreover have "sint a mod 2 ^ ?n = sint a + 2 ^ ?n"
      using b False p by (intro int_mod_pos_eq [of _ _ "- 1"]) simp_all
    ultimately show ?thesis unfolding double_def d u by simp
  qed
qed

lemma sdiv_neg1: "word_of_int (sint a sdiv - 1) = - a" "word_of_int (sint a smod - 1) = (0 :: 'a::len word)" for a :: "'a::len word"
proof -
  have "sint a sdiv - 1 = - (sgn (sint a) * \<bar>sint a\<bar>)" by (simp add: signed_divide_int_def)
  then show "word_of_int (sint a sdiv - 1) = - a" by (simp only: sgn_mult_abs) simp
  show "word_of_int (sint a smod - 1) = (0 :: 'a word)" by (simp add: signed_modulo_int_def)
qed

text \<open>The host does not fault: the translated code divides by 1 instead of 0 and -1.\<close>

lemma no_fault_signed:
  fixes a b :: "'a::len word"
  assumes "2 \<le> LENGTH('a)" "b \<noteq> 0" "b \<noteq> - 1"
  shows "\<not> div_faults True [a, signed_drop_bit (LENGTH('a) - 1) a, b]"
proof -
  let ?n = "LENGTH('a)" and ?q = "sint a sdiv sint b"
  have a: "- (2 ^ (?n - 1)) \<le> sint a" "sint a < 2 ^ (?n - 1)" using sint_greater_eq [of a] sint_less [of a] by simp_all
  have "sint b = sint (- 1 :: 'a word) \<longleftrightarrow> b = - 1" by (auto intro: signed_word_eqI)
  then have "sint b \<noteq> - 1" using assms(3) by simp
  moreover have "sint b \<noteq> 0" using assms(2) by (simp add: signed_eq_0_iff)
  ultimately have b: "sint b = 1 \<or> 2 \<le> \<bar>sint b\<bar>" by arith
  have "- (2 ^ (?n - 1)) \<le> ?q \<and> ?q < 2 ^ (?n - 1)"
  proof (cases "sint b = 1")
    case False
    have "\<bar>?q\<bar> \<le> \<bar>sint a\<bar> div \<bar>sint b\<bar>" by (simp add: signed_divide_int_def abs_mult abs_sgn_eq div_int_pos_iff)
    also have "\<dots> \<le> \<bar>sint a\<bar> div 2" using b False by (intro zdiv_mono2) simp_all
    finally have "\<bar>?q\<bar> < 2 ^ (?n - 1)" using a by (auto simp: abs_if split: if_splits)
    then show ?thesis by linarith
  qed (use a in simp)
  then have "sint (word_of_int ?q :: 'a word) = ?q" by (simp add: signed_of_int signed_take_bit_int_eq_self)
  then show ?thesis using assms(2) by (simp add: div_faults_def double_sign [OF assms(1), simplified])
qed

lemma no_fault64: "b \<noteq> 0 \<Longrightarrow> b \<noteq> - 1 \<Longrightarrow> \<not> div_faults True [a, signed_drop_bit 63 a, b]" for a b :: u64
  using no_fault_signed [of b a] by simp

lemma no_fault32: "b \<noteq> 0 \<Longrightarrow> b \<noteq> - 1 \<Longrightarrow> \<not> div_faults True [a, signed_drop_bit 31 a, b]" for a b :: u32
  using no_fault_signed [of b a] by simp

lemma no_fault32_lit: "b \<noteq> 0 \<Longrightarrow> b \<noteq> 0xFFFFFFFF \<Longrightarrow> \<not> div_faults True [a, signed_drop_bit 31 a, b]" for a b :: u32
proof -
  have "- 1 = (0xFFFFFFFF :: u32)" by simp
  then show "b \<noteq> 0 \<Longrightarrow> b \<noteq> 0xFFFFFFFF \<Longrightarrow> ?thesis" using no_fault32 [of b a] by (simp only:) simp
qed

lemma no_fault_unsigned: "b \<noteq> 0 \<Longrightarrow> \<not> div_faults False [a, 0, b]" for a b :: "'a::len word"
  by (simp add: div_faults_def udouble_def flip: word_div_def uint_div)

lemmas no_fault = no_fault64 no_fault32 no_fault32_lit no_fault_unsigned

lemma smod_one: "x smod 1 = (0 :: int)"
  by (simp add: signed_modulo_int_def)

lemma sign64: "double (signed_drop_bit 63 x) x = sint x" for x :: u64
  using double_sign [of x] by simp

lemma sign32: "double (signed_drop_bit 31 x) x = sint x" for x :: u32
  using double_sign [of x] by simp

lemma div_emits:
  "emits (gen_movcond ty t x y z w k) (OMov MovCond) ty [t, x, y, z, w, carg (cond_as_u32 k)] t"
  "emits (gen_sar ty t x y) (OShift Sar) ty [t, x, y] t"
  "emits (gen_divs2 ty t u x y z) (OArith DivS2) ty [t, u, x, y, z] ()"
  "emits (gen_neg ty t x) (OArith Neg) ty [t, x] t"
  "emits (gen_divu2 ty t u x y z) (OArith DivU2) ty [t, u, x, y, z] ()"
  "emits (gen_extrl_i64_i32 t x) (OConv ExtrlI64I32) I32 [t, x] t"
  by (rule emits_gen)+

lemma div_rem_sound:
  assumes c: "ready d c" and r: "reg_num (r_rd a)" "reg_num (r_rs1 a)" "reg_num (r_rs2 a)"
  shows "sound c (\<lambda>gb st. sets_reg d (r_rd a) (rv_div (greg d (tv st) (r_rs1 a)) (greg d (tv st) (r_rs2 a))) (mem st) st) (gen_div_rem d a False c)"
    "sound c (\<lambda>gb st. sets_reg d (r_rd a) (rv_rem (greg d (tv st) (r_rs1 a)) (greg d (tv st) (r_rs2 a))) (mem st) st) (gen_div_rem d a True c)"
proof -
  note e = div_emits
  show "sound c (\<lambda>gb st. sets_reg d (r_rd a) (rv_div (greg d (tv st) (r_rs1 a)) (greg d (tv st) (r_rs2 a))) (mem st) st) (gen_div_rem d a False c)"
    unfolding sound_def gen_div_rem_def
    apply (rule s_opd [OF ready_built [OF c] r(2)], simp)
    apply (erule s_opd [OF _ r(3)], simp, (erule s_const, simp)+, erule s_temp, simp, (erule s_op [OF e(1)])+)
    apply (erule s_temp, simp, erule s_const, simp, erule s_op [OF e(2)], (erule s_temp, simp)+, erule s_op [OF e(3)])
    apply (rule tw_bind, simp only: if_False)
    apply (erule s_temp, simp, erule s_op [OF e(4)], erule s_temp, simp, (erule s_op [OF e(1)])+)
    apply (erule s_set_gpr_end(1) [OF _ r(1)], rule sound_end, erule built_effects)
    apply (simp add: x_cond x_shift x_wide x_arith cond_at_def r del: cond_as_u32.simps split del: if_split)
    apply (rule xrun_set_gpr(1) [OF _ r(1)], simp_all add: no_fault r rv_div_def sdiv_neg1 sign64)
    done
  show "sound c (\<lambda>gb st. sets_reg d (r_rd a) (rv_rem (greg d (tv st) (r_rs1 a)) (greg d (tv st) (r_rs2 a))) (mem st) st) (gen_div_rem d a True c)"
    unfolding sound_def gen_div_rem_def
    apply (rule s_opd [OF ready_built [OF c] r(2)], simp)
    apply (erule s_opd [OF _ r(3)], simp, (erule s_const, simp)+, erule s_temp, simp, (erule s_op [OF e(1)])+)
    apply (erule s_temp, simp, erule s_const, simp, erule s_op [OF e(2)], (erule s_temp, simp)+, erule s_op [OF e(3)])
    apply (rule tw_bind, simp only: if_True)
    apply (erule s_temp, simp, (erule s_op [OF e(1)])+)
    apply (erule s_set_gpr_end(1) [OF _ r(1)], rule sound_end, erule built_effects)
    apply (simp add: x_cond x_shift x_wide x_arith cond_at_def r del: cond_as_u32.simps split del: if_split)
    apply (rule xrun_set_gpr(1) [OF _ r(1)], simp_all add: no_fault r rv_rem_def sdiv_neg1 sign64 smod_one)
    done
qed

lemma divu_remu_sound:
  assumes c: "ready d c" and r: "reg_num (r_rd a)" "reg_num (r_rs1 a)" "reg_num (r_rs2 a)"
  shows "sound c (\<lambda>gb st. sets_reg d (r_rd a) (rv_divu (greg d (tv st) (r_rs1 a)) (greg d (tv st) (r_rs2 a))) (mem st) st) (gen_divu_remu d a False c)"
    "sound c (\<lambda>gb st. sets_reg d (r_rd a) (rv_remu (greg d (tv st) (r_rs1 a)) (greg d (tv st) (r_rs2 a))) (mem st) st) (gen_divu_remu d a True c)"
proof -
  note e = div_emits
  show "sound c (\<lambda>gb st. sets_reg d (r_rd a) (rv_divu (greg d (tv st) (r_rs1 a)) (greg d (tv st) (r_rs2 a))) (mem st) st) (gen_divu_remu d a False c)"
    unfolding sound_def gen_divu_remu_def
    apply (rule s_opd [OF ready_built [OF c] r(2)], simp)
    apply (erule s_opd [OF _ r(3)], simp, (erule s_const, simp)+, erule s_temp, simp, erule s_op [OF e(1)])
    apply ((erule s_temp, simp)+, erule s_op [OF e(5)])
    apply (rule tw_bind, simp only: if_False)
    apply (erule s_const, simp, erule s_temp, simp, erule s_op [OF e(1)])
    apply (erule s_set_gpr_end(1) [OF _ r(1)], rule sound_end, erule built_effects)
    apply (simp add: x_cond x_shift x_wide x_arith cond_at_def r del: cond_as_u32.simps split del: if_split)
    apply (rule xrun_set_gpr(1) [OF _ r(1)], simp_all add: no_fault r rv_divu_def udouble_def word_div_def)
    done
  show "sound c (\<lambda>gb st. sets_reg d (r_rd a) (rv_remu (greg d (tv st) (r_rs1 a)) (greg d (tv st) (r_rs2 a))) (mem st) st) (gen_divu_remu d a True c)"
    unfolding sound_def gen_divu_remu_def
    apply (rule s_opd [OF ready_built [OF c] r(2)], simp)
    apply (erule s_opd [OF _ r(3)], simp, (erule s_const, simp)+, erule s_temp, simp, erule s_op [OF e(1)])
    apply ((erule s_temp, simp)+, erule s_op [OF e(5)])
    apply (rule tw_bind, simp only: if_True)
    apply (erule s_temp, simp, erule s_op [OF e(1)])
    apply (erule s_set_gpr_end(1) [OF _ r(1)], rule sound_end, erule built_effects)
    apply (simp add: x_cond x_shift x_wide x_arith cond_at_def r del: cond_as_u32.simps split del: if_split)
    apply (rule xrun_set_gpr(1) [OF _ r(1)], simp_all add: no_fault r rv_remu_def udouble_def word_mod_def)
    done
qed

text \<open>The 32-bit forms divide the lower halves and sign-extend the result.\<close>

definition low :: "u64 \<Rightarrow> u32" where
  "low x = ucast x"

lemma low_eqs: "(ucast (x :: u32) = (0 :: u64)) \<longleftrightarrow> x = 0" "(ucast (x :: u32) = (0xffffffff :: u64)) \<longleftrightarrow> x = - 1"
proof -
  have inj: "ucast x = (ucast y :: u64) \<longleftrightarrow> x = y" for y by (metis ucast_again32)
  show "(ucast x = (0 :: u64)) \<longleftrightarrow> x = 0" using inj [of 0] by simp
  have "ucast (- 1 :: u32) = (0xffffffff :: u64)" by (simp add: unsigned_minus_1_eq_mask mask_eq_exp_minus_1)
  then show "(ucast x = (0xffffffff :: u64)) \<longleftrightarrow> x = - 1" using inj [of "- 1"] by simp
qed

lemma div_rem_w_sound:
  assumes c: "ready d c" and r: "reg_num (r_rd a)" "reg_num (r_rs1 a)" "reg_num (r_rs2 a)"
  shows "sound c (\<lambda>gb st. sets_reg d (r_rd a) (scast (rv_div (low (greg d (tv st) (r_rs1 a))) (low (greg d (tv st) (r_rs2 a))))) (mem st) st) (gen_div_rem_w d a False c)"
    "sound c (\<lambda>gb st. sets_reg d (r_rd a) (scast (rv_rem (low (greg d (tv st) (r_rs1 a))) (low (greg d (tv st) (r_rs2 a))))) (mem st) st) (gen_div_rem_w d a True c)"
proof -
  note e = div_emits
  show "sound c (\<lambda>gb st. sets_reg d (r_rd a) (scast (rv_div (low (greg d (tv st) (r_rs1 a))) (low (greg d (tv st) (r_rs2 a))))) (mem st) st) (gen_div_rem_w d a False c)"
    unfolding sound_def gen_div_rem_w_def
    apply (rule s_opd [OF ready_built [OF c] r(2)], simp)
    apply (erule s_opd [OF _ r(3)], simp, erule s_temp, simp, erule s_op [OF e(6)], erule s_temp, simp, erule s_op [OF e(6)])
    apply ((erule s_const, simp)+, erule s_temp, simp, (erule s_op [OF e(1)])+)
    apply (erule s_temp, simp, erule s_const, simp, erule s_op [OF e(2)], (erule s_temp, simp)+, erule s_op [OF e(3)])
    apply (rule tw_bind, simp only: if_False)
    apply (erule s_temp, simp, erule s_op [OF e(4)], erule s_temp, simp, (erule s_op [OF e(1)])+)
    apply (erule s_set_gpr_end(2) [OF _ r(1)], rule sound_end, erule built_effects)
    apply (simp add: x_cond x_shift x_wide x_arith x_conv cond_at_def r del: cond_as_u32.simps trunc.simps(1) split del: if_split)
    apply (rule xrun_set_gpr(2) [OF _ r(1)], simp_all add: no_fault r rv_div_def low_def sdiv_neg1 sign32 del: trunc.simps(1))
    done
  show "sound c (\<lambda>gb st. sets_reg d (r_rd a) (scast (rv_rem (low (greg d (tv st) (r_rs1 a))) (low (greg d (tv st) (r_rs2 a))))) (mem st) st) (gen_div_rem_w d a True c)"
    unfolding sound_def gen_div_rem_w_def
    apply (rule s_opd [OF ready_built [OF c] r(2)], simp)
    apply (erule s_opd [OF _ r(3)], simp, erule s_temp, simp, erule s_op [OF e(6)], erule s_temp, simp, erule s_op [OF e(6)])
    apply ((erule s_const, simp)+, erule s_temp, simp, (erule s_op [OF e(1)])+)
    apply (erule s_temp, simp, erule s_const, simp, erule s_op [OF e(2)], (erule s_temp, simp)+, erule s_op [OF e(3)])
    apply (rule tw_bind, simp only: if_True)
    apply (erule s_temp, simp, (erule s_op [OF e(1)])+)
    apply (erule s_set_gpr_end(2) [OF _ r(1)], rule sound_end, erule built_effects)
    apply (simp add: x_cond x_shift x_wide x_arith x_conv cond_at_def r del: cond_as_u32.simps trunc.simps(1) split del: if_split)
    apply (rule xrun_set_gpr(2) [OF _ r(1)], simp_all add: no_fault r rv_rem_def low_def sdiv_neg1 smod_one sign32 del: trunc.simps(1))
    done
qed

lemma divu_remu_w_sound:
  assumes c: "ready d c" and r: "reg_num (r_rd a)" "reg_num (r_rs1 a)" "reg_num (r_rs2 a)"
  shows "sound c (\<lambda>gb st. sets_reg d (r_rd a) (scast (rv_divu (low (greg d (tv st) (r_rs1 a))) (low (greg d (tv st) (r_rs2 a))))) (mem st) st) (gen_divu_remu_w d a False c)"
    "sound c (\<lambda>gb st. sets_reg d (r_rd a) (scast (rv_remu (low (greg d (tv st) (r_rs1 a))) (low (greg d (tv st) (r_rs2 a))))) (mem st) st) (gen_divu_remu_w d a True c)"
proof -
  note e = div_emits
  show "sound c (\<lambda>gb st. sets_reg d (r_rd a) (scast (rv_divu (low (greg d (tv st) (r_rs1 a))) (low (greg d (tv st) (r_rs2 a))))) (mem st) st) (gen_divu_remu_w d a False c)"
    unfolding sound_def gen_divu_remu_w_def
    apply (rule s_opd [OF ready_built [OF c] r(2)], simp)
    apply (erule s_opd [OF _ r(3)], simp, erule s_temp, simp, erule s_op [OF e(6)], erule s_temp, simp, erule s_op [OF e(6)])
    apply ((erule s_const, simp)+, erule s_temp, simp, erule s_op [OF e(1)])
    apply ((erule s_temp, simp)+, erule s_op [OF e(5)])
    apply (rule tw_bind, simp only: if_False)
    apply (erule s_const, simp, erule s_temp, simp, erule s_op [OF e(1)])
    apply (erule s_set_gpr_end(2) [OF _ r(1)], rule sound_end, erule built_effects)
    apply (simp add: x_cond x_shift x_wide x_arith x_conv cond_at_def r del: cond_as_u32.simps trunc.simps(1) split del: if_split)
    apply (rule xrun_set_gpr(2) [OF _ r(1)], simp_all add: no_fault r rv_divu_def low_def udouble_def word_div_def del: trunc.simps(1))
    done
  show "sound c (\<lambda>gb st. sets_reg d (r_rd a) (scast (rv_remu (low (greg d (tv st) (r_rs1 a))) (low (greg d (tv st) (r_rs2 a))))) (mem st) st) (gen_divu_remu_w d a True c)"
    unfolding sound_def gen_divu_remu_w_def
    apply (rule s_opd [OF ready_built [OF c] r(2)], simp)
    apply (erule s_opd [OF _ r(3)], simp, erule s_temp, simp, erule s_op [OF e(6)], erule s_temp, simp, erule s_op [OF e(6)])
    apply ((erule s_const, simp)+, erule s_temp, simp, erule s_op [OF e(1)])
    apply ((erule s_temp, simp)+, erule s_op [OF e(5)])
    apply (rule tw_bind, simp only: if_True)
    apply (erule s_temp, simp, erule s_op [OF e(1)])
    apply (erule s_set_gpr_end(2) [OF _ r(1)], rule sound_end, erule built_effects)
    apply (simp add: x_cond x_shift x_wide x_arith x_conv cond_at_def r del: cond_as_u32.simps trunc.simps(1) split del: if_split)
    apply (rule xrun_set_gpr(2) [OF _ r(1)], simp_all add: no_fault r rv_remu_def low_def udouble_def word_mod_def del: trunc.simps(1))
    done
qed

section \<open>High products\<close>

lemma mulhsu_value:
  "word_of_int (uint a * uint b div 2 ^ 64) - (signed_drop_bit 63 a AND b) = word_of_int (sint a * uint b div 2 ^ 64)" for a b :: u64
proof -
  have b: "- (2 ^ 63) \<le> sint a" "sint a < 2 ^ 63" using sint_greater_eq [of a] sint_less [of a] by simp_all
  have u: "uint a = sint a mod 2 ^ 64" by (simp add: uint_sint take_bit_eq_mod)
  show ?thesis
  proof (cases "0 \<le> sint a")
    case True
    have "sint (signed_drop_bit 63 a) = sint (0 :: u64)" using True b by (simp add: sint_signed_drop_bit_eq drop_bit_eq_div)
    then have "signed_drop_bit 63 a = 0" by (rule signed_word_eqI)
    moreover have "uint a = sint a" using u True b by simp
    ultimately show ?thesis by simp
  next
    case False
    have "sint a div 2 ^ 63 = - 1" using b False by (intro int_div_pos_eq [of _ _ _ "sint a + 2 ^ 63"]) simp_all
    then have "sint (signed_drop_bit 63 a) = sint (- 1 :: u64)" by (simp add: sint_signed_drop_bit_eq drop_bit_eq_div)
    then have "signed_drop_bit 63 a = - 1" by (rule signed_word_eqI)
    moreover have "sint a mod 2 ^ 64 = sint a + 2 ^ 64" using b False by (intro int_mod_pos_eq [of _ _ "- 1"]) simp_all
    then have "uint a * uint b div 2 ^ 64 = sint a * uint b div 2 ^ 64 + uint b"
      unfolding u by (simp add: distrib_right div_mult_self4)
    ultimately show ?thesis by simp
  qed
qed

text \<open>The translations that build their ops themselves leave the disassembly context alone.\<close>

definition goes_on :: "RiscvDisasContext \<Rightarrow> Context \<Rightarrow> (u64 \<Rightarrow> (u64 \<Rightarrow> u8) ir_state \<Rightarrow> (u64 \<Rightarrow> u8) IR_Semantics.outcome \<Rightarrow> bool) \<Rightarrow>
    (bool \<times> RiscvDisasContext \<times> Context) option \<Rightarrow> bool" where
  "goes_on d c F r \<longleftrightarrow> tw r (\<lambda>(ok, d', c'). ok \<and> d' = d \<and> effects c c' F)"

lemma goes_on_end: "effects c c' F \<Longrightarrow> tw (Some (True, d, c')) (\<lambda>(ok, d', c'). ok \<and> d' = d \<and> effects c c' F)"
  by (simp add: tw_def)

lemma goes_on_keep: "sound c F (m c) \<Longrightarrow> goes_on d c F (keep d m c)"
  by (auto simp: sound_def goes_on_def keep_def tw_def)

lemma require_M: "misa_contains (misa (d_cfg d)) e \<Longrightarrow> require_ext d e m c = m c"
  by (simp add: require_ext_def)

lemma mulh_sound:
  assumes c: "ready d c" "misa_contains (misa (d_cfg d)) MISA_M" and r: "reg_num (r_rd a)" "reg_num (r_rs1 a)" "reg_num (r_rs2 a)"
  shows "goes_on d c (\<lambda>gb st. sets_reg d (r_rd a) (word_of_int (sint (greg d (tv st) (r_rs1 a)) * sint (greg d (tv st) (r_rs2 a)) div 2 ^ 64)) (mem st) st) (trans_mulh d a c)"
    "goes_on d c (\<lambda>gb st. sets_reg d (r_rd a) (word_of_int (uint (greg d (tv st) (r_rs1 a)) * uint (greg d (tv st) (r_rs2 a)) div 2 ^ 64)) (mem st) st) (trans_mulhu d a c)"
    "goes_on d c (\<lambda>gb st. sets_reg d (r_rd a) (word_of_int (sint (greg d (tv st) (r_rs1 a)) * uint (greg d (tv st) (r_rs2 a)) div 2 ^ 64)) (mem st) st) (trans_mulhsu d a c)"
proof -
  have e: "emits (gen_muls2 I64 t u x y) (OMulW MulS2) I64 [t, u, x, y] ()" "emits (gen_mulu2 I64 t u x y) (OMulW MulU2) I64 [t, u, x, y] ()"
    "emits (gen_sar I64 t x y) (OShift Sar) I64 [t, x, y] t" "emits (gen_and I64 t x y) (OLogic And) I64 [t, x, y] t"
    "emits (gen_sub I64 t x y) (OArith Sub) I64 [t, x, y] t" for t u x y by (rule emits_gen)+
  note start = s_opd [OF ready_built [OF c(1)] r(2)]
  show "goes_on d c (\<lambda>gb st. sets_reg d (r_rd a) (word_of_int (sint (greg d (tv st) (r_rs1 a)) * sint (greg d (tv st) (r_rs2 a)) div 2 ^ 64)) (mem st) st) (trans_mulh d a c)"
    unfolding goes_on_def trans_mulh_def require_M [OF c(2)]
    by (rule start, simp, erule s_opd [OF _ r(3)], simp, (erule s_temp, simp)+, erule s_op [OF e(1)],
        erule s_set_gpr(1) [OF _ r(1)], rule goes_on_end, erule built_effects)
      (simp add: x_wide, rule xrun_set_gpr(1) [OF _ r(1)], simp_all add: r)
  show "goes_on d c (\<lambda>gb st. sets_reg d (r_rd a) (word_of_int (uint (greg d (tv st) (r_rs1 a)) * uint (greg d (tv st) (r_rs2 a)) div 2 ^ 64)) (mem st) st) (trans_mulhu d a c)"
    unfolding goes_on_def trans_mulhu_def require_M [OF c(2)]
    by (rule start, simp, erule s_opd [OF _ r(3)], simp, (erule s_temp, simp)+, erule s_op [OF e(2)],
        erule s_set_gpr(1) [OF _ r(1)], rule goes_on_end, erule built_effects)
      (simp add: x_wide, rule xrun_set_gpr(1) [OF _ r(1)], simp_all add: r)
  show "goes_on d c (\<lambda>gb st. sets_reg d (r_rd a) (word_of_int (sint (greg d (tv st) (r_rs1 a)) * uint (greg d (tv st) (r_rs2 a)) div 2 ^ 64)) (mem st) st) (trans_mulhsu d a c)"
    unfolding goes_on_def trans_mulhsu_def require_M [OF c(2)]
    by (rule start, simp, erule s_opd [OF _ r(3)], simp, (erule s_temp, simp)+, erule s_op [OF e(2)], erule s_const, simp, erule s_temp, simp,
        erule s_op [OF e(3)], erule s_temp, simp, erule s_op [OF e(4)], erule s_op [OF e(5)],
        erule s_set_gpr(1) [OF _ r(1)], rule goes_on_end, erule built_effects)
      (simp add: x_wide x_shift x_arith r, rule xrun_set_gpr(1) [OF _ r(1)], simp_all add: r mulhsu_value [simplified])
qed

section \<open>Upper immediates\<close>

lemma upper_sound:
  assumes c: "ready d c" and r: "reg_num (u_rd a)"
  shows "goes_on d c (\<lambda>gb st. sets_reg d (u_rd a) (u_imm a) (mem st) st) (trans_lui d a c)"
    "goes_on d c (\<lambda>gb st. sets_reg d (u_rd a) (pc_next (d_base d) + u_imm a) (mem st) st) (trans_auipc d a c)"
proof -
  show "goes_on d c (\<lambda>gb st. sets_reg d (u_rd a) (u_imm a) (mem st) st) (trans_lui d a c)"
    unfolding goes_on_def trans_lui_def
    by (rule s_const [OF ready_built [OF c]], simp, erule s_set_gpr(1) [OF _ r], rule goes_on_end, erule built_effects)
      (simp, rule xrun_set_gpr(1) [OF _ r], simp_all)
  show "goes_on d c (\<lambda>gb st. sets_reg d (u_rd a) (pc_next (d_base d) + u_imm a) (mem st) st) (trans_auipc d a c)"
    unfolding goes_on_def trans_auipc_def Let_def
    by (rule s_const [OF ready_built [OF c]], simp, erule s_set_gpr(1) [OF _ r], rule goes_on_end, erule built_effects)
      (simp, rule xrun_set_gpr(1) [OF _ r], simp_all)
qed

section \<open>Guest memory\<close>

text \<open>The address of an access is an operand, or a temp that holds the sum.\<close>

lemma gen_address_bind:
  "gen_address d i imm c \<bind> (\<lambda>(t, c). g t c) =
     (gpr_or_zero d i c \<bind> (\<lambda>(b, c). if imm = 0 then g b c
        else emit (new_const I64 imm) c \<bind> (\<lambda>(k, c). emit (new_temp I64) c \<bind> (\<lambda>(t, c). emit (gen_add I64 t b k) c \<bind> (\<lambda>(t, c). g t c)))))"
  by (simp add: gen_address_def emit_def split: Option.bind_split prod.split)

text \<open>A store changes the memory only.\<close>

definition sets_mem :: "RiscvDisasContext \<Rightarrow> (u64 \<Rightarrow> u8) \<Rightarrow> (u64 \<Rightarrow> u8) ir_state \<Rightarrow> (u64 \<Rightarrow> u8) IR_Semantics.outcome \<Rightarrow> bool" where
  "sets_mem d m st o' \<longleftrightarrow> (\<exists>st'. o' = Next st' \<and> mem st' = m \<and> tv st' (d_pc d) = tv st (d_pc d) \<and>
     (\<forall>i. reg_num i \<longrightarrow> greg d (tv st') i = greg d (tv st) i))"

lemma memory_sound:
  assumes c: "ready d c"
  shows "reg_num (i_rd a) \<Longrightarrow> reg_num (i_rs1 a) \<Longrightarrow>
      sound c (\<lambda>gb st. sets_reg d (i_rd a) (guest_load mo (gb + (greg d (tv st) (i_rs1 a) + i_imm a)) (mem st)) (mem st) st) (gen_load d a mo c)"
    "reg_num (s_rs1 b) \<Longrightarrow> reg_num (s_rs2 b) \<Longrightarrow>
      sound c (\<lambda>gb st. sets_mem d (guest_store mo (gb + (greg d (tv st) (s_rs1 b) + s_imm b)) (greg d (tv st) (s_rs2 b)) (mem st)) st) (gen_store d b mo c)"
proof -
  have e: "emits (gen_add I64 t x y) (OArith Add) I64 [t, x, y] t" 
    "emits (gen_qemu_ld I64 t x z) (OGuest QemuLd) I64 [t, x, carg z] t" "emits (gen_qemu_st I64 t x z) (OGuest QemuSt) I64 [t, x, carg z] ()" for t x y z
    by (rule emits_gen)+
  show "sound c (\<lambda>gb st. sets_reg d (i_rd a) (guest_load mo (gb + (greg d (tv st) (i_rs1 a) + i_imm a)) (mem st)) (mem st) st) (gen_load d a mo c)"
    if r: "reg_num (i_rd a)" "reg_num (i_rs1 a)"
  proof (cases "i_imm a = 0")
    case True
    show ?thesis
      unfolding sound_def gen_load_def gen_address_bind if_P [OF True]
      by (rule s_opd [OF ready_built [OF c] r(2)], simp, erule s_temp, simp, erule s_op [OF e(2)],
        erule s_set_gpr(1) [OF _ r(1)], rule sound_end, erule built_effects)
        (simp add: x_guest, rule xrun_set_gpr(1) [OF _ r(1)], simp_all add: r True)
  next
    case False
    show ?thesis
      unfolding sound_def gen_load_def gen_address_bind if_not_P [OF False]
      by (rule s_opd [OF ready_built [OF c] r(2)], simp, erule s_const, simp, erule s_temp, simp, erule s_op [OF e(1)], erule s_temp, simp, erule s_op [OF e(2)],
        erule s_set_gpr(1) [OF _ r(1)], rule sound_end, erule built_effects)
        (simp add: x_guest x_arith, rule xrun_set_gpr(1) [OF _ r(1)], simp_all add: r)
  qed
  show "sound c (\<lambda>gb st. sets_mem d (guest_store mo (gb + (greg d (tv st) (s_rs1 b) + s_imm b)) (greg d (tv st) (s_rs2 b)) (mem st)) st) (gen_store d b mo c)"
    if r: "reg_num (s_rs1 b)" "reg_num (s_rs2 b)"
  proof (cases "s_imm b = 0")
    case True
    show ?thesis
      unfolding sound_def gen_store_def gen_address_bind if_P [OF True]
      by (rule s_opd [OF ready_built [OF c] r(1)], simp, erule s_opd [OF _ r(2)], simp, erule s_op [OF e(3)], rule sound_end, erule built_effects)
        (simp add: x_guest sets_mem_def True)
  next
    case False
    show ?thesis
      unfolding sound_def gen_store_def gen_address_bind if_not_P [OF False]
      by (rule s_opd [OF ready_built [OF c] r(1)], simp, erule s_const, simp, erule s_temp, simp, erule s_op [OF e(1)],
          erule s_opd [OF _ r(2)], simp, erule s_op [OF e(3)], rule sound_end, erule built_effects)
        (simp add: x_guest x_arith sets_mem_def r)
  qed
qed

end
