(* ===== verification/Decode_Files.thy ===== *)
theory Decode_Files
  imports Decode_Check
begin

text \<open>
  Reading a decode file: the logical lines of a text with continuations, and how a file is parsed
  piece by piece. The code equations at the end only speed up the evaluation of the parser.
\<close>

section \<open>Logical lines\<close>

definition file_text :: "string list \<Rightarrow> string" where
  "file_text ls = concat (map (\<lambda>l. l @ [CHR 0x0A]) ls)"

definition continued :: "string \<Rightarrow> bool" where
  "continued l \<longleftrightarrow> l \<noteq> [] \<and> last l = CHR 0x5C"

definition strip_backslash :: "string \<Rightarrow> string" where
  "strip_backslash l = rev (dropWhile (\<lambda>c. c = CHR '' '') (rev (butlast l)))"

fun logical :: "string list \<Rightarrow> string list" where
  "logical [] = []"
| "logical [l] = [if continued l then strip_backslash l else l]"
| "logical (l # m # ls) =
     (if continued l then logical ((strip_backslash l @ '' '' @ trim m) # ls) else l # logical (m # ls))"

definition plain :: "string \<Rightarrow> bool" where
  "plain l \<longleftrightarrow> CHR 0x0A \<notin> set l \<and> CHR 0x0D \<notin> set l"

lemma lines_from_plain: "plain l \<Longrightarrow> lines_from acc (l @ CHR 0x0A # s) = chomp (rev acc @ l) # lines_from [] s"
  by (induction l arbitrary: acc) (auto simp: plain_def)

lemma lines_from_last: "plain l \<Longrightarrow> lines_from acc l = (if rev acc @ l = [] then [] else [rev acc @ l])"
  by (induction l arbitrary: acc) (auto simp: plain_def)

lemma chomp_plain: "plain l \<Longrightarrow> chomp l = l"
  by (auto simp: chomp_def plain_def dest: last_in_set)

lemma lines_of_text: "list_all plain ls \<Longrightarrow> str_lines (file_text ls) = ls"
  unfolding str_lines_def file_text_def by (induction ls) (simp_all add: lines_from_plain chomp_plain)

text \<open>The text of the logical lines is joined, without a line end after the last.\<close>

fun join :: "string list \<Rightarrow> string" where
  "join [] = []"
| "join [l] = l"
| "join (l # ls) = l @ CHR 0x0A # join ls"

lemma lines_of_join: "list_all plain ls \<Longrightarrow> ls \<noteq> [] \<Longrightarrow> last ls \<noteq> [] \<Longrightarrow> str_lines (join ls) = ls"
  unfolding str_lines_def
  by (induction ls rule: join.induct) (simp_all add: lines_from_plain chomp_plain lines_from_last)

definition line_start :: "string \<Rightarrow> bool" where
  "line_start pre \<longleftrightarrow> pre = [] \<or> last pre = CHR 0x0A"

definition merged :: "string \<Rightarrow> string \<Rightarrow> string \<times> bool" where
  "merged pre l = (if continued l then (pre @ strip_backslash l, True) else (pre @ l, False))"

lemma merged_whole:
  assumes "line_start pre"
  shows "merged [] (pre @ l) = merged pre l"
proof (cases "l = []")
  case True
  then show ?thesis using assms by (auto simp: merged_def continued_def line_start_def)
next
  case False
  have drop: "dropWhile (\<lambda>c. c = CHR '' '') (rev xs @ rev pre) = dropWhile (\<lambda>c. c = CHR '' '') (rev xs) @ rev pre" for xs
    using assms by (cases pre rule: rev_cases) (auto simp: line_start_def dropWhile_append)
  show ?thesis using False by (simp add: merged_def continued_def strip_backslash_def butlast_append drop)
qed

lemma merge_step_merged:
  assumes "line_start pre"
  shows "merge_step (pre @ l, True) m = merged pre (l @ '' '' @ trim m)"
    "pre @ l \<noteq> [] \<Longrightarrow> merge_step (pre @ l, False) m = merged (pre @ l @ [CHR 0x0A]) m"
    "merge_step ([], False) m = merged [] m"
proof -
  have step: "merge_step (out, cont) m = merged [] (if cont then out @ '' '' @ trim m else if out \<noteq> [] then out @ [CHR 0x0A] @ m else m)" for out cont
    by (simp add: merge_step_def merged_def continued_def strip_backslash_def Let_def)
  have "line_start (pre @ l @ [CHR 0x0A])" by (simp add: line_start_def)
  note whole = merged_whole [OF assms, of "l @ '' '' @ trim m"] merged_whole [OF this, of m]
  show "merge_step (pre @ l, True) m = merged pre (l @ '' '' @ trim m)" using whole(1) by (simp add: step)
  show "pre @ l \<noteq> [] \<Longrightarrow> merge_step (pre @ l, False) m = merged (pre @ l @ [CHR 0x0A]) m" using whole(2) by (simp add: step)
  show "merge_step ([], False) m = merged [] m" by (simp add: step)
qed

lemma join_Cons: "ls \<noteq> [] \<Longrightarrow> join (l # ls) = l @ CHR 0x0A # join ls"
  by (cases ls) auto

lemma logical_nonempty: "logical (l # ls) \<noteq> []"
  by (induction "l # ls" arbitrary: l ls rule: logical.induct) auto

lemma fold_merged:
  "line_start pre \<Longrightarrow> pre \<noteq> [] \<or> (l \<noteq> [] \<and> \<not> continued l) \<Longrightarrow> fst (foldl merge_step (merged pre l) ls) = pre @ join (logical (l # ls))"
proof (induction ls arbitrary: pre l)
  case Nil
  then show ?case by (simp add: merged_def)
next
  case (Cons m ls)
  show ?case
  proof (cases "continued l")
    case True
    then have "merge_step (merged pre l) m = merged pre (strip_backslash l @ '' '' @ trim m)"
      using merge_step_merged(1) [OF Cons.prems(1), of "strip_backslash l" m] by (simp add: merged_def)
    moreover have "pre \<noteq> []" using Cons.prems(2) True by simp
    ultimately show ?thesis using Cons.IH [OF Cons.prems(1)] True by simp
  next
    case False
    then have "merge_step (merged pre l) m = merged (pre @ l @ [CHR 0x0A]) m"
      using merge_step_merged(2) [OF Cons.prems(1), of l m] Cons.prems(2) by (simp add: merged_def)
    then show ?thesis
      using Cons.IH [of "pre @ l @ [CHR 0x0A]" m] False by (simp add: line_start_def join_Cons [OF logical_nonempty])
  qed
qed

lemma set_trim: "set (trim s) \<subseteq> set s"
  by (auto simp: trim_def dest!: set_dropWhileD)

lemma logical_plain: "list_all plain ls \<Longrightarrow> list_all plain (logical ls)"
proof (induction ls rule: logical.induct)
  case (3 l m ls)
  have "plain (strip_backslash l @ '' '' @ trim m)"
    using 3(3) set_trim [of m] by (auto simp: plain_def strip_backslash_def dest!: set_dropWhileD in_set_butlastD)
  then show ?case using 3 by simp
qed (auto simp: plain_def strip_backslash_def dest!: set_dropWhileD in_set_butlastD)

lemma logical_lines:
  assumes "list_all plain ls" "ls \<noteq> []" "hd ls \<noteq> []" "\<not> continued (hd ls)" "last (logical ls) \<noteq> []"
  shows "str_lines (merge_continuations (file_text ls)) = logical ls"
proof -
  obtain l ms where ls: "ls = l # ms" using assms(2) by (cases ls) auto
  have "merge_continuations (file_text ls) = join (logical ls)"
    using fold_merged [of "[]" l ms] merge_step_merged(3) [of "[]" l] assms(3,4)
    unfolding merge_continuations_def lines_of_text [OF assms(1)] by (simp add: line_start_def ls)
  then show ?thesis using lines_of_join [OF logical_plain [OF assms(1)] _ assms(5)] logical_nonempty ls by simp
qed

text \<open>A piece of a file whose last line is not continued can be read alone.\<close>

fun complete :: "string list \<Rightarrow> bool" where
  "complete [] = True"
| "complete [l] = (\<not> continued l)"
| "complete (l # m # ls) = (if continued l then complete ((strip_backslash l @ '' '' @ trim m) # ls) else complete (m # ls))"

lemma logical_append: "complete xs \<Longrightarrow> logical (xs @ ys) = logical xs @ logical ys"
proof (induction xs rule: logical.induct)
  case (2 l)
  then show ?case by (cases ys) auto
next
  case (3 l m ls)
  then show ?case by (cases "continued l") auto
qed simp

definition piece :: "string list \<Rightarrow> string list \<Rightarrow> bool" where
  "piece xs ls \<longleftrightarrow> complete xs \<and> logical xs = ls \<and> list_all plain xs"

lemma piece_append: "piece xs ls \<Longrightarrow> list_all plain ys \<Longrightarrow> list_all plain (xs @ ys) \<and> logical (xs @ ys) = ls @ logical ys"
  by (simp add: piece_def logical_append)

lemma parse_file:
  assumes "list_all plain ls" "ls \<noteq> []" "hd ls \<noteq> []" "\<not> continued (hd ls)" "last (logical ls) \<noteq> []"
    "parse_lines width (logical ls) \<lparr>st_fields = [], st_argsets = [], st_formats = [], st_patterns = [], st_auto = []\<rparr> = Inr s"
  shows "parse_with_width (file_text ls) width =
    Inr \<lparr>ps_fields = st_fields s, ps_argsets = bt_extend (st_argsets s) (st_auto s), ps_patterns = st_patterns s\<rparr>"
  by (simp add: parse_with_width_def logical_lines [OF assms(1-5)] assms(6))

section \<open>Parsing piece by piece\<close>

definition add_patterns :: "Pattern list \<Rightarrow> parse_state \<Rightarrow> parse_state" where
  "add_patterns ps s = s\<lparr>st_patterns := ps @ st_patterns s\<rparr>"

lemma parse_line_patterns: "parse_line width l (add_patterns ps s) = map_sum id (add_patterns ps) (parse_line width l s)"
  by (simp add: parse_line_def add_patterns_def Let_def split: sum.split)

lemma parse_lines_patterns: "parse_lines width ls (add_patterns ps s) = map_sum id (add_patterns ps) (parse_lines width ls s)"
  by (induction ls arbitrary: s) (simp_all add: parse_line_patterns split: sum.split)

lemma parse_lines_append:
  "parse_lines width xs s = Inr s' \<Longrightarrow> parse_lines width (xs @ ys) s = parse_lines width ys s'"
  by (induction xs arbitrary: s) (auto split: sum.splits)

lemma parse_lines_more:
  assumes "parse_lines width xs \<lparr>st_fields = F, st_argsets = A, st_formats = M, st_patterns = [], st_auto = U\<rparr> =
    Inr \<lparr>st_fields = F', st_argsets = A', st_formats = M', st_patterns = ps', st_auto = U'\<rparr>"
  shows "parse_lines width (xs @ ys) \<lparr>st_fields = F, st_argsets = A, st_formats = M, st_patterns = ps, st_auto = U\<rparr> =
    parse_lines width ys \<lparr>st_fields = F', st_argsets = A', st_formats = M', st_patterns = ps @ ps', st_auto = U'\<rparr>"
  using parse_lines_patterns [of width xs ps "\<lparr>st_fields = F, st_argsets = A, st_formats = M, st_patterns = [], st_auto = U\<rparr>"] assms
  by (intro parse_lines_append) (simp add: add_patterns_def)

section \<open>Evaluating the parser\<close>

lemma is_space_code [code]:
  "is_space c \<longleftrightarrow> c = CHR '' '' \<or> c = CHR 0x09 \<or> c = CHR 0x0A \<or> c = CHR 0x0B \<or> c = CHR 0x0C \<or> c = CHR 0x0D"
proof -
  have "of_char c = (of_char d :: nat) \<longleftrightarrow> c = d" for d by simp
  from this [of "CHR '' ''"] this [of "CHR 0x09"] this [of "CHR 0x0A"] this [of "CHR 0x0B"] this [of "CHR 0x0C"] this [of "CHR 0x0D"]
  show ?thesis by (simp add: is_space_def) blast
qed

definition bit_table :: "u32 list" where
  "bit_table = [0x1, 0x2, 0x4, 0x8, 0x10, 0x20, 0x40, 0x80, 0x100, 0x200, 0x400, 0x800, 0x1000, 0x2000, 0x4000, 0x8000,
     0x10000, 0x20000, 0x40000, 0x80000, 0x100000, 0x200000, 0x400000, 0x800000, 0x1000000, 0x2000000, 0x4000000, 0x8000000,
     0x10000000, 0x20000000, 0x40000000, 0x80000000]"

definition bit_at :: "int \<Rightarrow> u32" where
  "bit_at i = (if 0 \<le> i \<and> i < 32 then bit_table ! nat i else push_bit (nat i) 1)"

lemma bit_at: "push_bit (nat i) 1 = bit_at i"
proof (cases "0 \<le> i \<and> i < 32")
  case True
  then have "nat i \<in> set [0..<32]" by auto
  moreover have "list_all (\<lambda>n. push_bit n 1 = bit_table ! n) [0..<32]" by (simp add: bit_table_def upt_rec)
  ultimately show ?thesis using True unfolding bit_at_def list_all_iff by auto
next
  case False
  then show ?thesis unfolding bit_at_def by presburger
qed

lemma parse_bits_code [code]:
  "parse_bits width [] s = Inr s"
  "parse_bits width (c # cs) (bit_pos, r) =
     (if bit_pos < 0 then Inl (''bit pattern exceeds '' @ show_nat width @ '' bits'')
      else if c = CHR ''1'' then parse_bits width cs (bit_pos - 1,
        r\<lparr>bp_fixedbits := bp_fixedbits r OR bit_at bit_pos, bp_fixedmask := bp_fixedmask r OR bit_at bit_pos\<rparr>)
      else if c = CHR ''0'' then parse_bits width cs (bit_pos - 1, r\<lparr>bp_fixedmask := bp_fixedmask r OR bit_at bit_pos\<rparr>)
      else parse_bits width cs (bit_pos - 1, r))"
  by (auto simp: bit_at [symmetric] Let_def)

end
