(* ===== verification/Riscv_Tables.thy ===== *)
theory Riscv_Tables
  imports Decode_Files Riscv_Names
begin

text \<open>
  The tables of the RISC-V decode files (\<open>frontend/src/riscv/insn32.decode\<close>, \<open>insn16.decode\<close>), as the
  generator's parser holds them; the second file is here line by line too, and the model of the parser
  reads the table from it. Both tables pass \<open>table_check\<close>, so the facts about translation hold for the
  decoders that are built from the files.
\<close>

section \<open>\<open>insn32.decode\<close>\<close>

definition insn32_fields :: "Field btree" where
  "insn32_fields = [
     (''csr'', \<lparr>f_name = ''csr'', f_segments = [\<lparr>seg_pos = 20, seg_len = 12, seg_signed = False\<rparr>], f_func = None\<rparr>),
     (''imm_b'', \<lparr>f_name = ''imm_b'', f_segments = [\<lparr>seg_pos = 31, seg_len = 1, seg_signed = True\<rparr>, \<lparr>seg_pos = 7, seg_len = 1, seg_signed = False\<rparr>, \<lparr>seg_pos = 25, seg_len = 6, seg_signed = False\<rparr>, \<lparr>seg_pos = 8, seg_len = 4, seg_signed = False\<rparr>], f_func = Some ''ex_shift_1''\<rparr>),
     (''imm_i'', \<lparr>f_name = ''imm_i'', f_segments = [\<lparr>seg_pos = 20, seg_len = 12, seg_signed = True\<rparr>], f_func = None\<rparr>),
     (''imm_j'', \<lparr>f_name = ''imm_j'', f_segments = [\<lparr>seg_pos = 31, seg_len = 1, seg_signed = True\<rparr>, \<lparr>seg_pos = 12, seg_len = 8, seg_signed = False\<rparr>, \<lparr>seg_pos = 20, seg_len = 1, seg_signed = False\<rparr>, \<lparr>seg_pos = 21, seg_len = 10, seg_signed = False\<rparr>], f_func = Some ''ex_shift_1''\<rparr>),
     (''imm_s'', \<lparr>f_name = ''imm_s'', f_segments = [\<lparr>seg_pos = 25, seg_len = 7, seg_signed = True\<rparr>, \<lparr>seg_pos = 7, seg_len = 5, seg_signed = False\<rparr>], f_func = None\<rparr>),
     (''imm_u'', \<lparr>f_name = ''imm_u'', f_segments = [\<lparr>seg_pos = 12, seg_len = 20, seg_signed = True\<rparr>], f_func = Some ''ex_shift_12''\<rparr>),
     (''rd'', \<lparr>f_name = ''rd'', f_segments = [\<lparr>seg_pos = 7, seg_len = 5, seg_signed = False\<rparr>], f_func = None\<rparr>),
     (''rm'', \<lparr>f_name = ''rm'', f_segments = [\<lparr>seg_pos = 12, seg_len = 3, seg_signed = False\<rparr>], f_func = None\<rparr>),
     (''rs1'', \<lparr>f_name = ''rs1'', f_segments = [\<lparr>seg_pos = 15, seg_len = 5, seg_signed = False\<rparr>], f_func = None\<rparr>),
     (''rs2'', \<lparr>f_name = ''rs2'', f_segments = [\<lparr>seg_pos = 20, seg_len = 5, seg_signed = False\<rparr>], f_func = None\<rparr>),
     (''rs3'', \<lparr>f_name = ''rs3'', f_segments = [\<lparr>seg_pos = 27, seg_len = 5, seg_signed = False\<rparr>], f_func = None\<rparr>),
     (''sh5'', \<lparr>f_name = ''sh5'', f_segments = [\<lparr>seg_pos = 20, seg_len = 5, seg_signed = False\<rparr>], f_func = None\<rparr>),
     (''sh7'', \<lparr>f_name = ''sh7'', f_segments = [\<lparr>seg_pos = 20, seg_len = 7, seg_signed = False\<rparr>], f_func = None\<rparr>)]"

definition insn32_args :: "ArgSet btree" where
  "insn32_args = [
     (''_auto_fence'', \<lparr>as_name = ''_auto_fence'', as_fields = [''pred'', ''succ''], as_is_extern = False\<rparr>),
     (''atomic'', \<lparr>as_name = ''atomic'', as_fields = [''aq'', ''rl'', ''rs2'', ''rs1'', ''rd''], as_is_extern = False\<rparr>),
     (''b'', \<lparr>as_name = ''b'', as_fields = [''imm'', ''rs2'', ''rs1''], as_is_extern = False\<rparr>),
     (''csr'', \<lparr>as_name = ''csr'', as_fields = [''csr'', ''rs1'', ''rd''], as_is_extern = False\<rparr>),
     (''empty'', \<lparr>as_name = ''empty'', as_fields = [], as_is_extern = False\<rparr>),
     (''i'', \<lparr>as_name = ''i'', as_fields = [''imm'', ''rs1'', ''rd''], as_is_extern = False\<rparr>),
     (''j'', \<lparr>as_name = ''j'', as_fields = [''imm'', ''rd''], as_is_extern = False\<rparr>),
     (''r'', \<lparr>as_name = ''r'', as_fields = [''rd'', ''rs1'', ''rs2''], as_is_extern = False\<rparr>),
     (''r2'', \<lparr>as_name = ''r2'', as_fields = [''rd'', ''rs1''], as_is_extern = False\<rparr>),
     (''r2_rm'', \<lparr>as_name = ''r2_rm'', as_fields = [''rd'', ''rs1'', ''rm''], as_is_extern = False\<rparr>),
     (''r4_rm'', \<lparr>as_name = ''r4_rm'', as_fields = [''rd'', ''rs1'', ''rs2'', ''rs3'', ''rm''], as_is_extern = False\<rparr>),
     (''r_rm'', \<lparr>as_name = ''r_rm'', as_fields = [''rd'', ''rs1'', ''rs2'', ''rm''], as_is_extern = False\<rparr>),
     (''s'', \<lparr>as_name = ''s'', as_fields = [''imm'', ''rs1'', ''rs2''], as_is_extern = False\<rparr>),
     (''shift'', \<lparr>as_name = ''shift'', as_fields = [''shamt'', ''rs1'', ''rd''], as_is_extern = False\<rparr>),
     (''u'', \<lparr>as_name = ''u'', as_fields = [''imm'', ''rd''], as_is_extern = False\<rparr>)]"

definition insn32_patterns_3 :: "Pattern list" where
  "insn32_patterns_3 = [
     \<lparr>p_name = ''ecall'', p_fixedbits = 0x73, p_fixedmask = 0xffffffff, p_args_name = [], p_field_map = []\<rparr>,
     \<lparr>p_name = ''ebreak'', p_fixedbits = 0x100073, p_fixedmask = 0xffffffff, p_args_name = [], p_field_map = []\<rparr>,
     \<lparr>p_name = ''csrrw'', p_fixedbits = 0x1073, p_fixedmask = 0x707f, p_args_name = ''csr'', p_field_map = [(''csr'', FieldRef ''csr''), (''rd'', FieldRef ''rd''), (''rs1'', FieldRef ''rs1'')]\<rparr>,
     \<lparr>p_name = ''csrrs'', p_fixedbits = 0x2073, p_fixedmask = 0x707f, p_args_name = ''csr'', p_field_map = [(''csr'', FieldRef ''csr''), (''rd'', FieldRef ''rd''), (''rs1'', FieldRef ''rs1'')]\<rparr>,
     \<lparr>p_name = ''csrrc'', p_fixedbits = 0x3073, p_fixedmask = 0x707f, p_args_name = ''csr'', p_field_map = [(''csr'', FieldRef ''csr''), (''rd'', FieldRef ''rd''), (''rs1'', FieldRef ''rs1'')]\<rparr>,
     \<lparr>p_name = ''csrrwi'', p_fixedbits = 0x5073, p_fixedmask = 0x707f, p_args_name = ''csr'', p_field_map = [(''csr'', FieldRef ''csr''), (''rd'', FieldRef ''rd''), (''rs1'', FieldRef ''rs1'')]\<rparr>,
     \<lparr>p_name = ''csrrsi'', p_fixedbits = 0x6073, p_fixedmask = 0x707f, p_args_name = ''csr'', p_field_map = [(''csr'', FieldRef ''csr''), (''rd'', FieldRef ''rd''), (''rs1'', FieldRef ''rs1'')]\<rparr>,
     \<lparr>p_name = ''csrrci'', p_fixedbits = 0x7073, p_fixedmask = 0x707f, p_args_name = ''csr'', p_field_map = [(''csr'', FieldRef ''csr''), (''rd'', FieldRef ''rd''), (''rs1'', FieldRef ''rs1'')]\<rparr>,
     \<lparr>p_name = ''lui'', p_fixedbits = 0x37, p_fixedmask = 0x7f, p_args_name = ''u'', p_field_map = [(''imm'', FieldRef ''imm_u''), (''rd'', FieldRef ''rd'')]\<rparr>,
     \<lparr>p_name = ''auipc'', p_fixedbits = 0x17, p_fixedmask = 0x7f, p_args_name = ''u'', p_field_map = [(''imm'', FieldRef ''imm_u''), (''rd'', FieldRef ''rd'')]\<rparr>,
     \<lparr>p_name = ''jal'', p_fixedbits = 0x6f, p_fixedmask = 0x7f, p_args_name = ''j'', p_field_map = [(''imm'', FieldRef ''imm_j''), (''rd'', FieldRef ''rd'')]\<rparr>,
     \<lparr>p_name = ''jalr'', p_fixedbits = 0x67, p_fixedmask = 0x707f, p_args_name = ''i'', p_field_map = [(''imm'', FieldRef ''imm_i''), (''rd'', FieldRef ''rd''), (''rs1'', FieldRef ''rs1'')]\<rparr>]"

definition insn32_patterns_4 :: "Pattern list" where
  "insn32_patterns_4 = [
     \<lparr>p_name = ''beq'', p_fixedbits = 0x63, p_fixedmask = 0x707f, p_args_name = ''b'', p_field_map = [(''imm'', FieldRef ''imm_b''), (''rs1'', FieldRef ''rs1''), (''rs2'', FieldRef ''rs2'')]\<rparr>,
     \<lparr>p_name = ''bne'', p_fixedbits = 0x1063, p_fixedmask = 0x707f, p_args_name = ''b'', p_field_map = [(''imm'', FieldRef ''imm_b''), (''rs1'', FieldRef ''rs1''), (''rs2'', FieldRef ''rs2'')]\<rparr>,
     \<lparr>p_name = ''blt'', p_fixedbits = 0x4063, p_fixedmask = 0x707f, p_args_name = ''b'', p_field_map = [(''imm'', FieldRef ''imm_b''), (''rs1'', FieldRef ''rs1''), (''rs2'', FieldRef ''rs2'')]\<rparr>,
     \<lparr>p_name = ''bge'', p_fixedbits = 0x5063, p_fixedmask = 0x707f, p_args_name = ''b'', p_field_map = [(''imm'', FieldRef ''imm_b''), (''rs1'', FieldRef ''rs1''), (''rs2'', FieldRef ''rs2'')]\<rparr>,
     \<lparr>p_name = ''bltu'', p_fixedbits = 0x6063, p_fixedmask = 0x707f, p_args_name = ''b'', p_field_map = [(''imm'', FieldRef ''imm_b''), (''rs1'', FieldRef ''rs1''), (''rs2'', FieldRef ''rs2'')]\<rparr>,
     \<lparr>p_name = ''bgeu'', p_fixedbits = 0x7063, p_fixedmask = 0x707f, p_args_name = ''b'', p_field_map = [(''imm'', FieldRef ''imm_b''), (''rs1'', FieldRef ''rs1''), (''rs2'', FieldRef ''rs2'')]\<rparr>,
     \<lparr>p_name = ''lb'', p_fixedbits = 0x3, p_fixedmask = 0x707f, p_args_name = ''i'', p_field_map = [(''imm'', FieldRef ''imm_i''), (''rd'', FieldRef ''rd''), (''rs1'', FieldRef ''rs1'')]\<rparr>,
     \<lparr>p_name = ''lh'', p_fixedbits = 0x1003, p_fixedmask = 0x707f, p_args_name = ''i'', p_field_map = [(''imm'', FieldRef ''imm_i''), (''rd'', FieldRef ''rd''), (''rs1'', FieldRef ''rs1'')]\<rparr>,
     \<lparr>p_name = ''lw'', p_fixedbits = 0x2003, p_fixedmask = 0x707f, p_args_name = ''i'', p_field_map = [(''imm'', FieldRef ''imm_i''), (''rd'', FieldRef ''rd''), (''rs1'', FieldRef ''rs1'')]\<rparr>,
     \<lparr>p_name = ''lbu'', p_fixedbits = 0x4003, p_fixedmask = 0x707f, p_args_name = ''i'', p_field_map = [(''imm'', FieldRef ''imm_i''), (''rd'', FieldRef ''rd''), (''rs1'', FieldRef ''rs1'')]\<rparr>,
     \<lparr>p_name = ''lhu'', p_fixedbits = 0x5003, p_fixedmask = 0x707f, p_args_name = ''i'', p_field_map = [(''imm'', FieldRef ''imm_i''), (''rd'', FieldRef ''rd''), (''rs1'', FieldRef ''rs1'')]\<rparr>,
     \<lparr>p_name = ''sb'', p_fixedbits = 0x23, p_fixedmask = 0x707f, p_args_name = ''s'', p_field_map = [(''imm'', FieldRef ''imm_s''), (''rs1'', FieldRef ''rs1''), (''rs2'', FieldRef ''rs2'')]\<rparr>]"

definition insn32_patterns_5 :: "Pattern list" where
  "insn32_patterns_5 = [
     \<lparr>p_name = ''sh'', p_fixedbits = 0x1023, p_fixedmask = 0x707f, p_args_name = ''s'', p_field_map = [(''imm'', FieldRef ''imm_s''), (''rs1'', FieldRef ''rs1''), (''rs2'', FieldRef ''rs2'')]\<rparr>,
     \<lparr>p_name = ''sw'', p_fixedbits = 0x2023, p_fixedmask = 0x707f, p_args_name = ''s'', p_field_map = [(''imm'', FieldRef ''imm_s''), (''rs1'', FieldRef ''rs1''), (''rs2'', FieldRef ''rs2'')]\<rparr>,
     \<lparr>p_name = ''addi'', p_fixedbits = 0x13, p_fixedmask = 0x707f, p_args_name = ''i'', p_field_map = [(''imm'', FieldRef ''imm_i''), (''rd'', FieldRef ''rd''), (''rs1'', FieldRef ''rs1'')]\<rparr>,
     \<lparr>p_name = ''slti'', p_fixedbits = 0x2013, p_fixedmask = 0x707f, p_args_name = ''i'', p_field_map = [(''imm'', FieldRef ''imm_i''), (''rd'', FieldRef ''rd''), (''rs1'', FieldRef ''rs1'')]\<rparr>,
     \<lparr>p_name = ''sltiu'', p_fixedbits = 0x3013, p_fixedmask = 0x707f, p_args_name = ''i'', p_field_map = [(''imm'', FieldRef ''imm_i''), (''rd'', FieldRef ''rd''), (''rs1'', FieldRef ''rs1'')]\<rparr>,
     \<lparr>p_name = ''xori'', p_fixedbits = 0x4013, p_fixedmask = 0x707f, p_args_name = ''i'', p_field_map = [(''imm'', FieldRef ''imm_i''), (''rd'', FieldRef ''rd''), (''rs1'', FieldRef ''rs1'')]\<rparr>,
     \<lparr>p_name = ''ori'', p_fixedbits = 0x6013, p_fixedmask = 0x707f, p_args_name = ''i'', p_field_map = [(''imm'', FieldRef ''imm_i''), (''rd'', FieldRef ''rd''), (''rs1'', FieldRef ''rs1'')]\<rparr>,
     \<lparr>p_name = ''andi'', p_fixedbits = 0x7013, p_fixedmask = 0x707f, p_args_name = ''i'', p_field_map = [(''imm'', FieldRef ''imm_i''), (''rd'', FieldRef ''rd''), (''rs1'', FieldRef ''rs1'')]\<rparr>,
     \<lparr>p_name = ''slli'', p_fixedbits = 0x1013, p_fixedmask = 0xf800707f, p_args_name = ''shift'', p_field_map = [(''rd'', FieldRef ''rd''), (''rs1'', FieldRef ''rs1''), (''shamt'', FieldRef ''sh7'')]\<rparr>,
     \<lparr>p_name = ''srli'', p_fixedbits = 0x5013, p_fixedmask = 0xf800707f, p_args_name = ''shift'', p_field_map = [(''rd'', FieldRef ''rd''), (''rs1'', FieldRef ''rs1''), (''shamt'', FieldRef ''sh7'')]\<rparr>,
     \<lparr>p_name = ''srai'', p_fixedbits = 0x40005013, p_fixedmask = 0xf800707f, p_args_name = ''shift'', p_field_map = [(''rd'', FieldRef ''rd''), (''rs1'', FieldRef ''rs1''), (''shamt'', FieldRef ''sh7'')]\<rparr>,
     \<lparr>p_name = ''add'', p_fixedbits = 0x33, p_fixedmask = 0xfe00707f, p_args_name = ''r'', p_field_map = [(''rd'', FieldRef ''rd''), (''rs1'', FieldRef ''rs1''), (''rs2'', FieldRef ''rs2'')]\<rparr>]"

definition insn32_patterns_6 :: "Pattern list" where
  "insn32_patterns_6 = [
     \<lparr>p_name = ''sub'', p_fixedbits = 0x40000033, p_fixedmask = 0xfe00707f, p_args_name = ''r'', p_field_map = [(''rd'', FieldRef ''rd''), (''rs1'', FieldRef ''rs1''), (''rs2'', FieldRef ''rs2'')]\<rparr>,
     \<lparr>p_name = ''sll'', p_fixedbits = 0x1033, p_fixedmask = 0xfe00707f, p_args_name = ''r'', p_field_map = [(''rd'', FieldRef ''rd''), (''rs1'', FieldRef ''rs1''), (''rs2'', FieldRef ''rs2'')]\<rparr>,
     \<lparr>p_name = ''slt'', p_fixedbits = 0x2033, p_fixedmask = 0xfe00707f, p_args_name = ''r'', p_field_map = [(''rd'', FieldRef ''rd''), (''rs1'', FieldRef ''rs1''), (''rs2'', FieldRef ''rs2'')]\<rparr>,
     \<lparr>p_name = ''sltu'', p_fixedbits = 0x3033, p_fixedmask = 0xfe00707f, p_args_name = ''r'', p_field_map = [(''rd'', FieldRef ''rd''), (''rs1'', FieldRef ''rs1''), (''rs2'', FieldRef ''rs2'')]\<rparr>,
     \<lparr>p_name = ''xor'', p_fixedbits = 0x4033, p_fixedmask = 0xfe00707f, p_args_name = ''r'', p_field_map = [(''rd'', FieldRef ''rd''), (''rs1'', FieldRef ''rs1''), (''rs2'', FieldRef ''rs2'')]\<rparr>,
     \<lparr>p_name = ''srl'', p_fixedbits = 0x5033, p_fixedmask = 0xfe00707f, p_args_name = ''r'', p_field_map = [(''rd'', FieldRef ''rd''), (''rs1'', FieldRef ''rs1''), (''rs2'', FieldRef ''rs2'')]\<rparr>,
     \<lparr>p_name = ''sra'', p_fixedbits = 0x40005033, p_fixedmask = 0xfe00707f, p_args_name = ''r'', p_field_map = [(''rd'', FieldRef ''rd''), (''rs1'', FieldRef ''rs1''), (''rs2'', FieldRef ''rs2'')]\<rparr>,
     \<lparr>p_name = ''or'', p_fixedbits = 0x6033, p_fixedmask = 0xfe00707f, p_args_name = ''r'', p_field_map = [(''rd'', FieldRef ''rd''), (''rs1'', FieldRef ''rs1''), (''rs2'', FieldRef ''rs2'')]\<rparr>,
     \<lparr>p_name = ''and'', p_fixedbits = 0x7033, p_fixedmask = 0xfe00707f, p_args_name = ''r'', p_field_map = [(''rd'', FieldRef ''rd''), (''rs1'', FieldRef ''rs1''), (''rs2'', FieldRef ''rs2'')]\<rparr>,
     \<lparr>p_name = ''fence'', p_fixedbits = 0xf, p_fixedmask = 0x707f, p_args_name = ''_auto_fence'', p_field_map = [(''pred'', Inline 24 4 False), (''succ'', Inline 20 4 False)]\<rparr>,
     \<lparr>p_name = ''lwu'', p_fixedbits = 0x6003, p_fixedmask = 0x707f, p_args_name = ''i'', p_field_map = [(''imm'', FieldRef ''imm_i''), (''rd'', FieldRef ''rd''), (''rs1'', FieldRef ''rs1'')]\<rparr>,
     \<lparr>p_name = ''ld'', p_fixedbits = 0x3003, p_fixedmask = 0x707f, p_args_name = ''i'', p_field_map = [(''imm'', FieldRef ''imm_i''), (''rd'', FieldRef ''rd''), (''rs1'', FieldRef ''rs1'')]\<rparr>]"

definition insn32_patterns_7 :: "Pattern list" where
  "insn32_patterns_7 = [
     \<lparr>p_name = ''sd'', p_fixedbits = 0x3023, p_fixedmask = 0x707f, p_args_name = ''s'', p_field_map = [(''imm'', FieldRef ''imm_s''), (''rs1'', FieldRef ''rs1''), (''rs2'', FieldRef ''rs2'')]\<rparr>,
     \<lparr>p_name = ''addiw'', p_fixedbits = 0x1b, p_fixedmask = 0x707f, p_args_name = ''i'', p_field_map = [(''imm'', FieldRef ''imm_i''), (''rd'', FieldRef ''rd''), (''rs1'', FieldRef ''rs1'')]\<rparr>,
     \<lparr>p_name = ''slliw'', p_fixedbits = 0x101b, p_fixedmask = 0xfe00707f, p_args_name = ''shift'', p_field_map = [(''rd'', FieldRef ''rd''), (''rs1'', FieldRef ''rs1''), (''shamt'', FieldRef ''sh5'')]\<rparr>,
     \<lparr>p_name = ''srliw'', p_fixedbits = 0x501b, p_fixedmask = 0xfe00707f, p_args_name = ''shift'', p_field_map = [(''rd'', FieldRef ''rd''), (''rs1'', FieldRef ''rs1''), (''shamt'', FieldRef ''sh5'')]\<rparr>,
     \<lparr>p_name = ''sraiw'', p_fixedbits = 0x4000501b, p_fixedmask = 0xfe00707f, p_args_name = ''shift'', p_field_map = [(''rd'', FieldRef ''rd''), (''rs1'', FieldRef ''rs1''), (''shamt'', FieldRef ''sh5'')]\<rparr>,
     \<lparr>p_name = ''addw'', p_fixedbits = 0x3b, p_fixedmask = 0xfe00707f, p_args_name = ''r'', p_field_map = [(''rd'', FieldRef ''rd''), (''rs1'', FieldRef ''rs1''), (''rs2'', FieldRef ''rs2'')]\<rparr>,
     \<lparr>p_name = ''subw'', p_fixedbits = 0x4000003b, p_fixedmask = 0xfe00707f, p_args_name = ''r'', p_field_map = [(''rd'', FieldRef ''rd''), (''rs1'', FieldRef ''rs1''), (''rs2'', FieldRef ''rs2'')]\<rparr>,
     \<lparr>p_name = ''sllw'', p_fixedbits = 0x103b, p_fixedmask = 0xfe00707f, p_args_name = ''r'', p_field_map = [(''rd'', FieldRef ''rd''), (''rs1'', FieldRef ''rs1''), (''rs2'', FieldRef ''rs2'')]\<rparr>,
     \<lparr>p_name = ''srlw'', p_fixedbits = 0x503b, p_fixedmask = 0xfe00707f, p_args_name = ''r'', p_field_map = [(''rd'', FieldRef ''rd''), (''rs1'', FieldRef ''rs1''), (''rs2'', FieldRef ''rs2'')]\<rparr>,
     \<lparr>p_name = ''sraw'', p_fixedbits = 0x4000503b, p_fixedmask = 0xfe00707f, p_args_name = ''r'', p_field_map = [(''rd'', FieldRef ''rd''), (''rs1'', FieldRef ''rs1''), (''rs2'', FieldRef ''rs2'')]\<rparr>,
     \<lparr>p_name = ''mul'', p_fixedbits = 0x2000033, p_fixedmask = 0xfe00707f, p_args_name = ''r'', p_field_map = [(''rd'', FieldRef ''rd''), (''rs1'', FieldRef ''rs1''), (''rs2'', FieldRef ''rs2'')]\<rparr>,
     \<lparr>p_name = ''mulh'', p_fixedbits = 0x2001033, p_fixedmask = 0xfe00707f, p_args_name = ''r'', p_field_map = [(''rd'', FieldRef ''rd''), (''rs1'', FieldRef ''rs1''), (''rs2'', FieldRef ''rs2'')]\<rparr>]"

definition insn32_patterns_8 :: "Pattern list" where
  "insn32_patterns_8 = [
     \<lparr>p_name = ''mulhsu'', p_fixedbits = 0x2002033, p_fixedmask = 0xfe00707f, p_args_name = ''r'', p_field_map = [(''rd'', FieldRef ''rd''), (''rs1'', FieldRef ''rs1''), (''rs2'', FieldRef ''rs2'')]\<rparr>,
     \<lparr>p_name = ''mulhu'', p_fixedbits = 0x2003033, p_fixedmask = 0xfe00707f, p_args_name = ''r'', p_field_map = [(''rd'', FieldRef ''rd''), (''rs1'', FieldRef ''rs1''), (''rs2'', FieldRef ''rs2'')]\<rparr>,
     \<lparr>p_name = ''div'', p_fixedbits = 0x2004033, p_fixedmask = 0xfe00707f, p_args_name = ''r'', p_field_map = [(''rd'', FieldRef ''rd''), (''rs1'', FieldRef ''rs1''), (''rs2'', FieldRef ''rs2'')]\<rparr>,
     \<lparr>p_name = ''divu'', p_fixedbits = 0x2005033, p_fixedmask = 0xfe00707f, p_args_name = ''r'', p_field_map = [(''rd'', FieldRef ''rd''), (''rs1'', FieldRef ''rs1''), (''rs2'', FieldRef ''rs2'')]\<rparr>,
     \<lparr>p_name = ''rem'', p_fixedbits = 0x2006033, p_fixedmask = 0xfe00707f, p_args_name = ''r'', p_field_map = [(''rd'', FieldRef ''rd''), (''rs1'', FieldRef ''rs1''), (''rs2'', FieldRef ''rs2'')]\<rparr>,
     \<lparr>p_name = ''remu'', p_fixedbits = 0x2007033, p_fixedmask = 0xfe00707f, p_args_name = ''r'', p_field_map = [(''rd'', FieldRef ''rd''), (''rs1'', FieldRef ''rs1''), (''rs2'', FieldRef ''rs2'')]\<rparr>,
     \<lparr>p_name = ''mulw'', p_fixedbits = 0x200003b, p_fixedmask = 0xfe00707f, p_args_name = ''r'', p_field_map = [(''rd'', FieldRef ''rd''), (''rs1'', FieldRef ''rs1''), (''rs2'', FieldRef ''rs2'')]\<rparr>,
     \<lparr>p_name = ''divw'', p_fixedbits = 0x200403b, p_fixedmask = 0xfe00707f, p_args_name = ''r'', p_field_map = [(''rd'', FieldRef ''rd''), (''rs1'', FieldRef ''rs1''), (''rs2'', FieldRef ''rs2'')]\<rparr>,
     \<lparr>p_name = ''divuw'', p_fixedbits = 0x200503b, p_fixedmask = 0xfe00707f, p_args_name = ''r'', p_field_map = [(''rd'', FieldRef ''rd''), (''rs1'', FieldRef ''rs1''), (''rs2'', FieldRef ''rs2'')]\<rparr>,
     \<lparr>p_name = ''remw'', p_fixedbits = 0x200603b, p_fixedmask = 0xfe00707f, p_args_name = ''r'', p_field_map = [(''rd'', FieldRef ''rd''), (''rs1'', FieldRef ''rs1''), (''rs2'', FieldRef ''rs2'')]\<rparr>,
     \<lparr>p_name = ''remuw'', p_fixedbits = 0x200703b, p_fixedmask = 0xfe00707f, p_args_name = ''r'', p_field_map = [(''rd'', FieldRef ''rd''), (''rs1'', FieldRef ''rs1''), (''rs2'', FieldRef ''rs2'')]\<rparr>,
     \<lparr>p_name = ''flw'', p_fixedbits = 0x2007, p_fixedmask = 0x707f, p_args_name = ''i'', p_field_map = [(''imm'', FieldRef ''imm_i''), (''rd'', FieldRef ''rd''), (''rs1'', FieldRef ''rs1'')]\<rparr>]"

definition insn32_patterns_9 :: "Pattern list" where
  "insn32_patterns_9 = [
     \<lparr>p_name = ''fsw'', p_fixedbits = 0x2027, p_fixedmask = 0x707f, p_args_name = ''s'', p_field_map = [(''imm'', FieldRef ''imm_s''), (''rs1'', FieldRef ''rs1''), (''rs2'', FieldRef ''rs2'')]\<rparr>,
     \<lparr>p_name = ''fmadd_s'', p_fixedbits = 0x43, p_fixedmask = 0x600007f, p_args_name = ''r4_rm'', p_field_map = [(''rd'', FieldRef ''rd''), (''rm'', FieldRef ''rm''), (''rs1'', FieldRef ''rs1''), (''rs2'', FieldRef ''rs2''), (''rs3'', FieldRef ''rs3'')]\<rparr>,
     \<lparr>p_name = ''fmsub_s'', p_fixedbits = 0x47, p_fixedmask = 0x600007f, p_args_name = ''r4_rm'', p_field_map = [(''rd'', FieldRef ''rd''), (''rm'', FieldRef ''rm''), (''rs1'', FieldRef ''rs1''), (''rs2'', FieldRef ''rs2''), (''rs3'', FieldRef ''rs3'')]\<rparr>,
     \<lparr>p_name = ''fnmsub_s'', p_fixedbits = 0x4b, p_fixedmask = 0x600007f, p_args_name = ''r4_rm'', p_field_map = [(''rd'', FieldRef ''rd''), (''rm'', FieldRef ''rm''), (''rs1'', FieldRef ''rs1''), (''rs2'', FieldRef ''rs2''), (''rs3'', FieldRef ''rs3'')]\<rparr>,
     \<lparr>p_name = ''fnmadd_s'', p_fixedbits = 0x4f, p_fixedmask = 0x600007f, p_args_name = ''r4_rm'', p_field_map = [(''rd'', FieldRef ''rd''), (''rm'', FieldRef ''rm''), (''rs1'', FieldRef ''rs1''), (''rs2'', FieldRef ''rs2''), (''rs3'', FieldRef ''rs3'')]\<rparr>,
     \<lparr>p_name = ''fadd_s'', p_fixedbits = 0x53, p_fixedmask = 0xfe00007f, p_args_name = ''r_rm'', p_field_map = [(''rd'', FieldRef ''rd''), (''rm'', FieldRef ''rm''), (''rs1'', FieldRef ''rs1''), (''rs2'', FieldRef ''rs2'')]\<rparr>,
     \<lparr>p_name = ''fsub_s'', p_fixedbits = 0x8000053, p_fixedmask = 0xfe00007f, p_args_name = ''r_rm'', p_field_map = [(''rd'', FieldRef ''rd''), (''rm'', FieldRef ''rm''), (''rs1'', FieldRef ''rs1''), (''rs2'', FieldRef ''rs2'')]\<rparr>,
     \<lparr>p_name = ''fmul_s'', p_fixedbits = 0x10000053, p_fixedmask = 0xfe00007f, p_args_name = ''r_rm'', p_field_map = [(''rd'', FieldRef ''rd''), (''rm'', FieldRef ''rm''), (''rs1'', FieldRef ''rs1''), (''rs2'', FieldRef ''rs2'')]\<rparr>,
     \<lparr>p_name = ''fdiv_s'', p_fixedbits = 0x18000053, p_fixedmask = 0xfe00007f, p_args_name = ''r_rm'', p_field_map = [(''rd'', FieldRef ''rd''), (''rm'', FieldRef ''rm''), (''rs1'', FieldRef ''rs1''), (''rs2'', FieldRef ''rs2'')]\<rparr>,
     \<lparr>p_name = ''fsqrt_s'', p_fixedbits = 0x58000053, p_fixedmask = 0xfff0007f, p_args_name = ''r2_rm'', p_field_map = [(''rd'', FieldRef ''rd''), (''rm'', FieldRef ''rm''), (''rs1'', FieldRef ''rs1'')]\<rparr>,
     \<lparr>p_name = ''fsgnj_s'', p_fixedbits = 0x20000053, p_fixedmask = 0xfe00707f, p_args_name = ''r'', p_field_map = [(''rd'', FieldRef ''rd''), (''rs1'', FieldRef ''rs1''), (''rs2'', FieldRef ''rs2'')]\<rparr>,
     \<lparr>p_name = ''fsgnjn_s'', p_fixedbits = 0x20001053, p_fixedmask = 0xfe00707f, p_args_name = ''r'', p_field_map = [(''rd'', FieldRef ''rd''), (''rs1'', FieldRef ''rs1''), (''rs2'', FieldRef ''rs2'')]\<rparr>]"

definition insn32_patterns_10 :: "Pattern list" where
  "insn32_patterns_10 = [
     \<lparr>p_name = ''fsgnjx_s'', p_fixedbits = 0x20002053, p_fixedmask = 0xfe00707f, p_args_name = ''r'', p_field_map = [(''rd'', FieldRef ''rd''), (''rs1'', FieldRef ''rs1''), (''rs2'', FieldRef ''rs2'')]\<rparr>,
     \<lparr>p_name = ''fmin_s'', p_fixedbits = 0x28000053, p_fixedmask = 0xfe00707f, p_args_name = ''r'', p_field_map = [(''rd'', FieldRef ''rd''), (''rs1'', FieldRef ''rs1''), (''rs2'', FieldRef ''rs2'')]\<rparr>,
     \<lparr>p_name = ''fmax_s'', p_fixedbits = 0x28001053, p_fixedmask = 0xfe00707f, p_args_name = ''r'', p_field_map = [(''rd'', FieldRef ''rd''), (''rs1'', FieldRef ''rs1''), (''rs2'', FieldRef ''rs2'')]\<rparr>,
     \<lparr>p_name = ''fcvt_w_s'', p_fixedbits = 0xc0000053, p_fixedmask = 0xfff0007f, p_args_name = ''r2_rm'', p_field_map = [(''rd'', FieldRef ''rd''), (''rm'', FieldRef ''rm''), (''rs1'', FieldRef ''rs1'')]\<rparr>,
     \<lparr>p_name = ''fcvt_wu_s'', p_fixedbits = 0xc0100053, p_fixedmask = 0xfff0007f, p_args_name = ''r2_rm'', p_field_map = [(''rd'', FieldRef ''rd''), (''rm'', FieldRef ''rm''), (''rs1'', FieldRef ''rs1'')]\<rparr>,
     \<lparr>p_name = ''fmv_x_w'', p_fixedbits = 0xe0000053, p_fixedmask = 0xfff0707f, p_args_name = ''r2'', p_field_map = [(''rd'', FieldRef ''rd''), (''rs1'', FieldRef ''rs1'')]\<rparr>,
     \<lparr>p_name = ''feq_s'', p_fixedbits = 0xa0002053, p_fixedmask = 0xfe00707f, p_args_name = ''r'', p_field_map = [(''rd'', FieldRef ''rd''), (''rs1'', FieldRef ''rs1''), (''rs2'', FieldRef ''rs2'')]\<rparr>,
     \<lparr>p_name = ''flt_s'', p_fixedbits = 0xa0001053, p_fixedmask = 0xfe00707f, p_args_name = ''r'', p_field_map = [(''rd'', FieldRef ''rd''), (''rs1'', FieldRef ''rs1''), (''rs2'', FieldRef ''rs2'')]\<rparr>,
     \<lparr>p_name = ''fle_s'', p_fixedbits = 0xa0000053, p_fixedmask = 0xfe00707f, p_args_name = ''r'', p_field_map = [(''rd'', FieldRef ''rd''), (''rs1'', FieldRef ''rs1''), (''rs2'', FieldRef ''rs2'')]\<rparr>,
     \<lparr>p_name = ''fclass_s'', p_fixedbits = 0xe0001053, p_fixedmask = 0xfff0707f, p_args_name = ''r2'', p_field_map = [(''rd'', FieldRef ''rd''), (''rs1'', FieldRef ''rs1'')]\<rparr>,
     \<lparr>p_name = ''fcvt_s_w'', p_fixedbits = 0xd0000053, p_fixedmask = 0xfff0007f, p_args_name = ''r2_rm'', p_field_map = [(''rd'', FieldRef ''rd''), (''rm'', FieldRef ''rm''), (''rs1'', FieldRef ''rs1'')]\<rparr>,
     \<lparr>p_name = ''fcvt_s_wu'', p_fixedbits = 0xd0100053, p_fixedmask = 0xfff0007f, p_args_name = ''r2_rm'', p_field_map = [(''rd'', FieldRef ''rd''), (''rm'', FieldRef ''rm''), (''rs1'', FieldRef ''rs1'')]\<rparr>]"

definition insn32_patterns_11 :: "Pattern list" where
  "insn32_patterns_11 = [
     \<lparr>p_name = ''fmv_w_x'', p_fixedbits = 0xf0000053, p_fixedmask = 0xfff0707f, p_args_name = ''r2'', p_field_map = [(''rd'', FieldRef ''rd''), (''rs1'', FieldRef ''rs1'')]\<rparr>,
     \<lparr>p_name = ''fcvt_l_s'', p_fixedbits = 0xc0200053, p_fixedmask = 0xfff0007f, p_args_name = ''r2_rm'', p_field_map = [(''rd'', FieldRef ''rd''), (''rm'', FieldRef ''rm''), (''rs1'', FieldRef ''rs1'')]\<rparr>,
     \<lparr>p_name = ''fcvt_lu_s'', p_fixedbits = 0xc0300053, p_fixedmask = 0xfff0007f, p_args_name = ''r2_rm'', p_field_map = [(''rd'', FieldRef ''rd''), (''rm'', FieldRef ''rm''), (''rs1'', FieldRef ''rs1'')]\<rparr>,
     \<lparr>p_name = ''fcvt_s_l'', p_fixedbits = 0xd0200053, p_fixedmask = 0xfff0007f, p_args_name = ''r2_rm'', p_field_map = [(''rd'', FieldRef ''rd''), (''rm'', FieldRef ''rm''), (''rs1'', FieldRef ''rs1'')]\<rparr>,
     \<lparr>p_name = ''fcvt_s_lu'', p_fixedbits = 0xd0300053, p_fixedmask = 0xfff0007f, p_args_name = ''r2_rm'', p_field_map = [(''rd'', FieldRef ''rd''), (''rm'', FieldRef ''rm''), (''rs1'', FieldRef ''rs1'')]\<rparr>,
     \<lparr>p_name = ''fld'', p_fixedbits = 0x3007, p_fixedmask = 0x707f, p_args_name = ''i'', p_field_map = [(''imm'', FieldRef ''imm_i''), (''rd'', FieldRef ''rd''), (''rs1'', FieldRef ''rs1'')]\<rparr>,
     \<lparr>p_name = ''fsd'', p_fixedbits = 0x3027, p_fixedmask = 0x707f, p_args_name = ''s'', p_field_map = [(''imm'', FieldRef ''imm_s''), (''rs1'', FieldRef ''rs1''), (''rs2'', FieldRef ''rs2'')]\<rparr>,
     \<lparr>p_name = ''fmadd_d'', p_fixedbits = 0x2000043, p_fixedmask = 0x600007f, p_args_name = ''r4_rm'', p_field_map = [(''rd'', FieldRef ''rd''), (''rm'', FieldRef ''rm''), (''rs1'', FieldRef ''rs1''), (''rs2'', FieldRef ''rs2''), (''rs3'', FieldRef ''rs3'')]\<rparr>,
     \<lparr>p_name = ''fmsub_d'', p_fixedbits = 0x2000047, p_fixedmask = 0x600007f, p_args_name = ''r4_rm'', p_field_map = [(''rd'', FieldRef ''rd''), (''rm'', FieldRef ''rm''), (''rs1'', FieldRef ''rs1''), (''rs2'', FieldRef ''rs2''), (''rs3'', FieldRef ''rs3'')]\<rparr>,
     \<lparr>p_name = ''fnmsub_d'', p_fixedbits = 0x200004b, p_fixedmask = 0x600007f, p_args_name = ''r4_rm'', p_field_map = [(''rd'', FieldRef ''rd''), (''rm'', FieldRef ''rm''), (''rs1'', FieldRef ''rs1''), (''rs2'', FieldRef ''rs2''), (''rs3'', FieldRef ''rs3'')]\<rparr>,
     \<lparr>p_name = ''fnmadd_d'', p_fixedbits = 0x200004f, p_fixedmask = 0x600007f, p_args_name = ''r4_rm'', p_field_map = [(''rd'', FieldRef ''rd''), (''rm'', FieldRef ''rm''), (''rs1'', FieldRef ''rs1''), (''rs2'', FieldRef ''rs2''), (''rs3'', FieldRef ''rs3'')]\<rparr>,
     \<lparr>p_name = ''fadd_d'', p_fixedbits = 0x2000053, p_fixedmask = 0xfe00007f, p_args_name = ''r_rm'', p_field_map = [(''rd'', FieldRef ''rd''), (''rm'', FieldRef ''rm''), (''rs1'', FieldRef ''rs1''), (''rs2'', FieldRef ''rs2'')]\<rparr>]"

definition insn32_patterns_12 :: "Pattern list" where
  "insn32_patterns_12 = [
     \<lparr>p_name = ''fsub_d'', p_fixedbits = 0xa000053, p_fixedmask = 0xfe00007f, p_args_name = ''r_rm'', p_field_map = [(''rd'', FieldRef ''rd''), (''rm'', FieldRef ''rm''), (''rs1'', FieldRef ''rs1''), (''rs2'', FieldRef ''rs2'')]\<rparr>,
     \<lparr>p_name = ''fmul_d'', p_fixedbits = 0x12000053, p_fixedmask = 0xfe00007f, p_args_name = ''r_rm'', p_field_map = [(''rd'', FieldRef ''rd''), (''rm'', FieldRef ''rm''), (''rs1'', FieldRef ''rs1''), (''rs2'', FieldRef ''rs2'')]\<rparr>,
     \<lparr>p_name = ''fdiv_d'', p_fixedbits = 0x1a000053, p_fixedmask = 0xfe00007f, p_args_name = ''r_rm'', p_field_map = [(''rd'', FieldRef ''rd''), (''rm'', FieldRef ''rm''), (''rs1'', FieldRef ''rs1''), (''rs2'', FieldRef ''rs2'')]\<rparr>,
     \<lparr>p_name = ''fsqrt_d'', p_fixedbits = 0x5a000053, p_fixedmask = 0xfff0007f, p_args_name = ''r2_rm'', p_field_map = [(''rd'', FieldRef ''rd''), (''rm'', FieldRef ''rm''), (''rs1'', FieldRef ''rs1'')]\<rparr>,
     \<lparr>p_name = ''fsgnj_d'', p_fixedbits = 0x22000053, p_fixedmask = 0xfe00707f, p_args_name = ''r'', p_field_map = [(''rd'', FieldRef ''rd''), (''rs1'', FieldRef ''rs1''), (''rs2'', FieldRef ''rs2'')]\<rparr>,
     \<lparr>p_name = ''fsgnjn_d'', p_fixedbits = 0x22001053, p_fixedmask = 0xfe00707f, p_args_name = ''r'', p_field_map = [(''rd'', FieldRef ''rd''), (''rs1'', FieldRef ''rs1''), (''rs2'', FieldRef ''rs2'')]\<rparr>,
     \<lparr>p_name = ''fsgnjx_d'', p_fixedbits = 0x22002053, p_fixedmask = 0xfe00707f, p_args_name = ''r'', p_field_map = [(''rd'', FieldRef ''rd''), (''rs1'', FieldRef ''rs1''), (''rs2'', FieldRef ''rs2'')]\<rparr>,
     \<lparr>p_name = ''fmin_d'', p_fixedbits = 0x2a000053, p_fixedmask = 0xfe00707f, p_args_name = ''r'', p_field_map = [(''rd'', FieldRef ''rd''), (''rs1'', FieldRef ''rs1''), (''rs2'', FieldRef ''rs2'')]\<rparr>,
     \<lparr>p_name = ''fmax_d'', p_fixedbits = 0x2a001053, p_fixedmask = 0xfe00707f, p_args_name = ''r'', p_field_map = [(''rd'', FieldRef ''rd''), (''rs1'', FieldRef ''rs1''), (''rs2'', FieldRef ''rs2'')]\<rparr>,
     \<lparr>p_name = ''fcvt_s_d'', p_fixedbits = 0x40100053, p_fixedmask = 0xfff0007f, p_args_name = ''r2_rm'', p_field_map = [(''rd'', FieldRef ''rd''), (''rm'', FieldRef ''rm''), (''rs1'', FieldRef ''rs1'')]\<rparr>,
     \<lparr>p_name = ''fcvt_d_s'', p_fixedbits = 0x42000053, p_fixedmask = 0xfff0007f, p_args_name = ''r2_rm'', p_field_map = [(''rd'', FieldRef ''rd''), (''rm'', FieldRef ''rm''), (''rs1'', FieldRef ''rs1'')]\<rparr>,
     \<lparr>p_name = ''feq_d'', p_fixedbits = 0xa2002053, p_fixedmask = 0xfe00707f, p_args_name = ''r'', p_field_map = [(''rd'', FieldRef ''rd''), (''rs1'', FieldRef ''rs1''), (''rs2'', FieldRef ''rs2'')]\<rparr>]"

definition insn32_patterns_13 :: "Pattern list" where
  "insn32_patterns_13 = [
     \<lparr>p_name = ''flt_d'', p_fixedbits = 0xa2001053, p_fixedmask = 0xfe00707f, p_args_name = ''r'', p_field_map = [(''rd'', FieldRef ''rd''), (''rs1'', FieldRef ''rs1''), (''rs2'', FieldRef ''rs2'')]\<rparr>,
     \<lparr>p_name = ''fle_d'', p_fixedbits = 0xa2000053, p_fixedmask = 0xfe00707f, p_args_name = ''r'', p_field_map = [(''rd'', FieldRef ''rd''), (''rs1'', FieldRef ''rs1''), (''rs2'', FieldRef ''rs2'')]\<rparr>,
     \<lparr>p_name = ''fclass_d'', p_fixedbits = 0xe2001053, p_fixedmask = 0xfff0707f, p_args_name = ''r2'', p_field_map = [(''rd'', FieldRef ''rd''), (''rs1'', FieldRef ''rs1'')]\<rparr>,
     \<lparr>p_name = ''fcvt_w_d'', p_fixedbits = 0xc2000053, p_fixedmask = 0xfff0007f, p_args_name = ''r2_rm'', p_field_map = [(''rd'', FieldRef ''rd''), (''rm'', FieldRef ''rm''), (''rs1'', FieldRef ''rs1'')]\<rparr>,
     \<lparr>p_name = ''fcvt_wu_d'', p_fixedbits = 0xc2100053, p_fixedmask = 0xfff0007f, p_args_name = ''r2_rm'', p_field_map = [(''rd'', FieldRef ''rd''), (''rm'', FieldRef ''rm''), (''rs1'', FieldRef ''rs1'')]\<rparr>,
     \<lparr>p_name = ''fcvt_d_w'', p_fixedbits = 0xd2000053, p_fixedmask = 0xfff0007f, p_args_name = ''r2_rm'', p_field_map = [(''rd'', FieldRef ''rd''), (''rm'', FieldRef ''rm''), (''rs1'', FieldRef ''rs1'')]\<rparr>,
     \<lparr>p_name = ''fcvt_d_wu'', p_fixedbits = 0xd2100053, p_fixedmask = 0xfff0007f, p_args_name = ''r2_rm'', p_field_map = [(''rd'', FieldRef ''rd''), (''rm'', FieldRef ''rm''), (''rs1'', FieldRef ''rs1'')]\<rparr>,
     \<lparr>p_name = ''fcvt_l_d'', p_fixedbits = 0xc2200053, p_fixedmask = 0xfff0007f, p_args_name = ''r2_rm'', p_field_map = [(''rd'', FieldRef ''rd''), (''rm'', FieldRef ''rm''), (''rs1'', FieldRef ''rs1'')]\<rparr>,
     \<lparr>p_name = ''fcvt_lu_d'', p_fixedbits = 0xc2300053, p_fixedmask = 0xfff0007f, p_args_name = ''r2_rm'', p_field_map = [(''rd'', FieldRef ''rd''), (''rm'', FieldRef ''rm''), (''rs1'', FieldRef ''rs1'')]\<rparr>,
     \<lparr>p_name = ''fmv_x_d'', p_fixedbits = 0xe2000053, p_fixedmask = 0xfff0707f, p_args_name = ''r2'', p_field_map = [(''rd'', FieldRef ''rd''), (''rs1'', FieldRef ''rs1'')]\<rparr>,
     \<lparr>p_name = ''fcvt_d_l'', p_fixedbits = 0xd2200053, p_fixedmask = 0xfff0007f, p_args_name = ''r2_rm'', p_field_map = [(''rd'', FieldRef ''rd''), (''rm'', FieldRef ''rm''), (''rs1'', FieldRef ''rs1'')]\<rparr>,
     \<lparr>p_name = ''fcvt_d_lu'', p_fixedbits = 0xd2300053, p_fixedmask = 0xfff0007f, p_args_name = ''r2_rm'', p_field_map = [(''rd'', FieldRef ''rd''), (''rm'', FieldRef ''rm''), (''rs1'', FieldRef ''rs1'')]\<rparr>]"

definition insn32_patterns_14 :: "Pattern list" where
  "insn32_patterns_14 = [
     \<lparr>p_name = ''fmv_d_x'', p_fixedbits = 0xf2000053, p_fixedmask = 0xfff0707f, p_args_name = ''r2'', p_field_map = [(''rd'', FieldRef ''rd''), (''rs1'', FieldRef ''rs1'')]\<rparr>,
     \<lparr>p_name = ''lr_w'', p_fixedbits = 0x1000202f, p_fixedmask = 0xf9f0707f, p_args_name = ''atomic'', p_field_map = [(''aq'', Inline 26 1 False), (''rd'', FieldRef ''rd''), (''rl'', Inline 25 1 False), (''rs1'', FieldRef ''rs1''), (''rs2'', FConst 0)]\<rparr>,
     \<lparr>p_name = ''sc_w'', p_fixedbits = 0x1800202f, p_fixedmask = 0xf800707f, p_args_name = ''atomic'', p_field_map = [(''aq'', Inline 26 1 False), (''rd'', FieldRef ''rd''), (''rl'', Inline 25 1 False), (''rs1'', FieldRef ''rs1''), (''rs2'', FieldRef ''rs2'')]\<rparr>,
     \<lparr>p_name = ''amoswap_w'', p_fixedbits = 0x800202f, p_fixedmask = 0xf800707f, p_args_name = ''atomic'', p_field_map = [(''aq'', Inline 26 1 False), (''rd'', FieldRef ''rd''), (''rl'', Inline 25 1 False), (''rs1'', FieldRef ''rs1''), (''rs2'', FieldRef ''rs2'')]\<rparr>,
     \<lparr>p_name = ''amoadd_w'', p_fixedbits = 0x202f, p_fixedmask = 0xf800707f, p_args_name = ''atomic'', p_field_map = [(''aq'', Inline 26 1 False), (''rd'', FieldRef ''rd''), (''rl'', Inline 25 1 False), (''rs1'', FieldRef ''rs1''), (''rs2'', FieldRef ''rs2'')]\<rparr>,
     \<lparr>p_name = ''amoxor_w'', p_fixedbits = 0x2000202f, p_fixedmask = 0xf800707f, p_args_name = ''atomic'', p_field_map = [(''aq'', Inline 26 1 False), (''rd'', FieldRef ''rd''), (''rl'', Inline 25 1 False), (''rs1'', FieldRef ''rs1''), (''rs2'', FieldRef ''rs2'')]\<rparr>,
     \<lparr>p_name = ''amoand_w'', p_fixedbits = 0x6000202f, p_fixedmask = 0xf800707f, p_args_name = ''atomic'', p_field_map = [(''aq'', Inline 26 1 False), (''rd'', FieldRef ''rd''), (''rl'', Inline 25 1 False), (''rs1'', FieldRef ''rs1''), (''rs2'', FieldRef ''rs2'')]\<rparr>,
     \<lparr>p_name = ''amoor_w'', p_fixedbits = 0x4000202f, p_fixedmask = 0xf800707f, p_args_name = ''atomic'', p_field_map = [(''aq'', Inline 26 1 False), (''rd'', FieldRef ''rd''), (''rl'', Inline 25 1 False), (''rs1'', FieldRef ''rs1''), (''rs2'', FieldRef ''rs2'')]\<rparr>,
     \<lparr>p_name = ''amomin_w'', p_fixedbits = 0x8000202f, p_fixedmask = 0xf800707f, p_args_name = ''atomic'', p_field_map = [(''aq'', Inline 26 1 False), (''rd'', FieldRef ''rd''), (''rl'', Inline 25 1 False), (''rs1'', FieldRef ''rs1''), (''rs2'', FieldRef ''rs2'')]\<rparr>,
     \<lparr>p_name = ''amomax_w'', p_fixedbits = 0xa000202f, p_fixedmask = 0xf800707f, p_args_name = ''atomic'', p_field_map = [(''aq'', Inline 26 1 False), (''rd'', FieldRef ''rd''), (''rl'', Inline 25 1 False), (''rs1'', FieldRef ''rs1''), (''rs2'', FieldRef ''rs2'')]\<rparr>,
     \<lparr>p_name = ''amominu_w'', p_fixedbits = 0xc000202f, p_fixedmask = 0xf800707f, p_args_name = ''atomic'', p_field_map = [(''aq'', Inline 26 1 False), (''rd'', FieldRef ''rd''), (''rl'', Inline 25 1 False), (''rs1'', FieldRef ''rs1''), (''rs2'', FieldRef ''rs2'')]\<rparr>,
     \<lparr>p_name = ''amomaxu_w'', p_fixedbits = 0xe000202f, p_fixedmask = 0xf800707f, p_args_name = ''atomic'', p_field_map = [(''aq'', Inline 26 1 False), (''rd'', FieldRef ''rd''), (''rl'', Inline 25 1 False), (''rs1'', FieldRef ''rs1''), (''rs2'', FieldRef ''rs2'')]\<rparr>]"

definition insn32_patterns_15 :: "Pattern list" where
  "insn32_patterns_15 = [
     \<lparr>p_name = ''lr_d'', p_fixedbits = 0x1000302f, p_fixedmask = 0xf9f0707f, p_args_name = ''atomic'', p_field_map = [(''aq'', Inline 26 1 False), (''rd'', FieldRef ''rd''), (''rl'', Inline 25 1 False), (''rs1'', FieldRef ''rs1''), (''rs2'', FConst 0)]\<rparr>,
     \<lparr>p_name = ''sc_d'', p_fixedbits = 0x1800302f, p_fixedmask = 0xf800707f, p_args_name = ''atomic'', p_field_map = [(''aq'', Inline 26 1 False), (''rd'', FieldRef ''rd''), (''rl'', Inline 25 1 False), (''rs1'', FieldRef ''rs1''), (''rs2'', FieldRef ''rs2'')]\<rparr>,
     \<lparr>p_name = ''amoswap_d'', p_fixedbits = 0x800302f, p_fixedmask = 0xf800707f, p_args_name = ''atomic'', p_field_map = [(''aq'', Inline 26 1 False), (''rd'', FieldRef ''rd''), (''rl'', Inline 25 1 False), (''rs1'', FieldRef ''rs1''), (''rs2'', FieldRef ''rs2'')]\<rparr>,
     \<lparr>p_name = ''amoadd_d'', p_fixedbits = 0x302f, p_fixedmask = 0xf800707f, p_args_name = ''atomic'', p_field_map = [(''aq'', Inline 26 1 False), (''rd'', FieldRef ''rd''), (''rl'', Inline 25 1 False), (''rs1'', FieldRef ''rs1''), (''rs2'', FieldRef ''rs2'')]\<rparr>,
     \<lparr>p_name = ''amoxor_d'', p_fixedbits = 0x2000302f, p_fixedmask = 0xf800707f, p_args_name = ''atomic'', p_field_map = [(''aq'', Inline 26 1 False), (''rd'', FieldRef ''rd''), (''rl'', Inline 25 1 False), (''rs1'', FieldRef ''rs1''), (''rs2'', FieldRef ''rs2'')]\<rparr>,
     \<lparr>p_name = ''amoand_d'', p_fixedbits = 0x6000302f, p_fixedmask = 0xf800707f, p_args_name = ''atomic'', p_field_map = [(''aq'', Inline 26 1 False), (''rd'', FieldRef ''rd''), (''rl'', Inline 25 1 False), (''rs1'', FieldRef ''rs1''), (''rs2'', FieldRef ''rs2'')]\<rparr>,
     \<lparr>p_name = ''amoor_d'', p_fixedbits = 0x4000302f, p_fixedmask = 0xf800707f, p_args_name = ''atomic'', p_field_map = [(''aq'', Inline 26 1 False), (''rd'', FieldRef ''rd''), (''rl'', Inline 25 1 False), (''rs1'', FieldRef ''rs1''), (''rs2'', FieldRef ''rs2'')]\<rparr>,
     \<lparr>p_name = ''amomin_d'', p_fixedbits = 0x8000302f, p_fixedmask = 0xf800707f, p_args_name = ''atomic'', p_field_map = [(''aq'', Inline 26 1 False), (''rd'', FieldRef ''rd''), (''rl'', Inline 25 1 False), (''rs1'', FieldRef ''rs1''), (''rs2'', FieldRef ''rs2'')]\<rparr>,
     \<lparr>p_name = ''amomax_d'', p_fixedbits = 0xa000302f, p_fixedmask = 0xf800707f, p_args_name = ''atomic'', p_field_map = [(''aq'', Inline 26 1 False), (''rd'', FieldRef ''rd''), (''rl'', Inline 25 1 False), (''rs1'', FieldRef ''rs1''), (''rs2'', FieldRef ''rs2'')]\<rparr>,
     \<lparr>p_name = ''amominu_d'', p_fixedbits = 0xc000302f, p_fixedmask = 0xf800707f, p_args_name = ''atomic'', p_field_map = [(''aq'', Inline 26 1 False), (''rd'', FieldRef ''rd''), (''rl'', Inline 25 1 False), (''rs1'', FieldRef ''rs1''), (''rs2'', FieldRef ''rs2'')]\<rparr>,
     \<lparr>p_name = ''amomaxu_d'', p_fixedbits = 0xe000302f, p_fixedmask = 0xf800707f, p_args_name = ''atomic'', p_field_map = [(''aq'', Inline 26 1 False), (''rd'', FieldRef ''rd''), (''rl'', Inline 25 1 False), (''rs1'', FieldRef ''rs1''), (''rs2'', FieldRef ''rs2'')]\<rparr>]"

definition insn32_table :: Parsed where
  "insn32_table = \<lparr>ps_fields = insn32_fields, ps_argsets = insn32_args, ps_patterns = insn32_patterns_3 @ insn32_patterns_4 @ insn32_patterns_5 @ insn32_patterns_6 @ insn32_patterns_7 @ insn32_patterns_8 @ insn32_patterns_9 @ insn32_patterns_10 @ insn32_patterns_11 @ insn32_patterns_12 @ insn32_patterns_13 @ insn32_patterns_14 @ insn32_patterns_15\<rparr>"

section \<open>\<open>insn16.decode\<close>\<close>

definition insn16_fields :: "Field btree" where
  "insn16_fields = [
     (''imm_addi16sp'', \<lparr>f_name = ''imm_addi16sp'', f_segments = [\<lparr>seg_pos = 12, seg_len = 1, seg_signed = True\<rparr>, \<lparr>seg_pos = 3, seg_len = 2, seg_signed = False\<rparr>, \<lparr>seg_pos = 5, seg_len = 1, seg_signed = False\<rparr>, \<lparr>seg_pos = 2, seg_len = 1, seg_signed = False\<rparr>, \<lparr>seg_pos = 6, seg_len = 1, seg_signed = False\<rparr>], f_func = Some ''ex_shift_4''\<rparr>),
     (''imm_cb'', \<lparr>f_name = ''imm_cb'', f_segments = [\<lparr>seg_pos = 12, seg_len = 1, seg_signed = True\<rparr>, \<lparr>seg_pos = 5, seg_len = 2, seg_signed = False\<rparr>, \<lparr>seg_pos = 2, seg_len = 1, seg_signed = False\<rparr>, \<lparr>seg_pos = 10, seg_len = 2, seg_signed = False\<rparr>, \<lparr>seg_pos = 3, seg_len = 2, seg_signed = False\<rparr>], f_func = Some ''ex_shift_1''\<rparr>),
     (''imm_ci'', \<lparr>f_name = ''imm_ci'', f_segments = [\<lparr>seg_pos = 12, seg_len = 1, seg_signed = True\<rparr>, \<lparr>seg_pos = 2, seg_len = 5, seg_signed = False\<rparr>], f_func = None\<rparr>),
     (''imm_cj'', \<lparr>f_name = ''imm_cj'', f_segments = [\<lparr>seg_pos = 12, seg_len = 1, seg_signed = True\<rparr>, \<lparr>seg_pos = 8, seg_len = 1, seg_signed = False\<rparr>, \<lparr>seg_pos = 9, seg_len = 2, seg_signed = False\<rparr>, \<lparr>seg_pos = 6, seg_len = 1, seg_signed = False\<rparr>, \<lparr>seg_pos = 7, seg_len = 1, seg_signed = False\<rparr>, \<lparr>seg_pos = 2, seg_len = 1, seg_signed = False\<rparr>, \<lparr>seg_pos = 11, seg_len = 1, seg_signed = False\<rparr>, \<lparr>seg_pos = 3, seg_len = 3, seg_signed = False\<rparr>], f_func = Some ''ex_shift_1''\<rparr>),
     (''imm_lui'', \<lparr>f_name = ''imm_lui'', f_segments = [\<lparr>seg_pos = 12, seg_len = 1, seg_signed = True\<rparr>, \<lparr>seg_pos = 2, seg_len = 5, seg_signed = False\<rparr>], f_func = Some ''ex_shift_12''\<rparr>),
     (''nzuimm_ciw'', \<lparr>f_name = ''nzuimm_ciw'', f_segments = [\<lparr>seg_pos = 7, seg_len = 4, seg_signed = False\<rparr>, \<lparr>seg_pos = 11, seg_len = 2, seg_signed = False\<rparr>, \<lparr>seg_pos = 5, seg_len = 1, seg_signed = False\<rparr>, \<lparr>seg_pos = 6, seg_len = 1, seg_signed = False\<rparr>], f_func = Some ''ex_shift_2''\<rparr>),
     (''rd'', \<lparr>f_name = ''rd'', f_segments = [\<lparr>seg_pos = 7, seg_len = 5, seg_signed = False\<rparr>], f_func = None\<rparr>),
     (''rs1_3'', \<lparr>f_name = ''rs1_3'', f_segments = [\<lparr>seg_pos = 7, seg_len = 3, seg_signed = False\<rparr>], f_func = Some ''ex_rvc_register''\<rparr>),
     (''rs2_3'', \<lparr>f_name = ''rs2_3'', f_segments = [\<lparr>seg_pos = 2, seg_len = 3, seg_signed = False\<rparr>], f_func = Some ''ex_rvc_register''\<rparr>),
     (''rs2_5'', \<lparr>f_name = ''rs2_5'', f_segments = [\<lparr>seg_pos = 2, seg_len = 5, seg_signed = False\<rparr>], f_func = None\<rparr>),
     (''shlimm_6bit'', \<lparr>f_name = ''shlimm_6bit'', f_segments = [\<lparr>seg_pos = 12, seg_len = 1, seg_signed = False\<rparr>, \<lparr>seg_pos = 2, seg_len = 5, seg_signed = False\<rparr>], f_func = Some ''ex_rvc_shiftli''\<rparr>),
     (''shrimm_6bit'', \<lparr>f_name = ''shrimm_6bit'', f_segments = [\<lparr>seg_pos = 12, seg_len = 1, seg_signed = False\<rparr>, \<lparr>seg_pos = 2, seg_len = 5, seg_signed = False\<rparr>], f_func = Some ''ex_rvc_shiftri''\<rparr>),
     (''uimm_6bit_ld'', \<lparr>f_name = ''uimm_6bit_ld'', f_segments = [\<lparr>seg_pos = 2, seg_len = 3, seg_signed = False\<rparr>, \<lparr>seg_pos = 12, seg_len = 1, seg_signed = False\<rparr>, \<lparr>seg_pos = 5, seg_len = 2, seg_signed = False\<rparr>], f_func = Some ''ex_shift_3''\<rparr>),
     (''uimm_6bit_lw'', \<lparr>f_name = ''uimm_6bit_lw'', f_segments = [\<lparr>seg_pos = 2, seg_len = 2, seg_signed = False\<rparr>, \<lparr>seg_pos = 12, seg_len = 1, seg_signed = False\<rparr>, \<lparr>seg_pos = 4, seg_len = 3, seg_signed = False\<rparr>], f_func = Some ''ex_shift_2''\<rparr>),
     (''uimm_6bit_sd'', \<lparr>f_name = ''uimm_6bit_sd'', f_segments = [\<lparr>seg_pos = 7, seg_len = 3, seg_signed = False\<rparr>, \<lparr>seg_pos = 10, seg_len = 3, seg_signed = False\<rparr>], f_func = Some ''ex_shift_3''\<rparr>),
     (''uimm_6bit_sw'', \<lparr>f_name = ''uimm_6bit_sw'', f_segments = [\<lparr>seg_pos = 7, seg_len = 2, seg_signed = False\<rparr>, \<lparr>seg_pos = 9, seg_len = 4, seg_signed = False\<rparr>], f_func = Some ''ex_shift_2''\<rparr>),
     (''uimm_cl_d'', \<lparr>f_name = ''uimm_cl_d'', f_segments = [\<lparr>seg_pos = 5, seg_len = 2, seg_signed = False\<rparr>, \<lparr>seg_pos = 10, seg_len = 3, seg_signed = False\<rparr>], f_func = Some ''ex_shift_3''\<rparr>),
     (''uimm_cl_w'', \<lparr>f_name = ''uimm_cl_w'', f_segments = [\<lparr>seg_pos = 5, seg_len = 1, seg_signed = False\<rparr>, \<lparr>seg_pos = 10, seg_len = 3, seg_signed = False\<rparr>, \<lparr>seg_pos = 6, seg_len = 1, seg_signed = False\<rparr>], f_func = Some ''ex_shift_2''\<rparr>)]"

definition insn16_argsets :: "ArgSet btree" where
  "insn16_argsets = [
     (''b'', \<lparr>as_name = ''b'', as_fields = [''imm'', ''rs2'', ''rs1''], as_is_extern = True\<rparr>),
     (''empty'', \<lparr>as_name = ''empty'', as_fields = [], as_is_extern = True\<rparr>),
     (''i'', \<lparr>as_name = ''i'', as_fields = [''imm'', ''rs1'', ''rd''], as_is_extern = True\<rparr>),
     (''j'', \<lparr>as_name = ''j'', as_fields = [''imm'', ''rd''], as_is_extern = True\<rparr>),
     (''r'', \<lparr>as_name = ''r'', as_fields = [''rd'', ''rs1'', ''rs2''], as_is_extern = True\<rparr>),
     (''s'', \<lparr>as_name = ''s'', as_fields = [''imm'', ''rs1'', ''rs2''], as_is_extern = True\<rparr>),
     (''shift'', \<lparr>as_name = ''shift'', as_fields = [''shamt'', ''rs1'', ''rd''], as_is_extern = True\<rparr>),
     (''u'', \<lparr>as_name = ''u'', as_fields = [''imm'', ''rd''], as_is_extern = True\<rparr>)]"

definition insn16_formats :: "Format btree" where
  "insn16_formats = [
     (''c_addi16sp'', \<lparr>fmt_name = ''c_addi16sp'', fmt_fixedbits = 0, fmt_fixedmask = 0, fmt_args_name = ''i'', fmt_field_map = [(''imm'', FieldRef ''imm_addi16sp''), (''rd'', FConst 2), (''rs1'', FConst 2)]\<rparr>),
     (''c_addi4spn'', \<lparr>fmt_name = ''c_addi4spn'', fmt_fixedbits = 0, fmt_fixedmask = 0, fmt_args_name = ''i'', fmt_field_map = [(''imm'', FieldRef ''nzuimm_ciw''), (''rd'', FieldRef ''rs2_3''), (''rs1'', FConst 2)]\<rparr>),
     (''c_andi'', \<lparr>fmt_name = ''c_andi'', fmt_fixedbits = 0, fmt_fixedmask = 0, fmt_args_name = ''i'', fmt_field_map = [(''imm'', FieldRef ''imm_ci''), (''rd'', FieldRef ''rs1_3''), (''rs1'', FieldRef ''rs1_3'')]\<rparr>),
     (''c_jalr'', \<lparr>fmt_name = ''c_jalr'', fmt_fixedbits = 0, fmt_fixedmask = 0, fmt_args_name = ''i'', fmt_field_map = [(''imm'', FConst 0), (''rs1'', FieldRef ''rd'')]\<rparr>),
     (''c_ldsp'', \<lparr>fmt_name = ''c_ldsp'', fmt_fixedbits = 0, fmt_fixedmask = 0, fmt_args_name = ''i'', fmt_field_map = [(''imm'', FieldRef ''uimm_6bit_ld''), (''rd'', FieldRef ''rd''), (''rs1'', FConst 2)]\<rparr>),
     (''c_li'', \<lparr>fmt_name = ''c_li'', fmt_fixedbits = 0, fmt_fixedmask = 0, fmt_args_name = ''i'', fmt_field_map = [(''imm'', FieldRef ''imm_ci''), (''rd'', FieldRef ''rd''), (''rs1'', FConst 0)]\<rparr>),
     (''c_lui'', \<lparr>fmt_name = ''c_lui'', fmt_fixedbits = 0, fmt_fixedmask = 0, fmt_args_name = ''u'', fmt_field_map = [(''imm'', FieldRef ''imm_lui''), (''rd'', FieldRef ''rd'')]\<rparr>),
     (''c_lwsp'', \<lparr>fmt_name = ''c_lwsp'', fmt_fixedbits = 0, fmt_fixedmask = 0, fmt_args_name = ''i'', fmt_field_map = [(''imm'', FieldRef ''uimm_6bit_lw''), (''rd'', FieldRef ''rd''), (''rs1'', FConst 2)]\<rparr>),
     (''c_mv'', \<lparr>fmt_name = ''c_mv'', fmt_fixedbits = 0, fmt_fixedmask = 0, fmt_args_name = ''i'', fmt_field_map = [(''imm'', FConst 0), (''rd'', FieldRef ''rd''), (''rs1'', FieldRef ''rs2_5'')]\<rparr>),
     (''c_sdsp'', \<lparr>fmt_name = ''c_sdsp'', fmt_fixedbits = 0, fmt_fixedmask = 0, fmt_args_name = ''s'', fmt_field_map = [(''imm'', FieldRef ''uimm_6bit_sd''), (''rs1'', FConst 2), (''rs2'', FieldRef ''rs2_5'')]\<rparr>),
     (''c_shift'', \<lparr>fmt_name = ''c_shift'', fmt_fixedbits = 0, fmt_fixedmask = 0, fmt_args_name = ''shift'', fmt_field_map = [(''rd'', FieldRef ''rs1_3''), (''rs1'', FieldRef ''rs1_3''), (''shamt'', FieldRef ''shrimm_6bit'')]\<rparr>),
     (''c_shift2'', \<lparr>fmt_name = ''c_shift2'', fmt_fixedbits = 0, fmt_fixedmask = 0, fmt_args_name = ''shift'', fmt_field_map = [(''rd'', FieldRef ''rd''), (''rs1'', FieldRef ''rd''), (''shamt'', FieldRef ''shlimm_6bit'')]\<rparr>),
     (''c_swsp'', \<lparr>fmt_name = ''c_swsp'', fmt_fixedbits = 0, fmt_fixedmask = 0, fmt_args_name = ''s'', fmt_field_map = [(''imm'', FieldRef ''uimm_6bit_sw''), (''rs1'', FConst 2), (''rs2'', FieldRef ''rs2_5'')]\<rparr>),
     (''cb_z'', \<lparr>fmt_name = ''cb_z'', fmt_fixedbits = 0, fmt_fixedmask = 0, fmt_args_name = ''b'', fmt_field_map = [(''imm'', FieldRef ''imm_cb''), (''rs1'', FieldRef ''rs1_3''), (''rs2'', FConst 0)]\<rparr>),
     (''ci'', \<lparr>fmt_name = ''ci'', fmt_fixedbits = 0, fmt_fixedmask = 0, fmt_args_name = ''i'', fmt_field_map = [(''imm'', FieldRef ''imm_ci''), (''rd'', FieldRef ''rd''), (''rs1'', FieldRef ''rd'')]\<rparr>),
     (''cj'', \<lparr>fmt_name = ''cj'', fmt_fixedbits = 0, fmt_fixedmask = 0, fmt_args_name = ''j'', fmt_field_map = [(''imm'', FieldRef ''imm_cj'')]\<rparr>),
     (''cl_d'', \<lparr>fmt_name = ''cl_d'', fmt_fixedbits = 0, fmt_fixedmask = 0, fmt_args_name = ''i'', fmt_field_map = [(''imm'', FieldRef ''uimm_cl_d''), (''rd'', FieldRef ''rs2_3''), (''rs1'', FieldRef ''rs1_3'')]\<rparr>),
     (''cl_w'', \<lparr>fmt_name = ''cl_w'', fmt_fixedbits = 0, fmt_fixedmask = 0, fmt_args_name = ''i'', fmt_field_map = [(''imm'', FieldRef ''uimm_cl_w''), (''rd'', FieldRef ''rs2_3''), (''rs1'', FieldRef ''rs1_3'')]\<rparr>),
     (''cr'', \<lparr>fmt_name = ''cr'', fmt_fixedbits = 0, fmt_fixedmask = 0, fmt_args_name = ''r'', fmt_field_map = [(''rd'', FieldRef ''rd''), (''rs1'', FieldRef ''rd''), (''rs2'', FieldRef ''rs2_5'')]\<rparr>),
     (''cs_2'', \<lparr>fmt_name = ''cs_2'', fmt_fixedbits = 0, fmt_fixedmask = 0, fmt_args_name = ''r'', fmt_field_map = [(''rd'', FieldRef ''rs1_3''), (''rs1'', FieldRef ''rs1_3''), (''rs2'', FieldRef ''rs2_3'')]\<rparr>),
     (''cs_d'', \<lparr>fmt_name = ''cs_d'', fmt_fixedbits = 0, fmt_fixedmask = 0, fmt_args_name = ''s'', fmt_field_map = [(''imm'', FieldRef ''uimm_cl_d''), (''rs1'', FieldRef ''rs1_3''), (''rs2'', FieldRef ''rs2_3'')]\<rparr>),
     (''cs_w'', \<lparr>fmt_name = ''cs_w'', fmt_fixedbits = 0, fmt_fixedmask = 0, fmt_args_name = ''s'', fmt_field_map = [(''imm'', FieldRef ''uimm_cl_w''), (''rs1'', FieldRef ''rs1_3''), (''rs2'', FieldRef ''rs2_3'')]\<rparr>)]"

definition insn16_raw_0 :: "string list" where
  "insn16_raw_0 = [
     ''#'',
     ''# RISC-V RV64C Standard Extension (16-bit compressed) decode patterns.'',
     ''#'',
     ''# Ported from QEMU target/riscv/insn16.decode for tcg-rs.'',
     ''# Original copyright:'',
     ''#   Copyright (c) 2018 Peer Adelt, peer.adelt@hni.uni-paderborn.de'',
     ''#                      Bastian Koppelmann, kbastian@mail.uni-paderborn.de'',
     ''#   Licensed under GPL-2.0-or-later.'',
     ''#'',
     ''# Subset: RV64C only.  Excludes Zcb, Zcmp, Zcmt, Zclsd, Zcmops,'',
     ''# RV128 (lq/sq).'',
     [],
     ''# Fields:'',
     ''%rd        7:5'',
     ''%rs1_3     7:3                !function=ex_rvc_register'',
     ''%rs2_3     2:3                !function=ex_rvc_register'',
     ''%rs2_5     2:5'',
     [],
     ''# Immediates:'',
     ''%imm_ci        12:s1 2:5'',
     ''%nzuimm_ciw    7:4 11:2 5:1 6:1   !function=ex_shift_2'',
     ''%uimm_cl_d     5:2 10:3           !function=ex_shift_3'',
     ''%uimm_cl_w     5:1 10:3 6:1       !function=ex_shift_2'',
     ''%imm_cb        12:s1 5:2 2:1 10:2 3:2 !function=ex_shift_1'',
     ''%imm_cj        12:s1 8:1 9:2 6:1 7:1 2:1 11:1 3:3 !function=ex_shift_1'',
     [],
     ''%shlimm_6bit  12:1 2:5               !function=ex_rvc_shiftli'',
     ''%shrimm_6bit  12:1 2:5               !function=ex_rvc_shiftri'',
     ''%uimm_6bit_ld 2:3 12:1 5:2           !function=ex_shift_3'',
     ''%uimm_6bit_lw 2:2 12:1 4:3           !function=ex_shift_2'',
     ''%uimm_6bit_sd 7:3 10:3               !function=ex_shift_3'',
     ''%uimm_6bit_sw 7:2 9:4                !function=ex_shift_2'',
     [],
     ''%imm_addi16sp  12:s1 3:2 5:1 2:1 6:1 !function=ex_shift_4'',
     ''%imm_lui       12:s1 2:5             !function=ex_shift_12'']"

definition insn16_raw_1 :: "string list" where
  "insn16_raw_1 = [
     [],
     ''# Argument sets imported from insn32.decode:'',
     ''&empty                  !extern'',
     ''&b    imm rs2 rs1       !extern'',
     ''&i    imm rs1 rd        !extern'',
     ''&j    imm rd            !extern'',
     ''&r    rd rs1 rs2        !extern'',
     ''&s    imm rs1 rs2       !extern'',
     ''&u    imm rd            !extern'',
     ''&shift     shamt rs1 rd !extern'']"

definition insn16_raw_2 :: "string list" where
  "insn16_raw_2 = [
     [],
     ''# Formats 16:'',
     ''@cr        ....  ..... .....  .. &r      rs2=%rs2_5       rs1=%rd     %rd'',
     ''@ci        ... . ..... .....  .. &i      imm=%imm_ci      rs1=%rd     %rd'',
     ''@cl_d      ... ... ... .. ... .. &i      imm=%uimm_cl_d   rs1=%rs1_3  rd=%rs2_3'',
     ''@cl_w      ... ... ... .. ... .. &i      imm=%uimm_cl_w   rs1=%rs1_3  rd=%rs2_3'',
     ''@cs_2      ... ... ... .. ... .. &r      rs2=%rs2_3       rs1=%rs1_3  rd=%rs1_3'',
     ''@cs_d      ... ... ... .. ... .. &s      imm=%uimm_cl_d   rs1=%rs1_3  rs2=%rs2_3'',
     ''@cs_w      ... ... ... .. ... .. &s      imm=%uimm_cl_w   rs1=%rs1_3  rs2=%rs2_3'',
     ''@cj        ...    ........... .. &j      imm=%imm_cj'',
     ''@cb_z      ... ... ... .. ... .. &b      imm=%imm_cb      rs1=%rs1_3  rs2=0'',
     [],
     ''@c_ldsp    ... . .....  ..... .. &i      imm=%uimm_6bit_ld rs1=2 %rd'',
     ''@c_lwsp    ... . .....  ..... .. &i      imm=%uimm_6bit_lw rs1=2 %rd'',
     ''@c_sdsp    ... . .....  ..... .. &s      imm=%uimm_6bit_sd rs1=2 rs2=%rs2_5'',
     ''@c_swsp    ... . .....  ..... .. &s      imm=%uimm_6bit_sw rs1=2 rs2=%rs2_5'',
     ''@c_li      ... . .....  ..... .. &i      imm=%imm_ci rs1=0 %rd'',
     ''@c_lui     ... . .....  ..... .. &u      imm=%imm_lui %rd'',
     ''@c_jalr    ... . .....  ..... .. &i      imm=0 rs1=%rd'',
     ''@c_mv      ... . ..... .....  .. &i      imm=0 rs1=%rs2_5 %rd'',
     [],
     ''@c_addi4spn     ... .  ..... ..... .. &i imm=%nzuimm_ciw rs1=2 rd=%rs2_3'',
     ''@c_addi16sp     ... .  ..... ..... .. &i imm=%imm_addi16sp rs1=2 rd=2'',
     [],
     ''@c_shift        ... . .. ... ..... .. '' @ [CHR 0x5C],
     ''                &shift rd=%rs1_3 rs1=%rs1_3 shamt=%shrimm_6bit'',
     ''@c_shift2       ... . .. ... ..... .. '' @ [CHR 0x5C],
     ''                &shift rd=%rd rs1=%rd shamt=%shlimm_6bit'',
     [],
     ''@c_andi         ... . .. ... ..... .. &i imm=%imm_ci rs1=%rs1_3 rd=%rs1_3'']"

definition insn16_raw_3 :: "string list" where
  "insn16_raw_3 = [
     [],
     ''# *** RV32/64C Standard Extension (Quadrant 0) ***'',
     ''{'',
     ''  illegal         000  000 000 00 --- 00'',
     ''  addi            000  ... ... .. ... 00 @c_addi4spn'',
     ''}'',
     ''{'',
     ''  c_fld           001  ... ... .. ... 00 @cl_d'',
     ''}'',
     ''lw                010  ... ... .. ... 00 @cl_w'',
     ''{'',
     ''  ld              011  ... ... .. ... 00 @cl_d'',
     ''  c_flw           011  ... ... .. ... 00 @cl_w'',
     ''}'',
     ''{'',
     ''  c_fsd           101  ... ... .. ... 00 @cs_d'',
     ''}'',
     ''sw                110  ... ... .. ... 00 @cs_w'',
     ''{'',
     ''  sd              111  ... ... .. ... 00 @cs_d'',
     ''  c_fsw           111  ... ... .. ... 00 @cs_w'',
     ''}'',
     [],
     ''# *** RV32/64C Standard Extension (Quadrant 1) ***'',
     ''addi              000 .  .....  ..... 01 @ci'',
     ''addi              010 .  .....  ..... 01 @c_li'',
     ''{'']"

definition insn16_raw_4 :: "string list" where
  "insn16_raw_4 = [
     ''  illegal         011 0  -----  00000 01'',
     ''  addi            011 .  00010  ..... 01 @c_addi16sp'',
     ''  lui             011 .  .....  ..... 01 @c_lui'',
     ''}'',
     ''srli              100 . 00 ...  ..... 01 @c_shift'',
     ''srai              100 . 01 ...  ..... 01 @c_shift'',
     ''andi              100 . 10 ...  ..... 01 @c_andi'',
     ''sub               100 0 11 ... 00 ... 01 @cs_2'',
     ''xor               100 0 11 ... 01 ... 01 @cs_2'',
     ''or                100 0 11 ... 10 ... 01 @cs_2'',
     ''and               100 0 11 ... 11 ... 01 @cs_2'',
     ''jal               101     ........... 01 @cj    rd=0'',
     ''beq               110  ... ...  ..... 01 @cb_z'']"

definition insn16_raw_5 :: "string list" where
  "insn16_raw_5 = [
     ''bne               111  ... ...  ..... 01 @cb_z'',
     [],
     ''# *** RV64C specific (Quadrant 1) ***'',
     ''{'',
     ''  c64_illegal     001 -  00000  ----- 01'',
     ''  addiw           001 .  .....  ..... 01 @ci'',
     ''}'',
     ''subw              100 1 11 ... 00 ... 01 @cs_2'',
     ''addw              100 1 11 ... 01 ... 01 @cs_2'',
     [],
     ''# *** RV32/64C Standard Extension (Quadrant 2) ***'',
     ''slli              000 .  .....  ..... 10 @c_shift2'',
     ''{'',
     ''  c_fld           001 .  .....  ..... 10 @c_ldsp'',
     ''}'',
     ''{'',
     ''  illegal         010 -  00000  ----- 10'',
     ''  lw              010 .  .....  ..... 10 @c_lwsp'',
     ''}'',
     ''{'',
     ''  illegal         100 0  00000  00000 10'',
     ''  jalr            100 0  .....  00000 10 @c_jalr rd=0'',
     ''  addi            100 0  .....  ..... 10 @c_mv'',
     ''}'',
     ''{'']"

definition insn16_raw_6 :: "string list" where
  "insn16_raw_6 = [
     ''  ebreak          100 1  00000  00000 10'',
     ''  jalr            100 1  .....  00000 10 @c_jalr rd=1'',
     ''  add             100 1  .....  ..... 10 @cr'',
     ''}'',
     ''sw                110 .  .....  ..... 10 @c_swsp'',
     ''{'',
     ''  c_fsd           101   ......  ..... 10 @c_sdsp'',
     ''}'',
     [],
     ''# *** RV64C specific (Quadrant 2) ***'',
     ''{'',
     ''  c64_illegal     011 -  00000  ----- 10'',
     ''  ld              011 .  .....  ..... 10 @c_ldsp'',
     ''}'',
     ''sd                111 .  .....  ..... 10 @c_sdsp'']"

definition insn16_lines_2 :: "string list" where
  "insn16_lines_2 = [
     [],
     ''# Formats 16:'',
     ''@cr        ....  ..... .....  .. &r      rs2=%rs2_5       rs1=%rd     %rd'',
     ''@ci        ... . ..... .....  .. &i      imm=%imm_ci      rs1=%rd     %rd'',
     ''@cl_d      ... ... ... .. ... .. &i      imm=%uimm_cl_d   rs1=%rs1_3  rd=%rs2_3'',
     ''@cl_w      ... ... ... .. ... .. &i      imm=%uimm_cl_w   rs1=%rs1_3  rd=%rs2_3'',
     ''@cs_2      ... ... ... .. ... .. &r      rs2=%rs2_3       rs1=%rs1_3  rd=%rs1_3'',
     ''@cs_d      ... ... ... .. ... .. &s      imm=%uimm_cl_d   rs1=%rs1_3  rs2=%rs2_3'',
     ''@cs_w      ... ... ... .. ... .. &s      imm=%uimm_cl_w   rs1=%rs1_3  rs2=%rs2_3'',
     ''@cj        ...    ........... .. &j      imm=%imm_cj'',
     ''@cb_z      ... ... ... .. ... .. &b      imm=%imm_cb      rs1=%rs1_3  rs2=0'',
     [],
     ''@c_ldsp    ... . .....  ..... .. &i      imm=%uimm_6bit_ld rs1=2 %rd'',
     ''@c_lwsp    ... . .....  ..... .. &i      imm=%uimm_6bit_lw rs1=2 %rd'',
     ''@c_sdsp    ... . .....  ..... .. &s      imm=%uimm_6bit_sd rs1=2 rs2=%rs2_5'',
     ''@c_swsp    ... . .....  ..... .. &s      imm=%uimm_6bit_sw rs1=2 rs2=%rs2_5'',
     ''@c_li      ... . .....  ..... .. &i      imm=%imm_ci rs1=0 %rd'',
     ''@c_lui     ... . .....  ..... .. &u      imm=%imm_lui %rd'',
     ''@c_jalr    ... . .....  ..... .. &i      imm=0 rs1=%rd'',
     ''@c_mv      ... . ..... .....  .. &i      imm=0 rs1=%rs2_5 %rd'',
     [],
     ''@c_addi4spn     ... .  ..... ..... .. &i imm=%nzuimm_ciw rs1=2 rd=%rs2_3'',
     ''@c_addi16sp     ... .  ..... ..... .. &i imm=%imm_addi16sp rs1=2 rd=2'',
     [],
     ''@c_shift        ... . .. ... ..... .. &shift rd=%rs1_3 rs1=%rs1_3 shamt=%shrimm_6bit'',
     ''@c_shift2       ... . .. ... ..... .. &shift rd=%rd rs1=%rd shamt=%shlimm_6bit'',
     [],
     ''@c_andi         ... . .. ... ..... .. &i imm=%imm_ci rs1=%rs1_3 rd=%rs1_3'']"

definition insn16_patterns_3 :: "Pattern list" where
  "insn16_patterns_3 = [
     \<lparr>p_name = ''illegal'', p_fixedbits = 0x0, p_fixedmask = 0xffe3, p_args_name = [], p_field_map = []\<rparr>,
     \<lparr>p_name = ''addi'', p_fixedbits = 0x0, p_fixedmask = 0xe003, p_args_name = ''i'', p_field_map = [(''imm'', FieldRef ''nzuimm_ciw''), (''rd'', FieldRef ''rs2_3''), (''rs1'', FConst 2)]\<rparr>,
     \<lparr>p_name = ''c_fld'', p_fixedbits = 0x2000, p_fixedmask = 0xe003, p_args_name = ''i'', p_field_map = [(''imm'', FieldRef ''uimm_cl_d''), (''rd'', FieldRef ''rs2_3''), (''rs1'', FieldRef ''rs1_3'')]\<rparr>,
     \<lparr>p_name = ''lw'', p_fixedbits = 0x4000, p_fixedmask = 0xe003, p_args_name = ''i'', p_field_map = [(''imm'', FieldRef ''uimm_cl_w''), (''rd'', FieldRef ''rs2_3''), (''rs1'', FieldRef ''rs1_3'')]\<rparr>,
     \<lparr>p_name = ''ld'', p_fixedbits = 0x6000, p_fixedmask = 0xe003, p_args_name = ''i'', p_field_map = [(''imm'', FieldRef ''uimm_cl_d''), (''rd'', FieldRef ''rs2_3''), (''rs1'', FieldRef ''rs1_3'')]\<rparr>,
     \<lparr>p_name = ''c_flw'', p_fixedbits = 0x6000, p_fixedmask = 0xe003, p_args_name = ''i'', p_field_map = [(''imm'', FieldRef ''uimm_cl_w''), (''rd'', FieldRef ''rs2_3''), (''rs1'', FieldRef ''rs1_3'')]\<rparr>,
     \<lparr>p_name = ''c_fsd'', p_fixedbits = 0xa000, p_fixedmask = 0xe003, p_args_name = ''s'', p_field_map = [(''imm'', FieldRef ''uimm_cl_d''), (''rs1'', FieldRef ''rs1_3''), (''rs2'', FieldRef ''rs2_3'')]\<rparr>,
     \<lparr>p_name = ''sw'', p_fixedbits = 0xc000, p_fixedmask = 0xe003, p_args_name = ''s'', p_field_map = [(''imm'', FieldRef ''uimm_cl_w''), (''rs1'', FieldRef ''rs1_3''), (''rs2'', FieldRef ''rs2_3'')]\<rparr>,
     \<lparr>p_name = ''sd'', p_fixedbits = 0xe000, p_fixedmask = 0xe003, p_args_name = ''s'', p_field_map = [(''imm'', FieldRef ''uimm_cl_d''), (''rs1'', FieldRef ''rs1_3''), (''rs2'', FieldRef ''rs2_3'')]\<rparr>,
     \<lparr>p_name = ''c_fsw'', p_fixedbits = 0xe000, p_fixedmask = 0xe003, p_args_name = ''s'', p_field_map = [(''imm'', FieldRef ''uimm_cl_w''), (''rs1'', FieldRef ''rs1_3''), (''rs2'', FieldRef ''rs2_3'')]\<rparr>,
     \<lparr>p_name = ''addi'', p_fixedbits = 0x1, p_fixedmask = 0xe003, p_args_name = ''i'', p_field_map = [(''imm'', FieldRef ''imm_ci''), (''rd'', FieldRef ''rd''), (''rs1'', FieldRef ''rd'')]\<rparr>,
     \<lparr>p_name = ''addi'', p_fixedbits = 0x4001, p_fixedmask = 0xe003, p_args_name = ''i'', p_field_map = [(''imm'', FieldRef ''imm_ci''), (''rd'', FieldRef ''rd''), (''rs1'', FConst 0)]\<rparr>]"

definition insn16_patterns_4 :: "Pattern list" where
  "insn16_patterns_4 = [
     \<lparr>p_name = ''illegal'', p_fixedbits = 0x6001, p_fixedmask = 0xf07f, p_args_name = [], p_field_map = []\<rparr>,
     \<lparr>p_name = ''addi'', p_fixedbits = 0x6101, p_fixedmask = 0xef83, p_args_name = ''i'', p_field_map = [(''imm'', FieldRef ''imm_addi16sp''), (''rd'', FConst 2), (''rs1'', FConst 2)]\<rparr>,
     \<lparr>p_name = ''lui'', p_fixedbits = 0x6001, p_fixedmask = 0xe003, p_args_name = ''u'', p_field_map = [(''imm'', FieldRef ''imm_lui''), (''rd'', FieldRef ''rd'')]\<rparr>,
     \<lparr>p_name = ''srli'', p_fixedbits = 0x8001, p_fixedmask = 0xec03, p_args_name = ''shift'', p_field_map = [(''rd'', FieldRef ''rs1_3''), (''rs1'', FieldRef ''rs1_3''), (''shamt'', FieldRef ''shrimm_6bit'')]\<rparr>,
     \<lparr>p_name = ''srai'', p_fixedbits = 0x8401, p_fixedmask = 0xec03, p_args_name = ''shift'', p_field_map = [(''rd'', FieldRef ''rs1_3''), (''rs1'', FieldRef ''rs1_3''), (''shamt'', FieldRef ''shrimm_6bit'')]\<rparr>,
     \<lparr>p_name = ''andi'', p_fixedbits = 0x8801, p_fixedmask = 0xec03, p_args_name = ''i'', p_field_map = [(''imm'', FieldRef ''imm_ci''), (''rd'', FieldRef ''rs1_3''), (''rs1'', FieldRef ''rs1_3'')]\<rparr>,
     \<lparr>p_name = ''sub'', p_fixedbits = 0x8c01, p_fixedmask = 0xfc63, p_args_name = ''r'', p_field_map = [(''rd'', FieldRef ''rs1_3''), (''rs1'', FieldRef ''rs1_3''), (''rs2'', FieldRef ''rs2_3'')]\<rparr>,
     \<lparr>p_name = ''xor'', p_fixedbits = 0x8c21, p_fixedmask = 0xfc63, p_args_name = ''r'', p_field_map = [(''rd'', FieldRef ''rs1_3''), (''rs1'', FieldRef ''rs1_3''), (''rs2'', FieldRef ''rs2_3'')]\<rparr>,
     \<lparr>p_name = ''or'', p_fixedbits = 0x8c41, p_fixedmask = 0xfc63, p_args_name = ''r'', p_field_map = [(''rd'', FieldRef ''rs1_3''), (''rs1'', FieldRef ''rs1_3''), (''rs2'', FieldRef ''rs2_3'')]\<rparr>,
     \<lparr>p_name = ''and'', p_fixedbits = 0x8c61, p_fixedmask = 0xfc63, p_args_name = ''r'', p_field_map = [(''rd'', FieldRef ''rs1_3''), (''rs1'', FieldRef ''rs1_3''), (''rs2'', FieldRef ''rs2_3'')]\<rparr>,
     \<lparr>p_name = ''jal'', p_fixedbits = 0xa001, p_fixedmask = 0xe003, p_args_name = ''j'', p_field_map = [(''imm'', FieldRef ''imm_cj''), (''rd'', FConst 0)]\<rparr>,
     \<lparr>p_name = ''beq'', p_fixedbits = 0xc001, p_fixedmask = 0xe003, p_args_name = ''b'', p_field_map = [(''imm'', FieldRef ''imm_cb''), (''rs1'', FieldRef ''rs1_3''), (''rs2'', FConst 0)]\<rparr>]"

definition insn16_patterns_5 :: "Pattern list" where
  "insn16_patterns_5 = [
     \<lparr>p_name = ''bne'', p_fixedbits = 0xe001, p_fixedmask = 0xe003, p_args_name = ''b'', p_field_map = [(''imm'', FieldRef ''imm_cb''), (''rs1'', FieldRef ''rs1_3''), (''rs2'', FConst 0)]\<rparr>,
     \<lparr>p_name = ''c64_illegal'', p_fixedbits = 0x2001, p_fixedmask = 0xef83, p_args_name = [], p_field_map = []\<rparr>,
     \<lparr>p_name = ''addiw'', p_fixedbits = 0x2001, p_fixedmask = 0xe003, p_args_name = ''i'', p_field_map = [(''imm'', FieldRef ''imm_ci''), (''rd'', FieldRef ''rd''), (''rs1'', FieldRef ''rd'')]\<rparr>,
     \<lparr>p_name = ''subw'', p_fixedbits = 0x9c01, p_fixedmask = 0xfc63, p_args_name = ''r'', p_field_map = [(''rd'', FieldRef ''rs1_3''), (''rs1'', FieldRef ''rs1_3''), (''rs2'', FieldRef ''rs2_3'')]\<rparr>,
     \<lparr>p_name = ''addw'', p_fixedbits = 0x9c21, p_fixedmask = 0xfc63, p_args_name = ''r'', p_field_map = [(''rd'', FieldRef ''rs1_3''), (''rs1'', FieldRef ''rs1_3''), (''rs2'', FieldRef ''rs2_3'')]\<rparr>,
     \<lparr>p_name = ''slli'', p_fixedbits = 0x2, p_fixedmask = 0xe003, p_args_name = ''shift'', p_field_map = [(''rd'', FieldRef ''rd''), (''rs1'', FieldRef ''rd''), (''shamt'', FieldRef ''shlimm_6bit'')]\<rparr>,
     \<lparr>p_name = ''c_fld'', p_fixedbits = 0x2002, p_fixedmask = 0xe003, p_args_name = ''i'', p_field_map = [(''imm'', FieldRef ''uimm_6bit_ld''), (''rd'', FieldRef ''rd''), (''rs1'', FConst 2)]\<rparr>,
     \<lparr>p_name = ''illegal'', p_fixedbits = 0x4002, p_fixedmask = 0xef83, p_args_name = [], p_field_map = []\<rparr>,
     \<lparr>p_name = ''lw'', p_fixedbits = 0x4002, p_fixedmask = 0xe003, p_args_name = ''i'', p_field_map = [(''imm'', FieldRef ''uimm_6bit_lw''), (''rd'', FieldRef ''rd''), (''rs1'', FConst 2)]\<rparr>,
     \<lparr>p_name = ''illegal'', p_fixedbits = 0x8002, p_fixedmask = 0xffff, p_args_name = [], p_field_map = []\<rparr>,
     \<lparr>p_name = ''jalr'', p_fixedbits = 0x8002, p_fixedmask = 0xf07f, p_args_name = ''i'', p_field_map = [(''imm'', FConst 0), (''rd'', FConst 0), (''rs1'', FieldRef ''rd'')]\<rparr>,
     \<lparr>p_name = ''addi'', p_fixedbits = 0x8002, p_fixedmask = 0xf003, p_args_name = ''i'', p_field_map = [(''imm'', FConst 0), (''rd'', FieldRef ''rd''), (''rs1'', FieldRef ''rs2_5'')]\<rparr>]"

definition insn16_patterns_6 :: "Pattern list" where
  "insn16_patterns_6 = [
     \<lparr>p_name = ''ebreak'', p_fixedbits = 0x9002, p_fixedmask = 0xffff, p_args_name = [], p_field_map = []\<rparr>,
     \<lparr>p_name = ''jalr'', p_fixedbits = 0x9002, p_fixedmask = 0xf07f, p_args_name = ''i'', p_field_map = [(''imm'', FConst 0), (''rd'', FConst 1), (''rs1'', FieldRef ''rd'')]\<rparr>,
     \<lparr>p_name = ''add'', p_fixedbits = 0x9002, p_fixedmask = 0xf003, p_args_name = ''r'', p_field_map = [(''rd'', FieldRef ''rd''), (''rs1'', FieldRef ''rd''), (''rs2'', FieldRef ''rs2_5'')]\<rparr>,
     \<lparr>p_name = ''sw'', p_fixedbits = 0xc002, p_fixedmask = 0xe003, p_args_name = ''s'', p_field_map = [(''imm'', FieldRef ''uimm_6bit_sw''), (''rs1'', FConst 2), (''rs2'', FieldRef ''rs2_5'')]\<rparr>,
     \<lparr>p_name = ''c_fsd'', p_fixedbits = 0xa002, p_fixedmask = 0xe003, p_args_name = ''s'', p_field_map = [(''imm'', FieldRef ''uimm_6bit_sd''), (''rs1'', FConst 2), (''rs2'', FieldRef ''rs2_5'')]\<rparr>,
     \<lparr>p_name = ''c64_illegal'', p_fixedbits = 0x6002, p_fixedmask = 0xef83, p_args_name = [], p_field_map = []\<rparr>,
     \<lparr>p_name = ''ld'', p_fixedbits = 0x6002, p_fixedmask = 0xe003, p_args_name = ''i'', p_field_map = [(''imm'', FieldRef ''uimm_6bit_ld''), (''rd'', FieldRef ''rd''), (''rs1'', FConst 2)]\<rparr>,
     \<lparr>p_name = ''sd'', p_fixedbits = 0xe002, p_fixedmask = 0xe003, p_args_name = ''s'', p_field_map = [(''imm'', FieldRef ''uimm_6bit_sd''), (''rs1'', FConst 2), (''rs2'', FieldRef ''rs2_5'')]\<rparr>]"

definition insn16_file :: "string list" where
  "insn16_file = insn16_raw_0 @ insn16_raw_1 @ insn16_raw_2 @ insn16_raw_3 @ insn16_raw_4 @ insn16_raw_5 @ insn16_raw_6"

definition insn16_table :: Parsed where
  "insn16_table = \<lparr>ps_fields = insn16_fields, ps_argsets = bt_extend insn16_argsets [], ps_patterns = insn16_patterns_3 @ insn16_patterns_4 @ insn16_patterns_5 @ insn16_patterns_6\<rparr>"

definition insn16_args :: "ArgSet btree" where
  "insn16_args = [
     (''b'', \<lparr>as_name = ''b'', as_fields = [''imm'', ''rs2'', ''rs1''], as_is_extern = True\<rparr>),
     (''empty'', \<lparr>as_name = ''empty'', as_fields = [], as_is_extern = True\<rparr>),
     (''i'', \<lparr>as_name = ''i'', as_fields = [''imm'', ''rs1'', ''rd''], as_is_extern = True\<rparr>),
     (''j'', \<lparr>as_name = ''j'', as_fields = [''imm'', ''rd''], as_is_extern = True\<rparr>),
     (''r'', \<lparr>as_name = ''r'', as_fields = [''rd'', ''rs1'', ''rs2''], as_is_extern = True\<rparr>),
     (''s'', \<lparr>as_name = ''s'', as_fields = [''imm'', ''rs1'', ''rs2''], as_is_extern = True\<rparr>),
     (''shift'', \<lparr>as_name = ''shift'', as_fields = [''shamt'', ''rs1'', ''rd''], as_is_extern = True\<rparr>),
     (''u'', \<lparr>as_name = ''u'', as_fields = [''imm'', ''rd''], as_is_extern = True\<rparr>)]"

section \<open>What the parser reads\<close>

lemma insn32_patterns_3_ok: "list_all (pattern_check 32 names32 REG_FIELDS insn32_fields insn32_args) insn32_patterns_3"
  by code_simp

lemma insn32_patterns_4_ok: "list_all (pattern_check 32 names32 REG_FIELDS insn32_fields insn32_args) insn32_patterns_4"
  by code_simp

lemma insn32_patterns_5_ok: "list_all (pattern_check 32 names32 REG_FIELDS insn32_fields insn32_args) insn32_patterns_5"
  by code_simp

lemma insn32_patterns_6_ok: "list_all (pattern_check 32 names32 REG_FIELDS insn32_fields insn32_args) insn32_patterns_6"
  by code_simp

lemma insn32_patterns_7_ok: "list_all (pattern_check 32 names32 REG_FIELDS insn32_fields insn32_args) insn32_patterns_7"
  by code_simp

lemma insn32_patterns_8_ok: "list_all (pattern_check 32 names32 REG_FIELDS insn32_fields insn32_args) insn32_patterns_8"
  by code_simp

lemma insn32_patterns_9_ok: "list_all (pattern_check 32 names32 REG_FIELDS insn32_fields insn32_args) insn32_patterns_9"
  by code_simp

lemma insn32_patterns_10_ok: "list_all (pattern_check 32 names32 REG_FIELDS insn32_fields insn32_args) insn32_patterns_10"
  by code_simp

lemma insn32_patterns_11_ok: "list_all (pattern_check 32 names32 REG_FIELDS insn32_fields insn32_args) insn32_patterns_11"
  by code_simp

lemma insn32_patterns_12_ok: "list_all (pattern_check 32 names32 REG_FIELDS insn32_fields insn32_args) insn32_patterns_12"
  by code_simp

lemma insn32_patterns_13_ok: "list_all (pattern_check 32 names32 REG_FIELDS insn32_fields insn32_args) insn32_patterns_13"
  by code_simp

lemma insn32_patterns_14_ok: "list_all (pattern_check 32 names32 REG_FIELDS insn32_fields insn32_args) insn32_patterns_14"
  by code_simp

lemma insn32_patterns_15_ok: "list_all (pattern_check 32 names32 REG_FIELDS insn32_fields insn32_args) insn32_patterns_15"
  by code_simp

lemma insn32_check: "table_check 32 names32 REG_FIELDS insn32_table"
  unfolding table_check_def insn32_table_def using insn32_patterns_3_ok insn32_patterns_4_ok insn32_patterns_5_ok insn32_patterns_6_ok insn32_patterns_7_ok insn32_patterns_8_ok insn32_patterns_9_ok insn32_patterns_10_ok insn32_patterns_11_ok insn32_patterns_12_ok insn32_patterns_13_ok insn32_patterns_14_ok insn32_patterns_15_ok by simp

lemma insn16_parse_0:
  "parse_lines 16 insn16_raw_0
     \<lparr>st_fields = [], st_argsets = [], st_formats = [], st_patterns = [], st_auto = []\<rparr> =
   Inr \<lparr>st_fields = insn16_fields, st_argsets = [], st_formats = [], st_patterns = [], st_auto = []\<rparr>"
  by code_simp

lemma insn16_parse_1:
  "parse_lines 16 insn16_raw_1
     \<lparr>st_fields = insn16_fields, st_argsets = [], st_formats = [], st_patterns = [], st_auto = []\<rparr> =
   Inr \<lparr>st_fields = insn16_fields, st_argsets = insn16_argsets, st_formats = [], st_patterns = [], st_auto = []\<rparr>"
  by code_simp

lemma insn16_parse_2:
  "parse_lines 16 insn16_lines_2
     \<lparr>st_fields = insn16_fields, st_argsets = insn16_argsets, st_formats = [], st_patterns = [], st_auto = []\<rparr> =
   Inr \<lparr>st_fields = insn16_fields, st_argsets = insn16_argsets, st_formats = insn16_formats, st_patterns = [], st_auto = []\<rparr>"
  by code_simp

lemma insn16_parse_3:
  "parse_lines 16 insn16_raw_3
     \<lparr>st_fields = insn16_fields, st_argsets = insn16_argsets, st_formats = insn16_formats, st_patterns = [], st_auto = []\<rparr> =
   Inr \<lparr>st_fields = insn16_fields, st_argsets = insn16_argsets, st_formats = insn16_formats, st_patterns = insn16_patterns_3, st_auto = []\<rparr>"
  by code_simp

lemma insn16_parse_4:
  "parse_lines 16 insn16_raw_4
     \<lparr>st_fields = insn16_fields, st_argsets = insn16_argsets, st_formats = insn16_formats, st_patterns = [], st_auto = []\<rparr> =
   Inr \<lparr>st_fields = insn16_fields, st_argsets = insn16_argsets, st_formats = insn16_formats, st_patterns = insn16_patterns_4, st_auto = []\<rparr>"
  by code_simp

lemma insn16_parse_5:
  "parse_lines 16 insn16_raw_5
     \<lparr>st_fields = insn16_fields, st_argsets = insn16_argsets, st_formats = insn16_formats, st_patterns = [], st_auto = []\<rparr> =
   Inr \<lparr>st_fields = insn16_fields, st_argsets = insn16_argsets, st_formats = insn16_formats, st_patterns = insn16_patterns_5, st_auto = []\<rparr>"
  by code_simp

lemma insn16_parse_6:
  "parse_lines 16 insn16_raw_6
     \<lparr>st_fields = insn16_fields, st_argsets = insn16_argsets, st_formats = insn16_formats, st_patterns = [], st_auto = []\<rparr> =
   Inr \<lparr>st_fields = insn16_fields, st_argsets = insn16_argsets, st_formats = insn16_formats, st_patterns = insn16_patterns_6, st_auto = []\<rparr>"
  by code_simp

lemma insn16_piece_0: "piece insn16_raw_0 insn16_raw_0"
  by code_simp

lemma insn16_piece_1: "piece insn16_raw_1 insn16_raw_1"
  by code_simp

lemma insn16_piece_2: "piece insn16_raw_2 insn16_lines_2"
  by code_simp

lemma insn16_piece_3: "piece insn16_raw_3 insn16_raw_3"
  by code_simp

lemma insn16_piece_4: "piece insn16_raw_4 insn16_raw_4"
  by code_simp

lemma insn16_piece_5: "piece insn16_raw_5 insn16_raw_5"
  by code_simp

lemma insn16_piece_6: "piece insn16_raw_6 insn16_raw_6"
  by code_simp

lemma insn16_edges: "insn16_raw_0 \<noteq> [] \<and> hd insn16_raw_0 \<noteq> [] \<and> \<not> continued (hd insn16_raw_0) \<and> insn16_raw_6 \<noteq> [] \<and> last insn16_raw_6 \<noteq> []"
  by code_simp

lemma insn16_logical: "list_all plain insn16_file \<and> logical insn16_file = insn16_raw_0 @ insn16_raw_1 @ insn16_lines_2 @ insn16_raw_3 @ insn16_raw_4 @ insn16_raw_5 @ insn16_raw_6"
  unfolding insn16_file_def using insn16_piece_0 insn16_piece_1 insn16_piece_2 insn16_piece_3 insn16_piece_4 insn16_piece_5 insn16_piece_6 by (simp add: piece_def logical_append)

lemma insn16_lines: "parse_lines 16 (insn16_raw_0 @ insn16_raw_1 @ insn16_lines_2 @ insn16_raw_3 @ insn16_raw_4 @ insn16_raw_5 @ insn16_raw_6)
     \<lparr>st_fields = [], st_argsets = [], st_formats = [], st_patterns = [], st_auto = []\<rparr> =
   Inr \<lparr>st_fields = insn16_fields, st_argsets = insn16_argsets, st_formats = insn16_formats, st_patterns = insn16_patterns_3 @ insn16_patterns_4 @ insn16_patterns_5 @ insn16_patterns_6, st_auto = []\<rparr>"
  by (simp add: parse_lines_more [OF insn16_parse_0]
    parse_lines_more [OF insn16_parse_1]
    parse_lines_more [OF insn16_parse_2]
    parse_lines_more [OF insn16_parse_3]
    parse_lines_more [OF insn16_parse_4]
    parse_lines_more [OF insn16_parse_5]
    parse_lines_more [OF insn16_parse_6, where ys = "[]", simplified])

text \<open>
  The parser of the decoder generator reads \<open>insn16.decode\<close> as intended. From the text of the file,
  with its comments, brace groups and continued lines, \<open>parse_with_width\<close> produces without error exactly
  \<open>insn16_table\<close>: its fields with their segments and transformations, its argument sets and its 44
  patterns in file order, each with fixed bits, mask, argument set and field mapping.
\<close>

lemma insn16_parsed: "parse_with_width (file_text insn16_file) 16 = Inr insn16_table"
proof -
  have "insn16_file \<noteq> []" "hd insn16_file = hd insn16_raw_0" "last (logical insn16_file) = last insn16_raw_6"
    using insn16_edges insn16_logical by (simp_all add: insn16_file_def)
  then show ?thesis
    using parse_file [of insn16_file 16] insn16_logical insn16_edges insn16_lines by (simp add: insn16_table_def)
qed

lemma insn16_args_eq: "bt_extend insn16_argsets [] = insn16_args"
  by code_simp

lemma insn16_patterns_3_ok: "list_all (pattern_check 16 names16 REG_FIELDS insn16_fields insn16_args) insn16_patterns_3"
  by code_simp

lemma insn16_patterns_4_ok: "list_all (pattern_check 16 names16 REG_FIELDS insn16_fields insn16_args) insn16_patterns_4"
  by code_simp

lemma insn16_patterns_5_ok: "list_all (pattern_check 16 names16 REG_FIELDS insn16_fields insn16_args) insn16_patterns_5"
  by code_simp

lemma insn16_patterns_6_ok: "list_all (pattern_check 16 names16 REG_FIELDS insn16_fields insn16_args) insn16_patterns_6"
  by code_simp

lemma insn16_check: "table_check 16 names16 REG_FIELDS insn16_table"
  unfolding table_check_def insn16_table_def using insn16_patterns_3_ok insn16_patterns_4_ok insn16_patterns_5_ok insn16_patterns_6_ok by (simp add: insn16_args_eq)

end
