(* ===== verification/Sites.thy ===== *)
theory Sites
  imports Pipeline
begin

text \<open>
  The jump sites of a block. During code generation the backend records, for every \<open>goto_tb\<close>, the
  offset of the jump and of the instruction after it. The sites lie in the block's own code, follow
  one another, are never touched by the patching of labels, and at the end of the translation each
  jump still falls through to its reset address.
\<close>

lemma patches_apart:
  assumes "patches off us b = Some b'" "cb_inv b" "\<forall>u \<in> set us. fields_apart (u_offset u) y"
  shows "read_u32 b' y = read_u32 b y"
proof -
  have "\<not> fields_apart y y" by (simp add: fields_apart_def)
  then have y: "y \<notin> u_offset ` set us" using assms(3) by (metis image_iff)
  have "\<forall>x. (\<forall>u \<in> set us. u_offset u = x \<or> fields_apart (u_offset u) x) \<longrightarrow>
       read_u32 b' x = (if x \<in> u_offset ` set us then Some (disp32 off x) else read_u32 b x)"
    using patches_all [OF assms(1,2)] by blast
  from spec [OF this, of y] assms(3) y show ?thesis by simp
qed

definition sites_ok :: "CodeBuffer \<Rightarrow> Op list \<Rightarrow> RA \<Rightarrow> bool" where
  "sites_ok b0 os s \<longleftrightarrow> code_ok b0 os s \<and> sorted_wrt (\<lambda>(j, r) (k, q). r \<le> k) (goto_tb_info (ra_gen s)) \<and>
     (\<forall>(j, r) \<in> set (goto_tb_info (ra_gen s)). cb_offset b0 \<le> j \<and> r = j + 5 \<and> r \<le> cb_offset (ra_buf s) \<and>
        read_u32 (ra_buf s) (j + 1) = Some 0 \<and>
        (\<forall>i < length (labels (ra_ctx s)). \<forall>x \<in> pending (ra_ctx s) i. fields_apart x (j + 1)))"

lemma sites_code: "sites_ok b0 os s \<Longrightarrow> code_ok b0 os s"
  by (simp add: sites_ok_def)

lemma sites_okD:
  assumes "sites_ok b0 os s" "(j, r) \<in> set (goto_tb_info (ra_gen s))"
  shows "cb_offset b0 \<le> j" "r = j + 5" "r \<le> cb_offset (ra_buf s)" "read_u32 (ra_buf s) (j + 1) = Some 0"
    "i < length (labels (ra_ctx s)) \<Longrightarrow> x \<in> pending (ra_ctx s) i \<Longrightarrow> fields_apart x (j + 1)"
  using assms by (auto simp: sites_ok_def)

text \<open>A step that keeps the recorded sites: the code grows and every pending field stays apart.\<close>

lemma sites_step:
  assumes s: "sites_ok b0 os s" and c: "code_ok b0 os s'" and g: "goto_tb_info (ra_gen s') = goto_tb_info (ra_gen s)"
    and off: "cb_offset (ra_buf s) \<le> cb_offset (ra_buf s')"
    and rd: "\<And>j r. (j, r) \<in> set (goto_tb_info (ra_gen s)) \<Longrightarrow> read_u32 (ra_buf s') (j + 1) = read_u32 (ra_buf s) (j + 1)"
    and ap: "\<And>j r i x. (j, r) \<in> set (goto_tb_info (ra_gen s)) \<Longrightarrow> i < length (labels (ra_ctx s')) \<Longrightarrow> x \<in> pending (ra_ctx s') i \<Longrightarrow>
      fields_apart x (j + 1)"
  shows "sites_ok b0 os s'"
  using s c off rd ap unfolding sites_ok_def g by fastforce

lemma sites_grow:
  assumes s: "sites_ok b0 os s" and same: "ops (ra_ctx s') = ops (ra_ctx s)" "labels (ra_ctx s') = labels (ra_ctx s)"
    and e: "extends (ra_buf s) (ra_buf s')" and g: "ra_gen s' = ra_gen s"
  shows "sites_ok b0 os s'"
proof -
  note inv = code_okD(4) [OF sites_code [OF s]]
  have p: "pending (ra_ctx s') = pending (ra_ctx s)" using same(2) by (simp add: fun_eq_iff pending_def)
  show ?thesis
  proof (rule sites_step [OF s code_ok_grow [OF sites_code [OF s] same e]])
    fix j r assume j: "(j, r) \<in> set (goto_tb_info (ra_gen s))"
    show "read_u32 (ra_buf s') (j + 1) = read_u32 (ra_buf s) (j + 1)"
      by (rule extends_read [OF e inv]) (use sites_okD(2,3) [OF s j] in simp)
    fix i x assume "i < length (labels (ra_ctx s'))" "x \<in> pending (ra_ctx s') i"
    then show "fields_apart x (j + 1)" using sites_okD(5) [OF s j] p same(2) by simp
  qed (use g extends_offset [OF e inv] in simp_all)
qed

lemma sites_link:
  assumes s: "sites_ok b0 os s" and i: "i < length (labels (ra_ctx s))"
    and e: "extends (ra_buf s) (ra_buf s')" and x: "cb_offset (ra_buf s) \<le> x" "x + 4 \<le> cb_offset (ra_buf s')"
    and c: "ra_ctx s' = (ra_ctx s)\<lparr>labels := (labels (ra_ctx s))[i := add_use (labels (ra_ctx s) ! i) x Rel32]\<rparr>"
    and g: "ra_gen s' = ra_gen s"
  shows "sites_ok b0 os s'"
proof -
  note inv = code_okD(4) [OF sites_code [OF s]]
  have p: "pending (ra_ctx s') j = (if j = i then insert x (pending (ra_ctx s) i) else pending (ra_ctx s) j)" for j
    using i by (simp add: c pending_update) (simp add: pending_def)
  have len: "length (labels (ra_ctx s')) = length (labels (ra_ctx s))" by (simp add: c)
  show ?thesis
  proof (rule sites_step [OF s code_ok_link [OF sites_code [OF s] i e x c]])
    fix j r assume j: "(j, r) \<in> set (goto_tb_info (ra_gen s))"
    show "read_u32 (ra_buf s') (j + 1) = read_u32 (ra_buf s) (j + 1)"
      by (rule extends_read [OF e inv]) (use sites_okD(2,3) [OF s j] in simp)
    fix k y assume "k < length (labels (ra_ctx s'))" "y \<in> pending (ra_ctx s') k"
    then show "fields_apart y (j + 1)"
      using sites_okD [OF s j] x(1) i by (auto simp: p len fields_apart_def split: if_splits)
  qed (use g extends_offset [OF e inv] in simp_all)
qed

lemma sites_place:
  assumes s: "sites_ok b0 os s" and i: "i < length (labels (ra_ctx s))"
    and b: "patches off (l_uses (labels (ra_ctx s) ! i)) (ra_buf s) = Some b"
    and s': "s' = s\<lparr>ra_ctx := (ra_ctx s)\<lparr>labels := (labels (ra_ctx s))
        [i := (set_value (labels (ra_ctx s) ! i) off)\<lparr>l_uses := []\<rparr>]\<rparr>, ra_buf := b\<rparr>"
  shows "sites_ok b0 os s'"
proof -
  note inv = code_okD(4) [OF sites_code [OF s]]
  note pa = patches_all [OF b inv]
  have us: "u_offset ` set (l_uses (labels (ra_ctx s) ! i)) = pending (ra_ctx s) i" by (simp add: pending_def)
  have p: "pending (ra_ctx s') k = (if k = i then {} else pending (ra_ctx s) k)" for k
    using i by (auto simp: s' pending_update)
  have f: "length (labels (ra_ctx s')) = length (labels (ra_ctx s))" "ra_buf s' = b" "cb_offset b = cb_offset (ra_buf s)" "ra_gen s' = ra_gen s"
    using pa by (simp_all add: s')
  show ?thesis
  proof (rule sites_step [OF s code_ok_place [OF sites_code [OF s] i b s']])
    fix j r assume j: "(j, r) \<in> set (goto_tb_info (ra_gen s))"
    have "\<forall>u \<in> set (l_uses (labels (ra_ctx s) ! i)). fields_apart (u_offset u) (j + 1)"
      using sites_okD(5) [OF s j i] unfolding us [symmetric] by blast
    then show "read_u32 (ra_buf s') (j + 1) = read_u32 (ra_buf s) (j + 1)"
      unfolding f(2) by (rule patches_apart [OF b inv])
    fix k y assume "k < length (labels (ra_ctx s'))" "y \<in> pending (ra_ctx s') k"
    then show "fields_apart y (j + 1)" using sites_okD(5) [OF s j] by (auto simp: p f split: if_splits)
  qed (use f in simp_all)
qed

lemma sites_jump:
  assumes s: "sites_ok b0 os s" and run: "emit_goto_tb (ra_buf s) = Some (j, r, b)"
  shows "sites_ok b0 os (s\<lparr>ra_gen := (ra_gen s)\<lparr>goto_tb_info := goto_tb_info (ra_gen s) @ [(j, r)]\<rparr>, ra_buf := b\<rparr>)"
proof -
  let ?s' = "s\<lparr>ra_gen := (ra_gen s)\<lparr>goto_tb_info := goto_tb_info (ra_gen s) @ [(j, r)]\<rparr>, ra_buf := b\<rparr>"
  note code = sites_code [OF s]
  note inv = code_okD(4) [OF code]
  note e = goto_tb_extends [OF inv run]
  note g = emit_goto_tb_ok [OF run]
  have rj: "r = j + 5" using g(3) by (simp add: JUMP_LEN_def)
  obtain w where w: "read_u32 b (j + 1) = Some w" "int j + 5 + sint w = int r"
    using g(7) by (auto simp: jump_target_def)
  then have zero: "read_u32 b (j + 1) = Some 0" using rj by (simp add: signed_eq_0_iff)
  have old: "read_u32 b (k + 1) = Some 0 \<and> cb_offset b0 \<le> k \<and> q = k + 5 \<and> q \<le> cb_offset (ra_buf s)"
    if "(k, q) \<in> set (goto_tb_info (ra_gen s))" for k q
    using extends_read [OF e inv, of "k + 1"] sites_okD [OF s that] by simp
  have off: "cb_offset (ra_buf s) \<le> j" "cb_offset b0 \<le> j" "cb_offset b = r"
    using g(2,4) extends_offset [OF code_okD(2,1) [OF code]] by simp_all
  have ap: "fields_apart x (j + 1)" if "i < length (labels (ra_ctx s))" "x \<in> pending (ra_ctx s) i" for i x
    using code_okD(5) [OF code that] off by (simp add: fields_apart_def)
  have "sorted_wrt (\<lambda>(j, r) (k, q). r \<le> k) (goto_tb_info (ra_gen s) @ [(j, r)])"
    unfolding sorted_wrt_append
  proof (intro conjI ballI)
    show "sorted_wrt (\<lambda>(j, r) (k, q). r \<le> k) (goto_tb_info (ra_gen s))" using s by (simp add: sites_ok_def)
    show "(case x of (j, r) \<Rightarrow> \<lambda>(k, q). r \<le> k) y" if "x \<in> set (goto_tb_info (ra_gen s))" "y \<in> set [(j, r)]" for x y
      using old [of "fst x" "snd x"] that off by (cases x) auto
  qed simp
  moreover have "cb_offset b0 \<le> k \<and> q = k + 5 \<and> q \<le> cb_offset b \<and> read_u32 b (k + 1) = Some 0 \<and>
      (\<forall>i < length (labels (ra_ctx s)). \<forall>x \<in> pending (ra_ctx s) i. fields_apart x (k + 1))"
    if "(k, q) \<in> set (goto_tb_info (ra_gen s) @ [(j, r)])" for k q
  proof (cases "(k, q) = (j, r)")
    case True
    then show ?thesis using zero off rj ap by simp
  next
    case False
    then have k: "(k, q) \<in> set (goto_tb_info (ra_gen s))" using that by auto
    show ?thesis using old [OF k] sites_okD(5) [OF s k] off rj by simp
  qed
  ultimately show ?thesis using code_ok_jump [OF code run] unfolding sites_ok_def by auto
qed

interpretation sites: code_inv "sites_ok b0 os" os "\<lambda>_. True" for b0 os
  by unfold_locales (auto dest: sites_code code_okD(3,4) intro: sites_grow sites_jump sites_link sites_place)

text \<open>What the execution loop relies on when it records the sites of a new block.\<close>

lemma translate_sites:
  assumes "cb_inv b" "\<forall>l \<in> set (labels c). l_uses l = []" "goto_tb_info g = []" "translate c g b = Some (start, c', g', b')"
    and "(j, r) \<in> set (goto_tb_info g')"
  shows "start \<le> j" "r = j + 5" "r \<le> cb_offset b'" "jump_target b' j = Some (int r)"
    "sorted_wrt (\<lambda>(j, r) (k, q). r \<le> k) (goto_tb_info g')"
proof -
  obtain c1 c2 s where t: "optimize c = Some c1" "liveness_analysis c1 = Some c2" "regalloc_and_codegen c2 g b = Some s"
    "start = cb_offset b" "b' = ra_buf s" "g' = ra_gen s"
    using assms(4) by (auto simp: translate_def bind_eq_Some_conv)
  have "labels c2 = labels c" using optimize_labels [OF t(1)] liveness_labels [OF t(2)] by simp
  moreover obtain s0 where s0: "ra_start c2 g b = Some s0" "each op_step [0..<length (ops c2)] s0 = Some s"
    using t(3) by (auto simp: regalloc_and_codegen_def bind_eq_Some_conv)
  ultimately have "code_ok b (ops c2) s0" using start_code_ok [OF s0(1) assms(1)] assms(2) by simp
  then have "sites_ok b (ops c2) s0" using start_facts(3) [OF s0(1)] assms(3) by (simp add: sites_ok_def)
  then have s: "sites_ok b (ops c2) s" by (rule sites.pass_kept [OF _ s0(2)]) simp
  note d = sites_okD [OF s assms(5) [unfolded t(6)]]
  show "start \<le> j" "r = j + 5" "r \<le> cb_offset b'" using d t by simp_all
  show "jump_target b' j = Some (int r)" using d t(5) by (simp add: jump_target_def)
  show "sorted_wrt (\<lambda>(j, r) (k, q). r \<le> k) (goto_tb_info g')" using s t(6) by (simp add: sites_ok_def)
qed

end
