(* ===== verification/ExecLoop_Inv.thy ===== *)
theory ExecLoop_Inv
  imports ExecLoop Chaining Sites
begin

text \<open>
  The invariant of the execution loop: the hash table is well-formed, the recorded edges agree with
  the jumps in the code buffer, every jump site lies in the generated code, and the per-CPU cache
  and the exit targets name existing blocks. Every operation of the loop keeps it.
\<close>

section \<open>Chaining two blocks\<close>

definition link_blocks :: "nat \<Rightarrow> nat \<Rightarrow> nat \<Rightarrow> TbStore \<Rightarrow> TbStore" where
  "link_blocks src slot dst st =
     (let tbs = (ts_tbs st)[src := set_jmp_dest slot (Some dst) (ts_tbs st ! src)]
      in st\<lparr>ts_tbs := tbs[dst := set_jmp_list (jmp_list (jmp (tbs ! dst)) @ [(src, slot)]) (tbs ! dst)]\<rparr>)"

lemma link_blocks_nth:
  assumes "src < length (ts_tbs st)" "dst < length (ts_tbs st)" "k < length (ts_tbs st)"
  shows "jmp_dest (jmp (ts_tbs (link_blocks src slot dst st) ! k)) =
      (if k = src then (jmp_dest (jmp (ts_tbs st ! k)))[slot := Some dst] else jmp_dest (jmp (ts_tbs st ! k)))"
    "incoming (link_blocks src slot dst st) k = incoming st k @ (if k = dst then [(src, slot)] else [])"
    "invalid (ts_tbs (link_blocks src slot dst st) ! k) = invalid (ts_tbs st ! k)"
    "host_offset (ts_tbs (link_blocks src slot dst st) ! k) = host_offset (ts_tbs st ! k)"
    "jmp_insn_offset (ts_tbs (link_blocks src slot dst st) ! k) = jmp_insn_offset (ts_tbs st ! k)"
    "jmp_reset_offset (ts_tbs (link_blocks src slot dst st) ! k) = jmp_reset_offset (ts_tbs st ! k)"
    "exit_target (ts_tbs (link_blocks src slot dst st) ! k) = exit_target (ts_tbs st ! k)"
    "tb_pc (ts_tbs (link_blocks src slot dst st) ! k) = tb_pc (ts_tbs st ! k)"
    "tb_flags (ts_tbs (link_blocks src slot dst st) ! k) = tb_flags (ts_tbs st ! k)"
    "hash_next (ts_tbs (link_blocks src slot dst st) ! k) = hash_next (ts_tbs st ! k)"
  using assms by (auto simp: link_blocks_def Let_def nth_list_update set_jmp_dest_def set_jmp_list_def)

lemma length_link [simp]: "length (ts_tbs (link_blocks src slot dst st)) = length (ts_tbs st)"
  by (simp add: link_blocks_def Let_def)

lemma link_same_keys:
  assumes "src < length (ts_tbs st)" "dst < length (ts_tbs st)"
  shows "same_keys st (link_blocks src slot dst st)"
  using assms by (simp add: same_keys_def link_blocks_nth) (simp add: link_blocks_def Let_def)

lemma link_links:
  assumes ok: "chain_inv jump_target st b" and i: "src < length (ts_tbs st)" "slot < 2" "dst < length (ts_tbs st)"
    and v: "\<not> invalid (ts_tbs st ! dst)" and off: "insn_at st src slot = Some off"
  obtains b' where "patch_jump b (unat off) (host_offset (ts_tbs st ! dst)) = Some b'"
    "chain_inv jump_target (link_blocks src slot dst st) b'" "cb_offset b' = cb_offset b" "capacity b' = capacity b"
    "jump_target b' (unat off) = Some (int (host_offset (ts_tbs st ! dst)))"
proof -
  let ?st = "link_blocks src slot dst st"
  have lay: "layout_ok st b" using ok by (simp add: links_ok_def)
  then have bl: "block_layout st b s" if "s < length (ts_tbs st)" for s using that by (simp add: layout_ok_def)
  have cap: "capacity b < 2 ^ 31" "unat off + JUMP_LEN \<le> capacity b" "host_offset (ts_tbs st ! dst) \<le> capacity b"
    "length (jmp_dest (jmp (ts_tbs st ! src))) = 2"
    using lay bl [OF i(1)] bl [OF i(3)] i(2) off unfolding layout_ok_def block_layout_def Let_def by blast+
  obtain b' where p: "patch_jump b (unat off) (host_offset (ts_tbs st ! dst)) = Some b'"
    "jump_target b' (unat off) = Some (int (host_offset (ts_tbs st ! dst)))"
    "\<And>k. apart (unat off) k \<Longrightarrow> jump_target b' k = jump_target b k" "capacity b' = capacity b" "cb_offset b' = cb_offset b"
    using x86.patch_defined [OF cap(2,3,1)] by metis
  note n = link_blocks_nth [OF i(1,3)]
  have sl: "same_layout st ?st" using i cap(4) by (auto simp: same_layout_def n)
  have "layout_ok ?st b'"
  proof (rule layout_ok_mono [OF lay sl p(4)])
    fix s k d assume "s < length (ts_tbs st)" "k < 2" "dest ?st s k = Some d"
    then show "dest st s k = Some d \<or> d < length (ts_tbs st)"
      using i(3) cap(4) by (cases "s = src \<and> k = slot") (auto simp: n split: if_splits)
  next
    fix s e assume "s < length (ts_tbs st)" "e \<in> set (incoming ?st s)"
    then show "e \<in> set (incoming st s) \<or> fst e < length (ts_tbs st) \<and> snd e < 2"
      using i by (auto simp: n split: if_splits)
  qed
  moreover have "slot_ok None jump_target ?st b' s k" if s: "s < length (ts_tbs st)" "k < 2" "\<not> invalid (ts_tbs ?st ! s)" for s k
  proof (cases "s = src \<and> k = slot")
    case True
    then show ?thesis using i v off p(2) cap(4) by (simp add: slot_ok_def n)
  next
    case False
    have old: "slot_ok None jump_target st b s k" using ok s by (simp add: links_ok_def n)
    have d: "dest ?st s k = dest st s k" using False s by (auto simp: n)
    have same: "jump_target b' (unat j) = jump_target b (unat j)" if "insn_at st s k = Some j" for j
      using lay i s that off False p(3) unfolding layout_ok_def sites_apart_def by blast
    have dl: "e < length (ts_tbs st)" if "dest st s k = Some e" for e
      using bl [OF s(1)] s(2) that by (auto simp: block_layout_def Let_def)
    show ?thesis using old same dl s unfolding slot_ok_def d by (auto simp: n split: option.splits)
  qed
  ultimately have "chain_inv jump_target ?st b'" by (simp add: links_ok_def)
  then show thesis using that p by blast
qed

section \<open>Adding a block\<close>

definition sites_emitted :: "TbStore \<Rightarrow> CodeBuffer \<Rightarrow> bool" where
  "sites_emitted st b \<longleftrightarrow>
     (\<forall>s < length (ts_tbs st). \<forall>n < 2. \<forall>j. insn_at st s n = Some j \<longrightarrow> unat j + JUMP_LEN \<le> cb_offset b)"

definition site_ok :: "CodeBuffer \<Rightarrow> CodeBuffer \<Rightarrow> u32 option \<Rightarrow> u32 option \<Rightarrow> bool" where
  "site_ok b b' jo ro \<longleftrightarrow> (jo = None \<longleftrightarrow> ro = None) \<and>
     (\<forall>j r. jo = Some j \<longrightarrow> ro = Some r \<longrightarrow> cb_offset b \<le> unat j \<and> unat j + JUMP_LEN \<le> cb_offset b' \<and>
        unat r \<le> capacity b' \<and> jump_target b' (unat j) = Some (int (unat r)))"

definition block_new :: "CodeBuffer \<Rightarrow> CodeBuffer \<Rightarrow> TranslationBlock \<Rightarrow> bool" where
  "block_new b b' tb \<longleftrightarrow> jmp tb = TbJmpState_new \<and> \<not> invalid tb \<and> exit_target tb = EXIT_TARGET_NONE \<and>
     length (jmp_insn_offset tb) = 2 \<and> length (jmp_reset_offset tb) = 2 \<and> host_offset tb \<le> capacity b' \<and>
     (\<forall>n < 2. site_ok b b' (jmp_insn_offset tb ! n) (jmp_reset_offset tb ! n)) \<and>
     (\<forall>j k. jmp_insn_offset tb ! 0 = Some j \<longrightarrow> jmp_insn_offset tb ! 1 = Some k \<longrightarrow> apart (unat j) (unat k))"

lemma jump_kept:
  assumes "extends b b'" "cb_inv b" "j + JUMP_LEN \<le> cb_offset b"
  shows "jump_target b' j = jump_target b j"
  using extends_read [OF assms(1,2), of "j + 1"] assms(3) by (simp add: jump_target_def JUMP_LEN_def)

lemma add_block_links:
  assumes ok: "chain_inv jump_target st b" and em: "sites_emitted st b" and inv: "cb_inv b" and e: "extends b b'"
    and len: "length (ts_tbs st') = Suc (length (ts_tbs st))"
    and old: "\<And>k. k < length (ts_tbs st) \<Longrightarrow> strip (ts_tbs st' ! k) = strip (ts_tbs st ! k)"
    and new: "block_new b b' (ts_tbs st' ! length (ts_tbs st))"
  shows "chain_inv jump_target st' b' \<and> sites_emitted st' b'"
proof -
  let ?m = "length (ts_tbs st)"
  have cap: "capacity b' = capacity b" "capacity b < 2 ^ 31" "cb_offset b \<le> cb_offset b'" "cb_offset b' \<le> capacity b"
    using e ok extends_offset [OF e inv] by (auto simp: extends_def links_ok_def layout_ok_def cb_inv_def)
  note o = strip_eqD [OF old]
  have bl: "block_layout st b s" if "s < ?m" for s using ok that by (simp add: links_ok_def layout_ok_def)
  have em': "unat j + JUMP_LEN \<le> cb_offset b" if "s < ?m" "n < 2" "insn_at st s n = Some j" for s n j
    using em that by (auto simp: sites_emitted_def)
  have nw: "insn_at st' ?m n = Some j \<Longrightarrow> n < 2 \<Longrightarrow> cb_offset b \<le> unat j \<and> unat j + JUMP_LEN \<le> cb_offset b'" for n j
    using new unfolding block_new_def site_ok_def by (metis option.exhaust)
  have layout: "block_layout st' b' s" if "s < Suc ?m" for s
  proof (cases "s = ?m")
    case True
    have "unat j + JUMP_LEN \<le> capacity b" if "insn_at st' ?m n = Some j" "n < 2" for n j using nw [OF that] cap by simp
    from this [of 0] this [of "Suc 0"] show ?thesis using True new cap len
      by (auto simp: block_layout_def block_new_def site_ok_def TbJmpState_new_def Let_def less_2_cases_iff)
  next
    case False
    then have s: "s < ?m" using that by simp
    show ?thesis
      using bl [OF s] unfolding block_layout_def Let_def o [OF s] cap(1) len by (auto dest: less_SucI)
  qed
  have "sites_apart st'"
    unfolding sites_apart_def len
  proof (intro allI impI)
    fix s t n m j k
    assume a: "s < Suc ?m" "t < Suc ?m" "n < 2" "m < 2" "(s, n) \<noteq> (t, m)" "insn_at st' s n = Some j" "insn_at st' t m = Some k"
    consider "s < ?m" "t < ?m" | "s < ?m" "t = ?m" | "s = ?m" "t < ?m" | "s = ?m" "t = ?m" using a(1,2) by linarith
    then show "apart (unat j) (unat k)"
    proof cases
      case 1
      then show ?thesis using ok a unfolding links_ok_def layout_ok_def sites_apart_def by (simp add: o)
    next
      case 2
      then show ?thesis using em' [of s n j] nw [of m k] a by (simp add: o apart_def)
    next
      case 3
      then show ?thesis using em' [of t m k] nw [of n j] a by (simp add: o apart_def)
    next
      case 4
      then have "n \<noteq> m" using a(5) by simp
      then show ?thesis using a 4 new by (auto simp: block_new_def less_2_cases_iff apart_sym)
    qed
  qed
  then have lay: "layout_ok st' b'" using layout cap len by (simp add: layout_ok_def)
  have slot: "slot_ok None jump_target st' b' s n" if s: "s < Suc ?m" "n < 2" "\<not> invalid (ts_tbs st' ! s)" for s n
  proof (cases "s = ?m")
    case True
    then show ?thesis using new s by (auto simp: slot_ok_def block_new_def site_ok_def TbJmpState_new_def less_2_cases_iff)
  next
    case False
    then have m: "s < ?m" using s by simp
    have "slot_ok None jump_target st b s n" using ok m s by (simp add: links_ok_def o)
    moreover have "jump_target b' (unat j) = jump_target b (unat j)" if "insn_at st s n = Some j" for j
      by (rule jump_kept [OF e inv em' [OF m s(2) that]])
    moreover have "d < ?m" if "dest st s n = Some d" for d using bl [OF m] s(2) that by (auto simp: block_layout_def Let_def)
    ultimately show ?thesis unfolding slot_ok_def o [OF m] by (auto simp: o split: option.splits)
  qed
  have "sites_emitted st' b'"
    unfolding sites_emitted_def len
  proof (intro allI impI)
    fix s n j assume a: "s < Suc ?m" "n < 2" "insn_at st' s n = Some j"
    show "unat j + JUMP_LEN \<le> cb_offset b'"
      using nw [of n j] em' [of s n j] a cap(3) by (cases "s = ?m") (auto simp: o less_Suc_eq)
  qed
  with lay slot len show ?thesis by (simp add: links_ok_def)
qed

text \<open>Recording the sites of a fresh translation.\<close>

lemma set_offsets_two:
  assumes "jmp_insn_offset tb = [None, None]" "jmp_reset_offset tb = [None, None]"
  shows "set_jmp_offsets 0 (take 2 xs) tb = Some (case xs of
      [] \<Rightarrow> tb
    | [(j, r)] \<Rightarrow> tb\<lparr>jmp_insn_offset := [Some (of_nat j), None], jmp_reset_offset := [Some (of_nat r), None]\<rparr>
    | (j, r) # (k, q) # _ \<Rightarrow> tb\<lparr>jmp_insn_offset := [Some (of_nat j), Some (of_nat k)], jmp_reset_offset := [Some (of_nat r), Some (of_nat q)]\<rparr>)"
  using assms by (auto simp: set_jmp_insn_offset_def set_jmp_reset_offset_def split: list.split)

lemma offsets_block_new:
  assumes tb: "jmp tb = TbJmpState_new" "\<not> invalid tb" "exit_target tb = EXIT_TARGET_NONE" "jmp_insn_offset tb = [None, None]"
      "jmp_reset_offset tb = [None, None]" "host_offset tb \<le> capacity b'"
    and cap: "capacity b' < 2 ^ 31" "cb_inv b'"
    and xs: "sorted_wrt (\<lambda>(j, r) (k, q). r \<le> k) xs"
      "\<And>j r. (j, r) \<in> set xs \<Longrightarrow> cb_offset b \<le> j \<and> r = j + 5 \<and> r \<le> cb_offset b' \<and> jump_target b' j = Some (int r)"
  shows "\<exists>tb'. set_jmp_offsets 0 (take 2 xs) tb = Some tb' \<and> block_new b b' tb' \<and> tb_pc tb' = tb_pc tb \<and> tb_flags tb' = tb_flags tb \<and>
    hash_next tb' = hash_next tb"
proof -
  have u: "unat (of_nat j :: u32) = j \<and> unat (of_nat r :: u32) = r" if "(j, r) \<in> set xs" for j r
  proof -
    have "j < 2 ^ 32" "r < 2 ^ 32" using xs(2) [OF that] cap by (simp_all add: cb_inv_def)
    then show ?thesis by (simp add: unsigned_of_nat take_bit_nat_eq_self)
  qed
  have ok: "site_ok b b' (Some x) (Some y)" if "cb_offset b \<le> unat x" "unat x + JUMP_LEN \<le> cb_offset b'" "unat y \<le> capacity b'"
    "jump_target b' (unat x) = Some (int (unat y))" for x y
    using that by (simp add: site_ok_def)
  have site: "site_ok b b' (Some (of_nat j)) (Some (of_nat r))" if "(j, r) \<in> set xs" for j r
    by (rule ok; unfold u [OF that, THEN conjunct1] u [OF that, THEN conjunct2])
      (use xs(2) [OF that] cap in \<open>simp_all add: JUMP_LEN_def cb_inv_def\<close>)
  have none: "site_ok b b' None None" by (simp add: site_ok_def)
  note base = tb none less_2_cases_iff
  consider "xs = []" | j r where "xs = [(j, r)]" | j r k q ys where "xs = (j, r) # (k, q) # ys"
    by (metis list.exhaust surj_pair)
  then show ?thesis
  proof cases
    case 1
    then show ?thesis unfolding set_offsets_two [OF tb(4,5)] by (simp add: block_new_def base)
  next
    case (2 j r)
    then show ?thesis using site [of j r] unfolding set_offsets_two [OF tb(4,5)] by (simp add: block_new_def base)
  next
    case (3 j r k q ys)
    have "apart (unat (of_nat j :: u32)) (unat (of_nat k :: u32))"
      using 3 u [of j r] u [of k q] xs(2) [of j r] xs(1) by (simp add: apart_def JUMP_LEN_def)
    then show ?thesis using 3 site [of j r] site [of k q] unfolding set_offsets_two [OF tb(4,5)] by (simp add: block_new_def base)
  qed
qed

section \<open>The invariant\<close>

definition cache_ok :: "nat \<Rightarrow> JumpCache \<Rightarrow> bool" where
  "cache_ok n c \<longleftrightarrow> length (jc_entries c) = TB_JMP_CACHE_SIZE \<and> (\<forall>i. Some i \<in> set (jc_entries c) \<longrightarrow> i < n)"

definition targets_ok :: "TbStore \<Rightarrow> bool" where
  "targets_ok st \<longleftrightarrow> (\<forall>k < length (ts_tbs st). exit_target (ts_tbs st ! k) = EXIT_TARGET_NONE \<or> exit_target (ts_tbs st ! k) < length (ts_tbs st))"

definition exec_inv :: "'cpu ExecEnv \<Rightarrow> bool" where
  "exec_inv e \<longleftrightarrow> cb_inv (code_buf (shared e)) \<and> chain_inv jump_target (tb_store (shared e)) (code_buf (shared e)) \<and>
     sites_emitted (tb_store (shared e)) (code_buf (shared e)) \<and> hash_inv (tb_store (shared e)) \<and>
     cache_ok (length (ts_tbs (tb_store (shared e)))) (jump_cache (per_cpu e)) \<and> targets_ok (tb_store (shared e))"

text \<open>The frontend makes labels but leaves their uses to the code generator.\<close>

definition frontend_ok :: "'cpu GuestCpu \<Rightarrow> bool" where
  "frontend_ok G \<longleftrightarrow> (\<forall>c pc n cp sz c' cp'. labels c = [] \<longrightarrow> gen_code G c pc n cp = Some (sz, c', cp') \<longrightarrow>
     (\<forall>l \<in> set (labels c'). l_uses l = []))"

lemma cache_ok_lookup: "cache_ok n c \<Longrightarrow> jc_lookup c pc = Some i \<Longrightarrow> i < n"
  unfolding cache_ok_def jc_lookup_def by (metis jc_index_bound nth_mem)

lemma cache_ok_insert: "cache_ok n c \<Longrightarrow> i < n \<Longrightarrow> cache_ok n (jc_insert pc i c)"
  unfolding cache_ok_def jc_insert_def by (auto dest: set_update_subset_insert [THEN subsetD])

lemma cache_ok_mono: "cache_ok n c \<Longrightarrow> n \<le> m \<Longrightarrow> cache_ok m c"
  unfolding cache_ok_def by (auto dest: less_le_trans)

lemma exec_inv_count [simp]: "exec_inv (count f e) = exec_inv e" "shared (count f e) = shared e" "cpu (count f e) = cpu e"
  "jump_cache (per_cpu (count f e)) = jump_cache (per_cpu e)"
  by (simp_all add: exec_inv_def count_def)

lemma exec_inv_cache: "exec_inv e \<Longrightarrow> i < length (ts_tbs (tb_store (shared e))) \<Longrightarrow> exec_inv (cache_block pc i e)"
  by (simp add: exec_inv_def cache_block_def cache_ok_insert)

lemma cache_block_simps [simp]: "shared (cache_block pc i e) = shared e" "cpu (cache_block pc i e) = cpu e"
  by (simp_all add: cache_block_def)

text \<open>Old blocks after a step: still there, with their key and their validity.\<close>

definition keeps_blocks :: "TbStore \<Rightarrow> TbStore \<Rightarrow> bool" where
  "keeps_blocks st st' \<longleftrightarrow> length (ts_tbs st) \<le> length (ts_tbs st') \<and>
     (\<forall>k < length (ts_tbs st). tb_pc (ts_tbs st' ! k) = tb_pc (ts_tbs st ! k) \<and> tb_flags (ts_tbs st' ! k) = tb_flags (ts_tbs st ! k) \<and>
        invalid (ts_tbs st' ! k) = invalid (ts_tbs st ! k) \<and> host_offset (ts_tbs st' ! k) = host_offset (ts_tbs st ! k))"

lemma keeps_refl [simp]: "keeps_blocks st st"
  by (simp add: keeps_blocks_def)

lemma keeps_trans: "keeps_blocks a b \<Longrightarrow> keeps_blocks b c \<Longrightarrow> keeps_blocks a c"
  by (auto simp: keeps_blocks_def)

lemma insert_strips:
  assumes "ts_insert i st = Some st'"
  shows "length (ts_tbs st') = length (ts_tbs st)" "strip (ts_tbs st' ! k) = strip (ts_tbs st ! k)"
  using assms by (auto simp: ts_insert_def ts_get_def ts_modify_def Let_def bind_eq_Some_conv split: if_splits)

text \<open>The three ways through \<open>tb_gen_code\<close>.\<close>

definition new_env :: "u64 \<Rightarrow> nat \<Rightarrow> TbStore \<Rightarrow> CodeBuffer \<Rightarrow> X86_64CodeGen \<Rightarrow> Context \<Rightarrow> 'cpu \<Rightarrow> 'cpu ExecEnv \<Rightarrow> 'cpu ExecEnv" where
  "new_env pc i st b g c cp e =
     cache_block pc i (e\<lparr>shared := (shared e)\<lparr>tb_store := st, code_buf := b, backend := g, ir_ctx := c\<rparr>, cpu := cp\<rparr>)"

lemma gen_code_cases:
  assumes run: "tb_gen_code G pc flags e = Some (r, e')"
  obtains (full) "remaining (code_buf (shared e)) < MIN_CODE_BUF_REMAINING" "r = None" "e' = e"
    | (hit) i where "ts_lookup (tb_store (shared e)) pc flags = Some (Some i)" "r = Some i" "e' = cache_block pc i e"
    | (new) n st1 sz c2 cp st2 off c3 g b st3 tb st4 st5 where
      "ts_lookup (tb_store (shared e)) pc flags = Some None" "ts_alloc pc flags 0 (tb_store (shared e)) = Some (n, st1)"
      "gen_code G ((reset (ir_ctx (shared e)))\<lparr>tb_idx := of_nat n\<rparr>) pc (max_insns 0) (cpu e) = Some (sz, c2, cp)"
      "ts_modify n (\<lambda>tb. tb\<lparr>tb_size := sz\<rparr>) st1 = Some st2"
      "translate c2 (clear_goto_tb_offsets (backend (shared e))) (code_buf (shared e)) = Some (off, c3, g, b)"
      "ts_modify n (\<lambda>tb. tb\<lparr>host_offset := off, host_size := cb_offset b - off\<rparr>) st2 = Some st3"
      "set_jmp_offsets 0 (take 2 (goto_tb_offsets g)) (ts_tbs st3 ! n) = Some tb"
      "ts_modify n (\<lambda>_. tb) st3 = Some st4" "ts_insert n st4 = Some st5" "r = Some n" "e' = new_env pc n st5 b g c3 cp e"
proof (cases "remaining (code_buf (shared e)) < MIN_CODE_BUF_REMAINING")
  case True
  then have "r = None" "e' = e" using run by (simp_all add: tb_gen_code_def)
  with True show thesis by (rule full)
next
  case False
  then obtain h where h: "ts_lookup (tb_store (shared e)) pc flags = Some h"
    using run by (cases "ts_lookup (tb_store (shared e)) pc flags") (simp_all add: tb_gen_code_def)
  show thesis
  proof (cases h)
    case (Some i)
    then have "r = Some i" "e' = cache_block pc i e" using run False h by (simp_all add: tb_gen_code_def)
    with h Some show thesis using hit by simp
  next
    case None
    note body = run [unfolded tb_gen_code_def Let_def if_not_P [OF False] h None Option.bind.simps option.case]
    from body show thesis
      by (simp only: bind_eq_Some_conv ts_get_def split_paired_Ex prod.case index_Some option.inject prod.inject, elim exE conjE,
          hypsubst, intro new [OF h [unfolded None]]) (assumption | simp add: new_env_def)+
  qed
qed

lemma frontend_labels:
  assumes "frontend_ok G" "gen_code G ((reset c)\<lparr>tb_idx := n\<rparr>) pc m cp = Some (sz, c', cp')"
  shows "\<forall>l \<in> set (labels c'). l_uses l = []"
proof -
  have "labels ((reset c)\<lparr>tb_idx := n\<rparr>) = []" by (simp add: reset_def)
  with assms show ?thesis unfolding frontend_ok_def by blast
qed

lemma new_block_store:
  assumes st: "hash_inv st" "chain_inv jump_target st b" "sites_emitted st b" "targets_ok st"
    and b: "cb_inv b" "extends b b'" and al: "ts_alloc pc flags 0 st = Some (n, st1)"
    and tb: "block_new b b' tb" "tb_pc tb = pc" "tb_flags tb = flags" "hash_next tb = None"
    and st4: "st4 = st1\<lparr>ts_tbs := (ts_tbs st1)[n := tb]\<rparr>" and ins: "ts_insert n st4 = Some st5"
  shows "hash_inv st5" "chain_inv jump_target st5 b'" "sites_emitted st5 b'" "targets_ok st5" "keeps_blocks st st5"
    "length (ts_tbs st5) = Suc (length (ts_tbs st))" "n = length (ts_tbs st)" "tb_matches pc flags (ts_tbs st5 ! n)"
proof -
  have a: "same_keys st st1" "n = length (ts_tbs st)" "ts_tbs st1 = ts_tbs st @ [tb_new pc flags 0]"
    using ts_alloc_same_keys [OF al] by auto
  have t4: "ts_tbs st4 = ts_tbs st @ [tb]" "ts_hash st4 = ts_hash st1" using a by (simp_all add: st4 list_update_append)
  have k: "same_keys st1 st4" using a tb t4 by (auto simp: same_keys_def nth_append tb_new_def)
  have i4: "hash_inv st4" "indexed st4 = indexed st"
    using same_keys_inv [OF k] same_keys_inv [OF a(1) st(1)] same_keys_indexed [OF k] same_keys_indexed [OF a(1) st(1)] by auto
  have "n \<notin> indexed st4" using indexed_range [of n st] i4(2) a(2) by auto
  moreover have "n < length (ts_tbs st4)" using a(2) t4 by simp
  ultimately show "hash_inv st5" using ins ts_insert_ok [OF i4(1), of n] by (metis option.inject)
  show len: "length (ts_tbs st5) = Suc (length (ts_tbs st))" using insert_strips(1) [OF ins] t4 by simp
  have strips: "strip (ts_tbs st5 ! j) = strip (if j < length (ts_tbs st) then ts_tbs st ! j else tb)" if "j < Suc (length (ts_tbs st))" for j
    using insert_strips(2) [OF ins, of j] that t4 by (auto simp: nth_append less_Suc_eq)
  have n: "strip (ts_tbs st5 ! n) = strip tb" using strips [of n] a(2) by simp
  have new: "block_new b b' (ts_tbs st5 ! n)" using tb(1) unfolding block_new_def strip_eqD [OF n] .
  have "chain_inv jump_target st5 b' \<and> sites_emitted st5 b'"
    by (rule add_block_links [OF st(2,3) b len]) (use strips new a(2) in auto)
  then show "chain_inv jump_target st5 b'" "sites_emitted st5 b'" by auto
  show "n = length (ts_tbs st)" by (rule a(2))
  show "tb_matches pc flags (ts_tbs st5 ! n)"
    using tb unfolding strip_eqD(9) [OF n] by (simp add: tb_matches_def block_new_def)
  have old: "strip (ts_tbs st5 ! j) = strip (ts_tbs st ! j)" if "j < length (ts_tbs st)" for j using strips [of j] that by simp
  show "keeps_blocks st st5" using len strip_eqD [OF old] by (simp add: keeps_blocks_def)
  show "targets_ok st5"
    unfolding targets_ok_def len
  proof (intro allI impI)
    fix j assume "j < Suc (length (ts_tbs st))"
    then show "exit_target (ts_tbs st5 ! j) = EXIT_TARGET_NONE \<or> exit_target (ts_tbs st5 ! j) < Suc (length (ts_tbs st))"
      using st(4) new a(2) strip_eqD(10) [OF old, of j]
      by (cases "j = n") (auto simp: block_new_def targets_ok_def less_Suc_eq)
  qed
qed

lemma gen_code_inv:
  assumes e: "exec_inv e" and G: "frontend_ok G"
  shows "wp (tb_gen_code G pc flags e) (\<lambda>(r, e'). exec_inv e' \<and> keeps_blocks (tb_store (shared e)) (tb_store (shared e')) \<and>
    (case r of
       None \<Rightarrow> e' = e \<and> remaining (code_buf (shared e)) < MIN_CODE_BUF_REMAINING
     | Some i \<Rightarrow> i < length (ts_tbs (tb_store (shared e'))) \<and> tb_matches pc flags (ts_tbs (tb_store (shared e')) ! i)))"
proof (rule wpI, clarify)
  fix r e' assume run: "tb_gen_code G pc flags e = Some (r, e')"
  let ?st = "tb_store (shared e)" and ?b = "code_buf (shared e)"
  have inv: "cb_inv ?b" "chain_inv jump_target ?st ?b" "sites_emitted ?st ?b" "hash_inv ?st"
    "cache_ok (length (ts_tbs ?st)) (jump_cache (per_cpu e))" "targets_ok ?st"
    using e by (simp_all add: exec_inv_def)
  show "exec_inv e' \<and> keeps_blocks ?st (tb_store (shared e')) \<and>
    (case r of None \<Rightarrow> e' = e \<and> remaining ?b < MIN_CODE_BUF_REMAINING
     | Some i \<Rightarrow> i < length (ts_tbs (tb_store (shared e'))) \<and> tb_matches pc flags (ts_tbs (tb_store (shared e')) ! i))"
    using run
  proof (cases rule: gen_code_cases)
    case full
    then show ?thesis using e by simp
  next
    case (hit i)
    have "i < length (ts_tbs ?st) \<and> tb_matches pc flags (ts_tbs ?st ! i)"
      using ts_lookup_sound [OF inv(4) hit(1)] by simp
    then show ?thesis using hit e by (simp add: exec_inv_cache)
  next
    case (new n st1 sz c2 cp st2 off c3 g b st3 tb st4 st5)
    have fresh: "\<forall>l \<in> set (labels c2). l_uses l = []"
      by (rule frontend_labels [OF G new(3)])
    note tr = translate_code [OF inv(1) fresh new(5)]
    have cap: "capacity b = capacity ?b" "cb_inv b" "capacity b < 2 ^ 31"
      using tr(2) inv(2) by (auto simp: extends_def links_ok_def layout_ok_def)
    have cl: "goto_tb_info (clear_goto_tb_offsets (backend (shared e))) = []" by (simp add: clear_goto_tb_offsets_def)
    have n: "n = length (ts_tbs ?st)" "ts_tbs st1 = ts_tbs ?st @ [tb_new pc flags 0]" using ts_alloc_same_keys [OF new(2)] by auto
    let ?t3 = "(tb_new pc flags 0)\<lparr>tb_size := sz, host_offset := off, host_size := cb_offset b - off\<rparr>"
    have t3: "ts_tbs st3 ! n = ?t3" "ts_tbs st3 = (ts_tbs st1)[n := ?t3]" "st3\<lparr>ts_tbs := ts_tbs st1\<rparr> = st1"
      using new(4,6) n by (auto simp: ts_modify_Some)
    have srt: "sorted_wrt (\<lambda>(j, r) (k, q). r \<le> k) (goto_tb_info g)"
    proof (cases "goto_tb_info g")
      case (Cons p ps)
      then have "(fst p, snd p) \<in> set (goto_tb_info g)" by simp
      then show ?thesis by (rule translate_sites(5) [OF inv(1) fresh cl new(5)])
    qed simp
    have "\<exists>tb'. set_jmp_offsets 0 (take 2 (goto_tb_info g)) ?t3 = Some tb' \<and> block_new ?b b tb' \<and> tb_pc tb' = tb_pc ?t3 \<and>
        tb_flags tb' = tb_flags ?t3 \<and> hash_next tb' = hash_next ?t3"
      by (rule offsets_block_new)
        (use srt tr cap inv(1) translate_sites(1-4) [OF inv(1) fresh cl new(5)] in \<open>auto simp: tb_new_def cb_inv_def\<close>)
    then have tb: "block_new ?b b tb" "tb_pc tb = pc" "tb_flags tb = flags" "hash_next tb = None"
      using new(7) t3(1) by (auto simp: goto_tb_offsets_def tb_new_def)
    have "st4 = st1\<lparr>ts_tbs := (ts_tbs st1)[n := tb]\<rparr>" using new(8) t3 n by (auto simp: ts_modify_Some)
    note st5 = new_block_store [OF inv(4,2,3,6,1) tr(2) new(2) tb this new(9)]
    have "cache_ok (length (ts_tbs st5)) (jc_insert pc n (jump_cache (per_cpu e)))"
      by (rule cache_ok_insert, rule cache_ok_mono [OF inv(5)]) (use st5(6,7) in simp_all)
    then show ?thesis
      using st5 cap(2) new(10,11) by (simp add: exec_inv_def new_env_def cache_block_def)
  qed
qed

section \<open>The initial state\<close>

lemma grows_each: "(\<And>r. grows (f r)) \<Longrightarrow> grows (emit_each f rs)"
proof (induction rs)
  case Nil
  show ?case by (simp add: grows_def)
next
  case (Cons a rs)
  then have "grows (\<lambda>b. f a b \<bind> emit_each f rs)" by (intro grows_seq Cons.IH) simp_all
  then show ?case by (simp add: grows_def)
qed

lemma prologue_extends:
  assumes "cb_inv b"
  shows "emit_prologue g b = Some (g', b') \<Longrightarrow> extends b b'" "emit_epilogue g b = Some (g', b') \<Longrightarrow> extends b b'"
proof -
  have "grows (\<lambda>b. emit_each emit_push CALLEE_SAVED b \<bind> emit_mov_rr True Rbp (CALL_ARG_REGS ! 0) \<bind> emit_load True R14 Rbp 520 \<bind>
      emit_arith_ri XSub True Rsp (of_nat STACK_ADDEND) \<bind> emit_jmp_reg (CALL_ARG_REGS ! 1))"
    by (intro grows_seq grows_each grows_encoder)
  then show "emit_prologue g b = Some (g', b') \<Longrightarrow> extends b b'"
    using assms by (auto simp: grows_def emit_prologue_def Let_def bind_eq_Some_conv)
  have "grows (\<lambda>b. emit_mov_ri False Rax 0 b \<bind> emit_arith_ri XAdd True Rsp (of_nat STACK_ADDEND) \<bind>
      emit_each emit_pop (rev CALLEE_SAVED) \<bind> emit_ret)"
    by (intro grows_seq grows_each grows_encoder)
  then show "emit_epilogue g b = Some (g', b') \<Longrightarrow> extends b b'"
    using assms by (auto simp: grows_def emit_epilogue_def Let_def bind_eq_Some_conv)
qed

lemma env_new_inv:
  assumes "cb_inv b" "capacity b < 2 ^ 31" "exec_env_new g b = Some (sh, pc)"
  shows "exec_inv \<lparr>shared = sh, per_cpu = pc, cpu = c\<rparr>"
proof -
  obtain g1 b1 g2 b2 where e: "emit_prologue g b = Some (g1, b1)" "emit_epilogue g1 b1 = Some (g2, b2)"
    "tb_store sh = ts_new" "code_buf sh = b2" "jump_cache pc = jc_new"
    using assms(3) by (auto simp: exec_env_new_def bind_eq_Some_conv)
  have x: "extends b b1" by (rule prologue_extends(1) [OF assms(1) e(1)])
  then have "cb_inv b1" by (simp add: extends_def)
  from prologue_extends(2) [OF this e(2)] x assms(2) have b: "cb_inv b2" "capacity b2 < 2 ^ 31" by (simp_all add: extends_def)
  have "hash_inv ts_new" by (auto simp: hash_inv_def ts_new_def bucket_ok_def intro: exI [of _ "[]"])
  moreover have "chain_inv jump_target ts_new b2" using b by (simp add: links_ok_def layout_ok_def sites_apart_def ts_new_def)
  moreover have "cache_ok 0 jc_new" by (simp add: cache_ok_def jc_new_def)
  ultimately show ?thesis
    using b e by (simp add: exec_inv_def sites_emitted_def targets_ok_def) (simp add: ts_new_def)
qed

section \<open>Finding and chaining\<close>

definition found :: "u64 \<Rightarrow> u32 \<Rightarrow> 'cpu ExecEnv \<Rightarrow> nat option \<times> 'cpu ExecEnv \<Rightarrow> bool" where
  "found pc flags e = (\<lambda>(r, e'). exec_inv e' \<and> keeps_blocks (tb_store (shared e)) (tb_store (shared e')) \<and>
     (case r of
        None \<Rightarrow> remaining (code_buf (shared e')) < MIN_CODE_BUF_REMAINING
      | Some i \<Rightarrow> i < length (ts_tbs (tb_store (shared e'))) \<and> tb_matches pc flags (ts_tbs (tb_store (shared e')) ! i)))"

lemma find_inv:
  assumes e: "exec_inv e" and G: "frontend_ok G"
  shows "wp (tb_find G pc flags e) (found pc flags e)"
proof -
  let ?st = "tb_store (shared e)"
  have cache: "i < length (ts_tbs ?st)" if "jc_lookup (jump_cache (per_cpu e)) pc = Some i" for i
    using e that by (auto simp: exec_inv_def dest: cache_ok_lookup)
  have hit: "i < length (ts_tbs ?st) \<and> tb_matches pc flags (ts_tbs ?st ! i)" if "ts_lookup ?st pc flags = Some (Some i)" for i
    using ts_lookup_sound [OF _ that] e by (simp add: exec_inv_def)
  have gen: "wp (tb_gen_code G pc flags (count f e)) (found pc flags e)" for f
    by (rule wp_mono [OF gen_code_inv [OF _ G]]) (use e in \<open>auto simp: found_def split: option.splits\<close>)
  have slow: "wp (ts_lookup ?st pc flags) (\<lambda>h. wp (case h of
       Some idx \<Rightarrow> Some (Some idx, count f (cache_block pc idx e)) | None \<Rightarrow> tb_gen_code G pc flags (count g e)) (found pc flags e))" for f g
    by (rule wpI) (use hit e gen in \<open>auto simp: found_def exec_inv_cache split: option.split\<close>)
  show ?thesis
    unfolding tb_find_def ts_get_def
    using e cache slow by (auto simp: found_def split: option.split)
qed

lemma link_modify:
  assumes "ts_modify src (set_jmp_dest slot (Some dst)) st = Some st1"
    "ts_modify dst (\<lambda>tb. set_jmp_list (jmp_list (jmp tb) @ [(src, slot)]) tb) st1 = Some st2"
  shows "st2 = link_blocks src slot dst st"
  using assms by (auto simp: ts_modify_Some link_blocks_def Let_def)

lemma add_jump_cases:
  assumes run: "tb_add_jump src slot dst e = Some e'"
  obtains (same) "shared e' = shared e" "per_cpu e' = per_cpu e \<or> (\<exists>f. e' = count f e)" "cpu e' = cpu e"
    | (linked) off b f where "src < length (ts_tbs (tb_store (shared e)))" "insn_at (tb_store (shared e)) src slot = Some off"
      "dst < length (ts_tbs (tb_store (shared e)))" "\<not> invalid (ts_tbs (tb_store (shared e)) ! dst)"
      "patch_jump (code_buf (shared e)) (unat off) (host_offset (ts_tbs (tb_store (shared e)) ! dst)) = Some b"
      "e' = count f (e\<lparr>shared := (shared e)\<lparr>tb_store := link_blocks src slot dst (tb_store (shared e)), code_buf := b\<rparr>\<rparr>)"
proof -
  let ?st = "tb_store (shared e)"
  have src: "src < length (ts_tbs ?st)" "slot < length (jmp_insn_offset (ts_tbs ?st ! src))"
    using run by (auto simp: tb_add_jump_def ts_get_def Let_def split: if_splits)
  note body = run [unfolded tb_add_jump_def Let_def ts_get_def index_bind if_P [OF src(1)] if_P [OF src(2)]]
  show thesis
  proof (cases "insn_at ?st src slot")
    case None
    then show thesis using body by (intro same) auto
  next
    case (Some off)
    note body2 = body [unfolded Some option.case]
    have dst: "dst < length (ts_tbs ?st)" using body2 by (simp split: if_splits)
    show thesis
    proof (cases "invalid (ts_tbs ?st ! dst) \<or> jmp_dest (jmp (ts_tbs ?st ! src)) ! slot = Some dst")
      case True
      then show thesis using body2 dst by (intro same) (auto split: if_splits)
    next
      case False
      obtain b st1 st2 where "patch_jump (code_buf (shared e)) (unat off) (host_offset (ts_tbs ?st ! dst)) = Some b"
        "ts_modify src (set_jmp_dest slot (Some dst)) ?st = Some st1"
        "ts_modify dst (\<lambda>tb. set_jmp_list (jmp_list (jmp tb) @ [(src, slot)]) tb) st1 = Some st2"
        "e' = count (\<lambda>s. s\<lparr>chain_patched := chain_patched s + 1\<rparr>) (e\<lparr>shared := (shared e)\<lparr>tb_store := st2, code_buf := b\<rparr>\<rparr>)"
        using body2 dst False by (auto simp: bind_eq_Some_conv split: if_splits)
      then show thesis using linked [OF src(1) Some dst] False link_modify by blast
    qed
  qed
qed

lemma add_jump_inv:
  assumes e: "exec_inv e" and i: "slot < 2"
  shows "wp (tb_add_jump src slot dst e) (\<lambda>e'. exec_inv e' \<and> keeps_blocks (tb_store (shared e)) (tb_store (shared e')) \<and> cpu e' = cpu e)"
proof (rule wpI)
  fix e' assume run: "tb_add_jump src slot dst e = Some e'"
  let ?st = "tb_store (shared e)" and ?b = "code_buf (shared e)"
  have inv: "cb_inv ?b" "chain_inv jump_target ?st ?b" "sites_emitted ?st ?b" "hash_inv ?st"
    "cache_ok (length (ts_tbs ?st)) (jump_cache (per_cpu e))" "targets_ok ?st"
    using e by (simp_all add: exec_inv_def)
  show "exec_inv e' \<and> keeps_blocks ?st (tb_store (shared e')) \<and> cpu e' = cpu e"
    using run
  proof (cases rule: add_jump_cases)
    case same
    then have "exec_inv e' = exec_inv e" by (auto simp: exec_inv_def count_def)
    with same e show ?thesis by simp
  next
    case (linked off b f)
    obtain b' where b': "patch_jump ?b (unat off) (host_offset (ts_tbs ?st ! dst)) = Some b'"
      "chain_inv jump_target (link_blocks src slot dst ?st) b'" "cb_offset b' = cb_offset ?b" "capacity b' = capacity ?b"
      by (rule link_links [OF inv(2) linked(1) i linked(3,4,2)])
    note n = link_blocks_nth [OF linked(1,3)]
    have "hash_inv (link_blocks src slot dst ?st)" by (rule same_keys_inv [OF link_same_keys [OF linked(1,3)] inv(4)])
    moreover have "sites_emitted (link_blocks src slot dst ?st) b'" using inv(3) b'(3) by (simp add: sites_emitted_def n)
    moreover have "targets_ok (link_blocks src slot dst ?st)" using inv(6) by (simp add: targets_ok_def n)
    moreover have "keeps_blocks ?st (link_blocks src slot dst ?st)" by (simp add: keeps_blocks_def n)
    ultimately show ?thesis using linked b' inv(1,5) by (simp add: exec_inv_def cb_inv_def)
  qed
qed

definition chained :: "'cpu ExecEnv \<Rightarrow> nat \<Rightarrow> nat \<Rightarrow> nat \<Rightarrow> 'cpu ExecEnv \<Rightarrow> bool" where
  "chained e src slot dst e' \<longleftrightarrow>
     (\<forall>off. insn_at (tb_store (shared e)) src slot = Some off \<longrightarrow> \<not> invalid (ts_tbs (tb_store (shared e)) ! dst) \<longrightarrow>
       dest (tb_store (shared e)) src slot \<noteq> Some dst \<longrightarrow>
       dest (tb_store (shared e')) src slot = Some dst \<and> (src, slot) \<in> set (incoming (tb_store (shared e')) dst) \<and>
       jump_target (code_buf (shared e')) (unat off) = Some (int (host_offset (ts_tbs (tb_store (shared e)) ! dst))))"

lemma add_jump_total:
  assumes e: "exec_inv e" and i: "src < length (ts_tbs (tb_store (shared e)))" "dst < length (ts_tbs (tb_store (shared e)))" "slot < 2"
  obtains e' where "tb_add_jump src slot dst e = Some e'" "chained e src slot dst e'"
proof -
  let ?st = "tb_store (shared e)" and ?b = "code_buf (shared e)"
  have ok: "chain_inv jump_target ?st ?b" using e by (simp add: exec_inv_def)
  then have len: "length (jmp_insn_offset (ts_tbs ?st ! src)) = 2" "length (jmp_dest (jmp (ts_tbs ?st ! src))) = 2"
    using i(1) by (auto simp: links_ok_def layout_ok_def block_layout_def Let_def)
  note body = tb_add_jump_def [of src slot dst e] ts_get_def index_bind if_P [OF i(1)] if_P [OF i(2)] len if_P [OF i(3)] Let_def
  show thesis
  proof (cases "insn_at ?st src slot")
    case None
    then show thesis using that [of e] by (simp add: body chained_def)
  next
    case (Some off)
    consider "invalid (ts_tbs ?st ! dst)" | "\<not> invalid (ts_tbs ?st ! dst)" "dest ?st src slot = Some dst"
      | "\<not> invalid (ts_tbs ?st ! dst)" "dest ?st src slot \<noteq> Some dst" by blast
    then show thesis
    proof cases
      case 1
      then show thesis using that [of e] Some by (simp add: body chained_def)
    next
      case 2
      then show thesis using that Some by (simp add: body chained_def)
    next
      case 3
      obtain b' where b': "patch_jump ?b (unat off) (host_offset (ts_tbs ?st ! dst)) = Some b'"
        "jump_target b' (unat off) = Some (int (host_offset (ts_tbs ?st ! dst)))"
        by (rule link_links [OF ok i(1,3,2) 3(1) Some])
      obtain st1 st2 where st: "ts_modify src (set_jmp_dest slot (Some dst)) ?st = Some st1"
        "ts_modify dst (\<lambda>tb. set_jmp_list (jmp_list (jmp tb) @ [(src, slot)]) tb) st1 = Some st2"
        using i by (simp add: ts_modify_def ts_get_def)
      note st2 = link_modify [OF st] and n = link_blocks_nth [OF i(1,2)]
      let ?e = "count (\<lambda>s. s\<lparr>chain_patched := chain_patched s + 1\<rparr>) (e\<lparr>shared := (shared e)\<lparr>tb_store := st2, code_buf := b'\<rparr>\<rparr>)"
      have "tb_add_jump src slot dst e = Some ?e" using 3 Some b' st i len by (simp add: body)
      moreover have "chained e src slot dst ?e" using Some b' st2 i len by (simp add: chained_def n)
      ultimately show thesis by (rule that)
    qed
  qed
qed

section \<open>One iteration\<close>

text \<open>The hint names a block translated for the guest's current address.\<close>

definition hint_ok :: "'cpu GuestCpu \<Rightarrow> nat option \<Rightarrow> 'cpu ExecEnv \<Rightarrow> bool" where
  "hint_ok G hint e \<longleftrightarrow> (\<forall>i. hint = Some i \<longrightarrow> i < length (ts_tbs (tb_store (shared e))) \<and>
     tb_matches (get_pc G (cpu e)) (get_flags G (cpu e)) (ts_tbs (tb_store (shared e)) ! i))"

text \<open>Translating code does not move the guest.\<close>

definition guest_still :: "'cpu GuestCpu \<Rightarrow> bool" where
  "guest_still G \<longleftrightarrow> (\<forall>c pc n cp sz c' cp'. gen_code G c pc n cp = Some (sz, c', cp') \<longrightarrow>
     get_pc G cp' = get_pc G cp \<and> get_flags G cp' = get_flags G cp)"

lemma matches_kept:
  "keeps_blocks st st' \<Longrightarrow> i < length (ts_tbs st) \<Longrightarrow> tb_matches pc flags (ts_tbs st ! i) \<Longrightarrow>
     i < length (ts_tbs st') \<and> tb_matches pc flags (ts_tbs st' ! i)"
  by (auto simp: keeps_blocks_def tb_matches_def)

lemma find_still:
  assumes "guest_still G"
  shows "wp (tb_find G pc flags e) (\<lambda>(r, e'). get_pc G (cpu e') = get_pc G (cpu e) \<and> get_flags G (cpu e') = get_flags G (cpu e))"
proof -
  have "wp (tb_gen_code G pc flags (count f e)) (\<lambda>(r, e'). get_pc G (cpu e') = get_pc G (cpu e) \<and> get_flags G (cpu e') = get_flags G (cpu e))" for f
  proof (rule wpI, clarify)
    fix r e' assume "tb_gen_code G pc flags (count f e) = Some (r, e')"
    then show "get_pc G (cpu e') = get_pc G (cpu e) \<and> get_flags G (cpu e') = get_flags G (cpu e)"
      by (cases rule: gen_code_cases) (use assms in \<open>auto simp: guest_still_def new_env_def\<close>)
  qed
  then show ?thesis unfolding tb_find_def by (auto split: option.split intro!: wp_any)
qed

lemma find_next_ok:
  assumes "exec_inv e" "frontend_ok G" "guest_still G"
  shows "wp (find_next G e) (\<lambda>(r, e'). exec_inv e' \<and> keeps_blocks (tb_store (shared e)) (tb_store (shared e')) \<and> hint_ok G r e' \<and>
    (r = None \<longrightarrow> remaining (code_buf (shared e')) < MIN_CODE_BUF_REMAINING))"
  unfolding find_next_def
  by (rule wp_mono [OF wp_conj [OF find_inv [OF assms(1,2)] find_still [OF assms(3)]]])
    (auto simp: found_def hint_ok_def split: option.splits)

definition step_ok :: "'cpu GuestCpu \<Rightarrow> outcome \<times> 'cpu ExecEnv \<Rightarrow> bool" where
  "step_ok G = (\<lambda>(o', e'). exec_inv e' \<and>
     (case o' of
        Again h \<Rightarrow> h \<noteq> None \<and> hint_ok G h e'
      | Done BufferFull \<Rightarrow> remaining (code_buf (shared e')) < MIN_CODE_BUF_REMAINING
      | Done (Exit v) \<Rightarrow> TB_EXIT_MAX \<le> v))"

lemma chain_next_ok:
  assumes "exec_inv e" "frontend_ok G" "guest_still G" "slot < 2"
  shows "wp (chain_to_next G src slot e) (step_ok G)"
proof -
  have "exec_inv (count f e)" for f using assms(1) by simp
  note find = find_next_ok [OF this assms(2,3)]
  have add: "wp (tb_add_jump src slot d e') (\<lambda>e''. step_ok G (Again (Some d), e''))" if "exec_inv e'" "hint_ok G (Some d) e'" for d e'
    by (rule wp_mono [OF add_jump_inv [OF that(1) assms(4)]])
      (use that in \<open>auto simp: step_ok_def hint_ok_def dest: matches_kept\<close>)
  have cont: "wp (case r of None \<Rightarrow> Some (Done BufferFull, e')
      | Some d \<Rightarrow> do { e \<leftarrow> tb_add_jump src slot d e'; Some (Again (Some d), e) }) (step_ok G)"
    if "exec_inv e'" "hint_ok G r e'" "r = None \<longrightarrow> remaining (code_buf (shared e')) < MIN_CODE_BUF_REMAINING" for r e'
    using that add by (cases r) (simp_all add: step_ok_def)
  show ?thesis
    unfolding chain_to_next_def bind.simps wp_simps
    by (rule wp_mono [OF find]) (use cont in \<open>auto split: prod.split\<close>)
qed

lemma exit_target_inv:
  assumes e: "exec_inv e" and d: "d < length (ts_tbs (tb_store (shared e)))"
  shows "wp (ts_modify src (\<lambda>tb. tb\<lparr>exit_target := d\<rparr>) (tb_store (shared e)))
    (\<lambda>st. exec_inv (set_store st e) \<and> keeps_blocks (tb_store (shared e)) st)"
proof (rule wpI)
  fix st assume run: "ts_modify src (\<lambda>tb. tb\<lparr>exit_target := d\<rparr>) (tb_store (shared e)) = Some st"
  let ?st = "tb_store (shared e)"
  have src: "src < length (ts_tbs ?st)" and st: "st = ?st\<lparr>ts_tbs := (ts_tbs ?st)[src := (ts_tbs ?st ! src)\<lparr>exit_target := d\<rparr>]\<rparr>"
    using run by (auto simp: ts_modify_Some)
  have "chain_inv jump_target st (code_buf (shared e))"
    by (rule links_frame [of _ ?st]) (use e src in \<open>auto simp: st exec_inv_def same_layout_def nth_list_update split: if_splits\<close>)
  moreover have "hash_inv st"
    by (rule same_keys_inv [of ?st]) (use e src in \<open>auto simp: st exec_inv_def same_keys_def nth_list_update\<close>)
  ultimately show "exec_inv (set_store st e) \<and> keeps_blocks ?st st"
    using e d src unfolding exec_inv_def set_store_def
    by (auto simp: st sites_emitted_def targets_ok_def keeps_blocks_def nth_list_update)
qed

lemma indirect_next_ok:
  assumes "exec_inv e" "frontend_ok G" "guest_still G"
  shows "wp (indirect_next G src e) (step_ok G)"
proof -
  let ?st = "tb_store (shared e)"
  have e': "exec_inv (count f e)" for f using assms(1) by simp
  note find = find_next_ok [OF this assms(2,3)]
  have target: "wp (ts_modify src (\<lambda>tb. tb\<lparr>exit_target := d\<rparr>) (tb_store (shared e'))) (\<lambda>st. step_ok G (Again (Some d), set_store st e'))"
    if "exec_inv e'" "hint_ok G (Some d) e'" for d e'
    by (rule wp_mono [OF exit_target_inv [OF that(1)]])
      (use that in \<open>auto simp: step_ok_def hint_ok_def set_store_def dest: matches_kept\<close>)
  have cont: "wp (case r of None \<Rightarrow> Some (Done BufferFull, e')
      | Some d \<Rightarrow> do { st \<leftarrow> ts_modify src (\<lambda>tb. tb\<lparr>exit_target := d\<rparr>) (tb_store (shared e')); Some (Again (Some d), set_store st e') }) (step_ok G)"
    if "exec_inv e'" "hint_ok G r e'" "r = None \<longrightarrow> remaining (code_buf (shared e')) < MIN_CODE_BUF_REMAINING" for r e'
    using that target by (cases r) (simp_all add: step_ok_def)
  have slow: "step_ok G x" if "find_next G (count f e) = Some (r, e')" "(case r of None \<Rightarrow> Some (Done BufferFull, e')
      | Some d \<Rightarrow> do { st \<leftarrow> ts_modify src (\<lambda>tb. tb\<lparr>exit_target := d\<rparr>) (tb_store (shared e')); Some (Again (Some d), set_store st e') }) = Some x"
    for f r e' x
    using wpD [OF find that(1)] by (intro wpD [OF cont that(2)]) auto
  have fast: "wp (ts_get (tb_store (shared e')) i) (\<lambda>tb. tb_matches (get_pc G (cpu e')) (get_flags G (cpu e')) tb \<longrightarrow> step_ok G (Again (Some i), e'))"
    if "exec_inv e'" for i e'
    using that by (auto simp: ts_get_def wp_def step_ok_def hint_ok_def index_def split: if_splits)
  show ?thesis
    unfolding indirect_next_def bind.simps Let_def
    by (simp only: wp_simps(2-) bind_assoc if_split_asm)
      (use slow fast [OF e'] in \<open>auto simp: wp_def\<close>)
qed

lemma pick_block_ok:
  assumes "exec_inv e" "hint_ok G hint e" "frontend_ok G" "guest_still G"
  shows "wp (pick_block G hint e) (\<lambda>(r, e'). exec_inv e' \<and> hint_ok G r e' \<and>
    (r = None \<longrightarrow> remaining (code_buf (shared e')) < MIN_CODE_BUF_REMAINING))"
proof (cases hint)
  case None
  then show ?thesis unfolding pick_block_def by simp (rule wp_mono [OF find_next_ok [OF assms(1,3,4)]], auto)
next
  case (Some i)
  then show ?thesis using assms by (simp add: pick_block_def hint_ok_def)
qed

lemma pick_block_still:
  assumes "guest_still G"
  shows "wp (pick_block G hint e) (\<lambda>(r, e'). get_pc G (cpu e') = get_pc G (cpu e))"
  unfolding pick_block_def find_next_def
  by (cases hint) (auto intro: wp_mono [OF find_still [OF assms]])

lemma exec_inv_cpu [simp]: "exec_inv (e\<lparr>cpu := cp\<rparr>) = exec_inv e"
  by (simp add: exec_inv_def)

lemma small_exit: "x \<le> 1 \<Longrightarrow> unat x < 2" for x :: u64
  by (simp add: word_le_nat_alt)

lemma real_exit: "\<not> x \<le> 1 \<Longrightarrow> x \<noteq> TB_EXIT_NOCHAIN \<Longrightarrow> TB_EXIT_MAX \<le> x" for x :: u64
  by (simp add: TB_EXIT_NOCHAIN_def TB_EXIT_MAX_def word_le_nat_alt word_unat_eq_iff)

lemma loop_step_ok:
  assumes "exec_inv e" "hint_ok G hint e" "frontend_ok G" "guest_still G"
  shows "wp (loop_step G run hint e) (step_ok G)"
proof -
  have cont: "wp (case blk of None \<Rightarrow> Some (Done BufferFull, e')
       | Some i \<Rightarrow> do {
         (raw_exit, e) \<leftarrow> cpu_tb_exec run i e';
         let (last_tb, exit_code) = decode_tb_exit raw_exit;
         let src = (case last_tb of Some t \<Rightarrow> t | None \<Rightarrow> i);
         if exit_code \<le> 1 then chain_to_next G src (unat exit_code) e
         else if exit_code = TB_EXIT_NOCHAIN then indirect_next G src e
         else Some (Done (Exit exit_code), count (\<lambda>s. s\<lparr>real_exit := real_exit s + 1\<rparr>) e) }) (step_ok G)"
    if e': "exec_inv e'" and full: "blk = None \<longrightarrow> remaining (code_buf (shared e')) < MIN_CODE_BUF_REMAINING" for blk e'
  proof (cases blk)
    case None
    then show ?thesis using e' full by (simp add: step_ok_def)
  next
    case (Some i)
    have chain: "wp (chain_to_next G src (unat x) (e'\<lparr>cpu := cp\<rparr>)) (step_ok G)" if "x \<le> 1" for src cp and x :: u64
      by (rule chain_next_ok) (use e' assms(3,4) small_exit [OF that] in simp_all)
    have ind: "wp (indirect_next G src (e'\<lparr>cpu := cp\<rparr>)) (step_ok G)" for src cp
      by (rule indirect_next_ok) (use e' assms(3,4) in simp_all)
    have out: "step_ok G (Done (Exit x), count f (e'\<lparr>cpu := cp\<rparr>))" if "\<not> x \<le> 1" "x \<noteq> TB_EXIT_NOCHAIN" for f cp and x :: u64
      using real_exit [OF that] e' by (simp add: step_ok_def)
    show ?thesis
      using chain ind out
      by (simp add: Some cpu_tb_exec_def Let_def split_beta) (intro wp_any, auto split: prod.split)
  qed
  show ?thesis
    unfolding loop_step_def wp_simps
    by (rule wp_mono [OF pick_block_ok]) (use assms cont in \<open>auto simp: hint_ok_def\<close>)
qed

section \<open>The loop\<close>

text \<open>The iterations of the loop as a transition system: hint and environment.\<close>

inductive iterations :: "'cpu GuestCpu \<Rightarrow> 'cpu host_run \<Rightarrow> 'cpu ExecEnv \<Rightarrow> nat option \<Rightarrow> 'cpu ExecEnv \<Rightarrow> bool"
  for G run e where
  start: "iterations G run e None e"
| again: "iterations G run e h e1 \<Longrightarrow> loop_step G run h e1 = Some (Again h', e2) \<Longrightarrow> iterations G run e h' e2"

lemma iterations_inv:
  assumes "iterations G run e h e'" "exec_inv e" "frontend_ok G" "guest_still G"
  shows "exec_inv e' \<and> hint_ok G h e'"
  using assms
proof (induction rule: iterations.induct)
  case start
  then show ?case by (simp add: hint_ok_def)
next
  case (again h e1 h' e2)
  then have "wp (loop_step G run h e1) (step_ok G)" by (intro loop_step_ok) auto
  from wpD [OF this again(2)] show ?case by (simp add: step_ok_def)
qed

lemma exec_from_reach:
  assumes "iterations G run e h e'" "exec_from G run h e' = Some x"
  shows "exec_from G run None e = Some x"
  using assms
proof (induction rule: iterations.induct)
  case (again h e1 h' e2)
  then show ?case by (subst (asm) (2) exec_from.simps) (simp add: exec_from.simps)
qed

lemma exec_terminates:
  fixes m :: "'cpu \<Rightarrow> nat"
  assumes reach: "iterations G run e h e'"
    and run: "\<And>h e'. iterations G run e h e' \<Longrightarrow> loop_step G run h e' \<noteq> None"
    and less: "\<And>h e' h' e''. iterations G run e h e' \<Longrightarrow> loop_step G run h e' = Some (Again h', e'') \<Longrightarrow> m (cpu e'') < m (cpu e')"
  shows "\<exists>r e1 h1 e2. exec_from G run h e' = Some (r, e2) \<and> iterations G run e h1 e1 \<and> loop_step G run h1 e1 = Some (Done r, e2)"
  using reach
proof (induction "m (cpu e')" arbitrary: h e' rule: less_induct)
  case less
  obtain o' e2 where step: "loop_step G run h e' = Some (o', e2)" using run [OF less.prems] by force
  show ?case
  proof (cases o')
    case (Again h')
    from less.hyps [OF assms(3) iterations.again] less.prems step Again
    show ?thesis by (simp add: exec_from.simps [of G run h e'])
  next
    case (Done r)
    with step have "exec_from G run h e' = Some (r, e2)" by (simp add: exec_from.simps)
    with less.prems step Done show ?thesis by blast
  qed
qed

section \<open>Properties\<close>

text \<open>
  C19: \<open>tb_find\<close> returns the block of the guest address. On an environment that satisfies the
  invariant, with a frontend whose labels are unused, a returned index names a valid block of the
  asked address and flags, whether it comes from the jump cache, the hash table or a new translation;
  no index is returned only when the code buffer is nearly full. The invariant holds again and every
  older block keeps its key, validity and code address.
\<close>

theorem find_returns_guest_block:
  assumes "exec_inv e" "frontend_ok G" "tb_find G pc flags e = Some (r, e')"
  shows "exec_inv e' \<and> keeps_blocks (tb_store (shared e)) (tb_store (shared e')) \<and>
    (case r of
       None \<Rightarrow> remaining (code_buf (shared e')) < MIN_CODE_BUF_REMAINING
     | Some i \<Rightarrow> i < length (ts_tbs (tb_store (shared e'))) \<and> tb_matches pc flags (ts_tbs (tb_store (shared e')) ! i))"
  using wpD [OF find_inv [OF assms(1,2)] assms(3)] by (simp add: found_def)

text \<open>
  C20: chaining is direct and consistent. For existing blocks and a slot below two \<open>tb_add_jump\<close>
  returns; the invariant, and with it the agreement of the recorded edges and the jumps in the code,
  holds again. When the slot has a jump site, the target is valid and the edge is not recorded yet,
  the edge is recorded at both ends and the jump instruction of the site now goes to the target's code.
\<close>

theorem chaining_direct:
  assumes "exec_inv e" "src < length (ts_tbs (tb_store (shared e)))" "dst < length (ts_tbs (tb_store (shared e)))" "slot < 2"
  shows "\<exists>e'. tb_add_jump src slot dst e = Some e' \<and> exec_inv e' \<and> cpu e' = cpu e \<and>
    (\<forall>off. insn_at (tb_store (shared e)) src slot = Some off \<longrightarrow> \<not> invalid (ts_tbs (tb_store (shared e)) ! dst) \<longrightarrow>
       dest (tb_store (shared e)) src slot \<noteq> Some dst \<longrightarrow>
       dest (tb_store (shared e')) src slot = Some dst \<and> (src, slot) \<in> set (incoming (tb_store (shared e')) dst) \<and>
       jump_target (code_buf (shared e')) (unat off) = Some (int (host_offset (ts_tbs (tb_store (shared e)) ! dst))))"
proof -
  obtain e' where run: "tb_add_jump src slot dst e = Some e'" "chained e src slot dst e'"
    by (rule add_jump_total [OF assms])
  from wpD [OF add_jump_inv [OF assms(1,4)] run(1)] run(2) show ?thesis
    unfolding chained_def using run(1) by blast
qed

text \<open>
  C8: the execution loop runs the right code. The environment \<open>ExecEnv::new\<close> makes, over a code buffer
  below two gigabytes, satisfies the invariant. In every state the loop reaches from a state that does,
  for every way the host code may return, the invariant holds again, and the block the next iteration picks, by hint, cache,
  hash table or translation, is a valid block translated for the guest's current address and flags.
\<close>

theorem exec_loop_invariant:
  assumes "exec_inv e" "frontend_ok G" "guest_still G" "iterations G run e h e'"
  shows "(\<forall>g b sh pc c. cb_inv b \<longrightarrow> capacity b < 2 ^ 31 \<longrightarrow> exec_env_new g b = Some (sh, pc) \<longrightarrow>
      exec_inv \<lparr>shared = sh, per_cpu = pc, cpu = c\<rparr>) \<and> exec_inv e' \<and>
    (\<forall>i e''. pick_block G h e' = Some (Some i, e'') \<longrightarrow>
       get_pc G (cpu e'') = get_pc G (cpu e') \<and> i < length (ts_tbs (tb_store (shared e''))) \<and>
       tb_matches (get_pc G (cpu e'')) (get_flags G (cpu e'')) (ts_tbs (tb_store (shared e'')) ! i))"
proof -
  note inv = iterations_inv [OF assms(4,1-3)]
  have "get_pc G (cpu e'') = get_pc G (cpu e') \<and> hint_ok G (Some i) e''" if run: "pick_block G h e' = Some (Some i, e'')" for i e''
    using wpD [OF pick_block_ok [OF inv [THEN conjunct1] inv [THEN conjunct2] assms(2,3)] run]
      wpD [OF pick_block_still [OF assms(3)] run] by simp
  then have "\<forall>i e''. pick_block G h e' = Some (Some i, e'') \<longrightarrow>
       get_pc G (cpu e'') = get_pc G (cpu e') \<and> i < length (ts_tbs (tb_store (shared e''))) \<and>
       tb_matches (get_pc G (cpu e'')) (get_flags G (cpu e'')) (ts_tbs (tb_store (shared e'')) ! i)"
    unfolding hint_ok_def by blast
  moreover have "\<forall>g b sh pc c. cb_inv b \<longrightarrow> capacity b < 2 ^ 31 \<longrightarrow> exec_env_new g b = Some (sh, pc) \<longrightarrow>
      exec_inv \<lparr>shared = sh, per_cpu = pc, cpu = c\<rparr>"
    by (intro allI impI) (rule env_new_inv)
  ultimately show ?thesis using inv [THEN conjunct1] by (intro conjI)
qed

text \<open>
  The loop returns when the guest does. If no iteration the loop reaches panics and a measure of
  the guest state falls with every iteration that asks for another one, \<open>cpu_exec_loop_mt\<close> returns:
  either with an exit code at or above \<open>TB_EXIT_MAX\<close>, or because the code buffer is nearly full, and
  the invariant still holds.
\<close>

lemma exec_loop_returns:
  fixes m :: "'cpu \<Rightarrow> nat"
  assumes "exec_inv e" "frontend_ok G" "guest_still G"
    and "\<And>h e'. iterations G run e h e' \<Longrightarrow> loop_step G run h e' \<noteq> None"
    and "\<And>h e' h' e''. iterations G run e h e' \<Longrightarrow> loop_step G run h e' = Some (Again h', e'') \<Longrightarrow> m (cpu e'') < m (cpu e')"
  shows "\<exists>r e'. cpu_exec_loop_mt G run e = Some (r, e') \<and> exec_inv e' \<and>
    (case r of Exit v \<Rightarrow> TB_EXIT_MAX \<le> v | BufferFull \<Rightarrow> remaining (code_buf (shared e')) < MIN_CODE_BUF_REMAINING)"
proof -
  obtain r e1 h1 e2 where run: "exec_from G run None e = Some (r, e2)" "iterations G run e h1 e1" "loop_step G run h1 e1 = Some (Done r, e2)"
    using exec_terminates [OF iterations.start, of G run e m] assms(4,5) by blast
  have "step_ok G (Done r, e2)"
    using wpD [OF loop_step_ok run(3)] iterations_inv [OF run(2) assms(1-3)] assms(2,3) by blast
  with run(1) show ?thesis by (cases r) (auto simp: cpu_exec_loop_mt_def step_ok_def)
qed

subsection \<open>A loop of two blocks\<close>

text \<open>
  Two translated blocks, at guest addresses 0x1000 and 0x1004; the first leaves through its slot 0 and
  the guest is then at the second, which makes a system call. The guest state is its program counter.
\<close>

definition two_store :: TbStore where
  "two_store = \<lparr>ts_tbs = [(tb_new 0x1000 0 0)\<lparr>host_offset := 0, jmp_insn_offset := [Some 3, None], jmp_reset_offset := [Some 8, None]\<rparr>,
      (tb_new 0x1004 0 0)\<lparr>host_offset := 16\<rparr>], ts_hash = replicate TB_HASH_SIZE None\<rparr>"

definition two_code :: CodeBuffer where
  "two_code = \<lparr>cb_mem = [0x0F, 0x1F, 0, 0xE9, 0, 0, 0, 0] @ replicate 24 0, cb_offset = 24\<rparr>"

definition two_guest :: "u64 GuestCpu" where
  "two_guest = \<lparr>get_pc = (\<lambda>pc. pc), get_flags = (\<lambda>_. 0), gen_code = (\<lambda>_ _ _ _. None)\<rparr>"

definition two_run :: "u64 host_run" where
  "two_run b p pc = (if pc = 0x1000 then (encode_tb_exit 0 TB_EXIT_IDX0, 0x1004) else (EXCP_ECALL, pc))"

definition two_cache :: JumpCache where
  "two_cache = jc_insert 0x1004 1 (jc_insert 0x1000 0 jc_new)"

definition two_env :: "u64 ExecEnv" where
  "two_env = \<lparr>shared = \<lparr>tb_store = two_store, code_buf = two_code, backend = codegen_new, code_gen_start = 0, ir_ctx = context_new\<rparr>,
     per_cpu = \<lparr>jump_cache = two_cache, stats = stats_default\<rparr>, cpu = 0x1000\<rparr>"

lemma two_inv: "exec_inv two_env"
proof -
  have j: "jump_target two_code 3 = Some 8" by code_simp
  have cap: "capacity two_code = 32" by (simp add: two_code_def capacity_def)
  have tbs: "ts_tbs two_store ! 0 = (tb_new 0x1000 0 0)\<lparr>host_offset := 0, jmp_insn_offset := [Some 3, None], jmp_reset_offset := [Some 8, None]\<rparr>"
    "ts_tbs two_store ! Suc 0 = (tb_new 0x1004 0 0)\<lparr>host_offset := 16\<rparr>" "length (ts_tbs two_store) = 2"
    by (simp_all add: two_store_def)
  note d = tbs cap tb_new_def TbJmpState_new_def less_2_cases_iff JUMP_LEN_def
  have "layout_ok two_store two_code" by (auto simp: layout_ok_def block_layout_def sites_apart_def Let_def d)
  then have "chain_inv jump_target two_store two_code" using j by (auto simp: links_ok_def slot_ok_def d)
  moreover have "hash_inv two_store" by (auto simp: hash_inv_def two_store_def bucket_ok_def intro: exI [of _ "[]"])
  moreover have "sites_emitted two_store two_code" by (auto simp: sites_emitted_def d two_code_def)
  moreover have "targets_ok two_store" by (auto simp: targets_ok_def d)
  moreover have "cache_ok 2 two_cache"
    unfolding two_cache_def by (intro cache_ok_insert) (auto simp: cache_ok_def jc_new_def)
  moreover have "cb_inv two_code" by (simp add: cb_inv_def cap) (simp add: two_code_def)
  ultimately show ?thesis by (simp add: exec_inv_def two_env_def tbs)
qed

lemma two_frontend: "frontend_ok two_guest" "guest_still two_guest"
  by (simp_all add: frontend_ok_def guest_still_def two_guest_def)

lemma find_cached:
  assumes "jc_lookup (jump_cache (per_cpu e)) pc = Some i" "i < length (ts_tbs (tb_store (shared e)))"
    "tb_matches pc flags (ts_tbs (tb_store (shared e)) ! i)"
  shows "tb_find G pc flags e = Some (Some i, count (\<lambda>s. s\<lparr>jc_hit := jc_hit s + 1\<rparr>) e)"
  using assms by (simp add: tb_find_def ts_get_def)

lemma two_cached: "jc_lookup two_cache 0x1000 = Some 0" "jc_lookup two_cache 0x1004 = Some 1"
proof -
  have "jc_index 0x1000 = 1024" "jc_index 0x1004 = 1025" by code_simp+
  then show "jc_lookup two_cache 0x1000 = Some 0" "jc_lookup two_cache 0x1004 = Some 1"
    by (simp_all add: two_cache_def jc_lookup_def jc_insert_def jc_new_def TB_JMP_CACHE_SIZE_def)
qed

lemma two_tbs: "ts_tbs two_store ! 0 = (tb_new 0x1000 0 0)\<lparr>host_offset := 0, jmp_insn_offset := [Some 3, None], jmp_reset_offset := [Some 8, None]\<rparr>"
    "ts_tbs two_store ! Suc 0 = (tb_new 0x1004 0 0)\<lparr>host_offset := 16\<rparr>" "length (ts_tbs two_store) = 2" "ts_tbs two_store \<noteq> []"
  by (simp_all add: two_store_def)

lemma two_env_simps: "tb_store (shared two_env) = two_store" "code_buf (shared two_env) = two_code" "jump_cache (per_cpu two_env) = two_cache"
  "cpu two_env = 0x1000" "get_pc two_guest pc = pc" "get_flags two_guest pc = 0"
  by (simp_all add: two_env_def two_guest_def)

lemmas two_simps = two_env_simps two_tbs two_cached tb_matches_def tb_new_def

lemma two_find:
  assumes "tb_store (shared e) = two_store" "jump_cache (per_cpu e) = two_cache"
  shows "tb_find G 0x1000 0 e = Some (Some 0, count (\<lambda>s. s\<lparr>jc_hit := jc_hit s + 1\<rparr>) e)"
    "tb_find G 0x1004 0 e = Some (Some 1, count (\<lambda>s. s\<lparr>jc_hit := jc_hit s + 1\<rparr>) e)"
  by (rule find_cached; simp add: assms two_simps)+

lemma two_ends:
  "\<exists>e1 e2. loop_step two_guest two_run None two_env = Some (Again (Some 1), e1) \<and> cpu e1 = 0x1004 \<and>
     loop_step two_guest two_run (Some 1) e1 = Some (Done (Exit EXCP_ECALL), e2)"
proof -
  have d: "decode_tb_exit (encode_tb_exit 0 TB_EXIT_IDX0) = (Some 0, 0)" "decode_tb_exit 3 = (None, 3)" "\<not> (3 :: u64) \<le> 1" by code_simp+
  have p: "ptr_at two_code 0 = Some 0" "capacity two_code = 32" by code_simp+
  let ?e0 = "count (\<lambda>s. s\<lparr>chain_exit := (chain_exit s)[0 := chain_exit s ! 0 + 1]\<rparr>) ((count (\<lambda>s. s\<lparr>jc_hit := jc_hit s + 1\<rparr>) (count (\<lambda>s. s\<lparr>loop_iters := loop_iters s + 1\<rparr>) two_env))\<lparr>cpu := 0x1004\<rparr>)"
  let ?e = "count (\<lambda>s. s\<lparr>jc_hit := jc_hit s + 1\<rparr>) ?e0"
  have s: "tb_store (shared ?e0) = two_store" "jump_cache (per_cpu ?e0) = two_cache" "cpu ?e0 = 0x1004" "cpu ?e = 0x1004" "shared ?e = shared two_env"
    by (simp_all add: count_def two_env_simps)
  have e: "exec_inv ?e" using two_inv by simp
  obtain e1 where add: "tb_add_jump 0 0 1 ?e = Some e1"
    by (rule add_jump_total [OF e, of 0 1 0]) (simp_all add: s two_simps)
  have keep: "keeps_blocks two_store (tb_store (shared e1))" "cpu e1 = 0x1004"
    using wpD [OF add_jump_inv [OF e] add] s by (simp_all add: two_env_simps)
  have first: "loop_step two_guest two_run None two_env = Some (Again (Some 1), e1)"
    using add
    by (simp add: loop_step_def pick_block_def find_next_def two_simps two_find cpu_tb_exec_def ts_get_def p two_run_def d chain_to_next_def s)
  have len: "1 < length (ts_tbs (tb_store (shared e1)))" using keep(1) by (simp add: keeps_blocks_def two_tbs)
  have "chain_inv jump_target (tb_store (shared e1)) (code_buf (shared e1))"
    using wpD [OF add_jump_inv [OF e] add] by (simp add: exec_inv_def)
  then have "host_offset (ts_tbs (tb_store (shared e1)) ! 1) \<le> capacity (code_buf (shared e1))"
    using len by (auto simp: links_ok_def layout_ok_def block_layout_def Let_def)
  then have "\<exists>e2. loop_step two_guest two_run (Some 1) e1 = Some (Done (Exit EXCP_ECALL), e2)"
    using len keep(2)
    by (simp add: loop_step_def pick_block_def cpu_tb_exec_def ts_get_def ptr_at_def two_run_def d TB_EXIT_NOCHAIN_def EXCP_ECALL_def TB_EXIT_MAX_def)
  with first keep(2) show ?thesis by blast
qed

theorem find_returns_guest_block_witness:
  "\<exists>e'. tb_find two_guest 0x1004 0 two_env = Some (Some 1, e') \<and> exec_inv e' \<and> tb_matches 0x1004 0 (ts_tbs (tb_store (shared e')) ! 1)"
  using find_returns_guest_block [OF two_inv two_frontend(1) two_find(2)] two_find(2) [of two_env] by (simp add: two_env_simps)

theorem chaining_direct_witness:
  "\<exists>e'. tb_add_jump 0 0 1 two_env = Some e' \<and> exec_inv e' \<and> jump_target (code_buf (shared e')) 3 = Some 16"
  using chaining_direct [OF two_inv, of 0 1 0] by (simp add: two_simps TbJmpState_new_def) blast

theorem exec_loop_invariant_witness:
  "\<exists>e. iterations two_guest two_run two_env (Some 1) e \<and> exec_inv e"
proof -
  obtain e where "loop_step two_guest two_run None two_env = Some (Again (Some 1), e)" using two_ends by blast
  then have "iterations two_guest two_run two_env (Some 1) e" by (rule iterations.again [OF iterations.start])
  with exec_loop_invariant [OF two_inv two_frontend this] show ?thesis by (intro exI conjI; elim conjE) assumption+
qed

end
