(* ===== verification/Riscv_Guest.thy ===== *)
theory Riscv_Guest
  imports Riscv_Built Riscv_Tables ExecLoop_Inv
begin

text \<open>
  The user-mode guest: translation of any guest code returns, with a well-formed block that ends in an
  exit, and the guest meets the contract the execution loop has with its frontend.
\<close>

section \<open>Registering and translating\<close>

text \<open>\<open>new_global\<close> and \<open>register_gprs\<close> on a context that has grown by \<open>n\<close> globals.\<close>

lemma tw_new_global:
  assumes "grew n c x" "length (temps c) + n + 1 < 2 ^ 32" "\<And>t y. grew (n + 1) c y \<Longrightarrow> tw (g t y) Q"
  shows "tw (new_global I64 b off name x \<bind> (\<lambda>(t, y). g t y)) Q"
proof -
  have "nb_globals x = of_nat (length (temps x))" "length (temps x) + 1 < 2 ^ 32" using assms(1,2) by (simp_all add: grew_def)
  note new = new_global_grew(1) [OF this, of I64 b off name]
  show ?thesis by (rule tw_bind, rule tw_mono [OF new]) (use assms(3) [OF grew_trans [OF assms(1)]] in auto)
qed

lemma tw_register_gprs:
  assumes "grew n c x" "length (temps c) + n + NUM_GPRS < 2 ^ 32" "NUM_GPRS \<le> length (d_gpr e)"
    "\<And>e' y. length (d_gpr e') = length (d_gpr e) \<Longrightarrow> grew (n + NUM_GPRS) c y \<Longrightarrow> tw (g e' y) Q"
  shows "tw (register_gprs NUM_GPRS e x \<bind> (\<lambda>(e, y). g e y)) Q"
proof -
  have "nb_globals x = of_nat (length (temps x))" "length (temps x) + NUM_GPRS < 2 ^ 32" using assms(1,2) by (simp_all add: grew_def)
  note regs = register_gprs_grew [OF this assms(3)]
  show ?thesis by (rule tw_bind, rule tw_mono [OF regs]) (use assms(4) [OF _ grew_trans [OF assms(1)]] in auto)
qed

lemma init_grew:
  assumes "nb_globals ir = of_nat (length (temps ir))" "length (temps ir) + 36 < 2 ^ 32" "length (d_gpr d) = 32"
  shows "tw (rv_init_disas_context d ir) (\<lambda>(d', ir'). length (d_gpr d') = 32 \<and> grew 36 ir ir')"
proof -
  have "length (temps ir) + 1 < 2 ^ 32" using assms(2) by simp
  note env = new_global_grew(2) [OF assms(1) this, of I64 5 "''env''"]
  have n: "NUM_GPRS = 32" by (simp add: NUM_GPRS_def)
  show ?thesis
    unfolding rv_init_disas_context_def bind.bind_lunit
    apply (rule tw_bind, rule tw_mono [OF env], clarsimp)
    apply (rule tw_register_gprs [where n = 1 and c = ir], simp)
      apply (use assms(2,3) n in simp, use assms(3) n in simp)
    apply (rule tw_new_global, assumption, use assms(2) n in simp)+
    apply (use assms(3) in \<open>simp add: tw_def NUM_GPRS_def\<close>)
    done
qed

text \<open>Builder methods never name a use of a label.\<close>

definition unused :: "Context \<Rightarrow> bool" where
  "unused c \<longleftrightarrow> (\<forall>l \<in> set (labels c). l_uses l = [])"

lemma builder_unused: "builder_step c c' \<Longrightarrow> unused c \<Longrightarrow> unused c'"
  using builder_step_kind [of c c']
  by (auto simp: unused_def IR_Builder.op_step_def push_op_def new_temp_def new_temp_tb_def new_const_def new_label_def label_new_def Let_def
      split: option.splits)

lemma B_unused: "B c c' \<Longrightarrow> unused c \<Longrightarrow> unused c'"
  unfolding B_def by (induction rule: rtranclp_induct) (auto intro: builder_unused)

text \<open>A block from a context whose globals are registered.\<close>

lemma block_builds:
  assumes "program_ok P" "length (d_gpr d) = 32" "is_jmp (d_base d) = DNext" "num_insns (d_base d) = 0"
  shows "tw (insn_loop (RiscvTranslator P) d ir \<bind> (\<lambda>(d, ir). tb_stop (RiscvTranslator P) d ir))
    (\<lambda>(d', ir'). (stopped 0 d d' ir' \<and> ends ir') \<and> B ir ir')"
proof -
  have "unat (num_insns (d_base d)) + 1 < 2 ^ 32" "B ir ir" using assms(4) by (simp_all add: B_def)
  note loop = insn_loop_builds [OF assms(1,2) this(2,1) assms(3)]
  have stop: "tb_stop (RiscvTranslator P) = rv_tb_stop" by (simp add: RiscvTranslator_def)
  show ?thesis
    unfolding stop by (rule tw_bind_step [OF loop], rule tw_mono [OF tb_stop_builds]) (use assms(4) in \<open>auto simp: stopped_def\<close>)
qed

text \<open>What a translated block is, given the context it was started on.\<close>

definition block_built :: "u32 \<Rightarrow> Context \<Rightarrow> u32 \<times> Context \<times> LinuxCpu \<Rightarrow> LinuxCpu \<Rightarrow> bool" where
  "block_built mx ir r lc \<longleftrightarrow> (case r of (sz, ir', lc') \<Rightarrow>
     (\<exists>n. sz = n * 4 \<and> 0 < unat n \<and> unat n \<le> max 1 (unat mx)) \<and> lc' = lc \<and>
     ops ir' \<noteq> [] \<and> o_opc (last (ops ir')) = OCtl ExitTb \<and> (unused ir \<longrightarrow> unused ir') \<and>
     (ctx_inv ir \<longrightarrow> length (temps ir') < 2 ^ 32 \<longrightarrow> length (ops ir') < 2 ^ 32 \<longrightarrow> ctx_inv ir'))"

lemma stopped_max: "b_max_insns (d_base d) = mx \<Longrightarrow> stopped 0 d d' ir' \<Longrightarrow>
    0 < unat (num_insns (d_base d')) \<and> unat (num_insns (d_base d')) \<le> max 1 (unat mx)"
  by (simp add: stopped_def)

lemma built_from:
  assumes "stopped 0 d d' ir'" "ends ir'" "B x ir'" "b_max_insns (d_base d) = mx"
    "unused ir \<longrightarrow> unused x" "ctx_inv ir \<longrightarrow> ctx_inv x"
  shows "block_built mx ir (num_insns (d_base d') * 4, ir', lc) lc"
  using stopped_max [OF assms(4,1)] assms(2,3,5,6) B_unused [OF assms(3)] ctx_inv_steps [of x ir']
  unfolding block_built_def B_def ends_def by auto

lemma gen_code_built:
  assumes P: "program_ok P" and ir: "nb_globals ir = 0 \<longrightarrow> temps ir = []"
  shows "tw (linux_gen_code P ir pc mx lc) (\<lambda>r. block_built mx ir r lc)"
proof -
  let ?d = "set_base (\<lambda>b. b\<lparr>b_max_insns := mx\<rparr>) (disas_new pc (c_guest_base (l_cpu lc)) (l_cfg lc))"
  have d: "length (d_gpr ?d) = 32" "is_jmp (d_base ?d) = DNext" "num_insns (d_base ?d) = 0" "b_max_insns (d_base ?d) = mx"
    by (simp_all add: set_base_def disas_new_def NUM_GPRS_def)
  have ops: "tb_start (RiscvTranslator P) = (\<lambda>d ir. Some (d, ir))" "init_disas_context (RiscvTranslator P) = rv_init_disas_context"
    by (simp_all add: RiscvTranslator_def)
  have block: "tw ((insn_loop (RiscvTranslator P) e x \<bind> (\<lambda>(d, ir). tb_stop (RiscvTranslator P) d ir)) \<bind>
      (\<lambda>(d, ir). Some (num_insns (d_base d) * 4, ir, lc))) (\<lambda>r. block_built mx ir r lc)"
    if "length (d_gpr e) = 32" "d_base e = d_base ?d" "unused ir \<longrightarrow> unused x" "ctx_inv ir \<longrightarrow> ctx_inv x" for e x
  proof -
    have e: "is_jmp (d_base e) = DNext" "num_insns (d_base e) = 0" "b_max_insns (d_base e) = mx" using that(2) d by simp_all
    show ?thesis
      by (rule tw_bind_step [OF block_builds [OF P that(1) e(1,2)]]) (use built_from [OF _ _ _ e(3) that(3,4)] in \<open>auto simp: tw_def\<close>)
  qed
  show ?thesis
  proof (cases "nb_globals ir = 0")
    case True
    then have "nb_globals ir = of_nat (length (temps ir))" "length (temps ir) + 36 < 2 ^ 32" using ir by simp_all
    from init_grew [OF this d(1)] obtain e x where e: "rv_init_disas_context ?d ir = Some (e, x)" "length (d_gpr e) = 32" "grew 36 ir x"
      by (auto simp: tw_def)
    have "unused ir \<longrightarrow> unused x" "ctx_inv ir \<longrightarrow> ctx_inv x" using e(3) by (auto simp: grew_def unused_def)
    moreover have "d_base e = d_base ?d" using init_registered [OF e(1)] by (simp add: registered_def)
    ultimately show ?thesis using block [OF e(2)] True e(1) by (simp add: linux_gen_code_def translator_loop_def ops)
  next
    case False
    have "d_base (known_globals ?d) = d_base ?d" "length (d_gpr (known_globals ?d)) = 32" by (simp_all add: known_globals_def NUM_GPRS_def)
    then show ?thesis using block [of "known_globals ?d" ir] False by (simp add: linux_gen_code_def ops)
  qed
qed

text \<open>Whatever the context, a block that is returned has unused labels if the context had none.\<close>

lemma gen_code_unused:
  assumes P: "program_ok P" and run: "linux_gen_code P ir pc mx lc = Some (sz, ir', lc')"
  shows "lc' = lc \<and> (unused ir \<longrightarrow> unused ir')"
proof -
  let ?d = "set_base (\<lambda>b. b\<lparr>b_max_insns := mx\<rparr>) (disas_new pc (c_guest_base (l_cpu lc)) (l_cfg lc))"
  have d: "length (d_gpr ?d) = 32" "is_jmp (d_base ?d) = DNext" "num_insns (d_base ?d) = 0"
    by (simp_all add: set_base_def disas_new_def NUM_GPRS_def)
  have ops: "tb_start (RiscvTranslator P) = (\<lambda>d ir. Some (d, ir))" "init_disas_context (RiscvTranslator P) = rv_init_disas_context"
    by (simp_all add: RiscvTranslator_def)
  obtain e x d' where e: "(insn_loop (RiscvTranslator P) e x \<bind> (\<lambda>(d, ir). tb_stop (RiscvTranslator P) d ir)) = Some (d', ir')"
    "length (d_gpr e) = 32" "d_base e = d_base ?d" "labels x = labels ir" and lc: "lc' = lc"
  proof (cases "nb_globals ir = 0")
    case True
    with run obtain e x d' where "rv_init_disas_context ?d ir = Some (e, x)" "lc' = lc"
      "(insn_loop (RiscvTranslator P) e x \<bind> (\<lambda>(d, ir). tb_stop (RiscvTranslator P) d ir)) = Some (d', ir')"
      by (auto simp: linux_gen_code_def translator_loop_def ops bind_eq_Some_conv)
    then show ?thesis using that init_registered d(1) by (fastforce simp: registered_def)
  next
    case False
    with run obtain d' where "lc' = lc"
      "(insn_loop (RiscvTranslator P) (known_globals ?d) ir \<bind> (\<lambda>(d, ir). tb_stop (RiscvTranslator P) d ir)) = Some (d', ir')"
      by (auto simp: linux_gen_code_def ops bind_eq_Some_conv)
    moreover have "length (d_gpr (known_globals ?d)) = 32" "d_base (known_globals ?d) = d_base ?d" by (simp_all add: known_globals_def NUM_GPRS_def)
    ultimately show ?thesis using that by blast
  qed
  have "B x ir'" using block_builds [OF P e(2), of x] e(1,3) d by (simp add: tw_def)
  then show ?thesis using lc B_unused [of x ir'] e(4) by (simp add: unused_def)
qed

section \<open>The contract with the execution loop\<close>

text \<open>
  The execution loop relies on its frontend for two things: a context without labels is returned with
  unused labels only, and translating does not move the guest.
\<close>

locale guest_frontend =
  fixes G :: "'cpu GuestCpu"
  assumes labels_unused: "frontend_ok G"
    and not_moved: "guest_still G"
begin

lemma step_keeps_invariant:
  assumes "exec_inv e" "hint_ok G h e" "loop_step G run h e = Some (r, e')"
  shows "exec_inv e' \<and> (\<forall>h'. r = Again h' \<longrightarrow> hint_ok G h' e')"
  using wpD [OF loop_step_ok [OF assms(1,2) labels_unused not_moved] assms(3)] by (auto simp: step_ok_def split: outcome.splits)

lemma picks_valid_block:
  assumes "exec_inv e'" "hint_ok G h e'" "pick_block G h e' = Some (Some i, e'')"
  shows "exec_inv e'' \<and> i < length (ts_tbs (tb_store (shared e''))) \<and> get_pc G (cpu e'') = get_pc G (cpu e') \<and>
    tb_matches (get_pc G (cpu e'')) (get_flags G (cpu e'')) (ts_tbs (tb_store (shared e'')) ! i)"
proof -
  note pick = pick_block_ok [OF assms(1,2) labels_unused not_moved]
  show ?thesis using wpD [OF pick assms(3)] wpD [OF pick_block_still [OF not_moved] assms(3)] by (simp add: hint_ok_def)
qed

end

lemma linux_guest_contract:
  assumes "program_ok P"
  shows "frontend_ok (linux_guest P)" "guest_still (linux_guest P)"
  unfolding frontend_ok_def guest_still_def linux_guest_def
  by (auto simp: unused_def dest: gen_code_unused [OF assms])

definition riscv_program :: "(fpu_helper \<Rightarrow> u64) \<Rightarrow> host_mem \<Rightarrow> Program" where
  "riscv_program H m = \<lparr>helpers = H, ps32 = insn32_table, ps16 = insn16_table, host_memory = m\<rparr>"

lemma riscv_program_ok: "program_ok (riscv_program H m)"
  using decoder_ok_check [OF insn32_check] decoder_ok_check [OF insn16_check] by (simp add: program_ok_def riscv_program_def)

interpretation user_mode: guest_frontend "linux_guest (riscv_program H m)" for H m
  by unfold_locales (rule linux_guest_contract [OF riscv_program_ok])+

section \<open>Properties\<close>

text \<open>
  C10: translation always returns. With the decoders built from the two decode files, whatever the guest's
  memory holds and whatever address and limit are asked for, \<open>gen_code\<close> of the user-mode guest comes back
  without a panic on a context whose globals are either all registered or not yet (then there are no
  temps): it has translated at least one and at most \<open>max_insns\<close> instructions, left the CPU alone, ended
  the block with an \<open>ExitTb\<close>, used no label twice, and kept the context's invariant while the 32-bit
  indices last.
\<close>

theorem translation_returns:
  assumes "nb_globals ir = 0 \<longrightarrow> temps ir = []"
  shows "\<exists>n ir'. linux_gen_code (riscv_program H m) ir pc mx lc = Some (n * 4, ir', lc) \<and>
    0 < unat n \<and> unat n \<le> max 1 (unat mx) \<and> ops ir' \<noteq> [] \<and> o_opc (last (ops ir')) = OCtl ExitTb \<and>
    (labels ir = [] \<longrightarrow> (\<forall>l \<in> set (labels ir'). l_uses l = [])) \<and>
    (ctx_inv ir \<longrightarrow> length (temps ir') < 2 ^ 32 \<longrightarrow> length (ops ir') < 2 ^ 32 \<longrightarrow> ctx_inv ir')"
  using gen_code_built [OF riscv_program_ok assms, of H m pc mx lc] by (fastforce simp: tw_def block_built_def unused_def)

theorem translation_returns_witness:
  "\<exists>n ir'. linux_gen_code (riscv_program (\<lambda>_. 0) (\<lambda>_. 0x13)) context_new 0x1000 8 \<lparr>l_cpu = cpu_new, l_cfg = RV64IMAFDC\<rparr> =
      Some (n * 4, ir', \<lparr>l_cpu = cpu_new, l_cfg = RV64IMAFDC\<rparr>) \<and> unat n \<le> 8 \<and> o_opc (last (ops ir')) = OCtl ExitTb"
proof -
  have "nb_globals context_new = 0 \<longrightarrow> temps context_new = []" by (simp add: context_new_def)
  from translation_returns [OF this, of "\<lambda>_. 0" "\<lambda>_. 0x13" "0x1000" 8 "\<lparr>l_cpu = cpu_new, l_cfg = RV64IMAFDC\<rparr>"] show ?thesis
    by auto
qed

end
