(* ===== verification/Riscv_Arch.thy ===== *)
theory Riscv_Arch
  imports Riscv_Sound Riscv_Guest
begin

text \<open>
  The RV64IM instructions by their names in the decode file: jumps and branches, and the meaning of every
  instruction word the generated decoder accepts.
\<close>

section \<open>Running with jumps\<close>

definition xblock :: "u64 \<Rightarrow> Temp list \<Rightarrow> xop list \<Rightarrow> (u64 \<Rightarrow> u8) ir_state \<Rightarrow> (u64 \<Rightarrow> u8) IR_Semantics.outcome option" where
  "xblock gb ts xs st = run_block 2 (machine gb) ts (map xop_of xs) (map xop_of xs) st"

definition starts :: "u32 \<Rightarrow> xop \<Rightarrow> bool" where
  "starts l x \<longleftrightarrow> o_opc (xop_of x) = OCtl SetLabel \<and> o_args (xop_of x) ! 0 = l"

lemma starts_simps [simp]:
  "starts l (opc, ty, t # args) \<longleftrightarrow> opc = OCtl SetLabel \<and> t = l"
  by (simp add: starts_def arg_defs)

lemma xblock_eq:
  "xblock gb ts xs st = (case xrun gb ts xs st of
     Jump l st' \<Rightarrow> (case dropWhile (Not \<circ> starts l) xs of [] \<Rightarrow> None | ys \<Rightarrow> (case xrun gb ts ys st' of Jump _ _ \<Rightarrow> None | r \<Rightarrow> Some r))
   | r \<Rightarrow> Some r)"
proof -
  have one: "run_block (Suc 0) (machine gb) ts prog os st' = (case exec_ops (machine gb) ts os st' of Jump _ _ \<Rightarrow> None | r \<Rightarrow> Some r)" for prog os st'
    by (simp split: IR_Semantics.outcome.split list.split)
  have found: "dropWhile (\<lambda>op. \<not> (o_opc op = OCtl SetLabel \<and> o_args op ! 0 = l)) (map xop_of xs) = map xop_of (dropWhile (Not \<circ> starts l) xs)" for l
    unfolding dropWhile_map comp_def starts_def ..
  have two: "2 = Suc (Suc 0)" by simp
  have at: "(case map xop_of ys of [] \<Rightarrow> None | y # us \<Rightarrow> (case exec_ops (machine gb) ts (y # us) st' of Jump _ _ \<Rightarrow> None | r \<Rightarrow> Some r)) =
      (case ys of [] \<Rightarrow> None | y # us \<Rightarrow> (case exec_ops (machine gb) ts (map xop_of (y # us)) st' of Jump _ _ \<Rightarrow> None | r \<Rightarrow> Some r))" for ys st'
    by (cases ys) simp_all
  show ?thesis unfolding xblock_def xrun_def two run_block.simps(2) [of "Suc 0"] one found at ..
qed

lemma same_op_eqs: "same_op op x \<Longrightarrow> o_opc op = o_opc (xop_of x) \<and> o_args op = o_args (xop_of x)"
  by (auto simp: same_op_def)

lemma dropWhile_same:
  assumes "list_all2 same_op os xs"
  shows "list_all2 same_op (dropWhile (\<lambda>op. \<not> (o_opc op = OCtl SetLabel \<and> o_args op ! 0 = l)) os)
    (dropWhile (\<lambda>x. \<not> (o_opc (xop_of x) = OCtl SetLabel \<and> o_args (xop_of x) ! 0 = l)) xs)"
  using assms by (induction rule: list_all2_induct) (auto dest: same_op_eqs)

lemma jump_same:
  "list_all2 same_op ys zs \<Longrightarrow> R ys = S (map xop_of zs) \<Longrightarrow>
     (case ys of [] \<Rightarrow> None | y # us \<Rightarrow> R (y # us)) = (case map xop_of zs of [] \<Rightarrow> None | y # us \<Rightarrow> S (y # us))"
  by (cases ys; cases zs) auto

lemma run_same:
  assumes "list_all2 same_op prog xprog"
  shows "list_all2 same_op os xs \<Longrightarrow> run_block n (machine gb) ts prog os st = run_block n (machine gb) ts (map xop_of xprog) (map xop_of xs) st"
proof (induction n arbitrary: os xs st)
  case (Suc n)
  let ?at = "\<lambda>l op. \<not> (o_opc op = OCtl SetLabel \<and> o_args op ! 0 = l)"
  have same: "run_block n (machine gb) ts prog ys st' = run_block n (machine gb) ts (map xop_of xprog) (map xop_of zs) st'"
      if "list_all2 same_op ys zs" for ys zs st' using that by (rule Suc.IH)
  have "(case dropWhile (?at l) prog of [] \<Rightarrow> None | y # ys \<Rightarrow> run_block n (machine gb) ts prog (y # ys) st') =
      (case map xop_of (dropWhile (\<lambda>x. ?at l (xop_of x)) xprog) of [] \<Rightarrow> None | y # ys \<Rightarrow> run_block n (machine gb) ts (map xop_of xprog) (y # ys) st')"
    for l st' by (rule jump_same [OF dropWhile_same [OF assms]]) (rule same [OF dropWhile_same [OF assms]])
  then have jump: "(case dropWhile (?at l) prog of [] \<Rightarrow> None | y # ys \<Rightarrow> run_block n (machine gb) ts prog (y # ys) st') =
      (case dropWhile (?at l) (map xop_of xprog) of [] \<Rightarrow> None | y # ys \<Rightarrow> run_block n (machine gb) ts (map xop_of xprog) (y # ys) st')" for l st'
    by (simp only: dropWhile_map comp_def)
  have "exec_ops (machine gb) ts os st = exec_ops (machine gb) ts (map xop_of xs) st"
    using exec_same [OF Suc.prems] by (simp add: xrun_def)
  then show ?case by (simp only: run_block.simps jump)
qed simp

text \<open>The effect of an instruction that ends the block.\<close>

definition leaves :: "Context \<Rightarrow> Context \<Rightarrow> (u64 \<Rightarrow> (u64 \<Rightarrow> u8) ir_state \<Rightarrow> (u64 \<Rightarrow> u8) IR_Semantics.outcome option \<Rightarrow> bool) \<Rightarrow> bool" where
  "leaves c0 c F \<longleftrightarrow> (\<exists>os zs. ops c = ops c0 @ os \<and> temps c = temps c0 @ zs \<and>
     (\<forall>gb ys st. F gb st (run_block 2 (machine gb) (temps c @ ys) os os st)))"

text \<open>It leaves with value \<open>v\<close>, the guest's pc at \<open>target\<close> and register \<open>r\<close> set.\<close>

definition goes_to :: "RiscvDisasContext \<Rightarrow> u64 \<Rightarrow> u64 \<Rightarrow> i64 \<Rightarrow> u64 \<Rightarrow> (u64 \<Rightarrow> u8) ir_state \<Rightarrow> (u64 \<Rightarrow> u8) IR_Semantics.outcome option \<Rightarrow> bool" where
  "goes_to d v target r w st o' \<longleftrightarrow> (\<exists>st'. o' = Some (IR_Semantics.Exit v st') \<and> mem st' = mem st \<and> tv st' (d_pc d) = target \<and>
     (\<forall>i. reg_num i \<longrightarrow> greg d (tv st') i = (if i = r \<and> r \<noteq> 0 then w else greg d (tv st) i)))"

lemma built_leaves:
  assumes "built d c0 c n fs xs"
    "\<And>gb ts st. glob_ok d ts \<Longrightarrow> list_all (means d ts) fs \<Longrightarrow> differ (tmps fs) \<Longrightarrow> F gb st (xblock gb ts xs st)"
  shows "leaves c0 c F"
proof -
  obtain os zs where b: "ops c = ops c0 @ os" "temps c = temps c0 @ zs" "list_all2 same_op os xs" "knows d (temps c) fs"
    using assms(1) unfolding built_def by blast
  have k: "knows d (temps c @ ys) fs" for ys using b(4) by (rule knows_ext)
  have "run_block 2 (machine gb) ts os os st = xblock gb ts xs st" for gb ts st unfolding xblock_def by (rule run_same [OF b(3) b(3)])
  moreover have "F gb st (xblock gb (temps c @ ys) xs st)" for gb ys st
    using assms(2) knows_means [OF k] k unfolding knows_def by blast
  ultimately show ?thesis using b unfolding leaves_def by metis
qed

lemma pc_write:
  assumes "glob_ok d ts"
  shows "wr ts (d_pc d) v st = st\<lparr>tv := (tv st)(d_pc d := v)\<rparr>" "reg_num i \<Longrightarrow> greg d (f(d_pc d := v)) i = greg d f i"
proof -
  show "wr ts (d_pc d) v st = st\<lparr>tv := (tv st)(d_pc d := v)\<rparr>" using assms by (simp add: glob_ok_def wr_def)
  assume "reg_num i"
  then have "d_gpr d ! unat i \<in> set (d_gpr d)" by (rule gpr_global(1) [OF assms])
  then have "d_gpr d ! unat i \<noteq> d_pc d" using assms by (auto simp: glob_ok_def)
  then show "greg d (f(d_pc d := v)) i = greg d f i" by (simp add: greg_def)
qed

lemma s_label:
  assumes "built d c0 c n fs xs" "\<And>l c'. built d c0 c' n fs xs \<Longrightarrow> tw (g l c') Q"
  shows "tw (emit new_label c \<bind> (\<lambda>(l, c). g l c)) Q"
proof -
  obtain l c' where l: "run_state new_label c = (l, c')" by (cases "run_state new_label c")
  then have "temps c' = temps c" "ops c' = ops c" "const_table c' = const_table c" by (auto simp: new_label_def Let_def)
  then have "built d c0 c' n fs xs" using assms(1) by (simp add: built_def consts_ok_def)
  then show ?thesis using assms(2) l by (simp add: emit_def)
qed

section \<open>Branches\<close>

definition ends_with :: "RiscvDisasContext \<Rightarrow> Context \<Rightarrow> (u64 \<Rightarrow> (u64 \<Rightarrow> u8) ir_state \<Rightarrow> (u64 \<Rightarrow> u8) IR_Semantics.outcome option \<Rightarrow> bool) \<Rightarrow>
    (bool \<times> RiscvDisasContext \<times> Context) option \<Rightarrow> bool" where
  "ends_with d c F r \<longleftrightarrow> tw r (\<lambda>(ok, d', c'). ok \<and> d' = end_block d \<and> leaves c c' F)"

lemma ends_with_end: "leaves c c' F \<Longrightarrow> tw (Some (True, end_block d, c')) (\<lambda>(ok, d', c'). ok \<and> d' = end_block d \<and> leaves c c' F)"
  by (simp add: tw_def)

lemma ctl_emits:
  "emits (gen_brcond I64 x y k l) (OCtl BrCond) I64 [x, y, carg (cond_as_u32 k), carg l] ()"
  "emits (gen_mov I64 t x) (OMov Mov) I64 [t, x] t"
  "emits (gen_goto_tb v) (OCtl GotoTb) I64 [carg v] ()"
  "emits (gen_exit_tb w) (OCtl ExitTb) I64 [carg (ucast w)] ()"
  "emits (gen_set_label l) (OCtl SetLabel) I64 [carg l] ()"
  by (rule emits_gen)+

lemma exit_values:
  "ucast (carg (ucast TB_EXIT_IDX0)) = TB_EXIT_IDX0" "ucast (carg (ucast TB_EXIT_IDX1)) = TB_EXIT_IDX1"
  "ucast (carg (ucast TB_EXIT_NOCHAIN)) = TB_EXIT_NOCHAIN" "ucast (carg (ucast EXCP_ECALL)) = EXCP_ECALL" "ucast (carg (ucast EXCP_EBREAK)) = EXCP_EBREAK"
  by (simp_all add: carg_def TB_EXIT_IDX0_def TB_EXIT_IDX1_def TB_EXIT_NOCHAIN_def TB_EXIT_MAX_def EXCP_ECALL_def EXCP_EBREAK_def)

lemma branch_sound:
  assumes c: "ready d c" and r: "reg_num (b_rs1 a)" "reg_num (b_rs2 a)"
  shows "tw (gen_branch d a k c) (\<lambda>(d', c'). d' = end_block d \<and> leaves c c' (\<lambda>gb st.
    if cond_holds k (greg d (tv st) (b_rs1 a)) (greg d (tv st) (b_rs2 a))
    then goes_to d TB_EXIT_IDX1 (pc_next (d_base d) + b_imm a) 0 0 st
    else goes_to d TB_EXIT_IDX0 (pc_next (d_base d) + ucast (d_cur_insn_len d)) 0 0 st))"
proof -
  show ?thesis
    unfolding gen_branch_def Let_def
    apply (rule s_opd [OF ready_built [OF c] r(1)], simp, erule s_opd [OF _ r(2)], simp, erule s_label)
    apply (erule s_op [OF ctl_emits(1)], erule s_const, simp, erule s_op [OF ctl_emits(2)])
    apply (erule s_op [OF ctl_emits(3)], erule s_op [OF ctl_emits(4)], erule s_op [OF ctl_emits(5)])
    apply (erule s_const, simp, erule s_op [OF ctl_emits(2)], erule s_op [OF ctl_emits(3)], erule s_op [OF ctl_emits(4)])
    apply (rule tw_Some, simp, erule built_leaves)
    apply (simp add: xblock_eq x_ctl x_arith cond_at_def)
    apply (simp add: goes_to_def pc_write exit_values)
    done
qed

section \<open>Jumps and traps\<close>

lemma xrun_link:
  assumes "glob_ok d ts" "reg_num r"
  shows "xrun gb ts (set_gpr (OMov Mov) d r t @ ys) st =
    xrun gb ts ys (if r = 0 then st else st\<lparr>tv := (tv st)(d_gpr d ! unat r := rd ts st t)\<rparr>)"
proof -
  have "wr ts (d_gpr d ! unat r) v st = st\<lparr>tv := (tv st)(d_gpr d ! unat r := v)\<rparr>" for v
    using gpr_global(3) [OF assms] by (simp add: wr_def)
  then show ?thesis by (simp add: set_gpr_def x_arith)
qed

lemma jump_sound:
  assumes c: "ready d c"
  shows "reg_num (j_rd a) \<Longrightarrow> ends_with d c (\<lambda>gb st. goes_to d TB_EXIT_IDX0 (pc_next (d_base d) + j_imm a)
      (j_rd a) (pc_next (d_base d) + ucast (d_cur_insn_len d)) st) (trans_jal d a c)"
    "reg_num (i_rd b) \<Longrightarrow> reg_num (i_rs1 b) \<Longrightarrow>
      ends_with d c (\<lambda>gb st. goes_to d TB_EXIT_NOCHAIN ((greg d (tv st) (i_rs1 b) + i_imm b) AND NOT 1)
      (i_rd b) (pc_next (d_base d) + ucast (d_cur_insn_len d)) st) (trans_jalr d b c)"
    "ends_with d c (\<lambda>gb st. goes_to d EXCP_ECALL (pc_next (d_base d)) 0 0 st) (trans_ecall d c)"
    "ends_with d c (\<lambda>gb st. goes_to d EXCP_EBREAK (pc_next (d_base d)) 0 0 st) (trans_ebreak d c)"
proof -
  note e = ctl_emits
  have e': "emits (gen_add I64 t x y) (OArith Add) I64 [t, x, y] t" "emits (gen_and I64 t x y) (OLogic And) I64 [t, x, y] t" for t x y by (rule emits_gen)+
  show "ends_with d c (\<lambda>gb st. goes_to d TB_EXIT_IDX0 (pc_next (d_base d) + j_imm a)
      (j_rd a) (pc_next (d_base d) + ucast (d_cur_insn_len d)) st) (trans_jal d a c)" if r: "reg_num (j_rd a)"
    unfolding ends_with_def trans_jal_def Let_def
    apply (rule s_const [OF ready_built [OF c]], simp, erule s_set_gpr(1) [OF _ r], erule s_const, simp)
    apply (erule s_op [OF e(2)], erule s_op [OF e(3)], erule s_op [OF e(4)], rule ends_with_end, erule built_leaves)
    apply (simp add: xblock_eq xrun_link r x_ctl x_arith)
    apply (simp add: goes_to_def pc_write exit_values greg_write r)
    done
  show "ends_with d c (\<lambda>gb st. goes_to d TB_EXIT_NOCHAIN ((greg d (tv st) (i_rs1 b) + i_imm b) AND NOT 1)
      (i_rd b) (pc_next (d_base d) + ucast (d_cur_insn_len d)) st) (trans_jalr d b c)" if r: "reg_num (i_rd b)" "reg_num (i_rs1 b)"
    unfolding ends_with_def trans_jalr_def Let_def
    apply (rule s_opd [OF ready_built [OF c] r(2)], simp, erule s_const, simp, erule s_temp, simp, erule s_op [OF e'(1)])
    apply (erule s_const, simp, erule s_op [OF e'(2)], erule s_const, simp, erule s_set_gpr(1) [OF _ r(1)])
    apply (erule s_op [OF e(2)], erule s_op [OF e(4)], rule ends_with_end, erule built_leaves)
    apply (simp add: xblock_eq xrun_link r x_ctl x_arith)
    apply (simp add: goes_to_def pc_write exit_values greg_write r)
    done
  show "ends_with d c (\<lambda>gb st. goes_to d EXCP_ECALL (pc_next (d_base d)) 0 0 st) (trans_ecall d c)"
    unfolding ends_with_def trans_ecall_def
    by (rule s_const [OF ready_built [OF c]], simp, erule s_op [OF e(2)], erule s_op [OF e(4)], rule ends_with_end, erule built_leaves)
      (simp add: xblock_eq x_ctl x_arith goes_to_def pc_write exit_values)
  show "ends_with d c (\<lambda>gb st. goes_to d EXCP_EBREAK (pc_next (d_base d)) 0 0 st) (trans_ebreak d c)"
    unfolding ends_with_def trans_ebreak_def
    by (rule s_const [OF ready_built [OF c]], simp, erule s_op [OF e(2)], erule s_op [OF e(4)], rule ends_with_end, erule built_leaves)
      (simp add: xblock_eq x_ctl x_arith goes_to_def pc_write exit_values)
qed

section \<open>The instruction set\<close>

text \<open>
  What the RV64I and RV64M manuals say of the instructions with two source registers, by mnemonic: the value
  of \<open>rd\<close> from those of \<open>rs1\<close> and \<open>rs2\<close>.
\<close>

definition rv_reg :: "(string \<times> (u64 \<Rightarrow> u64 \<Rightarrow> u64)) list" where
  "rv_reg = [
     (''add'', (+)),
     (''sub'', (-)),
     (''sll'', \<lambda>x y. push_bit (unat y mod 64) x),
     (''slt'', \<lambda>x y. of_bool (x <s y)),
     (''sltu'', \<lambda>x y. of_bool (x < y)),
     (''xor'', (XOR)),
     (''srl'', \<lambda>x y. drop_bit (unat y mod 64) x),
     (''sra'', \<lambda>x y. signed_drop_bit (unat y mod 64) x),
     (''or'', (OR)),
     (''and'', (AND)),
     (''addw'', \<lambda>x y. scast (low x + low y)),
     (''subw'', \<lambda>x y. scast (low x - low y)),
     (''sllw'', \<lambda>x y. scast (push_bit (unat (low y) mod 32) (low x))),
     (''srlw'', \<lambda>x y. scast (drop_bit (unat (low y) mod 32) (low x))),
     (''sraw'', \<lambda>x y. scast (signed_drop_bit (unat (low y) mod 32) (low x))),
     (''mul'', (*)),
     (''mulh'', \<lambda>x y. word_of_int (sint x * sint y div 2 ^ 64)),
     (''mulhsu'', \<lambda>x y. word_of_int (sint x * uint y div 2 ^ 64)),
     (''mulhu'', \<lambda>x y. word_of_int (uint x * uint y div 2 ^ 64)),
     (''div'', rv_div),
     (''divu'', rv_divu),
     (''rem'', rv_rem),
     (''remu'', rv_remu),
     (''mulw'', \<lambda>x y. scast (low x * low y)),
     (''divw'', \<lambda>x y. scast (rv_div (low x) (low y))),
     (''divuw'', \<lambda>x y. scast (rv_divu (low x) (low y))),
     (''remw'', \<lambda>x y. scast (rv_rem (low x) (low y))),
     (''remuw'', \<lambda>x y. scast (rv_remu (low x) (low y)))
   ]"


definition rv_load :: "(string \<times> (u64 \<Rightarrow> (u64 \<Rightarrow> u8) \<Rightarrow> u64)) list" where
  "rv_load = [
     (''lb'', \<lambda>a m. scast (ucast (read_mem 1 a m) :: u8)), (''lh'', \<lambda>a m. scast (ucast (read_mem 2 a m) :: u16)),
     (''lw'', \<lambda>a m. scast (ucast (read_mem 4 a m) :: u32)), (''lbu'', read_mem 1), (''lhu'', read_mem 2),
     (''lwu'', read_mem 4), (''ld'', read_mem 8)]"

definition rv_store :: "(string \<times> nat) list" where
  "rv_store = [(''sb'', 1), (''sh'', 2), (''sw'', 4), (''sd'', 8)]"

definition rv_branch :: "(string \<times> (u64 \<Rightarrow> u64 \<Rightarrow> bool)) list" where
  "rv_branch = [(''beq'', (=)), (''bne'', (\<noteq>)), (''blt'', (<s)), (''bge'', \<lambda>x y. y \<le>s x), (''bltu'', (<)), (''bgeu'', \<lambda>x y. y \<le> x)]"

text \<open>
  The effects of loads and stores, and the ways control flow leaves a block, from the values \<open>f\<close> of the
  instruction's fields.
\<close>

definition rv_memory :: "RiscvDisasContext \<Rightarrow> (string \<Rightarrow> i64) \<Rightarrow>
    (string \<times> (u64 \<Rightarrow> (u64 \<Rightarrow> u8) ir_state \<Rightarrow> (u64 \<Rightarrow> u8) IR_Semantics.outcome \<Rightarrow> bool)) list" where
  "rv_memory d f =
     map (\<lambda>(n, F). (n, \<lambda>gb st. sets_reg d (f ''rd'') (F (gb + (greg d (tv st) (f ''rs1'') + f ''imm'')) (mem st)) (mem st) st)) rv_load @
     map (\<lambda>(n, k). (n, \<lambda>gb st. sets_mem d (write_mem k (gb + (greg d (tv st) (f ''rs1'') + f ''imm'')) (greg d (tv st) (f ''rs2'')) (mem st)) st)) rv_store"

definition rv_control :: "RiscvDisasContext \<Rightarrow> (string \<Rightarrow> i64) \<Rightarrow>
    (string \<times> ((u64 \<Rightarrow> u8) ir_state \<Rightarrow> (u64 \<Rightarrow> u8) IR_Semantics.outcome option \<Rightarrow> bool)) list" where
  "rv_control d f = (let p = pc_next (d_base d) in
     map (\<lambda>(n, K). (n, \<lambda>st. if K (greg d (tv st) (f ''rs1'')) (greg d (tv st) (f ''rs2''))
       then goes_to d TB_EXIT_IDX1 (p + f ''imm'') 0 0 st else goes_to d TB_EXIT_IDX0 (p + 4) 0 0 st)) rv_branch @
     [(''jal'', goes_to d TB_EXIT_IDX0 (p + f ''imm'') (f ''rd'') (p + 4)),
      (''jalr'', \<lambda>st. goes_to d TB_EXIT_NOCHAIN ((greg d (tv st) (f ''rs1'') + f ''imm'') AND NOT 1) (f ''rd'') (p + 4) st),
      (''ecall'', goes_to d EXCP_ECALL p 0 0), (''ebreak'', goes_to d EXCP_EBREAK p 0 0)])"

subsection \<open>Each translation\<close>

definition reg_insn :: "RiscvDisasContext \<Rightarrow> Context \<Rightarrow> ArgsR \<Rightarrow> (u64 \<Rightarrow> u64 \<Rightarrow> u64) \<Rightarrow> trans \<Rightarrow> bool" where
  "reg_insn d c a F t \<longleftrightarrow>
     goes_on d c (\<lambda>gb st. sets_reg d (r_rd a) (F (greg d (tv st) (r_rs1 a)) (greg d (tv st) (r_rs2 a))) (mem st) st) (t c)"

lemma reg_insn_keep:
  assumes "sound c (\<lambda>gb st. sets_reg d (r_rd a) (F (greg d (tv st) (r_rs1 a)) (greg d (tv st) (r_rs2 a))) (mem st) st) (m c)"
  shows "reg_insn d c a F (keep d m)"
  unfolding reg_insn_def by (rule goes_on_keep) (rule assms)

lemma conds64:
  "cond_holds Lt x y \<longleftrightarrow> x <s y" "cond_holds Ltu x y \<longleftrightarrow> x < y" "cond_holds Eq x y \<longleftrightarrow> x = y" "cond_holds Ne x y \<longleftrightarrow> x \<noteq> y"
  "cond_holds Ge x y \<longleftrightarrow> y \<le>s x" "cond_holds Geu x y \<longleftrightarrow> y \<le> x" for x y :: "'a::len word"
  by (auto simp: word_sle_eq word_sless_alt)

lemma reg_insns:
  assumes c: "ready d c" "misa_contains (misa (d_cfg d)) MISA_M" and r: "reg_num (r_rd a)" "reg_num (r_rs1 a)" "reg_num (r_rs2 a)"
  shows
    "reg_insn d c a ((+)) (trans_add d a)"
    "reg_insn d c a ((-)) (trans_sub d a)"
    "reg_insn d c a (\<lambda>x y. push_bit (unat y mod 64) x) (trans_sll d a)"
    "reg_insn d c a (\<lambda>x y. of_bool (x <s y)) (trans_slt d a)"
    "reg_insn d c a (\<lambda>x y. of_bool (x < y)) (trans_sltu d a)"
    "reg_insn d c a ((XOR)) (trans_xor d a)"
    "reg_insn d c a (\<lambda>x y. drop_bit (unat y mod 64) x) (trans_srl d a)"
    "reg_insn d c a (\<lambda>x y. signed_drop_bit (unat y mod 64) x) (trans_sra d a)"
    "reg_insn d c a ((OR)) (trans_or d a)"
    "reg_insn d c a ((AND)) (trans_and d a)"
    "reg_insn d c a (\<lambda>x y. scast (low x + low y)) (trans_addw d a)"
    "reg_insn d c a (\<lambda>x y. scast (low x - low y)) (trans_subw d a)"
    "reg_insn d c a (\<lambda>x y. scast (push_bit (unat (low y) mod 32) (low x))) (trans_sllw d a)"
    "reg_insn d c a (\<lambda>x y. scast (drop_bit (unat (low y) mod 32) (low x))) (trans_srlw d a)"
    "reg_insn d c a (\<lambda>x y. scast (signed_drop_bit (unat (low y) mod 32) (low x))) (trans_sraw d a)"
    "reg_insn d c a ((*)) (trans_mul d a)"
    "reg_insn d c a (\<lambda>x y. word_of_int (sint x * sint y div 2 ^ 64)) (trans_mulh d a)"
    "reg_insn d c a (\<lambda>x y. word_of_int (sint x * uint y div 2 ^ 64)) (trans_mulhsu d a)"
    "reg_insn d c a (\<lambda>x y. word_of_int (uint x * uint y div 2 ^ 64)) (trans_mulhu d a)"
    "reg_insn d c a (rv_div) (trans_div d a)"
    "reg_insn d c a (rv_divu) (trans_divu d a)"
    "reg_insn d c a (rv_rem) (trans_rem d a)"
    "reg_insn d c a (rv_remu) (trans_remu d a)"
    "reg_insn d c a (\<lambda>x y. scast (low x * low y)) (trans_mulw d a)"
    "reg_insn d c a (\<lambda>x y. scast (rv_div (low x) (low y))) (trans_divw d a)"
    "reg_insn d c a (\<lambda>x y. scast (rv_divu (low x) (low y))) (trans_divuw d a)"
    "reg_insn d c a (\<lambda>x y. scast (rv_rem (low x) (low y))) (trans_remw d a)"
    "reg_insn d c a (\<lambda>x y. scast (rv_remu (low x) (low y))) (trans_remuw d a)"
proof -
  show "reg_insn d c a ((+)) (trans_add d a)"
    unfolding trans_add_def by (rule reg_insn_keep) (rule arith_sound(1) [OF c(1) binary_ops(1) r])
  show "reg_insn d c a ((-)) (trans_sub d a)"
    unfolding trans_sub_def by (rule reg_insn_keep) (rule arith_sound(1) [OF c(1) binary_ops(2) r])
  show "reg_insn d c a (\<lambda>x y. push_bit (unat y mod 64) x) (trans_sll d a)"
    unfolding trans_sll_def by (rule reg_insn_keep) (rule arith_sound(1) [OF c(1) binary_ops(7) r])
  show "reg_insn d c a (\<lambda>x y. of_bool (x <s y)) (trans_slt d a)"
    unfolding trans_slt_def by (rule reg_insn_keep) (rule setcond_sound(1) [OF c(1) r, of Lt, unfolded conds64])
  show "reg_insn d c a (\<lambda>x y. of_bool (x < y)) (trans_sltu d a)"
    unfolding trans_sltu_def by (rule reg_insn_keep) (rule setcond_sound(1) [OF c(1) r, of Ltu, unfolded conds64])
  show "reg_insn d c a ((XOR)) (trans_xor d a)"
    unfolding trans_xor_def by (rule reg_insn_keep) (rule arith_sound(1) [OF c(1) binary_ops(6) r])
  show "reg_insn d c a (\<lambda>x y. drop_bit (unat y mod 64) x) (trans_srl d a)"
    unfolding trans_srl_def by (rule reg_insn_keep) (rule arith_sound(1) [OF c(1) binary_ops(8) r])
  show "reg_insn d c a (\<lambda>x y. signed_drop_bit (unat y mod 64) x) (trans_sra d a)"
    unfolding trans_sra_def by (rule reg_insn_keep) (rule arith_sound(1) [OF c(1) binary_ops(9) r])
  show "reg_insn d c a ((OR)) (trans_or d a)"
    unfolding trans_or_def by (rule reg_insn_keep) (rule arith_sound(1) [OF c(1) binary_ops(5) r])
  show "reg_insn d c a ((AND)) (trans_and d a)"
    unfolding trans_and_def by (rule reg_insn_keep) (rule arith_sound(1) [OF c(1) binary_ops(4) r])
  show "reg_insn d c a (\<lambda>x y. scast (low x + low y)) (trans_addw d a)"
    unfolding trans_addw_def by (rule reg_insn_keep) (rule arith_sound(2) [OF c(1) binary_ops(1) r, unfolded ucast_arith32, folded low_def])
  show "reg_insn d c a (\<lambda>x y. scast (low x - low y)) (trans_subw d a)"
    unfolding trans_subw_def by (rule reg_insn_keep) (rule arith_sound(2) [OF c(1) binary_ops(2) r, unfolded ucast_arith32, folded low_def])
  show "reg_insn d c a (\<lambda>x y. scast (push_bit (unat (low y) mod 32) (low x))) (trans_sllw d a)"
    unfolding trans_sllw_def by (rule reg_insn_keep) (rule shiftw_sound(1) [OF c(1) binary_ops(10) r, folded low_def])
  show "reg_insn d c a (\<lambda>x y. scast (drop_bit (unat (low y) mod 32) (low x))) (trans_srlw d a)"
    unfolding trans_srlw_def by (rule reg_insn_keep) (rule shiftw_sound(1) [OF c(1) binary_ops(11) r, folded low_def])
  show "reg_insn d c a (\<lambda>x y. scast (signed_drop_bit (unat (low y) mod 32) (low x))) (trans_sraw d a)"
    unfolding trans_sraw_def by (rule reg_insn_keep) (rule shiftw_sound(1) [OF c(1) binary_ops(12) r, folded low_def])
  show "reg_insn d c a ((*)) (trans_mul d a)"
    unfolding trans_mul_def reg_insn_def require_M [OF c(2)] by (rule goes_on_keep) (rule arith_sound(1) [OF c(1) binary_ops(3) r])
  show "reg_insn d c a (\<lambda>x y. word_of_int (sint x * sint y div 2 ^ 64)) (trans_mulh d a)"
    unfolding reg_insn_def by (rule mulh_sound(1) [OF c r])
  show "reg_insn d c a (\<lambda>x y. word_of_int (sint x * uint y div 2 ^ 64)) (trans_mulhsu d a)"
    unfolding reg_insn_def by (rule mulh_sound(3) [OF c r])
  show "reg_insn d c a (\<lambda>x y. word_of_int (uint x * uint y div 2 ^ 64)) (trans_mulhu d a)"
    unfolding reg_insn_def by (rule mulh_sound(2) [OF c r])
  show "reg_insn d c a (rv_div) (trans_div d a)"
    unfolding trans_div_def reg_insn_def require_M [OF c(2)] by (rule goes_on_keep) (rule div_rem_sound(1) [OF c(1) r])
  show "reg_insn d c a (rv_divu) (trans_divu d a)"
    unfolding trans_divu_def reg_insn_def require_M [OF c(2)] by (rule goes_on_keep) (rule divu_remu_sound(1) [OF c(1) r])
  show "reg_insn d c a (rv_rem) (trans_rem d a)"
    unfolding trans_rem_def reg_insn_def require_M [OF c(2)] by (rule goes_on_keep) (rule div_rem_sound(2) [OF c(1) r])
  show "reg_insn d c a (rv_remu) (trans_remu d a)"
    unfolding trans_remu_def reg_insn_def require_M [OF c(2)] by (rule goes_on_keep) (rule divu_remu_sound(2) [OF c(1) r])
  show "reg_insn d c a (\<lambda>x y. scast (low x * low y)) (trans_mulw d a)"
    unfolding trans_mulw_def reg_insn_def require_M [OF c(2)] by (rule goes_on_keep) (rule arith_sound(2) [OF c(1) binary_ops(3) r, unfolded ucast_arith32, folded low_def])
  show "reg_insn d c a (\<lambda>x y. scast (rv_div (low x) (low y))) (trans_divw d a)"
    unfolding trans_divw_def reg_insn_def require_M [OF c(2)] by (rule goes_on_keep) (rule div_rem_w_sound(1) [OF c(1) r])
  show "reg_insn d c a (\<lambda>x y. scast (rv_divu (low x) (low y))) (trans_divuw d a)"
    unfolding trans_divuw_def reg_insn_def require_M [OF c(2)] by (rule goes_on_keep) (rule divu_remu_w_sound(1) [OF c(1) r])
  show "reg_insn d c a (\<lambda>x y. scast (rv_rem (low x) (low y))) (trans_remw d a)"
    unfolding trans_remw_def reg_insn_def require_M [OF c(2)] by (rule goes_on_keep) (rule div_rem_w_sound(2) [OF c(1) r])
  show "reg_insn d c a (\<lambda>x y. scast (rv_remu (low x) (low y))) (trans_remuw d a)"
    unfolding trans_remuw_def reg_insn_def require_M [OF c(2)] by (rule goes_on_keep) (rule divu_remu_w_sound(2) [OF c(1) r])
qed




definition load_insn :: "RiscvDisasContext \<Rightarrow> Context \<Rightarrow> ArgsI \<Rightarrow> (u64 \<Rightarrow> (u64 \<Rightarrow> u8) \<Rightarrow> u64) \<Rightarrow> trans \<Rightarrow> bool" where
  "load_insn d c a F t \<longleftrightarrow>
     goes_on d c (\<lambda>gb st. sets_reg d (i_rd a) (F (gb + (greg d (tv st) (i_rs1 a) + i_imm a)) (mem st)) (mem st) st) (t c)"

lemma guest_loads:
  "guest_load memop_sb = (\<lambda>a m. scast (ucast (read_mem 1 a m) :: u8))" "guest_load memop_sw = (\<lambda>a m. scast (ucast (read_mem 2 a m) :: u16))"
  "guest_load memop_sl = (\<lambda>a m. scast (ucast (read_mem 4 a m) :: u32))" "guest_load memop_ub = read_mem 1" "guest_load memop_uw = read_mem 2"
  "guest_load memop_ul = read_mem 4" "guest_load memop_uq = read_mem 8"
  by (simp_all add: fun_eq_iff guest_load_def access_bytes_def read_mem_def memop_defs)

lemma load_insns:
  assumes c: "ready d c" and r: "reg_num (i_rd a)" "reg_num (i_rs1 a)"
  shows "load_insn d c a (guest_load memop_sb) (trans_lb d a)" "load_insn d c a (guest_load memop_sw) (trans_lh d a)"
    "load_insn d c a (guest_load memop_sl) (trans_lw d a)" "load_insn d c a (guest_load memop_ub) (trans_lbu d a)"
    "load_insn d c a (guest_load memop_uw) (trans_lhu d a)" "load_insn d c a (guest_load memop_ul) (trans_lwu d a)"
    "load_insn d c a (guest_load memop_uq) (trans_ld d a)"
  unfolding load_insn_def trans_lb_def trans_lh_def trans_lw_def trans_lbu_def trans_lhu_def trans_lwu_def trans_ld_def
  by (rule goes_on_keep, rule memory_sound(1) [OF c r])+

definition store_insn :: "RiscvDisasContext \<Rightarrow> Context \<Rightarrow> ArgsS \<Rightarrow> nat \<Rightarrow> trans \<Rightarrow> bool" where
  "store_insn d c a n t \<longleftrightarrow>
     goes_on d c (\<lambda>gb st. sets_mem d (write_mem n (gb + (greg d (tv st) (s_rs1 a) + s_imm a)) (greg d (tv st) (s_rs2 a)) (mem st)) st) (t c)"

lemma guest_stores:
  "guest_store memop_ub = write_mem 1" "guest_store memop_uw = write_mem 2" "guest_store memop_ul = write_mem 4" "guest_store memop_uq = write_mem 8"
  by (simp_all add: fun_eq_iff guest_store_def access_bytes_def write_mem_def memop_defs)

lemma store_insns:
  assumes c: "ready d c" and r: "reg_num (s_rs1 a)" "reg_num (s_rs2 a)"
  shows "store_insn d c a 1 (trans_sb d a)" "store_insn d c a 2 (trans_sh d a)" "store_insn d c a 4 (trans_sw d a)" "store_insn d c a 8 (trans_sd d a)"
  unfolding store_insn_def trans_sb_def trans_sh_def trans_sw_def trans_sd_def guest_stores [symmetric]
  by (rule goes_on_keep, rule memory_sound(2) [OF c r])+

definition branch_insn :: "RiscvDisasContext \<Rightarrow> Context \<Rightarrow> ArgsB \<Rightarrow> (u64 \<Rightarrow> u64 \<Rightarrow> bool) \<Rightarrow> trans \<Rightarrow> bool" where
  "branch_insn d c a K t \<longleftrightarrow> ends_with d c (\<lambda>gb st.
     if K (greg d (tv st) (b_rs1 a)) (greg d (tv st) (b_rs2 a))
     then goes_to d TB_EXIT_IDX1 (pc_next (d_base d) + b_imm a) 0 0 st
     else goes_to d TB_EXIT_IDX0 (pc_next (d_base d) + ucast (d_cur_insn_len d)) 0 0 st) (t c)"

lemma branch_insn_gen:
  assumes "ready d c" "reg_num (b_rs1 a)" "reg_num (b_rs2 a)"
  shows "branch_insn d c a (cond_holds k) (\<lambda>ir. gen_branch d a k ir \<bind> (\<lambda>(d, ir). Some (True, d, ir)))"
  unfolding branch_insn_def ends_with_def by (rule tw_bind, rule tw_mono [OF branch_sound [OF assms]]) (auto simp: tw_def)

lemma branch_insns:
  assumes "ready d c" "reg_num (b_rs1 a)" "reg_num (b_rs2 a)"
  shows "branch_insn d c a (=) (trans_beq d a)" "branch_insn d c a (\<noteq>) (trans_bne d a)" "branch_insn d c a (<s) (trans_blt d a)"
    "branch_insn d c a (\<lambda>x y. y \<le>s x) (trans_bge d a)" "branch_insn d c a (<) (trans_bltu d a)" "branch_insn d c a (\<lambda>x y. y \<le> x) (trans_bgeu d a)"
proof -
  note gen = branch_insn_gen [OF assms]
  note defs = trans_beq_def trans_bne_def trans_blt_def trans_bge_def trans_bltu_def trans_bgeu_def branch_insn_def
  show "branch_insn d c a (=) (trans_beq d a)" using gen [of Eq] by (simp only: defs conds64)
  show "branch_insn d c a (\<noteq>) (trans_bne d a)" using gen [of Ne] by (simp only: defs conds64)
  show "branch_insn d c a (<s) (trans_blt d a)" using gen [of Lt] by (simp only: defs conds64)
  show "branch_insn d c a (\<lambda>x y. y \<le>s x) (trans_bge d a)" using gen [of Ge] by (simp only: defs conds64)
  show "branch_insn d c a (<) (trans_bltu d a)" using gen [of Ltu] by (simp only: defs conds64)
  show "branch_insn d c a (\<lambda>x y. y \<le> x) (trans_bgeu d a)" using gen [of Geu] by (simp only: defs conds64)
qed

subsection \<open>Each decoded word\<close>

text \<open>The calls of the RV64IM patterns, by the format of their arguments, and that the decoder makes them.\<close>

definition reg_calls :: "RiscvDisasContext \<Rightarrow> ArgsR \<Rightarrow> (string \<times> trans) list" where
  "reg_calls d a = [
     (''add'', trans_add d a), (''sub'', trans_sub d a), (''sll'', trans_sll d a), (''slt'', trans_slt d a), (''sltu'', trans_sltu d a),
     (''xor'', trans_xor d a), (''srl'', trans_srl d a), (''sra'', trans_sra d a), (''or'', trans_or d a), (''and'', trans_and d a),
     (''addw'', trans_addw d a), (''subw'', trans_subw d a), (''sllw'', trans_sllw d a), (''srlw'', trans_srlw d a), (''sraw'', trans_sraw d a),
     (''mul'', trans_mul d a), (''mulh'', trans_mulh d a), (''mulhsu'', trans_mulhsu d a), (''mulhu'', trans_mulhu d a), (''div'', trans_div d a),
     (''divu'', trans_divu d a), (''rem'', trans_rem d a), (''remu'', trans_remu d a), (''mulw'', trans_mulw d a), (''divw'', trans_divw d a),
     (''divuw'', trans_divuw d a), (''remw'', trans_remw d a), (''remuw'', trans_remuw d a)]"

definition imm_calls :: "RiscvDisasContext \<Rightarrow> ArgsU \<Rightarrow> ArgsI \<Rightarrow> ArgsShift \<Rightarrow> (string \<times> trans) list" where
  "imm_calls d u a b = [
     (''lui'', trans_lui d u), (''auipc'', trans_auipc d u), (''addi'', trans_addi d a), (''slti'', trans_slti d a), (''sltiu'', trans_sltiu d a),
     (''xori'', trans_xori d a), (''ori'', trans_ori d a), (''andi'', trans_andi d a), (''slli'', trans_slli d b), (''srli'', trans_srli d b),
     (''srai'', trans_srai d b), (''addiw'', trans_addiw d a), (''slliw'', trans_slliw d b), (''srliw'', trans_srliw d b), (''sraiw'', trans_sraiw d b)]"

definition load_calls :: "RiscvDisasContext \<Rightarrow> ArgsI \<Rightarrow> (string \<times> trans) list" where
  "load_calls d a = [(''lb'', trans_lb d a), (''lh'', trans_lh d a), (''lw'', trans_lw d a), (''lbu'', trans_lbu d a), (''lhu'', trans_lhu d a),
     (''lwu'', trans_lwu d a), (''ld'', trans_ld d a)]"

definition store_calls :: "RiscvDisasContext \<Rightarrow> ArgsS \<Rightarrow> (string \<times> trans) list" where
  "store_calls d a = [(''sb'', trans_sb d a), (''sh'', trans_sh d a), (''sw'', trans_sw d a), (''sd'', trans_sd d a)]"

definition branch_calls :: "RiscvDisasContext \<Rightarrow> ArgsB \<Rightarrow> (string \<times> trans) list" where
  "branch_calls d a = [(''beq'', trans_beq d a), (''bne'', trans_bne d a), (''blt'', trans_blt d a), (''bge'', trans_bge d a),
     (''bltu'', trans_bltu d a), (''bgeu'', trans_bgeu d a)]"

definition jump_calls :: "RiscvDisasContext \<Rightarrow> ArgsJ \<Rightarrow> ArgsI \<Rightarrow> (string \<times> trans) list" where
  "jump_calls d a b = [(''jal'', trans_jal d a), (''jalr'', trans_jalr d b), (''ecall'', trans_ecall d), (''ebreak'', trans_ebreak d)]"

definition called :: "(string \<times> trans) list \<Rightarrow> (string \<times> trans) list \<Rightarrow> bool" where
  "called tab xs \<longleftrightarrow> list_all (\<lambda>x. x \<in> set tab) xs"

lemma names32_distinct: "distinct names32"
  unfolding names32_def by simp

lemma decode_calls:
  "called (decode_call H d f) (reg_calls d \<lparr>r_rd = f ''rd'', r_rs1 = f ''rs1'', r_rs2 = f ''rs2''\<rparr>)"
  "called (decode_call H d f) (imm_calls d \<lparr>u_imm = f ''imm'', u_rd = f ''rd''\<rparr> \<lparr>i_imm = f ''imm'', i_rs1 = f ''rs1'', i_rd = f ''rd''\<rparr>
     \<lparr>sh_shamt = f ''shamt'', sh_rs1 = f ''rs1'', sh_rd = f ''rd''\<rparr>)"
  "called (decode_call H d f) (load_calls d \<lparr>i_imm = f ''imm'', i_rs1 = f ''rs1'', i_rd = f ''rd''\<rparr>)"
  "called (decode_call H d f) (store_calls d \<lparr>s_imm = f ''imm'', s_rs1 = f ''rs1'', s_rs2 = f ''rs2''\<rparr>)"
  "called (decode_call H d f) (branch_calls d \<lparr>b_imm = f ''imm'', b_rs2 = f ''rs2'', b_rs1 = f ''rs1''\<rparr>)"
  "called (decode_call H d f) (jump_calls d \<lparr>j_imm = f ''imm'', j_rd = f ''rd''\<rparr> \<lparr>i_imm = f ''imm'', i_rs1 = f ''rs1'', i_rd = f ''rd''\<rparr>)"
  unfolding called_def decode_call_def reg_calls_def imm_calls_def load_calls_def store_calls_def branch_calls_def jump_calls_def list.pred_inject(2)
  by ((rule conjI, (rule list.set_intros(1) | rule list.set_intros(2))+)+, rule list.pred_inject(1))+

lemma called_runs:
  assumes "generated_decoder 32 (ps32 P) insn = Some (CallTrans n args)" "called (decode_call (helpers P) d (field_value args)) xs" "(n, t) \<in> set xs"
  shows "decode32 P d insn c = t c"
proof -
  have "(n, t) \<in> set (decode_call (helpers P) d (field_value args))" using assms(2,3) by (simp add: called_def list_all_iff)
  moreover have "distinct (map fst (decode_call (helpers P) d (field_value args)))" unfolding decode_names by (rule names32_distinct)
  ultimately have "map_of (decode_call (helpers P) d (field_value args)) n = Some t" by (simp only: map_of_is_SomeI)
  then show ?thesis using assms(1) by (simp add: decode32_def call_trans_def)
qed

lemma decoded_regs:
  assumes "program_ok P" "generated_decoder 32 (ps32 P) insn = Some (CallTrans n args)"
  shows "reg_num (field_value args ''rd'')" "reg_num (field_value args ''rs1'')" "reg_num (field_value args ''rs2'')"
proof -
  have "tw (generated_decoder 32 (ps32 P) insn)
      (\<lambda>r. \<forall>n args. r = CallTrans n args \<longrightarrow> n \<in> set names32 \<and> (\<forall>f \<in> set REG_FIELDS. unat (field_value args f) < 32))"
    using assms(1) by (simp only: program_ok_def decoder_ok_def)
  then have "\<forall>f \<in> set REG_FIELDS. unat (field_value args f) < 32" using assms(2) by (simp add: tw_def)
  then show "reg_num (field_value args ''rd'')" "reg_num (field_value args ''rs1'')" "reg_num (field_value args ''rs2'')"
    by (simp_all add: REG_FIELDS_def reg_num_def)
qed

lemma reg_table:
  assumes "ready d c" "misa_contains (misa (d_cfg d)) MISA_M" "reg_num (r_rd a)" "reg_num (r_rs1 a)" "reg_num (r_rs2 a)"
  shows "list_all2 (\<lambda>(n, F) (m, t). n = m \<and> reg_insn d c a F t) rv_reg (reg_calls d a)"
  unfolding rv_reg_def reg_calls_def by (simp only: list.rel_inject prod.case reg_insns [OF assms])


lemma memory_table:
  assumes "ready d c"
  shows "reg_num (i_rd a) \<Longrightarrow> reg_num (i_rs1 a) \<Longrightarrow> list_all2 (\<lambda>(n, F) (m, t). n = m \<and> load_insn d c a F t) rv_load (load_calls d a)"
    "reg_num (s_rs1 b) \<Longrightarrow> reg_num (s_rs2 b) \<Longrightarrow> list_all2 (\<lambda>(n, k) (m, t). n = m \<and> store_insn d c b k t) rv_store (store_calls d b)"
proof -
  show "list_all2 (\<lambda>(n, F) (m, t). n = m \<and> load_insn d c a F t) rv_load (load_calls d a)" if r: "reg_num (i_rd a)" "reg_num (i_rs1 a)"
    unfolding rv_load_def load_calls_def by (simp only: list.rel_inject prod.case load_insns [OF assms r, unfolded guest_loads])
  show "list_all2 (\<lambda>(n, k) (m, t). n = m \<and> store_insn d c b k t) rv_store (store_calls d b)" if r: "reg_num (s_rs1 b)" "reg_num (s_rs2 b)"
    unfolding rv_store_def store_calls_def by (simp only: list.rel_inject prod.case store_insns [OF assms r])
qed

lemma branch_table:
  assumes "ready d c" "reg_num (b_rs1 a)" "reg_num (b_rs2 a)"
  shows "list_all2 (\<lambda>(n, K) (m, t). n = m \<and> branch_insn d c a K t) rv_branch (branch_calls d a)"
  unfolding rv_branch_def branch_calls_def by (simp only: list.rel_inject prod.case branch_insns [OF assms])

lemma table_at:
  "list_all2 (\<lambda>(n, x) (m, t). n = m \<and> R x t) xs ys \<Longrightarrow> (n, x) \<in> set xs \<Longrightarrow> \<exists>t. (n, t) \<in> set ys \<and> R x t"
  by (induction xs ys rule: list_all2_induct) auto

subsection \<open>Contexts that are ready\<close>

text \<open>Registering the globals makes a context ready, and building keeps it so while the temps last.\<close>

definition regs_at :: "nat \<Rightarrow> Context \<Rightarrow> RiscvDisasContext \<Rightarrow> Context \<Rightarrow> bool" where
  "regs_at n c d' c' \<longleftrightarrow> (\<exists>zs. temps c' = temps c @ zs \<and> length zs = n \<and> list_all (\<lambda>t. t_kind t = Global \<and> t_ty t = I64) zs) \<and>
     (\<forall>i < n. d_gpr d' ! i = of_nat (length (temps c) + i))"

lemma new_global_temps:
  "new_global I64 b off name c = Some (t, c') \<Longrightarrow>
     t = of_nat (length (temps c)) \<and> (\<exists>x. temps c' = temps c @ [x] \<and> t_kind x = Global \<and> t_ty x = I64)"
  "new_fixed ty r name c = Some (t, c') \<Longrightarrow> length (temps c') = length (temps c) + 1"
  by (auto simp: new_global_def new_fixed_def temp_new_global_def Let_def split: if_splits)

lemma register_gprs_at:
  "register_gprs n d c = Some (d', c') \<Longrightarrow> regs_at n c d' c' \<and> length (d_gpr d') = length (d_gpr d) \<and> (\<exists>g. d' = d\<lparr>d_gpr := g\<rparr>)"
proof (induction n arbitrary: d' c')
  case (Suc n)
  then obtain e b t where s: "register_gprs n d c = Some (e, b)" "new_global I64 (d_env e) (gpr_offset n) ''gpr'' b = Some (t, c')"
      "n < length (d_gpr e)" "d' = e\<lparr>d_gpr := (d_gpr e)[n := t]\<rparr>"
    by (auto simp: bind_eq_Some_conv index_set_def split: if_splits)
  note IH = Suc.IH [OF s(1)]
  then obtain zs where zs: "temps b = temps c @ zs" "length zs = n" "list_all (\<lambda>t. t_kind t = Global \<and> t_ty t = I64) zs" by (auto simp: regs_at_def)
  obtain x where x: "t = of_nat (length (temps b))" "temps c' = temps b @ [x]" "t_kind x = Global" "t_ty x = I64"
    using new_global_temps(1) [OF s(2)] by blast
  have "d_gpr d' ! i = of_nat (length (temps c) + i)" if "i < Suc n" for i
    using that IH s(3,4) x(1) zs(1,2) by (cases "i = n") (auto simp: regs_at_def)
  moreover have "\<exists>g. d' = d\<lparr>d_gpr := g\<rparr>" using IH s(4) by auto
  ultimately show ?case using IH s(4) zs x unfolding regs_at_def by (auto intro!: exI [of _ "zs @ [x]"])
qed (auto simp: regs_at_def intro: exI [of _ "d_gpr d"])

lemma init_temps:
  assumes "rv_init_disas_context d c = Some (d', c')"
  shows "\<exists>zs. temps c' = temps c @ zs \<and> length zs = 36 \<and> list_all (\<lambda>t. t_kind t = Global \<and> t_ty t = I64) (tl zs)"
    "\<forall>i < 32. d_gpr d' ! i = of_nat (length (temps c) + 1 + i)" "d_pc d' = of_nat (length (temps c) + 33)"
    "length (d_gpr d') = length (d_gpr d)" "d_cfg d' = d_cfg d" "d_base d' = d_base d" "d_guest_base d' = d_guest_base d"
proof -
  have n: "NUM_GPRS = 32" by (simp add: NUM_GPRS_def)
  obtain t b e b2 p b3 l b4 v where s: "new_fixed I64 5 ''env'' c = Some (t, b)" "register_gprs 32 (d\<lparr>d_env := t\<rparr>) b = Some (e, b2)"
      "new_global I64 (d_env e) PC_OFFSET ''pc'' b2 = Some (p, b3)" "new_global I64 (d_env e) LOAD_RES_OFFSET ''load_res'' b3 = Some (l, b4)"
      "new_global I64 (d_env e) LOAD_VAL_OFFSET ''load_val'' b4 = Some (v, c')" "d' = e\<lparr>d_pc := p, d_load_res := l, d_load_val := v\<rparr>"
    using assms unfolding rv_init_disas_context_def n by (auto simp: bind_eq_Some_conv)
  obtain x0 where b: "temps b = temps c @ [x0]" using s(1) by (auto simp: new_fixed_def Let_def split: if_splits)
  note g = register_gprs_at [OF s(2)]
  then obtain zs where zs: "temps b2 = temps b @ zs" "length zs = 32" "list_all (\<lambda>t. t_kind t = Global \<and> t_ty t = I64) zs" by (auto simp: regs_at_def)
  obtain x1 x2 x3 where x: "p = of_nat (length (temps b2))" "temps b3 = temps b2 @ [x1]" "temps b4 = temps b3 @ [x2]" "temps c' = temps b4 @ [x3]"
      "t_kind x1 = Global" "t_ty x1 = I64" "t_kind x2 = Global" "t_ty x2 = I64" "t_kind x3 = Global" "t_ty x3 = I64"
    using new_global_temps(1) [OF s(3)] new_global_temps(1) [OF s(4)] new_global_temps(1) [OF s(5)] by blast
  show "\<exists>zs. temps c' = temps c @ zs \<and> length zs = 36 \<and> list_all (\<lambda>t. t_kind t = Global \<and> t_ty t = I64) (tl zs)"
    using b zs x by (intro exI [of _ "x0 # zs @ [x1, x2, x3]"]) auto
  show "\<forall>i < 32. d_gpr d' ! i = of_nat (length (temps c) + 1 + i)" using g s(6) b by (simp add: regs_at_def)
  show "d_pc d' = of_nat (length (temps c) + 33)" using s(6) x(1) b zs by simp
  show "length (d_gpr d') = length (d_gpr d)" "d_cfg d' = d_cfg d" "d_base d' = d_base d" "d_guest_base d' = d_guest_base d" using g s(6) by auto
qed

lemma init_ready:
  assumes "rv_init_disas_context d c = Some (d', c')" "ctx_inv c" "ctx_inv c'" "length (d_gpr d) = 32" "length (temps c) + 76 < 2 ^ 32"
  shows "ready d' c'"
proof -
  note init = init_temps [OF assms(1)]
  obtain zs where zs: "temps c' = temps c @ zs" "length zs = 36" "list_all (\<lambda>t. t_kind t = Global \<and> t_ty t = I64) (tl zs)" using init(1) by blast
  let ?k = "length (temps c)"
  have gp: "d_gpr d' = map (\<lambda>i. of_nat (?k + 1 + i)) [0..<32]"
    using init(2,4) assms(4) by (intro nth_equalityI) auto
  have all: "d_pc d' # d_gpr d' = map (\<lambda>i. of_nat (?k + 1 + i)) (32 # [0..<32])" unfolding gp init(3) by simp
  have small: "?k + 1 + i < 2 ^ 32" if "i < 33" for i using that assms(5) by simp
  have inj: "inj_on (\<lambda>i. of_nat (?k + 1 + i) :: u32) {i. i < 33}"
  proof (rule inj_onI)
    fix i j assume *: "i \<in> {i. i < 33}" "j \<in> {i. i < 33}" "(of_nat (?k + 1 + i) :: u32) = of_nat (?k + 1 + j)"
    have "unat (of_nat (?k + 1 + i) :: u32) = ?k + 1 + i" "unat (of_nat (?k + 1 + j) :: u32) = ?k + 1 + j"
      using *(1,2) by (intro unat_len small; simp)+
    then show "i = j" unfolding *(3) by linarith
  qed
  have dist: "distinct (d_pc d' # d_gpr d')" unfolding all distinct_map by (intro conjI inj_on_subset [OF inj]) auto
  have "unat t < length (temps c') \<and> t_kind (temps c' ! unat t) = Global \<and> t_ty (temps c' ! unat t) = I64" if t: "t \<in> set (d_pc d' # d_gpr d')" for t
  proof -
    obtain i where "t = of_nat (?k + 1 + i)" "i \<in> set (32 # [0..<32])" using t unfolding all set_map by (rule imageE)
    then have i: "t = of_nat (?k + 1 + i)" "i < 33" by auto
    have u: "unat t = ?k + 1 + i" unfolding i(1) using small [OF i(2)] by (rule unat_len)
    have "tl zs ! i \<in> set (tl zs)" using i(2) zs(2) by simp
    moreover have "temps c' ! unat t = tl zs ! i" unfolding u zs(1) using i(2) zs(2) by (simp add: nth_append nth_tl)
    ultimately show ?thesis using zs i(2) u by (auto simp: list_all_iff)
  qed
  then have "glob_ok d' (temps c')" using dist init(4) assms(4) unfolding glob_ok_def by simp
  then show ?thesis using assms(3,5) zs(1,2) by (simp add: ready_def ctx_inv_def)
qed

text \<open>What ready says of a context does not depend on the rest of the disassembly context.\<close>

definition at_insn :: "u32 \<Rightarrow> RiscvDisasContext \<Rightarrow> RiscvDisasContext" where
  "at_insn insn d = d\<lparr>d_opcode := insn, d_cur_insn_len := 4\<rparr>"

lemma at_insn_same [simp]:
  "ready (at_insn w d) c = ready d c" "greg (at_insn w d) = greg d" "sets_reg (at_insn w d) = sets_reg d" "sets_mem (at_insn w d) = sets_mem d"
  "goes_to (at_insn w d) = goes_to d" "d_base (at_insn w d) = d_base d" "d_cfg (at_insn w d) = d_cfg d" "d_cur_insn_len (at_insn w d) = 4"
  "d_gpr (at_insn w d) = d_gpr d" "d_pc (at_insn w d) = d_pc d"
  by (auto simp: at_insn_def ready_def glob_ok_def greg_def sets_reg_def sets_mem_def goes_to_def fun_eq_iff)

text \<open>A word of full length goes to the 32-bit decoder; the translator then steps over it.\<close>

definition full_word :: "host_mem \<Rightarrow> RiscvDisasContext \<Rightarrow> bool" where
  "full_word m d \<longleftrightarrow> fetch_insn16 m d AND 3 = 3"

lemma translate_word:
  assumes "full_word m d" "decode32 (riscv_program H m) (at_insn (fetch_insn32 m d) d) (fetch_insn32 m d) c = Some (True, e, c')"
  shows "rv_translate_insn (riscv_program H m) d c = Some (set_base (\<lambda>b. b\<lparr>pc_next := pc_next b + ucast (d_cur_insn_len e)\<rparr>) e, c')"
  using assms by (simp add: rv_translate_insn_def rv_decode_def full_word_def at_insn_def riscv_program_def Let_def)

text \<open>The translator's step over the instruction: on to the next one, or to the end of the block.\<close>

definition stepped :: "DisasJumpType \<Rightarrow> RiscvDisasContext \<Rightarrow> RiscvDisasContext \<Rightarrow> bool" where
  "stepped j d e \<longleftrightarrow> pc_next (d_base e) = pc_next (d_base d) + 4 \<and> is_jmp (d_base e) = j \<and> d_gpr e = d_gpr d \<and> d_pc e = d_pc d \<and> d_cfg e = d_cfg d"

lemma goes_on_translated:
  assumes "full_word m d" "decode32 (riscv_program H m) (at_insn (fetch_insn32 m d) d) (fetch_insn32 m d) c = t c" "goes_on (at_insn (fetch_insn32 m d) d) c F (t c)"
  shows "\<exists>e c'. rv_translate_insn (riscv_program H m) d c = Some (e, c') \<and> stepped (is_jmp (d_base d)) d e \<and> effects c c' F"
proof -
  obtain c' where c': "t c = Some (True, at_insn (fetch_insn32 m d) d, c')" "effects c c' F" using assms(3) by (auto simp: goes_on_def tw_def)
  show ?thesis using translate_word [OF assms(1) assms(2) [unfolded c'(1)]] c'(2) by (auto simp: stepped_def set_base_def)
qed

lemma ends_translated:
  assumes "full_word m d" "decode32 (riscv_program H m) (at_insn (fetch_insn32 m d) d) (fetch_insn32 m d) c = t c" "ends_with (at_insn (fetch_insn32 m d) d) c F (t c)"
  shows "\<exists>e c'. rv_translate_insn (riscv_program H m) d c = Some (e, c') \<and> stepped NoReturn d e \<and> leaves c c' F"
proof -
  obtain c' where c': "t c = Some (True, end_block (at_insn (fetch_insn32 m d) d), c')" "leaves c c' F" using assms(3) by (auto simp: ends_with_def tw_def)
  show ?thesis using translate_word [OF assms(1) assms(2) [unfolded c'(1)]] c'(2) by (auto simp: stepped_def set_base_def end_block_def at_insn_def)
qed

lemma program_decoder: "ps32 (riscv_program H m) = insn32_table"
  by (simp add: riscv_program_def)

lemmas decoded_fields = decoded_regs [OF riscv_program_ok, unfolded program_decoder]

lemma translated_table:
  assumes "generated_decoder 32 insn32_table (fetch_insn32 m d) = Some (CallTrans n args)"
    "called (decode_call (helpers (riscv_program H m)) (at_insn (fetch_insn32 m d) d) (field_value args)) ys"
    "list_all2 (\<lambda>(n, x) (m, t). n = m \<and> R x t) xs ys" "(n, x) \<in> set xs"
  obtains t where "R x t" "decode32 (riscv_program H m) (at_insn (fetch_insn32 m d) d) (fetch_insn32 m d) c = t c"
proof -
  from table_at [OF assms(3,4)] obtain t where t: "(n, t) \<in> set ys" "R x t" by (elim exE conjE) (rule that)
  show thesis by (rule that [OF t(2)]) (rule called_runs [OF assms(1) [folded program_decoder [of H m]] assms(2) t(1)])
qed

text \<open>
  The first instruction of a block, for the witnesses: the guest word \<open>w\<close> at address 0x1000 and a new context with
  the globals registered.
\<close>

definition word_mem :: "u32 \<Rightarrow> host_mem" where
  "word_mem w a = ucast (drop_bit (8 * unat (a - 0x1000)) w)"

definition first_insn :: "RiscvDisasContext \<Rightarrow> Context \<Rightarrow> bool" where
  "first_insn d c \<longleftrightarrow> rv_init_disas_context (disas_new 0x1000 0 RV64IMAFDC) context_new = Some (d, c)"

lemma first_insn_ready:
  obtains d c where "first_insn d c" "ready d c" "misa_contains (misa (d_cfg d)) MISA_M" "pc_next (d_base d) = 0x1000" "d_guest_base d = 0"
proof -
  let ?d = "disas_new 0x1000 0 RV64IMAFDC"
  have len: "length (d_gpr ?d) = 32" by (simp add: disas_new_def NUM_GPRS_def)
  have "tw (rv_init_disas_context ?d context_new) (\<lambda>(d', ir'). length (d_gpr d') = 32 \<and> grew 36 context_new ir')"
    by (rule init_grew) (simp_all add: context_new_def len)
  then obtain d c where i: "rv_init_disas_context ?d context_new = Some (d, c)" "grew 36 context_new c" by (auto simp: tw_def)
  have "ctx_inv c" using i(2) ctx_inv_new by (simp add: grew_def)
  then have "ready d c" using init_ready [OF i(1) ctx_inv_new _ len] by (simp add: context_new_def)
  moreover have "misa_contains (misa (d_cfg d)) MISA_M" "pc_next (d_base d) = 0x1000" "d_guest_base d = 0"
    unfolding init_temps(5-7) [OF i(1)] by (simp_all add: disas_new_def RV64IMAFDC_def misa_contains_def MISA_M_def) code_simp
  ultimately show thesis using that i(1) by (simp add: first_insn_def)
qed

lemma word_fetched:
  assumes "pc_next (d_base d) = 0x1000" "d_guest_base d = 0"
  shows "fetch_insn32 (word_mem w) d = ucast (ucast w :: u8) OR push_bit 8 (ucast (ucast (drop_bit 8 w) :: u8)) OR
      push_bit 16 (ucast (ucast (drop_bit 16 w) :: u8)) OR push_bit 24 (ucast (ucast (drop_bit 24 w) :: u8))"
    "full_word (word_mem w) d \<longleftrightarrow> (ucast (ucast w :: u8) OR push_bit 8 (ucast (ucast (drop_bit 8 w) :: u8)) :: u16) AND 3 = 3"
  using assms by (simp_all add: fetch_insn32_def fetch_insn16_def full_word_def word_mem_def Let_def)

section \<open>Properties\<close>

text \<open>
  C2: the translation of the register-register instructions of RV64IM is correct. In a context whose guest registers
  are registered, for any guest word that the decoder of the decode file recognises as one of the 28 instructions
  \<open>add\<close> to \<open>remuw\<close>, the translator emits ops that put the value the architecture defines into \<open>rd\<close> (division by zero and
  overflow, 32-bit forms and the high products included), leave \<open>x0\<close>, every other register, the pc and the memory
  alone, and go on behind the instruction. The ops run with the meaning \<open>machine\<close>, under which a division by zero or
  an overflowing one destroys the memory, so the emitted code never lets the host divide that way.
\<close>

theorem register_instructions_correct:
  assumes "ready d c" "misa_contains (misa (d_cfg d)) MISA_M" "full_word m d"
    "generated_decoder 32 insn32_table (fetch_insn32 m d) = Some (CallTrans n args)" "(n, F) \<in> set rv_reg"
  shows "\<exists>e c'. rv_translate_insn (riscv_program H m) d c = Some (e, c') \<and> stepped (is_jmp (d_base d)) d e \<and>
    effects c c' (\<lambda>gb st. sets_reg d (field_value args ''rd'')
      (F (greg d (tv st) (field_value args ''rs1'')) (greg d (tv st) (field_value args ''rs2''))) (mem st) st)"
proof -
  let ?d = "at_insn (fetch_insn32 m d) d" and ?f = "field_value args"
  let ?a = "\<lparr>r_rd = ?f ''rd'', r_rs1 = ?f ''rs1'', r_rs2 = ?f ''rs2''\<rparr>"
  have r: "reg_num (r_rd ?a)" "reg_num (r_rs1 ?a)" "reg_num (r_rs2 ?a)" using decoded_fields [OF assms(4)] by simp_all
  have c: "ready ?d c" "misa_contains (misa (d_cfg ?d)) MISA_M" using assms(1,2) by simp_all
  obtain t where t: "reg_insn ?d c ?a F t" "decode32 (riscv_program H m) ?d (fetch_insn32 m d) c = t c"
    by (rule translated_table [OF assms(4) decode_calls(1) reg_table [OF c r] assms(5)])
  from goes_on_translated [where t = t, OF assms(3) t(2) t(1) [unfolded reg_insn_def]] show ?thesis by simp
qed

theorem register_instructions_correct_witness:
  "\<exists>d c e c'. first_insn d c \<and> rv_translate_insn (riscv_program (\<lambda>_. 0) (word_mem 0x00C58533)) d c = Some (e, c') \<and>
     effects c c' (\<lambda>gb st. sets_reg d 10 (greg d (tv st) 11 + greg d (tv st) 12) (mem st) st)"
proof -
  obtain d c where d: "first_insn d c" "ready d c" "misa_contains (misa (d_cfg d)) MISA_M" "pc_next (d_base d) = 0x1000" "d_guest_base d = 0"
    by (rule first_insn_ready)
  have w: "fetch_insn32 (word_mem 0x00C58533) d = 0x00C58533" "full_word (word_mem 0x00C58533) d" unfolding word_fetched [OF d(4,5)] by simp_all
  have "generated_decoder 32 insn32_table 0x00C58533 = Some (CallTrans ''add'' [(''rd'', 10), (''rs1'', 11), (''rs2'', 12)])" by code_simp
  moreover have "(''add'', (+)) \<in> set rv_reg" by (simp add: rv_reg_def)
  ultimately show ?thesis using register_instructions_correct [OF d(2,3) w(2), unfolded w(1), of "''add''" "[(''rd'', 10), (''rs1'', 11), (''rs2'', 12)]" "(+)" "\<lambda>_. 0"] d(1)
    by (fastforce simp: field_value_def)
qed



text \<open>
  C4: the translation of loads and stores is correct. For a guest word that the decoder recognises as a load, the ops
  put the bytes at guest base plus \<open>rs1 + imm\<close> (little-endian, sign- or zero-extended from the width of the
  mnemonic) into \<open>rd\<close> and change nothing else; for a store they write the low bytes of \<open>rs2\<close> there and change no
  register. In both cases the translator goes on behind the instruction.
\<close>

theorem memory_instructions_correct:
  assumes "ready d c" "full_word m d" "generated_decoder 32 insn32_table (fetch_insn32 m d) = Some (CallTrans n args)"
    "(n, X) \<in> set (rv_memory d (field_value args))"
  shows "\<exists>e c'. rv_translate_insn (riscv_program H m) d c = Some (e, c') \<and> stepped (is_jmp (d_base d)) d e \<and> effects c c' X"
proof -
  let ?d = "at_insn (fetch_insn32 m d) d" and ?f = "field_value args"
  let ?i = "\<lparr>i_imm = ?f ''imm'', i_rs1 = ?f ''rs1'', i_rd = ?f ''rd''\<rparr>" and ?s = "\<lparr>s_imm = ?f ''imm'', s_rs1 = ?f ''rs1'', s_rs2 = ?f ''rs2''\<rparr>"
  have c: "ready ?d c" using assms(1) by simp
  have i: "reg_num (i_rd ?i)" "reg_num (i_rs1 ?i)" and s: "reg_num (s_rs1 ?s)" "reg_num (s_rs2 ?s)" using decoded_fields [OF assms(3)] by simp_all
  consider F where "(n, F) \<in> set rv_load" "X = (\<lambda>gb st. sets_reg d (?f ''rd'') (F (gb + (greg d (tv st) (?f ''rs1'') + ?f ''imm'')) (mem st)) (mem st) st)"
    | k where "(n, k) \<in> set rv_store" "X = (\<lambda>gb st. sets_mem d (write_mem k (gb + (greg d (tv st) (?f ''rs1'') + ?f ''imm'')) (greg d (tv st) (?f ''rs2'')) (mem st)) st)"
    using assms(4) unfolding rv_memory_def by auto
  then show ?thesis
  proof cases
    case (1 F)
    obtain t where t: "load_insn ?d c ?i F t" "decode32 (riscv_program H m) ?d (fetch_insn32 m d) c = t c"
      by (rule translated_table [OF assms(3) decode_calls(3) memory_table(1) [OF c i] 1(1)])
    from goes_on_translated [where t = t, OF assms(2) t(2) t(1) [unfolded load_insn_def]] show ?thesis by (simp add: 1(2))
  next
    case (2 k)
    obtain t where t: "store_insn ?d c ?s k t" "decode32 (riscv_program H m) ?d (fetch_insn32 m d) c = t c"
      by (rule translated_table [OF assms(3) decode_calls(4) memory_table(2) [OF c s] 2(1)])
    from goes_on_translated [where t = t, OF assms(2) t(2) t(1) [unfolded store_insn_def]] show ?thesis by (simp add: 2(2))
  qed
qed

theorem memory_instructions_correct_witness:
  "\<exists>d c e c'. first_insn d c \<and> rv_translate_insn (riscv_program (\<lambda>_. 0) (word_mem 0x0085A503)) d c = Some (e, c') \<and>
     effects c c' (\<lambda>gb st. sets_reg d 10 (scast (ucast (read_mem 4 (gb + (greg d (tv st) 11 + 8)) (mem st)) :: u32)) (mem st) st)"
proof -
  obtain d c where d: "first_insn d c" "ready d c" "misa_contains (misa (d_cfg d)) MISA_M" "pc_next (d_base d) = 0x1000" "d_guest_base d = 0"
    by (rule first_insn_ready)
  let ?args = "[(''imm'', 8), (''rs1'', 11), (''rd'', 10)]"
  have w: "fetch_insn32 (word_mem 0x0085A503) d = 0x0085A503" "full_word (word_mem 0x0085A503) d" unfolding word_fetched [OF d(4,5)] by simp_all
  have dec: "generated_decoder 32 insn32_table 0x0085A503 = Some (CallTrans ''lw'' ?args)" by code_simp
  have "(''lw'', \<lambda>gb st. sets_reg d 10 (scast (ucast (read_mem 4 (gb + (greg d (tv st) 11 + 8)) (mem st)) :: u32)) (mem st) st) \<in> set (rv_memory d (field_value ?args))"
    by (simp add: rv_memory_def rv_load_def field_value_def)
  from memory_instructions_correct [OF d(2) w(2), unfolded w(1), OF dec this, of "\<lambda>_. 0"] d(1) show ?thesis by blast
qed

text \<open>
  C3: the translation of control flow is correct. For a guest word that the decoder recognises as a branch, the ops,
  run with their jumps, leave the block with slot 1 and the pc at the branch target when the condition of the
  mnemonic holds, and with slot 0 and the pc behind the instruction otherwise; \<open>jal\<close> and \<open>jalr\<close> set the link register
  and leave to their target (the latter with bit 0 cleared, and not chainable), \<open>ecall\<close> and \<open>ebreak\<close> leave with their
  exception code and the pc at the instruction. Memory and other registers stay, and the translator ends the block.
\<close>

theorem control_instructions_correct:
  assumes "ready d c" "full_word m d" "generated_decoder 32 insn32_table (fetch_insn32 m d) = Some (CallTrans n args)"
    "(n, X) \<in> set (rv_control d (field_value args))"
  shows "\<exists>e c'. rv_translate_insn (riscv_program H m) d c = Some (e, c') \<and> stepped NoReturn d e \<and> leaves c c' (\<lambda>gb. X)"
proof -
  let ?d = "at_insn (fetch_insn32 m d) d" and ?f = "field_value args" and ?p = "pc_next (d_base d)"
  let ?b = "\<lparr>b_imm = ?f ''imm'', b_rs2 = ?f ''rs2'', b_rs1 = ?f ''rs1''\<rparr>" and ?j = "\<lparr>j_imm = ?f ''imm'', j_rd = ?f ''rd''\<rparr>"
    and ?i = "\<lparr>i_imm = ?f ''imm'', i_rs1 = ?f ''rs1'', i_rd = ?f ''rd''\<rparr>"
  have c: "ready ?d c" using assms(1) by simp
  have b: "reg_num (b_rs1 ?b)" "reg_num (b_rs2 ?b)" and j: "reg_num (j_rd ?j)" and i: "reg_num (i_rd ?i)" "reg_num (i_rs1 ?i)"
    using decoded_fields [OF assms(3)] by simp_all
  have jump: "?thesis" if "(n, t) \<in> set (jump_calls ?d ?j ?i)" "ends_with ?d c (\<lambda>gb. X) (t c)" for t
    by (rule ends_translated [where t = t, OF assms(2) _ that(2)])
      (rule called_runs [OF assms(3) [folded program_decoder [of H m]] decode_calls(6) that(1)])
  consider K where "(n, K) \<in> set rv_branch" "X = (\<lambda>st. if K (greg d (tv st) (?f ''rs1'')) (greg d (tv st) (?f ''rs2''))
       then goes_to d TB_EXIT_IDX1 (?p + ?f ''imm'') 0 0 st else goes_to d TB_EXIT_IDX0 (?p + 4) 0 0 st)"
    | (jal) "n = ''jal''" "X = goes_to d TB_EXIT_IDX0 (?p + ?f ''imm'') (?f ''rd'') (?p + 4)"
    | (jalr) "n = ''jalr''" "X = (\<lambda>st. goes_to d TB_EXIT_NOCHAIN ((greg d (tv st) (?f ''rs1'') + ?f ''imm'') AND NOT 1) (?f ''rd'') (?p + 4) st)"
    | (ecall) "n = ''ecall''" "X = goes_to d EXCP_ECALL ?p 0 0" | (ebreak) "n = ''ebreak''" "X = goes_to d EXCP_EBREAK ?p 0 0"
    using assms(4) unfolding rv_control_def Let_def by auto
  then show ?thesis
  proof cases
    case (1 K)
    obtain t where t: "branch_insn ?d c ?b K t" "decode32 (riscv_program H m) ?d (fetch_insn32 m d) c = t c"
      by (rule translated_table [OF assms(3) decode_calls(5) branch_table [OF c b] 1(1)])
    from ends_translated [where t = t, OF assms(2) t(2) t(1) [unfolded branch_insn_def]] show ?thesis by (simp add: 1(2) cong: if_cong)
  next
    case jal
    show ?thesis by (rule jump [of "trans_jal ?d ?j"]) (use jal jump_sound(1) [OF c j] in \<open>simp_all add: jump_calls_def\<close>)
  next
    case jalr
    show ?thesis by (rule jump [of "trans_jalr ?d ?i"]) (use jalr jump_sound(2) [OF c i] in \<open>simp_all add: jump_calls_def\<close>)
  next
    case ecall
    show ?thesis by (rule jump [of "trans_ecall ?d"]) (use ecall jump_sound(3) [OF c] in \<open>simp_all add: jump_calls_def\<close>)
  next
    case ebreak
    show ?thesis by (rule jump [of "trans_ebreak ?d"]) (use ebreak jump_sound(4) [OF c] in \<open>simp_all add: jump_calls_def\<close>)
  qed
qed

theorem control_instructions_correct_witness:
  "\<exists>d c e c'. first_insn d c \<and> rv_translate_insn (riscv_program (\<lambda>_. 0) (word_mem 0x00B51863)) d c = Some (e, c') \<and>
     leaves c c' (\<lambda>gb st. if greg d (tv st) 10 \<noteq> greg d (tv st) 11
       then goes_to d TB_EXIT_IDX1 0x1010 0 0 st else goes_to d TB_EXIT_IDX0 0x1004 0 0 st)"
proof -
  obtain d c where d: "first_insn d c" "ready d c" "misa_contains (misa (d_cfg d)) MISA_M" "pc_next (d_base d) = 0x1000" "d_guest_base d = 0"
    by (rule first_insn_ready)
  let ?args = "[(''imm'', 16), (''rs2'', 11), (''rs1'', 10)]"
  have w: "fetch_insn32 (word_mem 0x00B51863) d = 0x00B51863" "full_word (word_mem 0x00B51863) d" unfolding word_fetched [OF d(4,5)] by simp_all
  have dec: "generated_decoder 32 insn32_table 0x00B51863 = Some (CallTrans ''bne'' ?args)" by code_simp
  have "(''bne'', \<lambda>st. if greg d (tv st) 10 \<noteq> greg d (tv st) 11
       then goes_to d TB_EXIT_IDX1 0x1010 0 0 st else goes_to d TB_EXIT_IDX0 0x1004 0 0 st) \<in> set (rv_control d (field_value ?args))"
    by (simp add: rv_control_def rv_branch_def field_value_def d(4) cong: if_cong)
  from control_instructions_correct [OF d(2) w(2), unfolded w(1), OF dec this, of "\<lambda>_. 0"] d(1) show ?thesis by blast
qed

end
