(* ===== verification/GuestSpace.thy ===== *)
theory GuestSpace
  imports CodeBuffer
begin

text \<open>
  The guest address space of the user-mode emulator (\<open>linux-user/src/guest_space.rs\<close>). Host memory is
  a record of two functions of the host address, contents and page protection; the space is a
  reservation of 1 GiB at \<open>gs_base\<close>. The operating system is the argument \<open>os\<close>: its page size and
  whether a request to map or protect succeeds. An anonymous mapping zero-fills the pages it covers
  and sets their protection. Arithmetic on \<open>u64\<close> and \<open>usize\<close> wraps, as in a release build. \<open>None\<close> is
  a panic or a memory access the protection forbids.
\<close>

section \<open>Host memory\<close>

record os =
  os_page :: u64
  os_map_ok :: "u64 \<Rightarrow> u64 \<Rightarrow> u32 \<Rightarrow> bool"
  os_protect_ok :: "u64 \<Rightarrow> u64 \<Rightarrow> u32 \<Rightarrow> bool"

record host =
  h_mem :: "u64 \<Rightarrow> u8"
  h_prot :: "u64 \<Rightarrow> u32"

datatype io_error = IoError

definition PROT_NONE :: u32 where "PROT_NONE = 0"
definition PROT_READ :: u32 where "PROT_READ = 1"
definition PROT_WRITE :: u32 where "PROT_WRITE = 2"
definition PROT_EXEC :: u32 where "PROT_EXEC = 4"

definition page_size :: "os \<Rightarrow> u64" where
  "page_size os = (if sint (os_page os) \<le> 0 then 4096 else os_page os)"

definition page_align_up :: "os \<Rightarrow> u64 \<Rightarrow> u64" where
  "page_align_up os addr = (addr + page_size os - 1) AND NOT (page_size os - 1)"

definition page_align_down :: "os \<Rightarrow> u64 \<Rightarrow> u64" where
  "page_align_down os addr = addr AND NOT (page_size os - 1)"

text \<open>\<open>mmap(MAP_FIXED | MAP_ANONYMOUS)\<close> and \<open>mprotect\<close> act on whole pages.\<close>

definition map_pages :: "os \<Rightarrow> u64 \<Rightarrow> u64 \<Rightarrow> u32 \<Rightarrow> host \<Rightarrow> host" where
  "map_pages os p n prot h =
     h\<lparr>h_mem := (\<lambda>a. if a - p < page_align_up os n then 0 else h_mem h a),
       h_prot := (\<lambda>a. if a - p < page_align_up os n then prot else h_prot h a)\<rparr>"

definition protect_pages :: "os \<Rightarrow> u64 \<Rightarrow> u64 \<Rightarrow> u32 \<Rightarrow> host \<Rightarrow> host" where
  "protect_pages os p n prot h = h\<lparr>h_prot := (\<lambda>a. if a - p < page_align_up os n then prot else h_prot h a)\<rparr>"

definition addresses :: "u64 \<Rightarrow> nat \<Rightarrow> u64 list" where
  "addresses p n = map (\<lambda>i. p + of_nat i) [0..<n]"

definition host_write :: "u64 \<Rightarrow> u8 list \<Rightarrow> host \<Rightarrow> host option" where
  "host_write p bs h =
     (if list_all (\<lambda>a. h_prot h a AND PROT_WRITE \<noteq> 0) (addresses p (length bs))
      then Some (h\<lparr>h_mem := (\<lambda>a. if unat (a - p) < length bs then bs ! unat (a - p) else h_mem h a)\<rparr>)
      else None)"

definition host_read :: "u64 \<Rightarrow> nat \<Rightarrow> host \<Rightarrow> u8 list option" where
  "host_read p n h =
     (if list_all (\<lambda>a. h_prot h a AND PROT_READ \<noteq> 0) (addresses p n) then Some (map (h_mem h) (addresses p n)) else None)"

section \<open>The space\<close>

definition GUEST_SPACE_SIZE :: u64 where "GUEST_SPACE_SIZE = push_bit 30 1"
definition GUEST_STACK_TOP :: u64 where "GUEST_STACK_TOP = 0x3FFF0000"
definition GUEST_STACK_SIZE :: u64 where "GUEST_STACK_SIZE = 8 * 1024 * 1024"

record GuestSpace =
  gs_base :: u64
  gs_size :: u64
  gs_brk :: u64

text \<open>\<open>reserved\<close> is the address the operating system reserves, if it does.\<close>

definition gs_new :: "u64 option \<Rightarrow> host \<Rightarrow> (io_error + GuestSpace) \<times> host" where
  "gs_new reserved h =
     (case reserved of
        None \<Rightarrow> (Inl IoError, h)
      | Some p \<Rightarrow>
          (Inr \<lparr>gs_base = p, gs_size = GUEST_SPACE_SIZE, gs_brk = 0\<rparr>,
           h\<lparr>h_mem := (\<lambda>a. if a - p < GUEST_SPACE_SIZE then 0 else h_mem h a),
             h_prot := (\<lambda>a. if a - p < GUEST_SPACE_SIZE then PROT_NONE else h_prot h a)\<rparr>))"

definition g2h :: "GuestSpace \<Rightarrow> u64 \<Rightarrow> u64 option" where
  "g2h s guest_addr = (if guest_addr < gs_size s then Some (gs_base s + guest_addr) else None)"

definition h2g :: "GuestSpace \<Rightarrow> u64 \<Rightarrow> u64 option" where
  "h2g s host_ptr = (let off = host_ptr - gs_base s in if off < gs_size s then Some off else None)"

definition guest_base :: "GuestSpace \<Rightarrow> u64" where
  "guest_base s = gs_base s"

definition set_brk :: "u64 \<Rightarrow> GuestSpace \<Rightarrow> GuestSpace" where
  "set_brk brk s = s\<lparr>gs_brk := brk\<rparr>"

definition mmap_fixed :: "os \<Rightarrow> GuestSpace \<Rightarrow> u64 \<Rightarrow> u64 \<Rightarrow> u32 \<Rightarrow> host \<Rightarrow> ((io_error + unit) \<times> host) option" where
  "mmap_fixed os s guest_addr n prot h = do {
     p \<leftarrow> g2h s guest_addr;
     Some (if os_map_ok os p n prot then (Inr (), map_pages os p n prot h) else (Inl IoError, h)) }"

definition mprotect :: "os \<Rightarrow> GuestSpace \<Rightarrow> u64 \<Rightarrow> u64 \<Rightarrow> u32 \<Rightarrow> host \<Rightarrow> ((io_error + unit) \<times> host) option" where
  "mprotect os s guest_addr n prot h = do {
     p \<leftarrow> g2h s guest_addr;
     Some (if os_protect_ok os p n prot then (Inr (), protect_pages os p n prot h) else (Inl IoError, h)) }"

definition write_bytes :: "GuestSpace \<Rightarrow> u64 \<Rightarrow> u8 list \<Rightarrow> host \<Rightarrow> host option" where
  "write_bytes s guest_addr bs h = do { p \<leftarrow> g2h s guest_addr; host_write p bs h }"

definition write_u64 :: "GuestSpace \<Rightarrow> u64 \<Rightarrow> u64 \<Rightarrow> host \<Rightarrow> host option" where
  "write_u64 s guest_addr val h = do { p \<leftarrow> g2h s guest_addr; host_write p (le_bytes 8 val) h }"

definition read_u64 :: "GuestSpace \<Rightarrow> u64 \<Rightarrow> host \<Rightarrow> u64 option" where
  "read_u64 s guest_addr h = do { p \<leftarrow> g2h s guest_addr; bs \<leftarrow> host_read p 8 h; Some (le_word bs) }"

section \<open>The guest's view of memory\<close>

text \<open>
  Contents and protection by guest address, with addresses as natural numbers. \<open>unat\<close> of a
  difference of host addresses is the difference of guest addresses, whatever the base.
\<close>

definition gmem :: "GuestSpace \<Rightarrow> host \<Rightarrow> nat \<Rightarrow> u8" where
  "gmem s h a = h_mem h (gs_base s + of_nat a)"

definition gprot :: "GuestSpace \<Rightarrow> host \<Rightarrow> nat \<Rightarrow> u32" where
  "gprot s h a = h_prot h (gs_base s + of_nat a)"

definition writable :: "GuestSpace \<Rightarrow> host \<Rightarrow> nat \<Rightarrow> nat \<Rightarrow> bool" where
  "writable s h lo hi \<longleftrightarrow> (\<forall>a. lo \<le> a \<and> a < hi \<longrightarrow> gprot s h a AND PROT_WRITE \<noteq> 0)"

abbreviation (input) space_bytes :: nat where "space_bytes \<equiv> 2 ^ 30"

lemma space_size: "unat GUEST_SPACE_SIZE = space_bytes"
  by (simp add: GUEST_SPACE_SIZE_def)

lemma unat_small: "n < 2 ^ 64 \<Longrightarrow> unat (of_nat n :: u64) = n"
  by (simp add: unat_of_nat)

lemma guest_diff:
  "p < 2 ^ 63 \<Longrightarrow> a < 2 ^ 63 \<Longrightarrow> unat (of_nat a - of_nat p :: u64) = (if p \<le> a then a - p else a + 2 ^ 64 - p)"
  by (simp add: unat_sub_if' unat_small)

lemma guest_inside:
  "p < 2 ^ 63 \<Longrightarrow> a < 2 ^ 63 \<Longrightarrow> n < 2 ^ 63 \<Longrightarrow> unat (of_nat a - of_nat p :: u64) < n \<longleftrightarrow> p \<le> a \<and> a < p + n"
  by (auto simp: guest_diff)

text \<open>Writing bytes and words inside the space.\<close>

lemma host_write_guest:
  assumes "writable s h p (p + length bs)" "p + length bs < 2 ^ 62"
  shows "\<exists>h'. host_write (gs_base s + of_nat p) bs h = Some h' \<and> h_prot h' = h_prot h \<and>
    (\<forall>a < 2 ^ 62. gmem s h' a = (if p \<le> a \<and> a < p + length bs then bs ! (a - p) else gmem s h a))"
proof -
  have "list_all (\<lambda>a. h_prot h a AND PROT_WRITE \<noteq> 0) (addresses (gs_base s + of_nat p) (length bs))"
    using assms(1) by (simp add: addresses_def list_all_iff writable_def gprot_def add.assoc flip: of_nat_add)
  then show ?thesis using assms(2) by (auto simp: host_write_def gmem_def guest_inside guest_diff)
qed

end
