(* ===== verification/Elf.thy ===== *)
theory Elf
  imports GuestSpace
begin

text \<open>
  ELF headers (\<open>linux-user/src/elf.rs\<close>): the layout of the two C structs, the checks on the file header
  and the table of program headers. A file is a list of bytes.
\<close>

section \<open>Constants\<close>

definition ELF_MAGIC :: "u8 list" where "ELF_MAGIC = [0x7f, 0x45, 0x4c, 0x46]"
definition ELFCLASS64 :: u8 where "ELFCLASS64 = 2"
definition ELFDATA2LSB :: u8 where "ELFDATA2LSB = 1"
definition EV_CURRENT :: u8 where "EV_CURRENT = 1"
definition ET_EXEC :: u16 where "ET_EXEC = 2"
definition EM_RISCV :: u16 where "EM_RISCV = 243"
definition PT_LOAD :: u32 where "PT_LOAD = 1"
definition PT_PHDR :: u32 where "PT_PHDR = 6"
definition PF_X :: u32 where "PF_X = 1"
definition PF_W :: u32 where "PF_W = 2"
definition PF_R :: u32 where "PF_R = 4"
definition AT_NULL :: u64 where "AT_NULL = 0"
definition AT_PHDR :: u64 where "AT_PHDR = 3"
definition AT_PHENT :: u64 where "AT_PHENT = 4"
definition AT_PHNUM :: u64 where "AT_PHNUM = 5"
definition AT_PAGESZ :: u64 where "AT_PAGESZ = 6"
definition AT_ENTRY :: u64 where "AT_ENTRY = 9"
definition AT_RANDOM :: u64 where "AT_RANDOM = 25"
definition AT_EXECFN :: u64 where "AT_EXECFN = 31"

datatype ElfError =
  TooSmall | InvalidMagic | UnsupportedClass | UnsupportedEndian | UnsupportedMachine | UnsupportedType | InvalidPhdr

section \<open>Headers\<close>

record Elf64Ehdr =
  e_ident :: "u8 list"
  e_type :: u16
  e_machine :: u16
  e_version :: u32
  e_entry :: u64
  e_phoff :: u64
  e_shoff :: u64
  e_flags :: u32
  e_ehsize :: u16
  e_phentsize :: u16
  e_phnum :: u16
  e_shentsize :: u16
  e_shnum :: u16
  e_shstrndx :: u16

record Elf64Phdr =
  p_type :: u32
  p_flags :: u32
  p_offset :: u64
  p_vaddr :: u64
  p_paddr :: u64
  p_filesz :: u64
  p_memsz :: u64
  p_align :: u64

definition EHDR_SIZE :: nat where "EHDR_SIZE = 64"
definition PHDR_SIZE :: nat where "PHDR_SIZE = 56"

text \<open>A little-endian field of \<open>n\<close> bytes at an offset.\<close>

definition field_at :: "nat \<Rightarrow> nat \<Rightarrow> u8 list \<Rightarrow> 'a::len word" where
  "field_at off n data = le_word (read_at off n data)"

definition ehdr_at :: "u8 list \<Rightarrow> Elf64Ehdr" where
  "ehdr_at data =
     \<lparr>e_ident = read_at 0 16 data, e_type = field_at 16 2 data, e_machine = field_at 18 2 data, e_version = field_at 20 4 data,
      e_entry = field_at 24 8 data, e_phoff = field_at 32 8 data, e_shoff = field_at 40 8 data, e_flags = field_at 48 4 data,
      e_ehsize = field_at 52 2 data, e_phentsize = field_at 54 2 data, e_phnum = field_at 56 2 data,
      e_shentsize = field_at 58 2 data, e_shnum = field_at 60 2 data, e_shstrndx = field_at 62 2 data\<rparr>"

definition phdr_at :: "nat \<Rightarrow> u8 list \<Rightarrow> Elf64Phdr" where
  "phdr_at off data =
     \<lparr>p_type = field_at off 4 data, p_flags = field_at (off + 4) 4 data, p_offset = field_at (off + 8) 8 data,
      p_vaddr = field_at (off + 16) 8 data, p_paddr = field_at (off + 24) 8 data, p_filesz = field_at (off + 32) 8 data,
      p_memsz = field_at (off + 40) 8 data, p_align = field_at (off + 48) 8 data\<rparr>"

definition ehdr_from_bytes :: "u8 list \<Rightarrow> ElfError + Elf64Ehdr" where
  "ehdr_from_bytes data = (if length data < EHDR_SIZE then Inl TooSmall else Inr (ehdr_at data))"

definition validate_riscv64 :: "Elf64Ehdr \<Rightarrow> ElfError + unit" where
  "validate_riscv64 e =
     (if take 4 (e_ident e) \<noteq> ELF_MAGIC then Inl InvalidMagic
      else if e_ident e ! 4 \<noteq> ELFCLASS64 then Inl UnsupportedClass
      else if e_ident e ! 5 \<noteq> ELFDATA2LSB then Inl UnsupportedEndian
      else if e_ident e ! 6 \<noteq> EV_CURRENT then Inl InvalidMagic
      else if e_machine e \<noteq> EM_RISCV then Inl UnsupportedMachine
      else if e_type e \<noteq> ET_EXEC then Inl UnsupportedType
      else Inr ())"

text \<open>
  The table: \<open>num\<close> structs of 56 bytes from \<open>off\<close>, whatever the entry size in the header. The product
  of two 16-bit numbers does not overflow; the sum with the offset may.
\<close>

definition program_headers :: "Elf64Ehdr \<Rightarrow> u8 list \<Rightarrow> ElfError + Elf64Phdr list" where
  "program_headers e data =
     (let off = unat (e_phoff e); num = unat (e_phnum e); ent = unat (e_phentsize e)
      in if ent < PHDR_SIZE then Inl InvalidPhdr
         else if int off + int num * int ent \<ge> 2 ^ 64 then Inl InvalidPhdr
         else if off + num * ent > length data then Inl InvalidPhdr
         else Inr (map (\<lambda>i. phdr_at (off + i * PHDR_SIZE) data) [0..<num]))"

section \<open>Lemmas\<close>

text \<open>An accepted table lies inside the file, so no byte outside it is read.\<close>

lemma program_headers_inside:
  assumes "program_headers e data = Inr ps"
  shows "length ps = unat (e_phnum e) \<and> unat (e_phoff e) + length ps * PHDR_SIZE \<le> length data"
proof -
  have ent: "PHDR_SIZE \<le> unat (e_phentsize e)" and len: "length ps = unat (e_phnum e)"
    and fit: "unat (e_phoff e) + unat (e_phnum e) * unat (e_phentsize e) \<le> length data"
    using assms by (auto simp: program_headers_def Let_def split: if_splits)
  have "length ps * PHDR_SIZE \<le> unat (e_phnum e) * unat (e_phentsize e)" using ent len by (simp add: mult_le_mono)
  then show ?thesis unfolding len using fit by linarith
qed

end
