(* ===== verification/Loader.thy ===== *)
theory Loader
  imports Elf
begin

text \<open>
  The program loader (\<open>linux-user/src/loader.rs\<close>): it maps and fills the loadable segments of an
  executable and builds the initial stack. The contents of the file are an argument, \<open>Inl\<close> when reading
  it failed. Results are \<open>LoadError + _\<close>; \<open>None\<close> is a panic or a forbidden memory access.
\<close>

section \<open>Results\<close>

datatype LoadError = LIo io_error | LElf ElfError | NoLoadSegment | SegmentOutOfRange

record ElfInfo =
  i_entry :: u64
  i_phdr_addr :: u64
  i_phnum :: u16
  i_sp :: u64
  i_brk :: u64

definition elf_to_prot :: "u32 \<Rightarrow> u32" where
  "elf_to_prot flags =
     (if flags AND PF_R \<noteq> 0 then PROT_READ else 0) OR (if flags AND PF_W \<noteq> 0 then PROT_WRITE else 0) OR
     (if flags AND PF_X \<noteq> 0 then PROT_EXEC else 0)"

section \<open>Segments\<close>

text \<open>The address of the program headers: from \<open>PT_PHDR\<close>, else from the first loadable segment.\<close>

definition find_phdr_addr :: "Elf64Phdr list \<Rightarrow> u64 \<Rightarrow> u64" where
  "find_phdr_addr ps phoff =
     (let phdr_addr = foldl (\<lambda>a ph. if p_type ph = PT_PHDR then p_vaddr ph else a) 0 ps
      in if phdr_addr = 0 then
           (case filter (\<lambda>ph. p_type ph = PT_LOAD) ps of ph # _ \<Rightarrow> p_vaddr ph + phoff | [] \<Rightarrow> phdr_addr)
         else phdr_addr)"

definition copy_segment :: "GuestSpace \<Rightarrow> u8 list \<Rightarrow> Elf64Phdr \<Rightarrow> host \<Rightarrow> ((LoadError + unit) \<times> host) option" where
  "copy_segment s data ph h =
     (if p_filesz ph > 0 then
        (let src_off = p_offset ph; src_end = src_off + p_filesz ph
         in if length data < unat src_end then Some (Inl (LElf InvalidPhdr), h)
            else do {
              assert_that (src_off \<le> src_end);
              h \<leftarrow> write_bytes s (p_vaddr ph) (take (unat src_end - unat src_off) (drop (unat src_off) data)) h;
              Some (Inr (), h) })
      else Some (Inr (), h))"

text \<open>One loadable segment; \<open>brk\<close> is the highest page-aligned end so far.\<close>

definition load_segment :: "os \<Rightarrow> GuestSpace \<Rightarrow> u8 list \<Rightarrow> Elf64Phdr \<Rightarrow> u64 \<Rightarrow> host \<Rightarrow> ((LoadError + u64) \<times> host) option" where
  "load_segment os s data ph brk h =
     (let aligned_start = page_align_down os (p_vaddr ph);
          aligned_end = page_align_up os (p_vaddr ph + p_memsz ph);
          aligned_size = aligned_end - aligned_start
      in if aligned_end > GUEST_STACK_TOP then Some (Inl SegmentOutOfRange, h)
         else do {
           (r, h) \<leftarrow> mmap_fixed os s aligned_start aligned_size (PROT_READ OR PROT_WRITE) h;
           case r of
             Inl e \<Rightarrow> Some (Inl (LIo e), h)
           | Inr _ \<Rightarrow> do {
               (r, h) \<leftarrow> copy_segment s data ph h;
               case r of
                 Inl e \<Rightarrow> Some (Inl e, h)
               | Inr _ \<Rightarrow> do {
                   let prot = elf_to_prot (p_flags ph);
                   (r, h) \<leftarrow> (if prot \<noteq> PROT_READ OR PROT_WRITE then mprotect os s aligned_start aligned_size prot h
                     else Some (Inr (), h));
                   case r of
                     Inl e \<Rightarrow> Some (Inl (LIo e), h)
                   | Inr _ \<Rightarrow>
                       let seg_end = page_align_up os (p_vaddr ph + p_memsz ph)
                       in Some (Inr (if seg_end > brk then seg_end else brk), h) } } })"

fun load_segments :: "os \<Rightarrow> GuestSpace \<Rightarrow> u8 list \<Rightarrow> Elf64Phdr list \<Rightarrow> u64 \<Rightarrow> bool \<Rightarrow> host \<Rightarrow> ((LoadError + u64 \<times> bool) \<times> host) option" where
  "load_segments os s data [] brk has_load h = Some (Inr (brk, has_load), h)"
| "load_segments os s data (ph # ps) brk has_load h =
     (if p_type ph \<noteq> PT_LOAD then load_segments os s data ps brk has_load h
      else do {
        (r, h) \<leftarrow> load_segment os s data ph brk h;
        case r of
          Inl e \<Rightarrow> Some (Inl e, h)
        | Inr brk \<Rightarrow> load_segments os s data ps brk True h })"

section \<open>The initial stack\<close>

definition random_data :: "u8 list" where
  "random_data = [0xde, 0xad, 0xbe, 0xef, 0xca, 0xfe, 0xba, 0xbe, 0x01, 0x23, 0x45, 0x67, 0x89, 0xab, 0xcd, 0xef]"

text \<open>
  Strings are written from the top down, the last one first; the result lists their addresses in the
  order of the strings. The terminating zero is the byte left free above each.
\<close>

fun push_strings :: "GuestSpace \<Rightarrow> u8 list list \<Rightarrow> u64 \<Rightarrow> u64 list \<Rightarrow> host \<Rightarrow> (u64 \<times> u64 list \<times> host) option" where
  "push_strings s [] pos addrs h = Some (pos, addrs, h)"
| "push_strings s (bs # rest) pos addrs h = do {
     let pos = pos - of_nat (length bs + 1);
     h \<leftarrow> write_bytes s pos bs h;
     push_strings s rest pos (pos # addrs) h }"

fun write_words :: "GuestSpace \<Rightarrow> u64 \<Rightarrow> u64 list \<Rightarrow> host \<Rightarrow> host option" where
  "write_words s cur [] h = Some h"
| "write_words s cur (w # ws) h = do { h \<leftarrow> write_u64 s cur w h; write_words s (cur + 8) ws h }"

definition auxv :: "os \<Rightarrow> u64 \<Rightarrow> u64 \<Rightarrow> u16 \<Rightarrow> u64 \<Rightarrow> u64 \<Rightarrow> (u64 \<times> u64) list" where
  "auxv os entry phdr_addr phnum random_addr execfn_addr =
     [(AT_PHDR, phdr_addr), (AT_PHENT, 56), (AT_PHNUM, ucast phnum), (AT_PAGESZ, page_size os), (AT_ENTRY, entry),
      (AT_RANDOM, random_addr), (AT_EXECFN, execfn_addr), (AT_NULL, 0)]"

text \<open>The words of the frame, from \<open>argc\<close> upwards.\<close>

definition frame_words :: "u64 list \<Rightarrow> u64 list \<Rightarrow> (u64 \<times> u64) list \<Rightarrow> u64 list" where
  "frame_words argv_addrs envp_addrs aux =
     of_nat (length argv_addrs) # argv_addrs @ [0] @ envp_addrs @ [0] @ concat (map (\<lambda>(t, v). [t, v]) aux)"

definition setup_stack ::
    "os \<Rightarrow> GuestSpace \<Rightarrow> u64 \<Rightarrow> u64 \<Rightarrow> u16 \<Rightarrow> u8 list list \<Rightarrow> u8 list list \<Rightarrow> u8 list \<Rightarrow> host \<Rightarrow> ((LoadError + u64) \<times> host) option" where
  "setup_stack os s entry phdr_addr phnum argv envp execfn h = do {
     let stack_top = GUEST_STACK_TOP;
     let stack_base = stack_top - GUEST_STACK_SIZE;
     (r, h) \<leftarrow> mmap_fixed os s stack_base GUEST_STACK_SIZE (PROT_READ OR PROT_WRITE) h;
     case r of
       Inl e \<Rightarrow> Some (Inl (LIo e), h)
     | Inr _ \<Rightarrow> do {
         let random_addr = stack_top - 16;
         h \<leftarrow> write_bytes s random_addr random_data h;
         let execfn_addr = random_addr - of_nat (length execfn + 1);
         h \<leftarrow> write_bytes s execfn_addr execfn h;
         (pos, envp_addrs, h) \<leftarrow> push_strings s (rev envp) execfn_addr [] h;
         (pos, argv_addrs, h) \<leftarrow> push_strings s (rev argv) pos [] h;
         let pos = pos AND NOT 15;
         let aux = auxv os entry phdr_addr phnum random_addr execfn_addr;
         let frame_u64s = 1 + length argv + 1 + length envp + 1 + length aux * 2;
         let pos = pos - of_nat (frame_u64s * 8);
         let sp = pos AND NOT 15;
         h \<leftarrow> write_words s sp (frame_words argv_addrs envp_addrs aux) h;
         Some (Inr sp, h) } }"

section \<open>Loading\<close>

definition load_elf ::
    "os \<Rightarrow> io_error + u8 list \<Rightarrow> u8 list \<Rightarrow> u8 list list \<Rightarrow> u8 list list \<Rightarrow> GuestSpace \<Rightarrow> host \<Rightarrow> ((LoadError + ElfInfo) \<times> GuestSpace \<times> host) option" where
  "load_elf os file path argv envp s h =
     (case file of
        Inl e \<Rightarrow> Some (Inl (LIo e), s, h)
      | Inr data \<Rightarrow>
     (case ehdr_from_bytes data of
        Inl e \<Rightarrow> Some (Inl (LElf e), s, h)
      | Inr ehdr \<Rightarrow>
     (case validate_riscv64 ehdr of
        Inl e \<Rightarrow> Some (Inl (LElf e), s, h)
      | Inr _ \<Rightarrow>
     (case program_headers ehdr data of
        Inl e \<Rightarrow> Some (Inl (LElf e), s, h)
      | Inr phdrs \<Rightarrow> do {
          let phdr_addr = find_phdr_addr phdrs (e_phoff ehdr);
          (r, h) \<leftarrow> load_segments os s data phdrs 0 False h;
          case r of
            Inl e \<Rightarrow> Some (Inl e, s, h)
          | Inr (brk, has_load) \<Rightarrow>
              if \<not> has_load then Some (Inl NoLoadSegment, s, h)
              else do {
                let s = set_brk brk s;
                (r, h) \<leftarrow> setup_stack os s (e_entry ehdr) phdr_addr (e_phnum ehdr) argv envp path h;
                case r of
                  Inl e \<Rightarrow> Some (Inl e, s, h)
                | Inr sp \<Rightarrow>
                    Some (Inr \<lparr>i_entry = e_entry ehdr, i_phdr_addr = phdr_addr, i_phnum = e_phnum ehdr, i_sp = sp, i_brk = brk\<rparr>, s, h) } }))))"

end
