(* ===== verification/Loader_Sound.thy ===== *)
theory Loader_Sound
  imports Loader
begin

text \<open>
  What the loader leaves in guest memory: the bytes of the loadable segments and the initial stack that
  the Linux ABI prescribes.
\<close>

section \<open>Pages\<close>

text \<open>
  What the loader relies on of the operating system: a page size that is a power of two between 4 KiB
  and 64 KiB, a reservation at a page boundary, and success of the requests for whole pages inside it.
\<close>

definition granting :: "os \<Rightarrow> GuestSpace \<Rightarrow> bool" where
  "granting os s \<longleftrightarrow> (\<exists>k. 12 \<le> k \<and> k \<le> 16 \<and> page_size os = push_bit k 1) \<and> gs_size s = GUEST_SPACE_SIZE \<and>
     (\<forall>a n prot. a mod unat (page_size os) = 0 \<and> 0 < n \<and> a + n \<le> 2 ^ 30 \<longrightarrow>
        os_map_ok os (gs_base s + of_nat a) (of_nat n) prot \<and> os_protect_ok os (gs_base s + of_nat a) (of_nat n) prot)"

definition psize :: "os \<Rightarrow> nat" where
  "psize os = unat (page_size os)"

definition pdown :: "os \<Rightarrow> nat \<Rightarrow> nat" where
  "pdown os a = a div psize os * psize os"

definition pup :: "os \<Rightarrow> nat \<Rightarrow> nat" where
  "pup os a = (a + psize os - 1) div psize os * psize os"

lemma unat_exp: "k < 64 \<Longrightarrow> unat (push_bit k 1 :: u64) = 2 ^ k"
  unfolding unsigned_push_bit_eq by (simp add: take_bit_nat_eq_self del: push_bit_of_1)

lemma granting_psize:
  assumes "granting os s"
  obtains k where "12 \<le> k" "k \<le> 16" "psize os = 2 ^ k" "page_size os = push_bit k 1"
proof -
  obtain k where k: "12 \<le> k" "k \<le> 16" "page_size os = push_bit k 1" using assms by (auto simp: granting_def)
  moreover have "psize os = 2 ^ k" unfolding psize_def k(3) by (rule unat_exp) (use k in simp)
  ultimately show ?thesis using that by blast
qed

lemma clear_low: "unat (x AND NOT (push_bit k 1 - 1) :: u64) = unat x div 2 ^ k * 2 ^ k"
proof -
  have "x AND NOT (push_bit k 1 - 1) = push_bit k (drop_bit k x)"
    unfolding push_bit_of_1 mask_eq_exp_minus_1 [symmetric]
    by (rule bit_word_eqI) (auto simp: bit_simps)
  moreover have "unat (push_bit k (drop_bit k x)) = unat x div 2 ^ k * 2 ^ k"
  proof -
    have "unat x div 2 ^ k * 2 ^ k \<le> unat x" by simp
    also have "\<dots> < 2 ^ 64" using unsigned_less [of x] by simp
    finally show ?thesis
      unfolding unsigned_push_bit_eq unat_drop_bit_eq unfolding push_bit_eq_mult drop_bit_eq_div
      by (simp add: take_bit_nat_eq_self)
  qed
  ultimately show ?thesis by (simp only:)
qed

lemma clear_low_of_nat: "a < 2 ^ 64 \<Longrightarrow> of_nat a AND NOT (push_bit k 1 - 1) = (of_nat (a div 2 ^ k * 2 ^ k) :: u64)"
proof -
  assume a: "a < 2 ^ 64"
  have "a div 2 ^ k * 2 ^ k \<le> a" by simp
  then have "a div 2 ^ k * 2 ^ k < 2 ^ 64" using a by (rule le_less_trans)
  then have "unat (of_nat a AND NOT (push_bit k 1 - 1) :: u64) = unat (of_nat (a div 2 ^ k * 2 ^ k) :: u64)"
    using a unfolding clear_low by (simp only: unat_small)
  then show ?thesis by (simp only: word_unat_eq_iff)
qed

lemma aligned_down: "granting os s \<Longrightarrow> a < 2 ^ 63 \<Longrightarrow> page_align_down os (of_nat a) = of_nat (pdown os a)"
  by (erule granting_psize) (simp add: page_align_down_def pdown_def clear_low_of_nat del: push_bit_of_1)

lemma aligned_up: "granting os s \<Longrightarrow> a < 2 ^ 63 \<Longrightarrow> page_align_up os (of_nat a) = of_nat (pup os a)"
proof (erule granting_psize)
  fix k assume k: "a < 2 ^ 63" "12 \<le> k" "k \<le> 16" "psize os = 2 ^ k" "page_size os = push_bit k 1"
  have p: "page_size os = of_nat (psize os)" by (simp add: psize_def)
  have "1 \<le> psize os" "psize os \<le> 2 ^ 16" unfolding k(4) using k(3) by (simp, intro power_increasing) simp_all
  then have "of_nat a + page_size os - 1 = (of_nat (a + psize os - 1) :: u64)" "a + psize os - 1 < 2 ^ 64"
    using k(1) unfolding p by (simp_all add: of_nat_diff)
  then show ?thesis using clear_low_of_nat [of "a + psize os - 1" k]
    unfolding page_align_up_def pup_def k(4) by (simp only: k(5))
qed

lemma page_bounds:
  assumes "granting os s"
  shows "pdown os a \<le> a" "a < pdown os a + psize os" "a \<le> pup os a" "pup os a < a + psize os"
    "pdown os a mod psize os = 0" "pup os a mod psize os = 0"
proof -
  obtain k where "psize os = 2 ^ k" using assms by (rule granting_psize)
  then have pos: "0 < psize os" by simp
  show "pdown os a \<le> a" "pdown os a mod psize os = 0" "pup os a mod psize os = 0" by (simp_all add: pdown_def pup_def)
  show "a < pdown os a + psize os"
    unfolding pdown_def using div_mult_mod_eq [of a "psize os"] mod_less_divisor [OF pos, of a] by linarith
  have "(a + psize os - 1) div psize os * psize os + (a + psize os - 1) mod psize os = a + psize os - 1" by (rule div_mult_mod_eq)
  moreover have "(a + psize os - 1) mod psize os < psize os" using pos by simp
  ultimately show "a \<le> pup os a" "pup os a < a + psize os" unfolding pup_def using pos by linarith+
qed


lemma pup_aligned: "granting os s \<Longrightarrow> n mod psize os = 0 \<Longrightarrow> pup os n = n"
proof -
  assume g: "granting os s" and n: "n mod psize os = 0"
  then obtain q where q: "n = psize os * q" by auto
  have pos: "0 < psize os" using page_bounds(2) [OF g, of 0] by (simp add: pdown_def)
  have "(n + psize os - 1) div psize os = q" using pos q by (intro div_nat_eqI) (simp_all add: algebra_simps)
  then show "pup os n = n" unfolding pup_def q by simp
qed

section \<open>The operations in the guest's view\<close>

text \<open>Contents of the space: what it held before, with some bytes from \<open>p\<close> on replaced.\<close>

definition patched :: "nat \<Rightarrow> u8 list \<Rightarrow> (nat \<Rightarrow> u8) \<Rightarrow> nat \<Rightarrow> u8" where
  "patched p bs f a = (if p \<le> a \<and> a < p + length bs then bs ! (a - p) else f a)"

definition same_space :: "GuestSpace \<Rightarrow> host \<Rightarrow> host \<Rightarrow> nat \<Rightarrow> nat \<Rightarrow> bool" where
  "same_space s h h' lo hi \<longleftrightarrow> (\<forall>a. lo \<le> a \<and> a < hi \<longrightarrow> gmem s h' a = gmem s h a \<and> gprot s h' a = gprot s h a)"

lemma write_bytes_guest:
  assumes "writable s h p (p + length bs)" "p + length bs \<le> space_bytes" "p < space_bytes" "gs_size s = GUEST_SPACE_SIZE"
  obtains h' where "write_bytes s (of_nat p) bs h = Some h'" "h_prot h' = h_prot h"
    "\<And>a. a < space_bytes \<Longrightarrow> gmem s h' a = patched p bs (gmem s h) a"
proof -
  have "g2h s (of_nat p) = Some (gs_base s + of_nat p)"
    using assms(3,4) space_size by (simp add: g2h_def word_less_nat_alt unat_small)
  moreover obtain h' where "host_write (gs_base s + of_nat p) bs h = Some h'" "h_prot h' = h_prot h"
    "\<forall>a < 2 ^ 62. gmem s h' a = (if p \<le> a \<and> a < p + length bs then bs ! (a - p) else gmem s h a)"
    using host_write_guest [OF assms(1)] assms(2) by auto
  ultimately show ?thesis by (intro that [of h']) (simp_all add: write_bytes_def patched_def)
qed

lemma mapped_range:
  assumes "granting os s" "n mod psize os = 0" "p + n \<le> space_bytes" "a < space_bytes"
  shows "of_nat a - of_nat p < page_align_up os (of_nat n) \<longleftrightarrow> p \<le> a \<and> a < p + n"
proof -
  have "page_align_up os (of_nat n) = of_nat n" using assms(3) by (simp add: aligned_up [OF assms(1)] pup_aligned [OF assms(1,2)])
  then show ?thesis using assms(3,4) guest_inside [of p a n] by (simp add: word_less_nat_alt unat_small)
qed

lemma g2h_inside: "granting os s \<Longrightarrow> p < space_bytes \<Longrightarrow> g2h s (of_nat p) = Some (gs_base s + of_nat p)"
  using space_size by (simp add: granting_def g2h_def word_less_nat_alt unat_small)

lemma mmap_fixed_guest:
  assumes g: "granting os s" and p: "p mod psize os = 0" and n: "n mod psize os = 0" "0 < n" "p + n \<le> space_bytes"
  obtains h' where "mmap_fixed os s (of_nat p) (of_nat n) prot h = Some (Inr (), h')"
    "\<And>a. a < space_bytes \<Longrightarrow> gmem s h' a = (if p \<le> a \<and> a < p + n then 0 else gmem s h a)"
    "\<And>a. a < space_bytes \<Longrightarrow> gprot s h' a = (if p \<le> a \<and> a < p + n then prot else gprot s h a)"
proof (rule that [of "map_pages os (gs_base s + of_nat p) (of_nat n) prot h"])
  have "os_map_ok os (gs_base s + of_nat p) (of_nat n) prot" using g p n by (simp add: granting_def psize_def)
  then show "mmap_fixed os s (of_nat p) (of_nat n) prot h = Some (Inr (), map_pages os (gs_base s + of_nat p) (of_nat n) prot h)"
    using n by (simp add: mmap_fixed_def g2h_inside [OF g])
qed (simp_all add: map_pages_def gmem_def gprot_def mapped_range [OF g n(1,3)])

lemma mprotect_guest:
  assumes g: "granting os s" and p: "p mod psize os = 0" and n: "n mod psize os = 0" "0 < n" "p + n \<le> space_bytes"
  obtains h' where "mprotect os s (of_nat p) (of_nat n) prot h = Some (Inr (), h')" "h_mem h' = h_mem h"
    "\<And>a. a < space_bytes \<Longrightarrow> gprot s h' a = (if p \<le> a \<and> a < p + n then prot else gprot s h a)"
proof (rule that [of "protect_pages os (gs_base s + of_nat p) (of_nat n) prot h"])
  have "os_protect_ok os (gs_base s + of_nat p) (of_nat n) prot" using g p n by (simp add: granting_def psize_def)
  then show "mprotect os s (of_nat p) (of_nat n) prot h = Some (Inr (), protect_pages os (gs_base s + of_nat p) (of_nat n) prot h)"
    using n by (simp add: mprotect_def g2h_inside [OF g])
qed (simp_all add: protect_pages_def gprot_def mapped_range [OF g n(1,3)])

section \<open>The stack\<close>

text \<open>A string with the zero that ends it, and a little-endian word, at a guest address.\<close>

definition cstr :: "GuestSpace \<Rightarrow> host \<Rightarrow> nat \<Rightarrow> u8 list \<Rightarrow> bool" where
  "cstr s h a bs \<longleftrightarrow> (\<forall>i < length bs. gmem s h (a + i) = bs ! i) \<and> gmem s h (a + length bs) = 0"

definition word_at :: "GuestSpace \<Rightarrow> host \<Rightarrow> nat \<Rightarrow> u64 \<Rightarrow> bool" where
  "word_at s h a w \<longleftrightarrow> (\<forall>j < 8. gmem s h (a + j) = le_bytes 8 w ! j)"

fun str_addrs :: "nat \<Rightarrow> u8 list list \<Rightarrow> nat list" where
  "str_addrs pos [] = []"
| "str_addrs pos (bs # rest) = (let pos = pos - (length bs + 1) in pos # str_addrs pos rest)"

definition str_space :: "u8 list list \<Rightarrow> nat" where
  "str_space ss = sum_list (map (\<lambda>bs. length bs + 1) ss)"

lemma of_nat_minus: "b \<le> a \<Longrightarrow> of_nat a - of_nat b = (of_nat (a - b) :: u64)"
  by (simp add: of_nat_diff)

lemma push_strings_guest:
  assumes "gs_size s = GUEST_SPACE_SIZE" "writable s h base pos" "pos \<le> space_bytes" "base + str_space ss \<le> pos"
    "\<And>a. base \<le> a \<Longrightarrow> a < pos \<Longrightarrow> gmem s h a = 0"
  shows "\<exists>h'. push_strings s ss (of_nat pos) addrs h = Some (of_nat (pos - str_space ss), rev (map of_nat (str_addrs pos ss)) @ addrs, h') \<and>
    h_prot h' = h_prot h \<and> list_all2 (cstr s h') (str_addrs pos ss) ss \<and>
    (\<forall>a. base \<le> a \<and> a < pos - str_space ss \<longrightarrow> gmem s h' a = 0) \<and>
    (\<forall>a < space_bytes. a < base \<or> pos \<le> a \<longrightarrow> gmem s h' a = gmem s h a)"
  using assms(2-)
proof (induction ss arbitrary: pos addrs h)
  case Nil
  then show ?case by (simp add: str_space_def)
next
  case (Cons bs rest)
  define q where "q = pos - (length bs + 1)"
  have q: "base + str_space rest \<le> q" "q + length bs + 1 = pos" "q < space_bytes"
    using Cons.prems(2,3) by (auto simp: q_def str_space_def)
  have "writable s h q (q + length bs)" using Cons.prems(1) q by (auto simp: writable_def)
  then obtain h1 where h1: "write_bytes s (of_nat q) bs h = Some h1" "h_prot h1 = h_prot h"
      "\<And>a. a < space_bytes \<Longrightarrow> gmem s h1 a = patched q bs (gmem s h) a"
    using q Cons.prems(2) by (elim write_bytes_guest) (auto simp: assms(1))
  have w1: "writable s h1 base q" using Cons.prems(1) q h1(2) by (auto simp: writable_def gprot_def)
  have z1: "gmem s h1 a = 0" if "base \<le> a" "a < q" for a
    using that q Cons.prems(2) Cons.prems(4) [of a] by (simp add: h1(3) patched_def)
  obtain h' where h': "push_strings s rest (of_nat q) (of_nat q # addrs) h1 =
        Some (of_nat (q - str_space rest), rev (map of_nat (str_addrs q rest)) @ of_nat q # addrs, h')"
      "h_prot h' = h_prot h1" "list_all2 (cstr s h') (str_addrs q rest) rest"
      "\<forall>a. base \<le> a \<and> a < q - str_space rest \<longrightarrow> gmem s h' a = 0"
      "\<forall>a < space_bytes. a < base \<or> q \<le> a \<longrightarrow> gmem s h' a = gmem s h1 a"
    using Cons.IH [OF w1 less_imp_le [OF q(3)] q(1) z1, of "of_nat q # addrs"] by blast
  have "cstr s h' q bs"
    using h'(5) q Cons.prems(2,4) by (auto simp: cstr_def h1(3) patched_def)
  moreover have "of_nat pos - of_nat (length bs + 1) = (of_nat q :: u64)"
    unfolding q_def using q by (intro of_nat_minus) simp
  moreover have "pos - str_space (bs # rest) = q - str_space rest" by (simp add: str_space_def q_def)
  ultimately show ?case using h' h1 q Cons.prems(2)
    by (intro exI [of _ h']) (auto simp: q_def [symmetric] Let_def patched_def)
qed

lemma write_words_guest:
  assumes "gs_size s = GUEST_SPACE_SIZE" "writable s h p (p + 8 * length ws)" "p + 8 * length ws \<le> space_bytes"
  shows "\<exists>h'. write_words s (of_nat p) ws h = Some h' \<and> h_prot h' = h_prot h \<and>
    (\<forall>i < length ws. word_at s h' (p + 8 * i) (ws ! i)) \<and>
    (\<forall>a < space_bytes. a < p \<or> p + 8 * length ws \<le> a \<longrightarrow> gmem s h' a = gmem s h a)"
  using assms(2-)
proof (induction ws arbitrary: p h)
  case Nil
  then show ?case by simp
next
  case (Cons w ws)
  have len: "length (le_bytes 8 w) = 8" by (simp add: le_bytes_def)
  have "writable s h p (p + length (le_bytes 8 w))" using Cons.prems(1) by (auto simp: writable_def len)
  then obtain h1 where h1: "write_bytes s (of_nat p) (le_bytes 8 w) h = Some h1" "h_prot h1 = h_prot h"
      "\<And>a. a < space_bytes \<Longrightarrow> gmem s h1 a = patched p (le_bytes 8 w) (gmem s h) a"
    using Cons.prems(2) by (elim write_bytes_guest) (auto simp: assms(1) len)
  have w1: "writable s h1 (p + 8) (p + 8 + 8 * length ws)" using Cons.prems(1) h1(2) by (auto simp: writable_def gprot_def)
  obtain h' where h': "write_words s (of_nat (p + 8)) ws h1 = Some h'" "h_prot h' = h_prot h1"
      "\<forall>i < length ws. word_at s h' (p + 8 + 8 * i) (ws ! i)"
      "\<forall>a < space_bytes. a < p + 8 \<or> p + 8 + 8 * length ws \<le> a \<longrightarrow> gmem s h' a = gmem s h1 a"
    using Cons.IH [OF w1] Cons.prems(2) by auto
  have "word_at s h' p w" using h'(4) Cons.prems(2) by (auto simp: word_at_def h1(3) patched_def len)
  then have "word_at s h' (p + 8 * i) ((w # ws) ! i)" if "i < length (w # ws)" for i
    using h'(3) that by (cases i) (auto simp: algebra_simps)
  moreover have "write_u64 s (of_nat p) w h = Some h1" using h1(1) by (simp add: write_u64_def write_bytes_def)
  ultimately show ?case using h' h1 Cons.prems(2)
    by (intro exI [of _ h']) (auto simp: patched_def len add.commute)
qed

lemma read_u64_word:
  assumes "granting os s" "word_at s h a w" "a + 8 \<le> space_bytes" "\<And>x. a \<le> x \<Longrightarrow> x < a + 8 \<Longrightarrow> gprot s h x AND PROT_READ \<noteq> 0"
  shows "read_u64 s (of_nat a) h = Some w"
proof -
  have "map (h_mem h) (addresses (gs_base s + of_nat a) 8) = le_bytes 8 w"
    using assms(2) by (intro nth_equalityI) (auto simp: addresses_def word_at_def gmem_def le_bytes_def add.assoc)
  moreover have "list_all (\<lambda>a. h_prot h a AND PROT_READ \<noteq> 0) (addresses (gs_base s + of_nat a) 8)"
    using assms(4) by (auto simp: addresses_def list_all_iff gprot_def add.assoc simp flip: of_nat_add)
  ultimately show ?thesis
    using assms(3) by (simp add: read_u64_def g2h_inside [OF assms(1)] host_read_def le_word_le_bytes)
qed


text \<open>
  The initial stack: where its parts lie, from the top down. \<open>STACK_TOP\<close> and \<open>STACK_BASE\<close> are the bounds
  as natural numbers.
\<close>

abbreviation (input) STACK_TOP :: nat where "STACK_TOP \<equiv> 0x3FFF0000"
abbreviation (input) STACK_BASE :: nat where "STACK_BASE \<equiv> 0x3F7F0000"

definition stack_bytes :: "u8 list list \<Rightarrow> u8 list list \<Rightarrow> u8 list \<Rightarrow> nat" where
  "stack_bytes argv envp execfn = 17 + length execfn + str_space envp + str_space argv + 8 * (length argv + length envp + 19) + 32"

definition initial_stack :: "os \<Rightarrow> GuestSpace \<Rightarrow> host \<Rightarrow> u64 \<Rightarrow> u64 \<Rightarrow> u16 \<Rightarrow> u8 list list \<Rightarrow> u8 list list \<Rightarrow> u8 list \<Rightarrow> nat \<Rightarrow> bool" where
  "initial_stack os s h entry phdr_addr phnum argv envp execfn sp \<longleftrightarrow>
     sp mod 16 = 0 \<and> STACK_BASE \<le> sp \<and> sp < STACK_TOP \<and>
     (\<exists>argv_addrs envp_addrs random_addr execfn_addr.
        list_all2 (cstr s h) argv_addrs argv \<and> list_all2 (cstr s h) envp_addrs envp \<and> cstr s h execfn_addr execfn \<and>
        (\<forall>i < 16. gmem s h (random_addr + i) = random_data ! i) \<and>
        (let ws = frame_words (map of_nat argv_addrs) (map of_nat envp_addrs)
                    (auxv os entry phdr_addr phnum (of_nat random_addr) (of_nat execfn_addr))
         in \<forall>i < length ws. read_u64 s (of_nat (sp + 8 * i)) h = Some (ws ! i)))"

lemma initial_stackI:
  assumes "sp mod 16 = 0" "STACK_BASE \<le> sp" "sp < STACK_TOP" "list_all2 (cstr s h) argv_addrs argv" "list_all2 (cstr s h) envp_addrs envp"
    "cstr s h execfn_addr execfn" "\<forall>i < 16. gmem s h (random_addr + i) = random_data ! i"
    "\<forall>i < length (frame_words (map of_nat argv_addrs) (map of_nat envp_addrs) (auxv os entry phdr_addr phnum (of_nat random_addr) (of_nat execfn_addr))).
       read_u64 s (of_nat (sp + 8 * i)) h =
         Some (frame_words (map of_nat argv_addrs) (map of_nat envp_addrs) (auxv os entry phdr_addr phnum (of_nat random_addr) (of_nat execfn_addr)) ! i)"
  shows "initial_stack os s h entry phdr_addr phnum argv envp execfn sp"
  unfolding initial_stack_def Let_def using assms by blast

lemma length_str_addrs [simp]: "length (str_addrs pos ss) = length ss"
  by (induction ss arbitrary: pos) (simp_all add: Let_def)

lemma length_frame_words: "length (frame_words as es (auxv os entry p n r x)) = length as + length es + 19"
  by (simp add: frame_words_def auxv_def)

lemma cstr_kept:
  "cstr s h a bs \<Longrightarrow> (\<And>x. a \<le> x \<Longrightarrow> x \<le> a + length bs \<Longrightarrow> gmem s h' x = gmem s h x) \<Longrightarrow> cstr s h' a bs"
  by (simp add: cstr_def)

lemma str_addrs_bounds:
  "str_space ss \<le> pos \<Longrightarrow> list_all2 (\<lambda>a bs. pos - str_space ss \<le> a \<and> a + length bs < pos) (str_addrs pos ss) ss"
proof (induction ss arbitrary: pos)
  case (Cons bs rest)
  have "list_all2 (\<lambda>a b. pos - (length bs + 1) - str_space rest \<le> a \<and> a + length b < pos - (length bs + 1))
      (str_addrs (pos - (length bs + 1)) rest) rest"
    using Cons.prems by (intro Cons.IH) (simp add: str_space_def)
  then show ?case using Cons.prems
    by (auto simp: Let_def str_space_def elim!: list_all2_mono)
qed simp

lemma cstrs_kept:
  assumes "list_all2 (cstr s h) (str_addrs pos ss) ss" "str_space ss \<le> pos"
    "\<And>x. pos - str_space ss \<le> x \<Longrightarrow> x < pos \<Longrightarrow> gmem s h' x = gmem s h x"
  shows "list_all2 (cstr s h') (str_addrs pos ss) ss"
proof -
  have "list_all2 (\<lambda>a bs. cstr s h a bs \<and> pos - str_space ss \<le> a \<and> a + length bs < pos) (str_addrs pos ss) ss"
    using assms(1) str_addrs_bounds [OF assms(2)] by (auto simp: list_all2_conv_all_nth)
  then show ?thesis by (rule list_all2_mono) (elim conjE, erule cstr_kept, rule assms(3), simp_all)
qed

lemma align16: "a < 2 ^ 64 \<Longrightarrow> of_nat a AND NOT 15 = (of_nat (a div 16 * 16) :: u64)"
  using clear_low_of_nat [of a 4] by simp

lemma granting_size: "granting os s \<Longrightarrow> gs_size s = GUEST_SPACE_SIZE"
  by (simp add: granting_def)

lemma psize_dvd: "granting os s \<Longrightarrow> 65536 dvd n \<Longrightarrow> n mod psize os = 0"
proof (erule granting_psize)
  fix k assume "65536 dvd n" "k \<le> 16" "psize os = 2 ^ k"
  moreover have "(2 ^ k :: nat) dvd 2 ^ 16" using calculation(2) by (rule le_imp_power_dvd)
  ultimately have "psize os dvd n" by (auto intro: dvd_trans)
  then show "n mod psize os = 0" by simp
qed


lemma str_space_rev [simp]: "str_space (rev ss) = str_space ss"
  by (simp add: str_space_def rev_map [symmetric] sum_list_rev)

text \<open>The bytes above the frame: the random bytes, the name of the executable, the two groups of strings.\<close>

lemma stack_strings:
  assumes size: "gs_size s = GUEST_SPACE_SIZE" and w: "writable s h STACK_BASE STACK_TOP"
    and fit: "17 + length execfn + str_space envp + str_space argv \<le> 0x800000"
    and z: "\<And>a. STACK_BASE \<le> a \<Longrightarrow> a < STACK_TOP \<Longrightarrow> gmem s h a = 0"
  defines "X \<equiv> STACK_TOP - 17 - length execfn"
  defines "E \<equiv> X - str_space envp"
  shows "\<exists>h1 h2 h3 h4. write_bytes s (of_nat (STACK_TOP - 16)) random_data h = Some h1 \<and>
    write_bytes s (of_nat X) execfn h1 = Some h2 \<and>
    push_strings s (rev envp) (of_nat X) [] h2 = Some (of_nat E, map of_nat (rev (str_addrs X (rev envp))), h3) \<and>
    push_strings s (rev argv) (of_nat E) [] h3 = Some (of_nat (E - str_space argv), map of_nat (rev (str_addrs E (rev argv))), h4) \<and>
    h_prot h4 = h_prot h \<and> cstr s h4 X execfn \<and> (\<forall>i < 16. gmem s h4 (STACK_TOP - 16 + i) = random_data ! i) \<and>
    list_all2 (cstr s h4) (str_addrs X (rev envp)) (rev envp) \<and> list_all2 (cstr s h4) (str_addrs E (rev argv)) (rev argv) \<and>
    (\<forall>a < space_bytes. a < STACK_BASE \<or> STACK_TOP \<le> a \<longrightarrow> gmem s h4 a = gmem s h a)"
proof -
  have X: "STACK_BASE + str_space (rev envp) \<le> X" "X + length execfn + 17 = STACK_TOP" "X \<le> space_bytes"
    and E: "STACK_BASE + str_space (rev argv) \<le> E" "E + str_space (rev envp) = X" "E \<le> space_bytes"
    using fit by (simp_all add: X_def E_def)
  have len: "length random_data = 16" by (simp add: random_data_def)
  have part: "writable s h' lo hi" if "h_prot h' = h_prot h" "STACK_BASE \<le> lo" "hi \<le> STACK_TOP" for h' lo hi
    using w that by (auto simp: writable_def gprot_def)
  obtain h1 where h1: "write_bytes s (of_nat (STACK_TOP - 16)) random_data h = Some h1" "h_prot h1 = h_prot h"
      "\<And>a. a < space_bytes \<Longrightarrow> gmem s h1 a = patched (STACK_TOP - 16) random_data (gmem s h) a"
    by (rule write_bytes_guest [OF _ _ _ size, of h "STACK_TOP - 16" random_data]) (auto simp: len intro: part)
  obtain h2 where h2: "write_bytes s (of_nat X) execfn h1 = Some h2" "h_prot h2 = h_prot h1"
      "\<And>a. a < space_bytes \<Longrightarrow> gmem s h2 a = patched X execfn (gmem s h1) a"
    using X by (elim write_bytes_guest [OF _ _ _ size, of h1 X execfn, rotated 3]) (auto simp: h1 intro: part)
  have z2: "gmem s h2 a = 0" if "STACK_BASE \<le> a" "a < X" for a
    using that X z [of a] by (simp add: h2(3) h1(3) patched_def len)
  obtain h3 where h3: "push_strings s (rev envp) (of_nat X) [] h2 = Some (of_nat E, map of_nat (rev (str_addrs X (rev envp))), h3)"
      "h_prot h3 = h_prot h2" "list_all2 (cstr s h3) (str_addrs X (rev envp)) (rev envp)"
      "\<forall>a. STACK_BASE \<le> a \<and> a < E \<longrightarrow> gmem s h3 a = 0"
      "\<forall>a < space_bytes. a < STACK_BASE \<or> X \<le> a \<longrightarrow> gmem s h3 a = gmem s h2 a"
    using push_strings_guest [OF size part X(3,1) z2, of "[]"] h1(2) h2(2) X by (auto simp: E_def rev_map)
  have z3: "gmem s h3 a = 0" if "STACK_BASE \<le> a" "a < E" for a using h3(4) that by blast
  obtain h4 where h4: "push_strings s (rev argv) (of_nat E) [] h3 = Some (of_nat (E - str_space argv), map of_nat (rev (str_addrs E (rev argv))), h4)"
      "h_prot h4 = h_prot h3" "list_all2 (cstr s h4) (str_addrs E (rev argv)) (rev argv)"
      "\<forall>a < space_bytes. a < STACK_BASE \<or> E \<le> a \<longrightarrow> gmem s h4 a = gmem s h3 a"
    using push_strings_guest [OF size part E(3,1) z3, of "[]"] h1(2) h2(2) h3(2) X E by (auto simp: rev_map)
  have up: "gmem s h4 a = gmem s h2 a" if "a < STACK_BASE \<or> X \<le> a" "a < space_bytes" for a
    using that h3(5) h4(4) E by auto
  have "list_all2 (cstr s h4) (str_addrs X (rev envp)) (rev envp)"
    using h3(3) by (rule cstrs_kept) (use h4(4) X E in auto)
  moreover have "cstr s h4 X execfn" using X z [of "X + length execfn"] by (auto simp: cstr_def up h2(3) h1(3) patched_def len)
  moreover have "\<forall>i < 16. gmem s h4 (STACK_TOP - 16 + i) = random_data ! i"
    using X by (auto simp: up h2(3) h1(3) patched_def len)
  moreover have "\<forall>a < space_bytes. a < STACK_BASE \<or> STACK_TOP \<le> a \<longrightarrow> gmem s h4 a = gmem s h a"
    using X by (auto simp: up h2(3) h1(3) patched_def len)
  ultimately show ?thesis using h1 h2 h3 h4 by (intro exI [of _ h1] exI [of _ h2] exI [of _ h3] exI [of _ h4]) simp
qed


text \<open>The frame below the strings.\<close>

lemma stack_frame:
  assumes g: "granting os s" and size: "gs_size s = GUEST_SPACE_SIZE" and A: "A \<le> STACK_TOP" "STACK_BASE + 8 * length ws + 32 \<le> A"
    and w: "\<forall>a. STACK_BASE \<le> a \<and> a < STACK_TOP \<longrightarrow> gprot s h a = PROT_READ OR PROT_WRITE"
  defines "sp \<equiv> (A div 16 * 16 - 8 * length ws) div 16 * 16"
  shows "\<exists>h'. (of_nat A AND NOT 15) - of_nat (length ws * 8) AND NOT 15 = (of_nat sp :: u64) \<and>
    write_words s (of_nat sp) ws h = Some h' \<and> sp mod 16 = 0 \<and> STACK_BASE \<le> sp \<and> sp + 8 * length ws \<le> A \<and> h_prot h' = h_prot h \<and>
    (\<forall>i < length ws. read_u64 s (of_nat (sp + 8 * i)) h' = Some (ws ! i)) \<and>
    (\<forall>a < space_bytes. a < STACK_BASE \<or> A \<le> a \<longrightarrow> gmem s h' a = gmem s h a)"
proof -
  define B where "B = A div 16 * 16"
  have B: "B \<le> A" "A < B + 16"
    using div_mult_mod_eq [of A 16] mod_less_divisor [of 16 A] by (unfold B_def, linarith+)
  have sp: "sp \<le> B - 8 * length ws" "B - 8 * length ws < sp + 16"
    using div_mult_mod_eq [of "B - 8 * length ws" 16] mod_less_divisor [of 16 "B - 8 * length ws"] by (unfold sp_def B_def, linarith+)
  have lo: "STACK_BASE \<le> sp" "sp + 8 * length ws \<le> A" using A B sp by linarith+
  have "of_nat B - of_nat (length ws * 8) = (of_nat (B - 8 * length ws) :: u64)"
    using A B by (subst of_nat_minus) (simp_all add: mult.commute)
  moreover have "of_nat A AND NOT 15 = (of_nat B :: u64)" unfolding B_def using A by (intro align16) simp
  moreover have "of_nat (B - 8 * length ws) AND NOT 15 = (of_nat sp :: u64)"
    unfolding sp_def B_def [symmetric] using A B by (intro align16) simp
  ultimately have spw: "(of_nat A AND NOT 15) - of_nat (length ws * 8) AND NOT 15 = (of_nat sp :: u64)" by (simp only:)
  have wr: "writable s h sp (sp + 8 * length ws)"
    using lo A w by (auto simp: writable_def PROT_READ_def PROT_WRITE_def)
  obtain h' where h': "write_words s (of_nat sp) ws h = Some h'" "h_prot h' = h_prot h"
      "\<forall>i < length ws. word_at s h' (sp + 8 * i) (ws ! i)"
      "\<forall>a < space_bytes. a < sp \<or> sp + 8 * length ws \<le> a \<longrightarrow> gmem s h' a = gmem s h a"
    using write_words_guest [OF size wr] lo A by auto
  have "read_u64 s (of_nat (sp + 8 * i)) h' = Some (ws ! i)" if "i < length ws" for i
    using h'(3) that lo A
    by (intro read_u64_word [OF g]) (auto simp: gprot_def h'(2) w [unfolded gprot_def] PROT_READ_def PROT_WRITE_def)
  then show ?thesis using spw h' lo by (intro exI [of _ h']) (auto simp: sp_def)
qed

lemma setup_stack_guest:
  assumes g: "granting os s" and fit: "stack_bytes argv envp execfn \<le> 0x800000"
  shows "\<exists>sp h'. setup_stack os s entry phdr_addr phnum argv envp execfn h = Some (Inr (of_nat sp), h') \<and>
    initial_stack os s h' entry phdr_addr phnum argv envp execfn sp \<and>
    same_space s h h' 0 STACK_BASE \<and> same_space s h h' STACK_TOP space_bytes"
proof -
  have size: "gs_size s = GUEST_SPACE_SIZE" using g by (rule granting_size)
  obtain h0 where h0: "mmap_fixed os s (of_nat STACK_BASE) (of_nat 0x800000) (PROT_READ OR PROT_WRITE) h = Some (Inr (), h0)"
      "\<And>a. a < space_bytes \<Longrightarrow> gmem s h0 a = (if STACK_BASE \<le> a \<and> a < STACK_BASE + 0x800000 then 0 else gmem s h a)"
      "\<And>a. a < space_bytes \<Longrightarrow> gprot s h0 a = (if STACK_BASE \<le> a \<and> a < STACK_BASE + 0x800000 then PROT_READ OR PROT_WRITE else gprot s h a)"
    by (rule mmap_fixed_guest [OF g, of STACK_BASE "0x800000" "PROT_READ OR PROT_WRITE" h]) (simp_all add: psize_dvd [OF g])
  have w: "writable s h0 STACK_BASE STACK_TOP" and z: "\<And>a. STACK_BASE \<le> a \<Longrightarrow> a < STACK_TOP \<Longrightarrow> gmem s h0 a = 0"
    by (auto simp: writable_def h0(2,3) PROT_READ_def PROT_WRITE_def)
  define X where "X = STACK_TOP - 17 - length execfn"
  define E where "E = X - str_space envp"
  have strs: "17 + length execfn + str_space envp + str_space argv \<le> 0x800000" using fit by (simp add: stack_bytes_def)
  obtain h1 h2 h3 h4 where h14: "write_bytes s (of_nat (STACK_TOP - 16)) random_data h0 = Some h1"
      "write_bytes s (of_nat X) execfn h1 = Some h2"
      "push_strings s (rev envp) (of_nat X) [] h2 = Some (of_nat E, map of_nat (rev (str_addrs X (rev envp))), h3)"
      "push_strings s (rev argv) (of_nat E) [] h3 = Some (of_nat (E - str_space argv), map of_nat (rev (str_addrs E (rev argv))), h4)"
    and h4: "h_prot h4 = h_prot h0" "cstr s h4 X execfn" "\<forall>i < 16. gmem s h4 (STACK_TOP - 16 + i) = random_data ! i"
      "list_all2 (cstr s h4) (str_addrs X (rev envp)) (rev envp)" "list_all2 (cstr s h4) (str_addrs E (rev argv)) (rev argv)"
      "\<forall>a < space_bytes. a < STACK_BASE \<or> STACK_TOP \<le> a \<longrightarrow> gmem s h4 a = gmem s h0 a"
    using stack_strings [OF size w strs z] unfolding X_def E_def by blast
  define ws where "ws = frame_words (map of_nat (rev (str_addrs E (rev argv)))) (map of_nat (rev (str_addrs X (rev envp))))
    (auxv os entry phdr_addr phnum (of_nat (STACK_TOP - 16)) (of_nat X))"
  have len: "length ws = length argv + length envp + 19" by (simp add: ws_def length_frame_words)
  have A: "E - str_space argv \<le> STACK_TOP" "STACK_BASE + 8 * length ws + 32 \<le> E - str_space argv"
    and EX: "E + str_space envp = X" "X + length execfn + 17 = STACK_TOP"
    using fit by (simp_all add: X_def E_def len stack_bytes_def)
  have pr: "\<forall>a. STACK_BASE \<le> a \<and> a < STACK_TOP \<longrightarrow> gprot s h4 a = PROT_READ OR PROT_WRITE"
    using h0(3) by (simp add: gprot_def h4(1))
  define sp where "sp = ((E - str_space argv) div 16 * 16 - 8 * length ws) div 16 * 16"
  obtain h' where h': "(of_nat (E - str_space argv) AND NOT 15) - of_nat (length ws * 8) AND NOT 15 = (of_nat sp :: u64)"
      "write_words s (of_nat sp) ws h4 = Some h'" "sp mod 16 = 0" "STACK_BASE \<le> sp" "sp + 8 * length ws \<le> E - str_space argv" "h_prot h' = h_prot h4"
      "\<forall>i < length ws. read_u64 s (of_nat (sp + 8 * i)) h' = Some (ws ! i)"
      "\<forall>a < space_bytes. a < STACK_BASE \<or> E - str_space argv \<le> a \<longrightarrow> gmem s h' a = gmem s h4 a"
    using stack_frame [OF g size A pr] unfolding sp_def [symmetric] by (elim exE conjE) (rule that)
  have kept: "gmem s h' a = gmem s h4 a" if "E - str_space argv \<le> a" "a < STACK_TOP" for a using h'(8) that by simp
  have strings: "list_all2 (cstr s h') (rev (str_addrs E (rev argv))) argv" "list_all2 (cstr s h') (rev (str_addrs X (rev envp))) envp"
    using cstrs_kept [OF h4(5), of h'] cstrs_kept [OF h4(4), of h'] kept EX A by (auto simp: list_all2_rev1)
  have name: "cstr s h' X execfn" using h4(2) by (rule cstr_kept) (use kept EX A in simp)
  have random: "\<forall>i < 16. gmem s h' (STACK_TOP - 16 + i) = random_data ! i" using h4(3) kept EX A by simp
  have "sp < STACK_TOP" using h'(5) A len by linarith
  note initial_stackI [OF h'(3,4) this strings name random h'(7) [unfolded ws_def]]
  moreover have "same_space s h h' 0 STACK_BASE" "same_space s h h' STACK_TOP space_bytes"
    using h'(6,8) h4(1,6) A h0(2,3) by (auto simp: same_space_def gprot_def)
  moreover have "setup_stack os s entry phdr_addr phnum argv envp execfn h = Some (Inr (of_nat sp), h')"
  proof -
    have ends: "GUEST_STACK_TOP - of_nat 0x800000 = of_nat STACK_BASE" "GUEST_STACK_SIZE = of_nat  0x800000"
      "GUEST_STACK_TOP - 16 = of_nat (STACK_TOP - 16)"
      by (simp_all add: GUEST_STACK_TOP_def GUEST_STACK_SIZE_def)
    have x: "of_nat (STACK_TOP - 16) - of_nat (length execfn + 1) = (of_nat X :: u64)"
      using EX of_nat_minus [of "length execfn + 1" "STACK_TOP - 16"] by (simp add: X_def)
    have n: "1 + length argv + 1 + length envp + 1 + length (auxv os entry phdr_addr phnum a b) * 2 = length ws" for a b
      by (simp add: len auxv_def)
    show ?thesis
      unfolding setup_stack_def Let_def
      by (simp only: ends h0(1) h14 x n h'(1,2) ws_def [symmetric] Option.bind.simps prod.case sum.case)
  qed
  ultimately show ?thesis by blast
qed


section \<open>Segments\<close>

text \<open>
  The pages of a segment, the byte the loader puts at an address in them (from the file, else zero), and
  the segments it can place below the stack.
\<close>

definition seg_lo :: "os \<Rightarrow> Elf64Phdr \<Rightarrow> nat" where
  "seg_lo os ph = pdown os (unat (p_vaddr ph))"

definition seg_hi :: "os \<Rightarrow> Elf64Phdr \<Rightarrow> nat" where
  "seg_hi os ph = pup os (unat (p_vaddr ph) + unat (p_memsz ph))"

definition seg_byte :: "u8 list \<Rightarrow> Elf64Phdr \<Rightarrow> nat \<Rightarrow> u8" where
  "seg_byte data ph a =
     (let v = unat (p_vaddr ph)
      in if v \<le> a \<and> a < v + unat (p_filesz ph) then data ! (unat (p_offset ph) + (a - v)) else 0)"

definition seg_ok :: "u8 list \<Rightarrow> Elf64Phdr \<Rightarrow> bool" where
  "seg_ok data ph \<longleftrightarrow> 0 < unat (p_memsz ph) \<and> unat (p_vaddr ph) + unat (p_memsz ph) \<le> STACK_BASE \<and>
     unat (p_filesz ph) \<le> unat (p_memsz ph) \<and> unat (p_offset ph) + unat (p_filesz ph) \<le> length data"

definition seg_loaded :: "os \<Rightarrow> GuestSpace \<Rightarrow> host \<Rightarrow> u8 list \<Rightarrow> Elf64Phdr \<Rightarrow> bool" where
  "seg_loaded os s h data ph \<longleftrightarrow>
     (\<forall>a. seg_lo os ph \<le> a \<and> a < seg_hi os ph \<longrightarrow> gmem s h a = seg_byte data ph a \<and> gprot s h a = elf_to_prot (p_flags ph))"

definition seg_apart :: "os \<Rightarrow> Elf64Phdr \<Rightarrow> Elf64Phdr \<Rightarrow> bool" where
  "seg_apart os p q \<longleftrightarrow> seg_hi os p \<le> seg_lo os q \<or> seg_hi os q \<le> seg_lo os p"

lemma seg_bounds:
  assumes g: "granting os s" and ok: "seg_ok data ph"
  shows "seg_lo os ph \<le> unat (p_vaddr ph)" "unat (p_vaddr ph) + unat (p_memsz ph) \<le> seg_hi os ph" "seg_hi os ph \<le> STACK_BASE"
    "seg_lo os ph < seg_hi os ph" "seg_lo os ph mod psize os = 0" "(seg_hi os ph - seg_lo os ph) mod psize os = 0"
    "page_align_down os (p_vaddr ph) = of_nat (seg_lo os ph)"
    "page_align_up os (p_vaddr ph + p_memsz ph) = of_nat (seg_hi os ph)"
proof -
  let ?v = "unat (p_vaddr ph)" and ?e = "unat (p_vaddr ph) + unat (p_memsz ph)"
  have e: "?e \<le> STACK_BASE" "?v < ?e" using ok by (auto simp: seg_ok_def)
  show lo: "seg_lo os ph \<le> ?v" "?e \<le> seg_hi os ph" by (simp_all add: seg_lo_def seg_hi_def page_bounds [OF g])
  then show "seg_lo os ph < seg_hi os ph" using e by linarith
  show m: "seg_lo os ph mod psize os = 0" by (simp add: seg_lo_def page_bounds [OF g])
  have m': "seg_hi os ph mod psize os = 0" by (simp add: seg_hi_def page_bounds [OF g])
  show "(seg_hi os ph - seg_lo os ph) mod psize os = 0" using m m' by (simp add: mod_eq_0_iff_dvd)
  obtain a where a: "seg_hi os ph = psize os * a" using m' by auto
  have "psize os dvd STACK_BASE" using psize_dvd [OF g, of STACK_BASE] by (simp add: dvd_eq_mod_eq_0)
  then obtain b where b: "STACK_BASE = psize os * b" by (rule dvdE)
  have "seg_hi os ph < STACK_BASE + psize os" using page_bounds(4) [OF g, of ?e] e by (simp add: seg_hi_def)
  then have "psize os * a < psize os * (b + 1)" unfolding a b by simp
  then have "a < b + 1" by (simp only: mult_less_cancel1)
  then have "a \<le> b" by simp
  then show "seg_hi os ph \<le> STACK_BASE" unfolding a b by (rule mult_le_mono2)
  show "page_align_down os (p_vaddr ph) = of_nat (seg_lo os ph)"
    using aligned_down [OF g, of ?v] e by (simp add: seg_lo_def)
  show "page_align_up os (p_vaddr ph + p_memsz ph) = of_nat (seg_hi os ph)"
    using aligned_up [OF g, of ?e] e by (simp add: seg_hi_def)
qed

lemma copy_segment_guest:
  assumes size: "gs_size s = GUEST_SPACE_SIZE" and ok: "seg_ok data ph" and len: "length data < 2 ^ 63"
    and w: "writable s h (unat (p_vaddr ph)) (unat (p_vaddr ph) + unat (p_filesz ph))"
  obtains h' where "copy_segment s data ph h = Some (Inr (), h')" "h_prot h' = h_prot h"
    "\<And>a. a < space_bytes \<Longrightarrow> gmem s h' a =
       patched (unat (p_vaddr ph)) (take (unat (p_filesz ph)) (drop (unat (p_offset ph)) data)) (gmem s h) a"
proof (cases "p_filesz ph = 0")
  case True
  then show ?thesis by (intro that [of h]) (auto simp: copy_segment_def patched_def)
next
  case False
  let ?bs = "take (unat (p_filesz ph)) (drop (unat (p_offset ph)) data)"
  have pos: "0 < p_filesz ph" using False by (simp add: word_neq_0_conv)
  have n: "length ?bs = unat (p_filesz ph)" using ok by (auto simp: seg_ok_def)
  have sum: "unat (p_offset ph + p_filesz ph) = unat (p_offset ph) + unat (p_filesz ph)"
    using ok len by (subst unat_plus_if') (simp add: seg_ok_def)
  obtain h' where "write_bytes s (of_nat (unat (p_vaddr ph))) ?bs h = Some h'" "h_prot h' = h_prot h"
      "\<And>a. a < space_bytes \<Longrightarrow> gmem s h' a = patched (unat (p_vaddr ph)) ?bs (gmem s h) a"
    by (rule write_bytes_guest [OF _ _ _ size, of h "unat (p_vaddr ph)" ?bs]) (use ok w n in \<open>auto simp: seg_ok_def\<close>)
  then show ?thesis using ok pos sum
    by (intro that [of h']) (simp_all add: copy_segment_def Let_def seg_ok_def word_le_nat_alt)
qed


lemma load_segment_guest:
  assumes g: "granting os s" and ok: "seg_ok data ph" and len: "length data < 2 ^ 63" and b: "b < 2 ^ 63"
  obtains h' where "load_segment os s data ph (of_nat b) h = Some (Inr (of_nat (max b (seg_hi os ph))), h')"
    "seg_loaded os s h' data ph" "same_space s h h' 0 (seg_lo os ph)" "same_space s h h' (seg_hi os ph) space_bytes"
proof -
  note bnd = seg_bounds [OF g ok]
  let ?lo = "seg_lo os ph" and ?hi = "seg_hi os ph" and ?v = "unat (p_vaddr ph)"
  let ?bs = "take (unat (p_filesz ph)) (drop (unat (p_offset ph)) data)"
  have room: "?lo + (?hi - ?lo) \<le> space_bytes" "0 < ?hi - ?lo" using bnd by simp_all
  have fsz: "unat (p_filesz ph) \<le> unat (p_memsz ph)" "length ?bs = unat (p_filesz ph)" using ok by (auto simp: seg_ok_def)
  obtain h1 where h1: "mmap_fixed os s (of_nat ?lo) (of_nat (?hi - ?lo)) (PROT_READ OR PROT_WRITE) h = Some (Inr (), h1)"
      "\<And>a. a < space_bytes \<Longrightarrow> gmem s h1 a = (if ?lo \<le> a \<and> a < ?lo + (?hi - ?lo) then 0 else gmem s h a)"
      "\<And>a. a < space_bytes \<Longrightarrow> gprot s h1 a = (if ?lo \<le> a \<and> a < ?lo + (?hi - ?lo) then PROT_READ OR PROT_WRITE else gprot s h a)"
    by (rule mmap_fixed_guest [OF g bnd(5,6) room(2,1), of "PROT_READ OR PROT_WRITE" h]) (rule that)
  have "writable s h1 ?v (?v + unat (p_filesz ph))"
    using bnd fsz by (auto simp: writable_def h1(3) PROT_READ_def PROT_WRITE_def)
  then obtain h2 where h2: "copy_segment s data ph h1 = Some (Inr (), h2)" "h_prot h2 = h_prot h1"
      "\<And>a. a < space_bytes \<Longrightarrow> gmem s h2 a = patched ?v ?bs (gmem s h1) a"
    by (rule copy_segment_guest [OF granting_size [OF g] ok len]) (rule that)
  let ?prot = "elf_to_prot (p_flags ph)"
  obtain h3 where h3: "(if ?prot \<noteq> PROT_READ OR PROT_WRITE then mprotect os s (of_nat ?lo) (of_nat (?hi - ?lo)) ?prot h2 else Some (Inr (), h2)) = Some (Inr (), h3)"
      "h_mem h3 = h_mem h2" "\<And>a. a < space_bytes \<Longrightarrow> gprot s h3 a = (if ?lo \<le> a \<and> a < ?lo + (?hi - ?lo) then ?prot else gprot s h a)"
  proof (cases "?prot = PROT_READ OR PROT_WRITE")
    case True
    then show ?thesis using h1(3) h2(2) by (intro that [of h2]) (simp_all add: gprot_def)
  next
    case False
    obtain h3 where "mprotect os s (of_nat ?lo) (of_nat (?hi - ?lo)) ?prot h2 = Some (Inr (), h3)" "h_mem h3 = h_mem h2"
        "\<And>a. a < space_bytes \<Longrightarrow> gprot s h3 a = (if ?lo \<le> a \<and> a < ?lo + (?hi - ?lo) then ?prot else gprot s h2 a)"
      by (rule mprotect_guest [OF g bnd(5,6) room(2,1), of ?prot h2]) (rule that)
    then show ?thesis using False h1(3) h2(2) by (intro that [of h3]) (auto simp: gprot_def)
  qed
  have m: "gmem s h3 a = (if ?lo \<le> a \<and> a < ?hi then seg_byte data ph a else gmem s h a)" if "a < space_bytes" for a
    using that h2(3) [of a] h1(2) [of a] bnd fsz by (auto simp: gmem_def h3(2) patched_def seg_byte_def Let_def)
  have "seg_loaded os s h3 data ph" "same_space s h h3 0 ?lo" "same_space s h h3 ?hi space_bytes"
    using bnd h3(3) m by (auto simp: seg_loaded_def same_space_def)
  moreover have "load_segment os s data ph (of_nat b) h = Some (Inr (of_nat (max b ?hi)), h3)"
  proof -
    have d: "of_nat ?hi - of_nat ?lo = (of_nat (?hi - ?lo) :: u64)" using bnd by (intro of_nat_minus) simp
    have t: "\<not> GUEST_STACK_TOP < (of_nat ?hi :: u64)" using bnd(3) by (simp add: GUEST_STACK_TOP_def word_less_nat_alt unat_small)
    have mx: "(if of_nat b < (of_nat ?hi :: u64) then of_nat ?hi else of_nat b) = (of_nat (max b ?hi) :: u64)"
      using b bnd(3) by (simp add: word_less_nat_alt unat_small max_def)
    show ?thesis
      unfolding load_segment_def Let_def bnd(7,8)
      by (simp only: d t if_False h1(1) h2(1) h3(1) mx Option.bind.simps prod.case sum.case)
  qed
  ultimately show ?thesis by (rule that [rotated])
qed

definition loads :: "Elf64Phdr list \<Rightarrow> Elf64Phdr list" where
  "loads ps = filter (\<lambda>ph. p_type ph = PT_LOAD) ps"

definition image_end :: "os \<Rightarrow> nat \<Rightarrow> Elf64Phdr list \<Rightarrow> nat" where
  "image_end os b ps = foldl (\<lambda>b ph. max b (seg_hi os ph)) b ps"

lemma same_spaceD: "same_space s h h' lo hi \<Longrightarrow> lo \<le> a \<Longrightarrow> a < hi \<Longrightarrow> gmem s h' a = gmem s h a \<and> gprot s h' a = gprot s h a"
  by (simp add: same_space_def)

lemma load_segments_guest:
  assumes g: "granting os s" and len: "length data < 2 ^ 63"
    and "list_all (seg_ok data) (loads ps)" "sorted_wrt (seg_apart os) (loads ps)" "b < 2 ^ 63"
  shows "\<exists>h'. load_segments os s data ps (of_nat b) has h = Some (Inr (of_nat (image_end os b (loads ps)), has \<or> loads ps \<noteq> []), h') \<and>
    list_all (seg_loaded os s h' data) (loads ps) \<and>
    (\<forall>a < space_bytes. list_all (\<lambda>ph. a < seg_lo os ph \<or> seg_hi os ph \<le> a) (loads ps) \<longrightarrow>
       gmem s h' a = gmem s h a \<and> gprot s h' a = gprot s h a)"
  using assms(3-)
proof (induction ps arbitrary: b "has" h)
  case Nil
  then show ?case by (simp add: loads_def image_end_def)
next
  case (Cons ph ps)
  show ?case
  proof (cases "p_type ph = PT_LOAD")
    case False
    then show ?thesis using Cons by (simp add: loads_def)
  next
    case True
    then have l: "loads (ph # ps) = ph # loads ps" by (simp add: loads_def)
    have ok: "seg_ok data ph" and ap: "\<And>q. q \<in> set (loads ps) \<Longrightarrow> seg_apart os ph q" using Cons.prems by (auto simp: l)
    note bnd = seg_bounds [OF g ok]
    obtain h1 where h1: "load_segment os s data ph (of_nat b) h = Some (Inr (of_nat (max b (seg_hi os ph))), h1)"
        "seg_loaded os s h1 data ph" "same_space s h h1 0 (seg_lo os ph)" "same_space s h h1 (seg_hi os ph) space_bytes"
      by (rule load_segment_guest [OF g ok len Cons.prems(3), of h]) (rule that)
    have "list_all (seg_ok data) (loads ps)" "sorted_wrt (seg_apart os) (loads ps)" "max b (seg_hi os ph) < 2 ^ 63"
      using Cons.prems bnd(3) by (auto simp: l)
    from Cons.IH [OF this, of True h1] obtain h' where
        h': "load_segments os s data ps (of_nat (max b (seg_hi os ph))) True h1 =
          Some (Inr (of_nat (image_end os (max b (seg_hi os ph)) (loads ps)), True), h')"
        "list_all (seg_loaded os s h' data) (loads ps)"
        "\<forall>a < space_bytes. list_all (\<lambda>ph. a < seg_lo os ph \<or> seg_hi os ph \<le> a) (loads ps) \<longrightarrow>
          gmem s h' a = gmem s h1 a \<and> gprot s h' a = gprot s h1 a"
      by auto
    have "list_all (\<lambda>ph. a < seg_lo os ph \<or> seg_hi os ph \<le> a) (loads ps)" if "seg_lo os ph \<le> a" "a < seg_hi os ph" for a
      using ap that by (fastforce simp: list_all_iff seg_apart_def)
    then have "seg_loaded os s h' data ph" using h1(2) h'(3) bnd(3) by (simp add: seg_loaded_def)
    moreover have "gmem s h' a = gmem s h a \<and> gprot s h' a = gprot s h a"
      if "a < space_bytes" "list_all (\<lambda>ph. a < seg_lo os ph \<or> seg_hi os ph \<le> a) (ph # loads ps)" for a
      using that h'(3) same_spaceD [OF h1(3), of a] same_spaceD [OF h1(4), of a] by auto
    ultimately show ?thesis
      unfolding l using True h'(1,2) h1(1) by (intro exI [of _ h']) (simp add: image_end_def)
  qed
qed


section \<open>Properties\<close>

text \<open>The break does not matter to the memory.\<close>

lemma set_brk_space [simp]:
  "granting os (set_brk b s) = granting os s" "gmem (set_brk b s) = gmem s" "gprot (set_brk b s) = gprot s"
  by (simp_all add: granting_def set_brk_def gmem_def gprot_def fun_eq_iff)

lemma same_space_loaded:
  "same_space s h h' 0 STACK_BASE \<Longrightarrow> granting os s \<Longrightarrow> seg_ok data ph \<Longrightarrow> seg_loaded os s h data ph \<Longrightarrow> seg_loaded os s h' data ph"
  using seg_bounds(3) [of os s data ph] by (simp add: seg_loaded_def same_space_def)

text \<open>
  C12: a program is loaded as the ABI prescribes. When the operating system grants the mappings and the
  file's loadable segments lie below the stack, are not empty, carry no more file bytes than memory and
  share no page, \<open>load_elf\<close> succeeds: every page of every loadable segment holds the segment's bytes of the
  file followed by zeros (zeros too before its first byte) with the protection of its flags; the stack
  pointer is 16-byte aligned inside the stack, and from it upwards the guest reads the argument count, the
  pointers to the arguments and to the environment, each list ended by zero, and the auxiliary vector; the
  pointers lead to the zero-terminated strings; and the break is the end of the highest segment's pages.
\<close>

theorem program_loaded:
  assumes "granting os s" "length data < 2 ^ 63" "ehdr_from_bytes data = Inr e" "validate_riscv64 e = Inr ()"
    "program_headers e data = Inr ps" "loads ps \<noteq> []" "list_all (seg_ok data) (loads ps)" "sorted_wrt (seg_apart os) (loads ps)"
    "stack_bytes argv envp path \<le> 0x800000"
  shows "\<exists>sp h'. load_elf os (Inr data) path argv envp s h =
      Some (Inr \<lparr>i_entry = e_entry e, i_phdr_addr = find_phdr_addr ps (e_phoff e), i_phnum = e_phnum e, i_sp = of_nat sp,
                 i_brk = of_nat (image_end os 0 (loads ps))\<rparr>,
            set_brk (of_nat (image_end os 0 (loads ps))) s, h') \<and>
    list_all (seg_loaded os s h' data) (loads ps) \<and>
    initial_stack os (set_brk (of_nat (image_end os 0 (loads ps))) s) h'
      (e_entry e) (find_phdr_addr ps (e_phoff e)) (e_phnum e) argv envp path sp"
proof -
  let ?b = "of_nat (image_end os 0 (loads ps)) :: u64"
  have "(0 :: nat) < 2 ^ 63" by simp
  from load_segments_guest [OF assms(1,2,7,8) this, of False h] obtain h1 where
      h1: "load_segments os s data ps (of_nat 0) False h = Some (Inr (?b, False \<or> loads ps \<noteq> []), h1)" "list_all (seg_loaded os s h1 data) (loads ps)"
    by (elim exE conjE) (rule that)
  have g: "granting os (set_brk ?b s)" using assms(1) by simp
  obtain sp h2 where h2: "setup_stack os (set_brk ?b s) (e_entry e) (find_phdr_addr ps (e_phoff e)) (e_phnum e) argv envp path h1 = Some (Inr (of_nat sp), h2)"
      "initial_stack os (set_brk ?b s) h2 (e_entry e) (find_phdr_addr ps (e_phoff e)) (e_phnum e) argv envp path sp"
      "same_space (set_brk ?b s) h1 h2 0 STACK_BASE"
    using setup_stack_guest [OF g assms(9), of "e_entry e" "find_phdr_addr ps (e_phoff e)" "e_phnum e" h1] by (elim exE conjE) (rule that)
  have "same_space s h1 h2 0 STACK_BASE" using h2(3) by (simp add: same_space_def)
  then have "list_all (seg_loaded os s h2 data) (loads ps)"
    using h1(2) assms(1,7) by (auto simp: list_all_iff intro: same_space_loaded)
  moreover have "load_elf os (Inr data) path argv envp s h =
      Some (Inr \<lparr>i_entry = e_entry e, i_phdr_addr = find_phdr_addr ps (e_phoff e), i_phnum = e_phnum e, i_sp = of_nat sp, i_brk = ?b\<rparr>, set_brk ?b s, h2)"
    using h1(1) h2(1) assms(3-6) by (simp add: load_elf_def Let_def)
  ultimately show ?thesis using h2(2) by blast
qed

text \<open>An executable of one segment of four bytes at 0x10000, and an operating system that grants everything.\<close>

definition tiny_elf :: "u8 list" where
  "tiny_elf =
     [0x7f, 0x45, 0x4c, 0x46, 2, 1, 1, 0, 0, 0, 0, 0, 0, 0, 0, 0, 2, 0, 243, 0, 1, 0, 0, 0, 0, 0, 1, 0, 0, 0, 0, 0,
      64, 0, 0, 0, 0, 0, 0, 0, 0, 0, 0, 0, 0, 0, 0, 0, 0, 0, 0, 0, 64, 0, 56, 0, 1, 0, 0, 0, 0, 0, 0, 0,
      1, 0, 0, 0, 5, 0, 0, 0, 120, 0, 0, 0, 0, 0, 0, 0, 0, 0, 1, 0, 0, 0, 0, 0, 0, 0, 1, 0, 0, 0, 0, 0,
      4, 0, 0, 0, 0, 0, 0, 0, 4, 0, 0, 0, 0, 0, 0, 0, 0, 16, 0, 0, 0, 0, 0, 0, 0x13, 0, 0, 0]"

definition tiny_phdr :: Elf64Phdr where
  "tiny_phdr = \<lparr>p_type = 1, p_flags = 5, p_offset = 120, p_vaddr = 0x10000, p_paddr = 0x10000, p_filesz = 4, p_memsz = 4, p_align = 4096\<rparr>"

definition any_os :: os where
  "any_os = \<lparr>os_page = 4096, os_map_ok = (\<lambda>_ _ _. True), os_protect_ok = (\<lambda>_ _ _. True)\<rparr>"

lemma tiny_headers:
  "validate_riscv64 (ehdr_at tiny_elf) = Inr ()" "program_headers (ehdr_at tiny_elf) tiny_elf = Inr [tiny_phdr]"
  by code_simp+

lemma any_os_granting: "granting any_os \<lparr>gs_base = b, gs_size = GUEST_SPACE_SIZE, gs_brk = 0\<rparr>"
proof -
  have "page_size any_os = push_bit 12 1" by (simp add: page_size_def any_os_def)
  then show ?thesis unfolding granting_def by (auto simp: any_os_def intro!: exI [of _ 12])
qed

theorem program_loaded_witness:
  "\<exists>sp h' r s. load_elf any_os (Inr tiny_elf) [47, 97] [[97], [98, 99]] [] \<lparr>gs_base = 0x7f0000000000, gs_size = GUEST_SPACE_SIZE, gs_brk = 0\<rparr>
       \<lparr>h_mem = (\<lambda>_. 0), h_prot = (\<lambda>_. PROT_NONE)\<rparr> = Some (Inr r, s, h') \<and> i_sp r = of_nat sp \<and>
     seg_loaded any_os \<lparr>gs_base = 0x7f0000000000, gs_size = GUEST_SPACE_SIZE, gs_brk = 0\<rparr> h' tiny_elf tiny_phdr \<and>
     initial_stack any_os s h' 0x10000 0x10040 1 [[97], [98, 99]] [] [47, 97] sp"
proof -
  have l: "loads [tiny_phdr] = [tiny_phdr]" by (simp add: loads_def tiny_phdr_def PT_LOAD_def)
  have e: "ehdr_from_bytes tiny_elf = Inr (ehdr_at tiny_elf)" "e_entry (ehdr_at tiny_elf) = 0x10000" "e_phoff (ehdr_at tiny_elf) = 64" "e_phnum (ehdr_at tiny_elf) = 1"
    by code_simp+
  have p: "find_phdr_addr [tiny_phdr] 64 = 0x10040" by (simp add: find_phdr_addr_def tiny_phdr_def PT_LOAD_def PT_PHDR_def)
  have "length tiny_elf < 2 ^ 63" "loads [tiny_phdr] \<noteq> []" "list_all (seg_ok tiny_elf) (loads [tiny_phdr])"
      "sorted_wrt (seg_apart any_os) (loads [tiny_phdr])" "stack_bytes [[97], [98, 99]] [] [47, 97] \<le> 0x800000"
    unfolding l by (simp_all add: seg_ok_def tiny_elf_def tiny_phdr_def stack_bytes_def str_space_def)
  from program_loaded [OF any_os_granting this(1) e(1) tiny_headers this(2-5),
      of "0x7f0000000000" "\<lparr>h_mem = (\<lambda>_. 0), h_prot = (\<lambda>_. PROT_NONE)\<rparr>"] show ?thesis
    unfolding e(2-4) l p by fastforce
qed

end
