(* ===== verification/Syscall.thy ===== *)
theory Syscall
  imports Loader_Sound
begin

text \<open>
  System calls of the guest (\<open>linux-user/src/syscall.rs\<close>). The C library is the record \<open>libc\<close>: its
  functions read the host's memory and act on the outside world \<open>'w\<close>; \<open>Inl\<close> is a failure with its
  \<open>errno\<close>. \<open>None\<close> is a panic (an address outside the guest space) or a forbidden memory access. Stores
  through raw pointers are made at any alignment. The message on an unknown number is not modelled.
\<close>

section \<open>Numbers and results\<close>

definition SYS_IOCTL :: u64 where "SYS_IOCTL = 29"
definition SYS_CLOSE :: u64 where "SYS_CLOSE = 57"
definition SYS_WRITE :: u64 where "SYS_WRITE = 64"
definition SYS_WRITEV :: u64 where "SYS_WRITEV = 66"
definition SYS_READLINKAT :: u64 where "SYS_READLINKAT = 78"
definition SYS_FSTAT :: u64 where "SYS_FSTAT = 80"
definition SYS_EXIT :: u64 where "SYS_EXIT = 93"
definition SYS_EXIT_GROUP :: u64 where "SYS_EXIT_GROUP = 94"
definition SYS_SET_TID_ADDRESS :: u64 where "SYS_SET_TID_ADDRESS = 96"
definition SYS_FUTEX :: u64 where "SYS_FUTEX = 98"
definition SYS_SET_ROBUST_LIST :: u64 where "SYS_SET_ROBUST_LIST = 99"
definition SYS_CLOCK_GETTIME :: u64 where "SYS_CLOCK_GETTIME = 113"
definition SYS_TGKILL :: u64 where "SYS_TGKILL = 131"
definition SYS_RT_SIGACTION :: u64 where "SYS_RT_SIGACTION = 134"
definition SYS_RT_SIGPROCMASK :: u64 where "SYS_RT_SIGPROCMASK = 135"
definition SYS_UNAME :: u64 where "SYS_UNAME = 160"
definition SYS_GETPID :: u64 where "SYS_GETPID = 172"
definition SYS_GETTID :: u64 where "SYS_GETTID = 178"
definition SYS_BRK :: u64 where "SYS_BRK = 214"
definition SYS_MUNMAP :: u64 where "SYS_MUNMAP = 215"
definition SYS_MMAP :: u64 where "SYS_MMAP = 222"
definition SYS_MPROTECT :: u64 where "SYS_MPROTECT = 226"
definition SYS_MADVISE :: u64 where "SYS_MADVISE = 233"
definition SYS_RISCV_HWPROBE :: u64 where "SYS_RISCV_HWPROBE = 258"
definition SYS_PRLIMIT64 :: u64 where "SYS_PRLIMIT64 = 261"
definition SYS_GETRANDOM :: u64 where "SYS_GETRANDOM = 278"
definition SYS_RSEQ :: u64 where "SYS_RSEQ = 293"

definition ENOSYS :: u64 where "ENOSYS = - 38"
definition ENOTTY :: u64 where "ENOTTY = - 25"
definition ENOENT :: u64 where "ENOENT = - 2"
definition EAGAIN :: u64 where "EAGAIN = - 11"

lemmas sys_numbers = SYS_IOCTL_def SYS_CLOSE_def SYS_WRITE_def SYS_WRITEV_def SYS_READLINKAT_def SYS_FSTAT_def SYS_EXIT_def
  SYS_EXIT_GROUP_def SYS_SET_TID_ADDRESS_def SYS_FUTEX_def SYS_SET_ROBUST_LIST_def SYS_CLOCK_GETTIME_def SYS_TGKILL_def
  SYS_RT_SIGACTION_def SYS_RT_SIGPROCMASK_def SYS_UNAME_def SYS_GETPID_def SYS_GETTID_def SYS_BRK_def SYS_MUNMAP_def SYS_MMAP_def
  SYS_MPROTECT_def SYS_MADVISE_def SYS_RISCV_HWPROBE_def SYS_PRLIMIT64_def SYS_GETRANDOM_def SYS_RSEQ_def

datatype SyscallResult = Continue u64 | Exit u32

section \<open>The C library\<close>

record stat =
  st_dev :: u64
  st_ino :: u64
  st_mode :: u32
  st_nlink :: u64
  st_uid :: u32
  st_gid :: u32
  st_rdev :: u64
  st_size :: u64
  st_blksize :: u64
  st_blocks :: u64
  st_atime :: u64
  st_atime_nsec :: u64
  st_mtime :: u64
  st_mtime_nsec :: u64
  st_ctime :: u64
  st_ctime_nsec :: u64

record 'w libc =
  lc_write :: "u32 \<Rightarrow> u64 \<Rightarrow> u64 \<Rightarrow> host \<Rightarrow> 'w \<Rightarrow> (u32 + u64) \<times> 'w"
  lc_fstat :: "u32 \<Rightarrow> 'w \<Rightarrow> u32 + stat"
  lc_getrlimit :: "u32 \<Rightarrow> 'w \<Rightarrow> u32 + u64 \<times> u64"
  lc_clock_gettime :: "u32 \<Rightarrow> 'w \<Rightarrow> u32 + u64 \<times> u64"

record 'w sys =
  sy_space :: GuestSpace
  sy_host :: host
  sy_mmap_next :: u64
  sy_world :: 'w

definition errno_ret :: "u32 \<Rightarrow> u64" where
  "errno_ret e = scast (- e)"

text \<open>A store of bytes through a host pointer.\<close>

definition store :: "u64 \<Rightarrow> u8 list \<Rightarrow> 'w sys \<Rightarrow> 'w sys option" where
  "store p bs st = do { h \<leftarrow> host_write p bs (sy_host st); Some (st\<lparr>sy_host := h\<rparr>) }"

fun store_all :: "u64 \<Rightarrow> (u64 \<times> u8 list) list \<Rightarrow> 'w sys \<Rightarrow> 'w sys option" where
  "store_all p [] st = Some st"
| "store_all p ((off, bs) # rest) st = do { st \<leftarrow> store (p + off) bs st; store_all p rest st }"

definition guest_ptr :: "'w sys \<Rightarrow> u64 \<Rightarrow> u64 option" where
  "guest_ptr st a = g2h (sy_space st) a"

section \<open>The calls with a function of their own\<close>

definition do_write :: "'w libc \<Rightarrow> u32 \<Rightarrow> u64 \<Rightarrow> u64 \<Rightarrow> 'w sys \<Rightarrow> ((u32 + u64) \<times> 'w sys) option" where
  "do_write C fd buf n st = do {
     p \<leftarrow> guest_ptr st buf;
     let (r, w) = lc_write C fd p n (sy_host st) (sy_world st);
     Some (r, st\<lparr>sy_world := w\<rparr>) }"

lemma next_closer: "i < cnt \<Longrightarrow> unat cnt - unat (i + 1) < unat cnt - unat i" for i cnt :: u64
proof -
  assume "i < cnt"
  then have "unat i < unat cnt" by (simp add: word_less_nat_alt)
  moreover have "unat cnt < 2 ^ 64" using unsigned_less [of cnt] by simp
  ultimately have "unat (i + 1) = unat i + 1" by (subst unat_plus_if') simp
  then show ?thesis using \<open>unat i < unat cnt\<close> by linarith
qed

text \<open>The vectors not yet written; a zero length is skipped and the first error ends the call.\<close>

function writev_loop :: "'w libc \<Rightarrow> u32 \<Rightarrow> u64 \<Rightarrow> u64 \<Rightarrow> u64 \<Rightarrow> u64 \<Rightarrow> 'w sys \<Rightarrow> (SyscallResult \<times> 'w sys) option" where
  "writev_loop C fd iov_addr cnt i written st =
     (if \<not> i < cnt then Some (Continue written, st)
      else do {
        let entry = iov_addr + i * 16;
        base \<leftarrow> read_u64 (sy_space st) entry (sy_host st);
        n \<leftarrow> read_u64 (sy_space st) (entry + 8) (sy_host st);
        if n = 0 then writev_loop C fd iov_addr cnt (i + 1) written st
        else do {
          (r, st) \<leftarrow> do_write C fd base n st;
          case r of
            Inl e \<Rightarrow> Some (Continue (errno_ret e), st)
          | Inr m \<Rightarrow> writev_loop C fd iov_addr cnt (i + 1) (written + m) st } })"
  by pat_completeness auto
termination
  by (relation "measure (\<lambda>(_, _, _, cnt, i, _). unat cnt - unat i)") (simp_all add: next_closer)


definition stat_fields :: "stat \<Rightarrow> (u64 \<times> u8 list) list" where
  "stat_fields s =
     [(0, le_bytes 8 (st_dev s)), (8, le_bytes 8 (st_ino s)), (16, le_bytes 4 (st_mode s)),
      (20, le_bytes 4 (ucast (st_nlink s) :: u32)), (24, le_bytes 4 (st_uid s)), (28, le_bytes 4 (st_gid s)),
      (32, le_bytes 8 (st_rdev s)), (48, le_bytes 8 (st_size s)), (56, le_bytes 4 (ucast (st_blksize s) :: u32)),
      (64, le_bytes 8 (st_blocks s)), (72, le_bytes 8 (st_atime s)), (80, le_bytes 8 (st_atime_nsec s)),
      (88, le_bytes 8 (st_mtime s)), (96, le_bytes 8 (st_mtime_nsec s)), (104, le_bytes 8 (st_ctime s)),
      (112, le_bytes 8 (st_ctime_nsec s))]"

definition do_fstat :: "'w libc \<Rightarrow> u64 \<Rightarrow> u64 \<Rightarrow> 'w sys \<Rightarrow> (SyscallResult \<times> 'w sys) option" where
  "do_fstat C fd buf_addr st = do {
     let fd = (ucast fd :: u32);
     p \<leftarrow> guest_ptr st buf_addr;
     st \<leftarrow> store p (replicate 128 0) st;
     if fd \<le> 2 then do {
       st \<leftarrow> store (p + 16) (le_bytes 4 (0x21B6 :: u32)) st;
       Some (Continue 0, st) }
     else
       (case lc_fstat C fd (sy_world st) of
          Inl e \<Rightarrow> Some (Continue (errno_ret e), st)
        | Inr s \<Rightarrow> do { st \<leftarrow> store_all p (stat_fields s) st; Some (Continue 0, st) }) }"

definition RLIMIT_STACK :: u64 where "RLIMIT_STACK = 3"
definition RLIM_INFINITY :: u64 where "RLIM_INFINITY = - 1"

definition do_prlimit64 :: "'w libc \<Rightarrow> u64 \<Rightarrow> u64 \<Rightarrow> 'w sys \<Rightarrow> (SyscallResult \<times> 'w sys) option" where
  "do_prlimit64 C resource old_rlim st =
     (if old_rlim \<noteq> 0 then do {
        p \<leftarrow> guest_ptr st old_rlim;
        if resource = RLIMIT_STACK then do {
          st \<leftarrow> store_all p [(0, le_bytes 8 (8 * 1024 * 1024 :: u64)), (8, le_bytes 8 RLIM_INFINITY)] st;
          Some (Continue 0, st) }
        else
          (case lc_getrlimit C (ucast resource) (sy_world st) of
             Inl e \<Rightarrow> Some (Continue (errno_ret e), st)
           | Inr (rlim_cur, rlim_max) \<Rightarrow> do {
               st \<leftarrow> store_all p [(0, le_bytes 8 rlim_cur), (8, le_bytes 8 rlim_max)] st;
               Some (Continue 0, st) }) }
      else Some (Continue 0, st))"

definition bytes_of :: "string \<Rightarrow> u8 list" where
  "bytes_of s = map of_char s"

definition uname_fields :: "u8 list list" where
  "uname_fields = map bytes_of [''Linux'', ''tcg-rs'', ''6.1.0'', ''#1 SMP'', ''riscv64'', ''(none)'']"

definition do_uname :: "u64 \<Rightarrow> 'w sys \<Rightarrow> (SyscallResult \<times> 'w sys) option" where
  "do_uname buf_addr st = do {
     p \<leftarrow> guest_ptr st buf_addr;
     st \<leftarrow> store p (replicate 390 0) st;
     st \<leftarrow> store_all p (map (\<lambda>(i, v). (of_nat (i * 65), take (min (length v) 64) v)) (enumerate 0 uname_fields)) st;
     Some (Continue 0, st) }"

text \<open>\<open>CStr::from_ptr\<close>: the bytes up to the first zero.\<close>

partial_function (option) c_string :: "host \<Rightarrow> u64 \<Rightarrow> u8 list option" where
  "c_string h p =
     (if h_prot h p AND PROT_READ = 0 then None
      else if h_mem h p = 0 then Some []
      else Option.bind (c_string h (p + 1)) (\<lambda>bs. Some (h_mem h p # bs)))"

definition do_readlinkat :: "u64 \<Rightarrow> u64 \<Rightarrow> u64 \<Rightarrow> u8 list \<Rightarrow> 'w sys \<Rightarrow> (SyscallResult \<times> 'w sys) option" where
  "do_readlinkat path_addr buf_addr bufsiz elf_path st = do {
     q \<leftarrow> guest_ptr st path_addr;
     path_bytes \<leftarrow> c_string (sy_host st) q;
     if path_bytes = bytes_of ''/proc/self/exe'' then do {
       let n = min (length elf_path) (unat bufsiz);
       dst \<leftarrow> guest_ptr st buf_addr;
       st \<leftarrow> store dst (take n elf_path) st;
       Some (Continue (of_nat n), st) }
     else Some (Continue ENOENT, st) }"

definition do_clock_gettime :: "'w libc \<Rightarrow> u64 \<Rightarrow> u64 \<Rightarrow> 'w sys \<Rightarrow> (SyscallResult \<times> 'w sys) option" where
  "do_clock_gettime C clk_id tp_addr st =
     (case lc_clock_gettime C (ucast clk_id) (sy_world st) of
        Inl e \<Rightarrow> Some (Continue (errno_ret e), st)
      | Inr (tv_sec, tv_nsec) \<Rightarrow> do {
          p \<leftarrow> guest_ptr st tp_addr;
          st \<leftarrow> store_all p [(0, le_bytes 8 tv_sec), (8, le_bytes 8 tv_nsec)] st;
          Some (Continue 0, st) })"

definition do_futex :: "u64 \<Rightarrow> u64 \<Rightarrow> 'w sys \<Rightarrow> (SyscallResult \<times> 'w sys) option" where
  "do_futex uaddr op st = do {
     _ \<leftarrow> guest_ptr st uaddr;
     let c = op AND 0x7f;
     Some (Continue (if c = 0 then EAGAIN else if c = 1 then 0 else ENOSYS), st) }"

section \<open>Memory calls\<close>

definition map_call :: "((io_error + unit) \<times> host) option \<Rightarrow> 'w sys \<Rightarrow> ((io_error + unit) \<times> 'w sys) option" where
  "map_call r st = do { (r, h) \<leftarrow> r; Some (r, st\<lparr>sy_host := h\<rparr>) }"

definition sys_brk :: "os \<Rightarrow> u64 \<Rightarrow> 'w sys \<Rightarrow> (SyscallResult \<times> 'w sys) option" where
  "sys_brk os a0 st =
     (let old = gs_brk (sy_space st)
      in if a0 = 0 then Some (Continue old, st)
         else if a0 \<ge> old then do {
           let new_brk = page_align_up os a0;
           let old_aligned = page_align_up os old;
           st \<leftarrow> (if new_brk > old_aligned then
             Option.bind (map_call (mmap_fixed os (sy_space st) old_aligned (new_brk - old_aligned) (PROT_READ OR PROT_WRITE) (sy_host st)) st)
               (\<lambda>(_, st). Some st)
             else Some st);
           Some (Continue a0, st\<lparr>sy_space := set_brk a0 (sy_space st)\<rparr>) }
         else Some (Continue old, st))"

definition sys_mmap :: "os \<Rightarrow> u64 \<Rightarrow> u64 \<Rightarrow> u64 \<Rightarrow> 'w sys \<Rightarrow> (SyscallResult \<times> 'w sys) option" where
  "sys_mmap os addr len prot st = do {
     let aligned_len = page_align_up os len;
     let (guest_addr, st) = (if addr \<noteq> 0 then (addr, st)
       else (sy_mmap_next st, st\<lparr>sy_mmap_next := sy_mmap_next st + aligned_len\<rparr>));
     (r, st) \<leftarrow> map_call (mmap_fixed os (sy_space st) guest_addr aligned_len (ucast prot) (sy_host st)) st;
     Some (Continue (case r of Inr _ \<Rightarrow> guest_addr | Inl _ \<Rightarrow> - 12), st) }"

definition sys_mprotect :: "os \<Rightarrow> u64 \<Rightarrow> u64 \<Rightarrow> u64 \<Rightarrow> 'w sys \<Rightarrow> (SyscallResult \<times> 'w sys) option" where
  "sys_mprotect os addr len prot st = do {
     (r, st) \<leftarrow> map_call (mprotect os (sy_space st) addr len (ucast prot) (sy_host st)) st;
     Some (Continue (case r of Inr _ \<Rightarrow> 0 | Inl _ \<Rightarrow> - 22), st) }"

section \<open>Dispatch\<close>

definition handle_syscall :: "os \<Rightarrow> 'w libc \<Rightarrow> u8 list \<Rightarrow> u64 list \<Rightarrow> 'w sys \<Rightarrow> (SyscallResult \<times> 'w sys) option" where
  "handle_syscall os C elf_path regs st =
     (let nr = regs ! 17; a0 = regs ! 10; a1 = regs ! 11; a2 = regs ! 12; a3 = regs ! 13
      in if nr = SYS_WRITE then do {
           (r, st) \<leftarrow> do_write C (ucast a0) a1 a2 st;
           Some (Continue (case r of Inl e \<Rightarrow> errno_ret e | Inr n \<Rightarrow> n), st) }
         else if nr = SYS_EXIT \<or> nr = SYS_EXIT_GROUP then Some (Exit (ucast a0), st)
         else if nr = SYS_BRK then sys_brk os a0 st
         else if nr = SYS_MMAP then sys_mmap os a0 a1 a2 st
         else if nr = SYS_MPROTECT then sys_mprotect os a0 a1 a2 st
         else if nr = SYS_MUNMAP \<or> nr = SYS_SET_ROBUST_LIST \<or> nr = SYS_RT_SIGACTION \<or> nr = SYS_RT_SIGPROCMASK \<or>
                 nr = SYS_MADVISE \<or> nr = SYS_CLOSE then Some (Continue 0, st)
         else if nr = SYS_SET_TID_ADDRESS then Some (Continue 1, st)
         else if nr = SYS_GETPID \<or> nr = SYS_GETTID then Some (Continue 1, st)
         else if nr = SYS_GETRANDOM then do {
           p \<leftarrow> guest_ptr st a0;
           st \<leftarrow> store p (replicate (unat a1) 0) st;
           Some (Continue a1, st) }
         else if nr = SYS_RSEQ \<or> nr = SYS_RISCV_HWPROBE then Some (Continue ENOSYS, st)
         else if nr = SYS_FUTEX then do_futex a0 a1 st
         else if nr = SYS_TGKILL then Some (if a2 = 6 then Exit (128 + 6) else Continue 0, st)
         else if nr = SYS_WRITEV then writev_loop C (ucast a0) a1 a2 0 0 st
         else if nr = SYS_IOCTL then Some (Continue ENOTTY, st)
         else if nr = SYS_FSTAT then do_fstat C a0 a1 st
         else if nr = SYS_PRLIMIT64 then do_prlimit64 C a1 a3 st
         else if nr = SYS_UNAME then do_uname a0 st
         else if nr = SYS_READLINKAT then do_readlinkat a1 a2 a3 elf_path st
         else if nr = SYS_CLOCK_GETTIME then do_clock_gettime C a0 a1 st
         else Some (Continue ENOSYS, st))"


declare writev_loop.simps [simp del]

section \<open>What a call may change\<close>

text \<open>
  A call changes the host's memory, contents or protection, inside one range: \<open>touches p n\<close> says nothing
  outside the \<open>n\<close> bytes from \<open>p\<close> (modulo the size of the address space) has changed.
\<close>

definition touches :: "u64 \<Rightarrow> nat \<Rightarrow> host \<Rightarrow> host \<Rightarrow> bool" where
  "touches p n h h' \<longleftrightarrow> (\<forall>x. h_mem h' x \<noteq> h_mem h x \<or> h_prot h' x \<noteq> h_prot h x \<longrightarrow> unat (x - p) < n)"

definition call_range :: "os \<Rightarrow> u8 list \<Rightarrow> u64 list \<Rightarrow> 'w sys \<Rightarrow> u64 \<times> nat" where
  "call_range os elf_path regs st =
     (let nr = regs ! 17; a0 = regs ! 10; a1 = regs ! 11; a2 = regs ! 12; a3 = regs ! 13; old = gs_brk (sy_space st)
      in if nr = SYS_BRK then
           (if a0 \<noteq> 0 \<and> a0 \<ge> old \<and> page_align_up os a0 > page_align_up os old
            then (page_align_up os old, unat (page_align_up os (page_align_up os a0 - page_align_up os old))) else (0, 0))
         else if nr = SYS_MMAP then (if a0 \<noteq> 0 then a0 else sy_mmap_next st, unat (page_align_up os (page_align_up os a1)))
         else if nr = SYS_MPROTECT then (a0, unat (page_align_up os a1))
         else if nr = SYS_GETRANDOM then (a0, unat a1)
         else if nr = SYS_FSTAT then (a1, 128)
         else if nr = SYS_PRLIMIT64 then (a3, 16)
         else if nr = SYS_UNAME then (a0, 390)
         else if nr = SYS_READLINKAT then (a2, min (length elf_path) (unat a3))
         else if nr = SYS_CLOCK_GETTIME then (a1, 16)
         else (0, 0))"

lemma touches_refl [simp]: "touches p n h h"
  by (simp add: touches_def)

lemma touches_trans: "touches p n h h' \<Longrightarrow> touches p n h' h'' \<Longrightarrow> touches p n h h''"
  unfolding touches_def by metis

lemma touches_part:
  assumes "touches (p + off) k h h'" "unat off + k \<le> n"
  shows "touches p n h h'"
proof -
  have "unat (x - p) < n" if "unat (x - (p + off)) < k" for x
  proof -
    have "x - p = (x - (p + off)) + off" by (simp add: algebra_simps)
    moreover have "unat (y + off) \<le> unat y + unat off" for y by (simp add: unat_plus_if')
    ultimately have "unat (x - p) \<le> unat (x - (p + off)) + unat off" by metis
    then show ?thesis using that assms(2) by linarith
  qed
  then show ?thesis using assms(1) by (auto simp: touches_def)
qed

text \<open>A result that only changes the memory of the range, and nothing else of the state.\<close>

definition changes_only :: "u64 \<Rightarrow> nat \<Rightarrow> 'w sys \<Rightarrow> 'w sys \<Rightarrow> bool" where
  "changes_only p n st st' \<longleftrightarrow> touches p n (sy_host st) (sy_host st') \<and> sy_space st' = sy_space st"

lemma changes_only_refl [simp]: "changes_only p n st st"
  by (simp add: changes_only_def)

lemma changes_only_trans: "changes_only p n st st' \<Longrightarrow> changes_only p n st' st'' \<Longrightarrow> changes_only p n st st''"
  unfolding changes_only_def using touches_trans by metis

lemma store_changes:
  assumes "store (p + off) bs st = Some st'" "unat off + length bs \<le> n"
  shows "changes_only p n st st'"
proof -
  have "touches (p + off) (length bs) (sy_host st) (sy_host st')"
    using assms(1) by (auto simp: store_def host_write_def touches_def bind_eq_Some_conv split: if_splits)
  from touches_part [OF this assms(2)] show ?thesis
    using assms(1) by (auto simp: changes_only_def store_def bind_eq_Some_conv)
qed

lemma store_changes0: "store p bs st = Some st' \<Longrightarrow> length bs \<le> n \<Longrightarrow> changes_only p n st st'"
  using store_changes [of p 0] by simp

lemma store_all_changes:
  "store_all p fs st = Some st' \<Longrightarrow> list_all (\<lambda>(off, bs). unat off + length bs \<le> n) fs \<Longrightarrow> changes_only p n st st'"
proof (induction fs arbitrary: st)
  case (Cons f fs)
  obtain off bs where f: "f = (off, bs)" by (cases f)
  obtain st1 where "store (p + off) bs st = Some st1" "store_all p fs st1 = Some st'"
    using Cons.prems(1) by (auto simp: f bind_eq_Some_conv)
  moreover have "unat off + length bs \<le> n" "list_all (\<lambda>(off, bs). unat off + length bs \<le> n) fs" using Cons.prems(2) by (simp_all add: f)
  ultimately show ?case using Cons.IH changes_only_trans [OF store_changes] by blast
qed simp

lemma map_call_changes:
  "map_call (mmap_fixed os s a n prot h) st = Some (r, st') \<Longrightarrow> s = sy_space st \<Longrightarrow> h = sy_host st \<Longrightarrow>
     changes_only (gs_base s + a) (unat (page_align_up os n)) st st'"
  "map_call (mprotect os s a n prot h) st = Some (r, st') \<Longrightarrow> s = sy_space st \<Longrightarrow> h = sy_host st \<Longrightarrow>
     changes_only (gs_base s + a) (unat (page_align_up os n)) st st'"
  by (auto simp: map_call_def mmap_fixed_def mprotect_def bind_eq_Some_conv g2h_def changes_only_def touches_def map_pages_def
      protect_pages_def word_less_nat_alt split: if_splits)

lemma guest_ptr_Some: "guest_ptr st a = Some p \<longleftrightarrow> a < gs_size (sy_space st) \<and> p = gs_base (sy_space st) + a"
  by (auto simp: guest_ptr_def g2h_def)

lemma writev_changes: "writev_loop C fd v cnt i w st = Some (r, st') \<Longrightarrow> changes_only p n st st'"
proof (induction C fd v cnt i w st rule: writev_loop.induct)
  case (1 C fd v cnt i w st)
  have step: "changes_only p n st st1" if "do_write C fd b m st = Some (q, st1)" for b m q st1
    using that by (auto simp: do_write_def bind_eq_Some_conv changes_only_def case_prod_beta)
  show ?case
  proof (cases "i < cnt")
    case False
    then show ?thesis using 1(3) by (subst (asm) writev_loop.simps) simp
  next
    case True
    then obtain b m where b: "read_u64 (sy_space st) (v + i * 16) (sy_host st) = Some b"
        "read_u64 (sy_space st) (v + i * 16 + 8) (sy_host st) = Some m"
      using 1(3) by (subst (asm) writev_loop.simps) (auto simp: bind_eq_Some_conv Let_def)
    note run = 1(3) [unfolded writev_loop.simps [of C fd v cnt i]]
    show ?thesis
    proof (cases "m = 0")
      case True
      then show ?thesis using run b \<open>i < cnt\<close> by (intro 1(1)) (simp_all add: Let_def)
    next
      case False
      then obtain q st1 where q: "do_write C fd b m st = Some (q, st1)"
          "(case q of Inl e \<Rightarrow> Some (Continue (errno_ret e), st1) | Inr k \<Rightarrow> writev_loop C fd v cnt (i + 1) (w + k) st1) = Some (r, st')"
        using run b \<open>i < cnt\<close> by (auto simp: Let_def bind_eq_Some_conv)
      have "changes_only p n st1 st'"
        using q(2) 1(2) [OF _ refl b False q(1)] \<open>i < cnt\<close> by (cases q) auto
      then show ?thesis by (rule changes_only_trans [OF step [OF q(1)]])
    qed
  qed
qed

lemma stat_fields_inside: "list_all (\<lambda>(off, bs). unat off + length bs \<le> 128) (stat_fields s)"
  by (simp add: stat_fields_def le_bytes_def)

lemma pair_changes: "store_all p [(0, le_bytes 8 (x :: u64)), (8, le_bytes 8 (y :: u64))] st = Some st' \<Longrightarrow> changes_only p 16 st st'"
  by (erule store_all_changes) (simp add: le_bytes_def)

lemma call_changes:
  "do_write C fd a m st = Some (q, st') \<Longrightarrow> changes_only p n st st'"
  "do_futex a op st = Some (r, st') \<Longrightarrow> changes_only p n st st'"
  "do_fstat C f a st = Some (r, st') \<Longrightarrow> changes_only (gs_base (sy_space st) + a) 128 st st'"
  "do_prlimit64 C rs a st = Some (r, st') \<Longrightarrow> changes_only (gs_base (sy_space st) + a) 16 st st'"
  "do_uname a st = Some (r, st') \<Longrightarrow> changes_only (gs_base (sy_space st) + a) 390 st st'"
  "do_readlinkat q' a m path st = Some (r, st') \<Longrightarrow> changes_only (gs_base (sy_space st) + a) (min (length path) (unat m)) st st'"
  "do_clock_gettime C clk a st = Some (r, st') \<Longrightarrow> changes_only (gs_base (sy_space st) + a) 16 st st'"
  "sys_mprotect os a m prot st = Some (r, st') \<Longrightarrow> changes_only (gs_base (sy_space st) + a) (unat (page_align_up os m)) st st'"
proof -
  assume "do_write C fd a m st = Some (q, st')"
  then show "changes_only p n st st'" by (auto simp: do_write_def bind_eq_Some_conv changes_only_def case_prod_beta)
next
  assume "do_futex a op st = Some (r, st')"
  then show "changes_only p n st st'" by (auto simp: do_futex_def bind_eq_Some_conv Let_def)
next
  assume run: "do_fstat C f a st = Some (r, st')"
  let ?p = "gs_base (sy_space st) + a"
  obtain st1 where st1: "store ?p (replicate 128 0) st = Some st1"
      "(\<exists>b. store (?p + 16) (le_bytes 4 (b :: u32)) st1 = Some st') \<or> (\<exists>s. store_all ?p (stat_fields s) st1 = Some st') \<or> st' = st1"
    using run by (auto simp: do_fstat_def bind_eq_Some_conv guest_ptr_Some Let_def split: if_splits sum.splits)
  have "changes_only ?p 128 st st1" using st1(1) by (rule store_changes0) simp
  moreover have "changes_only ?p 128 st1 st'"
    using st1(2) stat_fields_inside by (auto intro: store_all_changes) (auto intro!: store_changes simp: le_bytes_def)
  ultimately show "changes_only ?p 128 st st'" by (rule changes_only_trans)
next
  assume "do_prlimit64 C rs a st = Some (r, st')"
  then show "changes_only (gs_base (sy_space st) + a) 16 st st'"
    by (auto simp: do_prlimit64_def bind_eq_Some_conv guest_ptr_Some simp del: store_all.simps split: if_splits sum.splits intro: pair_changes)
next
  assume run: "do_uname a st = Some (r, st')"
  let ?p = "gs_base (sy_space st) + a"
  obtain st1 where st1: "store ?p (replicate 390 0) st = Some st1"
      "store_all ?p (map (\<lambda>(i, v). (of_nat (i * 65), take (min (length v) 64) v)) (enumerate 0 uname_fields)) st1 = Some st'"
    using run by (auto simp: do_uname_def bind_eq_Some_conv guest_ptr_Some)
  have "changes_only ?p 390 st st1" using st1(1) by (rule store_changes0) simp
  moreover have "changes_only ?p 390 st1 st'"
    using st1(2) by (rule store_all_changes) (simp add: uname_fields_def bytes_of_def)
  ultimately show "changes_only ?p 390 st st'" by (rule changes_only_trans)
next
  assume "do_readlinkat q' a m path st = Some (r, st')"
  then show "changes_only (gs_base (sy_space st) + a) (min (length path) (unat m)) st st'"
    by (auto simp: do_readlinkat_def bind_eq_Some_conv guest_ptr_Some Let_def split: if_splits intro: store_changes0)
next
  assume "do_clock_gettime C clk a st = Some (r, st')"
  then show "changes_only (gs_base (sy_space st) + a) 16 st st'"
    by (auto simp: do_clock_gettime_def bind_eq_Some_conv guest_ptr_Some simp del: store_all.simps split: sum.splits intro: pair_changes)
next
  assume "sys_mprotect os a m prot st = Some (r, st')"
  then show "changes_only (gs_base (sy_space st) + a) (unat (page_align_up os m)) st st'"
    by (auto simp: sys_mprotect_def bind_eq_Some_conv dest: map_call_changes(2))
qed


text \<open>What every call keeps.\<close>

definition call_frame :: "u64 \<Rightarrow> nat \<Rightarrow> 'w sys \<Rightarrow> 'w sys \<Rightarrow> bool" where
  "call_frame a n st st' \<longleftrightarrow> touches (gs_base (sy_space st) + a) n (sy_host st) (sy_host st') \<and>
     gs_base (sy_space st') = gs_base (sy_space st) \<and> gs_size (sy_space st') = gs_size (sy_space st) \<and>
     gs_brk (sy_space st) \<le> gs_brk (sy_space st')"

lemma changes_frame: "changes_only (gs_base (sy_space st) + a) n st st' \<Longrightarrow> call_frame a n st st'"
  by (simp add: changes_only_def call_frame_def)

lemma brk_frame:
  assumes "sys_brk os a st = Some (r, st')"
  shows "(let old = gs_brk (sy_space st) in
     if a \<noteq> 0 \<and> a \<ge> old \<and> page_align_up os a > page_align_up os old
     then call_frame (page_align_up os old) (unat (page_align_up os (page_align_up os a - page_align_up os old))) st st'
     else call_frame 0 0 st st')"
  using assms
  by (auto simp: sys_brk_def Let_def bind_eq_Some_conv call_frame_def changes_only_def set_brk_def split: if_splits dest!: map_call_changes(1))

lemma mmap_frame:
  assumes "sys_mmap os a m prot st = Some (r, st')"
  shows "call_frame (if a \<noteq> 0 then a else sy_mmap_next st) (unat (page_align_up os (page_align_up os m))) st st'"
  using assms
  by (auto simp: sys_mmap_def Let_def bind_eq_Some_conv call_frame_def changes_only_def split: if_splits
      dest!: map_call_changes(1))

lemma handle_frame:
  assumes "handle_syscall os C elf_path regs st = Some (r, st')"
  shows "case call_range os elf_path regs st of (a, n) \<Rightarrow> call_frame a n st st'"
proof (cases "regs ! 17 \<in> {SYS_BRK, SYS_MMAP}")
  case True
  then show ?thesis using assms brk_frame [of os "regs ! 10" st r st'] mmap_frame [of os "regs ! 10" "regs ! 11" "regs ! 12" st r st']
    by (auto simp: handle_syscall_def call_range_def Let_def sys_numbers split: if_splits)
next
  case False
  then have "case call_range os elf_path regs st of (a, n) \<Rightarrow> changes_only (gs_base (sy_space st) + a) n st st'"
    using assms unfolding handle_syscall_def call_range_def Let_def sys_numbers
    by (auto split: if_splits simp: bind_eq_Some_conv guest_ptr_Some dest: call_changes writev_changes intro: store_changes0)
  then show ?thesis by (auto intro: changes_frame)
qed

definition nop_libc :: "unit libc" where
  "nop_libc = \<lparr>lc_write = (\<lambda>_ _ n _ w. (Inr n, w)), lc_fstat = (\<lambda>_ _. Inl 9), lc_getrlimit = (\<lambda>_ _. Inl 22), lc_clock_gettime = (\<lambda>_ _. Inr (0, 0))\<rparr>"

definition demo_sys :: "unit sys" where
  "demo_sys = \<lparr>sy_space = \<lparr>gs_base = 0x7f0000000000, gs_size = GUEST_SPACE_SIZE, gs_brk = 0x11000\<rparr>,
     sy_host = \<lparr>h_mem = (\<lambda>_. 7), h_prot = (\<lambda>_. PROT_NONE)\<rparr>, sy_mmap_next = 0x10011000, sy_world = ()\<rparr>"

text \<open>
  C13: a system call changes only the memory it is asked to. Whatever the call, its arguments and the C
  library do, a call that comes back has changed contents or protection of the host's memory only inside
  the range that the call's number and arguments give: the buffer of \<open>getrandom\<close>, \<open>fstat\<close>, \<open>prlimit64\<close>,
  \<open>uname\<close>, \<open>readlinkat\<close> and \<open>clock_gettime\<close>, the pages of \<open>brk\<close>, \<open>mmap\<close> and \<open>mprotect\<close>, and nothing for all
  others. The reservation stays where it is and the break never goes down.
\<close>

theorem syscall_footprint:
  assumes "handle_syscall os C elf_path regs st = Some (r, st')"
  shows "(case call_range os elf_path regs st of (a, n) \<Rightarrow> touches (gs_base (sy_space st) + a) n (sy_host st) (sy_host st')) \<and>
    gs_base (sy_space st') = gs_base (sy_space st) \<and> gs_size (sy_space st') = gs_size (sy_space st) \<and>
    gs_brk (sy_space st) \<le> gs_brk (sy_space st')"
  using handle_frame [OF assms] by (simp add: call_frame_def case_prod_beta)


theorem syscall_footprint_witness:
  "\<exists>st'. handle_syscall any_os nop_libc [] ((replicate 32 0)[17 := 214, 10 := 0x12000]) demo_sys = Some (Continue 0x12000, st') \<and>
     touches (0x7f0000000000 + 0x11000) 0x1000 (sy_host demo_sys) (sy_host st') \<and> gs_brk (sy_space st') = 0x12000"
proof -
  let ?regs = "(replicate 32 0)[17 := 214, 10 := 0x12000] :: u64 list"
  have run: "handle_syscall any_os nop_libc [] ?regs demo_sys =
      Some (Continue 0x12000, demo_sys\<lparr>sy_host := map_pages any_os (0x7f0000000000 + 0x11000) 0x1000 (PROT_READ OR PROT_WRITE) (sy_host demo_sys),
        sy_space := set_brk 0x12000 (sy_space demo_sys)\<rparr>)"
    by (simp add: handle_syscall_def Let_def sys_numbers sys_brk_def demo_sys_def map_call_def mmap_fixed_def g2h_def page_align_up_def
        page_size_def any_os_def GUEST_SPACE_SIZE_def)
  have "call_range any_os [] ?regs demo_sys = (0x11000, 0x1000)"
    by (simp add: call_range_def Let_def sys_numbers demo_sys_def page_align_up_def page_size_def any_os_def)
  then show ?thesis using syscall_footprint [OF run] run by (simp add: demo_sys_def set_brk_def)
qed

text \<open>
  The break grows by zeroed pages. When the operating system grants the mapping, \<open>brk\<close> with an address from
  the current break up to the end of the space sets the break, makes the new pages up to it readable,
  writable and zero, and leaves all other memory of the guest as it was.
\<close>

lemma brk_extends:
  assumes g: "granting os (sy_space st)" and regs: "regs ! 17 = 214" "regs ! 10 = of_nat a"
    and a: "0 < a" "unat (gs_brk (sy_space st)) \<le> a" "pup os a \<le> space_bytes"
  shows "\<exists>st'. handle_syscall os C path regs st = Some (Continue (of_nat a), st') \<and> gs_brk (sy_space st') = of_nat a \<and>
    (\<forall>x < space_bytes. if pup os (unat (gs_brk (sy_space st))) \<le> x \<and> x < pup os a
       then gmem (sy_space st) (sy_host st') x = 0 \<and> gprot (sy_space st) (sy_host st') x = PROT_READ OR PROT_WRITE
       else gmem (sy_space st) (sy_host st') x = gmem (sy_space st) (sy_host st) x \<and>
            gprot (sy_space st) (sy_host st') x = gprot (sy_space st) (sy_host st) x)"
proof -
  let ?s = "sy_space st" and ?b = "unat (gs_brk (sy_space st))"
  let ?new = "pup os a" and ?old = "pup os (unat (gs_brk (sy_space st)))"
  have small: "a \<le> space_bytes" "?b \<le> space_bytes" "?old \<le> ?new"
    using page_bounds(3) [OF g, of a] a by (auto simp: pup_def intro!: mult_le_mono1 div_le_mono)
  have al: "page_align_up os (of_nat a) = of_nat ?new" "page_align_up os (gs_brk ?s) = of_nat ?old"
    using aligned_up [OF g, of a] aligned_up [OF g, of ?b] small by simp_all
  have le: "gs_brk ?s \<le> of_nat a" "(of_nat a :: u64) \<noteq> 0"
    using a small by (simp_all add: word_le_nat_alt unat_small flip: unat_eq_0)
  have less: "(of_nat ?old :: u64) < of_nat ?new \<longleftrightarrow> ?old < ?new" using a small by (simp add: word_less_nat_alt unat_small)
  have run: "handle_syscall os C path regs st = sys_brk os (of_nat a) st" by (simp add: handle_syscall_def Let_def regs sys_numbers)
  show ?thesis
  proof (cases "?old < ?new")
    case False
    then show ?thesis using le small unfolding run
      by (intro exI [of _ "st\<lparr>sy_space := set_brk (of_nat a) ?s\<rparr>"]) (auto simp: sys_brk_def Let_def al less set_brk_def)
  next
    case True
    then have n: "(?new - ?old) mod psize os = 0" "0 < ?new - ?old" "?old + (?new - ?old) \<le> space_bytes"
      using page_bounds(6) [OF g] a by (simp_all add: mod_eq_0_iff_dvd)
    obtain h' where h': "mmap_fixed os ?s (of_nat ?old) (of_nat (?new - ?old)) (PROT_READ OR PROT_WRITE) (sy_host st) = Some (Inr (), h')"
        "\<And>x. x < space_bytes \<Longrightarrow> gmem ?s h' x = (if ?old \<le> x \<and> x < ?old + (?new - ?old) then 0 else gmem ?s (sy_host st) x)"
        "\<And>x. x < space_bytes \<Longrightarrow> gprot ?s h' x = (if ?old \<le> x \<and> x < ?old + (?new - ?old) then PROT_READ OR PROT_WRITE else gprot ?s (sy_host st) x)"
      by (rule mmap_fixed_guest [OF g page_bounds(6) [OF g] n, of "PROT_READ OR PROT_WRITE" "sy_host st"]) (rule that)
    have d: "of_nat ?new - of_nat ?old = (of_nat (?new - ?old) :: u64)" using True by (intro of_nat_minus) simp
    have "sys_brk os (of_nat a) st = Some (Continue (of_nat a), st\<lparr>sy_host := h', sy_space := set_brk (of_nat a) ?s\<rparr>)"
      unfolding sys_brk_def Let_def al d using le True less h'(1) by (simp add: map_call_def)
    then show ?thesis using h'(2,3) small unfolding run
      by (intro exI [of _ "st\<lparr>sy_host := h', sy_space := set_brk (of_nat a) ?s\<rparr>"]) (simp add: set_brk_def)
  qed
qed

text \<open>
  The length of a mapping is not checked against the space: a guest that maps 1 GiB at 0x1000 clears the
  host page behind the reservation.
\<close>

lemma mmap_escapes:
  assumes "gs_size (sy_space st) = GUEST_SPACE_SIZE" "regs ! 17 = 222" "regs ! 10 = 0x1000" "regs ! 11 = 0x40000000" "regs ! 12 = 3"
  shows "\<exists>st'. handle_syscall any_os C path regs st = Some (Continue 0x1000, st') \<and>
    h_mem (sy_host st') (gs_base (sy_space st) + gs_size (sy_space st)) = 0"
  using assms by (simp add: handle_syscall_def Let_def sys_numbers sys_mmap_def map_call_def mmap_fixed_def g2h_def page_align_up_def
      page_size_def any_os_def GUEST_SPACE_SIZE_def map_pages_def)

end
