(* ===== verification/Linux_Main.thy ===== *)
theory Linux_Main
  imports Riscv_Guest Syscall
begin

text \<open>
  The emulator process (\<open>linux-user/src/main.rs\<close>): the start of the guest, the reaction to each way the
  execution loop comes back, and the states the process reaches. Guest instructions are fetched from the
  host's memory as it is when a block is translated.
  Messages and statistics are not modelled.
\<close>

section \<open>Start and reaction\<close>

definition linux_cpu_start :: "ElfInfo \<Rightarrow> GuestSpace \<Rightarrow> LinuxCpu" where
  "linux_cpu_start info s =
     \<lparr>l_cpu = cpu_new\<lparr>c_pc := i_entry info, c_gpr := (c_gpr cpu_new)[2 := i_sp info], c_guest_base := guest_base s\<rparr>, l_cfg = RV64IMAFDC\<rparr>"

definition mmap_start :: "os \<Rightarrow> ElfInfo \<Rightarrow> u64" where
  "mmap_start os info = page_align_up os (i_brk info) + 0x10000000"

text \<open>\<open>Inl\<close> is the exit code of the process.\<close>

definition main_react :: "os \<Rightarrow> 'w libc \<Rightarrow> u8 list \<Rightarrow> ExitReason \<Rightarrow> LinuxCpu \<Rightarrow> 'w sys \<Rightarrow> ((u32 + LinuxCpu) \<times> 'w sys) option" where
  "main_react os C elf_path reason lc st =
     (case reason of
        ExitReason.Exit v \<Rightarrow>
          if v = EXCP_ECALL then do {
            (r, st) \<leftarrow> handle_syscall os C elf_path (c_gpr (l_cpu lc)) st;
            case r of
              Continue ret \<Rightarrow>
                Some (Inr (lc\<lparr>l_cpu := (l_cpu lc)\<lparr>c_gpr := (c_gpr (l_cpu lc))[10 := ret], c_pc := c_pc (l_cpu lc) + 4\<rparr>\<rparr>), st)
            | SyscallResult.Exit code \<Rightarrow> Some (Inl code, st) }
          else Some (Inl 1, st)
      | BufferFull \<Rightarrow> Some (Inl 1, st))"

text \<open>
  What native code acts on: the guest's registers and the host's memory, which holds the guest's. Blocks are
  translated from the memory as it is at that moment.
\<close>

type_synonym emu_cpu = "LinuxCpu \<times> host_mem"

definition emu_guest :: "(fpu_helper \<Rightarrow> u64) \<Rightarrow> emu_cpu GuestCpu" where
  "emu_guest H = \<lparr>get_pc = (\<lambda>(lc, m). c_pc (l_cpu lc)), get_flags = (\<lambda>_. 0),
     gen_code = (\<lambda>ir pc mx (lc, m). do {
       (n, ir, lc) \<leftarrow> linux_gen_code (riscv_program H m) ir pc mx lc;
       Some (n, ir, (lc, m)) })\<rparr>"

text \<open>
  The states of the main loop between two iterations of the execution loop: the hint, the environment with
  registers and memory, and what the system calls act on besides memory. In every iteration the native code of
  the picked block does what it likes with registers and memory (\<open>run\<close> is arbitrary and chosen anew); a system
  call sees the memory the block left, and the guest goes on with the memory the call left.
\<close>

definition with_memory :: "host_mem \<Rightarrow> 'w sys \<Rightarrow> 'w sys" where
  "with_memory m st = st\<lparr>sy_host := (sy_host st)\<lparr>h_mem := m\<rparr>\<rparr>"

inductive emulates ::
    "(fpu_helper \<Rightarrow> u64) \<Rightarrow> os \<Rightarrow> 'w libc \<Rightarrow> u8 list \<Rightarrow> emu_cpu ExecEnv \<Rightarrow> 'w sys \<Rightarrow> nat option \<Rightarrow> emu_cpu ExecEnv \<Rightarrow> 'w sys \<Rightarrow> bool"
  for H os C path e0 st0 where
  start: "emulates H os C path e0 st0 None e0 st0"
| block: "emulates H os C path e0 st0 hint e1 st"
    if "emulates H os C path e0 st0 h e st" "loop_step (emu_guest H) run h e = Some (Again hint, e1)"
| syscall: "emulates H os C path e0 st0 None (e1\<lparr>cpu := (lc', h_mem (sy_host st1))\<rparr>) st1"
    if "emulates H os C path e0 st0 h e st" "loop_step (emu_guest H) run h e = Some (Done r, e1)" "cpu e1 = (lc, m)"
      "main_react os C path r lc (with_memory m st) = Some (Inr lc', st1)"

section \<open>Invariant\<close>

lemma emu_guest_contract: "frontend_ok (emu_guest H)" "guest_still (emu_guest H)"
proof -
  note contract = linux_guest_contract [OF riscv_program_ok]
  show "frontend_ok (emu_guest H)"
    using contract(1) unfolding frontend_ok_def emu_guest_def linux_guest_def by (auto simp: bind_eq_Some_conv)
  show "guest_still (emu_guest H)"
    using contract(2) unfolding guest_still_def emu_guest_def linux_guest_def by (auto simp: bind_eq_Some_conv)
qed

interpretation emulator: guest_frontend "emu_guest H" for H
  by unfold_locales (rule emu_guest_contract)+

lemma react_keeps_space:
  assumes "main_react os C path r lc st = Some (Inr lc', st')"
  shows "gs_base (sy_space st') = gs_base (sy_space st) \<and> gs_size (sy_space st') = gs_size (sy_space st) \<and>
    gs_brk (sy_space st) \<le> gs_brk (sy_space st')"
proof -
  obtain q where "handle_syscall os C path (c_gpr (l_cpu lc)) st = Some (q, st')"
    using assms
    by (cases "handle_syscall os C path (c_gpr (l_cpu lc)) st")
      (auto simp: main_react_def split: ExitReason.split_asm if_splits SyscallResult.split_asm)
  from handle_frame [OF this] show ?thesis by (simp add: call_frame_def case_prod_beta)
qed

lemma emulates_inv:
  assumes "emulates H os C path e0 st0 h e st" "exec_inv e0"
  shows "exec_inv e \<and> hint_ok (emu_guest H) h e \<and> gs_base (sy_space st) = gs_base (sy_space st0) \<and>
    gs_size (sy_space st) = gs_size (sy_space st0) \<and> gs_brk (sy_space st0) \<le> gs_brk (sy_space st)"
  using assms
proof (induction rule: emulates.induct)
  case start
  then show ?case by (simp add: hint_ok_def)
next
  case (block h e st run hint e1)
  then show ?case using emulator.step_keeps_invariant [OF _ _ block(2)] by simp
next
  case (syscall h e st run r e1 lc m lc' st1)
  have "exec_inv e1" using emulator.step_keeps_invariant [OF _ _ syscall(2)] syscall.IH [OF syscall.prems] by simp
  then show ?case using react_keeps_space [OF syscall(4)] syscall.IH [OF syscall.prems] by (auto simp: hint_ok_def with_memory_def)
qed

text \<open>
  C7: the user-mode emulator is sound for the RISC-V guest. Started with an environment that satisfies the
  invariant (a new one does), every state the process reaches, through blocks that do anything to registers and
  memory and through system calls, satisfies it again; the reservation of the guest stays where it is and the break
  never goes down; and every block the process is about to run is a valid one of the store that was translated for
  the guest's current program counter.
\<close>

theorem emulator_sound:
  assumes "exec_inv e0" "emulates H os C path e0 st0 h e st"
  shows "exec_inv e \<and> gs_base (sy_space st) = gs_base (sy_space st0) \<and> gs_size (sy_space st) = gs_size (sy_space st0) \<and>
    gs_brk (sy_space st0) \<le> gs_brk (sy_space st) \<and>
    (\<forall>i e'. pick_block (emu_guest H) h e = Some (Some i, e') \<longrightarrow>
      exec_inv e' \<and> c_pc (l_cpu (fst (cpu e'))) = c_pc (l_cpu (fst (cpu e))) \<and> i < length (ts_tbs (tb_store (shared e'))) \<and>
      tb_matches (c_pc (l_cpu (fst (cpu e')))) 0 (ts_tbs (tb_store (shared e')) ! i))"
proof -
  note inv = emulates_inv [OF assms(2,1)]
  have "get_pc (emu_guest H) x = c_pc (l_cpu (fst x))" "get_flags (emu_guest H) x = 0" for x
    by (simp_all add: emu_guest_def case_prod_beta)
  then show ?thesis using inv emulator.picks_valid_block [of e H h] by (metis (no_types, lifting))
qed

text \<open>A process that makes the system call \<open>getpid\<close> from the block at 0x1004, which overwrites the memory on its way.\<close>

definition emu_env :: "emu_cpu ExecEnv" where
  "emu_env = \<lparr>shared = shared two_env, per_cpu = per_cpu two_env, cpu = (\<lparr>l_cpu = cpu_new\<lparr>c_pc := 0x1004\<rparr>, l_cfg = RV64IMAFDC\<rparr>, \<lambda>_. 7)\<rparr>"

definition emu_after :: LinuxCpu where
  "emu_after = \<lparr>l_cpu = cpu_new\<lparr>c_pc := 0x1004, c_gpr := (c_gpr cpu_new)[17 := SYS_GETPID]\<rparr>, l_cfg = RV64IMAFDC\<rparr>"

definition emu_run :: "emu_cpu host_run" where
  "emu_run b p x = (EXCP_ECALL, (emu_after, \<lambda>_. 9))"

theorem emulator_sound_witness:
  "\<exists>e st. emulates (\<lambda>_. 0) any_os nop_libc [] emu_env demo_sys None e st \<and> exec_inv e \<and>
     c_pc (l_cpu (fst (cpu e))) = 0x1008 \<and> c_gpr (l_cpu (fst (cpu e))) ! 10 = 1 \<and> h_mem (sy_host st) 0 = 9"
proof -
  have inv: "exec_inv emu_env" using two_inv by (simp add: exec_inv_def emu_env_def)
  let ?c = "count (\<lambda>s. s\<lparr>jc_hit := jc_hit s + 1\<rparr>) (count (\<lambda>s. s\<lparr>loop_iters := loop_iters s + 1\<rparr>) emu_env)"
  have "tb_find (emu_guest (\<lambda>_. 0)) 0x1004 0 (count (\<lambda>s. s\<lparr>loop_iters := loop_iters s + 1\<rparr>) emu_env) = Some (Some 1, ?c)"
    by (rule two_find) (simp_all add: count_def emu_env_def two_env_simps)
  then have pick: "pick_block (emu_guest (\<lambda>_. 0)) None (count (\<lambda>s. s\<lparr>loop_iters := loop_iters s + 1\<rparr>) emu_env) = Some (Some 1, ?c)"
    by (simp add: pick_block_def find_next_def emu_guest_def count_def emu_env_def)
  have g: "ts_get (tb_store (shared emu_env)) 1 = Some ((tb_new 0x1004 0 0)\<lparr>host_offset := 16\<rparr>)" "ptr_at (code_buf (shared emu_env)) 16 = Some 16"
    by (simp_all add: emu_env_def two_env_simps two_store_def ts_get_def ptr_at_def two_code_def capacity_def)
  have d: "decode_tb_exit EXCP_ECALL = (None, EXCP_ECALL)" "\<not> EXCP_ECALL \<le> 1" "EXCP_ECALL \<noteq> TB_EXIT_NOCHAIN" by code_simp+
  obtain e1 where e1: "loop_step (emu_guest (\<lambda>_. 0)) emu_run None emu_env = Some (Done (ExitReason.Exit EXCP_ECALL), e1)" "cpu e1 = (emu_after, \<lambda>_. 9)"
    using pick g d by (simp add: loop_step_def cpu_tb_exec_def emu_run_def count_def)
  let ?lc = "emu_after\<lparr>l_cpu := (l_cpu emu_after)\<lparr>c_gpr := (c_gpr (l_cpu emu_after))[10 := 1], c_pc := 0x1008\<rparr>\<rparr>"
  have "main_react any_os nop_libc [] (ExitReason.Exit EXCP_ECALL) emu_after (with_memory (\<lambda>_. 9) demo_sys) = Some (Inr ?lc, with_memory (\<lambda>_. 9) demo_sys)"
    by (simp add: main_react_def handle_syscall_def emu_after_def cpu_new_def NUM_GPRS_def sys_numbers Let_def)
  from emulates.syscall [OF emulates.start e1 this]
  have r: "emulates (\<lambda>_. 0) any_os nop_libc [] emu_env demo_sys None (e1\<lparr>cpu := (?lc, \<lambda>_. 9)\<rparr>) (with_memory (\<lambda>_. 9) demo_sys)"
    by (simp add: with_memory_def)
  then show ?thesis using emulator_sound [OF inv r]
    by (intro exI [of _ "e1\<lparr>cpu := (?lc, \<lambda>_. 9)\<rparr>"] exI [of _ "with_memory (\<lambda>_. 9) demo_sys"]) (simp add: with_memory_def emu_after_def cpu_new_def NUM_GPRS_def)
qed

end
