(* ===== verification/Spec2Isabelle.thy ===== *)
theory Spec2Isabelle
  imports IR_Builder Chaining X86_Emitter Optimize_Sound Liveness Codegen_Sound Riscv_Arch Linux_Main
begin

text \<open>
  A verification development of tcg-rs, a dynamic binary translator written in Rust: guest RISC-V code is
  translated to an intermediate representation (IR), optimized, given host registers, emitted as x86-64 code into
  a buffer, and run in a loop that looks up, chains and invalidates the translated blocks. The user-mode emulator
  loads a Linux executable into a guest address space and serves its system calls. Paths below are relative to
  the repository.

  \<^bold>\<open>Parts of the program and how they interact.\<close>
  \<open>frontend/\<close> decodes guest instructions (with decoders that \<open>decode/\<close> generates at build time from two decode
  files) and calls the IR builder of \<open>core/\<close>. \<open>backend/\<close> turns the resulting context into host code:
  optimizer, liveness pass, register allocator, code generator, encoder. \<open>exec/\<close> owns the store of blocks, the code
  buffer, and the loop; it calls the frontend through the trait \<open>GuestCpu\<close> and the backend through \<open>HostCodeGen\<close>.
  \<open>linux-user/\<close> provides the guest: address space, loader, system calls, main loop.

  \<^bold>\<open>Conventions.\<close>
  \<^item> Rust integers are words of their width (\<open>Prelude\<close>). Arithmetic wraps, as in a release build; a debug build
    would panic where it overflows, e.g. in \<open>num_insns * 4\<close> of \<open>linux_gen_code\<close>. The one exception is \<open>bit_pos\<close> of
    \<open>parse_bit_loop\<close>, an \<open>i32\<close> that is an unbounded integer here; the two agree for fields shorter than \<open>2 ^ 31\<close> bits.
  \<^item> A function that may panic returns an option, and \<open>None\<close> is the panic. Rust's \<open>Result\<close> is a sum with the error on
    the left. Mutable state is passed and returned; the IR builder is written in the state monad.
  \<^item> The enum \<open>Opcode\<close> is grouped by the sections of its source, with the numbering \<open>as_usize\<close>; its last variant
    \<open>Count\<close>, which is only a number, is the constant \<open>Opcode_Count\<close>.
  \<^item> Code outside the repository is an argument: the operating system (\<open>os\<close>), the C library (\<open>libc\<close>), the addresses
    of floating-point helpers, and what native code does when it is run (\<open>run\<close>).

  \<^bold>\<open>Theories, in the order of the source.\<close>

  \<^item> \<open>Prelude\<close>: machine integers, panics, shared lemmas and lemma collections.
  \<^item> \<open>Types\<close>, \<open>Opcode\<close>, \<open>IR\<close>, \<open>IR_Builder\<close>, \<open>TB\<close> (\<open>core/src/types.rs\<close>, \<open>opcode.rs\<close>, \<open>temp.rs\<close>, \<open>op.rs\<close>, \<open>label.rs\<close>,
    \<open>context.rs\<close>, \<open>ir_builder.rs\<close>, \<open>tb.rs\<close>). Shown: register sets implement sets (locale \<open>reg_set\<close>); the opcode table
    belongs to the enum, entry by entry and by name; spill slots are aligned and disjoint; \<open>reset\<close> keeps the
    globals; every context built by the \<open>gen_\<close> methods is well-formed and each op has the arguments the table
    prescribes; exit values can be read back.
  \<^item> \<open>IR_Semantics\<close>: the meaning of the IR, after \<open>docs/ir-ops.md\<close>. Not a translation of code but the specification
    of the passes.
  \<^item> \<open>Optimize\<close>, \<open>Optimize_Sound\<close>, \<open>Liveness\<close> (\<open>backend/src/optimize.rs\<close>, \<open>liveness.rs\<close>). Shown: folding computes
    the operation at its width; optimized code runs as before, under stated conditions that exclude three
    defects of the pass, each of which is shown by execution on a sample block; the life bits are
    exactly those of the backward equations and a dead argument does not influence the rest of the run.
  \<^item> \<open>CodeBuffer\<close>, \<open>Backend\<close>, \<open>X86_Emitter\<close>, \<open>Constraint\<close>, \<open>Codegen\<close>, \<open>Growth\<close> (\<open>backend/src/code_buffer.rs\<close>, \<open>lib.rs\<close>,
    \<open>constraint.rs\<close>, \<open>x86_64/\<close>). Shown: patching and reading; the bytes of memory operands decode to the operands;
    condition codes; the patchable jump (its opcode byte, its fall-through, its alignment; \<open>jump_target\<close>
    itself reads the displacement); the constraint table is well-formed; unsupported ops panic; the spill area
    lies in the stack frame; emitting never touches earlier code.
  \<^item> \<open>X86_Semantics\<close>, \<open>Codegen_Sound\<close>: a decoder and semantics of the x86-64 instructions, from the architecture, and
    the proof that the bytes of arithmetic, logic, shift, comparison, move and conversion ops and of guest
    loads and stores do what the ops mean. The specification of guest accesses honours the byte-swap bit of the
    memory operation; the code generator does not, so the theorem excludes it and a finding reports it.
  \<^item> \<open>RegAlloc\<close>, \<open>RegAlloc_Inv\<close>, \<open>Branches\<close>, \<open>Pipeline\<close>, \<open>Sites\<close> (\<open>backend/src/regalloc.rs\<close>, \<open>translate.rs\<close>). The
    locales \<open>alloc_steps\<close>, \<open>alloc_pass\<close> and \<open>code_inv\<close> say that a predicate kept by the few primitive steps of the
    allocator is kept by the whole pass; they are interpreted for the books of the allocator, the confinement of
    the code, the branch fields, the label addresses and the jump sites. Shown: the free set is exact; the chosen
    register is legal; branches reach their labels; a translation only appends.
  \<^item> \<open>TbStore\<close>, \<open>Chaining\<close>, \<open>ExecLoop\<close>, \<open>ExecLoop_Inv\<close> (\<open>exec/src/tb_store.rs\<close>, \<open>exec_loop.rs\<close>, \<open>lib.rs\<close>). Locales:
    \<open>jump_patcher\<close> (what chaining needs of a backend, interpreted on the x86-64 one) and \<open>tb_index\<close> (what the loop
    needs of the store). Shown: lookup is exact and terminates; insertion; the edges recorded in the store agree
    with the jumps in the buffer through chaining and invalidation; the loop keeps its invariant and runs only
    valid blocks of the current guest address.
  \<^item> \<open>Decode\<close>, \<open>Decode_Check\<close>, \<open>Decode_Files\<close>, \<open>Riscv_Names\<close>, \<open>Riscv_Tables\<close> (\<open>decode/src/lib.rs\<close>,
    \<open>frontend/src/riscv/insn32.decode\<close>, \<open>insn16.decode\<close>): the parser of decode files, the meaning of the code it
    generates, the tables of the two files. Shown: a bit pattern accepts exactly the instructions it shows; a
    static check of a table under which the generated decoder cannot panic, and that both tables pass it.
  \<^item> \<open>Frontend\<close>, \<open>Riscv_Trans\<close>, \<open>Riscv\<close>, \<open>Riscv_Built\<close>, \<open>Riscv_Guest\<close> (\<open>frontend/src/lib.rs\<close>, \<open>riscv/\<close>,
    \<open>linux-user/src/main.rs\<close>): the translation loop and every \<open>trans_\<close> function. Shown: translating any guest
    memory returns, with a well-formed block that ends in an exit. The locale \<open>guest_frontend\<close> is what the
    execution loop needs of a guest; it is interpreted on the guest of the emulator.
  \<^item> \<open>Riscv_Sem\<close>, \<open>Riscv_Sound\<close>, \<open>Riscv_Arch\<close>: the integer instructions of RV64IM against tables of the
    architecture, from the instruction word through the generated decoder to the effect of the emitted ops on guest
    registers, memory, pc and exit value. A host division that would fault is given no usable meaning, so the
    guards that avoid it are part of what is shown.
  \<^item> \<open>GuestSpace\<close>, \<open>Elf\<close>, \<open>Loader\<close>, \<open>Loader_Sound\<close>, \<open>Syscall\<close>, \<open>Linux_Main\<close> (\<open>linux-user/src/\<close>). Shown: a loaded
    program is in memory with its protections and its initial stack (the words of which are described by
    \<open>frame_words\<close>, the layout of the ABI); a system call changes only the memory its arguments name; the emulator
    process keeps the invariant of the loop whatever native code does to registers and memory. A failing
    \<open>mprotect\<close> is taken to change nothing, where the real one may have changed some of the pages.
  \<^item> This theory: invalidation of a block for the x86-64 backend, which joins store, chaining and encoder.

  \<^bold>\<open>Bounds and fuel.\<close> Loops that might not end (the walks along a hash bucket, the instruction loop, the execution
  loop, reading a C string) are partial functions whose value is \<open>None\<close> when they do not return. That the first two
  return is shown: for a well-formed hash table, and for every guest memory, since an iteration uses up the
  instruction limit. The execution loop returns when the guest does; its invariant is stated for each
  iteration. The only fuel is that of \<open>run_block\<close>, which runs a block of IR with its jumps: the code of a translated branch
  takes at most one jump, so two segments are enough, and the theorem says that they are. A context is assumed to have room
  for the 40 temps that one instruction may add below \<open>2 ^ 32\<close>.

  \<^bold>\<open>Not modelled.\<close> Concurrency: every method of the store and the loop is one step of one virtual CPU, and locks and
  atomics have no counterpart. The IR serialization and dump, the disassembler and the command-line tools, which
  the translator does not use. The text of the Rust source that the decoder generator writes (its meaning is
  modelled). The bodies of the floating-point helpers, which use the host's floating-point unit. Command line, messages
  and statistics output. The meaning of the atomic, floating-point and compressed instructions: their translation is
  modelled and shown to return and to build well-formed IR, not compared with the architecture. That register
  allocation preserves the meaning of a block is not shown, since it does not: the findings name the cases.
\<close>

section \<open>Properties that span components\<close>

text \<open>
  C9: invalidating a chained block is complete, for the x86-64 backend. When the recorded
  edges agree with the jumps in the code buffer and the hash table is well-formed,
  \<open>invalidate\<close> returns; afterwards both still hold, the block is invalid and no longer
  indexed, every other block keeps its validity, and no valid block's jump goes to the
  invalidated block: each slot that did is back at its reset address.
\<close>

theorem invalidate_unchains:
  assumes "chain_inv jump_target st code" "hash_inv st" "i < length (ts_tbs st)"
  shows "\<exists>st' code'. ts_invalidate patch_jump i (st, code) = Some (st', code') \<and>
    chain_inv jump_target st' code' \<and> hash_inv st' \<and> indexed st' = indexed st - {i} \<and>
    invalid (ts_tbs st' ! i) \<and>
    (\<forall>k. k < length (ts_tbs st) \<and> k \<noteq> i \<longrightarrow> invalid (ts_tbs st' ! k) = invalid (ts_tbs st ! k)) \<and>
    (\<forall>s n. s < length (ts_tbs st) \<and> n < 2 \<and> \<not> invalid (ts_tbs st' ! s) \<longrightarrow> dest st' s n \<noteq> Some i) \<and>
    (\<forall>s n j r. s < length (ts_tbs st) \<and> n < 2 \<and> \<not> invalid (ts_tbs st' ! s) \<and> dest st' s n = None \<and>
       insn_at st' s n = Some j \<and> reset_at st' s n = Some r \<longrightarrow> jump_target code' (unat j) = Some (int (unat r)))"
proof -
  obtain st' code' where inv: "ts_invalidate patch_jump i (st, code) = Some (st', code')"
    "chain_inv jump_target st' code'" "hash_inv st'" "indexed st' = indexed st - {i}"
    "invalid (ts_tbs st' ! i)" "length (ts_tbs st') = length (ts_tbs st)"
    "\<And>k. k < length (ts_tbs st) \<Longrightarrow> k \<noteq> i \<Longrightarrow> invalid (ts_tbs st' ! k) = invalid (ts_tbs st ! k)"
    by (rule jump_patcher.invalidate_ok [OF x86.jump_patcher_axioms assms]) blast
  have ok: "slot_ok None jump_target st' code' s n"
    if "s < length (ts_tbs st)" "n < 2" "\<not> invalid (ts_tbs st' ! s)" for s n
    using inv(2,6) that by (simp add: links_ok_def)
  have "dest st' s n \<noteq> Some i" if "s < length (ts_tbs st)" "n < 2" "\<not> invalid (ts_tbs st' ! s)" for s n
    using ok [OF that] inv(5) by (auto simp: slot_ok_def)
  moreover have "jump_target code' (unat j) = Some (int (unat r))"
    if "s < length (ts_tbs st)" "n < 2" "\<not> invalid (ts_tbs st' ! s)" "dest st' s n = None"
      "insn_at st' s n = Some j" "reset_at st' s n = Some r" for s n j r
    using ok [OF that(1-3)] that(4-6) by (simp add: slot_ok_def)
  ultimately show ?thesis using inv by blast
qed

text \<open>A store of two blocks in which the first one's slot 0 is chained to the second.\<close>

definition demo_tb0 :: TranslationBlock where
  "demo_tb0 = (tb_new 0x1000 0 0)\<lparr>host_offset := 0, jmp_insn_offset := [Some 3, None],
     jmp_reset_offset := [Some 8, None], jmp := \<lparr>jmp_dest = [Some 1, None], jmp_list = []\<rparr>\<rparr>"

definition demo_tb1 :: TranslationBlock where
  "demo_tb1 = (tb_new 0x1004 0 0)\<lparr>host_offset := 16, jmp := \<lparr>jmp_dest = [None, None], jmp_list = [(0, 0)]\<rparr>\<rparr>"

definition demo_store :: TbStore where
  "demo_store = \<lparr>ts_tbs = [demo_tb0, demo_tb1], ts_hash = replicate TB_HASH_SIZE None\<rparr>"

definition demo_code :: CodeBuffer where
  "demo_code = \<lparr>cb_mem = [0x0F, 0x1F, 0, 0xE9, 8, 0, 0, 0] @ replicate 24 0, cb_offset = 24\<rparr>"

lemma demo_jump: "jump_target demo_code 3 = Some 16"
  by code_simp

lemma demo_links: "chain_inv jump_target demo_store demo_code"
proof -
  have cap: "capacity demo_code = 32" by (simp add: demo_code_def capacity_def)
  have len: "length (ts_tbs demo_store) = 2" by (simp add: demo_store_def)
  have tb: "ts_tbs demo_store ! 0 = demo_tb0" "ts_tbs demo_store ! Suc 0 = demo_tb1" by (simp_all add: demo_store_def)
  note d = tb cap len demo_tb0_def demo_tb1_def tb_new_def less_2_cases_iff JUMP_LEN_def
  have "layout_ok demo_store demo_code"
    by (auto simp: layout_ok_def block_layout_def sites_apart_def Let_def d)
  then show ?thesis using demo_jump by (auto simp: links_ok_def slot_ok_def d)
qed

lemma demo_hash: "hash_inv demo_store"
  by (auto simp: hash_inv_def demo_store_def bucket_ok_def intro: exI [of _ "[]"])

theorem invalidate_unchains_witness:
  "\<exists>st' code'. ts_invalidate patch_jump 1 (demo_store, demo_code) = Some (st', code') \<and>
     invalid (ts_tbs st' ! 1) \<and> hash_inv st'"
proof -
  have "1 < length (ts_tbs demo_store)" by (simp add: demo_store_def)
  from invalidate_unchains [OF demo_links demo_hash this] show ?thesis by blast
qed

end
